(* ===== verification/Prelude.thy ===== *)
theory Prelude
  imports Main "HOL-Library.Finite_Map" "HOL-Library.FSet" "HOL-Library.Sublist"
    "HOL-Library.List_Lexorder" "HOL-Library.Char_ord" "HOL-Library.Multiset"
begin

text \<open>
  What the component theories share: Rust strings as UTF-8 byte lists with the string
  functions the code calls (character iteration, trimming, splitting, joining, decimal
  formatting), hash maps as finite maps with the entry operation, first-match search, and
  the two interfaces many components implement: a textual codec of an enumeration and a
  state machine with an invariant.
\<close>

named_theorems op_inv \<open>preservation of a component's invariant by one of its operations\<close>
named_theorems str_simps \<open>evaluation of the string helpers\<close>

section \<open>Strings as UTF-8 byte lists\<close>

text \<open>
  A Rust \<open>str\<close> is a UTF-8 byte sequence. It is modelled by its bytes, so that
  \<open>len\<close> is \<open>length\<close>, equality and the byte-lexicographic order of Rust's
  \<open>Ord\<close> are those of the list, and searching, prefixes and concatenation work on the
  bytes as they do in Rust. A character is the maximal run of one leading byte and the
  continuation bytes (bit pattern 10xxxxxx) behind it.
\<close>

definition is_cont :: "char \<Rightarrow> bool" where
  "is_cont c \<longleftrightarrow> digit7 c \<and> \<not> digit6 c"

definition is_char_boundary :: "string \<Rightarrow> nat \<Rightarrow> bool" where
  "is_char_boundary s i \<longleftrightarrow>
     (i = 0 \<or> (if i < length s then \<not> is_cont (s ! i) else i = length s))"

function chars :: "string \<Rightarrow> string list" where
  "chars [] = []"
| "chars (c # cs) = (c # takeWhile is_cont cs) # chars (dropWhile is_cont cs)"
  by pat_completeness auto
termination
  by (relation "measure length") (auto simp: less_Suc_eq_le length_dropWhile_le)

definition char_count :: "string \<Rightarrow> nat" where
  "char_count s = length (chars s)"

definition char_take :: "nat \<Rightarrow> string \<Rightarrow> string" where
  "char_take n s = concat (take n (chars s))"

lemma concat_chars [simp]: "concat (chars s) = s"
  by (induction s rule: chars.induct) auto

lemma chars_eq_Nil [simp]: "chars s = [] \<longleftrightarrow> s = []"
  by (cases s) auto

lemma chars_nonempty: "ch \<in> set (chars s) \<Longrightarrow> ch \<noteq> []"
  by (induction s rule: chars.induct) auto

lemma chars_tl_cont:
  "ch \<in> set (chars s) \<Longrightarrow> \<forall>c \<in> set (tl ch). is_cont c"
  by (induction s rule: chars.induct) (auto dest: set_takeWhileD)

text \<open>A string splits into the same characters around any leading byte.\<close>

lemma takeWhile_app_no: "\<not> is_cont c \<Longrightarrow> takeWhile is_cont (xs @ c # ys) = takeWhile is_cont xs"
  by (induction xs) auto

lemma dropWhile_app_no:
  "\<not> is_cont c \<Longrightarrow> dropWhile is_cont (xs @ c # ys) = dropWhile is_cont xs @ c # ys"
  by (induction xs) auto

lemma chars_append_lead: "\<not> is_cont c \<Longrightarrow> chars (xs @ c # ys) = chars xs @ chars (c # ys)"
  by (induction xs rule: chars.induct)
    (simp_all add: takeWhile_app_no dropWhile_app_no del: chars.simps(2) add: chars.simps(2)[of _ "_ @ _"] chars.simps(2))

definition starts_char :: "string \<Rightarrow> bool" where
  "starts_char s \<longleftrightarrow> (s = [] \<or> \<not> is_cont (hd s))"

lemma chars_ascii: "\<forall>c \<in> set s. \<not> is_cont c \<Longrightarrow> chars s = map (\<lambda>c. [c]) s"
proof (induction s)
  case (Cons c s)
  then show ?case by (cases s) auto
qed simp

lemma chars_append: "starts_char ys \<Longrightarrow> chars (xs @ ys) = chars xs @ chars ys"
  by (cases ys) (auto simp: starts_char_def chars_append_lead)

lemma char_count_append: "starts_char ys \<Longrightarrow> char_count (xs @ ys) = char_count xs + char_count ys"
  by (simp add: char_count_def chars_append)

lemma char_count_le_length: "char_count s \<le> length s"
proof (induction s rule: chars.induct)
  case (2 c cs)
  have "length (dropWhile is_cont cs) \<le> length cs" by (rule length_dropWhile_le)
  with 2 show ?case by (simp add: char_count_def)
qed (simp add: char_count_def)

lemma char_take_prefix: "prefix (char_take n s) s"
proof -
  have "s = concat (take n (chars s)) @ concat (drop n (chars s))"
    by (metis append_take_drop_id concat_append concat_chars)
  then show ?thesis unfolding char_take_def prefix_def by blast
qed

lemma takeWhile_span: "\<forall>x \<in> set t. P x \<Longrightarrow> r = [] \<or> \<not> P (hd r) \<Longrightarrow> takeWhile P (t @ r) = t"
  by (cases r) auto

lemma dropWhile_span: "\<forall>x \<in> set t. P x \<Longrightarrow> r = [] \<or> \<not> P (hd r) \<Longrightarrow> dropWhile P (t @ r) = r"
  by (cases r) auto

lemma chars_concat_take: "chars (concat (take n (chars s))) = take n (chars s)"
proof (induction s arbitrary: n rule: chars.induct)
  case (2 c cs)
  show ?case
  proof (cases n)
    case (Suc m)
    let ?t = "takeWhile is_cont cs" and ?r = "concat (take m (chars (dropWhile is_cont cs)))"
    have r: "?r = [] \<or> \<not> is_cont (hd ?r)"
    proof (cases "dropWhile is_cont cs")
      case (Cons d ds)
      then have "\<not> is_cont d" by (metis hd_dropWhile list.distinct(1) list.sel(1))
      with Cons show ?thesis by (cases m) auto
    next
      case Nil
      have "?r = []" unfolding Nil by simp
      then show ?thesis by simp
    qed
    have allc: "\<forall>x \<in> set ?t. is_cont x" by (auto dest: set_takeWhileD)
    note tw = takeWhile_span [OF allc r] and dw = dropWhile_span [OF allc r]
    show ?thesis using 2 [of m] by (simp add: Suc tw dw)
  qed simp
qed simp

lemma char_count_take: "char_count (char_take n s) = min n (char_count s)"
  by (simp add: char_count_def char_take_def chars_concat_take)

lemma char_take_all: "char_count s \<le> n \<Longrightarrow> char_take n s = s"
  by (simp add: char_count_def char_take_def)

subsection \<open>White space, trimming and splitting\<close>

text \<open>
  The characters with the Unicode White\_Space property (Rust's \<^verbatim>\<open>char::is_whitespace\<close>), each
  as its UTF-8 bytes.
\<close>

definition ws_chars :: "string list" where
  "ws_chars =
     [[CHR 0x09], [CHR 0x0A], [CHR 0x0B], [CHR 0x0C], [CHR 0x0D], [CHR 0x20],
      [CHR 0xC2, CHR 0x85], [CHR 0xC2, CHR 0xA0], [CHR 0xE1, CHR 0x9A, CHR 0x80],
      [CHR 0xE2, CHR 0x80, CHR 0x80], [CHR 0xE2, CHR 0x80, CHR 0x81], [CHR 0xE2, CHR 0x80, CHR 0x82],
      [CHR 0xE2, CHR 0x80, CHR 0x83], [CHR 0xE2, CHR 0x80, CHR 0x84], [CHR 0xE2, CHR 0x80, CHR 0x85],
      [CHR 0xE2, CHR 0x80, CHR 0x86], [CHR 0xE2, CHR 0x80, CHR 0x87], [CHR 0xE2, CHR 0x80, CHR 0x88],
      [CHR 0xE2, CHR 0x80, CHR 0x89], [CHR 0xE2, CHR 0x80, CHR 0x8A], [CHR 0xE2, CHR 0x80, CHR 0xA8],
      [CHR 0xE2, CHR 0x80, CHR 0xA9], [CHR 0xE2, CHR 0x80, CHR 0xAF], [CHR 0xE2, CHR 0x81, CHR 0x9F],
      [CHR 0xE3, CHR 0x80, CHR 0x80]]"

definition is_ws :: "string \<Rightarrow> bool" where
  "is_ws ch \<longleftrightarrow> ch \<in> set ws_chars"

definition drop_ws_end :: "string list \<Rightarrow> string list" where
  "drop_ws_end cs = rev (dropWhile is_ws (rev cs))"

definition trim_end :: "string \<Rightarrow> string" where
  "trim_end s = concat (drop_ws_end (chars s))"

definition trim :: "string \<Rightarrow> string" where
  "trim s = concat (drop_ws_end (dropWhile is_ws (chars s)))"

fun words_aux :: "string list \<Rightarrow> string list \<Rightarrow> string list" where
  "words_aux acc [] = (if acc = [] then [] else [concat (rev acc)])"
| "words_aux acc (c # cs) =
     (if is_ws c then (if acc = [] then words_aux [] cs else concat (rev acc) # words_aux [] cs)
      else words_aux (c # acc) cs)"

definition split_whitespace :: "string \<Rightarrow> string list" where
  "split_whitespace s = words_aux [] (chars s)"

fun join :: "string \<Rightarrow> string list \<Rightarrow> string" where
  "join sep [] = []"
| "join sep [x] = x"
| "join sep (x # y # zs) = x @ sep @ join sep (y # zs)"

fun str_contains :: "string \<Rightarrow> string \<Rightarrow> bool" where
  "str_contains [] pat = (pat = [])"
| "str_contains (c # cs) pat = (prefix pat (c # cs) \<or> str_contains cs pat)"

lemma str_contains_iff: "str_contains s pat \<longleftrightarrow> sublist pat s"
  by (induction s pat rule: str_contains.induct) (auto simp: sublist_Cons_right)

lemma str_contains_mid [simp]: "str_contains (xs @ pat @ ys) pat"
  by (auto simp: str_contains_iff sublist_def)

definition nl :: string where
  "nl = [CHR 0x0A]"

definition quoted :: "string \<Rightarrow> string" where
  "quoted s = [CHR 0x27] @ s @ [CHR 0x27]"

lemma prefix_take_rev_dropWhile: "prefix (rev (dropWhile P (rev xs))) xs"
proof -
  have "xs = rev (dropWhile P (rev xs)) @ rev (takeWhile P (rev xs))"
    by (metis rev_append rev_rev_ident takeWhile_dropWhile_id)
  then show ?thesis unfolding prefix_def by blast
qed

lemma set_drop_ws_end: "set (drop_ws_end cs) \<subseteq> set cs"
  by (auto simp: drop_ws_end_def dest: set_dropWhileD)

lemma drop_ws_end_idem [simp]: "drop_ws_end (drop_ws_end cs) = drop_ws_end cs"
  by (simp add: drop_ws_end_def)

lemma drop_ws_start_end_idem:
  "dropWhile is_ws (drop_ws_end (dropWhile is_ws cs)) = drop_ws_end (dropWhile is_ws cs)"
proof (cases "drop_ws_end (dropWhile is_ws cs)")
  case (Cons d ds)
  have "prefix (drop_ws_end (dropWhile is_ws cs)) (dropWhile is_ws cs)"
    by (simp add: drop_ws_end_def prefix_take_rev_dropWhile)
  then obtain zs where z: "dropWhile is_ws cs = d # ds @ zs"
    using Cons by (auto simp: prefix_def)
  then have "\<not> is_ws d" by (metis hd_dropWhile list.distinct(1) list.sel(1))
  with Cons show ?thesis by simp
qed simp

text \<open>
  Lists of whole characters: every element is a leading byte and continuation bytes. A string
  that starts at a character boundary (every Rust string does) splits into such a list, and
  any such list is the character list of its concatenation.
\<close>

definition char_list :: "string list \<Rightarrow> bool" where
  "char_list xs \<longleftrightarrow> (\<forall>ch \<in> set xs. ch \<noteq> [] \<and> \<not> is_cont (hd ch) \<and> (\<forall>c \<in> set (tl ch). is_cont c))"

lemma char_list_Nil [simp]: "char_list []"
  by (simp add: char_list_def)

lemma char_list_sub: "char_list xs \<Longrightarrow> set ys \<subseteq> set xs \<Longrightarrow> char_list ys"
  by (auto simp: char_list_def)

lemma starts_char_concat: "char_list xs \<Longrightarrow> starts_char (concat xs)"
  by (cases xs) (auto simp: char_list_def starts_char_def)

lemma chars_concat: "char_list xs \<Longrightarrow> chars (concat xs) = xs"
proof (induction xs)
  case (Cons ch xs)
  then obtain c t where ch: "ch = c # t" "\<forall>x \<in> set t. is_cont x" and xs: "char_list xs"
    by (cases ch) (auto simp: char_list_def)
  from starts_char_concat [OF xs] have r: "concat xs = [] \<or> \<not> is_cont (hd (concat xs))"
    by (simp add: starts_char_def)
  from Cons.IH [OF xs] show ?case
    by (simp add: ch(1) takeWhile_span [OF ch(2) r] dropWhile_span [OF ch(2) r] del: concat_eq_Nil_conv)
qed simp

lemma char_list_chars: "starts_char s \<Longrightarrow> char_list (chars s)"
proof (induction s rule: chars.induct)
  case (2 c cs)
  have "starts_char (dropWhile is_cont cs)"
    unfolding starts_char_def using hd_dropWhile [of is_cont cs] by blast
  with 2 have "char_list (chars (dropWhile is_cont cs))" and "\<not> is_cont c"
    by (simp_all add: starts_char_def [of "c # cs"])
  moreover have "\<forall>x \<in> set (takeWhile is_cont cs). is_cont x"
    by (auto dest: set_takeWhileD)
  ultimately show ?case by (simp add: char_list_def)
qed simp

lemma chars_trim:
  "starts_char s \<Longrightarrow> chars (trim s) = drop_ws_end (dropWhile is_ws (chars s))"
  unfolding trim_def
  by (rule chars_concat, rule char_list_sub [OF char_list_chars])
    (auto dest!: set_drop_ws_end [THEN subsetD] dest: set_dropWhileD)

lemma chars_trim_end: "starts_char s \<Longrightarrow> chars (trim_end s) = drop_ws_end (chars s)"
  unfolding trim_end_def
  by (rule chars_concat, rule char_list_sub [OF char_list_chars set_drop_ws_end])

lemma starts_char_trim: "starts_char s \<Longrightarrow> starts_char (trim s)"
  unfolding trim_def
  by (rule starts_char_concat, rule char_list_sub [OF char_list_chars])
    (auto dest!: set_drop_ws_end [THEN subsetD] dest: set_dropWhileD)

lemma trim_idem: "starts_char s \<Longrightarrow> trim (trim s) = trim s"
  by (simp add: trim_def [of "trim s"] chars_trim drop_ws_start_end_idem)
    (simp add: trim_def)

lemma starts_char_append: "starts_char xs \<Longrightarrow> starts_char ys \<Longrightarrow> starts_char (xs @ ys)"
  by (cases xs) (auto simp: starts_char_def)

lemma starts_char_char_take: "starts_char s \<Longrightarrow> starts_char (char_take n s)"
  unfolding char_take_def
  by (rule starts_char_concat, rule char_list_sub [OF char_list_chars]) (auto dest: in_set_takeD)

subsection \<open>Lines, prefixes and splitting\<close>

text \<open>
  The lines of a text (\<^verbatim>\<open>str::lines\<close>): a line feed ends a line, together with a carriage return
  in front of it; the last line need not end.
\<close>

definition strip_cr :: "string \<Rightarrow> string" where
  "strip_cr l = (if l \<noteq> [] \<and> last l = CHR 0x0D then butlast l else l)"

fun lines_from :: "string \<Rightarrow> string \<Rightarrow> string list" where
  "lines_from acc [] = (if acc = [] then [] else [rev acc])"
| "lines_from acc (c # cs) =
     (if c = CHR 0x0A then strip_cr (rev acc) # lines_from [] cs else lines_from (c # acc) cs)"

definition str_lines :: "string \<Rightarrow> string list" where
  "str_lines s = lines_from [] s"

definition strip_prefix :: "string \<Rightarrow> string \<Rightarrow> string option" where
  "strip_prefix pre s = (if prefix pre s then Some (drop (length pre) s) else None)"

fun split_once :: "string \<Rightarrow> string \<Rightarrow> (string \<times> string) option" where
  "split_once pat [] = (if pat = [] then Some ([], []) else None)"
| "split_once pat (c # cs) =
     (if prefix pat (c # cs) then Some ([], drop (length pat) (c # cs))
      else map_option (\<lambda>(a, b). (c # a, b)) (split_once pat cs))"

lemma split_once_Some: "split_once pat s = Some (a, b) \<Longrightarrow> s = a @ pat @ b"
  by (induction s arbitrary: a) (auto simp: prefix_def split: if_splits)

lemma split_once_None: "split_once pat s = None \<longleftrightarrow> \<not> str_contains s pat"
  by (induction s) auto

subsection \<open>ASCII case and decimal numbers\<close>

definition ascii_lower :: "char \<Rightarrow> char" where
  "ascii_lower c =
     (if 65 \<le> (of_char c :: nat) \<and> (of_char c :: nat) \<le> 90 then char_of ((of_char c :: nat) + 32) else c)"

definition to_ascii_lowercase :: "string \<Rightarrow> string" where
  "to_ascii_lowercase s = map ascii_lower s"

definition is_ascii_alphanumeric :: "char \<Rightarrow> bool" where
  "is_ascii_alphanumeric c \<longleftrightarrow>
     (let n = (of_char c :: nat) in (48 \<le> n \<and> n \<le> 57) \<or> (65 \<le> n \<and> n \<le> 90) \<or> (97 \<le> n \<and> n \<le> 122))"

fun show_nat :: "nat \<Rightarrow> string" where
  "show_nat n =
     (if n < 10 then [char_of (48 + n)] else show_nat (n div 10) @ [char_of (48 + n mod 10)])"

declare show_nat.simps [simp del]

definition read_nat :: "string \<Rightarrow> nat" where
  "read_nat s = foldl (\<lambda>a c. 10 * a + (of_char c - 48)) 0 s"

lemma read_show_nat [simp]: "read_nat (show_nat n) = n"
proof (induction n rule: show_nat.induct)
  case (1 n)
  show ?case
  proof (cases "n < 10")
    case True
    then show ?thesis by (simp add: show_nat.simps [of n] read_nat_def)
  next
    case False
    then show ?thesis using 1 by (simp add: show_nat.simps [of n] read_nat_def)
  qed
qed

lemma show_nat_inj [simp]: "show_nat m = show_nat n \<longleftrightarrow> m = n"
  by (metis read_show_nat)

lemma show_nat_nonempty [simp]: "show_nat n \<noteq> []"
  by (simp add: show_nat.simps [of n])

lemma show_nat_digits: "c \<in> set (show_nat n) \<Longrightarrow> 48 \<le> (of_char c :: nat) \<and> (of_char c :: nat) < 58"
proof (induction n rule: show_nat.induct)
  case (1 n)
  then show ?case by (cases "n < 10") (auto simp: show_nat.simps [of n])
qed

lemma length_show_nat: "n < 10 ^ k \<Longrightarrow> 0 < k \<Longrightarrow> length (show_nat n) \<le> k"
proof (induction k arbitrary: n)
  case (Suc k)
  show ?case
  proof (cases "n < 10")
    case True
    then show ?thesis by (simp add: show_nat.simps [of n])
  next
    case False
    with Suc.prems have k: "n div 10 < 10 ^ k" "0 < k" by (auto intro: gr0I)
    from Suc.IH [OF k] False show ?thesis by (simp add: show_nat.simps [of n])
  qed
qed simp

text \<open>The lower-case hexadecimal digits of a number, with leading zeros up to a width.\<close>

fun hex_digits :: "nat \<Rightarrow> nat \<Rightarrow> string" where
  "hex_digits 0 n = []"
| "hex_digits (Suc k) n =
     hex_digits k (n div 16) @ [if n mod 16 < 10 then char_of (48 + n mod 16) else char_of (87 + n mod 16)]"

section \<open>Hash maps\<close>

text \<open>
  A Rust hash map is a finite map. The entry call with a default and an update of the slot
  is \<^term>\<open>entry_upd\<close>; iteration order is never observable in the model unless a definition
  takes it as an argument.
\<close>

definition entry_upd :: "'v \<Rightarrow> ('v \<Rightarrow> 'v) \<Rightarrow> 'k \<Rightarrow> ('k, 'v) fmap \<Rightarrow> ('k, 'v) fmap" where
  "entry_upd d f k m = fmupd k (f (case fmlookup m k of None \<Rightarrow> d | Some v \<Rightarrow> v)) m"

definition get_or :: "'v \<Rightarrow> ('k, 'v) fmap \<Rightarrow> 'k \<Rightarrow> 'v" where
  "get_or d m k = (case fmlookup m k of None \<Rightarrow> d | Some v \<Rightarrow> v)"

definition update_existing :: "('v \<Rightarrow> 'v) \<Rightarrow> 'k \<Rightarrow> ('k, 'v) fmap \<Rightarrow> ('k, 'v) fmap" where
  "update_existing f k m = (case fmlookup m k of None \<Rightarrow> m | Some v \<Rightarrow> fmupd k (f v) m)"

lemma lookup_entry_upd:
  "fmlookup (entry_upd d f k m) k' = (if k = k' then Some (f (get_or d m k)) else fmlookup m k')"
  by (simp add: entry_upd_def get_or_def)

lemma get_or_entry_upd:
  "get_or d (entry_upd d f k m) k' = (if k = k' then f (get_or d m k) else get_or d m k')"
  by (simp add: entry_upd_def get_or_def)

lemma get_or_empty [simp]: "get_or d fmempty k = d"
  by (simp add: get_or_def)

lemma lookup_update_existing:
  "fmlookup (update_existing f k m) k' =
     (if k = k' then map_option f (fmlookup m k) else fmlookup m k')"
  by (auto simp: update_existing_def split: option.split)

text \<open>Search for the first element, as \<^verbatim>\<open>iter().position\<close> does.\<close>

text \<open>Changing the first element that satisfies a condition, as a search with a mutable iterator does.\<close>

fun upd_first :: "('a \<Rightarrow> bool) \<Rightarrow> ('a \<Rightarrow> 'a) \<Rightarrow> 'a list \<Rightarrow> 'a list" where
  "upd_first P f [] = []"
| "upd_first P f (x # xs) = (if P x then f x # xs else x # upd_first P f xs)"

lemma length_upd_first [simp]: "length (upd_first P f xs) = length xs"
  by (induction xs) simp_all

lemma map_upd_first: "(\<And>x. P x \<Longrightarrow> g (f x) = g x) \<Longrightarrow> map g (upd_first P f xs) = map g xs"
  by (induction xs) simp_all

lemma upd_first_none: "find P xs = None \<Longrightarrow> upd_first P f xs = xs"
  by (induction xs) (auto split: if_splits)

lemma find_upd_first: "find P xs = Some x \<Longrightarrow> P (f x) \<Longrightarrow> find P (upd_first P f xs) = Some (f x)"
  by (induction xs) (auto split: if_splits)

lemma find_upd_first_other: "(\<And>x. P x \<Longrightarrow> \<not> Q x \<and> \<not> Q (f x)) \<Longrightarrow> find Q (upd_first P f xs) = find Q xs"
  by (induction xs) auto

fun position :: "('a \<Rightarrow> bool) \<Rightarrow> 'a list \<Rightarrow> nat option" where
  "position P [] = None"
| "position P (x # xs) = (if P x then Some 0 else map_option Suc (position P xs))"

lemma position_Some:
  "position P xs = Some i \<Longrightarrow> i < length xs \<and> P (xs ! i) \<and> (\<forall>j < i. \<not> P (xs ! j))"
proof (induction xs arbitrary: i)
  case (Cons x xs)
  then show ?case by (cases i) (auto split: if_splits simp: nth_Cons split: nat.splits)
qed simp

lemma position_None: "position P xs = None \<longleftrightarrow> (\<forall>x \<in> set xs. \<not> P x)"
  by (induction xs) auto

text \<open>Sorting a list without repetitions lists its set in order.\<close>

lemma sort_distinct: "distinct xs \<Longrightarrow> sort xs = sorted_list_of_set (set xs)"
  by (simp add: sorted_list_of_set_sort_remdups distinct_remdups_id)

section \<open>Interfaces\<close>

text \<open>
  A textual codec of an enumeration: what \<^verbatim>\<open>as_str\<close> prints, \<^verbatim>\<open>parse\<close> reads back. The strict
  form also accepts nothing but the printed names.
\<close>

locale str_codec =
  fixes enc :: "'a \<Rightarrow> string" and dec :: "string \<Rightarrow> 'a option"
  assumes dec_enc: "dec (enc x) = Some x"
begin

lemma enc_inj: "enc x = enc y \<longleftrightarrow> x = y"
  by (metis dec_enc option.inject)

lemma dec_surj: "\<exists>s. dec s = Some x"
  using dec_enc by blast

end

locale strict_codec = str_codec +
  assumes enc_dec: "dec s = Some x \<Longrightarrow> enc x = s"
begin

lemma dec_iff: "dec s = Some x \<longleftrightarrow> s = enc x"
  using enc_dec dec_enc by blast

lemma dec_None_iff: "dec s = None \<longleftrightarrow> s \<notin> range enc"
  by (metis dec_iff not_None_eq rangeE rangeI)

end

text \<open>
  A state machine driven by operations, with an invariant that the start state has and every
  operation keeps: then it holds after every sequence of operations.
\<close>

locale op_machine =
  fixes step :: "'s \<Rightarrow> 'op \<Rightarrow> 's" and start :: 's and inv :: "'s \<Rightarrow> bool"
  assumes inv_start: "inv start" and inv_step: "inv s \<Longrightarrow> inv (step s x)"
begin

lemma run_from_inv: "inv s \<Longrightarrow> inv (foldl step s xs)"
  by (induction xs arbitrary: s) (auto intro: inv_step)

lemma run_inv: "inv (foldl step start xs)"
  by (rule run_from_inv [OF inv_start])

end

text \<open>The same for a machine whose operations keep the invariant under a condition on them.\<close>

locale guarded_machine =
  fixes step :: "'s \<Rightarrow> 'op \<Rightarrow> 's" and start :: 's and inv :: "'s \<Rightarrow> bool" and ok :: "'op \<Rightarrow> bool"
  assumes inv_start: "inv start" and inv_step: "inv s \<Longrightarrow> ok x \<Longrightarrow> inv (step s x)"
begin

lemma run_from_inv: "inv s \<Longrightarrow> list_all ok xs \<Longrightarrow> inv (foldl step s xs)"
  by (induction xs arbitrary: s) (auto intro: inv_step)

lemma run_inv: "list_all ok xs \<Longrightarrow> inv (foldl step start xs)"
  by (rule run_from_inv [OF inv_start])

end

end
