(* ===== verification/Plan.thy ===== *)
theory Plan
  imports Prelude
begin

text \<open>
  The data model of a swarm plan (crates/jcode-plan/src/lib.rs): plan items, the durable task
  progress, the versioned plan with its two projections (definition and execution state), the
  status classes, and the control actions a coordinator may apply to a task. Statuses are
  strings in the code and stay strings here. Timestamps and counters are unbounded naturals:
  this crate stores them and never computes with them.
\<close>

section \<open>Items, progress and the versioned plan\<close>

record plan_item =
  pi_content :: string
  pi_status :: string
  pi_priority :: string
  pi_id :: string
  pi_subsystem :: "string option"
  pi_file_scope :: "string list"
  pi_blocked_by :: "string list"
  pi_assigned_to :: "string option"

record swarm_task_progress =
  tp_assigned_session_id :: "string option"
  tp_assignment_summary :: "string option"
  tp_assigned_at_unix_ms :: "nat option"
  tp_started_at_unix_ms :: "nat option"
  tp_last_heartbeat_unix_ms :: "nat option"
  tp_last_detail :: "string option"
  tp_last_checkpoint_unix_ms :: "nat option"
  tp_checkpoint_summary :: "string option"
  tp_completed_at_unix_ms :: "nat option"
  tp_stale_since_unix_ms :: "nat option"
  tp_heartbeat_count :: "nat option"
  tp_checkpoint_count :: "nat option"

definition swarm_task_progress_default :: swarm_task_progress where
  "swarm_task_progress_default =
     \<lparr>tp_assigned_session_id = None, tp_assignment_summary = None, tp_assigned_at_unix_ms = None,
      tp_started_at_unix_ms = None, tp_last_heartbeat_unix_ms = None, tp_last_detail = None,
      tp_last_checkpoint_unix_ms = None, tp_checkpoint_summary = None,
      tp_completed_at_unix_ms = None, tp_stale_since_unix_ms = None, tp_heartbeat_count = None,
      tp_checkpoint_count = None\<rparr>"

record swarm_plan_item_spec =
  ps_id :: string
  ps_content :: string
  ps_priority :: string
  ps_subsystem :: "string option"
  ps_file_scope :: "string list"
  ps_blocked_by :: "string list"

record swarm_plan_definition =
  pd_version :: nat
  pd_participants :: "string list"
  pd_items :: "swarm_plan_item_spec list"

record swarm_execution_item_state =
  es_task_id :: string
  es_status :: string
  es_assigned_to :: "string option"
  es_progress :: "swarm_task_progress option"

record swarm_execution_state =
  ex_items :: "swarm_execution_item_state list"

record versioned_plan =
  vp_items :: "plan_item list"
  vp_version :: nat
  vp_participants :: "string fset"
  vp_task_progress :: "(string, swarm_task_progress) fmap"

definition versioned_plan_new :: versioned_plan where
  "versioned_plan_new =
     \<lparr>vp_items = [], vp_version = 0, vp_participants = {||}, vp_task_progress = fmempty\<rparr>"

definition item_spec :: "plan_item \<Rightarrow> swarm_plan_item_spec" where
  "item_spec item =
     \<lparr>ps_id = pi_id item, ps_content = pi_content item, ps_priority = pi_priority item,
      ps_subsystem = pi_subsystem item, ps_file_scope = pi_file_scope item,
      ps_blocked_by = pi_blocked_by item\<rparr>"

definition plan_definition :: "versioned_plan \<Rightarrow> swarm_plan_definition" where
  "plan_definition p =
     \<lparr>pd_version = vp_version p, pd_participants = sorted_list_of_fset (vp_participants p),
      pd_items = map item_spec (vp_items p)\<rparr>"

definition execution_state :: "versioned_plan \<Rightarrow> swarm_execution_state" where
  "execution_state p =
     \<lparr>ex_items = map (\<lambda>item.
        \<lparr>es_task_id = pi_id item, es_status = pi_status item, es_assigned_to = pi_assigned_to item,
         es_progress = fmlookup (vp_task_progress p) (pi_id item)\<rparr>) (vp_items p)\<rparr>"

text \<open>Putting the two projections of a plan back together, as a reader of the saved state does.\<close>

definition rebuild_item :: "swarm_plan_item_spec \<Rightarrow> swarm_execution_item_state \<Rightarrow> plan_item" where
  "rebuild_item s e =
     \<lparr>pi_content = ps_content s, pi_status = es_status e, pi_priority = ps_priority s,
      pi_id = ps_id s, pi_subsystem = ps_subsystem s, pi_file_scope = ps_file_scope s,
      pi_blocked_by = ps_blocked_by s, pi_assigned_to = es_assigned_to e\<rparr>"

definition rebuild_items :: "swarm_plan_definition \<Rightarrow> swarm_execution_state \<Rightarrow> plan_item list" where
  "rebuild_items d e = map2 rebuild_item (pd_items d) (ex_items e)"

lemma rebuild_projections: "rebuild_items (plan_definition p) (execution_state p) = vp_items p"
proof -
  have "map2 rebuild_item (map item_spec xs)
      (map (\<lambda>item. \<lparr>es_task_id = pi_id item, es_status = pi_status item,
         es_assigned_to = pi_assigned_to item,
         es_progress = fmlookup (vp_task_progress p) (pi_id item)\<rparr>) xs) = xs" for xs
    by (induction xs) (simp_all add: rebuild_item_def item_spec_def)
  then show ?thesis
    by (simp add: rebuild_items_def plan_definition_def execution_state_def)
qed

section \<open>Status classes\<close>

definition is_completed_status :: "string \<Rightarrow> bool" where
  "is_completed_status s \<longleftrightarrow> s \<in> {''completed'', ''done''}"

definition is_terminal_status :: "string \<Rightarrow> bool" where
  "is_terminal_status s \<longleftrightarrow> s \<in> {''completed'', ''done'', ''failed'', ''stopped'', ''crashed''}"

definition is_active_status :: "string \<Rightarrow> bool" where
  "is_active_status s \<longleftrightarrow> s \<in> {''running'', ''running_stale''}"

definition is_runnable_status :: "string \<Rightarrow> bool" where
  "is_runnable_status s \<longleftrightarrow> s \<in> {''queued'', ''ready'', ''pending'', ''todo''}"

lemmas status_defs =
  is_completed_status_def is_terminal_status_def is_active_status_def is_runnable_status_def

lemma completed_is_terminal [simp, intro]: "is_completed_status s \<Longrightarrow> is_terminal_status s"
  by (auto simp: status_defs)

lemma runnable_not_terminal [simp]: "is_runnable_status s \<Longrightarrow> \<not> is_terminal_status s"
  by (auto simp: status_defs)

lemma runnable_not_active [simp]: "is_runnable_status s \<Longrightarrow> \<not> is_active_status s"
  by (auto simp: status_defs)

lemma active_not_terminal [simp]: "is_active_status s \<Longrightarrow> \<not> is_terminal_status s"
  by (auto simp: status_defs)

section \<open>Control actions\<close>

datatype task_control_action = Start | Wake | Resume | Retry | Reassign | Replace | Salvage

definition task_control_parse :: "string \<Rightarrow> task_control_action option" where
  "task_control_parse s =
     (if s = ''start'' then Some Start
      else if s = ''wake'' then Some Wake
      else if s = ''resume'' then Some Resume
      else if s = ''retry'' then Some Retry
      else if s = ''reassign'' then Some Reassign
      else if s = ''replace'' then Some Replace
      else if s = ''salvage'' then Some Salvage
      else None)"

fun task_control_as_str :: "task_control_action \<Rightarrow> string" where
  "task_control_as_str Start = ''start''"
| "task_control_as_str Wake = ''wake''"
| "task_control_as_str Resume = ''resume''"
| "task_control_as_str Retry = ''retry''"
| "task_control_as_str Reassign = ''reassign''"
| "task_control_as_str Replace = ''replace''"
| "task_control_as_str Salvage = ''salvage''"

interpretation task_control: strict_codec task_control_as_str task_control_parse
proof
  show "task_control_parse (task_control_as_str x) = Some x" for x
    by (cases x) (simp_all add: task_control_parse_def)
  show "task_control_as_str x = s" if "task_control_parse s = Some x" for s x
    using that by (auto simp: task_control_parse_def split: if_splits)
qed

definition coordinator_note :: "string \<Rightarrow> string" where
  "coordinator_note extra = ''Additional coordinator instructions:'' @ nl @ extra"

definition combine_assignment_text :: "string \<Rightarrow> string option \<Rightarrow> string" where
  "combine_assignment_text content message =
     (case message of
        Some extra \<Rightarrow> content @ nl @ nl @ coordinator_note extra
      | None \<Rightarrow> content)"

fun restart_instruction_prefix :: "task_control_action \<Rightarrow> string option" where
  "restart_instruction_prefix Resume =
     Some ''Resume your assigned task from the current session context and continue the work.''"
| "restart_instruction_prefix Retry =
     Some ''Retry your assigned task. Fix any earlier issues and continue toward completion.''"
| "restart_instruction_prefix _ = None"

definition build_control_assignment_text ::
  "task_control_action \<Rightarrow> string \<Rightarrow> string option \<Rightarrow> string" where
  "build_control_assignment_text action content message =
     join (nl @ nl)
       ((case restart_instruction_prefix action of Some pre \<Rightarrow> [pre] | None \<Rightarrow> [])
        @ [content]
        @ (case message of Some extra \<Rightarrow> [coordinator_note extra] | None \<Rightarrow> []))"

fun task_control_action_allows_status :: "task_control_action \<Rightarrow> string \<Rightarrow> bool" where
  "task_control_action_allows_status Start s = (s = ''queued'')"
| "task_control_action_allows_status Wake s = (s = ''queued'')"
| "task_control_action_allows_status Resume s = (s \<in> {''queued'', ''running'', ''running_stale''})"
| "task_control_action_allows_status Retry s = (s \<in> {''failed'', ''running_stale''})"
| "task_control_action_allows_status Reassign s = (s \<noteq> ''done'')"
| "task_control_action_allows_status Replace s = (s \<noteq> ''done'')"
| "task_control_action_allows_status Salvage s = (s \<noteq> ''done'')"

fun task_control_status_error :: "task_control_action \<Rightarrow> string \<Rightarrow> string \<Rightarrow> string" where
  "task_control_status_error Start status task_id =
     ''Task '' @ quoted task_id @ '' is '' @ quoted status
     @ '' and cannot be started. Use start only for queued assignments.''"
| "task_control_status_error Wake status task_id =
     ''Task '' @ quoted task_id @ '' is '' @ quoted status
     @ '' and cannot be woken. Use wake only for queued assignments.''"
| "task_control_status_error Resume status task_id =
     ''Task '' @ quoted task_id @ '' is '' @ quoted status
     @ '' and cannot be resumed safely.''"
| "task_control_status_error Retry status task_id =
     ''Task '' @ quoted task_id @ '' is '' @ quoted status
     @ '' and cannot be retried. Retry is only for failed or stale work.''"
| "task_control_status_error Reassign status task_id =
     ''Task '' @ quoted task_id
     @ '' is already complete. Reassign unfinished work instead.''"
| "task_control_status_error Replace status task_id =
     ''Task '' @ quoted task_id
     @ '' is already complete. Replace is only for unfinished work.''"
| "task_control_status_error Salvage status task_id =
     ''Task '' @ quoted task_id
     @ '' is already complete. Salvage is only for unfinished or failed work.''"

text \<open>The rank is a byte; smaller sorts first.\<close>

definition priority_rank :: "string \<Rightarrow> nat" where
  "priority_rank p =
     (if p \<in> {''high'', ''urgent'', ''p0''} then 0
      else if p \<in> {''medium'', ''normal'', ''p1''} then 1
      else if p \<in> {''low'', ''p2''} then 2
      else 1)"

end
