(* ===== verification/DepGraph.thy ===== *)
theory DepGraph
  imports Prelude
begin

text \<open>
  Dependency graphs given by the list of dependencies of each node: which nodes can be
  resolved (all their dependencies can, well-foundedly), and the fact that on a finite graph
  the others are exactly the nodes from which a dependency cycle can be reached. The worklist
  algorithm of the plan crate is proved against this specification.
\<close>

inductive resolvable :: "('a \<Rightarrow> 'a list) \<Rightarrow> 'a \<Rightarrow> bool" for deps :: "'a \<Rightarrow> 'a list" where
  resolve: "(\<And>d. d \<in> set (deps i) \<Longrightarrow> resolvable deps d) \<Longrightarrow> resolvable deps i"

inductive_cases resolvableE: "resolvable deps i"

inductive_simps resolvable_simp: "resolvable deps i"

definition dep_edges :: "('a \<Rightarrow> 'a list) \<Rightarrow> ('a \<times> 'a) set" where
  "dep_edges deps = {(i, d). d \<in> set (deps i)}"

definition reaches_cycle :: "('a \<Rightarrow> 'a list) \<Rightarrow> 'a \<Rightarrow> bool" where
  "reaches_cycle deps i \<longleftrightarrow>
     (\<exists>c. (i, c) \<in> (dep_edges deps)\<^sup>* \<and> (c, c) \<in> (dep_edges deps)\<^sup>+)"

lemma dep_edges_iff [simp]: "(i, d) \<in> dep_edges deps \<longleftrightarrow> d \<in> set (deps i)"
  by (simp add: dep_edges_def)

lemma reaches_cycle_step: "d \<in> set (deps i) \<Longrightarrow> reaches_cycle deps d \<Longrightarrow> reaches_cycle deps i"
  unfolding reaches_cycle_def
  by (meson converse_rtrancl_into_rtrancl dep_edges_iff)

lemma resolvable_no_cycle: "resolvable deps i \<Longrightarrow> \<not> reaches_cycle deps i"
proof (induction rule: resolvable.induct)
  case (resolve i)
  show ?case
  proof
    assume "reaches_cycle deps i"
    then obtain c where ic: "(i, c) \<in> (dep_edges deps)\<^sup>*" and cc: "(c, c) \<in> (dep_edges deps)\<^sup>+"
      by (auto simp: reaches_cycle_def)
    have "\<exists>d \<in> set (deps i). (d, c) \<in> (dep_edges deps)\<^sup>*"
    proof (cases "i = c")
      case True
      with cc obtain d where "(i, d) \<in> dep_edges deps" "(d, c) \<in> (dep_edges deps)\<^sup>*"
        by (metis tranclD)
      then show ?thesis by auto
    next
      case False
      with ic obtain d where "(i, d) \<in> dep_edges deps" "(d, c) \<in> (dep_edges deps)\<^sup>*"
        by (metis converse_rtranclE)
      then show ?thesis by auto
    qed
    with cc have "\<exists>d \<in> set (deps i). reaches_cycle deps d" by (auto simp: reaches_cycle_def)
    with resolve show False by blast
  qed
qed

text \<open>
  The interface of a finite dependency graph: a finite set of nodes closed under taking
  dependencies.
\<close>

locale finite_deps =
  fixes nodes :: "'a set" and deps :: "'a \<Rightarrow> 'a list"
  assumes finite_nodes: "finite nodes"
    and deps_nodes: "set (deps i) \<subseteq> nodes"
begin

lemma edges_finite_from: "finite {(d, x). d \<in> set (deps x) \<and> x \<in> nodes}"
  by (rule finite_subset [of _ "nodes \<times> nodes"]) (use finite_nodes deps_nodes in auto)

lemma no_cycle_resolvable:
  assumes "i \<in> nodes" and "\<not> reaches_cycle deps i"
  shows "resolvable deps i"
proof -
  define R where "R = {(d, x). d \<in> set (deps x) \<and> x \<in> nodes \<and> \<not> reaches_cycle deps x}"
  have fin: "finite R"
    by (rule finite_subset [OF _ edges_finite_from]) (auto simp: R_def)
  have sub: "R \<subseteq> (dep_edges deps)\<inverse>" by (auto simp: R_def)
  have "acyclic R"
  proof (rule acyclicI, intro allI notI)
    fix x assume xx: "(x, x) \<in> R\<^sup>+"
    then have "(x, x) \<in> ((dep_edges deps)\<inverse>)\<^sup>+" by (rule trancl_mono) (rule sub)
    then have "(x, x) \<in> (dep_edges deps)\<^sup>+" by (simp add: trancl_converse)
    then have "reaches_cycle deps x" by (auto simp: reaches_cycle_def)
    moreover from xx obtain d where "(d, x) \<in> R" by (meson tranclD2)
    ultimately show False by (auto simp: R_def)
  qed
  with fin have "wf R" by (rule finite_acyclic_wf)
  then show ?thesis using assms
  proof (induction i rule: wf_induct_rule)
    case (less i)
    show ?case
    proof (rule resolvable.resolve)
      fix d assume d: "d \<in> set (deps i)"
      with less.prems have "(d, i) \<in> R" by (simp add: R_def)
      moreover have "d \<in> nodes" using d deps_nodes by blast
      moreover have "\<not> reaches_cycle deps d" using d less.prems reaches_cycle_step by metis
      ultimately show "resolvable deps d" by (rule less.IH)
    qed
  qed
qed

lemma resolvable_iff: "i \<in> nodes \<Longrightarrow> resolvable deps i \<longleftrightarrow> \<not> reaches_cycle deps i"
  using no_cycle_resolvable resolvable_no_cycle by metis

end

text \<open>No deadlock: below an unfinished resolvable node is one with only finished dependencies.\<close>

lemma resolvable_frontier:
  assumes "resolvable deps i" and "\<not> fin i"
  shows "\<exists>j. \<not> fin j \<and> resolvable deps j \<and> (\<forall>d \<in> set (deps j). fin d) \<and> (i, j) \<in> (dep_edges deps)\<^sup>*"
  using assms
proof (induction rule: resolvable.induct)
  case (resolve i)
  show ?case
  proof (cases "\<forall>d \<in> set (deps i). fin d")
    case True
    with resolve show ?thesis by (blast intro: resolvable.resolve)
  next
    case False
    then obtain d where d: "d \<in> set (deps i)" "\<not> fin d" by blast
    from resolve.IH [OF this] obtain j where
      j: "\<not> fin j" "resolvable deps j" "\<forall>d \<in> set (deps j). fin d" "(d, j) \<in> (dep_edges deps)\<^sup>*"
      by blast
    moreover have "(i, j) \<in> (dep_edges deps)\<^sup>*"
      using d j(4) by (meson converse_rtrancl_into_rtrancl dep_edges_iff)
    ultimately show ?thesis by blast
  qed
qed

end
