(* ===== verification/PlanGraph.thy ===== *)
theory PlanGraph
  imports Plan DepGraph "HOL-Library.Product_Lexorder"
begin

text \<open>
  The dependency graph of a plan (crates/jcode-plan/src/lib.rs): unresolved and missing
  dependencies, the worklist that finds the items that can never be scheduled
  (\<^verbatim>\<open>cycle_item_ids\<close>), and its correctness: the result is the sorted list of the items from
  which a dependency cycle can be reached, whatever the iteration order of the hash map.
\<close>

section \<open>Dependencies of an item\<close>

definition known_ids :: "plan_item list \<Rightarrow> string set" where
  "known_ids items = set (map pi_id items)"

definition completed_item_ids :: "plan_item list \<Rightarrow> string set" where
  "completed_item_ids items =
     set (map pi_id (filter (\<lambda>item. is_completed_status (pi_status item)) items))"

definition unresolved_dependencies :: "plan_item \<Rightarrow> string set \<Rightarrow> string set \<Rightarrow> string list" where
  "unresolved_dependencies item known completed =
     filter (\<lambda>dep. dep \<in> known \<and> dep \<notin> completed) (pi_blocked_by item)"

definition missing_dependencies :: "plan_item \<Rightarrow> string set \<Rightarrow> string list" where
  "missing_dependencies item known = filter (\<lambda>dep. dep \<notin> known) (pi_blocked_by item)"

definition is_unblocked :: "plan_item \<Rightarrow> string set \<Rightarrow> string set \<Rightarrow> bool" where
  "is_unblocked item known completed \<longleftrightarrow>
     missing_dependencies item known = [] \<and> unresolved_dependencies item known completed = []"

section \<open>The worklist\<close>

text \<open>
  The in-degree map counts, for every id, its not yet visited known dependencies; the
  dependents map lists, for every dependency, the items that wait for it (once for each
  occurrence).
\<close>

definition seed_indegree :: "plan_item list \<Rightarrow> (string, nat) fmap" where
  "seed_indegree items = foldl (\<lambda>m item. entry_upd 0 (\<lambda>n. n) (pi_id item) m) fmempty items"

definition link_dependency ::
  "string \<Rightarrow> (string, nat) fmap \<times> (string, string list) fmap \<Rightarrow> string
    \<Rightarrow> (string, nat) fmap \<times> (string, string list) fmap" where
  "link_dependency item_id st dep =
     (case st of (indegree, dependents) \<Rightarrow>
        (entry_upd 0 (\<lambda>n. n + 1) item_id indegree,
         entry_upd [] (\<lambda>cs. cs @ [item_id]) dep dependents))"

definition link_item ::
  "string set \<Rightarrow> (string, nat) fmap \<times> (string, string list) fmap \<Rightarrow> plan_item
    \<Rightarrow> (string, nat) fmap \<times> (string, string list) fmap" where
  "link_item known st item =
     foldl (link_dependency (pi_id item)) st (filter (\<lambda>dep. dep \<in> known) (pi_blocked_by item))"

definition dependency_maps ::
  "plan_item list \<Rightarrow> (string, nat) fmap \<times> (string, string list) fmap" where
  "dependency_maps items =
     foldl (link_item (known_ids items)) (seed_indegree items, fmempty) items"

definition relax_child ::
  "(string, nat) fmap \<times> string list \<Rightarrow> string \<Rightarrow> (string, nat) fmap \<times> string list" where
  "relax_child st child =
     (case st of (indegree, queue) \<Rightarrow>
        (case fmlookup indegree child of
           None \<Rightarrow> (indegree, queue)
         | Some degree \<Rightarrow>
             (fmupd child (degree - 1) indegree,
              if degree - 1 = 0 then queue @ [child] else queue)))"

text \<open>
  The loop pops from the end of the queue. It ends because a popped id is either already
  visited, and the queue shrinks, or is visited now, and either it has no dependents, and the
  queue shrinks, or one id with dependents fewer remains to be visited.
\<close>

function worklist ::
  "(string, string list) fmap \<Rightarrow> (string, nat) fmap \<Rightarrow> string list \<Rightarrow> string set
    \<Rightarrow> (string, nat) fmap \<times> string set" where
  "worklist dependents indegree queue visited =
     (if queue = [] then (indegree, visited)
      else if last queue \<in> visited then worklist dependents indegree (butlast queue) visited
      else let st = foldl relax_child (indegree, butlast queue) (get_or [] dependents (last queue))
        in worklist dependents (fst st) (snd st) (insert (last queue) visited))"
  by pat_completeness simp_all
termination
proof (relation "measures [\<lambda>(dependents, _, _, visited). card (fset (fmdom dependents) - visited),
                           \<lambda>(_, _, queue, _). length queue]", goal_cases)
  case (3 dependents indegree queue visited st)
  show ?case
  proof (cases "fmlookup dependents (last queue)")
    case None
    then have "last queue \<notin> fset (fmdom dependents)" by (simp add: fmdom_notI)
    then have "fset (fmdom dependents) - insert (last queue) visited = fset (fmdom dependents) - visited"
      by blast
    with 3 None show ?thesis by (simp add: get_or_def)
  next
    case (Some children)
    then have "last queue \<in> fset (fmdom dependents)" by (simp add: fmdomI)
    with 3 have "card (fset (fmdom dependents) - insert (last queue) visited)
        < card (fset (fmdom dependents) - visited)"
      by (intro psubset_card_mono) auto
    then show ?thesis by simp
  qed
qed auto

declare worklist.simps [simp del]

text \<open>
  The iteration order of the in-degree map is an argument: both the initial queue and the
  collection of the result run through the map's keys in some order.
\<close>

definition cycle_item_ids_in :: "string list \<Rightarrow> plan_item list \<Rightarrow> string list" where
  "cycle_item_ids_in order items =
     (let (indegree, dependents) = dependency_maps items;
          queue = filter (\<lambda>i. fmlookup indegree i = Some 0) order;
          (indegree', visited) = worklist dependents indegree queue {}
      in sort (filter (\<lambda>i. get_or 0 indegree' i > 0 \<and> i \<notin> visited) order))"

definition iteration_order :: "plan_item list \<Rightarrow> string list \<Rightarrow> bool" where
  "iteration_order items order \<longleftrightarrow> distinct order \<and> set order = known_ids items"

definition cycle_item_ids :: "plan_item list \<Rightarrow> string list" where
  "cycle_item_ids items = cycle_item_ids_in (remdups (map pi_id items)) items"

section \<open>Correctness of the worklist\<close>

definition deps_in :: "string set \<Rightarrow> plan_item list \<Rightarrow> string \<Rightarrow> string list" where
  "deps_in known items i =
     concat (map (\<lambda>item. if pi_id item = i then filter (\<lambda>d. d \<in> known) (pi_blocked_by item) else [])
       items)"

definition deps_of :: "plan_item list \<Rightarrow> string \<Rightarrow> string list" where
  "deps_of items = deps_in (known_ids items) items"

lemma deps_in_simps [simp]:
  "deps_in known [] i = []"
  "deps_in known (item # items) i =
     (if pi_id item = i then filter (\<lambda>d. d \<in> known) (pi_blocked_by item) else [])
      @ deps_in known items i"
  by (simp_all add: deps_in_def)

lemma set_deps_of:
  "d \<in> set (deps_of items i) \<longleftrightarrow>
     (\<exists>item \<in> set items. pi_id item = i \<and> d \<in> set (pi_blocked_by item)) \<and> d \<in> known_ids items"
  by (auto simp: deps_of_def deps_in_def)

lemma deps_of_known: "set (deps_of items i) \<subseteq> known_ids items"
  by (auto simp: set_deps_of)

lemma finite_known_ids [simp]: "finite (known_ids items)"
  by (simp add: known_ids_def)

interpretation plan_deps: finite_deps "known_ids items" "deps_of items" for items
  by unfold_locales (simp_all add: deps_of_known)

subsection \<open>What the two maps hold\<close>

lemma seed_indegree_aux:
  "fmlookup (foldl (\<lambda>m item. entry_upd 0 (\<lambda>n. n) (pi_id item) m) m items) i =
     (case fmlookup m i of Some n \<Rightarrow> Some n | None \<Rightarrow> if i \<in> pi_id ` set items then Some 0 else None)"
  by (induction items arbitrary: m) (auto simp: lookup_entry_upd get_or_def split: option.splits)

lemma lookup_seed_indegree:
  "fmlookup (seed_indegree items) i = (if i \<in> known_ids items then Some 0 else None)"
  by (simp add: seed_indegree_def seed_indegree_aux known_ids_def)

lemma count_list_replicate_if: "count_list (replicate n x) y = (if x = y then n else 0)"
  by (induction n) auto

lemma link_dependencies:
  assumes "foldl (link_dependency x) (ind, dep) ds = (ind', dep')"
  shows "get_or 0 ind' i = get_or 0 ind i + (if i = x then length ds else 0)
    \<and> (fmlookup ind x \<noteq> None \<longrightarrow> (fmlookup ind' i = None \<longleftrightarrow> fmlookup ind i = None))
    \<and> count_list (get_or [] dep' d) c =
        count_list (get_or [] dep d) c + (if c = x then count_list ds d else 0)"
  using assms
proof (induction ds arbitrary: ind dep)
  case (Cons e ds)
  let ?ind = "entry_upd 0 (\<lambda>n. n + 1) x ind" and ?dep = "entry_upd [] (\<lambda>cs. cs @ [x]) e dep"
  have "link_dependency x (ind, dep) e = (?ind, ?dep)" by (simp add: link_dependency_def)
  with Cons.prems have "foldl (link_dependency x) (?ind, ?dep) ds = (ind', dep')" by simp
  from Cons.IH [OF this] show ?case by (auto simp: get_or_entry_upd lookup_entry_upd)
qed simp

lemma link_items:
  assumes "foldl (link_item known) (ind, dep) items = (ind', dep')"
    and "\<forall>item \<in> set items. fmlookup ind (pi_id item) \<noteq> None"
  shows "get_or 0 ind' i = get_or 0 ind i + length (deps_in known items i)
    \<and> (fmlookup ind' i = None \<longleftrightarrow> fmlookup ind i = None)
    \<and> count_list (get_or [] dep' d) c =
        count_list (get_or [] dep d) c + count_list (deps_in known items c) d"
  using assms
proof (induction items arbitrary: ind dep)
  case (Cons item items)
  let ?ds = "filter (\<lambda>d. d \<in> known) (pi_blocked_by item)"
  obtain ind1 dep1 where s: "foldl (link_dependency (pi_id item)) (ind, dep) ?ds = (ind1, dep1)"
    by fastforce
  from Cons.prems(2) have here: "fmlookup ind (pi_id item) \<noteq> None" by simp
  note step = link_dependencies [OF s, of i d c]
  have "link_item known (ind, dep) item = (ind1, dep1)" by (simp add: link_item_def s)
  with Cons.prems(1) have "foldl (link_item known) (ind1, dep1) items = (ind', dep')" by simp
  moreover have "\<forall>it \<in> set items. fmlookup ind1 (pi_id it) \<noteq> None"
    using Cons.prems(2) link_dependencies [OF s] here by simp
  ultimately have "get_or 0 ind' i = get_or 0 ind1 i + length (deps_in known items i)
    \<and> (fmlookup ind' i = None \<longleftrightarrow> fmlookup ind1 i = None)
    \<and> count_list (get_or [] dep' d) c =
        count_list (get_or [] dep1 d) c + count_list (deps_in known items c) d"
    by (rule Cons.IH)
  then show ?case using step here by auto
qed simp

lemma dependency_maps_correct:
  assumes "dependency_maps items = (ind, dep)"
  shows "fmlookup ind i = (if i \<in> known_ids items then Some (length (deps_of items i)) else None)"
    and "count_list (get_or [] dep d) c = count_list (deps_of items c) d"
proof -
  have known: "\<forall>item \<in> set items. fmlookup (seed_indegree items) (pi_id item) \<noteq> None"
    by (simp add: lookup_seed_indegree known_ids_def)
  have link: "foldl (link_item (known_ids items)) (seed_indegree items, fmempty) items = (ind, dep)"
    using assms by (simp add: dependency_maps_def)
  note maps = link_items [OF link known, folded deps_of_def]
  show "fmlookup ind i = (if i \<in> known_ids items then Some (length (deps_of items i)) else None)"
    using maps [of i undefined undefined]
    by (cases "fmlookup ind i") (auto simp: get_or_def lookup_seed_indegree split: if_splits)
  show "count_list (get_or [] dep d) c = count_list (deps_of items c) d"
    using maps [of i d c] by simp
qed

subsection \<open>Relaxing the dependents of a visited item\<close>

lemma relax_children:
  assumes "foldl relax_child (ind, q) cs = (ind', q')"
    and "\<forall>c \<in> set cs. \<exists>n. fmlookup ind c = Some n \<and> count_list cs c \<le> n"
  shows "fmlookup ind' i = map_option (\<lambda>n. n - count_list cs i) (fmlookup ind i)
    \<and> set q' = set q \<union> {c \<in> set cs. get_or 0 ind c = count_list cs c}"
  using assms
proof (induction cs arbitrary: ind q)
  case Nil
  then show ?case by (cases "fmlookup ind i") auto
next
  case (Cons c cs)
  from Cons.prems(2) obtain n where n: "fmlookup ind c = Some n" "Suc (count_list cs c) \<le> n"
    by auto
  let ?ind = "fmupd c (n - 1) ind" and ?q = "if n - 1 = 0 then q @ [c] else q"
  have "relax_child (ind, q) c = (?ind, ?q)" using n by (simp add: relax_child_def)
  with Cons.prems(1) have rest: "foldl relax_child (?ind, ?q) cs = (ind', q')" by simp
  have pre: "\<forall>e \<in> set cs. \<exists>m. fmlookup ?ind e = Some m \<and> count_list cs e \<le> m"
    using Cons.prems(2) n by auto
  note IH = Cons.IH [OF rest pre]
  have zero: "count_list cs e = 0 \<longleftrightarrow> e \<notin> set cs" for e by (rule count_list_0_iff)
  have "{e \<in> set cs. get_or 0 ?ind e = count_list cs e} \<union> (if n - 1 = 0 then {c} else {}) =
      {e \<in> set (c # cs). get_or 0 ind e = count_list (c # cs) e}"
    using n zero [of c] by (auto simp: get_or_def split: if_splits)
  then have "set q' = set q \<union> {e \<in> set (c # cs). get_or 0 ind e = count_list (c # cs) e}"
    using IH by (auto split: if_splits)
  moreover have "fmlookup ind' i = map_option (\<lambda>n. n - count_list (c # cs) i) (fmlookup ind i)"
    using IH n by auto
  ultimately show ?case by simp
qed

subsection \<open>The loop invariant\<close>

text \<open>
  Every in-degree is the number of dependencies not yet visited; an item is visited or queued
  exactly when all its dependencies are visited; and everything visited or queued is
  resolvable.
\<close>

definition worklist_inv ::
  "plan_item list \<Rightarrow> (string, nat) fmap \<Rightarrow> string list \<Rightarrow> string set \<Rightarrow> bool" where
  "worklist_inv items ind queue visited \<longleftrightarrow>
     (\<forall>i. fmlookup ind i =
        (if i \<in> known_ids items
         then Some (length (filter (\<lambda>d. d \<notin> visited) (deps_of items i))) else None)) \<and>
     (\<forall>i \<in> known_ids items.
        set (deps_of items i) \<subseteq> visited \<longleftrightarrow> i \<in> visited \<union> set queue) \<and>
     visited \<union> set queue \<subseteq> known_ids items \<and>
     (\<forall>i \<in> visited \<union> set queue. resolvable (deps_of items) i)"

lemma filter_not_insert:
  "x \<notin> V \<Longrightarrow> length (filter (\<lambda>d. d \<notin> insert x V) ds) = length (filter (\<lambda>d. d \<notin> V) ds) - count_list ds x
    \<and> count_list ds x \<le> length (filter (\<lambda>d. d \<notin> V) ds)"
  by (induction ds) auto

lemma set_butlast_last: "q \<noteq> [] \<Longrightarrow> set q = insert (last q) (set (butlast q))"
  by (cases q rule: rev_cases) auto

lemma worklist_inv_skip:
  assumes "worklist_inv items ind queue visited" and "queue \<noteq> []" and "last queue \<in> visited"
  shows "worklist_inv items ind (butlast queue) visited"
proof -
  have "visited \<union> set queue = visited \<union> set (butlast queue)"
    using set_butlast_last [OF assms(2)] assms(3) by auto
  with assms(1) show ?thesis unfolding worklist_inv_def by (elim conjE, intro conjI) simp_all
qed

lemma worklist_inv_visit:
  assumes inv: "worklist_inv items ind queue visited"
    and ne: "queue \<noteq> []" and new: "last queue \<notin> visited"
    and dep: "\<And>c. count_list children c = count_list (deps_of items c) (last queue)"
    and relax: "foldl relax_child (ind, butlast queue) children = (ind', queue')"
  shows "worklist_inv items ind' queue' (insert (last queue) visited)"
proof -
  let ?x = "last queue" and ?V = "insert (last queue) visited" and ?D = "deps_of items"
  from inv have look: "\<And>i. fmlookup ind i = (if i \<in> known_ids items
      then Some (length (filter (\<lambda>d. d \<notin> visited) (?D i))) else None)"
    and full: "\<And>i. i \<in> known_ids items \<Longrightarrow> set (?D i) \<subseteq> visited \<longleftrightarrow> i \<in> visited \<union> set queue"
    and sub: "visited \<union> set queue \<subseteq> known_ids items"
    and res: "\<And>i. i \<in> visited \<union> set queue \<Longrightarrow> resolvable ?D i"
    by (auto simp: worklist_inv_def)
  have queue: "set queue = insert ?x (set (butlast queue))" using ne by (rule set_butlast_last)
  have child: "c \<in> set children \<longleftrightarrow> ?x \<in> set (?D c)" for c
    using dep [of c] by (metis count_list_0_iff)
  have child_known: "c \<in> known_ids items" if "c \<in> set children" for c
  proof -
    from that child have "?x \<in> set (?D c)" by blast
    then show ?thesis by (auto simp: set_deps_of known_ids_def)
  qed
  have pre: "\<forall>c \<in> set children. \<exists>n. fmlookup ind c = Some n \<and> count_list children c \<le> n"
    using look child_known filter_not_insert [OF new] dep by simp
  note step = relax_children [OF relax pre]
  have look': "fmlookup ind' i = (if i \<in> known_ids items
      then Some (length (filter (\<lambda>d. d \<notin> ?V) (?D i))) else None)" for i
    using step [of i] look [of i] filter_not_insert [OF new, of "?D i"] dep [of i] by simp
  have pushed: "{c \<in> set children. get_or 0 ind c = count_list children c} =
      {c \<in> set children. set (?D c) \<subseteq> ?V}" (is "?P = ?Q")
  proof (rule Collect_cong, rule conj_cong [OF refl])
    fix c assume c: "c \<in> set children"
    have "get_or 0 ind c = length (filter (\<lambda>d. d \<notin> visited) (?D c))"
      using look [of c] child_known [OF c] by (simp add: get_or_def)
    then have "get_or 0 ind c = count_list children c \<longleftrightarrow> length (filter (\<lambda>d. d \<notin> ?V) (?D c)) = 0"
      using filter_not_insert [OF new, of "?D c"] dep [of c] by simp linarith
    also have "\<dots> \<longleftrightarrow> set (?D c) \<subseteq> ?V" by (auto simp: filter_empty_conv)
    finally show "get_or 0 ind c = count_list children c \<longleftrightarrow> set (?D c) \<subseteq> ?V" .
  qed
  have queue': "set queue' = set (butlast queue) \<union> {c \<in> set children. set (?D c) \<subseteq> ?V}"
    using step pushed by simp
  have full': "set (?D i) \<subseteq> ?V \<longleftrightarrow> i \<in> ?V \<union> set queue'" if i: "i \<in> known_ids items" for i
  proof (cases "?x \<in> set (?D i)")
    case True
    then have "i \<notin> visited \<union> set queue" using full [OF i] new by blast
    with True show ?thesis using queue queue' child by auto
  next
    case False
    then have "set (?D i) \<subseteq> ?V \<longleftrightarrow> set (?D i) \<subseteq> visited" by auto
    with False show ?thesis using full [OF i] queue queue' child by auto
  qed
  have res': "resolvable ?D i" if "i \<in> ?V \<union> set queue'" for i
  proof (cases "i \<in> visited \<union> set queue")
    case False
    with that have "set (?D i) \<subseteq> ?V" using queue queue' by auto
    then have "\<forall>d \<in> set (?D i). resolvable ?D d" using res queue ne by (metis UnI1 UnI2 insertE last_in_set subsetD)
    then show ?thesis by (blast intro: resolvable.resolve)
  qed (rule res)
  have "?V \<union> set queue' \<subseteq> known_ids items" using sub queue queue' child_known by auto
  with look' full' res' show ?thesis unfolding worklist_inv_def by blast
qed

lemma worklist_result:
  assumes "worklist_inv items ind queue visited"
    and "\<And>d c. count_list (get_or [] dep d) c = count_list (deps_of items c) d"
  shows "worklist_inv items (fst (worklist dep ind queue visited)) []
    (snd (worklist dep ind queue visited))"
  using assms
proof (induction dep ind queue visited rule: worklist.induct)
  case (1 dep ind queue visited)
  show ?case
  proof (cases "queue = []")
    case True
    with 1 show ?thesis by (simp add: worklist.simps [of dep ind "[]"])
  next
    case ne: False
    show ?thesis
    proof (cases "last queue \<in> visited")
      case True
      from worklist_inv_skip [OF "1.prems"(1) ne True] 1(1) ne True "1.prems"(2)
      show ?thesis by (simp add: worklist.simps [of dep ind queue])
    next
      case False
      obtain ind' queue' where r:
        "foldl relax_child (ind, butlast queue) (get_or [] dep (last queue)) = (ind', queue')"
        by fastforce
      from worklist_inv_visit [OF "1.prems"(1) ne False "1.prems"(2) r] 1(2) [OF ne False refl]
        ne False "1.prems"(2) r
      show ?thesis by (simp add: worklist.simps [of dep ind queue])
    qed
  qed
qed

lemma worklist_inv_final:
  assumes "worklist_inv items ind [] visited"
  shows "visited = {i \<in> known_ids items. resolvable (deps_of items) i}"
proof -
  have "i \<in> visited" if "resolvable (deps_of items) i" and "i \<in> known_ids items" for i
    using that
  proof (induction rule: resolvable.induct)
    case (resolve i)
    then have "set (deps_of items i) \<subseteq> visited" using deps_of_known by blast
    with resolve.prems assms show ?case by (simp add: worklist_inv_def)
  qed
  with assms show ?thesis by (auto simp: worklist_inv_def)
qed

lemma cycle_item_ids_in_eq:
  assumes "iteration_order items order"
  shows "cycle_item_ids_in order items =
    sorted_list_of_set {i \<in> known_ids items. \<not> resolvable (deps_of items) i}"
proof -
  obtain ind dep where maps: "dependency_maps items = (ind, dep)" by fastforce
  note look = dependency_maps_correct [OF maps]
  let ?queue = "filter (\<lambda>i. fmlookup ind i = Some 0) order"
  have queue: "set ?queue = {i \<in> known_ids items. set (deps_of items i) = {}}"
    using assms look(1) by (auto simp: iteration_order_def)
  have "worklist_inv items ind ?queue {}"
    unfolding worklist_inv_def queue using look(1)
    by (auto intro: resolvable.resolve)
  note fin = worklist_result [OF this look(2)]
  obtain ind' visited where w: "worklist dep ind ?queue {} = (ind', visited)" by fastforce
  with fin have inv: "worklist_inv items ind' [] visited" by simp
  note vis = worklist_inv_final [OF inv]
  have "get_or 0 ind' i > 0 \<and> i \<notin> visited \<longleftrightarrow> \<not> resolvable (deps_of items) i"
    if "i \<in> known_ids items" for i
  proof -
    have "get_or 0 ind' i = length (filter (\<lambda>d. d \<notin> visited) (deps_of items i))"
      using inv that by (simp add: worklist_inv_def get_or_def)
    moreover have "set (deps_of items i) \<subseteq> visited \<longleftrightarrow> i \<in> visited"
      using inv that by (simp add: worklist_inv_def)
    ultimately show ?thesis using vis that by (auto simp: filter_empty_conv)
  qed
  then have "set (filter (\<lambda>i. get_or 0 ind' i > 0 \<and> i \<notin> visited) order) =
      {i \<in> known_ids items. \<not> resolvable (deps_of items) i}"
    using assms by (auto simp: iteration_order_def)
  then have "sort (filter (\<lambda>i. get_or 0 ind' i > 0 \<and> i \<notin> visited) order) =
      sorted_list_of_set {i \<in> known_ids items. \<not> resolvable (deps_of items) i}"
    using sort_distinct [of "filter (\<lambda>i. get_or 0 ind' i > 0 \<and> i \<notin> visited) order"] assms
    by (simp only: iteration_order_def distinct_filter simp_thms)
  then show ?thesis using maps w by (simp add: cycle_item_ids_in_def)
qed

end
