(* ===== verification/PlanSchedule.thy ===== *)
theory PlanSchedule
  imports PlanGraph
begin

text \<open>
  Scheduling on a plan (crates/jcode-plan/src/lib.rs): the summary of the graph, the runnable
  items in priority order, the assignment loads and affinities, the target of a control action
  and the reason an explicitly named task is blocked, with their correctness against the
  dependency graph.
\<close>

section \<open>The summary of a plan\<close>

record plan_graph_summary =
  gs_ready_ids :: "string list"
  gs_blocked_ids :: "string list"
  gs_active_ids :: "string list"
  gs_completed_ids :: "string list"
  gs_terminal_ids :: "string list"
  gs_unresolved_dependency_ids :: "string list"
  gs_cycle_ids :: "string list"

text \<open>The vectors and ordered sets the loop over the items fills.\<close>

record summary_acc =
  ac_ready :: "string list"
  ac_blocked :: "string list"
  ac_active :: "string list"
  ac_completed :: "string fset"
  ac_terminal :: "string fset"
  ac_unresolved :: "string fset"

definition summary_acc_empty :: summary_acc where
  "summary_acc_empty =
     \<lparr>ac_ready = [], ac_blocked = [], ac_active = [], ac_completed = {||}, ac_terminal = {||},
      ac_unresolved = {||}\<rparr>"

definition summarize_item ::
  "string set \<Rightarrow> string set \<Rightarrow> string set \<Rightarrow> summary_acc \<Rightarrow> plan_item \<Rightarrow> summary_acc" where
  "summarize_item known completed cycles acc item =
     (let missing = missing_dependencies item known;
          unresolved = unresolved_dependencies item known completed;
          cyclic = pi_id item \<in> cycles;
          status = pi_status item;
          blocker = (unresolved \<noteq> [] \<or> cyclic);
          ready = (is_runnable_status status \<and> missing = [] \<and> \<not> blocker);
          blocked = (\<not> ready \<and> \<not> is_terminal_status status \<and> \<not> is_active_status status \<and>
            (missing \<noteq> [] \<or> blocker \<or> status = ''blocked''))
      in \<lparr>ac_ready = (if ready then ac_ready acc @ [pi_id item] else ac_ready acc),
          ac_blocked = (if blocked then ac_blocked acc @ [pi_id item] else ac_blocked acc),
          ac_active = (if is_active_status status then ac_active acc @ [pi_id item] else ac_active acc),
          ac_completed = (if is_completed_status status then finsert (pi_id item) (ac_completed acc)
            else ac_completed acc),
          ac_terminal = (if is_terminal_status status then finsert (pi_id item) (ac_terminal acc)
            else ac_terminal acc),
          ac_unresolved = ac_unresolved acc |\<union>| fset_of_list missing\<rparr>)"

definition summarize_plan_graph :: "plan_item list \<Rightarrow> plan_graph_summary" where
  "summarize_plan_graph items =
     (let known = known_ids items;
          completed = completed_item_ids items;
          cycle_ids = cycle_item_ids items;
          acc = foldl (summarize_item known completed (set cycle_ids)) summary_acc_empty items
      in \<lparr>gs_ready_ids = sort (ac_ready acc),
          gs_blocked_ids = sort (ac_blocked acc),
          gs_active_ids = sort (ac_active acc),
          gs_completed_ids = sorted_list_of_fset (ac_completed acc),
          gs_terminal_ids = sorted_list_of_fset (ac_terminal acc),
          gs_unresolved_dependency_ids = sorted_list_of_fset (ac_unresolved acc),
          gs_cycle_ids = cycle_ids\<rparr>)"

section \<open>Selection\<close>

definition next_runnable_item_ids :: "plan_item list \<Rightarrow> nat option \<Rightarrow> string list" where
  "next_runnable_item_ids items limit =
     (let ready = set (gs_ready_ids (summarize_plan_graph items));
          ready_items = filter (\<lambda>item. pi_id item \<in> ready) items;
          ids = map pi_id (sort_key (\<lambda>item. (priority_rank (pi_priority item), pi_id item)) ready_items)
      in case limit of Some n \<Rightarrow> take n ids | None \<Rightarrow> ids)"

definition assignment_loads :: "versioned_plan \<Rightarrow> (string, nat) fmap" where
  "assignment_loads plan =
     foldl (\<lambda>loads item.
        if is_terminal_status (pi_status item) then loads
        else case pi_assigned_to item of
            Some assignee \<Rightarrow> entry_upd 0 (\<lambda>n. n + 1) assignee loads
          | None \<Rightarrow> loads) fmempty (vp_items plan)"

definition find_item :: "plan_item list \<Rightarrow> string \<Rightarrow> plan_item option" where
  "find_item items i = find (\<lambda>item. pi_id item = i) items"

definition next_unassigned_runnable_item_id :: "versioned_plan \<Rightarrow> string option" where
  "next_unassigned_runnable_item_id plan =
     find (\<lambda>i. case find_item (vp_items plan) i of
         Some item \<Rightarrow> pi_assigned_to item = None
       | None \<Rightarrow> False) (next_runnable_item_ids (vp_items plan) None)"

definition control_status_rank :: "string \<Rightarrow> nat" where
  "control_status_rank s =
     (if s \<in> {''running'', ''running_stale''} then 0
      else if s \<in> {''queued'', ''ready'', ''pending'', ''todo''} then 1
      else if s \<in> {''failed'', ''stopped'', ''crashed''} then 2
      else if s \<in> {''completed'', ''done''} then 3
      else 4)"

definition control_candidates ::
  "plan_item list \<Rightarrow> string \<Rightarrow> task_control_action \<Rightarrow> plan_item list" where
  "control_candidates items target action =
     sort_key (\<lambda>item. control_status_rank (pi_status item))
       (filter (\<lambda>item. task_control_action_allows_status action (pi_status item))
         (filter (\<lambda>item. pi_assigned_to item = Some target) items))"

definition task_control_target_item_id ::
  "plan_item list \<Rightarrow> string \<Rightarrow> task_control_action \<Rightarrow> string + string" where
  "task_control_target_item_id items target action =
     (case control_candidates items target action of
        [] \<Rightarrow> Inl (''No task assigned to '' @ quoted target @ '' can be '' @ task_control_as_str action
             @ ''. Provide task_id explicitly, or assign a task first.'')
      | [item] \<Rightarrow> Inr (pi_id item)
      | first # second # rest \<Rightarrow>
          if pi_status first \<noteq> pi_status second then Inr (pi_id first)
          else Inl (''Multiple tasks assigned to '' @ quoted target @ '' can be ''
             @ task_control_as_str action @ '': ''
             @ join '', '' (map pi_id (first # second # rest)) @ ''. Provide task_id explicitly.''))"

definition explicit_task_blocked_reason :: "versioned_plan \<Rightarrow> string \<Rightarrow> string option" where
  "explicit_task_blocked_reason plan task_id =
     (let items = vp_items plan;
          known = known_ids items;
          completed = completed_item_ids items;
          cycles = set (cycle_item_ids items)
      in case find_item items task_id of
           None \<Rightarrow> None
         | Some item \<Rightarrow>
             let missing = missing_dependencies item known in
             if missing \<noteq> [] then
               Some (''Task '' @ quoted (pi_id item) @ '' has missing dependencies: '' @ join '', '' missing)
             else let unresolved = unresolved_dependencies item known completed in
             if unresolved \<noteq> [] then
               Some (''Task '' @ quoted (pi_id item) @ '' is still blocked by: '' @ join '', '' unresolved)
             else if pi_id item \<in> cycles then
               Some (''Task '' @ quoted (pi_id item)
                 @ '' is part of a dependency cycle and is not runnable'')
             else None)"

definition newly_ready_item_ids :: "plan_item list \<Rightarrow> plan_item list \<Rightarrow> string list" where
  "newly_ready_item_ids before after =
     (let before_ready = set (gs_ready_ids (summarize_plan_graph before))
      in filter (\<lambda>i. i \<notin> before_ready) (gs_ready_ids (summarize_plan_graph after)))"

section \<open>Affinities\<close>

record assignment_affinities =
  af_loads :: "(string, nat) fmap"
  af_dependency_carryover :: "(string, nat) fmap"
  af_metadata_carryover :: "(string, nat) fmap"

definition carry_dependency ::
  "versioned_plan \<Rightarrow> (string, nat) fmap \<Rightarrow> string \<Rightarrow> (string, nat) fmap" where
  "carry_dependency plan carry dep =
     (let carry = (case Option.bind (find_item (vp_items plan) dep) pi_assigned_to of
            Some owner \<Rightarrow> entry_upd 0 (\<lambda>n. n + 1) owner carry
          | None \<Rightarrow> carry)
      in case Option.bind (fmlookup (vp_task_progress plan) dep) tp_assigned_session_id of
           Some owner \<Rightarrow> entry_upd 0 (\<lambda>n. n + 1) owner carry
         | None \<Rightarrow> carry)"

definition scope_overlap :: "plan_item \<Rightarrow> plan_item \<Rightarrow> nat" where
  "scope_overlap task item =
     length (filter (\<lambda>path. path \<in> set (pi_file_scope item)) (pi_file_scope task))"

definition carry_metadata ::
  "plan_item \<Rightarrow> (string, nat) fmap \<Rightarrow> plan_item \<Rightarrow> (string, nat) fmap" where
  "carry_metadata task carry item =
     (case pi_assigned_to item of
        None \<Rightarrow> carry
      | Some owner \<Rightarrow>
          if pi_id item = pi_id task then carry
          else
            let carry = (case (pi_subsystem task, pi_subsystem item) of
                  (Some left, Some right) \<Rightarrow>
                    if left = right then entry_upd 0 (\<lambda>n. n + 2) owner carry else carry
                | _ \<Rightarrow> carry)
            in if pi_file_scope task \<noteq> [] \<and> pi_file_scope item \<noteq> [] then
                 (let overlap = scope_overlap task item
                  in if overlap > 0 then entry_upd 0 (\<lambda>n. n + overlap) owner carry else carry)
               else carry)"

definition assignment_affinities_for_task ::
  "versioned_plan \<Rightarrow> string \<Rightarrow> string + assignment_affinities" where
  "assignment_affinities_for_task plan task_id =
     (case find_item (vp_items plan) task_id of
        None \<Rightarrow> Inl (''Task '' @ quoted task_id @ '' not found in swarm plan'')
      | Some task \<Rightarrow>
          Inr \<lparr>af_loads = assignment_loads plan,
            af_dependency_carryover = foldl (carry_dependency plan) fmempty (pi_blocked_by task),
            af_metadata_carryover = foldl (carry_metadata task) fmempty (vp_items plan)\<rparr>)"

section \<open>What the loop collects\<close>

definition item_ready :: "plan_item list \<Rightarrow> plan_item \<Rightarrow> bool" where
  "item_ready items item \<longleftrightarrow>
     is_runnable_status (pi_status item) \<and>
     is_unblocked item (known_ids items) (completed_item_ids items) \<and>
     pi_id item \<notin> set (cycle_item_ids items)"

definition item_blocked :: "plan_item list \<Rightarrow> plan_item \<Rightarrow> bool" where
  "item_blocked items item \<longleftrightarrow>
     \<not> item_ready items item \<and> \<not> is_terminal_status (pi_status item) \<and>
     \<not> is_active_status (pi_status item) \<and>
     (\<not> is_unblocked item (known_ids items) (completed_item_ids items) \<or>
      pi_id item \<in> set (cycle_item_ids items) \<or> pi_status item = ''blocked'')"

lemma summarize_fold:
  assumes "known = known_ids all" and "completed = completed_item_ids all"
    and "cycles = set (cycle_item_ids all)"
  shows "foldl (summarize_item known completed cycles) acc items =
    \<lparr>ac_ready = ac_ready acc @ map pi_id (filter (item_ready all) items),
     ac_blocked = ac_blocked acc @ map pi_id (filter (item_blocked all) items),
     ac_active = ac_active acc
       @ map pi_id (filter (\<lambda>item. is_active_status (pi_status item)) items),
     ac_completed = ac_completed acc
       |\<union>| fset_of_list (map pi_id (filter (\<lambda>item. is_completed_status (pi_status item)) items)),
     ac_terminal = ac_terminal acc
       |\<union>| fset_of_list (map pi_id (filter (\<lambda>item. is_terminal_status (pi_status item)) items)),
     ac_unresolved = ac_unresolved acc
       |\<union>| fset_of_list (concat (map (\<lambda>item. missing_dependencies item known) items))\<rparr>"
proof (induction items arbitrary: acc)
  case Nil
  show ?case by simp
next
  case (Cons item items)
  have "summarize_item known completed cycles acc item =
    \<lparr>ac_ready = (if item_ready all item then ac_ready acc @ [pi_id item] else ac_ready acc),
     ac_blocked = (if item_blocked all item then ac_blocked acc @ [pi_id item] else ac_blocked acc),
     ac_active = (if is_active_status (pi_status item) then ac_active acc @ [pi_id item]
       else ac_active acc),
     ac_completed = (if is_completed_status (pi_status item)
       then finsert (pi_id item) (ac_completed acc) else ac_completed acc),
     ac_terminal = (if is_terminal_status (pi_status item)
       then finsert (pi_id item) (ac_terminal acc) else ac_terminal acc),
     ac_unresolved = ac_unresolved acc |\<union>| fset_of_list (missing_dependencies item known)\<rparr>"
    unfolding summarize_item_def Let_def item_ready_def item_blocked_def is_unblocked_def assms
    by (intro summary_acc.equality) auto
  then show ?case by (simp add: Cons.IH funion_assoc [symmetric])
qed

lemma summary_simps:
  "gs_ready_ids (summarize_plan_graph items) = sort (map pi_id (filter (item_ready items) items))"
  "gs_blocked_ids (summarize_plan_graph items) = sort (map pi_id (filter (item_blocked items) items))"
  "gs_active_ids (summarize_plan_graph items) =
     sort (map pi_id (filter (\<lambda>item. is_active_status (pi_status item)) items))"
  "set (gs_completed_ids (summarize_plan_graph items)) =
     pi_id ` {item \<in> set items. is_completed_status (pi_status item)}"
  "set (gs_terminal_ids (summarize_plan_graph items)) =
     pi_id ` {item \<in> set items. is_terminal_status (pi_status item)}"
  "set (gs_unresolved_dependency_ids (summarize_plan_graph items)) =
     (\<Union>item \<in> set items. set (missing_dependencies item (known_ids items)))"
  "gs_cycle_ids (summarize_plan_graph items) = cycle_item_ids items"
  by (simp_all add: summarize_plan_graph_def Let_def summarize_fold summary_acc_empty_def
      fset_of_list.rep_eq Int_def conj_commute)

lemma iteration_order_default: "iteration_order items (remdups (map pi_id items))"
  by (simp add: iteration_order_def known_ids_def)

lemma set_cycle_item_ids:
  "set (cycle_item_ids items) = {i \<in> known_ids items. reaches_cycle (deps_of items) i}"
  using plan_deps.resolvable_iff
  by (auto simp: cycle_item_ids_def cycle_item_ids_in_eq [OF iteration_order_default])

lemma completed_known: "completed_item_ids items \<subseteq> known_ids items"
  by (auto simp: completed_item_ids_def known_ids_def)

lemma unblocked_iff:
  "is_unblocked item (known_ids items) (completed_item_ids items) \<longleftrightarrow>
     set (pi_blocked_by item) \<subseteq> completed_item_ids items"
  using completed_known [of items]
  by (auto simp: is_unblocked_def missing_dependencies_def unresolved_dependencies_def
      filter_empty_conv)

lemma item_ready_iff:
  "item \<in> set items \<Longrightarrow> item_ready items item \<longleftrightarrow>
     is_runnable_status (pi_status item) \<and> set (pi_blocked_by item) \<subseteq> completed_item_ids items \<and>
     \<not> reaches_cycle (deps_of items) (pi_id item)"
  unfolding item_ready_def unblocked_iff set_cycle_item_ids by (auto simp: known_ids_def)

lemma set_ready:
  "set (gs_ready_ids (summarize_plan_graph items)) = pi_id ` {item \<in> set items. item_ready items item}"
  by (simp add: summary_simps)

lemma distinct_id_eq:
  "distinct (map pi_id items) \<Longrightarrow> x \<in> set items \<Longrightarrow> y \<in> set items \<Longrightarrow> pi_id x = pi_id y \<Longrightarrow> x = y"
  by (metis distinct_map inj_onD)

lemma find_item_distinct:
  "distinct (map pi_id items) \<Longrightarrow> item \<in> set items \<Longrightarrow> find_item items (pi_id item) = Some item"
  unfolding find_item_def by (induction items) (auto simp: image_iff)

lemma find_item_Some: "find_item items i = Some item \<Longrightarrow> item \<in> set items \<and> pi_id item = i"
  unfolding find_item_def by (auto simp: find_Some_iff)

lemma completed_distinct:
  "distinct (map pi_id items) \<Longrightarrow> item \<in> set items \<Longrightarrow>
     pi_id item \<in> completed_item_ids items \<longleftrightarrow> is_completed_status (pi_status item)"
  by (auto simp: completed_item_ids_def dest: distinct_id_eq)

lemma deps_of_distinct:
  "distinct (map pi_id items) \<Longrightarrow> item \<in> set items \<Longrightarrow>
     set (deps_of items (pi_id item)) = set (pi_blocked_by item) \<inter> known_ids items"
  by (auto simp: set_deps_of dest: distinct_id_eq)

end
