(* ===== verification/PlanProperties.thy ===== *)
theory PlanProperties
  imports PlanSchedule
begin

text \<open>
  The properties of the plan crate: the cycle search, the ready items, progress, the selection
  order, the agreement of the explicit query with the summary, control targets, unlocking by
  completion, loads and affinities; each with a witness at a concrete plan.
\<close>

section \<open>Sample plans for the witnesses\<close>

definition sample_item :: "string \<Rightarrow> string \<Rightarrow> string \<Rightarrow> string list \<Rightarrow> string option \<Rightarrow> plan_item" where
  "sample_item i status priority deps assigned =
     \<lparr>pi_content = i, pi_status = status, pi_priority = priority, pi_id = i, pi_subsystem = None,
      pi_file_scope = [], pi_blocked_by = deps, pi_assigned_to = assigned\<rparr>"

lemma sample_item_simps [simp]:
  "pi_id (sample_item i s p d a) = i" "pi_status (sample_item i s p d a) = s"
  "pi_priority (sample_item i s p d a) = p" "pi_blocked_by (sample_item i s p d a) = d"
  "pi_assigned_to (sample_item i s p d a) = a" "pi_file_scope (sample_item i s p d a) = []"
  "pi_subsystem (sample_item i s p d a) = None"
  by (simp_all add: sample_item_def)

definition cyclic_plan :: "plan_item list" where
  "cyclic_plan =
     [sample_item ''a'' ''queued'' ''high'' [''b''] None, sample_item ''b'' ''queued'' ''low'' [''a''] None,
      sample_item ''c'' ''queued'' ''high'' [''a''] None, sample_item ''d'' ''queued'' ''high'' [] None]"

definition chain_plan :: "plan_item list" where
  "chain_plan =
     [sample_item ''a'' ''running'' ''high'' [] (Some ''w1''),
      sample_item ''b'' ''queued'' ''low'' [''a''] (Some ''w2''),
      sample_item ''e'' ''queued'' ''low'' [] None]"

lemmas sample_plans = cyclic_plan_def chain_plan_def

lemma status_eval [simp]:
  "is_runnable_status ''queued''" "\<not> is_runnable_status ''running''"
  "\<not> is_completed_status ''queued''" "\<not> is_completed_status ''running''" "is_completed_status ''done''"
  by (simp_all add: status_defs)

lemma chain_plan_acyclic:
  "\<not> reaches_cycle (deps_of chain_plan) ''a''" "\<not> reaches_cycle (deps_of chain_plan) ''b''"
  "\<not> reaches_cycle (deps_of chain_plan) ''e''"
proof -
  have a: "resolvable (deps_of chain_plan) ''a''"
    by (rule resolvable.resolve) (simp add: set_deps_of chain_plan_def)
  have e: "resolvable (deps_of chain_plan) ''e''"
    by (rule resolvable.resolve) (simp add: set_deps_of chain_plan_def)
  have "resolvable (deps_of chain_plan) ''b''"
    by (rule resolvable.resolve) (use a in \<open>auto simp: set_deps_of chain_plan_def\<close>)
  with a e show "\<not> reaches_cycle (deps_of chain_plan) ''a''"
    "\<not> reaches_cycle (deps_of chain_plan) ''b''" "\<not> reaches_cycle (deps_of chain_plan) ''e''"
    by (blast dest: resolvable_no_cycle)+
qed

section \<open>The cycle search\<close>

text \<open>
  Property C1. Whatever order the in-degree hash map is iterated in, the worklist returns the
  sorted list, without repetitions, of exactly the ids from which a dependency cycle can be
  reached along known dependencies.
\<close>

theorem cycle_item_ids_correct:
  assumes "iteration_order items order"
  shows "sorted (cycle_item_ids_in order items) \<and> distinct (cycle_item_ids_in order items) \<and>
    set (cycle_item_ids_in order items) =
      {i \<in> known_ids items. reaches_cycle (deps_of items) i}"
  using plan_deps.resolvable_iff by (auto simp: cycle_item_ids_in_eq [OF assms])

lemma cyclic_plan_order: "iteration_order cyclic_plan [''d'', ''b'', ''a'', ''c'']"
  by (auto simp: iteration_order_def known_ids_def cyclic_plan_def)

theorem cycle_item_ids_correct_witness:
  "iteration_order cyclic_plan [''d'', ''b'', ''a'', ''c''] \<and>
   set (cycle_item_ids_in [''d'', ''b'', ''a'', ''c''] cyclic_plan) =
     {i \<in> known_ids cyclic_plan. reaches_cycle (deps_of cyclic_plan) i}"
  using cyclic_plan_order cycle_item_ids_correct [OF cyclic_plan_order] by blast

section \<open>Ready and blocked items\<close>

text \<open>
  Property C2. An id is listed as ready exactly when an item with that id has a runnable
  status, all its dependencies are completed items of the plan, and no dependency cycle can be
  reached from it.
\<close>

theorem ready_ids_correct:
  "i \<in> set (gs_ready_ids (summarize_plan_graph items)) \<longleftrightarrow>
     (\<exists>item \<in> set items. pi_id item = i \<and> is_runnable_status (pi_status item) \<and>
        set (pi_blocked_by item) \<subseteq> completed_item_ids items \<and>
        \<not> reaches_cycle (deps_of items) i)"
  by (auto simp: set_ready item_ready_iff)

text \<open>
  With distinct ids the ready, blocked, active and terminal lists of the summary
  are pairwise disjoint, and every item whose status is runnable is either ready or blocked.
\<close>

theorem summary_partition:
  assumes "distinct (map pi_id items)"
  shows "set (gs_ready_ids (summarize_plan_graph items)) \<inter> set (gs_blocked_ids (summarize_plan_graph items)) = {}
    \<and> set (gs_ready_ids (summarize_plan_graph items)) \<inter> set (gs_active_ids (summarize_plan_graph items)) = {}
    \<and> set (gs_ready_ids (summarize_plan_graph items)) \<inter> set (gs_terminal_ids (summarize_plan_graph items)) = {}
    \<and> set (gs_blocked_ids (summarize_plan_graph items)) \<inter> set (gs_active_ids (summarize_plan_graph items)) = {}
    \<and> set (gs_blocked_ids (summarize_plan_graph items)) \<inter> set (gs_terminal_ids (summarize_plan_graph items)) = {}
    \<and> set (gs_active_ids (summarize_plan_graph items)) \<inter> set (gs_terminal_ids (summarize_plan_graph items)) = {}
    \<and> pi_id ` {item \<in> set items. is_runnable_status (pi_status item)} \<subseteq>
        set (gs_ready_ids (summarize_plan_graph items)) \<union> set (gs_blocked_ids (summarize_plan_graph items))"
proof -
  have disj: "pi_id ` {x \<in> set items. P x} \<inter> pi_id ` {x \<in> set items. Q x} = {}"
    if "\<And>x. x \<in> set items \<Longrightarrow> P x \<Longrightarrow> \<not> Q x" for P Q
    using that distinct_id_eq [OF assms] by (auto simp: image_iff)
  have rb: "\<not> item_blocked items x" if "item_ready items x" for x
    using that by (simp add: item_blocked_def)
  have rs: "\<not> is_active_status (pi_status x)" "\<not> is_terminal_status (pi_status x)"
    if "item_ready items x" for x using that by (auto simp: item_ready_def)
  have bs: "\<not> is_active_status (pi_status x)" "\<not> is_terminal_status (pi_status x)"
    if "item_blocked items x" for x using that by (auto simp: item_blocked_def)
  have cover: "item_ready items x \<or> item_blocked items x" if "is_runnable_status (pi_status x)" for x
    using that by (auto simp: item_ready_def item_blocked_def)
  then have "pi_id ` {x \<in> set items. is_runnable_status (pi_status x)} \<subseteq>
      pi_id ` {x \<in> set items. item_ready items x} \<union> pi_id ` {x \<in> set items. item_blocked items x}"
    by (auto simp: image_iff)
  then show ?thesis
    unfolding summary_simps set_sort set_map set_filter
    by (intro conjI disj) (use rb rs bs in auto)
qed

theorem summary_partition_witness:
  "distinct (map pi_id chain_plan) \<and>
   set (gs_ready_ids (summarize_plan_graph chain_plan)) \<inter> set (gs_active_ids (summarize_plan_graph chain_plan)) = {}"
proof -
  have d: "distinct (map pi_id chain_plan)" by (simp add: chain_plan_def)
  then show ?thesis using summary_partition [OF d] by blast
qed

section \<open>Progress\<close>

text \<open>
  Property C3. No deadlock: in a plan with distinct ids and no missing dependency, below every
  unfinished item from which no cycle is reachable there is an unfinished item, reached along
  dependencies, whose own dependencies are all completed; it is listed as ready unless its
  status is not a runnable one (it is already running, has failed, or is marked blocked).
\<close>

theorem plan_progress:
  assumes ids: "distinct (map pi_id items)"
    and known: "\<forall>item \<in> set items. set (pi_blocked_by item) \<subseteq> known_ids items"
    and item: "item \<in> set items" "\<not> is_completed_status (pi_status item)"
    and acyclic: "\<not> reaches_cycle (deps_of items) (pi_id item)"
  shows "\<exists>j \<in> set items. (pi_id item, pi_id j) \<in> (dep_edges (deps_of items))\<^sup>* \<and>
    \<not> is_completed_status (pi_status j) \<and> set (pi_blocked_by j) \<subseteq> completed_item_ids items \<and>
    (is_runnable_status (pi_status j) \<longrightarrow> pi_id j \<in> set (gs_ready_ids (summarize_plan_graph items)))"
proof -
  have node: "pi_id item \<in> known_ids items" using item by (simp add: known_ids_def)
  with acyclic have "resolvable (deps_of items) (pi_id item)"
    by (simp add: plan_deps.resolvable_iff)
  moreover have "pi_id item \<notin> completed_item_ids items"
    using completed_distinct [OF ids item(1)] item(2) by simp
  ultimately obtain k where k: "k \<notin> completed_item_ids items" "resolvable (deps_of items) k"
    "set (deps_of items k) \<subseteq> completed_item_ids items"
    "(pi_id item, k) \<in> (dep_edges (deps_of items))\<^sup>*"
    using resolvable_frontier [of "deps_of items" "pi_id item" "\<lambda>i. i \<in> completed_item_ids items"]
    by blast
  have "k \<in> known_ids items"
    using k(4) node deps_of_known [of items] by (induction rule: rtrancl_induct) auto
  then obtain j where j: "j \<in> set items" "pi_id j = k" by (auto simp: known_ids_def)
  have "set (pi_blocked_by j) \<subseteq> completed_item_ids items"
    using k(3) known j deps_of_distinct [OF ids j(1)] by auto
  moreover have "\<not> is_completed_status (pi_status j)"
    using k(1) completed_distinct [OF ids j(1)] j(2) by simp
  moreover have "\<not> reaches_cycle (deps_of items) (pi_id j)"
    using k(2) j(2) resolvable_no_cycle by metis
  ultimately have "is_runnable_status (pi_status j) \<longrightarrow> item_ready items j"
    by (simp add: item_ready_iff j(1))
  then have "is_runnable_status (pi_status j) \<longrightarrow>
      pi_id j \<in> set (gs_ready_ids (summarize_plan_graph items))"
    using j(1) by (auto simp: set_ready)
  with j k(4) \<open>set (pi_blocked_by j) \<subseteq> completed_item_ids items\<close> \<open>\<not> is_completed_status (pi_status j)\<close>
  show ?thesis by (intro bexI [of _ j]) auto
qed

lemma chain_plan_b:
  "sample_item ''b'' ''queued'' ''low'' [''a''] (Some ''w2'') \<in> set chain_plan"
  "distinct (map pi_id chain_plan)"
  "\<forall>item \<in> set chain_plan. set (pi_blocked_by item) \<subseteq> known_ids chain_plan"
  by (auto simp: chain_plan_def known_ids_def)

theorem plan_progress_witness:
  "\<exists>j \<in> set chain_plan. (''b'', pi_id j) \<in> (dep_edges (deps_of chain_plan))\<^sup>* \<and>
     \<not> is_completed_status (pi_status j) \<and> set (pi_blocked_by j) \<subseteq> completed_item_ids chain_plan \<and>
     (is_runnable_status (pi_status j) \<longrightarrow> pi_id j \<in> set (gs_ready_ids (summarize_plan_graph chain_plan)))"
  using plan_progress [OF chain_plan_b(2) chain_plan_b(3) chain_plan_b(1)] chain_plan_acyclic by simp

section \<open>Selection\<close>

text \<open>
  With distinct ids, the runnable list without a limit is exactly the ready items,
  each once, in increasing order of (priority rank, id); with a limit it is a prefix of it.
\<close>

theorem next_runnable_correct:
  assumes ids: "distinct (map pi_id items)"
  shows "\<exists>sel. next_runnable_item_ids items None = map pi_id sel \<and> distinct sel \<and>
    set sel = {item \<in> set items. item_ready items item} \<and>
    sorted (map (\<lambda>item. (priority_rank (pi_priority item), pi_id item)) sel) \<and>
    next_runnable_item_ids items (Some n) = map pi_id (take n sel)"
proof -
  let ?ready = "set (gs_ready_ids (summarize_plan_graph items))"
  let ?sel = "sort_key (\<lambda>item. (priority_rank (pi_priority item), pi_id item))
      (filter (\<lambda>item. pi_id item \<in> ?ready) items)"
  have "{item \<in> set items. pi_id item \<in> ?ready} = {item \<in> set items. item_ready items item}"
    using distinct_id_eq [OF ids] by (auto simp: set_ready)
  then show ?thesis
    using ids by (intro exI [of _ ?sel])
      (simp add: next_runnable_item_ids_def Let_def take_map distinct_map)
qed

theorem next_runnable_correct_witness:
  "\<exists>sel. next_runnable_item_ids chain_plan None = map pi_id sel \<and> distinct sel \<and>
    set sel = {item \<in> set chain_plan. item_ready chain_plan item} \<and>
    sorted (map (\<lambda>item. (priority_rank (pi_priority item), pi_id item)) sel) \<and>
    next_runnable_item_ids chain_plan (Some 1) = map pi_id (take 1 sel)"
  by (rule next_runnable_correct [OF chain_plan_b(2)])

text \<open>
  What the scheduler hands out next is a ready item that nobody is assigned to,
  and it hands out nothing only if every ready item is assigned.
\<close>

theorem next_unassigned_correct:
  assumes ids: "distinct (map pi_id (vp_items plan))"
  shows "case next_unassigned_runnable_item_id plan of
      Some i \<Rightarrow> \<exists>item \<in> set (vp_items plan). pi_id item = i \<and> item_ready (vp_items plan) item \<and>
        pi_assigned_to item = None
    | None \<Rightarrow> \<forall>item \<in> set (vp_items plan).
        item_ready (vp_items plan) item \<longrightarrow> pi_assigned_to item \<noteq> None"
proof -
  let ?items = "vp_items plan"
  obtain sel where sel: "next_runnable_item_ids ?items None = map pi_id sel"
    "set sel = {item \<in> set ?items. item_ready ?items item}"
    using next_runnable_correct [OF ids] by blast
  have look: "find_item ?items (pi_id item) = Some item" if "item \<in> set sel" for item
    using that sel(2) find_item_distinct [OF ids] by blast
  show ?thesis
  proof (cases "next_unassigned_runnable_item_id plan")
    case None
    then have "\<forall>item \<in> set sel. pi_assigned_to item \<noteq> None"
      using look by (auto simp: next_unassigned_runnable_item_id_def sel(1) find_None_iff)
    with None sel(2) show ?thesis by auto
  next
    case (Some i)
    then have "\<exists>item \<in> set sel. pi_id item = i \<and> pi_assigned_to item = None"
      using look by (fastforce simp: next_unassigned_runnable_item_id_def sel(1) find_Some_iff
          split: option.splits)
    with Some sel(2) show ?thesis by auto
  qed
qed

definition sample_plan :: versioned_plan where
  "sample_plan = versioned_plan_new\<lparr>vp_items := chain_plan, vp_version := 3\<rparr>"

lemma sample_plan_items [simp]: "vp_items sample_plan = chain_plan"
  by (simp add: sample_plan_def)

lemma chain_plan_ready_e: "item_ready chain_plan (sample_item ''e'' ''queued'' ''low'' [] None)"
  using chain_plan_acyclic(3) by (subst item_ready_iff) (simp_all add: chain_plan_def)

theorem next_unassigned_correct_witness:
  "next_unassigned_runnable_item_id sample_plan \<noteq> None"
proof -
  have "distinct (map pi_id (vp_items sample_plan))" using chain_plan_b(2) by simp
  from next_unassigned_correct [OF this] chain_plan_ready_e show ?thesis
    by (auto simp: chain_plan_def split: option.splits)
qed

section \<open>The explicit query agrees with the summary\<close>

text \<open>
  For an item with a runnable status in a plan with distinct ids, the query about an
  explicitly named task reports no reason exactly when the summary lists the task as ready.
\<close>

theorem blocked_reason_agrees:
  assumes ids: "distinct (map pi_id (vp_items plan))" and item: "item \<in> set (vp_items plan)"
    and run: "is_runnable_status (pi_status item)"
  shows "explicit_task_blocked_reason plan (pi_id item) = None \<longleftrightarrow>
    pi_id item \<in> set (gs_ready_ids (summarize_plan_graph (vp_items plan)))"
proof -
  have "explicit_task_blocked_reason plan (pi_id item) = None \<longleftrightarrow> item_ready (vp_items plan) item"
    using run by (auto simp: explicit_task_blocked_reason_def Let_def find_item_distinct [OF ids item]
        item_ready_def is_unblocked_def)
  also have "\<dots> \<longleftrightarrow> pi_id item \<in> set (gs_ready_ids (summarize_plan_graph (vp_items plan)))"
    using item distinct_id_eq [OF ids item] by (auto simp: set_ready)
  finally show ?thesis .
qed

theorem blocked_reason_agrees_witness:
  "explicit_task_blocked_reason sample_plan ''b'' = None \<longleftrightarrow>
    ''b'' \<in> set (gs_ready_ids (summarize_plan_graph chain_plan))"
  using blocked_reason_agrees [of sample_plan "sample_item ''b'' ''queued'' ''low'' [''a''] (Some ''w2'')"]
    chain_plan_b by simp

section \<open>Control targets\<close>

text \<open>
  When a control action resolves to a task, the task is assigned to the session,
  the action is allowed in its status, no other candidate has a smaller status rank, and the next
  candidate, if there is one, has another status; resolution fails exactly when the session has
  no candidate or the two best ones have the same status.
\<close>

theorem task_control_target_correct:
  "(case task_control_target_item_id items target action of
      Inr i \<Rightarrow> \<exists>item rest. control_candidates items target action = item # rest \<and> pi_id item = i \<and>
        item \<in> set items \<and> pi_assigned_to item = Some target \<and>
        task_control_action_allows_status action (pi_status item) \<and>
        (case rest of [] \<Rightarrow> True | other # _ \<Rightarrow> pi_status other \<noteq> pi_status item) \<and>
        list_all (\<lambda>other. control_status_rank (pi_status item) \<le> control_status_rank (pi_status other)) rest
    | Inl _ \<Rightarrow> control_candidates items target action = [] \<or>
        (\<exists>a b rest. control_candidates items target action = a # b # rest \<and> pi_status a = pi_status b))"
proof -
  let ?cs = "control_candidates items target action"
  have mem: "x \<in> set items \<and> pi_assigned_to x = Some target \<and>
      task_control_action_allows_status action (pi_status x)" if "x \<in> set ?cs" for x
    using that by (simp add: control_candidates_def)
  have sorted: "sorted (map (\<lambda>item. control_status_rank (pi_status item)) ?cs)"
    by (simp add: control_candidates_def)
  show ?thesis
  proof (cases ?cs)
    case Nil
    then show ?thesis by (simp add: task_control_target_item_id_def)
  next
    case (Cons a as)
    have "list_all (\<lambda>other. control_status_rank (pi_status a) \<le> control_status_rank (pi_status other)) as"
      using sorted by (simp add: Cons list_all_iff)
    with Cons mem [of a] show ?thesis
      by (cases as) (auto simp: task_control_target_item_id_def)
  qed
qed

text \<open>
  An item whose status is the terminal \<^verbatim>\<open>completed\<close> can still be reassigned, replaced
  and salvaged: those actions are refused only in status \<^verbatim>\<open>done\<close>, although both count as completed
  for the dependency graph.
\<close>

theorem completed_task_reassignable:
  "is_completed_status status \<and> task_control_action_allows_status action status \<longleftrightarrow>
     status = ''completed'' \<and> action \<in> {Reassign, Replace, Salvage}"
  by (cases action) (auto simp: is_completed_status_def)

section \<open>Completing a task unlocks its dependents\<close>

definition with_status :: "string \<Rightarrow> string \<Rightarrow> plan_item list \<Rightarrow> plan_item list" where
  "with_status status i items =
     map (\<lambda>item. if pi_id item = i then item\<lparr>pi_status := status\<rparr> else item) items"

lemma with_status_ids [simp]: "map pi_id (with_status s i items) = map pi_id items"
  by (simp add: with_status_def)

lemma known_with_status [simp]: "known_ids (with_status s i items) = known_ids items"
  unfolding known_ids_def by (simp del: set_map add: with_status_ids)

lemma deps_in_with_status: "deps_in known (with_status s j items) = deps_in known items"
proof
  show "deps_in known (with_status s j items) i = deps_in known items i" for i
    by (induction items) (auto simp: with_status_def)
qed

lemma deps_of_with_status [simp]: "deps_of (with_status s j items) = deps_of items"
  by (simp add: deps_of_def deps_in_with_status)

lemma completed_with_done:
  "completed_item_ids (with_status ''done'' i items) =
     completed_item_ids items \<union> ({i} \<inter> known_ids items)"
  by (induction items)
    (auto simp: completed_item_ids_def known_ids_def with_status_def is_completed_status_def)

text \<open>
  When the last unfinished dependency of a runnable item completes, and the item is
  not caught in a cycle, the item is reported as newly ready.
\<close>

theorem completion_unlocks:
  assumes ids: "distinct (map pi_id items)" and item: "item \<in> set items"
    and run: "is_runnable_status (pi_status item)"
    and dep: "d \<in> set (pi_blocked_by item)" "d \<in> known_ids items" "d \<notin> completed_item_ids items"
    and rest: "set (pi_blocked_by item) \<subseteq> insert d (completed_item_ids items)"
    and acyclic: "\<not> reaches_cycle (deps_of items) (pi_id item)"
  shows "pi_id item \<in> set (newly_ready_item_ids items (with_status ''done'' d items))"
proof -
  let ?after = "with_status ''done'' d items"
  have "pi_id item \<noteq> d"
  proof
    assume "pi_id item = d"
    then have "(d, d) \<in> dep_edges (deps_of items)"
      using dep(1,2) deps_of_distinct [OF ids item] by simp
    then have "reaches_cycle (deps_of items) d" unfolding reaches_cycle_def by blast
    with \<open>pi_id item = d\<close> acyclic show False by simp
  qed
  then have item': "item \<in> set ?after" using item by (auto simp: with_status_def image_iff)
  then have "item_ready ?after item"
    using run rest acyclic dep(2) by (simp add: item_ready_iff completed_with_done)
  with item' have "pi_id item \<in> set (gs_ready_ids (summarize_plan_graph ?after))"
    by (simp add: set_ready)
  moreover have "pi_id item \<notin> set (gs_ready_ids (summarize_plan_graph items))"
    using dep(1,3) distinct_id_eq [OF ids item] by (auto simp: set_ready item_ready_iff)
  ultimately show ?thesis by (simp add: newly_ready_item_ids_def)
qed

theorem completion_unlocks_witness:
  "''b'' \<in> set (newly_ready_item_ids chain_plan (with_status ''done'' ''a'' chain_plan))"
proof -
  have "''a'' \<in> known_ids chain_plan" "''a'' \<notin> completed_item_ids chain_plan"
    by (auto simp: known_ids_def completed_item_ids_def chain_plan_def)
  then show ?thesis
    using completion_unlocks [OF chain_plan_b(2,1), of "''a''"] chain_plan_acyclic(2) by simp
qed

section \<open>Loads and affinities\<close>

lemma get_or_fold_score:
  fixes score :: "'x \<Rightarrow> nat"
  assumes "\<And>m x. get_or 0 (step m x) a = get_or 0 m a + score x"
  shows "get_or 0 (foldl step m xs) a = get_or 0 m a + sum_list (map score xs)"
  using assms by (induction xs arbitrary: m) (auto simp: add.assoc)

lemma sum_list_of_bool: "sum_list (map (\<lambda>x. of_bool (P x)) xs) = length (filter P xs)"
  by (induction xs) auto

text \<open>
  The load of an agent is the number of unfinished items assigned to it (failed,
  stopped and crashed items do not count).
\<close>

theorem assignment_loads_correct:
  "get_or 0 (assignment_loads plan) agent =
     length (filter (\<lambda>item. \<not> is_terminal_status (pi_status item) \<and> pi_assigned_to item = Some agent)
       (vp_items plan))"
  unfolding assignment_loads_def
  by (subst get_or_fold_score [where score = "\<lambda>item. of_bool (\<not> is_terminal_status (pi_status item) \<and>
        pi_assigned_to item = Some agent)"])
    (auto simp: get_or_entry_upd sum_list_of_bool split: option.splits)

definition dependency_owner :: "versioned_plan \<Rightarrow> string \<Rightarrow> string \<Rightarrow> nat" where
  "dependency_owner plan agent dep =
     of_bool (Option.bind (find_item (vp_items plan) dep) pi_assigned_to = Some agent) +
     of_bool (Option.bind (fmlookup (vp_task_progress plan) dep) tp_assigned_session_id = Some agent)"

definition metadata_score :: "plan_item \<Rightarrow> string \<Rightarrow> plan_item \<Rightarrow> nat" where
  "metadata_score task agent item =
     (if pi_assigned_to item = Some agent \<and> pi_id item \<noteq> pi_id task then
        (if pi_subsystem task \<noteq> None \<and> pi_subsystem task = pi_subsystem item then 2 else 0)
        + scope_overlap task item
      else 0)"

lemma carry_dependency_get:
  "get_or 0 (carry_dependency plan carry dep) agent =
     get_or 0 carry agent + dependency_owner plan agent dep"
  by (auto simp: carry_dependency_def dependency_owner_def Let_def get_or_entry_upd split: option.splits)

lemma scope_overlap_empty:
  "pi_file_scope task = [] \<or> pi_file_scope item = [] \<Longrightarrow> scope_overlap task item = 0"
  by (auto simp: scope_overlap_def)

lemma carry_metadata_get:
  "get_or 0 (carry_metadata task carry item) agent =
     get_or 0 carry agent + metadata_score task agent item"
  using scope_overlap_empty [of task item]
  by (auto simp: carry_metadata_def metadata_score_def Let_def get_or_entry_upd split: option.splits)

text \<open>
  The affinities of a task fail exactly when the plan has no such item; otherwise the
  dependency score of an agent adds one for each dependency assigned to it and one for each whose
  recorded progress names it, and the metadata score adds, over the other items assigned to it,
  two for the same subsystem and one for each shared file.
\<close>

theorem affinities_correct:
  "(case assignment_affinities_for_task plan task_id of
      Inl _ \<Rightarrow> find_item (vp_items plan) task_id = None
    | Inr af \<Rightarrow> \<exists>task. find_item (vp_items plan) task_id = Some task \<and>
        af_loads af = assignment_loads plan \<and>
        get_or 0 (af_dependency_carryover af) agent =
          sum_list (map (dependency_owner plan agent) (pi_blocked_by task)) \<and>
        get_or 0 (af_metadata_carryover af) agent =
          sum_list (map (metadata_score task agent) (vp_items plan)))"
  by (simp add: assignment_affinities_for_task_def
      get_or_fold_score [OF carry_dependency_get] get_or_fold_score [OF carry_metadata_get]
      split: option.splits)

end

