(* ===== verification/SwarmChannels.thy ===== *)
theory SwarmChannels
  imports Prelude
begin

text \<open>
  The bidirectional index of swarm channel subscriptions (crates/jcode-swarm-core/src/lib.rs,
  \<^verbatim>\<open>ChannelIndex\<close>): subscribe, unsubscribe, remove a session, list the members. The abstract
  contract of a registry is a set of (session, swarm, channel) triples; it is stated as a locale
  and the index is proved to implement it.
\<close>

section \<open>The registry interface\<close>

datatype ('s, 'w, 'c) registry_op = Subscribe 's 'w 'c | Unsubscribe 's 'w 'c | RemoveSession 's

fun spec_step :: "('s \<times> 'w \<times> 'c) set \<Rightarrow> ('s, 'w, 'c) registry_op \<Rightarrow> ('s \<times> 'w \<times> 'c) set" where
  "spec_step T (Subscribe s w c) = insert (s, w, c) T"
| "spec_step T (Unsubscribe s w c) = T - {(s, w, c)}"
| "spec_step T (RemoveSession s) = {t \<in> T. fst t \<noteq> s}"

locale subscription_registry =
  fixes empty_reg :: 'r
    and subscribe :: "'s \<Rightarrow> 'w \<Rightarrow> 'c \<Rightarrow> 'r \<Rightarrow> 'r"
    and unsubscribe :: "'s \<Rightarrow> 'w \<Rightarrow> 'c \<Rightarrow> 'r \<Rightarrow> 'r"
    and remove_session :: "'s \<Rightarrow> 'r \<Rightarrow> 'r"
    and triples :: "'r \<Rightarrow> ('s \<times> 'w \<times> 'c) set"
    and reg_inv :: "'r \<Rightarrow> bool"
  assumes inv_empty: "reg_inv empty_reg"
    and triples_empty: "triples empty_reg = {}"
    and inv_subscribe: "reg_inv r \<Longrightarrow> reg_inv (subscribe s w c r)"
    and triples_subscribe: "reg_inv r \<Longrightarrow> triples (subscribe s w c r) = insert (s, w, c) (triples r)"
    and inv_unsubscribe: "reg_inv r \<Longrightarrow> reg_inv (unsubscribe s w c r)"
    and triples_unsubscribe: "reg_inv r \<Longrightarrow> triples (unsubscribe s w c r) = triples r - {(s, w, c)}"
    and inv_remove: "reg_inv r \<Longrightarrow> reg_inv (remove_session s r)"
    and triples_remove: "reg_inv r \<Longrightarrow> triples (remove_session s r) = {t \<in> triples r. fst t \<noteq> s}"
    and triples_inj: "reg_inv r \<Longrightarrow> reg_inv r' \<Longrightarrow> triples r = triples r' \<Longrightarrow> r = r'"
begin

definition apply_op :: "'r \<Rightarrow> ('s, 'w, 'c) registry_op \<Rightarrow> 'r" where
  "apply_op r x = (case x of
      Subscribe s w c \<Rightarrow> subscribe s w c r
    | Unsubscribe s w c \<Rightarrow> unsubscribe s w c r
    | RemoveSession s \<Rightarrow> remove_session s r)"

lemma apply_op_inv: "reg_inv r \<Longrightarrow> reg_inv (apply_op r x)"
  by (cases x) (simp_all add: apply_op_def inv_subscribe inv_unsubscribe inv_remove)

lemma apply_op_triples: "reg_inv r \<Longrightarrow> triples (apply_op r x) = spec_step (triples r) x"
  by (cases x) (simp_all add: apply_op_def triples_subscribe triples_unsubscribe triples_remove)

lemma run_refines:
  "reg_inv r \<Longrightarrow> reg_inv (foldl apply_op r xs) \<and>
     triples (foldl apply_op r xs) = foldl spec_step (triples r) xs"
  by (induction xs arbitrary: r) (simp_all add: apply_op_inv apply_op_triples)

lemma subscribe_unsubscribe:
  "reg_inv r \<Longrightarrow> (s, w, c) \<notin> triples r \<Longrightarrow> unsubscribe s w c (subscribe s w c r) = r"
  by (rule triples_inj)
    (simp_all add: inv_subscribe inv_unsubscribe triples_subscribe triples_unsubscribe)

lemma remove_idem: "reg_inv r \<Longrightarrow> remove_session s (remove_session s r) = remove_session s r"
  by (rule triples_inj) (auto simp: inv_remove triples_remove)

end

section \<open>Two-level maps of member sets\<close>

type_synonym 'x two_level = "(string, (string, 'x fset) fmap) fmap"

definition cell :: "'x two_level \<Rightarrow> string \<Rightarrow> string \<Rightarrow> 'x fset" where
  "cell m k l = get_or {||} (get_or fmempty m k) l"

definition add_member :: "string \<Rightarrow> string \<Rightarrow> 'x \<Rightarrow> 'x two_level \<Rightarrow> 'x two_level" where
  "add_member k l x m = entry_upd fmempty (entry_upd {||} (finsert x) l) k m"

text \<open>
  Removing a member from one inner slot; an inner set that becomes empty is removed. Then the
  same for several inner slots of one outer key, whose map is removed if it is empty in the end.
\<close>

definition drop_from_slot :: "'x \<Rightarrow> (string, 'x fset) fmap \<Rightarrow> string \<Rightarrow> (string, 'x fset) fmap" where
  "drop_from_slot x subs l =
     (case fmlookup subs l of
        None \<Rightarrow> subs
      | Some members \<Rightarrow>
          let members = members |-| {|x|}
          in if members = {||} then fmdrop l subs else fmupd l members subs)"

definition drop_members :: "string \<Rightarrow> string list \<Rightarrow> 'x \<Rightarrow> 'x two_level \<Rightarrow> 'x two_level" where
  "drop_members k ls x m =
     (case fmlookup m k of
        None \<Rightarrow> m
      | Some subs \<Rightarrow>
          let subs = foldl (drop_from_slot x) subs ls
          in if subs = fmempty then fmdrop k m else fmupd k subs m)"

section \<open>The channel index\<close>

record channel_index =
  by_swarm_channel :: "string two_level"
  by_session :: "string two_level"

definition channel_index_default :: channel_index where
  "channel_index_default = \<lparr>by_swarm_channel = fmempty, by_session = fmempty\<rparr>"

definition subscribe :: "string \<Rightarrow> string \<Rightarrow> string \<Rightarrow> channel_index \<Rightarrow> channel_index" where
  "subscribe session_id swarm_id channel idx =
     \<lparr>by_swarm_channel = add_member swarm_id channel session_id (by_swarm_channel idx),
      by_session = add_member session_id swarm_id channel (by_session idx)\<rparr>"

definition unsubscribe :: "string \<Rightarrow> string \<Rightarrow> string \<Rightarrow> channel_index \<Rightarrow> channel_index" where
  "unsubscribe session_id swarm_id channel idx =
     \<lparr>by_swarm_channel = drop_members swarm_id [channel] session_id (by_swarm_channel idx),
      by_session = drop_members session_id [swarm_id] channel (by_session idx)\<rparr>"

text \<open>
  The entries of a hash map in some iteration order; the sorted order of the keys stands for it,
  and \<open>remove_session_any_order\<close> below shows that the order does not matter.
\<close>

definition subscription_entries :: "(string, string fset) fmap \<Rightarrow> (string \<times> string list) list" where
  "subscription_entries subs =
     map (\<lambda>w. (w, sorted_list_of_fset (get_or {||} subs w))) (sorted_list_of_fset (fmdom subs))"

definition drop_entries ::
  "string \<Rightarrow> (string \<times> string list) list \<Rightarrow> string two_level \<Rightarrow> string two_level" where
  "drop_entries session_id entries m =
     foldl (\<lambda>m (swarm_id, channels). drop_members swarm_id channels session_id m) m entries"

definition drop_everywhere :: "string \<Rightarrow> string list \<Rightarrow> string two_level \<Rightarrow> string two_level" where
  "drop_everywhere session_id swarm_ids m =
     foldl (\<lambda>m swarm_id. drop_members swarm_id
         (sorted_list_of_fset (fmdom (get_or fmempty m swarm_id))) session_id m) m swarm_ids"

definition remove_session :: "string \<Rightarrow> channel_index \<Rightarrow> channel_index" where
  "remove_session session_id idx =
     (case fmlookup (by_session idx) session_id of
        Some subs \<Rightarrow>
          \<lparr>by_swarm_channel =
             drop_entries session_id (subscription_entries subs) (by_swarm_channel idx),
           by_session = fmdrop session_id (by_session idx)\<rparr>
      | None \<Rightarrow>
          idx\<lparr>by_swarm_channel := drop_everywhere session_id
            (sorted_list_of_fset (fmdom (by_swarm_channel idx))) (by_swarm_channel idx)\<rparr>)"

definition members :: "string \<Rightarrow> string \<Rightarrow> channel_index \<Rightarrow> string list" where
  "members swarm_id channel idx = sorted_list_of_fset (cell (by_swarm_channel idx) swarm_id channel)"

definition channels_for_session :: "string \<Rightarrow> string \<Rightarrow> channel_index \<Rightarrow> string list" where
  "channels_for_session session_id swarm_id idx =
     sorted_list_of_fset (cell (by_session idx) session_id swarm_id)"

section \<open>Correctness\<close>

text \<open>A map is tight when it keeps no empty inner map and no empty set.\<close>

definition tight :: "'x two_level \<Rightarrow> bool" where
  "tight m \<longleftrightarrow> (\<forall>k subs. fmlookup m k = Some subs \<longrightarrow>
     subs \<noteq> fmempty \<and> (\<forall>l xs. fmlookup subs l = Some xs \<longrightarrow> xs \<noteq> {||}))"

lemma cell_add: "cell (add_member k l x m) a b =
    (if a = k \<and> b = l then finsert x (cell m a b) else cell m a b)"
  by (auto simp: cell_def add_member_def get_or_entry_upd)

lemma fmupd_neq_empty [simp]: "fmupd k v m \<noteq> fmempty"
  by (metis fmempty_lookup fmupd_lookup option.distinct(1))

lemma tight_add: "tight m \<Longrightarrow> tight (add_member k l x m)"
  by (auto simp: tight_def add_member_def entry_upd_def split: option.splits if_splits)

lemma get_or_drop_from_slot:
  "get_or {||} (drop_from_slot x subs l) b =
     (if b = l then get_or {||} subs b |-| {|x|} else get_or {||} subs b)"
  by (auto simp: drop_from_slot_def get_or_def Let_def split: option.splits)

lemma get_or_drop_slots:
  "get_or {||} (foldl (drop_from_slot x) subs ls) b =
     (if b \<in> set ls then get_or {||} subs b |-| {|x|} else get_or {||} subs b)"
  by (induction ls arbitrary: subs) (auto simp: get_or_drop_from_slot)

lemma cell_drop: "cell (drop_members k ls x m) a b =
    (if a = k \<and> b \<in> set ls then cell m a b |-| {|x|} else cell m a b)"
proof (cases "fmlookup m k")
  case None
  then show ?thesis by (auto simp: cell_def drop_members_def get_or_def)
next
  case (Some subs)
  let ?subs = "foldl (drop_from_slot x) subs ls"
  have "cell (drop_members k ls x m) a b =
      (if a = k then get_or {||} ?subs b else cell m a b)"
    using Some by (auto simp: cell_def drop_members_def get_or_def [of fmempty] Let_def)
  then show ?thesis using Some by (auto simp: get_or_drop_slots cell_def get_or_def [of fmempty])
qed

definition no_empty_slot :: "(string, 'x fset) fmap \<Rightarrow> bool" where
  "no_empty_slot subs \<longleftrightarrow> (\<forall>l xs. fmlookup subs l = Some xs \<longrightarrow> xs \<noteq> {||})"

lemma no_empty_drop_slots: "no_empty_slot subs \<Longrightarrow> no_empty_slot (foldl (drop_from_slot x) subs ls)"
proof (induction ls arbitrary: subs)
  case (Cons l ls)
  have "no_empty_slot (drop_from_slot x subs l)"
    using Cons.prems by (auto simp: no_empty_slot_def drop_from_slot_def Let_def split: option.splits if_splits)
  then show ?case by (simp add: Cons.IH)
qed simp

lemma tight_drop: "tight m \<Longrightarrow> tight (drop_members k ls x m)"
proof (cases "fmlookup m k")
  case (Some subs)
  assume t: "tight m"
  with Some have "no_empty_slot subs" by (auto simp: tight_def no_empty_slot_def)
  then have "no_empty_slot (foldl (drop_from_slot x) subs ls)" by (rule no_empty_drop_slots)
  with t Some show ?thesis
    by (auto simp: tight_def no_empty_slot_def drop_members_def Let_def split: if_splits)
qed (simp add: drop_members_def)

lemma tight_drop_entries: "tight m \<Longrightarrow> tight (drop_entries s es m)"
  by (induction es arbitrary: m) (auto simp: drop_entries_def tight_drop)

lemma cell_drop_entries: "cell (drop_entries s es m) a b =
    (if \<exists>ls. (a, ls) \<in> set es \<and> b \<in> set ls then cell m a b |-| {|s|} else cell m a b)"
proof (induction es arbitrary: m)
  case (Cons e es)
  obtain k ls where "e = (k, ls)" by fastforce
  then have "drop_entries s (e # es) m = drop_entries s es (drop_members k ls s m)"
    by (simp add: drop_entries_def)
  then show ?case by (auto simp: Cons.IH cell_drop \<open>e = (k, ls)\<close>)
qed (simp add: drop_entries_def)

lemma tight_drop_everywhere: "tight m \<Longrightarrow> tight (drop_everywhere s ks m)"
  by (induction ks arbitrary: m) (auto simp: drop_everywhere_def tight_drop)

lemma cell_drop_everywhere: "s |\<notin>| cell m a b \<Longrightarrow> cell (drop_everywhere s ks m) a b = cell m a b"
  by (induction ks arbitrary: m) (auto simp: drop_everywhere_def cell_drop)

text \<open>Tight maps are determined by their cells.\<close>

lemma tight_lookup_None: "tight m \<Longrightarrow> fmlookup m k = None \<longleftrightarrow> (\<forall>l. cell m k l = {||})"
proof
  assume t: "tight m" and e: "\<forall>l. cell m k l = {||}"
  show "fmlookup m k = None"
  proof (rule ccontr)
    assume "fmlookup m k \<noteq> None"
    then obtain subs where s: "fmlookup m k = Some subs" by blast
    with t have "subs \<noteq> fmempty" and ne: "\<And>l xs. fmlookup subs l = Some xs \<Longrightarrow> xs \<noteq> {||}"
      by (auto simp: tight_def)
    then obtain l xs where "fmlookup subs l = Some xs" by (metis fmap_ext fmempty_lookup not_None_eq)
    with s ne e show False by (auto simp: cell_def get_or_def dest: spec [of _ l])
  qed
qed (simp add: cell_def get_or_def)

lemma tight_slot_None:
  "tight m \<Longrightarrow> fmlookup m k = Some subs \<Longrightarrow> fmlookup subs l = None \<longleftrightarrow> cell m k l = {||}"
  by (cases "fmlookup subs l") (auto simp: cell_def get_or_def tight_def)

lemma tight_ext:
  assumes "tight m" "tight m'" and eq: "\<And>k l. cell m k l = cell m' k l"
  shows "m = m'"
proof (rule fmap_ext)
  fix k
  have none: "fmlookup m k = None \<longleftrightarrow> fmlookup m' k = None"
    using assms by (simp add: tight_lookup_None)
  show "fmlookup m k = fmlookup m' k"
  proof (cases "fmlookup m k")
    case (Some subs)
    with none obtain subs' where s': "fmlookup m' k = Some subs'" by auto
    have "subs = subs'"
    proof (rule fmap_ext)
      fix l
      have "fmlookup subs l = None \<longleftrightarrow> fmlookup subs' l = None"
        using tight_slot_None [OF assms(1) Some] tight_slot_None [OF assms(2) s'] eq by simp
      moreover have "get_or {||} subs l = get_or {||} subs' l"
        using eq [of k l] Some s' by (simp add: cell_def get_or_def [of fmempty])
      ultimately show "fmlookup subs l = fmlookup subs' l"
        by (auto simp: get_or_def split: option.splits)
    qed
    with Some s' show ?thesis by simp
  qed (use none in simp)
qed

section \<open>The index implements the registry\<close>

definition index_triples :: "channel_index \<Rightarrow> (string \<times> string \<times> string) set" where
  "index_triples idx = {(s, w, c). s |\<in>| cell (by_swarm_channel idx) w c}"

definition index_inv :: "channel_index \<Rightarrow> bool" where
  "index_inv idx \<longleftrightarrow> tight (by_swarm_channel idx) \<and> tight (by_session idx) \<and>
     (\<forall>s w c. s |\<in>| cell (by_swarm_channel idx) w c \<longleftrightarrow> c |\<in>| cell (by_session idx) s w)"

lemma index_inv_subscribe: "index_inv idx \<Longrightarrow> index_inv (subscribe s w c idx)"
  by (auto simp: index_inv_def subscribe_def tight_add cell_add)

lemma index_inv_unsubscribe: "index_inv idx \<Longrightarrow> index_inv (unsubscribe s w c idx)"
  by (auto simp: index_inv_def unsubscribe_def tight_drop cell_drop)

lemma entries_cover:
  assumes "c |\<in>| get_or {||} subs w"
  shows "\<exists>ls. (w, ls) \<in> set (subscription_entries subs) \<and> c \<in> set ls"
proof -
  from assms have "w |\<in>| fmdom subs" by (auto simp: get_or_def fmlookup_dom_iff split: option.splits)
  with assms show ?thesis by (auto simp: subscription_entries_def image_iff)
qed

text \<open>
  Whatever the order in which the entries of the removed session are visited, its memberships
  and nothing else go away.
\<close>

lemma remove_session_any_order:
  assumes inv: "index_inv idx" and subs: "fmlookup (by_session idx) s = Some subs"
    and perm: "\<And>w c. c |\<in>| get_or {||} subs w \<Longrightarrow> \<exists>ls. (w, ls) \<in> set entries \<and> c \<in> set ls"
  shows "cell (drop_entries s entries (by_swarm_channel idx)) w c =
    cell (by_swarm_channel idx) w c |-| {|s|}"
proof (cases "s |\<in>| cell (by_swarm_channel idx) w c")
  case True
  with inv have "c |\<in>| cell (by_session idx) s w" by (simp add: index_inv_def)
  with subs have "c |\<in>| get_or {||} subs w" by (simp add: cell_def get_or_def [of fmempty])
  from perm [OF this] show ?thesis by (auto simp: cell_drop_entries)
qed (auto simp: cell_drop_entries)

lemma cell_remove_session:
  assumes inv: "index_inv idx"
  shows "cell (by_swarm_channel (remove_session s idx)) w c =
      cell (by_swarm_channel idx) w c |-| {|s|}"
    and "cell (by_session (remove_session s idx)) t w =
      (if t = s then {||} else cell (by_session idx) t w)"
proof -
  show "cell (by_swarm_channel (remove_session s idx)) w c =
      cell (by_swarm_channel idx) w c |-| {|s|}"
  proof (cases "fmlookup (by_session idx) s")
    case None
    then have "s |\<notin>| cell (by_swarm_channel idx) w c"
      using inv by (simp add: index_inv_def cell_def get_or_def [of fmempty])
    then show ?thesis by (simp add: remove_session_def None cell_drop_everywhere)
  next
    case (Some subs)
    then show ?thesis
      using remove_session_any_order [OF inv Some entries_cover] by (simp add: remove_session_def)
  qed
  show "cell (by_session (remove_session s idx)) t w =
      (if t = s then {||} else cell (by_session idx) t w)"
    by (auto simp: remove_session_def cell_def get_or_def [of fmempty] split: option.splits)
qed

lemma index_inv_remove:
  assumes inv: "index_inv idx"
  shows "index_inv (remove_session s idx)"
proof -
  have "tight (fmdrop s m)" if "tight m" for m :: "string two_level"
    using that by (auto simp: tight_def split: if_splits)
  then have "tight (by_swarm_channel (remove_session s idx))"
    "tight (by_session (remove_session s idx))"
    using inv by (auto simp: index_inv_def remove_session_def tight_drop_entries
        tight_drop_everywhere split: option.splits)
  then show ?thesis
    using inv by (auto simp: index_inv_def cell_remove_session [OF inv])
qed

interpretation channels: subscription_registry channel_index_default subscribe unsubscribe
  remove_session index_triples index_inv
proof
  show "index_inv channel_index_default"
    by (simp add: index_inv_def channel_index_default_def tight_def cell_def)
  show "index_triples channel_index_default = {}"
    by (simp add: index_triples_def channel_index_default_def cell_def)
  fix r s w c assume inv: "index_inv r"
  show "index_inv (subscribe s w c r)" "index_inv (unsubscribe s w c r)" "index_inv (remove_session s r)"
    by (rule index_inv_subscribe index_inv_unsubscribe index_inv_remove, rule inv)+
  show "index_triples (subscribe s w c r) = insert (s, w, c) (index_triples r)"
    by (auto simp: index_triples_def subscribe_def cell_add)
  show "index_triples (unsubscribe s w c r) = index_triples r - {(s, w, c)}"
    by (auto simp: index_triples_def unsubscribe_def cell_drop)
  show "index_triples (remove_session s r) = {t \<in> index_triples r. fst t \<noteq> s}"
    by (auto simp: index_triples_def cell_remove_session [OF inv])
next
  fix r r' assume inv: "index_inv r" "index_inv r'" and eq: "index_triples r = index_triples r'"
  have c1: "cell (by_swarm_channel r) w c = cell (by_swarm_channel r') w c" for w c
  proof (rule fset_eqI)
    fix s
    have "(s, w, c) \<in> index_triples r \<longleftrightarrow> (s, w, c) \<in> index_triples r'" using eq by simp
    then show "s |\<in>| cell (by_swarm_channel r) w c \<longleftrightarrow> s |\<in>| cell (by_swarm_channel r') w c"
      by (simp add: index_triples_def)
  qed
  have c2: "cell (by_session r) s w = cell (by_session r') s w" for s w
    using c1 inv by (auto simp: index_inv_def)
  have "by_swarm_channel r = by_swarm_channel r'"
    by (rule tight_ext [OF _ _ c1]) (use inv in \<open>simp_all add: index_inv_def\<close>)
  moreover have "by_session r = by_session r'"
    by (rule tight_ext [OF _ _ c2]) (use inv in \<open>simp_all add: index_inv_def\<close>)
  ultimately show "r = r'" by simp
qed

section \<open>Properties\<close>

fun index_apply :: "channel_index \<Rightarrow> (string, string, string) registry_op \<Rightarrow> channel_index" where
  "index_apply idx (Subscribe s w c) = subscribe s w c idx"
| "index_apply idx (Unsubscribe s w c) = unsubscribe s w c idx"
| "index_apply idx (RemoveSession s) = remove_session s idx"

lemma index_apply_eq: "index_apply = channels.apply_op"
proof (intro ext)
  show "index_apply idx x = channels.apply_op idx x" for idx x
    by (cases x) (simp_all add: channels.apply_op_def)
qed

interpretation channel_machine: op_machine index_apply channel_index_default index_inv
  by unfold_locales (simp_all add: index_apply_eq channels.inv_empty channels.apply_op_inv)

lemma run_triples:
  "index_triples (foldl index_apply channel_index_default ops) = foldl spec_step {} ops"
  using channels.run_refines [OF channels.inv_empty, of ops]
  by (simp add: index_apply_eq channels.triples_empty)

lemma sorted_list_of_fset_set: "sorted_list_of_fset A = sorted_list_of_set (fset A)"
  by (simp add: sorted_list_of_fset.rep_eq)

text \<open>
  Property C9. After any sequence of subscribe, unsubscribe and remove-session operations on an
  empty index, both directions of the index answer as the abstract set of subscriptions does:
  the members of a channel and the channels of a session are the sorted lists of the triples.
\<close>

theorem channel_index_refines:
  "members w c (foldl index_apply channel_index_default ops) =
     sorted_list_of_set {s. (s, w, c) \<in> foldl spec_step {} ops} \<and>
   channels_for_session s w (foldl index_apply channel_index_default ops) =
     sorted_list_of_set {c. (s, w, c) \<in> foldl spec_step {} ops}"
proof -
  let ?idx = "foldl index_apply channel_index_default ops"
  have "{s. (s, w, c) \<in> foldl spec_step {} ops} = fset (cell (by_swarm_channel ?idx) w c)" for w c
    by (auto simp: run_triples [symmetric] index_triples_def)
  moreover have "{c. (s, w, c) \<in> foldl spec_step {} ops} = fset (cell (by_session ?idx) s w)"
    using channel_machine.run_inv [of ops]
    by (auto simp: run_triples [symmetric] index_triples_def index_inv_def)
  ultimately show ?thesis
    by (simp add: members_def channels_for_session_def sorted_list_of_fset_set)
qed

text \<open>
  Unsubscribing a fresh subscription restores the index exactly, so no empty inner
  maps are left behind, and removing a session twice is removing it once.
\<close>

theorem channel_index_roundtrip:
  assumes "index_inv idx" and "s \<notin> set (members w c idx)"
  shows "unsubscribe s w c (subscribe s w c idx) = idx \<and>
    remove_session t (remove_session t idx) = remove_session t idx"
proof -
  have "(s, w, c) \<notin> index_triples idx" using assms(2) by (simp add: members_def index_triples_def)
  with assms(1) show ?thesis by (simp add: channels.subscribe_unsubscribe channels.remove_idem)
qed

theorem channel_index_roundtrip_witness:
  "unsubscribe ''s'' ''w'' ''b'' (subscribe ''s'' ''w'' ''b'' (subscribe ''s'' ''w'' ''a'' channel_index_default)) =
     subscribe ''s'' ''w'' ''a'' channel_index_default"
proof -
  let ?idx = "subscribe ''s'' ''w'' ''a'' channel_index_default"
  have "index_inv ?idx" by (simp add: channels.inv_empty channels.inv_subscribe)
  moreover have "''s'' \<notin> set (members ''w'' ''b'' ?idx)"
    by (simp add: members_def subscribe_def channel_index_default_def cell_add) (simp add: cell_def)
  ultimately show ?thesis using channel_index_roundtrip [of ?idx] by blast
qed

text \<open>After a session is removed it is a member of no channel.\<close>

theorem removed_session_gone:
  assumes "index_inv idx"
  shows "s \<notin> set (members w c (remove_session s idx)) \<and>
    channels_for_session s w (remove_session s idx) = [] \<and>
    set (members w c (remove_session s idx)) = set (members w c idx) - {s}"
  using cell_remove_session [OF assms]
  by (simp add: members_def channels_for_session_def sorted_list_of_fset_set)

theorem removed_session_gone_witness:
  "''s'' \<notin> set (members ''w'' ''a'' (remove_session ''s'' (subscribe ''s'' ''w'' ''a'' channel_index_default)))"
  using removed_session_gone [OF channels.inv_subscribe [OF channels.inv_empty]] by blast

end

