(* ===== verification/SwarmCore.thy ===== *)
theory SwarmCore
  imports Plan
begin

text \<open>
  Swarm roles and lifecycle states with their string forms, the durable member record, and the
  texts exchanged about finished work: report instructions, structured reports, normalisation,
  completion notifications, and the short forms of details and plans
  (crates/jcode-swarm-core/src/lib.rs).
\<close>

section \<open>Roles and lifecycle states\<close>

datatype swarm_role = Agent | Coordinator | WorktreeManager | RoleOther string

fun swarm_role_as_str :: "swarm_role \<Rightarrow> string" where
  "swarm_role_as_str Agent = ''agent''"
| "swarm_role_as_str Coordinator = ''coordinator''"
| "swarm_role_as_str WorktreeManager = ''worktree_manager''"
| "swarm_role_as_str (RoleOther v) = v"

definition swarm_role_from :: "string \<Rightarrow> swarm_role" where
  "swarm_role_from v =
     (if v = ''agent'' then Agent
      else if v = ''coordinator'' then Coordinator
      else if v = ''worktree_manager'' then WorktreeManager
      else RoleOther v)"

datatype swarm_lifecycle_status =
    Spawned | Ready | Running | RunningStale | Completed | Done | Failed | Stopped | Crashed
  | Queued | Blocked | Pending | Todo | StatusOther string

fun lifecycle_as_str :: "swarm_lifecycle_status \<Rightarrow> string" where
  "lifecycle_as_str Spawned = ''spawned''"
| "lifecycle_as_str Ready = ''ready''"
| "lifecycle_as_str Running = ''running''"
| "lifecycle_as_str RunningStale = ''running_stale''"
| "lifecycle_as_str Completed = ''completed''"
| "lifecycle_as_str Done = ''done''"
| "lifecycle_as_str Failed = ''failed''"
| "lifecycle_as_str Stopped = ''stopped''"
| "lifecycle_as_str Crashed = ''crashed''"
| "lifecycle_as_str Queued = ''queued''"
| "lifecycle_as_str Blocked = ''blocked''"
| "lifecycle_as_str Pending = ''pending''"
| "lifecycle_as_str Todo = ''todo''"
| "lifecycle_as_str (StatusOther v) = v"

definition lifecycle_from :: "string \<Rightarrow> swarm_lifecycle_status" where
  "lifecycle_from v =
     (if v = ''spawned'' then Spawned
      else if v = ''ready'' then Ready
      else if v = ''running'' then Running
      else if v = ''running_stale'' then RunningStale
      else if v = ''completed'' then Completed
      else if v = ''done'' then Done
      else if v = ''failed'' then Failed
      else if v = ''stopped'' then Stopped
      else if v = ''crashed'' then Crashed
      else if v = ''queued'' then Queued
      else if v = ''blocked'' then Blocked
      else if v = ''pending'' then Pending
      else if v = ''todo'' then Todo
      else StatusOther v)"

record swarm_member_record =
  mr_session_id :: string
  mr_working_dir :: "string option"
  mr_swarm_id :: "string option"
  mr_swarm_enabled :: bool
  mr_status :: swarm_lifecycle_status
  mr_detail :: "string option"
  mr_friendly_name :: "string option"
  mr_report_back_to_session_id :: "string option"
  mr_latest_completion_report :: "string option"
  mr_role :: swarm_role
  mr_is_headless :: bool

section \<open>Completion reports\<close>

definition max_report_chars :: nat where
  "max_report_chars = 4000"

definition report_marker :: string where
  "report_marker = ''SWARM COMPLETION REPORT REQUIRED''"

definition report_instructions :: string where
  "report_instructions =
     nl @ ''Before finishing, call the swarm tool with action='' @ [CHR 0x22] @ ''report'' @ [CHR 0x22]
     @ '' to submit your completion report. ''
     @ ''Include a concise message, validation/tests performed, and blockers or follow-ups. ''
     @ ''After the report tool succeeds, also write a brief final assistant response. ''
     @ ''Do not finish with only tool output, a lifecycle status change, or no final response. ''
     @ ''Do not send a separate DM for the final report unless you need interactive coordination before finishing.'' @ nl"

definition append_report_instructions :: "string \<Rightarrow> string" where
  "append_report_instructions message =
     (if str_contains message report_marker then message
      else
        let out = trim_end message;
            out = (if out \<noteq> [] then out @ nl @ nl else out)
        in out @ ''<system-reminder>'' @ nl @ report_marker @ report_instructions
           @ ''</system-reminder>'')"

definition nonempty_trimmed :: "string option \<Rightarrow> string option" where
  "nonempty_trimmed v =
     (case map_option trim v of Some t \<Rightarrow> if t = [] then None else Some t | None \<Rightarrow> None)"

definition push_section :: "string \<Rightarrow> string option \<Rightarrow> string \<Rightarrow> string" where
  "push_section heading value report =
     (case value of
        None \<Rightarrow> report
      | Some v \<Rightarrow> (if report \<noteq> [] then report @ nl @ nl else report) @ heading @ nl @ v)"

definition format_structured_completion_report ::
  "string \<Rightarrow> string option \<Rightarrow> string option \<Rightarrow> string" where
  "format_structured_completion_report message validation follow_up =
     push_section ''Follow-ups/blockers:'' (nonempty_trimmed follow_up)
       (push_section ''Validation:'' (nonempty_trimmed validation) (trim message))"

definition truncation_suffix :: string where
  "truncation_suffix = nl @ nl @ ''[Report truncated by jcode before delivery.]''"

definition normalize_completion_report :: "string option \<Rightarrow> string option" where
  "normalize_completion_report report =
     (case report of
        None \<Rightarrow> None
      | Some r \<Rightarrow>
          let r = trim r in
          if r = [] then None
          else if char_count r \<le> max_report_chars then Some r
          else
            let keep = max_report_chars - char_count truncation_suffix
            in Some (char_take keep r @ truncation_suffix))"

section \<open>Notifications and short forms\<close>

definition completion_status_intro :: "string \<Rightarrow> string \<Rightarrow> string" where
  "completion_status_intro name status =
     (if status = ''ready'' then ''Agent '' @ name @ '' finished their work and is ready for more.''
      else if status = ''failed'' then ''Agent '' @ name @ '' finished with status failed.''
      else if status = ''stopped'' then ''Agent '' @ name @ '' stopped.''
      else ''Agent '' @ name @ '' completed their work.'')"

definition completion_followup :: "string \<Rightarrow> bool \<Rightarrow> string" where
  "completion_followup status has_report =
     (if status = ''ready'' \<and> has_report then
        ''Use assign_task to give them more work, stop to remove them, or summary/read_context for full context.''
      else if status = ''ready'' then
        ''Use summary/read_context to inspect results, assign_task for more work, or stop to remove them.''
      else if status = ''failed'' \<and> has_report then
        ''Use summary/read_context for full context, retry with guidance, or stop to remove them.''
      else if status = ''failed'' then
        ''Use summary/read_context to inspect results, assign_task to retry with guidance, or stop to remove them.''
      else if status = ''stopped'' then
        ''Use summary/read_context to inspect results or stop to remove them.''
      else if has_report then
        ''Use assign_task to give them new work, stop to remove them, or summary/read_context for full context.''
      else ''Use assign_task to give them new work, or stop to remove them.'')"

definition completion_notification_message :: "string \<Rightarrow> string \<Rightarrow> string option \<Rightarrow> string" where
  "completion_notification_message name status report =
     (let intro = completion_status_intro name status;
          followup = completion_followup status (report \<noteq> None)
      in case report of
           Some r \<Rightarrow> intro @ nl @ nl @ ''Report:'' @ nl @ r @ nl @ nl @ followup
         | None \<Rightarrow> intro @ nl @ nl @ ''No final textual report was produced. '' @ followup)"

definition truncate_detail :: "string \<Rightarrow> nat \<Rightarrow> string" where
  "truncate_detail text max_len =
     (let trimmed = trim (join '' '' (split_whitespace text));
          max_len = max max_len 1
      in if char_count trimmed \<le> max_len then trimmed
         else if max_len \<le> 3 then char_take max_len trimmed
         else char_take (max_len - 3) trimmed @ ''...'')"

definition summarize_plan_items :: "plan_item list \<Rightarrow> nat \<Rightarrow> string" where
  "summarize_plan_items items max_items =
     (if items = [] then ''no items''
      else
        let shown = max max_items 1;
            summary = join ''; '' (map pi_content (take shown items))
        in if length items > shown
           then summary @ '' (+'' @ show_nat (length items - shown) @ '' more)''
           else summary)"

section \<open>Properties\<close>

text \<open>
  Reading back the string form of any stored role or lifecycle state gives a value
  with the same string form; the value itself survives unless it is an \<^verbatim>\<open>Other\<close> that carries one
  of the reserved names.
\<close>

theorem role_status_roundtrip:
  "swarm_role_as_str (swarm_role_from v) = v \<and> lifecycle_as_str (lifecycle_from v) = v \<and>
   (swarm_role_from (swarm_role_as_str r) = r \<longleftrightarrow>
      r \<notin> RoleOther ` {''agent'', ''coordinator'', ''worktree_manager''}) \<and>
   (lifecycle_from (lifecycle_as_str st) = st \<longleftrightarrow>
      st \<notin> StatusOther ` {''spawned'', ''ready'', ''running'', ''running_stale'', ''completed'', ''done'',
        ''failed'', ''stopped'', ''crashed'', ''queued'', ''blocked'', ''pending'', ''todo''})"
proof (intro conjI)
  show "swarm_role_as_str (swarm_role_from v) = v" by (simp add: swarm_role_from_def)
  show "lifecycle_as_str (lifecycle_from v) = v" by (simp add: lifecycle_from_def)
  show "swarm_role_from (swarm_role_as_str r) = r \<longleftrightarrow>
      r \<notin> RoleOther ` {''agent'', ''coordinator'', ''worktree_manager''}"
    by (cases r) (auto simp: swarm_role_from_def)
  show "lifecycle_from (lifecycle_as_str st) = st \<longleftrightarrow>
      st \<notin> StatusOther ` {''spawned'', ''ready'', ''running'', ''running_stale'', ''completed'', ''done'',
        ''failed'', ''stopped'', ''crashed'', ''queued'', ''blocked'', ''pending'', ''todo''}"
    by (cases st) (auto simp: lifecycle_from_def)
qed

text \<open>
  Adding the report instructions to a prompt is idempotent, and the result always
  carries the marker.
\<close>

theorem append_report_instructions_idem:
  "append_report_instructions (append_report_instructions m) = append_report_instructions m \<and>
   str_contains (append_report_instructions m) report_marker"
proof -
  have marker: "str_contains (append_report_instructions m) report_marker"
    using str_contains_mid [of "(if trim_end m \<noteq> [] then trim_end m @ nl @ nl else trim_end m)
        @ ''<system-reminder>'' @ nl" report_marker "report_instructions @ ''</system-reminder>''"]
    by (simp add: append_report_instructions_def Let_def)
  then show ?thesis by (simp add: append_report_instructions_def [of "append_report_instructions m"])
qed

lemma truncation_suffix_count:
  "char_count truncation_suffix = 46" "starts_char truncation_suffix" "truncation_suffix \<noteq> []"
  by (simp_all add: truncation_suffix_def nl_def char_count_def starts_char_def is_cont_def)

text \<open>
  A normalised report is never empty and has at most 4000 characters; a report that
  fits is the trimmed text itself, and a longer one is a prefix of it that ends in the
  truncation notice and has exactly 4000 characters.
\<close>

theorem normalize_report_bounds:
  assumes "normalize_completion_report (Some report) = Some r"
  shows "r \<noteq> [] \<and> char_count r \<le> 4000 \<and>
    (if char_count (trim report) \<le> 4000 then r = trim report
     else char_count r = 4000 \<and> (\<exists>pre. prefix pre (trim report) \<and> r = pre @ truncation_suffix))"
  using assms char_take_prefix [of "3954" "trim report"]
  by (auto simp: normalize_completion_report_def Let_def max_report_chars_def truncation_suffix_count
      char_count_append char_count_take split: if_splits)

theorem normalize_report_bounds_witness:
  "normalize_completion_report (Some ''  done '') = Some ''done'' \<and> char_count ''done'' \<le> 4000"
proof -
  have "normalize_completion_report (Some ''  done '') = Some ''done''" by code_simp
  from normalize_report_bounds [OF this] this show ?thesis by blast
qed

text \<open>
  A shortened detail has at most the requested number of characters (at least one is
  always allowed); white space is collapsed, and a text that fits is only collapsed.
\<close>

theorem truncate_detail_bounds:
  "char_count (truncate_detail text n) \<le> max n 1 \<and>
   (truncate_detail text n = trim (join '' '' (split_whitespace text)) \<longleftrightarrow>
      char_count (trim (join '' '' (split_whitespace text))) \<le> max n 1)"
proof -
  let ?t = "trim (join '' '' (split_whitespace text))"
  have dots: "starts_char ''...''" "char_count ''...'' = 3"
    by (simp_all add: starts_char_def is_cont_def char_count_def)
  have bound: "char_count (truncate_detail text n) \<le> max n 1"
    by (auto simp: truncate_detail_def Let_def char_count_append dots char_count_take)
  moreover have "truncate_detail text n = ?t" if "char_count ?t \<le> max n 1"
    using that by (simp add: truncate_detail_def Let_def)
  ultimately show ?thesis by metis
qed

end
