(* ===== verification/Messages.thy ===== *)
theory Messages
  imports Prelude "HOL-Library.Word"
begin

unbundle bit_operations_syntax

text \<open>
  Conversation messages (crates/jcode-message-types/src/lib.rs): roles, content blocks, the
  constructors, timestamp injection, the detection of a fresh user turn, the insertion of the
  dynamic system context, tool id sanitising and the stable hash. JSON values are a type
  parameter (the JSON library is not part of the repository); what the code asks of one (its
  kind, its compact text, a string field) is an argument of the definitions that need it. An
  instant is its number of milliseconds; its RFC 3339 text is an argument.
\<close>

section \<open>Types\<close>

datatype role = User | Assistant

record cache_control =
  cc_kind :: string
  cc_ttl :: "string option"

definition cache_control_ephemeral :: "string option \<Rightarrow> cache_control" where
  "cache_control_ephemeral ttl = \<lparr>cc_kind = ''ephemeral'', cc_ttl = ttl\<rparr>"

datatype 'j content_block =
    Text string "cache_control option"
  | Reasoning string
  | ToolUse (tu_id: string) (tu_name: string) (tu_input: 'j)
  | ToolResult (tr_id: string) (tr_content: string) (tr_error: "bool option")
  | Image (im_media: string) (im_data: string)
  | OpenAICompaction string

record 'j message =
  msg_role :: role
  msg_content :: "'j content_block list"
  msg_timestamp :: "int option"
  msg_tool_duration_ms :: "nat option"

definition message_user :: "int \<Rightarrow> string \<Rightarrow> 'j message" where
  "message_user now text =
     \<lparr>msg_role = User, msg_content = [Text text None], msg_timestamp = Some now,
      msg_tool_duration_ms = None\<rparr>"

definition message_user_with_images :: "int \<Rightarrow> string \<Rightarrow> (string \<times> string) list \<Rightarrow> 'j message" where
  "message_user_with_images now text images =
     \<lparr>msg_role = User, msg_content = map (\<lambda>(media, data). Image media data) images @ [Text text None],
      msg_timestamp = Some now, msg_tool_duration_ms = None\<rparr>"

definition message_assistant_text :: "int \<Rightarrow> string \<Rightarrow> 'j message" where
  "message_assistant_text now text =
     \<lparr>msg_role = Assistant, msg_content = [Text text None], msg_timestamp = Some now,
      msg_tool_duration_ms = None\<rparr>"

definition message_tool_result_with_duration ::
  "int \<Rightarrow> string \<Rightarrow> string \<Rightarrow> bool \<Rightarrow> nat option \<Rightarrow> 'j message" where
  "message_tool_result_with_duration now tool_use_id content is_error duration =
     \<lparr>msg_role = User,
      msg_content = [ToolResult tool_use_id content (if is_error then Some True else None)],
      msg_timestamp = Some now, msg_tool_duration_ms = duration\<rparr>"

definition message_tool_result :: "int \<Rightarrow> string \<Rightarrow> string \<Rightarrow> bool \<Rightarrow> 'j message" where
  "message_tool_result now tool_use_id content is_error =
     message_tool_result_with_duration now tool_use_id content is_error None"

section \<open>Timestamps\<close>

text \<open>
  The rendering of one decimal of a floating-point number of seconds is an argument; every other
  range of a duration is integer arithmetic.
\<close>

definition format_duration :: "(nat \<Rightarrow> string) \<Rightarrow> nat \<Rightarrow> string" where
  "format_duration tenths duration_ms =
     (if duration_ms \<le> 999 then show_nat duration_ms @ ''ms''
      else if duration_ms \<le> 9999 then tenths duration_ms @ ''s''
      else if duration_ms \<le> 59999 then show_nat (duration_ms div 1000) @ ''s''
      else
        let total_seconds = duration_ms div 1000;
            minutes = total_seconds div 60;
            seconds = total_seconds mod 60
        in if seconds = 0 then show_nat minutes @ ''m''
           else show_nat minutes @ ''m '' @ show_nat seconds @ ''s'')"

definition trim_start :: "string \<Rightarrow> string" where
  "trim_start s = concat (dropWhile is_ws (chars s))"

definition reminder_open :: string where
  "reminder_open = ''<system-reminder>''"

fun first_text :: "'j content_block list \<Rightarrow> string option" where
  "first_text [] = None"
| "first_text (Text t _ # bs) = Some (trim_start t)"
| "first_text (_ # bs) = first_text bs"

definition is_internal_system_reminder :: "'j message \<Rightarrow> bool" where
  "is_internal_system_reminder m =
     (case first_text (msg_content m) of Some t \<Rightarrow> prefix reminder_open t | None \<Rightarrow> False)"

text \<open>
  The start of a tool run: the duration is clamped to the signed 64-bit range and subtracted;
  where the date library has no such instant, the finish time itself is used.
\<close>

definition tool_result_tag ::
  "(int \<Rightarrow> string) \<Rightarrow> (nat \<Rightarrow> string) \<Rightarrow> (int \<Rightarrow> int \<Rightarrow> int option) \<Rightarrow> 'j message \<Rightarrow> int \<Rightarrow> string" where
  "tool_result_tag fmt tenths checked_sub m ts =
     (case msg_tool_duration_ms m of
        Some duration_ms \<Rightarrow>
          let d = (if duration_ms < 2 ^ 63 then int duration_ms else 2 ^ 63 - 1);
              start_ts = (case checked_sub ts d of Some t \<Rightarrow> t | None \<Rightarrow> ts)
          in ''[tool timing: start='' @ fmt start_ts @ '' finish='' @ fmt ts @ '' duration=''
             @ format_duration tenths duration_ms @ '']''
      | None \<Rightarrow> ''['' @ fmt ts @ '']'')"

text \<open>Only the first text or tool-result block is tagged.\<close>

fun tag_first :: "string \<Rightarrow> string \<Rightarrow> 'j content_block list \<Rightarrow> 'j content_block list" where
  "tag_first text_tag result_tag [] = []"
| "tag_first text_tag result_tag (Text t c # bs) = Text (text_tag @ '' '' @ t) c # bs"
| "tag_first text_tag result_tag (ToolResult i t e # bs) = ToolResult i (result_tag @ '' '' @ t) e # bs"
| "tag_first text_tag result_tag (b # bs) = b # tag_first text_tag result_tag bs"

definition with_timestamp ::
  "(int \<Rightarrow> string) \<Rightarrow> (nat \<Rightarrow> string) \<Rightarrow> (int \<Rightarrow> int \<Rightarrow> int option) \<Rightarrow> 'j message \<Rightarrow> 'j message" where
  "with_timestamp fmt tenths checked_sub m =
     (case msg_timestamp m of
        None \<Rightarrow> m
      | Some ts \<Rightarrow>
          if msg_role m \<noteq> User \<or> is_internal_system_reminder m then m
          else m\<lparr>msg_content := tag_first (''['' @ fmt ts @ '']'')
                  (tool_result_tag fmt tenths checked_sub m ts) (msg_content m)\<rparr>)"

definition with_timestamps ::
  "(int \<Rightarrow> string) \<Rightarrow> (nat \<Rightarrow> string) \<Rightarrow> (int \<Rightarrow> int \<Rightarrow> int option) \<Rightarrow> 'j message list \<Rightarrow> 'j message list"
  where
  "with_timestamps fmt tenths checked_sub messages = map (with_timestamp fmt tenths checked_sub) messages"

section \<open>Stable hash\<close>

definition stable_hash_seed :: "64 word" where
  "stable_hash_seed = 0xcbf29ce484222325"

definition stable_hash_prime :: "64 word" where
  "stable_hash_prime = 0x100000001b3"

definition hash_step :: "64 word \<Rightarrow> 8 word \<Rightarrow> 64 word" where
  "hash_step h byte = (h XOR ucast byte) * stable_hash_prime"

definition stable_hash_bytes :: "8 word list \<Rightarrow> 64 word" where
  "stable_hash_bytes bytes = foldl hash_step stable_hash_seed bytes"

definition to_le_bytes :: "64 word \<Rightarrow> 8 word list" where
  "to_le_bytes w = map (\<lambda>i. ucast (drop_bit (8 * i) w)) [0..<8]"

definition extend_stable_hash :: "64 word \<Rightarrow> 64 word \<Rightarrow> 64 word" where
  "extend_stable_hash acc next_hash = stable_hash_bytes (to_le_bytes acc @ to_le_bytes next_hash)"

section \<open>Fresh user turns and the dynamic context\<close>

definition user_visible_text :: "string \<Rightarrow> bool" where
  "user_visible_text t \<longleftrightarrow> trim t \<noteq> [] \<and> \<not> prefix reminder_open (trim t)"

definition is_tool_result :: "'j content_block \<Rightarrow> bool" where
  "is_tool_result b = (case b of ToolResult _ _ _ \<Rightarrow> True | _ \<Rightarrow> False)"

text \<open>The scan of the blocks of one message: \<^verbatim>\<open>None\<close> is the early return on a non-text block.\<close>

fun scan_text_blocks :: "bool \<Rightarrow> 'j content_block list \<Rightarrow> bool option" where
  "scan_text_blocks saw [] = Some saw"
| "scan_text_blocks saw (Text t _ # bs) = scan_text_blocks (saw \<or> user_visible_text t) bs"
| "scan_text_blocks saw (_ # bs) = None"

fun fresh_from_end :: "'j message list \<Rightarrow> bool" where
  "fresh_from_end [] = False"
| "fresh_from_end (m # rest) =
     (if msg_role m \<noteq> User then False
      else if list_ex is_tool_result (msg_content m) then False
      else if msg_content m = [] then False
      else case scan_text_blocks False (msg_content m) of
          None \<Rightarrow> False
        | Some True \<Rightarrow> True
        | Some False \<Rightarrow> if is_internal_system_reminder m then fresh_from_end rest else False)"

definition ends_with_fresh_user_turn :: "'j message list \<Rightarrow> bool" where
  "ends_with_fresh_user_turn messages = fresh_from_end (rev messages)"

fun scan_user_blocks :: "bool \<Rightarrow> 'j content_block list \<Rightarrow> bool" where
  "scan_user_blocks saw [] = saw"
| "scan_user_blocks saw (Text t _ # bs) = scan_user_blocks (saw \<or> user_visible_text t) bs"
| "scan_user_blocks saw (Image _ _ # bs) = scan_user_blocks saw bs"
| "scan_user_blocks saw (_ # bs) = False"

definition is_fresh_user_text_message :: "'j message \<Rightarrow> bool" where
  "is_fresh_user_text_message m \<longleftrightarrow> msg_role m = User \<and> scan_user_blocks False (msg_content m)"

definition dynamic_system_context_message :: "int \<Rightarrow> string \<Rightarrow> 'j message option" where
  "dynamic_system_context_message now system_dynamic =
     (let trimmed = trim system_dynamic
      in if trimmed = [] then None
         else Some (message_user now (reminder_open @ nl @ trimmed @ nl @ ''</system-reminder>'')))"

definition insert_at :: "nat \<Rightarrow> 'a \<Rightarrow> 'a list \<Rightarrow> 'a list" where
  "insert_at i x xs = take i xs @ x # drop i xs"

definition rposition :: "('a \<Rightarrow> bool) \<Rightarrow> 'a list \<Rightarrow> nat option" where
  "rposition P xs = map_option (\<lambda>i. length xs - 1 - i) (position P (rev xs))"

definition messages_with_dynamic_system_context ::
  "int \<Rightarrow> 'j message list \<Rightarrow> string \<Rightarrow> 'j message list" where
  "messages_with_dynamic_system_context now messages system_dynamic =
     (case dynamic_system_context_message now system_dynamic of
        None \<Rightarrow> messages
      | Some dynamic_message \<Rightarrow>
          let at = (case rposition is_fresh_user_text_message messages of
                Some idx \<Rightarrow> idx + 1 | None \<Rightarrow> length messages)
          in insert_at at dynamic_message messages)"

section \<open>Tool ids and tool calls\<close>

definition tool_id_char :: "string \<Rightarrow> bool" where
  "tool_id_char ch \<longleftrightarrow> (\<exists>c. ch = [c] \<and> (is_ascii_alphanumeric c \<or> c = CHR ''_'' \<or> c = CHR ''-''))"

lemma tool_id_char_code [code]:
  "tool_id_char ch = (case ch of [c] \<Rightarrow> is_ascii_alphanumeric c \<or> c = CHR ''_'' \<or> c = CHR ''-'' | _ \<Rightarrow> False)"
  by (auto simp: tool_id_char_def split: list.splits)

definition tool_id_subst :: "string \<Rightarrow> string" where
  "tool_id_subst ch = (if tool_id_char ch then ch else ''_'')"

definition sanitize_tool_id :: "string \<Rightarrow> string" where
  "sanitize_tool_id i =
     (if i = [] then ''unknown''
      else
        let sanitized = concat (map tool_id_subst (chars i))
        in if sanitized = [] then ''unknown'' else sanitized)"

datatype json_kind = JNull | JBool | JNumber | JString | JArray | JObject

record 'j tool_call =
  tc_id :: string
  tc_name :: string
  tc_input :: 'j
  tc_intent :: "string option"

fun json_value_kind :: "json_kind \<Rightarrow> string" where
  "json_value_kind JNull = ''null''"
| "json_value_kind JBool = ''boolean''"
| "json_value_kind JNumber = ''number''"
| "json_value_kind JString = ''string''"
| "json_value_kind JArray = ''array''"
| "json_value_kind JObject = ''object''"

definition normalize_input_to_object :: "('j \<Rightarrow> json_kind) \<Rightarrow> 'j \<Rightarrow> 'j \<Rightarrow> 'j" where
  "normalize_input_to_object kind empty_object input =
     (if kind input = JObject then input else empty_object)"

definition validation_error :: "('j \<Rightarrow> json_kind) \<Rightarrow> 'j tool_call \<Rightarrow> string option" where
  "validation_error kind call =
     (if trim (tc_name call) = [] then Some ''Invalid tool call: tool name must not be empty.''
      else if kind (tc_input call) \<noteq> JObject then
        Some (''Invalid tool call for '' @ quoted (tc_name call)
          @ '': arguments must be a JSON object, got '' @ json_value_kind (kind (tc_input call)) @ ''.'')
      else None)"

definition intent_from_input :: "('j \<Rightarrow> string option) \<Rightarrow> 'j \<Rightarrow> string option" where
  "intent_from_input intent_field input =
     (case map_option trim (intent_field input) of
        Some t \<Rightarrow> if t = [] then None else Some t | None \<Rightarrow> None)"

definition refresh_intent_from_input :: "('j \<Rightarrow> string option) \<Rightarrow> 'j tool_call \<Rightarrow> 'j tool_call" where
  "refresh_intent_from_input intent_field call =
     call\<lparr>tc_intent := intent_from_input intent_field (tc_input call)\<rparr>"

definition tool_output_missing_text :: string where
  "tool_output_missing_text =
     ''Tool output missing (session interrupted before tool execution completed)''"

section \<open>Tool definitions, shell results and stream events\<close>

text \<open>
  The payload sent for a tool is built and rendered by the JSON library: its text, from the three
  fields of the definition, is an argument.
\<close>

record 'j tool_definition =
  td_name :: string
  td_description :: string
  td_input_schema :: 'j

definition estimate_tokens :: "string \<Rightarrow> nat" where
  "estimate_tokens s = length s div 4"

definition prompt_chars :: "(string \<Rightarrow> string \<Rightarrow> 'j \<Rightarrow> string) \<Rightarrow> 'j tool_definition \<Rightarrow> nat" where
  "prompt_chars payload d = length (payload (td_name d) (td_description d) (td_input_schema d))"

definition description_token_estimate :: "'j tool_definition \<Rightarrow> nat" where
  "description_token_estimate d = estimate_tokens (td_description d)"

definition prompt_token_estimate :: "(string \<Rightarrow> string \<Rightarrow> 'j \<Rightarrow> string) \<Rightarrow> 'j tool_definition \<Rightarrow> nat" where
  "prompt_token_estimate payload d =
     estimate_tokens (payload (td_name d) (td_description d) (td_input_schema d))"

definition aggregate_prompt_chars ::
  "(string \<Rightarrow> string \<Rightarrow> 'j \<Rightarrow> string) \<Rightarrow> 'j tool_definition list \<Rightarrow> nat" where
  "aggregate_prompt_chars payload defs = sum_list (map (prompt_chars payload) defs)"

definition aggregate_prompt_token_estimate ::
  "(string \<Rightarrow> string \<Rightarrow> 'j \<Rightarrow> string) \<Rightarrow> 'j tool_definition list \<Rightarrow> nat" where
  "aggregate_prompt_token_estimate payload defs = sum_list (map (prompt_token_estimate payload) defs)"

record input_shell_result =
  is_command :: string
  is_cwd :: "string option"
  is_output :: string
  is_exit_code :: "32 word option"
  is_duration_ms :: nat
  is_truncated :: bool
  is_failed_to_start :: bool

datatype connection_phase =
    Authenticating | Connecting | WaitingForResponse | Streaming | Retrying nat nat

fun show_connection_phase :: "connection_phase \<Rightarrow> string" where
  "show_connection_phase Authenticating = ''authenticating''"
| "show_connection_phase Connecting = ''connecting''"
| "show_connection_phase WaitingForResponse = ''waiting for response''"
| "show_connection_phase Streaming = ''streaming''"
| "show_connection_phase (Retrying attempt max_attempts) =
     ''retrying ('' @ show_nat attempt @ ''/'' @ show_nat max_attempts @ '')''"

text \<open>Stream events; the floating-point number of seconds of a finished thought is a parameter.\<close>

datatype ('j, 'f) stream_event =
    TextDelta string
  | ToolUseStart string string
  | ToolInputDelta string
  | ToolUseEnd
  | StreamToolResult string string bool
  | GeneratedImage string string "string option" string "string option"
  | ThinkingStart
  | ThinkingDelta string
  | ThinkingEnd
  | ThinkingDone 'f
  | MessageEnd "string option"
  | TokenUsage "nat option" "nat option" "nat option" "nat option"
  | ConnectionType string
  | ConnectionPhaseEvent connection_phase
  | StatusDetail string
  | StreamError string "nat option"
  | SessionIdEvent string
  | CompactionEvent string "nat option" "string option"
  | UpstreamProvider string
  | NativeToolCall string string 'j

section \<open>Properties\<close>

lemma of_char_high: "digit7 c \<Longrightarrow> (of_char c :: nat) \<ge> 128"
  by (cases c) (auto simp: of_char_def)

lemma tool_id_char_not_cont: "tool_id_char [c] \<Longrightarrow> \<not> is_cont c"
  using of_char_high [of c]
  by (auto simp: tool_id_char_def is_ascii_alphanumeric_def Let_def is_cont_def)

lemma tool_id_char_underscore [simp]: "tool_id_char ''_''"
  by (simp add: tool_id_char_def)

lemma tool_id_piece: "\<exists>c. tool_id_subst ch = [c] \<and> tool_id_char [c]"
proof (cases "tool_id_char ch")
  case True
  then obtain c where "ch = [c]" unfolding tool_id_char_def by blast
  with True show ?thesis by (simp add: tool_id_subst_def)
qed (simp add: tool_id_subst_def)

lemma tool_id_chunks:
  "char_list (map tool_id_subst cs)"
  unfolding char_list_def
proof
  fix x assume "x \<in> set (map tool_id_subst cs)"
  then obtain c where "x = [c]" "tool_id_char [c]" using tool_id_piece by (metis (mono_tags, lifting) imageE list.set_map)
  then show "x \<noteq> [] \<and> \<not> is_cont (hd x) \<and> (\<forall>c \<in> set (tl x). is_cont c)"
    by (simp add: tool_id_char_not_cont)
qed

lemma set_sanitized:
  assumes "c \<in> set (concat (map tool_id_subst cs))"
  shows "tool_id_char [c]"
proof -
  from assms obtain ch where "c \<in> set (tool_id_subst ch)" by auto
  with tool_id_piece [of ch] show ?thesis by auto
qed

lemma sanitize_fixed: "s \<noteq> [] \<Longrightarrow> \<forall>c \<in> set s. tool_id_char [c] \<Longrightarrow> sanitize_tool_id s = s"
  using tool_id_char_not_cont
  by (simp add: sanitize_tool_id_def chars_ascii comp_def tool_id_subst_def cong: map_cong)

text \<open>
  A sanitised tool id is never empty, consists of ASCII letters, digits, dashes and
  underscores only, is not changed by sanitising it again, and keeps the number of characters of
  a non-empty id.
\<close>

theorem sanitize_tool_id_correct:
  "sanitize_tool_id i \<noteq> [] \<and> list_all (\<lambda>c. tool_id_char [c]) (sanitize_tool_id i) \<and>
   sanitize_tool_id (sanitize_tool_id i) = sanitize_tool_id i \<and>
   char_count (sanitize_tool_id i) = (if i = [] then 7 else char_count i)"
proof -
  let ?cs = "map tool_id_subst (chars i)"
  have unknown: "\<forall>c \<in> set ''unknown''. tool_id_char [c]"
    by (simp add: tool_id_char_def is_ascii_alphanumeric_def)
  have ne: "concat ?cs \<noteq> []" if "i \<noteq> []"
    using that tool_id_chunks [of "chars i"] by (cases ?cs) (auto simp: char_list_def)
  have eq: "sanitize_tool_id i = (if i = [] then ''unknown'' else concat ?cs)"
    using ne by (auto simp only: sanitize_tool_id_def Let_def split: if_splits)
  have safe: "\<forall>c \<in> set (sanitize_tool_id i). tool_id_char [c]"
    using unknown set_sanitized [of _ "chars i"] unfolding eq by (auto simp del: set_concat)
  have "char_count (sanitize_tool_id i) = (if i = [] then 7 else char_count i)"
    unfolding eq
    by (simp add: char_count_def chars_concat [OF tool_id_chunks] is_cont_def)
  moreover have "sanitize_tool_id i \<noteq> []" using ne by (simp add: eq)
  ultimately show ?thesis using safe by (simp add: sanitize_fixed list_all_iff)
qed

lemma position_rev:
  "rposition P xs = Some i \<Longrightarrow> i < length xs \<and> P (xs ! i) \<and> (\<forall>j. i < j \<and> j < length xs \<longrightarrow> \<not> P (xs ! j))"
proof -
  assume "rposition P xs = Some i"
  then obtain k where k: "position P (rev xs) = Some k" and i: "i = length xs - 1 - k"
    by (auto simp: rposition_def)
  note pos = position_Some [OF k]
  have "P (xs ! i)" and "i < length xs" using pos i by (auto simp: rev_nth)
  moreover have "\<not> P (xs ! j)" if "i < j" "j < length xs" for j
  proof -
    have "length xs - 1 - j < k" using that i pos by auto
    with pos have "\<not> P (rev xs ! (length xs - 1 - j))" by blast
    with that show ?thesis by (simp add: rev_nth)
  qed
  ultimately show ?thesis by blast
qed

text \<open>
  The dynamic context is inserted as one message: what is before and after it is the
  unchanged history, no fresh user message comes after it, and the message right before it is
  the latest fresh user message, if there is one; otherwise it goes to the end.
\<close>

theorem dynamic_context_insertion:
  fixes messages :: "'j message list"
  shows "case dynamic_system_context_message now dyn of
     None \<Rightarrow> messages_with_dynamic_system_context now messages dyn = messages
   | Some d \<Rightarrow> \<exists>before after. messages = before @ after \<and>
       messages_with_dynamic_system_context now messages dyn = before @ d # after \<and>
       \<not> list_ex is_fresh_user_text_message after \<and>
       (if list_ex is_fresh_user_text_message messages
        then before \<noteq> [] \<and> is_fresh_user_text_message (last before) else after = [])"
proof (cases "dynamic_system_context_message now dyn :: 'j message option")
  case None
  then show ?thesis by (simp add: messages_with_dynamic_system_context_def)
next
  case dyn: (Some d)
  show ?thesis
  proof (cases "rposition is_fresh_user_text_message messages")
    case None
    then have "\<not> list_ex is_fresh_user_text_message messages"
      by (simp add: rposition_def position_None list_ex_iff)
    with None dyn show ?thesis
      by (auto simp: messages_with_dynamic_system_context_def insert_at_def)
  next
    case (Some i)
    note pos = position_rev [OF Some]
    have "\<not> list_ex is_fresh_user_text_message (drop (Suc i) messages)"
      using pos by (auto simp: list_ex_iff in_set_conv_nth)
    moreover have "list_ex is_fresh_user_text_message messages"
      using pos by (auto simp: list_ex_iff intro: nth_mem)
    moreover have "take (Suc i) messages \<noteq> [] \<and> last (take (Suc i) messages) = messages ! i"
      using pos by (simp add: take_Suc_conv_app_nth)
    ultimately show ?thesis
      using pos Some unfolding dyn option.case
      by - (rule exI [of _ "take (Suc i) messages"], rule exI [of _ "drop (Suc i) messages"],
        simp add: messages_with_dynamic_system_context_def insert_at_def dyn)
  qed
qed

section \<open>The stable hash separates neighbours\<close>

lemma prime_inverse: "stable_hash_prime * 0xce965057aff6957b = 1"
  by (simp add: stable_hash_prime_def)

lemma mult_prime_inj: "a * stable_hash_prime = b * stable_hash_prime \<longleftrightarrow> a = b"
proof
  assume "a * stable_hash_prime = b * stable_hash_prime"
  then have "a * (stable_hash_prime * 0xce965057aff6957b) = b * (stable_hash_prime * 0xce965057aff6957b)"
    by (simp only: mult.assoc [symmetric])
  then show "a = b" by (simp only: prime_inverse mult_1_right)
qed simp

lemma xor_cancel: "(a :: 64 word) XOR x = b XOR x \<longleftrightarrow> a = b"
proof
  assume "a XOR x = b XOR x"
  then have "(a XOR x) XOR x = (b XOR x) XOR x" by simp
  then show "a = b" by (simp add: xor.assoc)
qed simp

lemma hash_step_inj_acc: "hash_step a x = hash_step b x \<longleftrightarrow> a = b"
  by (simp add: hash_step_def mult_prime_inj xor_cancel)

lemma ucast_8_64_inj: "(ucast (x :: 8 word) :: 64 word) = ucast y \<longleftrightarrow> x = y"
proof -
  have "take_bit 64 (uint z) = uint z" for z :: "8 word"
    using uint_bounded [of z] by (intro take_bit_int_eq_self) auto
  then show ?thesis by (auto simp: word_uint_eq_iff unsigned_ucast_eq)
qed

lemma hash_step_inj_byte: "hash_step a x = hash_step a y \<longleftrightarrow> x = y"
proof -
  have "a XOR ucast x = a XOR ucast y \<longleftrightarrow> (ucast x :: 64 word) = ucast y"
    using xor_cancel [of "ucast x" a "ucast y"] by (simp add: xor.commute)
  then show ?thesis by (simp add: hash_step_def mult_prime_inj ucast_8_64_inj)
qed

lemma hash_fold_inj: "foldl hash_step a xs = foldl hash_step b xs \<longleftrightarrow> a = b"
  by (induction xs arbitrary: a b) (simp_all add: hash_step_inj_acc)

text \<open>
  Changing exactly one byte of a serialised message changes its stable hash: every step is a
  bijection on 64-bit words.
\<close>

theorem stable_hash_one_byte:
  "stable_hash_bytes (xs @ [x] @ ys) = stable_hash_bytes (xs @ [y] @ ys) \<longleftrightarrow> x = y"
  by (simp add: stable_hash_bytes_def hash_fold_inj hash_step_inj_byte)

section \<open>The fresh user turn\<close>

fun text_of_block :: "'j content_block \<Rightarrow> string option" where
  "text_of_block (Text t _) = Some t"
| "text_of_block _ = None"

fun visible_block :: "'j content_block \<Rightarrow> bool" where
  "visible_block (Text t _) = user_visible_text t"
| "visible_block _ = False"

definition user_text_only :: "'j message \<Rightarrow> bool" where
  "user_text_only m \<longleftrightarrow> msg_role m = User \<and> msg_content m \<noteq> [] \<and>
     list_all (\<lambda>b. text_of_block b \<noteq> None) (msg_content m)"

definition fresh_turn_message :: "'j message \<Rightarrow> bool" where
  "fresh_turn_message m \<longleftrightarrow> user_text_only m \<and> list_ex visible_block (msg_content m)"

definition reminder_message :: "'j message \<Rightarrow> bool" where
  "reminder_message m \<longleftrightarrow> user_text_only m \<and> \<not> list_ex visible_block (msg_content m) \<and>
     is_internal_system_reminder m"

lemma scan_text_blocks_eq:
  "scan_text_blocks saw bs =
     (if list_all (\<lambda>b. text_of_block b \<noteq> None) bs then Some (saw \<or> list_ex visible_block bs) else None)"
  by (induction saw bs rule: scan_text_blocks.induct)
    auto

lemma text_only_no_result:
  "list_all (\<lambda>b. text_of_block b \<noteq> None) bs \<Longrightarrow> \<not> list_ex is_tool_result bs"
  by (induction bs) (auto simp: is_tool_result_def split: content_block.splits)

lemma fresh_from_end_Cons:
  "fresh_from_end (m # rest) \<longleftrightarrow> fresh_turn_message m \<or> (reminder_message m \<and> fresh_from_end rest)"
  using text_only_no_result [of "msg_content m"]
  by (auto simp: fresh_turn_message_def reminder_message_def user_text_only_def scan_text_blocks_eq
      split: bool.splits if_splits)

text \<open>
  The conversation ends with a fresh user turn exactly when, from the end, there are
  only internal reminder messages before a text-only user message with a visible text: tool
  results, images and assistant messages at the end all rule it out.
\<close>

theorem fresh_user_turn_correct:
  "ends_with_fresh_user_turn messages \<longleftrightarrow>
     (\<exists>before m after. messages = before @ m # after \<and> fresh_turn_message m \<and>
        list_all reminder_message after)"
proof -
  have "fresh_from_end ms \<longleftrightarrow>
      (\<exists>after m before. ms = after @ m # before \<and> fresh_turn_message m \<and>
        list_all reminder_message after)" for ms :: "'a message list"
  proof (induction ms)
    case (Cons m ms)
    show ?case
    proof
      assume "fresh_from_end (m # ms)"
      then consider "fresh_turn_message m" | "reminder_message m" "fresh_from_end ms"
        unfolding fresh_from_end_Cons by blast
      then show "\<exists>after m' before. m # ms = after @ m' # before \<and> fresh_turn_message m' \<and>
          list_all reminder_message after"
      proof cases
        case 1
        then show ?thesis by (intro exI [of _ "[]"]) auto
      next
        case 2
        then obtain after m' before where "ms = after @ m' # before" "fresh_turn_message m'"
          "list_all reminder_message after" using Cons.IH by blast
        with 2 show ?thesis by (intro exI [of _ "m # after"]) auto
      qed
    next
      assume "\<exists>after m' before. m # ms = after @ m' # before \<and> fresh_turn_message m' \<and>
          list_all reminder_message after"
      then obtain after m' before where s: "m # ms = after @ m' # before" "fresh_turn_message m'"
        "list_all reminder_message after" by blast
      then show "fresh_from_end (m # ms)"
        unfolding fresh_from_end_Cons using Cons.IH by (cases after) auto
    qed
  qed simp
  note main = this [of "rev messages"]
  have "(\<exists>after m before. rev messages = after @ m # before \<and> fresh_turn_message m \<and>
      list_all reminder_message after) \<longleftrightarrow>
    (\<exists>before m after. messages = before @ m # after \<and> fresh_turn_message m \<and>
      list_all reminder_message after)"
  proof
    assume "\<exists>after m before. rev messages = after @ m # before \<and> fresh_turn_message m \<and>
      list_all reminder_message after"
    then obtain after m before where "rev messages = after @ m # before" "fresh_turn_message m"
      "list_all reminder_message after" by blast
    then show "\<exists>before m after. messages = before @ m # after \<and> fresh_turn_message m \<and>
      list_all reminder_message after"
      by - (rule exI [of _ "rev before"], rule exI [of _ m], rule exI [of _ "rev after"],
        simp add: rev_swap)
  next
    assume "\<exists>before m after. messages = before @ m # after \<and> fresh_turn_message m \<and>
      list_all reminder_message after"
    then obtain after m before where "messages = before @ m # after" "fresh_turn_message m"
      "list_all reminder_message after" by blast
    then show "\<exists>after m before. rev messages = after @ m # before \<and> fresh_turn_message m \<and>
      list_all reminder_message after"
      by - (rule exI [of _ "rev after"], rule exI [of _ m], rule exI [of _ "rev before"], simp)
  qed
  with main show ?thesis by (simp add: ends_with_fresh_user_turn_def)
qed

section \<open>Timestamps keep the conversation's structure\<close>

fun tool_ids :: "'j content_block \<Rightarrow> string option \<times> string option" where
  "tool_ids (ToolUse i _ _) = (Some i, None)"
| "tool_ids (ToolResult i _ _) = (None, Some i)"
| "tool_ids _ = (None, None)"

lemma tag_first_structure: "map tool_ids (tag_first a b bs) = map tool_ids bs"
  by (induction a b bs rule: tag_first.induct) simp_all

text \<open>
  Injecting timestamps keeps every message's role, the sequence of its blocks' tool
  ids and hence the pairing of tool calls with results; assistant messages, internal reminders
  and messages without a timestamp are not touched.
\<close>

theorem timestamps_keep_structure:
  "map msg_role (with_timestamps fmt tenths sub ms) = map msg_role ms \<and>
   map (\<lambda>m. map tool_ids (msg_content m)) (with_timestamps fmt tenths sub ms) =
     map (\<lambda>m. map tool_ids (msg_content m)) ms \<and>
   filter (\<lambda>m. msg_role m = Assistant) (with_timestamps fmt tenths sub ms) =
     filter (\<lambda>m. msg_role m = Assistant) ms"
proof -
  have one: "msg_role (with_timestamp fmt tenths sub m) = msg_role m"
    "map tool_ids (msg_content (with_timestamp fmt tenths sub m)) = map tool_ids (msg_content m)"
    "msg_role m = Assistant \<Longrightarrow> with_timestamp fmt tenths sub m = m" for m
    using tag_first_structure by (auto simp: with_timestamp_def split: option.splits)
  show ?thesis unfolding with_timestamps_def
    by (induction ms) (simp_all add: one)
qed

end
