(* ===== verification/Compaction.thy ===== *)
theory Compaction
  imports Messages
begin

text \<open>
  Conversation compaction (crates/jcode-compaction-core/src/lib.rs): cutting strings at character
  boundaries, the prompt for the summariser, the cutoff that keeps tool calls and results
  together, the token estimates, the emergency summary and the emergency truncation of tool
  results. The compact text of a JSON value and the Unicode letter-or-digit test are arguments.
  Embeddings (floating point) and the hash of the standard library are not modelled.
\<close>

section \<open>Constants and records\<close>

definition default_token_budget :: nat where "default_token_budget = 200000"
definition recent_turns_to_keep :: nat where "recent_turns_to_keep = 10"
definition min_turns_to_keep :: nat where "min_turns_to_keep = 2"
definition emergency_tool_result_max_chars :: nat where "emergency_tool_result_max_chars = 4000"
definition chars_per_token :: nat where "chars_per_token = 4"
definition system_overhead_tokens :: nat where "system_overhead_tokens = 18000"
definition embed_max_chars_per_msg :: nat where "embed_max_chars_per_msg = 512"

definition summary_prompt :: string where
  "summary_prompt =
     ''Summarize our conversation so you can continue this work later.'' @ nl @ nl
     @ ''Write in natural language with these sections:'' @ nl
     @ ''- **Context:** What we'' @ [CHR 0x27] @ ''re working on and why (1-2 sentences)'' @ nl
     @ ''- **What we did:** Key actions taken, files changed, problems solved'' @ nl
     @ ''- **Current state:** What works, what'' @ [CHR 0x27] @ ''s broken, what'' @ [CHR 0x27] @ ''s next'' @ nl
     @ ''- **User preferences:** Specific requirements or decisions they made'' @ nl @ nl
     @ ''Be concise but preserve important details. You can search the full conversation later if you need exact error messages or code snippets.''"

record summary =
  sm_text :: string
  sm_openai_encrypted_content :: "string option"
  sm_covers_up_to_turn :: nat
  sm_original_turn_count :: nat

record compaction_event =
  ce_trigger :: string
  ce_pre_tokens :: "nat option"
  ce_post_tokens :: "nat option"
  ce_tokens_saved :: "nat option"
  ce_duration_ms :: "nat option"
  ce_messages_dropped :: "nat option"
  ce_messages_compacted :: "nat option"
  ce_summary_chars :: "nat option"
  ce_active_messages :: "nat option"

datatype compaction_action = NoCompaction | BackgroundStarted string | HardCompacted nat

definition compacted_summary_text_block :: "string \<Rightarrow> string" where
  "compacted_summary_text_block s =
     ''## Previous Conversation Summary'' @ nl @ nl @ s @ nl @ nl @ ''---'' @ nl @ nl"

section \<open>Cutting at character boundaries\<close>

fun back_to_boundary :: "string \<Rightarrow> nat \<Rightarrow> nat" where
  "back_to_boundary s 0 = 0"
| "back_to_boundary s (Suc e) =
     (if is_char_boundary s (Suc e) then Suc e else back_to_boundary s e)"

definition truncate_str_boundary :: "string \<Rightarrow> nat \<Rightarrow> string" where
  "truncate_str_boundary s max_bytes =
     (if length s \<le> max_bytes then s
      else take (back_to_boundary s (min max_bytes (length s))) s)"

function forward_to_boundary :: "string \<Rightarrow> nat \<Rightarrow> nat" where
  "forward_to_boundary s start =
     (if start < length s \<and> \<not> is_char_boundary s start then forward_to_boundary s (start + 1)
      else start)"
  by pat_completeness auto
termination
  by (relation "measure (\<lambda>(s, start). length s - start)") auto

declare forward_to_boundary.simps [simp del]

definition tail_str_boundary :: "string \<Rightarrow> nat \<Rightarrow> string" where
  "tail_str_boundary s max_bytes =
     (if length s \<le> max_bytes then s
      else drop (forward_to_boundary s (length s - max_bytes)) s)"

section \<open>The summariser's prompt\<close>

fun role_title :: "role \<Rightarrow> string" where
  "role_title User = ''User''"
| "role_title Assistant = ''Assistant''"

fun block_conversation_text :: "('j \<Rightarrow> string) \<Rightarrow> 'j content_block \<Rightarrow> string" where
  "block_conversation_text show_json (Text text _) = text @ nl"
| "block_conversation_text show_json (ToolUse _ name input) =
     ''[Tool: '' @ name @ '' - '' @ show_json input @ '']'' @ nl"
| "block_conversation_text show_json (ToolResult _ content _) =
     ''[Result: ''
     @ (if length content > 500 then truncate_str_boundary content 500 @ ''... (truncated)'' else content)
     @ '']'' @ nl"
| "block_conversation_text show_json (Reasoning _) = []"
| "block_conversation_text show_json (Image _ _) = ''[Image]'' @ nl"
| "block_conversation_text show_json (OpenAICompaction _) = ''[OpenAI native compaction]'' @ nl"

definition message_conversation_text :: "('j \<Rightarrow> string) \<Rightarrow> 'j message \<Rightarrow> string" where
  "message_conversation_text show_json m =
     ''**'' @ role_title (msg_role m) @ '':**'' @ nl
     @ concat (map (block_conversation_text show_json) (msg_content m)) @ nl"

definition build_compaction_conversation_text ::
  "('j \<Rightarrow> string) \<Rightarrow> 'j message list \<Rightarrow> summary option \<Rightarrow> string" where
  "build_compaction_conversation_text show_json messages existing_summary =
     (case existing_summary of
        Some s \<Rightarrow> ''## Previous Summary'' @ nl @ nl @ sm_text s @ nl @ nl @ ''## New Conversation'' @ nl @ nl
      | None \<Rightarrow> [])
     @ concat (map (message_conversation_text show_json) messages)"

definition truncation_notice :: string where
  "truncation_notice =
     nl @ nl @ ''... [earlier conversation truncated to fit context window]'' @ nl"

definition build_compaction_prompt ::
  "('j \<Rightarrow> string) \<Rightarrow> 'j message list \<Rightarrow> summary option \<Rightarrow> nat \<Rightarrow> string" where
  "build_compaction_prompt show_json messages existing_summary max_prompt_chars =
     (let conversation = build_compaction_conversation_text show_json messages existing_summary;
          overhead = length summary_prompt + 50;
          conversation =
            (if length conversation + overhead > max_prompt_chars \<and> max_prompt_chars > overhead
             then truncate_str_boundary conversation (max_prompt_chars - overhead) @ truncation_notice
             else conversation)
      in conversation @ nl @ nl @ ''---'' @ nl @ nl @ summary_prompt)"

section \<open>The safe cutoff\<close>

type_synonym tool_scan = "string set \<times> string set"

fun scan_block :: "tool_scan \<Rightarrow> 'j content_block \<Rightarrow> tool_scan" where
  "scan_block (available, missing) (ToolUse i _ _) = (insert i available, missing - {i})"
| "scan_block (available, missing) (ToolResult i _ _) =
     (available, if i \<notin> available then insert i missing else missing)"
| "scan_block st _ = st"

definition scan_message :: "tool_scan \<Rightarrow> 'j message \<Rightarrow> tool_scan" where
  "scan_message st m = foldl scan_block st (msg_content m)"

fun walk_back :: "'j message list \<Rightarrow> nat \<Rightarrow> tool_scan \<Rightarrow> nat" where
  "walk_back messages 0 st = 0"
| "walk_back messages (Suc idx) st =
     (let st = scan_message st (messages ! idx)
      in if snd st = {} then idx else walk_back messages idx st)"

definition safe_compaction_cutoff :: "'j message list \<Rightarrow> nat \<Rightarrow> nat" where
  "safe_compaction_cutoff messages initial_cutoff =
     (let cutoff = min initial_cutoff (length messages);
          st = foldl scan_message ({}, {}) (drop cutoff messages)
      in if snd st = {} then cutoff else walk_back messages cutoff st)"

section \<open>Sizes and estimates\<close>

fun block_char_count :: "('j \<Rightarrow> string) \<Rightarrow> 'j content_block \<Rightarrow> nat" where
  "block_char_count show_json (Text text _) = length text"
| "block_char_count show_json (Reasoning text) = length text"
| "block_char_count show_json (ToolUse _ _ input) = length (show_json input) + 50"
| "block_char_count show_json (ToolResult _ content _) = length content + 20"
| "block_char_count show_json (Image _ data) = length data"
| "block_char_count show_json (OpenAICompaction content) = length content"

definition content_char_count :: "('j \<Rightarrow> string) \<Rightarrow> 'j content_block list \<Rightarrow> nat" where
  "content_char_count show_json content = sum_list (map (block_char_count show_json) content)"

definition message_char_count :: "('j \<Rightarrow> string) \<Rightarrow> 'j message \<Rightarrow> nat" where
  "message_char_count show_json m = content_char_count show_json (msg_content m)"

definition summary_payload_char_count :: "summary \<Rightarrow> nat" where
  "summary_payload_char_count s =
     (case sm_openai_encrypted_content s of Some v \<Rightarrow> length v | None \<Rightarrow> length (sm_text s))"

definition estimate_compaction_tokens_from_chars :: "nat \<Rightarrow> nat \<Rightarrow> nat" where
  "estimate_compaction_tokens_from_chars total_chars token_budget =
     (let msg_tokens = total_chars div chars_per_token;
          overhead = (if token_budget \<ge> default_token_budget div 2 then system_overhead_tokens else 0)
      in msg_tokens + overhead)"

definition estimate_compaction_tokens :: "summary option \<Rightarrow> nat \<Rightarrow> nat \<Rightarrow> nat" where
  "estimate_compaction_tokens s active_message_chars token_budget =
     estimate_compaction_tokens_from_chars
       ((case s of Some s \<Rightarrow> summary_payload_char_count s | None \<Rightarrow> 0) + active_message_chars)
       token_budget"

section \<open>Text for embeddings\<close>

definition push_semantic_excerpt :: "string \<Rightarrow> string \<Rightarrow> nat \<Rightarrow> string" where
  "push_semantic_excerpt target source max_chars =
     (if source = [] then target
      else (if target \<noteq> [] then target @ '' '' else target) @ char_take max_chars source)"

fun goal_block :: "string \<Rightarrow> 'j content_block \<Rightarrow> string" where
  "goal_block text (Text t _) = push_semantic_excerpt text t 200"
| "goal_block text (ToolResult _ content _) = push_semantic_excerpt text content 100"
| "goal_block text _ = text"

definition semantic_goal_text :: "'j message list \<Rightarrow> string" where
  "semantic_goal_text messages =
     foldl (\<lambda>text m. foldl goal_block text (msg_content m)) [] messages"

fun message_block :: "string \<Rightarrow> 'j content_block \<Rightarrow> string" where
  "message_block text (Text t _) = push_semantic_excerpt text t embed_max_chars_per_msg"
| "message_block text _ = text"

definition semantic_message_text :: "'j message \<Rightarrow> string" where
  "semantic_message_text m = foldl message_block [] (msg_content m)"

section \<open>The emergency summary\<close>

definition looks_like_file_reference :: "string \<Rightarrow> bool" where
  "looks_like_file_reference word \<longleftrightarrow>
     (str_contains word ''/'' \<or> str_contains word ''.'') \<and> length word > 3 \<and> length word < 120 \<and>
     \<not> prefix ''http'' word \<and>
     (str_contains word ''.rs'' \<or> str_contains word ''.ts'' \<or> str_contains word ''.py'' \<or>
      str_contains word ''.toml'' \<or> str_contains word ''.json'' \<or> prefix ''src/'' word \<or>
      prefix ''./'' word)"

definition clean_file_reference :: "(string \<Rightarrow> bool) \<Rightarrow> string \<Rightarrow> string" where
  "clean_file_reference alnum word =
     (let strip = (\<lambda>ch. \<not> alnum ch \<and> ch \<noteq> ''/'' \<and> ch \<noteq> ''.'' \<and> ch \<noteq> ''_'' \<and> ch \<noteq> ''-'')
      in concat (rev (dropWhile strip (rev (dropWhile strip (chars word))))))"

definition extract_file_mentions :: "(string \<Rightarrow> bool) \<Rightarrow> string \<Rightarrow> string list" where
  "extract_file_mentions alnum text =
     filter (\<lambda>w. w \<noteq> []) (map (clean_file_reference alnum)
       (filter looks_like_file_reference (split_whitespace text)))"

fun block_hints ::
  "(string \<Rightarrow> bool) \<Rightarrow> string fset \<times> string list \<Rightarrow> 'j content_block \<Rightarrow> string fset \<times> string list" where
  "block_hints alnum (tools, files) (ToolUse _ name _) = (finsert name tools, files)"
| "block_hints alnum (tools, files) (Text text _) = (tools, files @ extract_file_mentions alnum text)"
| "block_hints alnum st _ = st"

definition emergency_hints ::
  "(string \<Rightarrow> bool) \<Rightarrow> 'j message list \<Rightarrow> string fset \<times> string list" where
  "emergency_hints alnum messages =
     foldl (\<lambda>st m. foldl (block_hints alnum) st (msg_content m)) ({||}, []) messages"

definition build_emergency_summary_text ::
  "(string \<Rightarrow> bool) \<Rightarrow> string option \<Rightarrow> nat \<Rightarrow> nat \<Rightarrow> nat \<Rightarrow> 'j message list \<Rightarrow> string" where
  "build_emergency_summary_text alnum existing dropped_count pre_tokens token_budget dropped =
     (let (tools, files) = emergency_hints alnum dropped;
          files = take 30 (remdups_adj (sort files))
      in join (nl @ nl)
        ((case existing of Some e \<Rightarrow> if e \<noteq> [] then [e] else [] | None \<Rightarrow> [])
         @ [''**[Emergency compaction]**: '' @ show_nat dropped_count
            @ '' messages were dropped to recover from context overflow. The conversation had ~''
            @ show_nat (pre_tokens div 1000) @ ''k tokens which exceeded the ''
            @ show_nat (token_budget div 1000) @ ''k limit.'']
         @ (if tools \<noteq> {||} then [''Tools used: '' @ join '', '' (sorted_list_of_fset tools)] else [])
         @ (if files \<noteq> [] then [''Files referenced: '' @ join '', '' files] else [])))"

section \<open>Emergency truncation\<close>

definition emergency_truncated_tool_result :: "string \<Rightarrow> nat \<Rightarrow> string" where
  "emergency_truncated_tool_result content max_chars =
     (let head = truncate_str_boundary content (max_chars div 2);
          tail = tail_str_boundary content (max_chars div 4);
          truncated_len = length content - (length head + length tail)
      in head @ nl @ nl @ ''... ['' @ show_nat truncated_len
         @ '' chars truncated for context recovery] ...'' @ nl @ nl @ tail)"

fun truncate_block :: "nat \<Rightarrow> 'j content_block \<Rightarrow> 'j content_block \<times> nat" where
  "truncate_block max_chars (ToolResult i content e) =
     (if length content > max_chars
      then (ToolResult i (emergency_truncated_tool_result content max_chars) e, 1)
      else (ToolResult i content e, 0))"
| "truncate_block max_chars b = (b, 0)"

definition emergency_truncate_tool_results ::
  "'j message list \<Rightarrow> nat \<Rightarrow> 'j message list \<times> nat" where
  "emergency_truncate_tool_results messages max_chars =
     (map (\<lambda>m. m\<lparr>msg_content := map (fst \<circ> truncate_block max_chars) (msg_content m)\<rparr>) messages,
      sum_list (map (\<lambda>m. sum_list (map (snd \<circ> truncate_block max_chars) (msg_content m))) messages))"

section \<open>Cuts are at the right boundary\<close>

lemma boundary_0 [simp]: "is_char_boundary s 0"
  by (simp add: is_char_boundary_def)

lemma boundary_length [simp]: "is_char_boundary s (length s)"
  by (simp add: is_char_boundary_def)

lemma boundary_le: "is_char_boundary s i \<Longrightarrow> i \<le> length s"
  by (auto simp: is_char_boundary_def split: if_splits)

lemma back_to_boundary:
  "back_to_boundary s e \<le> e \<and> is_char_boundary s (back_to_boundary s e) \<and>
   (\<forall>i. back_to_boundary s e < i \<and> i \<le> e \<longrightarrow> \<not> is_char_boundary s i)"
  by (induction e) (auto simp: le_Suc_eq)

lemma forward_to_boundary:
  "start \<le> length s \<Longrightarrow>
   start \<le> forward_to_boundary s start \<and> is_char_boundary s (forward_to_boundary s start) \<and>
   (\<forall>i. start \<le> i \<and> i < forward_to_boundary s start \<longrightarrow> \<not> is_char_boundary s i)"
proof (induction s start rule: forward_to_boundary.induct)
  case (1 s start)
  show ?case
  proof (cases "start < length s \<and> \<not> is_char_boundary s start")
    case True
    with 1 have "Suc start \<le> forward_to_boundary s (Suc start)"
      "is_char_boundary s (forward_to_boundary s (Suc start))"
      "\<forall>i. Suc start \<le> i \<and> i < forward_to_boundary s (Suc start) \<longrightarrow> \<not> is_char_boundary s i"
      by auto
    with True show ?thesis
      by (auto simp: forward_to_boundary.simps [of s start]) (metis Suc_leI le_neq_implies_less)
  next
    case False
    then have f: "forward_to_boundary s start = start"
      by (subst forward_to_boundary.simps) auto
    from False 1(2) have "is_char_boundary s start" by (cases "start = length s") auto
    with f show ?thesis by auto
  qed
qed

lemma truncate_str_boundary_bound:
  "prefix (truncate_str_boundary s n) s \<and> length (truncate_str_boundary s n) \<le> n"
  using back_to_boundary [of s n]
  by (auto simp: truncate_str_boundary_def take_is_prefix min_def)

text \<open>
  The head cut is a prefix of at most the given number of bytes that ends at a
  character boundary, and no later boundary fits: it never splits a character and never drops one
  that would have fitted.
\<close>

theorem truncate_str_boundary_correct:
  "prefix (truncate_str_boundary s n) s \<and> length (truncate_str_boundary s n) \<le> n \<and>
   is_char_boundary s (length (truncate_str_boundary s n)) \<and>
   {i. length (truncate_str_boundary s n) < i \<and> i \<le> n \<and> is_char_boundary s i} = {}"
proof (cases "length s \<le> n")
  case True
  then show ?thesis by (auto simp: truncate_str_boundary_def dest: boundary_le)
next
  case False
  then show ?thesis
    using back_to_boundary [of s n] by (auto simp: truncate_str_boundary_def take_is_prefix min_def)
qed

lemma tail_str_boundary_correct:
  "suffix (tail_str_boundary s n) s \<and> length (tail_str_boundary s n) \<le> n \<and>
   is_char_boundary s (length s - length (tail_str_boundary s n)) \<and>
   (\<forall>i. length s - n \<le> i \<and> i < length s - length (tail_str_boundary s n) \<longrightarrow> \<not> is_char_boundary s i)"
proof (cases "length s \<le> n")
  case True
  then show ?thesis by (simp add: tail_str_boundary_def)
next
  case False
  let ?k = "forward_to_boundary s (length s - n)"
  have k: "length s - n \<le> ?k" "is_char_boundary s ?k" "?k \<le> length s"
    "\<forall>i. length s - n \<le> i \<and> i < ?k \<longrightarrow> \<not> is_char_boundary s i"
    using forward_to_boundary [of "length s - n" s] boundary_le by auto
  from False k show ?thesis by (auto simp: tail_str_boundary_def suffix_drop)
qed

section \<open>The safe cutoff keeps calls and results together\<close>

fun use_id :: "'j content_block \<Rightarrow> string set" where
  "use_id (ToolUse i _ _) = {i}"
| "use_id _ = {}"

fun result_id :: "'j content_block \<Rightarrow> string set" where
  "result_id (ToolResult i _ _) = {i}"
| "result_id _ = {}"

definition use_ids :: "'j message list \<Rightarrow> string set" where
  "use_ids ms = (\<Union>m \<in> set ms. \<Union>b \<in> set (msg_content m). use_id b)"

definition result_ids :: "'j message list \<Rightarrow> string set" where
  "result_ids ms = (\<Union>m \<in> set ms. \<Union>b \<in> set (msg_content m). result_id b)"

definition tools_closed :: "'j message list \<Rightarrow> bool" where
  "tools_closed ms \<longleftrightarrow> result_ids ms \<subseteq> use_ids ms"

lemma scan_block_eq:
  "scan_block (U, R - U) b = (U \<union> use_id b, (R \<union> result_id b) - (U \<union> use_id b))"
  by (cases b) auto

lemma scan_blocks_eq:
  "foldl scan_block (U, R - U) bs =
     (U \<union> (\<Union>b \<in> set bs. use_id b), (R \<union> (\<Union>b \<in> set bs. result_id b)) - (U \<union> (\<Union>b \<in> set bs. use_id b)))"
proof (induction bs arbitrary: U R)
  case (Cons b bs)
  show ?case by (simp only: foldl_Cons scan_block_eq Cons.IH) (simp add: Un_assoc)
qed simp

lemma scan_message_eq:
  "scan_message (U, R - U) m = (U \<union> use_ids [m], (R \<union> result_ids [m]) - (U \<union> use_ids [m]))"
  by (simp add: scan_message_def scan_blocks_eq use_ids_def result_ids_def)

lemma ids_simps [simp]:
  "use_ids [] = {}" "result_ids [] = {}"
  "use_ids (m # ms) = use_ids [m] \<union> use_ids ms" "result_ids (m # ms) = result_ids [m] \<union> result_ids ms"
  by (simp_all add: use_ids_def result_ids_def)

declare ids_simps(3,4) [simp del]

lemma scan_messages_eq:
  "foldl scan_message (U, R - U) ms =
     (U \<union> use_ids ms, (R \<union> result_ids ms) - (U \<union> use_ids ms))"
proof (induction ms arbitrary: U R)
  case (Cons m ms)
  show ?case
    by (simp only: foldl_Cons scan_message_eq Cons.IH) (simp add: ids_simps(3,4) [of m ms] Un_assoc)
qed simp

lemma walk_back_correct:
  assumes "st = (use_ids (drop c ms), result_ids (drop c ms) - use_ids (drop c ms))" and "c \<le> length ms"
  shows "walk_back ms c st \<le> c \<and> (walk_back ms c st = 0 \<or> tools_closed (drop (walk_back ms c st) ms)) \<and>
    (\<forall>i. walk_back ms c st < i \<and> i < c \<longrightarrow> \<not> tools_closed (drop i ms))"
  using assms
proof (induction c arbitrary: st)
  case (Suc c)
  let ?st = "scan_message st (ms ! c)"
  have d: "drop c ms = ms ! c # drop (Suc c) ms"
    using Suc.prems(2) by (simp add: Cons_nth_drop_Suc)
  have st: "?st = (use_ids (drop c ms), result_ids (drop c ms) - use_ids (drop c ms))"
    unfolding Suc.prems(1) scan_message_eq d ids_simps(3,4) [of "ms ! c" "drop (Suc c) ms"]
    by (simp add: Un_commute)
  have closed: "snd ?st = {} \<longleftrightarrow> tools_closed (drop c ms)"
    unfolding st tools_closed_def by simp
  show ?case
  proof (cases "tools_closed (drop c ms)")
    case True
    with closed have w: "walk_back ms (Suc c) st = c" by simp
    from True show ?thesis unfolding w by auto
  next
    case False
    with closed have w: "walk_back ms (Suc c) st = walk_back ms c ?st" by simp
    have "c \<le> length ms" using Suc.prems(2) by simp
    from Suc.IH [OF st this] False show ?thesis unfolding w by (auto simp: less_Suc_eq)
  qed
qed simp

lemma safe_cutoff_correct:
  "safe_compaction_cutoff ms c \<le> min c (length ms) \<and>
   (safe_compaction_cutoff ms c = 0 \<or> tools_closed (drop (safe_compaction_cutoff ms c) ms)) \<and>
   (\<forall>i. safe_compaction_cutoff ms c < i \<and> i \<le> min c (length ms) \<longrightarrow> \<not> tools_closed (drop i ms))"
proof -
  let ?c = "min c (length ms)"
  have st: "foldl scan_message ({}, {}) (drop ?c ms) =
      (use_ids (drop ?c ms), result_ids (drop ?c ms) - use_ids (drop ?c ms))"
    using scan_messages_eq [of "{}" "{}" "drop ?c ms"] by simp
  have closed: "snd (foldl scan_message ({}, {}) (drop ?c ms)) = {} \<longleftrightarrow> tools_closed (drop ?c ms)"
    unfolding st tools_closed_def by simp
  show ?thesis
  proof (cases "tools_closed (drop ?c ms)")
    case True
    with closed have "safe_compaction_cutoff ms c = ?c"
      by (simp add: safe_compaction_cutoff_def Let_def)
    with True show ?thesis by (auto simp: min_def split: if_splits)
  next
    case False
    with closed have w: "safe_compaction_cutoff ms c = walk_back ms ?c (foldl scan_message ({}, {}) (drop ?c ms))"
      by (simp add: safe_compaction_cutoff_def Let_def)
    have "?c \<le> length ms" by simp
    from walk_back_correct [OF st this] False show ?thesis
      unfolding w by (metis le_neq_implies_less)
  qed
qed

text \<open>
  Property C7. The cutoff never exceeds the requested one nor the number of messages; unless it is
  0, every tool result kept behind it has its tool call kept as well; and it is the largest such
  cutoff, so nothing more than necessary is kept.
\<close>

theorem safe_compaction_cutoff_correct:
  "safe_compaction_cutoff ms c \<le> min c (length ms) \<and>
   (safe_compaction_cutoff ms c = 0 \<or> tools_closed (drop (safe_compaction_cutoff ms c) ms)) \<and>
   {i. safe_compaction_cutoff ms c < i \<and> i \<le> min c (length ms) \<and> tools_closed (drop i ms)} = {}"
  using safe_cutoff_correct [of ms c] by auto

section \<open>The summariser's prompt and its bound\<close>

lemma length_summary_prompt: "length summary_prompt = 508"
  by (simp add: summary_prompt_def nl_def)

lemma length_truncation_notice: "length truncation_notice = 61"
  by (simp add: truncation_notice_def nl_def)

text \<open>
  When the limit leaves room for the instructions, the prompt is at most 18 bytes
  longer than the limit, it always ends with the instructions, and it starts with the longest
  prefix of the conversation the budget allows; its exact length is stated. The limit itself is not kept: the 50 bytes set
  aside do not cover the notice (61 bytes) and the separator (7 bytes) that are added.
\<close>

theorem compaction_prompt_bound:
  assumes "length summary_prompt + 50 < limit"
  shows "length (build_compaction_prompt show_json ms s limit) \<le> limit + 18 \<and>
    length (build_compaction_prompt show_json ms s limit) =
      (let conv = build_compaction_conversation_text show_json ms s;
           kept = truncate_str_boundary conv (limit - (length summary_prompt + 50))
       in if limit - (length summary_prompt + 50) < length conv then length kept + 61 else length conv)
      + 7 + length summary_prompt \<and>
    suffix summary_prompt (build_compaction_prompt show_json ms s limit) \<and>
    prefix (truncate_str_boundary (build_compaction_conversation_text show_json ms s)
        (limit - (length summary_prompt + 50)))
      (build_compaction_prompt show_json ms s limit)"
proof -
  let ?conv = "build_compaction_conversation_text show_json ms s"
  let ?b = "limit - (length summary_prompt + 50)"
  have t: "length (truncate_str_boundary ?conv ?b) \<le> ?b" "prefix (truncate_str_boundary ?conv ?b) ?conv"
    using truncate_str_boundary_bound by blast+
  define rest where "rest = nl @ nl @ ''---'' @ nl @ nl"
  have rest: "length rest = 7" by (simp add: rest_def nl_def)
  have p: "build_compaction_prompt show_json ms s limit =
      (if length ?conv > ?b then truncate_str_boundary ?conv ?b @ truncation_notice else ?conv)
        @ rest @ summary_prompt"
    using assms by (auto simp: build_compaction_prompt_def Let_def rest_def)
  show ?thesis
    unfolding p using assms t rest length_truncation_notice
    by (auto simp: suffix_def Let_def intro: prefix_order.trans)
qed

lemma compaction_prompt_exceeds:
  "length (build_compaction_prompt show_nat
     [\<lparr>msg_role = User, msg_content = [Text (replicate 50 CHR ''x'') None],
      msg_timestamp = None, msg_tool_duration_ms = None\<rparr> :: nat message] None 560) = 578"
proof -
  let ?conv = "build_compaction_conversation_text show_nat
    [\<lparr>msg_role = User, msg_content = [Text (replicate 50 CHR ''x'') None],
      msg_timestamp = None, msg_tool_duration_ms = None\<rparr> :: nat message] None"
  have c: "?conv = ''**User:**'' @ nl @ replicate 50 CHR ''x'' @ nl @ nl"
    by (simp add: build_compaction_conversation_text_def message_conversation_text_def)
  have t: "truncate_str_boundary ?conv 2 = ''**''"
    unfolding c by (simp add: truncate_str_boundary_def is_char_boundary_def is_cont_def nl_def numeral_2_eq_2)
  show ?thesis
    using t by (simp add: build_compaction_prompt_def Let_def length_summary_prompt
      length_truncation_notice c nl_def)
qed

theorem compaction_prompt_bound_witness:
  "let ms = [\<lparr>msg_role = User, msg_content = [Text (replicate 50 CHR ''x'') None],
      msg_timestamp = None, msg_tool_duration_ms = None\<rparr>] :: nat message list
   in length (build_compaction_prompt show_nat ms None 560) \<le> 560 + 18 \<and>
      length (build_compaction_prompt show_nat ms None 560) = 578"
  using compaction_prompt_bound [of 560 show_nat] compaction_prompt_exceeds
  by (simp add: Let_def length_summary_prompt)

section \<open>The emergency truncation\<close>

fun tool_result_shape :: "'j content_block \<Rightarrow> (string \<times> bool option) option" where
  "tool_result_shape (ToolResult i _ e) = Some (i, e)"
| "tool_result_shape _ = None"

fun result_length :: "'j content_block \<Rightarrow> nat" where
  "result_length (ToolResult _ content _) = length content"
| "result_length _ = 0"

lemma emergency_result_length:
  assumes "length content < 2 ^ 64" and "max_chars \<ge> 300"
  shows "length (emergency_truncated_tool_result content max_chars) \<le> max_chars"
proof -
  let ?h = "truncate_str_boundary content (max_chars div 2)" and ?t = "tail_str_boundary content (max_chars div 4)"
  let ?n = "length content - (length ?h + length ?t)"
  have "?n < 10 ^ 20" using assms(1) by simp
  then have d: "length (show_nat ?n) \<le> 20" by (rule length_show_nat) simp
  have "length ?h \<le> max_chars div 2" "length ?t \<le> max_chars div 4"
    using truncate_str_boundary_bound tail_str_boundary_correct by blast+
  moreover have "length (emergency_truncated_tool_result content max_chars) =
      length ?h + length ?t + 51 + length (show_nat ?n)"
    by (simp add: emergency_truncated_tool_result_def Let_def nl_def)
  ultimately show ?thesis using d assms(2) by linarith
qed

lemma emergency_result_parts:
  assumes "max_chars < length content"
  shows "\<exists>h r t. content = h @ r @ t \<and> length h \<le> max_chars div 2 \<and> length t \<le> max_chars div 4 \<and>
    emergency_truncated_tool_result content max_chars =
      h @ nl @ nl @ ''... ['' @ show_nat (length r) @ '' chars truncated for context recovery] ...''
        @ nl @ nl @ t"
proof -
  let ?h = "truncate_str_boundary content (max_chars div 2)" and ?t = "tail_str_boundary content (max_chars div 4)"
  have h: "prefix ?h content" "length ?h \<le> max_chars div 2"
    and t: "suffix ?t content" "length ?t \<le> max_chars div 4"
    using truncate_str_boundary_bound tail_str_boundary_correct by blast+
  have l: "length ?h + length ?t \<le> length content" using h(2) t(2) assms by linarith
  obtain u where u: "content = ?h @ u" using h(1) by (auto simp: prefix_def)
  obtain v where v: "content = v @ ?t" using t(1) by (auto simp: suffix_def)
  have lu: "length ?h + length u = length content" and lv: "length v + length ?t = length content"
    by (metis u length_append, metis v length_append)
  have "?t = drop (length v) content" by (metis v append_eq_conv_conj)
  also have "\<dots> = drop (length v - length ?h) u"
    using l lv by (subst u) (simp add: drop_append)
  finally have t': "?t = drop (length v - length ?h) u" .
  let ?r = "take (length v - length ?h) u"
  have c: "content = ?h @ ?r @ ?t" by (metis u t' append_take_drop_id)
  have r: "length ?r = length content - (length ?h + length ?t)" using lu lv by simp
  show ?thesis
    by (rule exI [of _ ?h], rule exI [of _ ?r], rule exI [of _ ?t])
      (use c h(2) t(2) r in \<open>simp only: emergency_truncated_tool_result_def Let_def conj_assoc simp_thms\<close>)
qed

lemma truncate_block_effect:
  "snd (truncate_block n b) = (if n < result_length b then 1 else 0)"
  "tool_result_shape (fst (truncate_block n b)) = tool_result_shape b"
  "result_length b \<le> n \<Longrightarrow> fst (truncate_block n b) = b"
  "300 \<le> n \<Longrightarrow> result_length b < 2 ^ 64 \<Longrightarrow> result_length (fst (truncate_block n b)) \<le> n"
  by (cases b; simp add: emergency_result_length)+

lemma sum_indicator: "sum_list (map (\<lambda>x. if P x then 1 else 0 :: nat) xs) = length (filter P xs)"
  by (induction xs) auto

text \<open>
  Property C37. With a limit of at least 300 bytes (the callers use 4000) the emergency truncation
  brings every tool result within the limit, leaves all other blocks and the results already
  within it as they were, keeps the order, the tool ids and the error flags, and returns the
  number of results that were too long. The bound is not a matter of course: the notice put
  between head and tail costs up to 71 bytes, which the dropped quarter has to cover.
\<close>

theorem emergency_truncation_correct:
  assumes "300 \<le> n" and "\<forall>m \<in> set ms. \<forall>b \<in> set (msg_content m). result_length b < 2 ^ 64"
  shows "(\<forall>m \<in> set (fst (emergency_truncate_tool_results ms n)).
      \<forall>b \<in> set (msg_content m). result_length b \<le> n) \<and>
    map (\<lambda>m. map tool_result_shape (msg_content m)) (fst (emergency_truncate_tool_results ms n)) =
      map (\<lambda>m. map tool_result_shape (msg_content m)) ms \<and>
    list_all2 (\<lambda>m m'. list_all2 (\<lambda>b b'. result_length b > n \<or> b' = b) (msg_content m) (msg_content m'))
      ms (fst (emergency_truncate_tool_results ms n)) \<and>
    snd (emergency_truncate_tool_results ms n) =
      length (filter (\<lambda>b. n < result_length b) (concat (map msg_content ms)))"
proof -
  have small: "\<forall>m \<in> set (fst (emergency_truncate_tool_results ms n)).
      \<forall>b \<in> set (msg_content m). result_length b \<le> n"
    using assms by (auto simp: emergency_truncate_tool_results_def intro!: truncate_block_effect(4))
  have shape: "map (\<lambda>m. map tool_result_shape (msg_content m)) (fst (emergency_truncate_tool_results ms n)) =
      map (\<lambda>m. map tool_result_shape (msg_content m)) ms"
    by (simp add: emergency_truncate_tool_results_def truncate_block_effect(2))
  have same: "list_all2 (\<lambda>m m'. list_all2 (\<lambda>b b'. result_length b > n \<or> b' = b)
      (msg_content m) (msg_content m')) ms (fst (emergency_truncate_tool_results ms n))"
    by (auto simp: emergency_truncate_tool_results_def list_all2_conv_all_nth
        intro!: truncate_block_effect(3))
  have "snd (emergency_truncate_tool_results ms n) =
      sum_list (map (\<lambda>m. length (filter (\<lambda>b. n < result_length b) (msg_content m))) ms)"
    by (simp add: emergency_truncate_tool_results_def comp_def truncate_block_effect(1) sum_indicator)
  also have "\<dots> = length (filter (\<lambda>b. n < result_length b) (concat (map msg_content ms)))"
    by (simp add: filter_concat length_concat comp_def)
  finally show ?thesis using small shape same by blast
qed

theorem emergency_truncation_correct_witness:
  "snd (emergency_truncate_tool_results
     [\<lparr>msg_role = User, msg_content = [ToolResult ''t'' (replicate 400 CHR ''x'') None],
       msg_timestamp = None, msg_tool_duration_ms = None\<rparr> :: nat message] 300) = 1"
  using emergency_truncation_correct [of 300 "[\<lparr>msg_role = User,
      msg_content = [ToolResult ''t'' (replicate 400 CHR ''x'') None],
      msg_timestamp = None, msg_tool_duration_ms = None\<rparr> :: nat message]"]
  by simp

text \<open>
  An over-long tool result is replaced by a head and a tail of it around a notice;
  the head, the part removed and the tail make up the whole content, and the notice states the
  number of bytes removed.
\<close>

theorem emergency_result_content:
  assumes "max_chars < length content"
  shows "\<exists>h r t. content = h @ r @ t \<and> length h \<le> max_chars div 2 \<and> length t \<le> max_chars div 4 \<and>
    emergency_truncated_tool_result content max_chars =
      h @ nl @ nl @ ''... ['' @ show_nat (length r) @ '' chars truncated for context recovery] ...''
        @ nl @ nl @ t"
  using assms by (rule emergency_result_parts)

theorem emergency_result_content_witness:
  "\<exists>h r t. ''abcdefgh'' = h @ r @ t \<and> length h \<le> 2 \<and> length t \<le> 1 \<and>
    emergency_truncated_tool_result ''abcdefgh'' 4 =
      h @ nl @ nl @ ''... ['' @ show_nat (length r) @ '' chars truncated for context recovery] ...''
        @ nl @ nl @ t"
  using emergency_result_content [of 4 "''abcdefgh''"] by simp

end
