(* ===== verification/TopK.thy ===== *)
theory TopK
  imports Prelude "HOL-Library.Product_Lexorder"
begin

text \<open>
  Selection of the best entries with a bounded heap: \<^verbatim>\<open>top_k_by_score\<close> and \<^verbatim>\<open>top_k_by_ord\<close> of
  crates/jcode-memory-types/src/lib.rs and the copy \<^verbatim>\<open>top_k_scored\<close> in src/graph.rs. The three have
  one body; they differ in the comparison that decides whether a newcomer replaces the smallest
  entry, which is the first argument here. For floating-point scores the order of the keys is the
  total order of the bits (\<^verbatim>\<open>total_cmp\<close>) and the comparison is the IEEE one.
\<close>

record ('k, 'v) top_k_item =
  ti_key :: 'k
  ti_ordinal :: nat
  ti_value :: 'v

definition item_rank :: "('k::linorder, 'v) top_k_item \<Rightarrow> 'k \<times> nat" where
  "item_rank i = (ti_key i, ti_ordinal i)"

text \<open>
  The standard library's heap over reversed items pops the smallest (key, ordinal) first. Ordinals
  are distinct, so the list of its items in ascending order determines every answer it gives.
\<close>

definition heap_push ::
  "('k::linorder, 'v) top_k_item \<Rightarrow> ('k, 'v) top_k_item list \<Rightarrow> ('k, 'v) top_k_item list" where
  "heap_push item heap = insort_key item_rank item heap"

definition top_k_step ::
  "('k \<Rightarrow> 'k \<Rightarrow> bool) \<Rightarrow> nat \<Rightarrow> ('k::linorder, 'v) top_k_item list \<Rightarrow> ('k, 'v) top_k_item \<Rightarrow>
   ('k, 'v) top_k_item list" where
  "top_k_step gt limit heap item =
     (if length heap < limit then heap_push item heap
      else case heap of
          [] \<Rightarrow> heap
        | smallest # rest \<Rightarrow> if gt (ti_key item) (ti_key smallest) then heap_push item rest else heap)"

definition top_k_items :: "('v \<times> 'k) list \<Rightarrow> ('k::linorder, 'v) top_k_item list" where
  "top_k_items items =
     map (\<lambda>(n, v, k). \<lparr>ti_key = k, ti_ordinal = n, ti_value = v\<rparr>) (enumerate 0 items)"

text \<open>Largest key first, equal keys in their order of arrival: two stable passes.\<close>

definition order_results :: "('k::linorder, 'v) top_k_item list \<Rightarrow> ('k, 'v) top_k_item list" where
  "order_results heap = rev (sort_key ti_key (rev (sort_key ti_ordinal heap)))"

definition top_k_by_score :: "('k \<Rightarrow> 'k \<Rightarrow> bool) \<Rightarrow> ('v \<times> 'k::linorder) list \<Rightarrow> nat \<Rightarrow> ('v \<times> 'k) list" where
  "top_k_by_score gt items limit =
     (if limit = 0 then []
      else map (\<lambda>i. (ti_value i, ti_key i))
        (order_results (foldl (top_k_step gt limit) [] (top_k_items items))))"

definition top_k_by_ord :: "('v \<times> 'k::linorder) list \<Rightarrow> nat \<Rightarrow> ('v \<times> 'k) list" where
  "top_k_by_ord items limit = top_k_by_score (\<lambda>a b. b < a) items limit"

section \<open>Correctness\<close>

definition heap_of ::
  "nat \<Rightarrow> ('k::linorder, 'v) top_k_item list \<Rightarrow> ('k, 'v) top_k_item multiset \<Rightarrow>
   ('k, 'v) top_k_item list \<Rightarrow> bool" where
  "heap_of limit seen dropped heap \<longleftrightarrow>
     sorted (map item_rank heap) \<and> mset seen = mset heap + dropped \<and> length heap \<le> limit \<and>
     (dropped = {#} \<or> length heap = limit) \<and>
     (\<forall>d \<in># dropped. \<forall>h \<in> set heap. ti_key d \<le> ti_key h)"

lemma rank_le_key: "item_rank a \<le> item_rank b \<Longrightarrow> ti_key a \<le> ti_key b"
  by (auto simp: item_rank_def)

lemma mset_heap_push [simp]: "mset (heap_push i h) = add_mset i (mset h)"
  by (simp add: heap_push_def)

lemma set_heap_push [simp]: "set (heap_push i h) = insert i (set h)"
  by (simp add: heap_push_def set_insort_key)

lemma length_heap_push [simp]: "length (heap_push i h) = Suc (length h)"
  by (simp add: heap_push_def)

lemma sorted_heap_push: "sorted (map item_rank h) \<Longrightarrow> sorted (map item_rank (heap_push i h))"
  by (simp add: heap_push_def sorted_insort_key)

lemma top_k_step_heap:
  assumes h: "heap_of limit seen dropped heap" and "0 < limit"
    and gt: "\<forall>h \<in> set heap. gt (ti_key item) (ti_key h) \<longleftrightarrow> ti_key h < ti_key item"
  shows "\<exists>dropped. heap_of limit (seen @ [item]) dropped (top_k_step gt limit heap item)"
proof (cases "length heap < limit")
  case True
  with h have "dropped = {#}" by (auto simp: heap_of_def)
  with True h have "heap_of limit (seen @ [item]) {#} (top_k_step gt limit heap item)"
    by (auto simp: heap_of_def top_k_step_def sorted_heap_push)
  then show ?thesis ..
next
  case False
  with h \<open>0 < limit\<close> obtain s rest where heap: "heap = s # rest" by (cases heap) (auto simp: heap_of_def)
  have min: "ti_key s \<le> ti_key x" if "x \<in> set rest" for x
    using h that by (auto simp: heap_of_def heap dest: rank_le_key)
  have step: "top_k_step gt limit heap item = (if ti_key s < ti_key item then heap_push item rest else heap)"
    using False gt by (simp add: top_k_step_def heap)
  show ?thesis
  proof (cases "ti_key s < ti_key item")
    case True
    with h min False have "heap_of limit (seen @ [item]) (add_mset s dropped) (heap_push item rest)"
      by (auto simp: heap_of_def heap sorted_heap_push intro: order.trans)
    with True step show ?thesis by auto
  next
    case ge: False
    with h min False have "heap_of limit (seen @ [item]) (add_mset item dropped) heap"
      by (auto simp: heap_of_def heap not_less dest: min intro: order.trans)
    with ge step show ?thesis by auto
  qed
qed

lemma top_k_step_keys: "set (top_k_step gt limit heap item) \<subseteq> insert item (set heap)"
  by (auto simp: top_k_step_def split: list.splits)

lemma top_k_run_heap:
  assumes "0 < limit" and "heap_of limit seen dropped heap" and "set heap \<subseteq> A" and "set items \<subseteq> A"
    and "\<forall>x \<in> A. \<forall>y \<in> A. gt (ti_key x) (ti_key y) \<longleftrightarrow> ti_key y < ti_key x"
  shows "\<exists>dropped. heap_of limit (seen @ items) dropped (foldl (top_k_step gt limit) heap items)"
  using assms
proof (induction items arbitrary: seen dropped heap)
  case (Cons i items)
  have gt: "\<forall>h \<in> set heap. gt (ti_key i) (ti_key h) \<longleftrightarrow> ti_key h < ti_key i"
    using Cons.prems by auto
  obtain d where "heap_of limit (seen @ [i]) d (top_k_step gt limit heap i)"
    using top_k_step_heap [where gt = gt and item = i, OF Cons.prems(2,1) gt] by blast
  moreover have "set (top_k_step gt limit heap i) \<subseteq> A"
    using top_k_step_keys [of gt limit heap i] Cons.prems by auto
  ultimately show ?case using Cons.IH [of "seen @ [i]" d] Cons.prems by simp
qed auto

lemma order_results_mset [simp]: "mset (order_results heap) = mset heap"
  by (simp add: order_results_def)

lemma order_results_sorted: "sorted (rev (map ti_key (order_results heap)))"
  by (simp add: order_results_def rev_map)

lemma largest_prefix:
  assumes "mset ks = mset hs + D" and "sorted (rev hs)" and "length hs \<le> n"
    and "D = {#} \<or> length hs = n" and "\<forall>d \<in># D. \<forall>h \<in> set hs. d \<le> (h :: 'k::linorder)"
  shows "hs = take n (rev (sort ks))"
proof -
  have "sort ks = sorted_list_of_multiset D @ rev hs"
    by (rule properties_for_sort) (use assms in \<open>auto simp: sorted_append\<close>)
  then have "rev (sort ks) = hs @ rev (sorted_list_of_multiset D)" by simp
  with assms(3,4) show ?thesis by auto
qed

lemma top_k_items_simps [simp]:
  "map ti_key (top_k_items items) = map snd items"
  "map (\<lambda>i. (ti_value i, ti_key i)) (top_k_items items) = items"
proof -
  have "map (\<lambda>x. snd (snd x)) (enumerate n items) = map snd items"
    "map (\<lambda>x. (fst (snd x), snd (snd x))) (enumerate n items) = items" for n
    by (induction items arbitrary: n) auto
  then show "map ti_key (top_k_items items) = map snd items"
    "map (\<lambda>i. (ti_value i, ti_key i)) (top_k_items items) = items"
    by (simp_all add: top_k_items_def comp_def case_prod_unfold)
qed

lemma top_k_heap:
  assumes "0 < limit" and "\<forall>x \<in> set (map snd items). \<forall>y \<in> set (map snd items). gt x y \<longleftrightarrow> y < x"
  obtains dropped where
    "heap_of limit (top_k_items items) dropped (foldl (top_k_step gt limit) [] (top_k_items items))"
proof -
  have keys: "ti_key ` set (top_k_items items) = snd ` set items"
    by (metis list.set_map top_k_items_simps(1))
  have "ti_key x \<in> set (map snd items)" if "x \<in> set (top_k_items items)" for x
    using keys that by auto
  with assms(2) have "\<forall>x \<in> set (top_k_items items). \<forall>y \<in> set (top_k_items items).
      gt (ti_key x) (ti_key y) \<longleftrightarrow> ti_key y < ti_key x" by blast
  from top_k_run_heap [of limit "[]" "{#}" "[]" "set (top_k_items items)" "top_k_items items" gt,
      OF assms(1) _ _ _ this]
  show ?thesis using that by (auto simp: heap_of_def)
qed

lemma top_k_by_score_keys:
  assumes "\<forall>x \<in> set (map snd items). \<forall>y \<in> set (map snd items). gt x y \<longleftrightarrow> y < x"
  shows "map snd (top_k_by_score gt items limit) = take limit (rev (sort (map snd items))) \<and>
    mset (top_k_by_score gt items limit) \<subseteq># mset items"
proof (cases "limit = 0")
  case False
  let ?h = "foldl (top_k_step gt limit) [] (top_k_items items)"
  let ?pair = "\<lambda>i. (ti_value i, ti_key i)"
  from False have "0 < limit" by simp
  then obtain D where h: "heap_of limit (top_k_items items) D ?h" using assms by (rule top_k_heap)
  then have m: "mset (top_k_items items) = mset (order_results ?h) + D" by (simp add: heap_of_def)
  have "map ti_key (order_results ?h) = take limit (rev (sort (map snd items)))"
  proof (rule largest_prefix)
    have "mset (map ti_key (top_k_items items)) = image_mset ti_key (mset (order_results ?h) + D)"
      by (simp only: mset_map m)
    then show "mset (map snd items) = mset (map ti_key (order_results ?h)) + image_mset ti_key D"
      by simp
    show "sorted (rev (map ti_key (order_results ?h)))" by (rule order_results_sorted)
    have l: "length (order_results ?h) = length ?h" by (simp add: order_results_def)
    show "length (map ti_key (order_results ?h)) \<le> limit"
      "image_mset ti_key D = {#} \<or> length (map ti_key (order_results ?h)) = limit"
      using h l by (auto simp: heap_of_def)
    have "set (order_results ?h) = set ?h" by (simp add: order_results_def)
    then show "\<forall>d \<in># image_mset ti_key D. \<forall>k \<in> set (map ti_key (order_results ?h)). d \<le> k"
      using h by (auto simp: heap_of_def)
  qed
  moreover have "mset items = image_mset ?pair (mset (order_results ?h) + D)"
    by (metis m mset_map top_k_items_simps(2))
  ultimately show ?thesis using False by (simp add: top_k_by_score_def comp_def)
qed (simp add: top_k_by_score_def)

text \<open>
  Property C39. When the comparison of the scores agrees with their order (no NaN, no zeros of
  both signs), the selection returns the largest scores in descending order, as many as the limit
  allows, each with an entry it came with and no entry twice: sorting everything and cutting would
  give the same scores.
\<close>

theorem top_k_by_score_correct:
  assumes "\<forall>x \<in> set (map snd items). \<forall>y \<in> set (map snd items). gt x y \<longleftrightarrow> y < x"
  shows "map snd (top_k_by_score gt items limit) = take limit (rev (sort (map snd items))) \<and>
    mset (top_k_by_score gt items limit) \<subseteq># mset items"
  using assms by (rule top_k_by_score_keys)

theorem top_k_by_score_correct_witness:
  "map snd (top_k_by_score (\<lambda>a b. b < a) [(''a'', 1 :: nat), (''b'', 3), (''c'', 2)] 2) = [3, 2]"
  using top_k_by_score_correct [of "[(''a'', 1 :: nat), (''b'', 3), (''c'', 2)]" "\<lambda>a b. b < a" 2]
  by simp

lemma top_k_by_ord_correct:
  "map snd (top_k_by_ord items limit) = take limit (rev (sort (map snd items))) \<and>
   mset (top_k_by_ord items limit) \<subseteq># mset items"
  unfolding top_k_by_ord_def
  by (rule top_k_by_score_keys) simp

text \<open>
  The entries returned in a tie are not those a stable sort would keep: when a newcomer replaces
  the smallest entry, the heap gives up the one that came first among equals, although the result
  lists equals in their order of arrival.
\<close>

lemma top_k_tie_drops_earliest:
  "top_k_by_ord [(''first'', 1 :: nat), (''second'', 1), (''best'', 2)] 2 = [(''best'', 2), (''second'', 1)]"
  by (simp add: top_k_by_ord_def top_k_by_score_def top_k_items_def top_k_step_def heap_push_def
      item_rank_def order_results_def)

end
