(* ===== verification/MemoryTypes.thy ===== *)
theory MemoryTypes
  imports TopK
begin

text \<open>
  Memory entries, the flat store and the prompt text (crates/jcode-memory-types/src/lib.rs).
  Floating-point numbers are a type parameter with the operations the code applies as arguments;
  instants are milliseconds with the current one an argument; Unicode lower-casing is an argument.
\<close>

section \<open>Activity of the memory system\<close>

datatype step_status = Pending | Running | Done | StepError | Skipped

record step_result =
  sr_summary :: string
  sr_latency_ms :: nat

record pipeline_state =
  pl_search :: step_status
  pl_search_result :: "step_result option"
  pl_verify :: step_status
  pl_verify_result :: "step_result option"
  pl_verify_progress :: "(nat \<times> nat) option"
  pl_inject :: step_status
  pl_inject_result :: "step_result option"
  pl_maintain :: step_status
  pl_maintain_result :: "step_result option"
  pl_started_at :: int

definition pipeline_new :: "int \<Rightarrow> pipeline_state" where
  "pipeline_new now =
     \<lparr>pl_search = Pending, pl_search_result = None, pl_verify = Pending, pl_verify_result = None,
      pl_verify_progress = None, pl_inject = Pending, pl_inject_result = None,
      pl_maintain = Pending, pl_maintain_result = None, pl_started_at = now\<rparr>"

fun step_finished :: "step_status \<Rightarrow> bool" where
  "step_finished Done = True"
| "step_finished StepError = True"
| "step_finished Skipped = True"
| "step_finished Pending = False"
| "step_finished Running = False"

definition is_complete :: "pipeline_state \<Rightarrow> bool" where
  "is_complete p \<longleftrightarrow> step_finished (pl_search p) \<and> step_finished (pl_verify p) \<and>
     step_finished (pl_inject p) \<and> step_finished (pl_maintain p)"

definition has_running_step :: "pipeline_state \<Rightarrow> bool" where
  "has_running_step p \<longleftrightarrow> pl_search p = Running \<or> pl_verify p = Running \<or> pl_inject p = Running
     \<or> pl_maintain p = Running"

datatype memory_state =
    Idle | Embedding | SidecarChecking nat | FoundRelevant nat | Extracting string
  | Maintaining string | ToolAction string string

record injected_memory_item =
  ij_section :: string
  ij_content :: string

datatype memory_event_kind =
    EmbeddingStarted | EmbeddingComplete nat nat | SidecarStarted | SidecarRelevant string
  | SidecarNotRelevant | SidecarComplete nat | MemorySurfaced string
  | MemoryInjected nat nat nat string "injected_memory_item list"
  | MaintenanceStarted nat nat | MaintenanceLinked nat | MaintenanceConfidence nat nat
  | MaintenanceCluster nat nat | MaintenanceTagInferred string nat | MaintenanceGap nat
  | MaintenanceComplete nat | ExtractionStarted string | ExtractionComplete nat
  | MemoryError string | ToolRemembered string string string | ToolRecalled string nat
  | ToolForgot string | ToolTagged string string | ToolLinked string string | ToolListed nat

record memory_event =
  me_kind :: memory_event_kind
  me_timestamp :: int
  me_detail :: "string option"

record memory_activity =
  ma_state :: memory_state
  ma_state_since :: int
  ma_pipeline :: "pipeline_state option"
  ma_recent_events :: "memory_event list"

definition is_processing :: "memory_activity \<Rightarrow> bool" where
  "is_processing a \<longleftrightarrow>
     ma_state a \<noteq> Idle \<or> (case ma_pipeline a of Some p \<Rightarrow> has_running_step p | None \<Rightarrow> False)"

section \<open>Search text\<close>

definition is_separator :: "string \<Rightarrow> bool" where
  "is_separator ch \<longleftrightarrow> is_ws ch \<or> ch \<in> {''-'', ''_'', ''/'', [CHR 0x5C], ''.'', '':''}"

fun squeeze :: "bool \<Rightarrow> string list \<Rightarrow> string list" where
  "squeeze last_was_space [] = []"
| "squeeze last_was_space (ch # cs) =
     (if is_separator ch then (if last_was_space then squeeze True cs else '' '' # squeeze True cs)
      else ch # squeeze False cs)"

definition normalize_search_text :: "(string \<Rightarrow> string) \<Rightarrow> string \<Rightarrow> string" where
  "normalize_search_text lower text = trim_end (concat (squeeze True (chars (lower (trim text)))))"

definition normalize_memory_search_text :: "(string \<Rightarrow> string) \<Rightarrow> string \<Rightarrow> string list \<Rightarrow> string" where
  "normalize_memory_search_text lower content tags =
     (let normalized_content = normalize_search_text lower content;
          normalized_tags = filter (\<lambda>t. t \<noteq> []) (map (normalize_search_text lower) tags)
      in if normalized_tags = [] then normalized_content
         else if normalized_content = [] then join '' '' normalized_tags
         else normalized_content @ '' '' @ join '' '' normalized_tags)"

section \<open>Entries\<close>

datatype trust_level = High | Medium | Low

record reinforcement =
  rf_session_id :: string
  rf_message_index :: nat
  rf_timestamp :: int

datatype memory_category = Fact | Preference | Entity | Correction | Custom string

record 'f memory_entry =
  en_id :: string
  en_category :: memory_category
  en_content :: string
  en_tags :: "string list"
  en_search_text :: string
  en_created_at :: int
  en_updated_at :: int
  en_access_count :: nat
  en_source :: "string option"
  en_trust :: trust_level
  en_strength :: nat
  en_active :: bool
  en_superseded_by :: "string option"
  en_reinforcements :: "reinforcement list"
  en_embedding :: "'f list option"
  en_confidence :: 'f

definition entry_new ::
  "(string \<Rightarrow> string) \<Rightarrow> 'f \<Rightarrow> string \<Rightarrow> int \<Rightarrow> memory_category \<Rightarrow> string \<Rightarrow> 'f memory_entry" where
  "entry_new lower one new_id now category content =
     \<lparr>en_id = new_id, en_category = category, en_content = content, en_tags = [],
      en_search_text = normalize_memory_search_text lower content [], en_created_at = now,
      en_updated_at = now, en_access_count = 0, en_source = None, en_trust = Medium,
      en_strength = 1, en_active = True, en_superseded_by = None, en_reinforcements = [],
      en_embedding = None, en_confidence = one\<rparr>"

definition refresh_search_text :: "(string \<Rightarrow> string) \<Rightarrow> 'f memory_entry \<Rightarrow> 'f memory_entry" where
  "refresh_search_text lower e =
     e\<lparr>en_search_text := normalize_memory_search_text lower (en_content e) (en_tags e)\<rparr>"

definition searchable_text :: "(string \<Rightarrow> string) \<Rightarrow> 'f memory_entry \<Rightarrow> string" where
  "searchable_text lower e =
     (if en_search_text e = [] then normalize_memory_search_text lower (en_content e) (en_tags e)
      else en_search_text e)"

text \<open>Adding and capping a confidence are the floating-point \<^verbatim>\<open>(c + amount).min(1.0)\<close> and
  \<^verbatim>\<open>(c - amount).max(0.0)\<close>, given as functions.\<close>

definition boost_confidence :: "('f \<Rightarrow> 'f \<Rightarrow> 'f) \<Rightarrow> int \<Rightarrow> 'f \<Rightarrow> 'f memory_entry \<Rightarrow> 'f memory_entry" where
  "boost_confidence add_capped now amount e =
     e\<lparr>en_confidence := add_capped (en_confidence e) amount,
       en_access_count := en_access_count e + 1, en_updated_at := now\<rparr>"

definition decay_confidence :: "('f \<Rightarrow> 'f \<Rightarrow> 'f) \<Rightarrow> 'f \<Rightarrow> 'f memory_entry \<Rightarrow> 'f memory_entry" where
  "decay_confidence sub_floored amount e = e\<lparr>en_confidence := sub_floored (en_confidence e) amount\<rparr>"

definition with_tags :: "(string \<Rightarrow> string) \<Rightarrow> string list \<Rightarrow> 'f memory_entry \<Rightarrow> 'f memory_entry" where
  "with_tags lower tags e = refresh_search_text lower (e\<lparr>en_tags := tags\<rparr>)"

definition with_source :: "string \<Rightarrow> 'f memory_entry \<Rightarrow> 'f memory_entry" where
  "with_source source e = e\<lparr>en_source := Some source\<rparr>"

definition with_trust :: "trust_level \<Rightarrow> 'f memory_entry \<Rightarrow> 'f memory_entry" where
  "with_trust trust e = e\<lparr>en_trust := trust\<rparr>"

definition touch :: "int \<Rightarrow> 'f memory_entry \<Rightarrow> 'f memory_entry" where
  "touch now e = e\<lparr>en_updated_at := now, en_access_count := en_access_count e + 1\<rparr>"

definition reinforce :: "int \<Rightarrow> string \<Rightarrow> nat \<Rightarrow> 'f memory_entry \<Rightarrow> 'f memory_entry" where
  "reinforce now session_id message_index e =
     e\<lparr>en_strength := en_strength e + 1, en_updated_at := now,
       en_reinforcements := en_reinforcements e @
         [\<lparr>rf_session_id = session_id, rf_message_index = message_index, rf_timestamp = now\<rparr>]\<rparr>"

definition supersede_entry :: "string \<Rightarrow> 'f memory_entry \<Rightarrow> 'f memory_entry" where
  "supersede_entry new_id e = e\<lparr>en_active := False, en_superseded_by := Some new_id\<rparr>"

definition with_embedding :: "'f list \<Rightarrow> 'f memory_entry \<Rightarrow> 'f memory_entry" where
  "with_embedding embedding e = e\<lparr>en_embedding := Some embedding\<rparr>"

definition has_embedding :: "'f memory_entry \<Rightarrow> bool" where
  "has_embedding e \<longleftrightarrow> en_embedding e \<noteq> None"

section \<open>Categories and scopes\<close>

fun show_category :: "memory_category \<Rightarrow> string" where
  "show_category Fact = ''fact''"
| "show_category Preference = ''preference''"
| "show_category Entity = ''entity''"
| "show_category Correction = ''correction''"
| "show_category (Custom s) = s"

definition category_from_str :: "(string \<Rightarrow> string) \<Rightarrow> string \<Rightarrow> memory_category" where
  "category_from_str lower s =
     (let s = lower s
      in if s = ''fact'' then Fact else if s = ''preference'' then Preference
         else if s = ''entity'' then Entity else if s = ''correction'' then Correction
         else Custom s)"

definition category_from_extracted :: "(string \<Rightarrow> string) \<Rightarrow> string \<Rightarrow> memory_category" where
  "category_from_extracted lower s =
     (let s = lower s
      in if s \<in> {''fact'', ''facts''} then Fact
         else if s \<in> {''preference'', ''preferences'', ''pref''} then Preference
         else if s \<in> {''correction'', ''corrections'', ''fix'', ''bug''} then Correction
         else if s \<in> {''entity'', ''entities''} then Entity
         else if s \<in> {''observation'', ''lesson'', ''learning''} then Fact
         else Fact)"

datatype memory_scope = Project | Global | AllScopes

definition includes_project :: "memory_scope \<Rightarrow> bool" where
  "includes_project s \<longleftrightarrow> s = Project \<or> s = AllScopes"

definition includes_global :: "memory_scope \<Rightarrow> bool" where
  "includes_global s \<longleftrightarrow> s = Global \<or> s = AllScopes"

section \<open>The flat store\<close>

record 'f memory_store =
  ms_entries :: "'f memory_entry list"
  ms_metadata :: "(string, string) fmap"

definition store_new :: "'f memory_store" where
  "store_new = \<lparr>ms_entries = [], ms_metadata = fmempty\<rparr>"

definition store_add :: "'f memory_entry \<Rightarrow> 'f memory_store \<Rightarrow> 'f memory_store \<times> string" where
  "store_add e s = (s\<lparr>ms_entries := ms_entries s @ [e]\<rparr>, en_id e)"

definition by_category :: "memory_category \<Rightarrow> 'f memory_store \<Rightarrow> 'f memory_entry list" where
  "by_category c s = filter (\<lambda>e. en_category e = c) (ms_entries s)"

definition memory_matches_search :: "(string \<Rightarrow> string) \<Rightarrow> 'f memory_entry \<Rightarrow> string \<Rightarrow> bool" where
  "memory_matches_search lower e normalized_query = str_contains (searchable_text lower e) normalized_query"

definition store_search :: "(string \<Rightarrow> string) \<Rightarrow> string \<Rightarrow> 'f memory_store \<Rightarrow> 'f memory_entry list" where
  "store_search lower query s =
     (let query_lower = normalize_search_text lower query
      in if query_lower = [] then []
         else filter (\<lambda>e. memory_matches_search lower e query_lower) (ms_entries s))"

definition store_get :: "string \<Rightarrow> 'f memory_store \<Rightarrow> 'f memory_entry option" where
  "store_get i s = List.find (\<lambda>e. en_id e = i) (ms_entries s)"

definition store_remove :: "string \<Rightarrow> 'f memory_store \<Rightarrow> 'f memory_store \<times> 'f memory_entry option" where
  "store_remove i s =
     (case position (\<lambda>e. en_id e = i) (ms_entries s) of
        Some pos \<Rightarrow>
          (s\<lparr>ms_entries := take pos (ms_entries s) @ drop (Suc pos) (ms_entries s)\<rparr>,
           Some (ms_entries s ! pos))
      | None \<Rightarrow> (s, None))"

text \<open>The score of an entry is floating-point arithmetic on its age, use, category and trust: an
  argument, like the comparison of scores.\<close>

definition get_relevant ::
  "('f memory_entry \<Rightarrow> 'k::linorder) \<Rightarrow> ('k \<Rightarrow> 'k \<Rightarrow> bool) \<Rightarrow> nat \<Rightarrow> 'f memory_store \<Rightarrow> 'f memory_entry list" where
  "get_relevant score gt limit s =
     map fst (top_k_by_score gt (map (\<lambda>e. (e, score e)) (filter en_active (ms_entries s))) limit)"

section \<open>Text for the prompt\<close>

definition dedupe_key :: "(string \<Rightarrow> string) \<Rightarrow> 'f memory_entry \<Rightarrow> string" where
  "dedupe_key lower e = lower (join '' '' (split_whitespace (en_content e)))"

fun select_entries ::
  "(string \<Rightarrow> string) \<Rightarrow> nat \<Rightarrow> string set \<Rightarrow> 'f memory_entry list \<Rightarrow> nat \<Rightarrow> 'f memory_entry list" where
  "select_entries lower limit seen [] n = []"
| "select_entries lower limit seen (e # es) n =
     (if n \<ge> limit then []
      else
        let key = dedupe_key lower e
        in if key = [] \<or> key \<in> seen then select_entries lower limit seen es n
           else e # select_entries lower limit (insert key seen) es (Suc n))"

definition selected_entries_for_prompt ::
  "(string \<Rightarrow> string) \<Rightarrow> 'f memory_entry list \<Rightarrow> nat \<Rightarrow> 'f memory_entry list" where
  "selected_entries_for_prompt lower entries limit =
     select_entries lower limit {} (filter en_active entries) 0"

type_synonym 'f sections = "(memory_category, 'f memory_entry list) fmap"

definition section_entry :: "'f sections \<Rightarrow> 'f memory_entry \<Rightarrow> 'f sections" where
  "section_entry sections e = entry_upd [] (\<lambda>es. es @ [e]) (en_category e) sections"

fun numbered :: "(int \<Rightarrow> string) \<Rightarrow> bool \<Rightarrow> nat \<Rightarrow> 'f memory_entry list \<Rightarrow> string" where
  "numbered fmt comments idx [] = []"
| "numbered fmt comments idx (e # es) =
     show_nat (idx + 1) @ ''. '' @ trim (en_content e) @ nl
     @ (if comments then ''<!-- updated_at: '' @ fmt (en_updated_at e) @ '' -->'' @ nl else [])
     @ numbered fmt comments (Suc idx) es"

definition write_section ::
  "(int \<Rightarrow> string) \<Rightarrow> bool \<Rightarrow> string \<Rightarrow> string \<Rightarrow> 'f memory_entry list \<Rightarrow> string" where
  "write_section fmt comments output title items =
     output @ (if output \<noteq> [] then nl else []) @ ''## '' @ title @ nl @ numbered fmt comments 0 items"

definition section_order :: "(memory_category \<times> string) list" where
  "section_order = [(Correction, ''Corrections''), (Fact, ''Facts''), (Preference, ''Preferences''),
     (Entity, ''Entities'')]"

definition write_known ::
  "(int \<Rightarrow> string) \<Rightarrow> bool \<Rightarrow> string \<times> 'f sections \<Rightarrow> memory_category \<times> string \<Rightarrow> string \<times> 'f sections" where
  "write_known fmt comments st cat =
     (case fmlookup (snd st) (fst cat) of
        None \<Rightarrow> st
      | Some items \<Rightarrow> (write_section fmt comments (fst st) (snd cat) items, fmdrop (fst cat) (snd st)))"

text \<open>
  What is left is written in the order of the section names, whatever the iteration order of the
  hash map: the names of the keys left are distinct, because only custom categories are left.
\<close>

definition custom_names :: "'f sections \<Rightarrow> string list" where
  "custom_names sections = sorted_list_of_fset (show_category |`| fmdom sections)"

definition section_named :: "'f sections \<Rightarrow> string \<Rightarrow> 'f memory_entry list" where
  "section_named sections name = get_or [] sections (Custom name)"

definition format_entries_for_prompt_with_header ::
  "(string \<Rightarrow> string) \<Rightarrow> (int \<Rightarrow> string) \<Rightarrow> 'f memory_entry list \<Rightarrow> nat \<Rightarrow> bool \<Rightarrow> bool \<Rightarrow> string option" where
  "format_entries_for_prompt_with_header lower fmt entries limit include_header comments =
     (let sections = foldl section_entry fmempty (selected_entries_for_prompt lower entries limit)
      in if sections = fmempty then None
         else
           let (output, rest) = foldl (write_known fmt comments) ([], sections) section_order;
               output = foldl (\<lambda>out name. write_section fmt comments out name (section_named rest name))
                 output (custom_names rest)
           in if output = [] then None
              else if include_header then Some (''# Memory'' @ nl @ nl @ trim output)
              else Some (trim output))"

definition format_entries_for_prompt ::
  "(string \<Rightarrow> string) \<Rightarrow> (int \<Rightarrow> string) \<Rightarrow> 'f memory_entry list \<Rightarrow> nat \<Rightarrow> string option" where
  "format_entries_for_prompt lower fmt entries limit =
     format_entries_for_prompt_with_header lower fmt entries limit False False"

definition format_relevant_prompt ::
  "(string \<Rightarrow> string) \<Rightarrow> (int \<Rightarrow> string) \<Rightarrow> 'f memory_entry list \<Rightarrow> nat \<Rightarrow> string option" where
  "format_relevant_prompt lower fmt entries limit =
     map_option (\<lambda>formatted. ''# Memory'' @ nl @ nl @ formatted)
       (format_entries_for_prompt lower fmt entries limit)"

definition format_relevant_display_prompt ::
  "(string \<Rightarrow> string) \<Rightarrow> (int \<Rightarrow> string) \<Rightarrow> 'f memory_entry list \<Rightarrow> nat \<Rightarrow> string option" where
  "format_relevant_display_prompt lower fmt entries limit =
     format_entries_for_prompt_with_header lower fmt entries limit True True"

definition store_format_for_prompt ::
  "('f memory_entry \<Rightarrow> 'k::linorder) \<Rightarrow> ('k \<Rightarrow> 'k \<Rightarrow> bool) \<Rightarrow> (string \<Rightarrow> string) \<Rightarrow> (int \<Rightarrow> string) \<Rightarrow>
   nat \<Rightarrow> 'f memory_store \<Rightarrow> string option" where
  "store_format_for_prompt score gt lower fmt limit s =
     format_entries_for_prompt lower fmt (get_relevant score gt limit s) limit"

section \<open>Skills\<close>

definition is_skill_memory :: "'f memory_entry \<Rightarrow> bool" where
  "is_skill_memory e \<longleftrightarrow>
     prefix ''skill:'' (en_id e) \<or> en_source e = Some ''skill_registry'' \<or>
     (case en_category e of Custom name \<Rightarrow> to_ascii_lowercase name = to_ascii_lowercase ''Skills'' | _ \<Rightarrow> False)"

definition skill_stopwords :: "string list" where
  "skill_stopwords =
     [''about'', ''after'', ''before'', ''could'', ''from'', ''have'', ''just'', ''make'', ''ready'',
      ''should'', ''start'', ''that'', ''their'', ''there'', ''they'', ''this'', ''what'', ''when'',
      ''where'', ''which'', ''while'', ''will'', ''with'', ''work'', ''would'', ''your'']"

definition collect_skill_query_terms :: "(string \<Rightarrow> string) \<Rightarrow> string \<Rightarrow> string fset" where
  "collect_skill_query_terms lower query_text =
     fset_of_list (filter (\<lambda>term. term \<notin> set skill_stopwords)
       (filter (\<lambda>term. length term \<ge> 4) (split_whitespace (normalize_search_text lower query_text))))"

text \<open>The bonus, in hundredths.\<close>

definition skill_retrieval_bonus :: "(string \<Rightarrow> string) \<Rightarrow> 'f memory_entry \<Rightarrow> string fset \<Rightarrow> nat" where
  "skill_retrieval_bonus lower e query_terms =
     (if \<not> is_skill_memory e \<or> query_terms = {||} then 0
      else
        let overlap = fcard (ffilter (\<lambda>term. str_contains (searchable_text lower e) term) query_terms)
        in if overlap \<le> 1 then 0 else if overlap = 2 then 8 else if overlap = 3 then 14 else 20)"

section \<open>Properties of the search\<close>

text \<open>A normalised text: no separators but single spaces between other characters.\<close>

fun single_spaced :: "bool \<Rightarrow> string list \<Rightarrow> bool" where
  "single_spaced after_space [] = True"
| "single_spaced after_space (ch # cs) =
     (if is_separator ch then ch = '' '' \<and> \<not> after_space \<and> single_spaced True cs
      else single_spaced False cs)"

lemma space_separator [simp]: "is_separator '' ''"
  by (simp add: is_separator_def is_ws_def ws_chars_def)

lemma squeeze_single: "single_spaced b (squeeze b cs)"
  by (induction b cs rule: squeeze.induct) auto

lemma squeeze_id: "single_spaced b cs \<Longrightarrow> squeeze b cs = cs"
  by (induction b cs rule: squeeze.induct) auto

lemma single_spaced_prefix: "single_spaced b (xs @ ys) \<Longrightarrow> single_spaced b xs"
  by (induction b xs rule: single_spaced.induct) auto

lemma squeeze_chars: "set (squeeze b cs) \<subseteq> insert '' '' (set cs)"
  by (induction b cs rule: squeeze.induct) auto

lemma char_list_squeeze: "char_list cs \<Longrightarrow> char_list (squeeze b cs)"
proof -
  assume "char_list cs"
  then have "char_list ('' '' # cs)" by (simp add: char_list_def is_cont_def)
  then show ?thesis by (rule char_list_sub) (use squeeze_chars [of b cs] in simp)
qed

lemma drop_ws_end_prefix: "prefix (drop_ws_end cs) cs"
  by (simp add: drop_ws_end_def prefix_take_rev_dropWhile)

lemma drop_ws_end_last: "drop_ws_end cs = [] \<or> \<not> is_ws (last (drop_ws_end cs))"
  using hd_dropWhile [of is_ws "rev cs"] by (auto simp: drop_ws_end_def last_rev)

lemma normalize_chars:
  assumes "starts_char (lower (trim text))"
  shows "chars (normalize_search_text lower text) =
    drop_ws_end (squeeze True (chars (lower (trim text))))"
proof -
  have c: "char_list (squeeze True (chars (lower (trim text))))"
    by (rule char_list_squeeze [OF char_list_chars [OF assms]])
  then have "starts_char (concat (squeeze True (chars (lower (trim text)))))"
    by (rule starts_char_concat)
  then show ?thesis unfolding normalize_search_text_def by (simp add: chars_trim_end chars_concat [OF c])
qed

lemma normalized_single_spaced:
  "starts_char (lower (trim text)) \<Longrightarrow> single_spaced True (chars (normalize_search_text lower text))"
  using squeeze_single [of True] drop_ws_end_prefix single_spaced_prefix
  by (simp add: normalize_chars prefix_def) (metis)

lemma trim_single_spaced:
  assumes "single_spaced True cs" and "cs = [] \<or> \<not> is_ws (last cs)"
  shows "dropWhile is_ws cs = cs" "drop_ws_end cs = cs"
proof -
  show "dropWhile is_ws cs = cs" using assms(1) by (cases cs) (auto simp: is_separator_def)
  show "drop_ws_end cs = cs"
    using assms(2) by (cases cs rule: rev_cases) (auto simp: drop_ws_end_def)
qed

lemma normalize_trim:
  assumes "starts_char (lower (trim text))"
  shows "trim (normalize_search_text lower text) = normalize_search_text lower text"
proof -
  let ?n = "normalize_search_text lower text"
  have "chars ?n = [] \<or> \<not> is_ws (last (chars ?n))"
    unfolding normalize_chars [of lower "text", OF assms] by (rule drop_ws_end_last)
  from trim_single_spaced [OF normalized_single_spaced [of lower "text", OF assms] this] show ?thesis
    by (simp add: trim_def)
qed

text \<open>
  A normalised search text consists of words separated by single spaces, with none at
  either end, and normalising it again changes nothing. The lower-casing function has to yield text
  that starts at a character boundary and to leave normalised text as it is.
\<close>

theorem normalize_search_text_correct:
  assumes "starts_char (lower (trim text))"
    and "lower (normalize_search_text lower text) = normalize_search_text lower text"
  shows "single_spaced True (chars (normalize_search_text lower text)) \<and>
    trim (normalize_search_text lower text) = normalize_search_text lower text \<and>
    normalize_search_text lower (normalize_search_text lower text) = normalize_search_text lower text"
proof -
  let ?n = "normalize_search_text lower text"
  have s: "single_spaced True (chars ?n)" by (rule normalized_single_spaced [of lower "text", OF assms(1)])
  have t: "trim ?n = ?n" by (rule normalize_trim [of lower "text", OF assms(1)])
  have "chars ?n = [] \<or> \<not> is_ws (last (chars ?n))"
    unfolding normalize_chars [of lower "text", OF assms(1)] by (rule drop_ws_end_last)
  with s have "normalize_search_text lower ?n = ?n"
    by (simp add: normalize_search_text_def [of lower ?n] t assms(2) squeeze_id trim_end_def
      trim_single_spaced(2))
  with s t show ?thesis by simp
qed

theorem normalize_search_text_correct_witness:
  "normalize_search_text to_ascii_lowercase
     (normalize_search_text to_ascii_lowercase ''Rust--Crate_API '') = ''rust crate api''"
proof -
  have n: "normalize_search_text to_ascii_lowercase ''Rust--Crate_API '' = ''rust crate api''"
    by code_simp
  have s: "starts_char (to_ascii_lowercase (trim ''Rust--Crate_API ''))"
    "to_ascii_lowercase ''rust crate api'' = ''rust crate api''"
    by code_simp+
  show ?thesis
    using normalize_search_text_correct [of to_ascii_lowercase "''Rust--Crate_API ''", THEN conjunct2, THEN conjunct2]
    unfolding n using s by blast
qed

lemma sublist_join: "x \<in> set xs \<Longrightarrow> sublist x (join sep xs)"
proof (induction sep xs rule: join.induct)
  case (3 sep x' y zs)
  show ?case
  proof (cases "x = x'")
    case True
    then show ?thesis by (auto simp: sublist_def intro: exI [of _ "[]"])
  next
    case False
    with 3 have "sublist x (join sep (y # zs))" by auto
    then obtain ps ss where "join sep (y # zs) = ps @ x @ ss" by (auto simp: sublist_def)
    then have "join sep (x' # y # zs) = (x' @ sep @ ps) @ x @ ss" by simp
    then show ?thesis unfolding sublist_def by blast
  qed
qed auto

lemma search_text_contains:
  assumes "q = content \<or> q \<in> set tags" and "normalize_search_text lower q \<noteq> []"
  shows "sublist (normalize_search_text lower q) (normalize_memory_search_text lower content tags)"
proof -
  let ?n = "normalize_search_text lower"
  let ?ts = "filter (\<lambda>t. t \<noteq> []) (map ?n tags)"
  have mem: "?n q \<in> set ?ts" if "q \<noteq> content" using assms that by auto
  have app: "sublist x a \<Longrightarrow> sublist x (a @ b)" "sublist x b \<Longrightarrow> sublist x (a @ b)" for x a b :: string
    by (auto simp: sublist_def) (metis append.assoc)+
  show ?thesis
  proof (cases "q = content")
    case True
    with assms(2) show ?thesis by (auto simp: normalize_memory_search_text_def Let_def intro: app)
  next
    case False
    from sublist_join [OF mem [OF this], of "'' ''"] mem [OF False] show ?thesis
      by (auto simp: normalize_memory_search_text_def Let_def sublist_Cons_right intro!: app(2))
  qed
qed

text \<open>
  A search for the content of an entry or for one of its tags finds the entry, when
  the stored search text is up to date or empty and the query is not empty after normalisation.
\<close>

theorem search_finds_entry:
  assumes "e \<in> set (ms_entries s)" and "q = en_content e \<or> q \<in> set (en_tags e)"
    and "normalize_search_text lower q \<noteq> []"
    and "en_search_text e \<in> {[], normalize_memory_search_text lower (en_content e) (en_tags e)}"
  shows "e \<in> set (store_search lower q s)"
  using assms search_text_contains [OF assms(2,3)]
  by (auto simp: store_search_def Let_def memory_matches_search_def searchable_text_def str_contains_iff)

theorem search_finds_entry_witness:
  "let e = with_tags to_ascii_lowercase [''Rust-lang''] (entry_new to_ascii_lowercase (1 :: nat) ''m1'' 0 Fact ''Use cargo'')
   in e \<in> set (store_search to_ascii_lowercase ''Rust-lang'' (fst (store_add e store_new)))"
proof -
  let ?e = "with_tags to_ascii_lowercase [''Rust-lang''] (entry_new to_ascii_lowercase (1 :: nat) ''m1'' 0 Fact ''Use cargo'')"
  have "normalize_search_text to_ascii_lowercase ''Rust-lang'' \<noteq> []" by code_simp
  then show ?thesis
    using search_finds_entry [of ?e "fst (store_add ?e store_new)" "''Rust-lang''" to_ascii_lowercase]
    by (simp add: Let_def store_add_def store_new_def with_tags_def refresh_search_text_def)
qed

section \<open>Properties of the selection\<close>

lemma select_entries_props:
  "subseq (select_entries lower limit seen es n) es \<and>
   distinct (map (dedupe_key lower) (select_entries lower limit seen es n)) \<and>
   (\<forall>e \<in> set (select_entries lower limit seen es n). dedupe_key lower e \<noteq> [] \<and> dedupe_key lower e \<notin> seen) \<and>
   length (select_entries lower limit seen es n) \<le> limit - n \<and>
   (length (select_entries lower limit seen es n) = limit - n \<or>
    dedupe_key lower ` set es \<subseteq> insert [] (seen \<union> dedupe_key lower ` set (select_entries lower limit seen es n)))"
proof (induction lower limit seen es n rule: select_entries.induct)
  case (2 lower limit seen e es n)
  show ?case
  proof (cases "n \<ge> limit")
    case False
    let ?k = "dedupe_key lower e"
    show ?thesis
    proof (cases "?k = [] \<or> ?k \<in> seen")
      case True
      with 2(1) [OF False refl True] False show ?thesis by (auto simp: Let_def)
    next
      case fresh: False
      from 2(2) [OF False refl fresh] have IH: "subseq (select_entries lower limit (insert ?k seen) es (Suc n)) es"
        "distinct (map (dedupe_key lower) (select_entries lower limit (insert ?k seen) es (Suc n)))"
        "\<forall>x \<in> set (select_entries lower limit (insert ?k seen) es (Suc n)).
           dedupe_key lower x \<noteq> [] \<and> dedupe_key lower x \<notin> insert ?k seen"
        "length (select_entries lower limit (insert ?k seen) es (Suc n)) \<le> limit - Suc n"
        "length (select_entries lower limit (insert ?k seen) es (Suc n)) = limit - Suc n \<or>
         dedupe_key lower ` set es \<subseteq> insert [] (insert ?k seen \<union>
           dedupe_key lower ` set (select_entries lower limit (insert ?k seen) es (Suc n)))"
        by blast+
      have r: "select_entries lower limit seen (e # es) n = e # select_entries lower limit (insert ?k seen) es (Suc n)"
        using False fresh by (simp add: Let_def)
      show ?thesis unfolding r using IH False fresh by auto
    qed
  qed simp
qed simp

text \<open>
  The entries chosen for the prompt are active ones in their order, at most as many as
  the limit, with pairwise different non-empty normalised contents; unless the limit is reached,
  every active entry's content is represented.
\<close>

theorem selected_entries_correct:
  "let sel = selected_entries_for_prompt lower entries limit;
       keys = dedupe_key lower ` set (filter en_active entries)
   in subseq sel (filter en_active entries) \<and> distinct (map (dedupe_key lower) sel) \<and>
      [] \<notin> set (map (dedupe_key lower) sel) \<and> length sel \<le> limit \<and>
      (length sel = limit \<or> keys - {[]} = dedupe_key lower ` set sel)"
proof -
  let ?sel = "selected_entries_for_prompt lower entries limit" and ?es = "filter en_active entries"
  note p = select_entries_props [of lower limit "{}" ?es 0, folded selected_entries_for_prompt_def]
  have "set ?sel \<subseteq> set ?es" using p list_emb_set [of "(=)" ?sel ?es] by blast
  then have "dedupe_key lower ` set ?sel \<subseteq> dedupe_key lower ` set ?es" by blast
  moreover have "[] \<notin> dedupe_key lower ` set ?sel" using p by auto
  ultimately have "dedupe_key lower ` set ?es \<subseteq> insert [] (dedupe_key lower ` set ?sel) \<longleftrightarrow>
      dedupe_key lower ` set ?es - {[]} = dedupe_key lower ` set ?sel" by blast
  with p \<open>[] \<notin> dedupe_key lower ` set ?sel\<close> show ?thesis unfolding Let_def by simp
qed

end
