(* ===== verification/MemoryGraph.thy ===== *)
theory MemoryGraph
  imports MemoryTypes
begin

text \<open>
  The memory graph (crates/jcode-memory-types/src/graph.rs): memories, tags and clusters with
  forward edges and a reverse index. Every operation that changes the graph is here, then the
  consistency of the two edge maps and of the tag counts. Counters are unbounded; floating-point
  weights are a type parameter whose equality test is an argument.
\<close>

section \<open>Data\<close>

definition graph_version :: nat where "graph_version = 2"

datatype 'f edge_kind = HasTag | InCluster | RelatesTo 'f | Supersedes | Contradicts | DerivedFrom

text \<open>The weight of an edge in a traversal; \<open>tenths n\<close> is the literal n/10.\<close>

fun traversal_weight :: "(nat \<Rightarrow> 'f) \<Rightarrow> 'f edge_kind \<Rightarrow> 'f" where
  "traversal_weight tenths HasTag = tenths 8"
| "traversal_weight tenths InCluster = tenths 6"
| "traversal_weight tenths (RelatesTo weight) = weight"
| "traversal_weight tenths Supersedes = tenths 9"
| "traversal_weight tenths Contradicts = tenths 3"
| "traversal_weight tenths DerivedFrom = tenths 7"

fun kind_eq :: "('f \<Rightarrow> 'f \<Rightarrow> bool) \<Rightarrow> 'f edge_kind \<Rightarrow> 'f edge_kind \<Rightarrow> bool" where
  "kind_eq feq (RelatesTo a) (RelatesTo b) = feq a b"
| "kind_eq feq HasTag HasTag = True"
| "kind_eq feq InCluster InCluster = True"
| "kind_eq feq Supersedes Supersedes = True"
| "kind_eq feq Contradicts Contradicts = True"
| "kind_eq feq DerivedFrom DerivedFrom = True"
| "kind_eq feq _ _ = False"

record 'f edge =
  ed_target :: string
  ed_kind :: "'f edge_kind"

record tag_entry =
  tg_id :: string
  tg_name :: string
  tg_description :: "string option"
  tg_count :: nat
  tg_created_at :: int

definition tag_id_of :: "string \<Rightarrow> string" where
  "tag_id_of name = ''tag:'' @ name"

definition tag_entry_new :: "int \<Rightarrow> string \<Rightarrow> tag_entry" where
  "tag_entry_new now name =
     \<lparr>tg_id = tag_id_of name, tg_name = name, tg_description = None, tg_count = 0, tg_created_at = now\<rparr>"

definition tag_with_description :: "string \<Rightarrow> tag_entry \<Rightarrow> tag_entry" where
  "tag_with_description desc t = t\<lparr>tg_description := Some desc\<rparr>"

record 'f cluster_entry =
  cl_id :: string
  cl_name :: "string option"
  cl_centroid :: "'f list"
  cl_member_count :: nat
  cl_created_at :: int
  cl_updated_at :: int

definition cluster_entry_new :: "int \<Rightarrow> string \<Rightarrow> 'f cluster_entry" where
  "cluster_entry_new now i =
     \<lparr>cl_id = ''cluster:'' @ i, cl_name = None, cl_centroid = [], cl_member_count = 0,
      cl_created_at = now, cl_updated_at = now\<rparr>"

record graph_metadata =
  gm_last_cluster_update :: "int option"
  gm_retrieval_count :: nat
  gm_link_discovery_count :: nat

record 'f memory_graph =
  mg_version :: nat
  mg_memories :: "(string, 'f memory_entry) fmap"
  mg_tags :: "(string, tag_entry) fmap"
  mg_clusters :: "(string, 'f cluster_entry) fmap"
  mg_edges :: "(string, 'f edge list) fmap"
  mg_reverse :: "(string, string list) fmap"
  mg_metadata :: graph_metadata

definition graph_new :: "'f memory_graph" where
  "graph_new =
     \<lparr>mg_version = graph_version, mg_memories = fmempty, mg_tags = fmempty, mg_clusters = fmempty,
      mg_edges = fmempty, mg_reverse = fmempty,
      mg_metadata = \<lparr>gm_last_cluster_update = None, gm_retrieval_count = 0, gm_link_discovery_count = 0\<rparr>\<rparr>"

definition memory_count :: "'f memory_graph \<Rightarrow> nat" where
  "memory_count g = fcard (fmdom (mg_memories g))"

section \<open>Edges\<close>

definition add_edge_internal :: "string \<Rightarrow> string \<Rightarrow> 'f edge_kind \<Rightarrow> 'f memory_graph \<Rightarrow> 'f memory_graph" where
  "add_edge_internal src dst kind g =
     g\<lparr>mg_edges := entry_upd [] (\<lambda>es. es @ [\<lparr>ed_target = dst, ed_kind = kind\<rparr>]) src (mg_edges g),
       mg_reverse := entry_upd [] (\<lambda>ss. ss @ [src]) dst (mg_reverse g)\<rparr>"

definition add_edge ::
  "('f \<Rightarrow> 'f \<Rightarrow> bool) \<Rightarrow> string \<Rightarrow> string \<Rightarrow> 'f edge_kind \<Rightarrow> 'f memory_graph \<Rightarrow> 'f memory_graph" where
  "add_edge feq src dst kind g =
     (case fmlookup (mg_edges g) src of
        Some edges \<Rightarrow>
          if list_ex (\<lambda>e. ed_target e = dst \<and> kind_eq feq (ed_kind e) kind) edges then g
          else add_edge_internal src dst kind g
      | None \<Rightarrow> add_edge_internal src dst kind g)"

definition remove_edge ::
  "('f \<Rightarrow> 'f \<Rightarrow> bool) \<Rightarrow> string \<Rightarrow> string \<Rightarrow> 'f edge_kind \<Rightarrow> 'f memory_graph \<Rightarrow> 'f memory_graph" where
  "remove_edge feq src dst kind g =
     g\<lparr>mg_edges := update_existing
         (filter (\<lambda>e. \<not> (ed_target e = dst \<and> kind_eq feq (ed_kind e) kind))) src (mg_edges g),
       mg_reverse := update_existing (filter (\<lambda>s. s \<noteq> src)) dst (mg_reverse g)\<rparr>"

definition get_edges :: "string \<Rightarrow> 'f memory_graph \<Rightarrow> 'f edge list" where
  "get_edges node g = get_or [] (mg_edges g) node"

definition get_incoming :: "string \<Rightarrow> 'f memory_graph \<Rightarrow> string list" where
  "get_incoming node g = get_or [] (mg_reverse g) node"

definition link_memories ::
  "('f \<Rightarrow> 'f \<Rightarrow> bool) \<Rightarrow> string \<Rightarrow> string \<Rightarrow> 'f \<Rightarrow> 'f memory_graph \<Rightarrow> 'f memory_graph" where
  "link_memories feq src dst weight g =
     (let g = add_edge feq src dst (RelatesTo weight) g
      in g\<lparr>mg_metadata := (mg_metadata g)
            \<lparr>gm_link_discovery_count := gm_link_discovery_count (mg_metadata g) + 1\<rparr>\<rparr>)"

definition supersede ::
  "('f \<Rightarrow> 'f \<Rightarrow> bool) \<Rightarrow> string \<Rightarrow> string \<Rightarrow> 'f memory_graph \<Rightarrow> 'f memory_graph" where
  "supersede feq newer_id older_id g =
     (let g = add_edge feq newer_id older_id Supersedes g
      in g\<lparr>mg_memories := update_existing
            (\<lambda>older. older\<lparr>en_active := False, en_superseded_by := Some newer_id\<rparr>) older_id (mg_memories g)\<rparr>)"

definition mark_contradiction ::
  "('f \<Rightarrow> 'f \<Rightarrow> bool) \<Rightarrow> string \<Rightarrow> string \<Rightarrow> 'f memory_graph \<Rightarrow> 'f memory_graph" where
  "mark_contradiction feq id_a id_b g =
     add_edge feq id_b id_a Contradicts (add_edge feq id_a id_b Contradicts g)"

section \<open>Tags\<close>

definition ensure_tag :: "int \<Rightarrow> string \<Rightarrow> 'f memory_graph \<Rightarrow> 'f memory_graph" where
  "ensure_tag now name g =
     g\<lparr>mg_tags := entry_upd (tag_entry_new now name) id (tag_id_of name) (mg_tags g)\<rparr>"

definition bump_tag :: "(nat \<Rightarrow> nat) \<Rightarrow> string \<Rightarrow> 'f memory_graph \<Rightarrow> 'f memory_graph" where
  "bump_tag f tag_id g =
     g\<lparr>mg_tags := update_existing (\<lambda>t. t\<lparr>tg_count := f (tg_count t)\<rparr>) tag_id (mg_tags g)\<rparr>"

definition is_tag_edge :: "string \<Rightarrow> 'f edge \<Rightarrow> bool" where
  "is_tag_edge tag_id e \<longleftrightarrow> ed_target e = tag_id \<and> ed_kind e = HasTag"

definition tag_memory ::
  "(string \<Rightarrow> string) \<Rightarrow> int \<Rightarrow> string \<Rightarrow> string \<Rightarrow> 'f memory_graph \<Rightarrow> 'f memory_graph" where
  "tag_memory lower now memory_id tag_name g =
     (let g = ensure_tag now tag_name g;
          tag_id = tag_id_of tag_name
      in if list_ex (is_tag_edge tag_id) (get_edges memory_id g) then g
         else
           let g = add_edge_internal memory_id tag_id HasTag g;
               g = bump_tag Suc tag_id g
           in g\<lparr>mg_memories := update_existing
                 (\<lambda>m. if tag_name \<in> set (en_tags m) then m
                   else refresh_search_text lower (m\<lparr>en_tags := en_tags m @ [tag_name]\<rparr>))
                 memory_id (mg_memories g)\<rparr>)"

definition untag_memory ::
  "(string \<Rightarrow> string) \<Rightarrow> string \<Rightarrow> string \<Rightarrow> 'f memory_graph \<Rightarrow> 'f memory_graph" where
  "untag_memory lower memory_id tag_name g =
     (let tag_id = tag_id_of tag_name;
          g = g\<lparr>mg_edges := update_existing (filter (\<lambda>e. \<not> is_tag_edge tag_id e)) memory_id (mg_edges g),
                mg_reverse := update_existing (filter (\<lambda>s. s \<noteq> memory_id)) tag_id (mg_reverse g)\<rparr>;
          g = bump_tag (\<lambda>n. n - 1) tag_id g
      in g\<lparr>mg_memories := update_existing
            (\<lambda>m. refresh_search_text lower (m\<lparr>en_tags := filter (\<lambda>t. t \<noteq> tag_name) (en_tags m)\<rparr>))
            memory_id (mg_memories g)\<rparr>)"

definition get_memories_by_tag :: "string \<Rightarrow> 'f memory_graph \<Rightarrow> 'f memory_entry list" where
  "get_memories_by_tag tag_name g =
     List.map_filter (fmlookup (mg_memories g)) (get_incoming (tag_id_of tag_name) g)"

section \<open>Memories\<close>

definition attach_tag :: "int \<Rightarrow> string \<Rightarrow> 'f memory_graph \<Rightarrow> string \<Rightarrow> 'f memory_graph" where
  "attach_tag now memory_id g tag_name =
     bump_tag Suc (tag_id_of tag_name)
       (add_edge_internal memory_id (tag_id_of tag_name) HasTag (ensure_tag now tag_name g))"

definition add_memory ::
  "(string \<Rightarrow> string) \<Rightarrow> int \<Rightarrow> 'f memory_entry \<Rightarrow> 'f memory_graph \<Rightarrow> 'f memory_graph \<times> string" where
  "add_memory lower now entry g =
     (let entry = refresh_search_text lower entry;
          i = en_id entry;
          g = foldl (attach_tag now i) g (en_tags entry);
          g = (case en_superseded_by entry of
                 Some newer \<Rightarrow> add_edge_internal newer i Supersedes g
               | None \<Rightarrow> g)
      in (g\<lparr>mg_memories := fmupd i entry (mg_memories g)\<rparr>, i))"

definition forget_edge :: "string \<Rightarrow> 'f memory_graph \<Rightarrow> 'f edge \<Rightarrow> 'f memory_graph" where
  "forget_edge i g e =
     (let g = g\<lparr>mg_reverse := update_existing (filter (\<lambda>s. s \<noteq> i)) (ed_target e) (mg_reverse g)\<rparr>
      in if ed_kind e = HasTag then bump_tag (\<lambda>n. n - 1) (ed_target e) g else g)"

definition forget_source :: "string \<Rightarrow> 'f memory_graph \<Rightarrow> string \<Rightarrow> 'f memory_graph" where
  "forget_source i g source =
     g\<lparr>mg_edges := update_existing (filter (\<lambda>e. ed_target e \<noteq> i)) source (mg_edges g)\<rparr>"

definition remove_memory ::
  "string \<Rightarrow> 'f memory_graph \<Rightarrow> 'f memory_graph \<times> 'f memory_entry option" where
  "remove_memory i g =
     (let g = (case fmlookup (mg_edges g) i of
                 Some edges \<Rightarrow> foldl (forget_edge i) (g\<lparr>mg_edges := fmdrop i (mg_edges g)\<rparr>) edges
               | None \<Rightarrow> g);
          g = (case fmlookup (mg_reverse g) i of
                 Some sources \<Rightarrow> foldl (forget_source i) (g\<lparr>mg_reverse := fmdrop i (mg_reverse g)\<rparr>) sources
               | None \<Rightarrow> g)
      in (g\<lparr>mg_memories := fmdrop i (mg_memories g)\<rparr>, fmlookup (mg_memories g) i))"

definition get_memory :: "string \<Rightarrow> 'f memory_graph \<Rightarrow> 'f memory_entry option" where
  "get_memory i g = fmlookup (mg_memories g) i"

definition active_memories :: "'f memory_graph \<Rightarrow> (string, 'f memory_entry) fmap" where
  "active_memories g = fmfilter (\<lambda>i. case fmlookup (mg_memories g) i of Some m \<Rightarrow> en_active m | None \<Rightarrow> False)
     (mg_memories g)"

definition node_count :: "'f memory_graph \<Rightarrow> nat" where
  "node_count g = fcard (fmdom (mg_memories g)) + fcard (fmdom (mg_tags g)) + fcard (fmdom (mg_clusters g))"

definition edge_count :: "'f memory_graph \<Rightarrow> nat" where
  "edge_count g = (\<Sum>s\<in>fset (fmdom (mg_edges g)). length (get_edges s g))"

section \<open>Migration of the flat store\<close>

definition migrate_entry :: "int \<Rightarrow> 'f memory_graph \<Rightarrow> 'f memory_entry \<Rightarrow> 'f memory_graph" where
  "migrate_entry now g entry =
     (let g = g\<lparr>mg_memories := fmupd (en_id entry) entry (mg_memories g)\<rparr>;
          g = foldl (attach_tag now (en_id entry)) g (en_tags entry)
      in case en_superseded_by entry of
           Some newer \<Rightarrow> add_edge_internal newer (en_id entry) Supersedes g
         | None \<Rightarrow> g)"

definition from_legacy_store :: "int \<Rightarrow> 'f memory_store \<Rightarrow> 'f memory_graph" where
  "from_legacy_store now store = foldl (migrate_entry now) graph_new (ms_entries store)"

definition is_migrated :: "'f memory_graph \<Rightarrow> bool" where
  "is_migrated g \<longleftrightarrow> mg_version g = graph_version"

section \<open>What the operations do to edges, reverse index and tags\<close>

definition tag_count :: "string \<Rightarrow> 'f memory_graph \<Rightarrow> nat" where
  "tag_count t g = (case fmlookup (mg_tags g) t of Some e \<Rightarrow> tg_count e | None \<Rightarrow> 0)"

definition tag_edges :: "string \<Rightarrow> 'f edge list \<Rightarrow> nat" where
  "tag_edges t es = length (filter (is_tag_edge t) es)"

definition edge_degree :: "string \<Rightarrow> (string, 'f edge list) fmap \<Rightarrow> nat" where
  "edge_degree t m = (\<Sum>s\<in>fset (fmdom m). tag_edges t (get_or [] m s))"

lemma tag_edges_simps [simp]:
  "tag_edges t [] = 0" "tag_edges t (e # es) = (if is_tag_edge t e then 1 else 0) + tag_edges t es"
  "tag_edges t (xs @ ys) = tag_edges t xs + tag_edges t ys"
  by (simp_all add: tag_edges_def)

lemma edge_degree_split:
  "edge_degree t m = tag_edges t (get_or [] m k) + (\<Sum>s\<in>fset (fmdom m) - {k}. tag_edges t (get_or [] m s))"
proof (cases "k |\<in>| fmdom m")
  case True
  then show ?thesis unfolding edge_degree_def by (simp add: sum.remove [of "fset (fmdom m)" k])
next
  case False
  then have "get_or [] m k = []" by (simp add: get_or_def fmdom_notD)
  with False show ?thesis by (simp add: edge_degree_def)
qed

lemma edge_degree_upd:
  "edge_degree t (fmupd k v m) + tag_edges t (get_or [] m k) = edge_degree t m + tag_edges t v"
proof -
  have "(\<Sum>s\<in>fset (fmdom m) - {k}. tag_edges t (get_or [] (fmupd k v m) s)) =
      (\<Sum>s\<in>fset (fmdom m) - {k}. tag_edges t (get_or [] m s))"
    by (rule sum.cong) (auto simp: get_or_def)
  then show ?thesis
    using edge_degree_split [of t "fmupd k v m" k] edge_degree_split [of t m k]
    by (simp add: get_or_def [of "[]" "fmupd k v m"])
qed

lemma edge_degree_drop: "edge_degree t (fmdrop k m) + tag_edges t (get_or [] m k) = edge_degree t m"
proof -
  have "(\<Sum>s\<in>fset (fmdom m) - {k}. tag_edges t (get_or [] (fmdrop k m) s)) =
      (\<Sum>s\<in>fset (fmdom m) - {k}. tag_edges t (get_or [] m s))"
    by (rule sum.cong) (auto simp: get_or_def)
  then show ?thesis
    using edge_degree_split [of t "fmdrop k m" k] edge_degree_split [of t m k]
    by (simp add: get_or_def [of "[]" "fmdrop k m"])
qed

lemma edge_degree_entry:
  "edge_degree t (entry_upd [] f k m) + tag_edges t (get_or [] m k) =
   edge_degree t m + tag_edges t (f (get_or [] m k))"
  unfolding entry_upd_def get_or_def [symmetric] by (rule edge_degree_upd)

lemma edge_degree_existing:
  "f [] = [] \<Longrightarrow> edge_degree t (update_existing f k m) + tag_edges t (get_or [] m k) =
   edge_degree t m + tag_edges t (f (get_or [] m k))"
  using edge_degree_upd [of t k _ m]
  by (auto simp: update_existing_def get_or_def split: option.splits)

lemma get_or_existing:
  "f [] = [] \<Longrightarrow> get_or [] (update_existing f k m) k' = (if k = k' then f (get_or [] m k) else get_or [] m k')"
  by (auto simp: get_or_def lookup_update_existing split: option.splits)

lemma tag_count_bump:
  "tag_count t (bump_tag f k g) =
     (if t = k \<and> k |\<in>| fmdom (mg_tags g) then f (tag_count t g) else tag_count t g)"
  by (auto simp: tag_count_def bump_tag_def lookup_update_existing fmlookup_dom_iff split: option.splits)

lemma tag_count_ensure [simp]: "tag_count t (ensure_tag now name g) = tag_count t g"
  by (auto simp: tag_count_def ensure_tag_def lookup_entry_upd get_or_def tag_entry_new_def
      split: option.splits)

lemma dom_ensure: "fmdom (mg_tags (ensure_tag now name g)) = finsert (tag_id_of name) (fmdom (mg_tags g))"
  by (simp add: ensure_tag_def entry_upd_def)

lemma dom_bump [simp]: "fmdom (mg_tags (bump_tag f k g)) = fmdom (mg_tags g)"
  by (auto simp: bump_tag_def update_existing_def fmlookup_dom_iff split: option.splits)

lemma unchanged [simp]:
  "mg_edges (bump_tag f k g) = mg_edges g" "mg_reverse (bump_tag f k g) = mg_reverse g"
  "mg_memories (bump_tag f k g) = mg_memories g"
  "mg_edges (ensure_tag now name g) = mg_edges g" "mg_reverse (ensure_tag now name g) = mg_reverse g"
  "mg_memories (ensure_tag now name g) = mg_memories g"
  "mg_tags (add_edge_internal a b kind g) = mg_tags g" "mg_memories (add_edge_internal a b kind g) = mg_memories g"
  by (simp_all add: bump_tag_def ensure_tag_def add_edge_internal_def)

lemma edges_add_internal:
  "get_edges s (add_edge_internal a b k g) =
     (if s = a then get_edges s g @ [\<lparr>ed_target = b, ed_kind = k\<rparr>] else get_edges s g)"
  "get_incoming t (add_edge_internal a b k g) =
     (if t = b then get_incoming t g @ [a] else get_incoming t g)"
  "edge_degree t (mg_edges (add_edge_internal a b k g)) =
     edge_degree t (mg_edges g) + (if t = b \<and> k = HasTag then 1 else 0)"
  using edge_degree_entry [of t "\<lambda>es. es @ [\<lparr>ed_target = b, ed_kind = k\<rparr>]" a "mg_edges g"]
  by (auto simp: get_edges_def get_incoming_def add_edge_internal_def get_or_entry_upd is_tag_edge_def)

section \<open>Consistency\<close>

text \<open>
  The reverse index lists exactly the sources of the edges into a node, and the count of a tag is
  the number of tag edges into it (none for a tag that does not exist).
\<close>

definition index_ok :: "'f memory_graph \<Rightarrow> bool" where
  "index_ok g \<longleftrightarrow> (\<forall>s t. s \<in> set (get_incoming t g) \<longleftrightarrow> t \<in> ed_target ` set (get_edges s g))"

definition counts_ok :: "'f memory_graph \<Rightarrow> bool" where
  "counts_ok g \<longleftrightarrow> (\<forall>t. tag_count t g = edge_degree t (mg_edges g))"

definition graph_inv :: "'f memory_graph \<Rightarrow> bool" where
  "graph_inv g \<longleftrightarrow> index_ok g \<and> counts_ok g \<and> (\<forall>t. t |\<in>| fmdom (mg_tags g) \<longrightarrow> prefix ''tag:'' t)"

lemma graph_inv_cong:
  "graph_inv g \<Longrightarrow> mg_edges h = mg_edges g \<Longrightarrow> mg_reverse h = mg_reverse g \<Longrightarrow> mg_tags h = mg_tags g \<Longrightarrow>
   graph_inv h"
  by (simp add: graph_inv_def index_ok_def counts_ok_def get_edges_def get_incoming_def tag_count_def)

lemma graph_inv_new [op_inv]: "graph_inv graph_new"
  by (simp add: graph_inv_def index_ok_def counts_ok_def get_edges_def get_incoming_def tag_count_def
      graph_new_def edge_degree_def)

lemma index_ok_add_internal: "index_ok g \<Longrightarrow> index_ok (add_edge_internal a b k g)"
  by (auto simp: index_ok_def edges_add_internal)

lemma graph_inv_add_internal: "graph_inv g \<Longrightarrow> k \<noteq> HasTag \<Longrightarrow> graph_inv (add_edge_internal a b k g)"
  by (auto simp: graph_inv_def counts_ok_def edges_add_internal tag_count_def intro: index_ok_add_internal)

lemma graph_inv_ensure [op_inv]: "graph_inv g \<Longrightarrow> graph_inv (ensure_tag now name g)"
  by (auto simp: graph_inv_def index_ok_def counts_ok_def get_edges_def get_incoming_def dom_ensure tag_id_of_def)

lemma graph_inv_tag_edge:
  assumes "graph_inv g" and "t |\<in>| fmdom (mg_tags g)"
  shows "graph_inv (bump_tag Suc t (add_edge_internal a t HasTag g))"
proof -
  have "index_ok (bump_tag Suc t (add_edge_internal a t HasTag g))"
    using index_ok_add_internal [of g a t HasTag] assms(1)
    by (simp add: graph_inv_def index_ok_def get_edges_def get_incoming_def)
  with assms show ?thesis
    by (auto simp: graph_inv_def counts_ok_def tag_count_bump edges_add_internal)
      (auto simp: tag_count_def)
qed

lemma graph_inv_attach [op_inv]: "graph_inv g \<Longrightarrow> graph_inv (attach_tag now i g name)"
  unfolding attach_tag_def
  by (rule graph_inv_tag_edge) (auto intro: graph_inv_ensure simp: dom_ensure)

lemma graph_inv_attach_all: "graph_inv g \<Longrightarrow> graph_inv (foldl (attach_tag now i) g names)"
  by (induction names arbitrary: g) (auto intro: graph_inv_attach)

lemma graph_inv_add_memory [op_inv]:
  assumes "graph_inv g"
  shows "graph_inv (fst (add_memory lower now e g))"
proof -
  have "graph_inv (foldl (attach_tag now (en_id e)) g (en_tags e))"
    using assms by (rule graph_inv_attach_all)
  then show ?thesis
    by (auto simp: add_memory_def Let_def refresh_search_text_def split: option.split
        intro: graph_inv_cong graph_inv_add_internal)
qed

lemma graph_inv_tag_memory [op_inv]:
  assumes "graph_inv g"
  shows "graph_inv (tag_memory lower now i name g)"
proof -
  let ?g = "ensure_tag now name g"
  have g: "graph_inv ?g" using assms by (rule graph_inv_ensure)
  have t: "tag_id_of name |\<in>| fmdom (mg_tags ?g)" by (simp add: dom_ensure)
  have "graph_inv (bump_tag Suc (tag_id_of name) (add_edge_internal i (tag_id_of name) HasTag ?g))"
    using g t by (rule graph_inv_tag_edge)
  with g show ?thesis by (auto simp: tag_memory_def Let_def intro: graph_inv_cong)
qed

lemma graph_inv_add_edge: "graph_inv g \<Longrightarrow> k \<noteq> HasTag \<Longrightarrow> graph_inv (add_edge feq a b k g)"
  by (auto simp: add_edge_def graph_inv_add_internal split: option.splits)

lemma graph_inv_link [op_inv]: "graph_inv g \<Longrightarrow> graph_inv (link_memories feq a b w g)"
  by (auto simp: link_memories_def Let_def intro: graph_inv_cong graph_inv_add_edge)

lemma graph_inv_supersede [op_inv]: "graph_inv g \<Longrightarrow> graph_inv (supersede feq a b g)"
  by (auto simp: supersede_def Let_def intro: graph_inv_cong graph_inv_add_edge)

lemma graph_inv_contradiction [op_inv]: "graph_inv g \<Longrightarrow> graph_inv (mark_contradiction feq a b g)"
  by (simp add: mark_contradiction_def graph_inv_add_edge)

section \<open>Removing a memory\<close>

lemma forget_edge_one:
  "mg_edges (forget_edge i g e) = mg_edges g" "mg_memories (forget_edge i g e) = mg_memories g"
  "fmdom (mg_tags (forget_edge i g e)) = fmdom (mg_tags g)"
  "get_incoming t (forget_edge i g e) =
     (if t = ed_target e then filter (\<lambda>s. s \<noteq> i) (get_incoming t g) else get_incoming t g)"
  "tag_count t (forget_edge i g e) = tag_count t g - tag_edges t [e]"
proof -
  show "get_incoming t (forget_edge i g e) =
      (if t = ed_target e then filter (\<lambda>s. s \<noteq> i) (get_incoming t g) else get_incoming t g)"
    by (simp add: forget_edge_def Let_def get_incoming_def get_or_existing)
qed (auto simp: forget_edge_def Let_def bump_tag_def is_tag_edge_def tag_count_def
    lookup_update_existing update_existing_def fmlookup_dom_iff split: option.splits)

lemma forget_edges:
  "mg_edges (foldl (forget_edge i) g es) = mg_edges g"
  "mg_memories (foldl (forget_edge i) g es) = mg_memories g"
  "fmdom (mg_tags (foldl (forget_edge i) g es)) = fmdom (mg_tags g)"
  "get_incoming t (foldl (forget_edge i) g es) =
     (if t \<in> ed_target ` set es then filter (\<lambda>s. s \<noteq> i) (get_incoming t g) else get_incoming t g)"
  "tag_count t (foldl (forget_edge i) g es) = tag_count t g - tag_edges t es"
  by (induction es arbitrary: g) (auto simp: forget_edge_one)

lemma forget_sources:
  "mg_reverse (foldl (forget_source i) g ss) = mg_reverse g"
  "mg_memories (foldl (forget_source i) g ss) = mg_memories g"
  "mg_tags (foldl (forget_source i) g ss) = mg_tags g"
  "get_edges s (foldl (forget_source i) g ss) =
     (if s \<in> set ss then filter (\<lambda>e. ed_target e \<noteq> i) (get_edges s g) else get_edges s g)"
  by (induction ss arbitrary: g) (auto simp: forget_source_def get_edges_def get_or_existing)

lemma tag_edges_filter: "t \<noteq> i \<Longrightarrow> tag_edges t (filter (\<lambda>e. ed_target e \<noteq> i) es) = tag_edges t es"
  by (induction es) (auto simp: is_tag_edge_def)

lemma tag_edges_filter_le: "tag_edges t (filter P es) \<le> tag_edges t es"
  by (induction es) auto

lemma forget_source_degree:
  "t \<noteq> i \<Longrightarrow> edge_degree t (mg_edges (forget_source i g s)) = edge_degree t (mg_edges g)"
  "edge_degree t (mg_edges (forget_source i g s)) \<le> edge_degree t (mg_edges g)"
  using edge_degree_existing [of "filter (\<lambda>e. ed_target e \<noteq> i)" t s "mg_edges g"]
    tag_edges_filter [of t i "get_or [] (mg_edges g) s"]
    tag_edges_filter_le [of t "\<lambda>e. ed_target e \<noteq> i" "get_or [] (mg_edges g) s"]
  by (simp_all add: forget_source_def)

lemma forget_sources_degree:
  "t \<noteq> i \<Longrightarrow> edge_degree t (mg_edges (foldl (forget_source i) g ss)) = edge_degree t (mg_edges g)"
  "edge_degree t (mg_edges (foldl (forget_source i) g ss)) \<le> edge_degree t (mg_edges g)"
  by (induction ss arbitrary: g)
    (auto simp: forget_source_degree intro: order.trans [OF _ forget_source_degree(2)])

text \<open>The edges and sources left after a removal, whether or not the memory had any.\<close>

definition after_forget :: "string \<Rightarrow> 'f memory_graph \<Rightarrow> 'f memory_graph" where
  "after_forget i g =
     (case fmlookup (mg_edges g) i of
        Some edges \<Rightarrow> foldl (forget_edge i) (g\<lparr>mg_edges := fmdrop i (mg_edges g)\<rparr>) edges
      | None \<Rightarrow> g)"

lemma after_forget:
  "get_edges s (after_forget i g) = (if s = i then [] else get_edges s g)"
  "get_incoming t (after_forget i g) =
     (if t \<in> ed_target ` set (get_edges i g) then filter (\<lambda>s. s \<noteq> i) (get_incoming t g) else get_incoming t g)"
  "tag_count t (after_forget i g) = tag_count t g - tag_edges t (get_edges i g)"
  "edge_degree t (mg_edges (after_forget i g)) + tag_edges t (get_edges i g) = edge_degree t (mg_edges g)"
  "fmdom (mg_tags (after_forget i g)) = fmdom (mg_tags g)" "mg_memories (after_forget i g) = mg_memories g"
proof -
  show "edge_degree t (mg_edges (after_forget i g)) + tag_edges t (get_edges i g) = edge_degree t (mg_edges g)"
    using edge_degree_drop [of t i "mg_edges g"]
    by (auto simp: after_forget_def get_edges_def get_or_def [of "[]" _ i] forget_edges split: option.splits)
  have r: "get_incoming t (g\<lparr>mg_edges := m\<rparr>) = get_incoming t g" "tag_count t (g\<lparr>mg_edges := m\<rparr>) = tag_count t g"
    for m by (simp_all add: get_incoming_def tag_count_def)
  show "get_edges s (after_forget i g) = (if s = i then [] else get_edges s g)"
    by (auto simp: after_forget_def get_edges_def get_or_def forget_edges(1) split: option.split)
  show "get_incoming t (after_forget i g) =
     (if t \<in> ed_target ` set (get_edges i g) then filter (\<lambda>s. s \<noteq> i) (get_incoming t g) else get_incoming t g)"
    by (auto simp: after_forget_def get_edges_def get_or_def forget_edges(4) r(1) split: option.split)
  show "tag_count t (after_forget i g) = tag_count t g - tag_edges t (get_edges i g)"
    by (auto simp: after_forget_def get_edges_def get_or_def forget_edges(5) r(2) split: option.split)
  show "fmdom (mg_tags (after_forget i g)) = fmdom (mg_tags g)" "mg_memories (after_forget i g) = mg_memories g"
    by (auto simp: after_forget_def forget_edges split: option.split)
qed

definition forget_all_sources :: "string \<Rightarrow> 'f memory_graph \<Rightarrow> 'f memory_graph" where
  "forget_all_sources i g =
     (case fmlookup (mg_reverse g) i of
        Some sources \<Rightarrow> foldl (forget_source i) (g\<lparr>mg_reverse := fmdrop i (mg_reverse g)\<rparr>) sources
      | None \<Rightarrow> g)"

lemma forget_all_sources:
  "get_edges s (forget_all_sources i g) =
     (if s \<in> set (get_incoming i g) then filter (\<lambda>e. ed_target e \<noteq> i) (get_edges s g) else get_edges s g)"
  "get_incoming t (forget_all_sources i g) = (if t = i then [] else get_incoming t g)"
  "mg_tags (forget_all_sources i g) = mg_tags g" "mg_memories (forget_all_sources i g) = mg_memories g"
  "t \<noteq> i \<Longrightarrow> edge_degree t (mg_edges (forget_all_sources i g)) = edge_degree t (mg_edges g)"
  "edge_degree t (mg_edges (forget_all_sources i g)) \<le> edge_degree t (mg_edges g)"
proof -
  have r: "get_edges s (g\<lparr>mg_reverse := m\<rparr>) = get_edges s g" for m by (simp add: get_edges_def)
  have le: "edge_degree t (mg_edges (foldl (forget_source i) (g\<lparr>mg_reverse := m\<rparr>) ss)) \<le> edge_degree t (mg_edges g)"
    for m ss using forget_sources_degree(2) [of t i "g\<lparr>mg_reverse := m\<rparr>" ss] by simp
  show "get_edges s (forget_all_sources i g) =
     (if s \<in> set (get_incoming i g) then filter (\<lambda>e. ed_target e \<noteq> i) (get_edges s g) else get_edges s g)"
    "get_incoming t (forget_all_sources i g) = (if t = i then [] else get_incoming t g)"
    "mg_tags (forget_all_sources i g) = mg_tags g" "mg_memories (forget_all_sources i g) = mg_memories g"
    "t \<noteq> i \<Longrightarrow> edge_degree t (mg_edges (forget_all_sources i g)) = edge_degree t (mg_edges g)"
    "edge_degree t (mg_edges (forget_all_sources i g)) \<le> edge_degree t (mg_edges g)"
    by (auto simp: forget_all_sources_def get_incoming_def get_or_def forget_sources_degree(1)
        forget_sources r le split: option.split)
qed

lemma remove_memory_eq:
  "remove_memory i g =
     ((forget_all_sources i (after_forget i g))\<lparr>mg_memories := fmdrop i (mg_memories g)\<rparr>,
      fmlookup (mg_memories g) i)"
  by (simp add: remove_memory_def Let_def after_forget_def [symmetric] forget_all_sources_def [symmetric]
      forget_all_sources(4) after_forget(6))

lemma remove_memory_edges:
  assumes "index_ok g"
  shows "get_edges s (fst (remove_memory i g)) =
      (if s = i then [] else filter (\<lambda>e. ed_target e \<noteq> i) (get_edges s g))"
    "set (get_incoming t (fst (remove_memory i g))) = (if t = i then {} else set (get_incoming t g) - {i})"
proof -
  have rest: "get_edges s (g\<lparr>mg_memories := m\<rparr>) = get_edges s g"
    "get_incoming t (g\<lparr>mg_memories := m\<rparr>) = get_incoming t g" for g :: "'a memory_graph" and s t m
    by (simp_all add: get_edges_def get_incoming_def)
  have no: "filter (\<lambda>e. ed_target e \<noteq> i) (get_edges s g) = get_edges s g" if "s \<notin> set (get_incoming i g)"
    using assms that by (auto simp: index_ok_def filter_id_conv)
  show "get_edges s (fst (remove_memory i g)) =
      (if s = i then [] else filter (\<lambda>e. ed_target e \<noteq> i) (get_edges s g))"
    using no by (auto simp: remove_memory_eq rest forget_all_sources(1) after_forget(1,2))
  have "i \<notin> set (get_incoming t g)" if "t \<notin> ed_target ` set (get_edges i g)"
    using assms that by (auto simp: index_ok_def)
  then show "set (get_incoming t (fst (remove_memory i g))) = (if t = i then {} else set (get_incoming t g) - {i})"
    by (auto simp: remove_memory_eq rest forget_all_sources(2) after_forget(2))
qed

lemma graph_inv_remove_unused:
  assumes "graph_inv g" and "tag_count i g = 0"
  shows "graph_inv (fst (remove_memory i g))"
proof -
  let ?g = "fst (remove_memory i g)"
  have idx: "index_ok g" using assms(1) by (simp add: graph_inv_def)
  have "index_ok ?g"
    using idx unfolding index_ok_def remove_memory_edges [OF idx] by auto
  moreover have "tag_count t ?g = edge_degree t (mg_edges ?g)" for t
  proof -
    have c: "tag_count t ?g = tag_count t g - tag_edges t (get_edges i g)"
      using after_forget(3) [of t i g] by (simp add: remove_memory_eq tag_count_def forget_all_sources(3))
    have d: "edge_degree t (mg_edges (after_forget i g)) + tag_edges t (get_edges i g) = edge_degree t (mg_edges g)"
      by (rule after_forget(4))
    have g: "tag_count t g = edge_degree t (mg_edges g)" using assms(1) by (simp add: graph_inv_def counts_ok_def)
    show ?thesis
    proof (cases "t = i")
      case True
      then have "tag_count t g = 0" using assms(2) by simp
      with c d g forget_all_sources(6) [of t i "after_forget i g"] show ?thesis
        by (simp add: remove_memory_eq)
    next
      case False
      with c d g forget_all_sources(5) [of t i "after_forget i g"] show ?thesis
        by (simp add: remove_memory_eq)
    qed
  qed
  moreover have "fmdom (mg_tags ?g) = fmdom (mg_tags g)"
    by (simp add: remove_memory_eq forget_all_sources(3) after_forget(5))
  ultimately show ?thesis using assms(1) by (simp add: graph_inv_def counts_ok_def)
qed

lemma graph_inv_remove [op_inv]: "graph_inv g \<Longrightarrow> \<not> prefix ''tag:'' i \<Longrightarrow> graph_inv (fst (remove_memory i g))"
  by (rule graph_inv_remove_unused)
    (auto simp: tag_count_def graph_inv_def fmlookup_dom_iff split: option.split)

section \<open>Removing tags and edges\<close>

lemma edges_untag:
  "get_edges s (untag_memory lower i name g) =
     (if s = i then filter (\<lambda>e. \<not> is_tag_edge (tag_id_of name) e) (get_edges i g) else get_edges s g)"
  by (simp add: untag_memory_def Let_def get_edges_def get_or_existing)

lemma incoming_untag:
  "get_incoming t (untag_memory lower i name g) =
     (if t = tag_id_of name then filter (\<lambda>s. s \<noteq> i) (get_incoming t g) else get_incoming t g)"
  by (auto simp: untag_memory_def Let_def get_incoming_def get_or_existing)

lemma dom_untag: "fmdom (mg_tags (untag_memory lower i name g)) = fmdom (mg_tags g)"
  by (simp add: untag_memory_def Let_def bump_tag_def update_existing_def fmlookup_dom_iff split: option.splits)
    (auto simp: fmlookup_dom_iff)

lemma tag_edges_removed: "tag_edges t (filter (\<lambda>e. \<not> is_tag_edge u e) es) = (if t = u then 0 else tag_edges t es)"
  by (induction es) (auto simp: is_tag_edge_def)

lemma count_untag:
  "tag_count t (untag_memory lower i name g) = (if t = tag_id_of name then tag_count t g - 1 else tag_count t g)"
proof -
  have "tag_count t (untag_memory lower i name g) = tag_count t (bump_tag (\<lambda>n. n - 1) (tag_id_of name) g)"
    by (simp add: untag_memory_def Let_def tag_count_def bump_tag_def)
  then show ?thesis
    by (cases "tag_id_of name |\<in>| fmdom (mg_tags g)")
      (auto simp: tag_count_bump, auto simp: tag_count_def bump_tag_def update_existing_def fmdom_notD)
qed

lemma degree_untag:
  "edge_degree t (mg_edges (untag_memory lower i name g)) =
     (if t = tag_id_of name then edge_degree t (mg_edges g) - tag_edges t (get_edges i g) else edge_degree t (mg_edges g))"
proof -
  have edges: "mg_edges (untag_memory lower i name g) =
      update_existing (filter (\<lambda>e. \<not> is_tag_edge (tag_id_of name) e)) i (mg_edges g)"
    by (simp add: untag_memory_def Let_def)
  show ?thesis
    using edge_degree_existing [of "filter (\<lambda>e. \<not> is_tag_edge (tag_id_of name) e)" t i "mg_edges g"]
    by (auto simp: edges tag_edges_removed get_edges_def)
qed

text \<open>Removing a tag that the memory has once, as its only edge into the tag.\<close>

lemma graph_inv_untag_once:
  assumes inv: "graph_inv g"
    and one: "filter (\<lambda>e. ed_target e = tag_id_of name) (get_edges i g) = [\<lparr>ed_target = tag_id_of name, ed_kind = HasTag\<rparr>]"
  shows "graph_inv (untag_memory lower i name g)"
proof -
  let ?t = "tag_id_of name" and ?h = "untag_memory lower i name g"
  have all: "is_tag_edge ?t e" if "e \<in> set (get_edges i g)" "ed_target e = ?t" for e
  proof -
    from that have "e \<in> set (filter (\<lambda>e. ed_target e = ?t) (get_edges i g))" by simp
    then show ?thesis unfolding one by (simp add: is_tag_edge_def)
  qed
  have "filter (is_tag_edge ?t) (get_edges i g) = filter (\<lambda>e. ed_target e = ?t) (get_edges i g)"
    using all by (intro filter_cong) (auto simp: is_tag_edge_def)
  then have edge: "tag_edges ?t (get_edges i g) = 1" using one by (simp add: tag_edges_def)
  have targets: "ed_target ` set (get_edges i ?h) = ed_target ` set (get_edges i g) - {?t}"
    using all by (auto simp: edges_untag is_tag_edge_def)
  have "index_ok ?h"
    using inv targets by (auto simp: graph_inv_def index_ok_def incoming_untag edges_untag)
  moreover have "counts_ok ?h"
    using inv by (auto simp: counts_ok_def count_untag degree_untag edge graph_inv_def)
  ultimately show ?thesis using inv by (simp add: graph_inv_def dom_untag)
qed

lemma edges_remove_edge:
  "get_edges s (remove_edge feq src dst kind g) =
     (if s = src then filter (\<lambda>e. \<not> (ed_target e = dst \<and> kind_eq feq (ed_kind e) kind)) (get_edges s g) else get_edges s g)"
  "get_incoming t (remove_edge feq src dst kind g) =
     (if t = dst then filter (\<lambda>s. s \<noteq> src) (get_incoming t g) else get_incoming t g)"
  "mg_tags (remove_edge feq src dst kind g) = mg_tags g"
  by (auto simp: remove_edge_def get_edges_def get_incoming_def get_or_existing)

text \<open>Removing an edge that is no tag edge and the only way from its source to its target.\<close>

lemma graph_inv_remove_edge:
  assumes inv: "graph_inv g" and kind: "kind \<noteq> HasTag"
    and only: "\<forall>e \<in> set (get_edges src g). ed_target e = dst \<longrightarrow> kind_eq feq (ed_kind e) kind"
  shows "graph_inv (remove_edge feq src dst kind g)"
proof -
  let ?h = "remove_edge feq src dst kind g"
  have "ed_target ` set (get_edges s ?h) = ed_target ` set (get_edges s g) - (if s = src then {dst} else {})" for s
    using only by (auto simp: edges_remove_edge)
  then have "index_ok ?h"
    using inv by (auto simp: graph_inv_def index_ok_def edges_remove_edge)
  moreover have "counts_ok ?h"
  proof -
    have tag: "\<not> kind_eq feq HasTag kind" using kind by (cases kind) simp_all
    have "tag_edges t (filter (\<lambda>e. \<not> (ed_target e = dst \<and> kind_eq feq (ed_kind e) kind)) es) = tag_edges t es"
      for t and es :: "'a edge list"
      using tag by (induction es) (auto simp: is_tag_edge_def)
    then have "edge_degree t (mg_edges ?h) = edge_degree t (mg_edges g)" for t
      using edge_degree_existing [of "filter (\<lambda>e. \<not> (ed_target e = dst \<and> kind_eq feq (ed_kind e) kind))" t src "mg_edges g"]
      by (simp add: remove_edge_def)
    then show ?thesis using inv by (simp add: graph_inv_def counts_ok_def tag_count_def edges_remove_edge)
  qed
  ultimately show ?thesis using inv by (simp add: graph_inv_def edges_remove_edge)
qed

section \<open>What the reverse index never gets wrong\<close>

text \<open>Every source it lists has an edge into the node, whatever is done to the graph.\<close>

definition index_sound :: "'f memory_graph \<Rightarrow> bool" where
  "index_sound g \<longleftrightarrow> (\<forall>s t. s \<in> set (get_incoming t g) \<longrightarrow> t \<in> ed_target ` set (get_edges s g))"

lemma index_sound_cong:
  "index_sound g \<Longrightarrow> mg_edges h = mg_edges g \<Longrightarrow> mg_reverse h = mg_reverse g \<Longrightarrow> index_sound h"
  by (simp add: index_sound_def get_edges_def get_incoming_def)

lemma sound_add_internal: "index_sound g \<Longrightarrow> index_sound (add_edge_internal a b k g)"
  by (auto simp: index_sound_def edges_add_internal)

lemma sound_tags [simp]:
  "index_sound (ensure_tag now name g) = index_sound g" "index_sound (bump_tag f t g) = index_sound g"
  "index_sound (g\<lparr>mg_memories := m\<rparr>) = index_sound g" "index_sound (g\<lparr>mg_metadata := x\<rparr>) = index_sound g"
  by (simp_all add: index_sound_def get_edges_def get_incoming_def ensure_tag_def bump_tag_def)

lemma sound_attach: "index_sound g \<Longrightarrow> index_sound (foldl (attach_tag now i) g names)"
  by (induction names arbitrary: g) (simp_all add: attach_tag_def sound_add_internal)

lemma sound_add_edge: "index_sound g \<Longrightarrow> index_sound (add_edge feq a b k g)"
  by (auto simp: add_edge_def sound_add_internal split: option.splits)

lemma sound_add_memory: "index_sound g \<Longrightarrow> index_sound (fst (add_memory lower now e g))"
  by (auto simp: add_memory_def Let_def sound_attach sound_add_internal split: option.split)

lemma sound_tagging:
  "index_sound g \<Longrightarrow> index_sound (tag_memory lower now i name g)"
  "index_sound g \<Longrightarrow> index_sound (untag_memory lower i name g)"
  "index_sound g \<Longrightarrow> index_sound (remove_edge feq a b k g)"
proof -
  assume g: "index_sound g"
  show "index_sound (tag_memory lower now i name g)"
    using g by (simp add: tag_memory_def Let_def sound_add_internal)
  show "index_sound (untag_memory lower i name g)"
    unfolding index_sound_def
  proof (intro allI impI)
    fix s t
    assume "s \<in> set (get_incoming t (untag_memory lower i name g))"
    then have s: "s \<in> set (get_incoming t g)" "t = tag_id_of name \<Longrightarrow> s \<noteq> i" by (auto simp: incoming_untag split: if_splits)
    then have "t \<in> ed_target ` set (get_edges s g)" using g by (simp add: index_sound_def)
    then show "t \<in> ed_target ` set (get_edges s (untag_memory lower i name g))"
      using s(2) by (auto simp: edges_untag is_tag_edge_def image_iff)
  qed
  show "index_sound (remove_edge feq a b k g)"
    unfolding index_sound_def
  proof (intro allI impI)
    fix s t
    assume "s \<in> set (get_incoming t (remove_edge feq a b k g))"
    then have s: "s \<in> set (get_incoming t g)" "t = b \<Longrightarrow> s \<noteq> a" by (auto simp: edges_remove_edge split: if_splits)
    then have "t \<in> ed_target ` set (get_edges s g)" using g by (simp add: index_sound_def)
    then show "t \<in> ed_target ` set (get_edges s (remove_edge feq a b k g))"
      using s(2) by (auto simp: edges_remove_edge image_iff)
  qed
qed

lemma sound_remove_memory: "index_sound g \<Longrightarrow> index_sound (fst (remove_memory i g))"
proof -
  assume g: "index_sound g"
  show ?thesis
    unfolding index_sound_def
  proof (intro allI impI)
    fix s t
    assume "s \<in> set (get_incoming t (fst (remove_memory i g)))"
    then have s: "s \<in> set (get_incoming t (forget_all_sources i (after_forget i g)))"
      by (simp add: remove_memory_eq get_incoming_def)
    then have ti: "t \<noteq> i" "s \<in> set (get_incoming t g)" "t \<in> ed_target ` set (get_edges i g) \<Longrightarrow> s \<noteq> i"
      by (auto simp: forget_all_sources(2) after_forget(2) split: if_splits)
    then have e: "t \<in> ed_target ` set (get_edges s g)" using g by (simp add: index_sound_def)
    then have "s \<noteq> i" using ti(3) by auto
    then have "t \<in> ed_target ` set (get_edges s (forget_all_sources i (after_forget i g)))"
      using e ti(1) by (auto simp: forget_all_sources(1) after_forget(1) image_iff)
    then show "t \<in> ed_target ` set (get_edges s (fst (remove_memory i g)))"
      by (simp add: remove_memory_eq get_edges_def)
  qed
qed

end
