(* ===== verification/MemoryGraphProperties.thy ===== *)
theory MemoryGraphProperties
  imports MemoryGraph
begin

text \<open>
  What the memory graph promises: a sound reverse index after any sequence of operations, exact index and
  counts as long as every operation keeps the books, complete removal, tagging, the migration of the flat
  store, and the two operations that can break the consistency.
\<close>

section \<open>Runs\<close>

text \<open>Every operation of graph.rs that changes its nodes or edges; \<open>EditMemory\<close> is a change through get_memory_mut.\<close>

datatype 'f graph_op =
    Add int "'f memory_entry"
  | Remove string
  | Tag int string string
  | Untag string string
  | EnsureTag int string
  | EditMemory string "'f memory_entry \<Rightarrow> 'f memory_entry"
  | Link string string 'f
  | Supersede string string
  | Contradict string string
  | AddEdge string string "'f edge_kind"
  | RemoveEdge string string "'f edge_kind"

fun graph_apply ::
  "(string \<Rightarrow> string) \<Rightarrow> ('f \<Rightarrow> 'f \<Rightarrow> bool) \<Rightarrow> 'f memory_graph \<Rightarrow> 'f graph_op \<Rightarrow> 'f memory_graph" where
  "graph_apply lower feq g (Add now e) = fst (add_memory lower now e g)"
| "graph_apply lower feq g (Remove i) = fst (remove_memory i g)"
| "graph_apply lower feq g (Tag now i name) = tag_memory lower now i name g"
| "graph_apply lower feq g (Untag i name) = untag_memory lower i name g"
| "graph_apply lower feq g (EnsureTag now name) = ensure_tag now name g"
| "graph_apply lower feq g (EditMemory i f) = g\<lparr>mg_memories := update_existing f i (mg_memories g)\<rparr>"
| "graph_apply lower feq g (Link a b w) = link_memories feq a b w g"
| "graph_apply lower feq g (Supersede a b) = supersede feq a b g"
| "graph_apply lower feq g (Contradict a b) = mark_contradiction feq a b g"
| "graph_apply lower feq g (AddEdge a b k) = add_edge feq a b k g"
| "graph_apply lower feq g (RemoveEdge a b k) = remove_edge feq a b k g"

text \<open>
  The operations that keep the books, depending on the graph they meet: what is removed is no tag in use, a
  tag is taken away from a memory that has it once, an edge that is added or removed by hand is no tag edge, and
  the one removed is the only way from its source to its target.
\<close>

fun graph_op_ok :: "('f \<Rightarrow> 'f \<Rightarrow> bool) \<Rightarrow> 'f memory_graph \<Rightarrow> 'f graph_op \<Rightarrow> bool" where
  "graph_op_ok feq g (Remove i) = (tag_count i g = 0)"
| "graph_op_ok feq g (Untag i name) =
     (filter (\<lambda>e. ed_target e = tag_id_of name) (get_edges i g) = [\<lparr>ed_target = tag_id_of name, ed_kind = HasTag\<rparr>])"
| "graph_op_ok feq g (AddEdge a b k) = (k \<noteq> HasTag)"
| "graph_op_ok feq g (RemoveEdge a b k) =
     (k \<noteq> HasTag \<and> list_all (\<lambda>e. ed_target e = b \<longrightarrow> kind_eq feq (ed_kind e) k) (get_edges a g))"
| "graph_op_ok feq g _ = True"

fun graph_ops_ok ::
  "(string \<Rightarrow> string) \<Rightarrow> ('f \<Rightarrow> 'f \<Rightarrow> bool) \<Rightarrow> 'f memory_graph \<Rightarrow> 'f graph_op list \<Rightarrow> bool" where
  "graph_ops_ok lower feq g [] = True"
| "graph_ops_ok lower feq g (x # xs) \<longleftrightarrow>
     graph_op_ok feq g x \<and> graph_ops_ok lower feq (graph_apply lower feq g x) xs"

interpretation graph_runs: op_machine "graph_apply lower feq" graph_new index_sound
  for lower feq
proof
  show "index_sound graph_new" by (simp add: index_sound_def graph_new_def get_incoming_def)
  show "index_sound (graph_apply lower feq g x)" if "index_sound g" for g x
    using that by (cases x) (simp_all add: sound_add_memory sound_remove_memory sound_tagging sound_add_edge
        link_memories_def supersede_def mark_contradiction_def Let_def)
qed

lemma graph_inv_apply: "graph_inv g \<Longrightarrow> graph_op_ok feq g x \<Longrightarrow> graph_inv (graph_apply lower feq g x)"
  by (cases x)
    (auto intro: op_inv graph_inv_remove_unused graph_inv_untag_once graph_inv_add_edge graph_inv_remove_edge
      graph_inv_cong simp: list_all_iff)

lemma graph_inv_run: "graph_inv g \<Longrightarrow> graph_ops_ok lower feq g ops \<Longrightarrow> graph_inv (foldl (graph_apply lower feq) g ops)"
  by (induction ops arbitrary: g) (auto intro: graph_inv_apply)

text \<open>
  Property C6. After any operations in any order, every source the reverse index lists for a node has an edge into it.
  If besides every operation keeps the books in the graph it meets (graph_op_ok: no tag in use is removed as if it
  were a memory, tags are only taken from memories that have them once, no tag edge is added or removed by hand and
  no edge beside another one with the same ends), then the index lists exactly the sources of the edges and the
  count of every tag is the number of tag edges into it.
\<close>

theorem graph_consistent:
  "let g = foldl (graph_apply lower feq) graph_new ops
    in (\<forall>s t. s \<in> set (get_incoming t g) \<longrightarrow> t \<in> ed_target ` set (get_edges s g)) \<and>
       (graph_ops_ok lower feq graph_new ops \<longrightarrow>
         (\<forall>s t. s \<in> set (get_incoming t g) \<longleftrightarrow> t \<in> ed_target ` set (get_edges s g)) \<and>
         (\<forall>t. tag_count t g = (\<Sum>s\<in>fset (fmdom (mg_edges g)). tag_edges t (get_edges s g))))"
  using graph_runs.run_inv [of lower feq ops] graph_inv_run [OF graph_inv_new, of lower feq ops]
  unfolding Let_def graph_inv_def index_sound_def index_ok_def counts_ok_def edge_degree_def get_edges_def by blast

definition sample_entry :: "string \<Rightarrow> string list \<Rightarrow> nat memory_entry" where
  "sample_entry i tags = (entry_new id 1 i 0 Fact ''content'')\<lparr>en_tags := tags\<rparr>"

definition sample_ops :: "nat graph_op list" where
  "sample_ops =
     [Add 0 (sample_entry ''m1'' [''rust'', ''api'']), Add 0 (sample_entry ''m2'' [''rust'']),
      Contradict ''m1'' ''m2'', Untag ''m1'' ''api'', AddEdge ''m1'' ''m3'' DerivedFrom,
      RemoveEdge ''m1'' ''m3'' DerivedFrom, Remove ''m1'']"

lemma sample_ops_ok: "graph_ops_ok id (=) graph_new sample_ops"
  by code_simp

lemma sample_inv: "graph_inv (foldl (graph_apply id (=)) graph_new sample_ops)"
  by (rule graph_inv_run [OF graph_inv_new sample_ops_ok])

theorem graph_consistent_witness:
  "tag_count ''tag:rust'' (foldl (graph_apply id (=)) graph_new sample_ops) =
   (\<Sum>s\<in>fset (fmdom (mg_edges (foldl (graph_apply id (=)) graph_new sample_ops))).
      tag_edges ''tag:rust'' (get_edges s (foldl (graph_apply id (=)) graph_new sample_ops)))"
  using graph_consistent [of id "(=)" sample_ops] sample_ops_ok by (simp add: Let_def)

section \<open>Removal\<close>

text \<open>
  In a graph with a consistent reverse index a removed memory is gone from the memories,
  from every list of edges and from the reverse index, the other edges and memories stay as they
  were, and the removed entry is returned.
\<close>

theorem removed_memory_gone:
  assumes "index_ok g"
  shows "let (h, old) = remove_memory i g
    in old = get_memory i g \<and> get_memory i h = None \<and> get_edges i h = [] \<and> get_incoming i h = [] \<and>
       (\<forall>s. i \<notin> ed_target ` set (get_edges s h) \<and> i \<notin> set (get_incoming s h)) \<and>
       (\<forall>s. filter (\<lambda>e. s \<noteq> i \<and> ed_target e \<noteq> i) (get_edges s g) = get_edges s h) \<and>
       fmdrop i (mg_memories g) = mg_memories h"
proof -
  let ?h = "fst (remove_memory i g)"
  note e = remove_memory_edges [OF assms, of _ i]
  have "get_incoming i ?h = []" using e(2) [of i] by simp
  moreover have "i \<notin> ed_target ` set (get_edges s ?h) \<and> i \<notin> set (get_incoming s ?h)" for s
    unfolding e by auto
  moreover have "filter (\<lambda>e. s \<noteq> i \<and> ed_target e \<noteq> i) (get_edges s g) = get_edges s ?h" for s
    unfolding e(1) by auto
  moreover have "get_edges i ?h = []" by (simp add: e(1))
  moreover have "mg_memories ?h = fmdrop i (mg_memories g)" "snd (remove_memory i g) = get_memory i g"
    by (simp_all add: remove_memory_eq get_memory_def)
  ultimately show ?thesis by (simp add: case_prod_beta get_memory_def)
qed

theorem removed_memory_gone_witness:
  "let g = foldl (graph_apply id (=)) graph_new (butlast sample_ops)
   in get_memory ''m1'' (fst (remove_memory ''m1'' g)) = None"
proof -
  have "graph_inv (foldl (graph_apply id (=)) graph_new (butlast sample_ops))"
    by (rule graph_inv_run [OF graph_inv_new, of id]) code_simp
  then show ?thesis
    using removed_memory_gone [of "foldl (graph_apply id (=)) graph_new (butlast sample_ops)" "''m1''"]
    by (simp add: graph_inv_def case_prod_beta Let_def)
qed

section \<open>Tagging\<close>

lemma tag_memory_edge: "list_ex (is_tag_edge (tag_id_of name)) (get_edges i (tag_memory lower now i name g))"
proof (cases "list_ex (is_tag_edge (tag_id_of name)) (get_edges i (ensure_tag now name g))")
  case True
  then show ?thesis by (simp add: tag_memory_def Let_def)
next
  case False
  then show ?thesis
    by (simp add: tag_memory_def Let_def get_edges_def bump_tag_def add_edge_internal_def get_or_entry_upd
      is_tag_edge_def)
qed

lemma ensure_tag_existing: "tag_id_of name |\<in>| fmdom (mg_tags g) \<Longrightarrow> ensure_tag now name g = g"
proof -
  assume "tag_id_of name |\<in>| fmdom (mg_tags g)"
  then obtain t where t: "fmlookup (mg_tags g) (tag_id_of name) = Some t" by (auto simp: fmlookup_dom_iff)
  then have "fmupd (tag_id_of name) t (mg_tags g) = mg_tags g" by (intro fmap_ext) auto
  with t show ?thesis by (simp add: ensure_tag_def entry_upd_def)
qed

lemma tag_memory_dom: "tag_id_of name |\<in>| fmdom (mg_tags (tag_memory lower now i name g))"
  by (simp add: tag_memory_def Let_def dom_ensure)

text \<open>
  After tagging a memory of a consistent graph the memory is among those with the tag, no
  edge or memory but its own has changed, the tag counts one more exactly if the memory did not have
  it, and tagging it again changes nothing.
\<close>

theorem tag_memory_correct:
  assumes "graph_inv g" and "get_memory i g = Some m"
  shows "let h = tag_memory lower now i name g; t = tag_id_of name
    in (case get_memory i h of Some m' \<Rightarrow> m' \<in> set (get_memories_by_tag name h) | None \<Rightarrow> False) \<and>
       tag_count t h = tag_count t g + (if list_ex (is_tag_edge t) (get_edges i g) then 0 else 1) \<and>
       fmdrop i (mg_edges h) = fmdrop i (mg_edges g) \<and> fmdrop i (mg_memories h) = fmdrop i (mg_memories g) \<and>
       tag_memory lower now i name h = h"
proof -
  let ?h = "tag_memory lower now i name g" and ?t = "tag_id_of name"
  have inv: "graph_inv ?h" using assms(1) by (rule graph_inv_tag_memory)
  have edge: "list_ex (is_tag_edge ?t) (get_edges i ?h)" by (rule tag_memory_edge)
  then have "?t \<in> ed_target ` set (get_edges i ?h)" by (force simp: list_ex_iff is_tag_edge_def)
  with inv have inc: "i \<in> set (get_incoming ?t ?h)" by (simp add: graph_inv_def index_ok_def)
  obtain m' where m': "fmlookup (mg_memories ?h) i = Some m'"
    using assms(2) that
    by (cases "list_ex (is_tag_edge ?t) (get_edges i (ensure_tag now name g))")
      (auto simp: get_memory_def tag_memory_def Let_def lookup_update_existing refresh_search_text_def)
  have "m' \<in> set (get_memories_by_tag name ?h)"
    using inc m' by (force simp: get_memories_by_tag_def List.map_filter_def)
  moreover have "tag_count ?t ?h = tag_count ?t g + (if list_ex (is_tag_edge ?t) (get_edges i g) then 0 else 1)"
  proof -
    have r: "tag_count t (g\<lparr>mg_memories := x\<rparr>) = tag_count t g"
      "tag_count t (add_edge_internal a b k g) = tag_count t g" for t x a b k and g :: "'a memory_graph"
      by (simp_all add: tag_count_def)
    have "get_edges i (ensure_tag now name g) = get_edges i g" by (simp add: get_edges_def)
    then show ?thesis by (simp add: tag_memory_def Let_def r tag_count_bump dom_ensure)
  qed
  moreover have "fmdrop i (mg_edges ?h) = fmdrop i (mg_edges g)" "fmdrop i (mg_memories ?h) = fmdrop i (mg_memories g)"
    by (auto simp: tag_memory_def Let_def add_edge_internal_def entry_upd_def update_existing_def
        bump_tag_def ensure_tag_def intro!: fmap_ext split: option.split)
  moreover have "tag_memory lower now i name ?h = ?h"
    unfolding tag_memory_def [of lower now i name ?h] ensure_tag_existing [OF tag_memory_dom] Let_def
    using edge by simp
  ultimately show ?thesis using m' unfolding Let_def get_memory_def by simp
qed

theorem tag_memory_correct_witness:
  "tag_count ''tag:rust'' (tag_memory id 0 ''m2'' ''rust'' (foldl (graph_apply id (=)) graph_new sample_ops)) = 1"
proof -
  let ?g = "foldl (graph_apply id (=)) graph_new sample_ops"
  note inv = sample_inv
  have m: "get_memory ''m2'' ?g = Some (refresh_search_text id (sample_entry ''m2'' [''rust'']))"
    "list_ex (is_tag_edge ''tag:rust'') (get_edges ''m2'' ?g)" "tag_count ''tag:rust'' ?g = 1"
    by code_simp+
  show ?thesis
    using tag_memory_correct [OF inv m(1), of id 0 "''rust''"] m(2,3) by (simp add: Let_def tag_id_of_def)
qed

text \<open>
  Removing a tag lowers the count of the tag by one whether or not the memory had it: the
  edges of a memory without the tag stay as they are, so the count of a tag that other memories
  carry no longer is the number of its edges.
\<close>

theorem untag_count_drift:
  assumes "graph_inv g" and "tag_edges (tag_id_of name) (get_edges i g) = 0"
    and "tag_count (tag_id_of name) g = Suc n"
  shows "let h = untag_memory lower i name g
    in mg_edges h = mg_edges g \<and> tag_count (tag_id_of name) h = n \<and>
       edge_degree (tag_id_of name) (mg_edges h) = Suc n"
proof -
  let ?t = "tag_id_of name"
  have none: "filter (\<lambda>e. \<not> is_tag_edge ?t e) (get_edges i g) = get_edges i g"
    using assms(2) by (simp add: tag_edges_def filter_id_conv filter_empty_conv)
  have "update_existing (filter (\<lambda>e. \<not> is_tag_edge ?t e)) i (mg_edges g) = mg_edges g"
  proof (cases "fmlookup (mg_edges g) i")
    case (Some es)
    with none have "filter (\<lambda>e. \<not> is_tag_edge ?t e) es = es" by (simp add: get_edges_def get_or_def)
    with Some show ?thesis by (intro fmap_ext) (auto simp: update_existing_def)
  qed (simp add: update_existing_def)
  moreover have "?t |\<in>| fmdom (mg_tags g)"
    using assms(3) by (auto simp: tag_count_def fmlookup_dom_iff split: option.splits)
  moreover have "edge_degree ?t (mg_edges g) = Suc n"
    using assms(1,3) by (simp add: graph_inv_def counts_ok_def)
  moreover have r: "tag_count t (g\<lparr>mg_memories := x\<rparr>) = tag_count t g"
    "tag_count t (g\<lparr>mg_edges := y, mg_reverse := z\<rparr>) = tag_count t g"
    "tag_count t (g\<lparr>mg_reverse := z\<rparr>) = tag_count t g"
    for t x y z and g :: "'a memory_graph" by (simp_all add: tag_count_def)
  ultimately show ?thesis using assms(3) by (simp add: untag_memory_def Let_def tag_count_bump)
qed

theorem untag_count_drift_witness:
  "let h = untag_memory id ''m3'' ''rust'' (foldl (graph_apply id (=)) graph_new sample_ops)
   in tag_count ''tag:rust'' h = 0 \<and> edge_degree ''tag:rust'' (mg_edges h) = 1"
proof -
  let ?g = "foldl (graph_apply id (=)) graph_new sample_ops"
  note inv = sample_inv
  have m: "tag_edges ''tag:rust'' (get_edges ''m3'' ?g) = 0" "tag_count ''tag:rust'' ?g = Suc 0"
    by code_simp+
  have u: "tag_id_of ''rust'' = ''tag:rust''" by (simp add: tag_id_of_def)
  show ?thesis
    using untag_count_drift [OF inv, of "''rust''" "''m3''" 0 id, unfolded u Let_def] m
    unfolding Let_def One_nat_def by blast
qed

lemma remove_edge_incoming: "src \<notin> set (get_incoming dst (remove_edge feq src dst kind g))"
  by (simp add: remove_edge_def get_incoming_def get_or_existing)

text \<open>
  When two memories are linked in two ways, removing one of the edges takes the source out
  of the reverse index although the other edge is still there.
\<close>

theorem remove_edge_desync:
  assumes "\<lparr>ed_target = dst, ed_kind = other\<rparr> \<in> set (get_edges src g)" and "\<not> kind_eq feq other kind"
  shows "let h = remove_edge feq src dst kind g
    in dst \<in> ed_target ` set (get_edges src h) \<and> src \<notin> set (get_incoming dst h) \<and> \<not> index_ok h"
proof -
  let ?h = "remove_edge feq src dst kind g"
  have "\<lparr>ed_target = dst, ed_kind = other\<rparr> \<in> set (get_edges src ?h)"
    using assms by (simp add: remove_edge_def get_edges_def get_or_existing)
  then have "dst \<in> ed_target ` set (get_edges src ?h)" by force
  with remove_edge_incoming [of src dst feq kind g] show ?thesis
    unfolding index_ok_def Let_def by blast
qed

text \<open>The concrete consequence: a dangling edge after the target is removed.\<close>

theorem remove_edge_desync_witness:
  "let g = foldl (graph_apply id (=)) graph_new
         [Add 0 (sample_entry ''new'' []), Add 0 (sample_entry ''old'' []),
          Supersede ''new'' ''old'', Contradict ''new'' ''old''];
       h = remove_edge (=) ''new'' ''old'' Contradicts g
   in \<not> index_ok h \<and> ''old'' \<in> ed_target ` set (get_edges ''new'' (fst (remove_memory ''old'' h)))"
proof -
  let ?g = "foldl (graph_apply id (=)) graph_new
         [Add 0 (sample_entry ''new'' []), Add 0 (sample_entry ''old'' []),
          Supersede ''new'' ''old'', Contradict ''new'' ''old'']"
  let ?h = "remove_edge (=) ''new'' ''old'' Contradicts ?g"
  have e: "get_edges ''new'' ?g = [\<lparr>ed_target = ''old'', ed_kind = Supersedes\<rparr>, \<lparr>ed_target = ''old'', ed_kind = Contradicts\<rparr>]"
    "get_edges ''new'' (fst (remove_memory ''old'' ?h)) = [\<lparr>ed_target = ''old'', ed_kind = Supersedes\<rparr>]"
    by code_simp+
  from e(1) have "\<not> index_ok ?h"
    using remove_edge_desync [of "''old''" Supersedes "''new''" ?g "(=)" Contradicts]
    unfolding Let_def by simp
  then show ?thesis unfolding Let_def e(2) by simp
qed

section \<open>Migration\<close>

text \<open>The graph without the derived search texts of its memories.\<close>

definition strip_search :: "'f memory_graph \<Rightarrow> 'f memory_graph" where
  "strip_search g = g\<lparr>mg_memories := fmmap (\<lambda>e. e\<lparr>en_search_text := []\<rparr>) (mg_memories g)\<rparr>"

lemma attach_tag_memories:
  "attach_tag now i (g\<lparr>mg_memories := m\<rparr>) name = (attach_tag now i g name)\<lparr>mg_memories := m\<rparr>"
  by (simp add: attach_tag_def bump_tag_def add_edge_internal_def ensure_tag_def)

lemma attach_tags_memories:
  "foldl (attach_tag now i) (g\<lparr>mg_memories := m\<rparr>) names = (foldl (attach_tag now i) g names)\<lparr>mg_memories := m\<rparr>"
  by (induction names arbitrary: g) (simp_all add: attach_tag_memories)

lemma memories_attach_tags [simp]: "mg_memories (foldl (attach_tag now i) g names) = mg_memories g"
  by (induction names arbitrary: g) (simp_all add: attach_tag_def)

lemma add_edge_internal_memories:
  "add_edge_internal a b k (g\<lparr>mg_memories := m\<rparr>) = (add_edge_internal a b k g)\<lparr>mg_memories := m\<rparr>"
  by (simp add: add_edge_internal_def)

lemma migrate_entry_eq:
  "migrate_entry now g e =
     (case en_superseded_by e of
        Some newer \<Rightarrow> add_edge_internal newer (en_id e) Supersedes (foldl (attach_tag now (en_id e)) g (en_tags e))
      | None \<Rightarrow> foldl (attach_tag now (en_id e)) g (en_tags e))\<lparr>mg_memories := fmupd (en_id e) e (mg_memories g)\<rparr>"
  by (simp add: migrate_entry_def Let_def attach_tags_memories add_edge_internal_memories split: option.split)

lemma add_memory_eq:
  "fst (add_memory lower now e g) =
     (migrate_entry now g e)\<lparr>mg_memories := fmupd (en_id e) (refresh_search_text lower e) (mg_memories g)\<rparr>"
  by (simp add: add_memory_def Let_def migrate_entry_eq refresh_search_text_def split: option.split)

lemma migrate_strip:
  assumes "strip_search g = strip_search h"
  shows "strip_search (migrate_entry now g e) = strip_search (fst (add_memory lower now e h))"
proof -
  have m: "fmmap (\<lambda>e. e\<lparr>en_search_text := []\<rparr>) (mg_memories g) = fmmap (\<lambda>e. e\<lparr>en_search_text := []\<rparr>) (mg_memories h)"
    using assms unfolding strip_search_def by (metis memory_graph.select_convs(2) memory_graph.surjective memory_graph.update_convs(2))
  have "g\<lparr>mg_memories := x\<rparr> = h\<lparr>mg_memories := x\<rparr>" for x
    using arg_cong [OF assms, of "\<lambda>g. g\<lparr>mg_memories := x\<rparr>"] by (simp add: strip_search_def)
  then have "(migrate_entry now g e)\<lparr>mg_memories := x\<rparr> = (migrate_entry now h e)\<lparr>mg_memories := x\<rparr>" for x
    by (simp add: migrate_entry_eq attach_tags_memories [symmetric] add_edge_internal_memories [symmetric]
        split: option.split)
  moreover have "mg_memories (migrate_entry now g e) = fmupd (en_id e) e (mg_memories g)"
    by (simp add: migrate_entry_eq)
  ultimately show ?thesis
    using m by (simp add: strip_search_def add_memory_eq refresh_search_text_def fmmap_fmupd)
qed

text \<open>
  Migrating a flat store gives the graph one gets by adding its entries one by one, except
  that the migration leaves the stored search texts as they are.
\<close>

theorem migration_equals_adding:
  "strip_search (from_legacy_store now store) =
     strip_search (foldl (\<lambda>g e. fst (add_memory lower now e g)) graph_new (ms_entries store)) \<and>
   graph_inv (from_legacy_store now store)"
proof -
  have eq: "strip_search (foldl (migrate_entry now) g es) =
      strip_search (foldl (\<lambda>g e. fst (add_memory lower now e g)) h es)"
    if "strip_search g = strip_search h" for g h and es :: "'a memory_entry list"
    using that
  proof (induction es arbitrary: g h)
    case (Cons e es)
    from Cons.IH [OF migrate_strip [OF Cons.prems]] show ?case by simp
  qed simp
  have "graph_inv (foldl (\<lambda>g e. fst (add_memory lower now e g)) graph_new es)" for es :: "'a memory_entry list"
    by (induction es rule: rev_induct) (auto intro: op_inv)
  then have "graph_inv (strip_search (from_legacy_store now store))"
    unfolding from_legacy_store_def eq [OF refl]
    by (rule graph_inv_cong) (simp_all add: strip_search_def)
  then have "graph_inv (from_legacy_store now store)"
    by (rule graph_inv_cong) (simp_all add: strip_search_def)
  with eq [OF refl] show ?thesis by (simp add: from_legacy_store_def)
qed

end
