(* ===== verification/MemoryCascade.thy ===== *)
theory MemoryCascade
  imports MemoryGraph
begin

text \<open>
  Cascade retrieval (\<^verbatim>\<open>cascade_retrieve\<close> in crates/jcode-memory-types/src/graph.rs): breadth-first
  search from seed memories over edges and shared tags, with decaying scores. The floating-point
  operations are the fields of a record; the iteration order of the result map is an argument.
\<close>

record 'f scoring =
  sc_tenths :: "nat \<Rightarrow> 'f"
  sc_decayed :: "'f \<Rightarrow> 'f \<Rightarrow> nat \<Rightarrow> 'f"
  sc_gt :: "'f \<Rightarrow> 'f \<Rightarrow> bool"
  sc_zero :: 'f

type_synonym 'f hits = "(string, 'f) fmap \<times> (string \<times> 'f \<times> nat) list"

definition offer :: "'f scoring \<Rightarrow> 'f \<Rightarrow> nat \<Rightarrow> 'f hits \<Rightarrow> string \<Rightarrow> 'f hits" where
  "offer sc new_score depth st node =
     (if sc_gt sc new_score (get_or (sc_zero sc) (fst st) node)
      then (fmupd node new_score (fst st), snd st @ [(node, new_score, depth)])
      else st)"

definition visit_edge ::
  "'f scoring \<Rightarrow> 'f memory_graph \<Rightarrow> string fset \<Rightarrow> 'f \<Rightarrow> nat \<Rightarrow> 'f hits \<Rightarrow> 'f edge \<Rightarrow> 'f hits" where
  "visit_edge sc g visited score depth st e =
     (if ed_target e |\<in>| visited then st
      else
        let new_score = sc_decayed sc score (traversal_weight (sc_tenths sc) (ed_kind e)) depth
        in if prefix ''tag:'' (ed_target e) then
             foldl (\<lambda>st source.
                 if source |\<notin>| visited \<and> source |\<in>| fmdom (mg_memories g)
                 then offer sc new_score (depth + 1) st source else st)
               st (get_incoming (ed_target e) g)
           else if ed_target e |\<in>| fmdom (mg_memories g)
             then offer sc new_score (depth + 1) st (ed_target e)
           else st)"

definition queue_nodes :: "'f hits \<Rightarrow> string set" where
  "queue_nodes st = fst ` set (snd st)"

lemma offer_nodes: "queue_nodes (offer sc x d st node) \<subseteq> insert node (queue_nodes st)"
  by (auto simp: offer_def queue_nodes_def)

lemma visit_edge_nodes:
  "queue_nodes (visit_edge sc g visited score depth st e) \<subseteq> queue_nodes st \<union> fset (fmdom (mg_memories g))"
proof -
  have "queue_nodes (foldl (\<lambda>st source. if source |\<notin>| visited \<and> source |\<in>| fmdom (mg_memories g)
      then offer sc x d st source else st) st ss) \<subseteq> queue_nodes st \<union> fset (fmdom (mg_memories g))" for x d ss
  proof (induction ss arbitrary: st)
    case (Cons s ss)
    show ?case using Cons.IH offer_nodes [of sc x d st s] by (simp, blast)
  qed simp
  then show ?thesis
    using offer_nodes [of sc _ _ st "ed_target e"] by (simp add: visit_edge_def Let_def, blast)
qed

lemma visit_edges_nodes:
  "queue_nodes (foldl (visit_edge sc g visited score depth) st es) \<subseteq>
     queue_nodes st \<union> fset (fmdom (mg_memories g))"
proof (induction es arbitrary: st)
  case (Cons e es)
  show ?case using Cons.IH visit_edge_nodes [of sc g visited score depth st e] by (simp, blast)
qed simp

text \<open>Every round either drops a queue entry or visits a node that is a memory or was queued.\<close>

function cascade ::
  "'f scoring \<Rightarrow> 'f memory_graph \<Rightarrow> nat \<Rightarrow> string fset \<Rightarrow> (string, 'f) fmap \<Rightarrow> (string \<times> 'f \<times> nat) list \<Rightarrow>
   (string, 'f) fmap" where
  "cascade sc g max_depth visited results [] = results"
| "cascade sc g max_depth visited results ((node, score, depth) # queue) =
     (if node |\<in>| visited then cascade sc g max_depth visited results queue
      else if depth \<ge> max_depth then cascade sc g max_depth (finsert node visited) results queue
      else
        let st = foldl (visit_edge sc g (finsert node visited) score depth) (results, queue) (get_edges node g)
        in cascade sc g max_depth (finsert node visited) (fst st) (snd st))"
  by pat_completeness auto

definition cascade_rest :: "'f memory_graph \<Rightarrow> string fset \<Rightarrow> (string \<times> 'f \<times> nat) list \<Rightarrow> nat" where
  "cascade_rest g visited queue = card ((fset (fmdom (mg_memories g)) \<union> fst ` set queue) - fset visited)"

lemma cascade_rest_visit:
  assumes "node |\<notin>| visited" and "fst ` set queue' \<subseteq> fst ` set queue \<union> fset (fmdom (mg_memories g))"
  shows "cascade_rest g (finsert node visited) queue' < cascade_rest g visited ((node, x) # queue)"
  unfolding cascade_rest_def by (rule psubset_card_mono) (use assms in auto)

lemma cascade_rest_skip: "cascade_rest g visited queue \<le> cascade_rest g visited (q # queue)"
  unfolding cascade_rest_def by (rule card_mono) auto

termination cascade
proof (relation "measures [\<lambda>(sc, g, m, visited, results, queue). cascade_rest g visited queue,
    \<lambda>(sc, g, m, visited, results, queue). length queue]", goal_cases)
  case (2 sc g max_depth visited results node score depth queue)
  then show ?case using cascade_rest_skip [of g visited queue] by (fastforce simp: le_less)
next
  case (3 sc g max_depth visited results node score depth queue)
  then show ?case using cascade_rest_visit [of node visited queue queue g "(score, depth)"] by simp
next
  case (4 sc g max_depth visited results node score depth queue st)
  have "fst ` set (snd st) \<subseteq> fst ` set queue \<union> fset (fmdom (mg_memories g))"
    using visit_edges_nodes [of sc g "finsert node visited" score depth "(results, queue)" "get_edges node g"]
    by (simp add: 4 queue_nodes_def)
  then show ?case using 4 cascade_rest_visit [of node visited "snd st" queue g "(score, depth)"]
    by (simp add: case_prod_beta)
qed simp

declare cascade.simps(2) [simp del]

definition seed_hits :: "'f memory_graph \<Rightarrow> string list \<Rightarrow> 'f list \<Rightarrow> 'f hits" where
  "seed_hits g seed_ids seed_scores =
     foldl (\<lambda>st (i, score).
         if i |\<in>| fmdom (mg_memories g) then (fmupd i score (fst st), snd st @ [(i, score, 0)]) else st)
       (fmempty, []) (zip seed_ids seed_scores)"

definition cascade_retrieve ::
  "'f::linorder scoring \<Rightarrow> ((string, 'f) fmap \<Rightarrow> (string \<times> 'f) list) \<Rightarrow> string list \<Rightarrow> 'f list \<Rightarrow> nat \<Rightarrow> nat \<Rightarrow>
   'f memory_graph \<Rightarrow> 'f memory_graph \<times> (string \<times> 'f) list" where
  "cascade_retrieve sc entries seed_ids seed_scores max_depth max_results g =
     (let g = g\<lparr>mg_metadata := (mg_metadata g)\<lparr>gm_retrieval_count := gm_retrieval_count (mg_metadata g) + 1\<rparr>\<rparr>;
          st = seed_hits g seed_ids seed_scores;
          results = cascade sc g max_depth {||} (fst st) (snd st)
      in (g, top_k_by_score (sc_gt sc) (entries results) max_results))"

section \<open>What is retrieved\<close>

text \<open>One hop: along an edge to a memory, or to a memory that shares a tag.\<close>

inductive hop :: "'f memory_graph \<Rightarrow> string \<Rightarrow> string \<Rightarrow> bool" for g where
  direct: "e \<in> set (get_edges a g) \<Longrightarrow> ed_target e = b \<Longrightarrow> \<not> prefix ''tag:'' b \<Longrightarrow>
     b |\<in>| fmdom (mg_memories g) \<Longrightarrow> hop g a b"
| by_tag: "e \<in> set (get_edges a g) \<Longrightarrow> prefix ''tag:'' (ed_target e) \<Longrightarrow>
     b \<in> set (get_incoming (ed_target e) g) \<Longrightarrow> b |\<in>| fmdom (mg_memories g) \<Longrightarrow> hop g a b"

inductive within :: "'f memory_graph \<Rightarrow> string set \<Rightarrow> nat \<Rightarrow> string \<Rightarrow> bool" for g seeds where
  seed: "a \<in> seeds \<Longrightarrow> a |\<in>| fmdom (mg_memories g) \<Longrightarrow> within g seeds n a"
| step: "within g seeds n a \<Longrightarrow> hop g a b \<Longrightarrow> within g seeds (Suc n) b"

lemma within_memory: "within g seeds n a \<Longrightarrow> a |\<in>| fmdom (mg_memories g)"
  by (induction rule: within.induct) (auto elim: hop.cases)

definition hits_ok :: "'f memory_graph \<Rightarrow> string set \<Rightarrow> nat \<Rightarrow> 'f hits \<Rightarrow> bool" where
  "hits_ok g seeds max_depth st \<longleftrightarrow>
     (\<forall>a. a |\<in>| fmdom (fst st) \<longrightarrow> within g seeds max_depth a) \<and>
     (\<forall>(a, s, d) \<in> set (snd st). d \<le> max_depth \<and> within g seeds d a)"

lemma within_mono: "within g seeds n a \<Longrightarrow> n \<le> m \<Longrightarrow> within g seeds m a"
proof (induction arbitrary: m rule: within.induct)
  case (step n a b)
  then obtain k where "m = Suc k" "n \<le> k" by (cases m) auto
  with step show ?case by (auto intro: within.step)
qed (rule within.seed)

lemma offer_ok:
  assumes "hits_ok g seeds max_depth st" and "depth < max_depth" and "within g seeds (Suc depth) node"
  shows "hits_ok g seeds max_depth (offer sc x (depth + 1) st node)"
  using assms within_mono [of g seeds "Suc depth" node max_depth]
  by (auto simp: hits_ok_def offer_def)

lemma visit_edge_ok:
  assumes "hits_ok g seeds max_depth st" and "depth < max_depth" and "within g seeds depth node"
    and e: "e \<in> set (get_edges node g)"
  shows "hits_ok g seeds max_depth (visit_edge sc g visited score depth st e)"
proof -
  have tags: "hits_ok g seeds max_depth (foldl (\<lambda>st source. if source |\<notin>| visited \<and> source |\<in>| fmdom (mg_memories g)
      then offer sc x (depth + 1) st source else st) st ss)"
    if "hits_ok g seeds max_depth st" "set ss \<subseteq> set (get_incoming (ed_target e) g)" "prefix ''tag:'' (ed_target e)" for x ss st
    using that
  proof (induction ss arbitrary: st)
    case (Cons s ss)
    have "hits_ok g seeds max_depth (offer sc x (depth + 1) st s)" if "s |\<in>| fmdom (mg_memories g)"
    proof (rule offer_ok)
      have "hop g node s" using e Cons.prems that by (auto intro: hop.by_tag)
      then show "within g seeds (Suc depth) s" using assms(3) by (rule within.step [rotated])
    qed (use Cons.prems assms in auto)
    with Cons show ?case by simp
  qed simp
  have "hits_ok g seeds max_depth (offer sc x (depth + 1) st (ed_target e))"
    if "\<not> prefix ''tag:'' (ed_target e)" "ed_target e |\<in>| fmdom (mg_memories g)" for x
    using assms(1,2)
  proof (rule offer_ok)
    have "hop g node (ed_target e)" using e that by (auto intro: hop.direct)
    then show "within g seeds (Suc depth) (ed_target e)" using assms(3) by (rule within.step [rotated])
  qed
  with tags [OF assms(1) subset_refl] assms(1) show ?thesis by (simp add: visit_edge_def Let_def)
qed

lemma visit_edges_ok:
  assumes "hits_ok g seeds max_depth st" and "depth < max_depth" and "within g seeds depth node"
    and "set es \<subseteq> set (get_edges node g)"
  shows "hits_ok g seeds max_depth (foldl (visit_edge sc g visited score depth) st es)"
  using assms
proof (induction es arbitrary: st)
  case (Cons e es)
  have "hits_ok g seeds max_depth (visit_edge sc g visited score depth st e)"
    using visit_edge_ok [OF Cons.prems(1-3), of e] Cons.prems(4) by simp
  from Cons.IH [OF this] Cons.prems show ?case by simp
qed simp

lemma cascade_ok:
  "hits_ok g seeds max_depth (results, queue) \<Longrightarrow> a |\<in>| fmdom (cascade sc g max_depth visited results queue) \<Longrightarrow>
   within g seeds max_depth a"
proof (induction sc g max_depth visited results queue rule: cascade.induct)
  case (1 sc g max_depth visited results)
  then show ?case by (auto simp: hits_ok_def)
next
  case (2 sc g max_depth visited results node score depth queue)
  let ?st = "foldl (visit_edge sc g (finsert node visited) score depth) (results, queue) (get_edges node g)"
  have tl: "hits_ok g seeds max_depth (results, queue)" and hd: "depth \<le> max_depth" "within g seeds depth node"
    using "2.prems"(1) by (auto simp: hits_ok_def)
  consider "node |\<in>| visited" | "node |\<notin>| visited" "max_depth \<le> depth" | "node |\<notin>| visited" "depth < max_depth"
    by linarith
  then show ?case
  proof cases
    case 3
    have "hits_ok g seeds max_depth (fst ?st, snd ?st)"
      using visit_edges_ok [OF tl 3(2) hd(2) subset_refl] by simp
    with "2.IH"(3) [OF 3(1) _ refl] "2.prems"(2) 3 show ?thesis by (simp add: cascade.simps(2) Let_def)
  qed (use "2.IH"(1,2) "2.prems"(2) tl in \<open>auto simp: cascade.simps(2)\<close>)
qed

lemma seed_hits_ok: "hits_ok g (set seed_ids) max_depth (seed_hits g seed_ids seed_scores)"
proof -
  have run: "hits_ok g A max_depth (foldl (\<lambda>st (i, score).
         if i |\<in>| fmdom (mg_memories g) then (fmupd i score (fst st), snd st @ [(i, score, 0)]) else st) st ps)"
    if "hits_ok g A max_depth st" "fst ` set ps \<subseteq> A" for st A and ps :: "(string \<times> 'a) list"
    using that
  proof (induction ps arbitrary: st)
    case (Cons p ps)
    obtain i s where p: "p = (i, s)" by fastforce
    have "hits_ok g A max_depth (if i |\<in>| fmdom (mg_memories g) then (fmupd i s (fst st), snd st @ [(i, s, 0)]) else st)"
      using Cons.prems by (auto simp: hits_ok_def p intro: within.seed)
    from Cons.IH [OF this] Cons.prems(2) show ?case by (simp add: p)
  qed simp
  have "fst ` set (zip seed_ids seed_scores) \<subseteq> set seed_ids" by (auto dest: set_zip_leftD)
  moreover have "hits_ok g (set seed_ids) max_depth (fmempty, [])" by (simp add: hits_ok_def)
  ultimately show ?thesis unfolding seed_hits_def using run by blast
qed

lemma hop_metadata [simp]: "hop (g\<lparr>mg_metadata := x\<rparr>) a b = hop g a b"
  by (auto simp: hop.simps get_edges_def get_incoming_def)

lemma within_metadata [simp]: "within (g\<lparr>mg_metadata := x\<rparr>) A n a = within g A n a"
proof
  show "within (g\<lparr>mg_metadata := x\<rparr>) A n a \<Longrightarrow> within g A n a"
    by (induction rule: within.induct) (auto intro: within.intros)
  show "within g A n a \<Longrightarrow> within (g\<lparr>mg_metadata := x\<rparr>) A n a"
    by (induction rule: within.induct) (auto intro: within.intros)
qed

lemma distinct_submset:
  assumes "mset xs \<subseteq># mset ys" and "distinct (map f ys)"
  shows "distinct (map f xs)"
proof -
  obtain zs where "mset ys = mset (xs @ zs)"
    using assms(1) by (metis ex_mset mset_append mset_subset_eq_exists_conv)
  then have "mset (map f ys) = mset (map f (xs @ zs))" by (simp only: mset_map)
  then have "distinct (map f (xs @ zs))" using assms(2) mset_eq_imp_distinct_iff by blast
  then show ?thesis by simp
qed

text \<open>
  Property C36. A cascade terminates and returns memories of the graph only, each once and at most as
  many as asked for, in descending order of their scores; each is reachable from a seed memory in
  at most the given number of hops over edges and shared tags. The iteration order of the result
  map is any listing of its entries.
\<close>

theorem cascade_retrieve_correct:
  assumes "\<And>x y. sc_gt sc x y \<longleftrightarrow> y < x"
    and "\<And>m. distinct (map fst (entries m)) \<and> set (entries m) \<subseteq> {(a, s). fmlookup m a = Some s}"
  shows "let res = snd (cascade_retrieve sc entries seed_ids seed_scores max_depth max_results g)
    in (\<forall>a \<in> set (map fst res). a |\<in>| fmdom (mg_memories g) \<and> within g (set seed_ids) max_depth a) \<and>
       distinct (map fst res) \<and> length res \<le> max_results \<and> sorted (rev (map snd res))"
proof -
  define g' where "g' = g\<lparr>mg_metadata := (mg_metadata g)\<lparr>gm_retrieval_count := gm_retrieval_count (mg_metadata g) + 1\<rparr>\<rparr>"
  define results where "results =
    cascade sc g' max_depth {||} (fst (seed_hits g' seed_ids seed_scores)) (snd (seed_hits g' seed_ids seed_scores))"
  let ?res = "top_k_by_score (sc_gt sc) (entries results) max_results"
  have res: "snd (cascade_retrieve sc entries seed_ids seed_scores max_depth max_results g) = ?res"
    by (simp add: cascade_retrieve_def Let_def g'_def results_def)
  have top: "map snd ?res = take max_results (rev (sort (map snd (entries results))))"
    "mset ?res \<subseteq># mset (entries results)"
    using top_k_by_score_keys [of "entries results" "sc_gt sc" max_results] assms(1) by auto
  have "a |\<in>| fmdom (mg_memories g) \<and> within g (set seed_ids) max_depth a" if "(a, s) \<in> set ?res" for a s
  proof -
    have "(a, s) \<in> set (entries results)" using top(2) that by (meson mset_subset_eqD set_mset_mset in_multiset_in_set)
    with assms(2) have "fmlookup results a = Some s" by blast
    then have "a |\<in>| fmdom results" by (rule fmdomI)
    then have "within g' (set seed_ids) max_depth a"
      unfolding results_def using seed_hits_ok by (metis cascade_ok prod.collapse)
    then show ?thesis using within_memory by (auto simp: g'_def)
  qed
  moreover have "distinct (map fst ?res)" using top(2) assms(2) by (blast intro: distinct_submset)
  moreover have "length ?res \<le> max_results" using top(1) by (metis length_map length_take min.cobounded2)
  moreover have "sorted (rev (map snd ?res))" unfolding top(1) by (simp add: rev_take sorted_wrt_drop)
  ultimately show ?thesis unfolding res Let_def by auto
qed

definition sample_scoring :: "nat scoring" where
  "sample_scoring = \<lparr>sc_tenths = (\<lambda>n. n), sc_decayed = (\<lambda>s w d. s * w div (d + 1)), sc_gt = (\<lambda>x y. y < x), sc_zero = 0\<rparr>"

definition listed :: "(string, 'f) fmap \<Rightarrow> (string \<times> 'f) list" where
  "listed m = map (\<lambda>k. (k, the (fmlookup m k))) (sorted_list_of_fset (fmdom m))"

lemma listed_entries: "distinct (map fst (listed m)) \<and> set (listed m) \<subseteq> {(a, s). fmlookup m a = Some s}"
  by (auto simp: listed_def comp_def fmlookup_dom_iff sorted_list_of_fset.rep_eq)

theorem cascade_retrieve_correct_witness:
  "length (snd (cascade_retrieve sample_scoring listed [''m1''] [5] 2 3
     (fst (add_memory id 0 (entry_new id 1 ''m1'' 0 Fact ''content'') graph_new)))) \<le> 3"
proof -
  have gt: "sc_gt sample_scoring x y \<longleftrightarrow> y < x" for x y by (simp add: sample_scoring_def)
  show ?thesis
    using cascade_retrieve_correct [OF gt listed_entries, of "[''m1'']" "[5]" 2 3
      "fst (add_memory id 0 (entry_new id 1 ''m1'' 0 Fact ''content'') graph_new)"]
    unfolding Let_def by blast
qed

end
