(* ===== verification/Mobile.thy ===== *)
theory Mobile
  imports Prelude
begin

text \<open>
  The headless mobile simulator (crates/jcode-mobile-core/src/lib.rs): the application state and its
  scenarios, the reducer, the fake backend, the store that dispatches an action with all its
  follow-ups and logs them, and replay traces. Sequence numbers and simulated times are unbounded;
  the server version compiled in (\<^verbatim>\<open>CARGO_PKG_VERSION\<close>) is the one in the crate's manifest.
\<close>

section \<open>State\<close>

datatype screen = Onboarding | Pairing | Chat

datatype connection_state = Disconnected | Connecting | Connected

datatype message_role = UserRole | AssistantRole | SystemRole

record chat_message =
  cm_id :: string
  cm_role :: message_role
  cm_text :: string

record server_summary =
  sv_host :: string
  sv_port :: string
  sv_name :: string
  sv_version :: string

record pairing_form =
  pf_host :: string
  pf_port :: string
  pf_pair_code :: string
  pf_device_name :: string

definition pairing_form_default :: pairing_form where
  "pairing_form_default =
     \<lparr>pf_host = [], pf_port = ''7643'', pf_pair_code = [], pf_device_name = ''jcode simulator''\<rparr>"

record simulator_state =
  st_screen :: screen
  st_connection :: connection_state
  st_pairing :: pairing_form
  st_saved_servers :: "server_summary list"
  st_selected_server :: "server_summary option"
  st_status :: "string option"
  st_error :: "string option"
  st_messages :: "chat_message list"
  st_draft :: string
  st_active_session :: "string option"
  st_sessions :: "string list"
  st_models :: "string list"
  st_model :: "string option"
  st_processing :: bool

datatype scenario_name =
    ScOnboarding | ScPairingReady | ScConnectedChat | ScPairingInvalidCode | ScServerUnreachable
  | ScConnectedEmptyChat | ScChatStreaming | ScToolApprovalRequired | ScToolFailed
  | ScNetworkReconnect | ScOfflineQueuedMessage | ScLongRunningTask

definition scenario_all :: "scenario_name list" where
  "scenario_all =
     [ScOnboarding, ScPairingReady, ScConnectedChat, ScPairingInvalidCode, ScServerUnreachable,
      ScConnectedEmptyChat, ScChatStreaming, ScToolApprovalRequired, ScToolFailed,
      ScNetworkReconnect, ScOfflineQueuedMessage, ScLongRunningTask]"

definition scenario_parse :: "string \<Rightarrow> scenario_name option" where
  "scenario_parse s =
     (if s = ''onboarding'' then Some ScOnboarding
      else if s = ''pairing_ready'' then Some ScPairingReady
      else if s = ''connected_chat'' then Some ScConnectedChat
      else if s = ''pairing_invalid_code'' then Some ScPairingInvalidCode
      else if s = ''server_unreachable'' then Some ScServerUnreachable
      else if s = ''connected_empty_chat'' then Some ScConnectedEmptyChat
      else if s = ''chat_streaming'' then Some ScChatStreaming
      else if s = ''tool_approval_required'' then Some ScToolApprovalRequired
      else if s = ''tool_failed'' then Some ScToolFailed
      else if s = ''network_reconnect'' then Some ScNetworkReconnect
      else if s = ''offline_queued_message'' then Some ScOfflineQueuedMessage
      else if s = ''long_running_task'' then Some ScLongRunningTask
      else None)"

fun scenario_as_str :: "scenario_name \<Rightarrow> string" where
  "scenario_as_str ScOnboarding = ''onboarding''"
| "scenario_as_str ScPairingReady = ''pairing_ready''"
| "scenario_as_str ScConnectedChat = ''connected_chat''"
| "scenario_as_str ScPairingInvalidCode = ''pairing_invalid_code''"
| "scenario_as_str ScServerUnreachable = ''server_unreachable''"
| "scenario_as_str ScConnectedEmptyChat = ''connected_empty_chat''"
| "scenario_as_str ScChatStreaming = ''chat_streaming''"
| "scenario_as_str ScToolApprovalRequired = ''tool_approval_required''"
| "scenario_as_str ScToolFailed = ''tool_failed''"
| "scenario_as_str ScNetworkReconnect = ''network_reconnect''"
| "scenario_as_str ScOfflineQueuedMessage = ''offline_queued_message''"
| "scenario_as_str ScLongRunningTask = ''long_running_task''"

definition pkg_version :: string where
  "pkg_version = ''0.1.0''"

definition state_onboarding :: simulator_state where
  "state_onboarding =
     \<lparr>st_screen = Onboarding, st_connection = Disconnected, st_pairing = pairing_form_default,
      st_saved_servers = [], st_selected_server = None,
      st_status = Some ''Ready to pair with a jcode server.'', st_error = None, st_messages = [],
      st_draft = [], st_active_session = None, st_sessions = [], st_models = [], st_model = None,
      st_processing = False\<rparr>"

definition simulated_server :: server_summary where
  "simulated_server =
     \<lparr>sv_host = ''devbox.tailnet.ts.net'', sv_port = ''7643'', sv_name = ''jcode'', sv_version = pkg_version\<rparr>"

definition model_list :: "string list" where
  "model_list = [''gpt-5'', ''claude-sonnet-4'']"

definition state_connected_chat :: simulator_state where
  "state_connected_chat =
     \<lparr>st_screen = Chat, st_connection = Connected,
      st_pairing = \<lparr>pf_host = sv_host simulated_server, pf_port = sv_port simulated_server,
        pf_pair_code = [], pf_device_name = ''jcode simulator''\<rparr>,
      st_saved_servers = [simulated_server], st_selected_server = Some simulated_server,
      st_status = Some ''Connected to simulated jcode server.'', st_error = None,
      st_messages =
        [\<lparr>cm_id = ''msg-user-1'', cm_role = UserRole,
          cm_text = ''Can you summarize the simulator architecture?''\<rparr>,
         \<lparr>cm_id = ''msg-assistant-1'', cm_role = AssistantRole,
          cm_text = ''The simulator is headless-first, automation-first, and shares state semantics with the future iOS app.''\<rparr>],
      st_draft = [], st_active_session = Some ''session_sim_1'',
      st_sessions = [''session_sim_1'', ''session_sim_2''], st_models = model_list,
      st_model = Some ''gpt-5'', st_processing = False\<rparr>"

definition prefilled :: "string \<Rightarrow> string \<Rightarrow> pairing_form" where
  "prefilled host code =
     \<lparr>pf_host = host, pf_port = ''7643'', pf_pair_code = code, pf_device_name = ''jcode simulator''\<rparr>"

definition push_message :: "string \<Rightarrow> message_role \<Rightarrow> string \<Rightarrow> simulator_state \<Rightarrow> simulator_state" where
  "push_message i role t s =
     s\<lparr>st_messages := st_messages s @ [\<lparr>cm_id = i, cm_role = role, cm_text = t\<rparr>]\<rparr>"

fun for_scenario :: "scenario_name \<Rightarrow> simulator_state" where
  "for_scenario ScOnboarding = state_onboarding"
| "for_scenario ScPairingReady = state_onboarding
     \<lparr>st_pairing := prefilled ''devbox.tailnet.ts.net'' ''123456'',
      st_status := Some ''Fields prefilled for simulated pairing.''\<rparr>"
| "for_scenario ScConnectedChat = state_connected_chat"
| "for_scenario ScPairingInvalidCode = state_onboarding
     \<lparr>st_pairing := prefilled ''devbox.tailnet.ts.net'' ''000000'', st_status := None,
      st_error := Some ''Invalid or expired pairing code.''\<rparr>"
| "for_scenario ScServerUnreachable = state_onboarding
     \<lparr>st_pairing := prefilled ''offline.tailnet.ts.net'' ''123456'', st_status := None,
      st_error := Some ''Server unreachable. Confirm host/port and gateway status.''\<rparr>"
| "for_scenario ScConnectedEmptyChat = state_connected_chat
     \<lparr>st_messages := [], st_status := Some ''Connected to simulated empty chat.''\<rparr>"
| "for_scenario ScChatStreaming =
     (push_message ''msg-assistant-streaming'' AssistantRole ''Running the Linux-native simulator''
       (push_message ''msg-user-streaming'' UserRole ''Run the mobile simulator smoke test.''
         state_connected_chat))
     \<lparr>st_status := Some ''Assistant response is streaming.'', st_processing := True\<rparr>"
| "for_scenario ScToolApprovalRequired =
     (push_message ''msg-tool-approval'' SystemRole
       ''Tool approval required: bash: cargo test -p jcode-mobile-core.'' state_connected_chat)
     \<lparr>st_status := Some ''Waiting for simulated tool approval.'', st_processing := True\<rparr>"
| "for_scenario ScToolFailed =
     (push_message ''msg-tool-failed'' SystemRole ''Simulated tool failed: exit status 1.''
       state_connected_chat)
     \<lparr>st_error := Some ''Last simulated tool failed.''\<rparr>"
| "for_scenario ScNetworkReconnect = state_connected_chat
     \<lparr>st_connection := Connecting, st_status := Some ''Reconnecting to simulated jcode server...''\<rparr>"
| "for_scenario ScOfflineQueuedMessage = state_connected_chat
     \<lparr>st_connection := Disconnected, st_draft := ''Queued while offline'',
      st_status := Some ''Message queued until simulated reconnect.''\<rparr>"
| "for_scenario ScLongRunningTask =
     (push_message ''msg-long-running'' AssistantRole
       ''Long-running simulated task is still in progress.'' state_connected_chat)
     \<lparr>st_status := Some ''Long-running simulated task in progress.'', st_processing := True\<rparr>"

section \<open>Actions, effects and the reducer\<close>

datatype simulator_action =
    Reset
  | LoadScenario scenario_name
  | SetHost string
  | SetPort string
  | SetPairCode string
  | SetDeviceName string
  | SetDraft string
  | TapNode string
  | PairingSucceeded string string
  | PairingFailed string
  | ConnectedAction string
  | ConnectionFailed string
  | AppendAssistantText string
  | FinishTurn

datatype simulator_effect =
    PairAndConnect string string string string
  | SendMessage string

definition tap_pair_submit :: "simulator_state \<Rightarrow> simulator_state \<times> simulator_effect list" where
  "tap_pair_submit s =
     (let p = st_pairing s
      in if trim (pf_host p) = [] then (s\<lparr>st_error := Some ''Host cannot be empty.''\<rparr>, [])
         else if trim (pf_pair_code p) = [] then
           (s\<lparr>st_error := Some ''Enter a simulated pairing code first.''\<rparr>, [])
         else if trim (pf_device_name p) = [] then
           (s\<lparr>st_error := Some ''Device name cannot be empty.''\<rparr>, [])
         else
           (s\<lparr>st_screen := Pairing, st_connection := Connecting,
              st_status := Some (''Pairing to '' @ pf_host p @ '':'' @ pf_port p @ ''...''),
              st_error := None\<rparr>,
            [PairAndConnect (pf_host p) (pf_port p) (pf_pair_code p) (pf_device_name p)]))"

definition tap_chat_send :: "simulator_state \<Rightarrow> simulator_state \<times> simulator_effect list" where
  "tap_chat_send s =
     (if st_connection s \<noteq> Connected then (s\<lparr>st_error := Some ''Not connected.''\<rparr>, [])
      else if trim (st_draft s) = [] then (s\<lparr>st_error := Some ''Draft is empty.''\<rparr>, [])
      else
        let t = trim (st_draft s);
            s = push_message (''msg-user-'' @ show_nat (length (st_messages s) + 1)) UserRole t s
        in (s\<lparr>st_draft := [], st_status := Some ''Sending simulated message...'', st_error := None,
              st_processing := True\<rparr>, [SendMessage t]))"

definition tap_node :: "string \<Rightarrow> simulator_state \<Rightarrow> simulator_state \<times> simulator_effect list" where
  "tap_node node_id s =
     (if node_id = ''pair.submit'' then tap_pair_submit s
      else if node_id = ''chat.send'' then tap_chat_send s
      else if node_id = ''chat.interrupt'' then
        (s\<lparr>st_processing := False, st_status := Some ''Interrupted simulated turn.''\<rparr>, [])
      else (s\<lparr>st_error := Some (''Unknown node id: '' @ node_id)\<rparr>, []))"

definition pairing_succeeded :: "string \<Rightarrow> string \<Rightarrow> simulator_state \<Rightarrow> simulator_state" where
  "pairing_succeeded server_name server_version s =
     (let server = \<lparr>sv_host = pf_host (st_pairing s), sv_port = pf_port (st_pairing s),
            sv_name = server_name, sv_version = server_version\<rparr>
      in s\<lparr>st_saved_servers :=
             filter (\<lambda>x. sv_host x \<noteq> sv_host server \<or> sv_port x \<noteq> sv_port server) (st_saved_servers s) @ [server],
           st_selected_server := Some server,
           st_status := Some ''Simulated pairing succeeded.'', st_error := None\<rparr>)"

definition failed :: "string \<Rightarrow> simulator_state \<Rightarrow> simulator_state" where
  "failed message s =
     s\<lparr>st_screen := Onboarding, st_connection := Disconnected, st_status := None,
       st_error := Some message, st_processing := False\<rparr>"

definition connected :: "string \<Rightarrow> simulator_state \<Rightarrow> simulator_state" where
  "connected session_id s =
     (let s = s\<lparr>st_screen := Chat, st_connection := Connected, st_active_session := Some session_id,
            st_sessions := [session_id], st_models := model_list, st_model := Some ''gpt-5'',
            st_status := Some ''Connected to simulated jcode server.'', st_error := None\<rparr>
      in if st_messages s = [] then
           push_message ''msg-system-connected'' SystemRole
             ''Simulator connected. Send a message to begin.'' s
         else s)"

fun reduce :: "simulator_state \<Rightarrow> simulator_action \<Rightarrow> simulator_state \<times> simulator_effect list" where
  "reduce s Reset = (for_scenario ScOnboarding, [])"
| "reduce s (LoadScenario scenario) = (for_scenario scenario, [])"
| "reduce s (SetHost v) = (s\<lparr>st_pairing := (st_pairing s)\<lparr>pf_host := v\<rparr>, st_error := None\<rparr>, [])"
| "reduce s (SetPort v) = (s\<lparr>st_pairing := (st_pairing s)\<lparr>pf_port := v\<rparr>, st_error := None\<rparr>, [])"
| "reduce s (SetPairCode v) = (s\<lparr>st_pairing := (st_pairing s)\<lparr>pf_pair_code := v\<rparr>, st_error := None\<rparr>, [])"
| "reduce s (SetDeviceName v) = (s\<lparr>st_pairing := (st_pairing s)\<lparr>pf_device_name := v\<rparr>, st_error := None\<rparr>, [])"
| "reduce s (SetDraft v) = (s\<lparr>st_draft := v, st_error := None\<rparr>, [])"
| "reduce s (TapNode node_id) = tap_node node_id s"
| "reduce s (PairingSucceeded server_name server_version) =
     (pairing_succeeded server_name server_version s, [])"
| "reduce s (PairingFailed message) = (failed message s, [])"
| "reduce s (ConnectionFailed message) = (failed message s, [])"
| "reduce s (ConnectedAction session_id) = (connected session_id s, [])"
| "reduce s (AppendAssistantText t) =
     (push_message (''msg-assistant-'' @ show_nat (length (st_messages s) + 1)) AssistantRole t s, [])"
| "reduce s FinishTurn = (s\<lparr>st_processing := False, st_status := Some ''Simulated turn finished.''\<rparr>, [])"

section \<open>The fake backend\<close>

definition pair_and_connect :: "string \<Rightarrow> string \<Rightarrow> simulator_action list" where
  "pair_and_connect host pair_code =
     (if str_contains host ''offline'' \<or> str_contains host ''unreachable'' then
        [ConnectionFailed ''Server unreachable. Confirm host/port and gateway status.'']
      else if pair_code \<noteq> ''123456'' then [PairingFailed ''Invalid or expired pairing code.'']
      else [PairingSucceeded ''jcode'' pkg_version, ConnectedAction ''session_sim_1''])"

definition send_message :: "string \<Rightarrow> simulator_action list" where
  "send_message t = [AppendAssistantText (''Simulated response to: '' @ t), FinishTurn]"

fun handle_effect :: "simulator_effect \<Rightarrow> simulator_action list" where
  "handle_effect (PairAndConnect host port pair_code device_name) = pair_and_connect host pair_code"
| "handle_effect (SendMessage t) = send_message t"

section \<open>The store\<close>

record transition_record =
  tr_seq :: nat
  tr_timestamp_ms :: nat
  tr_action :: simulator_action
  tr_before :: simulator_state
  tr_after :: simulator_state
  tr_effects :: "simulator_effect list"

record effect_record =
  er_seq :: nat
  er_timestamp_ms :: nat
  er_effect :: simulator_effect

record dispatch_report =
  dr_transitions :: "transition_record list"
  dr_effect_records :: "effect_record list"
  dr_final_state :: simulator_state

record simulator_store =
  so_initial :: simulator_state
  so_state :: simulator_state
  so_action_log :: "simulator_action list"
  so_transition_log :: "transition_record list"
  so_effect_log :: "effect_record list"
  so_next_seq :: nat
  so_now_ms :: nat

definition simulator_store_new :: "simulator_state \<Rightarrow> simulator_store" where
  "simulator_store_new s =
     \<lparr>so_initial = s, so_state = s, so_action_log = [], so_transition_log = [], so_effect_log = [],
      so_next_seq = 1, so_now_ms = 0\<rparr>"

text \<open>One effect: its record is logged and its follow-ups go on the stack, the first on top.\<close>

definition run_effect ::
  "nat \<Rightarrow> simulator_store \<times> effect_record list \<times> simulator_action list \<Rightarrow> simulator_effect \<Rightarrow>
   simulator_store \<times> effect_record list \<times> simulator_action list" where
  "run_effect seq st effect =
     (let (store, records, pending) = st;
          store = store\<lparr>so_now_ms := so_now_ms store + 1\<rparr>;
          rec = \<lparr>er_seq = seq, er_timestamp_ms = so_now_ms store, er_effect = effect\<rparr>
      in (store\<lparr>so_effect_log := so_effect_log store @ [rec]\<rparr>, records @ [rec],
          handle_effect effect @ pending))"

text \<open>One action taken from the stack (its top is the head of the list).\<close>

definition run_action ::
  "simulator_store \<Rightarrow> simulator_action \<Rightarrow> simulator_action list \<Rightarrow>
   simulator_store \<times> transition_record \<times> effect_record list \<times> simulator_action list" where
  "run_action store action pending =
     (let before = so_state store;
          (after, effects) = reduce before action;
          seq = so_next_seq store;
          transition = \<lparr>tr_seq = seq, tr_timestamp_ms = so_now_ms store + 1, tr_action = action,
            tr_before = before, tr_after = after, tr_effects = effects\<rparr>;
          store = store\<lparr>so_state := after, so_next_seq := seq + 1, so_now_ms := so_now_ms store + 1,
            so_transition_log := so_transition_log store @ [transition]\<rparr>;
          (store, records, pending) = foldl (run_effect seq) (store, [], pending) effects
      in (store, transition, records, pending))"

fun action_weight :: "simulator_action \<Rightarrow> nat" where
  "action_weight (TapNode _) = 3"
| "action_weight _ = 1"

definition weight :: "simulator_action list \<Rightarrow> nat" where
  "weight as = sum_list (map action_weight as)"

lemma weight_simps [simp]:
  "weight [] = 0" "weight (a # as) = action_weight a + weight as" "weight (xs @ ys) = weight xs + weight ys"
  by (simp_all add: weight_def)

lemma run_effects_pending:
  "snd (snd (foldl (run_effect seq) (store, records, pending) effects)) =
     concat (map handle_effect (rev effects)) @ pending"
  by (induction effects arbitrary: store records pending) (simp_all add: run_effect_def Let_def)

lemma follow_up_weight: "weight (concat (map handle_effect (rev (snd (reduce s a))))) < action_weight a"
  by (cases a) (auto simp: tap_node_def tap_pair_submit_def tap_chat_send_def Let_def
      pair_and_connect_def send_message_def)

lemma run_action_pending:
  "snd (snd (snd (run_action store action pending))) =
     concat (map handle_effect (rev (snd (reduce (so_state store) action)))) @ pending"
  by (simp add: run_action_def Let_def case_prod_beta run_effects_pending)

text \<open>The loop of a dispatch: every action has follow-ups of a smaller total weight.\<close>

function dispatch_loop ::
  "simulator_store \<Rightarrow> simulator_action list \<Rightarrow> transition_record list \<Rightarrow> effect_record list \<Rightarrow>
   simulator_store \<times> transition_record list \<times> effect_record list" where
  "dispatch_loop store [] transitions records = (store, transitions, records)"
| "dispatch_loop store (action # pending) transitions records =
     (let res = run_action store action pending
      in dispatch_loop (fst res) (snd (snd (snd res))) (transitions @ [fst (snd res)])
           (records @ fst (snd (snd res))))"
  by pat_completeness auto
termination
  by (relation "measure (\<lambda>(store, pending, transitions, records). weight pending)")
    (simp_all add: run_action_pending follow_up_weight)

declare dispatch_loop.simps(2) [simp del]

definition dispatch :: "simulator_store \<Rightarrow> simulator_action \<Rightarrow> simulator_store \<times> dispatch_report" where
  "dispatch store action =
     (let store = store\<lparr>so_action_log := so_action_log store @ [action]\<rparr>;
          (store, transitions, records) = dispatch_loop store [action] [] []
      in (store, \<lparr>dr_transitions = transitions, dr_effect_records = records,
                  dr_final_state = so_state store\<rparr>))"

section \<open>Replay traces\<close>

definition replay_trace_schema_version :: nat where
  "replay_trace_schema_version = 1"

record replay_trace =
  rt_schema_version :: nat
  rt_name :: string
  rt_initial_state :: simulator_state
  rt_actions :: "simulator_action list"
  rt_transitions :: "transition_record list"
  rt_effects :: "effect_record list"
  rt_final_state :: simulator_state

definition dispatch_all :: "simulator_store \<Rightarrow> simulator_action list \<Rightarrow> simulator_store" where
  "dispatch_all store actions = foldl (\<lambda>s a. fst (dispatch s a)) store actions"

definition record_trace :: "string \<Rightarrow> simulator_state \<Rightarrow> simulator_action list \<Rightarrow> replay_trace" where
  "record_trace name initial actions =
     (let store = dispatch_all (simulator_store_new initial) actions
      in \<lparr>rt_schema_version = replay_trace_schema_version, rt_name = name, rt_initial_state = initial,
          rt_actions = actions, rt_transitions = so_transition_log store,
          rt_effects = so_effect_log store, rt_final_state = so_state store\<rparr>)"

definition replay :: "replay_trace \<Rightarrow> replay_trace" where
  "replay t = record_trace (rt_name t) (rt_initial_state t) (rt_actions t)"

definition store_trace :: "string \<Rightarrow> simulator_store \<Rightarrow> replay_trace" where
  "store_trace name store =
     \<lparr>rt_schema_version = replay_trace_schema_version, rt_name = name,
      rt_initial_state = so_initial store, rt_actions = so_action_log store,
      rt_transitions = so_transition_log store, rt_effects = so_effect_log store,
      rt_final_state = so_state store\<rparr>"

datatype replay_error = UnsupportedVersion nat nat | ReplayMismatch string

text \<open>The JSON texts in the mismatch message are left out of its value.\<close>

definition assert_replays :: "replay_trace \<Rightarrow> replay_error + unit" where
  "assert_replays t =
     (if rt_schema_version t \<noteq> replay_trace_schema_version then
        Inl (UnsupportedVersion (rt_schema_version t) replay_trace_schema_version)
      else if replay t \<noteq> t then Inl (ReplayMismatch (rt_name t))
      else Inr ())"

section \<open>Codec of the scenario names\<close>

interpretation scenario: strict_codec scenario_as_str scenario_parse
proof
  show "scenario_parse (scenario_as_str x) = Some x" for x
    by (cases x) (simp_all add: scenario_parse_def)
  show "scenario_parse s = Some x \<Longrightarrow> scenario_as_str x = s" for s x
    by (auto simp: scenario_parse_def split: if_splits)
qed

lemma scenario_all_complete: "set scenario_all = UNIV \<and> distinct scenario_all"
proof -
  have "x \<in> set scenario_all" for x by (cases x) (simp_all add: scenario_all_def)
  then show ?thesis by (auto simp: scenario_all_def)
qed

section \<open>Invariants of the state\<close>

text \<open>
  The screen fits the connection; a connected simulator has an active session among its sessions
  and a model among the available ones; saved servers differ in host or port and the selected one is
  among them.
\<close>

definition view_ok :: "simulator_state \<Rightarrow> bool" where
  "view_ok s \<longleftrightarrow>
     (st_screen s = Onboarding \<and> st_connection s = Disconnected) \<or>
     (st_screen s = Pairing \<and> st_connection s = Connecting) \<or> st_screen s = Chat"

definition session_ok :: "simulator_state \<Rightarrow> bool" where
  "session_ok s \<longleftrightarrow>
     (st_screen s = Chat \<longrightarrow> (\<exists>i m. st_active_session s = Some i \<and> i \<in> set (st_sessions s) \<and>
        st_model s = Some m \<and> m \<in> set (st_models s)))"

definition server_key :: "server_summary \<Rightarrow> string \<times> string" where
  "server_key v = (sv_host v, sv_port v)"

definition servers_ok :: "simulator_state \<Rightarrow> bool" where
  "servers_ok s \<longleftrightarrow>
     distinct (map server_key (st_saved_servers s)) \<and>
     (case st_selected_server s of Some v \<Rightarrow> v \<in> set (st_saved_servers s) | None \<Rightarrow> True)"

text \<open>Numbered message ids are not above the number of messages, so the next number is free.\<close>

definition numbered_id :: "nat \<Rightarrow> string set" where
  "numbered_id n = {''msg-user-'' @ show_nat n, ''msg-assistant-'' @ show_nat n}"

definition messages_ok :: "simulator_state \<Rightarrow> bool" where
  "messages_ok s \<longleftrightarrow>
     distinct (map cm_id (st_messages s)) \<and>
     (\<forall>n. numbered_id n \<inter> set (map cm_id (st_messages s)) \<noteq> {} \<longrightarrow> n \<le> length (st_messages s))"

definition state_inv :: "simulator_state \<Rightarrow> bool" where
  "state_inv s \<longleftrightarrow> view_ok s \<and> session_ok s \<and> servers_ok s \<and> messages_ok s"

lemma push_numbered:
  assumes "messages_ok s" and "i \<in> numbered_id (Suc (length (st_messages s)))"
  shows "messages_ok (push_message i role t s)"
proof -
  have new: "i \<notin> set (map cm_id (st_messages s))"
    using assms unfolding messages_ok_def by (metis Suc_n_not_le_n disjoint_iff)
  have "n = Suc (length (st_messages s))" if "i \<in> numbered_id n" for n
    using assms(2) that by (auto simp: numbered_id_def)
  with assms(1) new show ?thesis
    by (auto simp: messages_ok_def push_message_def numbered_id_def le_Suc_eq)
qed

lemma push_numbered_other [simp]:
  "view_ok (push_message i r t s) = view_ok s" "session_ok (push_message i r t s) = session_ok s"
  "servers_ok (push_message i r t s) = servers_ok s"
  by (simp_all add: view_ok_def session_ok_def servers_ok_def push_message_def split: option.split)

lemma not_digits:
  "show_nat n \<noteq> ''streaming''" "show_nat n \<noteq> ''approval''"
  "show_nat n \<noteq> CHR ''s'' # xs"
proof -
  have d: "show_nat n = c # xs \<Longrightarrow> (of_char c :: nat) < 58" for c xs
    using show_nat_digits [of c n] by simp
  show "show_nat n \<noteq> ''streaming''" "show_nat n \<noteq> ''approval''" "show_nat n \<noteq> CHR ''s'' # xs"
    using d [of "CHR ''s''"] d [of "CHR ''a''"] by auto
qed

lemma show_nat_1: "''1'' = show_nat n \<longleftrightarrow> n = 1"
proof -
  have "show_nat 1 = ''1''" by code_simp
  then show ?thesis by (metis show_nat_inj)
qed

lemma for_scenario_inv: "state_inv (for_scenario sc)"
proof -
  have v: "view_ok (for_scenario sc) \<and> session_ok (for_scenario sc) \<and> servers_ok (for_scenario sc)"
    by (cases sc) (simp_all add: view_ok_def session_ok_def servers_ok_def state_onboarding_def
      state_connected_chat_def model_list_def push_message_def)
  have "messages_ok (for_scenario sc)"
    by (cases sc) (auto simp: messages_ok_def numbered_id_def state_onboarding_def state_connected_chat_def
      push_message_def not_digits not_digits [THEN not_sym] show_nat_1 show_nat_1 [unfolded eq_commute [of "''1''"]])
  with v show ?thesis by (simp add: state_inv_def)
qed

lemma state_inv_keep:
  "state_inv s \<Longrightarrow> state_inv (s\<lparr>st_error := e\<rparr>)" "state_inv s \<Longrightarrow> state_inv (s\<lparr>st_status := x\<rparr>)"
  "state_inv s \<Longrightarrow> state_inv (s\<lparr>st_processing := b\<rparr>)" "state_inv s \<Longrightarrow> state_inv (s\<lparr>st_draft := d\<rparr>)"
  "state_inv s \<Longrightarrow> state_inv (s\<lparr>st_pairing := p\<rparr>)"
  by (simp_all add: state_inv_def view_ok_def session_ok_def servers_ok_def messages_ok_def split: option.splits)

lemma state_inv_view:
  "state_inv s \<Longrightarrow> state_inv (s\<lparr>st_screen := Pairing, st_connection := Connecting\<rparr>)"
  "state_inv s \<Longrightarrow> state_inv (s\<lparr>st_screen := Onboarding, st_connection := Disconnected\<rparr>)"
  by (simp_all add: state_inv_def view_ok_def session_ok_def servers_ok_def messages_ok_def split: option.splits)

lemma push_numbered_inv:
  "state_inv s \<Longrightarrow> i \<in> numbered_id (Suc (length (st_messages s))) \<Longrightarrow> state_inv (push_message i r t s)"
  by (simp add: state_inv_def push_numbered)

lemma tap_node_inv: "state_inv s \<Longrightarrow> state_inv (fst (tap_node node_id s))"
proof -
  assume s: "state_inv s"
  have "state_inv (fst (tap_pair_submit s))"
    using state_inv_keep(1,2) [OF state_inv_view(1) [OF s]] state_inv_keep(1) [OF s]
      state_inv_keep(1) [OF state_inv_keep(2) [OF state_inv_view(1) [OF s]]]
    by (simp add: tap_pair_submit_def Let_def)
  moreover have "state_inv (fst (tap_chat_send s))"
    using s push_numbered_inv [OF s, of "''msg-user-'' @ show_nat (Suc (length (st_messages s)))" UserRole "trim (st_draft s)"]
    by (auto simp: tap_chat_send_def Let_def numbered_id_def intro: state_inv_keep)
  ultimately show ?thesis using s by (auto simp: tap_node_def intro: state_inv_keep)
qed

lemma pairing_succeeded_inv: "state_inv s \<Longrightarrow> state_inv (pairing_succeeded n v s)"
  by (auto simp: state_inv_def pairing_succeeded_def Let_def view_ok_def session_ok_def servers_ok_def
      messages_ok_def server_key_def distinct_map inj_on_def)

lemma connected_inv: "state_inv s \<Longrightarrow> state_inv (connected i s)"
  by (auto simp: state_inv_def connected_def Let_def view_ok_def session_ok_def servers_ok_def
      messages_ok_def push_message_def numbered_id_def model_list_def not_digits split: option.splits)

lemma reduce_inv: "state_inv s \<Longrightarrow> state_inv (fst (reduce s a))"
proof (cases a)
  case (AppendAssistantText t)
  assume "state_inv s"
  then show ?thesis
    unfolding AppendAssistantText by (auto simp: numbered_id_def intro!: push_numbered_inv)
qed (auto simp: failed_def simp del: for_scenario.simps
    intro: state_inv_keep tap_node_inv for_scenario_inv pairing_succeeded_inv connected_inv state_inv_view)

end
