(* ===== verification/MobileProperties.thy ===== *)
theory MobileProperties
  imports Mobile
begin

text \<open>
  What the simulator promises: the invariant of its state and the shape of its logs after any
  actions, the outcome of pairing and of sending, and the replay of recorded traces.
\<close>

section \<open>One action\<close>

definition effect_records :: "nat \<Rightarrow> nat \<Rightarrow> simulator_effect list \<Rightarrow> effect_record list" where
  "effect_records seq now es =
     map (\<lambda>(i, e). \<lparr>er_seq = seq, er_timestamp_ms = i, er_effect = e\<rparr>) (enumerate (Suc now) es)"

lemma run_effects:
  "foldl (run_effect seq) (store, records, pending) es =
     (store\<lparr>so_effect_log := so_effect_log store @ effect_records seq (so_now_ms store) es,
            so_now_ms := so_now_ms store + length es\<rparr>,
      records @ effect_records seq (so_now_ms store) es,
      concat (map handle_effect (rev es)) @ pending)"
  by (induction es arbitrary: store records pending) (simp_all add: run_effect_def Let_def effect_records_def)

definition after_action :: "simulator_store \<Rightarrow> simulator_action \<Rightarrow> simulator_store" where
  "after_action store a =
     (let red = reduce (so_state store) a
      in store\<lparr>so_state := fst red, so_next_seq := so_next_seq store + 1,
            so_now_ms := so_now_ms store + 1 + length (snd red),
            so_transition_log := so_transition_log store @
              [\<lparr>tr_seq = so_next_seq store, tr_timestamp_ms = so_now_ms store + 1, tr_action = a,
                tr_before = so_state store, tr_after = fst red, tr_effects = snd red\<rparr>],
            so_effect_log := so_effect_log store @
              effect_records (so_next_seq store) (so_now_ms store + 1) (snd red)\<rparr>)"

lemma fst_run_action: "fst (run_action store a pending) = after_action store a"
  by (simp add: run_action_def after_action_def Let_def case_prod_beta run_effects)

text \<open>The store after a list of pending actions, without the report.\<close>

definition follow_ups :: "simulator_store \<Rightarrow> simulator_action \<Rightarrow> simulator_action list" where
  "follow_ups store a = concat (map handle_effect (rev (snd (reduce (so_state store) a))))"

function run_all :: "simulator_store \<Rightarrow> simulator_action list \<Rightarrow> simulator_store" where
  "run_all store [] = store"
| "run_all store (a # pending) = run_all (after_action store a) (follow_ups store a @ pending)"
  by pat_completeness auto
termination
  by (relation "measure (\<lambda>(store, pending). weight pending)") (simp_all add: follow_ups_def follow_up_weight)

lemma dispatch_loop_run: "fst (dispatch_loop store pending ts rs) = run_all store pending"
  by (induction store pending ts rs rule: dispatch_loop.induct)
    (simp_all add: dispatch_loop.simps(2) Let_def fst_run_action run_action_pending follow_ups_def)

lemma run_all_append: "run_all store (xs @ ys) = run_all (run_all store xs) ys"
  by (induction store xs rule: run_all.induct) simp_all

lemma fst_dispatch: "fst (dispatch store a) = run_all (store\<lparr>so_action_log := so_action_log store @ [a]\<rparr>) [a]"
  by (simp add: dispatch_def Let_def case_prod_beta dispatch_loop_run)

section \<open>Logs\<close>

fun transition_chain :: "simulator_state \<Rightarrow> transition_record list \<Rightarrow> simulator_state \<Rightarrow> bool" where
  "transition_chain s [] s' = (s = s')"
| "transition_chain s (t # ts) s' =
     (tr_before t = s \<and> (tr_after t, tr_effects t) = reduce s (tr_action t) \<and>
      transition_chain (tr_after t) ts s')"

lemma transition_chain_snoc:
  "transition_chain s ts (tr_before t) \<Longrightarrow> (tr_after t, tr_effects t) = reduce (tr_before t) (tr_action t) \<Longrightarrow>
   transition_chain s (ts @ [t]) (tr_after t)"
  by (induction s ts "tr_before t" rule: transition_chain.induct) auto

definition logged_effects :: "transition_record list \<Rightarrow> (nat \<times> simulator_effect) list" where
  "logged_effects ts = concat (map (\<lambda>t. map (Pair (tr_seq t)) (tr_effects t)) ts)"

definition logs_ok :: "simulator_store \<Rightarrow> bool" where
  "logs_ok store \<longleftrightarrow>
     transition_chain (so_initial store) (so_transition_log store) (so_state store) \<and>
     map tr_seq (so_transition_log store) = [1..<so_next_seq store] \<and>
     so_next_seq store = Suc (length (so_transition_log store)) \<and>
     map (\<lambda>r. (er_seq r, er_effect r)) (so_effect_log store) = logged_effects (so_transition_log store) \<and>
     so_now_ms store = length (so_transition_log store) + length (so_effect_log store) \<and>
     sorted_wrt (<) (map tr_timestamp_ms (so_transition_log store)) \<and>
     sorted_wrt (<) (map er_timestamp_ms (so_effect_log store)) \<and>
     list_all (\<lambda>t. tr_timestamp_ms t \<le> so_now_ms store) (so_transition_log store) \<and>
     list_all (\<lambda>r. er_timestamp_ms r \<le> so_now_ms store) (so_effect_log store)"

lemma effect_records_simps:
  "map (\<lambda>r. (er_seq r, er_effect r)) (effect_records seq now es) = map (Pair seq) es"
  "map er_timestamp_ms (effect_records seq now es) = [Suc now..<Suc now + length es]"
  "length (effect_records seq now es) = length es"
proof -
  show "map (\<lambda>r. (er_seq r, er_effect r)) (effect_records seq now es) = map (Pair seq) es"
    by (induction es arbitrary: now) (simp_all add: effect_records_def)
  show "map er_timestamp_ms (effect_records seq now es) = [Suc now..<Suc now + length es]"
    by (simp add: effect_records_def comp_def case_prod_unfold del: upt_Suc)
  show "length (effect_records seq now es) = length es" by (simp add: effect_records_def)
qed

lemma effect_record_time: "r \<in> set (effect_records seq now es) \<Longrightarrow> now < er_timestamp_ms r \<and> er_timestamp_ms r \<le> now + length es"
proof -
  assume "r \<in> set (effect_records seq now es)"
  then have "er_timestamp_ms r \<in> set (map er_timestamp_ms (effect_records seq now es))" by simp
  then show ?thesis unfolding effect_records_simps(2) by auto
qed

lemma after_action_fields:
  assumes "t = \<lparr>tr_seq = so_next_seq store, tr_timestamp_ms = so_now_ms store + 1, tr_action = a,
      tr_before = so_state store, tr_after = fst (reduce (so_state store) a),
      tr_effects = snd (reduce (so_state store) a)\<rparr>"
    and "rs = effect_records (so_next_seq store) (so_now_ms store + 1) (snd (reduce (so_state store) a))"
  shows "so_initial (after_action store a) = so_initial store" "so_state (after_action store a) = tr_after t"
    "so_transition_log (after_action store a) = so_transition_log store @ [t]"
    "so_effect_log (after_action store a) = so_effect_log store @ rs"
    "so_next_seq (after_action store a) = Suc (so_next_seq store)"
    "so_now_ms (after_action store a) = Suc (so_now_ms store) + length (tr_effects t)"
  by (simp_all add: after_action_def Let_def assms)

lemma after_action_logs:
  assumes l: "logs_ok store"
  shows "logs_ok (after_action store a)"
proof -
  define t where "t = \<lparr>tr_seq = so_next_seq store, tr_timestamp_ms = so_now_ms store + 1, tr_action = a,
      tr_before = so_state store, tr_after = fst (reduce (so_state store) a),
      tr_effects = snd (reduce (so_state store) a)\<rparr>"
  define rs where "rs = effect_records (so_next_seq store) (so_now_ms store + 1) (snd (reduce (so_state store) a))"
  note f = after_action_fields [OF t_def rs_def]
  have t: "tr_seq t = so_next_seq store" "tr_timestamp_ms t = Suc (so_now_ms store)" "tr_before t = so_state store"
    "(tr_after t, tr_effects t) = reduce (tr_before t) (tr_action t)" by (simp_all add: t_def)
  have rs: "map (\<lambda>r. (er_seq r, er_effect r)) rs = map (Pair (tr_seq t)) (tr_effects t)"
    "map er_timestamp_ms rs = [Suc (Suc (so_now_ms store))..<Suc (Suc (so_now_ms store)) + length (tr_effects t)]"
    "length rs = length (tr_effects t)"
    by (simp_all add: rs_def t_def effect_records_simps)
  have time: "Suc (so_now_ms store) < er_timestamp_ms r" "er_timestamp_ms r \<le> Suc (so_now_ms store) + length (tr_effects t)"
    if "r \<in> set rs" for r
    using effect_record_time [of r "so_next_seq store" "so_now_ms store + 1"] that by (simp_all add: rs_def t_def)
  have "transition_chain (so_initial store) (so_transition_log store @ [t]) (tr_after t)"
    by (rule transition_chain_snoc [OF _ t(4)]) (use l t(3) in \<open>simp add: logs_ok_def\<close>)
  moreover have "sorted_wrt (<) (map er_timestamp_ms (so_effect_log store @ rs))"
  proof -
    have "er_timestamp_ms x < er_timestamp_ms y" if "x \<in> set (so_effect_log store)" "y \<in> set rs" for x y
      using l time(1) [OF that(2)] that(1) by (auto simp: logs_ok_def list_all_iff)
    moreover have "sorted_wrt (<) (map er_timestamp_ms rs)" unfolding rs(2) by (rule sorted_wrt_upt)
    ultimately show ?thesis using l by (auto simp: logs_ok_def sorted_wrt_append)
  qed
  moreover have "sorted_wrt (<) (map tr_timestamp_ms (so_transition_log store @ [t]))"
    using l by (auto simp: logs_ok_def sorted_wrt_append list_all_iff t(2))
  moreover have "list_all (\<lambda>r. er_timestamp_ms r \<le> Suc (so_now_ms store) + length (tr_effects t)) (so_effect_log store @ rs)"
    using l time(2) by (auto simp: logs_ok_def list_all_iff)
  moreover have "list_all (\<lambda>r. tr_timestamp_ms r \<le> Suc (so_now_ms store) + length (tr_effects t)) (so_transition_log store @ [t])"
    using l by (auto simp: logs_ok_def list_all_iff t(2))
  moreover have "map tr_seq (so_transition_log store @ [t]) = [1..<Suc (so_next_seq store)]"
    using l by (simp add: logs_ok_def t(1))
  moreover have "map (\<lambda>r. (er_seq r, er_effect r)) (so_effect_log store @ rs) =
      logged_effects (so_transition_log store @ [t])"
    using l by (simp add: logs_ok_def logged_effects_def rs(1))
  ultimately show ?thesis
    using l rs(3) unfolding logs_ok_def f by simp
qed

section \<open>Runs of the store\<close>

lemma run_all_inv:
  assumes "\<And>s a. P s \<Longrightarrow> P (after_action s a)" and "P store"
  shows "P (run_all store as)"
  using assms(2) by (induction store as rule: run_all.induct) (auto intro: assms(1))

lemma logs_ok_action_log [simp]: "logs_ok (store\<lparr>so_action_log := x\<rparr>) = logs_ok store"
  by (simp add: logs_ok_def)

lemma dispatch_logs [op_inv]: "logs_ok store \<Longrightarrow> logs_ok (fst (dispatch store a))"
  unfolding fst_dispatch by (rule run_all_inv) (simp_all add: after_action_logs)

lemma after_action_state: "state_inv (so_state s) \<Longrightarrow> state_inv (so_state (after_action s a))"
  by (simp add: after_action_def Let_def reduce_inv)

lemma dispatch_state [op_inv]: "state_inv (so_state store) \<Longrightarrow> state_inv (so_state (fst (dispatch store a)))"
  unfolding fst_dispatch by (rule run_all_inv [where P = "\<lambda>s. state_inv (so_state s)"]) (simp_all add: after_action_state)

interpretation simulator_logs: op_machine "\<lambda>s a. fst (dispatch s a)" "simulator_store_new s0" logs_ok for s0
proof
  show "logs_ok (simulator_store_new s0)" by (simp add: logs_ok_def simulator_store_new_def logged_effects_def)
qed (rule dispatch_logs)

interpretation simulator_state: op_machine "\<lambda>s a. fst (dispatch s a)" "simulator_store_new (for_scenario sc)"
  "\<lambda>s. state_inv (so_state s)" for sc
proof
  show "state_inv (so_state (simulator_store_new (for_scenario sc)))" by (simp add: simulator_store_new_def for_scenario_inv)
qed (rule dispatch_state)

text \<open>
  Property C29. From every scenario and after every sequence of dispatched actions the screen fits the
  connection state, a simulator on the chat screen has an active session among its sessions and a
  model among the available ones, saved servers are distinct in host and port with the selected one
  among them, and message ids are distinct.
\<close>

theorem simulator_state_invariant:
  "let s = so_state (dispatch_all (simulator_store_new (for_scenario sc)) actions)
   in (st_screen s, st_connection s) \<in>
        {(Onboarding, Disconnected), (Pairing, Connecting), (Chat, Disconnected), (Chat, Connecting), (Chat, Connected)} \<and>
      session_ok s \<and> distinct (map server_key (st_saved_servers s)) \<and>
      set_option (st_selected_server s) \<subseteq> set (st_saved_servers s) \<and> distinct (map cm_id (st_messages s))"
proof -
  let ?s = "so_state (dispatch_all (simulator_store_new (for_scenario sc)) actions)"
  have inv: "state_inv ?s" unfolding dispatch_all_def by (rule simulator_state.run_inv)
  then have "(st_screen ?s, st_connection ?s) \<in>
      {(Onboarding, Disconnected), (Pairing, Connecting), (Chat, Disconnected), (Chat, Connecting), (Chat, Connected)}"
    by (cases "st_connection ?s") (auto simp: state_inv_def view_ok_def)
  moreover have "set_option (st_selected_server ?s) \<subseteq> set (st_saved_servers ?s)"
    using inv by (auto simp: state_inv_def servers_ok_def split: option.splits)
  ultimately show ?thesis
    using inv by (simp add: state_inv_def servers_ok_def messages_ok_def Let_def)
qed

text \<open>
  Property C27. After any dispatches from any state, the logged transitions are a chain of reductions
  from the initial to the current state, numbered from one without gaps; the logged effects are
  those of the transitions in order, under their numbers; simulated times increase strictly in both
  logs, with one tick for every transition and every effect.
\<close>

theorem simulator_logs_wellformed:
  "logs_ok (dispatch_all (simulator_store_new s0) actions)"
  unfolding dispatch_all_def by (rule simulator_logs.run_inv)

lemma run_all_keeps: "so_initial (run_all s as) = so_initial s" "so_action_log (run_all s as) = so_action_log s"
  by (induction s as rule: run_all.induct) (simp_all add: after_action_def Let_def)

lemma dispatch_all_keeps:
  "so_initial (dispatch_all s as) = so_initial s" "so_action_log (dispatch_all s as) = so_action_log s @ as"
proof -
  have "so_initial (dispatch_all s as) = so_initial s \<and> so_action_log (dispatch_all s as) = so_action_log s @ as"
    by (induction as arbitrary: s) (simp_all add: dispatch_all_def fst_dispatch run_all_keeps after_action_def Let_def)
  then show "so_initial (dispatch_all s as) = so_initial s" "so_action_log (dispatch_all s as) = so_action_log s @ as"
    by auto
qed

text \<open>
  The trace of a store replays: recording it again from its initial state and its actions
  gives the same transitions, effects and final state.
\<close>

theorem recorded_trace_replays:
  "assert_replays (store_trace name (dispatch_all (simulator_store_new s0) actions)) = Inr ()"
  by (simp add: assert_replays_def store_trace_def replay_def record_trace_def Let_def
      dispatch_all_keeps simulator_store_new_def)

section \<open>Outcomes\<close>

lemma run_single: "run_all s [a] = run_all (after_action s a) (follow_ups s a)"
  by simp

lemma after_action_state_eq: "so_state (after_action s a) = fst (reduce (so_state s) a)"
  by (simp add: after_action_def Let_def)

lemma pair_follow_ups:
  assumes "snd (tap_pair_submit (so_state store)) = [PairAndConnect h p c d]"
  shows "so_state (fst (dispatch store (TapNode ''pair.submit''))) =
    foldl (\<lambda>s a. fst (reduce s a)) (fst (tap_pair_submit (so_state store))) (pair_and_connect h c)"
  using assms
  by (simp add: fst_dispatch follow_ups_def after_action_state_eq tap_node_def pair_and_connect_def)

text \<open>
  Submitting a filled pairing form in any state ends on the chat screen, connected, with
  the server saved and selected, when the host is reachable and the code is the valid one; with any
  other code or host it ends on the onboarding screen with the matching error, disconnected.
\<close>

theorem pairing_outcome:
  assumes "trim (pf_host (st_pairing (so_state store))) \<noteq> []"
    and "trim (pf_pair_code (st_pairing (so_state store))) \<noteq> []"
    and "trim (pf_device_name (st_pairing (so_state store))) \<noteq> []"
  shows "let p = st_pairing (so_state store); s = so_state (fst (dispatch store (TapNode ''pair.submit'')));
       unreachable = str_contains (pf_host p) ''offline'' \<or> str_contains (pf_host p) ''unreachable''
    in if \<not> unreachable \<and> pf_pair_code p = ''123456'' then
         st_screen s = Chat \<and> st_connection s = Connected \<and> st_error s = None \<and>
         map_option server_key (st_selected_server s) = Some (pf_host p, pf_port p) \<and>
         st_active_session s = Some ''session_sim_1''
       else st_screen s = Onboarding \<and> st_connection s = Disconnected \<and>
         st_error s = Some (if unreachable then ''Server unreachable. Confirm host/port and gateway status.''
           else ''Invalid or expired pairing code.'')"
proof -
  let ?p = "st_pairing (so_state store)"
  have e: "snd (tap_pair_submit (so_state store)) =
      [PairAndConnect (pf_host ?p) (pf_port ?p) (pf_pair_code ?p) (pf_device_name ?p)]"
    and p: "st_pairing (fst (tap_pair_submit (so_state store))) = ?p"
    using assms by (simp_all add: tap_pair_submit_def Let_def)
  show ?thesis
    unfolding pair_follow_ups [OF e] Let_def
    using p by (simp add: pair_and_connect_def failed_def connected_def pairing_succeeded_def Let_def
      push_message_def server_key_def)
qed

theorem pairing_outcome_witness:
  "st_connection (so_state (fst (dispatch (simulator_store_new (for_scenario ScPairingReady)) (TapNode ''pair.submit'')))) = Connected"
proof -
  let ?p = "st_pairing (so_state (simulator_store_new (for_scenario ScPairingReady)))"
  have "trim (pf_host ?p) \<noteq> []" "trim (pf_pair_code ?p) \<noteq> []" "trim (pf_device_name ?p) \<noteq> []"
    "\<not> str_contains (pf_host ?p) ''offline''" "\<not> str_contains (pf_host ?p) ''unreachable''" "pf_pair_code ?p = ''123456''"
    by code_simp+
  then show ?thesis using pairing_outcome [of "simulator_store_new (for_scenario ScPairingReady)"] unfolding Let_def by simp
qed

text \<open>
  Sending a non-blank draft while connected appends exactly two messages, the trimmed draft
  from the user and the simulated answer, clears the draft and ends the turn.
\<close>

theorem send_outcome:
  assumes "st_connection (so_state store) = Connected" and "trim (st_draft (so_state store)) \<noteq> []"
  shows "let before = so_state store; t = trim (st_draft before);
       s = so_state (fst (dispatch store (TapNode ''chat.send'')))
    in map (\<lambda>m. (cm_role m, cm_text m)) (st_messages s) =
         map (\<lambda>m. (cm_role m, cm_text m)) (st_messages before) @
         [(UserRole, t), (AssistantRole, ''Simulated response to: '' @ t)] \<and>
       st_draft s = [] \<and> \<not> st_processing s \<and> st_connection s = Connected \<and> st_error s = None"
  using assms
  by (simp add: fst_dispatch follow_ups_def after_action_state_eq tap_node_def tap_chat_send_def Let_def
      send_message_def push_message_def)

theorem send_outcome_witness:
  "st_draft (so_state (fst (dispatch (fst (dispatch (simulator_store_new (for_scenario ScConnectedChat)) (SetDraft ''hello'')))
     (TapNode ''chat.send'')))) = []"
proof -
  let ?s = "fst (dispatch (simulator_store_new (for_scenario ScConnectedChat)) (SetDraft ''hello''))"
  have "st_connection (so_state ?s) = Connected" "trim (st_draft (so_state ?s)) \<noteq> []" by code_simp+
  then show ?thesis using send_outcome [of ?s] unfolding Let_def by simp
qed

end
