(* ===== verification/MobileUi.thy ===== *)
theory MobileUi
  imports Mobile "HOL-Library.Word"
begin

unbundle bit_operations_syntax

text \<open>
  The user interface of the mobile simulator: the semantic tree of a state with its layout
  (crates/jcode-mobile-core/src/lib.rs) and hit testing, the visual scene, its SVG text and the
  screenshot comparison (src/visual.rs). Coordinates are unbounded integers; those the layout
  produces stay far inside 32 bits unless there are tens of millions of messages.
\<close>

section \<open>Nodes\<close>

datatype ui_role = ScreenNode | TextInput | Button | Banner | MessageList | MessageNode | Composer

datatype ui_action = Tap | SetText | TypeText | Scroll

definition default_viewport_width :: int where "default_viewport_width = 390"
definition default_viewport_height :: int where "default_viewport_height = 844"

record ui_rect =
  rc_x :: int
  rc_y :: int
  rc_width :: int
  rc_height :: int

definition contains_point :: "ui_rect \<Rightarrow> int \<Rightarrow> int \<Rightarrow> bool" where
  "contains_point r x y \<longleftrightarrow>
     x \<ge> rc_x r \<and> y \<ge> rc_y r \<and> x < rc_x r + rc_width r \<and> y < rc_y r + rc_height r"

text \<open>Halves are rounded towards zero.\<close>

definition half :: "int \<Rightarrow> int" where
  "half i = (if i \<ge> 0 then i div 2 else - ((- i) div 2))"

definition center :: "ui_rect \<Rightarrow> int \<times> int" where
  "center r = (rc_x r + half (rc_width r), rc_y r + half (rc_height r))"

datatype ui_node = UiNode
  (un_id: string) (un_role: ui_role) (un_label: string) (un_value: "string option")
  (un_visible: bool) (un_enabled: bool) (un_focused: bool)
  (un_accessibility_label: "string option") (un_accessibility_value: "string option")
  (un_supported_actions: "ui_action list") (un_bounds: "ui_rect option") (un_children: "ui_node list")

record ui_tree =
  ut_screen :: screen
  ut_root :: ui_node

definition plain_node :: "string \<Rightarrow> ui_role \<Rightarrow> string \<Rightarrow> string option \<Rightarrow> bool \<Rightarrow> ui_node list \<Rightarrow> ui_node" where
  "plain_node i role label val enabled children =
     UiNode i role label val True enabled False None None [] None children"

fun set_bounds :: "ui_rect \<Rightarrow> ui_node \<Rightarrow> ui_node" where
  "set_bounds r (UiNode i role label val vis en foc al av acts b cs) =
     UiNode i role label val vis en foc al av acts (Some r) cs"

fun set_children :: "ui_node list \<Rightarrow> ui_node \<Rightarrow> ui_node" where
  "set_children cs' (UiNode i role label val vis en foc al av acts b cs) =
     UiNode i role label val vis en foc al av acts b cs'"

definition rect :: "int \<Rightarrow> int \<Rightarrow> int \<Rightarrow> int \<Rightarrow> ui_rect" where
  "rect x y w h = \<lparr>rc_x = x, rc_y = y, rc_width = w, rc_height = h\<rparr>"

section \<open>The semantic tree\<close>

fun show_screen :: "screen \<Rightarrow> string" where
  "show_screen Onboarding = ''Onboarding''"
| "show_screen Pairing = ''Pairing''"
| "show_screen Chat = ''Chat''"

fun show_message_role :: "message_role \<Rightarrow> string" where
  "show_message_role UserRole = ''User''"
| "show_message_role AssistantRole = ''Assistant''"
| "show_message_role SystemRole = ''System''"

definition banner_nodes :: "simulator_state \<Rightarrow> ui_node list" where
  "banner_nodes s =
     (case st_status s of Some v \<Rightarrow> [plain_node ''banner.status'' Banner ''Status'' (Some v) True []] | None \<Rightarrow> [])
     @ (case st_error s of Some v \<Rightarrow> [plain_node ''banner.error'' Banner ''Error'' (Some v) True []] | None \<Rightarrow> [])"

definition pairing_nodes :: "simulator_state \<Rightarrow> ui_node list" where
  "pairing_nodes s =
     (let p = st_pairing s; en = (st_connection s \<noteq> Connecting)
      in [plain_node ''pair.host'' TextInput ''Host'' (Some (pf_host p)) en [],
          plain_node ''pair.port'' TextInput ''Port'' (Some (pf_port p)) en [],
          plain_node ''pair.code'' TextInput ''Pair Code'' (Some (pf_pair_code p)) en [],
          plain_node ''pair.device_name'' TextInput ''Device Name'' (Some (pf_device_name p)) en [],
          plain_node ''pair.submit'' Button ''Pair & Connect'' None en []])"

definition message_node :: "nat \<Rightarrow> chat_message \<Rightarrow> ui_node" where
  "message_node idx m =
     plain_node (''message.'' @ show_nat idx) MessageNode (show_message_role (cm_role m) @ '' message'')
       (Some (cm_text m)) True []"

definition chat_nodes :: "simulator_state \<Rightarrow> ui_node list" where
  "chat_nodes s =
     [plain_node ''chat.messages'' MessageList ''Messages'' None True
        (map (\<lambda>(i, m). message_node i m) (enumerate 0 (st_messages s))),
      plain_node ''chat.draft'' Composer ''Draft'' (Some (st_draft s)) True [],
      plain_node ''chat.send'' Button ''Send'' None (st_connection s = Connected) [],
      plain_node ''chat.interrupt'' Button ''Interrupt'' None (st_processing s) []]"

definition screen_nodes :: "simulator_state \<Rightarrow> ui_node list" where
  "screen_nodes s = (if st_screen s = Chat then chat_nodes s else pairing_nodes s)"

section \<open>Metadata for agents\<close>

definition supported_actions :: "ui_role \<Rightarrow> bool \<Rightarrow> ui_action list" where
  "supported_actions role enabled =
     (if \<not> enabled then []
      else case role of
          TextInput \<Rightarrow> [SetText, TypeText] | Composer \<Rightarrow> [SetText, TypeText]
        | Button \<Rightarrow> [Tap] | MessageList \<Rightarrow> [Scroll] | _ \<Rightarrow> [])"

fun annotate_node :: "ui_node \<Rightarrow> ui_node" where
  "annotate_node (UiNode i role label val vis en foc al av acts b cs) =
     UiNode i role label val vis en foc
       (case al of None \<Rightarrow> Some label | Some l \<Rightarrow> Some l)
       (case av of None \<Rightarrow> val | Some v \<Rightarrow> Some v)
       (supported_actions role en) b (map annotate_node cs)"

section \<open>Layout\<close>

fun layout_banners :: "int \<Rightarrow> ui_node list \<Rightarrow> ui_node list \<times> int" where
  "layout_banners y [] = ([], y)"
| "layout_banners y (c # cs) =
     (if un_id c = ''banner.status'' \<or> un_id c = ''banner.error'' then
        (let (cs', y') = layout_banners (y + 56) cs
         in (set_bounds (rect 16 y (default_viewport_width - 32) 44) c # cs', y'))
      else let (cs', y') = layout_banners y cs in (c # cs', y'))"

text \<open>Update of the first child with an id, if there is one.\<close>

fun update_first :: "string \<Rightarrow> (ui_node \<Rightarrow> ui_node) \<Rightarrow> ui_node list \<Rightarrow> ui_node list" where
  "update_first i f [] = []"
| "update_first i f (c # cs) = (if un_id c = i then f c # cs else c # update_first i f cs)"

fun layout_pairing :: "string list \<Rightarrow> int \<Rightarrow> ui_node list \<Rightarrow> ui_node list" where
  "layout_pairing [] y cs = cs"
| "layout_pairing (i # ids) y cs =
     (if i \<in> un_id ` set cs
      then layout_pairing ids (y + 64) (update_first i (set_bounds (rect 16 y (default_viewport_width - 32) 52)) cs)
      else layout_pairing ids y cs)"

definition pairing_ids :: "string list" where
  "pairing_ids = [''pair.host'', ''pair.port'', ''pair.code'', ''pair.device_name'', ''pair.submit'']"

definition layout_pairing_screen :: "int \<Rightarrow> ui_node list \<Rightarrow> ui_node list" where
  "layout_pairing_screen y cs = layout_pairing pairing_ids y cs"

fun layout_messages :: "int \<Rightarrow> ui_node list \<Rightarrow> ui_node list" where
  "layout_messages y [] = []"
| "layout_messages y (m # ms) =
     set_bounds (rect 24 y (default_viewport_width - 48) 56) m # layout_messages (y + 64) ms"

definition layout_chat_screen :: "int \<Rightarrow> ui_node list \<Rightarrow> ui_node list" where
  "layout_chat_screen y cs =
     update_first ''chat.interrupt'' (set_bounds (rect 16 766 120 44))
       (update_first ''chat.send'' (set_bounds (rect (default_viewport_width - 110) 766 94 44))
         (update_first ''chat.draft'' (set_bounds (rect 16 690 (default_viewport_width - 32) 52))
           (update_first ''chat.messages''
             (\<lambda>m. set_children (layout_messages (y + 8) (un_children m))
                (set_bounds (rect 16 y (default_viewport_width - 32) (610 - y)) m)) cs)))"

definition with_default_layout :: "ui_tree \<Rightarrow> ui_tree" where
  "with_default_layout t =
     (let root = set_bounds (rect 0 0 default_viewport_width default_viewport_height) (ut_root t);
          (cs, y) = layout_banners 16 (un_children root);
          cs = (if ut_screen t = Chat then layout_chat_screen y cs else layout_pairing_screen y cs)
      in t\<lparr>ut_root := set_children cs root\<rparr>)"

definition with_agent_metadata :: "ui_tree \<Rightarrow> ui_tree" where
  "with_agent_metadata t = t\<lparr>ut_root := annotate_node (ut_root t)\<rparr>"

definition build_ui_tree :: "simulator_state \<Rightarrow> ui_tree" where
  "build_ui_tree s =
     with_default_layout (with_agent_metadata
       \<lparr>ut_screen = st_screen s,
        ut_root = plain_node ''root'' ScreenNode (show_screen (st_screen s)) None True
          (banner_nodes s @ screen_nodes s)\<rparr>)"

section \<open>Hit testing\<close>

text \<open>Children are searched from the last to the first.\<close>

definition hits :: "ui_node \<Rightarrow> int \<Rightarrow> int \<Rightarrow> bool" where
  "hits n x y \<longleftrightarrow> un_visible n \<and> (case un_bounds n of Some r \<Rightarrow> contains_point r x y | None \<Rightarrow> False)"

fun last_some :: "('a \<Rightarrow> 'b option) \<Rightarrow> 'a list \<Rightarrow> 'b option" where
  "last_some f [] = None"
| "last_some f (x # xs) = (case last_some f xs of Some r \<Rightarrow> Some r | None \<Rightarrow> f x)"

lemma last_some_cong [fundef_cong]:
  "xs = ys \<Longrightarrow> (\<And>x. x \<in> set ys \<Longrightarrow> f x = g x) \<Longrightarrow> last_some f xs = last_some g ys"
  by (induction ys arbitrary: xs) (auto split: option.split)

lemma child_smaller: "c \<in> set (un_children n) \<Longrightarrow> size c < size n"
  by (cases n) (auto simp: less_Suc_eq_le intro: size_list_estimation')

function hit_test_node :: "int \<Rightarrow> int \<Rightarrow> ui_node \<Rightarrow> ui_node option" where
  "hit_test_node x y n =
     (if \<not> hits n x y then None
      else case last_some (hit_test_node x y) (un_children n) of Some m \<Rightarrow> Some m | None \<Rightarrow> Some n)"
  by pat_completeness auto
termination
  by (relation "measure (\<lambda>(x, y, n). size n)") (simp_all add: child_smaller)

function hit_test_actionable_node :: "int \<Rightarrow> int \<Rightarrow> ui_action \<Rightarrow> ui_node \<Rightarrow> ui_node option" where
  "hit_test_actionable_node x y a n =
     (if \<not> hits n x y then None
      else case last_some (hit_test_actionable_node x y a) (un_children n) of
          Some m \<Rightarrow> Some m
        | None \<Rightarrow> if un_enabled n \<and> a \<in> set (un_supported_actions n) then Some n else None)"
  by pat_completeness auto
termination
  by (relation "measure (\<lambda>(x, y, a, n). size n)") (simp_all add: child_smaller)

declare hit_test_node.simps [simp del] hit_test_actionable_node.simps [simp del]

definition hit_test :: "ui_tree \<Rightarrow> int \<Rightarrow> int \<Rightarrow> ui_node option" where
  "hit_test t x y = hit_test_node x y (ut_root t)"

definition hit_test_actionable :: "ui_tree \<Rightarrow> int \<Rightarrow> int \<Rightarrow> ui_action \<Rightarrow> ui_node option" where
  "hit_test_actionable t x y a = hit_test_actionable_node x y a (ut_root t)"

end
