(* ===== verification/MobileVisual.thy ===== *)
theory MobileVisual
  imports MobileUi
begin

text \<open>
  The visual scene of the mobile simulator, its SVG and text renderings, and the comparison of
  screenshots (crates/jcode-mobile-core/src/visual.rs). Debug formatting of enumerations prints the
  constructor's name, as derived in the source.
\<close>

section \<open>Formatting\<close>

definition dq :: string where "dq = [CHR 0x22]"

definition ellipsis :: string where "ellipsis = [CHR 0xE2, CHR 0x80, CHR 0xA6]"

definition show_int :: "int \<Rightarrow> string" where
  "show_int i = (if i < 0 then ''-'' @ show_nat (nat (- i)) else show_nat (nat i))"

fun show_ui_role :: "ui_role \<Rightarrow> string" where
  "show_ui_role ScreenNode = ''Screen''"
| "show_ui_role TextInput = ''TextInput''"
| "show_ui_role Button = ''Button''"
| "show_ui_role Banner = ''Banner''"
| "show_ui_role MessageList = ''MessageList''"
| "show_ui_role MessageNode = ''Message''"
| "show_ui_role Composer = ''Composer''"

text \<open>The lower-cased debug name of an action.\<close>

fun show_ui_action :: "ui_action \<Rightarrow> string" where
  "show_ui_action Tap = ''tap''"
| "show_ui_action SetText = ''settext''"
| "show_ui_action TypeText = ''typetext''"
| "show_ui_action Scroll = ''scroll''"

definition show_bool :: "bool \<Rightarrow> string" where
  "show_bool b = (if b then ''true'' else ''false'')"

definition truncate_for_text :: "string \<Rightarrow> nat \<Rightarrow> string" where
  "truncate_for_text s max_chars =
     (if char_count s \<le> max_chars then s else char_take (max_chars - 1) s @ ellipsis)"

definition truncate_for_svg :: "string \<Rightarrow> nat \<Rightarrow> string" where
  "truncate_for_svg s max_chars =
     (if char_count s \<le> max_chars then s else char_take (max_chars - 1) s @ ellipsis)"

definition replace_char :: "char \<Rightarrow> string \<Rightarrow> string \<Rightarrow> string" where
  "replace_char c r s = concat (map (\<lambda>x. if x = c then r else [x]) s)"

definition xml_escape :: "string \<Rightarrow> string" where
  "xml_escape s =
     replace_char (CHR 0x27) ''&apos;'' (replace_char (CHR 0x22) ''&quot;''
       (replace_char CHR ''>'' ''&gt;'' (replace_char CHR ''<'' ''&lt;''
         (replace_char CHR ''&'' ''&amp;'' s))))"

definition nonempty_value :: "ui_node \<Rightarrow> string option" where
  "nonempty_value n = (case un_value n of Some v \<Rightarrow> if v = [] then None else Some v | None \<Rightarrow> None)"

section \<open>The scene\<close>

definition visual_scene_schema_version :: nat where "visual_scene_schema_version = 1"

record visual_rect =
  vr_id :: string
  vr_node :: "string option"
  vr_bounds :: ui_rect
  vr_corner_radius :: int
  vr_fill :: string
  vr_stroke :: "string option"
  vr_stroke_width :: int

record visual_text =
  vt_id :: string
  vt_node :: "string option"
  vt_text :: string
  vt_x :: int
  vt_y :: int
  vt_max_width :: int
  vt_font_family :: string
  vt_font_size :: int
  vt_font_weight :: int
  vt_line_height :: int
  vt_fill :: string

datatype visual_primitive = RectPrimitive visual_rect | TextPrimitive visual_text

record visual_layer =
  vl_id :: string
  vl_z_index :: int
  vl_primitives :: "visual_primitive list"

record visual_scene =
  vs_schema_version :: nat
  vs_viewport :: ui_rect
  vs_coordinate_space :: string
  vs_theme :: string
  vs_layers :: "visual_layer list"

record visual_node_style =
  ns_fill :: string
  ns_stroke :: "string option"
  ns_stroke_width :: int
  ns_corner_radius :: int

record visual_text_style =
  ts_fill :: string
  ts_font_size :: int
  ts_font_weight :: int
  ts_line_height :: int
  ts_inset_x :: int
  ts_baseline_y :: int

definition visual_style_for_node :: "ui_node \<Rightarrow> visual_node_style" where
  "visual_style_for_node n =
     (let (fill, stroke, width, radius) =
        (case un_role n of
           ScreenNode \<Rightarrow> (''#00000000'', None, 0, 0)
         | TextInput \<Rightarrow> (''#111827'', Some ''#334155'', 1, 16)
         | Composer \<Rightarrow> (''#111827'', Some ''#334155'', 1, 16)
         | Button \<Rightarrow>
             if un_enabled n then (''#2563eb'', Some ''#60a5fa'', 1, 16)
             else (''#334155'', Some ''#475569'', 1, 16)
         | Banner \<Rightarrow>
             if un_id n = ''banner.error'' then (''#3f1d2b'', Some ''#fb7185'', 1, 14)
             else (''#082f49'', Some ''#38bdf8'', 1, 14)
         | MessageList \<Rightarrow> (''#0f172a'', Some ''#1e293b'', 1, 18)
         | MessageNode \<Rightarrow>
             if prefix ''User'' (un_label n) then (''#1d4ed8'', Some ''#60a5fa'', 1, 18)
             else if prefix ''System'' (un_label n) then (''#3f1d2b'', Some ''#fb7185'', 1, 18)
             else (''#111827'', Some ''#334155'', 1, 18))
      in \<lparr>ns_fill = fill, ns_stroke = stroke, ns_stroke_width = width, ns_corner_radius = radius\<rparr>)"

definition visual_text_style_for_node :: "ui_node \<Rightarrow> visual_text_style" where
  "visual_text_style_for_node n =
     (let fill =
        (case un_role n of
           Button \<Rightarrow> if un_enabled n then ''#ffffff'' else ''#cbd5e1''
         | MessageNode \<Rightarrow> if prefix ''User'' (un_label n) then ''#eff6ff'' else ''#e5e7eb''
         | Banner \<Rightarrow> if un_id n = ''banner.error'' then ''#ffe4e6'' else ''#e0f2fe''
         | _ \<Rightarrow> ''#e5e7eb'');
        (size, weight, line, baseline) =
        (case un_role n of
           Button \<Rightarrow> (15, 800, 20, 28)
         | Banner \<Rightarrow> (13, 700, 18, 28)
         | MessageNode \<Rightarrow> (14, 500, 20, 32)
         | TextInput \<Rightarrow> (15, 500, 20, 32)
         | Composer \<Rightarrow> (15, 500, 20, 32)
         | MessageList \<Rightarrow> (14, 600, 20, 28)
         | ScreenNode \<Rightarrow> (14, 600, 20, 28))
      in \<lparr>ts_fill = fill, ts_font_size = size, ts_font_weight = weight, ts_line_height = line,
          ts_inset_x = 14, ts_baseline_y = baseline\<rparr>)"

definition inter_font :: string where
  "inter_font = ''Inter, ui-sans-serif, system-ui''"

definition node_primitives :: "nat \<Rightarrow> ui_node \<Rightarrow> visual_primitive list" where
  "node_primitives depth n =
     (case un_bounds n of
        None \<Rightarrow> []
      | Some b \<Rightarrow>
          if un_role n = ScreenNode then []
          else
            let style = visual_style_for_node n;
                t = (case nonempty_value n of Some v \<Rightarrow> v | None \<Rightarrow> un_label n);
                ts = visual_text_style_for_node n
            in [RectPrimitive \<lparr>vr_id = un_id n @ ''.rect'', vr_node = Some (un_id n), vr_bounds = b,
                  vr_corner_radius = ns_corner_radius style, vr_fill = ns_fill style,
                  vr_stroke = ns_stroke style, vr_stroke_width = ns_stroke_width style\<rparr>,
                TextPrimitive \<lparr>vt_id = un_id n @ ''.label'', vt_node = Some (un_id n),
                  vt_text = truncate_for_svg t (54 - depth * 4),
                  vt_x = rc_x b + ts_inset_x ts, vt_y = rc_y b + ts_baseline_y ts,
                  vt_max_width = rc_width b - ts_inset_x ts * 2, vt_font_family = inter_font,
                  vt_font_size = ts_font_size ts, vt_font_weight = ts_font_weight ts,
                  vt_line_height = ts_line_height ts, vt_fill = ts_fill ts\<rparr>])"

function push_visual_node :: "nat \<Rightarrow> ui_node \<Rightarrow> visual_primitive list" where
  "push_visual_node depth n =
     (if \<not> un_visible n then []
      else node_primitives depth n @ concat (map (push_visual_node (depth + 1)) (un_children n)))"
  by pat_completeness auto
termination
  by (relation "measure (\<lambda>(d, n). size n)") (simp_all add: child_smaller)

declare push_visual_node.simps [simp del]

definition viewport :: ui_rect where
  "viewport = rect 0 0 default_viewport_width default_viewport_height"

definition background_layer :: visual_layer where
  "background_layer =
     \<lparr>vl_id = ''background'', vl_z_index = 0, vl_primitives =
        [RectPrimitive \<lparr>vr_id = ''background.canvas'', vr_node = None, vr_bounds = viewport,
           vr_corner_radius = 0, vr_fill = ''#0b1020'', vr_stroke = None, vr_stroke_width = 0\<rparr>]\<rparr>"

definition chrome_layer :: "ui_tree \<Rightarrow> visual_layer" where
  "chrome_layer t =
     \<lparr>vl_id = ''chrome'', vl_z_index = 10, vl_primitives =
        [TextPrimitive \<lparr>vt_id = ''chrome.status.time'', vt_node = None, vt_text = ''9:41'', vt_x = 28,
           vt_y = 26, vt_max_width = 80, vt_font_family = inter_font, vt_font_size = 13,
           vt_font_weight = 700, vt_line_height = 16, vt_fill = ''#e5e7eb''\<rparr>,
         TextPrimitive \<lparr>vt_id = ''chrome.title'', vt_node = Some (un_id (ut_root t)),
           vt_text = (if ut_screen t = Chat then ''jcode'' else ''Pair jcode''), vt_x = 154, vt_y = 58,
           vt_max_width = 140, vt_font_family = inter_font, vt_font_size = 17, vt_font_weight = 800,
           vt_line_height = 22, vt_fill = ''#f8fafc''\<rparr>]\<rparr>"

definition visual_scene_of :: "ui_tree \<Rightarrow> visual_scene" where
  "visual_scene_of t =
     \<lparr>vs_schema_version = visual_scene_schema_version, vs_viewport = viewport,
      vs_coordinate_space = ''logical_points_top_left'', vs_theme = ''jcode-mobile-rust-scene-v1'',
      vs_layers = [background_layer, chrome_layer t,
        \<lparr>vl_id = ''content'', vl_z_index = 20, vl_primitives = push_visual_node 0 (ut_root t)\<rparr>]\<rparr>"

section \<open>SVG\<close>

definition attr :: "string \<Rightarrow> string \<Rightarrow> string" where
  "attr name v = '' '' @ name @ ''='' @ dq @ v @ dq"

definition data_node_attr :: "string option \<Rightarrow> string" where
  "data_node_attr n = (case n of None \<Rightarrow> [] | Some i \<Rightarrow> attr ''data-node'' (xml_escape i))"

fun render_svg_primitive :: "visual_primitive \<Rightarrow> string" where
  "render_svg_primitive (RectPrimitive r) =
     ''<rect'' @ attr ''data-primitive'' (xml_escape (vr_id r)) @ data_node_attr (vr_node r)
     @ attr ''x'' (show_int (rc_x (vr_bounds r))) @ attr ''y'' (show_int (rc_y (vr_bounds r)))
     @ attr ''width'' (show_int (rc_width (vr_bounds r))) @ attr ''height'' (show_int (rc_height (vr_bounds r)))
     @ attr ''rx'' (show_int (vr_corner_radius r)) @ attr ''fill'' (xml_escape (vr_fill r))
     @ (case vr_stroke r of
          None \<Rightarrow> []
        | Some s \<Rightarrow> attr ''stroke'' (xml_escape s) @ attr ''stroke-width'' (show_int (vr_stroke_width r)))
     @ ''/>''"
| "render_svg_primitive (TextPrimitive t) =
     ''<text'' @ attr ''data-primitive'' (xml_escape (vt_id t)) @ data_node_attr (vt_node t)
     @ attr ''x'' (show_int (vt_x t)) @ attr ''y'' (show_int (vt_y t)) @ attr ''fill'' (xml_escape (vt_fill t))
     @ attr ''font-family'' (xml_escape (vt_font_family t)) @ attr ''font-size'' (show_int (vt_font_size t))
     @ attr ''font-weight'' (show_int (vt_font_weight t)) @ ''>'' @ xml_escape (vt_text t) @ ''</text>''"

definition render_layer :: "visual_layer \<Rightarrow> string" where
  "render_layer l =
     ''<g'' @ attr ''data-layer'' (xml_escape (vl_id l)) @ attr ''data-z-index'' (show_int (vl_z_index l)) @ ''>''
     @ concat (map render_svg_primitive (vl_primitives l)) @ ''</g>''"

definition render_scene_svg :: "visual_scene \<Rightarrow> string" where
  "render_scene_svg scene =
     (let w = show_int (rc_width (vs_viewport scene)); h = show_int (rc_height (vs_viewport scene))
      in ''<svg'' @ attr ''xmlns'' ''http://www.w3.org/2000/svg'' @ attr ''width'' w @ attr ''height'' h
         @ attr ''viewBox'' (''0 0 '' @ w @ '' '' @ h) @ ''>''
         @ concat (map render_layer (sort_key vl_z_index (vs_layers scene))) @ ''</svg>'' @ nl)"

section \<open>Screenshots\<close>

definition fnv1a_step :: "64 word \<Rightarrow> char \<Rightarrow> 64 word" where
  "fnv1a_step hash c = (hash XOR of_nat (of_char c)) * 0x100000001b3"

definition stable_hash_hex :: "string \<Rightarrow> string" where
  "stable_hash_hex bytes =
     ''fnv1a64:'' @ hex_digits 16 (unat (foldl fnv1a_step 0xcbf29ce484222325 bytes))"

record screenshot_snapshot =
  ss_format :: string
  ss_width :: int
  ss_height :: int
  ss_theme :: string
  ss_hash :: string
  ss_svg :: string
  ss_scene :: "visual_scene option"
  ss_layout :: ui_tree

record screenshot_diff =
  sd_matches :: bool
  sd_expected_hash :: string
  sd_actual_hash :: string
  sd_expected_len :: nat
  sd_actual_len :: nat
  sd_first_difference :: "nat option"

definition snapshot_of :: "ui_tree \<Rightarrow> screenshot_snapshot" where
  "snapshot_of t =
     (let scene = visual_scene_of t; svg = render_scene_svg scene
      in \<lparr>ss_format = ''svg'', ss_width = default_viewport_width, ss_height = default_viewport_height,
          ss_theme = vs_theme scene, ss_hash = stable_hash_hex svg, ss_svg = svg,
          ss_scene = Some scene, ss_layout = t\<rparr>)"

definition first_difference :: "string \<Rightarrow> string \<Rightarrow> nat option" where
  "first_difference a b =
     (case position (\<lambda>(x, y). x \<noteq> y) (zip a b) of
        Some i \<Rightarrow> Some i
      | None \<Rightarrow> if length a = length b then None else Some (min (length a) (length b)))"

definition diff_screenshots :: "screenshot_snapshot \<Rightarrow> screenshot_snapshot \<Rightarrow> screenshot_diff" where
  "diff_screenshots expected actual =
     (let d = first_difference (ss_svg expected) (ss_svg actual)
      in \<lparr>sd_matches = (ss_hash expected = ss_hash actual \<and> d = None),
          sd_expected_hash = ss_hash expected, sd_actual_hash = ss_hash actual,
          sd_expected_len = length (ss_svg expected), sd_actual_len = length (ss_svg actual),
          sd_first_difference = d\<rparr>)"

section \<open>Text rendering\<close>

definition node_line :: "nat \<Rightarrow> ui_node \<Rightarrow> string" where
  "node_line depth n =
     concat (replicate depth ''  '') @ ''- '' @ un_id n @ '' ['' @ show_ui_role (un_role n) @ ''] ''
     @ (case un_bounds n of
          Some b \<Rightarrow> ''@'' @ show_int (rc_x b) @ '','' @ show_int (rc_y b) @ '' ''
            @ show_int (rc_width b) @ ''x'' @ show_int (rc_height b)
        | None \<Rightarrow> ''@unlaid'')
     @ '' enabled='' @ show_bool (un_enabled n) @ '' actions=''
     @ (if un_supported_actions n = [] then ''-'' else join '','' (map show_ui_action (un_supported_actions n)))
     @ '' label='' @ truncate_for_text (un_label n) 48
     @ (case nonempty_value n of Some v \<Rightarrow> '' = '' @ truncate_for_text v 72 | None \<Rightarrow> []) @ nl"

function render_text_node :: "nat \<Rightarrow> ui_node \<Rightarrow> string" where
  "render_text_node depth n =
     (if \<not> un_visible n then []
      else node_line depth n @ concat (map (render_text_node (depth + 1)) (un_children n)))"
  by pat_completeness auto
termination
  by (relation "measure (\<lambda>(d, n). size n)") (simp_all add: child_smaller)

declare render_text_node.simps [simp del]

definition render_text :: "ui_tree \<Rightarrow> string" where
  "render_text t =
     ''jcode mobile simulator'' @ nl @ ''screen: '' @ show_screen (ut_screen t) @ nl
     @ ''viewport: '' @ show_int default_viewport_width @ ''x'' @ show_int default_viewport_height @ nl
     @ render_text_node 0 (ut_root t)"

end
