(* ===== verification/MobileUiProperties.thy ===== *)
theory MobileUiProperties
  imports MobileVisual
begin

text \<open>
  Hit testing on any tree and on the trees of simulator states, the layout's disjointness, escaping and
  the comparison of screenshots.
\<close>

section \<open>Hit testing\<close>

inductive in_tree :: "ui_node \<Rightarrow> ui_node \<Rightarrow> bool" for root where
  here: "in_tree root root"
| child: "in_tree root n \<Longrightarrow> c \<in> set (un_children n) \<Longrightarrow> in_tree root c"

lemma in_tree_down: "c \<in> set (un_children root) \<Longrightarrow> in_tree c m \<Longrightarrow> in_tree root m"
  by (rotate_tac, induction rule: in_tree.induct) (auto intro: in_tree.intros)

lemma last_some_Some: "last_some f xs = Some r \<Longrightarrow> \<exists>x \<in> set xs. f x = Some r"
  by (induction xs) (auto split: option.splits)

lemma last_some_None: "last_some f xs = None \<longleftrightarrow> (\<forall>x \<in> set xs. f x = None)"
  by (induction xs) (auto split: option.splits)

lemma hit_test_None: "hit_test_node x y n = None \<longleftrightarrow> \<not> hits n x y"
  by (subst hit_test_node.simps) (auto split: option.split)

lemma hit_test_Some:
  "hit_test_node x y n = Some m \<Longrightarrow> in_tree n m \<and> hits m x y \<and> (\<forall>c \<in> set (un_children m). \<not> hits c x y)"
proof (induction n rule: measure_induct_rule [of size])
  case (less n)
  then have h: "hits n x y" using hit_test_None by (metis option.distinct(1))
  show ?case
  proof (cases "last_some (hit_test_node x y) (un_children n)")
    case None
    then have "\<forall>c \<in> set (un_children n). \<not> hits c x y" by (simp add: last_some_None hit_test_None)
    moreover have "m = n" using less.prems None h by (simp add: hit_test_node.simps [of x y n])
    ultimately show ?thesis using h by (auto intro: in_tree.here)
  next
    case (Some k)
    then obtain c where c: "c \<in> set (un_children n)" "hit_test_node x y c = Some k" by (blast dest: last_some_Some)
    have "k = m" using less.prems Some h by (simp add: hit_test_node.simps [of x y n])
    with less.IH [OF child_smaller [OF c(1)]] c show ?thesis by (auto intro: in_tree_down)
  qed
qed

lemma hit_actionable_Some:
  "hit_test_actionable_node x y a n = Some m \<Longrightarrow>
   in_tree n m \<and> hits m x y \<and> un_enabled m \<and> a \<in> set (un_supported_actions m)"
proof (induction n rule: measure_induct_rule [of size])
  case (less n)
  show ?case
  proof (cases "last_some (hit_test_actionable_node x y a) (un_children n)")
    case None
    with less.prems show ?thesis
      by (auto simp: hit_test_actionable_node.simps [of x y a n] intro: in_tree.here split: if_splits)
  next
    case (Some k)
    then obtain c where c: "c \<in> set (un_children n)" "hit_test_actionable_node x y a c = Some k"
      by (blast dest: last_some_Some)
    have "k = m" using less.prems Some by (simp add: hit_test_actionable_node.simps [of x y a n] split: if_splits)
    with less.IH [OF child_smaller [OF c(1)]] c show ?thesis by (auto intro: in_tree_down)
  qed
qed

text \<open>
  A hit test answers with a visible node of the tree that contains the point and none of
  whose children does, and it answers exactly if the root is hit; an actionable hit test answers with
  an enabled node of the tree at the point that supports the action.
\<close>

theorem hit_test_correct:
  "(case hit_test t x y of
      Some n \<Rightarrow> in_tree (ut_root t) n \<and> hits n x y \<and> filter (\<lambda>c. hits c x y) (un_children n) = []
    | None \<Rightarrow> \<not> hits (ut_root t) x y) \<and>
   (case hit_test_actionable t x y a of
      Some n \<Rightarrow> in_tree (ut_root t) n \<and> hits n x y \<and> un_enabled n \<and> a \<in> set (un_supported_actions n)
    | None \<Rightarrow> True)"
  using hit_test_Some [of x y "ut_root t"] hit_actionable_Some [of x y a "ut_root t"]
  by (auto simp: hit_test_def hit_test_actionable_def hit_test_None filter_empty_conv split: option.split)

section \<open>Targets of taps\<close>

fun tap_ids :: "ui_node \<Rightarrow> string set" where
  "tap_ids (UiNode i role label val vis en foc al av acts b cs) =
     (if Tap \<in> set acts then {i} else {}) \<union> (\<Union>c \<in> set cs. tap_ids c)"

definition tap_ids_all :: "ui_node list \<Rightarrow> string set" where
  "tap_ids_all cs = (\<Union>c \<in> set cs. tap_ids c)"

lemma tap_ids_all_simps [simp]:
  "tap_ids_all [] = {}" "tap_ids_all (c # cs) = tap_ids c \<union> tap_ids_all cs"
  "tap_ids_all (xs @ ys) = tap_ids_all xs \<union> tap_ids_all ys"
  by (auto simp: tap_ids_all_def)

lemma tap_ids_in_tree: "in_tree root n \<Longrightarrow> tap_ids n \<subseteq> tap_ids root"
proof (induction rule: in_tree.induct)
  case (child n c)
  then have "tap_ids c \<subseteq> tap_ids n" by (cases n) auto
  with child show ?case by blast
qed simp

lemma tap_target: "in_tree root n \<Longrightarrow> Tap \<in> set (un_supported_actions n) \<Longrightarrow> un_id n \<in> tap_ids root"
  using tap_ids_in_tree [of root n] by (cases n) auto

lemma tap_ids_set [simp]:
  "tap_ids (set_bounds r n) = tap_ids n"
  "tap_ids (set_children cs n) = (if Tap \<in> set (un_supported_actions n) then {un_id n} else {}) \<union> tap_ids_all cs"
  by (cases n; simp add: tap_ids_all_def)+

lemma tap_ids_update_first:
  "(\<And>n. tap_ids (f n) = tap_ids n) \<Longrightarrow> tap_ids_all (update_first i f cs) = tap_ids_all cs"
  by (induction cs) auto

lemma tap_ids_layout_banners: "tap_ids_all (fst (layout_banners y cs)) = tap_ids_all cs"
  by (induction y cs rule: layout_banners.induct) (auto simp: Let_def case_prod_beta)

lemma tap_ids_layout_messages: "tap_ids_all (layout_messages y cs) = tap_ids_all cs"
  by (induction y cs rule: layout_messages.induct) auto

lemma tap_ids_layout_pairing: "tap_ids_all (layout_pairing ids y cs) = tap_ids_all cs"
  by (induction ids y cs rule: layout_pairing.induct) (auto simp: tap_ids_update_first)

lemma tap_ids_split:
  "tap_ids n = (if Tap \<in> set (un_supported_actions n) then {un_id n} else {}) \<union> tap_ids_all (un_children n)"
  by (cases n) (simp add: tap_ids_all_def)

lemma set_bounds_fields [simp]:
  "un_id (set_bounds r n) = un_id n" "un_children (set_bounds r n) = un_children n"
  "un_supported_actions (set_bounds r n) = un_supported_actions n"
  by (cases n; simp)+

lemma tap_ids_layout_chat: "tap_ids_all (layout_chat_screen y cs) = tap_ids_all cs"
proof -
  have "tap_ids (set_children (layout_messages (y + 8) (un_children m)) (set_bounds r m)) = tap_ids m" for m r
    by (simp add: tap_ids_layout_messages tap_ids_split [of m])
  then show ?thesis by (simp add: layout_chat_screen_def tap_ids_update_first)
qed

lemma tap_ids_default_layout: "tap_ids (ut_root (with_default_layout t)) = tap_ids (ut_root t)"
  by (simp add: with_default_layout_def Let_def case_prod_beta tap_ids_layout_banners
      tap_ids_layout_chat layout_pairing_screen_def tap_ids_layout_pairing tap_ids_split [of "ut_root t"])

lemma tap_ids_annotate:
  "tap_ids (annotate_node (plain_node i role label v en cs)) =
     (if role = Button \<and> en then {i} else {}) \<union> (\<Union>c \<in> set cs. tap_ids (annotate_node c))"
  by (cases role) (auto simp: plain_node_def supported_actions_def)

lemma tap_ids_tree:
  "tap_ids (ut_root (build_ui_tree s)) =
     (if st_screen s = Chat then
        (if st_connection s = Connected then {''chat.send''} else {}) \<union>
        (if st_processing s then {''chat.interrupt''} else {})
      else if st_connection s \<noteq> Connecting then {''pair.submit''} else {})"
  by (auto simp: build_ui_tree_def tap_ids_default_layout with_agent_metadata_def tap_ids_annotate
      banner_nodes_def screen_nodes_def chat_nodes_def pairing_nodes_def Let_def message_node_def
      split: option.split)

text \<open>
  Whatever point is tapped on the tree of a state, the node found is one the reducer knows:
  the submit button of the pairing screens, or the send or interrupt button of the chat, each only
  while the state enables it; so tapping it never yields the unknown-node error.
\<close>

theorem tap_targets_known:
  "case hit_test_actionable (build_ui_tree s) x y Tap of
     None \<Rightarrow> True
   | Some n \<Rightarrow>
       un_id n \<in> (if st_screen s = Chat then
           (if st_connection s = Connected then {''chat.send''} else {}) \<union>
           (if st_processing s then {''chat.interrupt''} else {})
         else if st_connection s \<noteq> Connecting then {''pair.submit''} else {}) \<and>
       fst (reduce s (TapNode (un_id n))) \<noteq> s\<lparr>st_error := Some (''Unknown node id: '' @ un_id n)\<rparr>"
proof (cases "hit_test_actionable (build_ui_tree s) x y Tap")
  case (Some n)
  then have "un_id n \<in> tap_ids (ut_root (build_ui_tree s))"
    unfolding hit_test_actionable_def by (auto dest!: hit_actionable_Some intro: tap_target)
  note known = this [unfolded tap_ids_tree]
  have "fst (reduce s (TapNode (un_id n))) \<noteq> s\<lparr>st_error := Some (''Unknown node id: '' @ un_id n)\<rparr>"
  proof
    assume "fst (reduce s (TapNode (un_id n))) = s\<lparr>st_error := Some (''Unknown node id: '' @ un_id n)\<rparr>"
    then have "st_error (fst (reduce s (TapNode (un_id n)))) = Some (''Unknown node id: '' @ un_id n)"
      "st_processing (fst (reduce s (TapNode (un_id n)))) = st_processing s" by simp_all
    with known show False
      by (auto simp: tap_node_def tap_pair_submit_def tap_chat_send_def Let_def split: if_splits)
  qed
  with known show ?thesis using Some by simp
qed simp

section \<open>Layout\<close>

definition rects_disjoint :: "ui_rect \<Rightarrow> ui_rect \<Rightarrow> bool" where
  "rects_disjoint a b \<longleftrightarrow>
     rc_x a + rc_width a \<le> rc_x b \<or> rc_x b + rc_width b \<le> rc_x a \<or>
     rc_y a + rc_height a \<le> rc_y b \<or> rc_y b + rc_height b \<le> rc_y a"

definition rect_inside :: "ui_rect \<Rightarrow> ui_rect \<Rightarrow> bool" where
  "rect_inside a b \<longleftrightarrow>
     rc_x b \<le> rc_x a \<and> rc_y b \<le> rc_y a \<and> rc_x a + rc_width a \<le> rc_x b + rc_width b \<and>
     rc_y a + rc_height a \<le> rc_y b + rc_height b"

lemma disjoint_no_common_point: "rects_disjoint a b \<Longrightarrow> \<not> (contains_point a x y \<and> contains_point b x y)"
  by (auto simp: rects_disjoint_def contains_point_def)

definition child_rects :: "ui_tree \<Rightarrow> ui_rect option list" where
  "child_rects t = map un_bounds (un_children (ut_root t))"

definition banner_rects :: "simulator_state \<Rightarrow> ui_rect list" where
  "banner_rects s =
     (case (st_status s, st_error s) of
        (None, None) \<Rightarrow> []
      | (Some _, Some _) \<Rightarrow> [rect 16 16 358 44, rect 16 72 358 44]
      | _ \<Rightarrow> [rect 16 16 358 44])"

definition content_top :: "simulator_state \<Rightarrow> int" where
  "content_top s = 16 + 56 * int (length (banner_rects s))"

definition content_rects :: "simulator_state \<Rightarrow> ui_rect list" where
  "content_rects s =
     (let y = content_top s
      in if st_screen s = Chat then
           [rect 16 y 358 (610 - y), rect 16 690 358 52, rect 280 766 94 44, rect 16 766 120 44]
         else [rect 16 y 358 52, rect 16 (y + 64) 358 52, rect 16 (y + 128) 358 52,
               rect 16 (y + 192) 358 52, rect 16 (y + 256) 358 52])"

lemmas tree_defs = build_ui_tree_def with_agent_metadata_def with_default_layout_def banner_nodes_def
  screen_nodes_def chat_nodes_def pairing_nodes_def plain_node_def layout_chat_screen_def
  layout_pairing_screen_def pairing_ids_def default_viewport_width_def default_viewport_height_def
  banner_rects_def content_rects_def content_top_def

lemma child_rects_tree: "child_rects (build_ui_tree s) = map Some (banner_rects s @ content_rects s)"
  by (cases "st_status s"; cases "st_error s"; cases "st_screen s")
    (simp_all add: tree_defs child_rects_def Let_def)

lemma rects_cases:
  "content_top s \<in> {16, 72, 128} \<and> banner_rects s \<in> {[], [rect 16 16 358 44], [rect 16 16 358 44, rect 16 72 358 44]}"
  by (auto simp: content_top_def banner_rects_def split: option.split)

text \<open>
  In the tree of every state all banners, fields, buttons and the message list have bounds
  inside the viewport, and no two of them overlap, so at most one is at any point.
\<close>

theorem layout_disjoint:
  "\<exists>rs. child_rects (build_ui_tree s) = map Some rs \<and> sorted_wrt rects_disjoint rs \<and>
     list_all (\<lambda>r. rect_inside r (rect 0 0 default_viewport_width default_viewport_height) \<and>
       0 < rc_width r \<and> 0 < rc_height r) rs"
proof (intro exI conjI)
  show "child_rects (build_ui_tree s) = map Some (banner_rects s @ content_rects s)" by (rule child_rects_tree)
  show "sorted_wrt rects_disjoint (banner_rects s @ content_rects s)"
    by (cases "st_status s"; cases "st_error s"; cases "st_screen s")
      (simp_all add: banner_rects_def content_rects_def content_top_def rects_disjoint_def rect_def)
  show "list_all (\<lambda>r. rect_inside r (rect 0 0 default_viewport_width default_viewport_height) \<and>
       0 < rc_width r \<and> 0 < rc_height r) (banner_rects s @ content_rects s)"
    by (cases "st_status s"; cases "st_error s"; cases "st_screen s")
      (simp_all add: banner_rects_def content_rects_def content_top_def rect_inside_def rect_def
        default_viewport_width_def default_viewport_height_def)
qed

section \<open>Escaping\<close>

fun xml_char :: "char \<Rightarrow> string" where
  "xml_char c =
     (if c = CHR ''&'' then ''&amp;'' else if c = CHR ''<'' then ''&lt;''
      else if c = CHR ''>'' then ''&gt;'' else if c = CHR 0x22 then ''&quot;''
      else if c = CHR 0x27 then ''&apos;'' else [c])"

lemma replace_char_simps [simp]:
  "replace_char c r [] = []" "replace_char c r (x # xs) = (if x = c then r else [x]) @ replace_char c r xs"
  by (simp_all add: replace_char_def)

lemma replace_char_append: "replace_char c r (xs @ ys) = replace_char c r xs @ replace_char c r ys"
  by (simp add: replace_char_def)

text \<open>
  Escaping by five replacements one after the other equals replacing every character by its
  entity at once (the ampersand comes first), and the result has none of the four other special
  characters.
\<close>

theorem xml_escape_correct:
  "xml_escape s = concat (map xml_char s) \<and>
   set (xml_escape s) \<inter> {CHR ''<'', CHR ''>'', CHR 0x22, CHR 0x27} = {}"
proof -
  have step: "xml_escape (c # s) = xml_char c @ xml_escape s" for c s
    unfolding xml_escape_def
    by (cases "c = CHR ''&''"; cases "c = CHR ''<''"; cases "c = CHR ''>''"; cases "c = CHR 0x22"; cases "c = CHR 0x27")
      (simp_all add: replace_char_append)
  have e: "xml_escape s = concat (map xml_char s)"
    by (induction s) (simp_all only: step list.map concat.simps, simp add: xml_escape_def)
  have "set (concat (map xml_char s)) \<inter> {CHR ''<'', CHR ''>'', CHR 0x22, CHR 0x27} = {}"
    by (induction s) auto
  with e show ?thesis by simp
qed

section \<open>Screenshots\<close>

lemma position_zip_None:
  "position (\<lambda>(x, y). x \<noteq> y) (zip a b) = None \<longleftrightarrow> (\<forall>j < min (length a) (length b). a ! j = b ! j)"
  by (induction a b rule: list_induct2') (simp_all add: All_less_Suc2)

lemma first_difference_None: "first_difference a b = None \<longleftrightarrow> a = b"
proof (cases "position (\<lambda>(x, y). x \<noteq> y) (zip a b)")
  case None
  then show ?thesis unfolding position_zip_None by (auto simp: first_difference_def None list_eq_iff_nth_eq)
next
  case (Some i)
  then have "a \<noteq> b" using position_zip_None [of a a] by auto
  with Some show ?thesis by (simp add: first_difference_def)
qed

lemma first_difference_Some:
  assumes d: "first_difference a b = Some i"
  shows "take i a = take i b \<and> take (Suc i) a \<noteq> take (Suc i) b"
proof (cases "position (\<lambda>(x, y). x \<noteq> y) (zip a b)")
  case None
  then have n: "\<forall>j < min (length a) (length b). a ! j = b ! j" unfolding position_zip_None .
  from None d have i: "i = min (length a) (length b)" "length a \<noteq> length b"
    by (auto simp: first_difference_def split: if_splits)
  have "take i a = take i b" by (rule nth_equalityI) (use n i in auto)
  moreover have "length (take (Suc i) a) \<noteq> length (take (Suc i) b)" using i by (auto simp: min_def)
  ultimately show ?thesis by metis
next
  case (Some k)
  with d have k: "k = i" by (simp add: first_difference_def)
  with position_Some [OF Some] have p: "i < length a" "i < length b" "a ! i \<noteq> b ! i" "\<forall>j < i. a ! j = b ! j"
    by auto
  have "take i a = take i b" by (rule nth_equalityI) (use p in auto)
  moreover have "take (Suc i) a \<noteq> take (Suc i) b" using p by (simp add: take_Suc_conv_app_nth)
  ultimately show ?thesis by blast
qed

text \<open>
  Comparing the screenshots of two trees reports a match exactly if their SVG texts are the
  same; otherwise the reported position is the first at which they differ or where one of them ends.
\<close>

theorem screenshot_diff_correct:
  "case diff_screenshots (snapshot_of a) (snapshot_of b) of d \<Rightarrow>
     (sd_matches d \<longleftrightarrow> ss_svg (snapshot_of a) = ss_svg (snapshot_of b)) \<and>
     (case sd_first_difference d of
        None \<Rightarrow> ss_svg (snapshot_of a) = ss_svg (snapshot_of b)
      | Some i \<Rightarrow> take i (ss_svg (snapshot_of a)) = take i (ss_svg (snapshot_of b)) \<and>
          take (Suc i) (ss_svg (snapshot_of a)) \<noteq> take (Suc i) (ss_svg (snapshot_of b)))"
proof -
  let ?x = "ss_svg (snapshot_of a)" and ?y = "ss_svg (snapshot_of b)"
  have hash: "ss_hash (snapshot_of t) = stable_hash_hex (ss_svg (snapshot_of t))" for t
    by (simp add: snapshot_of_def Let_def)
  show ?thesis
  proof (cases "first_difference ?x ?y")
    case None
    then have "?x = ?y" by (simp only: first_difference_None)
    with None show ?thesis by (simp add: diff_screenshots_def Let_def hash)
  next
    case (Some i)
    then have "?x \<noteq> ?y" using first_difference_None [of ?x ?y] by simp
    with first_difference_Some [OF Some] Some show ?thesis by (simp add: diff_screenshots_def Let_def)
  qed
qed

end
