(* ===== verification/ColorSupport.thy ===== *)
theory ColorSupport
  imports Prelude
begin

text \<open>
  Terminal colours (crates/jcode-tui-workspace/src/color_support.rs, with the same text in
  crates/jcode-tui-style/src/color.rs): detection of the terminal's capability and the mapping of
  colours to the 256-colour palette. An unsigned byte is a natural number below 256; an operation
  that leaves the range of its type (which stops a build with overflow checks) yields \<^verbatim>\<open>None\<close>.
\<close>

section \<open>Capability\<close>

datatype color_capability = TrueColor | Color256

text \<open>The environment is a partial map, lower-casing an argument.\<close>

definition detect_color_capability ::
  "(string \<Rightarrow> string) \<Rightarrow> (string \<Rightarrow> string option) \<Rightarrow> color_capability" where
  "detect_color_capability lower env =
     (let colorterm = map_option lower (env ''COLORTERM'');
          term_program = map_option lower (env ''TERM_PROGRAM'');
          term = map_option lower (env ''TERM'')
      in if colorterm = Some ''truecolor'' \<or> colorterm = Some ''24bit'' then TrueColor
         else if term_program \<in> Some ` {''ghostty'', ''iterm.app'', ''wezterm'', ''warp'', ''alacritty'', ''hyper''}
         then TrueColor
         else if env ''GHOSTTY_RESOURCES_DIR'' \<noteq> None \<or> env ''GHOSTTY_BIN_DIR'' \<noteq> None \<or>
           env ''WEZTERM_EXECUTABLE'' \<noteq> None \<or> env ''WEZTERM_PANE'' \<noteq> None
         then TrueColor
         else case term of
             Some t \<Rightarrow>
               if str_contains t ''kitty'' \<or> str_contains t ''ghostty'' \<or> str_contains t ''alacritty''
               then TrueColor
               else if str_contains t ''256color'' then Color256 else Color256
           | None \<Rightarrow> Color256)"

section \<open>The palette\<close>

type_synonym rgb_triple = "nat \<times> nat \<times> nat"

definition cube_values :: "nat list" where
  "cube_values = [0, 95, 135, 175, 215, 255]"

definition dist :: "nat \<Rightarrow> nat \<Rightarrow> nat" where
  "dist a b = nat \<bar>int a - int b\<bar>"

definition nearer :: "nat \<Rightarrow> nat \<times> nat \<Rightarrow> nat \<times> nat \<Rightarrow> nat \<times> nat" where
  "nearer v st iv =
     (let d = dist v (snd iv) in if d < snd st then (fst iv, d) else st)"

definition nearest_cube_component :: "nat \<Rightarrow> nat" where
  "nearest_cube_component v = fst (foldl (nearer v) (0, 255) (enumerate 0 cube_values))"

definition nearest_cube_index :: "nat \<Rightarrow> nat \<Rightarrow> nat \<Rightarrow> nat" where
  "nearest_cube_index r g b =
     nearest_cube_component r * 36 + nearest_cube_component g * 6 + nearest_cube_component b"

definition cube_index_to_rgb :: "nat \<Rightarrow> rgb_triple" where
  "cube_index_to_rgb idx =
     (let bi = idx mod 6; gi = (idx div 6) mod 6; ri = idx div 36
      in (cube_values ! ri, cube_values ! gi, cube_values ! bi))"

definition nearest_gray_index :: "nat \<Rightarrow> nat option" where
  "nearest_gray_index v =
     (if v < 4 then Some 0
      else if v > 243 then Some 23
      else if v < 8 then None
      else Some (min ((v - 8 + 5) div 10) 23))"

definition gray_index_to_value :: "nat \<Rightarrow> nat option" where
  "gray_index_to_value idx = (if 8 + idx * 10 < 256 then Some (8 + idx * 10) else None)"

definition color_distance :: "rgb_triple \<Rightarrow> rgb_triple \<Rightarrow> nat" where
  "color_distance c1 c2 =
     (case (c1, c2) of ((r1, g1, b1), (r2, g2, b2)) \<Rightarrow>
        let dr = int r1 - int r2; dg = int g1 - int g2; db = int b1 - int b2
        in nat (2 * dr * dr + 4 * dg * dg + 3 * db * db))"

definition is_grayish :: "nat \<Rightarrow> nat \<Rightarrow> nat \<Rightarrow> bool" where
  "is_grayish r g b \<longleftrightarrow> dist r g < 15 \<and> dist g b < 15 \<and> dist r b < 15"

definition rgb_to_xterm256 :: "nat \<Rightarrow> nat \<Rightarrow> nat \<Rightarrow> nat option" where
  "rgb_to_xterm256 r g b =
     (let gray_avg = (r + g + b) div 3;
          cube_idx = nearest_cube_index r g b;
          cube_dist = color_distance (r, g, b) (cube_index_to_rgb cube_idx);
          cube = Some (cube_idx + 16)
      in if is_grayish r g b then
           case nearest_gray_index gray_avg of
             None \<Rightarrow> None
           | Some gray_idx \<Rightarrow>
               (case gray_index_to_value gray_idx of
                  None \<Rightarrow> None
                | Some v \<Rightarrow>
                    if color_distance (r, g, b) (v, v, v) < cube_dist then Some (232 + gray_idx) else cube)
         else cube)"

definition system_colors :: "rgb_triple list" where
  "system_colors =
     [(0, 0, 0), (128, 0, 0), (0, 128, 0), (128, 128, 0), (0, 0, 128), (128, 0, 128), (0, 128, 128),
      (192, 192, 192), (128, 128, 128), (255, 0, 0), (0, 255, 0), (255, 255, 0), (0, 0, 255),
      (255, 0, 255), (0, 255, 255), (255, 255, 255)]"

definition indexed_to_rgb :: "nat \<Rightarrow> rgb_triple option" where
  "indexed_to_rgb idx =
     (if idx \<ge> 232 then map_option (\<lambda>v. (v, v, v)) (gray_index_to_value (idx - 232))
      else if idx \<ge> 16 then Some (cube_index_to_rgb (idx - 16))
      else Some (system_colors ! idx))"

datatype color = Rgb nat nat nat | Indexed nat

definition rgb :: "color_capability \<Rightarrow> nat \<Rightarrow> nat \<Rightarrow> nat \<Rightarrow> color option" where
  "rgb capability r g b =
     (if capability = TrueColor then Some (Rgb r g b) else map_option Indexed (rgb_to_xterm256 r g b))"

section \<open>The nearest cube colour\<close>

lemma dist_ge: "b \<le> a \<Longrightarrow> dist a b = a - b"
  by (simp add: dist_def)

lemma dist_lt: "a < b \<Longrightarrow> dist a b = b - a"
  by (simp add: dist_def)

lemma diff_cmp:
  fixes v :: nat
  shows "a \<le> v \<Longrightarrow> (v - a < v - b) = (b < a)"
    and "v < b \<Longrightarrow> a \<le> v \<Longrightarrow> (b - v < v - a) = (a + b < 2 * v)"
    and "v < b \<Longrightarrow> (b - v < v) = (b < 2 * v)"
    and "v < a \<Longrightarrow> (b - v < a - v) = (b < a)"
    and "a \<le> v \<Longrightarrow> v < b \<Longrightarrow> (v - a < b - v) = (2 * v < a + b)"
  by linarith+

lemma cube_scan:
  "nearest_cube_component v =
     fst (nearer v (nearer v (nearer v (nearer v (nearer v (nearer v (0, 255) (0, 0)) (1, 95))
       (2, 135)) (3, 175)) (4, 215)) (5, 255))"
  by (simp add: nearest_cube_component_def cube_values_def eval_nat_numeral)

lemma nearest_cube_component_cases:
  assumes "v < 256"
  shows "nearest_cube_component v =
     (if v \<le> 47 then 0 else if v \<le> 115 then 1 else if v \<le> 155 then 2 else if v \<le> 195 then 3
      else if v \<le> 235 then 4 else 5)"
proof -
  consider "v \<le> 47" | "47 < v" "v < 95" | "95 \<le> v" "v \<le> 115" | "115 < v" "v < 135"
    | "135 \<le> v" "v \<le> 155" | "155 < v" "v < 175" | "175 \<le> v" "v \<le> 195" | "195 < v" "v < 215"
    | "215 \<le> v" "v \<le> 235" | "235 < v" "v < 255" | "v = 255"
    using assms by linarith
  then show ?thesis
    by cases (simp_all add: cube_scan nearer_def Let_def dist_ge dist_lt diff_cmp)
qed

lemma cube_component_lt: "v < 256 \<Longrightarrow> nearest_cube_component v < 6"
  by (simp add: nearest_cube_component_cases)

lemma cube_component_nearest:
  "v < 256 \<Longrightarrow> c \<in> set cube_values \<Longrightarrow> dist v (cube_values ! nearest_cube_component v) \<le> dist v c"
  by (auto simp: nearest_cube_component_cases cube_values_def dist_def)

lemma dist_sq: "(int a - int b) * (int a - int b) = int (dist a b) * int (dist a b)"
  by (simp add: dist_def abs_mult_self_eq)

lemma color_distance_dist:
  "color_distance (r1, g1, b1) (r2, g2, b2) =
     2 * (dist r1 r2 * dist r1 r2) + 4 * (dist g1 g2 * dist g1 g2) + 3 * (dist b1 b2 * dist b1 b2)"
proof -
  have "2 * (int r1 - int r2) * (int r1 - int r2) + 4 * (int g1 - int g2) * (int g1 - int g2)
      + 3 * (int b1 - int b2) * (int b1 - int b2) =
      int (2 * (dist r1 r2 * dist r1 r2) + 4 * (dist g1 g2 * dist g1 g2) + 3 * (dist b1 b2 * dist b1 b2))"
    by (simp only: mult.assoc dist_sq of_nat_add of_nat_mult of_nat_numeral)
  then show ?thesis by (simp only: color_distance_def prod.case Let_def nat_int)
qed

lemma color_distance_mono:
  assumes "dist r1 r2 \<le> dist r1 r3" "dist g1 g2 \<le> dist g1 g3" "dist b1 b2 \<le> dist b1 b3"
  shows "color_distance (r1, g1, b1) (r2, g2, b2) \<le> color_distance (r1, g1, b1) (r3, g3, b3)"
  using assms by (simp add: color_distance_dist add_mono mult_mono mult_le_mono)

lemma nearest_cube_index_rgb:
  assumes "r < 256" "g < 256" "b < 256"
  shows "cube_index_to_rgb (nearest_cube_index r g b) =
    (cube_values ! nearest_cube_component r, cube_values ! nearest_cube_component g,
     cube_values ! nearest_cube_component b)"
proof -
  define i j k where "i = nearest_cube_component r" and "j = nearest_cube_component g"
    and "k = nearest_cube_component b"
  have "j < 6" and "k < 6" by (simp_all add: j_def k_def cube_component_lt assms)
  have sum: "i * 36 + j * 6 + k = k + (j + i * 6) * 6" by simp
  have low: "(i * 36 + j * 6 + k) mod 6 = k" unfolding sum mod_mult_self1 using \<open>k < 6\<close> by simp
  have six: "(i * 36 + j * 6 + k) div 6 = j + i * 6" unfolding sum using \<open>k < 6\<close> by (subst div_mult_self1) simp_all
  have mid: "(i * 36 + j * 6 + k) div 6 mod 6 = j" unfolding six mod_mult_self1 using \<open>j < 6\<close> by simp
  have "(i * 36 + j * 6 + k) div 6 div 6 = i" unfolding six using \<open>j < 6\<close> by (subst div_mult_self1) simp_all
  then have high: "(i * 36 + j * 6 + k) div 36 = i" by (simp only: div_mult2_eq [symmetric]) simp
  show ?thesis
    using low mid high
    by (simp add: cube_index_to_rgb_def nearest_cube_index_def Let_def i_def j_def k_def)
qed

lemma nearest_cube_index_lt:
  assumes "r < 256" "g < 256" "b < 256"
  shows "nearest_cube_index r g b < 216"
  using cube_component_lt [OF assms(1)] cube_component_lt [OF assms(2)] cube_component_lt [OF assms(3)]
  by (simp add: nearest_cube_index_def)

lemma nearest_gray_index_lt: "nearest_gray_index v = Some i \<Longrightarrow> i < 24"
  by (auto simp: nearest_gray_index_def split: if_splits)

lemma gray_index_to_value_some: "i < 24 \<Longrightarrow> gray_index_to_value i = Some (8 + i * 10)"
  by (simp add: gray_index_to_value_def)

section \<open>Palette colours are kept\<close>

lemma below_six: "i < 6 \<Longrightarrow> i = 0 \<or> i = 1 \<or> i = 2 \<or> i = 3 \<or> i = 4 \<or> i = (5::nat)"
  by linarith

lemma cube_component_at: "i < 6 \<Longrightarrow> nearest_cube_component (cube_values ! i) = i"
  by (drule below_six) (elim disjE; simp add: cube_values_def nearest_cube_component_cases)

lemma cube_values_close:
  "i < 6 \<Longrightarrow> j < 6 \<Longrightarrow> dist (cube_values ! i) (cube_values ! j) < 15 \<Longrightarrow> i = j"
  by (drule below_six, drule below_six) (elim disjE; simp add: cube_values_def dist_def)

lemma cube_values_range: "i < 6 \<Longrightarrow> cube_values ! i < 4 \<or> 7 < cube_values ! i \<and> cube_values ! i mod 5 = 0"
  by (drule below_six) (elim disjE; simp add: cube_values_def)

lemma color_distance_self: "color_distance c c = 0"
  by (cases c) (simp add: color_distance_def)

lemma color_distance_pos: "g1 \<noteq> g2 \<Longrightarrow> 0 < color_distance (r1, g1, b1) (r2, g2, b2)"
  by (auto simp: color_distance_dist dist_def)

lemma cube_values_lt: "i < 6 \<Longrightarrow> cube_values ! i < 256"
  by (drule below_six) (elim disjE; simp add: cube_values_def)

lemma rgb_to_xterm256_same:
  assumes "nearest_gray_index v = Some gi" "gray_index_to_value gi = Some w"
  shows "rgb_to_xterm256 v v v =
    (if color_distance (v, v, v) (w, w, w) < color_distance (v, v, v) (cube_index_to_rgb (nearest_cube_index v v v))
     then Some (232 + gi) else Some (nearest_cube_index v v v + 16))"
proof -
  have "(v + v + v) div 3 = v" by simp
  moreover have "is_grayish v v v" by (simp add: is_grayish_def dist_def)
  ultimately show ?thesis using assms by (simp add: rgb_to_xterm256_def Let_def)
qed

lemma cube_colour_kept:
  assumes "i < 6" "j < 6" "k < 6"
  shows "rgb_to_xterm256 (cube_values ! i) (cube_values ! j) (cube_values ! k) =
    Some (nearest_cube_index (cube_values ! i) (cube_values ! j) (cube_values ! k) + 16)"
proof (cases "is_grayish (cube_values ! i) (cube_values ! j) (cube_values ! k)")
  case False
  then show ?thesis by (simp add: rgb_to_xterm256_def Let_def)
next
  case True
  then have eq: "i = j" "j = k" using cube_values_close assms by (auto simp: is_grayish_def)
  have "nearest_gray_index (cube_values ! k) \<noteq> None"
    using cube_values_range [OF assms(3)] by (auto simp: nearest_gray_index_def)
  then obtain gi where gi: "nearest_gray_index (cube_values ! k) = Some gi" by blast
  then have "gi < 24" by (rule nearest_gray_index_lt)
  then show ?thesis unfolding eq using assms
    by (simp add: rgb_to_xterm256_same [OF gi gray_index_to_value_some] nearest_cube_index_rgb
      cube_values_lt cube_component_at color_distance_self)
qed

lemma grey_colour_kept:
  assumes "n < 24"
  shows "rgb_to_xterm256 (8 + n * 10) (8 + n * 10) (8 + n * 10) = Some (232 + n)"
proof -
  let ?v = "8 + n * 10"
  have v: "?v < 256" using assms by simp
  have gi: "nearest_gray_index ?v = Some n" using assms by (simp add: nearest_gray_index_def)
  have c: "nearest_cube_component ?v < 6" using v by (rule cube_component_lt)
  have "?v \<noteq> cube_values ! nearest_cube_component ?v"
  proof
    assume eq: "?v = cube_values ! nearest_cube_component ?v"
    have "?v mod 5 = 0" using cube_values_range [OF c] unfolding eq [symmetric] by auto
    then show False by presburger
  qed
  then have "0 < color_distance (?v, ?v, ?v) (cube_index_to_rgb (nearest_cube_index ?v ?v ?v))"
    unfolding nearest_cube_index_rgb [OF v v v] by (rule color_distance_pos)
  then show ?thesis
    by (simp only: rgb_to_xterm256_same [OF gi gray_index_to_value_some [OF assms]] color_distance_self if_True)
qed

section \<open>The mapping to the palette\<close>

text \<open>
  On byte components the mapping to the 256-colour palette fails (an unsigned
  subtraction below zero) exactly for the greyish colours whose average is between 4 and 7; in every
  other case it returns an index from 16 to 255, and the palette colour of that index is at
  least as near to the requested colour as every colour of the 6x6x6 cube.
\<close>

theorem rgb_to_xterm256_correct:
  assumes "r < 256" "g < 256" "b < 256"
  shows "case rgb_to_xterm256 r g b of
      None \<Rightarrow> is_grayish r g b \<and> (r + g + b) div 3 \<in> {4..7}
    | Some idx \<Rightarrow> \<not> (is_grayish r g b \<and> (r + g + b) div 3 \<in> {4..7}) \<and> 16 \<le> idx \<and> idx < 256 \<and>
        (case indexed_to_rgb idx of None \<Rightarrow> False
         | Some p \<Rightarrow> \<forall>x y z. {x, y, z} \<subseteq> set cube_values \<longrightarrow>
             color_distance (r, g, b) p \<le> color_distance (r, g, b) (x, y, z))"
proof -
  let ?avg = "(r + g + b) div 3" and ?c = "nearest_cube_index r g b"
  let ?p = "cube_index_to_rgb ?c"
  have best: "color_distance (r, g, b) ?p \<le> color_distance (r, g, b) (x, y, z)"
    if "{x, y, z} \<subseteq> set cube_values" for x y z
    using that assms by (simp add: nearest_cube_index_rgb color_distance_mono cube_component_nearest)
  have cube: "16 \<le> ?c + 16 \<and> ?c + 16 < 256 \<and> indexed_to_rgb (?c + 16) = Some ?p"
    using nearest_cube_index_lt [OF assms] by (simp add: indexed_to_rgb_def)
  have none: "nearest_gray_index ?avg = None \<longleftrightarrow> ?avg \<in> {4..7}"
    by (auto simp: nearest_gray_index_def)
  show ?thesis
  proof (cases "is_grayish r g b")
    case False
    then show ?thesis using cube best by (simp add: rgb_to_xterm256_def Let_def)
  next
    case True
    show ?thesis
    proof (cases "nearest_gray_index ?avg")
      case None
      then show ?thesis using True none by (simp add: rgb_to_xterm256_def Let_def)
    next
      case (Some gi)
      then have gi: "gi < 24" by (rule nearest_gray_index_lt)
      have gray: "indexed_to_rgb (232 + gi) = Some (8 + gi * 10, 8 + gi * 10, 8 + gi * 10)"
        using gi by (simp add: indexed_to_rgb_def gray_index_to_value_some)
      have no: "?avg \<notin> {4..7}" using none Some by simp
      show ?thesis
      proof (cases "color_distance (r, g, b) (8 + gi * 10, 8 + gi * 10, 8 + gi * 10) < color_distance (r, g, b) ?p")
        case True
        then have res: "rgb_to_xterm256 r g b = Some (232 + gi)"
          using \<open>is_grayish r g b\<close> Some gi by (simp add: rgb_to_xterm256_def Let_def gray_index_to_value_some)
        have near: "color_distance (r, g, b) (8 + gi * 10, 8 + gi * 10, 8 + gi * 10)
            \<le> color_distance (r, g, b) (x, y, z)" if "{x, y, z} \<subseteq> set cube_values" for x y z
          using best [OF that] True by simp
        show ?thesis unfolding res using gray no gi near by simp
      next
        case False
        then have res: "rgb_to_xterm256 r g b = Some (?c + 16)"
          using \<open>is_grayish r g b\<close> Some gi by (simp add: rgb_to_xterm256_def Let_def gray_index_to_value_some)
        show ?thesis unfolding res using cube no best by simp
      qed
    qed
  qed
qed

theorem rgb_to_xterm256_correct_witness:
  "(case rgb_to_xterm256 3 5 9 of None \<Rightarrow> is_grayish 3 5 9 \<and> (3 + 5 + 9) div 3 \<in> {4..7::nat}
    | Some idx \<Rightarrow> \<not> (is_grayish 3 5 9 \<and> (3 + 5 + 9) div 3 \<in> {4..7::nat}) \<and> 16 \<le> idx \<and> idx < 256 \<and>
        (case indexed_to_rgb idx of None \<Rightarrow> False
         | Some p \<Rightarrow> \<forall>x y z. {x, y, z} \<subseteq> set cube_values \<longrightarrow>
             color_distance (3, 5, 9) p \<le> color_distance (3, 5, 9) (x, y, z)))
   \<and> rgb_to_xterm256 3 5 9 = None \<and> rgb_to_xterm256 100 104 99 = Some 241"
proof -
  have "rgb_to_xterm256 3 5 9 = None" "rgb_to_xterm256 100 104 99 = Some 241" by code_simp+
  then show ?thesis using rgb_to_xterm256_correct [of 3 5 9] by simp
qed

text \<open>
  Every palette index from 16 to 255 has a colour, and mapping that colour to the
  palette gives the index back.
\<close>

theorem palette_roundtrip:
  assumes "16 \<le> idx" "idx < 256"
  shows "case indexed_to_rgb idx of None \<Rightarrow> False
    | Some (r, g, b) \<Rightarrow> rgb_to_xterm256 r g b = Some idx"
proof (cases "idx < 232")
  case True
  define i j k where "i = (idx - 16) div 36" and "j = (idx - 16) div 6 mod 6" and "k = (idx - 16) mod 6"
  have lt: "i < 6" "j < 6" "k < 6" using True by (auto simp: i_def j_def k_def)
  have idx: "idx = i * 36 + j * 6 + k + 16"
  proof -
    have "idx - 16 = (idx - 16) div 36 * 36 + (idx - 16) mod 36" by simp
    also have "(idx - 16) mod 36 = j * 6 + k"
      using mod_mult2_eq [of "idx - 16" 6 6] by (simp add: j_def k_def)
    finally have "idx - 16 = i * 36 + (j * 6 + k)" unfolding i_def .
    then show ?thesis using assms(1) by (simp only: add.assoc)
  qed
  have rgb: "indexed_to_rgb idx = Some (cube_values ! i, cube_values ! j, cube_values ! k)"
    using assms(1) True by (simp add: indexed_to_rgb_def cube_index_to_rgb_def Let_def i_def j_def k_def)
  have at: "nearest_cube_index (cube_values ! i) (cube_values ! j) (cube_values ! k) = idx - 16"
    using lt idx by (simp add: nearest_cube_index_def cube_component_at)
  show ?thesis
    unfolding rgb using lt at assms(1) cube_colour_kept [OF lt] by simp
next
  case False
  define n where "n = idx - 232"
  then have n: "idx = 232 + n" "n < 24" using assms(2) False by auto
  show ?thesis using grey_colour_kept [OF n(2)] by (simp add: n indexed_to_rgb_def gray_index_to_value_some)
qed

theorem palette_roundtrip_witness:
  "(16::nat) \<le> 76 \<and> (76::nat) < 256 \<and> indexed_to_rgb 76 = Some (95, 215, 0) \<and>
   rgb_to_xterm256 95 215 0 = Some 76"
proof -
  have "indexed_to_rgb 76 = Some (95, 215, 0)" by code_simp
  then show ?thesis using palette_roundtrip [of 76] by simp
qed

end
