(* ===== verification/MemoryManager.thy ===== *)
theory MemoryManager
  imports MemoryGraph
begin

text \<open>
  The memory manager (src/memory.rs with src/memory/cache.rs): the project's and the global memory
  graph on disk with a cache in the process, migration and the import of legacy notes on loading,
  and the operations that load, change and save a graph. The disk maps paths to what is stored there;
  the modification time of a file is the number of the write that made it. Writing succeeds.
  The embedding function and floating-point comparisons are arguments, as is every iteration
  order of a hash map or set.
\<close>

section \<open>Disk and cache\<close>

datatype 'f memory_file = GraphFile "'f memory_graph" | StoreFile "'f memory_store" | BadFile

record legacy_note =
  ln_id :: string
  ln_content :: string
  ln_created_at :: int
  ln_tag :: "string option"

record 'f memory_disk =
  md_files :: "(string, 'f memory_file \<times> nat) fmap"
  md_notes :: "(string, legacy_note list option) fmap"
  md_clock :: nat
  md_cache :: "(string, 'f memory_graph \<times> nat option) fmap"

text \<open>
  The paths the manager works on: the project's graph and legacy notes (none without a project
  directory) and the global graph; a test manager does not use the cache.
\<close>

record memory_manager =
  mm_project :: "(string \<times> string) option"
  mm_global :: string
  mm_test :: bool

record 'f embedder =
  em_embed :: "string \<Rightarrow> 'f list option"
  em_similarity :: "'f list \<Rightarrow> 'f list \<Rightarrow> 'f"
  em_ge :: "'f \<Rightarrow> 'f \<Rightarrow> bool"
  em_gt :: "'f \<Rightarrow> 'f \<Rightarrow> bool"
  em_dedup_threshold :: 'f
  em_one :: 'f

datatype memory_error = FileUnreadable string | NotesUnreadable string | MemoryNotFound string | CrossStoreLink

definition graph_mtime :: "string \<Rightarrow> 'f memory_disk \<Rightarrow> nat option" where
  "graph_mtime path d = map_option snd (fmlookup (md_files d) path)"

definition cached_graph :: "string \<Rightarrow> 'f memory_disk \<Rightarrow> 'f memory_graph option" where
  "cached_graph path d =
     (case fmlookup (md_cache d) path of
        None \<Rightarrow> None
      | Some (g, modified) \<Rightarrow> if modified = graph_mtime path d then Some g else None)"

definition cache_graph :: "string \<Rightarrow> 'f memory_graph \<Rightarrow> 'f memory_disk \<Rightarrow> 'f memory_disk" where
  "cache_graph path g d = d\<lparr>md_cache := fmupd path (g, graph_mtime path d) (md_cache d)\<rparr>"

definition write_graph :: "string \<Rightarrow> 'f memory_graph \<Rightarrow> 'f memory_disk \<Rightarrow> 'f memory_disk" where
  "write_graph path g d =
     d\<lparr>md_files := fmupd path (GraphFile g, md_clock d) (md_files d), md_clock := md_clock d + 1\<rparr>"

definition save_graph :: "memory_manager \<Rightarrow> string \<Rightarrow> 'f memory_graph \<Rightarrow> 'f memory_disk \<Rightarrow> 'f memory_disk" where
  "save_graph mm path g d =
     (let d = write_graph path g d in if mm_test mm then d else cache_graph path g d)"

definition save_project_graph :: "memory_manager \<Rightarrow> 'f memory_graph \<Rightarrow> 'f memory_disk \<Rightarrow> 'f memory_disk" where
  "save_project_graph mm g d =
     (case mm_project mm of Some (path, _) \<Rightarrow> save_graph mm path g d | None \<Rightarrow> d)"

definition save_global_graph :: "memory_manager \<Rightarrow> 'f memory_graph \<Rightarrow> 'f memory_disk \<Rightarrow> 'f memory_disk" where
  "save_global_graph mm g d = save_graph mm (mm_global mm) g d"

section \<open>Loading\<close>

definition expected_search_text :: "(string \<Rightarrow> string) \<Rightarrow> 'f memory_entry \<Rightarrow> string" where
  "expected_search_text lower m = normalize_memory_search_text lower (en_content m) (en_tags m)"

definition normalize_graph_search_text ::
  "(string \<Rightarrow> string) \<Rightarrow> 'f memory_graph \<Rightarrow> 'f memory_graph \<times> bool" where
  "normalize_graph_search_text lower g =
     (g\<lparr>mg_memories := fmmap (refresh_search_text lower) (mg_memories g)\<rparr>,
      \<not> fmpred (\<lambda>_ m. en_search_text m = expected_search_text lower m) (mg_memories g))"

definition ensure_embedding :: "'f embedder \<Rightarrow> 'f memory_entry \<Rightarrow> 'f memory_entry \<times> bool" where
  "ensure_embedding em e =
     (if en_embedding e \<noteq> None then (e, False)
      else case em_embed em (en_content e) of
             Some embedding \<Rightarrow> (e\<lparr>en_embedding := Some embedding\<rparr>, True)
           | None \<Rightarrow> (e, False))"

definition note_entry ::
  "(string \<Rightarrow> string) \<Rightarrow> 'f embedder \<Rightarrow> int \<Rightarrow> legacy_note \<Rightarrow> 'f memory_entry" where
  "note_entry lower em now n =
     (let e = entry_new lower (em_one em) (ln_id n) now (Custom ''note'') (ln_content n);
          e = e\<lparr>en_created_at := ln_created_at n, en_updated_at := ln_created_at n,
                en_source := Some ''legacy_remember_migration'',
                en_tags := (case ln_tag n of Some tag \<Rightarrow> [tag] | None \<Rightarrow> [])\<rparr>
      in fst (ensure_embedding em e))"

definition import_note ::
  "(string \<Rightarrow> string) \<Rightarrow> 'f embedder \<Rightarrow> int \<Rightarrow> 'f memory_graph \<times> bool \<Rightarrow> legacy_note \<Rightarrow>
   'f memory_graph \<times> bool" where
  "import_note lower em now st n =
     (if ln_id n |\<in>| fmdom (mg_memories (fst st)) then st
      else (fst (add_memory lower now (note_entry lower em now n) (fst st)), True))"

definition import_legacy_notes_into_graph ::
  "(string \<Rightarrow> string) \<Rightarrow> 'f embedder \<Rightarrow> int \<Rightarrow> string \<Rightarrow> 'f memory_graph \<Rightarrow> 'f memory_disk \<Rightarrow>
   memory_error + 'f memory_graph \<times> bool" where
  "import_legacy_notes_into_graph lower em now notes g d =
     (case fmlookup (md_notes d) notes of
        None \<Rightarrow> Inr (g, False)
      | Some None \<Rightarrow> Inl (NotesUnreadable notes)
      | Some (Some entries) \<Rightarrow> Inr (foldl (import_note lower em now) (g, False) entries))"

text \<open>A cached graph is normalised again; a change of it goes to the cache only.\<close>

definition load_cached ::
  "(string \<Rightarrow> string) \<Rightarrow> memory_manager \<Rightarrow> string \<Rightarrow> 'f memory_disk \<Rightarrow> ('f memory_graph \<times> 'f memory_disk) option" where
  "load_cached lower mm path d =
     (if mm_test mm then None
      else case cached_graph path d of
             None \<Rightarrow> None
           | Some g \<Rightarrow>
               let (g', changed) = normalize_graph_search_text lower g
               in Some (g', if changed then cache_graph path g' d else d))"

definition cache_loaded :: "memory_manager \<Rightarrow> string \<Rightarrow> 'f memory_graph \<Rightarrow> 'f memory_disk \<Rightarrow> 'f memory_disk" where
  "cache_loaded mm path g d = (if mm_test mm then d else cache_graph path g d)"

definition load_project_graph ::
  "(string \<Rightarrow> string) \<Rightarrow> 'f embedder \<Rightarrow> int \<Rightarrow> memory_manager \<Rightarrow> 'f memory_disk \<Rightarrow>
   (memory_error + 'f memory_graph) \<times> 'f memory_disk" where
  "load_project_graph lower em now mm d =
     (case mm_project mm of
        None \<Rightarrow> (Inr graph_new, d)
      | Some (path, notes) \<Rightarrow>
     case load_cached lower mm path d of
        Some (g, d) \<Rightarrow> (Inr g, d)
      | None \<Rightarrow>
     case fmlookup (md_files d) path of
        None \<Rightarrow>
          (case import_legacy_notes_into_graph lower em now notes graph_new d of
             Inl e \<Rightarrow> (Inl e, d)
           | Inr (g, imported) \<Rightarrow>
               (Inr g, cache_loaded mm path g (if imported then save_graph mm path g d else d)))
      | Some (GraphFile g, _) \<Rightarrow>
          if mg_version g = graph_version then
            (let (g', normalized) = normalize_graph_search_text lower g
             in case import_legacy_notes_into_graph lower em now notes g' d of
                  Inl e \<Rightarrow> (Inl e, d)
                | Inr (g'', imported) \<Rightarrow>
                    (Inr g'', cache_loaded mm path g''
                      (if imported then save_graph mm path g'' d
                       else if normalized then write_graph path g'' d else d)))
          else (Inl (FileUnreadable path), d)
      | Some (StoreFile store, _) \<Rightarrow>
          (case import_legacy_notes_into_graph lower em now notes (from_legacy_store now store) d of
             Inl e \<Rightarrow> (Inl e, d)
           | Inr (g, _) \<Rightarrow> (Inr g, cache_loaded mm path g (write_graph path g d)))
      | Some (BadFile, _) \<Rightarrow> (Inl (FileUnreadable path), d))"

definition load_global_graph ::
  "(string \<Rightarrow> string) \<Rightarrow> int \<Rightarrow> memory_manager \<Rightarrow> 'f memory_disk \<Rightarrow>
   (memory_error + 'f memory_graph) \<times> 'f memory_disk" where
  "load_global_graph lower now mm d =
     (let path = mm_global mm in
      case load_cached lower mm path d of
        Some (g, d) \<Rightarrow> (Inr g, d)
      | None \<Rightarrow>
     case fmlookup (md_files d) path of
        None \<Rightarrow> (Inr graph_new, cache_loaded mm path graph_new d)
      | Some (GraphFile g, _) \<Rightarrow>
          if mg_version g = graph_version then
            (let (g', normalized) = normalize_graph_search_text lower g
             in (Inr g', cache_loaded mm path g' (if normalized then write_graph path g' d else d)))
          else (Inl (FileUnreadable path), d)
      | Some (StoreFile store, _) \<Rightarrow>
          (let g = from_legacy_store now store
           in (Inr g, cache_loaded mm path g (write_graph path g d)))
      | Some (BadFile, _) \<Rightarrow> (Inl (FileUnreadable path), d))"

section \<open>Inserting and updating\<close>

definition should_generate_embedding :: "memory_manager \<Rightarrow> 'f memory_entry \<Rightarrow> bool" where
  "should_generate_embedding mm e \<longleftrightarrow> \<not> mm_test mm \<and> en_category e \<noteq> Custom ''goal''"

definition with_generated :: "memory_manager \<Rightarrow> 'f embedder \<Rightarrow> 'f memory_entry \<Rightarrow> 'f memory_entry" where
  "with_generated mm em e = (if should_generate_embedding mm e then fst (ensure_embedding em e) else e)"

definition refresh_existing ::
  "bool \<Rightarrow> 'f embedder \<Rightarrow> 'f memory_entry \<Rightarrow> 'f memory_entry \<Rightarrow> 'f memory_entry" where
  "refresh_existing generate em e existing =
     (let content_changed = en_content existing \<noteq> en_content e;
          m = existing\<lparr>en_category := en_category e, en_content := en_content e, en_tags := en_tags e,
                en_updated_at := en_updated_at e, en_source := en_source e, en_trust := en_trust e,
                en_active := en_active e, en_superseded_by := en_superseded_by e,
                en_confidence := en_confidence e\<rparr>
      in if content_changed \<and> generate then fst (ensure_embedding em (m\<lparr>en_embedding := None\<rparr>))
         else if content_changed then m\<lparr>en_embedding := None\<rparr>
         else m)"

text \<open>The tags to drop and the tags to add are hash set differences; \<open>order\<close> lists them.\<close>

definition upsert_memory_in_graph ::
  "(string \<Rightarrow> string) \<Rightarrow> 'f embedder \<Rightarrow> (string fset \<Rightarrow> string list) \<Rightarrow> int \<Rightarrow> memory_manager \<Rightarrow>
   'f memory_entry \<Rightarrow> 'f memory_graph \<Rightarrow> 'f memory_graph \<times> string" where
  "upsert_memory_in_graph lower em order now mm entry g =
     (let i = en_id entry;
          generate = should_generate_embedding mm entry;
          e = with_generated mm em entry
      in case get_memory i g of
           None \<Rightarrow> add_memory lower now e g
         | Some existing \<Rightarrow>
             let old_tags = fset_of_list (en_tags existing);
                 new_tags = fset_of_list (en_tags e);
                 g = foldl (\<lambda>g tag. untag_memory lower i tag g) g (order (old_tags |-| new_tags));
                 g = foldl (\<lambda>g tag. tag_memory lower now i tag g) g (order (new_tags |-| old_tags))
             in (g\<lparr>mg_memories := update_existing (refresh_existing generate em e) i (mg_memories g)\<rparr>, i))"

definition upsert_project_memory where
  "upsert_project_memory lower em order now mm e d =
     (case load_project_graph lower em now mm d of
        (Inl err, d) \<Rightarrow> (Inl err, d)
      | (Inr g, d) \<Rightarrow>
          let (g, i) = upsert_memory_in_graph lower em order now mm e g
          in (Inr i, save_project_graph mm g d))"

definition upsert_global_memory where
  "upsert_global_memory lower em order now mm e d =
     (case load_global_graph lower now mm d of
        (Inl err, d) \<Rightarrow> (Inl err, d)
      | (Inr g, d) \<Rightarrow>
          let (g, i) = upsert_memory_in_graph lower em order now mm e g
          in (Inr i, save_global_graph mm g d))"

text \<open>The most similar active memory at or above the threshold, the first of equal ones; \<open>listed\<close> lists a map.\<close>

definition better_duplicate ::
  "'f embedder \<Rightarrow> 'f list \<Rightarrow> (string \<times> 'f) option \<Rightarrow> 'f memory_entry \<Rightarrow> (string \<times> 'f) option" where
  "better_duplicate em query best e =
     (case en_embedding e of
        None \<Rightarrow> best
      | Some emb \<Rightarrow>
          let sim = em_similarity em query emb
          in if em_ge em sim (em_dedup_threshold em) \<and>
                (case best of None \<Rightarrow> True | Some (_, s) \<Rightarrow> em_gt em sim s)
             then Some (en_id e, sim) else best)"

definition find_duplicate_in_graph ::
  "'f embedder \<Rightarrow> ((string, 'f memory_entry) fmap \<Rightarrow> 'f memory_entry list) \<Rightarrow> 'f memory_graph \<Rightarrow>
   'f list \<Rightarrow> string option" where
  "find_duplicate_in_graph em listed g query =
     map_option fst (foldl (better_duplicate em query) None (listed (active_memories g)))"

definition reinforce_in_graph ::
  "int \<Rightarrow> string \<Rightarrow> string \<Rightarrow> 'f memory_graph \<Rightarrow> 'f memory_graph" where
  "reinforce_in_graph now source i g =
     g\<lparr>mg_memories := update_existing (reinforce now source 0) i (mg_memories g)\<rparr>"

text \<open>The duplicate's id when the graph has one and that id is one of its memories.\<close>

definition duplicate_of ::
  "'f embedder \<Rightarrow> ((string, 'f memory_entry) fmap \<Rightarrow> 'f memory_entry list) \<Rightarrow> 'f memory_entry \<Rightarrow>
   'f memory_graph \<Rightarrow> string option" where
  "duplicate_of em listed e g =
     (case en_embedding e of
        None \<Rightarrow> None
      | Some emb \<Rightarrow>
          (case find_duplicate_in_graph em listed g emb of
             Some i \<Rightarrow> if i |\<in>| fmdom (mg_memories g) then Some i else None
           | None \<Rightarrow> None))"

definition source_or :: "string \<Rightarrow> 'f memory_entry \<Rightarrow> string" where
  "source_or fallback e = (case en_source e of Some s \<Rightarrow> s | None \<Rightarrow> fallback)"

definition remember_project ::
  "(string \<Rightarrow> string) \<Rightarrow> 'f embedder \<Rightarrow> ((string, 'f memory_entry) fmap \<Rightarrow> 'f memory_entry list) \<Rightarrow> int \<Rightarrow>
   memory_manager \<Rightarrow> 'f memory_entry \<Rightarrow> 'f memory_disk \<Rightarrow> (memory_error + string) \<times> 'f memory_disk" where
  "remember_project lower em listed now mm entry d =
     (let e = with_generated mm em entry in
      case load_project_graph lower em now mm d of
        (Inl err, d) \<Rightarrow> (Inl err, d)
      | (Inr g, d) \<Rightarrow>
     case duplicate_of em listed e g of
        Some i \<Rightarrow> (Inr i, save_project_graph mm (reinforce_in_graph now (source_or ''dedup'' e) i g) d)
      | None \<Rightarrow>
     case (if en_embedding e = None then (Inr graph_new, d) else load_global_graph lower now mm d) of
        (r, d) \<Rightarrow>
     case (case r of Inr global \<Rightarrow> map_option (\<lambda>i. (i, global)) (duplicate_of em listed e global) | Inl _ \<Rightarrow> None) of
        Some (i, global) \<Rightarrow>
          (Inr i, save_global_graph mm (reinforce_in_graph now (source_or ''cross-dedup'' e) i global) d)
      | None \<Rightarrow> let (g, i) = add_memory lower now e g in (Inr i, save_project_graph mm g d))"

definition remember_global ::
  "(string \<Rightarrow> string) \<Rightarrow> 'f embedder \<Rightarrow> ((string, 'f memory_entry) fmap \<Rightarrow> 'f memory_entry list) \<Rightarrow> int \<Rightarrow>
   memory_manager \<Rightarrow> 'f memory_entry \<Rightarrow> 'f memory_disk \<Rightarrow> (memory_error + string) \<times> 'f memory_disk" where
  "remember_global lower em listed now mm entry d =
     (let e = with_generated mm em entry in
      case load_global_graph lower now mm d of
        (Inl err, d) \<Rightarrow> (Inl err, d)
      | (Inr g, d) \<Rightarrow>
     case duplicate_of em listed e g of
        Some i \<Rightarrow> (Inr i, save_global_graph mm (reinforce_in_graph now (source_or ''dedup'' e) i g) d)
      | None \<Rightarrow>
     case (if en_embedding e = None then (Inr graph_new, d) else load_project_graph lower em now mm d) of
        (r, d) \<Rightarrow>
     case (case r of Inr project \<Rightarrow> map_option (\<lambda>i. (i, project)) (duplicate_of em listed e project) | Inl _ \<Rightarrow> None) of
        Some (i, project) \<Rightarrow>
          (Inr i, save_project_graph mm (reinforce_in_graph now (source_or ''cross-dedup'' e) i project) d)
      | None \<Rightarrow> let (g, i) = add_memory lower now e g in (Inr i, save_global_graph mm g d))"

section \<open>Tagging, linking and forgetting\<close>

text \<open>
  These try the project's graph first and then the global one: \<open>in_store\<close> runs a change on the
  first graph that satisfies the condition.
\<close>

definition in_store ::
  "(string \<Rightarrow> string) \<Rightarrow> 'f embedder \<Rightarrow> int \<Rightarrow> memory_manager \<Rightarrow> ('f memory_graph \<Rightarrow> bool) \<Rightarrow>
   ('f memory_graph \<Rightarrow> 'f memory_graph) \<Rightarrow> 'f memory_disk \<Rightarrow> (memory_error + bool) \<times> 'f memory_disk" where
  "in_store lower em now mm applies change d =
     (case load_project_graph lower em now mm d of
        (Inl err, d) \<Rightarrow> (Inl err, d)
      | (Inr g, d) \<Rightarrow>
          if applies g then (Inr True, save_project_graph mm (change g) d)
          else
            (case load_global_graph lower now mm d of
               (Inl err, d) \<Rightarrow> (Inl err, d)
             | (Inr g, d) \<Rightarrow>
                 if applies g then (Inr True, save_global_graph mm (change g) d) else (Inr False, d)))"

definition or_error :: "memory_error \<Rightarrow> (memory_error + bool) \<times> 'd \<Rightarrow> (memory_error + unit) \<times> 'd" where
  "or_error err r =
     (case r of (Inl e, d) \<Rightarrow> (Inl e, d) | (Inr True, d) \<Rightarrow> (Inr (), d) | (Inr False, d) \<Rightarrow> (Inl err, d))"

definition manager_tag_memory where
  "manager_tag_memory lower em now mm i tag d =
     or_error (MemoryNotFound i)
       (in_store lower em now mm (\<lambda>g. i |\<in>| fmdom (mg_memories g)) (tag_memory lower now i tag) d)"

definition manager_link_memories where
  "manager_link_memories lower em feq now mm a b weight d =
     or_error CrossStoreLink
       (in_store lower em now mm (\<lambda>g. a |\<in>| fmdom (mg_memories g) \<and> b |\<in>| fmdom (mg_memories g))
         (link_memories feq a b weight) d)"

definition forget where
  "forget lower em now mm i d =
     in_store lower em now mm (\<lambda>g. snd (remove_memory i g) \<noteq> None) (\<lambda>g. fst (remove_memory i g)) d"

section \<open>Reading\<close>

definition collect_memories_scoped ::
  "(string \<Rightarrow> string) \<Rightarrow> 'f embedder \<Rightarrow> ((string, 'f memory_entry) fmap \<Rightarrow> 'f memory_entry list) \<Rightarrow> int \<Rightarrow>
   memory_manager \<Rightarrow> memory_scope \<Rightarrow> 'f memory_disk \<Rightarrow> 'f memory_entry list \<times> 'f memory_disk" where
  "collect_memories_scoped lower em listed now mm scope d =
     (let (project, d) =
            (if includes_project scope then
               case load_project_graph lower em now mm d of
                 (Inr g, d) \<Rightarrow> (listed (mg_memories g), d) | (Inl _, d) \<Rightarrow> ([], d)
             else ([], d));
          (global, d) =
            (if includes_global scope then
               case load_global_graph lower now mm d of
                 (Inr g, d) \<Rightarrow> (listed (mg_memories g), d) | (Inl _, d) \<Rightarrow> ([], d)
             else ([], d))
      in (project @ global, d))"

definition search_scoped where
  "search_scoped lower em listed now mm query scope d =
     (let query_lower = normalize_search_text lower query
      in if query_lower = [] then ([], d)
         else
           let (entries, d) = collect_memories_scoped lower em listed now mm scope d
           in (filter (\<lambda>m. memory_matches_search lower m query_lower) entries, d))"

definition list_all_scoped where
  "list_all_scoped lower em listed now mm scope d =
     (let (entries, d) = collect_memories_scoped lower em listed now mm scope d
      in (sort_key (\<lambda>m. - en_updated_at m) entries, d))"

definition touch_graph :: "int \<Rightarrow> string set \<Rightarrow> 'f memory_graph \<Rightarrow> 'f memory_graph \<times> bool" where
  "touch_graph now ids g =
     (g\<lparr>mg_memories := fmmap (\<lambda>m. if en_id m \<in> ids then touch now m else m) (mg_memories g)\<rparr>,
      \<not> fmpred (\<lambda>_ m. en_id m \<notin> ids) (mg_memories g))"

definition touch_entries where
  "touch_entries lower em now mm ids d =
     (if ids = [] then (Inr (), d)
      else
        case load_project_graph lower em now mm d of
          (Inl err, d) \<Rightarrow> (Inl err, d)
        | (Inr project, d) \<Rightarrow>
            let (project, changed) = touch_graph now (set ids) project;
                d = (if changed then save_project_graph mm project d else d)
            in case load_global_graph lower now mm d of
                 (Inl err, d) \<Rightarrow> (Inl err, d)
               | (Inr global, d) \<Rightarrow>
                   let (global, changed) = touch_graph now (set ids) global
                   in (Inr (), if changed then save_global_graph mm global d else d))"

text \<open>Embeddings for the memories that have none; what was generated and what failed are counted.\<close>

definition backfill_graph :: "'f embedder \<Rightarrow> 'f memory_graph \<Rightarrow> 'f memory_graph \<times> nat \<times> nat" where
  "backfill_graph em g =
     (let missing = ffilter (\<lambda>i. case fmlookup (mg_memories g) i of Some m \<Rightarrow> en_embedding m = None | None \<Rightarrow> False)
            (fmdom (mg_memories g));
          generated = ffilter (\<lambda>i. case fmlookup (mg_memories g) i of
            Some m \<Rightarrow> em_embed em (en_content m) \<noteq> None | None \<Rightarrow> False) missing
      in (g\<lparr>mg_memories := fmmap (\<lambda>m. fst (ensure_embedding em m)) (mg_memories g)\<rparr>,
          fcard generated, fcard (missing |-| generated)))"

definition backfill_embeddings where
  "backfill_embeddings lower em now mm d =
     (let (n1, f1, d) = (case load_project_graph lower em now mm d of
            (Inl _, d) \<Rightarrow> (0, 0, d)
          | (Inr g, d) \<Rightarrow>
              let (g, n, f) = backfill_graph em g in (n, f, if n > 0 then save_project_graph mm g d else d));
          (n2, f2, d) = (case load_global_graph lower now mm d of
            (Inl _, d) \<Rightarrow> (0, 0, d)
          | (Inr g, d) \<Rightarrow>
              let (g, n, f) = backfill_graph em g in (n, f, if n > 0 then save_global_graph mm g d else d))
      in ((n1 + n2, f1 + f2), d))"

definition graph_stats where
  "graph_stats lower em now mm d =
     (case load_project_graph lower em now mm d of
        (Inl err, d) \<Rightarrow> (Inl err, d)
      | (Inr p, d) \<Rightarrow>
     case load_global_graph lower now mm d of
        (Inl err, d) \<Rightarrow> (Inl err, d)
      | (Inr g, d) \<Rightarrow>
          (Inr (fcard (fmdom (mg_memories p)) + fcard (fmdom (mg_memories g)),
                fcard (fmdom (mg_tags p)) + fcard (fmdom (mg_tags g)),
                edge_count p + edge_count g,
                fcard (fmdom (mg_clusters p)) + fcard (fmdom (mg_clusters g))), d))"

end
