(* ===== verification/MemoryManagerProperties.thy ===== *)
theory MemoryManagerProperties
  imports MemoryManager
begin

text \<open>
  What the memory manager promises: inserting or updating a memory in place, the consistency of the
  graphs on disk and in the cache (exact without updates in place, counts perhaps too high with them), finding
  what was remembered, and what becomes of legacy notes.
\<close>

section \<open>Updating in place\<close>

text \<open>
  A memory's edges into tag nodes agree with its list of tags: one tag edge for each of its tags and
  no other edge into any tag.
\<close>

definition tags_agree :: "string \<Rightarrow> string set \<Rightarrow> 'f memory_graph \<Rightarrow> bool" where
  "tags_agree i tags g \<longleftrightarrow>
     (\<forall>name. filter (\<lambda>e. ed_target e = tag_id_of name) (get_edges i g) =
        (if name \<in> tags then [\<lparr>ed_target = tag_id_of name, ed_kind = HasTag\<rparr>] else []))"

lemma tag_id_inj [simp]: "tag_id_of a = tag_id_of b \<longleftrightarrow> a = b"
  by (simp add: tag_id_of_def)

lemma tags_agree_cong:
  "get_edges i h = get_edges i g \<Longrightarrow> tags_agree i tags h = tags_agree i tags g"
  by (simp add: tags_agree_def)

lemma tags_agree_untag:
  assumes "tags_agree i tags g"
  shows "tags_agree i (tags - {name}) (untag_memory lower i name g)"
proof -
  have f: "filter (\<lambda>e. ed_target e = tag_id_of n) (filter (\<lambda>e. \<not> is_tag_edge (tag_id_of name) e) es) =
      filter (\<lambda>e. \<not> is_tag_edge (tag_id_of name) e) (filter (\<lambda>e. ed_target e = tag_id_of n) es)" for n and es :: "'a edge list"
    by (simp add: conj_commute)
  show ?thesis
    unfolding tags_agree_def edges_untag
  proof
    fix n
    have "filter (\<lambda>e. ed_target e = tag_id_of n) (get_edges i g) =
        (if n \<in> tags then [\<lparr>ed_target = tag_id_of n, ed_kind = HasTag\<rparr>] else [])"
      using assms by (simp add: tags_agree_def)
    then show "filter (\<lambda>e. ed_target e = tag_id_of n)
        (if i = i then filter (\<lambda>e. \<not> is_tag_edge (tag_id_of name) e) (get_edges i g) else get_edges i g) =
        (if n \<in> tags - {name} then [\<lparr>ed_target = tag_id_of n, ed_kind = HasTag\<rparr>] else [])"
      unfolding f if_True simp_thms by (auto simp: is_tag_edge_def)
  qed
qed

lemma graph_inv_untag:
  "graph_inv g \<Longrightarrow> tags_agree i tags g \<Longrightarrow> name \<in> tags \<Longrightarrow> graph_inv (untag_memory lower i name g)"
  by (rule graph_inv_untag_once) (simp_all add: tags_agree_def)

lemma edges_tag:
  "get_edges s (tag_memory lower now i name g) =
     (if s = i \<and> \<not> list_ex (is_tag_edge (tag_id_of name)) (get_edges i g)
      then get_edges i g @ [\<lparr>ed_target = tag_id_of name, ed_kind = HasTag\<rparr>] else get_edges s g)"
proof -
  have e: "get_edges s (ensure_tag now name g) = get_edges s g" for s by (simp add: get_edges_def)
  show ?thesis
    by (simp add: tag_memory_def Let_def e)
      (simp add: get_edges_def bump_tag_def add_edge_internal_def get_or_entry_upd ensure_tag_def)
qed

lemma tags_agree_tag:
  assumes "tags_agree i tags g" and "name \<notin> tags"
  shows "tags_agree i (insert name tags) (tag_memory lower now i name g)"
proof -
  have "\<not> list_ex (is_tag_edge (tag_id_of name)) (get_edges i g)"
    using assms by (auto simp: tags_agree_def list_ex_iff is_tag_edge_def filter_empty_conv dest!: spec [of _ name])
  then show ?thesis using assms by (auto simp: tags_agree_def edges_tag)
qed

lemma untag_all:
  assumes "graph_inv g" "tags_agree i tags g" "distinct names" "set names \<subseteq> tags"
  shows "graph_inv (foldl (\<lambda>g tag. untag_memory lower i tag g) g names) \<and>
    tags_agree i (tags - set names) (foldl (\<lambda>g tag. untag_memory lower i tag g) g names)"
  using assms
proof (induction names arbitrary: g tags)
  case (Cons n ns)
  have "graph_inv (untag_memory lower i n g)"
    by (rule graph_inv_untag [OF Cons.prems(1,2)]) (use Cons.prems(4) in simp)
  moreover have "tags_agree i (tags - {n}) (untag_memory lower i n g)"
    using tags_agree_untag Cons.prems(2) by blast
  ultimately show ?case using Cons.IH [of "untag_memory lower i n g" "tags - {n}"] Cons.prems
    by (auto simp: Diff_insert2 [symmetric])
qed simp

lemma tag_all:
  assumes "graph_inv g" "tags_agree i tags g" "distinct names" "set names \<inter> tags = {}"
  shows "graph_inv (foldl (\<lambda>g tag. tag_memory lower now i tag g) g names) \<and>
    tags_agree i (tags \<union> set names) (foldl (\<lambda>g tag. tag_memory lower now i tag g) g names)"
  using assms
proof (induction names arbitrary: g tags)
  case (Cons n ns)
  have "graph_inv (tag_memory lower now i n g)" using Cons.prems by (auto intro: op_inv)
  moreover have "tags_agree i (insert n tags) (tag_memory lower now i n g)"
    using tags_agree_tag Cons.prems(2,4) by auto
  ultimately show ?case using Cons.IH [of "tag_memory lower now i n g" "insert n tags"] Cons.prems by auto
qed simp

lemma memories_untag:
  "fmlookup (mg_memories (untag_memory lower i name g)) k =
     (if k = i then map_option (\<lambda>m. refresh_search_text lower (m\<lparr>en_tags := filter (\<lambda>t. t \<noteq> name) (en_tags m)\<rparr>))
        (fmlookup (mg_memories g) i) else fmlookup (mg_memories g) k)"
  by (simp add: untag_memory_def Let_def lookup_update_existing)

text \<open>What tagging and untagging leave of an entry: everything but its tags and search text.\<close>

definition entry_core :: "'f memory_entry \<Rightarrow> 'f memory_entry" where
  "entry_core e = e\<lparr>en_tags := [], en_search_text := []\<rparr>"

lemma core_refresh [simp]:
  "entry_core (refresh_search_text lower e) = entry_core e" "entry_core (e\<lparr>en_tags := ts\<rparr>) = entry_core e"
  by (simp_all add: entry_core_def refresh_search_text_def)

lemma core_untag:
  "map_option entry_core (fmlookup (mg_memories (untag_memory lower i name g)) k) =
   map_option entry_core (fmlookup (mg_memories g) k)"
  "k \<noteq> i \<Longrightarrow> fmlookup (mg_memories (untag_memory lower i name g)) k = fmlookup (mg_memories g) k"
  by (simp_all add: memories_untag option.map_comp comp_def)

lemma core_tag:
  "map_option entry_core (fmlookup (mg_memories (tag_memory lower now i name g)) k) =
   map_option entry_core (fmlookup (mg_memories g) k)"
  "k \<noteq> i \<Longrightarrow> fmlookup (mg_memories (tag_memory lower now i name g)) k = fmlookup (mg_memories g) k"
  by (auto simp: tag_memory_def Let_def lookup_update_existing option.map_comp comp_def
      intro!: option.map_cong0 split: if_splits)

lemma core_all:
  "map_option entry_core (fmlookup (mg_memories (foldl (\<lambda>g tag. untag_memory lower i tag g) g names)) k) =
   map_option entry_core (fmlookup (mg_memories g) k)"
  "map_option entry_core (fmlookup (mg_memories (foldl (\<lambda>g tag. tag_memory lower now i tag g) g names)) k) =
   map_option entry_core (fmlookup (mg_memories g) k)"
  "k \<noteq> i \<Longrightarrow> fmlookup (mg_memories (foldl (\<lambda>g tag. untag_memory lower i tag g) g names)) k = fmlookup (mg_memories g) k"
  "k \<noteq> i \<Longrightarrow> fmlookup (mg_memories (foldl (\<lambda>g tag. tag_memory lower now i tag g) g names)) k = fmlookup (mg_memories g) k"
  by (induction names arbitrary: g) (simp_all add: core_untag core_tag)

lemma generated_fields [simp]:
  "en_id (with_generated mm em e) = en_id e" "en_content (with_generated mm em e) = en_content e"
  "en_tags (with_generated mm em e) = en_tags e" "en_category (with_generated mm em e) = en_category e"
  "en_superseded_by (with_generated mm em e) = en_superseded_by e"
  "en_updated_at (with_generated mm em e) = en_updated_at e"
  by (simp_all add: with_generated_def ensure_embedding_def split: option.split)

lemma refresh_existing_fields:
  "en_content (refresh_existing generate em e m) = en_content e"
  "en_tags (refresh_existing generate em e m) = en_tags e"
  "en_category (refresh_existing generate em e m) = en_category e"
  "en_updated_at (refresh_existing generate em e m) = en_updated_at e"
  "en_created_at (refresh_existing generate em e m) = en_created_at m"
  "en_strength (refresh_existing generate em e m) = en_strength m"
  "en_access_count (refresh_existing generate em e m) = en_access_count m"
  by (simp_all add: refresh_existing_def ensure_embedding_def Let_def split: option.split)

lemma memories_add_memory:
  "mg_memories (fst (add_memory lower now e g)) = fmupd (en_id e) (refresh_search_text lower e) (mg_memories g)"
proof -
  have "mg_memories (foldl (attach_tag now i) g names) = mg_memories g" for i names and g :: "'a memory_graph"
    by (induction names arbitrary: g) (simp_all add: attach_tag_def)
  then show ?thesis
    by (simp add: add_memory_def Let_def refresh_search_text_def split: option.split)
qed

lemma snd_add_memory [simp]: "snd (add_memory lower now e g) = en_id e"
  by (simp add: add_memory_def Let_def refresh_search_text_def)

lemma edges_attach_tags:
  "get_edges s (foldl (attach_tag now i) g names) =
     (if s = i then get_edges i g @ map (\<lambda>n. \<lparr>ed_target = tag_id_of n, ed_kind = HasTag\<rparr>) names else get_edges s g)"
proof -
  have one: "get_edges s (attach_tag now i g n) =
      (if s = i then get_edges i g @ [\<lparr>ed_target = tag_id_of n, ed_kind = HasTag\<rparr>] else get_edges s g)" for s n g
    by (simp add: attach_tag_def get_edges_def add_edge_internal_def get_or_entry_upd ensure_tag_def bump_tag_def)
  show ?thesis by (induction names arbitrary: g) (simp_all add: one)
qed

text \<open>A new memory without repeated tags agrees with its edges.\<close>

lemma add_memory_agrees:
  assumes "get_edges (en_id e) g = []" and "distinct (en_tags e)" and "en_superseded_by e = None"
  shows "tags_agree (en_id e) (set (en_tags e)) (fst (add_memory lower now e g))"
proof -
  have "get_edges (en_id e) (fst (add_memory lower now e g)) =
      map (\<lambda>n. \<lparr>ed_target = tag_id_of n, ed_kind = HasTag\<rparr>) (en_tags e)"
    using assms edges_attach_tags [of "en_id e" now "en_id e" g "en_tags e"]
    by (simp add: add_memory_def Let_def refresh_search_text_def get_edges_def)
  moreover have "filter (\<lambda>n. n = name) ts = (if name \<in> set ts then [name] else [])" if "distinct ts" for name and ts :: "string list"
    using that by (induction ts) auto
  ultimately show ?thesis
    using assms(2) by (simp add: tags_agree_def filter_map comp_def)
qed

text \<open>What is stored of the memory does not depend on the graph it was put into.\<close>

lemma upsert_stored:
  "\<exists>m. get_memory (en_id e) (fst (upsert_memory_in_graph lower em order now mm e g)) = Some m \<and>
     en_content m = en_content e \<and> en_category m = en_category e \<and> en_tags m = en_tags e"
proof (cases "get_memory (en_id e) g")
  case None
  then show ?thesis
    by (simp add: upsert_memory_in_graph_def Let_def get_memory_def memories_add_memory refresh_search_text_def)
next
  case (Some old)
  have "\<exists>z. fmlookup (mg_memories
      (foldl (\<lambda>g tag. tag_memory lower now (en_id e) tag g)
        (foldl (\<lambda>g tag. untag_memory lower (en_id e) tag g) g ts) us)) (en_id e) = Some z" for ts us
  proof -
    have "map_option entry_core (fmlookup (mg_memories
      (foldl (\<lambda>g tag. tag_memory lower now (en_id e) tag g)
        (foldl (\<lambda>g tag. untag_memory lower (en_id e) tag g) g ts) us)) (en_id e)) = Some (entry_core old)"
      using Some unfolding core_all by (simp add: get_memory_def)
    then show ?thesis by auto
  qed
  with Some show ?thesis
    by (fastforce simp: upsert_memory_in_graph_def Let_def get_memory_def lookup_update_existing refresh_existing_fields)
qed

text \<open>
  Inserting or updating a memory whose tag edges agree with its tags leaves the graph
  consistent, whatever order the hash sets of tags are iterated in: the memory has the new
  content, category and tags (and edges that agree with them), an existing one keeps its
  creation time, strength and access count, and no other memory changes.
\<close>

theorem upsert_correct:
  assumes inv: "graph_inv g"
    and agree: "case get_memory (en_id e) g of None \<Rightarrow> True | Some m \<Rightarrow> tags_agree (en_id e) (set (en_tags m)) g"
    and order: "\<And>s. distinct (order s) \<and> set (order s) = fset s"
  shows "let (h, i) = upsert_memory_in_graph lower em order now mm e g
    in i = en_id e \<and> graph_inv h \<and> fmdrop i (mg_memories h) = fmdrop i (mg_memories g) \<and>
       (case get_memory i h of
          None \<Rightarrow> False
        | Some m \<Rightarrow> en_content m = en_content e \<and> en_category m = en_category e \<and> en_tags m = en_tags e \<and>
            (case get_memory i g of
               None \<Rightarrow> True
             | Some old \<Rightarrow> tags_agree i (set (en_tags e)) h \<and> en_created_at m = en_created_at old \<and>
                 en_strength m = en_strength old \<and> en_access_count m = en_access_count old))"
proof (cases "get_memory (en_id e) g")
  case None
  let ?e = "with_generated mm em e"
  have up: "upsert_memory_in_graph lower em order now mm e g = (fst (add_memory lower now ?e g), en_id e)"
    using None by (simp add: upsert_memory_in_graph_def Let_def prod_eq_iff)
  have "graph_inv (fst (add_memory lower now ?e g))" using inv by (rule graph_inv_add_memory)
  then show ?thesis
    unfolding up using None
    by (simp add: get_memory_def memories_add_memory refresh_search_text_def fmdrop_fmupd_same)
next
  case (Some old)
  let ?i = "en_id e" and ?e = "with_generated mm em e"
  let ?old = "fset_of_list (en_tags old)" and ?new = "fset_of_list (en_tags e)"
  let ?u = "foldl (\<lambda>g tag. untag_memory lower ?i tag g) g (order (?old |-| ?new))"
  let ?t = "foldl (\<lambda>g tag. tag_memory lower now ?i tag g) ?u (order (?new |-| ?old))"
  let ?f = "refresh_existing (should_generate_embedding mm e) em ?e"
  let ?h = "?t\<lparr>mg_memories := update_existing ?f ?i (mg_memories ?t)\<rparr>"
  have up: "upsert_memory_in_graph lower em order now mm e g = (?h, ?i)"
    using Some by (simp add: upsert_memory_in_graph_def Let_def)
  have agree': "tags_agree ?i (set (en_tags old)) g" using agree Some by simp
  have sets: "set (order (?old |-| ?new)) = set (en_tags old) - set (en_tags e)"
    "set (order (?new |-| ?old)) = set (en_tags e) - set (en_tags old)"
    "distinct (order (?old |-| ?new))" "distinct (order (?new |-| ?old))"
    using order by (simp_all add: fset_of_list.rep_eq)
  have u: "graph_inv ?u" "tags_agree ?i (set (en_tags old) - (set (en_tags old) - set (en_tags e))) ?u"
    using untag_all [OF inv agree' sets(3), of lower] sets(1) by auto
  have disjoint: "set (order (?new |-| ?old)) \<inter> (set (en_tags old) - (set (en_tags old) - set (en_tags e))) = {}"
    using sets(2) by auto
  have "set (en_tags old) - (set (en_tags old) - set (en_tags e)) \<union> set (order (?new |-| ?old)) = set (en_tags e)"
    using sets(2) by auto
  then have t: "graph_inv ?t" "tags_agree ?i (set (en_tags e)) ?t"
    using tag_all [OF u sets(4) disjoint, of lower now] by auto
  have h: "graph_inv ?h" "tags_agree ?i (set (en_tags e)) ?h"
    using t graph_inv_cong [OF t(1)] tags_agree_cong [of ?i ?h ?t] by (simp_all add: get_edges_def)
  have "map_option entry_core (fmlookup (mg_memories ?t) ?i) = Some (entry_core old)"
    using Some unfolding core_all by (simp add: get_memory_def)
  then obtain m where m: "fmlookup (mg_memories ?t) ?i = Some m" "entry_core m = entry_core old" by auto
  have kept: "en_created_at m = en_created_at old" "en_strength m = en_strength old" "en_access_count m = en_access_count old"
    using arg_cong [OF m(2), of en_created_at] arg_cong [OF m(2), of en_strength]
      arg_cong [OF m(2), of en_access_count] by (simp_all add: entry_core_def)
  have found: "get_memory ?i ?h = Some (?f m)"
    using m(1) by (simp add: get_memory_def lookup_update_existing)
  have other: "fmdrop ?i (mg_memories ?h) = fmdrop ?i (mg_memories g)"
    by (rule fmap_ext) (simp add: lookup_update_existing core_all(3,4))
  show ?thesis
    unfolding up Let_def prod.case found option.case Some
    using h other kept by (simp add: refresh_existing_fields)
qed

definition sample_entry_2 :: "string list \<Rightarrow> string \<Rightarrow> nat memory_entry" where
  "sample_entry_2 tags content = (entry_new id 1 ''goal:x'' 0 (Custom ''goal'') content)\<lparr>en_tags := tags\<rparr>"

definition sample_embedder :: "nat embedder" where
  "sample_embedder = \<lparr>em_embed = (\<lambda>_. None), em_similarity = (\<lambda>_ _. 0), em_ge = (\<ge>), em_gt = (>),
     em_dedup_threshold = 1, em_one = 1\<rparr>"

theorem upsert_correct_witness:
  "let g = fst (add_memory id 0 (sample_entry_2 [''goal'', ''old''] ''a'') graph_new);
       h = fst (upsert_memory_in_graph id sample_embedder sorted_list_of_fset 5
         \<lparr>mm_project = None, mm_global = ''g'', mm_test = True\<rparr> (sample_entry_2 [''new'', ''goal''] ''b'') g)
   in graph_inv h \<and> map_option en_content (get_memory ''goal:x'' h) = Some ''b'' \<and>
      tags_agree ''goal:x'' {''new'', ''goal''} h"
proof -
  let ?e = "sample_entry_2 [''goal'', ''old''] ''a''"
  let ?g = "fst (add_memory id 0 ?e graph_new)"
  have inv: "graph_inv ?g" by (rule graph_inv_add_memory [OF graph_inv_new])
  have e: "en_id (sample_entry_2 ts c) = ''goal:x''" "en_tags (sample_entry_2 ts c) = ts"
    "en_content (sample_entry_2 ts c) = c" "en_superseded_by (sample_entry_2 ts c) = None" for ts c
    by (simp_all add: sample_entry_2_def entry_new_def)
  have agree: "tags_agree ''goal:x'' {''goal'', ''old''} ?g"
    using add_memory_agrees [of ?e graph_new id 0] by (simp add: e get_edges_def graph_new_def)
  have old: "get_memory ''goal:x'' ?g = Some (refresh_search_text id ?e)"
    by (simp add: get_memory_def memories_add_memory e)
  have a: "case get_memory (en_id (sample_entry_2 [''new'', ''goal''] ''b'')) ?g of None \<Rightarrow> True
    | Some m \<Rightarrow> tags_agree (en_id (sample_entry_2 [''new'', ''goal''] ''b'')) (set (en_tags m)) ?g"
    unfolding e old using agree by (simp add: e refresh_search_text_def)
  have o: "distinct (sorted_list_of_fset s) \<and> set (sorted_list_of_fset s) = fset s" for s :: "string fset"
    by (simp add: sorted_list_of_fset.rep_eq)
  show ?thesis
    using upsert_correct [OF inv a o, of id sample_embedder 5 "\<lparr>mm_project = None, mm_global = ''g'', mm_test = True\<rparr>"]
    unfolding Let_def e by (auto simp: old split: prod.splits option.splits)
qed

section \<open>What updating keeps\<close>

text \<open>
  An update takes tags away from memories that may have them more than once, and lowers their counts by one
  only. What is kept then: the reverse index is exact, no tag edge goes uncounted, exactly the edges into tags
  are tag edges, no memory has the id of a tag, and a memory has an edge into each of its tags.
\<close>

definition plain_id :: "string \<Rightarrow> bool" where
  "plain_id i \<longleftrightarrow> \<not> prefix ''tag:'' i"

definition tag_edge :: "string \<Rightarrow> 'f edge" where
  "tag_edge name = \<lparr>ed_target = tag_id_of name, ed_kind = HasTag\<rparr>"

definition edges_inv :: "'f memory_graph \<Rightarrow> bool" where
  "edges_inv g \<longleftrightarrow> index_ok g \<and> (\<forall>t. edge_degree t (mg_edges g) \<le> tag_count t g) \<and>
     (\<forall>s. \<forall>e \<in> set (get_edges s g). ed_kind e = HasTag \<longleftrightarrow> \<not> plain_id (ed_target e))"

definition tags_have :: "'f memory_graph \<Rightarrow> bool" where
  "tags_have g \<longleftrightarrow> (\<forall>i m. fmlookup (mg_memories g) i = Some m \<longrightarrow>
     plain_id i \<and> (\<forall>n \<in> set (en_tags m). tag_edge n \<in> set (get_edges i g)))"

definition loose_inv :: "'f memory_graph \<Rightarrow> bool" where
  "loose_inv g \<longleftrightarrow> edges_inv g \<and> tags_have g"

lemma tag_not_plain [simp]: "\<not> plain_id (tag_id_of n)"
  by (simp add: plain_id_def tag_id_of_def)

lemma tag_edge_iff: "is_tag_edge (tag_id_of n) e \<longleftrightarrow> e = tag_edge n"
  by (cases e) (simp add: is_tag_edge_def tag_edge_def)

lemma edges_inv_cong:
  "edges_inv g \<Longrightarrow> mg_edges h = mg_edges g \<Longrightarrow> mg_reverse h = mg_reverse g \<Longrightarrow> mg_tags h = mg_tags g \<Longrightarrow> edges_inv h"
  by (simp add: edges_inv_def index_ok_def get_edges_def get_incoming_def tag_count_def)

lemma edges_inv_memories [simp]: "edges_inv (g\<lparr>mg_memories := m\<rparr>) = edges_inv g"
  using edges_inv_cong [of g "g\<lparr>mg_memories := m\<rparr>"] edges_inv_cong [of "g\<lparr>mg_memories := m\<rparr>" g] by auto

lemma edges_inv_internal: "edges_inv g \<Longrightarrow> k \<noteq> HasTag \<Longrightarrow> plain_id b \<Longrightarrow> edges_inv (add_edge_internal a b k g)"
  by (auto simp: edges_inv_def edges_add_internal tag_count_def intro: index_ok_add_internal)

lemma edges_inv_attach: "edges_inv g \<Longrightarrow> edges_inv (attach_tag now i g name)"
proof -
  assume g: "edges_inv g"
  let ?g = "ensure_tag now name g" and ?t = "tag_id_of name"
  have e: "edges_inv ?g" using g
    by (auto simp: edges_inv_def index_ok_def get_edges_def get_incoming_def)
  have dom: "?t |\<in>| fmdom (mg_tags ?g)" by (simp add: dom_ensure)
  have c: "tag_count t (add_edge_internal i ?t HasTag ?g) = tag_count t ?g" for t by (simp add: tag_count_def)
  have be: "get_edges s (bump_tag f t h) = get_edges s h" for s f t and h :: "'a memory_graph"
    by (simp add: get_edges_def bump_tag_def)
  have "index_ok (bump_tag Suc ?t (add_edge_internal i ?t HasTag ?g))"
    using index_ok_add_internal [of ?g i ?t HasTag] e by (simp add: edges_inv_def index_ok_def get_edges_def get_incoming_def)
  then show ?thesis
    using e dom be by (auto simp: edges_inv_def attach_tag_def tag_count_bump c edges_add_internal)
qed

lemma edges_inv_attach_all: "edges_inv g \<Longrightarrow> edges_inv (foldl (attach_tag now i) g names)"
  by (induction names arbitrary: g) (simp_all add: edges_inv_attach)

lemma tags_have_mono:
  assumes "tags_have g" "\<And>i. map_option en_tags (fmlookup (mg_memories h) i) = map_option en_tags (fmlookup (mg_memories g) i)"
    "\<And>i. set (get_edges i g) \<subseteq> set (get_edges i h)"
  shows "tags_have h"
  unfolding tags_have_def
proof (intro allI impI)
  fix i m
  assume "fmlookup (mg_memories h) i = Some m"
  then obtain m' where "fmlookup (mg_memories g) i = Some m'" "en_tags m' = en_tags m"
    using assms(2) [of i] by (cases "fmlookup (mg_memories g) i") auto
  then show "plain_id i \<and> (\<forall>n \<in> set (en_tags m). tag_edge n \<in> set (get_edges i h))"
    using assms(1,3) unfolding tags_have_def by (metis subsetD)
qed

lemma loose_new: "loose_inv graph_new"
  by (simp add: loose_inv_def edges_inv_def tags_have_def index_ok_def graph_new_def get_edges_def get_incoming_def
      edge_degree_def)

lemma add_memory_edges:
  "set (get_edges s (fst (add_memory lower now e g))) =
     set (get_edges s g) \<union> (if s = en_id e then tag_edge ` set (en_tags e) else {}) \<union>
     (case en_superseded_by e of
        Some newer \<Rightarrow> if s = newer then {\<lparr>ed_target = en_id e, ed_kind = Supersedes\<rparr>} else {}
      | None \<Rightarrow> {})"
proof -
  have r: "get_edges s (g\<lparr>mg_memories := m\<rparr>) = get_edges s g" for g :: "'a memory_graph" and m by (simp add: get_edges_def)
  show ?thesis
    by (auto simp: add_memory_def Let_def refresh_search_text_def r edges_attach_tags edges_add_internal tag_edge_def
        split: option.split)
qed

lemma edges_inv_add: "edges_inv g \<Longrightarrow> plain_id (en_id e) \<Longrightarrow> edges_inv (fst (add_memory lower now e g))"
  by (auto simp: add_memory_def Let_def refresh_search_text_def split: option.split
      intro!: edges_inv_internal edges_inv_attach_all)

lemma tags_have_added:
  assumes "tags_have g" "plain_id (en_id e)" "mg_memories h = fmupd (en_id e) e' (mg_memories g)" "en_tags e' = en_tags e"
    and "\<And>s. set (get_edges s g) \<union> (if s = en_id e then tag_edge ` set (en_tags e) else {}) \<subseteq> set (get_edges s h)"
  shows "tags_have h"
  unfolding tags_have_def
proof (intro allI impI)
  fix i m
  assume m: "fmlookup (mg_memories h) i = Some m"
  show "plain_id i \<and> (\<forall>n \<in> set (en_tags m). tag_edge n \<in> set (get_edges i h))"
  proof (cases "i = en_id e")
    case True
    then have "en_tags m = en_tags e" using m assms(3,4) by auto
    then show ?thesis using True assms(2) assms(5) [of i] by auto
  next
    case False
    then have "fmlookup (mg_memories g) i = Some m" using m assms(3) by simp
    then have "plain_id i \<and> (\<forall>n \<in> set (en_tags m). tag_edge n \<in> set (get_edges i g))"
      using assms(1) by (simp add: tags_have_def)
    then show ?thesis using assms(5) [of i] by auto
  qed
qed

lemma loose_add: "loose_inv g \<Longrightarrow> plain_id (en_id e) \<Longrightarrow> loose_inv (fst (add_memory lower now e g))"
  using tags_have_added [of g e "fst (add_memory lower now e g)" "refresh_search_text lower e"]
  by (auto simp: loose_inv_def edges_inv_add memories_add_memory add_memory_edges refresh_search_text_def)

lemma memories_attach_all: "mg_memories (foldl (attach_tag now i) g names) = mg_memories g"
  by (induction names arbitrary: g) (simp_all add: attach_tag_def)

lemma loose_migrate:
  assumes "loose_inv g" "plain_id (en_id e)"
  shows "loose_inv (migrate_entry now g e)"
proof -
  let ?g = "g\<lparr>mg_memories := fmupd (en_id e) e (mg_memories g)\<rparr>"
  have r: "get_edges s ?g = get_edges s g" for s by (simp add: get_edges_def)
  have edges: "set (get_edges s g) \<union> (if s = en_id e then tag_edge ` set (en_tags e) else {}) \<subseteq>
      set (get_edges s (migrate_entry now g e))" for s
    by (auto simp: migrate_entry_def Let_def edges_attach_tags edges_add_internal r tag_edge_def split: option.split)
  have mem: "mg_memories (migrate_entry now g e) = fmupd (en_id e) e (mg_memories g)"
    by (simp add: migrate_entry_def Let_def memories_attach_all split: option.split)
  have "edges_inv (migrate_entry now g e)"
    using assms by (auto simp: loose_inv_def migrate_entry_def Let_def split: option.split
        intro!: edges_inv_internal edges_inv_attach_all)
  moreover have "tags_have (migrate_entry now g e)"
    using tags_have_added [OF _ assms(2) mem refl edges] assms(1) by (simp add: loose_inv_def)
  ultimately show ?thesis by (simp add: loose_inv_def)
qed

lemma loose_memories:
  assumes "loose_inv g" "\<And>i. map_option en_tags (fmlookup ms i) = map_option en_tags (fmlookup (mg_memories g) i)"
  shows "loose_inv (g\<lparr>mg_memories := ms\<rparr>)"
  using assms tags_have_mono [of g "g\<lparr>mg_memories := ms\<rparr>"] by (simp add: loose_inv_def get_edges_def)

lemma loose_tag:
  assumes g: "loose_inv g" and i: "i |\<in>| fmdom (mg_memories g)"
  shows "loose_inv (tag_memory lower now i name g)"
proof -
  let ?h = "tag_memory lower now i name g" and ?t = "tag_id_of name"
  have sub: "set (get_edges s g) \<subseteq> set (get_edges s ?h)" and new: "tag_edge name \<in> set (get_edges i ?h)" for s
    by (auto simp: edges_tag list_ex_iff tag_edge_iff) (simp add: tag_edge_def)
  have "edges_inv (attach_tag now i g name)" using g by (simp add: loose_inv_def edges_inv_attach)
  moreover have "edges_inv (ensure_tag now name g)"
    using g by (auto simp: loose_inv_def edges_inv_def index_ok_def get_edges_def get_incoming_def)
  ultimately have "edges_inv ?h"
    by (auto simp: tag_memory_def Let_def attach_tag_def)
  moreover have "tags_have ?h"
    unfolding tags_have_def
  proof (intro allI impI)
    fix k m
    assume m: "fmlookup (mg_memories ?h) k = Some m"
    then obtain m' where m': "fmlookup (mg_memories g) k = Some m'"
      using core_tag(1) [of lower now i name g k] by (cases "fmlookup (mg_memories g) k") auto
    have old: "plain_id k" "\<forall>n \<in> set (en_tags m'). tag_edge n \<in> set (get_edges k ?h)"
      using g m' sub [of k] unfolding loose_inv_def tags_have_def by (blast, blast)
    have "set (en_tags m) \<subseteq> set (en_tags m') \<union> (if k = i then {name} else {})"
      using m m' by (auto simp: tag_memory_def Let_def lookup_update_existing refresh_search_text_def split: if_splits)
    then show "plain_id k \<and> (\<forall>n \<in> set (en_tags m). tag_edge n \<in> set (get_edges k ?h))"
      using old new by (auto split: if_splits)
  qed
  ultimately show ?thesis by (simp add: loose_inv_def)
qed

lemma loose_untag:
  assumes g: "loose_inv g" and m: "fmlookup (mg_memories g) i = Some m" "name \<in> set (en_tags m)"
  shows "loose_inv (untag_memory lower i name g)"
proof -
  let ?h = "untag_memory lower i name g" and ?t = "tag_id_of name"
  have typed: "ed_kind e = HasTag \<longleftrightarrow> \<not> plain_id (ed_target e)" if "e \<in> set (get_edges s g)" for s e
    using g that by (simp add: loose_inv_def edges_inv_def)
  have edge: "tag_edge name \<in> set (get_edges i g)" using g m by (auto simp: loose_inv_def tags_have_def)
  then have "filter (is_tag_edge ?t) (get_edges i g) \<noteq> []" by (auto simp: filter_empty_conv tag_edge_iff)
  then have te: "1 \<le> tag_edges ?t (get_edges i g)" unfolding tag_edges_def by (cases "filter (is_tag_edge ?t) (get_edges i g)") auto
  have targets: "ed_target ` set (get_edges i ?h) = ed_target ` set (get_edges i g) - {?t}"
    using typed [of _ i] by (auto simp: edges_untag is_tag_edge_def)
  have "index_ok ?h"
    using g targets by (auto simp: loose_inv_def edges_inv_def index_ok_def incoming_untag edges_untag)
  moreover have "edge_degree t (mg_edges ?h) \<le> tag_count t ?h" for t
  proof -
    have "edge_degree t (mg_edges g) \<le> tag_count t g" using g by (simp add: loose_inv_def edges_inv_def)
    then show ?thesis using te by (auto simp: degree_untag count_untag)
  qed
  moreover have "\<forall>e \<in> set (get_edges s ?h). ed_kind e = HasTag \<longleftrightarrow> \<not> plain_id (ed_target e)" for s
    using typed by (auto simp: edges_untag)
  moreover have "tags_have ?h"
    using g by (auto simp: loose_inv_def tags_have_def memories_untag edges_untag tag_edge_iff refresh_search_text_def
        tag_edge_def split: if_splits)
  ultimately show ?thesis by (simp add: loose_inv_def edges_inv_def)
qed

lemma loose_link:
  assumes "loose_inv g" "b |\<in>| fmdom (mg_memories g)"
  shows "loose_inv (link_memories feq a b w g)"
proof -
  have b: "plain_id b" using assms by (auto simp: loose_inv_def tags_have_def fmlookup_dom_iff)
  have e: "edges_inv (add_edge feq a b (RelatesTo w) g)"
    using assms(1) b by (auto simp: loose_inv_def add_edge_def edges_inv_internal split: option.split)
  have m: "mg_memories (link_memories feq a b w g) = mg_memories g"
    by (simp add: link_memories_def Let_def add_edge_def add_edge_internal_def split: option.split)
  have r: "get_edges s (g\<lparr>mg_metadata := x\<rparr>) = get_edges s g" for s x and g :: "'a memory_graph" by (simp add: get_edges_def)
  have "set (get_edges s g) \<subseteq> set (get_edges s (link_memories feq a b w g))" for s
    by (auto simp: link_memories_def Let_def r add_edge_def edges_add_internal split: option.split)
  then have "tags_have (link_memories feq a b w g)"
    using tags_have_mono [of g "link_memories feq a b w g"] assms(1) m by (simp add: loose_inv_def)
  moreover have "edges_inv (link_memories feq a b w g)"
    using edges_inv_cong [OF e] by (simp add: link_memories_def Let_def)
  ultimately show ?thesis by (simp add: loose_inv_def)
qed

lemma loose_remove:
  assumes g: "loose_inv g" and i: "plain_id i"
  shows "loose_inv (fst (remove_memory i g))"
proof -
  let ?h = "fst (remove_memory i g)"
  have idx: "index_ok g" using g by (simp add: loose_inv_def edges_inv_def)
  note e = remove_memory_edges [OF idx, of _ i]
  have "index_ok ?h" using idx unfolding index_ok_def e by auto
  moreover have "edge_degree t (mg_edges ?h) \<le> tag_count t ?h" for t
  proof -
    have "tag_count t ?h = tag_count t g - tag_edges t (get_edges i g)"
      using after_forget(3) [of t i g] by (simp add: remove_memory_eq tag_count_def forget_all_sources(3))
    moreover have "edge_degree t (mg_edges (after_forget i g)) + tag_edges t (get_edges i g) = edge_degree t (mg_edges g)"
      by (rule after_forget(4))
    moreover have "edge_degree t (mg_edges ?h) \<le> edge_degree t (mg_edges (after_forget i g))"
      using forget_all_sources(6) [of t i "after_forget i g"] by (simp add: remove_memory_eq)
    moreover have "edge_degree t (mg_edges g) \<le> tag_count t g" using g by (simp add: loose_inv_def edges_inv_def)
    ultimately show ?thesis by linarith
  qed
  moreover have "\<forall>e \<in> set (get_edges s ?h). ed_kind e = HasTag \<longleftrightarrow> \<not> plain_id (ed_target e)" for s
    using g unfolding e by (auto simp: loose_inv_def edges_inv_def)
  moreover have "tags_have ?h"
    unfolding tags_have_def
  proof (intro allI impI)
    fix k m
    assume m: "fmlookup (mg_memories ?h) k = Some m"
    then have k: "k \<noteq> i" "fmlookup (mg_memories g) k = Some m"
      by (auto simp: remove_memory_eq split: if_splits)
    have "ed_target (tag_edge n :: 'a edge) \<noteq> i" for n using i by (auto simp: tag_edge_def)
    then show "plain_id k \<and> (\<forall>n \<in> set (en_tags m). tag_edge n \<in> set (get_edges k ?h))"
      using g k unfolding e by (auto simp: loose_inv_def tags_have_def)
  qed
  ultimately show ?thesis by (simp add: loose_inv_def edges_inv_def)
qed

lemma loose_untag_all:
  assumes "loose_inv g" "fmlookup (mg_memories g) i = Some m" "distinct names" "set names \<subseteq> set (en_tags m)"
  shows "loose_inv (foldl (\<lambda>g tag. untag_memory lower i tag g) g names) \<and>
    (\<exists>m'. fmlookup (mg_memories (foldl (\<lambda>g tag. untag_memory lower i tag g) g names)) i = Some m' \<and>
      set (en_tags m') = set (en_tags m) - set names)"
  using assms
proof (induction names arbitrary: g m)
  case (Cons n ns)
  let ?m = "refresh_search_text lower (m\<lparr>en_tags := filter (\<lambda>t. t \<noteq> n) (en_tags m)\<rparr>)"
  have step: "loose_inv (untag_memory lower i n g)" "fmlookup (mg_memories (untag_memory lower i n g)) i = Some ?m"
    using Cons.prems loose_untag [of g i m n lower] by (simp_all add: memories_untag)
  have tags: "set (en_tags ?m) = set (en_tags m) - {n}" by (auto simp: refresh_search_text_def)
  have "set ns \<subseteq> set (en_tags ?m)" using Cons.prems(3,4) by (auto simp: tags)
  then show ?case using Cons.IH [OF step] Cons.prems(3) by (auto simp: tags)
qed auto

lemma loose_tag_all:
  assumes "loose_inv g" "i |\<in>| fmdom (mg_memories g)"
  shows "loose_inv (foldl (\<lambda>g tag. tag_memory lower now i tag g) g names) \<and>
    i |\<in>| fmdom (mg_memories (foldl (\<lambda>g tag. tag_memory lower now i tag g) g names)) \<and>
    set (get_edges i g) \<union> tag_edge ` set names \<subseteq> set (get_edges i (foldl (\<lambda>g tag. tag_memory lower now i tag g) g names))"
  using assms
proof (induction names arbitrary: g)
  case (Cons n ns)
  have "fmlookup (mg_memories (tag_memory lower now i n g)) i \<noteq> None"
    using Cons.prems(2) core_tag(1) [of lower now i n g i] by (auto simp: fmlookup_dom_iff)
  then have "i |\<in>| fmdom (mg_memories (tag_memory lower now i n g))" by (simp add: fmlookup_dom_iff)
  note IH = Cons.IH [OF loose_tag [OF Cons.prems] this]
  have "set (get_edges i g) \<union> {tag_edge n} \<subseteq> set (get_edges i (tag_memory lower now i n g))"
    by (auto simp: edges_tag list_ex_iff tag_edge_iff) (simp add: tag_edge_def)
  then show ?case using IH by auto
qed simp

lemma loose_upsert:
  assumes g: "loose_inv g" and i: "plain_id (en_id e)"
    and order: "\<And>s :: string fset. distinct (order s) \<and> set (order s) = fset s"
  shows "loose_inv (fst (upsert_memory_in_graph lower em order now mm e g))"
proof (cases "get_memory (en_id e) g")
  case None
  then show ?thesis using loose_add [of g "with_generated mm em e" lower now] g i
    by (simp add: upsert_memory_in_graph_def Let_def)
next
  case (Some old)
  let ?i = "en_id e" and ?old = "fset_of_list (en_tags old)" and ?new = "fset_of_list (en_tags e)"
  let ?u = "foldl (\<lambda>g tag. untag_memory lower ?i tag g) g (order (?old |-| ?new))"
  let ?t = "foldl (\<lambda>g tag. tag_memory lower now ?i tag g) ?u (order (?new |-| ?old))"
  let ?f = "refresh_existing (should_generate_embedding mm e) em (with_generated mm em e)"
  have sets: "set (order (?old |-| ?new)) = set (en_tags old) - set (en_tags e)"
    "set (order (?new |-| ?old)) = set (en_tags e) - set (en_tags old)" "distinct (order (?old |-| ?new))"
    using order by (simp_all add: fset_of_list.rep_eq)
  have m: "fmlookup (mg_memories g) ?i = Some old" using Some by (simp add: get_memory_def)
  have sub: "set (order (?old |-| ?new)) \<subseteq> set (en_tags old)" using sets(1) by auto
  obtain m' where u: "loose_inv ?u" "fmlookup (mg_memories ?u) ?i = Some m'"
      "set (en_tags m') = set (en_tags old) - (set (en_tags old) - set (en_tags e))"
    using loose_untag_all [OF g m sets(3) sub, of lower] sets(1) by auto
  have dom: "?i |\<in>| fmdom (mg_memories ?u)" using u(2) by (simp add: fmlookup_dom_iff)
  note t = loose_tag_all [OF u(1) dom, of lower now "order (?new |-| ?old)"]
  have "tag_edge n \<in> set (get_edges ?i ?t)" if "n \<in> set (en_tags e)" for n
  proof (cases "n \<in> set (en_tags old)")
    case True
    then have "tag_edge n \<in> set (get_edges ?i ?u)" using u that by (auto simp: loose_inv_def tags_have_def)
    then show ?thesis using t by blast
  next
    case False
    then show ?thesis using t sets(2) that by blast
  qed
  then have "loose_inv (?t\<lparr>mg_memories := update_existing ?f ?i (mg_memories ?t)\<rparr>)"
    using t i by (auto simp: loose_inv_def tags_have_def lookup_update_existing refresh_existing_fields get_edges_def
        split: if_splits)
  then show ?thesis using Some by (simp add: upsert_memory_in_graph_def Let_def)
qed

lemma graph_inv_memories [simp]: "graph_inv (g\<lparr>mg_memories := m\<rparr>) = graph_inv g"
  using graph_inv_cong [of g "g\<lparr>mg_memories := m\<rparr>"] graph_inv_cong [of "g\<lparr>mg_memories := m\<rparr>" g] by auto

section \<open>Consistency of everything stored\<close>

text \<open>
  What the managers need of a property of graphs to keep it on the disk and in the cache: it holds of the empty
  graph and of what is added or migrated under the id of no tag, it does not depend on anything of the memories
  but their tags, and tagging, linking and removing memories that are there keep it. Updating, which has to be
  asked for separately, is the law of the second interface.
\<close>

locale kept_graphs =
  fixes P :: "'f memory_graph \<Rightarrow> bool"
  assumes kept_new: "P graph_new"
    and kept_add: "P g \<Longrightarrow> plain_id (en_id e) \<Longrightarrow> P (fst (add_memory lower now e g))"
    and kept_migrate: "P g \<Longrightarrow> plain_id (en_id e) \<Longrightarrow> P (migrate_entry now g e)"
    and kept_memories: "P g \<Longrightarrow> (\<And>i. map_option en_tags (fmlookup ms i) = map_option en_tags (fmlookup (mg_memories g) i)) \<Longrightarrow>
      P (g\<lparr>mg_memories := ms\<rparr>)"
    and kept_tag: "P g \<Longrightarrow> i |\<in>| fmdom (mg_memories g) \<Longrightarrow> P (tag_memory lower now i name g)"
    and kept_link: "P g \<Longrightarrow> a |\<in>| fmdom (mg_memories g) \<Longrightarrow> b |\<in>| fmdom (mg_memories g) \<Longrightarrow>
      P (link_memories feq a b w g)"
    and kept_remove: "P g \<Longrightarrow> i |\<in>| fmdom (mg_memories g) \<Longrightarrow> P (fst (remove_memory i g))"

locale updated_graphs = kept_graphs +
  assumes kept_upsert: "P g \<Longrightarrow> plain_id (en_id e) \<Longrightarrow>
    (\<And>s :: string fset. distinct (order s) \<and> set (order s) = fset s) \<Longrightarrow>
    P (fst (upsert_memory_in_graph lower em order now mm e g))"

text \<open>Every graph stored has the property, and what waits to be migrated has no id of a tag.\<close>

definition keeps :: "('f memory_graph \<Rightarrow> bool) \<Rightarrow> 'f memory_disk \<Rightarrow> bool" where
  "keeps P d \<longleftrightarrow>
     (\<forall>path g n. fmlookup (md_files d) path = Some (GraphFile g, n) \<longrightarrow> P g) \<and>
     (\<forall>path g m. fmlookup (md_cache d) path = Some (g, m) \<longrightarrow> P g) \<and>
     (\<forall>path s n. fmlookup (md_files d) path = Some (StoreFile s, n) \<longrightarrow> list_all (\<lambda>e. plain_id (en_id e)) (ms_entries s)) \<and>
     (\<forall>path ns. fmlookup (md_notes d) path = Some (Some ns) \<longrightarrow> list_all (\<lambda>n. plain_id (ln_id n)) ns)"

definition loads :: "('f memory_graph \<Rightarrow> bool) \<Rightarrow> (memory_error + 'f memory_graph) \<times> 'f memory_disk \<Rightarrow> bool" where
  "loads P r \<longleftrightarrow> keeps P (snd r) \<and> (case fst r of Inr g \<Rightarrow> P g | Inl _ \<Rightarrow> True)"

lemma keeps_write: "keeps P d \<Longrightarrow> P g \<Longrightarrow> keeps P (write_graph path g d)"
  by (simp add: keeps_def write_graph_def)

lemma keeps_cache: "keeps P d \<Longrightarrow> P g \<Longrightarrow> keeps P (cache_graph path g d)"
  by (simp add: keeps_def cache_graph_def)

lemma keeps_save: "keeps P d \<Longrightarrow> P g \<Longrightarrow> keeps P (save_graph mm path g d)"
  by (simp add: save_graph_def Let_def keeps_write keeps_cache)

lemma keeps_save_project: "keeps P d \<Longrightarrow> P g \<Longrightarrow> keeps P (save_project_graph mm g d)"
  by (auto simp: save_project_graph_def keeps_save split: option.split)

lemma keeps_save_global: "keeps P d \<Longrightarrow> P g \<Longrightarrow> keeps P (save_global_graph mm g d)"
  by (simp add: save_global_graph_def keeps_save)

lemma keeps_loaded: "keeps P d \<Longrightarrow> P g \<Longrightarrow> keeps P (cache_loaded mm path g d)"
  by (simp add: cache_loaded_def keeps_cache)

lemma keeps_file: "keeps P d \<Longrightarrow> fmlookup (md_files d) path = Some (GraphFile g, n) \<Longrightarrow> P g"
  unfolding keeps_def by blast

lemma keeps_store:
  "keeps P d \<Longrightarrow> fmlookup (md_files d) path = Some (StoreFile s, n) \<Longrightarrow> list_all (\<lambda>e. plain_id (en_id e)) (ms_entries s)"
  unfolding keeps_def by blast

lemma note_entry_id [simp]: "en_id (note_entry lower em now n) = ln_id n"
  by (simp add: note_entry_def Let_def ensure_embedding_def entry_new_def split: option.split)

context kept_graphs
begin

lemma same_tags: "P g \<Longrightarrow> (\<And>m. en_tags (f m) = en_tags m) \<Longrightarrow> P (g\<lparr>mg_memories := fmmap f (mg_memories g)\<rparr>)"
  by (rule kept_memories) (simp_all add: option.map_comp comp_def)

lemma normalized: "P g \<Longrightarrow> P (fst (normalize_graph_search_text lower g))"
  by (simp add: normalize_graph_search_text_def same_tags refresh_search_text_def)

lemma reinforced: "P g \<Longrightarrow> P (reinforce_in_graph now source i g)"
  unfolding reinforce_in_graph_def
  by (rule kept_memories) (simp_all add: lookup_update_existing option.map_comp comp_def reinforce_def Let_def)

lemma touched: "P g \<Longrightarrow> touch_graph now ids g = (h, b) \<Longrightarrow> P h"
  by (auto simp: touch_graph_def touch_def if_distrib intro!: same_tags cong: if_cong split: if_splits)

lemma backfilled: "P g \<Longrightarrow> backfill_graph em g = (h, n, m) \<Longrightarrow> P h"
  by (auto simp: backfill_graph_def Let_def ensure_embedding_def intro!: same_tags split: option.split)

lemma imported:
  "P (fst st) \<Longrightarrow> list_all (\<lambda>n. plain_id (ln_id n)) ns \<Longrightarrow> P (fst (foldl (import_note lower em now) st ns))"
  by (induction ns arbitrary: st) (simp_all add: import_note_def kept_add note_entry_id)

lemma import_notes:
  "P g \<Longrightarrow> keeps P d \<Longrightarrow> import_legacy_notes_into_graph lower em now notes g d = Inr (h, b) \<Longrightarrow> P h"
proof -
  assume P: "P g" and k: "keeps P d" and i: "import_legacy_notes_into_graph lower em now notes g d = Inr (h, b)"
  show "P h"
  proof (cases "fmlookup (md_notes d) notes")
    case None
    then show ?thesis using i P by (simp add: import_legacy_notes_into_graph_def)
  next
    case (Some r)
    then obtain ns where ns: "fmlookup (md_notes d) notes = Some (Some ns)"
      and h: "foldl (import_note lower em now) (g, False) ns = (h, b)"
      using i by (cases r) (auto simp: import_legacy_notes_into_graph_def)
    have "list_all (\<lambda>n. plain_id (ln_id n)) ns" using k ns unfolding keeps_def by blast
    then show ?thesis using imported [of "(g, False)" ns lower em now] P h by simp
  qed
qed

lemma migrated: "list_all (\<lambda>e. plain_id (en_id e)) (ms_entries store) \<Longrightarrow> P (from_legacy_store now store)"
proof -
  have "P (foldl (migrate_entry now) g es)" if "P g" "list_all (\<lambda>e. plain_id (en_id e)) es" for g es
    using that by (induction es arbitrary: g) (simp_all add: kept_migrate)
  then show "list_all (\<lambda>e. plain_id (en_id e)) (ms_entries store) \<Longrightarrow> P (from_legacy_store now store)"
    by (simp add: from_legacy_store_def kept_new)
qed

lemma cached_loads:
  assumes "keeps P d" "load_cached lower mm path d = Some (g, d')"
  shows "loads P (Inr g, d')"
proof -
  obtain c where "cached_graph path d = Some c" and g: "g = fst (normalize_graph_search_text lower c)"
    "d' = (if snd (normalize_graph_search_text lower c) then cache_graph path g d else d)"
    using assms(2) by (auto simp: load_cached_def split: if_splits option.splits prod.splits)
  from \<open>cached_graph path d = Some c\<close> have "fmlookup (md_cache d) path = Some (c, graph_mtime path d)"
    by (auto simp: cached_graph_def split: option.splits if_splits)
  then have "P c" using assms(1) unfolding keeps_def by blast
  then show ?thesis using g assms(1) by (simp add: loads_def normalized keeps_cache)
qed

lemma project_loads:
  assumes "keeps P d"
  shows "loads P (load_project_graph lower em now mm d)"
proof (cases "mm_project mm")
  case None
  then show ?thesis using assms by (simp add: load_project_graph_def loads_def kept_new)
next
  case (Some pn)
  obtain path nt where pn: "pn = (path, nt)" by (cases pn)
  have finish: "loads P (case import_legacy_notes_into_graph lower em now nt g d of
        Inl e \<Rightarrow> (Inl e, d) | Inr (h, b) \<Rightarrow> (Inr h, cache_loaded mm path h (if b then save_graph mm path h d
          else if w then write_graph path h d else d)))"
    "loads P (case import_legacy_notes_into_graph lower em now nt g d of
        Inl e \<Rightarrow> (Inl e, d) | Inr (h, b) \<Rightarrow> (Inr h, cache_loaded mm path h (write_graph path h d)))"
    "loads P (case import_legacy_notes_into_graph lower em now nt g d of
        Inl e \<Rightarrow> (Inl e, d) | Inr (h, b) \<Rightarrow> (Inr h, cache_loaded mm path h (if b then save_graph mm path h d else d)))"
    if "P g" for g w
    using assms import_notes [OF that assms, of lower em now nt]
    by (auto simp: loads_def keeps_loaded keeps_save keeps_write split: sum.split)
  show ?thesis
  proof (cases "load_cached lower mm path d")
    case c: (Some gd)
    then show ?thesis using cached_loads [OF assms, of lower mm path] Some
      by (cases gd) (simp add: load_project_graph_def pn)
  next
    case n: None
    show ?thesis
    proof (cases "fmlookup (md_files d) path")
      case None
      then show ?thesis using Some n finish(3) [OF kept_new]
        by (simp add: load_project_graph_def pn)
    next
      case f: (Some fm)
      obtain stored m where fm: "fm = (stored, m)" by (cases fm)
      show ?thesis
      proof (cases stored)
        case (GraphFile g)
        obtain g' w where norm: "normalize_graph_search_text lower g = (g', w)" by fastforce
        have "P g'"
          using normalized [of g lower] keeps_file [OF assms] f fm GraphFile norm by simp
        from finish(1) [OF this, of w] show ?thesis
          using Some n f fm GraphFile assms norm
          by (simp add: load_project_graph_def pn loads_def [where r = "(Inl _, _)"])
      next
        case (StoreFile st)
        then show ?thesis using Some n f fm finish(2) [OF migrated [OF keeps_store [OF assms]]]
          by (simp add: load_project_graph_def pn)
      next
        case BadFile
        then show ?thesis using Some n f fm assms by (simp add: load_project_graph_def pn loads_def)
      qed
    qed
  qed
qed

lemma global_loads:
  assumes "keeps P d"
  shows "loads P (load_global_graph lower now mm d)"
proof (cases "load_cached lower mm (mm_global mm) d")
  case (Some gd)
  then show ?thesis using cached_loads [OF assms, of lower mm "mm_global mm"]
    by (cases gd) (simp add: load_global_graph_def Let_def)
next
  case None
  have "P (fst (normalize_graph_search_text lower g))"
    if "fmlookup (md_files d) (mm_global mm) = Some (GraphFile g, n)" for g n
    using keeps_file [OF assms that] by (rule normalized)
  moreover have "P (from_legacy_store now s)" if "fmlookup (md_files d) (mm_global mm) = Some (StoreFile s, n)" for s n
    using keeps_store [OF assms that] by (rule migrated)
  ultimately show ?thesis
    using None assms
    by (auto simp: load_global_graph_def Let_def loads_def case_prod_beta keeps_loaded keeps_write
        kept_new split: option.split memory_file.split)
qed

lemma project_D:
  "keeps P d \<Longrightarrow> load_project_graph lower em now mm d = (r, d') \<Longrightarrow> keeps P d'"
  "keeps P d \<Longrightarrow> load_project_graph lower em now mm d = (Inr g, d') \<Longrightarrow> P g"
  using project_loads [of d lower em now mm] by (simp_all add: loads_def)

lemma global_D:
  "keeps P d \<Longrightarrow> load_global_graph lower now mm d = (r, d') \<Longrightarrow> keeps P d'"
  "keeps P d \<Longrightarrow> load_global_graph lower now mm d = (Inr g, d') \<Longrightarrow> P g"
  using global_loads [of d lower now mm] by (simp_all add: loads_def)

lemma kept_added: "P g \<Longrightarrow> plain_id (en_id e) \<Longrightarrow> add_memory lower now (with_generated mm em e) g = (h, i) \<Longrightarrow> P h"
  using kept_add [of g "with_generated mm em e" lower now] by simp

lemma remember_kept:
  "keeps P d \<Longrightarrow> plain_id (en_id e) \<Longrightarrow> keeps P (snd (remember_project lower em listed now mm e d))"
  "keeps P d \<Longrightarrow> plain_id (en_id e) \<Longrightarrow> keeps P (snd (remember_global lower em listed now mm e d))"
  by (auto simp: remember_project_def remember_global_def Let_def split: prod.split sum.split option.split
      intro!: keeps_save_project keeps_save_global reinforced kept_new
      dest: project_D global_D kept_added split: if_splits)

lemma in_store_kept:
  assumes "keeps P d" "\<And>g. P g \<Longrightarrow> applies g \<Longrightarrow> P (change g)"
  shows "keeps P (snd (in_store lower em now mm applies change d))"
  using assms
  by (auto simp: in_store_def split: prod.split sum.split
      intro!: keeps_save_project keeps_save_global dest: project_D global_D)

lemma or_error_kept: "keeps P (snd r) \<Longrightarrow> keeps P (snd (or_error err r))"
  by (cases r; cases "fst r") (auto simp: or_error_def split: bool.split)

lemma removed_kept: "P g \<Longrightarrow> snd (remove_memory i g) \<noteq> None \<Longrightarrow> P (fst (remove_memory i g))"
  by (rule kept_remove) (auto simp: remove_memory_eq fmlookup_dom_iff)

lemma touch_kept:
  assumes "keeps P d"
  shows "keeps P (snd (touch_entries lower em now mm ids d))"
proof -
  obtain r d1 where load: "load_project_graph lower em now mm d = (r, d1)" by fastforce
  have d1: "keeps P d1" using project_D(1) [OF assms load] .
  show ?thesis
  proof (cases r)
    case (Inl e)
    then show ?thesis using load d1 assms by (simp add: touch_entries_def)
  next
    case (Inr g)
    obtain h b where t: "touch_graph now (set ids) g = (h, b)" by fastforce
    have "P h" using touched [OF _ t] project_D(2) [OF assms] load Inr by blast
    then have d2: "keeps P (if b then save_project_graph mm h d1 else d1)"
      using d1 by (simp add: keeps_save_project)
    obtain r2 d3 where load2: "load_global_graph lower now mm (if b then save_project_graph mm h d1 else d1) = (r2, d3)"
      by fastforce
    have "keeps P d3" using global_D(1) [OF d2 load2] .
    moreover have "P (fst (touch_graph now (set ids) g2))" if "r2 = Inr g2" for g2
      using global_D(2) [OF d2] load2 that touched [of g2 now "set ids"] by (cases "touch_graph now (set ids) g2") auto
    ultimately show ?thesis
      using load load2 Inr t assms
      by (cases r2) (auto simp: touch_entries_def Let_def case_prod_beta intro!: keeps_save_global)
  qed
qed

lemma backfill_kept:
  assumes "keeps P d"
  shows "keeps P (snd (backfill_embeddings lower em now mm d))"
proof -
  obtain n f d1 where one: "(case load_project_graph lower em now mm d of (Inl _, d) \<Rightarrow> (0, 0, d)
      | (Inr g, d) \<Rightarrow> let (g, n, f) = backfill_graph em g in (n, f, if n > 0 then save_project_graph mm g d else d)) = (n, f, d1)"
    by (rule prod_cases3)
  have d1: "keeps P d1"
  proof -
    obtain r d0 where load: "load_project_graph lower em now mm d = (r, d0)" by fastforce
    have d0: "keeps P d0" using project_D(1) [OF assms load] .
    show ?thesis
    proof (cases r)
      case (Inl e)
      then show ?thesis using one load d0 by simp
    next
      case (Inr g)
      obtain h a b where h: "backfill_graph em g = (h, a, b)" by (metis prod_cases3)
      have "P h" using backfilled [OF project_D(2) [OF assms load [unfolded Inr]] h] .
      then show ?thesis using one load d0 Inr h by (auto simp: keeps_save_project split: if_splits)
    qed
  qed
  obtain n2 f2 d2 where two: "(case load_global_graph lower now mm d1 of (Inl _, d) \<Rightarrow> (0, 0, d)
      | (Inr g, d) \<Rightarrow> let (g, n, f) = backfill_graph em g in (n, f, if n > 0 then save_global_graph mm g d else d)) = (n2, f2, d2)"
    by (rule prod_cases3)
  have "keeps P d2"
  proof -
    obtain r d0 where load: "load_global_graph lower now mm d1 = (r, d0)" by fastforce
    have d0: "keeps P d0" using global_D(1) [OF d1 load] .
    show ?thesis
    proof (cases r)
      case (Inl e)
      then show ?thesis using two load d0 by simp
    next
      case (Inr g)
      obtain h a b where h: "backfill_graph em g = (h, a, b)" by (metis prod_cases3)
      have "P h" using backfilled [OF global_D(2) [OF d1 load [unfolded Inr]] h] .
      then show ?thesis using two load d0 Inr h by (auto simp: keeps_save_global split: if_splits)
    qed
  qed
  then show ?thesis by (simp add: backfill_embeddings_def one two del: case_prod_conv)
qed

end

text \<open>Everything a manager does to what is stored.\<close>

datatype 'f manager_op =
    RememberProject int "'f memory_entry"
  | RememberGlobal int "'f memory_entry"
  | UpsertProject int "'f memory_entry"
  | UpsertGlobal int "'f memory_entry"
  | TagMemory int string string
  | LinkMemories int string string 'f
  | Forget int string
  | TouchEntries int "string list"
  | Backfill int
  | ForgetCache

text \<open>The last operation is a restart of the process: the cache is empty then.\<close>

fun manager_apply ::
  "(string \<Rightarrow> string) \<Rightarrow> 'f embedder \<Rightarrow> ((string, 'f memory_entry) fmap \<Rightarrow> 'f memory_entry list) \<Rightarrow>
   (string fset \<Rightarrow> string list) \<Rightarrow> ('f \<Rightarrow> 'f \<Rightarrow> bool) \<Rightarrow> 'f memory_disk \<Rightarrow> memory_manager \<times> 'f manager_op \<Rightarrow>
   'f memory_disk" where
  "manager_apply lower em listed order feq d (mm, RememberProject now e) = snd (remember_project lower em listed now mm e d)"
| "manager_apply lower em listed order feq d (mm, RememberGlobal now e) = snd (remember_global lower em listed now mm e d)"
| "manager_apply lower em listed order feq d (mm, UpsertProject now e) = snd (upsert_project_memory lower em order now mm e d)"
| "manager_apply lower em listed order feq d (mm, UpsertGlobal now e) = snd (upsert_global_memory lower em order now mm e d)"
| "manager_apply lower em listed order feq d (mm, TagMemory now i tag) = snd (manager_tag_memory lower em now mm i tag d)"
| "manager_apply lower em listed order feq d (mm, LinkMemories now a b w) = snd (manager_link_memories lower em feq now mm a b w d)"
| "manager_apply lower em listed order feq d (mm, Forget now i) = snd (forget lower em now mm i d)"
| "manager_apply lower em listed order feq d (mm, TouchEntries now ids) = snd (touch_entries lower em now mm ids d)"
| "manager_apply lower em listed order feq d (mm, Backfill now) = snd (backfill_embeddings lower em now mm d)"
| "manager_apply lower em listed order feq d (mm, ForgetCache) = d\<lparr>md_cache := fmempty\<rparr>"

text \<open>No memory is put in under the id of a tag.\<close>

fun manager_op_ok :: "memory_manager \<times> 'f manager_op \<Rightarrow> bool" where
  "manager_op_ok (mm, RememberProject now e) = plain_id (en_id e)"
| "manager_op_ok (mm, RememberGlobal now e) = plain_id (en_id e)"
| "manager_op_ok (mm, UpsertProject now e) = plain_id (en_id e)"
| "manager_op_ok (mm, UpsertGlobal now e) = plain_id (en_id e)"
| "manager_op_ok _ = True"

fun updates :: "memory_manager \<times> 'f manager_op \<Rightarrow> bool" where
  "updates (mm, UpsertProject now e) = True"
| "updates (mm, UpsertGlobal now e) = True"
| "updates _ = False"

text \<open>A disk as older versions leave it: flat stores and notes, no graph.\<close>

definition legacy_disk ::
  "(string, 'f memory_store) fmap \<Rightarrow> (string, legacy_note list option) fmap \<Rightarrow> 'f memory_disk" where
  "legacy_disk stores notes =
     \<lparr>md_files = fmmap (\<lambda>s. (StoreFile s, 0)) stores, md_notes = notes, md_clock = 1, md_cache = fmempty\<rparr>"

definition plain_legacy ::
  "(string, 'f memory_store) fmap \<Rightarrow> (string, legacy_note list option) fmap \<Rightarrow> bool" where
  "plain_legacy stores notes \<longleftrightarrow>
     fmpred (\<lambda>_ s. list_all (\<lambda>e. plain_id (en_id e)) (ms_entries s)) stores \<and>
     fmpred (\<lambda>_ ns. case ns of Some ns \<Rightarrow> list_all (\<lambda>n. plain_id (ln_id n)) ns | None \<Rightarrow> True) notes"

lemma keeps_legacy: "plain_legacy stores notes \<Longrightarrow> keeps P (legacy_disk stores notes)"
  by (fastforce simp: plain_legacy_def keeps_def legacy_disk_def fmpred_iff)

context kept_graphs
begin

lemma kept_apply:
  assumes "keeps P d" "manager_op_ok x" "\<not> updates x"
  shows "keeps P (manager_apply lower em listed order feq d x)"
proof -
  obtain mm op where x: "x = (mm, op)" by (cases x)
  have "keeps P (d\<lparr>md_cache := fmempty\<rparr>)" using assms(1) by (simp add: keeps_def)
  then show ?thesis using assms unfolding x
    by (cases op) (auto simp: manager_tag_memory_def manager_link_memories_def forget_def
      intro: remember_kept touch_kept backfill_kept or_error_kept in_store_kept kept_tag kept_link removed_kept)
qed

end

context updated_graphs
begin

lemma kept_upserted:
  assumes "keeps P d" "plain_id (en_id e)" "\<And>s :: string fset. distinct (order s) \<and> set (order s) = fset s"
  shows "keeps P (snd (upsert_project_memory lower em order now mm e d))"
    and "keeps P (snd (upsert_global_memory lower em order now mm e d))"
proof -
  have up: "P h" if "P g" "upsert_memory_in_graph lower em order now mm e g = (h, i)" for g h i
    using kept_upsert [OF that(1) assms(2,3), where lower = lower and em = em and now = now and mm = mm] that(2) by simp
  show "keeps P (snd (upsert_project_memory lower em order now mm e d))"
    using assms(1) by (auto simp: upsert_project_memory_def Let_def split: prod.split sum.split
        intro!: keeps_save_project dest: project_D up)
  show "keeps P (snd (upsert_global_memory lower em order now mm e d))"
    using assms(1) by (auto simp: upsert_global_memory_def Let_def split: prod.split sum.split
        intro!: keeps_save_global dest: global_D up)
qed

lemma kept_apply_all:
  assumes "\<And>s :: string fset. distinct (order s) \<and> set (order s) = fset s" "keeps P d" "manager_op_ok x"
  shows "keeps P (manager_apply lower em listed order feq d x)"
proof (cases "updates x")
  case False
  then show ?thesis by (rule kept_apply [OF assms(2,3)])
next
  case True
  then show ?thesis using kept_upserted [OF assms(2) _ assms(1)] assms(3) by (cases x rule: updates.cases) auto
qed

end

interpretation loose: updated_graphs loose_inv
proof
  show "loose_inv graph_new" by (rule loose_new)
  show "loose_inv (link_memories feq a b w g)"
    if "loose_inv g" "a |\<in>| fmdom (mg_memories g)" "b |\<in>| fmdom (mg_memories g)" for g a b feq w
    using that(1,3) by (rule loose_link)
  show "loose_inv (fst (remove_memory i g))" if "loose_inv g" "i |\<in>| fmdom (mg_memories g)" for g i
    using that by (intro loose_remove) (auto simp: loose_inv_def tags_have_def fmlookup_dom_iff)
qed (auto intro: loose_add loose_migrate loose_memories loose_tag loose_upsert)

lemma graph_inv_migrate: "graph_inv g \<Longrightarrow> graph_inv (migrate_entry now g e)"
  using graph_inv_attach_all [of "g\<lparr>mg_memories := fmupd (en_id e) e (mg_memories g)\<rparr>" now "en_id e" "en_tags e"]
  by (auto simp: migrate_entry_def Let_def graph_inv_add_internal split: option.split)

interpretation exact: kept_graphs "\<lambda>g. loose_inv g \<and> graph_inv g"
proof
  show "loose_inv (fst (remove_memory i g)) \<and> graph_inv (fst (remove_memory i g))"
    if "loose_inv g \<and> graph_inv g" "i |\<in>| fmdom (mg_memories g)" for g i
    using that loose.kept_remove
    by (auto simp: loose_inv_def tags_have_def fmlookup_dom_iff plain_id_def intro: graph_inv_remove)
qed (auto intro: loose.kept_new loose.kept_add loose.kept_migrate loose.kept_memories loose.kept_tag loose.kept_link
    op_inv graph_inv_migrate)

interpretation manager_runs: guarded_machine "manager_apply lower em listed order feq" "legacy_disk fmempty fmempty"
    "keeps loose_inv" "\<lambda>x. (\<forall>s :: string fset. distinct (order s) \<and> set (order s) = fset s) \<and> manager_op_ok x"
  for lower em listed order feq
  by unfold_locales (simp add: keeps_legacy plain_legacy_def, rule loose.kept_apply_all, blast+)

interpretation exact_runs: guarded_machine "manager_apply lower em listed order feq" "legacy_disk fmempty fmempty"
    "keeps (\<lambda>g. loose_inv g \<and> graph_inv g)" "\<lambda>x. manager_op_ok x \<and> \<not> updates x"
  for lower em listed order feq
  by unfold_locales (simp add: keeps_legacy plain_legacy_def, rule exact.kept_apply, blast+)

lemma degree_sum: "edge_degree t (mg_edges g) = (\<Sum>s\<in>fset (fmdom (mg_edges g)). tag_edges t (get_edges s g))"
  by (simp add: edge_degree_def get_edges_def)

lemma exact_counts:
  "graph_inv g \<Longrightarrow> tag_count t g = (\<Sum>s\<in>fset (fmdom (mg_edges g)). tag_edges t (get_edges s g))"
  unfolding degree_sum [symmetric] by (simp add: graph_inv_def counts_ok_def)

lemma loose_facts:
  assumes "loose_inv g"
  shows "\<forall>s t. s \<in> set (get_incoming t g) \<longleftrightarrow> t \<in> ed_target ` set (get_edges s g)"
    and "\<forall>i m. get_memory i g = Some m \<longrightarrow> (\<forall>n \<in> set (en_tags m). tag_id_of n \<in> ed_target ` set (get_edges i g))"
    and "\<forall>t. (\<Sum>s\<in>fset (fmdom (mg_edges g)). tag_edges t (get_edges s g)) \<le> tag_count t g"
proof -
  show "\<forall>s t. s \<in> set (get_incoming t g) \<longleftrightarrow> t \<in> ed_target ` set (get_edges s g)"
    "\<forall>t. (\<Sum>s\<in>fset (fmdom (mg_edges g)). tag_edges t (get_edges s g)) \<le> tag_count t g"
    using assms unfolding degree_sum [symmetric] loose_inv_def edges_inv_def index_ok_def by blast+
  have "tag_id_of n = ed_target (tag_edge n :: 'a edge)" for n by (simp add: tag_edge_def)
  then show "\<forall>i m. get_memory i g = Some m \<longrightarrow> (\<forall>n \<in> set (en_tags m). tag_id_of n \<in> ed_target ` set (get_edges i g))"
    using assms unfolding loose_inv_def tags_have_def get_memory_def by (metis image_eqI)
qed

lemma case_Inr_mono:
  "(case r of Inr g \<Rightarrow> Q g | Inl _ \<Rightarrow> True) \<Longrightarrow> (\<And>g. Q g \<Longrightarrow> R g) \<Longrightarrow> (case r of Inr g \<Rightarrow> R g | Inl _ \<Rightarrow> True)"
  by (cases r) simp_all

text \<open>
  Property C5. Flat stores and notes of older versions are on the disk, and no memory ever gets the id of a tag. After any
  operations of any managers (remembering, updating, tagging, linking, forgetting, touching, backfilling embeddings)
  and restarts, the graph a manager loads, of the project or the global one, has a reverse index that lists exactly
  the sources of the edges into every node; every memory has an edge into each of its tags; and no tag has fewer on
  its count than edges. If no memory was updated in place, the counts are exactly the numbers of edges. (After an
  update they can be too high: it lowers the count by one for a tag that the memory had twice.)
\<close>

theorem memory_files_consistent:
  assumes "\<And>s :: string fset. distinct (order s) \<and> set (order s) = fset s"
    and "plain_legacy stores notes'" "list_all manager_op_ok ops"
  shows "let d = foldl (manager_apply lower em listed order feq) (legacy_disk stores notes') ops;
      ok = (\<lambda>g. (\<forall>s t. s \<in> set (get_incoming t g) \<longleftrightarrow> t \<in> ed_target ` set (get_edges s g)) \<and>
        (\<forall>i m. get_memory i g = Some m \<longrightarrow> (\<forall>n \<in> set (en_tags m). tag_id_of n \<in> ed_target ` set (get_edges i g))) \<and>
        (\<forall>t. (\<Sum>s\<in>fset (fmdom (mg_edges g)). tag_edges t (get_edges s g)) \<le> tag_count t g) \<and>
        (list_all (\<lambda>x. \<not> updates x) ops \<longrightarrow>
          (\<forall>t. tag_count t g = (\<Sum>s\<in>fset (fmdom (mg_edges g)). tag_edges t (get_edges s g)))))
    in (case fst (load_project_graph lower em now mm d) of Inr g \<Rightarrow> ok g | Inl _ \<Rightarrow> True) \<and>
       (case fst (load_global_graph lower now mm d) of Inr g \<Rightarrow> ok g | Inl _ \<Rightarrow> True)"
proof -
  let ?d = "foldl (manager_apply lower em listed order feq) (legacy_disk stores notes') ops"
  let ?Q = "\<lambda>g. loose_inv g \<and> (list_all (\<lambda>x. \<not> updates x) ops \<longrightarrow> graph_inv g)"
  have "keeps loose_inv ?d"
    by (rule manager_runs.run_from_inv [OF keeps_legacy [OF assms(2)]]) (use assms(1,3) in \<open>simp add: list_all_iff\<close>)
  note loose = loose.project_loads [OF this, of lower em now mm] loose.global_loads [OF this, of lower now mm]
  have "keeps (\<lambda>g. loose_inv g \<and> graph_inv g) ?d" if "list_all (\<lambda>x. \<not> updates x) ops"
    by (rule exact_runs.run_from_inv [OF keeps_legacy [OF assms(2)]]) (use assms(3) that in \<open>simp add: list_all_iff\<close>)
  note exact = exact.project_loads [OF this, of lower em now mm] exact.global_loads [OF this, of lower now mm]
  have "case fst (load_project_graph lower em now mm ?d) of Inr g \<Rightarrow> ?Q g | Inl _ \<Rightarrow> True"
    "case fst (load_global_graph lower now mm ?d) of Inr g \<Rightarrow> ?Q g | Inl _ \<Rightarrow> True"
    using loose exact by (auto simp: loads_def split: sum.splits)
  moreover have "?Q g \<Longrightarrow> (\<forall>s t. s \<in> set (get_incoming t g) \<longleftrightarrow> t \<in> ed_target ` set (get_edges s g)) \<and>
        (\<forall>i m. get_memory i g = Some m \<longrightarrow> (\<forall>n \<in> set (en_tags m). tag_id_of n \<in> ed_target ` set (get_edges i g))) \<and>
        (\<forall>t. (\<Sum>s\<in>fset (fmdom (mg_edges g)). tag_edges t (get_edges s g)) \<le> tag_count t g) \<and>
        (list_all (\<lambda>x. \<not> updates x) ops \<longrightarrow>
          (\<forall>t. tag_count t g = (\<Sum>s\<in>fset (fmdom (mg_edges g)). tag_edges t (get_edges s g))))" for g
    using loose_facts [of g] exact_counts [of g] by blast
  ultimately show ?thesis unfolding Let_def by (intro conjI; elim case_Inr_mono)
qed

definition plain_manager :: memory_manager where
  "plain_manager = \<lparr>mm_project = Some (''p.json'', ''n.json''), mm_global = ''g.json'', mm_test = False\<rparr>"

definition sample_manager_ops :: "(memory_manager \<times> nat manager_op) list" where
  "sample_manager_ops =
     [(plain_manager, RememberProject 0 (sample_entry_2 [''t'', ''u''] ''c'')),
      (plain_manager, UpsertProject 1 (sample_entry_2 [''u'', ''v''] ''d'')), (plain_manager, Backfill 2),
      (plain_manager, ForgetCache)]"

theorem memory_files_consistent_witness:
  "let d = foldl (manager_apply id sample_embedder (\<lambda>_. []) sorted_list_of_fset (=)) (legacy_disk fmempty fmempty)
        sample_manager_ops
   in case fst (load_project_graph id sample_embedder 9 plain_manager d) of
     Inr g \<Rightarrow> (\<Sum>s\<in>fset (fmdom (mg_edges g)). tag_edges ''tag:u'' (get_edges s g)) \<le> tag_count ''tag:u'' g
   | Inl _ \<Rightarrow> True"
proof -
  have order: "distinct (sorted_list_of_fset s) \<and> set (sorted_list_of_fset s) = fset s" for s :: "string fset"
    by (simp add: sorted_list_of_fset.rep_eq)
  have legacy: "plain_legacy (fmempty :: (string, nat memory_store) fmap) fmempty" by (simp add: plain_legacy_def)
  have ops: "list_all manager_op_ok sample_manager_ops"
    by (simp add: sample_manager_ops_def sample_entry_2_def entry_new_def plain_id_def)
  show ?thesis
    using memory_files_consistent [OF order legacy ops, of id sample_embedder "\<lambda>_. []" "(=)" 9 plain_manager]
    unfolding Let_def by (auto split: sum.splits)
qed

text \<open>
  The count that is too high: a memory that was remembered with a tag twice, then updated without it, leaves
  no edge into the tag, and a count of one.
\<close>

lemma update_leaves_count:
  "let d = foldl (manager_apply id sample_embedder (\<lambda>_. []) sorted_list_of_fset (=)) (legacy_disk fmempty fmempty)
        [(plain_manager, RememberProject 0 (sample_entry_2 [''t'', ''t''] ''c'')),
         (plain_manager, UpsertProject 1 (sample_entry_2 [] ''d''))]
   in case fst (load_project_graph id sample_embedder 9 plain_manager d) of
     Inr g \<Rightarrow> tag_count ''tag:t'' g = 1 \<and> get_edges ''goal:x'' g = []
   | Inl _ \<Rightarrow> False"
  by code_simp

section \<open>What was saved is loaded\<close>

lemma dom_normalize [simp]:
  "fmdom (mg_memories (fst (normalize_graph_search_text lower g))) = fmdom (mg_memories g)"
  by (simp add: normalize_graph_search_text_def)

lemma cached_after_save: "\<not> mm_test mm \<Longrightarrow> cached_graph path (save_graph mm path g d) = Some g"
  by (simp add: save_graph_def Let_def cached_graph_def cache_graph_def write_graph_def graph_mtime_def)

lemma load_project_after_save:
  assumes "\<not> mm_test mm" "mm_project mm = Some (path, nts)"
  shows "fst (load_project_graph lower em now mm (save_project_graph mm g d)) =
    Inr (fst (normalize_graph_search_text lower g))"
  using assms cached_after_save [OF assms(1), of path g d]
  by (simp add: load_project_graph_def save_project_graph_def load_cached_def case_prod_beta)

lemma load_global_after_save:
  assumes "\<not> mm_test mm"
  shows "fst (load_global_graph lower now mm (save_global_graph mm g d)) =
    Inr (fst (normalize_graph_search_text lower g))"
  using assms cached_after_save [OF assms(1), of "mm_global mm" g d]
  by (simp add: load_global_graph_def save_global_graph_def load_cached_def case_prod_beta Let_def)

lemma dom_reinforce [simp]: "fmdom (mg_memories (reinforce_in_graph now s i g)) = fmdom (mg_memories g)"
  by (auto simp: reinforce_in_graph_def update_existing_def fmlookup_dom_iff split: option.splits)

lemma duplicate_of_dom: "duplicate_of em listed e g = Some i \<Longrightarrow> i |\<in>| fmdom (mg_memories g)"
  by (auto simp: duplicate_of_def split: option.splits if_splits)

text \<open>
  What a manager with a project directory remembers is found again: the id it returns is a
  memory of the project's graph or, when a similar global memory was reinforced instead,
  of the global graph, as they are loaded next.
\<close>

theorem remembered_is_loaded:
  assumes "\<not> mm_test mm" and "mm_project mm = Some (path, nts)"
  shows "let (r, d') = remember_project lower em listed now mm e d;
      project = fst (load_project_graph lower em later mm d'); global = fst (load_global_graph lower later mm d')
    in case r of
         Inl _ \<Rightarrow> True
       | Inr i \<Rightarrow> (case project of Inr g \<Rightarrow> i |\<in>| fmdom (mg_memories g) | Inl _ \<Rightarrow> False) \<or>
           (case global of Inr g \<Rightarrow> i |\<in>| fmdom (mg_memories g) | Inl _ \<Rightarrow> False)"
proof -
  note loaded = load_project_after_save [OF assms] load_global_after_save [OF assms(1)]
  obtain r d1 where load: "load_project_graph lower em now mm d = (r, d1)" by fastforce
  let ?e = "with_generated mm em e"
  show ?thesis
  proof (cases r)
    case (Inl err)
    then show ?thesis using load by (simp add: remember_project_def)
  next
    case (Inr g)
    show ?thesis
    proof (cases "duplicate_of em listed ?e g")
      case (Some i)
      then show ?thesis using load Inr duplicate_of_dom [OF Some]
        by (simp add: remember_project_def Let_def loaded)
    next
      case None
      obtain r2 d2 where load2: "(if en_embedding ?e = None then (Inr graph_new, d1) else load_global_graph lower now mm d1) = (r2, d2)"
        by fastforce
      obtain h i where added: "add_memory lower now ?e g = (h, i)" by fastforce
      then have "h = fst (add_memory lower now ?e g)" "i = en_id ?e"
        using snd_add_memory [of lower now ?e g] by simp_all
      then have "i |\<in>| fmdom (mg_memories h)" by (simp add: memories_add_memory)
      then show ?thesis
        using load Inr None load2 added duplicate_of_dom [of em listed ?e]
        by (auto simp: remember_project_def Let_def loaded split: sum.split option.split)
    qed
  qed
qed

theorem remembered_is_loaded_witness:
  "let (r, d') = remember_project id sample_embedder (\<lambda>_. []) 0 plain_manager (sample_entry_2 [''t''] ''c'')
       (legacy_disk fmempty fmempty)
   in r = Inr ''goal:x'' \<and>
      ((case fst (load_project_graph id sample_embedder 1 plain_manager d') of
          Inr g \<Rightarrow> ''goal:x'' |\<in>| fmdom (mg_memories g) | Inl _ \<Rightarrow> False) \<or>
       (case fst (load_global_graph id 1 plain_manager d') of
          Inr g \<Rightarrow> ''goal:x'' |\<in>| fmdom (mg_memories g) | Inl _ \<Rightarrow> False))"
proof -
  have "fst (remember_project id sample_embedder (\<lambda>_. []) 0 plain_manager (sample_entry_2 [''t''] ''c'')
       (legacy_disk fmempty fmempty)) = Inr ''goal:x''"
    by code_simp
  then show ?thesis
    using remembered_is_loaded [of plain_manager "''p.json''" "''n.json''" id sample_embedder "\<lambda>_. []" 0
        "sample_entry_2 [''t''] ''c''" "legacy_disk fmempty fmempty" 1]
    by (auto simp: plain_manager_def Let_def split: prod.splits)
qed

section \<open>Legacy notes\<close>

lemma version_unchanged [simp]:
  "mg_version (ensure_tag now name g) = mg_version g" "mg_version (bump_tag f t g) = mg_version g"
  "mg_version (add_edge_internal a b k g) = mg_version g"
  "mg_version (fst (normalize_graph_search_text lower g)) = mg_version g"
  by (simp_all add: ensure_tag_def bump_tag_def add_edge_internal_def normalize_graph_search_text_def)

lemma version_add [simp]: "mg_version (fst (add_memory lower now e g)) = mg_version g"
proof -
  have "mg_version (foldl (attach_tag now i) g names) = mg_version g" for i names and g :: "'a memory_graph"
    by (induction names arbitrary: g) (simp_all add: attach_tag_def)
  then show ?thesis by (simp add: add_memory_def Let_def split: option.split)
qed

lemma version_remove [simp]: "mg_version (fst (remove_memory i g)) = mg_version g"
proof -
  have "mg_version (foldl (forget_edge i) g es) = mg_version g" for es and g :: "'a memory_graph"
    by (induction es arbitrary: g) (simp_all add: forget_edge_def Let_def)
  moreover have "mg_version (foldl (forget_source i) g ss) = mg_version g" for ss and g :: "'a memory_graph"
    by (induction ss arbitrary: g) (simp_all add: forget_source_def)
  ultimately show ?thesis by (simp add: remove_memory_def Let_def split: option.split)
qed

lemma import_version: "mg_version (fst (foldl (import_note lower em now) st ns)) = mg_version (fst st)"
  by (induction ns arbitrary: st) (simp_all add: import_note_def)

lemma import_dom:
  "fmdom (mg_memories (fst (foldl (import_note lower em now) st ns))) =
     fset_of_list (map ln_id ns) |\<union>| fmdom (mg_memories (fst st))"
  by (induction ns arbitrary: st) (auto simp: import_note_def memories_add_memory)

lemma load_project_file:
  assumes "\<not> mm_test mm" "mm_project mm = Some (path, nts)"
    and "fmlookup (md_notes d) nts = Some (Some entries)" and "md_cache d = fmempty"
    and "fmlookup (md_files d) path = Some (GraphFile g, k)" "mg_version g = graph_version"
  shows "\<exists>h d'. load_project_graph lower em now mm d = (Inr h, d') \<and> mg_version h = graph_version \<and>
    set (map ln_id entries) \<subseteq> fset (fmdom (mg_memories h)) \<and> md_notes d' = md_notes d"
proof -
  obtain g' w where norm: "normalize_graph_search_text lower g = (g', w)" by fastforce
  obtain h b where imp: "foldl (import_note lower em now) (g', False) entries = (h, b)" by fastforce
  have "mg_version g' = graph_version" using version_unchanged(4) [of lower g] norm assms(6) by simp
  then have "mg_version h = graph_version" using import_version [of lower em now "(g', False)" entries] imp by simp
  moreover have "set (map ln_id entries) \<subseteq> fset (fmdom (mg_memories h))"
    using import_dom [of lower em now "(g', False)" entries] imp by (simp add: fset_of_list.rep_eq)
  ultimately show ?thesis
    using assms norm imp
    by (auto simp: load_project_graph_def load_cached_def cached_graph_def import_legacy_notes_into_graph_def
        cache_loaded_def cache_graph_def save_graph_def write_graph_def Let_def)
qed

text \<open>
  Forgetting a memory that came from a legacy note lasts only as long as the process: it is
  gone from the graph loaded next, but after a restart the notes file, which nothing
  changes, is imported again and the memory is back.
\<close>

theorem forgotten_note_returns:
  assumes "\<not> mm_test mm" and "mm_project mm = Some (path, nts)"
    and "fmlookup (md_notes d) nts = Some (Some entries)" and "n \<in> set entries" and "md_cache d = fmempty"
    and "fmlookup (md_files d) path = Some (GraphFile g, k)" and "mg_version g = graph_version"
  shows "let (r, d') = forget lower em now mm (ln_id n) d;
      running = fst (load_project_graph lower em later mm d');
      restarted = fst (load_project_graph lower em later mm (d'\<lparr>md_cache := fmempty\<rparr>))
    in r = Inr True \<and>
       (case running of Inr h \<Rightarrow> ln_id n |\<notin>| fmdom (mg_memories h) | Inl _ \<Rightarrow> False) \<and>
       (case restarted of Inr h \<Rightarrow> ln_id n |\<in>| fmdom (mg_memories h) | Inl _ \<Rightarrow> False)"
proof -
  obtain h d1 where load: "load_project_graph lower em now mm d = (Inr h, d1)" "mg_version h = graph_version"
      "set (map ln_id entries) \<subseteq> fset (fmdom (mg_memories h))" "md_notes d1 = md_notes d"
    using load_project_file [OF assms(1-3,5-7)] by blast
  let ?h = "fst (remove_memory (ln_id n) h)"
  let ?d = "save_project_graph mm ?h d1"
  have removed: "snd (remove_memory (ln_id n) h) = fmlookup (mg_memories h) (ln_id n)"
    "mg_memories ?h = fmdrop (ln_id n) (mg_memories h)"
  proof -
    have "mg_memories (foldl (forget_edge i) g es) = mg_memories g" for i es and g :: "'a memory_graph"
      by (induction es arbitrary: g) (simp_all add: forget_edge_def Let_def)
    moreover have "mg_memories (foldl (forget_source i) g ss) = mg_memories g" for i ss and g :: "'a memory_graph"
      by (induction ss arbitrary: g) (simp_all add: forget_source_def)
    ultimately show "snd (remove_memory (ln_id n) h) = fmlookup (mg_memories h) (ln_id n)"
      "mg_memories ?h = fmdrop (ln_id n) (mg_memories h)"
      by (simp_all add: remove_memory_def Let_def split: option.split)
  qed
  have "ln_id n |\<in>| fmdom (mg_memories h)" using load(3) assms(4) by auto
  then have run: "forget lower em now mm (ln_id n) d = (Inr True, ?d)"
    using load(1) removed(1) by (auto simp: forget_def in_store_def fmlookup_dom_iff)
  have running: "fst (load_project_graph lower em later mm ?d) = Inr (fst (normalize_graph_search_text lower ?h))"
    by (rule load_project_after_save [OF assms(1,2)])
  have stored: "fmlookup (md_files (?d\<lparr>md_cache := fmempty\<rparr>)) path = Some (GraphFile ?h, md_clock d1)"
    "fmlookup (md_notes (?d\<lparr>md_cache := fmempty\<rparr>)) nts = Some (Some entries)"
    "md_cache (?d\<lparr>md_cache := fmempty\<rparr>) = fmempty"
    using assms(1-3) load(4)
    by (simp_all add: save_project_graph_def save_graph_def write_graph_def cache_graph_def Let_def)
  have version: "mg_version ?h = graph_version" using load(2) by simp
  obtain h2 d2 where again: "load_project_graph lower em later mm (?d\<lparr>md_cache := fmempty\<rparr>) = (Inr h2, d2)"
      "set (map ln_id entries) \<subseteq> fset (fmdom (mg_memories h2))"
    using load_project_file [OF assms(1,2) stored(2,3,1) version] by blast
  then show ?thesis
    using assms(4) removed(2) by (auto simp: run running)
qed

definition sample_note :: legacy_note where
  "sample_note = \<lparr>ln_id = ''note1'', ln_content = ''x'', ln_created_at = 0, ln_tag = None\<rparr>"

definition sample_notes_disk :: "nat memory_disk" where
  "sample_notes_disk =
     \<lparr>md_files = fmap_of_list [(''p.json'', (GraphFile graph_new, 0))],
      md_notes = fmap_of_list [(''n.json'', Some [sample_note])], md_clock = 1, md_cache = fmempty\<rparr>"

theorem forgotten_note_returns_witness:
  "let (r, d') = forget id sample_embedder 1 plain_manager ''note1'' sample_notes_disk
   in r = Inr True \<and>
      (case fst (load_project_graph id sample_embedder 2 plain_manager (d'\<lparr>md_cache := fmempty\<rparr>)) of
         Inr h \<Rightarrow> ''note1'' |\<in>| fmdom (mg_memories h) | Inl _ \<Rightarrow> False)"
proof -
  have m: "\<not> mm_test plain_manager" "mm_project plain_manager = Some (''p.json'', ''n.json'')"
    by (simp_all add: plain_manager_def)
  have d: "fmlookup (md_notes sample_notes_disk) ''n.json'' = Some (Some [sample_note])"
    "sample_note \<in> set [sample_note]" "md_cache sample_notes_disk = fmempty"
    "fmlookup (md_files sample_notes_disk) ''p.json'' = Some (GraphFile graph_new, 0)"
    "mg_version graph_new = graph_version"
    by (simp_all add: sample_notes_disk_def graph_new_def)
  have i: "ln_id sample_note = ''note1''" by (simp add: sample_note_def)
  show ?thesis
    using forgotten_note_returns [OF m d, of id sample_embedder 1 2, unfolded i Let_def]
    unfolding Let_def case_prod_beta by blast
qed

end
