(* ===== verification/PendingMemory.thy ===== *)
theory PendingMemory
  imports Prelude
begin

text \<open>
  Memories waiting to be injected (src/memory/pending.rs): per session the payload prepared in the
  background, the signature and the memory set of what was injected last, the ids injected so far
  and the sessions with a check under way. The process-wide maps are one record; an instant is a
  number of milliseconds, the current one an argument. The overlap ratio, a quotient of two 32-bit
  floats compared with 0.8, is the comparison of integers it is equal to for sets below
  four million ids. Logging is left out.
\<close>

record pending_memory =
  pm_prompt :: string
  pm_display_prompt :: "string option"
  pm_computed_at :: nat
  pm_count :: nat
  pm_memory_ids :: "string list"

record pending_state =
  pg_pending :: "(string, pending_memory) fmap"
  pg_last_signature :: "(string, string \<times> nat) fmap"
  pg_last_set :: "(string, string fset \<times> nat) fmap"
  pg_injected :: "(string, string fset) fmap"
  pg_checking :: "string fset"

definition pending_start :: pending_state where
  "pending_start = \<lparr>pg_pending = fmempty, pg_last_signature = fmempty, pg_last_set = fmempty,
     pg_injected = fmempty, pg_checking = {||}\<rparr>"

definition repeat_suppression_secs :: nat where "repeat_suppression_secs = 90"

definition set_repeat_suppression_secs :: nat where "set_repeat_suppression_secs = 180"

definition elapsed_secs :: "nat \<Rightarrow> nat \<Rightarrow> nat" where
  "elapsed_secs now since = (now - since) div 1000"

definition is_fresh :: "nat \<Rightarrow> pending_memory \<Rightarrow> bool" where
  "is_fresh now p \<longleftrightarrow> elapsed_secs now (pm_computed_at p) < 120"

definition prompt_signature :: "(string \<Rightarrow> string) \<Rightarrow> string \<Rightarrow> string" where
  "prompt_signature lower prompt =
     lower (join nl (filter (\<lambda>line. line \<noteq> []) (map trim (str_lines prompt))))"

definition memory_set :: "string list \<Rightarrow> string fset" where
  "memory_set ids = fset_of_list ids"

text \<open>The ratio of common ids to the larger set is at least 0.8; it is 0 for an empty set.\<close>

definition overlaps :: "string fset \<Rightarrow> string fset \<Rightarrow> bool" where
  "overlaps left right \<longleftrightarrow>
     (if left = {||} \<or> right = {||} then False
      else 5 * fcard (left |\<inter>| right) \<ge> 4 * max (fcard left) (fcard right))"

section \<open>Operations\<close>

definition mark_memories_injected :: "string \<Rightarrow> string list \<Rightarrow> pending_state \<Rightarrow> pending_state" where
  "mark_memories_injected s ids st =
     st\<lparr>pg_injected := entry_upd {||} (\<lambda>known. known |\<union>| fset_of_list ids) s (pg_injected st)\<rparr>"

text \<open>
  Taking removes the payload in any case. A stale one is dropped; one with the signature injected last
  less than 90 seconds ago is dropped; otherwise its signature is recorded, and then it is still
  dropped if its set overlaps the one injected last less than 180 seconds ago.
\<close>

definition take_pending_memory ::
  "(string \<Rightarrow> string) \<Rightarrow> nat \<Rightarrow> string \<Rightarrow> pending_state \<Rightarrow> pending_memory option \<times> pending_state" where
  "take_pending_memory lower now s st =
     (case fmlookup (pg_pending st) s of
        None \<Rightarrow> (None, st)
      | Some p \<Rightarrow>
          let st = st\<lparr>pg_pending := fmdrop s (pg_pending st)\<rparr>;
              sig = prompt_signature lower (pm_prompt p)
          in if \<not> is_fresh now p then (None, st)
             else if (case fmlookup (pg_last_signature st) s of
                        Some (last_sig, last_at) \<Rightarrow>
                          last_sig = sig \<and> elapsed_secs now last_at < repeat_suppression_secs
                      | None \<Rightarrow> False)
             then (None, st)
             else
               let st = st\<lparr>pg_last_signature := fmupd s (sig, now) (pg_last_signature st)\<rparr>
               in if pm_memory_ids p = [] then (Some p, st)
                  else if (case fmlookup (pg_last_set st) s of
                             Some (last_set, last_at) \<Rightarrow>
                               overlaps last_set (memory_set (pm_memory_ids p)) \<and>
                               elapsed_secs now last_at < set_repeat_suppression_secs
                           | None \<Rightarrow> False)
                  then (None, st)
                  else
                    let st = st\<lparr>pg_last_set := fmupd s (memory_set (pm_memory_ids p), now) (pg_last_set st)\<rparr>
                    in (Some p, mark_memories_injected s (pm_memory_ids p) st))"

definition set_pending_memory_with_ids_and_display ::
  "(string \<Rightarrow> string) \<Rightarrow> nat \<Rightarrow> string \<Rightarrow> string \<Rightarrow> nat \<Rightarrow> string list \<Rightarrow> string option \<Rightarrow>
   pending_state \<Rightarrow> pending_state" where
  "set_pending_memory_with_ids_and_display lower now s prompt n ids display st =
     (if (case fmlookup (pg_pending st) s of
            Some existing \<Rightarrow> is_fresh now existing \<and>
              (prompt_signature lower (pm_prompt existing) = prompt_signature lower prompt \<or>
               overlaps (memory_set (pm_memory_ids existing)) (memory_set ids))
          | None \<Rightarrow> False)
      then st
      else st\<lparr>pg_pending := fmupd s \<lparr>pm_prompt = prompt, pm_display_prompt = display,
             pm_computed_at = now, pm_count = n, pm_memory_ids = ids\<rparr> (pg_pending st)\<rparr>)"

definition set_pending_memory_with_ids where
  "set_pending_memory_with_ids lower now s prompt n ids st =
     set_pending_memory_with_ids_and_display lower now s prompt n ids None st"

definition set_pending_memory where
  "set_pending_memory lower now s prompt n st =
     set_pending_memory_with_ids lower now s prompt n [] st"

definition sync_injected_memories :: "string \<Rightarrow> string list \<Rightarrow> pending_state \<Rightarrow> pending_state" where
  "sync_injected_memories s ids st =
     (if ids = [] then st\<lparr>pg_injected := fmdrop s (pg_injected st)\<rparr>
      else st\<lparr>pg_injected := fmupd s (fset_of_list ids) (pg_injected st)\<rparr>)"

definition is_memory_injected :: "string \<Rightarrow> string \<Rightarrow> pending_state \<Rightarrow> bool" where
  "is_memory_injected s i st \<longleftrightarrow>
     (case fmlookup (pg_injected st) s of Some known \<Rightarrow> i |\<in>| known | None \<Rightarrow> False)"

definition is_memory_injected_any :: "string \<Rightarrow> pending_state \<Rightarrow> bool" where
  "is_memory_injected_any i st \<longleftrightarrow> \<not> fmpred (\<lambda>_ known. i |\<notin>| known) (pg_injected st)"

definition clear_injected_memories :: "string \<Rightarrow> pending_state \<Rightarrow> pending_state" where
  "clear_injected_memories s st =
     st\<lparr>pg_last_signature := fmdrop s (pg_last_signature st),
        pg_last_set := fmdrop s (pg_last_set st),
        pg_injected := fmdrop s (pg_injected st)\<rparr>"

definition clear_all_injected_memories :: "pending_state \<Rightarrow> pending_state" where
  "clear_all_injected_memories st =
     st\<lparr>pg_last_signature := fmempty, pg_last_set := fmempty, pg_injected := fmempty\<rparr>"

definition clear_pending_memory :: "string \<Rightarrow> pending_state \<Rightarrow> pending_state" where
  "clear_pending_memory s st =
     clear_injected_memories s
       (st\<lparr>pg_pending := fmdrop s (pg_pending st),
           pg_last_signature := fmdrop s (pg_last_signature st),
           pg_last_set := fmdrop s (pg_last_set st)\<rparr>)"

definition clear_all_pending_memory :: "pending_state \<Rightarrow> pending_state" where
  "clear_all_pending_memory st =
     clear_all_injected_memories
       (st\<lparr>pg_pending := fmempty, pg_last_signature := fmempty, pg_last_set := fmempty\<rparr>)"

definition has_pending_memory :: "string \<Rightarrow> pending_state \<Rightarrow> bool" where
  "has_pending_memory s st \<longleftrightarrow> s |\<in>| fmdom (pg_pending st)"

definition has_any_pending_memory :: "pending_state \<Rightarrow> bool" where
  "has_any_pending_memory st \<longleftrightarrow> fmdom (pg_pending st) \<noteq> {||}"

definition begin_memory_check :: "string \<Rightarrow> pending_state \<Rightarrow> bool \<times> pending_state" where
  "begin_memory_check s st =
     (s |\<notin>| pg_checking st, st\<lparr>pg_checking := finsert s (pg_checking st)\<rparr>)"

definition finish_memory_check :: "string \<Rightarrow> pending_state \<Rightarrow> pending_state" where
  "finish_memory_check s st = st\<lparr>pg_checking := pg_checking st |-| {|s|}\<rparr>"

section \<open>Runs\<close>

text \<open>
  An operation happens at a time; the run records what was taken, with the session and the time,
  the latest first.
\<close>

datatype pending_op =
    Take string
  | SetPending string string nat "string list" "string option"
  | MarkInjected string "string list"
  | SyncInjected string "string list"
  | ClearInjected string
  | ClearPending string
  | ClearAllInjected
  | ClearAllPending
  | BeginCheck string
  | FinishCheck string

type_synonym injection = "string \<times> nat \<times> pending_memory"

fun pending_step ::
  "(string \<Rightarrow> string) \<Rightarrow> pending_state \<times> injection list \<Rightarrow> nat \<times> pending_op \<Rightarrow>
   pending_state \<times> injection list" where
  "pending_step lower (st, log) (now, Take s) =
     (case take_pending_memory lower now s st of
        (Some p, st) \<Rightarrow> (st, (s, now, p) # log)
      | (None, st) \<Rightarrow> (st, log))"
| "pending_step lower (st, log) (now, SetPending s prompt n ids display) =
     (set_pending_memory_with_ids_and_display lower now s prompt n ids display st, log)"
| "pending_step lower (st, log) (now, MarkInjected s ids) = (mark_memories_injected s ids st, log)"
| "pending_step lower (st, log) (now, SyncInjected s ids) = (sync_injected_memories s ids st, log)"
| "pending_step lower (st, log) (now, ClearInjected s) = (clear_injected_memories s st, log)"
| "pending_step lower (st, log) (now, ClearPending s) = (clear_pending_memory s st, log)"
| "pending_step lower (st, log) (now, ClearAllInjected) = (clear_all_injected_memories st, log)"
| "pending_step lower (st, log) (now, ClearAllPending) = (clear_all_pending_memory st, log)"
| "pending_step lower (st, log) (now, BeginCheck s) = (snd (begin_memory_check s st), log)"
| "pending_step lower (st, log) (now, FinishCheck s) = (finish_memory_check s st, log)"

text \<open>Clearing or replacing a session's records forgets what was injected into it.\<close>

fun keeps_records :: "string \<Rightarrow> pending_op \<Rightarrow> bool" where
  "keeps_records s (ClearInjected t) = (t \<noteq> s)"
| "keeps_records s (ClearPending t) = (t \<noteq> s)"
| "keeps_records s (SyncInjected t ids) = (t \<noteq> s)"
| "keeps_records s ClearAllInjected = False"
| "keeps_records s ClearAllPending = False"
| "keeps_records s _ = True"

section \<open>No repeats\<close>

text \<open>The injections into a session that carry ids, the latest first.\<close>

definition id_injections :: "string \<Rightarrow> injection list \<Rightarrow> injection list" where
  "id_injections s log = filter (\<lambda>(t, now, p). t = s \<and> pm_memory_ids p \<noteq> []) log"

definition spaced :: "injection \<Rightarrow> injection \<Rightarrow> bool" where
  "spaced later earlier \<longleftrightarrow>
     (case (later, earlier) of ((_, t2, p2), (_, t1, p1)) \<Rightarrow>
        \<not> overlaps (memory_set (pm_memory_ids p1)) (memory_set (pm_memory_ids p2)) \<or>
        set_repeat_suppression_secs \<le> elapsed_secs t2 t1)"

definition pending_inv :: "string \<Rightarrow> pending_state \<times> injection list \<Rightarrow> bool" where
  "pending_inv s stl \<longleftrightarrow>
     successively spaced (id_injections s (snd stl)) \<and>
     (case id_injections s (snd stl) of
        [] \<Rightarrow> True
      | (_, t, p) # _ \<Rightarrow> fmlookup (pg_last_set (fst stl)) s = Some (memory_set (pm_memory_ids p), t)) \<and>
     list_all (\<lambda>(u, t, p). is_fresh t p \<and>
       (u = s \<longrightarrow> list_all (\<lambda>i. is_memory_injected s i (fst stl)) (pm_memory_ids p))) (snd stl)"

lemma take_cases:
  assumes "take_pending_memory lower now s st = (r, st')"
  obtains (none) "r = None" "pg_last_set st' = pg_last_set st" "pg_injected st' = pg_injected st"
  | (plain) p where "r = Some p" "is_fresh now p" "pm_memory_ids p = []"
      "pg_last_set st' = pg_last_set st" "pg_injected st' = pg_injected st"
  | (ids) p where "r = Some p" "is_fresh now p" "pm_memory_ids p \<noteq> []"
      "pg_last_set st' = fmupd s (memory_set (pm_memory_ids p), now) (pg_last_set st)"
      "pg_injected st' = entry_upd {||} (\<lambda>known. known |\<union>| fset_of_list (pm_memory_ids p)) s (pg_injected st)"
      "case fmlookup (pg_last_set st) s of
         Some (last_set, last_at) \<Rightarrow> \<not> overlaps last_set (memory_set (pm_memory_ids p)) \<or>
           set_repeat_suppression_secs \<le> elapsed_secs now last_at
       | None \<Rightarrow> True"
proof -
  show ?thesis
  proof (cases "fmlookup (pg_pending st) s")
    case None
    then show ?thesis using assms none by (simp add: take_pending_memory_def)
  next
    case (Some p)
    have sel: "pg_last_set (st\<lparr>pg_pending := a\<rparr>) = pg_last_set st"
      "pg_last_set (st\<lparr>pg_pending := a, pg_last_signature := b\<rparr>) = pg_last_set st"
      "pg_injected (st\<lparr>pg_pending := a\<rparr>) = pg_injected st"
      "pg_injected (st\<lparr>pg_pending := a, pg_last_signature := b\<rparr>) = pg_injected st" for a b
      by simp_all
    show ?thesis
    proof (cases r)
      case None
      with assms Some show ?thesis
        by (intro none) (auto simp: take_pending_memory_def Let_def split: if_splits)
    next
      case r: (Some q)
      with assms Some have q: "q = p" "is_fresh now p"
        by (auto simp: take_pending_memory_def Let_def split: if_splits)
      show ?thesis
      proof (cases "pm_memory_ids p = []")
        case True
        then show ?thesis using assms Some r q
          by (intro plain [of p]) (auto simp: take_pending_memory_def Let_def split: if_splits)
      next
        case False
        then show ?thesis using assms Some r q
          by (intro ids [of p]) (auto simp: take_pending_memory_def Let_def mark_memories_injected_def
            not_less split: if_splits option.splits)
      qed
    qed
  qed
qed

lemma injected_entry_upd:
  "is_memory_injected s i (st\<lparr>pg_injected := entry_upd {||} (\<lambda>known. known |\<union>| fset_of_list ids) t (pg_injected st)\<rparr>)
   \<longleftrightarrow> is_memory_injected s i st \<or> (t = s \<and> i \<in> set ids)"
  by (auto simp: is_memory_injected_def entry_upd_def fset_of_list.rep_eq split: option.splits)

text \<open>An operation that injects nothing keeps the invariant if it keeps the session's records.\<close>

lemma pending_inv_mono:
  assumes "pending_inv s (st, log)"
    and "fmlookup (pg_last_set st') s = fmlookup (pg_last_set st) s"
    and "\<And>i. is_memory_injected s i st \<Longrightarrow> is_memory_injected s i st'"
  shows "pending_inv s (st', log)"
  using assms by (auto simp: pending_inv_def list_all_iff split: list.splits)

lemma pending_inv_log:
  assumes "pending_inv s (st, log)" "is_fresh now p" "u \<noteq> s \<or> pm_memory_ids p = []"
  shows "pending_inv s (st, (u, now, p) # log)"
proof -
  have "id_injections s ((u, now, p) # log) = id_injections s log"
    using assms(3) by (auto simp: id_injections_def)
  then show ?thesis
    using assms unfolding pending_inv_def fst_conv snd_conv by auto
qed

lemma pending_inv_take:
  assumes inv: "pending_inv s (st, log)"
  shows "pending_inv s (pending_step lower (st, log) (now, Take u))"
proof -
  obtain r st' where t: "take_pending_memory lower now u st = (r, st')" by fastforce
  from t show ?thesis
  proof (cases rule: take_cases)
    case none
    then have "pending_inv s (st', log)"
      by (intro pending_inv_mono [OF inv]) (simp_all add: is_memory_injected_def)
    then show ?thesis using t none by simp
  next
    case (plain p)
    then have "pending_inv s (st', log)"
      by (intro pending_inv_mono [OF inv]) (simp_all add: is_memory_injected_def)
    then show ?thesis using t plain by (simp add: pending_inv_log)
  next
    case (ids p)
    have inj: "is_memory_injected s i st' \<longleftrightarrow> is_memory_injected s i st \<or> (u = s \<and> i \<in> set (pm_memory_ids p))" for i
      using injected_entry_upd [of s i "pm_memory_ids p" u st] ids(5)
      by (simp add: is_memory_injected_def)
    show ?thesis
    proof (cases "u = s")
      case False
      then have "pending_inv s (st', log)"
        using inj ids(4) by (intro pending_inv_mono [OF inv]) simp_all
      then show ?thesis using t ids False by (simp add: pending_inv_log)
    next
      case True
      have hd: "case id_injections s log of [] \<Rightarrow> True | e # _ \<Rightarrow> spaced (s, now, p) e"
        using inv ids(6) True by (auto simp: pending_inv_def spaced_def split: list.splits)
      have "id_injections s ((s, now, p) # log) = (s, now, p) # id_injections s log"
        using ids(3) by (simp add: id_injections_def)
      then show ?thesis
        using inv t ids hd True inj
        by (auto simp: pending_inv_def successively_Cons list_all_iff split: list.splits)
    qed
  qed
qed

lemma records_kept:
  assumes "keeps_records s op" "pending_step lower (st, log) (now, op) = (st', log')" "\<And>u. op \<noteq> Take u"
  shows "log' = log \<and> fmlookup (pg_last_set st') s = fmlookup (pg_last_set st) s \<and>
    (is_memory_injected s i st \<longrightarrow> is_memory_injected s i st')"
proof (cases op)
  case (MarkInjected t ids)
  then show ?thesis using assms injected_entry_upd [of s i ids t st] by (auto simp: mark_memories_injected_def)
next
  case (SetPending t prompt n ids display)
  then show ?thesis using assms
    by (auto simp: set_pending_memory_with_ids_and_display_def is_memory_injected_def)
qed (use assms in \<open>auto simp: is_memory_injected_def sync_injected_memories_def clear_injected_memories_def
    clear_pending_memory_def begin_memory_check_def finish_memory_check_def split: if_splits\<close>)

lemma pending_inv_step:
  assumes "pending_inv s stl" "keeps_records s (snd x)"
  shows "pending_inv s (pending_step lower stl x)"
proof -
  obtain st log where stl: "stl = (st, log)" by (cases stl)
  obtain now op where x: "x = (now, op)" by (cases x)
  note inv = assms(1) [unfolded stl]
  show ?thesis
  proof (cases "\<exists>u. op = Take u")
    case True
    then show ?thesis using pending_inv_take [OF inv] by (auto simp: stl x)
  next
    case False
    obtain st' log' where step: "pending_step lower (st, log) (now, op) = (st', log')" by fastforce
    note kept = records_kept [OF _ step, of s]
    have "log' = log" "fmlookup (pg_last_set st') s = fmlookup (pg_last_set st) s"
      "is_memory_injected s i st \<Longrightarrow> is_memory_injected s i st'" for i
      using kept [of i] assms(2) False by (auto simp: x)
    then show ?thesis unfolding stl x step using pending_inv_mono [OF inv] by blast
  qed
qed

interpretation pending_runs: guarded_machine "pending_step lower" "(start, [])" "pending_inv s"
    "\<lambda>x. keeps_records s (snd x)"
  for lower s start
proof
  show "pending_inv s (start, [])" by (simp add: pending_inv_def id_injections_def)
qed (rule pending_inv_step)

text \<open>
  Property C35. From any state on, over any operations at any times among which none clears or replaces the records of a session:
  every payload injected is less than 120 seconds old when it is injected; all ids of those injected into the session
  count as injected into it; and of two payloads with ids that are injected into the session with none with ids
  in between, the sets overlap by less than four fifths or the injections lie at least 180 seconds apart. Only
  neighbours are compared: the same memories may come again after others, whatever the time.
\<close>

theorem injections_spaced:
  assumes "list_all (\<lambda>x. keeps_records s (snd x)) ops"
  shows "let (st, log) = foldl (pending_step lower) (start, []) ops
    in successively spaced (id_injections s log) \<and>
       list_all (\<lambda>(u, now, p). elapsed_secs now (pm_computed_at p) < 120 \<and>
         (u = s \<longrightarrow> list_all (\<lambda>i. is_memory_injected s i st) (pm_memory_ids p))) log"
  using pending_runs.run_inv [OF assms, of lower start]
  by (simp add: pending_inv_def is_fresh_def case_prod_beta Let_def)

theorem injections_spaced_witness:
  "let (st, log) = foldl (pending_step id) (pending_start, [])
       [(0, SetPending ''s'' ''likes tea'' 1 [''m1''] None), (1000, Take ''s''),
        (2000, SetPending ''s'' ''prefers tea'' 1 [''m1''] None), (3000, Take ''s''),
        (4000, SetPending ''s'' ''owns a cat'' 1 [''m2''] None), (5000, Take ''s'')]
   in successively spaced (id_injections ''s'' log) \<and> map (\<lambda>(u, t, p). t) log = [5000, 1000]"
proof -
  let ?ops = "[(0, SetPending ''s'' ''likes tea'' 1 [''m1''] None), (1000, Take ''s''),
        (2000, SetPending ''s'' ''prefers tea'' 1 [''m1''] None), (3000, Take ''s''),
        (4000, SetPending ''s'' ''owns a cat'' 1 [''m2''] None), (5000, Take ''s'')]"
  have "map (\<lambda>(u, t, p). t) (snd (foldl (pending_step id) (pending_start, []) ?ops)) = [5000, 1000]"
    by code_simp
  then show ?thesis
    using injections_spaced [of "''s''" ?ops id pending_start] by (simp add: case_prod_beta Let_def)
qed

text \<open>The same memory three times within five seconds, suppressed only while it is the latest.\<close>

lemma repeated_after_other:
  "map (\<lambda>(u, t, p). (t, pm_memory_ids p)) (snd (foldl (pending_step id) (pending_start, [])
       [(0, SetPending ''s'' ''likes tea'' 1 [''m1''] None), (1000, Take ''s''),
        (2000, SetPending ''s'' ''owns a cat'' 1 [''m2''] None), (3000, Take ''s''),
        (4000, SetPending ''s'' ''likes tea'' 1 [''m1''] None), (5000, Take ''s''),
        (6000, SetPending ''s'' ''prefers tea'' 1 [''m1''] None), (7000, Take ''s'')])) =
     [(5000, [''m1'']), (3000, [''m2'']), (1000, [''m1''])]"
  by code_simp

text \<open>
  A payload that is dropped because its set overlaps the one injected last is recorded as the
  prompt injected last all the same: the same prompt with other memories, prepared and taken
  within 90 seconds, is dropped as a duplicate although nothing like it was injected.
\<close>

theorem suppressed_prompt_recorded:
  assumes "fmlookup (pg_pending st) s = Some p" and "is_fresh now p" and "pm_memory_ids p \<noteq> []"
    and "fmlookup (pg_last_set st) s = Some (prev, at)" and "overlaps prev (memory_set (pm_memory_ids p))"
    and "elapsed_secs now at < 180"
    and "case fmlookup (pg_last_signature st) s of None \<Rightarrow> True
      | Some (sig, t) \<Rightarrow> sig \<noteq> prompt_signature lower (pm_prompt p) \<or> 90 \<le> elapsed_secs now t"
    and "elapsed_secs later now < 90"
  shows "let (r, st1) = take_pending_memory lower now s st;
      st2 = set_pending_memory_with_ids lower later s (pm_prompt p) n ids st1
    in r = None \<and> pg_injected st1 = pg_injected st \<and> fst (take_pending_memory lower later s st2) = None"
proof -
  let ?sig = "prompt_signature lower (pm_prompt p)"
  let ?st = "st\<lparr>pg_pending := fmdrop s (pg_pending st), pg_last_signature := fmupd s (?sig, now) (pg_last_signature st)\<rparr>"
  have other: "\<not> (case fmlookup (pg_last_signature st) s of
      Some (last_sig, last_at) \<Rightarrow> last_sig = ?sig \<and> elapsed_secs now last_at < repeat_suppression_secs
    | None \<Rightarrow> False)"
    using assms(7) by (auto simp: repeat_suppression_secs_def split: option.splits)
  have run: "take_pending_memory lower now s st = (None, ?st)"
    using assms(1-6) other by (simp add: take_pending_memory_def Let_def set_repeat_suppression_secs_def)
  show ?thesis
    unfolding run using assms(8)
    by (simp add: take_pending_memory_def Let_def set_pending_memory_with_ids_def
      set_pending_memory_with_ids_and_display_def repeat_suppression_secs_def)
qed

theorem suppressed_prompt_recorded_witness:
  "let st = fst (foldl (pending_step id) (pending_start, [])
       [(0, SetPending ''s'' ''likes tea'' 1 [''m1''] None), (1000, Take ''s''),
        (2000, SetPending ''s'' ''prefers tea'' 1 [''m1''] None)]);
       st1 = snd (take_pending_memory id 3000 ''s'' st)
   in fst (take_pending_memory id 9000 ''s'' (set_pending_memory_with_ids id 9000 ''s'' ''prefers tea'' 1 [''m2''] st1)) = None"
proof -
  let ?st = "fst (foldl (pending_step id) (pending_start, [])
       [(0, SetPending ''s'' ''likes tea'' 1 [''m1''] None), (1000, Take ''s''),
        (2000, SetPending ''s'' ''prefers tea'' 1 [''m1''] None)])"
  let ?p = "\<lparr>pm_prompt = ''prefers tea'', pm_display_prompt = None, pm_computed_at = 2000, pm_count = 1,
    pm_memory_ids = [''m1'']\<rparr>"
  have h: "fmlookup (pg_pending ?st) ''s'' = Some ?p" "is_fresh 3000 ?p" "pm_memory_ids ?p \<noteq> []"
    "fmlookup (pg_last_set ?st) ''s'' = Some (memory_set [''m1''], 1000)"
    "overlaps (memory_set [''m1'']) (memory_set (pm_memory_ids ?p))" "elapsed_secs 3000 1000 < 180"
    "case fmlookup (pg_last_signature ?st) ''s'' of None \<Rightarrow> True
      | Some (sig, t) \<Rightarrow> sig \<noteq> prompt_signature id (pm_prompt ?p) \<or> 90 \<le> elapsed_secs 3000 t"
    "elapsed_secs 9000 3000 < 90"
    by code_simp+
  show ?thesis
    using suppressed_prompt_recorded [OF h, of 1 "[''m2'']"] by (simp add: case_prod_beta Let_def)
qed

end
