(* ===== verification/SidePanel.thy ===== *)
theory SidePanel
  imports Prelude "HOL-Library.Product_Lexorder"
begin

text \<open>
  The side panel of a session (src/side_panel.rs with the types of crates/jcode-side-panel-types):
  an index of pages per session and a file for each managed page. The disk is a record of two
  finite maps; what is stored under a key but cannot be read back (an index that is not JSON, a
  file that is not text) is \<^verbatim>\<open>None\<close> there. Writing succeeds. The current time, the revision the code
  computes of a linked file (a hash of its metadata) and path canonicalisation are arguments.
\<close>

section \<open>Types\<close>

datatype page_format = Markdown

fun page_format_as_str :: "page_format \<Rightarrow> string" where
  "page_format_as_str Markdown = ''markdown''"

datatype page_source = Managed | LinkedFile | Ephemeral

fun page_source_as_str :: "page_source \<Rightarrow> string" where
  "page_source_as_str Managed = ''managed''"
| "page_source_as_str LinkedFile = ''linked_file''"
| "page_source_as_str Ephemeral = ''ephemeral''"

record persisted_page =
  pp_id :: string
  pp_title :: string
  pp_file_path :: string
  pp_format :: page_format
  pp_source :: page_source
  pp_updated_at_ms :: nat

record persisted_panel =
  ps_focused_page_id :: "string option"
  ps_pages :: "persisted_page list"

definition panel_default :: persisted_panel where
  "panel_default = \<lparr>ps_focused_page_id = None, ps_pages = []\<rparr>"

record side_panel_page =
  sp_id :: string
  sp_title :: string
  sp_file_path :: string
  sp_format :: page_format
  sp_source :: page_source
  sp_content :: string
  sp_updated_at_ms :: nat

record side_panel_snapshot =
  sn_focused_page_id :: "string option"
  sn_pages :: "side_panel_page list"

definition has_pages :: "side_panel_snapshot \<Rightarrow> bool" where
  "has_pages s \<longleftrightarrow> sn_pages s \<noteq> []"

definition focused_page :: "side_panel_snapshot \<Rightarrow> side_panel_page option" where
  "focused_page s =
     (case sn_focused_page_id s of
        None \<Rightarrow> None
      | Some focused_id \<Rightarrow> find (\<lambda>p. sp_id p = focused_id) (sn_pages s))"

definition snapshot_is_empty :: "side_panel_snapshot \<Rightarrow> bool" where
  "snapshot_is_empty s \<longleftrightarrow> \<not> has_pages s"

section \<open>Paths and checks of the arguments\<close>

text \<open>The parts of a path between slashes.\<close>

fun split_slash :: "string \<Rightarrow> string list" where
  "split_slash [] = [[]]"
| "split_slash (c # cs) =
     (if c = CHR ''/'' then [] # split_slash cs
      else case split_slash cs of [] \<Rightarrow> [[c]] | p # ps \<Rightarrow> (c # p) # ps)"

text \<open>
  The number of components of a path: the root, a dot in front, and the named parts; empty parts
  and other dots do not count.
\<close>

definition component_count :: "string \<Rightarrow> nat" where
  "component_count path =
     (let parts = split_slash path
      in (if prefix ''/'' path \<or> hd parts = ''.'' then 1 else 0) +
         length (filter (\<lambda>p. p \<noteq> [] \<and> p \<noteq> ''.'') parts))"

definition file_extension :: "string \<Rightarrow> string option" where
  "file_extension path =
     (case rev (filter (\<lambda>p. p \<noteq> [] \<and> p \<noteq> ''.'') (split_slash path)) of
        [] \<Rightarrow> None
      | name # _ \<Rightarrow>
          if name = ''..'' then None
          else let ext = rev (takeWhile (\<lambda>c. c \<noteq> CHR ''.'') (rev name))
               in if length ext = length name \<or> Suc (length ext) = length name then None else Some ext)"

datatype panel_error =
    PageIdEmpty | PageIdTooLong | PageIdAlphabet | PageIdDots | PageIdSeparators
  | NotMarkdown string | PageNotFound string | ReadFailed string | IndexUnreadable

definition page_id_char :: "string \<Rightarrow> bool" where
  "page_id_char ch =
     (case ch of [c] \<Rightarrow> is_ascii_alphanumeric c \<or> c = CHR ''_'' \<or> c = CHR ''-'' \<or> c = CHR ''.'' | _ \<Rightarrow> False)"

definition validate_page_id :: "string \<Rightarrow> panel_error + unit" where
  "validate_page_id raw =
     (let page_id = trim raw
      in if page_id = [] then Inl PageIdEmpty
         else if length page_id > 80 then Inl PageIdTooLong
         else if \<not> list_all page_id_char (chars page_id) then Inl PageIdAlphabet
         else if str_contains page_id ''..'' then Inl PageIdDots
         else if component_count page_id \<noteq> 1 then Inl PageIdSeparators
         else Inr ())"

definition validate_markdown_source_path :: "string \<Rightarrow> panel_error + unit" where
  "validate_markdown_source_path path =
     (if map_option to_ascii_lowercase (file_extension path) \<in>
          Some ` {''md'', ''markdown'', ''mdown'', ''mkd'', ''mkdn''}
      then Inr () else Inl (NotMarkdown path))"

section \<open>The disk\<close>

record panel_disk =
  dk_index :: "(string, persisted_panel option) fmap"
  dk_files :: "(string, string option) fmap"

definition session_dir :: "string \<Rightarrow> string \<Rightarrow> string" where
  "session_dir base session_id = base @ ''/side_panel/'' @ session_id"

definition page_path :: "string \<Rightarrow> string \<Rightarrow> string \<Rightarrow> string" where
  "page_path base session_id page_id = session_dir base session_id @ ''/'' @ page_id @ ''.md''"

definition load_state :: "string \<Rightarrow> panel_disk \<Rightarrow> panel_error + persisted_panel" where
  "load_state session_id d =
     (case fmlookup (dk_index d) session_id of
        None \<Rightarrow> Inr panel_default
      | Some None \<Rightarrow> Inl IndexUnreadable
      | Some (Some st) \<Rightarrow> Inr st)"

definition save_state :: "string \<Rightarrow> persisted_panel \<Rightarrow> panel_disk \<Rightarrow> panel_disk" where
  "save_state session_id st d = d\<lparr>dk_index := fmupd session_id (Some st) (dk_index d)\<rparr>"

definition read_text :: "panel_disk \<Rightarrow> string \<Rightarrow> string option" where
  "read_text d path = (case fmlookup (dk_files d) path of Some (Some t) \<Rightarrow> Some t | _ \<Rightarrow> None)"

definition write_text :: "string \<Rightarrow> string \<Rightarrow> panel_disk \<Rightarrow> panel_disk" where
  "write_text path t d = d\<lparr>dk_files := fmupd path (Some t) (dk_files d)\<rparr>"

definition hydrate_page :: "(string \<Rightarrow> nat) \<Rightarrow> panel_disk \<Rightarrow> persisted_page \<Rightarrow> side_panel_page" where
  "hydrate_page revision d p =
     (let content = (case read_text d (pp_file_path p) of Some t \<Rightarrow> t | None \<Rightarrow> [])
      in \<lparr>sp_id = pp_id p, sp_title = pp_title p, sp_file_path = pp_file_path p,
          sp_format = pp_format p, sp_source = pp_source p,
          sp_content = (if pp_source p = Ephemeral then [] else content),
          sp_updated_at_ms = (case pp_source p of
              Managed \<Rightarrow> pp_updated_at_ms p
            | LinkedFile \<Rightarrow> revision (pp_file_path p)
            | Ephemeral \<Rightarrow> pp_updated_at_ms p)\<rparr>)"

definition hydrate_snapshot :: "(string \<Rightarrow> nat) \<Rightarrow> panel_disk \<Rightarrow> persisted_panel \<Rightarrow> side_panel_snapshot" where
  "hydrate_snapshot revision d st =
     \<lparr>sn_focused_page_id = ps_focused_page_id st, sn_pages = map (hydrate_page revision d) (ps_pages st)\<rparr>"

section \<open>Operations\<close>

definition snapshot_for_session ::
  "(string \<Rightarrow> nat) \<Rightarrow> string \<Rightarrow> panel_disk \<Rightarrow> panel_error + side_panel_snapshot" where
  "snapshot_for_session revision session_id d =
     (case load_state session_id d of
        Inl e \<Rightarrow> Inl e
      | Inr st \<Rightarrow> Inr (hydrate_snapshot revision d st))"

definition title_or :: "string \<Rightarrow> string option \<Rightarrow> string" where
  "title_or fallback title =
     (case title of None \<Rightarrow> fallback | Some t \<Rightarrow> if trim t = [] then fallback else trim t)"

definition page_rank :: "persisted_page \<Rightarrow> int \<times> string" where
  "page_rank p = (- int (pp_updated_at_ms p), pp_id p)"

fun update_first :: "('a \<Rightarrow> bool) \<Rightarrow> ('a \<Rightarrow> 'a) \<Rightarrow> 'a list \<Rightarrow> 'a list" where
  "update_first P f [] = []"
| "update_first P f (x # xs) = (if P x then f x # xs else x # update_first P f xs)"

definition upsert_page_record ::
  "string \<Rightarrow> string option \<Rightarrow> string \<Rightarrow> page_source \<Rightarrow> nat \<Rightarrow> bool \<Rightarrow> persisted_panel \<Rightarrow> persisted_panel" where
  "upsert_page_record page_id title file_path source now focus st =
     (let pages =
            (if list_ex (\<lambda>p. pp_id p = page_id) (ps_pages st) then
               update_first (\<lambda>p. pp_id p = page_id)
                 (\<lambda>p. p\<lparr>pp_title := title_or (pp_title p) title, pp_file_path := file_path,
                   pp_format := Markdown, pp_source := source, pp_updated_at_ms := now\<rparr>) (ps_pages st)
             else ps_pages st @ [\<lparr>pp_id = page_id, pp_title = title_or page_id title,
               pp_file_path = file_path, pp_format = Markdown, pp_source = source, pp_updated_at_ms = now\<rparr>])
      in \<lparr>ps_focused_page_id =
            (if focus \<or> ps_focused_page_id st = None then Some page_id else ps_focused_page_id st),
          ps_pages = sort_key page_rank pages\<rparr>)"

definition combine_content :: "bool \<Rightarrow> string option \<Rightarrow> string \<Rightarrow> string" where
  "combine_content appending existing content =
     (case existing of
        Some t \<Rightarrow> if appending then (if t \<noteq> [] \<and> last t \<noteq> CHR 0x0A then t @ nl else t) @ content else content
      | None \<Rightarrow> content)"

text \<open>The base directory, the time and the revision function come first.\<close>

definition write_page ::
  "string \<Rightarrow> nat \<Rightarrow> (string \<Rightarrow> nat) \<Rightarrow> string \<Rightarrow> string \<Rightarrow> string option \<Rightarrow> string \<Rightarrow> bool \<Rightarrow> bool \<Rightarrow>
   panel_disk \<Rightarrow> (panel_error + side_panel_snapshot) \<times> panel_disk" where
  "write_page base now revision session_id page_id title content focus appending d =
     (case validate_page_id page_id of
        Inl e \<Rightarrow> (Inl e, d)
      | Inr _ \<Rightarrow>
          let path = page_path base session_id page_id
          in case load_state session_id d of
               Inl e \<Rightarrow> (Inl e, d)
             | Inr st \<Rightarrow>
                 if appending \<and> fmlookup (dk_files d) path = Some None then (Inl (ReadFailed path), d)
                 else
                   let d = write_text path (combine_content appending (read_text d path) content) d;
                       st = upsert_page_record page_id title path Managed now focus st;
                       d = save_state session_id st d
                   in (Inr (hydrate_snapshot revision d st), d))"

definition write_markdown_page where
  "write_markdown_page base now revision session_id page_id title content focus =
     write_page base now revision session_id page_id title content focus False"

definition append_markdown_page where
  "append_markdown_page base now revision session_id page_id title content focus =
     write_page base now revision session_id page_id title content focus True"

definition load_markdown_file ::
  "(string \<Rightarrow> string) \<Rightarrow> nat \<Rightarrow> (string \<Rightarrow> nat) \<Rightarrow> string \<Rightarrow> string \<Rightarrow> string option \<Rightarrow> string \<Rightarrow> bool \<Rightarrow>
   panel_disk \<Rightarrow> (panel_error + side_panel_snapshot) \<times> panel_disk" where
  "load_markdown_file canonical now revision session_id page_id title source_path focus d =
     (case validate_page_id page_id of
        Inl e \<Rightarrow> (Inl e, d)
      | Inr _ \<Rightarrow>
     case validate_markdown_source_path source_path of
        Inl e \<Rightarrow> (Inl e, d)
      | Inr _ \<Rightarrow>
     case read_text d source_path of
        None \<Rightarrow> (Inl (ReadFailed source_path), d)
      | Some content \<Rightarrow>
          let path = canonical source_path
          in case load_state session_id d of
               Inl e \<Rightarrow> (Inl e, d)
             | Inr st \<Rightarrow>
                 let st = upsert_page_record page_id title path LinkedFile now focus st;
                     d = save_state session_id st d;
                     snapshot = hydrate_snapshot revision d st
                 in (Inr (snapshot\<lparr>sn_pages := update_first (\<lambda>p. sp_id p = page_id)
                        (\<lambda>p. p\<lparr>sp_content := content, sp_updated_at_ms := revision path\<rparr>)
                        (sn_pages snapshot)\<rparr>), d))"

definition refresh_page ::
  "(string \<Rightarrow> nat) \<Rightarrow> string option \<Rightarrow> panel_disk \<Rightarrow> side_panel_page \<Rightarrow> side_panel_page \<times> bool" where
  "refresh_page revision target d p =
     (if sp_source p \<noteq> LinkedFile then (p, False)
      else if (case target of Some t \<Rightarrow> sp_id p \<noteq> t | None \<Rightarrow> False) then (p, False)
      else
        let next_revision = revision (sp_file_path p)
        in if next_revision = sp_updated_at_ms p then (p, False)
           else (p\<lparr>sp_content := (case read_text d (sp_file_path p) of Some t \<Rightarrow> t | None \<Rightarrow> sp_content p),
                  sp_updated_at_ms := next_revision\<rparr>, True))"

definition refresh_linked_page_content ::
  "(string \<Rightarrow> nat) \<Rightarrow> string option \<Rightarrow> panel_disk \<Rightarrow> side_panel_snapshot \<Rightarrow> side_panel_snapshot \<times> bool" where
  "refresh_linked_page_content revision page_id d snapshot =
     (let target = (case page_id of Some i \<Rightarrow> Some i | None \<Rightarrow> sn_focused_page_id snapshot);
          results = map (refresh_page revision target d) (sn_pages snapshot)
      in (snapshot\<lparr>sn_pages := map fst results\<rparr>, list_ex snd results))"

definition focus_page ::
  "(string \<Rightarrow> nat) \<Rightarrow> string \<Rightarrow> string \<Rightarrow> panel_disk \<Rightarrow> (panel_error + side_panel_snapshot) \<times> panel_disk" where
  "focus_page revision session_id page_id d =
     (case validate_page_id page_id of
        Inl e \<Rightarrow> (Inl e, d)
      | Inr _ \<Rightarrow>
     case load_state session_id d of
        Inl e \<Rightarrow> (Inl e, d)
      | Inr st \<Rightarrow>
          if list_ex (\<lambda>p. pp_id p = page_id) (ps_pages st) then
            let st = st\<lparr>ps_focused_page_id := Some page_id\<rparr>; d = save_state session_id st d
            in (Inr (hydrate_snapshot revision d st), d)
          else (Inl (PageNotFound page_id), d))"

text \<open>The last of the largest elements, as the standard library's \<^verbatim>\<open>max_by_key\<close>.\<close>

fun max_by_key :: "('a \<Rightarrow> nat) \<Rightarrow> 'a list \<Rightarrow> 'a option" where
  "max_by_key f [] = None"
| "max_by_key f (x # xs) =
     (case max_by_key f xs of None \<Rightarrow> Some x | Some y \<Rightarrow> if f x \<le> f y then Some y else Some x)"

definition delete_page ::
  "string \<Rightarrow> (string \<Rightarrow> nat) \<Rightarrow> string \<Rightarrow> string \<Rightarrow> panel_disk \<Rightarrow> (panel_error + side_panel_snapshot) \<times> panel_disk" where
  "delete_page base revision session_id page_id d =
     (case validate_page_id page_id of
        Inl e \<Rightarrow> (Inl e, d)
      | Inr _ \<Rightarrow>
     case load_state session_id d of
        Inl e \<Rightarrow> (Inl e, d)
      | Inr st \<Rightarrow>
          let pages = filter (\<lambda>p. pp_id p \<noteq> page_id) (ps_pages st)
          in if length pages = length (ps_pages st) then (Inl (PageNotFound page_id), d)
             else
               let d = d\<lparr>dk_files := fmdrop (page_path base session_id page_id) (dk_files d)\<rparr>;
                   st = \<lparr>ps_focused_page_id =
                        (if ps_focused_page_id st = Some page_id
                         then map_option pp_id (max_by_key pp_updated_at_ms pages)
                         else ps_focused_page_id st), ps_pages = pages\<rparr>;
                   d = save_state session_id st d
               in (Inr (hydrate_snapshot revision d st), d))"

definition status_line :: "side_panel_snapshot \<Rightarrow> side_panel_page \<Rightarrow> string" where
  "status_line s p =
     (if sn_focused_page_id s = Some (sp_id p) then ''*'' else '' '') @ '' '' @ sp_id p @ '' ('' @
     page_format_as_str (sp_format p) @ '')'' @ nl @ ''  title: '' @ sp_title p @ nl @ ''  source: '' @
     page_source_as_str (sp_source p) @ nl @ ''  file: '' @ sp_file_path p @ nl"

definition status_output :: "side_panel_snapshot \<Rightarrow> string" where
  "status_output s =
     (if sn_pages s = [] then ''Side panel: empty''
      else trim_end (''Side panel: '' @ show_nat (length (sn_pages s)) @ '' page'' @
        (if length (sn_pages s) = 1 then [] else ''s'') @ nl @ ''Focused: '' @
        (case focused_page s of Some p \<Rightarrow> sp_id p | None \<Rightarrow> ''none'') @ nl @
        concat (map (status_line s) (sn_pages s))))"

end
