(* ===== verification/SidePanelProperties.thy ===== *)
theory SidePanelProperties
  imports SidePanel
begin

text \<open>
  What the side panel promises: accepted page ids, the invariant of the stored index under all
  operations of all sessions, and the effect of writing and of deleting a page.
\<close>

section \<open>Page ids\<close>

lemma split_slash_plain: "CHR ''/'' \<notin> set s \<Longrightarrow> split_slash s = [s]"
  by (induction s) auto

lemma page_id_char_slash: "list_all page_id_char chs \<Longrightarrow> CHR ''/'' \<notin> set (concat chs)"
  by (induction chs) (auto simp: page_id_char_def is_ascii_alphanumeric_def split: list.splits)

lemma component_count_plain:
  assumes "CHR ''/'' \<notin> set s" "s \<noteq> []"
  shows "component_count s = 1"
  using assms by (cases s) (auto simp: component_count_def split_slash_plain Let_def prefix_def)

lemma no_slash_ws: "is_ws ch \<Longrightarrow> CHR ''/'' \<notin> set ch"
proof -
  have "list_all (\<lambda>ch. CHR ''/'' \<notin> set ch) ws_chars" by code_simp
  then show "is_ws ch \<Longrightarrow> CHR ''/'' \<notin> set ch" by (simp add: is_ws_def list_all_iff)
qed

lemma slash_trim: "CHR ''/'' \<in> set s \<Longrightarrow> CHR ''/'' \<in> set (trim s)"
proof -
  assume "CHR ''/'' \<in> set s"
  then obtain ch where ch: "ch \<in> set (chars s)" "CHR ''/'' \<in> set ch"
    by (metis concat_chars UN_E set_concat)
  have keep: "x \<in> set (dropWhile is_ws xs)" if "x \<in> set xs" "\<not> is_ws x" for x xs
    using that by (induction xs) auto
  have "\<not> is_ws ch" using ch(2) no_slash_ws by blast
  then have "ch \<in> set (drop_ws_end (dropWhile is_ws (chars s)))"
    unfolding drop_ws_end_def using keep ch(1) by simp
  then show ?thesis using ch(2) by (auto simp: trim_def)
qed

lemma validate_page_id_iff:
  "validate_page_id i = Inr () \<longleftrightarrow>
     trim i \<noteq> [] \<and> length (trim i) \<le> 80 \<and> list_all page_id_char (chars (trim i)) \<and>
     \<not> str_contains (trim i) ''..''"
proof -
  have "CHR ''/'' \<notin> set (trim i)" if "list_all page_id_char (chars (trim i))"
    using page_id_char_slash [OF that] by simp
  then show ?thesis
    using component_count_plain [of "trim i"] by (auto simp: validate_page_id_def Let_def)
qed

text \<open>
  A page id is accepted exactly when, trimmed, it is not empty, has at most 80 bytes, all
  of them ASCII letters, digits, underscores, dashes and dots, and no two dots in a row: the test
  for path separators never fails after these. What is accepted is the trimmed text, but the
  untrimmed id is used from then on; it has no slash in any case, so that its file
  lies directly in the directory of the session.
\<close>

theorem validate_page_id_correct:
  "(validate_page_id i = Inr () \<longleftrightarrow>
      trim i \<noteq> [] \<and> length (trim i) \<le> 80 \<and> list_all page_id_char (chars (trim i)) \<and>
      \<not> str_contains (trim i) ''..'') \<and>
   (case validate_page_id i of
      Inr _ \<Rightarrow> CHR ''/'' \<notin> set i \<and> split_slash (i @ ''.md'') = [i @ ''.md'']
    | Inl e \<Rightarrow> e \<in> {PageIdEmpty, PageIdTooLong, PageIdAlphabet, PageIdDots}) \<and>
   validate_page_id '' notes'' = Inr ()"
proof -
  have chars: "CHR ''/'' \<notin> set (trim i)" if "list_all page_id_char (chars (trim i))"
    using page_id_char_slash [OF that] by simp
  have example: "validate_page_id '' notes'' = Inr ()" by code_simp
  have parts: "split_slash (i @ ''.md'') = [i @ ''.md'']" if "CHR ''/'' \<notin> set i"
    using that by (intro split_slash_plain) simp
  note iff = validate_page_id_iff [of i]
  have errors: "case validate_page_id i of Inr _ \<Rightarrow> True
      | Inl e \<Rightarrow> e \<in> {PageIdEmpty, PageIdTooLong, PageIdAlphabet, PageIdDots}"
    using chars component_count_plain [of "trim i"] by (auto simp: validate_page_id_def Let_def)
  show ?thesis
  proof (cases "validate_page_id i")
    case (Inr u)
    then have "CHR ''/'' \<notin> set i" using iff chars slash_trim [of i] by auto
    with Inr parts iff example show ?thesis by simp
  next
    case (Inl e)
    with errors iff example show ?thesis by simp
  qed
qed

section \<open>The stored index\<close>

definition panel_inv :: "persisted_panel \<Rightarrow> bool" where
  "panel_inv st \<longleftrightarrow> distinct (map pp_id (ps_pages st)) \<and> sorted (map page_rank (ps_pages st)) \<and>
     (case ps_focused_page_id st of None \<Rightarrow> ps_pages st = [] | Some i \<Rightarrow> i \<in> pp_id ` set (ps_pages st))"

lemma panel_inv_default [simp]: "panel_inv panel_default"
  by (simp add: panel_inv_def panel_default_def)

lemma update_first_map:
  "(\<And>x. P x \<Longrightarrow> g (f x) = g x) \<Longrightarrow> map g (update_first P f xs) = map g xs"
  by (induction xs) auto

lemma update_first_ids:
  "map pp_id (update_first (\<lambda>p. pp_id p = i)
     (\<lambda>p. p\<lparr>pp_title := t p, pp_file_path := path, pp_format := Markdown, pp_source := src,
        pp_updated_at_ms := now\<rparr>) xs) = map pp_id xs"
  by (rule update_first_map) simp

lemma update_first_set_ids:
  "pp_id ` set (update_first (\<lambda>p. pp_id p = i)
     (\<lambda>p. p\<lparr>pp_title := t p, pp_file_path := path, pp_format := Markdown, pp_source := src,
        pp_updated_at_ms := now\<rparr>) xs) = pp_id ` set xs"
  by (simp only: set_map [symmetric] update_first_ids)

lemma distinct_map_sort_key: "distinct (map g (sort_key f xs)) = distinct (map g xs)"
  by (metis distinct_map distinct_sort set_sort)

lemma upsert_inv:
  assumes "panel_inv st"
  shows "panel_inv (upsert_page_record i title path src now focus st)"
proof -
  let ?st = "upsert_page_record i title path src now focus st"
  have ids: "pp_id ` set (ps_pages ?st) = insert i (pp_id ` set (ps_pages st))"
    by (auto simp: upsert_page_record_def Let_def list_ex_iff update_first_set_ids)
  have "distinct (map pp_id (ps_pages ?st))"
    using assms by (auto simp: upsert_page_record_def Let_def panel_inv_def distinct_map_sort_key
      update_first_ids list_ex_iff)
  moreover have "sorted (map page_rank (ps_pages ?st))"
    by (simp add: upsert_page_record_def Let_def)
  moreover have "case ps_focused_page_id ?st of None \<Rightarrow> ps_pages ?st = [] | Some j \<Rightarrow> j \<in> pp_id ` set (ps_pages ?st)"
    unfolding ids using assms
    by (auto simp: upsert_page_record_def Let_def panel_inv_def split: option.splits)
  ultimately show ?thesis by (simp add: panel_inv_def)
qed

lemma max_by_key_None [simp]: "max_by_key f xs = None \<longleftrightarrow> xs = []"
  by (cases xs) (auto split: option.splits)

lemma max_by_key_Some:
  "max_by_key f xs = Some m \<Longrightarrow> m \<in> set xs \<and> list_all (\<lambda>x. f x \<le> f m) xs"
proof (induction xs arbitrary: m)
  case (Cons x xs)
  then show ?case
    by (cases "max_by_key f xs") (auto split: if_splits simp: list_all_iff)
qed simp

definition disk_ok :: "panel_disk \<Rightarrow> bool" where
  "disk_ok d \<longleftrightarrow> (\<forall>s. case fmlookup (dk_index d) s of
      None \<Rightarrow> True | Some None \<Rightarrow> False | Some (Some st) \<Rightarrow> panel_inv st)"

lemma disk_ok_load: "disk_ok d \<Longrightarrow> case load_state s d of Inl _ \<Rightarrow> False | Inr st \<Rightarrow> panel_inv st"
  by (auto simp: disk_ok_def load_state_def split: option.splits)

lemma disk_ok_load_Inr: "disk_ok d \<Longrightarrow> load_state s d = Inr st \<Longrightarrow> panel_inv st"
  using disk_ok_load [of d s] by simp

lemma panel_disk_ok_save: "disk_ok d \<Longrightarrow> panel_inv st \<Longrightarrow> disk_ok (save_state s st d)"
  by (simp add: disk_ok_def save_state_def)

lemma disk_ok_files [simp]: "disk_ok (d\<lparr>dk_files := f\<rparr>) = disk_ok d"
  by (simp add: disk_ok_def)

lemma panel_disk_ok_write [simp]: "disk_ok (write_text path t d) = disk_ok d"
  by (simp add: write_text_def)

lemma load_state_write [simp]: "load_state s (write_text path t d) = load_state s d"
  by (simp add: load_state_def write_text_def)

datatype panel_op =
    WritePage string nat string string "string option" string bool bool
  | LoadFile nat string string "string option" string bool
  | FocusPage string string
  | DeletePage string string string

fun panel_step :: "(string \<Rightarrow> string) \<Rightarrow> panel_disk \<Rightarrow> panel_op \<Rightarrow> panel_disk" where
  "panel_step canonical d (WritePage base now s i title content focus appending) =
     snd (write_page base now (\<lambda>_. 0) s i title content focus appending d)"
| "panel_step canonical d (LoadFile now s i title path focus) =
     snd (load_markdown_file canonical now (\<lambda>_. 0) s i title path focus d)"
| "panel_step canonical d (FocusPage s i) = snd (focus_page (\<lambda>_. 0) s i d)"
| "panel_step canonical d (DeletePage base s i) = snd (delete_page base (\<lambda>_. 0) s i d)"

definition empty_disk :: "(string, string option) fmap \<Rightarrow> panel_disk" where
  "empty_disk files = \<lparr>dk_index = fmempty, dk_files = files\<rparr>"

lemma write_page_ok [op_inv]: "disk_ok d \<Longrightarrow> disk_ok (snd (write_page base now rv s i title content focus ap d))"
  by (auto simp: write_page_def Let_def split: sum.split intro!: panel_disk_ok_save upsert_inv dest: disk_ok_load_Inr)

lemma load_file_ok [op_inv]: "disk_ok d \<Longrightarrow> disk_ok (snd (load_markdown_file can now rv s i title path focus d))"
  by (auto simp: load_markdown_file_def Let_def split: sum.split option.split
    intro!: panel_disk_ok_save upsert_inv dest: disk_ok_load_Inr)

lemma focus_inv:
  "panel_inv st \<Longrightarrow> list_ex (\<lambda>p. pp_id p = i) (ps_pages st) \<Longrightarrow> panel_inv (st\<lparr>ps_focused_page_id := Some i\<rparr>)"
  by (auto simp: panel_inv_def list_ex_iff)

lemma focus_page_ok [op_inv]: "disk_ok d \<Longrightarrow> disk_ok (snd (focus_page rv s i d))"
  by (auto simp: focus_page_def Let_def split: sum.split
    intro!: panel_disk_ok_save focus_inv dest: disk_ok_load_Inr)

lemma delete_inv:
  assumes "panel_inv st"
  shows "panel_inv \<lparr>ps_focused_page_id =
      (if ps_focused_page_id st = Some i
       then map_option pp_id (max_by_key pp_updated_at_ms (filter (\<lambda>p. pp_id p \<noteq> i) (ps_pages st)))
       else ps_focused_page_id st), ps_pages = filter (\<lambda>p. pp_id p \<noteq> i) (ps_pages st)\<rparr>"
proof -
  let ?pages = "filter (\<lambda>p. pp_id p \<noteq> i) (ps_pages st)"
  have basic: "distinct (map pp_id ?pages)" "sorted (map page_rank ?pages)"
    using assms by (simp_all add: panel_inv_def distinct_map_filter sorted_filter)
  have moved: "case map_option pp_id (max_by_key pp_updated_at_ms ?pages) of
      None \<Rightarrow> ?pages = [] | Some j \<Rightarrow> j \<in> pp_id ` set ?pages"
    using max_by_key_Some [of pp_updated_at_ms ?pages] max_by_key_None [of pp_updated_at_ms ?pages]
    by (cases "max_by_key pp_updated_at_ms ?pages") (simp_all del: max_by_key_None)
  have kept: "case ps_focused_page_id st of None \<Rightarrow> ?pages = [] | Some j \<Rightarrow> j \<in> pp_id ` set ?pages"
    if "ps_focused_page_id st \<noteq> Some i"
    using that assms by (auto simp: panel_inv_def split: option.splits)
  show ?thesis unfolding panel_inv_def persisted_panel.select_convs
    using basic moved kept by (cases "ps_focused_page_id st = Some i") (simp_all only: if_True if_False simp_thms)
qed

lemma delete_page_ok [op_inv]: "disk_ok d \<Longrightarrow> disk_ok (snd (delete_page base rv s i d))"
  using delete_inv [OF disk_ok_load_Inr, of d s _ i]
  by (auto simp: delete_page_def Let_def intro!: panel_disk_ok_save split: sum.split)

interpretation panel_runs: op_machine "panel_step canonical" "empty_disk files" disk_ok for canonical files
proof
  show "disk_ok (empty_disk files)" by (simp add: disk_ok_def empty_disk_def)
  show "disk_ok (panel_step canonical d x)" if "disk_ok d" for d x
    using that by (cases x) (auto intro: op_inv)
qed

lemma hydrate_page_id [simp]: "sp_id (hydrate_page rv d p) = pp_id p"
  by (simp add: hydrate_page_def Let_def)

lemma find_focused:
  "i \<in> f ` set xs \<Longrightarrow> \<exists>p. find (\<lambda>p. f p = i) xs = Some p \<and> f p = i"
  by (induction xs) auto

text \<open>
  Property C28. After any sequence of writing, appending, loading, focusing and deleting pages in any
  sessions, starting without an index, every session's index can be read; its pages have
  different ids and are ordered by their time of change, latest first, and then by id; a page is
  focused exactly if there is one, and the focused page is among the pages shown.
\<close>

theorem side_panel_consistent:
  "let d = foldl (panel_step canonical) (empty_disk files) ops
   in case load_state s d of
        Inl _ \<Rightarrow> False
      | Inr st \<Rightarrow>
          let shown = hydrate_snapshot revision d st
          in snapshot_for_session revision s d = Inr shown \<and>
             distinct (map sp_id (sn_pages shown)) \<and>
             sorted (map (\<lambda>p. (- int (pp_updated_at_ms p), pp_id p)) (ps_pages st)) \<and>
             (sn_focused_page_id shown = None \<longleftrightarrow> sn_pages shown = []) \<and>
             map_option sp_id (focused_page shown) = sn_focused_page_id shown"
proof -
  let ?d = "foldl (panel_step canonical) (empty_disk files) ops"
  have "disk_ok ?d" by (rule panel_runs.run_inv)
  then obtain st where st: "load_state s ?d = Inr st" "panel_inv st"
    using disk_ok_load [of ?d s] by (cases "load_state s ?d") auto
  have rank: "page_rank = (\<lambda>p. (- int (pp_updated_at_ms p), pp_id p))"
    by (simp add: fun_eq_iff page_rank_def)
  have "map_option sp_id (focused_page (hydrate_snapshot revision ?d st)) = ps_focused_page_id st"
    using st(2) find_focused [of _ sp_id "map (hydrate_page revision ?d) (ps_pages st)"]
    by (auto simp: focused_page_def hydrate_snapshot_def panel_inv_def image_image split: option.splits)
  then show ?thesis
    using st by (auto simp: Let_def snapshot_for_session_def hydrate_snapshot_def panel_inv_def comp_def
      rank split: option.splits)
qed

section \<open>Writing and deleting\<close>

lemma find_distinct: "distinct (map f xs) \<Longrightarrow> x \<in> set xs \<Longrightarrow> find (\<lambda>p. f p = f x) xs = Some x"
  by (induction xs) auto

lemma update_first_hit: "list_ex P xs \<Longrightarrow> \<exists>x \<in> set xs. P x \<and> f x \<in> set (update_first P f xs)"
  by (induction xs) auto

lemma upsert_page:
  "\<exists>p \<in> set (ps_pages (upsert_page_record i title path src now focus st)).
     pp_id p = i \<and> pp_file_path p = path \<and> pp_source p = src \<and> pp_updated_at_ms p = now"
proof (cases "list_ex (\<lambda>p. pp_id p = i) (ps_pages st)")
  case True
  obtain p where "p \<in> set (ps_pages st)" "pp_id p = i"
    "p\<lparr>pp_title := title_or (pp_title p) title, pp_file_path := path, pp_format := Markdown,
       pp_source := src, pp_updated_at_ms := now\<rparr> \<in> set (ps_pages (upsert_page_record i title path src now focus st))"
    using update_first_hit [OF True, of "\<lambda>p. p\<lparr>pp_title := title_or (pp_title p) title,
        pp_file_path := path, pp_format := Markdown, pp_source := src, pp_updated_at_ms := now\<rparr>"] True
    by (auto simp: upsert_page_record_def Let_def)
  then show ?thesis by (intro bexI) auto
next
  case False
  then show ?thesis by (simp add: upsert_page_record_def Let_def)
qed

lemma upsert_ids:
  "pp_id ` set (ps_pages (upsert_page_record i title path src now focus st)) = insert i (pp_id ` set (ps_pages st))"
  by (auto simp: upsert_page_record_def Let_def list_ex_iff update_first_set_ids)

text \<open>
  Writing a page with an accepted id shows it with the given text, or with the text
  appended on a line of its own; the page is focused if asked for or if none was; the other pages
  of the session stay, and so do the other sessions and all other files.
\<close>

theorem write_page_correct:
  assumes "validate_page_id i = Inr ()" and "load_state s d = Inr st" and "panel_inv st"
    and "appending \<longrightarrow> fmlookup (dk_files d) (page_path base s i) \<noteq> Some None"
  shows "let path = page_path base s i;
      (res, d') = write_page base now revision s i title content focus appending d
    in case res of
         Inl _ \<Rightarrow> False
       | Inr snap \<Rightarrow>
           (case find (\<lambda>p. sp_id p = i) (sn_pages snap) of
              None \<Rightarrow> False
            | Some p \<Rightarrow> sp_source p = Managed \<and> sp_updated_at_ms p = now \<and>
                sp_content p = (case read_text d path of
                    Some old \<Rightarrow>
                      if appending then old @ (if old = [] \<or> last old = CHR 0x0A then [] else nl) @ content
                      else content
                  | None \<Rightarrow> content)) \<and>
           sp_id ` set (sn_pages snap) = insert i (pp_id ` set (ps_pages st)) \<and>
           sn_focused_page_id snap = (if focus \<or> ps_focused_page_id st = None then Some i else ps_focused_page_id st) \<and>
           snapshot_for_session revision s d' = Inr snap \<and>
           fmdrop s (dk_index d') = fmdrop s (dk_index d) \<and>
           fmdrop path (dk_files d') = fmdrop path (dk_files d)"
proof -
  let ?path = "page_path base s i"
  let ?text = "combine_content appending (read_text d ?path) content"
  let ?st = "upsert_page_record i title ?path Managed now focus st"
  let ?d = "save_state s ?st (write_text ?path ?text d)"
  let ?snap = "hydrate_snapshot revision ?d ?st"
  have run: "write_page base now revision s i title content focus appending d = (Inr ?snap, ?d)"
    using assms(1,2,4) by (auto simp: write_page_def Let_def)
  obtain p where p: "p \<in> set (ps_pages ?st)" "pp_id p = i" "pp_file_path p = ?path"
      "pp_source p = Managed" "pp_updated_at_ms p = now"
    using upsert_page [of i title ?path Managed now focus st] by blast
  have dist: "distinct (map sp_id (map (hydrate_page revision ?d) (ps_pages ?st)))"
    using upsert_inv [OF assms(3)] by (simp add: panel_inv_def comp_def)
  have found: "find (\<lambda>q. sp_id q = i) (sn_pages ?snap) = Some (hydrate_page revision ?d p)"
    using find_distinct [OF dist, of "hydrate_page revision ?d p"] p(1,2)
    by (simp add: hydrate_snapshot_def)
  have written: "read_text ?d ?path = Some ?text"
    by (simp add: read_text_def save_state_def write_text_def)
  have page: "sp_content (hydrate_page revision ?d p) = ?text"
      "sp_source (hydrate_page revision ?d p) = Managed" "sp_updated_at_ms (hydrate_page revision ?d p) = now"
    using p written by (simp_all add: hydrate_page_def Let_def)
  have combined: "?text = (case read_text d ?path of
        Some old \<Rightarrow> if appending then old @ (if old = [] \<or> last old = CHR 0x0A then [] else nl) @ content else content
      | None \<Rightarrow> content)"
    by (simp add: combine_content_def split: option.split)
  have ids: "sp_id ` set (sn_pages ?snap) = insert i (pp_id ` set (ps_pages st))"
    using upsert_ids [of i title ?path Managed now focus st] by (simp add: hydrate_snapshot_def image_image)
  have focused: "sn_focused_page_id ?snap =
      (if focus \<or> ps_focused_page_id st = None then Some i else ps_focused_page_id st)"
    by (simp add: hydrate_snapshot_def upsert_page_record_def Let_def)
  have stored: "snapshot_for_session revision s ?d = Inr ?snap"
    by (simp add: snapshot_for_session_def load_state_def save_state_def)
  have frame: "fmdrop s (dk_index ?d) = fmdrop s (dk_index d)" "fmdrop ?path (dk_files ?d) = fmdrop ?path (dk_files d)"
    by (simp_all add: save_state_def write_text_def fmdrop_fmupd_same)
  show ?thesis
    unfolding Let_def run prod.case sum.case found option.case
    using page ids focused stored frame combined by simp
qed

theorem write_page_correct_witness:
  "let d = empty_disk fmempty;
       (res, d') = write_page ''/j'' 7 (\<lambda>_. 0) ''s1'' ''notes'' None ''hello'' False True d
   in case res of Inl _ \<Rightarrow> False
      | Inr snap \<Rightarrow> sn_focused_page_id snap = Some ''notes'' \<and> snapshot_for_session (\<lambda>_. 0) ''s1'' d' = Inr snap"
proof -
  have v: "validate_page_id ''notes'' = Inr ()" by code_simp
  have l: "load_state ''s1'' (empty_disk fmempty) = Inr panel_default"
    "fmlookup (dk_files (empty_disk fmempty)) p \<noteq> Some None" for p
    by (simp_all add: load_state_def empty_disk_def)
  have f: "ps_focused_page_id panel_default = None" by (simp add: panel_default_def)
  show ?thesis
    using write_page_correct [OF v l(1) panel_inv_default, of True "''/j''" 7 "\<lambda>_. 0" None "''hello''" False] l(2) f
    by (auto simp: Let_def split: prod.splits sum.splits)
qed

text \<open>
  Deleting a page takes it and its file away and keeps the other pages in their order;
  when it was the focused one, the focus goes to the last of the most recently changed
  pages left.
\<close>

theorem delete_page_correct:
  assumes "validate_page_id i = Inr ()" and "load_state s d = Inr st" and "i \<in> pp_id ` set (ps_pages st)"
  shows "let (res, d') = delete_page base revision s i d; pages = filter (\<lambda>p. pp_id p \<noteq> i) (ps_pages st)
    in res = snapshot_for_session revision s d' \<and> fmlookup (dk_files d') (page_path base s i) = None \<and>
       (case load_state s d' of
          Inl _ \<Rightarrow> False
        | Inr st' \<Rightarrow> ps_pages st' = pages \<and>
            (if ps_focused_page_id st \<noteq> Some i then ps_focused_page_id st' = ps_focused_page_id st
             else case ps_focused_page_id st' of
                None \<Rightarrow> pages = []
              | Some j \<Rightarrow> list_ex (\<lambda>p. pp_id p = j \<and> list_all (\<lambda>q. pp_updated_at_ms q \<le> pp_updated_at_ms p) pages) pages))"
proof -
  let ?pages = "filter (\<lambda>p. pp_id p \<noteq> i) (ps_pages st)"
  let ?focus = "if ps_focused_page_id st = Some i then map_option pp_id (max_by_key pp_updated_at_ms ?pages)
    else ps_focused_page_id st"
  let ?st = "\<lparr>ps_focused_page_id = ?focus, ps_pages = ?pages\<rparr>"
  let ?d = "save_state s ?st (d\<lparr>dk_files := fmdrop (page_path base s i) (dk_files d)\<rparr>)"
  have "length ?pages \<noteq> length (ps_pages st)"
    using assms(3) length_filter_less [of _ "ps_pages st" "\<lambda>p. pp_id p \<noteq> i"] by fastforce
  then have run: "delete_page base revision s i d = (Inr (hydrate_snapshot revision ?d ?st), ?d)"
    using assms(1,2) by (simp add: delete_page_def Let_def)
  have max: "case map_option pp_id (max_by_key pp_updated_at_ms ?pages) of
      None \<Rightarrow> ?pages = []
    | Some j \<Rightarrow> list_ex (\<lambda>p. pp_id p = j \<and> list_all (\<lambda>q. pp_updated_at_ms q \<le> pp_updated_at_ms p) ?pages) ?pages"
    using max_by_key_Some [of pp_updated_at_ms ?pages] max_by_key_None [of pp_updated_at_ms ?pages]
    by (cases "max_by_key pp_updated_at_ms ?pages") (auto simp: list_ex_iff simp del: max_by_key_None)
  have load: "load_state s ?d = Inr ?st" by (simp add: load_state_def save_state_def)
  have gone: "fmlookup (dk_files ?d) (page_path base s i) = None" by (simp add: save_state_def)
  show ?thesis
    unfolding Let_def run prod.case load sum.case persisted_panel.select_convs snapshot_for_session_def
    using gone max by (cases "ps_focused_page_id st = Some i") simp_all
qed

definition sample_page :: "string \<Rightarrow> nat \<Rightarrow> persisted_page" where
  "sample_page i t = \<lparr>pp_id = i, pp_title = i, pp_file_path = page_path ''/j'' ''s1'' i,
     pp_format = Markdown, pp_source = Managed, pp_updated_at_ms = t\<rparr>"

definition sample_panel :: persisted_panel where
  "sample_panel = \<lparr>ps_focused_page_id = Some ''c'', ps_pages = [sample_page ''c'' 9, sample_page ''a'' 4, sample_page ''b'' 4]\<rparr>"

theorem delete_page_correct_witness:
  "let (res, d') = delete_page ''/j'' (\<lambda>_. 0) ''s1'' ''c'' (save_state ''s1'' sample_panel (empty_disk fmempty))
   in case load_state ''s1'' d' of
        Inl _ \<Rightarrow> False
      | Inr st \<Rightarrow> ps_pages st = [sample_page ''a'' 4, sample_page ''b'' 4] \<and>
          (case ps_focused_page_id st of None \<Rightarrow> False | Some j \<Rightarrow> j \<in> {''a'', ''b''})"
proof -
  have v: "validate_page_id ''c'' = Inr ()" by code_simp
  have l: "load_state ''s1'' (save_state ''s1'' sample_panel (empty_disk fmempty)) = Inr sample_panel"
    by (simp add: load_state_def save_state_def)
  have c: "''c'' \<in> pp_id ` set (ps_pages sample_panel)" "ps_focused_page_id sample_panel = Some ''c''"
    "filter (\<lambda>p. pp_id p \<noteq> ''c'') (ps_pages sample_panel) = [sample_page ''a'' 4, sample_page ''b'' 4]"
    "pp_id (sample_page ''a'' 4) = ''a''" "pp_id (sample_page ''b'' 4) = ''b''"
    by (simp_all add: sample_panel_def sample_page_def)
  show ?thesis
    using delete_page_correct [OF v l c(1), of "''/j''" "\<lambda>_. 0"] unfolding Let_def c
    by (auto simp: c split: prod.splits sum.splits option.splits)
qed

end
