(* ===== verification/GoalTypes.thy ===== *)
theory GoalTypes
  imports Prelude
begin

text \<open>
  Goals, to-do items and catch-up records (crates/jcode-task-types/src/lib.rs): the textual forms of
  scopes and statuses, the order of statuses, the identifier made of a title, and the new goal.
  Instants are milliseconds; the current one is an argument.
\<close>

section \<open>Scopes and statuses\<close>

datatype goal_scope = Global | Project

definition goal_scope_parse :: "string \<Rightarrow> goal_scope option" where
  "goal_scope_parse value =
     (let v = to_ascii_lowercase (trim value)
      in if v = ''global'' then Some Global
         else if v = ''project'' then Some Project
         else None)"

fun goal_scope_as_str :: "goal_scope \<Rightarrow> string" where
  "goal_scope_as_str Global = ''global''"
| "goal_scope_as_str Project = ''project''"

datatype goal_status = Draft | Active | Paused | Blocked | Completed | Archived | Abandoned

definition goal_status_parse :: "string \<Rightarrow> goal_status option" where
  "goal_status_parse value =
     (let v = to_ascii_lowercase (trim value)
      in if v = ''draft'' then Some Draft
         else if v = ''active'' then Some Active
         else if v = ''paused'' then Some Paused
         else if v = ''blocked'' then Some Blocked
         else if v = ''completed'' then Some Completed
         else if v = ''archived'' then Some Archived
         else if v = ''abandoned'' then Some Abandoned
         else None)"

fun goal_status_as_str :: "goal_status \<Rightarrow> string" where
  "goal_status_as_str Draft = ''draft''"
| "goal_status_as_str Active = ''active''"
| "goal_status_as_str Paused = ''paused''"
| "goal_status_as_str Blocked = ''blocked''"
| "goal_status_as_str Completed = ''completed''"
| "goal_status_as_str Archived = ''archived''"
| "goal_status_as_str Abandoned = ''abandoned''"

fun sort_rank :: "goal_status \<Rightarrow> nat" where
  "sort_rank Active = 0"
| "sort_rank Blocked = 1"
| "sort_rank Draft = 2"
| "sort_rank Paused = 3"
| "sort_rank Completed = 4"
| "sort_rank Archived = 5"
| "sort_rank Abandoned = 6"

fun is_resumable :: "goal_status \<Rightarrow> bool" where
  "is_resumable Active = True"
| "is_resumable Blocked = True"
| "is_resumable Draft = True"
| "is_resumable _ = False"

text \<open>Lists of goals are ordered by the rank, which is one to one: statuses are a linear order.\<close>

lemma sort_rank_inj [simp]: "sort_rank a = sort_rank b \<longleftrightarrow> a = b"
  by (cases a; cases b) simp_all

instantiation goal_status :: linorder
begin

definition less_eq_goal_status :: "goal_status \<Rightarrow> goal_status \<Rightarrow> bool" where
  "a \<le> b \<longleftrightarrow> sort_rank a \<le> sort_rank b"

definition less_goal_status :: "goal_status \<Rightarrow> goal_status \<Rightarrow> bool" where
  "a < b \<longleftrightarrow> sort_rank a < sort_rank b"

instance
  by standard (auto simp: less_eq_goal_status_def less_goal_status_def dest: order.antisym)

end

lemma is_resumable_iff: "is_resumable s \<longleftrightarrow> s \<le> Draft"
  by (cases s) (simp_all add: less_eq_goal_status_def)

section \<open>Records\<close>

record goal_step =
  gp_id :: string
  gp_content :: string
  gp_status :: string

record goal_milestone =
  gm_id :: string
  gm_title :: string
  gm_status :: string
  gm_steps :: "goal_step list"

record goal_update =
  gu_at :: int
  gu_summary :: string

record goal =
  go_id :: string
  go_title :: string
  go_scope :: goal_scope
  go_status :: goal_status
  go_description :: string
  go_why :: string
  go_success_criteria :: "string list"
  go_milestones :: "goal_milestone list"
  go_next_steps :: "string list"
  go_blockers :: "string list"
  go_current_milestone_id :: "string option"
  go_progress_percent :: "nat option"
  go_created_at :: int
  go_updated_at :: int
  go_updates :: "goal_update list"

definition default_pending_status :: string where
  "default_pending_status = ''pending''"

record todo_item =
  td_content :: string
  td_status :: string
  td_priority :: string
  td_id :: string
  td_blocked_by :: "string list"
  td_assigned_to :: "string option"

record persisted_catchup_state =
  pc_seen_at_ms_by_session :: "(string, int) fmap"

record catchup_brief =
  cb_reason :: string
  cb_tags :: "string list"
  cb_last_user_prompt :: "string option"
  cb_activity_steps :: "string list"
  cb_files_touched :: "string list"
  cb_tool_counts :: "(string \<times> nat) list"
  cb_validation_notes :: "string list"
  cb_latest_agent_response :: "string option"
  cb_needs_from_user :: string
  cb_updated_at :: int

section \<open>Identifiers\<close>

text \<open>
  The loop over the characters carries the slug and whether its last character is a dash put
  there for other characters. A character of several bytes is not an ASCII one.
\<close>

definition slug_step :: "string \<times> bool \<Rightarrow> string \<Rightarrow> string \<times> bool" where
  "slug_step st ch =
     (let (slug, prev_dash) = st; lower = to_ascii_lowercase ch
      in case lower of
           [c] \<Rightarrow> if is_ascii_alphanumeric c then (slug @ [c], False)
                  else if \<not> prev_dash then (slug @ ''-'', True) else (slug, prev_dash)
         | _ \<Rightarrow> if \<not> prev_dash then (slug @ ''-'', True) else (slug, prev_dash))"

definition trim_dashes :: "string \<Rightarrow> string" where
  "trim_dashes s = rev (dropWhile (\<lambda>c. c = CHR ''-'') (rev (dropWhile (\<lambda>c. c = CHR ''-'') s)))"

definition slugify :: "string \<Rightarrow> string" where
  "slugify input = trim_dashes (fst (foldl slug_step ([], False) (chars input)))"

definition sanitize_goal_id :: "string \<Rightarrow> string" where
  "sanitize_goal_id i = (let slug = slugify i in if slug = [] then ''goal'' else slug)"

definition goal_new :: "int \<Rightarrow> string \<Rightarrow> goal_scope \<Rightarrow> goal" where
  "goal_new now title scope =
     (let trimmed = trim title
      in \<lparr>go_id = sanitize_goal_id trimmed, go_title = trimmed, go_scope = scope, go_status = Active,
          go_description = [], go_why = [], go_success_criteria = [], go_milestones = [],
          go_next_steps = [], go_blockers = [], go_current_milestone_id = None,
          go_progress_percent = None, go_created_at = now, go_updated_at = now, go_updates = []\<rparr>)"

definition current_milestone :: "goal \<Rightarrow> goal_milestone option" where
  "current_milestone g =
     (case go_current_milestone_id g of
        None \<Rightarrow> None
      | Some current_id \<Rightarrow> find (\<lambda>m. gm_id m = current_id) (go_milestones g))"

section \<open>Codecs\<close>

interpretation goal_scope: str_codec goal_scope_as_str goal_scope_parse
proof
  show "goal_scope_parse (goal_scope_as_str x) = Some x" for x
    by (induction x; code_simp)
qed

interpretation goal_status: str_codec goal_status_as_str goal_status_parse
proof
  show "goal_status_parse (goal_status_as_str x) = Some x" for x
    by (induction x; code_simp)
qed

text \<open>Parsing accepts exactly the names, in any case and with white space around them.\<close>

lemma goal_parse_iff:
  "goal_scope_parse v = Some sc \<longleftrightarrow> to_ascii_lowercase (trim v) = goal_scope_as_str sc"
  "goal_status_parse v = Some st \<longleftrightarrow> to_ascii_lowercase (trim v) = goal_status_as_str st"
  by (cases sc; auto simp: goal_scope_parse_def Let_def) (cases st; auto simp: goal_status_parse_def Let_def)

section \<open>Slugs\<close>

definition slug_char :: "char \<Rightarrow> bool" where
  "slug_char c \<longleftrightarrow> (is_ascii_alphanumeric c \<and> ascii_lower c = c) \<or> c = CHR ''-''"

definition single_dashes :: "string \<Rightarrow> bool" where
  "single_dashes s \<longleftrightarrow> successively (\<lambda>c d. \<not> (c = CHR ''-'' \<and> d = CHR ''-'')) s"

text \<open>A slug: lower-case letters, digits and dashes, no dash at an end and no two in a row.\<close>

definition slug_ok :: "string \<Rightarrow> bool" where
  "slug_ok s \<longleftrightarrow> s \<noteq> [] \<and> list_all slug_char s \<and> single_dashes s \<and> hd s \<noteq> CHR ''-'' \<and> last s \<noteq> CHR ''-''"

lemma ascii_lower_idem [simp]: "ascii_lower (ascii_lower c) = ascii_lower c"
  by (simp add: ascii_lower_def)

lemma alnum_not_dash [simp]: "\<not> is_ascii_alphanumeric CHR ''-''"
  by (simp add: is_ascii_alphanumeric_def Let_def)

lemma slug_char_ascii: "slug_char c \<Longrightarrow> (of_char c :: nat) < 128"
  by (auto simp: slug_char_def is_ascii_alphanumeric_def Let_def)

lemma is_cont_big: "is_cont c \<Longrightarrow> 128 \<le> (of_char c :: nat)"
  by (cases c) (simp add: is_cont_def)

lemma slug_char_not_cont: "slug_char c \<Longrightarrow> \<not> is_cont c"
  using slug_char_ascii is_cont_big by fastforce

lemma chars_slug: "list_all slug_char s \<Longrightarrow> chars s = map (\<lambda>c. [c]) s"
  by (rule chars_ascii) (auto simp: list_all_iff slug_char_not_cont)

lemma single_dashes_append:
  "single_dashes (xs @ ys) \<longleftrightarrow> single_dashes xs \<and> single_dashes ys \<and>
     (xs = [] \<or> ys = [] \<or> last xs \<noteq> CHR ''-'' \<or> hd ys \<noteq> CHR ''-'')"
  by (auto simp: single_dashes_def successively_append_iff)

lemma single_dashes_singleton [simp]: "single_dashes [c]" "single_dashes []"
  by (simp_all add: single_dashes_def)

definition slug_state_ok :: "string \<times> bool \<Rightarrow> bool" where
  "slug_state_ok st \<longleftrightarrow> list_all slug_char (fst st) \<and> single_dashes (fst st) \<and>
     (snd st \<longleftrightarrow> fst st \<noteq> [] \<and> last (fst st) = CHR ''-'')"

lemma slug_step_ok:
  assumes "slug_state_ok st"
  shows "slug_state_ok (slug_step st ch)"
proof -
  obtain slug pd where st: "st = (slug, pd)" by (cases st)
  have other: "slug_state_ok (if \<not> pd then (slug @ ''-'', True) else (slug, pd))"
    using assms by (auto simp: st slug_state_ok_def single_dashes_append slug_char_def)
  show ?thesis
  proof (cases "case to_ascii_lowercase ch of [c] \<Rightarrow> is_ascii_alphanumeric c | _ \<Rightarrow> False")
    case True
    then obtain c d where c: "to_ascii_lowercase ch = [c]" "is_ascii_alphanumeric c" "c = ascii_lower d"
      by (auto simp: to_ascii_lowercase_def split: list.splits)
    then have "slug_char c" "c \<noteq> CHR ''-''" by (auto simp: slug_char_def)
    with assms c show ?thesis
      by (simp add: st slug_step_def Let_def slug_state_ok_def single_dashes_append)
  next
    case False
    then have "slug_step st ch = (if \<not> pd then (slug @ ''-'', True) else (slug, pd))"
      by (auto simp: st slug_step_def Let_def split: list.splits)
    with other show ?thesis by simp
  qed
qed

lemma slug_fold_ok: "slug_state_ok st \<Longrightarrow> slug_state_ok (foldl slug_step st chs)"
  by (induction chs arbitrary: st) (simp_all add: slug_step_ok)

lemma single_dashes_sublist: "single_dashes (xs @ ys @ zs) \<Longrightarrow> single_dashes ys"
  by (simp add: single_dashes_append)

lemma dropWhile_trim_dashes:
  "dropWhile (\<lambda>c. c = CHR ''-'') s =
     trim_dashes s @ rev (takeWhile (\<lambda>c. c = CHR ''-'') (rev (dropWhile (\<lambda>c. c = CHR ''-'') s)))"
  unfolding trim_dashes_def rev_append [symmetric] takeWhile_dropWhile_id by simp

lemma trim_dashes_split:
  "s = takeWhile (\<lambda>c. c = CHR ''-'') s @ trim_dashes s @
     rev (takeWhile (\<lambda>c. c = CHR ''-'') (rev (dropWhile (\<lambda>c. c = CHR ''-'') s)))"
  using arg_cong [OF dropWhile_trim_dashes, of "(@) (takeWhile (\<lambda>c. c = CHR ''-'') s)" s]
  by (simp only: takeWhile_dropWhile_id)

lemma trim_dashes_ends:
  assumes "trim_dashes s \<noteq> []"
  shows "hd (trim_dashes s) \<noteq> CHR ''-''" "last (trim_dashes s) \<noteq> CHR ''-''"
proof -
  let ?d = "dropWhile (\<lambda>c. c = CHR ''-'') s"
  have r: "dropWhile (\<lambda>c. c = CHR ''-'') (rev ?d) \<noteq> []"
    using assms by (simp add: trim_dashes_def)
  then show "last (trim_dashes s) \<noteq> CHR ''-''"
    using hd_dropWhile [OF r] by (simp add: trim_dashes_def last_rev)
  have ne: "?d \<noteq> []"
  proof
    assume "?d = []"
    then show False using assms by (simp only: trim_dashes_def rev.simps dropWhile.simps not_True_eq_False)
  qed
  have "hd ?d = hd (trim_dashes s)"
    using arg_cong [OF dropWhile_trim_dashes, of hd s] by (simp only: hd_append2 [OF assms])
  with hd_dropWhile [OF ne] show "hd (trim_dashes s) \<noteq> CHR ''-''" by simp
qed

lemma slugify_ok: "slugify s = [] \<or> slug_ok (slugify s)"
proof -
  let ?raw = "fst (foldl slug_step ([], False) (chars s))"
  have raw: "list_all slug_char ?raw" "single_dashes ?raw"
    using slug_fold_ok [of "([], False)" "chars s"] by (simp_all add: slug_state_ok_def)
  obtain pre post where sp: "?raw = pre @ trim_dashes ?raw @ post"
    using trim_dashes_split [of ?raw] by blast
  have "list_all slug_char (pre @ trim_dashes ?raw @ post)" "single_dashes (pre @ trim_dashes ?raw @ post)"
    using raw unfolding sp [symmetric] .
  then have "list_all slug_char (trim_dashes ?raw)" "single_dashes (trim_dashes ?raw)"
    by (simp_all add: single_dashes_append)
  then show ?thesis
    using trim_dashes_ends [of ?raw] unfolding slugify_def slug_ok_def by blast
qed

lemma slug_step_keep:
  assumes "slug_char c" "pd \<longrightarrow> c \<noteq> CHR ''-''"
  shows "slug_step (acc, pd) [c] = (acc @ [c], c = CHR ''-'')"
proof -
  have "to_ascii_lowercase [c] = [c]"
    using assms(1) by (auto simp: to_ascii_lowercase_def slug_char_def ascii_lower_def)
  then show ?thesis using assms by (auto simp: slug_step_def slug_char_def)
qed

lemma slug_fold_keep:
  "list_all slug_char s \<Longrightarrow> single_dashes s \<Longrightarrow> (pd \<longrightarrow> s = [] \<or> hd s \<noteq> CHR ''-'') \<Longrightarrow>
   fst (foldl slug_step (acc, pd) (map (\<lambda>c. [c]) s)) = acc @ s"
proof (induction s arbitrary: acc pd)
  case (Cons c cs)
  then have "single_dashes cs \<and> (c = CHR ''-'' \<longrightarrow> cs = [] \<or> hd cs \<noteq> CHR ''-'')"
    using single_dashes_append [of "[c]" cs] by auto
  with Cons show ?case by (simp add: slug_step_keep)
qed simp

lemma trim_dashes_keep:
  assumes "s \<noteq> []" "hd s \<noteq> CHR ''-''" "last s \<noteq> CHR ''-''"
  shows "trim_dashes s = s"
proof -
  have "dropWhile (\<lambda>c. c = CHR ''-'') s = s" using assms by (cases s) auto
  moreover have "dropWhile (\<lambda>c. c = CHR ''-'') (rev s) = rev s"
    using assms by (cases s rule: rev_cases) auto
  ultimately show ?thesis by (simp add: trim_dashes_def)
qed

lemma slugify_keep: "slug_ok s \<Longrightarrow> slugify s = s"
  by (simp add: slugify_def slug_ok_def chars_slug slug_fold_keep [of s False "[]", simplified] trim_dashes_keep)

lemma sanitize_goal_id_ok [simp]: "slug_ok (sanitize_goal_id i)"
proof -
  have "slug_ok ''goal''" by code_simp
  then show ?thesis using slugify_ok [of i] by (auto simp: sanitize_goal_id_def Let_def)
qed

lemma sanitize_keep: "slug_ok i \<Longrightarrow> sanitize_goal_id i = i"
  using slugify_keep [of i] by (simp add: sanitize_goal_id_def slug_ok_def)

lemma sanitize_idem [simp]: "sanitize_goal_id (sanitize_goal_id i) = sanitize_goal_id i"
  by (simp add: sanitize_keep)

text \<open>
  A sanitised goal id is a slug (not empty, lower-case letters, digits and single dashes
  inside), and slugs are exactly the ids sanitising does not change, so sanitising twice is
  sanitising once.
\<close>

theorem sanitize_goal_id_correct:
  "slug_ok (sanitize_goal_id i) \<and> (sanitize_goal_id i = i \<longleftrightarrow> slug_ok i) \<and>
   sanitize_goal_id (sanitize_goal_id i) = sanitize_goal_id i"
  using sanitize_keep [of i] sanitize_goal_id_ok [of i] sanitize_idem [of i] by metis

end
