(* ===== verification/GoalStore.thy ===== *)
theory GoalStore
  imports MemoryManager SidePanel GoalTypes
begin

text \<open>
  The store of goals (src/goal.rs): goal files of the global and the project directories, the goal
  attached to each session, the pages goals get in the side panel and the mirror each goal has in the
  memory graph. The disk joins the goal files with the side panel's disk and the memory manager's.
  A file that is there but is not JSON of its type is \<^verbatim>\<open>None\<close>. Writing goal files succeeds. One
  instant stands for all the times an operation reads. The hash of a project directory, the
  printed dates and the order in which a directory is listed are fields of the environment.
\<close>

section \<open>Types\<close>

datatype goal_display_mode = Auto | Focus | UpdateOnly | NoDisplay

definition display_mode_parse :: "string \<Rightarrow> goal_display_mode option" where
  "display_mode_parse value =
     (let v = to_ascii_lowercase (trim value)
      in if v = ''auto'' then Some Auto
         else if v = ''focus'' then Some Focus
         else if v = ''update_only'' then Some UpdateOnly
         else if v = ''none'' then Some NoDisplay
         else None)"

record goal_create_input =
  gi_id :: "string option"
  gi_title :: string
  gi_scope :: goal_scope
  gi_description :: "string option"
  gi_why :: "string option"
  gi_success_criteria :: "string list"
  gi_milestones :: "goal_milestone list"
  gi_next_steps :: "string list"
  gi_blockers :: "string list"
  gi_current_milestone_id :: "string option"
  gi_progress_percent :: "nat option"

record goal_update_input =
  ui_title :: "string option"
  ui_description :: "string option"
  ui_why :: "string option"
  ui_status :: "goal_status option"
  ui_success_criteria :: "string list option"
  ui_milestones :: "goal_milestone list option"
  ui_next_steps :: "string list option"
  ui_blockers :: "string list option"
  ui_current_milestone_id :: "string option option"
  ui_progress_percent :: "nat option option"
  ui_checkpoint_summary :: "string option"

record goal_attachment =
  at_goal_id :: string
  at_scope :: goal_scope
  at_project_hash :: "string option"
  at_title :: string
  at_attached_at :: int

datatype goal_dir = GlobalGoals | ProjectGoals string

type_synonym goal_path = "goal_dir \<times> string"

datatype goal_error =
    GoalTitleEmpty | WorkingDirRequired | GoalUnreadable goal_path | AttachmentUnreadable string
  | PanelFailed panel_error | MemoryFailed memory_error

record 'f goal_disk =
  gd_goals :: "(goal_path, goal option) fmap"
  gd_attachments :: "(string, goal_attachment option) fmap"
  gd_panel :: panel_disk
  gd_memory :: "'f memory_disk"

record 'f goal_env =
  ge_hash :: "string \<Rightarrow> string"
  ge_memory_paths :: "string option \<Rightarrow> string \<times> string"
  ge_global_memory :: string
  ge_lower :: "string \<Rightarrow> string"
  ge_embedder :: "'f embedder"
  ge_order :: "string fset \<Rightarrow> string list"
  ge_read_dir :: "string fset \<Rightarrow> string list"
  ge_minute :: "int \<Rightarrow> string"
  ge_day :: "int \<Rightarrow> string"
  ge_base :: string
  ge_revision :: "string \<Rightarrow> nat"

section \<open>Files\<close>

definition goal_file_in_dir :: "goal_dir \<Rightarrow> string \<Rightarrow> goal_path" where
  "goal_file_in_dir dir i = (dir, sanitize_goal_id i @ ''.json'')"

definition project_goals_dir :: "'f goal_env \<Rightarrow> string option \<Rightarrow> goal_dir option" where
  "project_goals_dir env working_dir = map_option (\<lambda>dir. ProjectGoals (ge_hash env dir)) working_dir"

definition goal_file :: "'f goal_env \<Rightarrow> goal \<Rightarrow> string option \<Rightarrow> goal_error + goal_path" where
  "goal_file env g working_dir =
     (case go_scope g of
        Global \<Rightarrow> Inr (goal_file_in_dir GlobalGoals (go_id g))
      | Project \<Rightarrow>
          (case project_goals_dir env working_dir of
             None \<Rightarrow> Inl WorkingDirRequired
           | Some dir \<Rightarrow> Inr (goal_file_in_dir dir (go_id g))))"

definition save_goal ::
  "'f goal_env \<Rightarrow> goal \<Rightarrow> string option \<Rightarrow> 'f goal_disk \<Rightarrow> (goal_error + unit) \<times> 'f goal_disk" where
  "save_goal env g working_dir d =
     (case goal_file env g working_dir of
        Inl e \<Rightarrow> (Inl e, d)
      | Inr path \<Rightarrow> (Inr (), d\<lparr>gd_goals := fmupd path (Some g) (gd_goals d)\<rparr>))"

definition goal_candidates ::
  "'f goal_env \<Rightarrow> string \<Rightarrow> goal_scope option \<Rightarrow> string option \<Rightarrow> goal_path list" where
  "goal_candidates env i hint working_dir =
     (let project = (case project_goals_dir env working_dir of
            None \<Rightarrow> [] | Some dir \<Rightarrow> [goal_file_in_dir dir i]);
          global = [goal_file_in_dir GlobalGoals i]
      in case hint of Some Global \<Rightarrow> global | Some Project \<Rightarrow> project | None \<Rightarrow> project @ global)"

fun load_first :: "'f goal_disk \<Rightarrow> goal_path list \<Rightarrow> goal_error + goal option" where
  "load_first d [] = Inr None"
| "load_first d (path # paths) =
     (case fmlookup (gd_goals d) path of
        None \<Rightarrow> load_first d paths
      | Some None \<Rightarrow> Inl (GoalUnreadable path)
      | Some (Some g) \<Rightarrow> Inr (Some g))"

definition load_goal ::
  "'f goal_env \<Rightarrow> string \<Rightarrow> goal_scope option \<Rightarrow> string option \<Rightarrow> 'f goal_disk \<Rightarrow> goal_error + goal option" where
  "load_goal env i hint working_dir d =
     load_first d (goal_candidates env (sanitize_goal_id i) hint working_dir)"

section \<open>Lists of goals\<close>

definition goal_rank :: "goal \<Rightarrow> goal_status \<times> int \<times> string" where
  "goal_rank g = (go_status g, - go_updated_at g, go_title g)"

definition sort_goals :: "goal list \<Rightarrow> goal list" where
  "sort_goals goals = sort_key goal_rank goals"

definition dir_names :: "'f goal_disk \<Rightarrow> goal_dir \<Rightarrow> string fset" where
  "dir_names d dir = snd |`| ffilter (\<lambda>p. fst p = dir) (fmdom (gd_goals d))"

fun read_goals :: "'f goal_disk \<Rightarrow> goal_dir \<Rightarrow> string list \<Rightarrow> goal_error + goal list" where
  "read_goals d dir [] = Inr []"
| "read_goals d dir (name # names) =
     (if file_extension name \<noteq> Some ''json'' then read_goals d dir names
      else case fmlookup (gd_goals d) (dir, name) of
             Some (Some g) \<Rightarrow>
               (case read_goals d dir names of Inl e \<Rightarrow> Inl e | Inr goals \<Rightarrow> Inr (g # goals))
           | _ \<Rightarrow> Inl (GoalUnreadable (dir, name)))"

definition load_goals_in_dir :: "'f goal_env \<Rightarrow> goal_dir \<Rightarrow> 'f goal_disk \<Rightarrow> goal_error + goal list" where
  "load_goals_in_dir env dir d =
     (case read_goals d dir (ge_read_dir env (dir_names d dir)) of
        Inl e \<Rightarrow> Inl e
      | Inr goals \<Rightarrow> Inr (sort_goals goals))"

definition list_relevant_goals :: "'f goal_env \<Rightarrow> string option \<Rightarrow> 'f goal_disk \<Rightarrow> goal_error + goal list" where
  "list_relevant_goals env working_dir d =
     (case load_goals_in_dir env GlobalGoals d of
        Inl e \<Rightarrow> Inl e
      | Inr global \<Rightarrow>
     case project_goals_dir env working_dir of
        None \<Rightarrow> Inr (sort_goals global)
      | Some dir \<Rightarrow>
          (case load_goals_in_dir env dir d of
             Inl e \<Rightarrow> Inl e
           | Inr project \<Rightarrow> Inr (sort_goals (global @ project))))"

section \<open>Attached goals\<close>

definition attach_goal_to_session ::
  "'f goal_env \<Rightarrow> int \<Rightarrow> string \<Rightarrow> goal \<Rightarrow> string option \<Rightarrow> 'f goal_disk \<Rightarrow>
   (goal_error + unit) \<times> 'f goal_disk" where
  "attach_goal_to_session env now session_id g working_dir d =
     (let store = (\<lambda>hash. (Inr (), d\<lparr>gd_attachments := fmupd session_id
            (Some \<lparr>at_goal_id = go_id g, at_scope = go_scope g, at_project_hash = hash,
              at_title = go_title g, at_attached_at = now\<rparr>) (gd_attachments d)\<rparr>))
      in if go_scope g = Project then
           (case working_dir of
              None \<Rightarrow> (Inl WorkingDirRequired, d)
            | Some dir \<Rightarrow> store (Some (ge_hash env dir)))
         else store None)"

definition load_attached_goal ::
  "'f goal_env \<Rightarrow> string \<Rightarrow> string option \<Rightarrow> 'f goal_disk \<Rightarrow> goal_error + goal option" where
  "load_attached_goal env session_id working_dir d =
     (case fmlookup (gd_attachments d) session_id of
        None \<Rightarrow> Inr None
      | Some None \<Rightarrow> Inl (AttachmentUnreadable session_id)
      | Some (Some att) \<Rightarrow>
          if at_scope att = Project then
            (case working_dir of
               None \<Rightarrow> Inr None
             | Some dir \<Rightarrow>
                 if at_project_hash att \<noteq> Some (ge_hash env dir) then Inr None
                 else load_goal env (at_goal_id att) (Some (at_scope att)) working_dir d)
          else load_goal env (at_goal_id att) (Some (at_scope att)) working_dir d)"

definition resume_goal ::
  "'f goal_env \<Rightarrow> string \<Rightarrow> string option \<Rightarrow> 'f goal_disk \<Rightarrow> goal_error + goal option" where
  "resume_goal env session_id working_dir d =
     (case load_attached_goal env session_id working_dir d of
        Inl e \<Rightarrow> Inl e
      | Inr attached \<Rightarrow>
          if (case attached of Some g \<Rightarrow> is_resumable (go_status g) | None \<Rightarrow> False) then Inr attached
          else
            (case list_relevant_goals env working_dir d of
               Inl e \<Rightarrow> Inl e
             | Inr goals \<Rightarrow>
                 (case filter (\<lambda>g. is_resumable (go_status g)) goals of
                    [] \<Rightarrow> Inr None | g # _ \<Rightarrow> Inr (Some g))))"

section \<open>The mirror in memory\<close>

definition goal_memory_id :: "goal \<Rightarrow> string" where
  "goal_memory_id g = ''goal:'' @ go_id g"

text \<open>The parts of a text between the characters of a kind (\<^verbatim>\<open>str::split\<close> with a predicate).\<close>

fun split_where :: "(string \<Rightarrow> bool) \<Rightarrow> string list \<Rightarrow> string list" where
  "split_where P [] = [[]]"
| "split_where P (c # cs) =
     (if P c then [] # split_where P cs
      else case split_where P cs of [] \<Rightarrow> [c] | p # ps \<Rightarrow> (c @ p) # ps)"

definition not_alphanumeric :: "string \<Rightarrow> bool" where
  "not_alphanumeric ch \<longleftrightarrow> (case ch of [c] \<Rightarrow> \<not> is_ascii_alphanumeric c | _ \<Rightarrow> True)"

definition goal_terms :: "string \<Rightarrow> string list" where
  "goal_terms title =
     map (\<lambda>part. ''goal_term:'' @ part)
       (take 4 (filter (\<lambda>part. 4 \<le> length part)
         (map (\<lambda>part. to_ascii_lowercase (trim part)) (split_where not_alphanumeric (chars title)))))"

definition goal_memory_tags :: "goal \<Rightarrow> string list" where
  "goal_memory_tags g =
     remdups_adj (sort (
       [''goal'', ''goal:'' @ go_id g, ''goal_status:'' @ goal_status_as_str (go_status g),
        ''goal_scope:'' @ goal_scope_as_str (go_scope g)] @
       (case go_current_milestone_id g of Some current \<Rightarrow> [''goal_milestone:'' @ current] | None \<Rightarrow> []) @
       (if trim (go_title g) = [] then [] else goal_terms (go_title g))))"

definition goal_memory_content :: "goal \<Rightarrow> string" where
  "goal_memory_content g =
     ''Goal: '' @ go_title g @ nl @ ''Status: '' @ goal_status_as_str (go_status g) @ nl @
     ''Scope: '' @ goal_scope_as_str (go_scope g) @
     (case go_progress_percent g of Some p \<Rightarrow> nl @ ''Progress: '' @ show_nat p @ ''%'' | None \<Rightarrow> []) @
     (case current_milestone g of Some m \<Rightarrow> nl @ ''Current milestone: '' @ gm_title m | None \<Rightarrow> []) @
     (if trim (go_description g) = [] then [] else nl @ ''Description: '' @ trim (go_description g)) @
     (if trim (go_why g) = [] then [] else nl @ ''Why: '' @ trim (go_why g)) @
     (if go_next_steps g = [] then []
      else nl @ ''Next steps:'' @ concat (map (\<lambda>s. nl @ ''- '' @ s) (take 3 (go_next_steps g)))) @
     (if go_blockers g = [] then []
      else nl @ ''Blockers:'' @ concat (map (\<lambda>s. nl @ ''- '' @ s) (take 3 (go_blockers g))))"

definition goal_memory_entry :: "'f goal_env \<Rightarrow> int \<Rightarrow> goal \<Rightarrow> 'f memory_entry" where
  "goal_memory_entry env now g =
     (let e = entry_new (ge_lower env) (em_one (ge_embedder env)) [] now (Custom ''goal'') (goal_memory_content g);
          e = with_tags (ge_lower env) (goal_memory_tags g) (with_trust High (with_source (''goal:'' @ go_id g) e))
      in e\<lparr>en_id := goal_memory_id g, en_updated_at := go_updated_at g, en_created_at := go_created_at g\<rparr>)"

definition memory_manager_for :: "'f goal_env \<Rightarrow> string option \<Rightarrow> memory_manager" where
  "memory_manager_for env dir =
     \<lparr>mm_project = Some (ge_memory_paths env dir), mm_global = ge_global_memory env, mm_test = False\<rparr>"

definition sync_goal_memory ::
  "'f goal_env \<Rightarrow> int \<Rightarrow> goal \<Rightarrow> string option \<Rightarrow> 'f goal_disk \<Rightarrow> (goal_error + string) \<times> 'f goal_disk" where
  "sync_goal_memory env now g working_dir d =
     (let upsert = (\<lambda>f dir. case f (ge_lower env) (ge_embedder env) (ge_order env) now
              (memory_manager_for env dir) (goal_memory_entry env now g) (gd_memory d) of
            (Inl e, m) \<Rightarrow> (Inl (MemoryFailed e), d\<lparr>gd_memory := m\<rparr>)
          | (Inr i, m) \<Rightarrow> (Inr i, d\<lparr>gd_memory := m\<rparr>))
      in case go_scope g of
           Project \<Rightarrow>
             (case working_dir of
                None \<Rightarrow> (Inl WorkingDirRequired, d)
              | Some dir \<Rightarrow> upsert upsert_project_memory (Some dir))
         | Global \<Rightarrow> upsert upsert_global_memory None)"

section \<open>Creating and updating\<close>

definition trim_vec :: "string list \<Rightarrow> string list" where
  "trim_vec values = filter (\<lambda>v. v \<noteq> []) (map trim values)"

definition some_text :: "string option \<Rightarrow> string option" where
  "some_text t = (case t of None \<Rightarrow> None | Some s \<Rightarrow> if trim s = [] then None else Some (trim s))"

definition trimmed_or_empty :: "string option \<Rightarrow> string" where
  "trimmed_or_empty t = (case t of None \<Rightarrow> [] | Some s \<Rightarrow> trim s)"

definition numbered_goal_id :: "string \<Rightarrow> nat \<Rightarrow> string" where
  "numbered_goal_id base idx = sanitize_goal_id base @ ''-'' @ show_nat idx"

text \<open>
  The search for a free id counts up from 2. It ends because ids made with different numbers name
  different files.
\<close>

lemma slug_ok_numbered: "slug_ok (numbered_goal_id base idx)"
proof -
  have digit: "slug_char c \<and> c \<noteq> CHR ''-''" if "c \<in> set (show_nat idx)" for c
    using show_nat_digits [OF that]
    by (auto simp: slug_char_def is_ascii_alphanumeric_def ascii_lower_def Let_def)
  then have all: "list_all slug_char (show_nat idx)" "hd (show_nat idx) \<noteq> CHR ''-''"
      "last (show_nat idx) \<noteq> CHR ''-''"
    using hd_in_set [of "show_nat idx"] last_in_set [of "show_nat idx"] by (auto simp: list_all_iff)
  have "single_dashes s" if "CHR ''-'' \<notin> set s" for s
    using that by (induction s) (auto simp: single_dashes_def successively_Cons)
  then have "single_dashes (show_nat idx)" using digit by blast
  moreover have base: "slug_ok (sanitize_goal_id base)"
    using sanitize_goal_id_ok .
  ultimately show ?thesis
    using all single_dashes_append [of "''-''" "show_nat idx"]
    by (auto simp: numbered_goal_id_def slug_ok_def single_dashes_append slug_char_def)
qed

lemma goal_file_in_dir_inj:
  "slug_ok i \<Longrightarrow> slug_ok j \<Longrightarrow> goal_file_in_dir dir i = goal_file_in_dir dir' j \<longleftrightarrow> dir = dir' \<and> i = j"
  by (auto simp: goal_file_in_dir_def sanitize_keep)

definition id_taken :: "'f goal_env \<Rightarrow> string \<Rightarrow> goal_scope \<Rightarrow> string option \<Rightarrow> 'f goal_disk \<Rightarrow> bool" where
  "id_taken env i scope working_dir d \<longleftrightarrow> load_goal env i (Some scope) working_dir d \<notin> {Inr None} \<union> range Inl"

lemma finite_taken: "finite {n. id_taken env (numbered_goal_id base n) scope working_dir d}"
proof -
  define dir where "dir = (case scope of Global \<Rightarrow> GlobalGoals | Project \<Rightarrow> ProjectGoals (ge_hash env (the working_dir)))"
  define key where "key n = goal_file_in_dir dir (numbered_goal_id base n)" for n
  have inj: "inj key"
    by (rule injI) (simp add: key_def goal_file_in_dir_inj slug_ok_numbered, simp add: numbered_goal_id_def)
  have dom: "key n |\<in>| fmdom (gd_goals d)" if "id_taken env (numbered_goal_id base n) scope working_dir d" for n
    using that
    by (auto simp: id_taken_def load_goal_def goal_candidates_def project_goals_dir_def key_def dir_def
        goal_file_in_dir_def intro!: fmdomI split: goal_scope.splits option.splits)
  have "finite (key -` fset (fmdom (gd_goals d)))"
    by (rule finite_vimageI [OF _ inj]) simp
  then show ?thesis by (rule rev_finite_subset) (use dom in blast)
qed

function first_free_id ::
  "'f goal_env \<Rightarrow> 'f goal_disk \<Rightarrow> goal_scope \<Rightarrow> string option \<Rightarrow> string \<Rightarrow> string \<Rightarrow> nat \<Rightarrow> goal_error + string" where
  "first_free_id env d scope working_dir base candidate idx =
     (case load_goal env candidate (Some scope) working_dir d of
        Inl e \<Rightarrow> Inl e
      | Inr None \<Rightarrow> Inr candidate
      | Inr (Some _) \<Rightarrow> first_free_id env d scope working_dir base (numbered_goal_id base idx) (idx + 1))"
  by pat_completeness auto
termination
proof (relation "measure (\<lambda>(env, d, scope, working_dir, base, candidate, idx).
    (if id_taken env candidate scope working_dir d then 1 else 0) +
    card {n. idx \<le> n \<and> id_taken env (numbered_goal_id base n) scope working_dir d})")
  fix env :: "'f goal_env" and d scope working_dir base candidate idx g_opt and g :: goal
  assume load: "load_goal env candidate (Some scope) working_dir d = Inr g_opt" "g_opt = Some g"
  let ?T = "\<lambda>m. {n. m \<le> n \<and> id_taken env (numbered_goal_id base n) scope working_dir d}"
  have fin: "finite (?T m)" for m by (rule rev_finite_subset [OF finite_taken]) auto
  have "?T idx = (if id_taken env (numbered_goal_id base idx) scope working_dir d then {idx} else {}) \<union> ?T (idx + 1)"
    by (auto simp: le_less Suc_le_eq)
  then have "card (?T idx) =
      (if id_taken env (numbered_goal_id base idx) scope working_dir d then 1 else 0) + card (?T (idx + 1))"
    using fin by simp
  then show "((env, d, scope, working_dir, base, numbered_goal_id base idx, idx + 1),
      (env, d, scope, working_dir, base, candidate, idx)) \<in> measure (\<lambda>(env, d, scope, working_dir, base, candidate, idx).
    (if id_taken env candidate scope working_dir d then 1 else 0) +
    card {n. idx \<le> n \<and> id_taken env (numbered_goal_id base n) scope working_dir d})"
    using load by (auto simp: id_taken_def)
qed simp

declare first_free_id.simps [simp del]

definition next_available_goal_id ::
  "'f goal_env \<Rightarrow> string \<Rightarrow> goal_scope \<Rightarrow> string option \<Rightarrow> 'f goal_disk \<Rightarrow> goal_error + string" where
  "next_available_goal_id env base scope working_dir d =
     first_free_id env d scope working_dir base (sanitize_goal_id base) 2"

text \<open>The end of creating and of updating: the goal is saved, then mirrored.\<close>

definition store_goal ::
  "'f goal_env \<Rightarrow> int \<Rightarrow> goal \<Rightarrow> string option \<Rightarrow> 'f goal_disk \<Rightarrow> (goal_error + goal) \<times> 'f goal_disk" where
  "store_goal env now g working_dir d =
     (case save_goal env g working_dir d of
        (Inl e, d) \<Rightarrow> (Inl e, d)
      | (Inr _, d) \<Rightarrow>
          (case sync_goal_memory env now g working_dir d of
             (Inl e, d) \<Rightarrow> (Inl e, d)
           | (Inr _, d) \<Rightarrow> (Inr g, d)))"

definition create_goal ::
  "'f goal_env \<Rightarrow> int \<Rightarrow> goal_create_input \<Rightarrow> string option \<Rightarrow> 'f goal_disk \<Rightarrow> (goal_error + goal) \<times> 'f goal_disk" where
  "create_goal env now inp working_dir d =
     (if trim (gi_title inp) = [] then (Inl GoalTitleEmpty, d)
      else
        let g = goal_new now (gi_title inp) (gi_scope inp);
            g = (case some_text (gi_id inp) of Some i \<Rightarrow> g\<lparr>go_id := sanitize_goal_id i\<rparr> | None \<Rightarrow> g)
        in case next_available_goal_id env (go_id g) (go_scope g) working_dir d of
             Inl e \<Rightarrow> (Inl e, d)
           | Inr i \<Rightarrow>
        let g = g\<lparr>go_id := i,
              go_description := trimmed_or_empty (gi_description inp),
              go_why := trimmed_or_empty (gi_why inp),
              go_success_criteria := trim_vec (gi_success_criteria inp),
              go_milestones := gi_milestones inp,
              go_next_steps := trim_vec (gi_next_steps inp),
              go_blockers := trim_vec (gi_blockers inp),
              go_current_milestone_id := gi_current_milestone_id inp,
              go_progress_percent := map_option (min 100) (gi_progress_percent inp),
              go_updated_at := now\<rparr>
        in store_goal env now g working_dir d)"

definition apply_goal_update :: "int \<Rightarrow> goal_update_input \<Rightarrow> goal \<Rightarrow> goal" where
  "apply_goal_update now u g =
     (let set = (\<lambda>v old. case v of None \<Rightarrow> old | Some new \<Rightarrow> new)
      in g\<lparr>go_title := set (some_text (ui_title u)) (go_title g),
           go_description := set (map_option trim (ui_description u)) (go_description g),
           go_why := set (map_option trim (ui_why u)) (go_why g),
           go_status := (case ui_status u of None \<Rightarrow> go_status g | Some st \<Rightarrow> st),
           go_success_criteria := (case ui_success_criteria u of None \<Rightarrow> go_success_criteria g | Some v \<Rightarrow> trim_vec v),
           go_milestones := (case ui_milestones u of None \<Rightarrow> go_milestones g | Some v \<Rightarrow> v),
           go_next_steps := (case ui_next_steps u of None \<Rightarrow> go_next_steps g | Some v \<Rightarrow> trim_vec v),
           go_blockers := (case ui_blockers u of None \<Rightarrow> go_blockers g | Some v \<Rightarrow> trim_vec v),
           go_current_milestone_id := (case ui_current_milestone_id u of
               None \<Rightarrow> go_current_milestone_id g | Some m \<Rightarrow> map_option trim m),
           go_progress_percent := (case ui_progress_percent u of
               None \<Rightarrow> go_progress_percent g | Some p \<Rightarrow> map_option (min 100) p),
           go_updates := go_updates g @
             (case some_text (ui_checkpoint_summary u) of
                None \<Rightarrow> [] | Some s \<Rightarrow> [\<lparr>gu_at = now, gu_summary = s\<rparr>]),
           go_updated_at := now\<rparr>)"

definition update_goal ::
  "'f goal_env \<Rightarrow> int \<Rightarrow> string \<Rightarrow> goal_scope option \<Rightarrow> string option \<Rightarrow> goal_update_input \<Rightarrow> 'f goal_disk \<Rightarrow>
   (goal_error + goal option) \<times> 'f goal_disk" where
  "update_goal env now i hint working_dir u d =
     (case load_goal env i hint working_dir d of
        Inl e \<Rightarrow> (Inl e, d)
      | Inr None \<Rightarrow> (Inr None, d)
      | Inr (Some g) \<Rightarrow>
          let g = apply_goal_update now u g
          in case store_goal env now g working_dir d of
               (Inl e, d) \<Rightarrow> (Inl e, d)
             | (Inr g, d) \<Rightarrow> (Inr (Some g), d))"

section \<open>Rendering\<close>

definition goal_emoji :: string where
  "goal_emoji = [CHR 0xF0, CHR 0x9F, CHR 0x8E, CHR 0xAF]"

definition ellipsis :: string where
  "ellipsis = [CHR 0xE2, CHR 0x80, CHR 0xA6]"

definition right_arrow :: string where
  "right_arrow = [CHR 0xE2, CHR 0x86, CHR 0x92]"

function trim_start_matches :: "string \<Rightarrow> string \<Rightarrow> string" where
  "trim_start_matches pat s =
     (if pat \<noteq> [] \<and> prefix pat s then trim_start_matches pat (drop (length pat) s) else s)"
  by pat_completeness auto
termination
  by (relation "measure (\<lambda>(pat, s). length s)") (auto simp: prefix_def)

declare trim_start_matches.simps [simp del]

definition truncate_title :: "string \<Rightarrow> nat \<Rightarrow> string" where
  "truncate_title title max_chars =
     (let raw = trim (trim_start_matches ''Goal: '' title)
      in if char_count raw \<le> max_chars then raw
         else if max_chars \<le> 1 then ellipsis
         else char_take (max_chars - 1) raw @ ellipsis)"

definition overview_entry :: "goal \<Rightarrow> string" where
  "overview_entry g =
     ''## '' @ go_title g @ nl @ ''- Status: '' @ goal_status_as_str (go_status g) @ nl @
     ''- Scope: '' @ goal_scope_as_str (go_scope g) @ nl @
     (case go_progress_percent g of Some p \<Rightarrow> ''- Progress: '' @ show_nat p @ ''%'' @ nl | None \<Rightarrow> []) @
     (case current_milestone g of Some m \<Rightarrow> ''- Current milestone: '' @ gm_title m @ nl | None \<Rightarrow> []) @
     (case go_next_steps g of s # _ \<Rightarrow> ''- Next step: '' @ s @ nl | [] \<Rightarrow> []) @
     ''- Id: `'' @ go_id g @ ''`'' @ nl @ nl"

definition render_goals_overview :: "goal list \<Rightarrow> string" where
  "render_goals_overview goals =
     ''# Goals'' @ nl @ nl @
     (if goals = [] then
        ''No goals yet. Use the `goal` tool or `/goals show <id>` after creating one.'' @ nl
      else concat (map overview_entry goals))"

definition section_text :: "string \<Rightarrow> string \<Rightarrow> string" where
  "section_text heading body =
     (if trim body = [] then [] else heading @ nl @ trim body @ nl @ nl)"

definition section_list :: "string \<Rightarrow> string list \<Rightarrow> string" where
  "section_list heading items =
     (if items = [] then [] else heading @ nl @ concat (map (\<lambda>l. l @ nl) items) @ nl)"

definition milestone_detail :: "goal_milestone \<Rightarrow> string" where
  "milestone_detail m =
     ''## Current milestone'' @ nl @ ''### '' @ gm_title m @ nl @
     (if gm_steps m = [] then ''- Status: '' @ gm_status m @ nl @ nl
      else concat (map (\<lambda>st. ''- ['' @ (if gp_status st = ''completed'' then ''x'' else '' '') @ ''] '' @
        gp_content st @ nl) (gm_steps m)) @ nl)"

definition render_goal_detail :: "'f goal_env \<Rightarrow> goal \<Rightarrow> string" where
  "render_goal_detail env g =
     ''# Goal: '' @ go_title g @ nl @ nl @
     ''**Status:** '' @ goal_status_as_str (go_status g) @ ''  '' @ nl @
     ''**Scope:** '' @ goal_scope_as_str (go_scope g) @ ''  '' @ nl @
     ''**Updated:** '' @ ge_minute env (go_updated_at g) @ ''  '' @ nl @
     (case go_progress_percent g of Some p \<Rightarrow> ''**Progress:** '' @ show_nat p @ ''%  '' @ nl | None \<Rightarrow> []) @
     nl @ section_text ''## Description'' (go_description g) @ section_text ''## Why'' (go_why g) @
     section_list ''## Success criteria'' (map (\<lambda>i. ''- '' @ i) (go_success_criteria g)) @
     (case current_milestone g of Some m \<Rightarrow> milestone_detail m | None \<Rightarrow> []) @
     section_list ''## Milestones'' (map (\<lambda>m.
        (if go_current_milestone_id g = Some (gm_id m) then right_arrow else ''-'') @ '' '' @
        gm_title m @ '' ('' @ gm_status m @ '')'') (go_milestones g)) @
     section_list ''## Next steps'' (map (\<lambda>(idx, s). show_nat (idx + 1) @ ''. '' @ s)
        (enumerate 0 (go_next_steps g))) @
     section_list ''## Blockers'' (map (\<lambda>b. ''- '' @ b) (go_blockers g)) @
     (if go_updates g = [] then []
      else ''## Recent updates'' @ nl @ concat (map (\<lambda>u. ''- '' @ ge_day env (gu_at u) @ '': '' @ gu_summary u @ nl)
        (take 8 (rev (go_updates g)))))"

section \<open>Pages\<close>

definition goal_page_id :: "string \<Rightarrow> string" where
  "goal_page_id i = ''goal.'' @ sanitize_goal_id i"

definition should_focus_goal_page ::
  "'f goal_env \<Rightarrow> string \<Rightarrow> string \<Rightarrow> 'f goal_disk \<Rightarrow> goal_error + bool" where
  "should_focus_goal_page env session_id page_id d =
     (case snapshot_for_session (ge_revision env) session_id (gd_panel d) of
        Inl e \<Rightarrow> Inl (PanelFailed e)
      | Inr snapshot \<Rightarrow>
          let has_goal_page = list_ex (\<lambda>p. sp_id p = ''goals'' \<or> prefix ''goal.'' (sp_id p)) (sn_pages snapshot)
          in Inr (\<not> has_goal_page \<or> sn_focused_page_id snapshot = Some page_id \<or>
               sn_focused_page_id snapshot = Some ''goals''))"

definition goal_panel_write ::
  "'f goal_env \<Rightarrow> nat \<Rightarrow> string \<Rightarrow> string \<Rightarrow> string \<Rightarrow> string \<Rightarrow> bool \<Rightarrow> 'f goal_disk \<Rightarrow>
   (goal_error + side_panel_snapshot) \<times> 'f goal_disk" where
  "goal_panel_write env now session_id page_id title content focus d =
     (case write_markdown_page (ge_base env) now (ge_revision env) session_id page_id (Some title) content focus
         (gd_panel d) of
        (Inl e, p) \<Rightarrow> (Inl (PanelFailed e), d\<lparr>gd_panel := p\<rparr>)
      | (Inr snapshot, p) \<Rightarrow> (Inr snapshot, d\<lparr>gd_panel := p\<rparr>))"

definition write_goal_page ::
  "'f goal_env \<Rightarrow> nat \<Rightarrow> string \<Rightarrow> string option \<Rightarrow> goal \<Rightarrow> goal_display_mode \<Rightarrow> 'f goal_disk \<Rightarrow>
   (goal_error + side_panel_snapshot) \<times> 'f goal_disk" where
  "write_goal_page env now session_id working_dir g display d =
     (let page_id = goal_page_id (go_id g);
          focus = (case display of
              NoDisplay \<Rightarrow> Inr False | Focus \<Rightarrow> Inr True | UpdateOnly \<Rightarrow> Inr False
            | Auto \<Rightarrow> should_focus_goal_page env session_id page_id d)
      in case focus of
           Inl e \<Rightarrow> (Inl e, d)
         | Inr focus \<Rightarrow>
      case goal_panel_write env now session_id page_id (''Goal: '' @ go_title g) (render_goal_detail env g) focus d of
           (Inl e, d) \<Rightarrow> (Inl e, d)
         | (Inr snapshot, d) \<Rightarrow>
      case attach_goal_to_session env (int now) session_id g working_dir d of
           (Inl e, d) \<Rightarrow> (Inl e, d)
         | (Inr _, d) \<Rightarrow> (Inr snapshot, d))"

definition open_goals_overview_for_session ::
  "'f goal_env \<Rightarrow> nat \<Rightarrow> string \<Rightarrow> string option \<Rightarrow> bool \<Rightarrow> 'f goal_disk \<Rightarrow>
   (goal_error + side_panel_snapshot) \<times> 'f goal_disk" where
  "open_goals_overview_for_session env now session_id working_dir focus d =
     (case list_relevant_goals env working_dir d of
        Inl e \<Rightarrow> (Inl e, d)
      | Inr goals \<Rightarrow> goal_panel_write env now session_id ''goals'' ''Goals'' (render_goals_overview goals) focus d)"

definition refresh_goals_overview_for_session ::
  "'f goal_env \<Rightarrow> nat \<Rightarrow> string \<Rightarrow> string option \<Rightarrow> 'f goal_disk \<Rightarrow>
   (goal_error + side_panel_snapshot option) \<times> 'f goal_disk" where
  "refresh_goals_overview_for_session env now session_id working_dir d =
     (case snapshot_for_session (ge_revision env) session_id (gd_panel d) of
        Inl e \<Rightarrow> (Inl (PanelFailed e), d)
      | Inr snapshot \<Rightarrow>
          if \<not> list_ex (\<lambda>p. sp_id p = ''goals'') (sn_pages snapshot) then (Inr None, d)
          else
            (case open_goals_overview_for_session env now session_id working_dir
                (sn_focused_page_id snapshot = Some ''goals'') d of
               (Inl e, d) \<Rightarrow> (Inl e, d)
             | (Inr snapshot, d) \<Rightarrow> (Inr (Some snapshot), d)))"

record goal_display_result =
  dr_goal :: goal
  dr_snapshot :: side_panel_snapshot

definition display_goal ::
  "'f goal_env \<Rightarrow> nat \<Rightarrow> string \<Rightarrow> string option \<Rightarrow> goal_error + goal option \<Rightarrow> bool \<Rightarrow> 'f goal_disk \<Rightarrow>
   (goal_error + goal_display_result option) \<times> 'f goal_disk" where
  "display_goal env now session_id working_dir found explicit_focus d =
     (case found of
        Inl e \<Rightarrow> (Inl e, d)
      | Inr None \<Rightarrow> (Inr None, d)
      | Inr (Some g) \<Rightarrow>
          (case write_goal_page env now session_id working_dir g (if explicit_focus then Focus else Auto) d of
             (Inl e, d) \<Rightarrow> (Inl e, d)
           | (Inr snapshot, d) \<Rightarrow> (Inr (Some \<lparr>dr_goal = g, dr_snapshot = snapshot\<rparr>), d)))"

definition open_goal_for_session ::
  "'f goal_env \<Rightarrow> nat \<Rightarrow> string \<Rightarrow> string option \<Rightarrow> string \<Rightarrow> bool \<Rightarrow> 'f goal_disk \<Rightarrow>
   (goal_error + goal_display_result option) \<times> 'f goal_disk" where
  "open_goal_for_session env now session_id working_dir i explicit_focus d =
     display_goal env now session_id working_dir (load_goal env i None working_dir d) explicit_focus d"

definition resume_goal_for_session ::
  "'f goal_env \<Rightarrow> nat \<Rightarrow> string \<Rightarrow> string option \<Rightarrow> bool \<Rightarrow> 'f goal_disk \<Rightarrow>
   (goal_error + goal_display_result option) \<times> 'f goal_disk" where
  "resume_goal_for_session env now session_id working_dir explicit_focus d =
     display_goal env now session_id working_dir (resume_goal env session_id working_dir d) explicit_focus d"

definition goals_badge :: "'f goal_env \<Rightarrow> string option \<Rightarrow> 'f goal_disk \<Rightarrow> string option" where
  "goals_badge env working_dir d =
     (case list_relevant_goals env working_dir d of
        Inl _ \<Rightarrow> None
      | Inr goals \<Rightarrow>
          (case filter (\<lambda>g. go_status g \<in> {Active, Blocked, Draft}) goals of
             [] \<Rightarrow> None
           | [g] \<Rightarrow> Some (goal_emoji @ '' '' @ truncate_title (go_title g) 28)
           | many \<Rightarrow> Some (goal_emoji @ '' '' @ show_nat (length many) @ '' active'')))"

definition header_badge ::
  "'f goal_env \<Rightarrow> string option \<Rightarrow> side_panel_snapshot \<Rightarrow> 'f goal_disk \<Rightarrow> string option" where
  "header_badge env working_dir snapshot d =
     (case focused_page snapshot of
        Some page \<Rightarrow>
          if prefix ''goal.'' (sp_id page)
          then Some (goal_emoji @ '' '' @ truncate_title (sp_title page) 28 @ ''*'')
          else goals_badge env working_dir d
      | None \<Rightarrow> goals_badge env working_dir d)"

end
