(* ===== verification/GoalStoreProperties.thy ===== *)
theory GoalStoreProperties
  imports GoalStore MemoryManagerProperties SidePanelProperties
begin

text \<open>
  What the goal store promises: goals lie in the file of their id, creating makes a new file, updating
  changes one, lists are in order, a session gets its goal back, every saved goal has its mirror in
  memory, and which goals have a page.
\<close>

section \<open>Where goals lie\<close>

definition goal_wf :: "goal \<Rightarrow> bool" where
  "goal_wf g \<longleftrightarrow> slug_ok (go_id g) \<and> go_title g \<noteq> [] \<and>
     (case go_progress_percent g of None \<Rightarrow> True | Some p \<Rightarrow> p \<le> 100) \<and>
     [] \<notin> set (go_success_criteria g) \<union> set (go_next_steps g) \<union> set (go_blockers g)"

definition filed :: "goal_path \<Rightarrow> goal \<Rightarrow> bool" where
  "filed path g \<longleftrightarrow> goal_wf g \<and> snd path = go_id g @ ''.json'' \<and> (fst path = GlobalGoals \<longleftrightarrow> go_scope g = Global)"

definition goals_ok :: "'f goal_disk \<Rightarrow> bool" where
  "goals_ok d \<longleftrightarrow> (\<forall>path g. fmlookup (gd_goals d) path = Some (Some g) \<longrightarrow> filed path g)"

lemma goals_okD: "goals_ok d \<Longrightarrow> fmlookup (gd_goals d) path = Some (Some g) \<Longrightarrow> filed path g"
  unfolding goals_ok_def by blast

lemma goals_ok_cong: "gd_goals d' = gd_goals d \<Longrightarrow> goals_ok d' = goals_ok d"
  by (simp add: goals_ok_def)

lemma goal_file_filed: "goal_wf g \<Longrightarrow> goal_file env g wd = Inr path \<Longrightarrow> filed path g"
  by (auto simp: goal_file_def filed_def goal_file_in_dir_def project_goals_dir_def goal_wf_def sanitize_keep
      split: goal_scope.splits option.splits)

lemma save_goal_cases:
  assumes "save_goal env g wd d = (r, d')"
  obtains (failed) e where "r = Inl e" "d' = d" "goal_file env g wd = Inl e"
  | (saved) path where "r = Inr ()" "goal_file env g wd = Inr path"
      "d' = d\<lparr>gd_goals := fmupd path (Some g) (gd_goals d)\<rparr>"
  using assms by (auto simp: save_goal_def split: sum.splits)

lemma goals_ok_save: "goals_ok d \<Longrightarrow> goal_wf g \<Longrightarrow> goals_ok (snd (save_goal env g wd d))"
  by (auto simp: save_goal_def goals_ok_def goal_file_filed split: sum.split)

text \<open>Writing memory, pages and attachments leaves the goal files alone.\<close>

lemma sync_keeps:
  "gd_goals (snd (sync_goal_memory env now g wd d)) = gd_goals d"
  "gd_attachments (snd (sync_goal_memory env now g wd d)) = gd_attachments d"
  "gd_panel (snd (sync_goal_memory env now g wd d)) = gd_panel d"
  by (simp_all add: sync_goal_memory_def Let_def split: goal_scope.split option.split prod.split sum.split)

lemma panel_write_keeps:
  "gd_goals (snd (goal_panel_write env now s i title c focus d)) = gd_goals d"
  by (simp add: goal_panel_write_def split: prod.split sum.split)

lemma attach_keeps: "gd_goals (snd (attach_goal_to_session env now s g wd d)) = gd_goals d"
  by (simp add: attach_goal_to_session_def Let_def split: option.split)

lemma write_page_keeps: "gd_goals (snd (write_goal_page env now s wd g display d)) = gd_goals d"
  using panel_write_keeps [of env now s "goal_page_id (go_id g)" "''Goal: '' @ go_title g" "render_goal_detail env g" _ d]
    attach_keeps [of env "int now" s g wd]
  by (auto simp: write_goal_page_def Let_def split: prod.splits sum.splits goal_display_mode.splits dest: sym)
    (metis snd_conv)+

lemma display_keeps: "gd_goals (snd (display_goal env now s wd found focus d)) = gd_goals d"
  using write_page_keeps [of env now s wd _ "if focus then Focus else Auto" d]
  by (auto simp: display_goal_def split: sum.split option.split prod.split) (metis snd_conv)+

lemma overview_keeps:
  "gd_goals (snd (open_goals_overview_for_session env now s wd focus d)) = gd_goals d"
  by (simp add: open_goals_overview_for_session_def panel_write_keeps split: sum.split)

lemma refresh_keeps:
  "gd_goals (snd (refresh_goals_overview_for_session env now s wd d)) = gd_goals d"
  using overview_keeps [of env now s wd _ d]
  by (auto simp: refresh_goals_overview_for_session_def split: sum.split prod.split) (metis snd_conv)+

section \<open>New and changed goals\<close>

lemma trim_vec_nonempty [simp]: "[] \<notin> set (trim_vec xs)"
  by (simp add: trim_vec_def)

lemma some_text_nonempty: "some_text t = Some s \<Longrightarrow> s \<noteq> []"
  by (auto simp: some_text_def split: option.splits if_splits)

lemma load_first_Some: "load_first d paths = Inr (Some g) \<Longrightarrow> \<exists>path\<in>set paths. fmlookup (gd_goals d) path = Some (Some g)"
  by (induction paths) (auto split: option.splits)

lemma load_goal_wf: "goals_ok d \<Longrightarrow> load_goal env i hint wd d = Inr (Some g) \<Longrightarrow> goal_wf g"
  using load_first_Some [of d _ g] by (fastforce simp: load_goal_def filed_def dest: goals_okD)

lemma apply_update_wf: "goal_wf g \<Longrightarrow> goal_wf (apply_goal_update now u g)"
  by (auto simp: goal_wf_def apply_goal_update_def Let_def dest: some_text_nonempty split: option.splits)

text \<open>An id found free is the base or one of its numbered forms, and the smaller ones are taken.\<close>

lemma first_free_id_cases:
  assumes "first_free_id env d scope wd base candidate idx = Inr i"
  shows "load_goal env i (Some scope) wd d = Inr None \<and>
    (i = candidate \<or> (id_taken env candidate scope wd d \<and>
      (\<exists>n\<ge>idx. i = numbered_goal_id base n \<and>
        list_all (\<lambda>m. id_taken env (numbered_goal_id base m) scope wd d) [idx..<n])))"
  using assms
proof (induction env d scope wd base candidate idx rule: first_free_id.induct)
  case (1 env d scope wd base candidate idx)
  show ?case
  proof (cases "load_goal env candidate (Some scope) wd d")
    case (Inl e)
    then show ?thesis using 1 by (simp add: first_free_id.simps [of env d scope wd base candidate])
  next
    case (Inr r)
    show ?thesis
    proof (cases r)
      case None
      then show ?thesis using 1 Inr by (simp add: first_free_id.simps [of env d scope wd base candidate])
    next
      case (Some g)
      have rec: "first_free_id env d scope wd base (numbered_goal_id base idx) (idx + 1) = Inr i"
        using 1(2) Inr Some by (simp add: first_free_id.simps [of env d scope wd base candidate])
      have taken: "id_taken env candidate scope wd d" using Inr Some by (auto simp: id_taken_def)
      note found = 1(1) [OF Inr Some rec]
      then consider (first) "i = numbered_goal_id base idx"
        | (later) n where "n \<ge> idx + 1" "i = numbered_goal_id base n" "id_taken env (numbered_goal_id base idx) scope wd d"
            "list_all (\<lambda>m. id_taken env (numbered_goal_id base m) scope wd d) [idx + 1..<n]"
        by blast
      then show ?thesis
      proof cases
        case first
        then show ?thesis using found taken by (intro conjI disjI2 exI [of _ idx]) simp_all
      next
        case (later n)
        then show ?thesis using found taken by (intro conjI disjI2 exI [of _ n]) (simp_all add: upt_conv_Cons)
      qed
    qed
  qed
qed

text \<open>The goal that creating makes of its input, given the id and the time.\<close>

definition created_goal :: "int \<Rightarrow> goal_create_input \<Rightarrow> string \<Rightarrow> goal" where
  "created_goal now inp i =
     (goal_new now (gi_title inp) (gi_scope inp))
       \<lparr>go_id := i,
        go_description := trimmed_or_empty (gi_description inp),
        go_why := trimmed_or_empty (gi_why inp),
        go_success_criteria := trim_vec (gi_success_criteria inp),
        go_milestones := gi_milestones inp,
        go_next_steps := trim_vec (gi_next_steps inp),
        go_blockers := trim_vec (gi_blockers inp),
        go_current_milestone_id := gi_current_milestone_id inp,
        go_progress_percent := map_option (min 100) (gi_progress_percent inp),
        go_updated_at := now\<rparr>"

definition wanted_id :: "goal_create_input \<Rightarrow> string" where
  "wanted_id inp = sanitize_goal_id (case some_text (gi_id inp) of Some i \<Rightarrow> i | None \<Rightarrow> trim (gi_title inp))"

lemma create_goal_unfold:
  "create_goal env now inp wd d =
     (if trim (gi_title inp) = [] then (Inl GoalTitleEmpty, d)
      else case first_free_id env d (gi_scope inp) wd (wanted_id inp) (wanted_id inp) 2 of
             Inl e \<Rightarrow> (Inl e, d)
           | Inr i \<Rightarrow> store_goal env now (created_goal now inp i) wd d)"
proof (cases "first_free_id env d (gi_scope inp) wd (wanted_id inp) (wanted_id inp) 2")
  case (Inl e)
  then show ?thesis
    by (cases "some_text (gi_id inp)")
      (simp_all add: create_goal_def wanted_id_def goal_new_def next_available_goal_id_def Let_def)
next
  case (Inr i)
  then show ?thesis
    by (cases "some_text (gi_id inp)")
      (simp_all add: create_goal_def created_goal_def wanted_id_def goal_new_def next_available_goal_id_def Let_def)
qed

lemma created_goal_simps [simp]:
  "go_id (created_goal now inp i) = i" "go_scope (created_goal now inp i) = gi_scope inp"
  "go_title (created_goal now inp i) = trim (gi_title inp)"
  "go_status (created_goal now inp i) = Active"
  by (simp_all add: created_goal_def goal_new_def Let_def)

lemma free_id_slug:
  assumes "first_free_id env d scope wd base candidate 2 = Inr i" "slug_ok candidate"
  shows "slug_ok i"
  using first_free_id_cases [OF assms(1)] assms(2) slug_ok_numbered by blast

lemma wanted_slug [simp]: "slug_ok (wanted_id inp)"
  by (simp add: wanted_id_def)

lemma created_wf: "slug_ok i \<Longrightarrow> trim (gi_title inp) \<noteq> [] \<Longrightarrow> goal_wf (created_goal now inp i)"
  by (simp add: goal_wf_def) (auto simp: created_goal_def goal_new_def Let_def split: option.split)

text \<open>What saving a goal and its mirror leaves behind.\<close>

lemma store_goal_ok:
  assumes "goals_ok d" "goal_wf g"
  shows "goals_ok (snd (store_goal env now g wd d))"
proof -
  obtain r1 d1 where save: "save_goal env g wd d = (r1, d1)" by fastforce
  have d1: "goals_ok d1" using goals_ok_save [OF assms, of env wd] save by simp
  then show ?thesis
    using sync_keeps(1) [of env now g wd d1] goals_ok_cong [of _ d1]
    by (auto simp: store_goal_def save split: sum.split prod.split)
qed

lemma create_ok: "goals_ok d \<Longrightarrow> goals_ok (snd (create_goal env now inp wd d))"
  unfolding create_goal_unfold
  by (auto split: sum.split simp del: split_paired_All dest: free_id_slug [OF _ wanted_slug]
      intro!: store_goal_ok created_wf)

lemma update_goal_unfold:
  "update_goal env now i hint wd u d =
     (case load_goal env i hint wd d of
        Inl e \<Rightarrow> (Inl e, d)
      | Inr None \<Rightarrow> (Inr None, d)
      | Inr (Some g) \<Rightarrow> apfst (map_sum id Some) (store_goal env now (apply_goal_update now u g) wd d))"
  by (auto simp: update_goal_def Let_def split: sum.split option.split prod.split)

lemma update_ok: "goals_ok d \<Longrightarrow> goals_ok (snd (update_goal env now i hint wd u d))"
  unfolding update_goal_unfold
  by (auto split: sum.split option.split simp del: split_paired_All intro!: store_goal_ok apply_update_wf dest: load_goal_wf)

section \<open>Runs\<close>

datatype goal_op =
    CreateGoal goal_create_input
  | UpdateGoal string "goal_scope option" goal_update_input
  | AttachGoal string goal
  | OpenGoal string string bool
  | ResumeGoal string bool
  | OpenOverview string bool
  | RefreshOverview string

text \<open>An operation with its time and working directory.\<close>

fun goal_step :: "'f goal_env \<Rightarrow> 'f goal_disk \<Rightarrow> nat \<times> string option \<times> goal_op \<Rightarrow> 'f goal_disk" where
  "goal_step env d (now, wd, CreateGoal inp) = snd (create_goal env (int now) inp wd d)"
| "goal_step env d (now, wd, UpdateGoal i hint u) = snd (update_goal env (int now) i hint wd u d)"
| "goal_step env d (now, wd, AttachGoal s g) = snd (attach_goal_to_session env (int now) s g wd d)"
| "goal_step env d (now, wd, OpenGoal s i focus) = snd (open_goal_for_session env now s wd i focus d)"
| "goal_step env d (now, wd, ResumeGoal s focus) = snd (resume_goal_for_session env now s wd focus d)"
| "goal_step env d (now, wd, OpenOverview s focus) = snd (open_goals_overview_for_session env now s wd focus d)"
| "goal_step env d (now, wd, RefreshOverview s) = snd (refresh_goals_overview_for_session env now s wd d)"

definition no_goals :: "panel_disk \<Rightarrow> 'f memory_disk \<Rightarrow> 'f goal_disk" where
  "no_goals p m = \<lparr>gd_goals = fmempty, gd_attachments = fmempty, gd_panel = p, gd_memory = m\<rparr>"

interpretation goal_runs: op_machine "goal_step env" "no_goals p m" goals_ok
  for env :: "'f goal_env" and p m
proof
  show "goals_ok (no_goals p m)" by (simp add: goals_ok_def no_goals_def)
next
  fix d :: "'f goal_disk" and x :: "nat \<times> string option \<times> goal_op"
  assume d: "goals_ok d"
  obtain now wd op where x: "x = (now, wd, op)" by (cases x)
  show "goals_ok (goal_step env d x)"
  proof (cases op)
    case (CreateGoal inp)
    then show ?thesis using d by (simp add: x create_ok)
  next
    case (UpdateGoal i hint u)
    then show ?thesis using d by (simp add: x update_ok)
  qed (use d in \<open>simp_all add: x open_goal_for_session_def resume_goal_for_session_def
      goals_ok_cong [OF attach_keeps] goals_ok_cong [OF display_keeps] goals_ok_cong [OF overview_keeps]
      goals_ok_cong [OF refresh_keeps]\<close>)
qed

text \<open>
  Property C4. After any operations on an empty store every readable goal file is the file of its goal:
  its name is the goal's id (a slug) with the extension, it lies with the global goals exactly if
  the goal is global, and loading the id finds a goal with that id. The title is not empty, progress is
  at most 100 and no criterion, step or blocker is empty.
\<close>

theorem goal_store_consistent:
  "let d = foldl (goal_step env) (no_goals p m) ops
   in case fmlookup (gd_goals d) (dir, name) of
        Some (Some g) \<Rightarrow>
          slug_ok (go_id g) \<and> name = go_id g @ ''.json'' \<and> (dir = GlobalGoals \<longleftrightarrow> go_scope g = Global) \<and>
          go_title g \<noteq> [] \<and> (case go_progress_percent g of None \<Rightarrow> True | Some pc \<Rightarrow> pc \<le> 100) \<and>
          [] \<notin> set (go_success_criteria g) \<union> set (go_next_steps g) \<union> set (go_blockers g) \<and>
          (case dir of
             GlobalGoals \<Rightarrow> load_goal env (go_id g) (Some Global) None d = Inr (Some g)
           | ProjectGoals h \<Rightarrow> (case wd of None \<Rightarrow> True | Some w \<Rightarrow>
               if ge_hash env w = h then load_goal env (go_id g) (Some Project) wd d = Inr (Some g) else True))
      | _ \<Rightarrow> True"
proof -
  let ?d = "foldl (goal_step env) (no_goals p m) ops"
  have filed: "filed (dir, name) g" if "fmlookup (gd_goals ?d) (dir, name) = Some (Some g)" for g
    using goal_runs.run_inv [of env p m ops] goals_okD that by blast
  show ?thesis
  proof (cases "fmlookup (gd_goals ?d) (dir, name)")
    case (Some r)
    show ?thesis
    proof (cases r)
      case g: (Some g)
      with Some filed [of g] show ?thesis
        by (auto simp: Let_def filed_def goal_wf_def load_goal_def goal_candidates_def goal_file_in_dir_def
            sanitize_keep project_goals_dir_def split: goal_dir.split option.split)
    qed (simp add: Some Let_def)
  qed (simp add: Let_def)
qed

lemma load_first_error: "load_first d paths = Inl e \<Longrightarrow> \<exists>path. e = GoalUnreadable path"
  by (induction paths) (auto split: option.splits)

lemma first_free_id_error:
  "first_free_id env d scope wd base candidate idx = Inl e \<Longrightarrow> \<exists>path. e = GoalUnreadable path"
proof (induction env d scope wd base candidate idx rule: first_free_id.induct)
  case (1 env d scope wd base candidate idx)
  then show ?case
    by (auto simp: first_free_id.simps [of env d scope wd base candidate] load_goal_def
        dest: load_first_error split: sum.splits option.splits)
qed

lemma sync_error:
  "fst (sync_goal_memory env now g wd d) = Inl e \<Longrightarrow> (\<exists>m. e = MemoryFailed m) \<or> (go_scope g = Project \<and> wd = None)"
  by (auto simp: sync_goal_memory_def Let_def split: goal_scope.splits option.splits prod.splits sum.splits)

lemma goal_file_candidates:
  "goal_file env g wd = Inr path \<Longrightarrow> slug_ok (go_id g) \<Longrightarrow> goal_candidates env (sanitize_goal_id (go_id g)) (Some (go_scope g)) wd = [path]"
  by (auto simp: goal_file_def goal_candidates_def sanitize_keep Let_def split: goal_scope.splits option.splits)

text \<open>Storing a goal whose id is free, or that is in its file already.\<close>

lemma store_goal_result:
  assumes slug: "slug_ok (go_id g)" and res: "store_goal env now g wd d = (r, d')"
  shows "case goal_file env g wd of
      Inl e \<Rightarrow> r = Inl WorkingDirRequired \<and> d' = d
    | Inr path \<Rightarrow> gd_goals d' = fmupd path (Some g) (gd_goals d) \<and>
        load_goal env (go_id g) (Some (go_scope g)) wd d' = Inr (Some g) \<and>
        (case r of Inr g' \<Rightarrow> g' = g | Inl e \<Rightarrow> (\<exists>m. e = MemoryFailed m))"
proof (cases "goal_file env g wd")
  case (Inl e)
  then show ?thesis using res
    by (auto simp: store_goal_def save_goal_def goal_file_def split: goal_scope.splits option.splits)
next
  case (Inr path)
  let ?d1 = "d\<lparr>gd_goals := fmupd path (Some g) (gd_goals d)\<rparr>"
  obtain r2 d2 where sync: "sync_goal_memory env now g wd ?d1 = (r2, d2)" by fastforce
  have goals: "gd_goals d2 = fmupd path (Some g) (gd_goals d)"
    using sync_keeps(1) [of env now g wd ?d1] sync by simp
  have wd: "\<not> (go_scope g = Project \<and> wd = None)"
    using Inr by (auto simp: goal_file_def project_goals_dir_def split: option.splits)
  have r: "d' = d2" "r = (case r2 of Inl e \<Rightarrow> Inl e | Inr _ \<Rightarrow> Inr g)"
    using res sync Inr by (auto simp: store_goal_def save_goal_def split: sum.splits)
  show ?thesis
    using goals wd sync_error [of env now g wd ?d1] goal_file_candidates [OF Inr slug] sync
    by (auto simp: r Inr load_goal_def split: sum.split)
qed

lemma store_new_goal:
  assumes "slug_ok (go_id g)" "load_goal env (go_id g) (Some (go_scope g)) wd d = Inr None"
  shows "case fst (store_goal env now g wd d) of
      Inr g' \<Rightarrow> g' = g \<and> load_goal env (go_id g) (Some (go_scope g)) wd (snd (store_goal env now g wd d)) = Inr (Some g) \<and>
        (case goal_file env g wd of
           Inl _ \<Rightarrow> False
         | Inr path \<Rightarrow> gd_goals (snd (store_goal env now g wd d)) = fmupd path (Some g) (gd_goals d) \<and>
             fmlookup (gd_goals d) path = None)
    | Inl (MemoryFailed e) \<Rightarrow> load_goal env (go_id g) (Some (go_scope g)) wd (snd (store_goal env now g wd d)) = Inr (Some g)
    | Inl _ \<Rightarrow> snd (store_goal env now g wd d) = d"
proof -
  obtain r d' where res: "store_goal env now g wd d = (r, d')" by fastforce
  have free: "fmlookup (gd_goals d) path = None" if "goal_file env g wd = Inr path" for path
    using assms(2) goal_file_candidates [OF that assms(1)] by (auto simp: load_goal_def split: option.splits)
  show ?thesis
    using store_goal_result [OF assms(1) res] free unfolding res fst_conv snd_conv
    by (cases "goal_file env g wd"; cases r) auto
qed

text \<open>
  Creating a goal that succeeds makes one new file, with an id that was free (the wanted id,
  or its first numbered form that no goal has); loading that id in that scope finds the goal, and
  its text fields are the trimmed input. An error leaves everything as it was unless mirroring in
  memory failed: then the goal is saved although an error is returned.
\<close>

theorem create_goal_correct:
  "let (r, d') = create_goal env now inp wd d
   in case r of
        Inr g \<Rightarrow>
          load_goal env (go_id g) (Some (gi_scope inp)) wd d = Inr None \<and>
          load_goal env (go_id g) (Some (gi_scope inp)) wd d' = Inr (Some g) \<and>
          (case goal_file env g wd of
             Inl _ \<Rightarrow> False
           | Inr path \<Rightarrow> gd_goals d' = fmupd path (Some g) (gd_goals d) \<and> fmlookup (gd_goals d) path = None) \<and>
          slug_ok (go_id g) \<and> go_status g = Active \<and> go_title g = trim (gi_title inp) \<and>
          (go_id g = wanted_id inp \<or>
           (\<exists>n\<ge>2. go_id g = numbered_goal_id (wanted_id inp) n \<and>
             list_all (\<lambda>m. id_taken env (numbered_goal_id (wanted_id inp) m) (gi_scope inp) wd d) [2..<n]))
      | Inl (MemoryFailed e) \<Rightarrow> (\<exists>i. load_goal env i (Some (gi_scope inp)) wd d' = Inr (Some (created_goal now inp i)))
      | Inl _ \<Rightarrow> d' = d"
proof -
  consider (empty) "trim (gi_title inp) = []"
    | (unread) e where "trim (gi_title inp) \<noteq> []"
        "first_free_id env d (gi_scope inp) wd (wanted_id inp) (wanted_id inp) 2 = Inl e"
    | (found) i where "trim (gi_title inp) \<noteq> []"
        "first_free_id env d (gi_scope inp) wd (wanted_id inp) (wanted_id inp) 2 = Inr i"
    by (cases "first_free_id env d (gi_scope inp) wd (wanted_id inp) (wanted_id inp) 2") auto
  then show ?thesis
  proof cases
    case (found i)
    let ?g = "created_goal now inp i"
    note free = first_free_id_cases [OF found(2)]
    have slug: "slug_ok i" using free_id_slug [OF found(2)] by simp
    have create: "create_goal env now inp wd d = store_goal env now ?g wd d"
      using found by (simp add: create_goal_unfold)
    have g: "slug_ok (go_id ?g)" "load_goal env (go_id ?g) (Some (go_scope ?g)) wd d = Inr None"
      using slug free by simp_all
    show ?thesis
      using store_new_goal [OF g, of now] free slug
      unfolding create
      by (cases "fst (store_goal env now ?g wd d)")
        (auto simp: case_prod_beta Let_def split: goal_error.splits sum.splits)
  qed (auto simp: create_goal_unfold dest!: first_free_id_error)
qed

lemma loaded_file:
  assumes "goals_ok d" "load_goal env i hint wd d = Inr (Some g)"
  shows "slug_ok (go_id g) \<and> go_id g = sanitize_goal_id i \<and> (hint = None \<or> hint = Some (go_scope g)) \<and>
    (case goal_file env g wd of Inl _ \<Rightarrow> False | Inr path \<Rightarrow> fmlookup (gd_goals d) path = Some (Some g))"
proof -
  obtain path where path: "path \<in> set (goal_candidates env (sanitize_goal_id i) hint wd)"
      "fmlookup (gd_goals d) path = Some (Some g)"
    using load_first_Some [OF assms(2) [unfolded load_goal_def]] by blast
  then have "filed path g" using assms(1) by (rule_tac goals_okD)
  with path show ?thesis
    by (auto simp: filed_def goal_wf_def goal_candidates_def goal_file_def goal_file_in_dir_def sanitize_keep
        project_goals_dir_def Let_def split: option.splits goal_scope.splits)
qed

lemma update_keeps [simp]:
  "go_id (apply_goal_update now u g) = go_id g" "go_scope (apply_goal_update now u g) = go_scope g"
  "go_created_at (apply_goal_update now u g) = go_created_at g"
  by (simp_all add: apply_goal_update_def)

lemma goal_file_cong: "go_id g = go_id h \<Longrightarrow> go_scope g = go_scope h \<Longrightarrow> goal_file env g wd = goal_file env h wd"
  by (simp add: goal_file_def split: goal_scope.split option.split)

text \<open>
  On a store whose goals lie in their files, updating a goal changes that file only, and the
  updated goal is loaded next with the same id and hint. Id, scope and creation time stay, the
  history of updates only grows, blank titles and summaries change nothing and progress is capped.
\<close>

theorem update_goal_correct:
  assumes "goals_ok d" and "load_goal env i hint wd d = Inr (Some g)"
  shows "let (r, d') = update_goal env now i hint wd u d; h = apply_goal_update now u g
    in (case r of Inr x \<Rightarrow> x = Some h | Inl e \<Rightarrow> (\<exists>m. e = MemoryFailed m)) \<and>
       load_goal env i (Some (go_scope g)) wd d' = Inr (Some h) \<and>
       (case goal_file env g wd of
          Inl _ \<Rightarrow> False
        | Inr path \<Rightarrow> gd_goals d' = fmupd path (Some h) (gd_goals d) \<and> fmlookup (gd_goals d) path = Some (Some g)) \<and>
       go_id h = go_id g \<and> go_scope h = go_scope g \<and> go_created_at h = go_created_at g \<and>
       prefix (go_updates g) (go_updates h) \<and> go_title h \<noteq> [] \<and>
       (case go_progress_percent h of None \<Rightarrow> True | Some p \<Rightarrow> p \<le> 100)"
proof -
  let ?h = "apply_goal_update now u g"
  note in_file = loaded_file [OF assms]
  obtain r d' where res: "store_goal env now ?h wd d = (r, d')" by fastforce
  have slug: "slug_ok (go_id ?h)" using in_file by simp
  have same: "goal_file env ?h wd = goal_file env g wd" by (rule goal_file_cong) simp_all
  have wf: "goal_wf ?h" using apply_update_wf load_goal_wf [OF assms] .
  have load: "load_goal env (go_id g) sc wd d' = load_goal env i sc wd d'" for sc
    using in_file by (simp add: load_goal_def)
  obtain path where path: "goal_file env g wd = Inr path" "fmlookup (gd_goals d) path = Some (Some g)"
    using in_file by (cases "goal_file env g wd") auto
  have "prefix (go_updates g) (go_updates ?h)" by (simp add: apply_goal_update_def Let_def)
  then show ?thesis
    using store_goal_result [OF slug res] wf path
    by (cases r) (auto simp: update_goal_unfold assms(2) res same load Let_def goal_wf_def)
qed

definition sample_goal_env :: "nat goal_env" where
  "sample_goal_env =
     \<lparr>ge_hash = id, ge_memory_paths = (\<lambda>_. (''p.json'', ''n.json'')), ge_global_memory = ''global.json'',
      ge_lower = id, ge_embedder = sample_embedder, ge_order = sorted_list_of_fset,
      ge_read_dir = sorted_list_of_fset, ge_minute = (\<lambda>_. ''2025-01-01 00:00''), ge_day = (\<lambda>_. ''2025-01-01''),
      ge_base = ''/j'', ge_revision = (\<lambda>_. 0)\<rparr>"

definition sample_input :: "string \<Rightarrow> goal_create_input" where
  "sample_input title =
     \<lparr>gi_id = None, gi_title = title, gi_scope = Global, gi_description = None, gi_why = None,
      gi_success_criteria = [], gi_milestones = [], gi_next_steps = [], gi_blockers = [],
      gi_current_milestone_id = None, gi_progress_percent = Some 200\<rparr>"

definition sample_update :: "string \<Rightarrow> goal_update_input" where
  "sample_update title =
     \<lparr>ui_title = Some title, ui_description = None, ui_why = None, ui_status = Some Completed,
      ui_success_criteria = None, ui_milestones = None, ui_next_steps = None, ui_blockers = None,
      ui_current_milestone_id = None, ui_progress_percent = None, ui_checkpoint_summary = Some ''done''\<rparr>"

definition one_goal :: "nat goal_disk" where
  "one_goal = snd (create_goal sample_goal_env 5 (sample_input ''Ship it'') None
     (no_goals (empty_disk fmempty) (legacy_disk fmempty fmempty)))"

lemma one_goal_ok: "goals_ok one_goal"
  unfolding one_goal_def by (rule create_ok) (simp add: goals_ok_def no_goals_def)

lemma one_goal_load:
  "load_goal sample_goal_env ''ship-it'' None None one_goal =
     Inr (Some (created_goal 5 (sample_input ''Ship it'') ''ship-it''))"
  by code_simp

theorem update_goal_correct_witness:
  "map_sum id (map_option go_status) (load_goal sample_goal_env ''ship-it'' (Some Global) None
     (snd (update_goal sample_goal_env 9 ''ship-it'' None None (sample_update '' '') one_goal))) = Inr (Some Completed)"
  using update_goal_correct [OF one_goal_ok one_goal_load, of 9 "sample_update '' ''"]
  by (simp add: case_prod_beta Let_def sample_input_def) (simp add: apply_goal_update_def sample_update_def Let_def)

section \<open>Lists and resuming\<close>

lemma set_sort_goals [simp]: "set (sort_goals gs) = set gs"
  by (simp add: sort_goals_def)

lemma sorted_goals [simp]: "sorted (map goal_rank (sort_goals gs))"
  by (simp add: sort_goals_def)

lemma read_goals_set:
  "read_goals d dir names = Inr gs \<Longrightarrow>
   set gs = {g. \<exists>name\<in>set names. file_extension name = Some ''json'' \<and> fmlookup (gd_goals d) (dir, name) = Some (Some g)}"
  by (induction names arbitrary: gs) (auto split: if_splits option.splits sum.splits)

text \<open>The goals of a directory.\<close>

definition goals_of :: "'f goal_disk \<Rightarrow> goal_dir \<Rightarrow> goal set" where
  "goals_of d dir = {g. \<exists>name. file_extension name = Some ''json'' \<and> fmlookup (gd_goals d) (dir, name) = Some (Some g)}"

lemma load_goals_in_dir_set:
  assumes "\<And>s. set (ge_read_dir env s) = fset s" "load_goals_in_dir env dir d = Inr gs"
  shows "set gs = goals_of d dir"
proof -
  obtain rs where rs: "read_goals d dir (ge_read_dir env (dir_names d dir)) = Inr rs" "gs = sort_goals rs"
    using assms(2) by (auto simp: load_goals_in_dir_def split: sum.splits)
  have "name |\<in>| dir_names d dir" if "fmlookup (gd_goals d) (dir, name) = Some x" for name x
    using fmdomI [OF that] by (force simp: dir_names_def)
  then show ?thesis
    using read_goals_set [OF rs(1)] assms(1) by (auto simp: rs(2) goals_of_def)
qed

lemma list_relevant_spec:
  assumes "\<And>s. set (ge_read_dir env s) = fset s" "list_relevant_goals env wd d = Inr gs"
  shows "sorted (map goal_rank gs) \<and> set gs = goals_of d GlobalGoals \<union>
    (case project_goals_dir env wd of None \<Rightarrow> {} | Some dir \<Rightarrow> goals_of d dir)"
  using assms(2) load_goals_in_dir_set [OF assms(1)]
  by (auto simp: list_relevant_goals_def split: sum.splits option.splits)

lemma first_resumable:
  assumes "sorted (map goal_rank gs)" "filter P gs = g # rest" "h \<in> set gs" "P h"
  shows "goal_rank g \<le> goal_rank h"
proof -
  have "sorted (map goal_rank (filter P gs))" using assms(1) by (rule sorted_filter)
  moreover have "h \<in> set (g # rest)" using assms(3,4) unfolding assms(2) [symmetric] by simp
  ultimately show ?thesis using assms(2) by auto
qed

text \<open>
  Given a listing of directories that names each file, resuming returns the goal attached to
  the session if it is resumable, and otherwise a goal of the project or the global directory that
  is resumable and comes first among those: by status, then the latest changed, then by title;
  nothing is returned only if no goal there is resumable. Errors are unreadable files.
\<close>

theorem resume_goal_correct:
  assumes "\<And>s. set (ge_read_dir env s) = fset s"
  shows "let goals = goals_of d GlobalGoals \<union> (case project_goals_dir env wd of None \<Rightarrow> {} | Some dir \<Rightarrow> goals_of d dir);
      attached = load_attached_goal env s wd d
    in case resume_goal env s wd d of
         Inr (Some g) \<Rightarrow> is_resumable (go_status g) \<and>
           (attached = Inr (Some g) \<or>
            (g \<in> goals \<and> {h \<in> goals. is_resumable (go_status h)} \<subseteq> {h. goal_rank g \<le> goal_rank h} \<and>
             (case attached of Inr (Some a) \<Rightarrow> \<not> is_resumable (go_status a) | Inr None \<Rightarrow> True | Inl _ \<Rightarrow> False)))
       | Inr None \<Rightarrow> {h \<in> goals. is_resumable (go_status h)} = {}
       | Inl e \<Rightarrow> (case e of GoalUnreadable _ \<Rightarrow> True | AttachmentUnreadable t \<Rightarrow> t = s | _ \<Rightarrow> False)"
proof (cases "load_attached_goal env s wd d")
  case (Inl e)
  then show ?thesis
    by (auto simp: resume_goal_def load_attached_goal_def load_goal_def dest!: load_first_error
        split: option.splits if_splits)
next
  case att: (Inr a)
  show ?thesis
  proof (cases "case a of Some g \<Rightarrow> is_resumable (go_status g) | None \<Rightarrow> False")
    case True
    then show ?thesis using att by (auto simp: resume_goal_def split: option.splits)
  next
    case other: False
    show ?thesis
    proof (cases "list_relevant_goals env wd d")
      case (Inl e)
      have "read_goals d dir names = Inl e \<Longrightarrow> \<exists>path. e = GoalUnreadable path" for dir names
        by (induction names) (auto split: if_splits option.splits sum.splits)
      then have "\<exists>path. e = GoalUnreadable path"
        using Inl by (auto simp: list_relevant_goals_def load_goals_in_dir_def split: sum.splits option.splits)
      then show ?thesis using att other Inl by (auto simp: resume_goal_def)
    next
      case (Inr gs)
      note spec = list_relevant_spec [OF assms Inr]
      show ?thesis
      proof (cases "filter (\<lambda>g. is_resumable (go_status g)) gs")
        case Nil
        then have "{h \<in> set gs. is_resumable (go_status h)} = {}" by (auto simp: filter_empty_conv)
        then show ?thesis unfolding conjunct2 [OF spec] using att other Inr Nil by (auto simp: resume_goal_def Let_def)
      next
        case (Cons g rest)
        have "g \<in> set gs" "is_resumable (go_status g)"
          using arg_cong [OF Cons, of set] by auto
        moreover have "{h \<in> set gs. is_resumable (go_status h)} \<subseteq> {h. goal_rank g \<le> goal_rank h}"
          using first_resumable [OF conjunct1 [OF spec] Cons] by blast
        ultimately show ?thesis
          using att other Inr Cons spec by (auto simp: resume_goal_def Let_def split: option.splits)
      qed
    qed
  qed
qed

theorem resume_goal_correct_witness:
  "case resume_goal sample_goal_env ''s'' None one_goal of
     Inr (Some g) \<Rightarrow> g \<in> goals_of one_goal GlobalGoals | _ \<Rightarrow> False"
proof -
  have r: "resume_goal sample_goal_env ''s'' None one_goal = Inr (Some (created_goal 5 (sample_input ''Ship it'') ''ship-it''))"
      "load_attached_goal sample_goal_env ''s'' None one_goal = Inr None"
    by code_simp+
  show ?thesis
    using resume_goal_correct [of sample_goal_env one_goal None "''s''"] unfolding r
    by (simp add: sample_goal_env_def project_goals_dir_def Let_def)
qed

section \<open>Attached goals and pages\<close>

text \<open>
  After a goal lying in its file is attached to a session, the session's attached goal, loaded
  with the same working directory, is that goal; a project goal is not found with no working
  directory or one of another hash, and a project goal cannot be attached without one.
\<close>

theorem attached_goal_loaded:
  assumes "goals_ok d" and "load_goal env i hint wd d = Inr (Some g)"
  shows "let (r, d') = attach_goal_to_session env now s g wd d
    in r = Inr () \<and> load_attached_goal env s wd d' = Inr (Some g) \<and>
       (case go_scope g of
          Global \<Rightarrow> load_attached_goal env s other d' = Inr (Some g)
        | Project \<Rightarrow> attach_goal_to_session env now s g None d = (Inl WorkingDirRequired, d) \<and>
            (map_option (ge_hash env) other \<noteq> map_option (ge_hash env) wd \<longrightarrow>
              load_attached_goal env s other d' = Inr None))"
proof -
  note in_file = loaded_file [OF assms]
  obtain path where path: "goal_file env g wd = Inr path" "fmlookup (gd_goals d) path = Some (Some g)"
    using in_file by (cases "goal_file env g wd") auto
  show ?thesis
    using path
    by (auto simp: attach_goal_to_session_def load_attached_goal_def load_goal_def goal_candidates_def goal_file_def
        goal_file_in_dir_def project_goals_dir_def Let_def split: goal_scope.splits option.splits)
qed

theorem attached_goal_loaded_witness:
  "load_attached_goal sample_goal_env ''s'' (Some ''/w'')
     (snd (attach_goal_to_session sample_goal_env 6 ''s'' (created_goal 5 (sample_input ''Ship it'') ''ship-it'') None one_goal))
   = Inr (Some (created_goal 5 (sample_input ''Ship it'') ''ship-it''))"
  using attached_goal_loaded [OF one_goal_ok one_goal_load, of 6 "''s''" "Some ''/w''"]
  by (simp add: case_prod_beta Let_def sample_input_def)

lemma slug_char_page: "slug_char c \<Longrightarrow> page_id_char [c]"
  by (auto simp: slug_char_def page_id_char_def)

lemma page_chars_ascii:
  "chars (''goal.'' @ sanitize_goal_id i) = map (\<lambda>c. [c]) (''goal.'' @ sanitize_goal_id i)"
proof -
  have slug: "list_all slug_char (sanitize_goal_id i)" "sanitize_goal_id i \<noteq> []"
    using sanitize_goal_id_ok [of i] by (simp_all add: slug_ok_def)
  then have "starts_char (sanitize_goal_id i)"
    by (cases "sanitize_goal_id i") (auto simp: starts_char_def slug_char_not_cont)
  moreover have "chars ''goal.'' = map (\<lambda>c. [c]) ''goal.''" by code_simp
  ultimately show ?thesis
    using chars_append [of "sanitize_goal_id i" "''goal.''"] chars_slug [OF slug(1)] by simp
qed

lemma slug_not_ws: "slug_char c \<Longrightarrow> \<not> is_ws [c]"
  by (auto simp: is_ws_def ws_chars_def slug_char_def is_ascii_alphanumeric_def Let_def)

lemma goal_page_id_trim: "trim (goal_page_id i) = goal_page_id i"
proof -
  let ?s = "sanitize_goal_id i"
  have slug: "list_all slug_char ?s" "?s \<noteq> []"
    using sanitize_goal_id_ok [of i] by (simp_all add: slug_ok_def)
  have lst: "\<not> is_ws [last ?s]"
    using slug last_in_set [OF slug(2)] by (intro slug_not_ws) (simp add: list_all_iff)
  have first: "\<not> is_ws ''g''" by code_simp
  obtain cs c where s: "?s = cs @ [c]" using slug(2) by (cases ?s rule: rev_cases) auto
  have "trim (goal_page_id i) = concat (drop_ws_end (map (\<lambda>c. [c]) (''goal.'' @ ?s)))"
    unfolding trim_def goal_page_id_def page_chars_ascii using first by simp
  also have "drop_ws_end (map (\<lambda>c. [c]) (''goal.'' @ ?s)) = map (\<lambda>c. [c]) (''goal.'' @ ?s)"
    using lst by (simp add: drop_ws_end_def s)
  finally show ?thesis by (simp add: goal_page_id_def concat_map_singleton)
qed

lemma goal_page_id_valid: "validate_page_id (goal_page_id i) = Inr () \<longleftrightarrow> length (sanitize_goal_id i) \<le> 75"
proof -
  let ?s = "sanitize_goal_id i"
  have slug: "list_all slug_char ?s" using sanitize_goal_id_ok [of i] by (simp add: slug_ok_def)
  have chars: "list_all page_id_char (chars (goal_page_id i))"
    using slug unfolding goal_page_id_def page_chars_ascii
    by (auto simp: list_all_iff page_id_char_def slug_char_def is_ascii_alphanumeric_def)
  have nodot: "CHR ''.'' \<notin> set ?s"
    using slug by (auto simp: list_all_iff slug_char_def is_ascii_alphanumeric_def)
  have "\<not> sublist ''..'' (''goal.'' @ ?s)"
  proof
    assume "sublist ''..'' (''goal.'' @ ?s)"
    then have "prefix ''.'' ?s \<or> sublist ''..'' ?s" by (simp add: sublist_Cons_right)
    then show False using nodot by (auto simp: prefix_def sublist_def)
  qed
  then have "\<not> str_contains (goal_page_id i) ''..''" by (simp add: str_contains_iff goal_page_id_def)
  with chars show ?thesis
    unfolding validate_page_id_iff goal_page_id_trim by (simp add: goal_page_id_def)
qed

text \<open>
  A goal has a page exactly if its id has at most 75 bytes: the page id of a longer one is
  refused, so opening such a goal fails in every display mode, and it is not attached to the session.
  Nothing bounds the length of an id on creation: it is made of the title.
\<close>

theorem long_goal_has_no_page:
  "(validate_page_id (goal_page_id (go_id g)) = Inr () \<longleftrightarrow> length (sanitize_goal_id (go_id g)) \<le> 75) \<and>
   (length (sanitize_goal_id (go_id g)) \<le> 75 \<or>
    (case write_goal_page env now s wd g display d of
       (Inl (PanelFailed _), d') \<Rightarrow> d' = d | _ \<Rightarrow> False))"
proof (cases "length (sanitize_goal_id (go_id g)) \<le> 75")
  case False
  then obtain e where e: "validate_page_id (goal_page_id (go_id g)) = Inl e"
    using goal_page_id_valid [of "go_id g"] by (cases "validate_page_id (goal_page_id (go_id g))") auto
  have "goal_panel_write env now s (goal_page_id (go_id g)) title content focus d = (Inl (PanelFailed e), d)" for title content focus
    by (simp add: goal_panel_write_def write_markdown_page_def write_page_def e)
  moreover have "should_focus_goal_page env s page d = Inl x \<Longrightarrow> \<exists>y. x = PanelFailed y" for page x
    by (auto simp: should_focus_goal_page_def Let_def split: sum.splits)
  ultimately have "\<exists>x. write_goal_page env now s wd g display d = (Inl (PanelFailed x), d)"
    by (cases display; cases "should_focus_goal_page env s (goal_page_id (go_id g)) d")
      (fastforce simp: write_goal_page_def Let_def)+
  then show ?thesis using goal_page_id_valid [of "go_id g"] by auto
qed (use goal_page_id_valid [of "go_id g"] in simp)

section \<open>The mirror in memory\<close>

definition mirrors :: "goal \<Rightarrow> 'f memory_graph \<Rightarrow> bool" where
  "mirrors g h \<longleftrightarrow> (case get_memory (goal_memory_id g) h of
      None \<Rightarrow> False
    | Some m \<Rightarrow> en_content m = goal_memory_content g \<and> en_tags m = goal_memory_tags g \<and>
        en_category m = Custom ''goal'')"

lemma entry_mirror [simp]:
  "en_id (goal_memory_entry env now g) = goal_memory_id g"
  "en_content (goal_memory_entry env now g) = goal_memory_content g"
  "en_tags (goal_memory_entry env now g) = goal_memory_tags g"
  "en_category (goal_memory_entry env now g) = Custom ''goal''"
  by (simp_all add: goal_memory_entry_def with_tags_def with_trust_def with_source_def entry_new_def
      refresh_search_text_def Let_def)

lemma upsert_mirrors:
  "mirrors g (fst (normalize_graph_search_text lower2
     (fst (upsert_memory_in_graph lower em order now mm (goal_memory_entry env now2 g) h))))"
  using upsert_stored [of "goal_memory_entry env now2 g" lower em order now mm h]
  by (auto simp: mirrors_def get_memory_def normalize_graph_search_text_def refresh_search_text_def)

lemma snd_upsert [simp]: "snd (upsert_memory_in_graph lower em order now mm e g) = en_id e"
  by (simp add: upsert_memory_in_graph_def Let_def with_generated_def ensure_embedding_def split: option.split)

text \<open>The graph of a goal's scope, as the memory manager loads it.\<close>

definition scope_graph :: "'f goal_env \<Rightarrow> int \<Rightarrow> string option \<Rightarrow> goal \<Rightarrow> 'f memory_disk \<Rightarrow> memory_error + 'f memory_graph" where
  "scope_graph env later wd g m =
     (case go_scope g of
        Project \<Rightarrow> fst (load_project_graph (ge_lower env) (ge_embedder env) later (memory_manager_for env wd) m)
      | Global \<Rightarrow> fst (load_global_graph (ge_lower env) later (memory_manager_for env None) m))"

lemma manager_fields:
  "\<not> mm_test (memory_manager_for env dir)"
  "mm_project (memory_manager_for env dir) = Some (fst (ge_memory_paths env dir), snd (ge_memory_paths env dir))"
  by (simp_all add: memory_manager_for_def)

lemma upsert_global_mirrors:
  assumes "upsert_global_memory (ge_lower env) em order now (memory_manager_for env None) (goal_memory_entry env2 now2 g) m = (Inr i, m')"
  shows "case fst (load_global_graph (ge_lower env) later (memory_manager_for env None) m') of
    Inl _ \<Rightarrow> False | Inr h \<Rightarrow> mirrors g h"
proof -
  obtain h m1 where "m' = save_global_graph (memory_manager_for env None)
      (fst (upsert_memory_in_graph (ge_lower env) em order now (memory_manager_for env None) (goal_memory_entry env2 now2 g) h)) m1"
    using assms by (auto simp: upsert_global_memory_def case_prod_beta split: prod.splits sum.splits)
  then show ?thesis by (simp add: load_global_after_save [OF manager_fields(1)] upsert_mirrors)
qed

lemma upsert_project_mirrors:
  assumes "upsert_project_memory (ge_lower env) em order now (memory_manager_for env wd) (goal_memory_entry env2 now2 g) m = (Inr i, m')"
  shows "case fst (load_project_graph (ge_lower env) em2 later (memory_manager_for env wd) m') of
    Inl _ \<Rightarrow> False | Inr h \<Rightarrow> mirrors g h"
proof -
  obtain h m1 where "m' = save_project_graph (memory_manager_for env wd)
      (fst (upsert_memory_in_graph (ge_lower env) em order now (memory_manager_for env wd) (goal_memory_entry env2 now2 g) h)) m1"
    using assms by (auto simp: upsert_project_memory_def case_prod_beta split: prod.splits sum.splits)
  then show ?thesis by (simp add: load_project_after_save [OF manager_fields] upsert_mirrors)
qed

lemma sync_mirrors:
  assumes "sync_goal_memory env now g wd d = (Inr i, d')"
  shows "case scope_graph env later wd g (gd_memory d') of Inl _ \<Rightarrow> False | Inr h \<Rightarrow> mirrors g h"
proof (cases "go_scope g")
  case Global
  with assms obtain m' where "upsert_global_memory (ge_lower env) (ge_embedder env) (ge_order env) now (memory_manager_for env None)
      (goal_memory_entry env now g) (gd_memory d) = (Inr i, m')" "d' = d\<lparr>gd_memory := m'\<rparr>"
    by (auto simp: sync_goal_memory_def Let_def split: prod.splits sum.splits)
  then show ?thesis using upsert_global_mirrors Global by (simp add: scope_graph_def)
next
  case Project
  with assms obtain m' where "upsert_project_memory (ge_lower env) (ge_embedder env) (ge_order env) now (memory_manager_for env wd)
      (goal_memory_entry env now g) (gd_memory d) = (Inr i, m')" "d' = d\<lparr>gd_memory := m'\<rparr>"
    by (auto simp: sync_goal_memory_def Let_def split: prod.splits sum.splits option.splits)
  then show ?thesis using upsert_project_mirrors Project by (simp add: scope_graph_def)
qed

lemma store_goal_mirrors:
  assumes "store_goal env now g wd d = (Inr g', d')"
  shows "case scope_graph env later wd g' (gd_memory d') of Inl _ \<Rightarrow> False | Inr h \<Rightarrow> mirrors g' h"
proof -
  obtain r1 d1 where save: "save_goal env g wd d = (r1, d1)" by fastforce
  obtain r2 d2 where sync: "sync_goal_memory env now g wd d1 = (r2, d2)" by fastforce
  obtain i where s: "sync_goal_memory env now g wd d1 = (Inr i, d')" "g' = g"
    using assms sync by (cases r1; cases r2) (simp_all add: store_goal_def save)
  show ?thesis using sync_mirrors [OF s(1)] unfolding s(2) .
qed

lemma remdups_adj_sorted: "sorted (xs :: 'a :: linorder list) \<Longrightarrow> distinct (remdups_adj xs)"
  by (induction xs rule: remdups_adj.induct) (auto dest: order.antisym)

text \<open>
  A goal created or updated without an error is mirrored: the memory graph of its scope, as
  the memory manager loads it next, holds a memory under the goal's memory id with the rendered
  content and the tags of the goal as it now is. The tags are sorted without repetition.
\<close>

theorem goals_are_mirrored:
  "let mirrored = (\<lambda>g d. case scope_graph env later wd g (gd_memory d) of
        Inl _ \<Rightarrow> False
      | Inr h \<Rightarrow> (case get_memory (goal_memory_id g) h of
          None \<Rightarrow> False
        | Some m \<Rightarrow> en_content m = goal_memory_content g \<and> en_tags m = goal_memory_tags g \<and>
            sorted (en_tags m) \<and> distinct (en_tags m)))
   in (case create_goal env now inp wd d of (Inr g, d') \<Rightarrow> mirrored g d' | (Inl _, _) \<Rightarrow> True) \<and>
      (case update_goal env now i hint wd u d of (Inr (Some g), d') \<Rightarrow> mirrored g d' | _ \<Rightarrow> True)"
proof -
  have tags: "sorted (goal_memory_tags g)" "distinct (goal_memory_tags g)" for g
    unfolding goal_memory_tags_def by (rule sorted_remdups_adj remdups_adj_sorted, rule sorted_sort)+
  let ?ok = "\<lambda>g d. case scope_graph env later wd g (gd_memory d) of
        Inl _ \<Rightarrow> False
      | Inr h \<Rightarrow> (case get_memory (goal_memory_id g) h of
          None \<Rightarrow> False
        | Some m \<Rightarrow> en_content m = goal_memory_content g \<and> en_tags m = goal_memory_tags g \<and>
            sorted (en_tags m) \<and> distinct (en_tags m))"
  have ok: "?ok g d'" if "store_goal env now g0 wd d0 = (Inr g, d')" for g0 g d0 d'
    using store_goal_mirrors [OF that, of later] tags by (auto simp: mirrors_def split: sum.splits option.splits)
  have create: "case create_goal env now inp wd d of (Inr g, d') \<Rightarrow> ?ok g d' | (Inl _, _) \<Rightarrow> True"
  proof (cases "create_goal env now inp wd d")
    case (Pair r d')
    show ?thesis
    proof (cases r)
      case (Inr g)
      then obtain g0 where "store_goal env now g0 wd d = (Inr g, d')"
        using Pair by (auto simp: create_goal_unfold split: if_splits sum.splits)
      from ok [OF this] show ?thesis using Pair Inr by simp
    qed (simp add: Pair)
  qed
  have update: "case update_goal env now i hint wd u d of (Inr (Some g), d') \<Rightarrow> ?ok g d' | _ \<Rightarrow> True"
  proof (cases "load_goal env i hint wd d")
    case (Inr found)
    show ?thesis
    proof (cases found)
      case (Some g)
      obtain r d' where st: "store_goal env now (apply_goal_update now u g) wd d = (r, d')" by fastforce
      show ?thesis
        using ok [of "apply_goal_update now u g" d _ d'] st Inr Some by (cases r) (simp_all add: update_goal_unfold)
    qed (simp add: update_goal_unfold Inr)
  qed (simp add: update_goal_unfold)
  show ?thesis using create update by (simp add: Let_def)
qed

end
