(* ===== verification/Workspace.thy ===== *)
theory Workspace
  imports Prelude "HOL-Library.Word"
begin

text \<open>
  The workspace map (crates/jcode-tui-workspace/src/workspace_map.rs, workspace_map_widget.rs):
  sessions as tiles in rows, the rows numbered by workspaces, the focus in each row, the rows
  visible around the current one, and the cells the tiles are drawn in. Workspace numbers are
  32-bit signed integers, written as integers with the wrap-around of the release build;
  cell coordinates are 16-bit words. Drawing the cells of a terminal buffer is left out.
\<close>

section \<open>Tiles and rows\<close>

datatype visual_state = Idle | Running | Completed | Waiting | Error | Detached

record tile =
  ti_session_id :: string
  ti_state :: visual_state

definition tile_new :: "string \<Rightarrow> tile" where
  "tile_new i = \<lparr>ti_session_id = i, ti_state = Idle\<rparr>"

definition tile_with_state :: "string \<Rightarrow> visual_state \<Rightarrow> tile" where
  "tile_with_state i st = \<lparr>ti_session_id = i, ti_state = st\<rparr>"

record workspace_row =
  wr_sessions :: "tile list"
  wr_last_focused :: "nat option"

definition row_default :: workspace_row where
  "row_default = \<lparr>wr_sessions = [], wr_last_focused = None\<rparr>"

definition row_is_empty :: "workspace_row \<Rightarrow> bool" where
  "row_is_empty r \<longleftrightarrow> wr_sessions r = []"

definition focused_index :: "workspace_row \<Rightarrow> nat option" where
  "focused_index r =
     (case wr_last_focused r of
        Some idx \<Rightarrow> if idx < length (wr_sessions r) then Some idx
                   else if wr_sessions r \<noteq> [] then Some 0 else None
      | None \<Rightarrow> if wr_sessions r \<noteq> [] then Some 0 else None)"

definition row_focus :: "nat \<Rightarrow> workspace_row \<Rightarrow> bool \<times> workspace_row" where
  "row_focus index r =
     (if index < length (wr_sessions r) then (True, r\<lparr>wr_last_focused := Some index\<rparr>) else (False, r))"

definition list_insert :: "nat \<Rightarrow> 'a \<Rightarrow> 'a list \<Rightarrow> 'a list" where
  "list_insert i x xs = take i xs @ x # drop i xs"

definition insert_right_of_focus :: "tile \<Rightarrow> workspace_row \<Rightarrow> nat \<times> workspace_row" where
  "insert_right_of_focus t r =
     (let insert_at = (case focused_index r of
            Some idx \<Rightarrow> min (idx + 1) (length (wr_sessions r))
          | None \<Rightarrow> length (wr_sessions r))
      in (insert_at, r\<lparr>wr_sessions := list_insert insert_at t (wr_sessions r), wr_last_focused := Some insert_at\<rparr>))"

definition move_focus_left :: "workspace_row \<Rightarrow> bool \<times> workspace_row" where
  "move_focus_left r =
     (case focused_index r of
        None \<Rightarrow> (False, r)
      | Some current \<Rightarrow> if current = 0 then (False, r) else (True, r\<lparr>wr_last_focused := Some (current - 1)\<rparr>))"

definition move_focus_right :: "workspace_row \<Rightarrow> bool \<times> workspace_row" where
  "move_focus_right r =
     (case focused_index r of
        None \<Rightarrow> (False, r)
      | Some current \<Rightarrow>
          if length (wr_sessions r) \<le> current + 1 then (False, r)
          else (True, r\<lparr>wr_last_focused := Some (current + 1)\<rparr>))"

section \<open>The map\<close>

record workspace_map =
  wm_rows :: "(int, workspace_row) fmap"
  wm_current :: int

definition map_new :: workspace_map where
  "map_new = \<lparr>wm_rows = fmempty, wm_current = 0\<rparr>"

text \<open>Wrap-around of 32-bit signed arithmetic.\<close>

definition wrap_i32 :: "int \<Rightarrow> int" where
  "wrap_i32 x = (x + 2 ^ 31) mod 2 ^ 32 - 2 ^ 31"

definition ensure_row :: "int \<Rightarrow> (int, workspace_row) fmap \<Rightarrow> (int, workspace_row) fmap" where
  "ensure_row w rows = entry_upd row_default id w rows"

definition set_current_workspace :: "int \<Rightarrow> workspace_map \<Rightarrow> workspace_map" where
  "set_current_workspace w m = \<lparr>wm_rows = ensure_row w (wm_rows m), wm_current = w\<rparr>"

definition map_row :: "int \<Rightarrow> workspace_map \<Rightarrow> workspace_row option" where
  "map_row w m = fmlookup (wm_rows m) w"

text \<open>An operation on a row, which is made if it is not there (\<^verbatim>\<open>row_mut\<close>).\<close>

definition on_row :: "int \<Rightarrow> (workspace_row \<Rightarrow> 'a \<times> workspace_row) \<Rightarrow> workspace_map \<Rightarrow> 'a \<times> workspace_map" where
  "on_row w f m =
     (let (res, r) = f (get_or row_default (wm_rows m) w)
      in (res, m\<lparr>wm_rows := fmupd w r (wm_rows m)\<rparr>))"

definition current_row :: "workspace_map \<Rightarrow> workspace_row option" where
  "current_row m = map_row (wm_current m) m"

definition map_is_empty :: "workspace_map \<Rightarrow> bool" where
  "map_is_empty m \<longleftrightarrow> fmpred (\<lambda>_. row_is_empty) (wm_rows m)"

definition add_session_to_current_workspace :: "tile \<Rightarrow> workspace_map \<Rightarrow> (int \<times> nat) \<times> workspace_map" where
  "add_session_to_current_workspace t m =
     (let (index, m') = on_row (wm_current m) (insert_right_of_focus t) m in ((wm_current m, index), m'))"

definition focus_session_in_workspace :: "int \<Rightarrow> nat \<Rightarrow> workspace_map \<Rightarrow> bool \<times> workspace_map" where
  "focus_session_in_workspace w index m = on_row w (row_focus index) m"

definition session_position :: "string \<Rightarrow> workspace_row \<Rightarrow> nat option" where
  "session_position s r = position (\<lambda>t. ti_session_id t = s) (wr_sessions r)"

text \<open>The rows of a tree map are visited in the order of their keys.\<close>

fun locate_in :: "string \<Rightarrow> workspace_map \<Rightarrow> int list \<Rightarrow> (int \<times> nat) option" where
  "locate_in s m [] = None"
| "locate_in s m (w # ws) =
     (case session_position s (get_or row_default (wm_rows m) w) of
        Some index \<Rightarrow> Some (w, index)
      | None \<Rightarrow> locate_in s m ws)"

definition locate_session :: "string \<Rightarrow> workspace_map \<Rightarrow> (int \<times> nat) option" where
  "locate_session s m = locate_in s m (sorted_list_of_fset (fmdom (wm_rows m)))"

definition focus_session_by_id :: "string \<Rightarrow> workspace_map \<Rightarrow> bool \<times> workspace_map" where
  "focus_session_by_id s m =
     (case locate_session s m of
        None \<Rightarrow> (False, m)
      | Some (w, index) \<Rightarrow> on_row w (row_focus index) (m\<lparr>wm_current := w\<rparr>))"

definition focused_session_in_workspace :: "int \<Rightarrow> workspace_map \<Rightarrow> string option" where
  "focused_session_in_workspace w m =
     (case map_row w m of
        None \<Rightarrow> None
      | Some r \<Rightarrow>
          (case focused_index r of
             None \<Rightarrow> None
           | Some index \<Rightarrow> if index < length (wr_sessions r) then Some (ti_session_id (wr_sessions r ! index)) else None))"

definition current_focused_session_id :: "workspace_map \<Rightarrow> string option" where
  "current_focused_session_id m = focused_session_in_workspace (wm_current m) m"

definition set_row_sessions :: "int \<Rightarrow> tile list \<Rightarrow> nat option \<Rightarrow> workspace_map \<Rightarrow> workspace_map" where
  "set_row_sessions w sessions focused m =
     snd (on_row w (\<lambda>r. ((), r\<lparr>wr_sessions := sessions, wr_last_focused :=
       (case focused of Some idx \<Rightarrow> if idx < length sessions then Some idx else None | None \<Rightarrow> None)\<rparr>)) m)"

definition insert_session_in_workspace :: "int \<Rightarrow> tile \<Rightarrow> workspace_map \<Rightarrow> nat \<times> workspace_map" where
  "insert_session_in_workspace w t m = on_row w (insert_right_of_focus t) (m\<lparr>wm_current := w\<rparr>)"

definition populated_workspaces :: "workspace_map \<Rightarrow> int list" where
  "populated_workspaces m =
     filter (\<lambda>w. \<not> row_is_empty (get_or row_default (wm_rows m) w)) (sorted_list_of_fset (fmdom (wm_rows m)))"

definition nearest_populated_workspace_above :: "workspace_map \<Rightarrow> int option" where
  "nearest_populated_workspace_above m =
     (case filter (\<lambda>w. wm_current m < w) (populated_workspaces m) of [] \<Rightarrow> None | w # ws \<Rightarrow> Some (fold min ws w))"

definition nearest_populated_workspace_below :: "workspace_map \<Rightarrow> int option" where
  "nearest_populated_workspace_below m =
     (case filter (\<lambda>w. w < wm_current m) (populated_workspaces m) of [] \<Rightarrow> None | w # ws \<Rightarrow> Some (fold max ws w))"

definition move_left :: "workspace_map \<Rightarrow> bool \<times> workspace_map" where
  "move_left m = on_row (wm_current m) move_focus_left m"

definition move_right :: "workspace_map \<Rightarrow> bool \<times> workspace_map" where
  "move_right m = on_row (wm_current m) move_focus_right m"

definition move_up :: "workspace_map \<Rightarrow> workspace_map" where
  "move_up m = set_current_workspace (wrap_i32 (wm_current m + 1)) m"

definition move_down :: "workspace_map \<Rightarrow> workspace_map" where
  "move_down m = set_current_workspace (wrap_i32 (wm_current m - 1)) m"

section \<open>Visible rows\<close>

record visible_row =
  vr_workspace :: int
  vr_is_current :: bool
  vr_focused_index :: "nat option"
  vr_sessions :: "tile list"

definition shown_workspaces :: "workspace_map \<Rightarrow> int list" where
  "shown_workspaces m =
     (let ordered = rev (sort (filter (\<lambda>w. w = wm_current m \<or> \<not> row_is_empty (get_or row_default (wm_rows m) w))
            (sorted_list_of_fset (fmdom (wm_rows m)))))
      in if ordered = [] then [wm_current m] else ordered)"

definition visible_window :: "nat \<Rightarrow> int \<Rightarrow> int list \<Rightarrow> int list" where
  "visible_window max_rows current ordered =
     (let current_pos = (case position (\<lambda>w. w = current) ordered of Some p \<Rightarrow> p | None \<Rightarrow> 0);
          half = max_rows div 2;
          start = current_pos - half;
          stop = min (start + max_rows) (length ordered);
          start = (if stop - start < max_rows then stop - max_rows else start)
      in take (stop - start) (drop start ordered))"

definition visible_rows :: "nat \<Rightarrow> workspace_map \<Rightarrow> visible_row list" where
  "visible_rows max_rows m =
     (if max_rows = 0 then []
      else map (\<lambda>w. let r = get_or row_default (wm_rows m) w
            in \<lparr>vr_workspace = w, vr_is_current = (w = wm_current m), vr_focused_index = focused_index r,
                vr_sessions = wr_sessions r\<rparr>)
          (visible_window max_rows (wm_current m) (shown_workspaces m)))"

section \<open>Cells\<close>

type_synonym u16 = "16 word"

record rect =
  rc_x :: u16
  rc_y :: u16
  rc_width :: u16
  rc_height :: u16

definition tile_width :: u16 where "tile_width = 1"
definition tile_height :: u16 where "tile_height = 1"
definition col_gap :: u16 where "col_gap = 1"
definition row_gap :: u16 where "row_gap = 1"

definition sat_sub :: "u16 \<Rightarrow> u16 \<Rightarrow> u16" where
  "sat_sub a b = (if b \<le> a then a - b else 0)"

definition sat_add :: "u16 \<Rightarrow> u16 \<Rightarrow> u16" where
  "sat_add a b = (if unat a + unat b \<le> 65535 then a + b else 65535)"

definition row_tiles_width :: "u16 \<Rightarrow> u16" where
  "row_tiles_width n = (if n = 0 then 0 else n * tile_width + sat_sub n 1 * col_gap)"

definition preferred_size :: "visible_row list \<Rightarrow> u16 \<times> u16" where
  "preferred_size rows =
     (let max_tiles = word_of_nat (foldr max (map (\<lambda>r. length (vr_sessions r)) rows) 0) :: u16
      in (if max_tiles = 0 then tile_width else row_tiles_width max_tiles,
          word_of_nat (length rows) * tile_height + word_of_nat (length rows - 1) * row_gap))"

record tile_placement =
  tp_workspace :: int
  tp_session_index :: nat
  tp_rect :: rect
  tp_focused :: bool
  tp_current_workspace :: bool
  tp_state :: visual_state

text \<open>The tile in a row, if any of it is inside the area: the loop body, \<^verbatim>\<open>continue\<close> being None.\<close>

definition place_tile :: "rect \<Rightarrow> u16 \<Rightarrow> u16 \<Rightarrow> visible_row \<Rightarrow> nat \<times> tile \<Rightarrow> tile_placement option" where
  "place_tile area left_offset y r it =
     (let (session_index, session) = it;
          x = left_offset + word_of_nat session_index * (tile_width + col_gap);
          area_right = sat_add (rc_x area) (rc_width area);
          area_bottom = sat_add (rc_y area) (rc_height area)
      in if area_right \<le> x \<or> area_bottom \<le> y then None
         else
           let width = min (sat_sub area_right x) tile_width;
               height = min (sat_sub area_bottom y) tile_height
           in if width = 0 \<or> height = 0 then None
              else Some \<lparr>tp_workspace = vr_workspace r, tp_session_index = session_index,
                tp_rect = \<lparr>rc_x = x, rc_y = y, rc_width = width, rc_height = height\<rparr>,
                tp_focused = (vr_focused_index r = Some session_index),
                tp_current_workspace = vr_is_current r, tp_state = ti_state session\<rparr>)"

definition place_row :: "rect \<Rightarrow> u16 \<Rightarrow> nat \<times> visible_row \<Rightarrow> tile_placement list" where
  "place_row area top_offset ir =
     (let (row_idx, r) = ir;
          tile_count = word_of_nat (length (vr_sessions r));
          left_offset = rc_x area + sat_sub (rc_width area) (row_tiles_width tile_count) div 2;
          y = top_offset + word_of_nat row_idx * (tile_height + row_gap)
      in List.map_filter (place_tile area left_offset y r) (enumerate 0 (vr_sessions r)))"

definition compute_workspace_tile_placements :: "rect \<Rightarrow> visible_row list \<Rightarrow> tile_placement list" where
  "compute_workspace_tile_placements area rows =
     (if rc_width area = 0 \<or> rc_height area = 0 \<or> rows = [] then []
      else
        let total_height = word_of_nat (min (length rows + (length rows - 1)) 65535);
            top_offset = rc_y area + sat_sub (rc_height area) total_height div 2
        in concat (map (place_row area top_offset) (enumerate 0 rows)))"

text \<open>Symbols as UTF-8 bytes, colours as red, green and blue before any palette is applied.\<close>

definition tile_symbol :: "visual_state \<Rightarrow> bool \<Rightarrow> nat \<Rightarrow> string" where
  "tile_symbol st focused tick =
     (if st = Running then
        (if tick mod 4 = 0 then [CHR 0xE2, CHR 0x97, CHR 0xB4]
         else if tick mod 4 = 1 then [CHR 0xE2, CHR 0x97, CHR 0xB7]
         else if tick mod 4 = 2 then [CHR 0xE2, CHR 0x97, CHR 0xB6]
         else [CHR 0xE2, CHR 0x97, CHR 0xB5])
      else if focused then [CHR 0xE2, CHR 0x96, CHR 0xA0]
      else [CHR 0xE2, CHR 0x96, CHR 0xAA])"

fun tile_color :: "visual_state \<Rightarrow> bool \<Rightarrow> bool \<Rightarrow> nat \<Rightarrow> nat \<times> nat \<times> nat" where
  "tile_color Running focused cur tick =
     (if focused then (if tick mod 2 = 0 then (180, 220, 255) else (130, 170, 220))
      else if tick mod 2 = 0 then (140, 200, 255) else (90, 140, 190))"
| "tile_color Error focused cur tick = (if focused then (255, 160, 160) else (255, 120, 120))"
| "tile_color Waiting focused cur tick = (if focused then (255, 225, 150) else (255, 210, 120))"
| "tile_color Completed focused cur tick = (if focused then (160, 240, 180) else (120, 220, 140))"
| "tile_color Detached focused cur tick = (if focused then (200, 200, 215) else (170, 170, 190))"
| "tile_color Idle focused cur tick =
     (if focused then (220, 220, 240) else if cur then (150, 150, 165) else (95, 95, 110))"

end
