(* ===== verification/WorkspaceProperties.thy ===== *)
theory WorkspaceProperties
  imports Workspace
begin

text \<open>
  What the workspace map promises: the focus of every row is one of its sessions, inserting keeps the
  order, a located session gets the focus, the visible rows are a window of the shown ones,
  and tiles are drawn inside the area, each in a cell of its own.
\<close>

section \<open>Invariant\<close>

definition row_ok :: "workspace_row \<Rightarrow> bool" where
  "row_ok r \<longleftrightarrow> (case wr_last_focused r of None \<Rightarrow> True | Some i \<Rightarrow> i < length (wr_sessions r))"

definition is_i32 :: "int \<Rightarrow> bool" where
  "is_i32 w \<longleftrightarrow> - (2 ^ 31) \<le> w \<and> w < 2 ^ 31"

definition map_ok :: "workspace_map \<Rightarrow> bool" where
  "map_ok m \<longleftrightarrow> is_i32 (wm_current m) \<and> (\<forall>w r. fmlookup (wm_rows m) w = Some r \<longrightarrow> is_i32 w \<and> row_ok r)"

lemma row_ok_default [simp]: "row_ok row_default"
  by (simp add: row_ok_def row_default_def)

lemma row_ok_get: "map_ok m \<Longrightarrow> row_ok (get_or row_default (wm_rows m) w)"
  by (auto simp: map_ok_def get_or_def split: option.split)

lemma wrap_range [simp]: "is_i32 (wrap_i32 x)"
  by (simp add: is_i32_def wrap_i32_def)

lemma wrap_id: "is_i32 x \<Longrightarrow> wrap_i32 x = x"
  by (simp add: is_i32_def wrap_i32_def)

lemma wrap_up_down: "wrap_i32 (wrap_i32 (x + 1) - 1) = wrap_i32 x" "wrap_i32 (wrap_i32 (x - 1) + 1) = wrap_i32 x"
  by (simp_all add: wrap_i32_def mod_simps algebra_simps)

lemma focused_index_less: "focused_index r = Some i \<Longrightarrow> i < length (wr_sessions r)"
  by (auto simp: focused_index_def split: option.splits if_splits)

lemma focused_index_None: "focused_index r = None \<longleftrightarrow> wr_sessions r = []"
  by (auto simp: focused_index_def split: option.splits)

lemma length_list_insert [simp]: "length (list_insert i x xs) = Suc (length xs)"
  by (simp add: list_insert_def)

lemma row_ops_ok:
  "row_ok r \<Longrightarrow> row_ok (snd (row_focus i r))" "row_ok (snd (insert_right_of_focus t r))"
  "row_ok r \<Longrightarrow> row_ok (snd (move_focus_left r))" "row_ok r \<Longrightarrow> row_ok (snd (move_focus_right r))"
  by (auto simp: row_focus_def row_ok_def insert_right_of_focus_def move_focus_left_def move_focus_right_def Let_def
      split: option.splits dest: focused_index_less)

lemma on_row_ok:
  "map_ok m \<Longrightarrow> is_i32 w \<Longrightarrow> (\<And>r. row_ok r \<Longrightarrow> row_ok (snd (f r))) \<Longrightarrow> map_ok (snd (on_row w f m))"
  using row_ok_get [of m w] by (auto simp: on_row_def map_ok_def Let_def case_prod_beta)

lemma ensure_row_lookup:
  "fmlookup (ensure_row w rows) v = (if v = w then Some (get_or row_default rows w) else fmlookup rows v)"
  by (simp add: ensure_row_def lookup_entry_upd)

lemma set_current_ok: "map_ok m \<Longrightarrow> is_i32 w \<Longrightarrow> map_ok (set_current_workspace w m)"
  using row_ok_get [of m] by (auto simp: map_ok_def set_current_workspace_def ensure_row_lookup)

section \<open>Runs\<close>

text \<open>A workspace number given to an operation is a 32-bit one: it is taken with the wrap-around.\<close>

datatype workspace_op =
    AddSession tile
  | InsertSession int tile
  | SetRow int "tile list" "nat option"
  | SetCurrent int
  | FocusIn int nat
  | FocusId string
  | MoveLeft | MoveRight | MoveUp | MoveDown

fun workspace_step :: "workspace_map \<Rightarrow> workspace_op \<Rightarrow> workspace_map" where
  "workspace_step m (AddSession t) = snd (add_session_to_current_workspace t m)"
| "workspace_step m (InsertSession w t) = snd (insert_session_in_workspace (wrap_i32 w) t m)"
| "workspace_step m (SetRow w ts i) = set_row_sessions (wrap_i32 w) ts i m"
| "workspace_step m (SetCurrent w) = set_current_workspace (wrap_i32 w) m"
| "workspace_step m (FocusIn w i) = snd (focus_session_in_workspace (wrap_i32 w) i m)"
| "workspace_step m (FocusId s) = snd (focus_session_by_id s m)"
| "workspace_step m MoveLeft = snd (move_left m)"
| "workspace_step m MoveRight = snd (move_right m)"
| "workspace_step m MoveUp = move_up m"
| "workspace_step m MoveDown = move_down m"

lemma locate_in_Some:
  "locate_in s m ws = Some (w, i) \<Longrightarrow>
   w \<in> set ws \<and> i < length (wr_sessions (get_or row_default (wm_rows m) w)) \<and>
   ti_session_id (wr_sessions (get_or row_default (wm_rows m) w) ! i) = s"
  by (induction ws) (auto simp: session_position_def dest: position_Some split: option.splits)

lemma session_position_None: "session_position s r = None \<longleftrightarrow> s \<notin> ti_session_id ` set (wr_sessions r)"
  by (auto simp: session_position_def position_None)

lemma locate_in_None:
  "locate_in s m ws = None \<longleftrightarrow>
   (\<forall>w\<in>set ws. s \<notin> ti_session_id ` set (wr_sessions (get_or row_default (wm_rows m) w)))"
  by (induction ws) (simp_all add: session_position_None [symmetric] split: option.split)

lemma locate_session_Some:
  assumes "locate_session s m = Some (w, i)"
  shows "\<exists>r. fmlookup (wm_rows m) w = Some r \<and> i < length (wr_sessions r) \<and> ti_session_id (wr_sessions r ! i) = s"
  using locate_in_Some [OF assms [unfolded locate_session_def]]
  by (auto simp: get_or_def fmlookup_dom_iff sorted_list_of_fset.rep_eq split: option.splits)

lemma focus_by_id_ok: "map_ok m \<Longrightarrow> map_ok (snd (focus_session_by_id s m))"
  unfolding focus_session_by_id_def
  by (auto split: option.split dest!: locate_session_Some intro!: on_row_ok row_ops_ok) (auto simp: map_ok_def)

interpretation workspace_runs: op_machine workspace_step map_new map_ok
proof
  show "map_ok map_new" by (simp add: map_ok_def map_new_def is_i32_def)
next
  fix m op
  assume m: "map_ok m"
  have cur: "is_i32 (wm_current m)" using m by (simp add: map_ok_def)
  have other: "map_ok (m\<lparr>wm_current := wrap_i32 w\<rparr>)" for w using m by (simp add: map_ok_def)
  show "map_ok (workspace_step m op)"
  proof (cases op)
    case (SetRow w ts i)
    have "map_ok (set_row_sessions (wrap_i32 w) ts i m)"
      unfolding set_row_sessions_def by (rule on_row_ok [OF m]) (auto simp: row_ok_def split: option.split)
    then show ?thesis by (simp add: SetRow)
  qed (use m cur other in \<open>auto simp: add_session_to_current_workspace_def insert_session_in_workspace_def
      focus_session_in_workspace_def move_left_def move_right_def move_up_def move_down_def case_prod_beta Let_def
      focus_by_id_ok intro!: on_row_ok set_current_ok row_ops_ok\<close>)
qed

text \<open>
  After any operations, wrap-around of the workspace number included, every row has its focus on
  one of its sessions, workspace numbers stay 32-bit numbers, and the current session id is there
  exactly if the current row has sessions; moving up and down again comes back to the workspace
  and changes no row but adding empty ones.
\<close>

theorem workspace_focus_valid:
  "let m = foldl workspace_step map_new ops; back = move_down (move_up m)
   in - (2 ^ 31) \<le> wm_current m \<and> wm_current m < 2 ^ 31 \<and>
      (case map_row w m of
         None \<Rightarrow> focused_session_in_workspace w m = None
       | Some r \<Rightarrow> (case focused_session_in_workspace w m of
           None \<Rightarrow> wr_sessions r = []
         | Some s \<Rightarrow> (case wr_last_focused r of
             None \<Rightarrow> ti_session_id (hd (wr_sessions r)) = s
           | Some i \<Rightarrow> i < length (wr_sessions r) \<and> ti_session_id (wr_sessions r ! i) = s))) \<and>
      wm_current back = wm_current m \<and>
      get_or row_default (wm_rows back) w = get_or row_default (wm_rows m) w"
proof -
  let ?m = "foldl workspace_step map_new ops"
  have m: "map_ok ?m" by (rule workspace_runs.run_inv)
  have returned: "wm_current (move_down (move_up ?m)) = wm_current ?m"
    using m wrap_up_down(1) [of "wm_current ?m"]
    by (simp add: move_up_def move_down_def set_current_workspace_def wrap_id map_ok_def)
  have rows: "get_or row_default (wm_rows (move_down (move_up ?m))) w = get_or row_default (wm_rows ?m) w"
    by (auto simp: move_up_def move_down_def set_current_workspace_def get_or_def ensure_row_lookup)
  have focus: "case map_row w ?m of
         None \<Rightarrow> focused_session_in_workspace w ?m = None
       | Some r \<Rightarrow> (case focused_session_in_workspace w ?m of
           None \<Rightarrow> wr_sessions r = []
         | Some s \<Rightarrow> (case wr_last_focused r of
             None \<Rightarrow> ti_session_id (hd (wr_sessions r)) = s
           | Some i \<Rightarrow> i < length (wr_sessions r) \<and> ti_session_id (wr_sessions r ! i) = s))"
  proof (cases "map_row w ?m")
    case (Some r)
    then have "row_ok r" using m by (simp add: map_ok_def map_row_def)
    then show ?thesis using Some
      by (auto simp: focused_session_in_workspace_def focused_index_def row_ok_def hd_conv_nth split: option.splits)
  qed (simp add: focused_session_in_workspace_def)
  show ?thesis using m returned rows focus by (simp add: Let_def map_ok_def is_i32_def)
qed

section \<open>Inserting and finding\<close>

lemma list_insert_nth: "i \<le> length xs \<Longrightarrow> list_insert i x xs ! i = x"
  by (simp add: list_insert_def nth_append)

text \<open>
  A session added to the current workspace goes right behind the focused one (at the end of a
  row without sessions): the others keep their order, the result names its place, and it has the focus.
\<close>

theorem added_session_focused:
  "let ((w, i), m') = add_session_to_current_workspace t m;
       before = wr_sessions (get_or row_default (wm_rows m) w)
   in w = wm_current m \<and> current_focused_session_id m' = Some (ti_session_id t) \<and>
      map_option wr_sessions (map_row w m') = Some (take i before @ t # drop i before) \<and>
      (case focused_index (get_or row_default (wm_rows m) w) of
         None \<Rightarrow> before = [] \<and> i = 0
       | Some f \<Rightarrow> i = Suc f \<and> f < length before) \<and>
      fmdrop w (wm_rows m') = fmdrop w (wm_rows m)"
proof -
  let ?r = "get_or row_default (wm_rows m) (wm_current m)"
  obtain i r' where ins: "insert_right_of_focus t ?r = (i, r')" by fastforce
  have i: "i \<le> length (wr_sessions ?r)" "wr_sessions r' = list_insert i t (wr_sessions ?r)" "wr_last_focused r' = Some i"
    "case focused_index ?r of None \<Rightarrow> wr_sessions ?r = [] \<and> i = 0 | Some f \<Rightarrow> i = Suc f \<and> f < length (wr_sessions ?r)"
    using ins by (auto simp: insert_right_of_focus_def Let_def focused_index_None split: option.splits dest: focused_index_less)
  show ?thesis
    using i by (auto simp: add_session_to_current_workspace_def on_row_def ins Let_def map_row_def
        current_focused_session_id_def focused_session_in_workspace_def focused_index_def list_insert_nth
        fmdrop_fmupd_same list_insert_def nth_append)
qed

text \<open>
  Focusing a session by its id succeeds exactly if some row has it; then that session is the
  current one, and otherwise nothing changes. No session is added, dropped or moved.
\<close>

theorem focus_session_by_id_correct:
  "let (found, m') = focus_session_by_id s m
   in found = (s \<in> (\<Union>r\<in>fmran' (wm_rows m). ti_session_id ` set (wr_sessions r))) \<and>
      (if found then current_focused_session_id m' = Some s else m' = m) \<and>
      map_option wr_sessions (map_row w m') = map_option wr_sessions (map_row w m)"
proof (cases "locate_session s m")
  case None
  have "s \<notin> ti_session_id ` set (wr_sessions r)" if "fmlookup (wm_rows m) v = Some r" for v r
  proof -
    have "v \<in> set (sorted_list_of_fset (fmdom (wm_rows m)))"
      using fmdomI [OF that] by (simp add: sorted_list_of_fset.rep_eq)
    with None that show ?thesis unfolding locate_session_def locate_in_None by (auto simp: get_or_def)
  qed
  then show ?thesis using None by (auto simp: focus_session_by_id_def fmran'_def)
next
  case (Some wi)
  obtain v i where wi: "wi = (v, i)" by (cases wi)
  from locate_session_Some [OF Some [unfolded wi]] obtain r where
    r: "fmlookup (wm_rows m) v = Some r" "i < length (wr_sessions r)" "ti_session_id (wr_sessions r ! i) = s" by blast
  then have "s \<in> (\<Union>r\<in>fmran' (wm_rows m). ti_session_id ` set (wr_sessions r))"
    by (force simp: fmran'_def)
  with r show ?thesis
    by (auto simp: focus_session_by_id_def Some wi on_row_def row_focus_def get_or_def Let_def
        current_focused_session_id_def focused_session_in_workspace_def focused_index_def map_row_def)
qed

section \<open>Visible rows\<close>

lemma sorted_wrt_shown: "sorted_wrt (>) (shown_workspaces m)"
proof -
  have "sorted_wrt (<) (sort (filter P (sorted_list_of_fset X)))" for P and X :: "int fset"
    by (simp add: strict_sorted_iff sorted_list_of_fset.rep_eq)
  then show ?thesis by (auto simp: shown_workspaces_def Let_def sorted_wrt_rev)
qed

lemma set_shown:
  "set (shown_workspaces m) =
     (let shown = {w. w |\<in>| fmdom (wm_rows m) \<and> (w = wm_current m \<or> wr_sessions (get_or row_default (wm_rows m) w) \<noteq> [])}
      in if shown = {} then {wm_current m} else shown)"
proof -
  let ?l = "filter (\<lambda>w. w = wm_current m \<or> \<not> row_is_empty (get_or row_default (wm_rows m) w)) (sorted_list_of_fset (fmdom (wm_rows m)))"
  have s: "set ?l = {w. w |\<in>| fmdom (wm_rows m) \<and> (w = wm_current m \<or> wr_sessions (get_or row_default (wm_rows m) w) \<noteq> [])}"
    by (auto simp: sorted_list_of_fset.rep_eq row_is_empty_def)
  have e: "sort xs = [] \<longleftrightarrow> set xs = {}" for xs :: "int list" by (metis set_sort set_empty)
  have "set (shown_workspaces m) = (if set ?l = {} then {wm_current m} else set ?l)"
  proof (cases "sort ?l = []")
    case True
    then have "shown_workspaces m = [wm_current m]" by (simp only: shown_workspaces_def Let_def rev.simps if_True refl)
    then show ?thesis using True e by simp
  next
    case False
    then have "shown_workspaces m = rev (sort ?l)" by (simp only: shown_workspaces_def Let_def rev_is_Nil_conv if_False)
    then show ?thesis using False e by (simp only: set_rev set_sort if_False)
  qed
  then show ?thesis unfolding s Let_def .
qed

lemma visible_window_correct:
  assumes "0 < k" "xs \<noteq> []"
  shows "sublist (visible_window k c xs) xs \<and> length (visible_window k c xs) = min k (length xs) \<and>
    (c \<in> set xs \<longrightarrow> c \<in> set (visible_window k c xs))"
proof -
  define pos where "pos = (case position (\<lambda>w. w = c) xs of Some p \<Rightarrow> p | None \<Rightarrow> 0)"
  define stop where "stop = min (pos - k div 2 + k) (length xs)"
  define start where "start = (if stop - (pos - k div 2) < k then stop - k else pos - k div 2)"
  have window: "visible_window k c xs = take (stop - start) (drop start xs)"
    unfolding visible_window_def start_def stop_def pos_def Let_def ..
  have pos: "pos < length xs"
    using assms(2) by (auto simp: pos_def split: option.split dest: position_Some)
  define s0 where "s0 = pos - k div 2"
  have s0: "s0 \<le> pos" "pos < s0 + k" using assms(1) by (simp_all add: s0_def)
  have le: "start \<le> pos \<and> pos < stop \<and> stop \<le> length xs \<and> stop - start = min k (length xs)"
  proof (cases "s0 + k \<le> length xs")
    case True
    then have "stop = s0 + k" "start = s0" by (simp_all add: stop_def start_def s0_def)
    then show ?thesis using s0 True by simp
  next
    case False
    then have "length xs - s0 < k" using pos s0(1) by linarith
    then have "stop = length xs" "start = length xs - k"
      using False pos s0(1) by (simp_all add: stop_def start_def s0_def [symmetric])
    then show ?thesis using s0 pos False by (auto simp: min_def)
  qed
  have "sublist (take (stop - start) (drop start xs)) xs"
    by (metis append_take_drop_id sublist_appendI)
  moreover have len: "length (visible_window k c xs) = min k (length xs)"
  proof -
    have "stop - start \<le> length xs - start" using le by (intro diff_le_mono) simp
    then show ?thesis using le unfolding window by (simp add: min_absorb2)
  qed
  moreover have "c \<in> set (visible_window k c xs)" if "c \<in> set xs"
  proof -
    have "position (\<lambda>w. w = c) xs \<noteq> None" using that by (auto simp: position_None)
    then obtain p where p: "position (\<lambda>w. w = c) xs = Some p" by blast
    then have "xs ! pos = c" using position_Some [OF p] by (simp add: pos_def)
    moreover have lt: "pos - start < stop - start" using le by (intro diff_less_mono) simp_all
    moreover have "visible_window k c xs ! (pos - start) = xs ! pos"
      unfolding window nth_take [OF lt] using le by simp
    moreover have "pos - start < length (visible_window k c xs)" using lt le unfolding len by simp
    ultimately show ?thesis by (metis nth_mem)
  qed
  ultimately show ?thesis by (simp add: window)
qed

text \<open>
  The visible rows are a contiguous window, as long as asked for if there are as many, of the
  rows shown: those with sessions and the current one if it has been made, highest first. The
  current row is among them if it has been made; each shows its row's sessions and focus.
\<close>

theorem visible_rows_correct:
  "let rows = visible_rows (Suc k) m; shown = shown_workspaces m
   in sublist (map vr_workspace rows) shown \<and> length rows = min (Suc k) (length shown) \<and> sorted_wrt (>) shown \<and>
      set shown = (let made = {w. w |\<in>| fmdom (wm_rows m) \<and>
          (w = wm_current m \<or> wr_sessions (get_or row_default (wm_rows m) w) \<noteq> [])}
        in if made = {} then {wm_current m} else made) \<and>
      (if wm_current m |\<in>| fmdom (wm_rows m) then wm_current m \<in> vr_workspace ` set rows else True) \<and>
      list_all (\<lambda>r. vr_sessions r = wr_sessions (get_or row_default (wm_rows m) (vr_workspace r)) \<and>
        vr_focused_index r = focused_index (get_or row_default (wm_rows m) (vr_workspace r)) \<and>
        vr_is_current r = (vr_workspace r = wm_current m)) rows"
proof -
  let ?shown = "shown_workspaces m"
  have ne: "?shown \<noteq> []" by (simp add: shown_workspaces_def Let_def)
  note window = visible_window_correct [of "Suc k" ?shown "wm_current m", OF _ ne]
  have cur: "wm_current m \<in> set ?shown" if "wm_current m |\<in>| fmdom (wm_rows m)"
    using that unfolding set_shown by (auto simp: Let_def)
  have ids: "map vr_workspace (visible_rows (Suc k) m) = visible_window (Suc k) (wm_current m) ?shown"
    by (simp add: visible_rows_def Let_def comp_def)
  have content: "list_all (\<lambda>r. vr_sessions r = wr_sessions (get_or row_default (wm_rows m) (vr_workspace r)) \<and>
        vr_focused_index r = focused_index (get_or row_default (wm_rows m) (vr_workspace r)) \<and>
        vr_is_current r = (vr_workspace r = wm_current m)) (visible_rows (Suc k) m)"
    by (simp add: visible_rows_def Let_def list_all_iff)
  have len: "length (visible_rows (Suc k) m) = min (Suc k) (length ?shown)"
    using window arg_cong [OF ids, of length] by simp
  have "wm_current m \<in> vr_workspace ` set (visible_rows (Suc k) m)" if "wm_current m |\<in>| fmdom (wm_rows m)"
    using window cur [OF that] unfolding set_map [symmetric] ids by simp
  then show ?thesis
    using window content len sorted_wrt_shown set_shown [of m] unfolding Let_def ids by simp
qed

section \<open>Cells\<close>

lemma sorted_wrt_map_filter:
  "sorted_wrt (\<lambda>a b. \<forall>p q. f a = Some p \<longrightarrow> f b = Some q \<longrightarrow> R p q) xs \<Longrightarrow> sorted_wrt R (List.map_filter f xs)"
proof (induction xs)
  case (Cons x xs)
  have "set (List.map_filter f xs) = {p. \<exists>a\<in>set xs. f a = Some p}"
    by (force simp: List.map_filter_def image_iff)
  with Cons show ?case by (cases "f x") (auto simp: List.map_filter_simps)
qed (simp add: List.map_filter_simps)

lemma sorted_enumerate: "sorted_wrt (\<lambda>a b. fst a < fst b) (enumerate n xs)"
  using sorted_wrt_map [of "(<)" fst "enumerate n xs"] by simp

lemma set_map_filter: "p \<in> set (List.map_filter f xs) \<longleftrightarrow> (\<exists>a\<in>set xs. f a = Some p)"
  by (force simp: List.map_filter_def image_iff)

lemma length_map_filter_all: "list_all (\<lambda>a. f a \<noteq> None) xs \<Longrightarrow> length (List.map_filter f xs) = length xs"
  by (induction xs) (auto simp: List.map_filter_simps)

text \<open>An area and rows whose cells have 16-bit coordinates.\<close>

definition fits :: "rect \<Rightarrow> visible_row list \<Rightarrow> bool" where
  "fits area rows \<longleftrightarrow>
     unat (rc_x area) + unat (rc_width area) \<le> 65535 \<and> unat (rc_y area) + unat (rc_height area) \<le> 65535 \<and>
     unat (rc_y area) + unat (rc_height area) + 2 * length rows \<le> 65535 \<and>
     list_all (\<lambda>r. unat (rc_x area) + unat (rc_width area) + 2 * length (vr_sessions r) \<le> 65535) rows"

lemma unat_offset: "unat a + 2 * i \<le> 65535 \<Longrightarrow> unat (a + word_of_nat i * (2 :: u16)) = unat a + 2 * i"
  by (simp add: unat_word_ariths unat_of_nat mod_simps mult.commute)

lemma unat_sat_sub [simp]: "unat (sat_sub a b) = unat a - unat b"
  by (auto simp: sat_sub_def unat_sub_if_size word_le_nat_alt)

lemma sat_add_fits: "unat a + unat b \<le> 65535 \<Longrightarrow> unat (sat_add a b) = unat a + unat b"
  by (simp add: sat_add_def unat_word_ariths)

lemma unat_centre:
  "unat a + unat w \<le> 65535 \<Longrightarrow> unat (a + sat_sub w n div 2) = unat a + (unat w - unat n) div 2"
  by (simp add: unat_word_ariths unat_div)

lemma steps [simp]: "tile_width + col_gap = 2" "tile_height + row_gap = 2"
  by (simp_all add: tile_width_def col_gap_def tile_height_def row_gap_def)

definition in_area :: "rect \<Rightarrow> tile_placement \<Rightarrow> bool" where
  "in_area area p \<longleftrightarrow> rc_width (tp_rect p) = 1 \<and> rc_height (tp_rect p) = 1 \<and>
     unat (rc_x area) \<le> unat (rc_x (tp_rect p)) \<and>
     unat (rc_x (tp_rect p)) < unat (rc_x area) + unat (rc_width area) \<and>
     unat (rc_y area) \<le> unat (rc_y (tp_rect p)) \<and>
     unat (rc_y (tp_rect p)) < unat (rc_y area) + unat (rc_height area)"

lemma word_pos: "(a :: u16) \<noteq> 0 \<longleftrightarrow> 1 \<le> a"
  by (simp add: word_le_nat_alt unat_eq_0 [symmetric]) arith

lemma place_tile_cases:
  assumes "unat (rc_x area) + unat (rc_width area) \<le> 65535" "unat (rc_y area) + unat (rc_height area) \<le> 65535"
    and "unat left_offset + 2 * i \<le> 65535" "rc_x area \<le> left_offset" "rc_y area \<le> y"
  shows "place_tile area left_offset y r (i, t) =
    (if unat left_offset + 2 * i < unat (rc_x area) + unat (rc_width area) \<and>
        unat y < unat (rc_y area) + unat (rc_height area)
     then Some \<lparr>tp_workspace = vr_workspace r, tp_session_index = i,
       tp_rect = \<lparr>rc_x = left_offset + word_of_nat i * 2, rc_y = y, rc_width = 1, rc_height = 1\<rparr>,
       tp_focused = (vr_focused_index r = Some i), tp_current_workspace = vr_is_current r, tp_state = ti_state t\<rparr>
     else None)"
proof -
  have x: "unat (left_offset + word_of_nat i * (2 :: u16)) = unat left_offset + 2 * i"
    using assms(3) by (rule unat_offset)
  have one: "min (sat_sub a b) 1 = 1" if "unat b < unat a" for a b :: u16
    using that by (intro min_absorb2) (simp add: word_le_nat_alt)
  note ends = sat_add_fits [OF assms(1)] sat_add_fits [OF assms(2)]
  show ?thesis
  proof (cases "unat left_offset + 2 * i < unat (rc_x area) + unat (rc_width area) \<and>
      unat y < unat (rc_y area) + unat (rc_height area)")
    case True
    then have "min (sat_sub (sat_add (rc_x area) (rc_width area)) (left_offset + word_of_nat i * 2)) 1 = 1"
      "min (sat_sub (sat_add (rc_y area) (rc_height area)) y) 1 = 1"
      using one x ends by simp_all
    with True x ends show ?thesis
      by (simp add: place_tile_def Let_def word_le_nat_alt) (simp add: tile_width_def tile_height_def)
  next
    case False
    then show ?thesis using x ends by (auto simp: place_tile_def Let_def word_le_nat_alt)
  qed
qed

text \<open>Reading order of two placements: an earlier row, or the same row and further left.\<close>

definition before :: "tile_placement \<Rightarrow> tile_placement \<Rightarrow> bool" where
  "before p q \<longleftrightarrow> unat (rc_y (tp_rect p)) < unat (rc_y (tp_rect q)) \<or>
     (rc_y (tp_rect p) = rc_y (tp_rect q) \<and> unat (rc_x (tp_rect p)) < unat (rc_x (tp_rect q)))"

lemma unat_row_width: "n \<le> 32767 \<Longrightarrow> unat (row_tiles_width (word_of_nat n)) = 2 * n - 1"
  by (cases n) (auto simp: row_tiles_width_def tile_width_def col_gap_def unat_word_ariths unat_of_nat sat_sub_def
      word_le_nat_alt word_unat_eq_iff)

lemma place_row_correct:
  assumes area: "unat (rc_x area) + unat (rc_width area) \<le> 65535" "unat (rc_y area) + unat (rc_height area) \<le> 65535"
    and row: "unat (rc_x area) + unat (rc_width area) + 2 * length (vr_sessions r) \<le> 65535"
    and y: "unat y0 + 2 * idx \<le> 65535" "rc_y area \<le> y0"
  shows "(\<forall>p\<in>set (place_row area y0 (idx, r)). in_area area p \<and> unat (rc_y (tp_rect p)) = unat y0 + 2 * idx) \<and>
    sorted_wrt before (place_row area y0 (idx, r)) \<and>
    (2 * length (vr_sessions r) - 1 \<le> unat (rc_width area) \<and> unat y0 + 2 * idx < unat (rc_y area) + unat (rc_height area) \<longrightarrow>
      length (place_row area y0 (idx, r)) = length (vr_sessions r))"
proof -
  let ?n = "length (vr_sessions r)"
  let ?w = "row_tiles_width (word_of_nat ?n)"
  let ?left = "rc_x area + sat_sub (rc_width area) ?w div 2"
  let ?y = "y0 + word_of_nat idx * (2 :: u16)"
  let ?place = "place_tile area ?left ?y r"
  have width: "unat ?w = 2 * ?n - 1" using row by (intro unat_row_width) linarith
  have left: "unat ?left = unat (rc_x area) + (unat (rc_width area) - (2 * ?n - 1)) div 2"
    using unat_centre [OF area(1), of ?w] by (simp add: width)
  have yo: "unat ?y = unat y0 + 2 * idx" using y(1) unat_offset [of y0 idx] by simp
  have fit: "unat ?left + 2 * i \<le> 65535" if "i < ?n" for i
    using that row left by linarith
  have cases: "?place (i, t) = (if unat ?left + 2 * i < unat (rc_x area) + unat (rc_width area) \<and>
        unat ?y < unat (rc_y area) + unat (rc_height area)
     then Some \<lparr>tp_workspace = vr_workspace r, tp_session_index = i,
       tp_rect = \<lparr>rc_x = ?left + word_of_nat i * 2, rc_y = ?y, rc_width = 1, rc_height = 1\<rparr>,
       tp_focused = (vr_focused_index r = Some i), tp_current_workspace = vr_is_current r, tp_state = ti_state t\<rparr>
     else None)" if "i < ?n" for i t
    using that left y yo by (intro place_tile_cases area fit) (simp_all add: word_le_nat_alt)
  have row_eq: "place_row area y0 (idx, r) = List.map_filter ?place (enumerate 0 (vr_sessions r))"
    by (simp add: place_row_def Let_def)
  have index: "fst it < ?n" if "it \<in> set (enumerate 0 (vr_sessions r))" for it
    using that by (auto simp: in_set_enumerate_eq)
  have x: "unat (?left + word_of_nat i * (2 :: u16)) = unat ?left + 2 * i" if "i < ?n" for i
    using fit [OF that] by (rule unat_offset)
  have props: "in_area area p \<and> unat (rc_y (tp_rect p)) = unat y0 + 2 * idx" if p: "p \<in> set (place_row area y0 (idx, r))" for p
  proof -
    obtain i t where it: "(i, t) \<in> set (enumerate 0 (vr_sessions r))" "?place (i, t) = Some p"
      using p by (auto simp: row_eq set_map_filter)
    then show ?thesis
      using cases [OF index [OF it(1), simplified], of t] x [OF index [OF it(1), simplified]] left yo y
      by (auto simp: in_area_def word_le_nat_alt split: if_splits)
  qed
  have "sorted_wrt before (place_row area y0 (idx, r))"
    unfolding row_eq
  proof (rule sorted_wrt_map_filter, rule sorted_wrt_mono_rel [OF _ sorted_enumerate])
    fix a b
    assume ab: "a \<in> set (enumerate 0 (vr_sessions r))" "b \<in> set (enumerate 0 (vr_sessions r))" "fst a < fst b"
    show "\<forall>p q. ?place a = Some p \<longrightarrow> ?place b = Some q \<longrightarrow> before p q"
      using ab(3) cases [OF index [OF ab(1)], of "snd a"] cases [OF index [OF ab(2)], of "snd b"]
        x [OF index [OF ab(1)]] x [OF index [OF ab(2)]]
      by (auto simp: before_def split: if_splits)
  qed
  moreover have "length (place_row area y0 (idx, r)) = ?n"
    if "2 * ?n - 1 \<le> unat (rc_width area)" "unat y0 + 2 * idx < unat (rc_y area) + unat (rc_height area)"
  proof -
    have "?place (i, t) \<noteq> None" if "i < ?n" for i t
      using that \<open>2 * ?n - 1 \<le> unat (rc_width area)\<close> \<open>unat y0 + 2 * idx < _\<close> cases [OF that, of t] left yo by auto
    then have "list_all (\<lambda>it. ?place it \<noteq> None) (enumerate 0 (vr_sessions r))"
      using index by (auto simp: list_all_iff)
    from length_map_filter_all [OF this] show ?thesis by (simp add: row_eq)
  qed
  ultimately show ?thesis using props by blast
qed

lemma sorted_wrt_concat:
  "sorted_wrt (\<lambda>xs ys. \<forall>x\<in>set xs. \<forall>y\<in>set ys. R x y) xss \<Longrightarrow> list_all (sorted_wrt R) xss \<Longrightarrow> sorted_wrt R (concat xss)"
  by (induction xss) (auto simp: sorted_wrt_append)

text \<open>
  Property C38. In an area and for rows whose cells have 16-bit coordinates, every tile drawn is one cell
  inside the area, and the cells are in reading order, so no two tiles share one; if the area has
  the preferred size at least, every session of every row has its tile.
\<close>

theorem placements_correct:
  assumes "fits area rows"
  shows "let ps = compute_workspace_tile_placements area rows
    in list_all (in_area area) ps \<and> sorted_wrt before ps \<and>
       (if rc_width area \<noteq> 0 \<and> rc_height area \<noteq> 0 \<and> 2 * length rows - 1 \<le> unat (rc_height area) \<and>
           list_all (\<lambda>r. 2 * length (vr_sessions r) - 1 \<le> unat (rc_width area)) rows
        then length ps = sum_list (map (\<lambda>r. length (vr_sessions r)) rows) else True)"
proof (cases "rc_width area = 0 \<or> rc_height area = 0 \<or> rows = []")
  case True
  then show ?thesis by (auto simp: compute_workspace_tile_placements_def)
next
  case False
  note f = assms [unfolded fits_def]
  let ?total = "word_of_nat (min (length rows + (length rows - 1)) 65535) :: u16"
  let ?top = "rc_y area + sat_sub (rc_height area) ?total div 2"
  have total: "unat ?total = 2 * length rows - 1" using f False by (simp add: unat_of_nat min_def) linarith
  have top: "unat ?top = unat (rc_y area) + (unat (rc_height area) - (2 * length rows - 1)) div 2"
    using unat_centre [of "rc_y area" "rc_height area" ?total] f by (simp only: total)
  have ps: "compute_workspace_tile_placements area rows = concat (map (place_row area ?top) (enumerate 0 rows))"
    using False by (simp add: compute_workspace_tile_placements_def Let_def)
  have row: "(\<forall>p\<in>set (place_row area ?top ir). in_area area p \<and> unat (rc_y (tp_rect p)) = unat ?top + 2 * fst ir) \<and>
    sorted_wrt before (place_row area ?top ir) \<and>
    (2 * length (vr_sessions (snd ir)) - 1 \<le> unat (rc_width area) \<and> unat ?top + 2 * fst ir < unat (rc_y area) + unat (rc_height area) \<longrightarrow>
      length (place_row area ?top ir) = length (vr_sessions (snd ir)))" if "ir \<in> set (enumerate 0 rows)" for ir
  proof -
    obtain idx r where ir: "ir = (idx, r)" by (cases ir)
    have mem: "idx < length rows" "r \<in> set rows" using that by (auto simp: in_set_enumerate_eq ir)
    have "unat ?top + 2 * idx \<le> 65535" using mem(1) f unfolding top by linarith
    moreover have "rc_y area \<le> ?top" unfolding word_le_nat_alt top by simp
    ultimately show ?thesis
      using place_row_correct [of area r ?top idx] f mem(2) unfolding ir by (auto simp: list_all_iff)
  qed
  have "list_all (in_area area) (compute_workspace_tile_placements area rows)"
    using row unfolding ps by (auto simp: list_all_iff)
  moreover have "sorted_wrt before (concat (map (place_row area ?top) (enumerate 0 rows)))"
  proof (rule sorted_wrt_concat)
    show "sorted_wrt (\<lambda>xs ys. \<forall>x\<in>set xs. \<forall>y\<in>set ys. before x y) (map (place_row area ?top) (enumerate 0 rows))"
      unfolding sorted_wrt_map
      by (rule sorted_wrt_mono_rel [OF _ sorted_enumerate]) (use row in \<open>auto simp: before_def\<close>)
    show "list_all (sorted_wrt before) (map (place_row area ?top) (enumerate 0 rows))"
      using row by (simp add: list_all_iff)
  qed
  moreover have "length (concat (map (place_row area ?top) (enumerate 0 rows))) = sum_list (map (\<lambda>r. length (vr_sessions r)) rows)"
    if small: "2 * length rows - 1 \<le> unat (rc_height area)" "list_all (\<lambda>r. 2 * length (vr_sessions r) - 1 \<le> unat (rc_width area)) rows"
  proof -
    have len: "length (place_row area ?top ir) = length (vr_sessions (snd ir))" if ir: "ir \<in> set (enumerate 0 rows)" for ir
    proof -
      have mem: "fst ir < length rows" "snd ir \<in> set rows" using ir nth_mem [of "fst ir" rows] by (auto simp: in_set_enumerate_eq)
      have y:  "unat ?top + 2 * fst ir < unat (rc_y area) + unat (rc_height area)"
        using small(1) mem(1) unfolding top by linarith
      have "2 * length (vr_sessions (snd ir)) - 1 \<le> unat (rc_width area)"
        using small(2) mem(2) by (simp add: list_all_iff)
      then show ?thesis using row [OF ir] y by blast
    qed
    have "map (\<lambda>ir. length (place_row area ?top ir)) (enumerate 0 rows) = map (\<lambda>ir. length (vr_sessions (snd ir))) (enumerate 0 rows)"
      by (rule map_cong [OF refl len])
    also have "\<dots> = map (\<lambda>r. length (vr_sessions r)) (map snd (enumerate 0 rows))" by (simp only: map_map comp_def)
    finally show ?thesis by (simp add: length_concat comp_def)
  qed
  ultimately show ?thesis by (simp add: Let_def ps)
qed

theorem placements_correct_witness:
  "let area = \<lparr>rc_x = 4, rc_y = 2, rc_width = 20, rc_height = 6\<rparr>;
       rows = [\<lparr>vr_workspace = 0, vr_is_current = True, vr_focused_index = Some 1,
         vr_sessions = [tile_new ''fox'', tile_new ''bear'', tile_new ''owl'']\<rparr>]
   in list_all (in_area area) (compute_workspace_tile_placements area rows) \<and>
      length (compute_workspace_tile_placements area rows) = 3"
proof -
  let ?area = "\<lparr>rc_x = 4, rc_y = 2, rc_width = 20, rc_height = 6\<rparr> :: rect"
  let ?rows = "[\<lparr>vr_workspace = 0, vr_is_current = True, vr_focused_index = Some 1,
         vr_sessions = [tile_new ''fox'', tile_new ''bear'', tile_new ''owl'']\<rparr>] :: visible_row list"
  have "fits ?area ?rows" by (simp add: fits_def)
  from placements_correct [OF this] show ?thesis by (simp add: Let_def)
qed

end
