(* ===== verification/CompactionManager.thy ===== *)
theory CompactionManager
  imports Compaction
begin

text \<open>
  The compaction manager (src/compaction.rs): it counts how many leading messages of a conversation
  are summarised, starts summarising in the background, applies what the background task
  returns, compacts at once when the context is critically full, and assembles the messages of the
  next request. A background task is the snapshot it was given with its outcome, which an event of
  its own fills in; the provider that summarises, the embedding model, the hash of a text and 32-
  and 64-bit floating point are arguments. Counters do not saturate or wrap.
\<close>

section \<open>Environment\<close>

datatype compaction_mode = Reactive | Proactive | Semantic

fun compaction_mode_as_str :: "compaction_mode \<Rightarrow> string" where
  "compaction_mode_as_str Reactive = ''reactive''"
| "compaction_mode_as_str Proactive = ''proactive''"
| "compaction_mode_as_str Semantic = ''semantic''"

definition compaction_mode_parse :: "string \<Rightarrow> compaction_mode option" where
  "compaction_mode_parse input =
     (let v = to_ascii_lowercase (trim input)
      in if v = ''reactive'' then Some Reactive
         else if v = ''proactive'' then Some Proactive
         else if v = ''semantic'' then Some Semantic
         else None)"

text \<open>The stall window is positive: the code fails on an empty one.\<close>

record ('f, 'd) compaction_config =
  cf_mode :: compaction_mode
  cf_lookahead_turns :: nat
  cf_ewma_alpha :: 'd
  cf_proactive_floor :: 'f
  cf_min_samples :: nat
  cf_stall_window :: nat
  cf_min_turns_between :: nat
  cf_topic_shift_threshold :: 'f
  cf_relevance_keep_threshold :: 'f
  cf_goal_window_turns :: nat

record 'd doubles =
  do_of_nat :: "nat \<Rightarrow> 'd"
  do_add :: "'d \<Rightarrow> 'd \<Rightarrow> 'd"
  do_sub :: "'d \<Rightarrow> 'd \<Rightarrow> 'd"
  do_mul :: "'d \<Rightarrow> 'd \<Rightarrow> 'd"
  do_max :: "'d \<Rightarrow> 'd \<Rightarrow> 'd"
  do_ge :: "'d \<Rightarrow> 'd \<Rightarrow> bool"
  do_threshold :: 'd

record ('j, 'e, 'f, 'd) compaction_env =
  cv_show_json :: "'j \<Rightarrow> string"
  cv_alnum :: "string \<Rightarrow> bool"
  cv_ratio :: "nat \<Rightarrow> nat \<Rightarrow> 'f"
  cv_ge :: "'f \<Rightarrow> 'f \<Rightarrow> bool"
  cv_lt :: "'f \<Rightarrow> 'f \<Rightarrow> bool"
  cv_compaction_threshold :: 'f
  cv_critical_threshold :: 'f
  cv_manual_min_threshold :: 'f
  cv_percent :: "'f \<Rightarrow> string"
  cv_doubles :: "'d doubles"
  cv_embed :: "string \<Rightarrow> 'e option"
  cv_similarity :: "'e \<Rightarrow> 'e \<Rightarrow> 'f"
  cv_mean :: "'e list \<Rightarrow> 'e"
  cv_key :: "string \<Rightarrow> nat"
  cv_config :: "('f, 'd) compaction_config"

record 'j provider =
  pv_native_compact :: "'j message list \<Rightarrow> string option \<Rightarrow> string option \<Rightarrow> (string option \<times> string option) option"
  pv_context_window :: nat
  pv_complete_simple :: "string \<Rightarrow> string \<Rightarrow> string option"

definition token_history_window :: nat where "token_history_window = 20"
definition embedding_history_window :: nat where "embedding_history_window = 10"
definition semantic_embed_cache_capacity :: nat where "semantic_embed_cache_capacity = 256"
definition encrypted_content_provider_max :: nat where "encrypted_content_provider_max = 10485760"
definition encrypted_content_safe_max :: nat where "encrypted_content_safe_max = 9500000"

definition encrypted_content_is_sendable :: "string \<Rightarrow> bool" where
  "encrypted_content_is_sendable c \<longleftrightarrow> length c \<le> encrypted_content_safe_max"

definition encrypted_content_fallback_summary :: "nat \<Rightarrow> string" where
  "encrypted_content_fallback_summary n =
     ''OpenAI native compaction state was discarded because its encrypted payload was '' @ show_nat n @
     '' chars, above Jcode'' @ [CHR 0x27] @ ''s safe replay limit of '' @ show_nat encrypted_content_safe_max @
     '' chars (provider hard limit: '' @ show_nat encrypted_content_provider_max @
     '' chars). Earlier compacted details may be unavailable; use the recent visible messages and session search/tools if exact prior details are needed.''"

section \<open>State\<close>

record compaction_result =
  cr_summary_text :: string
  cr_openai_encrypted_content :: "string option"
  cr_covers_up_to_turn :: nat
  cr_duration_ms :: nat
  cr_summarized_messages :: nat

text \<open>The outcome is None while the task runs, Some None if it failed.\<close>

record 'j compaction_task =
  ct_messages :: "'j message list"
  ct_existing :: "summary option"
  ct_outcome :: "compaction_result option option"

record ('j, 'e, 'f, 'd) compaction_manager =
  cm_compacted_count :: nat
  cm_active_summary :: "summary option"
  cm_active_chars :: nat
  cm_chars_dirty :: bool
  cm_pending_task :: "'j compaction_task option"
  cm_pending_trigger :: "string option"
  cm_pending_cutoff :: nat
  cm_total_turns :: nat
  cm_suppress :: bool
  cm_budget :: nat
  cm_observed :: "nat option"
  cm_last :: "compaction_event option"
  cm_mode :: compaction_mode
  cm_config :: "('f, 'd) compaction_config"
  cm_token_history :: "nat list"
  cm_turns_since :: nat
  cm_embedding_history :: "'e list"
  cm_cache :: "(nat, 'e option \<times> nat) fmap"
  cm_cache_counter :: nat

definition manager_new :: "('j, 'e, 'f, 'd) compaction_env \<Rightarrow> ('j, 'e, 'f, 'd) compaction_manager" where
  "manager_new env =
     \<lparr>cm_compacted_count = 0, cm_active_summary = None, cm_active_chars = 0, cm_chars_dirty = False,
      cm_pending_task = None, cm_pending_trigger = None, cm_pending_cutoff = 0, cm_total_turns = 0,
      cm_suppress = False, cm_budget = default_token_budget, cm_observed = None, cm_last = None,
      cm_mode = cf_mode (cv_config env), cm_config = cv_config env, cm_token_history = [],
      cm_turns_since = 0, cm_embedding_history = [], cm_cache = fmempty, cm_cache_counter = 0\<rparr>"

definition set_budget :: "nat \<Rightarrow> ('j, 'e, 'f, 'd) compaction_manager \<Rightarrow> ('j, 'e, 'f, 'd) compaction_manager" where
  "set_budget budget m = m\<lparr>cm_budget := budget\<rparr>"

definition set_mode :: "compaction_mode \<Rightarrow> ('j, 'e, 'f, 'd) compaction_manager \<Rightarrow> ('j, 'e, 'f, 'd) compaction_manager" where
  "set_mode mode m = m\<lparr>cm_mode := mode, cm_config := (cm_config m)\<lparr>cf_mode := mode\<rparr>\<rparr>"

definition notify_message_added :: "('j, 'e, 'f, 'd) compaction_manager \<Rightarrow> ('j, 'e, 'f, 'd) compaction_manager" where
  "notify_message_added m =
     m\<lparr>cm_total_turns := cm_total_turns m + 1, cm_suppress := False, cm_chars_dirty := True\<rparr>"

definition notify_message_added_blocks ::
  "('j, 'e, 'f, 'd) compaction_env \<Rightarrow> 'j content_block list \<Rightarrow> ('j, 'e, 'f, 'd) compaction_manager \<Rightarrow>
   ('j, 'e, 'f, 'd) compaction_manager" where
  "notify_message_added_blocks env content m =
     m\<lparr>cm_total_turns := cm_total_turns m + 1, cm_suppress := False,
       cm_active_chars := cm_active_chars m + content_char_count (cv_show_json env) content,
       cm_chars_dirty := False\<rparr>"

definition notify_message_added_with where
  "notify_message_added_with env msg m = notify_message_added_blocks env (msg_content msg) m"

definition seed_restored_messages :: "nat \<Rightarrow> ('j, 'e, 'f, 'd) compaction_manager \<Rightarrow> ('j, 'e, 'f, 'd) compaction_manager" where
  "seed_restored_messages n m =
     m\<lparr>cm_total_turns := n, cm_suppress := (n > 0), cm_active_chars := 0, cm_chars_dirty := (n > 0)\<rparr>"

definition messages_chars :: "('j, 'e, 'f, 'd) compaction_env \<Rightarrow> 'j message list \<Rightarrow> nat" where
  "messages_chars env ms = sum_list (map (message_char_count (cv_show_json env)) ms)"

definition seed_restored_messages_with ::
  "('j, 'e, 'f, 'd) compaction_env \<Rightarrow> 'j message list \<Rightarrow> ('j, 'e, 'f, 'd) compaction_manager \<Rightarrow>
   ('j, 'e, 'f, 'd) compaction_manager" where
  "seed_restored_messages_with env all m =
     m\<lparr>cm_total_turns := length all, cm_suppress := (all \<noteq> []), cm_active_chars := messages_chars env all,
       cm_chars_dirty := False\<rparr>"

record stored_compaction_state =
  sc_summary_text :: string
  sc_openai_encrypted_content :: "string option"
  sc_covers_up_to_turn :: nat
  sc_original_turn_count :: nat
  sc_compacted_count :: nat

definition stored_summary :: "stored_compaction_state \<Rightarrow> summary" where
  "stored_summary s =
     \<lparr>sm_text = sc_summary_text s, sm_openai_encrypted_content = sc_openai_encrypted_content s,
      sm_covers_up_to_turn = sc_covers_up_to_turn s, sm_original_turn_count = sc_original_turn_count s\<rparr>"

definition restore_persisted_state ::
  "stored_compaction_state \<Rightarrow> nat \<Rightarrow> ('j, 'e, 'f, 'd) compaction_manager \<Rightarrow> ('j, 'e, 'f, 'd) compaction_manager" where
  "restore_persisted_state st total_messages m =
     m\<lparr>cm_pending_task := None, cm_pending_trigger := None, cm_pending_cutoff := 0, cm_observed := None,
       cm_last := None, cm_token_history := [], cm_turns_since := 0, cm_embedding_history := [],
       cm_cache := fmempty, cm_cache_counter := 0, cm_total_turns := total_messages,
       cm_compacted_count := min (sc_compacted_count st) total_messages, cm_active_chars := 0,
       cm_chars_dirty := (total_messages > min (sc_compacted_count st) total_messages),
       cm_active_summary := Some (stored_summary st), cm_suppress := (total_messages > 0)\<rparr>"

definition active_messages :: "('j, 'e, 'f, 'd) compaction_manager \<Rightarrow> 'j message list \<Rightarrow> 'j message list" where
  "active_messages m all =
     (if cm_compacted_count m \<le> length all then drop (cm_compacted_count m) all else all)"

definition restore_persisted_state_with where
  "restore_persisted_state_with env st all m =
     (let m = restore_persisted_state st (length all) m
      in m\<lparr>cm_active_chars := messages_chars env (active_messages m all), cm_chars_dirty := False\<rparr>)"

definition persisted_state :: "('j, 'e, 'f, 'd) compaction_manager \<Rightarrow> stored_compaction_state option" where
  "persisted_state m =
     map_option (\<lambda>s. \<lparr>sc_summary_text = sm_text s, sc_openai_encrypted_content = sm_openai_encrypted_content s,
       sc_covers_up_to_turn = sm_covers_up_to_turn s, sc_original_turn_count = sm_original_turn_count s,
       sc_compacted_count = cm_compacted_count m\<rparr>) (cm_active_summary m)"

text \<open>A payload too long to send is replaced by a note in the text.\<close>

definition drop_oversized :: "summary \<Rightarrow> summary option" where
  "drop_oversized s =
     (case sm_openai_encrypted_content s of
        None \<Rightarrow> None
      | Some c \<Rightarrow>
          if encrypted_content_is_sendable c then None
          else
            let fallback = encrypted_content_fallback_summary (length c);
                s = s\<lparr>sm_openai_encrypted_content := None\<rparr>
            in Some (if trim (sm_text s) = [] then s\<lparr>sm_text := fallback\<rparr>
                     else if \<not> str_contains (sm_text s) ''OpenAI native compaction state was discarded''
                     then s\<lparr>sm_text := sm_text s @ nl @ nl @ fallback\<rparr>
                     else s))"

definition discard_oversized ::
  "('j, 'e, 'f, 'd) compaction_manager \<Rightarrow> bool \<times> ('j, 'e, 'f, 'd) compaction_manager" where
  "discard_oversized m =
     (case Option.bind (cm_active_summary m) drop_oversized of
        None \<Rightarrow> (False, m)
      | Some s \<Rightarrow> (True, m\<lparr>cm_active_summary := Some s, cm_observed := None\<rparr>))"

section \<open>The embedding cache\<close>

text \<open>
  The entry used least recently is dropped when the cache is full. The numbers of the uses are
  distinct, so that the order in which the hash map is listed does not matter.
\<close>

fun min_key :: "('k \<Rightarrow> nat) \<Rightarrow> 'k list \<Rightarrow> 'k option" where
  "min_key f [] = None"
| "min_key f (k # ks) =
     (case min_key f ks of None \<Rightarrow> Some k | Some k' \<Rightarrow> if f k \<le> f k' then Some k else Some k')"

definition insert_semantic_embedding_cache ::
  "nat \<Rightarrow> 'e option \<Rightarrow> ('j, 'e, 'f, 'd) compaction_manager \<Rightarrow> ('j, 'e, 'f, 'd) compaction_manager" where
  "insert_semantic_embedding_cache key embedding m =
     (let cache =
            (if fcard (fmdom (cm_cache m)) \<ge> semantic_embed_cache_capacity then
               (case min_key (\<lambda>k. snd (the (fmlookup (cm_cache m) k))) (sorted_list_of_fset (fmdom (cm_cache m))) of
                  Some oldest \<Rightarrow> fmdrop oldest (cm_cache m)
                | None \<Rightarrow> cm_cache m)
             else cm_cache m)
      in m\<lparr>cm_cache_counter := cm_cache_counter m + 1,
           cm_cache := fmupd key (embedding, cm_cache_counter m) cache\<rparr>)"

definition cached_semantic_embedding ::
  "('j, 'e, 'f, 'd) compaction_env \<Rightarrow> string \<Rightarrow> ('j, 'e, 'f, 'd) compaction_manager \<Rightarrow>
   'e option \<times> ('j, 'e, 'f, 'd) compaction_manager" where
  "cached_semantic_embedding env s m =
     (let key = cv_key env s
      in case fmlookup (cm_cache m) key of
           Some (cached, _) \<Rightarrow>
             (cached, m\<lparr>cm_cache := fmupd key (cached, cm_cache_counter m) (cm_cache m),
                cm_cache_counter := cm_cache_counter m + 1\<rparr>)
         | None \<Rightarrow> (cv_embed env s, insert_semantic_embedding_cache key (cv_embed env s) m))"

definition push_back_bounded :: "nat \<Rightarrow> 'a \<Rightarrow> 'a list \<Rightarrow> 'a list" where
  "push_back_bounded n x xs = (if length (xs @ [x]) > n then tl (xs @ [x]) else xs @ [x])"

definition push_token_snapshot :: "nat \<Rightarrow> ('j, 'e, 'f, 'd) compaction_manager \<Rightarrow> ('j, 'e, 'f, 'd) compaction_manager" where
  "push_token_snapshot tokens m =
     m\<lparr>cm_token_history := push_back_bounded token_history_window tokens (cm_token_history m),
       cm_turns_since := cm_turns_since m + 1\<rparr>"

definition push_embedding_snapshot ::
  "('j, 'e, 'f, 'd) compaction_env \<Rightarrow> string \<Rightarrow> ('j, 'e, 'f, 'd) compaction_manager \<Rightarrow>
   ('j, 'e, 'f, 'd) compaction_manager" where
  "push_embedding_snapshot env s m =
     (case cached_semantic_embedding env (char_take embed_max_chars_per_msg s) m of
        (None, m) \<Rightarrow> m
      | (Some e, m) \<Rightarrow>
          m\<lparr>cm_embedding_history := push_back_bounded embedding_history_window e (cm_embedding_history m)\<rparr>)"

section \<open>Estimates\<close>

definition active_messages_count :: "('j, 'e, 'f, 'd) compaction_manager \<Rightarrow> nat" where
  "active_messages_count m = cm_total_turns m - cm_compacted_count m"

definition active_message_chars_with ::
  "('j, 'e, 'f, 'd) compaction_env \<Rightarrow> ('j, 'e, 'f, 'd) compaction_manager \<Rightarrow> 'j message list \<Rightarrow> nat" where
  "active_message_chars_with env m all =
     (if cm_chars_dirty m \<or> active_messages_count m \<noteq> length (active_messages m all)
      then messages_chars env (active_messages m all) else cm_active_chars m)"

definition token_estimate_with where
  "token_estimate_with env m all =
     estimate_compaction_tokens (cm_active_summary m) (active_message_chars_with env m all) (cm_budget m)"

definition token_estimate :: "('j, 'e, 'f, 'd) compaction_manager \<Rightarrow> nat" where
  "token_estimate m = estimate_compaction_tokens (cm_active_summary m) 0 (cm_budget m)"

definition observed_tokens :: "('j, 'e, 'f, 'd) compaction_manager \<Rightarrow> nat" where
  "observed_tokens m = (case cm_observed m of Some n \<Rightarrow> n | None \<Rightarrow> 0)"

definition update_observed_input_tokens :: "nat \<Rightarrow> ('j, 'e, 'f, 'd) compaction_manager \<Rightarrow> ('j, 'e, 'f, 'd) compaction_manager" where
  "update_observed_input_tokens n m = m\<lparr>cm_observed := Some n\<rparr>"

definition effective_token_count_with ::
  "('j, 'e, 'f, 'd) compaction_env \<Rightarrow> ('j, 'e, 'f, 'd) compaction_manager \<Rightarrow> 'j message list \<Rightarrow> nat" where
  "effective_token_count_with env m all = max (token_estimate_with env m all) (observed_tokens m)"

definition effective_token_count :: "('j, 'e, 'f, 'd) compaction_manager \<Rightarrow> nat" where
  "effective_token_count m = max (token_estimate m) (observed_tokens m)"

definition context_usage_with ::
  "('j, 'e, 'f, 'd) compaction_env \<Rightarrow> ('j, 'e, 'f, 'd) compaction_manager \<Rightarrow> 'j message list \<Rightarrow> 'f" where
  "context_usage_with env m all = cv_ratio env (effective_token_count_with env m all) (cm_budget m)"

section \<open>When to compact\<close>

definition anti_signals_block ::
  "('j, 'e, 'f, 'd) compaction_env \<Rightarrow> ('j, 'e, 'f, 'd) compaction_manager \<Rightarrow> 'j message list \<Rightarrow> bool" where
  "anti_signals_block env m all =
     (let cfg = cm_config m; recent = take (cf_stall_window cfg) (rev (cm_token_history m))
      in cm_pending_task m \<noteq> None \<or>
         cv_lt env (context_usage_with env m all) (cf_proactive_floor cfg) \<or>
         length (cm_token_history m) < cf_min_samples cfg \<or>
         (cf_stall_window cfg \<le> length (cm_token_history m) \<and> hd recent \<le> last recent) \<or>
         cm_turns_since m < cf_min_turns_between cfg)"

definition growth :: "'d doubles \<Rightarrow> nat \<Rightarrow> nat \<Rightarrow> 'd" where
  "growth ops prev next =
     do_max ops (do_sub ops (do_of_nat ops next) (do_of_nat ops prev)) (do_of_nat ops 0)"

fun ewma_delta :: "'d doubles \<Rightarrow> 'd \<Rightarrow> 'd \<Rightarrow> nat list \<Rightarrow> 'd" where
  "ewma_delta ops alpha acc (prev # next # rest) =
     ewma_delta ops alpha
       (do_add ops (do_mul ops alpha (growth ops prev next))
          (do_mul ops (do_sub ops (do_of_nat ops 1) alpha) acc)) (next # rest)"
| "ewma_delta ops alpha acc _ = acc"

definition should_compact_proactively ::
  "('j, 'e, 'f, 'd) compaction_env \<Rightarrow> ('j, 'e, 'f, 'd) compaction_manager \<Rightarrow> 'j message list \<Rightarrow> bool" where
  "should_compact_proactively env m all =
     (let ops = cv_doubles env; cfg = cm_config m;
          threshold = do_mul ops (do_threshold ops) (do_of_nat ops (cm_budget m))
      in if anti_signals_block env m all then False
         else case cm_token_history m of
                first # second # rest \<Rightarrow>
                  let delta = ewma_delta ops (cf_ewma_alpha cfg) (growth ops first second) (second # rest);
                      current = do_of_nat ops (last (cm_token_history m));
                      projected = do_add ops current (do_mul ops delta (do_of_nat ops (cf_lookahead_turns cfg)))
                  in do_ge ops projected threshold
              | _ \<Rightarrow> False)"

definition should_compact_semantic ::
  "('j, 'e, 'f, 'd) compaction_env \<Rightarrow> ('j, 'e, 'f, 'd) compaction_manager \<Rightarrow> 'j message list \<Rightarrow> bool" where
  "should_compact_semantic env m all =
     (if anti_signals_block env m all then False
      else if length (cm_embedding_history m) < 4 then should_compact_proactively env m all
      else
        let half = length (cm_embedding_history m) div 2;
            similarity = cv_similarity env (cv_mean env (take half (cm_embedding_history m)))
              (cv_mean env (drop half (cm_embedding_history m)))
        in if cv_lt env similarity (cf_topic_shift_threshold (cm_config m)) then True
           else should_compact_proactively env m all)"

definition should_compact_with ::
  "('j, 'e, 'f, 'd) compaction_env \<Rightarrow> ('j, 'e, 'f, 'd) compaction_manager \<Rightarrow> 'j message list \<Rightarrow> bool" where
  "should_compact_with env m all =
     (let active = active_messages m all
      in if cm_suppress m then False
         else case cm_mode m of
                Reactive \<Rightarrow> cm_pending_task m = None \<and>
                  cv_ge env (context_usage_with env m all) (cv_compaction_threshold env) \<and>
                  length active > recent_turns_to_keep
              | Proactive \<Rightarrow> length active > recent_turns_to_keep \<and> should_compact_proactively env m all
              | Semantic \<Rightarrow> length active > recent_turns_to_keep \<and> should_compact_semantic env m all)"

text \<open>
  Scoring a message for relevance: the counts are how many are relevant and the index of the first;
  an embedding goes through the cache.
\<close>

definition score_message ::
  "('j, 'e, 'f, 'd) compaction_env \<Rightarrow> 'e \<Rightarrow> (nat \<times> nat) \<times> ('j, 'e, 'f, 'd) compaction_manager \<Rightarrow>
   nat \<times> 'j message \<Rightarrow> (nat \<times> nat) \<times> ('j, 'e, 'f, 'd) compaction_manager" where
  "score_message env goal st im =
     (let ((found, earliest), m) = st; (idx, msg) = im; s = semantic_message_text msg
      in if s = [] then st
         else case cached_semantic_embedding env s m of
                (None, m) \<Rightarrow> ((found, earliest), m)
              | (Some e, m) \<Rightarrow>
                  if cv_ge env (cv_similarity env goal e) (cf_relevance_keep_threshold (cm_config m))
                  then ((found + 1, min earliest idx), m) else ((found, earliest), m))"

definition semantic_cutoff ::
  "('j, 'e, 'f, 'd) compaction_env \<Rightarrow> 'j message list \<Rightarrow> ('j, 'e, 'f, 'd) compaction_manager \<Rightarrow>
   nat \<times> ('j, 'e, 'f, 'd) compaction_manager" where
  "semantic_cutoff env active m =
     (let standard = length active - recent_turns_to_keep
      in if standard = 0 then (0, m)
         else
           let goal_turns = min (cf_goal_window_turns (cm_config m)) (length active);
               goal_text = semantic_goal_text (drop (length active - goal_turns) active)
           in if goal_text = [] then (standard, m)
              else case cached_semantic_embedding env goal_text m of
                     (None, m) \<Rightarrow> (standard, m)
                   | (Some goal, m) \<Rightarrow>
                       let ((found, earliest), m) =
                             foldl (score_message env goal) ((0, standard), m) (enumerate 0 (take standard active))
                       in if found = 0 \<or> earliest < 2 then (standard, m) else (earliest, m))"

section \<open>Compacting in the background\<close>

text \<open>What a task computes when it gets its turn; \<open>elapsed\<close> is how long that took.\<close>

definition generate_compaction_artifact ::
  "('j \<Rightarrow> string) \<Rightarrow> 'j provider \<Rightarrow> nat \<Rightarrow> 'j message list \<Rightarrow> summary option \<Rightarrow> compaction_result option" where
  "generate_compaction_artifact show_json pv elapsed ms existing =
     (let existing = (case Option.bind existing drop_oversized of Some s \<Rightarrow> Some s | None \<Rightarrow> existing);
          by_text =
            (case pv_complete_simple pv
                (build_compaction_prompt show_json ms existing ((pv_context_window pv - 4000) * chars_per_token))
                ''You are a helpful assistant that summarizes conversations.'' of
               None \<Rightarrow> None
             | Some s \<Rightarrow> Some \<lparr>cr_summary_text = s, cr_openai_encrypted_content = None,
                 cr_covers_up_to_turn = length ms, cr_duration_ms = elapsed, cr_summarized_messages = length ms\<rparr>)
      in case pv_native_compact pv ms (map_option sm_text existing) (Option.bind existing sm_openai_encrypted_content) of
           None \<Rightarrow> by_text
         | Some (text, encrypted) \<Rightarrow>
             if (case encrypted of Some c \<Rightarrow> \<not> encrypted_content_is_sendable c | None \<Rightarrow> False) then by_text
             else Some \<lparr>cr_summary_text = (case text of Some s \<Rightarrow> s | None \<Rightarrow> []),
               cr_openai_encrypted_content = encrypted, cr_covers_up_to_turn = length ms,
               cr_duration_ms = elapsed, cr_summarized_messages = length ms\<rparr>)"

definition finish_task ::
  "('j, 'e, 'f, 'd) compaction_env \<Rightarrow> 'j provider \<Rightarrow> nat \<Rightarrow> ('j, 'e, 'f, 'd) compaction_manager \<Rightarrow>
   ('j, 'e, 'f, 'd) compaction_manager" where
  "finish_task env pv elapsed m =
     m\<lparr>cm_pending_task := map_option (\<lambda>t. if ct_outcome t = None
        then t\<lparr>ct_outcome := Some (generate_compaction_artifact (cv_show_json env) pv elapsed (ct_messages t) (ct_existing t))\<rparr>
        else t) (cm_pending_task m)\<rparr>"

definition spawn_task ::
  "'j message list \<Rightarrow> nat \<Rightarrow> string \<Rightarrow> ('j, 'e, 'f, 'd) compaction_manager \<Rightarrow> ('j, 'e, 'f, 'd) compaction_manager" where
  "spawn_task active cutoff trigger m =
     m\<lparr>cm_pending_cutoff := cutoff, cm_pending_trigger := Some trigger,
       cm_pending_task := Some \<lparr>ct_messages = take cutoff active, ct_existing = cm_active_summary m, ct_outcome = None\<rparr>\<rparr>"

definition maybe_start_compaction_with ::
  "('j, 'e, 'f, 'd) compaction_env \<Rightarrow> 'j message list \<Rightarrow> ('j, 'e, 'f, 'd) compaction_manager \<Rightarrow>
   ('j, 'e, 'f, 'd) compaction_manager" where
  "maybe_start_compaction_with env all m =
     (if \<not> should_compact_with env m all then m
      else
        let active = active_messages m all;
            (cutoff, m) = (if cm_mode m = Semantic then semantic_cutoff env active m
                           else (length active - recent_turns_to_keep, m));
            safe = safe_compaction_cutoff active cutoff
        in if cutoff = 0 \<or> safe = 0 then m
           else spawn_task active safe (compaction_mode_as_str (cm_mode m)) m)"

definition force_compact_with ::
  "('j, 'e, 'f, 'd) compaction_env \<Rightarrow> 'j message list \<Rightarrow> ('j, 'e, 'f, 'd) compaction_manager \<Rightarrow>
   (string + unit) \<times> ('j, 'e, 'f, 'd) compaction_manager" where
  "force_compact_with env all m =
     (let active = active_messages m all;
          cutoff = length active - recent_turns_to_keep;
          safe = safe_compaction_cutoff active cutoff
      in if cm_pending_task m \<noteq> None then (Inl ''Compaction already in progress'', m)
         else if length active \<le> recent_turns_to_keep then
           (Inl (''Not enough messages to compact (need more than '' @ show_nat recent_turns_to_keep @ '', have '' @
              show_nat (length active) @ '')''), m)
         else if cv_lt env (context_usage_with env m all) (cv_manual_min_threshold env) then
           (Inl (''Context usage too low ('' @ cv_percent env (context_usage_with env m all) @ ''%) - nothing to compact''), m)
         else if cutoff = 0 then (Inl ''No messages available to compact after keeping recent turns'', m)
         else if safe = 0 then (Inl ''Cannot compact - would split tool call/result pairs'', m)
         else (Inr (), spawn_task active safe ''manual'' m))"

text \<open>The state after a finished task's result is taken over.\<close>

definition apply_result ::
  "('j, 'e, 'f, 'd) compaction_env \<Rightarrow> 'j message list \<Rightarrow> compaction_result \<Rightarrow> ('j, 'e, 'f, 'd) compaction_manager \<Rightarrow>
   ('j, 'e, 'f, 'd) compaction_manager" where
  "apply_result env all r m =
     (let pre_tokens = effective_token_count_with env m all;
          compacted_chars = messages_chars env (take (cm_pending_cutoff m) (active_messages m all));
          s = \<lparr>sm_text = cr_summary_text r, sm_openai_encrypted_content = cr_openai_encrypted_content r,
               sm_covers_up_to_turn = cr_covers_up_to_turn r, sm_original_turn_count = cm_pending_cutoff m\<rparr>;
          m = m\<lparr>cm_compacted_count := cm_compacted_count m + cm_pending_cutoff m\<rparr>;
          m = m\<lparr>cm_active_chars := active_message_chars_with env m all - compacted_chars, cm_chars_dirty := False\<rparr>;
          m = snd (discard_oversized (m\<lparr>cm_active_summary := Some s\<rparr>));
          m = m\<lparr>cm_observed := None\<rparr>;
          post_tokens = effective_token_count_with env m all
      in m\<lparr>cm_last := Some \<lparr>ce_trigger = (case cm_pending_trigger m of Some t \<Rightarrow> t
               | None \<Rightarrow> compaction_mode_as_str (cm_mode m)),
             ce_pre_tokens = Some pre_tokens, ce_post_tokens = Some post_tokens,
             ce_tokens_saved = Some (pre_tokens - post_tokens), ce_duration_ms = Some (cr_duration_ms r),
             ce_messages_dropped = None, ce_messages_compacted = Some (cr_summarized_messages r),
             ce_summary_chars = map_option (\<lambda>s. length (sm_text s)) (cm_active_summary m),
             ce_active_messages = Some (active_messages_count m)\<rparr>,
           cm_pending_trigger := None, cm_turns_since := 0, cm_pending_cutoff := 0\<rparr>)"

definition check_and_apply_compaction_with ::
  "('j, 'e, 'f, 'd) compaction_env \<Rightarrow> 'j message list \<Rightarrow> ('j, 'e, 'f, 'd) compaction_manager \<Rightarrow>
   ('j, 'e, 'f, 'd) compaction_manager" where
  "check_and_apply_compaction_with env all m =
     (case cm_pending_task m of
        None \<Rightarrow> m
      | Some task \<Rightarrow>
          (case ct_outcome task of
             None \<Rightarrow> m
           | Some (Some r) \<Rightarrow> apply_result env all r (m\<lparr>cm_pending_task := None\<rparr>)
           | Some None \<Rightarrow> m\<lparr>cm_pending_task := None, cm_pending_trigger := None, cm_pending_cutoff := 0\<rparr>))"

definition check_and_apply_compaction ::
  "('j, 'e, 'f, 'd) compaction_env \<Rightarrow> ('j, 'e, 'f, 'd) compaction_manager \<Rightarrow> ('j, 'e, 'f, 'd) compaction_manager" where
  "check_and_apply_compaction env m = (check_and_apply_compaction_with env [] m)\<lparr>cm_chars_dirty := True\<rparr>"

definition take_compaction_event ::
  "('j, 'e, 'f, 'd) compaction_manager \<Rightarrow> compaction_event option \<times> ('j, 'e, 'f, 'd) compaction_manager" where
  "take_compaction_event m = (cm_last m, m\<lparr>cm_last := None\<rparr>)"

definition poll_compaction_event_with where
  "poll_compaction_event_with env all m = take_compaction_event (check_and_apply_compaction_with env all m)"

definition poll_compaction_event where
  "poll_compaction_event env m = take_compaction_event (check_and_apply_compaction env m)"

section \<open>The messages of a request\<close>

definition summary_message :: "summary \<Rightarrow> 'j message" where
  "summary_message s =
     \<lparr>msg_role = User,
      msg_content = [case sm_openai_encrypted_content s of
         Some c \<Rightarrow> OpenAICompaction c | None \<Rightarrow> Text (compacted_summary_text_block (sm_text s)) None],
      msg_timestamp = None, msg_tool_duration_ms = None\<rparr>"

definition messages_for_api_with ::
  "('j, 'e, 'f, 'd) compaction_env \<Rightarrow> 'j message list \<Rightarrow> ('j, 'e, 'f, 'd) compaction_manager \<Rightarrow>
   'j message list \<times> ('j, 'e, 'f, 'd) compaction_manager" where
  "messages_for_api_with env all m =
     (let m = snd (discard_oversized (check_and_apply_compaction_with env all m))
      in (case cm_active_summary m of
            Some s \<Rightarrow> summary_message s # active_messages m all
          | None \<Rightarrow> active_messages m all, m))"

definition messages_for_api ::
  "('j, 'e, 'f, 'd) compaction_env \<Rightarrow> ('j, 'e, 'f, 'd) compaction_manager \<Rightarrow>
   'j message list \<times> ('j, 'e, 'f, 'd) compaction_manager" where
  "messages_for_api env m =
     (let m = snd (discard_oversized (check_and_apply_compaction env m))
      in (case cm_active_summary m of Some s \<Rightarrow> [summary_message s] | None \<Rightarrow> [], m))"

definition summary_chars :: "('j, 'e, 'f, 'd) compaction_manager \<Rightarrow> nat" where
  "summary_chars m = (case cm_active_summary m of Some s \<Rightarrow> summary_payload_char_count s | None \<Rightarrow> 0)"

section \<open>Compacting at once\<close>

text \<open>The loop halves the number of turns to keep until what is kept fits or two are left.\<close>

function hard_cutoff ::
  "('j, 'e, 'f, 'd) compaction_env \<Rightarrow> nat \<Rightarrow> 'j message list \<Rightarrow> nat \<Rightarrow> nat" where
  "hard_cutoff env budget active turns_to_keep =
     (let cutoff = safe_compaction_cutoff active (length active - turns_to_keep)
      in if cutoff > 0 \<and> messages_chars env (drop cutoff active) div chars_per_token \<le> budget then cutoff
         else if turns_to_keep \<le> min_turns_to_keep
         then safe_compaction_cutoff active (length active - min_turns_to_keep)
         else hard_cutoff env budget active (max (turns_to_keep div 2) min_turns_to_keep))"
  by pat_completeness auto
termination
  by (relation "measure (\<lambda>(env, budget, active, turns). turns)") (auto simp: min_turns_to_keep_def)

declare hard_cutoff.simps [simp del]

definition hard_compact_with ::
  "('j, 'e, 'f, 'd) compaction_env \<Rightarrow> 'j message list \<Rightarrow> ('j, 'e, 'f, 'd) compaction_manager \<Rightarrow>
   (string + nat) \<times> ('j, 'e, 'f, 'd) compaction_manager" where
  "hard_compact_with env all m =
     (let active = active_messages m all
      in if length active \<le> min_turns_to_keep then
           (Inl (''Not enough messages to compact (have '' @ show_nat (length active) @ '', need more than '' @
              show_nat min_turns_to_keep @ '')''), m)
         else
           let pre_tokens = effective_token_count_with env m all;
               cutoff = hard_cutoff env (cm_budget m) active (min recent_turns_to_keep (length active - 1))
           in if cutoff = 0 then
                (Inl (''Cannot compact '' @ [CHR 0xE2, CHR 0x80, CHR 0x94] @ '' would split tool call/result pairs''), m)
              else
                let s = \<lparr>sm_text = build_emergency_summary_text (cv_alnum env) (map_option sm_text (cm_active_summary m))
                           cutoff pre_tokens (cm_budget m) (take cutoff active),
                         sm_openai_encrypted_content = None, sm_covers_up_to_turn = cutoff,
                         sm_original_turn_count = cutoff\<rparr>;
                    m = m\<lparr>cm_compacted_count := cm_compacted_count m + cutoff,
                          cm_active_chars := messages_chars env (drop cutoff active), cm_chars_dirty := False,
                          cm_active_summary := Some s, cm_observed := None\<rparr>;
                    post_tokens = effective_token_count m
                in (Inr cutoff, m\<lparr>cm_last := Some \<lparr>ce_trigger = ''hard_compact'', ce_pre_tokens = Some pre_tokens,
                      ce_post_tokens = Some post_tokens, ce_tokens_saved = Some (pre_tokens - post_tokens),
                      ce_duration_ms = Some 0, ce_messages_dropped = Some cutoff,
                      ce_messages_compacted = Some cutoff,
                      ce_summary_chars = Some (length (sm_text s)),
                      ce_active_messages = Some (active_messages_count m)\<rparr>\<rparr>))"

definition ensure_context_fits ::
  "('j, 'e, 'f, 'd) compaction_env \<Rightarrow> 'j message list \<Rightarrow> ('j, 'e, 'f, 'd) compaction_manager \<Rightarrow>
   compaction_action \<times> ('j, 'e, 'f, 'd) compaction_manager" where
  "ensure_context_fits env all m0 =
     (let m = maybe_start_compaction_with env all m0;
          started = (cm_pending_task m0 = None \<and> cm_pending_task m \<noteq> None);
          background = (if started then BackgroundStarted (case cm_pending_trigger m of
              Some t \<Rightarrow> t | None \<Rightarrow> compaction_mode_as_str (cm_mode m)) else NoCompaction)
      in if cv_ge env (context_usage_with env m all) (cv_critical_threshold env) then
           (case hard_compact_with env all m of
              (Inr dropped, m) \<Rightarrow> (HardCompacted dropped, m)
            | (Inl _, m) \<Rightarrow> (background, m))
         else (background, m))"

definition emergency_truncate_with ::
  "'j message list \<Rightarrow> ('j, 'e, 'f, 'd) compaction_manager \<Rightarrow>
   nat \<times> 'j message list \<times> ('j, 'e, 'f, 'd) compaction_manager" where
  "emergency_truncate_with all m =
     (let start = min (cm_compacted_count m) (length all);
          (active, truncated) = emergency_truncate_tool_results (drop start all) emergency_tool_result_max_chars
      in (truncated, take start all @ active, if truncated > 0 then m\<lparr>cm_observed := None\<rparr> else m))"

definition build_transfer_compaction_state ::
  "('j \<Rightarrow> string) \<Rightarrow> 'j provider \<Rightarrow> 'j message list \<Rightarrow> stored_compaction_state option \<Rightarrow>
   stored_compaction_state option option" where
  "build_transfer_compaction_state show_json pv ms existing =
     (if ms = [] then Some (map_option (\<lambda>s. s\<lparr>sc_compacted_count := 0\<rparr>) existing)
      else
        let prior = (case existing of Some s \<Rightarrow> max (sc_original_turn_count s) (sc_covers_up_to_turn s) | None \<Rightarrow> 0)
        in case generate_compaction_artifact show_json pv 0 ms (map_option stored_summary existing) of
             None \<Rightarrow> None
           | Some r \<Rightarrow> Some (Some \<lparr>sc_summary_text = cr_summary_text r,
               sc_openai_encrypted_content = cr_openai_encrypted_content r,
               sc_covers_up_to_turn = prior + length ms, sc_original_turn_count = prior + length ms,
               sc_compacted_count = 0\<rparr>))"

end
