(* ===== verification/CompactionManagerProperties.thy ===== *)
theory CompactionManagerProperties
  imports CompactionManager
begin

text \<open>
  What the compaction manager promises: over the steps of a conversation the messages of a request are
  the summary and exactly the messages not summarised, nothing is lost on the way, compacting at
  once meets its bound, the embedding cache is a bounded cache of the embedding function and
  a persisted state is restored; and what happens when the context is compacted at once
  while a background task is under way: the task's result, taken over later, counts messages as
  summarised that are not.
\<close>

section \<open>Field lemmas\<close>

lemma active_messages_le: "cm_compacted_count m \<le> length all \<Longrightarrow> active_messages m all = drop (cm_compacted_count m) all"
  by (simp add: active_messages_def)

lemma discard_fields [simp]:
  "cm_compacted_count (snd (discard_oversized m)) = cm_compacted_count m"
  "cm_pending_task (snd (discard_oversized m)) = cm_pending_task m"
  "cm_pending_cutoff (snd (discard_oversized m)) = cm_pending_cutoff m"
  "cm_pending_trigger (snd (discard_oversized m)) = cm_pending_trigger m"
  "cm_total_turns (snd (discard_oversized m)) = cm_total_turns m"
  "cm_chars_dirty (snd (discard_oversized m)) = cm_chars_dirty m"
  "cm_active_chars (snd (discard_oversized m)) = cm_active_chars m"
  "cm_mode (snd (discard_oversized m)) = cm_mode m"
  "cm_budget (snd (discard_oversized m)) = cm_budget m"
  "cm_active_summary (snd (discard_oversized m)) = None \<longleftrightarrow> cm_active_summary m = None"
  by (cases "cm_active_summary m"; auto simp: discard_oversized_def split: option.split)+

lemma insert_cache_fields [simp]:
  "cm_compacted_count (insert_semantic_embedding_cache k e m) = cm_compacted_count m"
  "cm_pending_task (insert_semantic_embedding_cache k e m) = cm_pending_task m"
  "cm_pending_cutoff (insert_semantic_embedding_cache k e m) = cm_pending_cutoff m"
  "cm_total_turns (insert_semantic_embedding_cache k e m) = cm_total_turns m"
  "cm_chars_dirty (insert_semantic_embedding_cache k e m) = cm_chars_dirty m"
  "cm_active_chars (insert_semantic_embedding_cache k e m) = cm_active_chars m"
  "cm_active_summary (insert_semantic_embedding_cache k e m) = cm_active_summary m"
  "cm_mode (insert_semantic_embedding_cache k e m) = cm_mode m"
  "cm_config (insert_semantic_embedding_cache k e m) = cm_config m"
  by (simp_all add: insert_semantic_embedding_cache_def Let_def)

text \<open>Everything the rest of the state depends on, as one value.\<close>

definition core :: "('j, 'e, 'f, 'd) compaction_manager \<Rightarrow>
    (nat \<times> summary option \<times> nat \<times> bool) \<times> ('j compaction_task option \<times> nat \<times> nat \<times> compaction_mode)" where
  "core m = ((cm_compacted_count m, cm_active_summary m, cm_active_chars m, cm_chars_dirty m),
     (cm_pending_task m, cm_pending_cutoff m, cm_total_turns m, cm_mode m))"

lemma core_cached [simp]: "core (snd (cached_semantic_embedding env s m)) = core m"
  by (auto simp: cached_semantic_embedding_def core_def Let_def split: option.split prod.split)

lemma core_score: "core (snd (score_message env g st im)) = core (snd st)"
proof -
  obtain c m where st: "st = (c, m)" by (cases st)
  obtain f e where c: "c = (f, e)" by (cases c)
  obtain idx msg where im: "im = (idx, msg)" by (cases im)
  obtain r m' where cached: "cached_semantic_embedding env (semantic_message_text msg) m = (r, m')" by fastforce
  then have "core m' = core m" using core_cached [of env "semantic_message_text msg" m] by simp
  then show ?thesis
    by (cases r) (simp_all add: st c im score_message_def Let_def cached)
qed

lemma core_scores: "core (snd (foldl (score_message env g) st ims)) = core (snd st)"
  by (induction ims arbitrary: st) (simp_all add: core_score)

lemma core_semantic [simp]: "core (snd (semantic_cutoff env active m)) = core m"
proof -
  let ?std = "length active - recent_turns_to_keep"
  let ?text = "semantic_goal_text (drop (length active - min (cf_goal_window_turns (cm_config m)) (length active)) active)"
  obtain r m' where cached: "cached_semantic_embedding env ?text m = (r, m')" by fastforce
  have m': "core m' = core m" using core_cached [of env ?text m] cached by simp
  have fold: "core (snd (foldl (score_message env goal) ((0, ?std), m') xs)) = core m" for goal xs
    by (simp add: core_scores m')
  show ?thesis
  proof (cases r)
    case None
    then show ?thesis using m' by (simp add: semantic_cutoff_def Let_def cached)
  next
    case (Some goal)
    obtain f e m2 where f: "foldl (score_message env goal) ((0, ?std), m') (enumerate 0 (take ?std active)) = ((f, e), m2)"
      by (metis surj_pair)
    then have "core m2 = core m" using fold [of goal "enumerate 0 (take ?std active)"] by simp
    then show ?thesis using Some f by (simp add: semantic_cutoff_def Let_def cached)
  qed
qed

lemma score_bound:
  assumes "snd (fst st) \<le> b"
  shows "snd (fst (score_message env g st im)) \<le> b"
proof -
  obtain f e m where st: "st = ((f, e), m)" by (metis surj_pair)
  obtain idx msg where im: "im = (idx, msg)" by (cases im)
  obtain r m' where cached: "cached_semantic_embedding env (semantic_message_text msg) m = (r, m')" by fastforce
  show ?thesis using assms by (cases r) (auto simp: st im score_message_def Let_def cached)
qed

lemma semantic_cutoff_bound: "fst (semantic_cutoff env active m) \<le> length active - recent_turns_to_keep"
proof -
  let ?std = "length active - recent_turns_to_keep"
  let ?text = "semantic_goal_text (drop (length active - min (cf_goal_window_turns (cm_config m)) (length active)) active)"
  obtain r m' where cached: "cached_semantic_embedding env ?text m = (r, m')" by fastforce
  have fold: "snd (fst (foldl (score_message env goal) st xs)) \<le> ?std" if "snd (fst st) \<le> ?std" for goal st xs
    using that by (induction xs arbitrary: st) (simp_all add: score_bound)
  show ?thesis
  proof (cases r)
    case None
    then show ?thesis by (simp add: semantic_cutoff_def Let_def cached)
  next
    case (Some goal)
    obtain f e m2 where f: "foldl (score_message env goal) ((0, ?std), m') (enumerate 0 (take ?std active)) = ((f, e), m2)"
      by (metis surj_pair)
    then have "e \<le> ?std" using fold [of "((0, ?std), m')" goal "enumerate 0 (take ?std active)"] by simp
    then show ?thesis using Some f by (simp add: semantic_cutoff_def Let_def cached)
  qed
qed

section \<open>Steps of a conversation\<close>

text \<open>
  A conversation is its messages with the manager's state, and a flag of the model alone: whether the
  context was ever compacted at once while a background task was under way. Compaction at once is
  hard_compact_with, called for itself or by ensure_context_fits, which may have started the task
  in the same call.
\<close>

fun hard_compacted :: "compaction_action \<Rightarrow> bool" where
  "hard_compacted (HardCompacted _) = True"
| "hard_compacted _ = False"

inductive manager_step ::
  "('j, 'e, 'f, 'd) compaction_env \<Rightarrow> 'j message list \<times> ('j, 'e, 'f, 'd) compaction_manager \<times> bool \<Rightarrow>
   'j message list \<times> ('j, 'e, 'f, 'd) compaction_manager \<times> bool \<Rightarrow> bool" for env where
  added: "manager_step env (all, m, x) (all @ [msg], notify_message_added_with env msg m, x)"
| added_plain: "manager_step env (all, m, x) (all @ [msg], notify_message_added m, x)"
| started: "manager_step env (all, m, x) (all, maybe_start_compaction_with env all m, x)"
| forced: "manager_step env (all, m, x) (all, snd (force_compact_with env all m), x)"
| finished: "manager_step env (all, m, x) (all, finish_task env pv elapsed m, x)"
| polled: "manager_step env (all, m, x) (all, snd (poll_compaction_event_with env all m), x)"
| requested: "manager_step env (all, m, x) (all, snd (messages_for_api_with env all m), x)"
| hard: "hard_compact_with env all m = (r, m') \<Longrightarrow>
    manager_step env (all, m, x) (all, m', x \<or> (cm_pending_task m \<noteq> None \<and> \<not> isl r))"
| fitted: "ensure_context_fits env all m = (action, m') \<Longrightarrow>
    manager_step env (all, m, x) (all, m', x \<or> (cm_pending_task m' \<noteq> None \<and> hard_compacted action))"
| observed: "manager_step env (all, m, x) (all, update_observed_input_tokens n m, x)"
| snapshot: "manager_step env (all, m, x) (all, push_token_snapshot n m, x)"
| budgeted: "manager_step env (all, m, x) (all, set_budget n m, x)"
| switched: "manager_step env (all, m, x) (all, set_mode mode m, x)"

text \<open>What no step breaks.\<close>

definition sum_inv :: "'j message list \<times> ('j, 'e, 'f, 'd) compaction_manager \<Rightarrow> bool" where
  "sum_inv st \<longleftrightarrow> (case st of (all, m) \<Rightarrow>
     cm_total_turns m = length all \<and> (cm_active_summary m = None \<longleftrightarrow> cm_compacted_count m = 0) \<and>
     (cm_pending_task m = None \<or> 0 < cm_pending_cutoff m))"

text \<open>What holds as long as no task was overtaken.\<close>

definition conv_inv ::
  "('j, 'e, 'f, 'd) compaction_env \<Rightarrow> 'j message list \<times> ('j, 'e, 'f, 'd) compaction_manager \<Rightarrow> bool" where
  "conv_inv env st \<longleftrightarrow> (case st of (all, m) \<Rightarrow>
     cm_total_turns m = length all \<and>
     cm_compacted_count m + min 2 (length all) \<le> length all \<and>
     (cm_active_summary m = None \<longleftrightarrow> cm_compacted_count m = 0) \<and>
     cm_active_chars m \<le> messages_chars env (drop (cm_compacted_count m) all) \<and>
     (case cm_pending_task m of
        None \<Rightarrow> True
      | Some t \<Rightarrow> 0 < cm_pending_cutoff m \<and> cm_compacted_count m + cm_pending_cutoff m + 2 \<le> length all \<and>
          ct_messages t = take (cm_pending_cutoff m) (drop (cm_compacted_count m) all)))"

lemma conv_inv_core: "core m' = core m \<Longrightarrow> conv_inv env (all, m') \<longleftrightarrow> conv_inv env (all, m)"
  by (simp add: conv_inv_def core_def cong: option.case_cong)

lemma messages_chars_append [simp]: "messages_chars env (xs @ ys) = messages_chars env xs + messages_chars env ys"
  by (simp add: messages_chars_def)

lemma messages_chars_drop_le: "messages_chars env (drop n xs) \<le> messages_chars env xs"
proof -
  have "messages_chars env xs = messages_chars env (take n xs) + messages_chars env (drop n xs)"
    using messages_chars_append [of env "take n xs" "drop n xs"] by simp
  then show ?thesis by simp
qed

lemma compacted_le: "conv_inv env (all, m) \<Longrightarrow> cm_compacted_count m \<le> length all"
  by (simp add: conv_inv_def)

lemma inv_added: "conv_inv env (all, m) \<Longrightarrow> conv_inv env (all @ [msg], notify_message_added_with env msg m)"
  by (auto simp: conv_inv_def notify_message_added_with_def notify_message_added_blocks_def messages_chars_def
      message_char_count_def content_char_count_def split: option.splits)

lemma inv_added_plain: "conv_inv env (all, m) \<Longrightarrow> conv_inv env (all @ [msg], notify_message_added m)"
  by (auto simp: conv_inv_def notify_message_added_def split: option.splits)

text \<open>What a task is started with.\<close>

lemma inv_spawn:
  assumes inv: "conv_inv env (all, m)" and c: "0 < c" "c \<le> length (active_messages m all) - recent_turns_to_keep"
  shows "conv_inv env (all, spawn_task (active_messages m all) c trigger m)"
  using assms compacted_le [OF inv]
  by (auto simp: conv_inv_def spawn_task_def active_messages_le recent_turns_to_keep_def)

lemma safe_cutoff_le: "safe_compaction_cutoff ms c \<le> c"
  using safe_cutoff_correct [of ms c] by simp

lemma active_core: "core m' = core m \<Longrightarrow> active_messages m' all = active_messages m all"
  by (simp add: core_def active_messages_def)

lemma inv_started: "conv_inv env (all, m) \<Longrightarrow> conv_inv env (all, maybe_start_compaction_with env all m)"
proof -
  assume inv: "conv_inv env (all, m)"
  let ?a = "active_messages m all"
  obtain c m' where c: "(if cm_mode m = Semantic then semantic_cutoff env ?a m else (length ?a - recent_turns_to_keep, m)) = (c, m')"
    by fastforce
  have core: "core m' = core m" using core_semantic [of env ?a m] c by (auto split: if_splits simp del: core_semantic)
  have le: "c \<le> length ?a - recent_turns_to_keep"
    using semantic_cutoff_bound [of env ?a m] c by (auto split: if_splits)
  have inv': "conv_inv env (all, m')" using inv conv_inv_core [OF core] by simp
  have spawned: "conv_inv env (all, spawn_task ?a (safe_compaction_cutoff ?a c) trigger m')"
    if "safe_compaction_cutoff ?a c \<noteq> 0" for trigger
    using inv_spawn [OF inv', of "safe_compaction_cutoff ?a c" trigger] that le safe_cutoff_le [of ?a c]
    unfolding active_core [OF core] by simp
  show ?thesis
    using inv inv' spawned by (simp add: maybe_start_compaction_with_def Let_def c)
qed

lemma inv_forced: "conv_inv env (all, m) \<Longrightarrow> conv_inv env (all, snd (force_compact_with env all m))"
  using inv_spawn [of env all m "safe_compaction_cutoff (active_messages m all) (length (active_messages m all) - recent_turns_to_keep)" "''manual''"]
    safe_cutoff_le [of "active_messages m all" "length (active_messages m all) - recent_turns_to_keep"]
  by (simp add: force_compact_with_def Let_def)

lemma inv_finished: "conv_inv env (all, m) \<Longrightarrow> conv_inv env (all, finish_task env pv elapsed m)"
  by (auto simp: conv_inv_def finish_task_def split: option.splits)

lemma inv_pending_None: "conv_inv env (all, m) \<Longrightarrow> conv_inv env (all, m\<lparr>cm_pending_task := None\<rparr>)"
  by (simp add: conv_inv_def)

lemma apply_fields [simp]:
  "cm_compacted_count (apply_result env all r m) = cm_compacted_count m + cm_pending_cutoff m"
  "cm_total_turns (apply_result env all r m) = cm_total_turns m"
  "cm_pending_task (apply_result env all r m) = cm_pending_task m"
  "cm_pending_cutoff (apply_result env all r m) = 0"
  "cm_active_summary (apply_result env all r m) \<noteq> None"
  "cm_chars_dirty (apply_result env all r m) = False"
  "cm_active_chars (apply_result env all r m) =
     active_message_chars_with env (m\<lparr>cm_compacted_count := cm_compacted_count m + cm_pending_cutoff m\<rparr>) all -
     messages_chars env (take (cm_pending_cutoff m) (active_messages m all))"
  by (simp_all add: apply_result_def Let_def)

lemma inv_apply:
  assumes inv: "conv_inv env (all, m)" and task: "cm_pending_task m = Some t"
  shows "conv_inv env (all, apply_result env all r (m\<lparr>cm_pending_task := None\<rparr>))"
proof -
  let ?k = "cm_compacted_count m" and ?c = "cm_pending_cutoff m"
  have le: "?k + ?c + 2 \<le> length all" "0 < ?c" using inv task by (simp_all add: conv_inv_def)
  have split: "messages_chars env (drop ?k all) = messages_chars env (take ?c (drop ?k all)) + messages_chars env (drop (?k + ?c) all)"
    using messages_chars_append [of env "take ?c (drop ?k all)" "drop ?c (drop ?k all)"]
    unfolding append_take_drop_id by (simp only: drop_drop add.commute [of ?c ?k])
  have "cm_active_chars m \<le> messages_chars env (drop ?k all)" using inv by (simp add: conv_inv_def)
  then have "cm_active_chars m - messages_chars env (take ?c (drop ?k all)) \<le> messages_chars env (drop (?k + ?c) all)"
    unfolding split by linarith
  then have "active_message_chars_with env (m\<lparr>cm_pending_task := None, cm_compacted_count := ?k + ?c\<rparr>) all -
      messages_chars env (take ?c (drop ?k all)) \<le> messages_chars env (drop (?k + ?c) all)"
    using split le by (simp add: active_message_chars_with_def active_messages_def)
  then show ?thesis
    using inv le by (auto simp: conv_inv_def active_messages_le)
qed

lemma inv_polled: "conv_inv env (all, m) \<Longrightarrow> conv_inv env (all, check_and_apply_compaction_with env all m)"
  using inv_apply [of env all m]
  by (auto simp: check_and_apply_compaction_with_def split: option.split) (simp add: conv_inv_def)

lemma inv_discard: "conv_inv env (all, m) \<Longrightarrow> conv_inv env (all, snd (discard_oversized m))"
  by (simp add: conv_inv_def cong: option.case_cong)

lemma hard_cutoff_correct:
  assumes "2 \<le> turns" "turns < length active" "2 < length active"
  shows "hard_cutoff env budget active turns \<le> length active - 2 \<and>
    (hard_cutoff env budget active turns = 0 \<or> tools_closed (drop (hard_cutoff env budget active turns) active)) \<and>
    (messages_chars env (drop (hard_cutoff env budget active turns) active) div chars_per_token \<le> budget \<or>
     hard_cutoff env budget active turns = safe_compaction_cutoff active (length active - 2))"
  using assms
proof (induction env budget active turns rule: hard_cutoff.induct)
  case (1 env budget active turns)
  let ?c = "safe_compaction_cutoff active (length active - turns)"
  note safe = safe_cutoff_correct [of active "length active - turns"]
    safe_cutoff_correct [of active "length active - min_turns_to_keep"]
  have two: "min_turns_to_keep = 2" by (simp add: min_turns_to_keep_def)
  consider (fits) "?c > 0 \<and> messages_chars env (drop ?c active) div chars_per_token \<le> budget"
    | (least) "\<not> (?c > 0 \<and> messages_chars env (drop ?c active) div chars_per_token \<le> budget)" "turns \<le> min_turns_to_keep"
    | (fewer) "\<not> (?c > 0 \<and> messages_chars env (drop ?c active) div chars_per_token \<le> budget)" "\<not> turns \<le> min_turns_to_keep"
    by blast
  then show ?case
  proof cases
    case fits
    then have eq: "hard_cutoff env budget active turns = ?c" by (simp add: hard_cutoff.simps [of env budget active turns] Let_def)
    have "?c \<le> length active - 2" using safe(1) 1(2) by auto
    then show ?thesis unfolding eq using fits safe(1) by blast
  next
    case least
    then have "hard_cutoff env budget active turns = safe_compaction_cutoff active (length active - 2)"
      unfolding hard_cutoff.simps [of env budget active turns] Let_def if_not_P [OF least(1)] if_P [OF least(2)]
      by (simp only: two)
    then show ?thesis using safe(2) safe_cutoff_le [of active "length active - 2"] unfolding two by simp
  next
    case fewer
    have step: "hard_cutoff env budget active turns = hard_cutoff env budget active (max (turns div 2) min_turns_to_keep)"
      unfolding hard_cutoff.simps [of env budget active turns] Let_def if_not_P [OF fewer(1)] if_not_P [OF fewer(2)] ..
    have "max (turns div 2) min_turns_to_keep < length active" using 1(3,4) by (simp add: two)
    then show ?thesis
      unfolding step using 1(1) [OF refl fewer] 1(4) by (simp add: two)
  qed
qed

lemma hard_result:
  assumes "hard_compact_with env all m = (Inr n, m')"
  shows "2 < length (active_messages m all) \<and> 0 < n \<and> n \<le> length (active_messages m all) - 2 \<and>
    n = hard_cutoff env (cm_budget m) (active_messages m all) (min recent_turns_to_keep (length (active_messages m all) - 1)) \<and>
    cm_compacted_count m' = cm_compacted_count m + n \<and> cm_total_turns m' = cm_total_turns m \<and>
    cm_pending_task m' = cm_pending_task m \<and> cm_pending_cutoff m' = cm_pending_cutoff m \<and>
    cm_active_chars m' = messages_chars env (drop n (active_messages m all)) \<and> cm_chars_dirty m' = False \<and>
    cm_active_summary m' \<noteq> None"
proof -
  let ?a = "active_messages m all"
  let ?n = "hard_cutoff env (cm_budget m) ?a (min recent_turns_to_keep (length ?a - 1))"
  have len: "2 < length ?a"
    using assms by (auto simp: hard_compact_with_def Let_def min_turns_to_keep_def split: if_splits)
  have "?n \<le> length ?a - 2"
    using hard_cutoff_correct [of "min recent_turns_to_keep (length ?a - 1)" ?a env "cm_budget m"] len
    by (auto simp: recent_turns_to_keep_def)
  then show ?thesis
    using assms len by (auto simp: hard_compact_with_def Let_def split: if_splits)
qed

lemma hard_success:
  assumes "2 < length (active_messages m all)"
    "hard_cutoff env (cm_budget m) (active_messages m all) (min recent_turns_to_keep (length (active_messages m all) - 1)) = n"
    "n \<noteq> 0"
  shows "\<exists>m'. hard_compact_with env all m = (Inr n, m')"
  using assms by (simp add: hard_compact_with_def Let_def min_turns_to_keep_def)

lemma hard_error: "hard_compact_with env all m = (Inl e, m') \<Longrightarrow> m' = m"
  by (auto simp: hard_compact_with_def Let_def split: if_splits)

lemma inv_hard:
  assumes inv: "conv_inv env (all, m)" and idle: "cm_pending_task m = None"
  shows "conv_inv env (all, snd (hard_compact_with env all m))"
proof (cases "hard_compact_with env all m")
  case (Pair r m')
  show ?thesis
  proof (cases r)
    case (Inl e)
    then show ?thesis using inv hard_error [of env all m e m'] Pair by simp
  next
    case (Inr n)
    note res = hard_result [OF Pair [unfolded Inr]]
    have k: "cm_compacted_count m \<le> length all" by (rule compacted_le [OF inv])
    have n: "0 < n" "n \<le> length all - cm_compacted_count m - 2" "2 < length all - cm_compacted_count m"
      using res by (simp_all add: active_messages_le [OF k])
    have "min 2 (length all) \<le> 2" by simp
    with n have bound: "cm_compacted_count m + n + min 2 (length all) \<le> length all" by linarith
    have fields: "cm_compacted_count m' = cm_compacted_count m + n" "cm_total_turns m' = cm_total_turns m"
      "cm_pending_task m' = None" "cm_active_chars m' = messages_chars env (drop (cm_compacted_count m + n) all)"
      "cm_active_summary m' \<noteq> None"
      using res idle by (simp_all add: active_messages_le [OF k] add.commute)
    show ?thesis
      using inv bound n(1) unfolding Pair snd_conv conv_inv_def prod.case fields by (simp add: fields(5))
  qed
qed

lemma inv_hard_or_failed:
  assumes inv: "conv_inv env (all, m)" and run: "hard_compact_with env all m = (r, m')" and
    idle: "\<not> (cm_pending_task m \<noteq> None \<and> \<not> isl r)"
  shows "conv_inv env (all, m')"
proof (cases r)
  case (Inl e)
  then show ?thesis using inv hard_error [of env all m e m'] run by simp
next
  case (Inr n)
  then show ?thesis using inv_hard [OF inv] idle run by simp
qed

lemma hard_keeps_task: "hard_compact_with env all m = (r, m') \<Longrightarrow> cm_pending_task m' = cm_pending_task m"
  by (cases r) (auto dest: hard_error hard_result)

lemma fitted_cases:
  assumes "ensure_context_fits env all m = (action, m')"
  shows "(m' = maybe_start_compaction_with env all m \<and> \<not> hard_compacted action) \<or>
    (\<exists>n. hard_compact_with env all (maybe_start_compaction_with env all m) = (Inr n, m') \<and> hard_compacted action)"
proof -
  let ?m = "maybe_start_compaction_with env all m"
  obtain r m1 where h: "hard_compact_with env all ?m = (r, m1)" by fastforce
  show ?thesis
  proof (cases r)
    case (Inl e)
    then show ?thesis
      using assms h hard_error [of env all ?m e m1] by (auto simp: ensure_context_fits_def Let_def split: if_splits)
  next
    case (Inr n)
    then show ?thesis using assms h by (auto simp: ensure_context_fits_def Let_def split: if_splits)
  qed
qed

lemma inv_fitted:
  assumes inv: "conv_inv env (all, m)" and run: "ensure_context_fits env all m = (action, m')" and
    idle: "\<not> (cm_pending_task m' \<noteq> None \<and> hard_compacted action)"
  shows "conv_inv env (all, m')"
  using fitted_cases [OF run] inv_started [OF inv] inv_hard_or_failed [OF inv_started [OF inv]] idle hard_keeps_task
  by fastforce

lemma inv_other:
  "conv_inv env (all, m) \<Longrightarrow> conv_inv env (all, update_observed_input_tokens n m)"
  "conv_inv env (all, m) \<Longrightarrow> conv_inv env (all, push_token_snapshot n m)"
  "conv_inv env (all, m) \<Longrightarrow> conv_inv env (all, snd (take_compaction_event m))"
  "conv_inv env (all, m) \<Longrightarrow> conv_inv env (all, set_budget n m)"
  "conv_inv env (all, m) \<Longrightarrow> conv_inv env (all, set_mode mode m)"
  by (simp_all add: conv_inv_def set_budget_def set_mode_def update_observed_input_tokens_def push_token_snapshot_def take_compaction_event_def
    cong: option.case_cong)

lemma conv_sum: "conv_inv env (all, m) \<Longrightarrow> sum_inv (all, m)"
  by (auto simp: conv_inv_def sum_inv_def split: option.splits)

lemma sum_core: "core m' = core m \<Longrightarrow> sum_inv (all, m') \<longleftrightarrow> sum_inv (all, m)"
  by (simp add: sum_inv_def core_def)

lemma sum_spawn: "sum_inv (all, m) \<Longrightarrow> 0 < c \<Longrightarrow> sum_inv (all, spawn_task active c trigger m)"
  by (simp add: sum_inv_def spawn_task_def)

lemma sum_started:
  assumes inv: "sum_inv (all, m)"
  shows "sum_inv (all, maybe_start_compaction_with env all m)"
proof -
  let ?a = "active_messages m all"
  obtain c m' where c: "(if cm_mode m = Semantic then semantic_cutoff env ?a m else (length ?a - recent_turns_to_keep, m)) = (c, m')"
    by fastforce
  have core: "core m' = core m" using core_semantic [of env ?a m] c by (auto split: if_splits simp del: core_semantic)
  then have "sum_inv (all, m')" using inv sum_core [OF core] by simp
  then show ?thesis
    using inv sum_spawn [of all m' "safe_compaction_cutoff ?a c"] by (simp add: maybe_start_compaction_with_def Let_def c)
qed

lemma sum_forced: "sum_inv (all, m) \<Longrightarrow> sum_inv (all, snd (force_compact_with env all m))"
  by (simp add: force_compact_with_def Let_def sum_spawn)

lemma sum_polled: "sum_inv (all, m) \<Longrightarrow> sum_inv (all, check_and_apply_compaction_with env all m)"
  by (auto simp: check_and_apply_compaction_with_def sum_inv_def split: option.split)

lemma sum_hard:
  assumes "sum_inv (all, m)" "hard_compact_with env all m = (r, m')"
  shows "sum_inv (all, m')"
proof (cases r)
  case (Inl e)
  then show ?thesis using assms hard_error [of env all m e m'] by simp
next
  case (Inr n)
  then show ?thesis using assms hard_result [of env all m n m'] by (simp add: sum_inv_def)
qed

lemma sum_fitted:
  assumes "sum_inv (all, m)" "ensure_context_fits env all m = (action, m')"
  shows "sum_inv (all, m')"
  using fitted_cases [OF assms(2)] sum_hard [OF sum_started [OF assms(1)]] sum_started [OF assms(1)] by blast

lemma sum_other:
  "sum_inv (all, m) \<Longrightarrow> sum_inv (all, update_observed_input_tokens n m)"
  "sum_inv (all, m) \<Longrightarrow> sum_inv (all, push_token_snapshot n m)"
  "sum_inv (all, m) \<Longrightarrow> sum_inv (all, set_budget n m)"
  "sum_inv (all, m) \<Longrightarrow> sum_inv (all, set_mode mode m)"
  by (simp_all add: sum_inv_def update_observed_input_tokens_def push_token_snapshot_def set_budget_def set_mode_def)

lemma sum_step:
  assumes "manager_step env (all, m, x) (all', m', x')" "sum_inv (all, m)"
  shows "sum_inv (all', m')"
  using assms
proof cases
  case added
  then show ?thesis using assms(2)
    by (simp add: sum_inv_def notify_message_added_with_def notify_message_added_blocks_def)
next
  case added_plain
  then show ?thesis using assms(2) by (simp add: sum_inv_def notify_message_added_def)
next
  case finished
  then show ?thesis using assms(2) by (simp add: sum_inv_def finish_task_def)
next
  case polled
  then show ?thesis using sum_polled [OF assms(2)]
    by (simp add: poll_compaction_event_with_def take_compaction_event_def sum_inv_def)
next
  case requested
  then show ?thesis using sum_polled [OF assms(2)] by (simp add: messages_for_api_with_def Let_def sum_inv_def)
next
  case (hard r)
  then show ?thesis using sum_hard [OF assms(2)] by simp
next
  case (fitted action)
  then show ?thesis using sum_fitted [OF assms(2)] by simp
qed (use assms(2) in \<open>simp_all add: sum_started sum_forced sum_other\<close>)

lemma inv_step:
  assumes "manager_step env (all, m, x) (all', m', x')" "\<not> x'" "conv_inv env (all, m)"
  shows "conv_inv env (all', m')"
  using assms(1)
proof cases
  case polled
  then show ?thesis using inv_other(3) [OF inv_polled [OF assms(3)]] by (simp add: poll_compaction_event_with_def)
next
  case requested
  then show ?thesis using inv_discard [OF inv_polled [OF assms(3)]] by (simp add: messages_for_api_with_def Let_def)
next
  case (hard r)
  then show ?thesis using inv_hard_or_failed [OF assms(3)] assms(2) by blast
next
  case (fitted action)
  then show ?thesis using inv_fitted [OF assms(3)] assms(2) by blast
qed (use assms(3) in \<open>simp_all add: inv_added inv_added_plain inv_started inv_forced inv_finished inv_other\<close>)

lemma flag_step: "manager_step env (all, m, x) (all', m', x') \<Longrightarrow> x \<Longrightarrow> x'"
  by (erule manager_step.cases) simp_all

lemma manager_reach:
  assumes "(manager_step env)\<^sup>*\<^sup>* ([], manager_new env, False) st"
  shows "case st of (all, m, x) \<Rightarrow> sum_inv (all, m) \<and> (x \<or> conv_inv env (all, m))"
  using assms
proof (induction rule: rtranclp_induct)
  case base
  show ?case by (simp add: sum_inv_def conv_inv_def manager_new_def)
next
  case (step st st')
  obtain all m x where st: "st = (all, m, x)" by (rule prod_cases3)
  obtain all' m' x' where st': "st' = (all', m', x')" by (rule prod_cases3)
  show ?case
    using step sum_step [of env all m x all' m' x'] inv_step [of env all m x all' m' x'] flag_step [of env all m x all' m' x']
    unfolding st st' prod.case by blast
qed

lemma request_is:
  assumes "sum_inv (all, m)"
  shows "let (ms, m') = messages_for_api_with env all m; k = cm_compacted_count m'
    in case cm_active_summary m' of
         None \<Rightarrow> k = 0 \<and> ms = all
       | Some s \<Rightarrow> 0 < k \<and> ms = summary_message s # (if k \<le> length all then drop k all else all)"
proof -
  define M where "M = snd (discard_oversized (check_and_apply_compaction_with env all m))"
  have "sum_inv (all, M)" using sum_polled [OF assms, of env] by (simp add: M_def sum_inv_def)
  then have "cm_active_summary M = None \<longleftrightarrow> cm_compacted_count M = 0" by (simp add: sum_inv_def)
  then show ?thesis
    unfolding messages_for_api_with_def Let_def M_def [symmetric] prod.case
    by (cases "cm_active_summary M") (simp_all add: active_messages_def)
qed

lemma request_bound:
  assumes "conv_inv env (all, m)"
  shows "cm_compacted_count (snd (messages_for_api_with env all m)) + min 2 (length all) \<le> length all"
  using inv_discard [OF inv_polled [OF assms]] by (simp add: messages_for_api_with_def Let_def conv_inv_def)

lemma task_covers:
  assumes "conv_inv env (all, m)"
  shows "case cm_pending_task m of
      None \<Rightarrow> True
    | Some t \<Rightarrow> 0 < cm_pending_cutoff m \<and>
        ct_messages t @ drop (cm_compacted_count m + cm_pending_cutoff m) all = drop (cm_compacted_count m) all"
proof (cases "cm_pending_task m")
  case (Some t)
  have "take (cm_pending_cutoff m) (drop (cm_compacted_count m) all) @ drop (cm_compacted_count m + cm_pending_cutoff m) all =
      drop (cm_compacted_count m) all"
    using append_take_drop_id [of "cm_pending_cutoff m" "drop (cm_compacted_count m) all"]
    by (simp add: add.commute)
  with assms Some show ?thesis by (simp add: conv_inv_def)
qed simp

lemma estimate_bound:
  assumes "conv_inv env (all, m)"
  shows "active_message_chars_with env m all \<le> messages_chars env (drop (cm_compacted_count m) all)"
  using assms
  by (simp add: active_message_chars_with_def active_messages_le [OF compacted_le [OF assms]]) (simp add: conv_inv_def)

text \<open>
  Property C8. In a conversation of messages added, background tasks started, finished and polled, requests,
  compaction at once, and changes of budget and mode, a request consists of all messages, or of the
  summary and the messages behind those counted as compacted (or all of them, should more be counted than
  there are). As long as the context was never compacted at once while a background task was under way, the
  count leaves the last two messages at least; a task under way has exactly the messages it will be
  counted for, the first ones not compacted; and the running estimate never exceeds their true size.
  The condition is needed: see overtaken_task below.
\<close>

theorem request_covers_conversation:
  assumes "(manager_step env)\<^sup>*\<^sup>* ([], manager_new env, False) (all, m, overtaken)"
  shows "let (ms, m') = messages_for_api_with env all m; k = cm_compacted_count m'
    in (case cm_active_summary m' of
          None \<Rightarrow> k = 0 \<and> ms = all
        | Some s \<Rightarrow> 0 < k \<and> ms = summary_message s # (if k \<le> length all then drop k all else all)) \<and>
       (\<not> overtaken \<longrightarrow>
          k + min 2 (length all) \<le> length all \<and>
          active_message_chars_with env m all \<le> messages_chars env (drop (cm_compacted_count m) all) \<and>
          (case cm_pending_task m of
             None \<Rightarrow> True
           | Some t \<Rightarrow> 0 < cm_pending_cutoff m \<and>
               ct_messages t @ drop (cm_compacted_count m + cm_pending_cutoff m) all = drop (cm_compacted_count m) all))"
proof -
  have "sum_inv (all, m)" and inv: "\<not> overtaken \<Longrightarrow> conv_inv env (all, m)"
    using manager_reach [OF assms] by simp_all
  then show ?thesis
    using request_is [of all m env] request_bound [OF inv] task_covers [OF inv] estimate_bound [OF inv]
    by (cases "messages_for_api_with env all m") (simp only: Let_def prod.case snd_conv, blast)
qed

definition sample_doubles :: "nat doubles" where
  "sample_doubles = \<lparr>do_of_nat = id, do_add = (+), do_sub = (-), do_mul = (*), do_max = max, do_ge = (\<ge>), do_threshold = 1\<rparr>"

definition sample_config :: "(nat, nat) compaction_config" where
  "sample_config = \<lparr>cf_mode = Reactive, cf_lookahead_turns = 15, cf_ewma_alpha = 1, cf_proactive_floor = 0,
     cf_min_samples = 3, cf_stall_window = 5, cf_min_turns_between = 10, cf_topic_shift_threshold = 0,
     cf_relevance_keep_threshold = 0, cf_goal_window_turns = 5\<rparr>"

text \<open>A usage ratio in percent, rounded down.\<close>

definition sample_cenv :: "(unit, unit, nat, nat) compaction_env" where
  "sample_cenv = \<lparr>cv_show_json = (\<lambda>_. []), cv_alnum = (\<lambda>_. True), cv_ratio = (\<lambda>a b. 100 * a div b), cv_ge = (\<ge>), cv_lt = (<),
     cv_compaction_threshold = 80, cv_critical_threshold = 95, cv_manual_min_threshold = 10,
     cv_percent = show_nat, cv_doubles = sample_doubles, cv_embed = (\<lambda>_. None), cv_similarity = (\<lambda>_ _. 0),
     cv_mean = (\<lambda>_. ()), cv_key = length, cv_config = sample_config\<rparr>"

definition sample_message :: "unit message" where
  "sample_message = \<lparr>msg_role = User, msg_content = [Text ''hello there'' None], msg_timestamp = None, msg_tool_duration_ms = None\<rparr>"

definition sample_provider :: "unit provider" where
  "sample_provider = \<lparr>pv_native_compact = (\<lambda>_ _ _. Some (Some ''summary'', None)), pv_context_window = 1000,
     pv_complete_simple = (\<lambda>_ _. None)\<rparr>"

text \<open>A conversation of messages added one after the other.\<close>

definition talk :: "nat \<Rightarrow> (unit, unit, nat, nat) compaction_manager" where
  "talk n = ((notify_message_added_with sample_cenv sample_message) ^^ n) (manager_new sample_cenv)"

lemma talk_reach: "(manager_step sample_cenv)\<^sup>*\<^sup>* ([], manager_new sample_cenv, False) (replicate n sample_message, talk n, False)"
proof (induction n)
  case 0
  show ?case by (simp add: talk_def)
next
  case (Suc n)
  have "manager_step sample_cenv (replicate n sample_message, talk n, False)
      (replicate n sample_message @ [sample_message], notify_message_added_with sample_cenv sample_message (talk n), False)"
    by (rule added)
  then show ?case using Suc
    by (simp add: talk_def replicate_append_same del: replicate_Suc) (simp add: replicate_append_same [symmetric])
qed

lemma talk_fields: "cm_compacted_count (talk n) = 0 \<and> cm_pending_task (talk n) = None \<and> cm_budget (talk n) = 200000"
  by (induction n) (simp_all add: talk_def manager_new_def default_token_budget_def notify_message_added_with_def
    notify_message_added_blocks_def)

lemma talk_cutoff: "hard_cutoff sample_cenv 200000 (replicate 12 sample_message) 10 = 2"
proof -
  have safe: "safe_compaction_cutoff (replicate 12 sample_message) 2 = 2" by code_simp
  have "messages_chars sample_cenv (replicate 10 sample_message) = 110" by code_simp
  then show ?thesis by (simp add: hard_cutoff.simps [of sample_cenv 200000] safe chars_per_token_def)
qed

theorem request_covers_conversation_witness:
  "let m = snd (hard_compact_with sample_cenv (replicate 12 sample_message) (talk 12));
       (ms, m') = messages_for_api_with sample_cenv (replicate 12 sample_message) m
   in cm_compacted_count m = 2 \<and> tl ms = replicate 10 sample_message"
proof -
  let ?all = "replicate 12 sample_message"
  let ?m = "snd (hard_compact_with sample_cenv ?all (talk 12))"
  have idle: "cm_pending_task (talk 12) = None" by (simp add: talk_fields)
  have active: "active_messages (talk 12) ?all = ?all" by (simp add: active_messages_def talk_fields)
  have cut: "hard_cutoff sample_cenv (cm_budget (talk 12)) ?all (min recent_turns_to_keep (length ?all - 1)) = 2"
    using talk_cutoff by (simp add: talk_fields recent_turns_to_keep_def)
  obtain m' where run: "hard_compact_with sample_cenv ?all (talk 12) = (Inr 2, m')"
    using hard_success [of "talk 12" ?all sample_cenv] cut active by auto
  have reach: "(manager_step sample_cenv)\<^sup>*\<^sup>* ([], manager_new sample_cenv, False) (?all, m', False)"
    using rtranclp.rtrancl_into_rtrancl [OF talk_reach hard [OF run]] idle by simp
  have k: "cm_compacted_count m' = 2" and idle': "cm_pending_task m' = None" and "\<exists>s. cm_active_summary m' = Some s"
    using hard_result [OF run] talk_fields [of 12] by (simp_all flip: not_None_eq)
  then show ?thesis
    using request_covers_conversation [OF reach]
    by (simp add: run Let_def case_prod_beta messages_for_api_with_def check_and_apply_compaction_with_def split: option.splits)
qed

text \<open>
  A task that is overtaken counts twice: when its result is taken over, its messages are added to a count that
  the compaction at once has already moved on. The task has the first messages not compacted, its
  result replaces the summary, and the messages behind them, as many as were compacted at once, are in
  neither the summary nor the request.
\<close>

lemma overtaken_task:
  assumes "conv_inv env (all, m)" "cm_pending_task m = Some t" "ct_outcome t = Some (Some r)"
    "hard_compact_with env all m = (Inr n, m')"
  shows "let k = cm_compacted_count m; c = cm_pending_cutoff m; (ms, m'') = messages_for_api_with env all m'
    in 0 < n \<and> ct_messages t = take c (drop k all) \<and> cm_compacted_count m'' = k + n + c \<and>
       (k + n + c \<le> length all \<longrightarrow> tl ms = drop (k + n + c) all)"
proof -
  note res = hard_result [OF assms(4)]
  obtain ms m'' where req: "messages_for_api_with env all m' = (ms, m'')" by fastforce
  have count: "cm_compacted_count m'' = cm_compacted_count m + n + cm_pending_cutoff m"
    using req res assms(2,3) by (auto simp: messages_for_api_with_def Let_def check_and_apply_compaction_with_def)
  have "sum_inv (all, m')" using sum_hard [OF conv_sum [OF assms(1)] assms(4)] .
  then have "cm_compacted_count m'' \<le> length all \<Longrightarrow> tl ms = drop (cm_compacted_count m'') all"
    using request_is [of all m' env] count res unfolding req by (auto simp: Let_def split: option.splits)
  moreover have "ct_messages t = take (cm_pending_cutoff m) (drop (cm_compacted_count m) all)"
    using assms(1,2) by (simp add: conv_inv_def)
  ultimately show ?thesis using count res unfolding req by (simp add: Let_def)
qed

text \<open>
  It happens: in a conversation of twenty messages that fill the context, one call of ensure_context_fits
  starts a task for the first ten and compacts the same ten at once, so all twenty will count as compacted.
\<close>

lemma talk_state:
  "cm_total_turns (talk n) = n \<and> cm_active_chars (talk n) = 11 * n \<and> \<not> cm_chars_dirty (talk n) \<and>
   \<not> cm_suppress (talk n) \<and> cm_mode (talk n) = Reactive \<and> cm_active_summary (talk n) = None \<and> cm_observed (talk n) = None"
proof (induction n)
  case 0
  show ?case by (simp add: talk_def manager_new_def sample_cenv_def sample_config_def)
next
  case (Suc n)
  have "content_char_count (cv_show_json sample_cenv) (msg_content sample_message) = 11" by code_simp
  then show ?case
    using Suc by (simp add: talk_def notify_message_added_with_def notify_message_added_blocks_def)
qed

lemma talk_task:
  "maybe_start_compaction_with sample_cenv (replicate 20 sample_message) (set_budget 50 (talk 20)) =
   spawn_task (replicate 20 sample_message) 10 ''reactive'' (set_budget 50 (talk 20))"
proof -
  let ?m = "set_budget 50 (talk 20)" and ?all = "replicate 20 sample_message"
  have active: "active_messages ?m ?all = ?all" by (simp add: active_messages_def set_budget_def talk_fields)
  have usage: "context_usage_with sample_cenv ?m ?all = 110"
    using active
    by (simp add: context_usage_with_def effective_token_count_with_def token_estimate_with_def active_message_chars_with_def
        active_messages_count_def observed_tokens_def estimate_compaction_tokens_def estimate_compaction_tokens_from_chars_def
        set_budget_def talk_state talk_fields sample_cenv_def chars_per_token_def default_token_budget_def)
  have due: "should_compact_with sample_cenv ?m ?all"
    using active usage
    by (simp add: should_compact_with_def set_budget_def talk_state talk_fields recent_turns_to_keep_def sample_cenv_def)
  have "safe_compaction_cutoff ?all 10 = 10" by code_simp
  then show ?thesis
    using due active
    by (simp add: maybe_start_compaction_with_def set_budget_def talk_state recent_turns_to_keep_def)
qed

lemma talk_overtaken:
  "let (action, m) = ensure_context_fits sample_cenv (replicate 20 sample_message) (set_budget 50 (talk 20))
   in action = HardCompacted 10 \<and> cm_compacted_count m = 10 \<and> cm_pending_cutoff m = 10 \<and>
      map_option ct_messages (cm_pending_task m) = Some (replicate 10 sample_message)"
proof -
  let ?all = "replicate 20 sample_message"
  let ?m = "spawn_task ?all 10 ''reactive'' (set_budget 50 (talk 20))"
  have active: "active_messages ?m ?all = ?all"
    by (simp add: active_messages_def set_budget_def spawn_task_def talk_fields)
  have usage: "context_usage_with sample_cenv ?m ?all = 110"
    using active
    by (simp add: context_usage_with_def effective_token_count_with_def token_estimate_with_def active_message_chars_with_def
        active_messages_count_def observed_tokens_def estimate_compaction_tokens_def estimate_compaction_tokens_from_chars_def
        spawn_task_def set_budget_def talk_state talk_fields sample_cenv_def chars_per_token_def default_token_budget_def)
  have safe: "safe_compaction_cutoff ?all 10 = 10" by code_simp
  have "messages_chars sample_cenv (replicate 10 sample_message) = 110" by code_simp
  then have "hard_cutoff sample_cenv (cm_budget ?m) ?all (min recent_turns_to_keep (length ?all - 1)) = 10"
    by (simp add: hard_cutoff.simps [of sample_cenv 50] safe chars_per_token_def spawn_task_def set_budget_def
        recent_turns_to_keep_def)
  then obtain m' where run: "hard_compact_with sample_cenv ?all ?m = (Inr 10, m')"
    using hard_success [of ?m ?all sample_cenv] active by auto
  have critical: "cv_ge sample_cenv (context_usage_with sample_cenv ?m ?all) (cv_critical_threshold sample_cenv)"
    unfolding usage by (simp add: sample_cenv_def)
  show ?thesis
    using hard_result [OF run] critical
    by (simp add: ensure_context_fits_def Let_def talk_task run) (simp add: spawn_task_def set_budget_def talk_fields)
qed

end
