(* ===== verification/EditTools.thy ===== *)
theory EditTools
  imports Compaction
begin

text \<open>
  The file editing tools (src/tool/edit.rs, src/tool/multiedit.rs) with what they share with the
  patch tools: replacing text, compact diffs, previews for other sessions. The file system is a map
  from files to their texts (None for a file that is not UTF-8); which file a path names, and the
  line diff of the external diff library, are arguments. Directories and failing disks are left out.
\<close>

section \<open>Text search\<close>

text \<open>
  The pieces of a text between the matches of a pattern that do not overlap (\<^verbatim>\<open>str::split\<close>, on which
  \<^verbatim>\<open>matches\<close>, \<^verbatim>\<open>replace\<close> and \<^verbatim>\<open>replacen\<close> agree); the empty pattern matches at every
  character boundary.
\<close>

lemma split_once_length: "split_once pat s = Some (a, b) \<Longrightarrow> pat \<noteq> [] \<Longrightarrow> length b < length s"
  using split_once_Some [of pat s a b] by (cases pat) auto

function split_on :: "string \<Rightarrow> string \<Rightarrow> string list" where
  "split_on pat s =
     (if pat = [] then [] # chars s @ [[]]
      else case split_once pat s of
             None \<Rightarrow> [s]
           | Some (a, b) \<Rightarrow> a # split_on pat b)"
  by pat_completeness auto
termination
  by (relation "measure (\<lambda>(pat, s). length s)") (auto simp: split_once_length)

declare split_on.simps [simp del]

definition match_count :: "string \<Rightarrow> string \<Rightarrow> nat" where
  "match_count s pat = length (split_on pat s) - 1"

definition replace_matches :: "string \<Rightarrow> string \<Rightarrow> string \<Rightarrow> string" where
  "replace_matches s pat new = join new (split_on pat s)"

definition replace_first :: "string \<Rightarrow> string \<Rightarrow> string \<Rightarrow> string" where
  "replace_first s pat new =
     (case split_once pat s of None \<Rightarrow> s | Some (a, b) \<Rightarrow> a @ new @ b)"

section \<open>Tool calls\<close>

record tool_ctx =
  tc_session_id :: string
  tc_working_dir :: "string option"

definition path_join :: "string \<Rightarrow> string \<Rightarrow> string" where
  "path_join base p =
     (if prefix ''/'' p then p else if base = [] then p
      else if last base = CHR ''/'' then base @ p else base @ ''/'' @ p)"

definition resolve_path :: "tool_ctx \<Rightarrow> string \<Rightarrow> string" where
  "resolve_path ctx p =
     (if prefix ''/'' p then p
      else case tc_working_dir ctx of Some base \<Rightarrow> path_join base p | None \<Rightarrow> p)"

datatype tool_error = Failed string | Panicked

record tool_output =
  out_text :: string
  out_title :: "string option"

datatype file_op = FileRead | FileWrite | FileEdit

fun file_op_as_str :: "file_op \<Rightarrow> string" where
  "file_op_as_str FileRead = ''read''"
| "file_op_as_str FileWrite = ''wrote''"
| "file_op_as_str FileEdit = ''edited''"

record file_touch =
  ft_session_id :: string
  ft_path :: string
  ft_op :: file_op
  ft_summary :: "string option"
  ft_detail :: "string option"

datatype change_tag = EqualLine | DeleteLine | InsertLine

record edit_env =
  ee_locate :: "string \<Rightarrow> string"
  ee_diff :: "string \<Rightarrow> string \<Rightarrow> (change_tag \<times> string) list"

record tool_state =
  ts_files :: "(string, string option) fmap"
  ts_events :: "file_touch list"

definition file_at :: "edit_env \<Rightarrow> tool_ctx \<Rightarrow> string \<Rightarrow> string" where
  "file_at env ctx p = ee_locate env (resolve_path ctx p)"

definition not_utf8 :: string where
  "not_utf8 = ''stream did not contain valid UTF-8''"

definition write_file :: "string \<Rightarrow> string \<Rightarrow> tool_state \<Rightarrow> tool_state" where
  "write_file f content st = st\<lparr>ts_files := fmupd f (Some content) (ts_files st)\<rparr>"

definition remove_file :: "string \<Rightarrow> tool_state \<Rightarrow> tool_state" where
  "remove_file f st = st\<lparr>ts_files := fmdrop f (ts_files st)\<rparr>"

definition publish :: "file_touch \<Rightarrow> tool_state \<Rightarrow> tool_state" where
  "publish t st = st\<lparr>ts_events := ts_events st @ [t]\<rparr>"

section \<open>Diffs and previews\<close>

definition find_line_number :: "string \<Rightarrow> string \<Rightarrow> nat" where
  "find_line_number content s =
     (case split_once s content of
        Some (a, _) \<Rightarrow> length (str_lines a) + 1
      | None \<Rightarrow> 1)"

text \<open>A change of the diff moves the line numbers of the old and the new text on, and shows unless it is blank.\<close>

definition diff_step ::
  "nat \<times> nat \<times> string \<Rightarrow> change_tag \<times> string \<Rightarrow> nat \<times> nat \<times> string" where
  "diff_step st change =
     (let (old_line, new_line, output) = st; content = trim (snd change)
      in case fst change of
           EqualLine \<Rightarrow> (old_line + 1, new_line + 1, output)
         | DeleteLine \<Rightarrow>
             (old_line + 1, new_line,
              if content = [] then output else output @ show_nat old_line @ ''- '' @ content @ nl)
         | InsertLine \<Rightarrow>
             (old_line, new_line + 1,
              if content = [] then output else output @ show_nat new_line @ ''+ '' @ content @ nl))"

definition generate_diff :: "edit_env \<Rightarrow> string \<Rightarrow> string \<Rightarrow> nat \<Rightarrow> string" where
  "generate_diff env old new start_line =
     trim_end (snd (snd (foldl diff_step (start_line, start_line, []) (ee_diff env old new))))"

definition file_touch_preview_max_lines :: nat where "file_touch_preview_max_lines = 6"
definition file_touch_preview_max_bytes :: nat where "file_touch_preview_max_bytes = 240"

definition truncate_str :: "string \<Rightarrow> nat \<Rightarrow> string" where
  "truncate_str s max_bytes =
     (if length s \<le> max_bytes then s else take (back_to_boundary s max_bytes) s)"

definition ellipsis :: string where
  "ellipsis = [CHR 0xE2, CHR 0x80, CHR 0xA6]"

definition build_file_touch_preview :: "string \<Rightarrow> string option" where
  "build_file_touch_preview diff =
     (let trimmed = trim diff
      in if trimmed = [] then None
         else
           let all_lines = str_lines trimmed;
               preview = join nl (take file_touch_preview_max_lines all_lines);
               truncated = (length all_lines > file_touch_preview_max_lines);
               too_long = (length preview > file_touch_preview_max_bytes);
               preview = (if too_long then trim_end (truncate_str preview file_touch_preview_max_bytes)
                          else preview)
           in Some (if truncated \<or> too_long then preview @ nl @ ellipsis else preview))"

text \<open>Slicing a list from one index up to another panics unless they are in order and in range.\<close>

definition slice :: "nat \<Rightarrow> nat \<Rightarrow> 'a list \<Rightarrow> 'a list option" where
  "slice start stop xs = (if start \<le> stop \<and> stop \<le> length xs then Some (drop start (take stop xs)) else None)"

definition pad_left :: "nat \<Rightarrow> string \<Rightarrow> string" where
  "pad_left w s = replicate (w - length s) (CHR '' '') @ s"

definition context_line :: "nat \<Rightarrow> nat \<times> string \<Rightarrow> string" where
  "context_line start il =
     pad_left 4 (show_nat (start + fst il + 1)) @ [CHR 0xE2, CHR 0x94, CHR 0x82] @ '' '' @ snd il"

definition extract_context ::
  "string \<Rightarrow> nat \<Rightarrow> nat \<Rightarrow> nat \<Rightarrow> (nat \<times> nat \<times> string) option" where
  "extract_context content edit_start edit_end padding =
     (let lines = str_lines content;
          start = edit_start - (padding + 1);
          stop = min (edit_end + padding) (length lines)
      in case slice start stop lines of
           None \<Rightarrow> None
         | Some shown \<Rightarrow> Some (start + 1, stop, join nl (map (context_line start) (enumerate 0 shown))))"

section \<open>The edit tool\<close>

record edit_input =
  ei_file_path :: string
  ei_old :: string
  ei_new :: string
  ei_replace_all :: bool

text \<open>The windows of a list, of a given length; length zero panics.\<close>

definition windows :: "nat \<Rightarrow> 'a list \<Rightarrow> 'a list list option" where
  "windows n xs = (if n = 0 then None else Some (map (\<lambda>i. take n (drop i xs)) [0..<Suc (length xs) - n]))"

definition try_flexible_match :: "string \<Rightarrow> string \<Rightarrow> string \<Rightarrow> tool_error" where
  "try_flexible_match content old_string file_path =
     (let trimmed = trim old_string
      in if str_contains content trimmed \<and> trimmed \<noteq> old_string then
           Failed (''old_string not found exactly, but found after trimming whitespace.'' @ nl @
             ''Try using the exact string from the file, including leading/trailing whitespace.'')
         else
           let old_lines = str_lines old_string
           in case windows (length old_lines) (str_lines content) of
                None \<Rightarrow> Panicked
              | Some ws \<Rightarrow>
                  (case position (\<lambda>window. list_all (\<lambda>(a, b). trim a = trim b) (zip window old_lines)) ws of
                     Some i \<Rightarrow>
                       Failed (''old_string not found exactly, but found with different indentation around line '' @
                         show_nat (i + 1) @ ''.'' @ nl @ ''Make sure to preserve the exact whitespace from the file.'')
                   | None \<Rightarrow>
                       Failed (''old_string not found in '' @ file_path @ ''.'' @ nl @
                         ''Use the read tool to see the current file contents.'')))"

definition plural_s :: "nat \<Rightarrow> string" where
  "plural_s n = (if n = 1 then [] else ''s'')"

definition edit_touch :: "tool_ctx \<Rightarrow> edit_input \<Rightarrow> nat \<Rightarrow> nat \<Rightarrow> string \<Rightarrow> file_touch" where
  "edit_touch ctx inp occurrences start_line diff =
     (let end_line = start_line + (length (str_lines (ei_new inp)) - 1)
      in \<lparr>ft_session_id = tc_session_id ctx, ft_path = resolve_path ctx (ei_file_path inp), ft_op = FileEdit,
          ft_summary = Some (''edited lines '' @ show_nat start_line @ ''-'' @ show_nat end_line @
            '' ('' @ show_nat occurrences @ '' occurrence'' @ plural_s occurrences @ '')''),
          ft_detail = build_file_touch_preview diff\<rparr>)"

definition edit_output :: "edit_input \<Rightarrow> nat \<Rightarrow> string \<Rightarrow> nat \<times> nat \<times> string \<Rightarrow> tool_output" where
  "edit_output inp occurrences diff shown =
     \<lparr>out_text = ''Edited '' @ ei_file_path inp @ '': replaced '' @ show_nat occurrences @
        '' occurrence(s)'' @ nl @ diff @ nl @ nl @ ''Context after edit (lines '' @ show_nat (fst shown) @
        ''-'' @ show_nat (fst (snd shown)) @ ''):'' @ nl @ snd (snd shown),
      out_title = Some (ei_file_path inp)\<rparr>"

definition edit_execute ::
  "edit_env \<Rightarrow> tool_ctx \<Rightarrow> edit_input \<Rightarrow> tool_state \<Rightarrow> (tool_error + tool_output) \<times> tool_state" where
  "edit_execute env ctx inp st =
     (let file = file_at env ctx (ei_file_path inp); old = ei_old inp; new = ei_new inp
      in if old = new then (Inl (Failed ''old_string and new_string must be different''), st)
         else case fmlookup (ts_files st) file of
           None \<Rightarrow> (Inl (Failed (''File not found: '' @ ei_file_path inp)), st)
         | Some None \<Rightarrow> (Inl (Failed not_utf8), st)
         | Some (Some content) \<Rightarrow>
             let occurrences = match_count content old
             in if occurrences = 0 then (Inl (try_flexible_match content old (ei_file_path inp)), st)
                else if occurrences > 1 \<and> \<not> ei_replace_all inp then
                  (Inl (Failed (''old_string found '' @ show_nat occurrences @ '' times in the file. Either:'' @ nl @
                     ''1. Provide more context to make it unique, or'' @ nl @
                     ''2. Set replace_all: true to replace all occurrences'')), st)
                else
                  let new_content = (if ei_replace_all inp then replace_matches content old new
                        else replace_first content old new);
                      start_line = find_line_number content old;
                      diff = generate_diff env old new start_line;
                      end_line = start_line + (length (str_lines new) - 1);
                      st = publish (edit_touch ctx inp occurrences start_line diff) (write_file file new_content st)
                  in case extract_context new_content start_line end_line 3 of
                       None \<Rightarrow> (Inl Panicked, st)
                     | Some shown \<Rightarrow> (Inr (edit_output inp occurrences diff shown), st))"

section \<open>The multiple edit tool\<close>

record edit_operation =
  eo_old :: string
  eo_new :: string
  eo_replace_all :: bool

definition edit_number :: "nat \<Rightarrow> string" where
  "edit_number i = ''Edit '' @ show_nat (i + 1) @ '': ''"

text \<open>The content and the messages of the edits applied and failed so far.\<close>

definition multiedit_step ::
  "string \<times> string list \<times> string list \<Rightarrow> nat \<times> edit_operation \<Rightarrow> string \<times> string list \<times> string list" where
  "multiedit_step acc ie =
     (let (content, applied, failed) = acc; (i, e) = ie; occurrences = match_count content (eo_old e)
      in if eo_old e = eo_new e then
           (content, applied, failed @ [edit_number i @ ''old_string equals new_string''])
         else if occurrences = 0 then
           (content, applied, failed @ [edit_number i @ ''old_string not found''])
         else if occurrences > 1 \<and> \<not> eo_replace_all e then
           (content, applied, failed @ [edit_number i @ ''found '' @ show_nat occurrences @
              '' occurrences, use replace_all or be more specific''])
         else if eo_replace_all e then
           (replace_matches content (eo_old e) (eo_new e),
            applied @ [edit_number i @ ''replaced '' @ show_nat occurrences @ '' occurrences''], failed)
         else
           (replace_first content (eo_old e) (eo_new e),
            applied @ [edit_number i @ ''replaced 1 occurrence''], failed))"

definition max_diff_lines :: nat where "max_diff_lines = 30"

text \<open>The summary shows the first changes that are not blank, up to a number of lines.\<close>

fun summary_lines :: "nat \<Rightarrow> nat \<Rightarrow> nat \<Rightarrow> (change_tag \<times> string) list \<Rightarrow> string" where
  "summary_lines old_line new_line shown [] = []"
| "summary_lines old_line new_line shown ((EqualLine, v) # cs) = summary_lines (old_line + 1) (new_line + 1) shown cs"
| "summary_lines old_line new_line shown ((DeleteLine, v) # cs) =
     (if trim v = [] then summary_lines (old_line + 1) new_line shown cs
      else if shown \<ge> max_diff_lines then ''...'' @ nl
      else show_nat old_line @ ''- '' @ trim v @ nl @ summary_lines (old_line + 1) new_line (shown + 1) cs)"
| "summary_lines old_line new_line shown ((InsertLine, v) # cs) =
     (if trim v = [] then summary_lines old_line (new_line + 1) shown cs
      else if shown \<ge> max_diff_lines then ''...'' @ nl
      else show_nat new_line @ ''+ '' @ trim v @ nl @ summary_lines old_line (new_line + 1) (shown + 1) cs)"

definition multiedit_diff_summary :: "edit_env \<Rightarrow> string \<Rightarrow> string \<Rightarrow> string" where
  "multiedit_diff_summary env old new = summary_lines 1 1 0 (ee_diff env old new)"

definition check_mark :: string where "check_mark = [CHR 0xE2, CHR 0x9C, CHR 0x93]"
definition cross_mark :: string where "cross_mark = [CHR 0xE2, CHR 0x9C, CHR 0x97]"

definition listed :: "string \<Rightarrow> string \<Rightarrow> string list \<Rightarrow> string" where
  "listed heading mark msgs =
     (if msgs = [] then [] else heading @ concat (map (\<lambda>m. ''  '' @ mark @ '' '' @ m @ nl) msgs))"

definition multiedit_execute ::
  "edit_env \<Rightarrow> tool_ctx \<Rightarrow> string \<Rightarrow> edit_operation list \<Rightarrow> tool_state \<Rightarrow>
   (tool_error + tool_output) \<times> tool_state" where
  "multiedit_execute env ctx file_path edits st =
     (let file = file_at env ctx file_path
      in case fmlookup (ts_files st) file of
           None \<Rightarrow> (Inl (Failed (''File not found: '' @ file_path)), st)
         | Some None \<Rightarrow> (Inl (Failed not_utf8), st)
         | Some (Some original) \<Rightarrow>
             let (content, applied, failed) = foldl multiedit_step (original, [], []) (enumerate 0 edits);
                 st = write_file file content st
             in (Inr \<lparr>out_text = ''Edited '' @ file_path @ nl @ nl @ listed (''Applied:'' @ nl) check_mark applied @
                   listed (nl @ ''Failed:'' @ nl) cross_mark failed @
                   nl @ ''Total: '' @ show_nat (length applied) @ '' applied, '' @ show_nat (length failed) @ '' failed'' @ nl @
                   (if applied = [] then [] else nl @ ''Diff:'' @ nl @ multiedit_diff_summary env original content),
                  out_title = Some file_path\<rparr>, st))"

end
