(* ===== verification/EditProperties.thy ===== *)
theory EditProperties
  imports EditTools
begin

text \<open>
  What the editing tools promise: an edit replaces the matches of the old text and nothing else, it
  never panics, several edits of one call are the edits one after the other, and which line an edit
  reports.
\<close>

section \<open>Pieces between matches\<close>

lemma split_on_nonempty [simp]: "split_on pat s \<noteq> []"
  by (subst split_on.simps) (simp split: option.split prod.split)

lemma join_Cons: "xs \<noteq> [] \<Longrightarrow> join sep (x # xs) = x @ sep @ join sep xs"
  by (cases xs) simp_all

lemma join_Nil_sep [simp]: "join [] xs = concat xs"
  by (induction "[] :: string" xs rule: join.induct) auto

lemma join_split_on [simp]: "join pat (split_on pat s) = s"
proof (induction pat s rule: split_on.induct)
  case (1 pat s)
  show ?case
  proof (cases "pat = []")
    case True
    then show ?thesis by (simp add: split_on.simps [of "[]"])
  next
    case False
    then show ?thesis
      using 1 [OF False]
      by (cases "split_once pat s")
        (auto simp: split_on.simps [of pat s] join_Cons dest: split_once_Some split: prod.split)
  qed
qed

lemma split_once_before: "split_once pat s = Some (a, b) \<Longrightarrow> pat \<noteq> [] \<Longrightarrow> \<not> str_contains a pat"
proof (induction s arbitrary: a)
  case (Cons c cs)
  show ?case
  proof (cases "prefix pat (c # cs)")
    case True
    with Cons.prems show ?thesis by auto
  next
    case False
    then obtain a' where a': "split_once pat cs = Some (a', b)" "a = c # a'"
      using Cons.prems by auto
    have "\<not> prefix pat (c # a')"
      using False split_once_Some [OF a'(1)] by (metis append_Cons prefix_append)
    then show ?thesis using Cons.IH [OF a'(1) Cons.prems(2)] a'(2) by simp
  qed
qed auto

lemma split_on_pieces: "pat \<noteq> [] \<Longrightarrow> p \<in> set (split_on pat s) \<Longrightarrow> \<not> str_contains p pat"
proof (induction pat s rule: split_on.induct)
  case (1 pat s)
  then show ?case
    by (cases "split_once pat s")
      (auto simp: split_on.simps [of pat s] split_once_None split_once_before)
qed

lemma match_count_zero: "match_count s pat = 0 \<longleftrightarrow> pat \<noteq> [] \<and> \<not> str_contains s pat"
proof -
  have "split_once pat s = None \<longleftrightarrow> \<not> str_contains s pat" by (rule split_once_None)
  then show ?thesis
    by (cases "split_once pat s") (auto simp: match_count_def split_on.simps [of pat s])
qed

lemma split_on_first: "pat \<noteq> [] \<Longrightarrow> split_once pat s = Some (a, b) \<Longrightarrow> split_on pat s = a # split_on pat b"
  by (simp add: split_on.simps [of pat s])

lemma split_on_two: "split_on pat s = [a, b] \<Longrightarrow> split_once pat s = Some (a, b)"
proof (cases "pat = []")
  case True
  moreover assume "split_on pat s = [a, b]"
  ultimately show ?thesis by (cases s) (auto simp: split_on.simps [of "[]"])
next
  case False
  moreover assume eq: "split_on pat s = [a, b]"
  ultimately obtain b' where f: "split_once pat s = Some (a, b')" and r: "split_on pat b' = [b]"
    by (auto simp: split_on.simps [of pat s] split: option.splits)
  then show ?thesis using join_split_on [of pat b'] by simp
qed

text \<open>One replacement and all replacements both put the new text between the pieces.\<close>

lemma replace_first_join: "match_count s pat = 1 \<Longrightarrow> replace_first s pat new = join new (split_on pat s)"
proof -
  assume "match_count s pat = 1"
  then have "length (split_on pat s) = 2" by (simp add: match_count_def)
  then obtain a b where ab: "split_on pat s = [a, b]"
    by (auto simp: numeral_2_eq_2 length_Suc_conv)
  show ?thesis using split_on_two [OF ab] ab by (simp add: replace_first_def)
qed

section \<open>Line numbers\<close>

lemma length_lines_from:
  "length (lines_from acc s) =
     count_list s (CHR 0x0A) + (if (s = [] \<and> acc = []) \<or> (s \<noteq> [] \<and> last s = CHR 0x0A) then 0 else 1)"
proof (induction acc s rule: lines_from.induct)
  case (2 acc c cs)
  show ?case
  proof (cases "c = CHR 0x0A")
    case True
    note IH = 2(1) [OF True]
    show ?thesis by (cases "cs = []") (simp_all add: True IH)
  next
    case False
    note IH = 2(2) [OF False]
    show ?thesis by (cases "cs = []") (simp_all add: False IH)
  qed
qed simp

lemma length_str_lines:
  "length (str_lines s) = count_list s (CHR 0x0A) + (if s = [] \<or> last s = CHR 0x0A then 0 else 1)"
  by (simp add: str_lines_def length_lines_from)

lemma length_str_lines_mono: "length (str_lines a) \<le> length (str_lines (a @ b))"
proof (cases "b = []")
  case False
  show ?thesis
  proof (cases "last b = CHR 0x0A")
    case True
    with False have "1 \<le> count_list b (CHR 0x0A)"
      by (metis One_nat_def Suc_leI count_list_0_iff last_in_set neq0_conv)
    with False show ?thesis by (simp add: length_str_lines)
  qed (use False in \<open>simp add: length_str_lines\<close>)
qed simp

text \<open>
  The line reported for an edit is the line the match begins in, counted from one, if the
  match begins at the start of a line, and one more otherwise: the part of the line in front of the
  match is counted as a line of its own.
\<close>

theorem edit_line_number:
  "case split_once pat content of
     None \<Rightarrow> find_line_number content pat = 1
   | Some (a, b) \<Rightarrow>
       content = a @ pat @ b \<and>
       find_line_number content pat =
         1 + count_list a (CHR 0x0A) + (if a = [] \<or> last a = CHR 0x0A then 0 else 1)"
  using split_once_Some [of pat content]
  by (auto simp: find_line_number_def length_str_lines split: option.split)

section \<open>Edits\<close>

lemma extract_context_defined:
  assumes "edit_start \<le> length (str_lines content) + 1" "edit_start \<le> edit_end + 1"
  shows "extract_context content edit_start edit_end 3 \<noteq> None"
  using assms by (auto simp: extract_context_def slice_def Let_def)

lemma edit_context_defined:
  assumes "split_once old content = Some (a, b)" "new_content = a @ r"
  shows "extract_context new_content (find_line_number content old)
    (find_line_number content old + (length (str_lines new) - 1)) 3 \<noteq> None"
  using assms length_str_lines_mono [of a r]
  by (intro extract_context_defined) (simp_all add: find_line_number_def)

lemma join_starts: "xs \<noteq> [] \<Longrightarrow> \<exists>r. join sep xs = hd xs @ r"
  by (cases "tl xs") (cases xs; auto simp: join_Cons)+

lemma hd_split_on: "split_once pat s = Some (a, b) \<Longrightarrow> hd (split_on pat s) = a"
proof (cases "pat = []")
  case True
  then show "split_once pat s = Some (a, b) \<Longrightarrow> hd (split_on pat s) = a"
    by (cases s) (simp_all add: split_on.simps [of "[]"])
qed (simp add: split_on_first)

lemma flexible_match_no_panic: "old \<noteq> [] \<Longrightarrow> try_flexible_match content old path \<noteq> Panicked"
proof -
  assume "old \<noteq> []"
  have "length (str_lines old) \<noteq> 0"
  proof (cases "last old = CHR 0x0A")
    case True
    then have "CHR 0x0A \<in> set old" using \<open>old \<noteq> []\<close> last_in_set by fastforce
    then have "count_list old (CHR 0x0A) \<noteq> 0" by (simp add: count_list_0_iff)
    then show ?thesis by (simp add: length_str_lines)
  next
    case False
    then show ?thesis using \<open>old \<noteq> []\<close> by (simp add: length_str_lines)
  qed
  then show ?thesis
    by (simp add: try_flexible_match_def Let_def windows_def split: option.split)
qed

lemma edit_new_content:
  assumes "match_count content old \<noteq> 0" "match_count content old \<le> 1 \<or> all"
  shows "(if all then replace_matches content old new else replace_first content old new) = join new (split_on old content)"
  using assms replace_first_join [of content old new] by (auto simp: replace_matches_def)

lemma match_count_found: "match_count s pat \<noteq> 0 \<Longrightarrow> \<exists>a b. split_once pat s = Some (a, b)"
  by (cases s) (auto simp: match_count_zero split_once_None [symmetric] split: if_splits)

lemma edit_missing:
  assumes "case fmlookup (ts_files st) (file_at env ctx (ei_file_path inp)) of Some (Some _) \<Rightarrow> False | _ \<Rightarrow> True"
  shows "\<exists>e. edit_execute env ctx inp st = (Inl (Failed e), st)"
  using assms by (auto simp: edit_execute_def Let_def split: option.splits)

lemma edit_refused:
  assumes "fmlookup (ts_files st) (file_at env ctx (ei_file_path inp)) = Some (Some content)"
    "ei_old inp = ei_new inp \<or> match_count content (ei_old inp) = 0 \<or>
     (1 < match_count content (ei_old inp) \<and> \<not> ei_replace_all inp)"
  shows "\<exists>e. edit_execute env ctx inp st = (Inl (Failed e), st)"
proof (cases "ei_old inp \<noteq> ei_new inp \<and> match_count content (ei_old inp) = 0")
  case True
  then have "try_flexible_match content (ei_old inp) (ei_file_path inp) \<noteq> Panicked"
    by (simp add: flexible_match_no_panic match_count_zero)
  then obtain e where "try_flexible_match content (ei_old inp) (ei_file_path inp) = Failed e"
    by (cases "try_flexible_match content (ei_old inp) (ei_file_path inp)") simp_all
  with True show ?thesis by (simp add: edit_execute_def Let_def assms(1))
next
  case False
  with assms(2) show ?thesis by (cases "ei_old inp = ei_new inp") (auto simp: edit_execute_def Let_def assms(1))
qed

lemma edit_success:
  assumes "fmlookup (ts_files st) (file_at env ctx (ei_file_path inp)) = Some (Some content)"
    "ei_old inp \<noteq> ei_new inp" "match_count content (ei_old inp) \<noteq> 0"
    "match_count content (ei_old inp) \<le> 1 \<or> ei_replace_all inp"
  shows "\<exists>out touch. edit_execute env ctx inp st = (Inr out,
      publish touch (write_file (file_at env ctx (ei_file_path inp))
        (join (ei_new inp) (split_on (ei_old inp) content)) st)) \<and>
    ft_path touch = resolve_path ctx (ei_file_path inp)"
proof -
  let ?n = "match_count content (ei_old inp)"
  obtain a b where ab: "split_once (ei_old inp) content = Some (a, b)"
    using match_count_found [OF assms(3)] by blast
  obtain r' where "join (ei_new inp) (split_on (ei_old inp) content) = a @ r'"
    using join_starts [of "split_on (ei_old inp) content"] hd_split_on [OF ab] by auto
  then obtain first stop shown where
    ctx: "extract_context (join (ei_new inp) (split_on (ei_old inp) content)) (find_line_number content (ei_old inp))
      (find_line_number content (ei_old inp) + (length (str_lines (ei_new inp)) - 1)) 3 = Some (first, stop, shown)"
    using edit_context_defined [OF ab] by fastforce
  have no: "\<not> (1 < ?n \<and> \<not> ei_replace_all inp)" using assms(4) by linarith
  let ?start = "find_line_number content (ei_old inp)"
  have "edit_execute env ctx inp st =
      (Inr (edit_output inp ?n (generate_diff env (ei_old inp) (ei_new inp) ?start) (first, stop, shown)),
       publish (edit_touch ctx inp ?n ?start (generate_diff env (ei_old inp) (ei_new inp) ?start))
         (write_file (file_at env ctx (ei_file_path inp)) (join (ei_new inp) (split_on (ei_old inp) content)) st))"
    unfolding edit_execute_def Let_def assms(1) option.case if_not_P [OF assms(2)] if_not_P [OF assms(3)]
      if_not_P [OF no] edit_new_content [OF assms(3,4)] ctx ..
  moreover have "ft_path (edit_touch ctx inp n k diff) = resolve_path ctx (ei_file_path inp)" for n k diff
    by (simp add: edit_touch_def Let_def)
  ultimately show ?thesis by blast
qed

text \<open>An edit call either fails and changes nothing, or writes one file and reports it.\<close>

lemma edit_cases:
  obtains (failed) e where "edit_execute env ctx inp st = (Inl (Failed e), st)"
  | (edited) content out touch where
      "fmlookup (ts_files st) (file_at env ctx (ei_file_path inp)) = Some (Some content)"
      "ei_old inp \<noteq> ei_new inp" "match_count content (ei_old inp) \<noteq> 0"
      "match_count content (ei_old inp) \<le> 1 \<or> ei_replace_all inp"
      "edit_execute env ctx inp st = (Inr out,
        publish touch (write_file (file_at env ctx (ei_file_path inp))
          (join (ei_new inp) (split_on (ei_old inp) content)) st))"
      "ft_path touch = resolve_path ctx (ei_file_path inp)"
proof (cases "fmlookup (ts_files st) (file_at env ctx (ei_file_path inp))")
  case None
  then show ?thesis using failed edit_missing [of st env ctx inp] by auto
next
  case (Some r)
  show ?thesis
  proof (cases r)
    case None
    then show ?thesis using Some failed edit_missing [of st env ctx inp] by auto
  next
    case content: (Some content)
    let ?n = "match_count content (ei_old inp)"
    consider (fail) "ei_old inp = ei_new inp \<or> ?n = 0 \<or> (?n > 1 \<and> \<not> ei_replace_all inp)"
      | (ok) "ei_old inp \<noteq> ei_new inp" "?n \<noteq> 0" "?n \<le> 1 \<or> ei_replace_all inp"
      by linarith
    then show ?thesis
    proof cases
      case fail
      then show ?thesis using failed edit_refused [OF Some [unfolded content]] by blast
    next
      case ok
      then show ?thesis using edited [OF Some [unfolded content] ok] edit_success [OF Some [unfolded content] ok] by blast
    qed
  qed
qed

text \<open>
  Property C32. An edit never panics. If it fails it changes nothing. If it succeeds exactly the named
  file changes: its old text is its pieces joined by the text to replace, its new text the
  same pieces joined by the replacement; no piece contains the text to replace, and there are two
  pieces unless all matches were to be replaced. One event names the file.
\<close>

theorem edit_correct:
  "case edit_execute env ctx inp st of
     (Inl e, st') \<Rightarrow> e \<noteq> Panicked \<and> st' = st
   | (Inr _, st') \<Rightarrow>
       (\<exists>pieces touch.
          fmlookup (ts_files st) (file_at env ctx (ei_file_path inp)) = Some (Some (join (ei_old inp) pieces)) \<and>
          ts_files st' = fmupd (file_at env ctx (ei_file_path inp)) (Some (join (ei_new inp) pieces)) (ts_files st) \<and>
          2 \<le> length pieces \<and> (length pieces = 2 \<or> ei_replace_all inp) \<and>
          (ei_old inp = [] \<or> list_all (\<lambda>p. \<not> str_contains p (ei_old inp)) pieces) \<and>
          ts_events st' = ts_events st @ [touch] \<and> ft_path touch = resolve_path ctx (ei_file_path inp))"
proof (cases rule: edit_cases [of env ctx inp st])
  case (edited content out touch)
  let ?pieces = "split_on (ei_old inp) content"
  have "length ?pieces \<noteq> 0" by simp
  then have len: "2 \<le> length ?pieces" "length ?pieces = 2 \<or> ei_replace_all inp"
    using edited(3,4) unfolding match_count_def by linarith+
  show ?thesis
    unfolding edited(5) prod.case sum.case
    using edited(1,6) len split_on_pieces [of "ei_old inp" _ content]
    by (intro exI [of _ ?pieces] exI [of _ touch]) (auto simp: publish_def write_file_def list_all_iff)
qed simp

section \<open>Several edits\<close>

text \<open>What one edit makes of a text.\<close>

definition edited_text :: "edit_operation \<Rightarrow> string \<Rightarrow> string" where
  "edited_text e content =
     (let n = match_count content (eo_old e)
      in if eo_old e = eo_new e \<or> n = 0 \<or> (1 < n \<and> \<not> eo_replace_all e) then content
         else join (eo_new e) (split_on (eo_old e) content))"

definition edit_call :: "string \<Rightarrow> edit_operation \<Rightarrow> edit_input" where
  "edit_call path e =
     \<lparr>ei_file_path = path, ei_old = eo_old e, ei_new = eo_new e, ei_replace_all = eo_replace_all e\<rparr>"

lemma multiedit_step_text:
  "\<exists>a f. multiedit_step (content, applied, failed) (i, e) = (edited_text e content, a, f) \<and>
     length a + length f = Suc (length applied + length failed)"
  using replace_first_join [of content "eo_old e" "eo_new e"]
  by (auto simp: multiedit_step_def edited_text_def Let_def replace_matches_def)

lemma multiedit_text:
  "\<exists>a f. foldl multiedit_step (content, applied, failed) (enumerate i es) =
       (foldl (\<lambda>c e. edited_text e c) content es, a, f) \<and>
     length a + length f = length applied + length failed + length es"
proof (induction es arbitrary: content applied failed i)
  case (Cons e es)
  obtain a f where step: "multiedit_step (content, applied, failed) (i, e) = (edited_text e content, a, f)"
    "length a + length f = Suc (length applied + length failed)"
    using multiedit_step_text by blast
  show ?case using Cons [of "edited_text e content" a f "Suc i"] step by auto
qed simp

lemma fmupd_same: "fmlookup m k = Some v \<Longrightarrow> fmupd k v m = m"
  by (intro fmap_ext) auto

lemma edit_call_files:
  assumes "fmlookup (ts_files st) (file_at env ctx path) = Some (Some content)"
  shows "ts_files (snd (edit_execute env ctx (edit_call path e) st)) =
    fmupd (file_at env ctx path) (Some (edited_text e content)) (ts_files st)"
proof -
  let ?inp = "edit_call path e"
  have fields: "ei_file_path ?inp = path" "ei_old ?inp = eo_old e" "ei_new ?inp = eo_new e"
    "ei_replace_all ?inp = eo_replace_all e"
    by (simp_all add: edit_call_def)
  note refused = edit_refused [of st env ctx ?inp content] and success = edit_success [of st env ctx ?inp content]
  show ?thesis
  proof (cases "eo_old e = eo_new e \<or> match_count content (eo_old e) = 0 \<or>
      (1 < match_count content (eo_old e) \<and> \<not> eo_replace_all e)")
    case True
    then show ?thesis
      using refused assms unfolding fields by (auto simp: edited_text_def Let_def fmupd_same)
  next
    case False
    then have "edited_text e content = join (eo_new e) (split_on (eo_old e) content)"
      by (auto simp: edited_text_def Let_def)
    then show ?thesis
      using success assms False unfolding fields by (auto simp: publish_def write_file_def not_less)
  qed
qed

lemma edit_calls_files:
  assumes "fmlookup (ts_files st) (file_at env ctx path) = Some (Some content)"
  shows "ts_files (foldl (\<lambda>st e. snd (edit_execute env ctx (edit_call path e) st)) st es) =
    fmupd (file_at env ctx path) (Some (foldl (\<lambda>c e. edited_text e c) content es)) (ts_files st)"
  using assms
proof (induction es arbitrary: st content)
  case Nil
  then show ?case by (simp add: fmupd_same)
next
  case (Cons e es)
  note files = edit_call_files [OF Cons.prems, of e]
  have "fmlookup (ts_files (snd (edit_execute env ctx (edit_call path e) st))) (file_at env ctx path) =
      Some (Some (edited_text e content))"
    by (simp add: files)
  from Cons.IH [OF this] show ?case by (simp add: files)
qed

text \<open>
  Property C33. Several edits in one call leave the file as the edit tool does when it is called for one
  after the other, refused edits included; the call succeeds if the file can be read, even if it
  refuses every edit, and unlike the edit tool it tells no other session of the change.
\<close>

theorem multiedit_equals_edits:
  "let (r, st') = multiedit_execute env ctx path edits st
   in ts_events st' = ts_events st \<and>
      (case fmlookup (ts_files st) (file_at env ctx path) of
         Some (Some _) \<Rightarrow>
           \<not> isl r \<and>
           ts_files st' = ts_files (foldl (\<lambda>st e. snd (edit_execute env ctx (edit_call path e) st)) st edits)
       | _ \<Rightarrow> isl r \<and> st' = st)"
proof (cases "\<exists>content. fmlookup (ts_files st) (file_at env ctx path) = Some (Some content)")
  case True
  then obtain content where f: "fmlookup (ts_files st) (file_at env ctx path) = Some (Some content)" by blast
  obtain a b where run: "foldl multiedit_step (content, [], []) (enumerate 0 edits) =
      (foldl (\<lambda>c e. edited_text e c) content edits, a, b)"
    using multiedit_text [of content "[]" "[]" 0 edits] by auto
  show ?thesis
    by (simp add: multiedit_execute_def Let_def f run edit_calls_files [OF f] write_file_def)
next
  case False
  then show ?thesis by (auto simp: multiedit_execute_def Let_def split: option.split)
qed

end
