(* ===== verification/PatchTools.thy ===== *)
theory PatchTools
  imports EditTools
begin

text \<open>
  The patch tools: patches in the form of the Codex agent (src/tool/apply_patch.rs), with a parser
  for the patch text and a search for the place of each chunk, and unified diffs (src/tool/patch.rs).
  The parsers walk over the lines not read yet; the code does it with an index.
\<close>

section \<open>The diff shown\<close>

definition trim_end_nl :: "string \<Rightarrow> string" where
  "trim_end_nl s = rev (dropWhile (\<lambda>c. c = CHR 0x0A) (rev s))"

fun patch_diff_lines :: "nat \<Rightarrow> nat \<Rightarrow> nat \<Rightarrow> (change_tag \<times> string) list \<Rightarrow> string" where
  "patch_diff_lines old_line new_line shown [] = []"
| "patch_diff_lines old_line new_line shown ((t, v) # cs) =
     (let content = trim_end_nl v
      in if shown \<ge> max_diff_lines then ''... (diff truncated)'' @ nl
         else case t of
                EqualLine \<Rightarrow> patch_diff_lines (old_line + 1) (new_line + 1) shown cs
              | DeleteLine \<Rightarrow>
                  if trim content = [] then patch_diff_lines (old_line + 1) new_line shown cs
                  else show_nat old_line @ ''- '' @ content @ nl @ patch_diff_lines (old_line + 1) new_line (shown + 1) cs
              | InsertLine \<Rightarrow>
                  if trim content = [] then patch_diff_lines old_line (new_line + 1) shown cs
                  else show_nat new_line @ ''+ '' @ content @ nl @ patch_diff_lines old_line (new_line + 1) (shown + 1) cs)"

definition patch_diff :: "edit_env \<Rightarrow> string \<Rightarrow> string \<Rightarrow> nat \<Rightarrow> string" where
  "patch_diff env old new start_line = trim_end (patch_diff_lines start_line start_line 0 (ee_diff env old new))"

definition patch_diff_summary :: "edit_env \<Rightarrow> string \<Rightarrow> string \<Rightarrow> string" where
  "patch_diff_summary env old new = trim_end (patch_diff_lines 1 1 0 (ee_diff env old new))"

section \<open>Patches of the Codex agent\<close>

record update_chunk =
  uc_change_context :: "string option"
  uc_old_lines :: "string list"
  uc_new_lines :: "string list"
  uc_is_end_of_file :: bool

datatype patch_hunk =
    AddFile string string
  | DeleteFile string
  | UpdateFile string "string option" "update_chunk list"

subsection \<open>Parsing\<close>

definition begin_patch :: string where "begin_patch = ''*** Begin Patch''"
definition end_patch :: string where "end_patch = ''*** End Patch''"
definition end_of_file :: string where "end_of_file = ''*** End of File''"

text \<open>The lines of a file to add, up to the next directive; lines without a plus sign are passed over.\<close>

fun add_body :: "string list \<Rightarrow> string \<times> string list" where
  "add_body [] = ([], [])"
| "add_body (l # ls) =
     (if prefix ''*** '' l then ([], l # ls)
      else let (contents, rest) = add_body ls
           in (case strip_prefix ''+'' l of Some added \<Rightarrow> added @ nl @ contents | None \<Rightarrow> contents, rest))"

text \<open>
  The lines of a chunk: old and new lines, whether it is marked as the end of the file, whether
  there was any diff line, and what is left to read.
\<close>

fun chunk_body :: "bool \<Rightarrow> string list \<Rightarrow> string list \<times> string list \<times> bool \<times> bool \<times> string list" where
  "chunk_body had [] = ([], [], False, had, [])"
| "chunk_body had (cl # ls) =
     (if cl = end_of_file then ([], [], True, had, ls)
      else if prefix ''*** '' cl \<or> prefix ''@@'' cl then ([], [], False, had, cl # ls)
      else case strip_prefix '' '' cl of
        Some c \<Rightarrow> (let (old, new, rest) = chunk_body True ls in (c # old, c # new, rest))
      | None \<Rightarrow>
      case strip_prefix ''+'' cl of
        Some c \<Rightarrow> (let (old, new, rest) = chunk_body True ls in (old, c # new, rest))
      | None \<Rightarrow>
      case strip_prefix ''-'' cl of
        Some c \<Rightarrow> (let (old, new, rest) = chunk_body True ls in (c # old, new, rest))
      | None \<Rightarrow>
      if cl = [] then (let (old, new, rest) = chunk_body True ls in ([] # old, [] # new, rest))
      else if had then ([], [], False, had, cl # ls)
      else chunk_body had ls)"

lemma chunk_body_rest: "chunk_body had ls = (old, new, eof, had', rest) \<Longrightarrow> length rest \<le> length ls"
  by (induction had ls arbitrary: old new eof had' rest rule: chunk_body.induct)
    (fastforce split: if_splits option.splits prod.splits)+

lemma add_body_rest: "add_body ls = (contents, rest) \<Longrightarrow> length rest \<le> length ls"
  by (induction ls arbitrary: contents rest) (fastforce split: if_splits option.splits prod.splits)+

text \<open>
  How a chunk begins: after the context line (with or without a context), or right away if it is
  the first; None ends the list of chunks.
\<close>

definition chunk_start :: "bool \<Rightarrow> string \<Rightarrow> string list \<Rightarrow> (string option \<times> string list) option" where
  "chunk_start first l ls =
     (let current = trim_end l
      in if current = ''@@'' then Some (None, ls)
         else case strip_prefix ''@@ '' current of
                Some ctx \<Rightarrow> Some (Some ctx, ls)
              | None \<Rightarrow> if first then Some (None, l # ls) else None)"

lemma chunk_start_rest:
  "chunk_start first l ls = Some (ctx, body) \<Longrightarrow> length body \<le> length ls \<or> (first \<and> body = l # ls)"
  by (auto simp: chunk_start_def Let_def split: if_splits option.splits)

lemma chunk_progress:
  assumes "chunk_start first l ls = Some (ctx, body)" "(old, new, eof, had, rest) = chunk_body False body"
  shows "2 * length rest < 2 * length (l # ls) + (if first then 1 else 0)"
  using chunk_start_rest [OF assms(1)] chunk_body_rest [OF assms(2) [symmetric]] by auto

function parse_chunks :: "bool \<Rightarrow> string list \<Rightarrow> update_chunk list \<times> string list" where
  "parse_chunks first [] = ([], [])"
| "parse_chunks first (l # ls) =
     (let current = trim_end l
      in if prefix ''*** '' current \<and> current \<noteq> end_of_file then ([], l # ls)
         else if trim current = [] \<and> \<not> prefix '' '' current \<and> \<not> prefix ''+'' current \<and> \<not> prefix ''-'' current
         then parse_chunks first ls
         else case chunk_start first l ls of
                None \<Rightarrow> ([], l # ls)
              | Some (ctx, body) \<Rightarrow>
                  (case chunk_body False body of
                     (old, new, eof, had, rest) \<Rightarrow>
                       (let (chunks, rest) = parse_chunks False rest
                        in (if had \<or> ctx \<noteq> None
                            then \<lparr>uc_change_context = ctx, uc_old_lines = old, uc_new_lines = new,
                                   uc_is_end_of_file = eof\<rparr> # chunks
                            else chunks, rest))))"
  by pat_completeness auto
termination
  by (relation "measure (\<lambda>(first, ls). 2 * length ls + (if first then 1 else 0))")
    (auto dest!: chunk_progress split: if_splits)

declare parse_chunks.simps [simp del]

lemma parse_chunks_rest: "parse_chunks first ls = (chunks, rest) \<Longrightarrow> length rest \<le> length ls"
proof (induction first ls arbitrary: chunks rest rule: parse_chunks.induct)
  case (2 first l ls)
  show ?case
  proof (cases "chunk_start first l ls")
    case None
    then show ?thesis
      using "2.prems" "2.IH"(1) by (fastforce simp: parse_chunks.simps Let_def split: if_splits)
  next
    case (Some p)
    obtain ctx body where p: "p = (ctx, body)" by fastforce
    obtain old new eof had r where b: "chunk_body False body = (old, new, eof, had, r)" by (metis prod_cases5)
    have "length r \<le> Suc (length ls)"
      using chunk_body_rest [OF b] chunk_start_rest [OF Some [unfolded p]] by auto
    show ?thesis
    proof (cases "(prefix ''*** '' (trim_end l) \<and> trim_end l \<noteq> end_of_file) \<or> (trim (trim_end l) = [] \<and>
        \<not> prefix '' '' (trim_end l) \<and> \<not> prefix ''+'' (trim_end l) \<and> \<not> prefix ''-'' (trim_end l))")
      case True
      then show ?thesis using "2.prems" "2.IH"(1) by (fastforce simp: parse_chunks.simps Let_def split: if_splits)
    next
      case False
      then have IH: "parse_chunks False r = (cs, rs) \<Longrightarrow> length rs \<le> length r" for cs rs
        using "2.IH"(2) [OF refl _ _ Some] by (auto simp: p b)
      obtain cs rs where r: "parse_chunks False r = (cs, rs)" by fastforce
      have "rest = rs" using "2.prems" False by (auto simp: parse_chunks.simps(2) Let_def Some p b r split: if_splits)
      then show ?thesis using IH [OF r] \<open>length r \<le> Suc (length ls)\<close> by simp
    qed
  qed
qed (simp add: parse_chunks.simps)

text \<open>A directive names its file by a prefix.\<close>

definition update_head :: "string list \<Rightarrow> string option \<times> string list" where
  "update_head ls =
     (case ls of
        [] \<Rightarrow> (None, [])
      | l # rest \<Rightarrow>
          (case strip_prefix ''*** Move to: '' (trim_end l) of
             Some target \<Rightarrow> (Some (trim target), rest)
           | None \<Rightarrow> (None, l # rest)))"

lemma update_head_rest: "update_head ls = (move_to, body) \<Longrightarrow> length body \<le> length ls"
  by (auto simp: update_head_def split: list.splits option.splits)

function parse_hunks :: "string list \<Rightarrow> string + patch_hunk list" where
  "parse_hunks [] = Inr []"
| "parse_hunks (l # ls) =
     (let line = trim_end l
      in if trim line = end_patch then Inr []
         else case strip_prefix ''*** Add File: '' line of
           Some path \<Rightarrow>
             (let (contents, rest) = add_body ls
              in map_sum id ((#) (AddFile (trim path) contents)) (parse_hunks rest))
         | None \<Rightarrow>
         case strip_prefix ''*** Delete File: '' line of
           Some path \<Rightarrow> map_sum id ((#) (DeleteFile (trim path))) (parse_hunks ls)
         | None \<Rightarrow>
         case strip_prefix ''*** Update File: '' line of
           Some path \<Rightarrow>
             (let (move_to, body) = update_head ls; (chunks, rest) = parse_chunks True body
              in if chunks = [] then Inl (''Update file hunk for '' @ quoted (trim path) @ '' has no changes'')
                 else map_sum id ((#) (UpdateFile (trim path) move_to chunks)) (parse_hunks rest))
         | None \<Rightarrow> parse_hunks ls)"
  by pat_completeness auto
termination
proof (relation "measure length")
  fix l :: string and ls :: "string list" and line path p contents and rest :: "string list"
  assume "p = add_body ls" "(contents, rest) = p"
  then show "(rest, l # ls) \<in> measure length" using add_body_rest [of ls contents rest] by simp
next
  fix l :: string and ls :: "string list" and line path p move_to q chunks and body rest :: "string list"
  assume "p = update_head ls" "(move_to, body) = p" "q = parse_chunks True body" "(chunks, rest) = q"
  then show "(rest, l # ls) \<in> measure length"
    using update_head_rest [of ls move_to body] parse_chunks_rest [of True body chunks rest] by simp
qed auto

declare parse_hunks.simps [simp del]

definition parse_apply_patch :: "string \<Rightarrow> string + patch_hunk list" where
  "parse_apply_patch input =
     (let ls = str_lines input
      in case position (\<lambda>l. trim l = begin_patch) ls of
           None \<Rightarrow> Inl ''Patch must contain *** Begin Patch''
         | Some start \<Rightarrow>
             (case parse_hunks (drop (Suc start) ls) of
                Inl e \<Rightarrow> Inl e
              | Inr hunks \<Rightarrow> if hunks = [] then Inl ''No valid patch directives found'' else Inr hunks))"

subsection \<open>Finding and replacing lines\<close>

definition lines_match :: "(string \<Rightarrow> string) \<Rightarrow> string list \<Rightarrow> string list \<Rightarrow> nat \<Rightarrow> bool" where
  "lines_match f ls pat i \<longleftrightarrow> map f (take (length pat) (drop i ls)) = map f pat"

definition or_else :: "'a option \<Rightarrow> 'a option \<Rightarrow> 'a option" where
  "or_else a b = (case a of Some x \<Rightarrow> Some x | None \<Rightarrow> b)"

definition seek_sequence :: "string list \<Rightarrow> string list \<Rightarrow> nat \<Rightarrow> bool \<Rightarrow> nat option" where
  "seek_sequence ls pat start eof =
     (if pat = [] then Some start
      else if length pat > length ls then None
      else
        let search_start = (if eof \<and> length ls \<ge> length pat then length ls - length pat else start);
            candidates = [search_start..<Suc (length ls - length pat)]
        in or_else (find (lines_match id ls pat) candidates)
             (or_else (find (lines_match trim_end ls pat) candidates)
                (find (lines_match trim ls pat) candidates)))"

type_synonym replacement = "nat \<times> nat \<times> string list"

definition last_blank :: "string list \<Rightarrow> bool" where
  "last_blank ls \<longleftrightarrow> ls \<noteq> [] \<and> last ls = []"

text \<open>The search for the old lines is repeated without a blank last one.\<close>

definition find_chunk :: "string list \<Rightarrow> nat \<Rightarrow> update_chunk \<Rightarrow> replacement option" where
  "find_chunk original line_index chunk =
     (let pat = uc_old_lines chunk; new = uc_new_lines chunk; eof = uc_is_end_of_file chunk
      in case seek_sequence original pat line_index eof of
           Some i \<Rightarrow> Some (i, length pat, new)
         | None \<Rightarrow>
             if last_blank pat then
               (let pat = butlast pat; new = (if last_blank new then butlast new else new)
                in map_option (\<lambda>i. (i, length pat, new)) (seek_sequence original pat line_index eof))
             else None)"

fun locate_chunks ::
  "string list \<Rightarrow> string \<Rightarrow> nat \<Rightarrow> update_chunk list \<Rightarrow> string + replacement list" where
  "locate_chunks original path line_index [] = Inr []"
| "locate_chunks original path line_index (chunk # chunks) =
     (case (case uc_change_context chunk of
              None \<Rightarrow> Inr line_index
            | Some ctx \<Rightarrow>
                (case seek_sequence original [ctx] line_index False of
                   Some idx \<Rightarrow> Inr (idx + 1)
                 | None \<Rightarrow> Inl (''Failed to find context '' @ quoted ctx @ '' in '' @ path))) of
        Inl e \<Rightarrow> Inl e
      | Inr line_index \<Rightarrow>
          if uc_old_lines chunk = [] then
            let at = (if last_blank original then length original - 1 else length original)
            in map_sum id ((#) (at, 0, uc_new_lines chunk)) (locate_chunks original path line_index chunks)
          else case find_chunk original line_index chunk of
            Some (i, n, new) \<Rightarrow>
              map_sum id ((#) (i, n, new)) (locate_chunks original path (i + n) chunks)
          | None \<Rightarrow> Inl (''Failed to find expected lines in '' @ path @ '':'' @ nl @ join nl (uc_old_lines chunk)))"

definition compute_replacements :: "string list \<Rightarrow> string \<Rightarrow> update_chunk list \<Rightarrow> string + replacement list" where
  "compute_replacements original path chunks = map_sum id (sort_key fst) (locate_chunks original path 0 chunks)"

text \<open>Inserting behind the end of the lines panics.\<close>

definition replace_lines :: "replacement \<Rightarrow> string list \<Rightarrow> string list option" where
  "replace_lines r ls =
     (case r of (start, old_len, new) \<Rightarrow>
        if new \<noteq> [] \<and> start > length ls then None
        else Some (take start ls @ new @ drop (start + old_len) ls))"

definition apply_replacements :: "string list \<Rightarrow> replacement list \<Rightarrow> string list option" where
  "apply_replacements ls rs = foldr (\<lambda>r acc. Option.bind acc (replace_lines r)) rs (Some ls)"

definition original_lines :: "string \<Rightarrow> string list" where
  "original_lines content =
     (let ls = split_on nl content in if last_blank ls then butlast ls else ls)"

definition updated_text :: "string list \<Rightarrow> string" where
  "updated_text ls = join nl (if last_blank ls then ls else ls @ [[]])"

definition apply_update_chunks :: "string \<Rightarrow> string \<Rightarrow> update_chunk list \<Rightarrow> tool_error + string" where
  "apply_update_chunks path content chunks =
     (case compute_replacements (original_lines content) path chunks of
        Inl e \<Rightarrow> Inl (Failed e)
      | Inr rs \<Rightarrow>
          (case apply_replacements (original_lines content) rs of
             None \<Rightarrow> Inl Panicked
           | Some ls \<Rightarrow> Inr (updated_text ls)))"

subsection \<open>Running a patch\<close>

definition no_such_file :: string where
  "no_such_file = ''No such file or directory (os error 2)''"

definition publish_patch_touch :: "tool_ctx \<Rightarrow> string \<Rightarrow> string \<Rightarrow> string \<Rightarrow> tool_state \<Rightarrow> tool_state" where
  "publish_patch_touch ctx path verb diff st =
     publish \<lparr>ft_session_id = tc_session_id ctx, ft_path = resolve_path ctx path, ft_op = FileEdit,
       ft_summary = Some (verb @ '' via apply_patch''), ft_detail = build_file_touch_preview diff\<rparr> st"

definition with_diff :: "string \<Rightarrow> string \<Rightarrow> string" where
  "with_diff line diff = (if diff = [] then line else line @ nl @ diff)"

type_synonym patch_progress = "string list \<times> string list \<times> tool_state"

definition run_hunk :: "edit_env \<Rightarrow> tool_ctx \<Rightarrow> patch_hunk \<Rightarrow> patch_progress \<Rightarrow> tool_error + patch_progress" where
  "run_hunk env ctx hunk pr =
     (let (results, touched, st) = pr
      in case hunk of
           AddFile path contents \<Rightarrow>
             let diff = patch_diff_summary env [] contents;
                 st = publish_patch_touch ctx path ''created'' diff (write_file (file_at env ctx path) contents st)
             in Inr (results @ [with_diff (check_mark @ '' '' @ path @ '': created'') diff], touched @ [path], st)
         | DeleteFile path \<Rightarrow>
             (case fmlookup (ts_files st) (file_at env ctx path) of
                None \<Rightarrow> Inr (results @ [cross_mark @ '' '' @ path @ '': failed to delete''], touched, st)
              | Some old \<Rightarrow>
                  let diff = patch_diff_summary env (case old of Some s \<Rightarrow> s | None \<Rightarrow> []) [];
                      st = publish_patch_touch ctx path ''deleted'' diff (remove_file (file_at env ctx path) st)
                  in Inr (results @ [with_diff (check_mark @ '' '' @ path @ '': deleted'') diff], touched @ [path], st))
         | UpdateFile path move_to chunks \<Rightarrow>
             (case (case fmlookup (ts_files st) (file_at env ctx path) of
                      None \<Rightarrow> Inl (Failed no_such_file)
                    | Some None \<Rightarrow> Inl (Failed not_utf8)
                    | Some (Some old) \<Rightarrow>
                        map_sum id (Pair old) (apply_update_chunks (resolve_path ctx path) old chunks)) of
                Inl Panicked \<Rightarrow> Inl Panicked
              | Inl (Failed e) \<Rightarrow> Inr (results @ [cross_mark @ '' '' @ path @ '': '' @ e], touched, st)
              | Inr (old, new) \<Rightarrow>
                  let diff = patch_diff_summary env old new;
                      modified = check_mark @ '' '' @ path @ '': modified ('' @ show_nat (length chunks) @ '' hunks)''
                  in case move_to of
                       Some dest \<Rightarrow>
                         let st = remove_file (file_at env ctx path) (write_file (file_at env ctx dest) new st);
                             st = publish_patch_touch ctx dest ''modified'' diff
                               (publish_patch_touch ctx path ''modified'' diff st)
                         in Inr (results @ [with_diff (modified @ '', moved to '' @ dest) diff], touched @ [path, dest], st)
                     | None \<Rightarrow>
                         let st = publish_patch_touch ctx path ''modified'' diff (write_file (file_at env ctx path) new st)
                         in Inr (results @ [with_diff modified diff], touched @ [path], st)))"

text \<open>A panic leaves the files as the hunks before it made them.\<close>

fun run_hunks :: "edit_env \<Rightarrow> tool_ctx \<Rightarrow> patch_hunk list \<Rightarrow> patch_progress \<Rightarrow> patch_progress option \<times> tool_state" where
  "run_hunks env ctx [] pr = (Some pr, snd (snd pr))"
| "run_hunks env ctx (h # hs) pr =
     (case run_hunk env ctx h pr of
        Inl _ \<Rightarrow> (None, snd (snd pr))
      | Inr pr \<Rightarrow> run_hunks env ctx hs pr)"

definition apply_patch_execute ::
  "edit_env \<Rightarrow> tool_ctx \<Rightarrow> string \<Rightarrow> tool_state \<Rightarrow> (tool_error + tool_output) \<times> tool_state" where
  "apply_patch_execute env ctx patch_text st =
     (case parse_apply_patch patch_text of
        Inl e \<Rightarrow> (Inl (Failed e), st)
      | Inr hunks \<Rightarrow>
          (case run_hunks env ctx hunks ([], [], st) of
             (None, st) \<Rightarrow> (Inl Panicked, st)
           | (Some (results, touched, _), st) \<Rightarrow>
               (Inr (if results = [] then \<lparr>out_text = ''No changes applied'', out_title = None\<rparr>
                  else \<lparr>out_text = join nl results,
                    out_title = Some (case touched of [p] \<Rightarrow> p | _ \<Rightarrow> show_nat (length touched) @ '' files'')\<rparr>), st)))"

section \<open>Unified diffs\<close>

record unified_hunk =
  uh_old_start :: nat
  uh_old_lines :: "string list"
  uh_new_lines :: "string list"

record file_patch =
  fp_path :: string
  fp_hunks :: "unified_hunk list"
  fp_is_new :: bool
  fp_is_delete :: bool

definition parse_usize :: "string \<Rightarrow> nat option" where
  "parse_usize s =
     (let digits = (case strip_prefix ''+'' s of Some r \<Rightarrow> r | None \<Rightarrow> s)
      in if digits \<noteq> [] \<and> list_all (\<lambda>c. 48 \<le> (of_char c :: nat) \<and> (of_char c :: nat) \<le> 57) digits \<and>
            read_nat digits < 2 ^ 64
         then Some (read_nat digits) else None)"

definition before_char :: "char \<Rightarrow> string \<Rightarrow> string" where
  "before_char c s = takeWhile (\<lambda>d. d \<noteq> c) s"

definition strip_or_same :: "string \<Rightarrow> string \<Rightarrow> string" where
  "strip_or_same pre s = (case strip_prefix pre s of Some r \<Rightarrow> r | None \<Rightarrow> s)"

definition header_start :: "string \<Rightarrow> nat option" where
  "header_start header =
     (let parts = split_whitespace header
      in if length parts < 3 then None
         else Some (case parse_usize (before_char (CHR '','') (strip_or_same ''-'' (parts ! 1))) of
                      Some n \<Rightarrow> n | None \<Rightarrow> 1))"

fun unified_body :: "string list \<Rightarrow> string list \<times> string list \<times> string list" where
  "unified_body [] = ([], [], [])"
| "unified_body (l # ls) =
     (if prefix ''@@'' l \<or> prefix ''---'' l then ([], [], l # ls)
      else let (old, new, rest) = unified_body ls
           in case strip_prefix ''-'' l of
                Some c \<Rightarrow> (c # old, new, rest)
              | None \<Rightarrow>
              case strip_prefix ''+'' l of
                Some c \<Rightarrow> (old, c # new, rest)
              | None \<Rightarrow>
              case strip_prefix '' '' l of
                Some c \<Rightarrow> (c # old, c # new, rest)
              | None \<Rightarrow> (old, new, rest))"

lemma unified_body_rest: "unified_body ls = (old, new, rest) \<Longrightarrow> length rest \<le> length ls"
  by (induction ls arbitrary: old new rest) (fastforce split: if_splits option.splits prod.splits)+

function unified_hunks :: "string list \<Rightarrow> unified_hunk list \<times> string list" where
  "unified_hunks [] = ([], [])"
| "unified_hunks (l # ls) =
     (if prefix ''---'' l then ([], l # ls)
      else if prefix ''@@'' l then
        (case header_start l of
           None \<Rightarrow> unified_hunks ls
         | Some start \<Rightarrow>
             (case unified_body ls of
                (old, new, rest) \<Rightarrow>
                  (let (hunks, rest) = unified_hunks rest
                   in (\<lparr>uh_old_start = start, uh_old_lines = old, uh_new_lines = new\<rparr> # hunks, rest))))
      else unified_hunks ls)"
  by pat_completeness auto
termination
  by (relation "measure length") (auto dest: unified_body_rest [OF sym])

declare unified_hunks.simps [simp del]

lemma unified_hunks_rest: "unified_hunks ls = (hunks, rest) \<Longrightarrow> length rest \<le> length ls"
proof (induction ls arbitrary: hunks rest rule: unified_hunks.induct)
  case (2 l ls)
  obtain old new r where b: "unified_body ls = (old, new, r)" by (metis prod_cases3)
  then have "length r \<le> length ls" by (rule unified_body_rest)
  with 2 b show ?case
    by (fastforce simp: unified_hunks.simps(2) [of l] split: if_splits option.splits prod.splits)
qed (simp add: unified_hunks.simps)

definition header_file :: "string \<Rightarrow> string \<Rightarrow> string" where
  "header_file pre l = before_char (CHR 0x09) (case strip_prefix pre l of Some r \<Rightarrow> r | None \<Rightarrow> [])"

function parse_patch_lines :: "string list \<Rightarrow> file_patch list" where
  "parse_patch_lines [] = []"
| "parse_patch_lines (l # ls) =
     (if \<not> prefix ''---'' l then parse_patch_lines ls
      else case ls of
        [] \<Rightarrow> []
      | l' # ls' \<Rightarrow>
          if \<not> prefix ''+++'' l' then parse_patch_lines ls
          else
            let old_file = header_file ''--- '' l; new_file = header_file ''+++ '' l';
                path = (if new_file = ''/dev/null'' then strip_or_same ''a/'' old_file else strip_or_same ''b/'' new_file);
                is_new = (old_file = ''/dev/null''); is_delete = (new_file = ''/dev/null'')
            in case unified_hunks ls' of
                 (hunks, rest) \<Rightarrow>
                   (if hunks \<noteq> [] \<or> is_new \<or> is_delete
                    then [\<lparr>fp_path = path, fp_hunks = hunks, fp_is_new = is_new, fp_is_delete = is_delete\<rparr>] else [])
                   @ parse_patch_lines rest)"
  by pat_completeness auto
termination
  by (relation "measure length") (auto dest: unified_hunks_rest [OF sym])

declare parse_patch_lines.simps [simp del]

definition parse_patch :: "string \<Rightarrow> file_patch list" where
  "parse_patch s = parse_patch_lines (str_lines s)"

text \<open>Replacing a range that starts behind the end of the lines panics.\<close>

definition splice_hunk :: "unified_hunk \<Rightarrow> string list \<Rightarrow> string list option" where
  "splice_hunk h ls =
     (let start = uh_old_start h - 1; stop = min (start + length (uh_old_lines h)) (length ls)
      in if start > stop then None else Some (take start ls @ uh_new_lines h @ drop stop ls))"

definition apply_unified :: "unified_hunk list \<Rightarrow> string list \<Rightarrow> string list option" where
  "apply_unified hs ls = foldr (\<lambda>h acc. Option.bind acc (splice_hunk h)) hs (Some ls)"

definition first_start :: "unified_hunk list \<Rightarrow> nat" where
  "first_start hs = (case map uh_old_start hs of [] \<Rightarrow> 1 | n # ns \<Rightarrow> foldl min n ns)"

definition apply_patch_with_diff ::
  "edit_env \<Rightarrow> tool_ctx \<Rightarrow> file_patch \<Rightarrow> tool_state \<Rightarrow> (tool_error + string \<times> string) \<times> tool_state" where
  "apply_patch_with_diff env ctx p st =
     (let file = file_at env ctx (fp_path p)
      in if fp_is_delete p then
           (case fmlookup (ts_files st) file of
              None \<Rightarrow> (Inl (Failed ''file does not exist''), st)
            | Some old \<Rightarrow>
                (Inr (''deleted'', patch_diff env (case old of Some s \<Rightarrow> s | None \<Rightarrow> []) [] 1), remove_file file st))
         else if fp_is_new p then
           (case fmlookup (ts_files st) file of
              Some _ \<Rightarrow> (Inl (Failed ''file already exists''), st)
            | None \<Rightarrow>
                let content = concat (map (\<lambda>l. l @ nl) (concat (map uh_new_lines (fp_hunks p))))
                in (Inr (''created'', patch_diff env [] content 1), write_file file content st))
         else
           (case fmlookup (ts_files st) file of
              None \<Rightarrow> (Inl (Failed ''file does not exist''), st)
            | Some None \<Rightarrow> (Inl (Failed not_utf8), st)
            | Some (Some old) \<Rightarrow>
                (case apply_unified (fp_hunks p) (str_lines old) of
                   None \<Rightarrow> (Inl Panicked, st)
                 | Some ls \<Rightarrow>
                     let new = join nl ls @ nl
                     in (Inr (''modified ('' @ show_nat (length (fp_hunks p)) @ '' hunks)'',
                          patch_diff env old new (first_start (fp_hunks p))), write_file file new st))))"

fun run_patches :: "edit_env \<Rightarrow> tool_ctx \<Rightarrow> file_patch list \<Rightarrow> string list \<Rightarrow> tool_state \<Rightarrow> string list option \<times> tool_state" where
  "run_patches env ctx [] results st = (Some results, st)"
| "run_patches env ctx (p # ps) results st =
     (case apply_patch_with_diff env ctx p st of
        (Inl Panicked, st) \<Rightarrow> (None, st)
      | (Inl (Failed e), st) \<Rightarrow> run_patches env ctx ps (results @ [cross_mark @ '' '' @ fp_path p @ '': '' @ e]) st
      | (Inr (msg, diff), st) \<Rightarrow>
          run_patches env ctx ps (results @ [with_diff (check_mark @ '' '' @ fp_path p @ '': '' @ msg) diff]) st)"

definition patch_execute ::
  "edit_env \<Rightarrow> tool_ctx \<Rightarrow> string \<Rightarrow> tool_state \<Rightarrow> (tool_error + tool_output) \<times> tool_state" where
  "patch_execute env ctx patch_text st =
     (let patches = parse_patch patch_text
      in if patches = [] then (Inl (Failed ''No valid patches found in input''), st)
         else case run_patches env ctx patches [] st of
           (None, st) \<Rightarrow> (Inl Panicked, st)
         | (Some results, st) \<Rightarrow> (Inr \<lparr>out_text = join (nl @ nl) results, out_title = None\<rparr>, st))"

end
