(* ===== verification/PatchProperties.thy ===== *)
theory PatchProperties
  imports PatchTools EditProperties
begin

text \<open>
  What the patch tools promise: where a chunk is found, that applying the chunks of an update replaces
  the places found and nothing else but a blank last line and never panics, which addition is lost, what a rewritten file looks like at its end,
  that the printed form of a patch is parsed back; and for unified diffs, that they turn
  the old text into the new one, and what happens when they do not fit.
\<close>

section \<open>Finding lines\<close>

lemma find_Some: "find P xs = Some x \<longleftrightarrow> (\<exists>i < length xs. xs ! i = x \<and> P x \<and> (\<forall>j < i. \<not> P (xs ! j)))"
  by (auto simp: find_Some_iff)

lemma find_upt:
  "find P [a..<b] = Some i \<longleftrightarrow> a \<le> i \<and> i < b \<and> P i \<and> (\<forall>j. a \<le> j \<and> j < i \<longrightarrow> \<not> P j)"
proof -
  have "(\<exists>k < b - a. a + k = i \<and> P i \<and> (\<forall>j < k. \<not> P (a + j))) \<longleftrightarrow>
      a \<le> i \<and> i < b \<and> P i \<and> (\<forall>j. a \<le> j \<and> j < i \<longrightarrow> \<not> P j)" (is "?L \<longleftrightarrow> ?R")
  proof
    assume ?R
    then show ?L by (intro exI [of _ "i - a"]) auto
  next
    assume ?L
    then obtain k where k: "k < b - a" "a + k = i" "P i" "\<forall>j < k. \<not> P (a + j)" by blast
    have "\<not> P j" if "a \<le> j" "j < i" for j
      using k(2,4) that by (metis add_diff_inverse_nat less_diff_conv2 nat_add_left_cancel_less not_less)
    with k show ?R by auto
  qed
  then show ?thesis by (simp add: find_Some cong: conj_cong)
qed

lemma find_upt_None: "find P [a..<b] = None \<longleftrightarrow> (\<forall>j. a \<le> j \<and> j < b \<longrightarrow> \<not> P j)"
  by (auto simp: find_None_iff)



lemma or_else_Some: "or_else a b = Some x \<longleftrightarrow> a = Some x \<or> (a = None \<and> b = Some x)"
  by (simp add: or_else_def split: option.split)

text \<open>A place found lies in the lines, and there the lines agree up to white space around them.\<close>

lemma seek_found:
  assumes "seek_sequence ls pat start eof = Some i" "pat \<noteq> []"
  shows "i + length pat \<le> length ls" "\<not> eof \<Longrightarrow> start \<le> i"
    "\<exists>f \<in> {id, trim_end, trim}. lines_match f ls pat i"
proof -
  let ?s = "if eof \<and> length ls \<ge> length pat then length ls - length pat else start"
  have len: "length pat \<le> length ls" using assms by (simp add: seek_sequence_def split: if_splits)
  have "or_else (find (lines_match id ls pat) [?s..<Suc (length ls - length pat)])
      (or_else (find (lines_match trim_end ls pat) [?s..<Suc (length ls - length pat)])
        (find (lines_match trim ls pat) [?s..<Suc (length ls - length pat)])) = Some i"
    using assms(1) unfolding seek_sequence_def Let_def if_not_P [OF assms(2)] if_not_P [OF len [folded not_less]] .
  then obtain f where f: "f \<in> {id, trim_end, trim}" "find (lines_match f ls pat) [?s..<Suc (length ls - length pat)] = Some i"
    unfolding or_else_Some by blast
  have at: "?s \<le> i" "i \<le> length ls - length pat" "lines_match f ls pat i"
    using f(2) unfolding find_upt by simp_all
  show "i + length pat \<le> length ls" using at(2) len by linarith
  show "start \<le> i" if "\<not> eof" using at(1) that by simp
  show "\<exists>f \<in> {id, trim_end, trim}. lines_match f ls pat i" using f(1) at(3) by blast
qed

lemma seek_bound: "seek_sequence ls pat start eof = Some i \<Longrightarrow> start \<le> length ls \<Longrightarrow> i + length pat \<le> length ls"
  by (cases "pat = []") (simp add: seek_sequence_def, rule seek_found(1))

section \<open>Replacing lines\<close>

text \<open>Replacements that lie one behind the other, from a position on, in lines of a given number.\<close>

fun ascending :: "nat \<Rightarrow> nat \<Rightarrow> replacement list \<Rightarrow> bool" where
  "ascending pos len [] \<longleftrightarrow> pos \<le> len"
| "ascending pos len ((i, n, new) # rs) \<longleftrightarrow> pos \<le> i \<and> ascending (i + n) len rs"

text \<open>The lines from a position on, with the places replaced: what a patch is to make of a file.\<close>

fun patched :: "nat \<Rightarrow> replacement list \<Rightarrow> string list \<Rightarrow> string list" where
  "patched pos [] ls = drop pos ls"
| "patched pos ((i, n, new) # rs) ls = take (i - pos) (drop pos ls) @ new @ patched (i + n) rs ls"

lemma ascending_le: "ascending pos len rs \<Longrightarrow> pos \<le> len"
  by (induction pos len rs rule: ascending.induct) auto

lemma patched_from:
  "ascending pos (length ls) rs \<Longrightarrow> foldr (\<lambda>r acc. Option.bind acc (replace_lines r)) rs (Some ls) = Some (take pos ls @ patched pos rs ls)"
proof (induction pos "length ls" rs rule: ascending.induct)
  case (2 pos i n new rs)
  then have le: "pos \<le> i" "i + n \<le> length ls" by (auto dest: ascending_le)
  have "drop (i + n) (take (i + n) ls @ patched (i + n) rs ls) = patched (i + n) rs ls" using le by simp
  moreover have "take i (take (i + n) ls @ patched (i + n) rs ls) = take i ls" using le by (simp add: min_def)
  moreover have "take i ls = take pos ls @ take (i - pos) (drop pos ls)"
    using le(1) by (metis le_add_diff_inverse take_add)
  ultimately show ?case using 2 le by (simp add: replace_lines_def)
qed simp

lemma apply_replacements_patched:
  "ascending 0 (length ls) rs \<Longrightarrow> apply_replacements ls rs = Some (patched 0 rs ls)"
  using patched_from [of 0 ls rs] by (simp add: apply_replacements_def)

lemma replace_in_range:
  assumes "sorted (map fst rs)" "\<forall>r \<in> set rs. fst r \<le> length ls"
  shows "\<exists>ls'. foldr (\<lambda>r acc. Option.bind acc (replace_lines r)) rs (Some ls) = Some ls' \<and>
    (\<forall>k \<le> length ls. (\<forall>r \<in> set rs. k \<le> fst r) \<longrightarrow> k \<le> length ls')"
  using assms
proof (induction rs)
  case (Cons r rs)
  obtain i n new where r: "r = (i, n, new)" by (metis prod_cases3)
  obtain ls' where ls': "foldr (\<lambda>r acc. Option.bind acc (replace_lines r)) rs (Some ls) = Some ls'"
    "\<forall>k \<le> length ls. (\<forall>r \<in> set rs. k \<le> fst r) \<longrightarrow> k \<le> length ls'"
    using Cons by auto
  have "i \<le> length ls" "\<forall>r \<in> set rs. i \<le> fst r" using Cons.prems by (simp_all add: r)
  then have "i \<le> length ls'" using ls'(2) by blast
  then have "replace_lines (i, n, new) ls' = Some (take i ls' @ new @ drop (i + n) ls')"
    by (simp add: replace_lines_def)
  then have run: "foldr (\<lambda>r acc. Option.bind acc (replace_lines r)) (r # rs) (Some ls) =
      Some (take i ls' @ new @ drop (i + n) ls')"
    by (simp add: ls'(1) r)
  have "k \<le> length (take i ls' @ new @ drop (i + n) ls')" if "k \<le> i" for k
    using that \<open>i \<le> length ls'\<close> by simp
  then show ?case using run by (intro exI [of _ "take i ls' @ new @ drop (i + n) ls'"]) (simp add: r)
qed simp

section \<open>The places of chunks\<close>

text \<open>
  A replacement fits a chunk if the lines replaced agree, up to white space around them, with the old
  lines, or with these less a blank last one (which is then taken from the new lines as well).
\<close>

definition without_blank :: "string list \<Rightarrow> string list" where
  "without_blank ls = (if last_blank ls then butlast ls else ls)"

definition fits_chunk :: "string list \<Rightarrow> update_chunk \<Rightarrow> replacement \<Rightarrow> bool" where
  "fits_chunk ls c r =
     (case r of (i, n, new) \<Rightarrow>
        list_ex (\<lambda>f.
          (map f (take n (drop i ls)) = map f (uc_old_lines c) \<and> new = uc_new_lines c) \<or>
          (last_blank (uc_old_lines c) \<and> map f (take n (drop i ls)) = map f (butlast (uc_old_lines c)) \<and>
           new = without_blank (uc_new_lines c))) [id, trim_end, trim])"

lemma seek_match:
  assumes "seek_sequence ls pat start False = Some i" "start \<le> length ls"
  shows "start \<le> i \<and> i + length pat \<le> length ls \<and>
    (\<exists>f \<in> {id, trim_end, trim}. map f (take (length pat) (drop i ls)) = map f pat)"
proof (cases "pat = []")
  case True
  then show ?thesis using assms by (auto simp: seek_sequence_def)
next
  case False
  then show ?thesis using seek_found [OF assms(1) False] by (simp add: lines_match_def)
qed

lemma find_chunk_fits:
  assumes "find_chunk ls k c = Some (i, n, new)" "\<not> uc_is_end_of_file c" "k \<le> length ls"
  shows "k \<le> i \<and> i + n \<le> length ls \<and> fits_chunk ls c (i, n, new)"
proof (cases "seek_sequence ls (uc_old_lines c) k False")
  case (Some j)
  then have "i = j" "n = length (uc_old_lines c)" "new = uc_new_lines c"
    using assms(1,2) by (simp_all add: find_chunk_def Let_def)
  then show ?thesis using seek_match [OF Some assms(3)] by (auto simp: fits_chunk_def)
next
  case None
  then have b: "last_blank (uc_old_lines c)"
    and s: "seek_sequence ls (butlast (uc_old_lines c)) k False = Some i" "n = length (butlast (uc_old_lines c))"
      "new = without_blank (uc_new_lines c)"
    using assms(1,2) by (auto simp: find_chunk_def Let_def without_blank_def split: if_splits)
  then show ?thesis using seek_match [OF s(1) assms(3)] by (auto simp: fits_chunk_def)
qed

text \<open>
  A chunk without old lines goes to the end of the file, or in front of its last line if that is blank. The chunks
  for which places are what they should be: no chunk is marked as the end of the file, and one without old lines only
  if the file does not end with a blank line.
\<close>

definition plain_chunk :: "string list \<Rightarrow> update_chunk \<Rightarrow> bool" where
  "plain_chunk ls c \<longleftrightarrow> \<not> uc_is_end_of_file c \<and> (uc_old_lines c = [] \<longrightarrow> \<not> last_blank ls)"

definition chunk_from :: "string list \<Rightarrow> nat \<Rightarrow> update_chunk \<Rightarrow> nat option" where
  "chunk_from ls k c =
     (case uc_change_context c of None \<Rightarrow> Some k | Some ctx \<Rightarrow> map_option Suc (seek_sequence ls [ctx] k False))"

lemma chunk_from_bounds: "chunk_from ls k c = Some k' \<Longrightarrow> k \<le> length ls \<Longrightarrow> k \<le> k' \<and> k' \<le> length ls"
  using seek_match [of ls "[the (uc_change_context c)]" k]
  by (fastforce simp: chunk_from_def split: option.splits)

text \<open>One step of locating, with the context line out of the way.\<close>

lemma locate_step:
  "locate_chunks ls path k (c # cs) = Inr rs \<longleftrightarrow>
     (\<exists>k'. chunk_from ls k c = Some k' \<and>
       (if uc_old_lines c = []
        then \<exists>rs'. locate_chunks ls path k' cs = Inr rs' \<and>
          rs = ((if last_blank ls then length ls - 1 else length ls), 0, uc_new_lines c) # rs'
        else \<exists>i n new rs'. find_chunk ls k' c = Some (i, n, new) \<and>
          locate_chunks ls path (i + n) cs = Inr rs' \<and> rs = (i, n, new) # rs'))"
  by (cases "locate_chunks ls path (the (chunk_from ls k c)) cs")
    (auto simp: chunk_from_def map_sum_def Let_def split: option.splits sum.splits prod.splits)

text \<open>The places of the chunks that replace something.\<close>

definition replacing :: "update_chunk list \<Rightarrow> replacement list \<Rightarrow> replacement list" where
  "replacing cs rs = map snd (filter (\<lambda>(c, r). uc_old_lines c \<noteq> []) (zip cs rs))"

lemma ascending_mono: "ascending k len rs \<Longrightarrow> k' \<le> k \<Longrightarrow> ascending k' len rs"
  by (cases rs) auto

lemma ascending_sorted: "ascending k len rs \<Longrightarrow> sorted (map fst rs) \<and> (\<forall>r \<in> set rs. k \<le> fst r)"
  by (induction k len rs rule: ascending.induct) fastforce+

lemma ascending_insert_end: "ascending k len rs \<Longrightarrow> ascending k len (insort_key fst (len, 0, new) rs)"
  by (induction k len rs rule: ascending.induct) (auto dest: ascending_le)

lemma insort_front: "\<forall>r \<in> set rs. fst x \<le> fst r \<Longrightarrow> insort_key fst x rs = x # rs"
  by (cases rs) simp_all

lemma locate_fits:
  "locate_chunks ls path k cs = Inr rs \<Longrightarrow> list_all (plain_chunk ls) cs \<Longrightarrow> k \<le> length ls \<Longrightarrow>
   list_all2 (\<lambda>c r. fits_chunk ls c r \<and> (uc_old_lines c = [] \<longrightarrow> fst r = length ls)) cs rs \<and>
   ascending k (length ls) (replacing cs rs) \<and> ascending k (length ls) (sort_key fst rs)"
proof (induction cs arbitrary: k rs)
  case Nil
  then show ?case by (simp add: replacing_def)
next
  case (Cons c cs)
  from Cons.prems(1) obtain k' where k': "chunk_from ls k c = Some k'" unfolding locate_step by blast
  have b: "k \<le> k'" "k' \<le> length ls" using chunk_from_bounds [OF k' Cons.prems(3)] by auto
  have c: "\<not> uc_is_end_of_file c" "uc_old_lines c = [] \<Longrightarrow> \<not> last_blank ls" and cs: "list_all (plain_chunk ls) cs"
    using Cons.prems(2) by (simp_all add: plain_chunk_def [of ls c])
  show ?case
  proof (cases "uc_old_lines c = []")
    case True
    then obtain rs' where rs': "locate_chunks ls path k' cs = Inr rs'" "rs = (length ls, 0, uc_new_lines c) # rs'"
      using Cons.prems(1) k' c(2) unfolding locate_step by auto
    note IH = Cons.IH [OF rs'(1) cs b(2)]
    have "ascending k (length ls) (sort_key fst rs')" "ascending k (length ls) (replacing cs rs')"
      using IH b(1) by (auto intro: ascending_mono)
    then show ?thesis
      using IH True ascending_insert_end [of k "length ls" "sort_key fst rs'"]
      by (simp add: rs'(2) replacing_def) (simp add: fits_chunk_def)
  next
    case False
    then obtain i n new rs' where s: "find_chunk ls k' c = Some (i, n, new)"
      "locate_chunks ls path (i + n) cs = Inr rs'" "rs = (i, n, new) # rs'"
      using Cons.prems(1) k' unfolding locate_step by auto
    note fits = find_chunk_fits [OF s(1) c(1) b(2)]
    then have "i + n \<le> length ls" by simp
    note IH = Cons.IH [OF s(2) cs this]
    have "\<forall>r \<in> set (sort_key fst rs'). i \<le> fst r" using IH ascending_sorted by fastforce
    then have "sort_key fst rs = (i, n, new) # sort_key fst rs'" by (simp add: s(3) insort_front)
    then show ?thesis using IH fits b(1) False by (auto simp: s(3) replacing_def)
  qed
qed

lemma locate_bounds:
  "locate_chunks ls path k cs = Inr rs \<Longrightarrow> k \<le> length ls \<Longrightarrow> \<forall>r \<in> set rs. fst r \<le> length ls"
proof (induction cs arbitrary: k rs)
  case (Cons c cs)
  from Cons.prems(1) obtain k' where k': "chunk_from ls k c = Some k'" unfolding locate_step by blast
  have b: "k' \<le> length ls" using chunk_from_bounds [OF k' Cons.prems(2)] by simp
  show ?case
  proof (cases "uc_old_lines c = []")
    case True
    then obtain rs' where rs': "locate_chunks ls path k' cs = Inr rs'"
        "rs = (if last_blank ls then length ls - 1 else length ls, 0, uc_new_lines c) # rs'"
      using Cons.prems(1) k' unfolding locate_step by auto
    have "\<forall>r \<in> set rs'. fst r \<le> length ls" by (rule Cons.IH [OF rs'(1) b])
    then show ?thesis unfolding rs'(2) by simp
  next
    case False
    then obtain i n new rs' where s: "find_chunk ls k' c = Some (i, n, new)"
      "locate_chunks ls path (i + n) cs = Inr rs'" "rs = (i, n, new) # rs'"
      using Cons.prems(1) k' unfolding locate_step by auto
    have "i + n \<le> length ls"
      using s(1) b seek_bound [of ls "uc_old_lines c" k'] seek_bound [of ls "butlast (uc_old_lines c)" k']
      by (fastforce simp: find_chunk_def Let_def split: option.splits if_splits)
    then show ?thesis using Cons.IH [OF s(2)] s(3) by auto
  qed
qed simp

lemma compute_no_panic:
  assumes "compute_replacements ls path cs = Inr rs"
  shows "apply_replacements ls rs \<noteq> None"
proof -
  obtain rs0 where rs0: "locate_chunks ls path 0 cs = Inr rs0" "rs = sort_key fst rs0"
    using assms by (auto simp: compute_replacements_def map_sum_def split: sum.splits)
  have "sorted (map fst rs)" "\<forall>r \<in> set rs. fst r \<le> length ls"
    using locate_bounds [OF rs0(1)] by (simp_all add: rs0(2))
  then show ?thesis using replace_in_range [of rs ls] by (auto simp: apply_replacements_def)
qed

text \<open>
  Property C31. If no chunk of an update is marked as the end of the file, and chunks without old lines only occur for a
  file that does not end with a blank line, then applying the chunks fails with a message or gives every chunk its
  place: one without old lines the end of the file; the others lie in the file one behind the other in the order of the
  chunks, agree with the old lines up to white space around the lines, and are replaced by the new lines. The
  other lines stay where they are. (What is written ends with one line break; if the last line is blank then,
  it is that line break and gone as a line, see rewritten_end.)
\<close>

theorem patch_update_correct:
  assumes "list_all (plain_chunk (original_lines content)) chunks"
  shows "case apply_update_chunks path content chunks of
      Inl e \<Rightarrow> e \<noteq> Panicked
    | Inr s \<Rightarrow>
        (let ls = original_lines content
         in \<exists>rs. list_all2 (\<lambda>c r. fits_chunk ls c r \<and> (uc_old_lines c = [] \<longrightarrow> fst r = length ls)) chunks rs \<and>
           ascending 0 (length ls) (replacing chunks rs) \<and> ascending 0 (length ls) (sort_key fst rs) \<and>
           s = updated_text (patched 0 (sort_key fst rs) ls))"
proof -
  let ?ls = "original_lines content"
  show ?thesis
  proof (cases "locate_chunks ?ls path 0 chunks")
    case (Inl e)
    then show ?thesis by (simp add: apply_update_chunks_def compute_replacements_def)
  next
    case (Inr rs)
    note fit = locate_fits [OF Inr assms le0]
    then have "apply_update_chunks path content chunks = Inr (updated_text (patched 0 (sort_key fst rs) ?ls))"
      using Inr apply_replacements_patched [of ?ls "sort_key fst rs"]
      by (simp add: apply_update_chunks_def compute_replacements_def)
    then show ?thesis using fit by (auto simp: Let_def)
  qed
qed

definition sample_chunk :: "string \<Rightarrow> string \<Rightarrow> update_chunk" where
  "sample_chunk old new =
     \<lparr>uc_change_context = None, uc_old_lines = [old], uc_new_lines = [new], uc_is_end_of_file = False\<rparr>"

text \<open>An addition at the end before a replacement in the middle.\<close>

definition sample_chunks :: "update_chunk list" where
  "sample_chunks = [(sample_chunk [] ''z'')\<lparr>uc_old_lines := []\<rparr>, sample_chunk ''b'' ''x'']"

theorem patch_update_correct_witness:
  "case apply_update_chunks ''f'' (''a'' @ nl @ ''b '' @ nl @ ''c'' @ nl) sample_chunks of
     Inl e \<Rightarrow> False
   | Inr s \<Rightarrow> s = ''a'' @ nl @ ''x'' @ nl @ ''c'' @ nl @ ''z'' @ nl \<and>
       (\<exists>rs. list_all2 (fits_chunk [''a'', ''b '', ''c'']) sample_chunks rs \<and> ascending 0 3 (replacing sample_chunks rs))"
proof -
  have ls: "original_lines (''a'' @ nl @ ''b '' @ nl @ ''c'' @ nl) = [''a'', ''b '', ''c'']" by code_simp
  have plain: "list_all (plain_chunk (original_lines (''a'' @ nl @ ''b '' @ nl @ ''c'' @ nl))) sample_chunks"
    unfolding ls by code_simp
  have run: "apply_update_chunks ''f'' (''a'' @ nl @ ''b '' @ nl @ ''c'' @ nl) sample_chunks =
      Inr (''a'' @ nl @ ''x'' @ nl @ ''c'' @ nl @ ''z'' @ nl)"
    by code_simp
  have "\<exists>rs. list_all2 (\<lambda>c r. fits_chunk [''a'', ''b '', ''c''] c r \<and> (uc_old_lines c = [] \<longrightarrow> fst r = 3)) sample_chunks rs \<and>
      ascending 0 3 (replacing sample_chunks rs)"
    using patch_update_correct [OF plain, of "''f''"]
    unfolding run ls by (auto simp: numeral_3_eq_3 Let_def)
  then show ?thesis unfolding run by (auto intro: list_all2_mono)
qed

text \<open>
  Why the end matters: an addition behind a chunk that takes the blank last line with it is lost, since both are
  placed in the old file and the addition is put in front of that line.
\<close>

lemma addition_lost:
  "apply_update_chunks ''f'' (''a'' @ nl @ nl)
     [(sample_chunk ''a'' ''b'')\<lparr>uc_old_lines := [''a'', []]\<rparr>, (sample_chunk [] ''c'')\<lparr>uc_old_lines := []\<rparr>] =
   Inr (''b'' @ nl)"
  by code_simp

section \<open>The end of a rewritten file\<close>

lemma split_on_nl_Nil: "split_on nl [] = [[]]"
  by (subst split_on.simps) (simp add: nl_def)

lemma split_on_nl_append:
  "split_on nl (s @ nl) = split_on nl s @ [[]]"
proof (induction nl s rule: split_on.induct)
  case (1 s)
  have nl: "nl \<noteq> []" by (simp add: nl_def)
  show ?case
  proof (cases "split_once nl s")
    case None
    then have "CHR 0x0A \<notin> set s" unfolding split_once_None str_contains_iff nl_def by (auto simp: in_set_conv_decomp sublist_def)
    then have "split_once nl (s @ nl) = Some (s, [])" by (induction s) (auto simp: nl_def)
    then show ?thesis using None nl by (simp add: split_on.simps [of nl "s @ nl"] split_on.simps [of nl s] split_on.simps [of nl "[]"])
  next
    case (Some p)
    obtain a b where p: "p = (a, b)" by fastforce
    have "split_once nl (s @ nl) = Some (a, b @ nl)"
      using Some [unfolded p] by (induction s arbitrary: a) (auto simp: nl_def split: if_splits)
    then show ?thesis using 1 [OF nl Some [unfolded p] refl] nl Some [unfolded p]
      by (simp add: split_on.simps [of nl "s @ nl"] split_on.simps [of nl s])
  qed
qed

lemma last_split_on_nl: "last (split_on nl s) = [] \<longleftrightarrow> s = [] \<or> last s = CHR 0x0A"
proof (cases s rule: rev_cases)
  case Nil
  then show ?thesis by (simp add: split_on_nl_Nil)
next
  case (snoc t c)
  show ?thesis
  proof (cases "c = CHR 0x0A")
    case True
    then have "s = t @ nl" using snoc by (simp add: nl_def)
    then show ?thesis by (simp add: split_on_nl_append) (simp add: nl_def)
  next
    case False
    have "last (split_on nl s) \<noteq> []"
    proof
      assume l: "last (split_on nl s) = []"
      have ne: "split_on nl s \<noteq> []" by simp
      define xs where "xs = butlast (split_on nl s)"
      have xs: "split_on nl s = xs @ [[]]" using l ne by (metis xs_def append_butlast_last_id)
      have "s = join nl (xs @ [[]])" using join_split_on [of nl s] xs by simp
      moreover have "join nl (xs @ [[]]) = (if xs = [] then [] else join nl xs @ nl)"
        by (induction xs rule: induct_list012) (simp_all add: join_Cons)
      ultimately show False using snoc False by (auto simp: nl_def split: if_splits)
    qed
    then show ?thesis using snoc False by simp
  qed
qed

lemma join_blank: "xs \<noteq> [] \<Longrightarrow> join nl (xs @ [[]]) = join nl xs @ nl"
  by (induction xs rule: induct_list012) (simp_all add: join_Cons)

text \<open>
  Rewriting the lines of a file unchanged, as an update does with the lines it does not
  replace, adds a missing line feed at the end; but if the file ends with a blank line, that line is lost:
  one line feed less is written, and a file of one line feed becomes empty.
\<close>

theorem rewritten_end:
  "updated_text (original_lines content) =
     (if content = [] then []
      else if last content \<noteq> CHR 0x0A then content @ nl
      else if butlast content = [] \<or> last (butlast content) = CHR 0x0A then butlast content
      else content)"
proof (cases "content = [] \<or> last content \<noteq> CHR 0x0A")
  case True
  show ?thesis
  proof (cases "content = []")
    case True
    then show ?thesis by (simp add: original_lines_def updated_text_def last_blank_def split_on_nl_Nil)
  next
    case False
    with True have "\<not> last_blank (split_on nl content)" by (simp add: last_blank_def last_split_on_nl)
    with False True show ?thesis by (simp add: original_lines_def updated_text_def join_blank)
  qed
next
  case False
  then obtain t where t: "content = t @ nl" by (metis append_butlast_last_id nl_def)
  have ls: "original_lines content = split_on nl t"
    by (simp add: t original_lines_def split_on_nl_append last_blank_def)
  have tn: "t @ nl \<noteq> []" "butlast (t @ nl) = t" "last (t @ nl) = CHR 0x0A" by (simp_all add: nl_def)
  show ?thesis
    unfolding ls unfolding t updated_text_def tn(2,3) using tn(1)
    by (simp add: last_blank_def last_split_on_nl join_blank)
qed

text \<open>
  A chunk marked as the end of the file is looked for at the end only, whatever the chunks
  before it have used: it may be found inside a place already replaced. Then the update succeeds and
  reports all chunks although the new lines of one of them are not in the file.
\<close>

theorem end_chunk_overlaps:
  "seek_sequence ls pat start True = (if pat = [] then Some start else seek_sequence ls pat 0 True) \<and>
   (case apply_update_chunks ''f'' (''a'' @ nl @ ''b'' @ nl)
      [\<lparr>uc_change_context = None, uc_old_lines = [''a'', ''b''], uc_new_lines = [''x'', ''y''], uc_is_end_of_file = False\<rparr>,
       \<lparr>uc_change_context = None, uc_old_lines = [''b''], uc_new_lines = [''z''], uc_is_end_of_file = True\<rparr>] of
      Inl e \<Rightarrow> False | Inr s \<Rightarrow> s = ''x'' @ nl @ ''y'' @ nl)"
proof -
  have "apply_update_chunks ''f'' (''a'' @ nl @ ''b'' @ nl)
      [\<lparr>uc_change_context = None, uc_old_lines = [''a'', ''b''], uc_new_lines = [''x'', ''y''], uc_is_end_of_file = False\<rparr>,
       \<lparr>uc_change_context = None, uc_old_lines = [''b''], uc_new_lines = [''z''], uc_is_end_of_file = True\<rparr>] =
     Inr (''x'' @ nl @ ''y'' @ nl)"
    by code_simp
  then show ?thesis by (simp add: seek_sequence_def Let_def)
qed

section \<open>Running patches\<close>

lemma update_no_panic: "apply_update_chunks path content chunks \<noteq> Inl Panicked"
  using compute_no_panic [of "original_lines content" path chunks]
  by (auto simp: apply_update_chunks_def split: sum.split option.split)

definition hunk_files :: "edit_env \<Rightarrow> tool_ctx \<Rightarrow> patch_hunk \<Rightarrow> string list" where
  "hunk_files env ctx h =
     (case h of
        AddFile path _ \<Rightarrow> [file_at env ctx path]
      | DeleteFile path \<Rightarrow> [file_at env ctx path]
      | UpdateFile path move_to _ \<Rightarrow>
          file_at env ctx path # (case move_to of Some dest \<Rightarrow> [file_at env ctx dest] | None \<Rightarrow> []))"

lemma run_hunk_defined:
  "\<exists>results' touched' st'. run_hunk env ctx h (results, touched, st) = Inr (results', touched', st') \<and>
     length results' = Suc (length results) \<and>
     (\<forall>f. f \<notin> set (hunk_files env ctx h) \<longrightarrow> fmlookup (ts_files st') f = fmlookup (ts_files st) f)"
proof (cases h)
  case (UpdateFile path move_to chunks)
  let ?f = "file_at env ctx path"
  have no: "apply_update_chunks (resolve_path ctx path) c chunks \<noteq> Inl Panicked" for c by (rule update_no_panic)
  consider (missing) "fmlookup (ts_files st) ?f = None" | (binary) "fmlookup (ts_files st) ?f = Some None"
    | (text_file) c where "fmlookup (ts_files st) ?f = Some (Some c)"
    by (metis not_None_eq)
  then show ?thesis
  proof cases
    case text_file
    then show ?thesis
      using no [of c] UpdateFile
      by (cases "apply_update_chunks (resolve_path ctx path) c chunks" rule: sum.exhaust; cases move_to)
        (auto simp: run_hunk_def Let_def hunk_files_def publish_patch_touch_def publish_def write_file_def remove_file_def
          split: tool_error.split)
  qed (auto simp: UpdateFile run_hunk_def Let_def)
qed (auto simp: run_hunk_def Let_def hunk_files_def publish_patch_touch_def publish_def write_file_def remove_file_def
    split: option.split)

lemma run_hunks_defined:
  "\<exists>results' touched' st'. run_hunks env ctx hs (results, touched, st) = (Some (results', touched', st'), st') \<and>
     length results' = length results + length hs \<and>
     (\<forall>f. f \<notin> set (concat (map (hunk_files env ctx) hs)) \<longrightarrow> fmlookup (ts_files st') f = fmlookup (ts_files st) f)"
proof (induction hs arbitrary: results touched st)
  case (Cons h hs)
  obtain r t s where h: "run_hunk env ctx h (results, touched, st) = Inr (r, t, s)" "length r = Suc (length results)"
    "\<forall>f. f \<notin> set (hunk_files env ctx h) \<longrightarrow> fmlookup (ts_files s) f = fmlookup (ts_files st) f"
    using run_hunk_defined by blast
  obtain r' t' s' where hs: "run_hunks env ctx hs (r, t, s) = (Some (r', t', s'), s')" "length r' = length r + length hs"
    "\<forall>f. f \<notin> set (concat (map (hunk_files env ctx) hs)) \<longrightarrow> fmlookup (ts_files s') f = fmlookup (ts_files s) f"
    using Cons.IH by blast
  show ?case using h hs by (intro exI [of _ r'] exI [of _ t'] exI [of _ s']) auto
qed auto

text \<open>
  Running a patch never panics, and it fails only if the patch text cannot be parsed: then
  nothing changes. Otherwise every hunk reports one result, refused updates and deletions included,
  and a file that no hunk names stays as it was.
\<close>

theorem patch_run_correct:
  "let (r, st') = apply_patch_execute env ctx s st
   in case parse_apply_patch s of
        Inl e \<Rightarrow> r = Inl (Failed e) \<and> st' = st
      | Inr hunks \<Rightarrow>
          (case run_hunks env ctx hunks ([], [], st) of
             (None, _) \<Rightarrow> False
           | (Some (results, _), _) \<Rightarrow> length results = length hunks \<and> \<not> isl r) \<and>
          (if f \<in> set (concat (map (hunk_files env ctx) hunks)) then True
           else fmlookup (ts_files st') f = fmlookup (ts_files st) f)"
proof (cases "parse_apply_patch s")
  case (Inr hunks)
  obtain results touched st' where run: "run_hunks env ctx hunks ([], [], st) = (Some (results, touched, st'), st')"
    "length results = length hunks"
    "\<forall>f. f \<notin> set (concat (map (hunk_files env ctx) hunks)) \<longrightarrow> fmlookup (ts_files st') f = fmlookup (ts_files st) f"
    using run_hunks_defined [of env ctx hunks "[]" "[]" st] by auto
  show ?thesis using run(2,3) by (simp add: apply_patch_execute_def Inr run(1) Let_def)
qed (simp add: apply_patch_execute_def)

text \<open>
  An update that moves a file to where it already is deletes it: the new text is written and
  then the old file, the same one, is removed, although the update is reported as a success.
\<close>

theorem move_onto_itself_deletes:
  "case run_hunk env ctx (UpdateFile path (Some path) chunks) (results, touched, st) of
     Inl _ \<Rightarrow> False
   | Inr (_, touched', st') \<Rightarrow>
       if touched' = touched then st' = st
       else touched' = touched @ [path, path] \<and> fmlookup (ts_files st') (file_at env ctx path) = None"
proof -
  let ?f = "file_at env ctx path"
  have no: "apply_update_chunks (resolve_path ctx path) c chunks \<noteq> Inl Panicked" for c by (rule update_no_panic)
  consider (missing) "fmlookup (ts_files st) ?f = None" | (binary) "fmlookup (ts_files st) ?f = Some None"
    | (text_file) c where "fmlookup (ts_files st) ?f = Some (Some c)"
    by (metis not_None_eq)
  then show ?thesis
  proof cases
    case text_file
    then show ?thesis
      using no [of c]
      by (cases "apply_update_chunks (resolve_path ctx path) c chunks" rule: sum.exhaust)
        (auto simp: run_hunk_def Let_def publish_patch_touch_def publish_def write_file_def remove_file_def
          split: tool_error.split)
  qed (auto simp: run_hunk_def Let_def)
qed

section \<open>Unified diffs\<close>

text \<open>
  An edit script is a list of runs of lines: kept lines, or old lines with the new ones in their
  place. Its hunks without context name the first line of the old ones, counted from one; for a place
  without old lines the format of unified diffs names the line before it.
\<close>

datatype script_step = Keep "string list" | Change "string list" "string list"

fun script_old :: "script_step list \<Rightarrow> string list" where
  "script_old [] = []"
| "script_old (Keep ls # ss) = ls @ script_old ss"
| "script_old (Change old new # ss) = old @ script_old ss"

fun script_new :: "script_step list \<Rightarrow> string list" where
  "script_new [] = []"
| "script_new (Keep ls # ss) = ls @ script_new ss"
| "script_new (Change old new # ss) = new @ script_new ss"

fun script_hunks :: "nat \<Rightarrow> script_step list \<Rightarrow> unified_hunk list" where
  "script_hunks pos [] = []"
| "script_hunks pos (Keep ls # ss) = script_hunks (pos + length ls) ss"
| "script_hunks pos (Change old new # ss) =
     \<lparr>uh_old_start = (if old = [] then pos else pos + 1), uh_old_lines = old, uh_new_lines = new\<rparr> #
     script_hunks (pos + length old) ss"

definition replaces_lines :: "script_step \<Rightarrow> bool" where
  "replaces_lines s \<longleftrightarrow> (case s of Keep _ \<Rightarrow> True | Change old _ \<Rightarrow> old \<noteq> [])"

lemma splice_in_place:
  "splice_hunk \<lparr>uh_old_start = Suc (length pre), uh_old_lines = old, uh_new_lines = new\<rparr> (pre @ old @ rest) =
    Some (pre @ new @ rest)"
  by (simp add: splice_hunk_def Let_def)

lemma splice_counts_old: "splice_hunk (h\<lparr>uh_old_lines := map g (uh_old_lines h)\<rparr>) = splice_hunk h"
  by (cases h) (auto simp: splice_hunk_def fun_eq_iff Let_def)

lemma script_applied:
  "list_all replaces_lines ss \<Longrightarrow>
   foldr (\<lambda>h acc. Option.bind acc (splice_hunk h)) (script_hunks (length pre) ss) (Some (pre @ script_old ss)) =
     Some (pre @ script_new ss)"
proof (induction ss arbitrary: pre)
  case (Cons s ss)
  show ?case
  proof (cases s)
    case (Keep ls)
    then show ?thesis using Cons.IH [of "pre @ ls"] Cons.prems by simp
  next
    case (Change old new)
    then have "foldr (\<lambda>h acc. Option.bind acc (splice_hunk h)) (script_hunks (length (pre @ old)) ss) (Some ((pre @ old) @ script_old ss)) =
        Some ((pre @ old) @ script_new ss)"
      using Cons.prems by (intro Cons.IH) simp
    moreover have "old \<noteq> []" using Cons.prems by (simp add: Change replaces_lines_def)
    ultimately show ?thesis by (simp add: Change splice_in_place)
  qed
qed simp

text \<open>
  Property C34. The hunks of an edit script whose changes all have old lines turn the old text into the
  new one. The old lines in a hunk only count: a hunk with as many other lines is applied in the same
  way, whatever the file has there. Lines inserted by a hunk without old lines go before the line it
  names, not behind it as the format says; and a hunk that starts behind the end of the file panics.
\<close>

theorem unified_hunks_correct:
  assumes "list_all replaces_lines ss"
  shows "apply_unified (script_hunks 0 ss) (script_old ss) = Some (script_new ss) \<and>
    apply_unified (map (\<lambda>h. h\<lparr>uh_old_lines := map g (uh_old_lines h)\<rparr>) hs) ls = apply_unified hs ls \<and>
    apply_unified (script_hunks 0 [Keep (pre @ [l]), Change [] new, Keep suf]) (pre @ [l] @ suf) = Some (pre @ new @ [l] @ suf) \<and>
    (apply_unified [h] ls = None \<longleftrightarrow> length ls + 1 < uh_old_start h)"
proof -
  have "apply_unified (script_hunks 0 ss) (script_old ss) = Some (script_new ss)"
    using script_applied [OF assms, of "[]"] by (simp add: apply_unified_def)
  moreover have "apply_unified (map (\<lambda>h. h\<lparr>uh_old_lines := map g (uh_old_lines h)\<rparr>) hs) ls = apply_unified hs ls"
    unfolding apply_unified_def foldr_map by (simp add: comp_def splice_counts_old)
  moreover have "apply_unified (script_hunks 0 [Keep (pre @ [l]), Change [] new, Keep suf]) (pre @ [l] @ suf) =
      Some (pre @ new @ [l] @ suf)"
    by (simp add: apply_unified_def splice_hunk_def Let_def)
  moreover have "apply_unified [h] ls = None \<longleftrightarrow> length ls + 1 < uh_old_start h"
    by (auto simp: apply_unified_def splice_hunk_def Let_def)
  ultimately show ?thesis by blast
qed

theorem unified_hunks_correct_witness:
  "apply_unified (script_hunks 0 [Keep [''a''], Change [''b''] [''x'', ''y''], Keep [''c'']]) [''a'', ''b'', ''c''] =
     Some [''a'', ''x'', ''y'', ''c'']"
proof -
  have "list_all replaces_lines [Keep [''a''], Change [''b''] [''x'', ''y''], Keep [''c'']]" by (simp add: replaces_lines_def)
  from unified_hunks_correct [OF this] show ?thesis by simp
qed

end
