(* ===== verification/PatchRoundtrip.thy ===== *)
theory PatchRoundtrip
  imports PatchProperties
begin

text \<open>The printed form of a patch of the Codex agent, and that it is parsed back.\<close>

section \<open>Printing\<close>

definition line_ok :: "string \<Rightarrow> bool" where
  "line_ok l \<longleftrightarrow> CHR 0x0A \<notin> set l \<and> (l = [] \<or> last l \<noteq> CHR 0x0D)"

definition lines_text :: "string list \<Rightarrow> string" where
  "lines_text ls = concat (map (\<lambda>l. l @ nl) ls)"

definition print_chunk :: "update_chunk \<Rightarrow> string list" where
  "print_chunk c =
     (case uc_change_context c of None \<Rightarrow> ''@@'' | Some ctx \<Rightarrow> ''@@ '' @ ctx) #
     map ((@) ''-'') (uc_old_lines c) @ map ((@) ''+'') (uc_new_lines c) @
     (if uc_is_end_of_file c then [end_of_file] else [])"

fun print_hunk :: "patch_hunk \<Rightarrow> string list" where
  "print_hunk (AddFile path contents) = (''*** Add File: '' @ path) # map ((@) ''+'') (str_lines contents)"
| "print_hunk (DeleteFile path) = [''*** Delete File: '' @ path]"
| "print_hunk (UpdateFile path move_to chunks) =
     (''*** Update File: '' @ path) #
     (case move_to of Some dest \<Rightarrow> [''*** Move to: '' @ dest] | None \<Rightarrow> []) @ concat (map print_chunk chunks)"

definition print_patch :: "patch_hunk list \<Rightarrow> string" where
  "print_patch hs = lines_text (begin_patch # concat (map print_hunk hs) @ [end_patch])"

text \<open>
  What can be printed: paths and contexts that are not empty and not surrounded by white space, lines
  without line ends, chunks and updates that are not empty, contents made of lines.
\<close>

definition path_ok :: "string \<Rightarrow> bool" where
  "path_ok p \<longleftrightarrow> p \<noteq> [] \<and> starts_char p \<and> trim p = p"

definition chunk_ok :: "update_chunk \<Rightarrow> bool" where
  "chunk_ok c \<longleftrightarrow>
     (case uc_change_context c of None \<Rightarrow> uc_old_lines c \<noteq> [] \<or> uc_new_lines c \<noteq> []
      | Some ctx \<Rightarrow> ctx \<noteq> [] \<and> starts_char ctx \<and> trim_end ctx = ctx)"

fun hunk_ok :: "patch_hunk \<Rightarrow> bool" where
  "hunk_ok (AddFile path contents) \<longleftrightarrow> path_ok path \<and> lines_text (str_lines contents) = contents"
| "hunk_ok (DeleteFile path) \<longleftrightarrow> path_ok path"
| "hunk_ok (UpdateFile path move_to chunks) \<longleftrightarrow>
     path_ok path \<and> (case move_to of None \<Rightarrow> True | Some dest \<Rightarrow> path_ok dest) \<and>
     chunks \<noteq> [] \<and> list_all chunk_ok chunks"

section \<open>White space at the ends\<close>

lemma drop_ws_end_keep: "xs = [] \<or> \<not> is_ws (last xs) \<Longrightarrow> drop_ws_end xs = xs"
  by (cases xs rule: rev_cases) (simp_all add: drop_ws_end_def)

lemma drop_ws_end_last_not_ws: "drop_ws_end xs \<noteq> [] \<Longrightarrow> \<not> is_ws (last (drop_ws_end xs))"
  unfolding drop_ws_end_def by (metis hd_dropWhile last_rev rev_is_Nil_conv)

lemma trim_end_fixed:
  assumes "s \<noteq> []" "starts_char s" "trim_end s = s"
  shows "\<not> is_ws (last (chars s))"
  using drop_ws_end_last_not_ws [of "chars s"] chars_trim_end [OF assms(2)] assms(1,3) by auto

lemma trim_fixed:
  assumes "s \<noteq> []" "starts_char s" "trim s = s"
  shows "\<not> is_ws (last (chars s))"
  using drop_ws_end_last_not_ws [of "dropWhile is_ws (chars s)"] chars_trim [OF assms(2)] assms(1,3) by auto

lemma trim_end_append:
  assumes "s \<noteq> []" "starts_char s" "\<not> is_ws (last (chars s))"
  shows "trim_end (pre @ s) = pre @ s"
proof -
  have "\<not> is_ws (last (chars (pre @ s)))" using assms by (simp add: chars_append)
  then show ?thesis by (simp add: trim_end_def drop_ws_end_keep)
qed

lemma trim_append:
  assumes "s \<noteq> []" "starts_char s" "\<not> is_ws (last (chars s))" "\<not> is_cont c" "\<not> is_ws [c]" "pre = c # d # pre'" "\<not> is_cont d"
  shows "trim (pre @ s) = pre @ s"
proof -
  have last: "\<not> is_ws (last (chars (pre @ s)))" using assms(1-3) by (simp add: chars_append)
  have "chars (pre @ s) = [c] # chars (d # pre' @ s)" using assms(6,7) by simp
  then have "dropWhile is_ws (chars (pre @ s)) = chars (pre @ s)" using assms(5) by simp
  then show ?thesis using last by (simp add: trim_def drop_ws_end_keep)
qed

section \<open>Lines\<close>

lemma lines_from_line:
  "CHR 0x0A \<notin> set l \<Longrightarrow> lines_from acc (l @ CHR 0x0A # r) = strip_cr (rev acc @ l) # lines_from [] r"
  by (induction l arbitrary: acc) auto

lemma str_lines_text: "list_all line_ok ls \<Longrightarrow> str_lines (lines_text ls) = ls"
proof (induction ls)
  case (Cons l ls)
  then have "lines_from [] (l @ CHR 0x0A # lines_text ls) = l # lines_from [] (lines_text ls)"
    using lines_from_line [of l "[]" "lines_text ls"] by (auto simp: line_ok_def strip_cr_def)
  with Cons show ?case by (simp add: lines_text_def str_lines_def nl_def)
qed (simp add: lines_text_def str_lines_def)

section \<open>Parsing the printed form\<close>

text \<open>A line at which the lines of a chunk end.\<close>

definition stops :: "string list \<Rightarrow> bool" where
  "stops ls \<longleftrightarrow> ls \<noteq> [] \<and> hd ls \<noteq> end_of_file \<and> (prefix ''*** '' (hd ls) \<or> prefix ''@@'' (hd ls))"

lemma chunk_body_stops: "stops rest \<Longrightarrow> chunk_body had rest = ([], [], False, had, rest)"
  by (cases rest) (auto simp: stops_def)

lemma prefix_simps [str_simps]: "strip_prefix pre (pre @ s) = Some s"
  by (simp add: strip_prefix_def)


lemma chunk_body_new:
  "chunk_body had (map ((@) ''+'') new @ rest) =
     (let (old', new', rest') = chunk_body (had \<or> new \<noteq> []) rest in (old', new @ new', rest'))"
  by (induction new arbitrary: had) (simp_all add: end_of_file_def strip_prefix_def split: prod.split)

lemma chunk_body_old:
  "chunk_body had (map ((@) ''-'') old @ rest) =
     (let (old', new', rest') = chunk_body (had \<or> old \<noteq> []) rest in (old @ old', new', rest'))"
  by (induction old arbitrary: had) (simp_all add: end_of_file_def strip_prefix_def split: prod.split)

lemma chunk_body_printed:
  assumes "eof \<or> stops rest"
  shows "chunk_body False (map ((@) ''-'') old @ map ((@) ''+'') new @ (if eof then [end_of_file] else []) @ rest) =
    (old, new, eof, old \<noteq> [] \<or> new \<noteq> [], rest)"
proof (cases eof)
  case True
  then show ?thesis by (simp add: chunk_body_old chunk_body_new)
next
  case False
  then show ?thesis using assms by (simp add: chunk_body_old chunk_body_new chunk_body_stops)
qed

lemma add_body_printed:
  "stops rest \<Longrightarrow> prefix ''*** '' (hd rest) \<Longrightarrow> add_body (map ((@) ''+'') ls @ rest) = (lines_text ls, rest)"
proof (induction ls)
  case Nil
  then show ?case by (cases rest) (simp_all add: stops_def lines_text_def)
next
  case (Cons l ls)
  then show ?case by (simp add: strip_prefix_def lines_text_def)
qed

definition context_head :: "string option \<Rightarrow> string" where
  "context_head c = (case c of None \<Rightarrow> ''@@'' | Some ctx \<Rightarrow> ''@@ '' @ ctx)"

definition context_ok :: "string option \<Rightarrow> bool" where
  "context_ok c \<longleftrightarrow> (case c of None \<Rightarrow> True | Some ctx \<Rightarrow> ctx \<noteq> [] \<and> starts_char ctx \<and> trim_end ctx = ctx)"

lemma context_head_trim:
  assumes "context_ok c"
  shows "trim_end (context_head c) = context_head c" "trim (context_head c) = context_head c"
proof -
  have none: "trim_end ''@@'' = ''@@''" "trim ''@@'' = ''@@''" by code_simp+
  have at: "\<not> is_cont (CHR ''@'')" "\<not> is_ws ''@''" by code_simp+
  show "trim_end (context_head c) = context_head c"
  proof (cases c)
    case (Some ctx)
    then show ?thesis
      using assms trim_end_append [of ctx "''@@ ''"] trim_end_fixed [of ctx] by (simp add: context_ok_def context_head_def)
  qed (simp add: context_head_def none)
  show "trim (context_head c) = context_head c"
  proof (cases c)
    case (Some ctx)
    then show ?thesis
      using assms trim_append [of ctx "CHR ''@''" "''@@ ''" "CHR ''@''" "'' ''"] trim_end_fixed [of ctx] at
      by (simp add: context_ok_def context_head_def)
  qed (simp add: context_head_def none)
qed

lemma context_head_facts:
  "context_head c \<noteq> []" "prefix ''@@'' (context_head c)" "\<not> prefix ''*** '' (context_head c)"
  "context_head c \<noteq> end_of_file"
  by (simp_all add: context_head_def end_of_file_def split: option.split)

lemma chunk_start_printed: "context_ok c \<Longrightarrow> chunk_start first (context_head c) ls = Some (c, ls)"
  using context_head_trim(1) [of c]
  by (auto simp: chunk_start_def Let_def context_head_def strip_prefix_def context_ok_def split: option.splits)

lemma print_chunk_eq:
  "print_chunk c = context_head (uc_change_context c) # map ((@) ''-'') (uc_old_lines c) @
     map ((@) ''+'') (uc_new_lines c) @ (if uc_is_end_of_file c then [end_of_file] else [])"
  by (simp add: print_chunk_def context_head_def)

lemma chunk_ok_context: "chunk_ok c \<Longrightarrow> context_ok (uc_change_context c)"
  by (auto simp: chunk_ok_def context_ok_def split: option.splits)

text \<open>A line at which the chunks of a file end.\<close>

definition ends_chunks :: "string list \<Rightarrow> bool" where
  "ends_chunks ls \<longleftrightarrow> stops ls \<and> prefix ''*** '' (hd ls) \<and> prefix ''*** '' (trim_end (hd ls)) \<and> trim_end (hd ls) \<noteq> end_of_file"

lemma parse_chunks_printed:
  "list_all chunk_ok cs \<Longrightarrow> ends_chunks rest \<Longrightarrow> parse_chunks first (concat (map print_chunk cs) @ rest) = (cs, rest)"
proof (induction cs arbitrary: first)
  case Nil
  then show ?case by (cases rest) (auto simp: parse_chunks.simps(2) ends_chunks_def stops_def)
next
  case (Cons c cs)
  let ?rest = "concat (map print_chunk cs) @ rest" and ?head = "context_head (uc_change_context c)"
  let ?body = "map ((@) ''-'') (uc_old_lines c) @ map ((@) ''+'') (uc_new_lines c) @
    (if uc_is_end_of_file c then [end_of_file] else []) @ ?rest"
  have ok: "chunk_ok c" "context_ok (uc_change_context c)" using Cons.prems chunk_ok_context by auto
  have stop: "stops ?rest"
  proof (cases cs)
    case Nil
    then show ?thesis using Cons.prems(2) by (simp add: ends_chunks_def)
  next
    case (Cons d ds)
    then show ?thesis using context_head_facts by (simp add: stops_def print_chunk_eq)
  qed
  have body: "chunk_body False ?body =
      (uc_old_lines c, uc_new_lines c, uc_is_end_of_file c, uc_old_lines c \<noteq> [] \<or> uc_new_lines c \<noteq> [], ?rest)"
    by (rule chunk_body_printed) (simp add: stop)
  have rest: "parse_chunks False ?rest = (cs, rest)" using Cons by simp
  have lines: "concat (map print_chunk (c # cs)) @ rest = ?head # ?body" by (simp add: print_chunk_eq)
  have had: "(uc_old_lines c \<noteq> [] \<or> uc_new_lines c \<noteq> []) \<or> uc_change_context c \<noteq> None"
    using ok(1) by (auto simp: chunk_ok_def split: option.splits)
  have guard: "\<not> (prefix ''*** '' ?head \<and> ?head \<noteq> end_of_file)" "\<not> (?head = [] \<and> \<not> prefix '' '' ?head \<and> \<not> prefix ''+'' ?head \<and> \<not> prefix ''-'' ?head)"
    using context_head_facts by auto
  have start: "chunk_start first ?head ?body = Some (uc_change_context c, ?body)" by (rule chunk_start_printed [OF ok(2)])
  show ?case
    unfolding lines parse_chunks.simps(2) Let_def context_head_trim [OF ok(2)] if_not_P [OF guard(1)] if_not_P [OF guard(2)]
      start option.case prod.case body rest if_P [OF had]
    by simp
qed

section \<open>Directives\<close>

lemma path_last: "path_ok p \<Longrightarrow> p \<noteq> [] \<and> starts_char p \<and> \<not> is_ws (last (chars p)) \<and> trim p = p"
  using trim_fixed by (simp add: path_ok_def)

lemma directive_trim:
  assumes "path_ok p"
  shows "trim_end (''*** Add File: '' @ p) = ''*** Add File: '' @ p" "trim (''*** Add File: '' @ p) = ''*** Add File: '' @ p"
    "trim_end (''*** Delete File: '' @ p) = ''*** Delete File: '' @ p" "trim (''*** Delete File: '' @ p) = ''*** Delete File: '' @ p"
    "trim_end (''*** Update File: '' @ p) = ''*** Update File: '' @ p" "trim (''*** Update File: '' @ p) = ''*** Update File: '' @ p"
    "trim_end (''*** Move to: '' @ p) = ''*** Move to: '' @ p"
proof -
  note p = path_last [OF assms]
  have star: "\<not> is_cont (CHR ''*'')" "\<not> is_ws ''*''" by code_simp+
  show "trim_end (''*** Add File: '' @ p) = ''*** Add File: '' @ p" "trim_end (''*** Delete File: '' @ p) = ''*** Delete File: '' @ p"
    "trim_end (''*** Update File: '' @ p) = ''*** Update File: '' @ p" "trim_end (''*** Move to: '' @ p) = ''*** Move to: '' @ p"
    using p by (intro trim_end_append; simp)+
  show "trim (''*** Add File: '' @ p) = ''*** Add File: '' @ p"
    using p star trim_append [of p "CHR ''*''" "''*** Add File: ''" "CHR ''*''" "''* Add File: ''"] by simp
  show "trim (''*** Delete File: '' @ p) = ''*** Delete File: '' @ p"
    using p star trim_append [of p "CHR ''*''" "''*** Delete File: ''" "CHR ''*''" "''* Delete File: ''"] by simp
  show "trim (''*** Update File: '' @ p) = ''*** Update File: '' @ p"
    using p star trim_append [of p "CHR ''*''" "''*** Update File: ''" "CHR ''*''" "''* Update File: ''"] by simp
qed

lemma end_patch_ends: "ends_chunks (end_patch # ls)"
proof -
  have "trim_end end_patch = end_patch" by code_simp
  then show ?thesis by (simp add: ends_chunks_def stops_def end_patch_def end_of_file_def)
qed

lemma print_hunk_ends: "hunk_ok h \<Longrightarrow> ends_chunks (print_hunk h @ ls)"
proof (cases h)
  case (AddFile p c)
  then show "hunk_ok h \<Longrightarrow> ?thesis" using directive_trim(1) [of p] by (simp add: ends_chunks_def stops_def end_of_file_def)
next
  case (DeleteFile p)
  then show "hunk_ok h \<Longrightarrow> ?thesis" using directive_trim(3) [of p] by (simp add: ends_chunks_def stops_def end_of_file_def)
next
  case (UpdateFile p m c)
  then show "hunk_ok h \<Longrightarrow> ?thesis" using directive_trim(5) [of p] by (simp add: ends_chunks_def stops_def end_of_file_def)
qed

lemma printed_ends: "list_all hunk_ok hs \<Longrightarrow> ends_chunks (concat (map print_hunk hs) @ [end_patch])"
  by (cases hs) (simp_all add: end_patch_ends print_hunk_ends)

lemma add_step:
  assumes "hunk_ok (AddFile path contents)" "ends_chunks rest"
  shows "parse_hunks (print_hunk (AddFile path contents) @ rest) = map_sum id ((#) (AddFile path contents)) (parse_hunks rest)"
proof -
  have p: "path_ok path" "trim path = path" "lines_text (str_lines contents) = contents"
    using assms(1) by (simp_all add: path_ok_def)
  have "add_body (map ((@) ''+'') (str_lines contents) @ rest) = (contents, rest)"
    using add_body_printed [of rest "str_lines contents"] assms(2) by (simp add: ends_chunks_def p(3))
  then show ?thesis
    using directive_trim(1,2) [OF p(1)] p(2)
    by (simp add: parse_hunks.simps(2) Let_def end_patch_def strip_prefix_def)
qed

lemma delete_step:
  assumes "hunk_ok (DeleteFile path)"
  shows "parse_hunks (print_hunk (DeleteFile path) @ rest) = map_sum id ((#) (DeleteFile path)) (parse_hunks rest)"
  using directive_trim(3,4) [of path] assms
  by (simp add: parse_hunks.simps(2) Let_def end_patch_def strip_prefix_def) (simp add: path_ok_def)

lemma update_head_printed:
  assumes "case move_to of None \<Rightarrow> True | Some dest \<Rightarrow> path_ok dest" "chunks \<noteq> []" "list_all chunk_ok chunks"
  shows "update_head ((case move_to of Some dest \<Rightarrow> [''*** Move to: '' @ dest] | None \<Rightarrow> []) @
      concat (map print_chunk chunks) @ rest) = (move_to, concat (map print_chunk chunks) @ rest)"
proof (cases move_to)
  case (Some dest)
  then have "path_ok dest" "trim dest = dest" using assms(1) by (simp_all add: path_ok_def)
  then show ?thesis using directive_trim(7) [of dest] by (simp add: Some update_head_def strip_prefix_def)
next
  case None
  obtain c cs where chunks: "chunks = c # cs" using assms(2) by (cases chunks) auto
  have h: "trim_end (context_head (uc_change_context c)) = context_head (uc_change_context c)"
    using context_head_trim(1) [OF chunk_ok_context, of c] assms(3) by (simp add: chunks)
  have "\<not> prefix ''*** Move to: '' (context_head (uc_change_context c))"
    by (simp add: context_head_def split: option.split)
  then show ?thesis by (simp add: None chunks update_head_def print_chunk_eq h strip_prefix_def)
qed

lemma update_step:
  assumes "hunk_ok (UpdateFile path move_to chunks)" "ends_chunks rest"
  shows "parse_hunks (print_hunk (UpdateFile path move_to chunks) @ rest) =
    map_sum id ((#) (UpdateFile path move_to chunks)) (parse_hunks rest)"
proof -
  have p: "path_ok path" "trim path = path" and c: "chunks \<noteq> []" "list_all chunk_ok chunks"
    and m: "case move_to of None \<Rightarrow> True | Some dest \<Rightarrow> path_ok dest"
    using assms(1) by (simp_all add: path_ok_def)
  note head = update_head_printed [OF m c, of rest] and chunks = parse_chunks_printed [OF c(2) assms(2), of True]
  show ?thesis
    using directive_trim(5,6) [OF p(1)] p(2) c(1)
    by (simp add: parse_hunks.simps(2) Let_def end_patch_def strip_prefix_def head chunks)
qed

lemma parse_printed: "list_all hunk_ok hs \<Longrightarrow> parse_hunks (concat (map print_hunk hs) @ [end_patch]) = Inr hs"
proof (induction hs)
  case Nil
  have "trim (trim_end end_patch) = end_patch" by code_simp
  then show ?case by (simp add: parse_hunks.simps(2) Let_def)
next
  case (Cons h hs)
  have rest: "ends_chunks (concat (map print_hunk hs) @ [end_patch])" using Cons.prems by (intro printed_ends) simp
  have IH: "parse_hunks (concat (map print_hunk hs) @ [end_patch]) = Inr hs" using Cons by simp
  show ?case
  proof (cases h)
    case (AddFile path contents)
    then show ?thesis using add_step [OF _ rest, of path contents] Cons.prems IH by (simp del: print_hunk.simps)
  next
    case (DeleteFile path)
    then show ?thesis using delete_step [of path] Cons.prems IH by (simp del: print_hunk.simps)
  next
    case (UpdateFile path move_to chunks)
    then show ?thesis using update_step [OF _ rest, of path move_to chunks] Cons.prems IH by (simp del: print_hunk.simps)
  qed
qed

text \<open>
  Property C30. Parsing the printed form of a patch gives the patch back: files added with their lines,
  files deleted, files updated and moved, with every chunk's context, old lines, new lines and its
  mark as the end of the file. Paths and contexts are not empty and have no white space around them,
  no printed line has a line end in it, and chunks and updates are not empty.
\<close>

theorem patch_print_parse:
  assumes "hs \<noteq> []" and "list_all hunk_ok hs" and "list_all line_ok (concat (map print_hunk hs))"
  shows "parse_apply_patch (print_patch hs) = Inr hs"
proof -
  let ?ls = "begin_patch # concat (map print_hunk hs) @ [end_patch]"
  have "line_ok begin_patch" "line_ok end_patch" by code_simp+
  then have ls: "str_lines (print_patch hs) = ?ls"
    unfolding print_patch_def by (intro str_lines_text) (simp add: assms(3))
  have "trim begin_patch = begin_patch" by code_simp
  then show ?thesis
    using parse_printed [OF assms(2)] assms(1) by (simp add: parse_apply_patch_def ls Let_def)
qed

theorem patch_print_parse_witness:
  "let hs = [AddFile ''a.txt'' (''x'' @ nl @ nl), UpdateFile ''b.txt'' (Some ''c.txt'') [sample_chunk '' old'' ''new'']]
   in parse_apply_patch (print_patch hs) = Inr hs"
proof -
  let ?hs = "[AddFile ''a.txt'' (''x'' @ nl @ nl), UpdateFile ''b.txt'' (Some ''c.txt'') [sample_chunk '' old'' ''new'']]"
  have "list_all hunk_ok ?hs" "list_all line_ok (concat (map print_hunk ?hs))" by code_simp+
  then show ?thesis using patch_print_parse [of ?hs] by (simp add: Let_def)
qed

end
