(* ===== verification/SwarmTypes.thy ===== *)
theory SwarmTypes
  imports SwarmCore PlanSchedule
begin

text \<open>
  What the server keeps and sends about swarms: members with their channels (src/server/state.rs), the
  events for clients as far as the swarm handlers send or read them (ServerEvent in
  crates/jcode-protocol/src/lib.rs), the event history, shared context and soft interrupts. A channel to a
  client is a number; what was sent on it and which channels are closed is part of the server's state.
  Instants and Unix times are milliseconds of one clock.
\<close>

section \<open>Events for clients\<close>

record plan_graph_status =
  gst_swarm_id :: "string option"
  gst_version :: nat
  gst_item_count :: nat
  gst_ready_ids :: "string list"
  gst_blocked_ids :: "string list"
  gst_active_ids :: "string list"
  gst_completed_ids :: "string list"
  gst_cycle_ids :: "string list"
  gst_unresolved_dependency_ids :: "string list"
  gst_next_ready_ids :: "string list"
  gst_newly_ready_ids :: "string list"

definition empty_for_swarm :: "string \<Rightarrow> plan_graph_status" where
  "empty_for_swarm swarm_id =
     \<lparr>gst_swarm_id = Some swarm_id, gst_version = 0, gst_item_count = 0, gst_ready_ids = [], gst_blocked_ids = [],
      gst_active_ids = [], gst_completed_ids = [], gst_cycle_ids = [], gst_unresolved_dependency_ids = [],
      gst_next_ready_ids = [], gst_newly_ready_ids = []\<rparr>"

definition from_versioned_plan ::
  "string \<Rightarrow> versioned_plan \<Rightarrow> nat option \<Rightarrow> string list \<Rightarrow> plan_graph_status" where
  "from_versioned_plan swarm_id plan next_ready_limit newly_ready_ids =
     (let graph = summarize_plan_graph (vp_items plan)
      in \<lparr>gst_swarm_id = Some swarm_id, gst_version = vp_version plan, gst_item_count = length (vp_items plan),
          gst_ready_ids = gs_ready_ids graph, gst_blocked_ids = gs_blocked_ids graph,
          gst_active_ids = gs_active_ids graph, gst_completed_ids = gs_completed_ids graph,
          gst_cycle_ids = gs_cycle_ids graph,
          gst_unresolved_dependency_ids = gs_unresolved_dependency_ids graph,
          gst_next_ready_ids = next_runnable_item_ids (vp_items plan) next_ready_limit,
          gst_newly_ready_ids = newly_ready_ids\<rparr>)"

record swarm_member_status =
  ms_session_id :: string
  ms_friendly_name :: "string option"
  ms_status :: string
  ms_detail :: "string option"
  ms_role :: "string option"
  ms_is_headless :: "bool option"
  ms_live_attachments :: "nat option"
  ms_status_age_secs :: "nat option"

record awaited_member_status =
  aw_session_id :: string
  aw_friendly_name :: "string option"
  aw_status :: string
  aw_done :: bool
  aw_completion_report :: "string option"

record context_entry =
  ce_key :: string
  ce_value :: string
  ce_from_session :: string
  ce_from_name :: "string option"

record agent_info =
  ai_session_id :: string
  ai_friendly_name :: "string option"
  ai_files_touched :: "string list"
  ai_status :: "string option"
  ai_detail :: "string option"
  ai_role :: "string option"
  ai_is_headless :: "bool option"
  ai_report_back_to_session_id :: "string option"
  ai_latest_completion_report :: "string option"
  ai_live_attachments :: "nat option"
  ai_status_age_secs :: "nat option"

text \<open>The data of a tool call in a history is kept as its JSON text.\<close>

record history_message =
  hm_role :: string
  hm_content :: string
  hm_tool_calls :: "string list option"
  hm_tool_data :: "string option"

record session_activity =
  ac_is_processing :: bool
  ac_current_tool_name :: "string option"

record agent_status_snapshot =
  as_session_id :: string
  as_friendly_name :: "string option"
  as_swarm_id :: "string option"
  as_status :: "string option"
  as_detail :: "string option"
  as_role :: "string option"
  as_is_headless :: "bool option"
  as_live_attachments :: "nat option"
  as_status_age_secs :: "nat option"
  as_joined_age_secs :: "nat option"
  as_files_touched :: "string list"
  as_activity :: "session_activity option"
  as_provider_name :: "string option"
  as_provider_model :: "string option"

datatype notification_type =
    FileConflict string string "string option" "string option"
  | SharedContextNote string string
  | MessageNote "string option" "string option"

text \<open>
  The events the handlers send, with the fields in the order of the source, and those the progress
  sender looks into; all other events are \<^verbatim>\<open>EvOther\<close>.
\<close>

datatype server_event =
    EvToolStart string string
  | EvToolDone string string string "string option"
  | EvStatusDetail string
  | EvSwarmStatus "swarm_member_status list"
  | EvSwarmPlan string nat "plan_item list" "string list" "string option" "plan_graph_status option"
  | EvSwarmPlanProposal string string "string option" "plan_item list" string string
  | EvDone nat
  | EvError nat string "nat option"
  | EvNotification string "string option" notification_type string
  | EvAssignTask nat string string
  | EvTaskControl nat string string "string option" string plan_graph_status
  | EvSpawn nat string string
  | EvAwaitMembers nat bool "awaited_member_status list" string
  | EvSessionCloseRequested string
  | EvCommContext nat "context_entry list"
  | EvCommMembers nat "agent_info list"
  | EvCommChannels nat "(string \<times> nat) list"
  | EvCommSummary nat string "(string \<times> string) list"
  | EvCommStatus nat agent_status_snapshot
  | EvCommReport nat string string
  | EvCommPlanStatus nat plan_graph_status
  | EvCommContextHistory nat string "history_message list"
  | EvSessionId string
  | EvReloading
  | EvInterrupted
  | EvOther string

section \<open>Members\<close>

record swarm_member =
  sm_session_id :: string
  sm_event_tx :: nat
  sm_event_txs :: "(string, nat) fmap"
  sm_working_dir :: "string option"
  sm_swarm_id :: "string option"
  sm_swarm_enabled :: bool
  sm_status :: string
  sm_detail :: "string option"
  sm_friendly_name :: "string option"
  sm_report_back_to_session_id :: "string option"
  sm_latest_completion_report :: "string option"
  sm_role :: string
  sm_joined_at :: nat
  sm_last_status_change :: nat
  sm_is_headless :: bool

definition durable_record :: "swarm_member \<Rightarrow> swarm_member_record" where
  "durable_record m =
     \<lparr>mr_session_id = sm_session_id m, mr_working_dir = sm_working_dir m, mr_swarm_id = sm_swarm_id m,
      mr_swarm_enabled = sm_swarm_enabled m, mr_status = lifecycle_from (sm_status m), mr_detail = sm_detail m,
      mr_friendly_name = sm_friendly_name m, mr_report_back_to_session_id = sm_report_back_to_session_id m,
      mr_latest_completion_report = sm_latest_completion_report m, mr_role = swarm_role_from (sm_role m),
      mr_is_headless = sm_is_headless m\<rparr>"

definition from_record :: "nat \<Rightarrow> swarm_member_record \<Rightarrow> nat \<Rightarrow> swarm_member" where
  "from_record now r event_tx =
     \<lparr>sm_session_id = mr_session_id r, sm_event_tx = event_tx, sm_event_txs = fmempty,
      sm_working_dir = mr_working_dir r, sm_swarm_id = mr_swarm_id r, sm_swarm_enabled = mr_swarm_enabled r,
      sm_status = lifecycle_as_str (mr_status r), sm_detail = mr_detail r,
      sm_friendly_name = mr_friendly_name r, sm_report_back_to_session_id = mr_report_back_to_session_id r,
      sm_latest_completion_report = mr_latest_completion_report r, sm_role = swarm_role_as_str (mr_role r),
      sm_joined_at = now, sm_last_status_change = now, sm_is_headless = mr_is_headless r\<rparr>"

section \<open>History, context, interrupts\<close>

record shared_context =
  sc_key :: string
  sc_value :: string
  sc_from_session :: string
  sc_from_name :: "string option"
  sc_created_at :: nat
  sc_updated_at :: nat

datatype swarm_event_type =
    SwFileTouch string string "string option" "string option"
  | SwNotification string string
  | SwPlanUpdate string nat
  | SwPlanProposal string string nat
  | SwContextUpdate string string
  | SwStatusChange string string
  | SwMemberChange string

record swarm_event =
  se_id :: nat
  se_session_id :: string
  se_session_name :: "string option"
  se_swarm_id :: "string option"
  se_event :: swarm_event_type
  se_timestamp :: nat

datatype soft_interrupt_source = FromUser | FromSystem | FromBackgroundTask

record soft_interrupt =
  si_content :: string
  si_urgent :: bool
  si_source :: soft_interrupt_source

end
