(* ===== verification/SwarmMutation.thy ===== *)
theory SwarmMutation
  imports SwarmTypes "HOL-Library.Word"
begin

text \<open>
  Requests that change a swarm are carried out once although clients may repeat them
  (src/server/swarm_mutation_state.rs on src/server/durable_state.rs): a request has a key, its final response is
  kept in a file for a while and replayed, and requests with the key of one under way wait for its
  response. The files are a map from keys (None for one that cannot be read); the standard library's
  hash is an argument.
\<close>

section \<open>Durable state\<close>

definition sanitize_session_id :: "string \<Rightarrow> string" where
  "sanitize_session_id s =
     concat (map (\<lambda>ch. case ch of
        [c] \<Rightarrow> if is_ascii_alphanumeric c \<or> c = CHR ''-'' \<or> c = CHR ''_'' then [c] else ''_''
      | _ \<Rightarrow> ''_'') (chars s))"

definition hashed_request_key :: "(string list \<Rightarrow> 64 word) \<Rightarrow> string \<Rightarrow> string \<Rightarrow> string list \<Rightarrow> string" where
  "hashed_request_key hash session_id action components =
     sanitize_session_id session_id @ ''-'' @ hex_digits 16 (unat (hash (session_id # action # components)))"

definition elapsed_exceeds :: "nat \<Rightarrow> nat \<Rightarrow> nat \<Rightarrow> bool" where
  "elapsed_exceeds now created ttl \<longleftrightarrow> now - created > ttl"

definition load_json_state ::
  "('a \<Rightarrow> bool) \<Rightarrow> string \<Rightarrow> (string, 'a option) fmap \<Rightarrow> 'a option \<times> (string, 'a option) fmap" where
  "load_json_state is_stale key files =
     (case fmlookup files key of
        Some (Some st) \<Rightarrow> if is_stale st then (None, fmdrop key files) else (Some st, files)
      | _ \<Rightarrow> (None, files))"

definition save_json_state :: "string \<Rightarrow> 'a \<Rightarrow> (string, 'a option) fmap \<Rightarrow> (string, 'a option) fmap" where
  "save_json_state key st files = fmupd key (Some st) files"

section \<open>Responses and their files\<close>

datatype mutation_response =
    RsDone
  | RsAssignTask string string
  | RsTaskControl string string "string option" string plan_graph_status
  | RsError string "nat option"
  | RsSpawn string

fun into_server_event :: "mutation_response \<Rightarrow> nat \<Rightarrow> string \<Rightarrow> server_event" where
  "into_server_event RsDone i session_id = EvDone i"
| "into_server_event (RsAssignTask task_id target_session) i session_id = EvAssignTask i task_id target_session"
| "into_server_event (RsTaskControl action task_id target_session status summary) i session_id =
     EvTaskControl i action task_id target_session status summary"
| "into_server_event (RsError message retry_after_secs) i session_id = EvError i message retry_after_secs"
| "into_server_event (RsSpawn new_session_id) i session_id = EvSpawn i session_id new_session_id"

record mutation_state =
  mu_key :: string
  mu_action :: string
  mu_session_id :: string
  mu_created_at_unix_ms :: nat
  mu_final_response :: "mutation_response option"

definition final_state_ttl :: nat where "final_state_ttl = 30 * 1000"

definition pending_state_ttl :: nat where "pending_state_ttl = 30 * 60 * 1000"

definition mutation_is_stale :: "nat \<Rightarrow> mutation_state \<Rightarrow> bool" where
  "mutation_is_stale now st =
     elapsed_exceeds now (mu_created_at_unix_ms st)
       (if mu_final_response st \<noteq> None then final_state_ttl else pending_state_ttl)"

type_synonym outbox = "(nat \<times> server_event) list"

record mutation_runtime =
  mt_files :: "(string, mutation_state option) fmap"
  mt_active :: "string fset"
  mt_waiters :: "(string, (nat \<times> nat) list) fmap"

definition load_mutation ::
  "nat \<Rightarrow> string \<Rightarrow> mutation_runtime \<Rightarrow> mutation_state option \<times> mutation_runtime" where
  "load_mutation now key rt =
     (let (found, files) = load_json_state (mutation_is_stale now) key (mt_files rt)
      in (found, rt\<lparr>mt_files := files\<rparr>))"

definition save_mutation :: "mutation_state \<Rightarrow> mutation_runtime \<Rightarrow> mutation_runtime" where
  "save_mutation st rt = rt\<lparr>mt_files := save_json_state (mu_key st) st (mt_files rt)\<rparr>"

definition add_waiter :: "string \<Rightarrow> nat \<Rightarrow> nat \<Rightarrow> mutation_runtime \<Rightarrow> mutation_runtime" where
  "add_waiter key i channel rt =
     rt\<lparr>mt_waiters := entry_upd [] (\<lambda>ws. ws @ [(i, channel)]) key (mt_waiters rt)\<rparr>"

definition mark_active_if_new :: "string \<Rightarrow> mutation_runtime \<Rightarrow> bool \<times> mutation_runtime" where
  "mark_active_if_new key rt = (key |\<notin>| mt_active rt, rt\<lparr>mt_active := finsert key (mt_active rt)\<rparr>)"

definition clear_active :: "string \<Rightarrow> mutation_runtime \<Rightarrow> mutation_runtime" where
  "clear_active key rt = rt\<lparr>mt_active := mt_active rt |-| {|key|}\<rparr>"

definition take_waiters :: "string \<Rightarrow> mutation_runtime \<Rightarrow> (nat \<times> nat) list \<times> mutation_runtime" where
  "take_waiters key rt =
     (get_or [] (mt_waiters rt) key, rt\<lparr>mt_waiters := fmdrop key (mt_waiters rt)\<rparr>)"

definition new_mutation :: "nat \<Rightarrow> string \<Rightarrow> string \<Rightarrow> string \<Rightarrow> mutation_state" where
  "new_mutation now key action session_id =
     \<lparr>mu_key = key, mu_action = action, mu_session_id = session_id, mu_created_at_unix_ms = now,
      mu_final_response = None\<rparr>"

definition ensure_pending_state ::
  "nat \<Rightarrow> string \<Rightarrow> string \<Rightarrow> string \<Rightarrow> mutation_runtime \<Rightarrow> mutation_state \<times> mutation_runtime" where
  "ensure_pending_state now key action session_id rt =
     (let (found, rt) = load_mutation now key rt
      in case found of
           Some existing \<Rightarrow> (existing, rt)
         | None \<Rightarrow> (let st = new_mutation now key action session_id in (st, save_mutation st rt)))"

definition persist_final_response ::
  "mutation_state \<Rightarrow> mutation_response \<Rightarrow> mutation_runtime \<Rightarrow> mutation_state \<times> mutation_runtime" where
  "persist_final_response st response rt =
     (let next = st\<lparr>mu_final_response := Some response\<rparr> in (next, save_mutation next rt))"

section \<open>One request after the other\<close>

text \<open>What is sent on a closed channel is lost.\<close>

definition send_event :: "nat fset \<Rightarrow> nat \<Rightarrow> server_event \<Rightarrow> outbox \<Rightarrow> outbox" where
  "send_event closed channel event out = (if channel |\<in>| closed then out else out @ [(channel, event)])"

definition begin_or_replay ::
  "nat \<Rightarrow> nat fset \<Rightarrow> string \<Rightarrow> string \<Rightarrow> string \<Rightarrow> nat \<Rightarrow> nat \<Rightarrow> mutation_runtime \<times> outbox \<Rightarrow>
   mutation_state option \<times> mutation_runtime \<times> outbox" where
  "begin_or_replay now closed key action session_id i channel st =
     (let (rt, out) = st; (found, rt) = load_mutation now key rt
      in case Option.bind found mu_final_response of
           Some response \<Rightarrow> (None, rt, send_event closed channel (into_server_event response i session_id) out)
         | None \<Rightarrow>
             (let (new, rt) = mark_active_if_new key (add_waiter key i channel rt)
              in if \<not> new then (None, rt, out)
                 else let (ms, rt) = ensure_pending_state now key action session_id rt in (Some ms, rt, out)))"

definition answer_waiters ::
  "nat fset \<Rightarrow> mutation_response \<Rightarrow> string \<Rightarrow> (nat \<times> nat) list \<Rightarrow> outbox \<Rightarrow> outbox" where
  "answer_waiters closed response session_id ws out =
     foldl (\<lambda>out (i, channel). send_event closed channel (into_server_event response i session_id) out) out ws"

definition finish_request ::
  "nat fset \<Rightarrow> mutation_state \<Rightarrow> mutation_response \<Rightarrow> mutation_runtime \<times> outbox \<Rightarrow> mutation_runtime \<times> outbox" where
  "finish_request closed ms response st =
     (let (rt, out) = st;
          (persisted, rt) = persist_final_response ms response rt;
          (ws, rt) = take_waiters (mu_key persisted) rt
      in (clear_active (mu_key persisted) rt,
          answer_waiters closed response (mu_session_id persisted) ws out))"

text \<open>The answers sent to a request.\<close>

fun answered_id :: "server_event \<Rightarrow> nat option" where
  "answered_id (EvDone i) = Some i"
| "answered_id (EvError i _ _) = Some i"
| "answered_id (EvAssignTask i _ _) = Some i"
| "answered_id (EvTaskControl i _ _ _ _ _) = Some i"
| "answered_id (EvSpawn i _ _) = Some i"
| "answered_id (EvAwaitMembers i _ _ _) = Some i"
| "answered_id (EvCommContext i _) = Some i"
| "answered_id (EvCommMembers i _) = Some i"
| "answered_id (EvCommChannels i _) = Some i"
| "answered_id (EvCommSummary i _ _) = Some i"
| "answered_id (EvCommStatus i _) = Some i"
| "answered_id (EvCommReport i _ _) = Some i"
| "answered_id (EvCommPlanStatus i _) = Some i"
| "answered_id (EvCommContextHistory i _ _) = Some i"
| "answered_id _ = None"

definition answers :: "nat \<Rightarrow> outbox \<Rightarrow> outbox" where
  "answers i out = filter (\<lambda>(c, e). answered_id e = Some i) out"

lemma answered_response [simp]: "answered_id (into_server_event r i sid) = Some i"
  by (cases r) simp_all

lemma answers_send [simp]:
  "answers i (send_event closed c e out) =
     answers i out @ (if c |\<notin>| closed \<and> answered_id e = Some i then [(c, e)] else [])"
  by (simp add: answers_def send_event_def)

end
