(* ===== verification/SwarmAwaitState.thy ===== *)
theory SwarmAwaitState
  imports SwarmMutation
begin

text \<open>
  Waiting for members of a swarm (src/server/await_members_state.rs): a wait has a key made of what it waits
  for, its state is kept in a file until a while after its end or its deadline, and the clients that wait
  are listed under the key. Instants are milliseconds below 2 ^ 64.
\<close>

record await_result =
  ar_completed :: bool
  ar_members :: "awaited_member_status list"
  ar_summary :: string
  ar_resolved_at_unix_ms :: nat

record await_state =
  at_key :: string
  at_session_id :: string
  at_swarm_id :: string
  at_target_status :: "string list"
  at_requested_ids :: "string list"
  at_mode :: "string option"
  at_created_at_unix_ms :: nat
  at_deadline_unix_ms :: nat
  at_final_response :: "await_result option"

record await_runtime =
  aw_files :: "(string, await_state option) fmap"
  aw_active :: "string fset"
  aw_waiters :: "(string, (nat \<times> nat) list) fmap"

definition await_final_ttl :: nat where "await_final_ttl = 6 * (60 * (60 * 1000))"

definition await_pending_ttl :: nat where "await_pending_ttl = 24 * (60 * (60 * 1000))"

definition await_is_stale :: "nat \<Rightarrow> await_state \<Rightarrow> bool" where
  "await_is_stale now st =
     (case at_final_response st of
        Some response \<Rightarrow> now - ar_resolved_at_unix_ms response > await_final_ttl
      | None \<Rightarrow> now - at_deadline_unix_ms st > await_pending_ttl)"

definition await_is_pending :: "await_state \<Rightarrow> bool" where
  "await_is_pending st \<longleftrightarrow> at_final_response st = None"

definition remaining_timeout :: "nat \<Rightarrow> await_state \<Rightarrow> nat" where
  "remaining_timeout now st = at_deadline_unix_ms st - now"

definition unit_separator :: string where "unit_separator = [CHR 0x1F]"

definition await_request_key ::
  "(string list \<Rightarrow> 64 word) \<Rightarrow> string \<Rightarrow> string \<Rightarrow> string list \<Rightarrow> string list \<Rightarrow> string option \<Rightarrow> string" where
  "await_request_key hash session_id swarm_id requested_ids target_status mode =
     hashed_request_key hash session_id ''await_members''
       [swarm_id, join unit_separator (sort requested_ids), join unit_separator (sort target_status),
        (case mode of Some m \<Rightarrow> m | None \<Rightarrow> ''all'')]"

definition load_await :: "nat \<Rightarrow> string \<Rightarrow> await_runtime \<Rightarrow> await_state option \<times> await_runtime" where
  "load_await now key rt =
     (let (found, files) = load_json_state (await_is_stale now) key (aw_files rt)
      in (found, rt\<lparr>aw_files := files\<rparr>))"

definition save_await :: "await_state \<Rightarrow> await_runtime \<Rightarrow> await_runtime" where
  "save_await st rt = rt\<lparr>aw_files := save_json_state (at_key st) st (aw_files rt)\<rparr>"

definition ensure_pending_await ::
  "nat \<Rightarrow> string \<Rightarrow> string \<Rightarrow> string \<Rightarrow> string list \<Rightarrow> string list \<Rightarrow> string option \<Rightarrow> nat \<Rightarrow> await_runtime \<Rightarrow>
   await_state \<times> await_runtime" where
  "ensure_pending_await now key session_id swarm_id requested_ids target_status mode deadline rt =
     (let (found, rt) = load_await now key rt
      in case found of
           Some existing \<Rightarrow> (existing, rt)
         | None \<Rightarrow>
             (let st = \<lparr>at_key = key, at_session_id = session_id, at_swarm_id = swarm_id,
                   at_target_status = target_status, at_requested_ids = requested_ids, at_mode = mode,
                   at_created_at_unix_ms = now, at_deadline_unix_ms = deadline, at_final_response = None\<rparr>
              in (st, save_await st rt)))"

definition persist_await_response ::
  "nat \<Rightarrow> await_state \<Rightarrow> bool \<Rightarrow> awaited_member_status list \<Rightarrow> string \<Rightarrow> await_runtime \<Rightarrow> await_runtime" where
  "persist_await_response now st completed ms summary rt =
     save_await (st\<lparr>at_final_response := Some \<lparr>ar_completed = completed, ar_members = ms, ar_summary = summary,
       ar_resolved_at_unix_ms = now\<rparr>\<rparr>) rt"

section \<open>The clients that wait\<close>

definition add_await_waiter :: "string \<Rightarrow> nat \<Rightarrow> nat \<Rightarrow> await_runtime \<Rightarrow> await_runtime" where
  "add_await_waiter key i channel rt =
     rt\<lparr>aw_waiters := entry_upd [] (\<lambda>ws. ws @ [(i, channel)]) key (aw_waiters rt)\<rparr>"

definition mark_await_active :: "string \<Rightarrow> await_runtime \<Rightarrow> bool \<times> await_runtime" where
  "mark_await_active key rt = (key |\<notin>| aw_active rt, rt\<lparr>aw_active := finsert key (aw_active rt)\<rparr>)"

definition clear_await_active :: "string \<Rightarrow> await_runtime \<Rightarrow> await_runtime" where
  "clear_await_active key rt = rt\<lparr>aw_active := aw_active rt |-| {|key|}\<rparr>"

definition retain_open_waiters :: "nat fset \<Rightarrow> string \<Rightarrow> await_runtime \<Rightarrow> nat \<times> await_runtime" where
  "retain_open_waiters closed key rt =
     (case fmlookup (aw_waiters rt) key of
        None \<Rightarrow> (0, rt)
      | Some ws \<Rightarrow>
          (let open_ws = filter (\<lambda>(i, channel). channel |\<notin>| closed) ws
           in (length open_ws, rt\<lparr>aw_waiters :=
                 if open_ws = [] then fmdrop key (aw_waiters rt) else fmupd key open_ws (aw_waiters rt)\<rparr>)))"

definition take_await_waiters :: "string \<Rightarrow> await_runtime \<Rightarrow> (nat \<times> nat) list \<times> await_runtime" where
  "take_await_waiters key rt =
     (get_or [] (aw_waiters rt) key, rt\<lparr>aw_waiters := fmdrop key (aw_waiters rt)\<rparr>)"

text \<open>The waits of a session that a client resumes after a reload; stale files are removed on the way.\<close>

definition pending_await_members_for_session ::
  "nat \<Rightarrow> string \<Rightarrow> string list \<Rightarrow> await_runtime \<Rightarrow> await_state list \<times> await_runtime" where
  "pending_await_members_for_session now session_id listed rt =
     (let stale = (\<lambda>key. case fmlookup (aw_files rt) key of Some (Some st) \<Rightarrow> await_is_stale now st | _ \<Rightarrow> False);
          kept = fmfilter (\<lambda>key. \<not> stale key) (aw_files rt);
          states = List.map_filter (\<lambda>key. case fmlookup kept key of Some found \<Rightarrow> found | None \<Rightarrow> None) listed
      in (sort_key at_deadline_unix_ms (filter (\<lambda>st. at_session_id st = session_id \<and> await_is_pending st
            \<and> at_deadline_unix_ms st > now) states), rt\<lparr>aw_files := kept\<rparr>))"

end
