(* ===== verification/SwarmServer.thy ===== *)
theory SwarmServer
  imports SwarmMutation SwarmAwaitState SwarmChannels EditTools
begin

text \<open>
  The server's state of swarms and the operations on it that all handlers share (src/server/state.rs,
  src/server/swarm.rs, src/server/swarm_persistence.rs): sending to the channels of members, the status and
  plan broadcasts, task progress and staleness, leaving a swarm with the election of a coordinator, the
  event history, status changes with completion notices, and what of a swarm is kept on disk. The
  maps behind locks are fields of one record and an operation runs to its end; the orders in which hash
  maps and sets are iterated, environment variables, and the JSON form of plan items are arguments.
  Agents are the address of their mutex, their name, their soft interrupt queue, whether a turn owns them, the
  summaries of their last tool calls (a function of how many are asked for), working directory, provider
  with model, and history; queues are shared by address. Connections told to end are listed.
\<close>

section \<open>The state\<close>

record persisted_plan =
  pp_items :: "plan_item list"
  pp_version :: nat
  pp_participants :: "string list"
  pp_task_progress :: "(string, swarm_task_progress) fmap"

record persisted_swarm_state =
  px_swarm_id :: string
  px_plan :: "persisted_plan option"
  px_coordinator_session_id :: "string option"
  px_members :: "swarm_member_record list"
  px_updated_at_unix_ms :: nat

record file_access =
  fa_session_id :: string
  fa_op :: file_op
  fa_timestamp :: nat
  fa_summary :: "string option"
  fa_detail :: "string option"

record pending_broadcast =
  pb_scheduled :: bool
  pb_dirty :: bool

record agent_handle =
  ah_address :: nat
  ah_short_name :: "string option"
  ah_queue :: nat
  ah_busy :: bool
  ah_tool_calls :: "nat \<Rightarrow> (string \<times> string) list"
  ah_working_dir :: "string option"
  ah_provider :: "string \<times> string"
  ah_history :: "history_message list"

text \<open>A connection of a client (src/server/debug.rs): the session, which client it is, and what its turn is doing.\<close>

record client_connection =
  cn_session_id :: string
  cn_client_instance_id :: "string option"
  cn_is_processing :: bool
  cn_current_tool_name :: "string option"

text \<open>
  A wait for members that was spawned (src/server/comm_await.rs): what it waits for, for whom, and the
  statuses it last saw.
\<close>

record member_wait =
  wt_state :: await_state
  wt_session :: string
  wt_seen :: "awaited_member_status list option"

text \<open>A run of an assigned task that was spawned: session, swarm, task and the text of the assignment.\<close>

record task_run =
  tr_session :: string
  tr_swarm :: string
  tr_task :: string
  tr_text :: string

text \<open>
  Turns that were started in a session and report nowhere but to its clients and its status: the first
  message of a spawned session, and a message that woke an idle session, with the reminder for its agent.
\<close>

datatype session_turn = StartupTurn string string | WakeTurn string string string

record server =
  sv_members :: "(string, swarm_member) fmap"
  sv_swarms :: "(string, string fset) fmap"
  sv_plans :: "(string, versioned_plan) fmap"
  sv_coordinators :: "(string, string) fmap"
  sv_context :: "(string, (string, shared_context) fmap) fmap"
  sv_history :: "swarm_event list"
  sv_counter :: nat
  sv_broadcast :: "swarm_event list"
  sv_pending_status :: "(string, pending_broadcast) fmap"
  sv_agents :: "(string, agent_handle) fmap"
  sv_queues :: "(string, nat) fmap"
  sv_queue_heap :: "(nat, soft_interrupt list) fmap"
  sv_stored_interrupts :: "(string, soft_interrupt list option) fmap"
  sv_connections :: "(string, client_connection) fmap"
  sv_disconnects :: "string list"
  sv_channels :: channel_index
  sv_touches :: "(string, file_access list) fmap"
  sv_touched_by :: "(string, string fset) fmap"
  sv_disk :: "(string, persisted_swarm_state option) fmap"
  sv_mutations :: mutation_runtime
  sv_awaits :: await_runtime
  sv_waits :: "member_wait list"
  sv_runs :: "task_run list"
  sv_turns :: "session_turn list"
  sv_client_input :: "(string, string) fmap"
  sv_global_session :: string
  sv_closed :: "nat fset"
  sv_out :: outbox
  sv_panicked :: bool

text \<open>
  What the operations take from outside: iteration orders of sets and of the members, how many members
  make the status broadcast wait, how long a task without heartbeat is not stale, which sessions have a
  file, the standard hash, and printing and parsing of plan items.
\<close>

record server_env =
  en_order :: "string fset \<Rightarrow> string list"
  en_threshold :: nat
  en_stale_after_ms :: nat
  en_session_exists :: "string \<Rightarrow> bool"
  en_hash :: "string list \<Rightarrow> 64 word"
  en_items_json :: "plan_item list \<Rightarrow> string"
  en_parse_items :: "string \<Rightarrow> plan_item list option"

definition upd_plan :: "(versioned_plan \<Rightarrow> versioned_plan) \<Rightarrow> string \<Rightarrow> server \<Rightarrow> server" where
  "upd_plan f swarm_id st = st\<lparr>sv_plans := update_existing f swarm_id (sv_plans st)\<rparr>"

definition upd_member :: "(swarm_member \<Rightarrow> swarm_member) \<Rightarrow> string \<Rightarrow> server \<Rightarrow> server" where
  "upd_member f session_id st = st\<lparr>sv_members := update_existing f session_id (sv_members st)\<rparr>"

definition swarm_sessions :: "server_env \<Rightarrow> string \<Rightarrow> server \<Rightarrow> string list" where
  "swarm_sessions env swarm_id st = en_order env (get_or {||} (sv_swarms st) swarm_id)"

section \<open>Sending\<close>

definition send_to :: "nat \<Rightarrow> server_event \<Rightarrow> server \<Rightarrow> server" where
  "send_to channel event st = st\<lparr>sv_out := send_event (sv_closed st) channel event (sv_out st)\<rparr>"

text \<open>To the primary channel of a member, if there is the member.\<close>

definition send_member :: "string \<Rightarrow> server_event \<Rightarrow> server \<Rightarrow> server" where
  "send_member session_id event st =
     (case fmlookup (sv_members st) session_id of None \<Rightarrow> st | Some m \<Rightarrow> send_to (sm_event_tx m) event st)"

definition register_session_event_sender :: "string \<Rightarrow> string \<Rightarrow> nat \<Rightarrow> server \<Rightarrow> server" where
  "register_session_event_sender session_id connection_id tx st =
     upd_member (\<lambda>m. m\<lparr>sm_event_tx := tx, sm_event_txs := fmupd connection_id tx (sm_event_txs m)\<rparr>) session_id st"

definition primary_or :: "server_env \<Rightarrow> (string, nat) fmap \<Rightarrow> nat \<Rightarrow> nat" where
  "primary_or env txs tx =
     (case en_order env (fmdom txs) of [] \<Rightarrow> tx | c # _ \<Rightarrow> get_or tx txs c)"

definition unregister_session_event_sender :: "server_env \<Rightarrow> string \<Rightarrow> string \<Rightarrow> server \<Rightarrow> server" where
  "unregister_session_event_sender env session_id connection_id st =
     upd_member (\<lambda>m. let txs = fmdrop connection_id (sm_event_txs m)
       in m\<lparr>sm_event_txs := txs, sm_event_tx := primary_or env txs (sm_event_tx m)\<rparr>) session_id st"

definition open_txs :: "nat fset \<Rightarrow> (string, nat) fmap \<Rightarrow> (string, nat) fmap" where
  "open_txs closed txs = fmfilter (\<lambda>c. case fmlookup txs c of Some tx \<Rightarrow> tx |\<notin>| closed | None \<Rightarrow> False) txs"

definition member_targets :: "server_env \<Rightarrow> swarm_member \<Rightarrow> nat list" where
  "member_targets env m =
     (if sm_event_txs m = fmempty then [sm_event_tx m]
      else map (get_or 0 (sm_event_txs m)) (en_order env (fmdom (sm_event_txs m))))"

definition fanout_session_event ::
  "server_env \<Rightarrow> string \<Rightarrow> server_event \<Rightarrow> server \<Rightarrow> nat \<times> server" where
  "fanout_session_event env session_id event st =
     (case fmlookup (sv_members st) session_id of
        None \<Rightarrow> (0, st)
      | Some m \<Rightarrow>
          (let txs = open_txs (sv_closed st) (sm_event_txs m);
               m = m\<lparr>sm_event_txs := txs, sm_event_tx := primary_or env txs (sm_event_tx m)\<rparr>;
               targets = member_targets env m;
               st = st\<lparr>sv_members := fmupd session_id m (sv_members st)\<rparr>
           in (length (filter (\<lambda>tx. tx |\<notin>| sv_closed st) targets), foldl (\<lambda>st tx. send_to tx event st) st targets)))"

definition fanout_live_client_event ::
  "server_env \<Rightarrow> string \<Rightarrow> server_event \<Rightarrow> server \<Rightarrow> nat \<times> server" where
  "fanout_live_client_event env session_id event st =
     (case fmlookup (sv_members st) session_id of
        None \<Rightarrow> (0, st)
      | Some m \<Rightarrow>
          (let txs = open_txs (sv_closed st) (sm_event_txs m);
               targets = map (get_or 0 txs) (en_order env (fmdom txs));
               st = st\<lparr>sv_members := fmupd session_id (m\<lparr>sm_event_txs := txs\<rparr>) (sv_members st)\<rparr>
           in (length (filter (\<lambda>tx. tx |\<notin>| sv_closed st) targets), foldl (\<lambda>st tx. send_to tx event st) st targets)))"

section \<open>Soft interrupts\<close>

definition enqueue_soft_interrupt :: "nat \<Rightarrow> soft_interrupt \<Rightarrow> server \<Rightarrow> server" where
  "enqueue_soft_interrupt queue msg st =
     st\<lparr>sv_queue_heap := entry_upd [] (\<lambda>ms. ms @ [msg]) queue (sv_queue_heap st)\<rparr>"

definition register_session_interrupt_queue :: "string \<Rightarrow> nat \<Rightarrow> server \<Rightarrow> server" where
  "register_session_interrupt_queue session_id queue st = st\<lparr>sv_queues := fmupd session_id queue (sv_queues st)\<rparr>"

definition rename_session_interrupt_queue :: "string \<Rightarrow> string \<Rightarrow> server \<Rightarrow> server" where
  "rename_session_interrupt_queue old new st =
     (case fmlookup (sv_queues st) old of
        None \<Rightarrow> st
      | Some queue \<Rightarrow> st\<lparr>sv_queues := fmupd new queue (fmdrop old (sv_queues st))\<rparr>)"

definition remove_session_interrupt_queue :: "string \<Rightarrow> server \<Rightarrow> server" where
  "remove_session_interrupt_queue session_id st = st\<lparr>sv_queues := fmdrop session_id (sv_queues st)\<rparr>"

text \<open>Appending to the file of a session's interrupts fails if the file cannot be read.\<close>

definition store_interrupt :: "string \<Rightarrow> soft_interrupt \<Rightarrow> server \<Rightarrow> bool \<times> server" where
  "store_interrupt session_id msg st =
     (case fmlookup (sv_stored_interrupts st) session_id of
        Some None \<Rightarrow> (False, st)
      | Some (Some ms) \<Rightarrow>
          (True, st\<lparr>sv_stored_interrupts := fmupd session_id (Some (ms @ [msg])) (sv_stored_interrupts st)\<rparr>)
      | None \<Rightarrow> (True, st\<lparr>sv_stored_interrupts := fmupd session_id (Some [msg]) (sv_stored_interrupts st)\<rparr>))"

definition queue_soft_interrupt_for_session ::
  "server_env \<Rightarrow> string \<Rightarrow> soft_interrupt \<Rightarrow> server \<Rightarrow> bool \<times> server" where
  "queue_soft_interrupt_for_session env session_id msg st =
     (case fmlookup (sv_queues st) session_id of
        Some queue \<Rightarrow> (True, enqueue_soft_interrupt queue msg st)
      | None \<Rightarrow>
          (case fmlookup (sv_agents st) session_id of
             Some agent \<Rightarrow>
               if \<not> ah_busy agent then
                 (True, enqueue_soft_interrupt (ah_queue agent) msg
                    (register_session_interrupt_queue session_id (ah_queue agent) st))
               else store_interrupt session_id msg st
           | None \<Rightarrow> if en_session_exists env session_id then store_interrupt session_id msg st else (False, st)))"

definition system_interrupt :: "string \<Rightarrow> soft_interrupt" where
  "system_interrupt content = \<lparr>si_content = content, si_urgent = False, si_source = FromSystem\<rparr>"

definition interrupt :: "server_env \<Rightarrow> string \<Rightarrow> string \<Rightarrow> server \<Rightarrow> server" where
  "interrupt env session_id content st =
     snd (queue_soft_interrupt_for_session env session_id (system_interrupt content) st)"

section \<open>Persistence\<close>

definition state_path :: "string \<Rightarrow> string" where
  "state_path swarm_id = sanitize_session_id swarm_id @ ''.json''"

definition mark_stale_on_load ::
  "nat \<Rightarrow> (string, swarm_task_progress) fmap \<Rightarrow> plan_item \<Rightarrow> (string, swarm_task_progress) fmap" where
  "mark_stale_on_load updated_at progress item =
     (if pi_status item = ''running'' then
        entry_upd swarm_task_progress_default
          (\<lambda>p. p\<lparr>tp_stale_since_unix_ms := Some (case tp_stale_since_unix_ms p of Some t \<Rightarrow> t | None \<Rightarrow> updated_at)\<rparr>)
          (pi_id item) progress
      else progress)"

definition from_persisted_plan :: "persisted_plan \<Rightarrow> nat \<Rightarrow> versioned_plan" where
  "from_persisted_plan p updated_at =
     \<lparr>vp_items = map (\<lambda>item. if pi_status item = ''running'' then item\<lparr>pi_status := ''running_stale''\<rparr> else item)
        (pp_items p),
      vp_version = pp_version p, vp_participants = fset_of_list (pp_participants p),
      vp_task_progress = foldl (mark_stale_on_load updated_at) (pp_task_progress p) (pp_items p)\<rparr>"

definition to_persisted_plan :: "versioned_plan \<Rightarrow> persisted_plan" where
  "to_persisted_plan p =
     \<lparr>pp_items = vp_items p, pp_version = vp_version p,
      pp_participants = sorted_list_of_fset (vp_participants p), pp_task_progress = vp_task_progress p\<rparr>"

definition append_recovery_detail :: "string option \<Rightarrow> string \<Rightarrow> string option" where
  "append_recovery_detail detail note =
     (case detail of
        Some existing \<Rightarrow> if trim existing \<noteq> [] then Some (existing @ '' ('' @ note @ '')'') else Some note
      | None \<Rightarrow> Some note)"

definition recover_member_status ::
  "swarm_lifecycle_status \<Rightarrow> string option \<Rightarrow> bool \<Rightarrow> swarm_lifecycle_status \<times> string option" where
  "recover_member_status status detail is_headless =
     (if status = Running then (Crashed, append_recovery_detail detail ''recovered after reload while running'')
      else if is_headless \<and> status \<notin> {Completed, SwarmCore.Failed, Stopped} then
        (Crashed, append_recovery_detail detail ''headless session did not survive reload'')
      else (status, detail))"

text \<open>A recovered member has a channel nobody listens to; its number is an argument.\<close>

definition from_persisted_member :: "nat \<Rightarrow> nat \<Rightarrow> swarm_member_record \<Rightarrow> swarm_member" where
  "from_persisted_member now dead_channel r =
     (let (status, detail) = recover_member_status (mr_status r) (mr_detail r) (mr_is_headless r)
      in from_record now (r\<lparr>mr_status := status, mr_detail := detail\<rparr>) dead_channel)"

record loaded_swarms =
  ld_plans :: "(string, versioned_plan) fmap"
  ld_coordinators :: "(string, string) fmap"
  ld_members :: "(string, swarm_member) fmap"
  ld_swarms :: "(string, string fset) fmap"

definition load_member :: "nat \<Rightarrow> nat \<Rightarrow> loaded_swarms \<Rightarrow> swarm_member_record \<Rightarrow> loaded_swarms" where
  "load_member now dead_channel ld r =
     (case mr_swarm_id r of
        None \<Rightarrow> ld
      | Some swarm_id \<Rightarrow>
          ld\<lparr>ld_swarms := entry_upd {||} (finsert (mr_session_id r)) swarm_id (ld_swarms ld),
             ld_members := fmupd (mr_session_id r) (from_persisted_member now dead_channel r) (ld_members ld)\<rparr>)"

definition load_swarm_file ::
  "nat \<Rightarrow> nat \<Rightarrow> loaded_swarms \<Rightarrow> persisted_swarm_state option \<Rightarrow> loaded_swarms" where
  "load_swarm_file now dead_channel ld file =
     (case file of
        None \<Rightarrow> ld
      | Some px \<Rightarrow>
          (let ld = (case px_plan px of None \<Rightarrow> ld
                | Some p \<Rightarrow> ld\<lparr>ld_plans := fmupd (px_swarm_id px)
                    (from_persisted_plan p (px_updated_at_unix_ms px)) (ld_plans ld)\<rparr>);
               ld = (case px_coordinator_session_id px of None \<Rightarrow> ld
                | Some c \<Rightarrow> ld\<lparr>ld_coordinators := fmupd (px_swarm_id px) c (ld_coordinators ld)\<rparr>)
           in foldl (load_member now dead_channel) ld (px_members px)))"

definition load_runtime_state ::
  "server_env \<Rightarrow> nat \<Rightarrow> nat \<Rightarrow> (string, persisted_swarm_state option) fmap \<Rightarrow> loaded_swarms" where
  "load_runtime_state env now dead_channel disk =
     foldl (\<lambda>ld path. load_swarm_file now dead_channel ld (Option.bind (fmlookup disk path) id))
       \<lparr>ld_plans = fmempty, ld_coordinators = fmempty, ld_members = fmempty, ld_swarms = fmempty\<rparr>
       (en_order env (fmdom disk))"

definition persist_swarm_state ::
  "nat \<Rightarrow> string \<Rightarrow> versioned_plan option \<Rightarrow> string option \<Rightarrow> swarm_member list \<Rightarrow> server \<Rightarrow> server" where
  "persist_swarm_state now swarm_id plan coordinator ms st =
     (if plan = None \<and> coordinator = None \<and> ms = [] then
        st\<lparr>sv_disk := fmdrop (state_path swarm_id) (sv_disk st)\<rparr>
      else
        st\<lparr>sv_disk := fmupd (state_path swarm_id)
          (Some \<lparr>px_swarm_id = swarm_id, px_plan = map_option to_persisted_plan plan,
             px_coordinator_session_id = coordinator,
             px_members = sort_key mr_session_id (map durable_record ms),
             px_updated_at_unix_ms = now\<rparr>) (sv_disk st)\<rparr>)"

text \<open>The runtime state of one swarm.\<close>

record swarm_runtime =
  rt_swarm_id :: string
  rt_coordinator_session_id :: "string option"
  rt_member_session_ids :: "string fset"
  rt_members :: "swarm_member list"
  rt_plan :: "versioned_plan option"

definition has_any_state :: "swarm_runtime \<Rightarrow> bool" where
  "has_any_state rt \<longleftrightarrow> rt_plan rt \<noteq> None \<or> rt_coordinator_session_id rt \<noteq> None \<or> rt_members rt \<noteq> []"

definition member_values :: "server_env \<Rightarrow> server \<Rightarrow> swarm_member list" where
  "member_values env st =
     List.map_filter (\<lambda>i. fmlookup (sv_members st) i) (en_order env (fmdom (sv_members st)))"

definition load_runtime :: "server_env \<Rightarrow> string \<Rightarrow> server \<Rightarrow> swarm_runtime" where
  "load_runtime env swarm_id st =
     \<lparr>rt_swarm_id = swarm_id, rt_coordinator_session_id = fmlookup (sv_coordinators st) swarm_id,
      rt_member_session_ids = get_or {||} (sv_swarms st) swarm_id,
      rt_members = sort_key sm_session_id (filter (\<lambda>m. sm_swarm_id m = Some swarm_id) (member_values env st)),
      rt_plan = fmlookup (sv_plans st) swarm_id\<rparr>"

definition persist_swarm_state_for :: "server_env \<Rightarrow> nat \<Rightarrow> string \<Rightarrow> server \<Rightarrow> server" where
  "persist_swarm_state_for env now swarm_id st =
     (let rt = load_runtime env swarm_id st
      in persist_swarm_state now swarm_id (rt_plan rt) (rt_coordinator_session_id rt) (rt_members rt) st)"

definition remove_persisted_swarm_state_for :: "server_env \<Rightarrow> string \<Rightarrow> server \<Rightarrow> server" where
  "remove_persisted_swarm_state_for env swarm_id st =
     (if has_any_state (load_runtime env swarm_id st) then st
      else st\<lparr>sv_disk := fmdrop (state_path swarm_id) (sv_disk st)\<rparr>)"

section \<open>Broadcasts\<close>

definition member_status :: "nat \<Rightarrow> swarm_member \<Rightarrow> swarm_member_status" where
  "member_status now m =
     \<lparr>ms_session_id = sm_session_id m, ms_friendly_name = sm_friendly_name m, ms_status = sm_status m,
      ms_detail = sm_detail m, ms_role = Some (sm_role m), ms_is_headless = Some (sm_is_headless m),
      ms_live_attachments = Some (fcard (fmdom (sm_event_txs m))),
      ms_status_age_secs = Some ((now - sm_last_status_change m) div 1000)\<rparr>"

definition broadcast_swarm_status_now :: "server_env \<Rightarrow> nat \<Rightarrow> string list \<Rightarrow> server \<Rightarrow> server" where
  "broadcast_swarm_status_now env now session_ids st =
     (if session_ids = [] then st
      else
        let statuses = List.map_filter (\<lambda>sid. map_option (member_status now) (fmlookup (sv_members st) sid)) session_ids
        in foldl (\<lambda>st sid. snd (fanout_session_event env sid (EvSwarmStatus statuses) st)) st session_ids)"

text \<open>
  In a larger swarm the broadcast is made by a timer; one that comes meanwhile marks the pending one as
  dirty, which makes the timer go round once more.
\<close>

definition broadcast_swarm_status :: "server_env \<Rightarrow> nat \<Rightarrow> string \<Rightarrow> server \<Rightarrow> server" where
  "broadcast_swarm_status env now swarm_id st =
     (let session_ids = swarm_sessions env swarm_id st
      in if session_ids = [] then st
         else if length session_ids < en_threshold env then broadcast_swarm_status_now env now session_ids st
         else
           st\<lparr>sv_pending_status := entry_upd \<lparr>pb_scheduled = False, pb_dirty = False\<rparr>
             (\<lambda>e. if pb_scheduled e then e\<lparr>pb_dirty := True\<rparr> else e\<lparr>pb_scheduled := True, pb_dirty := False\<rparr>)
             swarm_id (sv_pending_status st)\<rparr>)"

definition status_timer :: "server_env \<Rightarrow> nat \<Rightarrow> string \<Rightarrow> server \<Rightarrow> server" where
  "status_timer env now swarm_id st =
     (let st = broadcast_swarm_status_now env now (swarm_sessions env swarm_id st) st
      in case fmlookup (sv_pending_status st) swarm_id of
           None \<Rightarrow> st
         | Some e \<Rightarrow>
             st\<lparr>sv_pending_status :=
               (if pb_dirty e then fmupd swarm_id (e\<lparr>pb_dirty := False\<rparr>) (sv_pending_status st)
                else fmdrop swarm_id (sv_pending_status st))\<rparr>)"

definition broadcast_swarm_plan_with_previous ::
  "server_env \<Rightarrow> string \<Rightarrow> string option \<Rightarrow> plan_item list option \<Rightarrow> server \<Rightarrow> server" where
  "broadcast_swarm_plan_with_previous env swarm_id reason previous_items st =
     (case fmlookup (sv_plans st) swarm_id of
        None \<Rightarrow> st
      | Some vp \<Rightarrow>
          (let newly_ready = (case previous_items of None \<Rightarrow> [] | Some before \<Rightarrow> newly_ready_item_ids before (vp_items vp));
               participants = sorted_list_of_fset (vp_participants vp);
               participants = (if participants = [] then sort (swarm_sessions env swarm_id st) else participants);
               event = EvSwarmPlan swarm_id (vp_version vp) (vp_items vp) participants reason
                 (Some (from_versioned_plan swarm_id vp (Some 3) newly_ready))
           in foldl (\<lambda>st sid. send_member sid event st) st participants))"

definition broadcast_swarm_plan :: "server_env \<Rightarrow> string \<Rightarrow> string option \<Rightarrow> server \<Rightarrow> server" where
  "broadcast_swarm_plan env swarm_id reason st = broadcast_swarm_plan_with_previous env swarm_id reason None st"

section \<open>Task progress\<close>

definition heartbeat ::
  "nat \<Rightarrow> string option \<Rightarrow> string option \<Rightarrow> string option \<Rightarrow> swarm_task_progress \<Rightarrow> swarm_task_progress" where
  "heartbeat now assigned detail checkpoint p =
     (let p = (case assigned of Some s \<Rightarrow> p\<lparr>tp_assigned_session_id := Some s\<rparr> | None \<Rightarrow> p);
          p = p\<lparr>tp_last_heartbeat_unix_ms := Some now,
                tp_heartbeat_count := Some ((case tp_heartbeat_count p of Some n \<Rightarrow> n | None \<Rightarrow> 0) + 1)\<rparr>;
          p = (case detail of Some d \<Rightarrow> p\<lparr>tp_last_detail := Some (truncate_detail d 120)\<rparr> | None \<Rightarrow> p)
      in case checkpoint of
           None \<Rightarrow> p
         | Some s \<Rightarrow>
             p\<lparr>tp_last_checkpoint_unix_ms := Some now, tp_checkpoint_summary := Some (truncate_detail s 120),
               tp_checkpoint_count := Some ((case tp_checkpoint_count p of Some n \<Rightarrow> n | None \<Rightarrow> 0) + 1)\<rparr>)"

definition set_item_status :: "string \<Rightarrow> string \<Rightarrow> plan_item list \<Rightarrow> plan_item list" where
  "set_item_status task_id status items =
     upd_first (\<lambda>item. pi_id item = task_id) (\<lambda>item. item\<lparr>pi_status := status\<rparr>) items"

definition touch_swarm_task_progress ::
  "server_env \<Rightarrow> nat \<Rightarrow> string \<Rightarrow> string \<Rightarrow> string option \<Rightarrow> string option \<Rightarrow> string option \<Rightarrow> server \<Rightarrow>
   bool \<times> server" where
  "touch_swarm_task_progress env now swarm_id task_id assigned detail checkpoint st =
     (case fmlookup (sv_plans st) swarm_id of
        None \<Rightarrow> (False, st)
      | Some plan \<Rightarrow>
          (case find_item (vp_items plan) task_id of
             None \<Rightarrow> (False, st)
           | Some item \<Rightarrow>
               (let p = heartbeat now assigned detail checkpoint
                      (get_or swarm_task_progress_default (vp_task_progress plan) task_id);
                    revived = (pi_status item = ''running_stale'');
                    p = (if revived then p\<lparr>tp_stale_since_unix_ms := None\<rparr> else p);
                    plan = plan\<lparr>vp_task_progress := fmupd task_id p (vp_task_progress plan)\<rparr>;
                    plan = (if revived then plan\<lparr>vp_items := set_item_status task_id ''running'' (vp_items plan),
                        vp_version := vp_version plan + 1\<rparr> else plan)
                in (revived,
                    persist_swarm_state_for env now swarm_id (st\<lparr>sv_plans := fmupd swarm_id plan (sv_plans st)\<rparr>)))))"

definition last_sign :: "swarm_task_progress \<Rightarrow> nat option" where
  "last_sign p =
     (case tp_last_heartbeat_unix_ms p of Some t \<Rightarrow> Some t
      | None \<Rightarrow> (case tp_started_at_unix_ms p of Some t \<Rightarrow> Some t | None \<Rightarrow> tp_assigned_at_unix_ms p))"

definition is_stale :: "nat \<Rightarrow> nat \<Rightarrow> swarm_task_progress \<Rightarrow> bool" where
  "is_stale now stale_after p \<longleftrightarrow> (case last_sign p of Some t \<Rightarrow> now - t \<ge> stale_after | None \<Rightarrow> True)"

text \<open>One item: its new status, the progress of all tasks, the version and whether anything changed.\<close>

definition refresh_item ::
  "nat \<Rightarrow> nat \<Rightarrow> plan_item list \<times> (string, swarm_task_progress) fmap \<times> nat \<times> bool \<Rightarrow> plan_item \<Rightarrow>
   plan_item list \<times> (string, swarm_task_progress) fmap \<times> nat \<times> bool" where
  "refresh_item now stale_after acc item =
     (let (items, progress, version, changed) = acc
      in if \<not> is_active_status (pi_status item) then (items @ [item], progress, version, changed)
         else
           let p = get_or swarm_task_progress_default progress (pi_id item); stale = is_stale now stale_after p
           in if pi_status item = ''running'' \<and> stale then
                (items @ [item\<lparr>pi_status := ''running_stale''\<rparr>],
                 fmupd (pi_id item) (p\<lparr>tp_stale_since_unix_ms :=
                   Some (case tp_stale_since_unix_ms p of Some t \<Rightarrow> t | None \<Rightarrow> now)\<rparr>) progress, version + 1, True)
              else if pi_status item = ''running_stale'' \<and> \<not> stale then
                (items @ [item\<lparr>pi_status := ''running''\<rparr>],
                 fmupd (pi_id item) (p\<lparr>tp_stale_since_unix_ms := None\<rparr>) progress, version + 1, True)
              else (items @ [item], fmupd (pi_id item) p progress, version, changed))"

definition refresh_plan :: "nat \<Rightarrow> nat \<Rightarrow> versioned_plan \<Rightarrow> bool \<times> versioned_plan" where
  "refresh_plan now stale_after plan =
     (let (items, progress, version, changed) =
        foldl (refresh_item now stale_after) ([], vp_task_progress plan, vp_version plan, False) (vp_items plan)
      in (changed, plan\<lparr>vp_items := items, vp_task_progress := progress, vp_version := version\<rparr>))"

definition refresh_swarm_task_staleness :: "server_env \<Rightarrow> nat \<Rightarrow> server \<Rightarrow> server" where
  "refresh_swarm_task_staleness env now st =
     (let refresh = refresh_plan now (en_stale_after_ms env);
          changed = filter (\<lambda>s. case fmlookup (sv_plans st) s of Some plan \<Rightarrow> fst (refresh plan) | None \<Rightarrow> False)
            (en_order env (fmdom (sv_plans st)));
          st = st\<lparr>sv_plans := fmmap (\<lambda>plan. snd (refresh plan)) (sv_plans st)\<rparr>
      in foldl (\<lambda>st s. broadcast_swarm_plan env s (Some ''task_staleness_changed'')
           (persist_swarm_state_for env now s st)) st changed)"

section \<open>Participants and leaving\<close>

definition rename_plan_participant :: "string \<Rightarrow> string \<Rightarrow> string \<Rightarrow> server \<Rightarrow> server" where
  "rename_plan_participant swarm_id old new st =
     upd_plan (\<lambda>vp. vp\<lparr>
       vp_participants := (if old |\<in>| vp_participants vp then finsert new (vp_participants vp |-| {|old|})
         else vp_participants vp),
       vp_items := map (\<lambda>item. if pi_assigned_to item = Some old then item\<lparr>pi_assigned_to := Some new\<rparr> else item)
         (vp_items vp)\<rparr>) swarm_id st"

definition remove_plan_participant :: "string \<Rightarrow> string \<Rightarrow> server \<Rightarrow> server" where
  "remove_plan_participant swarm_id session_id st =
     upd_plan (\<lambda>vp. vp\<lparr>vp_participants := vp_participants vp |-| {|session_id|}\<rparr>) swarm_id st"

definition drop_accesses :: "string \<Rightarrow> string \<Rightarrow> (string, file_access list) fmap \<Rightarrow> (string, file_access list) fmap" where
  "drop_accesses session_id path touches =
     (case fmlookup touches path of
        None \<Rightarrow> touches
      | Some accesses \<Rightarrow>
          (let rest = filter (\<lambda>a. fa_session_id a \<noteq> session_id) accesses
           in if rest = [] then fmdrop path touches else fmupd path rest touches))"

definition remove_session_file_touches :: "server_env \<Rightarrow> string \<Rightarrow> server \<Rightarrow> server" where
  "remove_session_file_touches env session_id st =
     (let paths = fmlookup (sv_touched_by st) session_id;
          st = st\<lparr>sv_touched_by := fmdrop session_id (sv_touched_by st)\<rparr>
      in st\<lparr>sv_touches := foldl (\<lambda>touches path. drop_accesses session_id path touches) (sv_touches st)
           (en_order env (case paths of Some ps \<Rightarrow> ps | None \<Rightarrow> fmdom (sv_touches st)))\<rparr>)"

definition coordinator_note_event :: "string \<Rightarrow> string option \<Rightarrow> server_event" where
  "coordinator_note_event new_id name =
     EvNotification new_id name (MessageNote (Some ''swarm'') None) ''You are now the coordinator for this swarm.''"

text \<open>The least of the remaining sessions that is a member with a terminal.\<close>

definition elect_coordinator :: "string \<Rightarrow> server \<Rightarrow> string option" where
  "elect_coordinator swarm_id st =
     (case fmlookup (sv_swarms st) swarm_id of
        None \<Rightarrow> None
      | Some sessions \<Rightarrow>
          (let candidates = ffilter (\<lambda>i. case fmlookup (sv_members st) i of
                 Some m \<Rightarrow> \<not> sm_is_headless m | None \<Rightarrow> False) sessions
           in if candidates = {||} then None else Some (fMin candidates)))"

definition leave_swarm_set :: "string \<Rightarrow> string \<Rightarrow> server \<Rightarrow> server" where
  "leave_swarm_set session_id swarm_id st =
     (case fmlookup (sv_swarms st) swarm_id of
        None \<Rightarrow> st
      | Some sessions \<Rightarrow>
          (let rest = sessions |-| {|session_id|}
           in st\<lparr>sv_swarms := (if rest = {||} then fmdrop swarm_id (sv_swarms st) else fmupd swarm_id rest (sv_swarms st))\<rparr>))"

definition hand_over :: "string \<Rightarrow> server \<Rightarrow> server" where
  "hand_over swarm_id st =
     (let new_coordinator = elect_coordinator swarm_id st;
          st = st\<lparr>sv_coordinators := fmdrop swarm_id (sv_coordinators st)\<rparr>
      in case new_coordinator of
           None \<Rightarrow> st
         | Some new_id \<Rightarrow>
             (let st = st\<lparr>sv_coordinators := fmupd swarm_id new_id (sv_coordinators st)\<rparr>;
                  st = upd_member (\<lambda>m. m\<lparr>sm_role := ''coordinator''\<rparr>) new_id st;
                  st = upd_plan (\<lambda>vp. vp\<lparr>vp_participants := finsert new_id (vp_participants vp)\<rparr>) swarm_id st
              in send_member new_id
                   (coordinator_note_event new_id (Option.bind (fmlookup (sv_members st) new_id) sm_friendly_name)) st))"

definition remove_session_from_swarm :: "server_env \<Rightarrow> nat \<Rightarrow> string \<Rightarrow> string \<Rightarrow> server \<Rightarrow> server" where
  "remove_session_from_swarm env now session_id swarm_id st =
     (let st = leave_swarm_set session_id swarm_id (remove_plan_participant swarm_id session_id st);
          st = (if fmlookup (sv_coordinators st) swarm_id = Some session_id then hand_over swarm_id st else st);
          st = upd_member (\<lambda>m. m\<lparr>sm_role := ''agent''\<rparr>) session_id st;
          st = (if swarm_id |\<in>| fmdom (sv_plans st) then persist_swarm_state_for env now swarm_id st
                else remove_persisted_swarm_state_for env swarm_id st)
      in broadcast_swarm_status env now swarm_id st)"

section \<open>Event history\<close>

definition max_event_history :: nat where "max_event_history = 5000"

definition record_swarm_event ::
  "nat \<Rightarrow> string \<Rightarrow> string option \<Rightarrow> string option \<Rightarrow> swarm_event_type \<Rightarrow> server \<Rightarrow> server" where
  "record_swarm_event now session_id session_name swarm_id event st =
     (let e = \<lparr>se_id = sv_counter st, se_session_id = session_id, se_session_name = session_name,
            se_swarm_id = swarm_id, se_event = event, se_timestamp = now\<rparr>;
          history = sv_history st @ [e]
      in st\<lparr>sv_counter := sv_counter st + 1, sv_broadcast := sv_broadcast st @ [e],
            sv_history := (if length history > max_event_history then tl history else history)\<rparr>)"

definition record_swarm_event_for_session :: "nat \<Rightarrow> string \<Rightarrow> swarm_event_type \<Rightarrow> server \<Rightarrow> server" where
  "record_swarm_event_for_session now session_id event st =
     (let m = fmlookup (sv_members st) session_id
      in record_swarm_event now session_id (Option.bind m sm_friendly_name) (Option.bind m sm_swarm_id) event st)"

section \<open>Status changes\<close>

text \<open>
  The first bytes of a session id stand for a missing name; cutting inside a character panics. Where the code
  computes them although there is a name, it panics all the same.
\<close>

definition id_prefix :: "nat \<Rightarrow> string \<Rightarrow> string option" where
  "id_prefix n session_id =
     (if n \<le> length session_id \<and> is_char_boundary session_id n then Some (take n session_id) else None)"

definition short_name :: "string option \<Rightarrow> string \<Rightarrow> string option" where
  "short_name name session_id =
     (case name of Some n \<Rightarrow> Some n | None \<Rightarrow> id_prefix (min 8 (length session_id)) session_id)"

definition eager_name :: "string option \<Rightarrow> nat \<Rightarrow> string \<Rightarrow> string option" where
  "eager_name name n session_id =
     map_option (\<lambda>p. case name of Some label \<Rightarrow> label | None \<Rightarrow> p) (id_prefix n session_id)"

definition completion_recipient ::
  "server_env \<Rightarrow> string \<Rightarrow> string \<Rightarrow> string option \<Rightarrow> server \<Rightarrow> string option" where
  "completion_recipient env session_id swarm_id report_back st =
     (let fallback = (if report_back = Some session_id then None
            else map_option sm_session_id (find (\<lambda>m. sm_swarm_id m = Some swarm_id \<and> sm_role m = ''coordinator'' \<and>
                   sm_session_id m \<noteq> session_id) (member_values env st)))
      in case report_back of
           Some owner \<Rightarrow> if owner \<noteq> session_id then Some owner else fallback
         | None \<Rightarrow> fallback)"

definition notify_completion ::
  "server_env \<Rightarrow> string \<Rightarrow> string option \<Rightarrow> string \<Rightarrow> string option \<Rightarrow> string \<Rightarrow> server \<Rightarrow> server" where
  "notify_completion env session_id name status report recipient st =
     (case eager_name name (min 8 (length session_id)) session_id of
        None \<Rightarrow> st\<lparr>sv_panicked := True\<rparr>
      | Some label \<Rightarrow>
          snd (fanout_session_event env recipient
            (EvNotification session_id name (MessageNote (Some ''swarm'') None)
               (completion_notification_message label status report)) st))"

definition should_notify :: "string option \<Rightarrow> string \<Rightarrow> string \<Rightarrow> bool" where
  "should_notify report_back old_status status \<longleftrightarrow>
     old_status \<noteq> status \<and>
     (status = ''completed'' \<or>
      (report_back \<noteq> None \<and> old_status = ''running'' \<and> status \<in> {''ready'', ''failed'', ''stopped''}))"

text \<open>The event history is left alone where the caller passes no history.\<close>

definition update_member_status_with_report ::
  "server_env \<Rightarrow> nat \<Rightarrow> bool \<Rightarrow> string \<Rightarrow> string \<Rightarrow> string option \<Rightarrow> string option \<Rightarrow> server \<Rightarrow> server" where
  "update_member_status_with_report env now with_history session_id status detail report st =
     (let report = normalize_completion_report report
      in case fmlookup (sv_members st) session_id of
           None \<Rightarrow> st
         | Some m \<Rightarrow>
             (let old_status = sm_status m; status_changed = (old_status \<noteq> status);
                  member_changed = (status_changed \<or> sm_detail m \<noteq> detail \<or>
                    (report \<noteq> None \<and> sm_latest_completion_report m \<noteq> report));
                  m' = m\<lparr>sm_status := status, sm_detail := detail,
                    sm_last_status_change := (if status_changed then now else sm_last_status_change m),
                    sm_latest_completion_report := (if report \<noteq> None then report else sm_latest_completion_report m)\<rparr>;
                  st = st\<lparr>sv_members := fmupd session_id m' (sv_members st)\<rparr>
              in case sm_swarm_id m of
                   None \<Rightarrow> st
                 | Some swarm_id \<Rightarrow>
                     if \<not> member_changed then st
                     else
                       let st = (if status_changed \<and> with_history then
                             record_swarm_event now session_id (sm_friendly_name m) (Some swarm_id)
                               (SwStatusChange old_status status) st else st);
                           st = broadcast_swarm_status env now swarm_id st
                       in if should_notify (sm_report_back_to_session_id m) old_status status then
                            (case completion_recipient env session_id swarm_id (sm_report_back_to_session_id m) st of
                               None \<Rightarrow> st
                             | Some recipient \<Rightarrow>
                                 notify_completion env session_id (sm_friendly_name m) status report recipient st)
                          else st))"

definition update_member_status ::
  "server_env \<Rightarrow> nat \<Rightarrow> bool \<Rightarrow> string \<Rightarrow> string \<Rightarrow> string option \<Rightarrow> server \<Rightarrow> server" where
  "update_member_status env now with_history session_id status detail st =
     update_member_status_with_report env now with_history session_id status detail None st"

section \<open>A client leaves\<close>

datatype disconnect_disposition = Closed | CrashedClient | Reloading

definition disconnect_disposition :: "bool \<Rightarrow> bool \<Rightarrow> disconnect_disposition" where
  "disconnect_disposition disconnected_while_processing reload_marker_active =
     (if \<not> disconnected_while_processing then Closed
      else if reload_marker_active then Reloading else CrashedClient)"

fun left_status :: "disconnect_disposition \<Rightarrow> string \<times> string" where
  "left_status Closed = (''stopped'', ''disconnected'')"
| "left_status CrashedClient = (''crashed'', ''disconnect while running'')"
| "left_status Reloading = (''stopped'', ''server reload in progress'')"

definition session_has_live_successor :: "string \<Rightarrow> server \<Rightarrow> bool" where
  "session_has_live_successor session_id st \<longleftrightarrow> session_id |\<in>| cn_session_id |`| fmran (sv_connections st)"

text \<open>A member goes, and its place in its swarm.\<close>

definition drop_member :: "server_env \<Rightarrow> nat \<Rightarrow> string \<Rightarrow> server \<Rightarrow> server" where
  "drop_member env now i st =
     (let m = fmlookup (sv_members st) i;
          st = st\<lparr>sv_members := fmdrop i (sv_members st)\<rparr>
      in case Option.bind m sm_swarm_id of
           None \<Rightarrow> st
         | Some swarm_id \<Rightarrow>
             remove_session_from_swarm env now i swarm_id
               (record_swarm_event now i (Option.bind m sm_friendly_name) (Some swarm_id) (SwMemberChange ''left'') st))"

text \<open>
  What cleaning up after a connection does to the swarms; closing the agent's session file and its memory
  extraction are not part of it.
\<close>

definition cleanup_client_connection ::
  "server_env \<Rightarrow> nat \<Rightarrow> string \<Rightarrow> string \<Rightarrow> disconnect_disposition \<Rightarrow> server \<Rightarrow> server" where
  "cleanup_client_connection env now session_id connection_id disposition st =
     (let st = st\<lparr>sv_connections := fmdrop connection_id (sv_connections st)\<rparr>;
          st = unregister_session_event_sender env session_id connection_id st
      in if session_has_live_successor session_id st then st
         else
           let st = st\<lparr>sv_agents := fmdrop session_id (sv_agents st)\<rparr>;
               (status, detail) = left_status disposition;
               st = update_member_status env now True session_id status (Some detail) st;
               st = drop_member env now session_id st;
               st = st\<lparr>sv_channels := remove_session session_id (sv_channels st)\<rparr>;
               st = remove_session_file_touches env session_id st
           in remove_session_interrupt_queue session_id st)"

end
