(* ===== verification/SwarmSpawn.thy ===== *)
theory SwarmSpawn
  imports SwarmServer
begin

text \<open>
  New agent sessions for a swarm (src/server/comm_session.rs, src/server/headless.rs): a session in a
  terminal of its own if one can be opened, a headless one else, and the turn with its first message. What
  saving the session, opening the terminal and the file system give is an argument.
\<close>

section \<open>Names and swarms of sessions\<close>

definition extract_session_name :: "string \<Rightarrow> string option" where
  "extract_session_name session_id =
     (case strip_prefix ''session_'' session_id of
        None \<Rightarrow> None
      | Some rest \<Rightarrow> if CHR ''_'' \<in> set rest then Some (takeWhile (\<lambda>c. c \<noteq> CHR ''_'') rest) else None)"

text \<open>
  What spawning takes from outside: the id of the session prepared for a terminal (None if it cannot be
  saved) and whether the terminal opened (None for an error); the id, address, queue, channel, provider and model of a headless session;
  a channel without a receiver; whether swarms are enabled, JCODE_SWARM_ID, and the git directory of a directory.
\<close>

record spawn_env =
  sp_visible :: "(string \<times> bool option) option"
  sp_headless_session :: string
  sp_headless_address :: nat
  sp_headless_queue :: nat
  sp_headless_tx :: nat
  sp_provider :: "string \<times> string"
  sp_dead_tx :: nat
  sp_swarm_enabled :: bool
  sp_swarm_id_var :: "string option"
  sp_git_common_dir :: "string \<Rightarrow> string option"

definition swarm_id_for_dir :: "spawn_env \<Rightarrow> string option \<Rightarrow> string option" where
  "swarm_id_for_dir sp dir =
     (case sp_swarm_id_var sp of
        Some v \<Rightarrow> if trim v \<noteq> [] then Some (trim v)
          else (case dir of None \<Rightarrow> None | Some d \<Rightarrow> Some (case sp_git_common_dir sp d of Some g \<Rightarrow> g | None \<Rightarrow> d))
      | None \<Rightarrow> (case dir of None \<Rightarrow> None | Some d \<Rightarrow> Some (case sp_git_common_dir sp d of Some g \<Rightarrow> g | None \<Rightarrow> d)))"

definition blank :: "string \<Rightarrow> bool" where
  "blank s \<longleftrightarrow> trim s = []"

definition resolve_spawn_working_dir :: "string option \<Rightarrow> string \<Rightarrow> server \<Rightarrow> string option" where
  "resolve_spawn_working_dir requested req st =
     (let not_blank = (\<lambda>d. case d of Some s \<Rightarrow> if blank s then None else Some s | None \<Rightarrow> None);
          agent_dir = (case fmlookup (sv_agents st) req of
            Some a \<Rightarrow> if ah_busy a then None else ah_working_dir a | None \<Rightarrow> None);
          member_dir = Option.bind (fmlookup (sv_members st) req) sm_working_dir
      in case not_blank requested of
           Some d \<Rightarrow> Some d
         | None \<Rightarrow> (case not_blank agent_dir of Some d \<Rightarrow> Some d | None \<Rightarrow> not_blank member_dir))"

section \<open>A session in a terminal\<close>

text \<open>The first message is left in a file for the terminal, and taken away again if no terminal opens.\<close>

definition prepare_visible_spawn_session ::
  "spawn_env \<Rightarrow> string option \<Rightarrow> server \<Rightarrow> (string \<times> bool) option \<times> server" where
  "prepare_visible_spawn_session sp startup st =
     (case sp_visible sp of
        None \<Rightarrow> (None, st)
      | Some (new_session, launch) \<Rightarrow>
          (let saved = (case startup of
                 Some message \<Rightarrow> fmupd new_session message (sv_client_input st) | None \<Rightarrow> sv_client_input st)
           in case launch of
                Some True \<Rightarrow> (Some (new_session, True), st\<lparr>sv_client_input := saved\<rparr>)
              | Some False \<Rightarrow> (Some (new_session, False), st\<lparr>sv_client_input := fmdrop new_session saved\<rparr>)
              | None \<Rightarrow> (None, st\<lparr>sv_client_input := fmdrop new_session saved\<rparr>)))"

definition new_member ::
  "string \<Rightarrow> nat \<Rightarrow> string option \<Rightarrow> string option \<Rightarrow> bool \<Rightarrow> string \<Rightarrow> string option \<Rightarrow> string \<Rightarrow> string option \<Rightarrow>
   nat \<Rightarrow> bool \<Rightarrow> swarm_member" where
  "new_member session_id tx dir swarm_id enabled status detail name report_back now headless =
     \<lparr>sm_session_id = session_id, sm_event_tx = tx, sm_event_txs = fmempty, sm_working_dir = dir,
      sm_swarm_id = swarm_id, sm_swarm_enabled = enabled, sm_status = status, sm_detail = detail,
      sm_friendly_name = Some name, sm_report_back_to_session_id = report_back, sm_latest_completion_report = None,
      sm_role = ''agent'', sm_joined_at = now, sm_last_status_change = now, sm_is_headless = headless\<rparr>"

definition join_swarm :: "swarm_member \<Rightarrow> server \<Rightarrow> server" where
  "join_swarm m st =
     (let st = st\<lparr>sv_members := fmupd (sm_session_id m) m (sv_members st)\<rparr>
      in case sm_swarm_id m of
           None \<Rightarrow> st
         | Some swarm_id \<Rightarrow> st\<lparr>sv_swarms := entry_upd {||} (finsert (sm_session_id m)) swarm_id (sv_swarms st)\<rparr>)"

text \<open>The receiver of the new member's channel is dropped at once.\<close>

definition register_visible_spawned_member ::
  "server_env \<Rightarrow> spawn_env \<Rightarrow> nat \<Rightarrow> string \<Rightarrow> string \<Rightarrow> string option \<Rightarrow> bool \<Rightarrow> string option \<Rightarrow> server \<Rightarrow> server" where
  "register_visible_spawned_member env sp now session_id swarm_id dir has_message report_back st =
     (let name = (case extract_session_name session_id of Some n \<Rightarrow> n | None \<Rightarrow> session_id);
          (status, detail) = (if has_message then (''running'', ''startup queued'') else (''spawned'', ''launching client''));
          st = join_swarm (new_member session_id (sp_dead_tx sp) dir (Some swarm_id) True status (Some detail) name
            report_back now False) (st\<lparr>sv_closed := finsert (sp_dead_tx sp) (sv_closed st)\<rparr>);
          st = record_swarm_event_for_session now session_id (SwMemberChange ''joined'') st
      in broadcast_swarm_status env now swarm_id st)"

section \<open>A headless session\<close>

text \<open>The command carries the working directory; the receiver of the session's channel reads for ever.\<close>

definition create_headless_session ::
  "server_env \<Rightarrow> spawn_env \<Rightarrow> nat \<Rightarrow> string option \<Rightarrow> string option \<Rightarrow> server \<Rightarrow> string \<times> server" where
  "create_headless_session env sp now dir report_back st =
     (let new_session = sp_headless_session sp;
          dir = (case dir of Some d \<Rightarrow> if blank d then None else Some (trim d) | None \<Rightarrow> None);
          st = (if sv_global_session st = [] then st\<lparr>sv_global_session := new_session\<rparr> else st);
          st = st\<lparr>sv_agents := fmupd new_session
            \<lparr>ah_address = sp_headless_address sp, ah_short_name = extract_session_name new_session,
             ah_queue = sp_headless_queue sp, ah_busy = False, ah_tool_calls = (\<lambda>_. []), ah_working_dir = dir,
             ah_provider = sp_provider sp, ah_history = []\<rparr>
            (sv_agents st)\<rparr>;
          st = register_session_interrupt_queue new_session (sp_headless_queue sp) st;
          swarm_id = (if sp_swarm_enabled sp then swarm_id_for_dir sp dir else None);
          label = short_name (extract_session_name new_session) new_session;
          st = (if label = None then st\<lparr>sv_panicked := True\<rparr> else st);
          st = join_swarm (new_member new_session (sp_headless_tx sp) dir swarm_id (sp_swarm_enabled sp) ''ready'' None
            (case label of Some n \<Rightarrow> n | None \<Rightarrow> []) report_back now True) st
      in (new_session, case swarm_id of Some sw \<Rightarrow> broadcast_swarm_status env now sw st | None \<Rightarrow> st))"

section \<open>Spawning\<close>

text \<open>Both sessions join the plan of the swarm unless it is empty.\<close>

definition join_plan :: "string \<Rightarrow> string \<Rightarrow> versioned_plan \<Rightarrow> versioned_plan" where
  "join_plan req new_session plan =
     (if vp_items plan = [] \<and> vp_participants plan = {||} then plan
      else plan\<lparr>vp_participants := finsert new_session (finsert req (vp_participants plan))\<rparr>)"

definition spawn_swarm_agent ::
  "server_env \<Rightarrow> spawn_env \<Rightarrow> nat \<Rightarrow> string \<Rightarrow> string \<Rightarrow> string option \<Rightarrow> string option \<Rightarrow> server \<Rightarrow>
   (string + string) \<times> server" where
  "spawn_swarm_agent env sp now req swarm_id working_dir initial st =
     (let dir = resolve_spawn_working_dir working_dir req st;
          startup = map_option append_report_instructions initial;
          (visible, st) = prepare_visible_spawn_session sp startup st;
          (new_session, headless, st) = (case visible of
             Some (s, True) \<Rightarrow> (s, False, st)
           | _ \<Rightarrow> (let (s, st) = create_headless_session env sp now dir (Some req) st in (s, True, st)));
          st = upd_plan (join_plan req new_session) swarm_id st;
          st = broadcast_swarm_plan env swarm_id (Some ''participant_spawned'') st;
          st = (if headless then st
            else register_visible_spawned_member env sp now new_session swarm_id dir (startup \<noteq> None) (Some req) st);
          st = persist_swarm_state_for env now swarm_id st;
          st = (case startup of
             Some message \<Rightarrow>
               if headless then
                 (let st = record_swarm_event_for_session now new_session (SwMemberChange ''joined'') st
                  in st\<lparr>sv_turns := sv_turns st @ [StartupTurn new_session message]\<rparr>)
               else st
           | None \<Rightarrow> st)
      in (Inr new_session, st))"

text \<open>The turn of a headless session with its first message: it starts, and ends with a report or an error.\<close>

definition startup_started :: "server_env \<Rightarrow> nat \<Rightarrow> string \<Rightarrow> string \<Rightarrow> server \<Rightarrow> server" where
  "startup_started env now session_id message st =
     update_member_status env now True session_id ''running'' (Some (truncate_detail message 120)) st"

definition startup_ended :: "server_env \<Rightarrow> nat \<Rightarrow> string \<Rightarrow> string + string option \<Rightarrow> server \<Rightarrow> server" where
  "startup_ended env now session_id result st =
     (case result of
        Inr report \<Rightarrow> update_member_status_with_report env now True session_id ''ready'' None report st
      | Inl error \<Rightarrow>
          update_member_status_with_report env now True session_id ''failed'' (Some (truncate_detail error 120)) None st)"

end
