(* ===== verification/SessionStore.thy ===== *)
theory SessionStore
  imports CompactionManager SwarmSpawn
begin

text \<open>
  Sessions (src/session.rs, src/session/persistence.rs, src/session/journal.rs, the stored types of
  crates/jcode-session-types/src/lib.rs): the transcript with its bookkeeping of what is on disk, the cached
  messages of requests, and the files, a snapshot with its backup and a journal of what was appended since.
  JSON texts are the values they stand for; file operations may fail. Times are milliseconds. The counts kept
  for memory profiles are left out.
\<close>

section \<open>Stored types\<close>

datatype session_status =
    SessActive | SessClosed | SessCrashed "string option" | SessReloaded | SessCompacted | SessRateLimited
  | SessError string

datatype session_improve_mode = ImproveRun | ImprovePlan | RefactorRun | RefactorPlan

record git_state =
  gs_root :: string
  gs_head :: "string option"
  gs_branch :: "string option"
  gs_dirty :: "bool option"

record env_snapshot =
  es_captured_at :: nat
  es_reason :: string
  es_session_id :: string
  es_working_dir :: "string option"
  es_provider :: string
  es_model :: string
  es_jcode_version :: string
  es_jcode_git_hash :: "string option"
  es_jcode_git_dirty :: "bool option"
  es_os :: string
  es_arch :: string
  es_pid :: nat
  es_is_selfdev :: bool
  es_is_debug :: bool
  es_is_canary :: bool
  es_testing_build :: "string option"
  es_working_git :: "git_state option"

record stored_memory_injection =
  mi_summary :: string
  mi_content :: string
  mi_count :: nat
  mi_memory_ids :: "string list"
  mi_age_ms :: "nat option"
  mi_before_message :: "nat option"
  mi_timestamp :: nat

datatype stored_display_role = DisplaySystem | DisplayBackgroundTask

record stored_token_usage =
  ut_input_tokens :: nat
  ut_output_tokens :: nat
  ut_cache_read_input_tokens :: "nat option"
  ut_cache_creation_input_tokens :: "nat option"

record 'j stored_message =
  st_id :: string
  st_role :: role
  st_content :: "'j content_block list"
  st_display_role :: "stored_display_role option"
  st_timestamp :: "nat option"
  st_tool_duration_ms :: "nat option"
  st_token_usage :: "stored_token_usage option"

definition to_message :: "'j stored_message \<Rightarrow> 'j message" where
  "to_message m =
     \<lparr>msg_role = st_role m, msg_content = st_content m, msg_timestamp = map_option int (st_timestamp m),
      msg_tool_duration_ms = st_tool_duration_ms m\<rparr>"

datatype stored_replay_event_kind =
    DisplayMessage string "string option" string
  | SwarmStatusEvent "swarm_member_status list"
  | SwarmPlanEvent string nat "plan_item list" "string list" "string option"

record stored_replay_event =
  re_timestamp :: nat
  re_kind :: stored_replay_event_kind

section \<open>Sessions\<close>

datatype persist_vector_mode = Clean | Append | Full

record session_journal_meta =
  jm_parent_id :: "string option"
  jm_title :: "string option"
  jm_custom_title :: "string option"
  jm_updated_at :: nat
  jm_compaction :: "stored_compaction_state option"
  jm_provider_session_id :: "string option"
  jm_provider_key :: "string option"
  jm_model :: "string option"
  jm_reasoning_effort :: "string option"
  jm_subagent_model :: "string option"
  jm_improve_mode :: "session_improve_mode option"
  jm_autoreview_enabled :: "bool option"
  jm_autojudge_enabled :: "bool option"
  jm_is_canary :: bool
  jm_testing_build :: "string option"
  jm_working_dir :: "string option"
  jm_short_name :: "string option"
  jm_status :: session_status
  jm_last_pid :: "nat option"
  jm_last_active_at :: "nat option"
  jm_is_debug :: bool
  jm_saved :: bool
  jm_save_label :: "string option"

record session_persist_state =
  ps_snapshot_exists :: bool
  ps_messages_len :: nat
  ps_env_snapshots_len :: nat
  ps_memory_injections_len :: nat
  ps_replay_events_len :: nat
  ps_messages_mode :: persist_vector_mode
  ps_env_snapshots_mode :: persist_vector_mode
  ps_memory_injections_mode :: persist_vector_mode
  ps_replay_events_mode :: persist_vector_mode
  ps_last_meta :: "session_journal_meta option"

definition session_persist_state_default :: session_persist_state where
  "session_persist_state_default =
     \<lparr>ps_snapshot_exists = False, ps_messages_len = 0, ps_env_snapshots_len = 0, ps_memory_injections_len = 0,
      ps_replay_events_len = 0, ps_messages_mode = Clean, ps_env_snapshots_mode = Clean,
      ps_memory_injections_mode = Clean, ps_replay_events_mode = Clean, ps_last_meta = None\<rparr>"

text \<open>What a snapshot holds; the rest of a session is not written.\<close>

record 'j session_data =
  ss_id :: string
  ss_parent_id :: "string option"
  ss_title :: "string option"
  ss_custom_title :: "string option"
  ss_created_at :: nat
  ss_updated_at :: nat
  ss_messages :: "'j stored_message list"
  ss_compaction :: "stored_compaction_state option"
  ss_provider_session_id :: "string option"
  ss_provider_key :: "string option"
  ss_model :: "string option"
  ss_reasoning_effort :: "string option"
  ss_subagent_model :: "string option"
  ss_improve_mode :: "session_improve_mode option"
  ss_autoreview_enabled :: "bool option"
  ss_autojudge_enabled :: "bool option"
  ss_is_canary :: bool
  ss_testing_build :: "string option"
  ss_working_dir :: "string option"
  ss_short_name :: "string option"
  ss_status :: session_status
  ss_last_pid :: "nat option"
  ss_last_active_at :: "nat option"
  ss_is_debug :: bool
  ss_saved :: bool
  ss_save_label :: "string option"
  ss_env_snapshots :: "env_snapshot list"
  ss_memory_injections :: "stored_memory_injection list"
  ss_replay_events :: "stored_replay_event list"

record 'j session =
  se_data :: "'j session_data"
  se_persist_state :: session_persist_state
  se_provider_messages_cache :: "'j message list"
  se_provider_message_prefix_hashes_cache :: "64 word list"
  se_provider_messages_cache_len :: nat
  se_provider_messages_cache_mode :: persist_vector_mode

definition upd_data :: "('j session_data \<Rightarrow> 'j session_data) \<Rightarrow> 'j session \<Rightarrow> 'j session" where
  "upd_data f s = s\<lparr>se_data := f (se_data s)\<rparr>"

definition max_session_journal_bytes :: nat where "max_session_journal_bytes = 512 * 1024"

definition max_env_snapshots :: nat where "max_env_snapshots = 8"

section \<open>What is on disk\<close>

definition journal_meta :: "'j session_data \<Rightarrow> session_journal_meta" where
  "journal_meta s =
     \<lparr>jm_parent_id = ss_parent_id s, jm_title = ss_title s, jm_custom_title = ss_custom_title s,
      jm_updated_at = ss_updated_at s, jm_compaction = ss_compaction s,
      jm_provider_session_id = ss_provider_session_id s, jm_provider_key = ss_provider_key s, jm_model = ss_model s,
      jm_reasoning_effort = ss_reasoning_effort s, jm_subagent_model = ss_subagent_model s,
      jm_improve_mode = ss_improve_mode s, jm_autoreview_enabled = ss_autoreview_enabled s,
      jm_autojudge_enabled = ss_autojudge_enabled s, jm_is_canary = ss_is_canary s,
      jm_testing_build = ss_testing_build s, jm_working_dir = ss_working_dir s, jm_short_name = ss_short_name s,
      jm_status = ss_status s, jm_last_pid = ss_last_pid s, jm_last_active_at = ss_last_active_at s,
      jm_is_debug = ss_is_debug s, jm_saved = ss_saved s, jm_save_label = ss_save_label s\<rparr>"

definition apply_journal_meta :: "session_journal_meta \<Rightarrow> 'j session_data \<Rightarrow> 'j session_data" where
  "apply_journal_meta m s =
     s\<lparr>ss_parent_id := jm_parent_id m, ss_title := jm_title m, ss_custom_title := jm_custom_title m,
       ss_updated_at := jm_updated_at m, ss_compaction := jm_compaction m,
       ss_provider_session_id := jm_provider_session_id m, ss_provider_key := jm_provider_key m, ss_model := jm_model m,
       ss_reasoning_effort := jm_reasoning_effort m, ss_subagent_model := jm_subagent_model m,
       ss_improve_mode := jm_improve_mode m, ss_autoreview_enabled := jm_autoreview_enabled m,
       ss_autojudge_enabled := jm_autojudge_enabled m, ss_is_canary := jm_is_canary m,
       ss_testing_build := jm_testing_build m, ss_working_dir := jm_working_dir m, ss_short_name := jm_short_name m,
       ss_status := jm_status m, ss_last_pid := jm_last_pid m, ss_last_active_at := jm_last_active_at m,
       ss_is_debug := jm_is_debug m, ss_saved := jm_saved m, ss_save_label := jm_save_label m\<rparr>"

definition metadata_requires_snapshot :: "session_journal_meta \<Rightarrow> session_journal_meta \<Rightarrow> bool" where
  "metadata_requires_snapshot prev cur \<longleftrightarrow>
     jm_parent_id prev \<noteq> jm_parent_id cur \<or> jm_title prev \<noteq> jm_title cur \<or>
     jm_custom_title prev \<noteq> jm_custom_title cur \<or> jm_provider_key prev \<noteq> jm_provider_key cur \<or>
     jm_reasoning_effort prev \<noteq> jm_reasoning_effort cur \<or> jm_subagent_model prev \<noteq> jm_subagent_model cur \<or>
     jm_improve_mode prev \<noteq> jm_improve_mode cur \<or> jm_autoreview_enabled prev \<noteq> jm_autoreview_enabled cur \<or>
     jm_autojudge_enabled prev \<noteq> jm_autojudge_enabled cur \<or> jm_is_canary prev \<noteq> jm_is_canary cur \<or>
     jm_testing_build prev \<noteq> jm_testing_build cur \<or> jm_working_dir prev \<noteq> jm_working_dir cur \<or>
     jm_short_name prev \<noteq> jm_short_name cur \<or> jm_status prev \<noteq> jm_status cur \<or>
     jm_is_debug prev \<noteq> jm_is_debug cur \<or> jm_saved prev \<noteq> jm_saved cur \<or>
     jm_save_label prev \<noteq> jm_save_label cur"

definition reset_persist_state :: "bool \<Rightarrow> 'j session \<Rightarrow> 'j session" where
  "reset_persist_state snapshot_exists s =
     (let d = se_data s
      in s\<lparr>se_persist_state :=
        \<lparr>ps_snapshot_exists = snapshot_exists, ps_messages_len = length (ss_messages d),
         ps_env_snapshots_len = length (ss_env_snapshots d), ps_memory_injections_len = length (ss_memory_injections d),
         ps_replay_events_len = length (ss_replay_events d), ps_messages_mode = Clean, ps_env_snapshots_mode = Clean,
         ps_memory_injections_mode = Clean, ps_replay_events_mode = Clean, ps_last_meta = Some (journal_meta d)\<rparr>\<rparr>)"

definition reset_provider_messages_cache :: "'j session \<Rightarrow> 'j session" where
  "reset_provider_messages_cache s =
     s\<lparr>se_provider_messages_cache := [], se_provider_message_prefix_hashes_cache := [],
       se_provider_messages_cache_len := 0, se_provider_messages_cache_mode := Full\<rparr>"

definition append_dirty :: "persist_vector_mode \<Rightarrow> persist_vector_mode" where
  "append_dirty mode = (if mode \<noteq> Full then Append else mode)"

definition upd_persist :: "(session_persist_state \<Rightarrow> session_persist_state) \<Rightarrow> 'j session \<Rightarrow> 'j session" where
  "upd_persist f s = s\<lparr>se_persist_state := f (se_persist_state s)\<rparr>"

definition mark_messages_append_dirty :: "'j session \<Rightarrow> 'j session" where
  "mark_messages_append_dirty s =
     (upd_persist (\<lambda>p. p\<lparr>ps_messages_mode := append_dirty (ps_messages_mode p)\<rparr>) s)
       \<lparr>se_provider_messages_cache_mode := append_dirty (se_provider_messages_cache_mode s)\<rparr>"

definition mark_messages_full_dirty :: "'j session \<Rightarrow> 'j session" where
  "mark_messages_full_dirty s =
     (upd_persist (\<lambda>p. p\<lparr>ps_messages_mode := Full\<rparr>) s)\<lparr>se_provider_messages_cache_mode := Full\<rparr>"

definition mark_env_snapshots_append_dirty :: "'j session \<Rightarrow> 'j session" where
  "mark_env_snapshots_append_dirty =
     upd_persist (\<lambda>p. p\<lparr>ps_env_snapshots_mode := append_dirty (ps_env_snapshots_mode p)\<rparr>)"

definition mark_env_snapshots_full_dirty :: "'j session \<Rightarrow> 'j session" where
  "mark_env_snapshots_full_dirty = upd_persist (\<lambda>p. p\<lparr>ps_env_snapshots_mode := Full\<rparr>)"

definition mark_memory_injections_append_dirty :: "'j session \<Rightarrow> 'j session" where
  "mark_memory_injections_append_dirty =
     upd_persist (\<lambda>p. p\<lparr>ps_memory_injections_mode := append_dirty (ps_memory_injections_mode p)\<rparr>)"

definition mark_replay_events_append_dirty :: "'j session \<Rightarrow> 'j session" where
  "mark_replay_events_append_dirty =
     upd_persist (\<lambda>p. p\<lparr>ps_replay_events_mode := append_dirty (ps_replay_events_mode p)\<rparr>)"

section \<open>Files\<close>

text \<open>
  A line of a journal is an entry, or text that is no entry, or bytes that are no text. An append that is cut
  off leaves the start of a line, or a whole entry without its line break; the next append goes on there.
\<close>

record 'j session_journal_entry =
  je_meta :: session_journal_meta
  je_append_messages :: "'j stored_message list"
  je_append_env_snapshots :: "env_snapshot list"
  je_append_memory_injections :: "stored_memory_injection list"
  je_append_replay_events :: "stored_replay_event list"

datatype 'e journal_line = Entry 'e | Unparsable | Undecodable

record 'j journal =
  jn_lines :: "'j session_journal_entry journal_line list"
  jn_tail :: "'j session_journal_entry journal_line option"

text \<open>The snapshot and its backup: missing, corrupt or whole.\<close>

record 'j session_files =
  sf_snapshot :: "'j session_data option option"
  sf_backup :: "'j session_data option option"
  sf_journal :: "'j journal option"

datatype append_outcome = Appended | NothingAppended | CutInText | CutInCharacter | CutBeforeLineBreak

text \<open>What goes wrong in one save: writing the temporary file, either renaming, appending, removing the journal.\<close>

record save_faults =
  fl_write :: bool
  fl_backup :: bool
  fl_rename :: bool
  fl_append :: append_outcome
  fl_remove :: bool

definition no_faults :: save_faults where
  "no_faults = \<lparr>fl_write = False, fl_backup = False, fl_rename = False, fl_append = Appended, fl_remove = False\<rparr>"

definition no_files :: "'j session_files" where
  "no_files = \<lparr>sf_snapshot = None, sf_backup = None, sf_journal = None\<rparr>"

text \<open>
  The states the files go through while a snapshot is written, the last one at the end: the temporary file
  does not count, the old snapshot becomes the backup, and the temporary file takes its place.
\<close>

definition snapshot_backed_up :: "save_faults \<Rightarrow> 'j session_files \<Rightarrow> 'j session_files" where
  "snapshot_backed_up f d =
     (if sf_snapshot d = None \<or> fl_backup f then d else d\<lparr>sf_backup := sf_snapshot d, sf_snapshot := None\<rparr>)"

definition write_steps :: "save_faults \<Rightarrow> 'j session_data \<Rightarrow> 'j session_files \<Rightarrow> 'j session_files list" where
  "write_steps f content d =
     (if fl_write f then [d]
      else
        let d' = snapshot_backed_up f d
        in if fl_rename f then [d, d'] else [d, d', d'\<lparr>sf_snapshot := Some (Some content)\<rparr>])"

definition write_json_fast :: "save_faults \<Rightarrow> 'j session_data \<Rightarrow> 'j session_files \<Rightarrow> bool \<times> 'j session_files" where
  "write_json_fast f content d = (\<not> fl_write f \<and> \<not> fl_rename f, List.last (write_steps f content d))"

definition read_json :: "'j session_files \<Rightarrow> ('j session_data \<times> 'j session_files) option" where
  "read_json d =
     (case sf_snapshot d of
        None \<Rightarrow> None
      | Some (Some s) \<Rightarrow> Some (s, d)
      | Some None \<Rightarrow>
          (case sf_backup d of
             Some (Some s) \<Rightarrow> Some (s, d\<lparr>sf_snapshot := Some (Some s)\<rparr>)
           | _ \<Rightarrow> None))"

definition open_journal :: "'j session_files \<Rightarrow> 'j journal" where
  "open_journal d = (case sf_journal d of Some j \<Rightarrow> j | None \<Rightarrow> \<lparr>jn_lines = [], jn_tail = None\<rparr>)"

text \<open>What is written goes behind the start of a line that is there: then the whole is no entry.\<close>

definition joined_line :: "'e journal_line option \<Rightarrow> 'e journal_line \<Rightarrow> 'e journal_line" where
  "joined_line tail line =
     (case tail of None \<Rightarrow> line
      | Some Undecodable \<Rightarrow> Undecodable
      | Some _ \<Rightarrow> (if line = Undecodable then Undecodable else Unparsable))"

definition append_json_line_fast ::
  "save_faults \<Rightarrow> 'j session_journal_entry \<Rightarrow> 'j session_files \<Rightarrow> bool \<times> 'j session_files" where
  "append_json_line_fast f entry d =
     (let j = open_journal d; line = joined_line (jn_tail j)
      in case fl_append f of
           Appended \<Rightarrow> (True, d\<lparr>sf_journal := Some \<lparr>jn_lines = jn_lines j @ [line (Entry entry)], jn_tail = None\<rparr>\<rparr>)
         | NothingAppended \<Rightarrow> (False, d\<lparr>sf_journal := Some j\<rparr>)
         | CutInText \<Rightarrow> (False, d\<lparr>sf_journal := Some (j\<lparr>jn_tail := Some (line Unparsable)\<rparr>)\<rparr>)
         | CutInCharacter \<Rightarrow> (False, d\<lparr>sf_journal := Some (j\<lparr>jn_tail := Some (line Undecodable)\<rparr>)\<rparr>)
         | CutBeforeLineBreak \<Rightarrow> (False, d\<lparr>sf_journal := Some (j\<lparr>jn_tail := Some (line (Entry entry))\<rparr>)\<rparr>))"

definition remove_journal :: "save_faults \<Rightarrow> 'j session_files \<Rightarrow> 'j session_files" where
  "remove_journal f d = (if fl_remove f then d else d\<lparr>sf_journal := None\<rparr>)"

section \<open>Saving\<close>

definition checkpoint_snapshot ::
  "save_faults \<Rightarrow> 'j session \<times> 'j session_files \<Rightarrow> bool \<times> 'j session \<times> 'j session_files" where
  "checkpoint_snapshot f st =
     (let (s, d) = st; (ok, d) = write_json_fast f (se_data s) d
      in if \<not> ok then (False, s, d) else (True, reset_persist_state True s, remove_journal f d))"

definition vectors_need_snapshot :: "'j session \<Rightarrow> bool" where
  "vectors_need_snapshot s \<longleftrightarrow>
     (let p = se_persist_state s; d = se_data s
      in \<not> ps_snapshot_exists p \<or> ps_messages_mode p = Full \<or> ps_env_snapshots_mode p = Full \<or>
         ps_memory_injections_mode p = Full \<or> ps_replay_events_mode p = Full \<or>
         length (ss_messages d) < ps_messages_len p \<or> length (ss_env_snapshots d) < ps_env_snapshots_len p \<or>
         length (ss_memory_injections d) < ps_memory_injections_len p \<or>
         length (ss_replay_events d) < ps_replay_events_len p)"

definition metadata_needs_snapshot :: "'j session \<Rightarrow> bool" where
  "metadata_needs_snapshot s \<longleftrightarrow>
     (case ps_last_meta (se_persist_state s) of
        None \<Rightarrow> False | Some prev \<Rightarrow> metadata_requires_snapshot prev (journal_meta (se_data s)))"

definition journal_entry :: "'j session \<Rightarrow> 'j session_journal_entry" where
  "journal_entry s =
     (let p = se_persist_state s; d = se_data s
      in \<lparr>je_meta = journal_meta d, je_append_messages = drop (ps_messages_len p) (ss_messages d),
          je_append_env_snapshots = drop (ps_env_snapshots_len p) (ss_env_snapshots d),
          je_append_memory_injections = drop (ps_memory_injections_len p) (ss_memory_injections d),
          je_append_replay_events = drop (ps_replay_events_len p) (ss_replay_events d)\<rparr>)"

text \<open>The size of a journal in bytes is an argument.\<close>

definition save ::
  "('j journal \<Rightarrow> nat) \<Rightarrow> save_faults \<Rightarrow> nat \<Rightarrow> 'j session \<times> 'j session_files \<Rightarrow>
   bool \<times> 'j session \<times> 'j session_files" where
  "save bytes f now st =
     (let (s, d) = st; s = upd_data (\<lambda>d. d\<lparr>ss_updated_at := now\<rparr>) s
      in if metadata_needs_snapshot s \<or> vectors_need_snapshot s then checkpoint_snapshot f (s, d)
         else
           (case append_json_line_fast f (journal_entry s) d of
              (True, d) \<Rightarrow>
                (let s = reset_persist_state True s
                 in if bytes (open_journal d) > max_session_journal_bytes then checkpoint_snapshot f (s, d)
                    else (True, s, d))
            | (False, d) \<Rightarrow> checkpoint_snapshot f (s, d)))"

section \<open>Loading\<close>

definition apply_journal_entry :: "'j session_journal_entry \<Rightarrow> 'j session_data \<Rightarrow> 'j session_data" where
  "apply_journal_entry e s =
     (let s = apply_journal_meta (je_meta e) s
      in s\<lparr>ss_messages := ss_messages s @ je_append_messages e,
           ss_env_snapshots := ss_env_snapshots s @ je_append_env_snapshots e,
           ss_memory_injections := ss_memory_injections s @ je_append_memory_injections e,
           ss_replay_events := ss_replay_events s @ je_append_replay_events e\<rparr>)"

text \<open>Reading stops at the first line that is no entry; bytes that are no text are an error.\<close>

fun replay_journal :: "('e \<Rightarrow> 's \<Rightarrow> 's) \<Rightarrow> 'e journal_line list \<Rightarrow> 's \<Rightarrow> 's option" where
  "replay_journal apply_entry [] s = Some s"
| "replay_journal apply_entry (Entry e # ls) s = replay_journal apply_entry ls (apply_entry e s)"
| "replay_journal apply_entry (Unparsable # ls) s = Some s"
| "replay_journal apply_entry (Undecodable # ls) s = None"

definition journal_lines :: "'j journal \<Rightarrow> 'j session_journal_entry journal_line list" where
  "journal_lines j = jn_lines j @ (case jn_tail j of Some t \<Rightarrow> [t] | None \<Rightarrow> [])"

definition loaded_session :: "'j session_data \<Rightarrow> 'j session" where
  "loaded_session s =
     reset_provider_messages_cache (reset_persist_state True
       \<lparr>se_data = s, se_persist_state = session_persist_state_default, se_provider_messages_cache = [],
        se_provider_message_prefix_hashes_cache = [], se_provider_messages_cache_len = 0,
        se_provider_messages_cache_mode = Clean\<rparr>)"

definition load_from_path :: "'j session_files \<Rightarrow> ('j session \<times> 'j session_files) option" where
  "load_from_path d =
     (case read_json d of
        None \<Rightarrow> None
      | Some (s, d) \<Rightarrow>
          map_option (\<lambda>s. (loaded_session s, d))
            (case sf_journal d of None \<Rightarrow> Some s | Some j \<Rightarrow> replay_journal apply_journal_entry (journal_lines j) s))"

section \<open>New sessions and startup\<close>

text \<open>The directory and the id of the process, and whether it runs tests, are arguments.\<close>

record process_env =
  pe_current_dir :: "string option"
  pe_pid :: nat
  pe_test_session :: bool

definition new_session :: "process_env \<Rightarrow> nat \<Rightarrow> string \<Rightarrow> string option \<Rightarrow> string option \<Rightarrow> string option \<Rightarrow> 'j session" where
  "new_session pe now i short parent_id title =
     reset_persist_state False
       \<lparr>se_data =
          \<lparr>ss_id = i, ss_parent_id = parent_id, ss_title = title, ss_custom_title = None, ss_created_at = now,
           ss_updated_at = now, ss_messages = [], ss_compaction = None, ss_provider_session_id = None,
           ss_provider_key = None, ss_model = None, ss_reasoning_effort = None, ss_subagent_model = None,
           ss_improve_mode = None, ss_autoreview_enabled = None, ss_autojudge_enabled = None, ss_is_canary = False,
           ss_testing_build = None, ss_working_dir = pe_current_dir pe, ss_short_name = short,
           ss_status = SessActive, ss_last_pid = Some (pe_pid pe), ss_last_active_at = Some now,
           ss_is_debug = pe_test_session pe, ss_saved = False, ss_save_label = None, ss_env_snapshots = [],
           ss_memory_injections = [], ss_replay_events = []\<rparr>,
        se_persist_state = session_persist_state_default, se_provider_messages_cache = [],
        se_provider_message_prefix_hashes_cache = [], se_provider_messages_cache_len = 0,
        se_provider_messages_cache_mode = Full\<rparr>"

definition create_with_id :: "process_env \<Rightarrow> nat \<Rightarrow> string \<Rightarrow> string option \<Rightarrow> string option \<Rightarrow> 'j session" where
  "create_with_id pe now i parent_id title = new_session pe now i (extract_session_name i) parent_id title"

text \<open>The memorable id with its name is an argument.\<close>

definition create_session :: "process_env \<Rightarrow> nat \<Rightarrow> string \<times> string \<Rightarrow> string option \<Rightarrow> string option \<Rightarrow> 'j session" where
  "create_session pe now memorable parent_id title = new_session pe now (fst memorable) (Some (snd memorable)) parent_id title"

text \<open>A client that only shows the session at first reads the snapshot without the other lists.\<close>

definition session_from_remote_startup_snapshot :: "'j session_data \<Rightarrow> 'j session_data" where
  "session_from_remote_startup_snapshot s = s\<lparr>ss_env_snapshots := [], ss_memory_injections := [], ss_replay_events := []\<rparr>"

definition session_from_startup_stub :: "'j session_data \<Rightarrow> 'j session_data" where
  "session_from_startup_stub s =
     s\<lparr>ss_messages := [], ss_env_snapshots := [], ss_memory_injections := [], ss_replay_events := []\<rparr>"

definition load_startup_stub :: "'j session_files \<Rightarrow> 'j session_data option" where
  "load_startup_stub d = (case sf_snapshot d of Some (Some s) \<Rightarrow> Some (session_from_startup_stub s) | _ \<Rightarrow> None)"

definition apply_remote_entry :: "'j session_journal_entry \<Rightarrow> 'j session_data \<Rightarrow> 'j session_data" where
  "apply_remote_entry e s =
     (let s = apply_journal_meta (je_meta e) s
      in s\<lparr>ss_messages := ss_messages s @ je_append_messages e,
           ss_replay_events := ss_replay_events s @ je_append_replay_events e\<rparr>)"

definition load_for_remote_startup :: "'j session_files \<Rightarrow> 'j session option" where
  "load_for_remote_startup d =
     (case sf_snapshot d of
        Some (Some s) \<Rightarrow>
          map_option loaded_session
            (let s = session_from_remote_startup_snapshot s
             in case sf_journal d of None \<Rightarrow> Some s | Some j \<Rightarrow> replay_journal apply_remote_entry (journal_lines j) s)
      | _ \<Rightarrow> None)"

section \<open>Titles and state\<close>

definition set_debug :: "bool \<Rightarrow> 'j session \<Rightarrow> 'j session" where
  "set_debug b = upd_data (\<lambda>d. d\<lparr>ss_is_debug := b\<rparr>)"

definition mark_saved :: "string option \<Rightarrow> 'j session \<Rightarrow> 'j session" where
  "mark_saved label =
     upd_data (\<lambda>d. d\<lparr>ss_saved := True, ss_save_label := (if label \<noteq> None then label else ss_save_label d)\<rparr>)"

definition unmark_saved :: "'j session \<Rightarrow> 'j session" where
  "unmark_saved = upd_data (\<lambda>d. d\<lparr>ss_saved := False, ss_save_label := None\<rparr>)"

definition rename_title :: "nat \<Rightarrow> string option \<Rightarrow> 'j session \<Rightarrow> 'j session" where
  "rename_title now title =
     upd_data (\<lambda>d. d\<lparr>ss_custom_title := Option.bind title (\<lambda>t. if trim t \<noteq> [] then Some (trim t) else None),
       ss_updated_at := now\<rparr>)"

definition non_empty_trimmed :: "string option \<Rightarrow> string option" where
  "non_empty_trimmed title = Option.bind title (\<lambda>t. if trim t \<noteq> [] then Some (trim t) else None)"

definition display_title :: "'j session_data \<Rightarrow> string option" where
  "display_title d =
     (case non_empty_trimmed (ss_custom_title d) of Some t \<Rightarrow> Some t | None \<Rightarrow> non_empty_trimmed (ss_title d))"

definition display_name :: "'j session_data \<Rightarrow> string" where
  "display_name d =
     (case ss_short_name d of Some n \<Rightarrow> n
      | None \<Rightarrow> (case extract_session_name (ss_id d) of Some n \<Rightarrow> n | None \<Rightarrow> ss_id d))"

definition display_title_or_name :: "'j session_data \<Rightarrow> string" where
  "display_title_or_name d = (case display_title d of Some t \<Rightarrow> t | None \<Rightarrow> display_name d)"

definition set_canary :: "string \<Rightarrow> 'j session \<Rightarrow> 'j session" where
  "set_canary build_hash = upd_data (\<lambda>d. d\<lparr>ss_is_canary := True, ss_testing_build := Some build_hash\<rparr>)"

definition clear_canary :: "'j session \<Rightarrow> 'j session" where
  "clear_canary = upd_data (\<lambda>d. d\<lparr>ss_is_canary := False, ss_testing_build := None\<rparr>)"

definition set_session_status :: "session_status \<Rightarrow> 'j session \<Rightarrow> 'j session" where
  "set_session_status status = upd_data (\<lambda>d. d\<lparr>ss_status := status\<rparr>)"

text \<open>The files that list the ids of the processes are left out.\<close>

definition mark_closed :: "'j session \<Rightarrow> 'j session" where
  "mark_closed = set_session_status SessClosed"

definition mark_crashed :: "string option \<Rightarrow> 'j session \<Rightarrow> 'j session" where
  "mark_crashed message = set_session_status (SessCrashed message)"

definition mark_error :: "string \<Rightarrow> 'j session \<Rightarrow> 'j session" where
  "mark_error message = set_session_status (SessError message)"

definition mark_active_with_pid :: "nat \<Rightarrow> nat \<Rightarrow> 'j session \<Rightarrow> 'j session" where
  "mark_active_with_pid now pid =
     upd_data (\<lambda>d. d\<lparr>ss_status := SessActive, ss_last_pid := Some pid, ss_last_active_at := Some now\<rparr>)"

definition mark_active :: "process_env \<Rightarrow> nat \<Rightarrow> 'j session \<Rightarrow> 'j session" where
  "mark_active pe now = mark_active_with_pid now (pe_pid pe)"

definition detect_crash :: "(nat \<Rightarrow> bool) \<Rightarrow> nat \<Rightarrow> 'j session \<Rightarrow> bool \<times> 'j session" where
  "detect_crash is_pid_running now s =
     (let d = se_data s
      in if ss_status d \<noteq> SessActive then (False, s)
         else
           (case ss_last_pid d of
              Some pid \<Rightarrow>
                if \<not> is_pid_running pid then
                  (True, mark_crashed (Some (''Process '' @ show_nat pid
                     @ '' exited unexpectedly (no shutdown signal captured)'')) s)
                else (False, s)
            | None \<Rightarrow>
                if (now - ss_updated_at d) div 1000 > 120 then
                  (True, mark_crashed (Some ''Stale active session (possible abrupt termination)'') s)
                else (False, s)))"

section \<open>The lists of a session\<close>

definition record_env_snapshot :: "env_snapshot \<Rightarrow> 'j session \<Rightarrow> 'j session" where
  "record_env_snapshot snapshot s =
     (let all = ss_env_snapshots (se_data s) @ [snapshot]
      in if length all > max_env_snapshots then
           mark_env_snapshots_full_dirty (upd_data (\<lambda>d. d\<lparr>ss_env_snapshots := drop (length all - max_env_snapshots) all\<rparr>) s)
         else mark_env_snapshots_append_dirty (upd_data (\<lambda>d. d\<lparr>ss_env_snapshots := all\<rparr>) s))"

definition append_stored_message :: "'j stored_message \<Rightarrow> 'j session \<Rightarrow> 'j session" where
  "append_stored_message m s =
     mark_messages_append_dirty (upd_data (\<lambda>d. d\<lparr>ss_messages := ss_messages d @ [m]\<rparr>) s)"

definition add_message_ext_with_display_role ::
  "nat \<Rightarrow> string \<Rightarrow> role \<Rightarrow> 'j content_block list \<Rightarrow> nat option \<Rightarrow> stored_token_usage option \<Rightarrow>
   stored_display_role option \<Rightarrow> 'j session \<Rightarrow> 'j session" where
  "add_message_ext_with_display_role now i r content tool_duration_ms token_usage display_role =
     append_stored_message
       \<lparr>st_id = i, st_role = r, st_content = content, st_display_role = display_role, st_timestamp = Some now,
        st_tool_duration_ms = tool_duration_ms, st_token_usage = token_usage\<rparr>"

text \<open>An index behind the end panics; the callers use none.\<close>

definition insert_message :: "nat \<Rightarrow> 'j stored_message \<Rightarrow> 'j session \<Rightarrow> 'j session" where
  "insert_message n m s =
     mark_messages_full_dirty (upd_data (\<lambda>d. d\<lparr>ss_messages := take n (ss_messages d) @ m # drop n (ss_messages d)\<rparr>) s)"

definition replace_messages :: "'j stored_message list \<Rightarrow> 'j session \<Rightarrow> 'j session" where
  "replace_messages ms s = mark_messages_full_dirty (upd_data (\<lambda>d. d\<lparr>ss_messages := ms\<rparr>) s)"

definition truncate_messages :: "nat \<Rightarrow> 'j session \<Rightarrow> 'j session" where
  "truncate_messages n s =
     (if n < length (ss_messages (se_data s)) then
        mark_messages_full_dirty (upd_data (\<lambda>d. d\<lparr>ss_messages := take n (ss_messages d)\<rparr>) s)
      else s)"

definition is_tool_use :: "'j content_block \<Rightarrow> bool" where
  "is_tool_use b = (case b of ToolUse i n input \<Rightarrow> True | _ \<Rightarrow> False)"

fun update_message :: "('j stored_message \<Rightarrow> bool) \<Rightarrow> ('j stored_message \<Rightarrow> 'j stored_message) \<Rightarrow>
  'j stored_message list \<Rightarrow> 'j stored_message list" where
  "update_message p f [] = []"
| "update_message p f (m # ms) = (if p m then f m # ms else m # update_message p f ms)"

definition remove_tool_use_blocks :: "string \<Rightarrow> 'j session \<Rightarrow> 'j session" where
  "remove_tool_use_blocks message_id s =
     (if \<exists>m \<in> set (ss_messages (se_data s)). st_id m = message_id then
        mark_messages_full_dirty (upd_data (\<lambda>d. d\<lparr>ss_messages := update_message (\<lambda>m. st_id m = message_id)
          (\<lambda>m. m\<lparr>st_content := filter (\<lambda>b. \<not> is_tool_use b) (st_content m)\<rparr>) (ss_messages d)\<rparr>) s)
      else s)"

definition record_memory_injection ::
  "nat \<Rightarrow> string \<Rightarrow> string \<Rightarrow> nat \<Rightarrow> nat \<Rightarrow> string list \<Rightarrow> 'j session \<Rightarrow> 'j session" where
  "record_memory_injection now summary content n age_ms memory_ids s =
     mark_memory_injections_append_dirty (upd_data (\<lambda>d. d\<lparr>ss_memory_injections := ss_memory_injections d @
       [\<lparr>mi_summary = summary, mi_content = content, mi_count = n, mi_memory_ids = memory_ids, mi_age_ms = Some age_ms,
         mi_before_message = Some (length (ss_messages d)), mi_timestamp = now\<rparr>]\<rparr>) s)"

definition injected_memory_ids :: "'j session_data \<Rightarrow> string fset" where
  "injected_memory_ids d = fset_of_list (concat (map mi_memory_ids (ss_memory_injections d)))"

definition push_replay_event :: "nat \<Rightarrow> stored_replay_event_kind \<Rightarrow> 'j session \<Rightarrow> 'j session" where
  "push_replay_event now kind s =
     mark_replay_events_append_dirty
       (upd_data (\<lambda>d. d\<lparr>ss_replay_events := ss_replay_events d @ [\<lparr>re_timestamp = now, re_kind = kind\<rparr>]\<rparr>) s)"

definition record_replay_display_message :: "nat \<Rightarrow> string \<Rightarrow> string option \<Rightarrow> string \<Rightarrow> 'j session \<Rightarrow> 'j session" where
  "record_replay_display_message now role_name title content = push_replay_event now (DisplayMessage role_name title content)"

definition push_new_replay_event :: "nat \<Rightarrow> stored_replay_event_kind \<Rightarrow> 'j session \<Rightarrow> 'j session" where
  "push_new_replay_event now kind s =
     (let events = ss_replay_events (se_data s)
      in if events \<noteq> [] \<and> re_kind (List.last events) = kind then s else push_replay_event now kind s)"

definition record_swarm_status_event :: "nat \<Rightarrow> swarm_member_status list \<Rightarrow> 'j session \<Rightarrow> 'j session" where
  "record_swarm_status_event now ms = push_new_replay_event now (SwarmStatusEvent ms)"

definition record_swarm_plan_event ::
  "nat \<Rightarrow> string \<Rightarrow> nat \<Rightarrow> plan_item list \<Rightarrow> string list \<Rightarrow> string option \<Rightarrow> 'j session \<Rightarrow> 'j session" where
  "record_swarm_plan_event now swarm_id version items participants reason =
     push_new_replay_event now (SwarmPlanEvent swarm_id version items participants reason)"

text \<open>Drops the transcript of a client that follows a server, without a word to the files.\<close>

definition strip_transcript_for_remote_client :: "'j session \<Rightarrow> 'j session" where
  "strip_transcript_for_remote_client s =
     reset_persist_state True (reset_provider_messages_cache (upd_data (\<lambda>d. d\<lparr>ss_messages := [], ss_compaction := None,
       ss_env_snapshots := [], ss_memory_injections := [], ss_replay_events := []\<rparr>) s))"

section \<open>Visible messages and the context message\<close>

definition is_internal_system_reminder_message :: "'j stored_message \<Rightarrow> bool" where
  "is_internal_system_reminder_message m =
     (case first_text (st_content m) of Some t \<Rightarrow> prefix reminder_open t | None \<Rightarrow> False)"

definition is_visible_conversation_message :: "'j stored_message \<Rightarrow> bool" where
  "is_visible_conversation_message m \<longleftrightarrow> st_display_role m = None \<and> \<not> is_internal_system_reminder_message m"

definition visible_conversation_message_count :: "'j session_data \<Rightarrow> nat" where
  "visible_conversation_message_count d = length (filter is_visible_conversation_message (ss_messages d))"

fun stored_len_of_visible :: "nat \<Rightarrow> nat \<Rightarrow> 'j stored_message list \<Rightarrow> nat \<Rightarrow> nat option" where
  "stored_len_of_visible visible_index n [] stored = None"
| "stored_len_of_visible visible_index n (m # ms) stored =
     (let n' = (if is_visible_conversation_message m then n + 1 else n)
      in if is_visible_conversation_message m \<and> n' = visible_index then Some (stored + 1)
         else stored_len_of_visible visible_index n' ms (stored + 1))"

definition stored_len_for_visible_conversation_message :: "nat \<Rightarrow> 'j session_data \<Rightarrow> nat option" where
  "stored_len_for_visible_conversation_message visible_index d =
     (if visible_index = 0 then None else stored_len_of_visible visible_index 0 (ss_messages d) 0)"

definition session_context_prefix :: string where
  "session_context_prefix = reminder_open @ nl @ ''# Session Context''"

definition is_context_block :: "'j content_block \<Rightarrow> bool" where
  "is_context_block b = (case b of Text t cc \<Rightarrow> prefix session_context_prefix t | _ \<Rightarrow> False)"

definition has_session_context_message :: "'j session_data \<Rightarrow> bool" where
  "has_session_context_message d \<longleftrightarrow> list_ex (\<lambda>m. list_ex is_context_block (st_content m)) (ss_messages d)"

definition wrapped_context :: "(string option \<Rightarrow> string) \<Rightarrow> string option \<Rightarrow> string" where
  "wrapped_context build_session_context dir =
     reminder_open @ nl @ trim (build_session_context dir) @ nl @ ''</system-reminder>''"

definition ensure_initial_session_context_message ::
  "process_env \<Rightarrow> (string option \<Rightarrow> string) \<Rightarrow> nat \<Rightarrow> string \<Rightarrow> 'j session \<Rightarrow> bool \<times> 'j session" where
  "ensure_initial_session_context_message pe build_session_context now i s =
     (if ss_messages (se_data s) \<noteq> [] \<or> has_session_context_message (se_data s) then (False, s)
      else
        let s = (case pe_current_dir pe of Some dir \<Rightarrow> upd_data (\<lambda>d. d\<lparr>ss_working_dir := Some dir\<rparr>) s | None \<Rightarrow> s)
        in (True, add_message_ext_with_display_role now i User
             [Text (wrapped_context build_session_context (ss_working_dir (se_data s))) None] None None
             (Some DisplaySystem) s))"

text \<open>The first context block of the first message that has one.\<close>

fun replace_context :: "string \<Rightarrow> 'j content_block list \<Rightarrow> 'j content_block list" where
  "replace_context wrapped [] = []"
| "replace_context wrapped (b # bs) =
     (if is_context_block b then (case b of Text t cc \<Rightarrow> Text wrapped cc | _ \<Rightarrow> b) # bs
      else b # replace_context wrapped bs)"

definition refresh_initial_session_context_message ::
  "(string option \<Rightarrow> string) \<Rightarrow> 'j session \<Rightarrow> bool \<times> 'j session" where
  "refresh_initial_session_context_message build_session_context s =
     (let d = se_data s; has = (\<lambda>m. list_ex is_context_block (st_content m))
      in if list_ex is_visible_conversation_message (ss_messages d) then (False, s)
         else
           (case List.find has (ss_messages d) of
              None \<Rightarrow> (False, s)
            | Some m \<Rightarrow>
                (let content = replace_context (wrapped_context build_session_context (ss_working_dir d)) (st_content m)
                 in if content = st_content m then (False, s)
                    else (True, mark_messages_full_dirty (upd_data (\<lambda>d. d\<lparr>ss_messages :=
                      update_message has (\<lambda>m. m\<lparr>st_content := content\<rparr>) (ss_messages d)\<rparr>) s)))))"

section \<open>The messages of requests\<close>

definition push_provider_message_cache_entry :: "('j message \<Rightarrow> 64 word) \<Rightarrow> 'j message \<Rightarrow> 'j session \<Rightarrow> 'j session" where
  "push_provider_message_cache_entry message_hash m s =
     (let hashes = se_provider_message_prefix_hashes_cache s;
          h = (if hashes = [] then message_hash m else extend_stable_hash (List.last hashes) (message_hash m))
      in s\<lparr>se_provider_messages_cache := se_provider_messages_cache s @ [m],
           se_provider_message_prefix_hashes_cache := hashes @ [h]\<rparr>)"

definition push_entries :: "('j message \<Rightarrow> 64 word) \<Rightarrow> 'j stored_message list \<Rightarrow> 'j session \<Rightarrow> 'j session" where
  "push_entries message_hash ms s = foldl (\<lambda>s m. push_provider_message_cache_entry message_hash (to_message m) s) s ms"

definition provider_messages :: "('j message \<Rightarrow> 64 word) \<Rightarrow> 'j session \<Rightarrow> 'j message list \<times> 'j session" where
  "provider_messages message_hash s =
     (let ms = ss_messages (se_data s); clean = (\<lambda>s. s\<lparr>se_provider_messages_cache_len := length ms,
            se_provider_messages_cache_mode := Clean\<rparr>);
          s = (if se_provider_messages_cache_mode s = Full \<or> se_provider_messages_cache_len s > length ms then
                 clean (push_entries message_hash ms (s\<lparr>se_provider_messages_cache := [],
                   se_provider_message_prefix_hashes_cache := []\<rparr>))
               else if se_provider_messages_cache_mode s = Append \<and> se_provider_messages_cache_len s < length ms then
                 clean (push_entries message_hash (drop (se_provider_messages_cache_len s) ms) s)
               else s)
      in (se_provider_messages_cache s, s))"

definition provider_message_prefix_hashes :: "('j message \<Rightarrow> 64 word) \<Rightarrow> 'j session \<Rightarrow> 64 word list \<times> 'j session" where
  "provider_message_prefix_hashes message_hash s =
     (let s = snd (provider_messages message_hash s) in (se_provider_message_prefix_hashes_cache s, s))"

definition messages_for_provider_uncached :: "'j session_data \<Rightarrow> 'j message list" where
  "messages_for_provider_uncached d = map to_message (ss_messages d)"

end
