(* ===== verification/SessionProperties.thy ===== *)
theory SessionProperties
  imports SessionStore
begin

text \<open>
  What keeping sessions promises: what was saved is what is loaded, whatever happened in between and as long
  as files can be renamed and removed; the cached messages of requests are those of the transcript; and what a
  process that dies while it saves leaves behind.
\<close>

section \<open>The cached messages\<close>

definition prefix_hash :: "('j message \<Rightarrow> 64 word) \<Rightarrow> 'j message list \<Rightarrow> 64 word" where
  "prefix_hash h ms = (case ms of [] \<Rightarrow> 0 | m # rest \<Rightarrow> foldl (\<lambda>a m. extend_stable_hash a (h m)) (h m) rest)"

definition prefix_hashes :: "('j message \<Rightarrow> 64 word) \<Rightarrow> 'j message list \<Rightarrow> 64 word list" where
  "prefix_hashes h ms = map (\<lambda>n. prefix_hash h (take (Suc n) ms)) [0..<length ms]"

lemma prefix_hash_snoc:
  "prefix_hash h (ms @ [m]) = (if ms = [] then h m else extend_stable_hash (prefix_hash h ms) (h m))"
  by (cases ms) (simp_all add: prefix_hash_def)

lemma prefix_hashes_snoc: "prefix_hashes h (ms @ [m]) = prefix_hashes h ms @ [prefix_hash h (ms @ [m])]"
  by (simp add: prefix_hashes_def)

lemma last_prefix_hashes: "ms \<noteq> [] \<Longrightarrow> List.last (prefix_hashes h ms) = prefix_hash h ms"
  by (cases ms rule: rev_cases) (simp_all add: prefix_hashes_snoc)

lemma prefix_hashes_Nil [simp]: "prefix_hashes h [] = []" "prefix_hashes h ms = [] \<longleftrightarrow> ms = []"
  by (simp_all add: prefix_hashes_def)

text \<open>The cache holds these messages.\<close>

definition cached :: "('j message \<Rightarrow> 64 word) \<Rightarrow> 'j stored_message list \<Rightarrow> 'j session \<Rightarrow> bool" where
  "cached h ms s \<longleftrightarrow> se_provider_messages_cache s = map to_message ms \<and>
     se_provider_message_prefix_hashes_cache s = prefix_hashes h (map to_message ms)"

definition cache_ok :: "('j message \<Rightarrow> 64 word) \<Rightarrow> 'j session \<Rightarrow> bool" where
  "cache_ok h s \<longleftrightarrow>
     (let ms = ss_messages (se_data s); n = se_provider_messages_cache_len s
      in (se_provider_messages_cache_mode s = Clean \<longrightarrow> n = length ms \<and> cached h ms s) \<and>
         (se_provider_messages_cache_mode s = Append \<longrightarrow> n \<le> length ms \<and> cached h (take n ms) s))"

lemma cached_push: "cached h ms s \<Longrightarrow> cached h (ms @ [m]) (push_provider_message_cache_entry h (to_message m) s)"
  by (simp add: cached_def push_provider_message_cache_entry_def Let_def prefix_hashes_snoc prefix_hash_snoc
      last_prefix_hashes)

lemma cached_entries: "cached h ms s \<Longrightarrow> cached h (ms @ new) (push_entries h new s)"
proof (induction new arbitrary: ms s)
  case (Cons m new)
  from Cons.IH [OF cached_push [OF Cons.prems]] show ?case by (simp add: push_entries_def)
qed (simp add: push_entries_def)

lemma push_entries_data [simp]: "se_data (push_entries h ms s) = se_data s"
  "se_persist_state (push_entries h ms s) = se_persist_state s"
  unfolding push_entries_def by (induction ms arbitrary: s) (simp_all add: push_provider_message_cache_entry_def Let_def)

lemma cached_empty: "cached h [] (s\<lparr>se_provider_messages_cache := [], se_provider_message_prefix_hashes_cache := []\<rparr>)"
  by (simp add: cached_def)

lemma cached_fields [simp]:
  "cached h ms (s\<lparr>se_provider_messages_cache_len := n, se_provider_messages_cache_mode := mode\<rparr>) = cached h ms s"
  "cached h ms (s\<lparr>se_provider_messages_cache_mode := mode\<rparr>) = cached h ms s"
  "cached h ms (s\<lparr>se_provider_messages_cache_len := n\<rparr>) = cached h ms s"
  "cached h ms (s\<lparr>se_data := d\<rparr>) = cached h ms s" "cached h ms (s\<lparr>se_persist_state := p\<rparr>) = cached h ms s"
  by (simp_all add: cached_def)

lemma provider_messages_cached:
  assumes "cache_ok h s"
  shows "cached h (ss_messages (se_data s)) (snd (provider_messages h s))"
    and "cache_ok h (snd (provider_messages h s))" "se_data (snd (provider_messages h s)) = se_data s"
    and "se_persist_state (snd (provider_messages h s)) = se_persist_state s"
proof -
  let ?ms = "ss_messages (se_data s)" and ?n = "se_provider_messages_cache_len s"
  have all: "cached h ?ms (push_entries h ?ms (s\<lparr>se_provider_messages_cache := [], se_provider_message_prefix_hashes_cache := []\<rparr>))"
    using cached_entries [OF cached_empty, of h ?ms s] by simp
  have rest: "cached h ?ms (push_entries h (drop ?n ?ms) s)" if "se_provider_messages_cache_mode s = Append" "?n \<le> length ?ms"
    using cached_entries [of h "take ?n ?ms" s "drop ?n ?ms"] assms that by (simp add: cache_ok_def Let_def)
  consider (full) "se_provider_messages_cache_mode s = Full \<or> ?n > length ?ms"
    | (grown) "se_provider_messages_cache_mode s = Append" "?n < length ?ms"
    | (clean) "cached h ?ms s" "se_provider_messages_cache_mode s \<noteq> Full" "\<not> ?n > length ?ms"
        "\<not> (se_provider_messages_cache_mode s = Append \<and> ?n < length ?ms)"
    using assms by (cases "se_provider_messages_cache_mode s"; cases "?n < length ?ms") (auto simp: cache_ok_def Let_def)
  then have "cached h ?ms (snd (provider_messages h s)) \<and> cache_ok h (snd (provider_messages h s)) \<and>
    se_data (snd (provider_messages h s)) = se_data s \<and>
    se_persist_state (snd (provider_messages h s)) = se_persist_state s"
    by cases (use assms all rest in \<open>simp_all add: provider_messages_def Let_def cache_ok_def\<close>)
  then show "cached h ?ms (snd (provider_messages h s))" "cache_ok h (snd (provider_messages h s))"
    "se_data (snd (provider_messages h s)) = se_data s"
    "se_persist_state (snd (provider_messages h s)) = se_persist_state s" by simp_all
qed

text \<open>What operations on the messages keep of the cache.\<close>

lemma cache_full: "se_provider_messages_cache_mode s = Full \<Longrightarrow> cache_ok h s"
  by (simp add: cache_ok_def Let_def)

lemma cache_full_dirty: "cache_ok h (mark_messages_full_dirty s)"
  by (rule cache_full) (simp add: mark_messages_full_dirty_def)

lemma cache_same:
  assumes "cache_ok h s" "ss_messages (se_data s') = ss_messages (se_data s)"
    "se_provider_messages_cache s' = se_provider_messages_cache s"
    "se_provider_message_prefix_hashes_cache s' = se_provider_message_prefix_hashes_cache s"
    "se_provider_messages_cache_len s' = se_provider_messages_cache_len s"
    "se_provider_messages_cache_mode s' = se_provider_messages_cache_mode s"
  shows "cache_ok h s'"
proof -
  have "cached h ms s' = cached h ms s" for ms using assms by (simp add: cached_def)
  then show ?thesis using assms by (simp add: cache_ok_def Let_def)
qed

lemma cache_append: "cache_ok h s \<Longrightarrow> cache_ok h (append_stored_message m s)"
  by (cases "se_provider_messages_cache_mode s")
    (auto simp: append_stored_message_def mark_messages_append_dirty_def upd_persist_def upd_data_def cache_ok_def
      cached_def append_dirty_def Let_def)

section \<open>What is saved is loaded\<close>

definition whole_journal :: "'j session_files \<Rightarrow> bool" where
  "whole_journal d \<longleftrightarrow> (case sf_journal d of None \<Rightarrow> True
     | Some j \<Rightarrow> jn_tail j = None \<and> (\<forall>l \<in> set (jn_lines j). \<exists>e. l = Entry e))"

definition disk_data :: "'j session_files \<Rightarrow> 'j session_data option" where
  "disk_data d = map_option (se_data \<circ> fst) (load_from_path d)"

text \<open>A list that was only appended to since it was written.\<close>

definition grown :: "persist_vector_mode \<Rightarrow> nat \<Rightarrow> 'a list \<Rightarrow> 'a list \<Rightarrow> bool" where
  "grown mode n written xs \<longleftrightarrow> (mode \<noteq> Full \<longrightarrow> n = length written \<and> prefix written xs)"

definition synced :: "'j session \<times> 'j session_files \<Rightarrow> bool" where
  "synced st \<longleftrightarrow>
     (let (s, d) = st; p = se_persist_state s; c = se_data s
      in ps_snapshot_exists p \<longrightarrow>
         (\<exists>l x. sf_snapshot d = Some (Some x) \<and> whole_journal d \<and> disk_data d = Some l \<and>
            ss_id l = ss_id c \<and> ss_created_at l = ss_created_at c \<and>
            grown (ps_messages_mode p) (ps_messages_len p) (ss_messages l) (ss_messages c) \<and>
            grown (ps_env_snapshots_mode p) (ps_env_snapshots_len p) (ss_env_snapshots l) (ss_env_snapshots c) \<and>
            grown (ps_memory_injections_mode p) (ps_memory_injections_len p) (ss_memory_injections l) (ss_memory_injections c) \<and>
            grown (ps_replay_events_mode p) (ps_replay_events_len p) (ss_replay_events l) (ss_replay_events c)))"

lemma replay_entries: "replay_journal f (map Entry es) s = Some (foldl (\<lambda>s e. f e s) s es)"
  by (induction es arbitrary: s) simp_all

lemma loaded_data [simp]: "se_data (loaded_session s) = s"
  by (simp add: loaded_session_def reset_provider_messages_cache_def reset_persist_state_def Let_def)

definition journal_entries :: "'j session_files \<Rightarrow> 'j session_journal_entry list" where
  "journal_entries d = (case sf_journal d of None \<Rightarrow> []
     | Some j \<Rightarrow> List.map_filter (\<lambda>l. case l of Entry e \<Rightarrow> Some e | _ \<Rightarrow> None) (jn_lines j))"

lemma whole_lines:
  assumes "whole_journal d"
  shows "jn_lines (open_journal d) = map Entry (journal_entries d)" "jn_tail (open_journal d) = None"
proof -
  have "ls = map Entry (List.map_filter (\<lambda>l. case l of Entry e \<Rightarrow> Some e | _ \<Rightarrow> None) ls)"
    if "\<forall>l \<in> set ls. \<exists>e. l = Entry e" for ls :: "'a session_journal_entry journal_line list"
    using that by (induction ls) (auto simp: List.map_filter_simps)
  then show "jn_lines (open_journal d) = map Entry (journal_entries d)" "jn_tail (open_journal d) = None"
    using assms by (auto simp: whole_journal_def open_journal_def journal_entries_def split: option.splits)
qed

lemma load_whole:
  assumes "sf_snapshot d = Some (Some x)" "whole_journal d"
  shows "load_from_path d = Some (loaded_session (foldl (\<lambda>s e. apply_journal_entry e s) x (journal_entries d)), d)"
    "disk_data d = Some (foldl (\<lambda>s e. apply_journal_entry e s) x (journal_entries d))"
proof -
  show l: "load_from_path d = Some (loaded_session (foldl (\<lambda>s e. apply_journal_entry e s) x (journal_entries d)), d)"
  proof (cases "sf_journal d")
    case None
    then show ?thesis by (simp add: load_from_path_def read_json_def assms(1) journal_entries_def)
  next
    case (Some j)
    then have "journal_lines j = map Entry (journal_entries d)"
      using whole_lines [OF assms(2)] by (simp add: open_journal_def journal_lines_def)
    then show ?thesis by (simp add: load_from_path_def read_json_def assms(1) Some replay_entries)
  qed
  show "disk_data d = Some (foldl (\<lambda>s e. apply_journal_entry e s) x (journal_entries d))"
    by (simp add: disk_data_def l)
qed

text \<open>A snapshot alone, and one more entry.\<close>

lemma disk_snapshot: "disk_data d = Some x" "whole_journal d"
  if "sf_snapshot d = Some (Some x)" "sf_journal d = None"
proof -
  show "whole_journal d" using that(2) by (simp add: whole_journal_def)
  from load_whole(2) [OF that(1) this] show "disk_data d = Some x" by (simp add: journal_entries_def that(2))
qed

lemma appended_entry:
  assumes "sf_snapshot d = Some (Some x)" "whole_journal d" "disk_data d = Some l" "fl_append f = Appended"
  shows "append_json_line_fast f e d = (True, snd (append_json_line_fast f e d))"
    "sf_snapshot (snd (append_json_line_fast f e d)) = Some (Some x)" "whole_journal (snd (append_json_line_fast f e d))"
    "disk_data (snd (append_json_line_fast f e d)) = Some (apply_journal_entry e l)"
proof -
  let ?d = "snd (append_json_line_fast f e d)"
  note w = whole_lines [OF assms(2)]
  have d: "?d = d\<lparr>sf_journal := Some \<lparr>jn_lines = map Entry (journal_entries d @ [e]), jn_tail = None\<rparr>\<rparr>"
    by (simp add: append_json_line_fast_def Let_def assms(4) w joined_line_def)
  then show s: "sf_snapshot ?d = Some (Some x)" and wd: "whole_journal ?d"
    using assms(1) by (auto simp: whole_journal_def)
  have "journal_entries ?d = journal_entries d @ [e]"
    by (simp add: d journal_entries_def List.map_filter_def comp_def)
  then show "disk_data ?d = Some (apply_journal_entry e l)"
    using load_whole(2) [OF s wd] load_whole(2) [OF assms(1,2)] assms(3) by simp
  show "append_json_line_fast f e d = (True, ?d)"
    by (simp add: append_json_line_fast_def Let_def assms(4))
qed

lemma applied_entry:
  assumes "ss_id l = ss_id (se_data s)" "ss_created_at l = ss_created_at (se_data s)"
    and "prefix (ss_messages l) (ss_messages (se_data s))" "prefix (ss_env_snapshots l) (ss_env_snapshots (se_data s))"
    and "prefix (ss_memory_injections l) (ss_memory_injections (se_data s))"
    and "prefix (ss_replay_events l) (ss_replay_events (se_data s))"
    and "ps_messages_len (se_persist_state s) = length (ss_messages l)"
    and "ps_env_snapshots_len (se_persist_state s) = length (ss_env_snapshots l)"
    and "ps_memory_injections_len (se_persist_state s) = length (ss_memory_injections l)"
    and "ps_replay_events_len (se_persist_state s) = length (ss_replay_events l)"
  shows "apply_journal_entry (journal_entry s) l = se_data s"
proof -
  have p: "xs @ drop (length xs) ys = ys" if "prefix xs ys" for xs ys :: "'x list"
    using that by (auto simp: prefix_def)
  show ?thesis
    by (rule session_data.equality)
      (simp_all add: apply_journal_entry_def journal_entry_def apply_journal_meta_def journal_meta_def Let_def assms p)
qed

text \<open>A change of a session that at most appends to a list unless it marks the list for a snapshot.\<close>

definition steps_on :: "'j session \<Rightarrow> 'j session \<Rightarrow> bool" where
  "steps_on s s' \<longleftrightarrow>
     (let p = se_persist_state s; p' = se_persist_state s'; c = se_data s; c' = se_data s'
      in ps_snapshot_exists p' = ps_snapshot_exists p \<and> ss_id c' = ss_id c \<and> ss_created_at c' = ss_created_at c \<and>
         ps_messages_len p' = ps_messages_len p \<and> ps_env_snapshots_len p' = ps_env_snapshots_len p \<and>
         ps_memory_injections_len p' = ps_memory_injections_len p \<and> ps_replay_events_len p' = ps_replay_events_len p \<and>
         (ps_messages_mode p' = Full \<or> (ps_messages_mode p \<noteq> Full \<and> prefix (ss_messages c) (ss_messages c'))) \<and>
         (ps_env_snapshots_mode p' = Full \<or> (ps_env_snapshots_mode p \<noteq> Full \<and> prefix (ss_env_snapshots c) (ss_env_snapshots c'))) \<and>
         (ps_memory_injections_mode p' = Full \<or> (ps_memory_injections_mode p \<noteq> Full \<and>
            prefix (ss_memory_injections c) (ss_memory_injections c'))) \<and>
         (ps_replay_events_mode p' = Full \<or> (ps_replay_events_mode p \<noteq> Full \<and> prefix (ss_replay_events c) (ss_replay_events c'))))"

lemma grown_on:
  "grown mode n written xs \<Longrightarrow> mode' = Full \<or> (mode \<noteq> Full \<and> prefix xs xs') \<Longrightarrow> grown mode' n written xs'"
  by (auto simp: grown_def intro: prefix_order.trans)

lemma synced_steps_on:
  assumes "synced (s, d)" "steps_on s s'"
  shows "synced (s', d)"
proof -
  let ?p = "se_persist_state s" and ?p' = "se_persist_state s'" and ?c = "se_data s" and ?c' = "se_data s'"
  note o = assms(2) [unfolded steps_on_def Let_def]
  show ?thesis
    unfolding synced_def Let_def prod.case
  proof
    assume "ps_snapshot_exists ?p'"
    then have "ps_snapshot_exists ?p" using o by simp
    then obtain l x where l: "sf_snapshot d = Some (Some x)" "whole_journal d" "disk_data d = Some l"
      "ss_id l = ss_id ?c" "ss_created_at l = ss_created_at ?c"
      "grown (ps_messages_mode ?p) (ps_messages_len ?p) (ss_messages l) (ss_messages ?c)"
      "grown (ps_env_snapshots_mode ?p) (ps_env_snapshots_len ?p) (ss_env_snapshots l) (ss_env_snapshots ?c)"
      "grown (ps_memory_injections_mode ?p) (ps_memory_injections_len ?p) (ss_memory_injections l) (ss_memory_injections ?c)"
      "grown (ps_replay_events_mode ?p) (ps_replay_events_len ?p) (ss_replay_events l) (ss_replay_events ?c)"
      using assms(1) unfolding synced_def Let_def prod.case by blast
    from l(6-9) [THEN grown_on] o l(1-5)
    show "\<exists>l x. sf_snapshot d = Some (Some x) \<and> whole_journal d \<and> disk_data d = Some l \<and>
        ss_id l = ss_id ?c' \<and> ss_created_at l = ss_created_at ?c' \<and>
        grown (ps_messages_mode ?p') (ps_messages_len ?p') (ss_messages l) (ss_messages ?c') \<and>
        grown (ps_env_snapshots_mode ?p') (ps_env_snapshots_len ?p') (ss_env_snapshots l) (ss_env_snapshots ?c') \<and>
        grown (ps_memory_injections_mode ?p') (ps_memory_injections_len ?p') (ss_memory_injections l) (ss_memory_injections ?c') \<and>
        grown (ps_replay_events_mode ?p') (ps_replay_events_len ?p') (ss_replay_events l) (ss_replay_events ?c')"
      by (intro exI [of _ l] exI [of _ x]) simp
  qed
qed

text \<open>
  What is written can be renamed and an old journal removed, and when an append fails a snapshot can be written.
\<close>

definition tidy :: "save_faults \<Rightarrow> bool" where
  "tidy f \<longleftrightarrow> \<not> fl_rename f \<and> \<not> fl_remove f \<and> (fl_append f = Appended \<or> \<not> fl_write f)"

lemma synced_saved:
  assumes "sf_snapshot d = Some (Some x)" "whole_journal d" "disk_data d = Some (se_data s)"
  shows "synced (reset_persist_state True s, d)"
  unfolding synced_def Let_def prod.case
  by (intro impI exI [of _ "se_data s"] exI [of _ x]) (simp add: assms reset_persist_state_def Let_def grown_def)

lemma checkpoint_saves:
  assumes "\<not> fl_rename f" "\<not> fl_remove f" "\<not> fl_write f"
  shows "\<exists>d'. checkpoint_snapshot f (s, d) = (True, reset_persist_state True s, d') \<and>
    sf_snapshot d' = Some (Some (se_data s)) \<and> sf_journal d' = None"
  using assms by (simp add: checkpoint_snapshot_def write_json_fast_def write_steps_def Let_def remove_journal_def)

lemma reset_data [simp]: "se_data (reset_persist_state b s) = se_data s"
  by (simp add: reset_persist_state_def Let_def)

lemma checkpoint_correct:
  assumes "synced (s, d) \<or> \<not> fl_write f" "\<not> fl_rename f" "\<not> fl_remove f"
    and "checkpoint_snapshot f (s, d) = (ok, s', d')"
  shows "synced (s', d')" "ok \<longleftrightarrow> \<not> fl_write f" "se_data s' = se_data s"
    "ok \<Longrightarrow> disk_data d' = Some (se_data s') \<and> load_from_path d' = Some (loaded_session (se_data s'), d')"
proof -
  have "synced (s', d') \<and> (ok \<longleftrightarrow> \<not> fl_write f) \<and> se_data s' = se_data s \<and>
    (ok \<longrightarrow> disk_data d' = Some (se_data s') \<and> load_from_path d' = Some (loaded_session (se_data s'), d'))"
  proof (cases "fl_write f")
    case True
    then show ?thesis using assms by (simp add: checkpoint_snapshot_def write_json_fast_def write_steps_def)
  next
    case False
    obtain d3 where c: "checkpoint_snapshot f (s, d) = (True, reset_persist_state True s, d3)"
      "sf_snapshot d3 = Some (Some (se_data s))" "sf_journal d3 = None"
      using checkpoint_saves [OF assms(2,3) False] by blast
    note k = disk_snapshot [OF c(2,3)]
    have "load_from_path d3 = Some (loaded_session (se_data s), d3)"
      using load_whole(1) [OF c(2) k(2)] c(3) by (simp add: journal_entries_def)
    then show ?thesis using c(1) assms(4) k synced_saved [OF c(2) k(2,1)] False by auto
  qed
  then show "synced (s', d')" "ok \<longleftrightarrow> \<not> fl_write f" "se_data s' = se_data s"
    "ok \<Longrightarrow> disk_data d' = Some (se_data s') \<and> load_from_path d' = Some (loaded_session (se_data s'), d')"
    by simp_all
qed

lemma steps_updated: "steps_on s (upd_data (\<lambda>d. d\<lparr>ss_updated_at := now\<rparr>) s)"
  by (auto simp: steps_on_def upd_data_def Let_def)

lemma save_correct:
  assumes "synced (s, d)" "tidy f" "save bytes f now (s, d) = (ok, s', d')"
  shows "synced (s', d')" "\<not> fl_write f \<Longrightarrow> ok" "se_data s' = (se_data s)\<lparr>ss_updated_at := now\<rparr>"
    "ok \<Longrightarrow> load_from_path d' = Some (loaded_session (se_data s'), d')"
proof -
  let ?s = "upd_data (\<lambda>d. d\<lparr>ss_updated_at := now\<rparr>) s"
  have t: "\<not> fl_rename f" "\<not> fl_remove f" "fl_append f = Appended \<or> \<not> fl_write f" using assms(2) by (simp_all add: tidy_def)
  have y: "synced (?s, d)" by (rule synced_steps_on [OF assms(1) steps_updated])
  have data: "se_data ?s = (se_data s)\<lparr>ss_updated_at := now\<rparr>" by (simp add: upd_data_def)
  have "synced (s', d') \<and> (\<not> fl_write f \<longrightarrow> ok) \<and> se_data s' = se_data ?s \<and>
    (ok \<longrightarrow> load_from_path d' = Some (loaded_session (se_data s'), d'))"
  proof (cases "metadata_needs_snapshot ?s \<or> vectors_need_snapshot ?s")
    case True
    then have "checkpoint_snapshot f (?s, d) = (ok, s', d')" using assms(3) by (simp add: save_def Let_def)
    from checkpoint_correct [OF _ t(1,2) this] y show ?thesis by auto
  next
    case False
    then have clean: "ps_snapshot_exists (se_persist_state ?s)" "\<not> vectors_need_snapshot ?s"
      by (simp_all add: vectors_need_snapshot_def Let_def)
    then obtain l x where l: "sf_snapshot d = Some (Some x)" "whole_journal d" "disk_data d = Some l"
      "apply_journal_entry (journal_entry ?s) l = se_data ?s"
      using y unfolding synced_def Let_def prod.case grown_def vectors_need_snapshot_def
      by (metis applied_entry)
    show ?thesis
    proof (cases "fl_append f = Appended")
      case True
      note a = appended_entry [OF l(1-3) True, of "journal_entry ?s"]
      let ?d = "snd (append_json_line_fast f (journal_entry ?s) d)" and ?r = "reset_persist_state True ?s"
      have k: "disk_data ?d = Some (se_data ?r)" by (simp add: a(4) l(4))
      have yr: "synced (?r, ?d)" using synced_saved [OF a(2,3), of ?s] k by simp
      have r: "load_from_path ?d = Some (loaded_session (se_data ?r), ?d)"
        using load_whole [OF a(2,3)] k by simp
      have eq: "(if bytes (open_journal ?d) > max_session_journal_bytes then checkpoint_snapshot f (?r, ?d)
          else (True, ?r, ?d)) = (ok, s', d')"
        using assms(3) \<open>\<not> (metadata_needs_snapshot ?s \<or> vectors_need_snapshot ?s)\<close> a(1)
        by (auto simp: save_def Let_def split: prod.splits bool.splits if_splits)
      then show ?thesis
        using checkpoint_correct [OF _ t(1,2), of ?r ?d ok s' d'] yr r by (auto split: if_splits)
    next
      case False
      then have nw: "\<not> fl_write f" using t(3) by simp
      obtain d2 where "append_json_line_fast f (journal_entry ?s) d = (False, d2)"
        using False by (cases "fl_append f") (auto simp: append_json_line_fast_def Let_def)
      then have "checkpoint_snapshot f (?s, d2) = (ok, s', d')"
        using assms(3) \<open>\<not> (metadata_needs_snapshot ?s \<or> vectors_need_snapshot ?s)\<close> by (simp add: save_def Let_def)
      from checkpoint_correct [OF _ t(1,2) this] nw show ?thesis by auto
    qed
  qed
  then show "synced (s', d')" "\<not> fl_write f \<Longrightarrow> ok" "se_data s' = (se_data s)\<lparr>ss_updated_at := now\<rparr>"
    "ok \<Longrightarrow> load_from_path d' = Some (loaded_session (se_data s'), d')"
    by (simp_all add: data)
qed

section \<open>Everything that happens to a session\<close>

datatype 'j session_op =
    OpSetMeta session_journal_meta
  | OpAddMessage nat string role "'j content_block list" "nat option" "stored_token_usage option"
      "stored_display_role option"
  | OpInsertMessage nat "'j stored_message"
  | OpReplaceMessages "'j stored_message list"
  | OpTruncateMessages nat
  | OpRemoveToolUses string
  | OpEnvSnapshot env_snapshot
  | OpMemoryInjection nat string string nat nat "string list"
  | OpReplayEvent nat stored_replay_event_kind
  | OpNewReplayEvent nat stored_replay_event_kind
  | OpEnsureContext process_env "string option \<Rightarrow> string" nat string
  | OpRefreshContext "string option \<Rightarrow> string"
  | OpProviderMessages
  | OpStrip
  | OpSave save_faults nat
  | OpReload

fun session_step ::
  "('j journal \<Rightarrow> nat) \<Rightarrow> ('j message \<Rightarrow> 64 word) \<Rightarrow> 'j session \<times> 'j session_files \<Rightarrow> 'j session_op \<Rightarrow>
   'j session \<times> 'j session_files" where
  "session_step bytes h (s, d) (OpSetMeta meta) = (upd_data (apply_journal_meta meta) s, d)"
| "session_step bytes h (s, d) (OpAddMessage now i r content dur usage disp) =
     (add_message_ext_with_display_role now i r content dur usage disp s, d)"
| "session_step bytes h (s, d) (OpInsertMessage n m) = (insert_message n m s, d)"
| "session_step bytes h (s, d) (OpReplaceMessages ms) = (replace_messages ms s, d)"
| "session_step bytes h (s, d) (OpTruncateMessages n) = (truncate_messages n s, d)"
| "session_step bytes h (s, d) (OpRemoveToolUses i) = (remove_tool_use_blocks i s, d)"
| "session_step bytes h (s, d) (OpEnvSnapshot e) = (record_env_snapshot e s, d)"
| "session_step bytes h (s, d) (OpMemoryInjection now sm content n age ids) =
     (record_memory_injection now sm content n age ids s, d)"
| "session_step bytes h (s, d) (OpReplayEvent now kind) = (push_replay_event now kind s, d)"
| "session_step bytes h (s, d) (OpNewReplayEvent now kind) = (push_new_replay_event now kind s, d)"
| "session_step bytes h (s, d) (OpEnsureContext pe build now i) =
     (snd (ensure_initial_session_context_message pe build now i s), d)"
| "session_step bytes h (s, d) (OpRefreshContext build) = (snd (refresh_initial_session_context_message build s), d)"
| "session_step bytes h (s, d) OpProviderMessages = (snd (provider_messages h s), d)"
| "session_step bytes h (s, d) OpStrip = (strip_transcript_for_remote_client s, d)"
| "session_step bytes h (s, d) (OpSave f now) = snd (save bytes f now (s, d))"
| "session_step bytes h (s, d) OpReload = (case load_from_path d of Some st \<Rightarrow> st | None \<Rightarrow> (s, d))"

text \<open>
  What a later save depends on: files fail as a whole or not at all, and the session is not one whose transcript
  was dropped because a server has it (which counts as saved then).
\<close>

fun session_op_ok :: "'j session_op \<Rightarrow> bool" where
  "session_op_ok (OpSave f now) = tidy f"
| "session_op_ok OpStrip = False"
| "session_op_ok op = True"

definition session_inv :: "('j message \<Rightarrow> 64 word) \<Rightarrow> 'j session \<times> 'j session_files \<Rightarrow> bool" where
  "session_inv h st \<longleftrightarrow> synced st \<and> cache_ok h (fst st) \<and>
     (\<not> ps_snapshot_exists (se_persist_state (fst st)) \<longrightarrow> snd st = no_files)"

lemmas session_ops = upd_data_def upd_persist_def append_dirty_def mark_messages_append_dirty_def
  mark_messages_full_dirty_def mark_env_snapshots_append_dirty_def mark_env_snapshots_full_dirty_def
  mark_memory_injections_append_dirty_def mark_replay_events_append_dirty_def

lemma steps_on_refl: "steps_on s s"
  by (auto simp: steps_on_def Let_def)

lemma steps_on_trans: "steps_on a b \<Longrightarrow> steps_on b c \<Longrightarrow> steps_on a c"
  unfolding steps_on_def Let_def by (auto intro: prefix_order.trans)

lemma steps_meta: "steps_on s (upd_data (apply_journal_meta meta) s)"
  by (auto simp: steps_on_def upd_data_def apply_journal_meta_def Let_def)

lemma steps_append: "steps_on s (append_stored_message m s)"
  by (auto simp: steps_on_def append_stored_message_def session_ops Let_def)

lemma steps_messages: "steps_on s (mark_messages_full_dirty (upd_data (\<lambda>d. d\<lparr>ss_messages := f d\<rparr>) s))"
  by (auto simp: steps_on_def session_ops Let_def)

lemma steps_lists:
  "steps_on s (record_env_snapshot e s)" "steps_on s (record_memory_injection now sm content n age ids s)"
  "steps_on s (push_replay_event now kind s)" "steps_on s (push_new_replay_event now kind s)"
  by (auto simp: steps_on_def record_env_snapshot_def record_memory_injection_def push_new_replay_event_def
      push_replay_event_def session_ops Let_def)

lemma steps_provider: "cache_ok h s \<Longrightarrow> steps_on s (snd (provider_messages h s))"
  using steps_on_refl [of s] by (simp add: steps_on_def Let_def provider_messages_cached)

lemma steps_dir: "steps_on s (upd_data (\<lambda>d. d\<lparr>ss_working_dir := x\<rparr>) s)"
  by (auto simp: steps_on_def upd_data_def Let_def)

lemma cache_dir: "cache_ok h s \<Longrightarrow> cache_ok h (upd_data (\<lambda>d. d\<lparr>ss_working_dir := x\<rparr>) s)"
  by (rule cache_same) (simp_all add: upd_data_def)

lemma ensure_keeps:
  "steps_on s (snd (ensure_initial_session_context_message pe build now i s))"
  "cache_ok h s \<Longrightarrow> cache_ok h (snd (ensure_initial_session_context_message pe build now i s))"
  by (auto simp: ensure_initial_session_context_message_def add_message_ext_with_display_role_def Let_def steps_on_refl
      steps_append cache_append cache_dir split: option.split intro: steps_on_trans [OF steps_dir steps_append])

lemma refresh_context_result:
  "snd (refresh_initial_session_context_message build s) = s \<or>
   (\<exists>f. snd (refresh_initial_session_context_message build s) =
     mark_messages_full_dirty (upd_data (\<lambda>d. d\<lparr>ss_messages := f d\<rparr>) s))"
  unfolding refresh_initial_session_context_message_def Let_def by (auto split: option.split)

lemma refresh_context_keeps:
  "steps_on s (snd (refresh_initial_session_context_message build s))"
  "cache_ok h s \<Longrightarrow> cache_ok h (snd (refresh_initial_session_context_message build s))"
  using refresh_context_result [of build s] by (auto simp: steps_on_refl steps_messages cache_full_dirty)

lemma synced_loaded:
  assumes "synced (s, d)" "ps_snapshot_exists (se_persist_state s)" "load_from_path d = Some (s', d')"
  shows "synced (s', d')" "cache_ok h s'"
proof -
  obtain l x where l: "sf_snapshot d = Some (Some x)" "whole_journal d" "disk_data d = Some l"
    using assms(1,2) unfolding synced_def Let_def prod.case by blast
  have "s' = loaded_session l" "d' = d" using load_whole [OF l(1,2)] l(3) assms(3) by auto
  then show "synced (s', d')" "cache_ok h s'"
    using l unfolding synced_def Let_def prod.case
    by (auto simp: loaded_session_def reset_provider_messages_cache_def reset_persist_state_def Let_def grown_def cache_ok_def)
qed

lemma steps_inv:
  assumes "session_inv h (s, d)" "steps_on s s'" "cache_ok h s'"
  shows "session_inv h (s', d)"
proof -
  have "ps_snapshot_exists (se_persist_state s') = ps_snapshot_exists (se_persist_state s)"
    using assms(2) by (simp add: steps_on_def Let_def)
  then show ?thesis using assms synced_steps_on [OF _ assms(2)] by (auto simp: session_inv_def)
qed

lemma checkpoint_state:
  "checkpoint_snapshot f (s, d) = (ok, s', d') \<Longrightarrow> s' = reset_persist_state True s \<or> s' = s"
  "checkpoint_snapshot f (s, d) = (ok, s', d') \<Longrightarrow> \<not> fl_rename f \<Longrightarrow>
     ps_snapshot_exists (se_persist_state s') \<or> d' = d \<and> s' = s"
  by (auto simp: checkpoint_snapshot_def write_json_fast_def write_steps_def reset_persist_state_def Let_def
      split: if_splits)

lemma reset_cache: "cache_ok h s \<Longrightarrow> cache_ok h (reset_persist_state b s)"
  by (rule cache_same) (simp_all add: reset_persist_state_def Let_def)

lemma save_state:
  assumes "save bytes f now (s, d) = (ok, s', d')"
  shows "s' = reset_persist_state True (upd_data (\<lambda>d. d\<lparr>ss_updated_at := now\<rparr>) s) \<or>
    s' = upd_data (\<lambda>d. d\<lparr>ss_updated_at := now\<rparr>) s"
proof -
  let ?s = "upd_data (\<lambda>d. d\<lparr>ss_updated_at := now\<rparr>) s"
  have rr: "reset_persist_state True (reset_persist_state True ?s) = reset_persist_state True ?s"
    by (simp add: reset_persist_state_def Let_def)
  obtain a d2 where ad: "append_json_line_fast f (journal_entry ?s) d = (a, d2)" by (cases "append_json_line_fast f (journal_entry ?s) d")
  consider "checkpoint_snapshot f (?s, d) = (ok, s', d')" | "checkpoint_snapshot f (?s, d2) = (ok, s', d')"
    | "checkpoint_snapshot f (reset_persist_state True ?s, d2) = (ok, s', d')" | "s' = reset_persist_state True ?s"
    using assms ad by (cases a) (auto simp: save_def Let_def split: if_splits)
  then show ?thesis by cases (use checkpoint_state(1) rr in \<open>metis\<close>, use checkpoint_state(1) rr in \<open>metis\<close>,
      use checkpoint_state(1) rr in \<open>metis\<close>, simp)
qed

lemma save_inv:
  assumes "session_inv h (s, d)" "tidy f"
  shows "session_inv h (snd (save bytes f now (s, d)))"
proof -
  obtain ok s' d' where r: "save bytes f now (s, d) = (ok, s', d')" by (metis prod_cases3)
  let ?s = "upd_data (\<lambda>d. d\<lparr>ss_updated_at := now\<rparr>) s"
  have y: "synced (s', d')" using save_correct(1) [OF _ assms(2) r] assms(1) by (simp add: session_inv_def)
  have "cache_ok h ?s" using assms(1) cache_same [of h s ?s] by (simp add: session_inv_def upd_data_def)
  then have c: "cache_ok h s'" using save_state [OF r] reset_cache by metis
  have "d' = no_files" if n: "\<not> ps_snapshot_exists (se_persist_state s')"
  proof -
    have "s' = ?s" using save_state [OF r] n by (auto simp: reset_persist_state_def Let_def)
    then have e: "\<not> ps_snapshot_exists (se_persist_state s)" using n by (simp add: upd_data_def)
    then have "checkpoint_snapshot f (?s, d) = (ok, s', d')"
      using r by (simp add: save_def Let_def vectors_need_snapshot_def upd_data_def)
    from checkpoint_state(2) [OF this] n assms(2) have "d' = d" by (auto simp: tidy_def)
    then show ?thesis using e assms(1) by (simp add: session_inv_def)
  qed
  then show ?thesis using y c r by (simp add: session_inv_def)
qed

lemma reload_inv:
  assumes "session_inv h (s, d)"
  shows "session_inv h (session_step bytes h (s, d) OpReload)"
proof (cases "load_from_path d")
  case None
  then show ?thesis using assms by simp
next
  case (Some st)
  obtain s' d' where st: "st = (s', d')" by (cases st)
  have e: "ps_snapshot_exists (se_persist_state s)"
  proof (rule ccontr)
    assume "\<not> ps_snapshot_exists (se_persist_state s)"
    then show False using assms Some by (simp add: session_inv_def no_files_def load_from_path_def read_json_def)
  qed
  have "ps_snapshot_exists (se_persist_state s')"
    using Some st by (auto simp: load_from_path_def loaded_session_def reset_provider_messages_cache_def
        reset_persist_state_def Let_def split: option.splits)
  then show ?thesis
    using synced_loaded [of s d s' d'] e Some st assms by (simp add: session_inv_def)
qed

text \<open>Only the cache: it survives every operation, whatever becomes of the files.\<close>

lemma loaded_cache: "load_from_path d = Some (s', d') \<Longrightarrow> cache_ok h s'"
  by (auto simp: load_from_path_def loaded_session_def reset_provider_messages_cache_def cache_full
      split: option.splits)

lemma save_cache: "cache_ok h s \<Longrightarrow> cache_ok h (fst (snd (save bytes f now (s, d))))"
proof -
  assume c: "cache_ok h s"
  obtain ok s' d' where r: "save bytes f now (s, d) = (ok, s', d')" by (metis prod_cases3)
  have "cache_ok h (upd_data (\<lambda>d. d\<lparr>ss_updated_at := now\<rparr>) s)"
    by (rule cache_same [OF c]) (simp_all add: upd_data_def)
  then show ?thesis using save_state [OF r] reset_cache r by fastforce
qed

lemma list_ops_cache:
  assumes "cache_ok h s"
  shows "cache_ok h (upd_data (apply_journal_meta meta) s)" "cache_ok h (record_env_snapshot e s)"
    "cache_ok h (record_memory_injection now sm content n age ids s)" "cache_ok h (push_replay_event now kind s)"
    "cache_ok h (push_new_replay_event now kind s)"
  by (rule cache_same [OF assms]; simp add: record_env_snapshot_def record_memory_injection_def
      push_new_replay_event_def push_replay_event_def session_ops apply_journal_meta_def Let_def)+

lemma strip_cache: "cache_ok h (strip_transcript_for_remote_client s)"
  by (rule cache_full)
    (simp add: strip_transcript_for_remote_client_def reset_persist_state_def reset_provider_messages_cache_def Let_def)

lemmas message_ops = add_message_ext_with_display_role_def insert_message_def replace_messages_def
  truncate_messages_def remove_tool_use_blocks_def

lemma session_step_cache:
  assumes "cache_ok h (fst st)"
  shows "cache_ok h (fst (session_step bytes h st x))"
proof -
  obtain s d where st: "st = (s, d)" by (cases st)
  then have c: "cache_ok h s" using assms by simp
  show ?thesis
    unfolding st
    by (cases x) (simp_all add: c list_ops_cache cache_append cache_full_dirty ensure_keeps refresh_context_keeps
        provider_messages_cached save_cache strip_cache message_ops, auto simp: c loaded_cache split: option.split)
qed

lemma session_step_inv:
  assumes "session_inv h st" "session_op_ok x"
  shows "session_inv h (session_step bytes h st x)"
proof -
  obtain s d where st: "st = (s, d)" by (cases st)
  note i = assms(1) [unfolded st]
  then have c: "cache_ok h s" by (simp add: session_inv_def)
  have on: "steps_on s s' \<Longrightarrow> cache_ok h s' \<Longrightarrow> session_inv h (s', d)" for s' by (rule steps_inv [OF i])
  show ?thesis
    unfolding st
  proof (cases x)
    case (OpSave f now)
    then show "session_inv h (session_step bytes h (s, d) x)" using save_inv [OF i] assms(2) by simp
  next
    case OpReload
    then show "session_inv h (session_step bytes h (s, d) x)" using reload_inv [OF i] by simp
  next
    case OpStrip
    then show "session_inv h (session_step bytes h (s, d) x)" using assms(2) by simp
  qed (simp_all add: on c steps_on_refl steps_meta steps_append steps_messages steps_lists steps_provider
      list_ops_cache cache_append cache_full_dirty ensure_keeps refresh_context_keeps provider_messages_cached message_ops)
qed

lemma new_session_inv: "session_inv h (new_session pe now i short parent title, no_files)"
  by (simp add: session_inv_def synced_def new_session_def reset_persist_state_def Let_def cache_full)

interpretation session_runs: guarded_machine "session_step bytes h"
  "(new_session pe now i short parent title, no_files)" "session_inv h" session_op_ok
  for bytes h pe now i short parent title
  by unfold_locales (rule new_session_inv, rule session_step_inv)

interpretation cache_runs: op_machine "session_step bytes h"
  "(new_session pe now i short parent title, files)" "\<lambda>st. cache_ok h (fst st)"
  for bytes h pe now i short parent title files
  by unfold_locales (simp add: new_session_def reset_persist_state_def Let_def cache_full, rule session_step_cache)

section \<open>Properties\<close>

definition sample_env :: process_env where
  "sample_env = \<lparr>pe_current_dir = Some ''/w'', pe_pid = 7, pe_test_session = False\<rparr>"

definition sample_start :: "unit session \<times> unit session_files" where
  "sample_start = (new_session sample_env 0 ''s'' None None None, no_files)"

definition sample_ops :: "unit session_op list" where
  "sample_ops = [OpSave no_faults 1, OpAddMessage 2 ''m'' User [Text ''hi'' None] None None None, OpSave no_faults 3,
     OpAddMessage 4 ''n'' Assistant [Text ''ho'' None] None None None, OpProviderMessages]"

text \<open>
  Property C10. Take any history of a new session, saves that failed and loads included, in which every written file could be
  renamed, every old journal removed, and a snapshot written whenever an append failed (tidy), and in which the session
  was not stripped of its transcript for a remote client. Then a save under the same conditions changes nothing of
  the session but its time, succeeds unless the snapshot cannot be written, and once it has succeeded, loading gives
  exactly the session that was saved, whether it went to the snapshot or to the journal.
\<close>

theorem session_save_load:
  assumes "list_all session_op_ok ops"
    and "foldl (session_step bytes h) (new_session pe now i short parent title, no_files) ops = (s, d)"
    and "tidy f" "save bytes f t (s, d) = (ok, s', d')"
  shows "(\<not> fl_write f \<longrightarrow> ok) \<and> se_data s' = (se_data s)\<lparr>ss_updated_at := t\<rparr> \<and>
    (ok \<longrightarrow> load_from_path d' = Some (loaded_session (se_data s'), d'))"
proof -
  have "synced (s, d)"
    using session_runs.run_inv [OF assms(1), of h bytes pe now i short parent title] assms(2)
    by (simp add: session_inv_def)
  from save_correct(2-4) [OF this assms(3,4)] show ?thesis by blast
qed

lemma sample_ok: "list_all session_op_ok sample_ops" "tidy no_faults"
  by (simp_all add: sample_ops_def tidy_def no_faults_def)

lemma session_save_load_witness:
  "let r = save (\<lambda>j. 0) no_faults 5 (foldl (session_step (\<lambda>j. 0) (\<lambda>m. 1)) sample_start sample_ops)
   in fst r \<and> load_from_path (snd (snd r)) = Some (loaded_session (se_data (fst (snd r))), snd (snd r))"
proof -
  let ?st = "foldl (session_step (\<lambda>j. 0) (\<lambda>m. 1)) sample_start sample_ops"
  let ?r = "save (\<lambda>j. 0) no_faults 5 ?st"
  have run: "foldl (session_step (\<lambda>j. 0) (\<lambda>m. 1)) (new_session sample_env 0 ''s'' None None None, no_files) sample_ops
      = (fst ?st, snd ?st)"
    by (simp add: sample_start_def)
  have "save (\<lambda>j. 0) no_faults 5 (fst ?st, snd ?st) = (fst ?r, fst (snd ?r), snd (snd ?r))" by simp
  from session_save_load [OF sample_ok(1) run sample_ok(2) this] show ?thesis by (simp add: Let_def no_faults_def)
qed

text \<open>
  Property C11. Whatever happened to a session, failed saves and loads included, and whatever the files held at the start: the
  messages of a request, taken from the cache, are those of the transcript converted one by one, and the hashes that
  go with them are those of its prefixes.
\<close>

theorem provider_cache_correct:
  "let (s, d) = foldl (session_step bytes h) (new_session pe now i short parent title, files) ops
   in fst (provider_messages h s) = messages_for_provider_uncached (se_data s) \<and>
      fst (provider_message_prefix_hashes h s) = prefix_hashes h (messages_for_provider_uncached (se_data s))"
proof -
  obtain s d where r: "foldl (session_step bytes h) (new_session pe now i short parent title, files) ops = (s, d)"
    by (cases "foldl (session_step bytes h) (new_session pe now i short parent title, files) ops")
  have "cache_ok h s" using cache_runs.run_inv [of h bytes pe now i short parent title files ops] r by simp
  from provider_messages_cached(1,3) [OF this] show ?thesis
    by (simp add: r cached_def messages_for_provider_uncached_def provider_message_prefix_hashes_def
        provider_messages_def Let_def)
qed

text \<open>A journal with the start of a line at its end.\<close>

lemma replay_stops:
  "replay_journal f (map Entry es @ Unparsable # ls) x = Some (foldl (\<lambda>x e. f e x) x es)"
  "replay_journal f (map Entry es @ Undecodable # ls) x = None"
  by (induction es arbitrary: x) simp_all

abbreviation append_all :: "'j session_journal_entry list \<Rightarrow> 'j session_files \<Rightarrow> 'j session_files" where
  "append_all es d \<equiv> foldl (\<lambda>d e. snd (append_json_line_fast no_faults e d)) d es"

lemma append_all_snapshot: "sf_snapshot (append_all es d) = sf_snapshot d"
  by (induction es arbitrary: d) (simp_all add: append_json_line_fast_def Let_def no_faults_def)

lemma append_all_whole:
  "sf_journal d = Some \<lparr>jn_lines = ls, jn_tail = None\<rparr> \<Longrightarrow>
   sf_journal (append_all es d) = Some \<lparr>jn_lines = ls @ map Entry es, jn_tail = None\<rparr>"
  by (induction es arbitrary: d ls)
    (simp_all add: append_json_line_fast_def Let_def no_faults_def open_journal_def joined_line_def)

lemma append_all_torn:
  assumes "jn_lines (open_journal d) = ls" "jn_tail (open_journal d) = Some torn" "es \<noteq> []"
  shows "sf_journal (append_all es d) =
    Some \<lparr>jn_lines = ls @ (if torn = Undecodable then Undecodable else Unparsable) # map Entry (List.tl es), jn_tail = None\<rparr>"
proof -
  obtain e es' where es: "es = e # es'" using assms(3) by (cases es) auto
  have "sf_journal (snd (append_json_line_fast no_faults e d)) =
      Some \<lparr>jn_lines = ls @ [if torn = Undecodable then Undecodable else Unparsable], jn_tail = None\<rparr>"
    using assms(1,2) by (cases torn) (simp_all add: append_json_line_fast_def Let_def no_faults_def joined_line_def)
  from append_all_whole [OF this, of es'] show ?thesis by (simp add: es)
qed

lemma load_torn:
  assumes "sf_snapshot d = Some (Some x)" "journal_lines (open_journal d) = map Entry es @ line # ls" "sf_journal d \<noteq> None"
  shows "line = Unparsable \<Longrightarrow> disk_data d = Some (foldl (\<lambda>l e. apply_journal_entry e l) x es)"
    "line = Undecodable \<Longrightarrow> disk_data d = None"
  using assms by (auto simp: disk_data_def load_from_path_def read_json_def open_journal_def replay_stops)

text \<open>The line an append that is cut off leaves, with what is appended later.\<close>

definition torn_line :: "append_outcome \<Rightarrow> 'e journal_line" where
  "torn_line a = (if a = CutInCharacter then Undecodable else Unparsable)"

lemma torn_journal:
  assumes "whole_journal d" "fl_append f \<in> {CutInText, CutInCharacter} \<or> (fl_append f = CutBeforeLineBreak \<and> es \<noteq> [])"
  shows "sf_journal (append_all es (snd (append_json_line_fast f e d))) \<noteq> None"
    "\<exists>ls. journal_lines (open_journal (append_all es (snd (append_json_line_fast f e d)))) =
       map Entry (journal_entries d) @ torn_line (fl_append f) # ls"
proof -
  let ?d = "snd (append_json_line_fast f e d)"
  note w = whole_lines [OF assms(1)]
  have torn: "sf_journal ?d = Some \<lparr>jn_lines = map Entry (journal_entries d),
      jn_tail = Some (if fl_append f = CutBeforeLineBreak then Entry e else torn_line (fl_append f))\<rparr>"
    using assms(2) w by (auto simp: append_json_line_fast_def Let_def torn_line_def joined_line_def)
  show "sf_journal (append_all es ?d) \<noteq> None"
    "\<exists>ls. journal_lines (open_journal (append_all es ?d)) = map Entry (journal_entries d) @ torn_line (fl_append f) # ls"
  proof (atomize (full), cases "es = []")
    case True
    then show "sf_journal (append_all es ?d) \<noteq> None \<and> (\<exists>ls. journal_lines (open_journal (append_all es ?d)) =
        map Entry (journal_entries d) @ torn_line (fl_append f) # ls)"
      using torn assms(2) by (auto simp: open_journal_def journal_lines_def)
  next
    case False
    from torn append_all_torn [OF _ _ False, of ?d]
    show "sf_journal (append_all es ?d) \<noteq> None \<and> (\<exists>ls. journal_lines (open_journal (append_all es ?d)) =
        map Entry (journal_entries d) @ torn_line (fl_append f) # ls)"
      using assms(2) by (auto simp: open_journal_def journal_lines_def torn_line_def)
  qed
qed

lemma append_snapshot: "sf_snapshot (snd (append_json_line_fast f e d)) = sf_snapshot d"
  by (simp add: append_json_line_fast_def Let_def split: append_outcome.split)

lemma entries_messages:
  "ss_messages (foldl (\<lambda>l e. apply_journal_entry e l) x es) = ss_messages x @ concat (map je_append_messages es)"
  by (induction es arbitrary: x) (simp_all add: apply_journal_entry_def apply_journal_meta_def Let_def)

lemma torn_lost:
  assumes "sf_snapshot d = Some (Some x)" "whole_journal d"
    "fl_append f \<in> {CutInText, CutInCharacter} \<or> (fl_append f = CutBeforeLineBreak \<and> es \<noteq> [])"
  shows "disk_data (append_all es (snd (append_json_line_fast f e d))) =
    (if fl_append f = CutInCharacter then None else disk_data d)"
proof -
  note j = torn_journal [OF assms(2,3), of e]
  obtain ls where ls: "journal_lines (open_journal (append_all es (snd (append_json_line_fast f e d)))) =
      map Entry (journal_entries d) @ torn_line (fl_append f) # ls" using j(2) by blast
  have s: "sf_snapshot (append_all es (snd (append_json_line_fast f e d))) = Some (Some x)"
    using assms(1) by (simp add: append_all_snapshot append_snapshot)
  from load_torn [OF s ls j(1)] load_whole(2) [OF assms(1,2)] show ?thesis by (simp add: torn_line_def)
qed

text \<open>
  Property C40. What a process that dies while it saves leaves of a session with a whole snapshot x and journal. Dying while a
  snapshot is written: between the two renamings nothing loads, although the old snapshot is whole in the backup and
  the new one in the temporary file; and with the new snapshot in place but the journal still there, loading applies
  the journal to what holds its entries already, so every message in the journal is there twice. Dying while a line
  is appended: all that is appended later, each time with success, is lost when the session is loaded, and
  if the cut is inside a character, the session does not load at all.
\<close>

theorem interrupted_save:
  assumes "sf_snapshot d = Some (Some x)" "whole_journal d"
  shows "(\<exists>d1 d2. write_steps no_faults (se_data s) d = [d, d1, d2] \<and>
      load_from_path d1 = None \<and> sf_backup d1 = Some (Some x) \<and>
      map_option ss_messages (disk_data d2) =
        Some (ss_messages (se_data s) @ concat (map je_append_messages (journal_entries d)))) \<and>
    (fl_append f \<in> {CutInText, CutInCharacter} \<or> (fl_append f = CutBeforeLineBreak \<and> es \<noteq> []) \<longrightarrow>
      disk_data (foldl (\<lambda>d e. snd (append_json_line_fast no_faults e d)) (snd (append_json_line_fast f e d)) es) =
        (if fl_append f = CutInCharacter then None else disk_data d))"
proof (intro conjI impI)
  let ?d1 = "d\<lparr>sf_backup := Some (Some x), sf_snapshot := None\<rparr>"
  let ?d2 = "?d1\<lparr>sf_snapshot := Some (Some (se_data s))\<rparr>"
  have w: "write_steps no_faults (se_data s) d = [d, ?d1, ?d2]"
    by (simp add: write_steps_def no_faults_def snapshot_backed_up_def Let_def assms(1))
  have "load_from_path ?d1 = None" by (simp add: load_from_path_def read_json_def)
  moreover have "disk_data ?d2 = Some (foldl (\<lambda>l e. apply_journal_entry e l) (se_data s) (journal_entries d))"
    using load_whole(2) [of ?d2 "se_data s"] assms(2) by (simp add: whole_journal_def journal_entries_def)
  ultimately show "\<exists>d1 d2. write_steps no_faults (se_data s) d = [d, d1, d2] \<and>
      load_from_path d1 = None \<and> sf_backup d1 = Some (Some x) \<and>
      map_option ss_messages (disk_data d2) =
        Some (ss_messages (se_data s) @ concat (map je_append_messages (journal_entries d)))"
    by (intro exI [of _ ?d1] exI [of _ ?d2]) (simp add: w entries_messages)
qed (rule torn_lost [OF assms])

text \<open>A session with one message, which is in the journal, and a snapshot with none.\<close>

definition sample_message :: "unit stored_message" where
  "sample_message = \<lparr>st_id = ''m'', st_role = User, st_content = [Text ''hi'' None], st_display_role = None,
     st_timestamp = None, st_tool_duration_ms = None, st_token_usage = None\<rparr>"

definition sample_session :: "unit session" where
  "sample_session = append_stored_message sample_message (reset_persist_state True (fst sample_start))"

definition sample_files :: "unit session_files" where
  "sample_files = no_files\<lparr>sf_snapshot := Some (Some (se_data (fst sample_start))),
     sf_journal := Some \<lparr>jn_lines = [Entry (journal_entry sample_session)], jn_tail = None\<rparr>\<rparr>"

lemma interrupted_save_witness:
  "(\<exists>d1 d2. write_steps no_faults (se_data sample_session) sample_files = [sample_files, d1, d2] \<and>
      load_from_path d1 = None \<and> map_option ss_messages (disk_data d2) = Some [sample_message, sample_message]) \<and>
    disk_data (append_all [journal_entry sample_session]
      (snd (append_json_line_fast (no_faults\<lparr>fl_append := CutInText\<rparr>) (journal_entry sample_session) sample_files))) =
      disk_data sample_files"
proof -
  have w: "sf_snapshot sample_files = Some (Some (se_data (fst sample_start)))" "whole_journal sample_files"
    by (simp_all add: sample_files_def whole_journal_def)
  have m: "ss_messages (se_data sample_session) = [sample_message]"
    "concat (map je_append_messages (journal_entries sample_files)) = [sample_message]"
    by (simp_all add: sample_session_def sample_files_def sample_start_def new_session_def journal_entries_def
        journal_entry_def append_stored_message_def session_ops reset_persist_state_def Let_def List.map_filter_simps)
  from interrupted_save [OF w, of sample_session "no_faults\<lparr>fl_append := CutInText\<rparr>" "[journal_entry sample_session]"
    "journal_entry sample_session"]
  show ?thesis unfolding m by (simp, blast)
qed

end
