(* ===== verification/SwarmControl.thy ===== *)
theory SwarmControl
  imports SwarmSpawn
begin

text \<open>
  What a coordinator does with the plan of its swarm: proposals and their approval
  (src/server/comm_plan.rs), roles, assigning tasks, controlling assigned tasks, and the run of an assigned
  task in a session without a client (src/server/comm_control.rs). A handler runs to its end; the run of a task
  is a sequence of steps between which other handlers run: start, heartbeats, tool events, end.
\<close>

section \<open>Requests\<close>

text \<open>A request: its number, the session that makes it, the channel for the answer.\<close>

record comm_request =
  cr_id :: nat
  cr_session :: string
  cr_channel :: nat

definition answer :: "comm_request \<Rightarrow> server_event \<Rightarrow> server \<Rightarrow> server" where
  "answer r event st = send_to (cr_channel r) event st"

definition refuse :: "comm_request \<Rightarrow> string \<Rightarrow> nat option \<Rightarrow> server \<Rightarrow> server" where
  "refuse r message retry st = answer r (EvError (cr_id r) message retry) st"

definition swarm_of :: "string \<Rightarrow> server \<Rightarrow> string option" where
  "swarm_of session_id st = Option.bind (fmlookup (sv_members st) session_id) sm_swarm_id"

definition name_of :: "string \<Rightarrow> server \<Rightarrow> string option" where
  "name_of session_id st = Option.bind (fmlookup (sv_members st) session_id) sm_friendly_name"

definition require_coordinator_swarm :: "comm_request \<Rightarrow> string \<Rightarrow> server \<Rightarrow> string option \<times> server" where
  "require_coordinator_swarm r permission_error st =
     (case swarm_of (cr_session r) st of
        Some swarm_id \<Rightarrow>
          if fmlookup (sv_coordinators st) swarm_id = Some (cr_session r) then (Some swarm_id, st)
          else (None, refuse r permission_error None st)
      | None \<Rightarrow> (None, refuse r permission_error None st))"

definition begin_mutation ::
  "server_env \<Rightarrow> nat \<Rightarrow> string \<Rightarrow> string list \<Rightarrow> comm_request \<Rightarrow> server \<Rightarrow> mutation_state option \<times> server" where
  "begin_mutation env now action components r st =
     (let key = hashed_request_key (en_hash env) (cr_session r) action components;
          (ms, rt, out) = begin_or_replay now (sv_closed st) key action (cr_session r) (cr_id r) (cr_channel r)
            (sv_mutations st, sv_out st)
      in (ms, st\<lparr>sv_mutations := rt, sv_out := out\<rparr>))"

definition finish_mutation :: "mutation_state \<Rightarrow> mutation_response \<Rightarrow> server \<Rightarrow> server" where
  "finish_mutation ms response st =
     (let (rt, out) = finish_request (sv_closed st) ms response (sv_mutations st, sv_out st)
      in st\<lparr>sv_mutations := rt, sv_out := out\<rparr>)"

section \<open>Plan proposals\<close>

definition plan_note :: "string \<Rightarrow> string \<Rightarrow> string option \<Rightarrow> string \<Rightarrow> server_event" where
  "plan_note scope from_session from_name message =
     EvNotification from_session from_name (MessageNote (Some scope) None) message"

definition owners :: "plan_item list \<Rightarrow> string fset" where
  "owners items = fset_of_list (List.map_filter pi_assigned_to items)"

definition proposal_key :: "string \<Rightarrow> string" where
  "proposal_key session_id = ''plan_proposal:'' @ session_id"

text \<open>The coordinator's own proposal replaces the plan at once.\<close>

definition replace_plan :: "string \<Rightarrow> plan_item list \<Rightarrow> versioned_plan \<Rightarrow> versioned_plan" where
  "replace_plan session_id items plan =
     plan\<lparr>vp_participants := finsert session_id (vp_participants plan) |\<union>| owners items,
       vp_items := items, vp_version := vp_version plan + 1\<rparr>"

definition coordinator_proposal ::
  "server_env \<Rightarrow> nat \<Rightarrow> comm_request \<Rightarrow> string \<Rightarrow> plan_item list \<Rightarrow> server \<Rightarrow> server" where
  "coordinator_proposal env now r swarm_id items st =
     (let req = cr_session r; from_name = name_of req st;
          from_label = (case from_name of Some n \<Rightarrow> n | None \<Rightarrow> char_take 8 req);
          plan = replace_plan req items (get_or versioned_plan_new (sv_plans st) swarm_id);
          st = st\<lparr>sv_plans := fmupd swarm_id plan (sv_plans st)\<rparr>;
          msg = ''Plan updated by '' @ from_label @ '' ('' @ show_nat (length items) @ '' items, v''
            @ show_nat (vp_version plan) @ '')'';
          st = foldl (\<lambda>st sid. interrupt env sid msg (send_member sid (plan_note ''plan'' req from_name msg) st)) st
            (filter (\<lambda>sid. sid \<noteq> req) (en_order env (vp_participants plan)));
          st = persist_swarm_state_for env now swarm_id st;
          st = broadcast_swarm_plan env swarm_id (Some ''coordinator_direct_update'') st;
          st = record_swarm_event now req from_name (Some swarm_id) (SwPlanUpdate swarm_id (length items)) st
      in answer r (EvDone (cr_id r)) st)"

definition store_proposal ::
  "server_env \<Rightarrow> nat \<Rightarrow> string \<Rightarrow> string \<Rightarrow> string option \<Rightarrow> plan_item list \<Rightarrow> server \<Rightarrow> server" where
  "store_proposal env now swarm_id session_id name items st =
     st\<lparr>sv_context := entry_upd fmempty (fmupd (proposal_key session_id)
       \<lparr>sc_key = proposal_key session_id, sc_value = en_items_json env items, sc_from_session = session_id,
        sc_from_name = name, sc_created_at = now, sc_updated_at = now\<rparr>) swarm_id (sv_context st)\<rparr>"

definition member_proposal ::
  "server_env \<Rightarrow> nat \<Rightarrow> comm_request \<Rightarrow> string \<Rightarrow> string \<Rightarrow> plan_item list \<Rightarrow> server \<Rightarrow> server" where
  "member_proposal env now r swarm_id coordinator items st =
     (let req = cr_session r; from_name = name_of req st;
          from_label = (case from_name of Some n \<Rightarrow> n | None \<Rightarrow> char_take 8 req);
          st = store_proposal env now swarm_id req from_name items st;
          st = record_swarm_event now req from_name (Some swarm_id) (SwPlanProposal swarm_id req (length items)) st;
          summary = summarize_plan_items items 3;
          msg = ''Plan proposal from '' @ from_label @ '' ('' @ show_nat (length items) @ '' items). Summary: ''
            @ summary @ ''. Review with communicate read key '' @ quoted (proposal_key req) @ ''.'';
          st = send_member coordinator (plan_note ''plan_proposal'' req from_name msg) st;
          st = send_member coordinator
            (EvSwarmPlanProposal swarm_id req from_name items summary (proposal_key req)) st;
          st = interrupt env coordinator msg st;
          confirmation = ''Plan proposal sent to coordinator (not yet applied).'';
          st = send_member req (plan_note ''plan_proposal'' req from_name confirmation) st;
          st = interrupt env req confirmation st
      in answer r (EvDone (cr_id r)) st)"

definition handle_comm_propose_plan ::
  "server_env \<Rightarrow> nat \<Rightarrow> comm_request \<Rightarrow> plan_item list \<Rightarrow> server \<Rightarrow> server" where
  "handle_comm_propose_plan env now r items st =
     (case swarm_of (cr_session r) st of
        None \<Rightarrow> refuse r ''Not in a swarm.'' None st
      | Some swarm_id \<Rightarrow>
          (case fmlookup (sv_coordinators st) swarm_id of
             None \<Rightarrow> refuse r ''No coordinator for this swarm.'' None st
           | Some coordinator \<Rightarrow>
               if coordinator = cr_session r then coordinator_proposal env now r swarm_id items st
               else member_proposal env now r swarm_id coordinator items st))"

definition find_proposal :: "string \<Rightarrow> string \<Rightarrow> server \<Rightarrow> string option" where
  "find_proposal swarm_id proposer st =
     map_option sc_value (Option.bind (fmlookup (sv_context st) swarm_id) (\<lambda>ctx. fmlookup ctx (proposal_key proposer)))"

definition drop_proposal :: "string \<Rightarrow> string \<Rightarrow> server \<Rightarrow> server" where
  "drop_proposal swarm_id proposer st =
     st\<lparr>sv_context := update_existing (fmdrop (proposal_key proposer)) swarm_id (sv_context st)\<rparr>"

definition extend_plan :: "string \<Rightarrow> string \<Rightarrow> plan_item list \<Rightarrow> versioned_plan \<Rightarrow> versioned_plan" where
  "extend_plan coordinator proposer items plan =
     plan\<lparr>vp_items := vp_items plan @ items, vp_version := vp_version plan + 1,
       vp_participants := finsert proposer (finsert coordinator (vp_participants plan)) |\<union>| owners items\<rparr>"

definition apply_proposal ::
  "server_env \<Rightarrow> nat \<Rightarrow> string \<Rightarrow> string \<Rightarrow> string \<Rightarrow> plan_item list \<Rightarrow> server \<Rightarrow> server" where
  "apply_proposal env now swarm_id req proposer items st =
     (let plan = extend_plan req proposer items (get_or versioned_plan_new (sv_plans st) swarm_id);
          st = drop_proposal swarm_id proposer (st\<lparr>sv_plans := fmupd swarm_id plan (sv_plans st)\<rparr>);
          st = broadcast_swarm_plan env swarm_id (Some ''proposal_approved'') st;
          st = record_swarm_event now req None (Some swarm_id) (SwPlanUpdate swarm_id (length items)) st;
          name = name_of req st;
          msg = ''Plan approved by coordinator: '' @ show_nat (length items) @ '' items added from '' @ proposer;
          st = foldl (\<lambda>st sid. if sid |\<in>| fmdom (sv_members st)
                 then interrupt env sid msg (send_member sid (plan_note ''plan'' req name msg) st) else st) st
            (en_order env (vp_participants plan))
      in persist_swarm_state_for env now swarm_id st)"

definition no_proposal :: "string \<Rightarrow> mutation_response" where
  "no_proposal proposer = RsError (''No pending plan proposal from session '' @ quoted proposer) None"

definition handle_comm_approve_plan ::
  "server_env \<Rightarrow> nat \<Rightarrow> comm_request \<Rightarrow> string \<Rightarrow> server \<Rightarrow> server" where
  "handle_comm_approve_plan env now r proposer st =
     (case require_coordinator_swarm r ''Only the coordinator can approve plan proposals.'' st of
        (None, st) \<Rightarrow> st
      | (Some swarm_id, st) \<Rightarrow>
          (case begin_mutation env now ''approve_plan'' [swarm_id, proposer] r st of
             (None, st) \<Rightarrow> st
           | (Some ms, st) \<Rightarrow>
               (case find_proposal swarm_id proposer st of
                  None \<Rightarrow> finish_mutation ms (no_proposal proposer) st
                | Some proposal \<Rightarrow>
                    (let st = (case en_parse_items env proposal of
                           Some items \<Rightarrow> apply_proposal env now swarm_id (cr_session r) proposer items st
                         | None \<Rightarrow> st)
                     in finish_mutation ms RsDone st))))"

definition handle_comm_reject_plan ::
  "server_env \<Rightarrow> nat \<Rightarrow> comm_request \<Rightarrow> string \<Rightarrow> string option \<Rightarrow> server \<Rightarrow> server" where
  "handle_comm_reject_plan env now r proposer reason st =
     (case require_coordinator_swarm r ''Only the coordinator can reject plan proposals.'' st of
        (None, st) \<Rightarrow> st
      | (Some swarm_id, st) \<Rightarrow>
          (case begin_mutation env now ''reject_plan''
              [swarm_id, proposer, (case reason of Some s \<Rightarrow> s | None \<Rightarrow> [])] r st of
             (None, st) \<Rightarrow> st
           | (Some ms, st) \<Rightarrow>
               (if find_proposal swarm_id proposer st = None then finish_mutation ms (no_proposal proposer) st
                else
                  let st = drop_proposal swarm_id proposer st; name = name_of (cr_session r) st;
                      msg = ''Your plan proposal was rejected by the coordinator''
                        @ (case reason of Some s \<Rightarrow> '': '' @ s | None \<Rightarrow> []);
                      st = (if proposer |\<in>| fmdom (sv_members st)
                        then interrupt env proposer msg (send_member proposer (plan_note ''dm'' (cr_session r) name msg) st)
                        else st);
                      st = record_swarm_event now (cr_session r) name (Some swarm_id)
                        (SwNotification ''plan_rejected'' proposer) st
                  in finish_mutation ms RsDone st)))"

section \<open>Roles\<close>

text \<open>
  A member may make itself the coordinator if there is none, or the present one cannot be reached,
  has no agent or is headless.
\<close>

definition may_take_over :: "string \<Rightarrow> server \<Rightarrow> bool" where
  "may_take_over swarm_id st \<longleftrightarrow>
     (case fmlookup (sv_coordinators st) swarm_id of
        None \<Rightarrow> True
      | Some c \<Rightarrow>
          (case fmlookup (sv_members st) c of
             Some m \<Rightarrow> sm_event_tx m |\<in>| sv_closed st \<or> sm_is_headless m
           | None \<Rightarrow> True) \<or> c |\<notin>| fmdom (sv_agents st))"

definition may_assign_role :: "string \<Rightarrow> string \<Rightarrow> string \<Rightarrow> server \<Rightarrow> bool" where
  "may_assign_role req target role st \<longleftrightarrow>
     (case swarm_of req st of
        None \<Rightarrow> False
      | Some swarm_id \<Rightarrow>
          fmlookup (sv_coordinators st) swarm_id = Some req \<or>
          (role = ''coordinator'' \<and> target = req \<and> may_take_over swarm_id st))"

definition give_role :: "string \<Rightarrow> string \<Rightarrow> string \<Rightarrow> string \<Rightarrow> server \<Rightarrow> server" where
  "give_role swarm_id req target role st =
     (let st = upd_member (\<lambda>m. m\<lparr>sm_role := role\<rparr>) target st
      in if role = ''coordinator'' then
           upd_member (\<lambda>m. if sm_session_id m \<noteq> target then m\<lparr>sm_role := ''agent''\<rparr> else m) req
             (st\<lparr>sv_coordinators := fmupd swarm_id target (sv_coordinators st)\<rparr>)
         else st)"

definition handle_comm_assign_role ::
  "server_env \<Rightarrow> nat \<Rightarrow> comm_request \<Rightarrow> string \<Rightarrow> string \<Rightarrow> server \<Rightarrow> server" where
  "handle_comm_assign_role env now r target role st =
     (if \<not> may_assign_role (cr_session r) target role st then
        refuse r (''Only the coordinator can assign roles. (Tip: if the coordinator has disconnected, use assign_role ''
          @ ''with target_session set to your own session ID to self-promote.)'') None st
      else case swarm_of (cr_session r) st of
        None \<Rightarrow> refuse r ''Not in a swarm.'' None st
      | Some swarm_id \<Rightarrow>
          (case begin_mutation env now ''assign_role'' [swarm_id, target, role] r st of
             (None, st) \<Rightarrow> st
           | (Some ms, st) \<Rightarrow>
               if target |\<notin>| fmdom (sv_members st) then
                 finish_mutation ms (RsError (''Unknown session '' @ quoted target) None) st
               else
                 let st = give_role swarm_id (cr_session r) target role st;
                     st = persist_swarm_state_for env now swarm_id st;
                     st = broadcast_swarm_status env now swarm_id st;
                     st = record_swarm_event now (cr_session r) None (Some swarm_id)
                       (SwNotification ''role_assignment'' (target @ '' -> '' @ role)) st
                 in finish_mutation ms RsDone st))"

section \<open>Choosing a session for a task\<close>

definition filter_swarm_agent_candidates :: "server_env \<Rightarrow> string \<Rightarrow> string \<Rightarrow> server \<Rightarrow> swarm_member list" where
  "filter_swarm_agent_candidates env req swarm_id st =
     filter (\<lambda>m. sm_session_id m \<noteq> req \<and> sm_swarm_id m = Some swarm_id \<and> sm_role m = ''agent'' \<and>
       sm_status m \<in> {''ready'', ''completed''}) (member_values env st)"

definition ready_rank :: "swarm_member \<Rightarrow> nat" where
  "ready_rank m = (if sm_status m = ''ready'' then 0 else 1)"

definition no_candidate :: string where
  "no_candidate = ''No ready or completed swarm agents are available for automatic task assignment.''"

definition first_candidate :: "swarm_member list \<Rightarrow> string + string" where
  "first_candidate ms = (case ms of [] \<Rightarrow> Inl no_candidate | m # _ \<Rightarrow> Inr (sm_session_id m))"

text \<open>Least loaded first, then the ready ones, then by session id.\<close>

definition by_load :: "(string, nat) fmap \<Rightarrow> swarm_member list \<Rightarrow> swarm_member list" where
  "by_load loads ms =
     sort_key (get_or 0 loads \<circ> sm_session_id) (sort_key ready_rank (sort_key sm_session_id ms))"

definition resolve_assignment_target_session ::
  "server_env \<Rightarrow> string \<Rightarrow> string \<Rightarrow> string option \<Rightarrow> server \<Rightarrow> string + string" where
  "resolve_assignment_target_session env req swarm_id requested st =
     (case requested of
        Some target \<Rightarrow>
          if target = req then Inl ''Coordinator cannot assign a swarm task to itself.''
          else (case fmlookup (sv_members st) target of
                  None \<Rightarrow> Inl (''Unknown session '' @ quoted target)
                | Some m \<Rightarrow>
                    if sm_swarm_id m \<noteq> Some swarm_id then
                      Inl (''Session '' @ quoted target @ '' is not in swarm '' @ quoted swarm_id
                        @ '' and cannot receive this task.'')
                    else Inr target)
      | None \<Rightarrow>
          (let loads = (case fmlookup (sv_plans st) swarm_id of Some p \<Rightarrow> assignment_loads p | None \<Rightarrow> fmempty)
           in first_candidate (by_load loads (filter_swarm_agent_candidates env req swarm_id st))))"

text \<open>For a task: who did its dependencies, then who did related work, most first; then as above.\<close>

definition by_affinity :: "assignment_affinities \<Rightarrow> swarm_member list \<Rightarrow> swarm_member list" where
  "by_affinity af ms =
     sort_key (\<lambda>m. - int (get_or 0 (af_dependency_carryover af) (sm_session_id m)))
       (sort_key (\<lambda>m. - int (get_or 0 (af_metadata_carryover af) (sm_session_id m)))
         (by_load (af_loads af) ms))"

definition no_runnable :: string where
  "no_runnable = ''No runnable unassigned tasks are available in the swarm plan''"

definition resolve_assignment_target_for_task ::
  "server_env \<Rightarrow> string \<Rightarrow> string \<Rightarrow> string \<Rightarrow> string option \<Rightarrow> server \<Rightarrow> string + string" where
  "resolve_assignment_target_for_task env req swarm_id task_id requested st =
     (if requested \<noteq> None then resolve_assignment_target_session env req swarm_id requested st
      else case fmlookup (sv_plans st) swarm_id of
        None \<Rightarrow> Inl no_runnable
      | Some plan \<Rightarrow>
          (case assignment_affinities_for_task plan task_id of
             Inl e \<Rightarrow> Inl e
           | Inr af \<Rightarrow> first_candidate (by_affinity af (filter_swarm_agent_candidates env req swarm_id st))))"

section \<open>Assigning a task\<close>

definition assigned_progress :: "nat \<Rightarrow> string \<Rightarrow> string \<Rightarrow> swarm_task_progress" where
  "assigned_progress now session_id summary =
     swarm_task_progress_default\<lparr>tp_assigned_session_id := Some session_id,
       tp_assignment_summary := Some (truncate_detail summary 120), tp_assigned_at_unix_ms := Some now\<rparr>"

definition assign_item :: "string \<Rightarrow> string \<Rightarrow> plan_item list \<Rightarrow> plan_item list" where
  "assign_item task_id session_id items =
     upd_first (\<lambda>item. pi_id item = task_id)
       (\<lambda>item. item\<lparr>pi_assigned_to := Some session_id, pi_status := ''queued''\<rparr>) items"

definition assign_in_plan ::
  "nat \<Rightarrow> string \<Rightarrow> string \<Rightarrow> string \<Rightarrow> string \<Rightarrow> versioned_plan \<Rightarrow> versioned_plan" where
  "assign_in_plan now req session_id task_id summary plan =
     plan\<lparr>vp_items := assign_item task_id session_id (vp_items plan),
       vp_task_progress := fmupd task_id (assigned_progress now session_id summary) (vp_task_progress plan),
       vp_version := vp_version plan + 1,
       vp_participants := finsert session_id (finsert req (vp_participants plan))\<rparr>"

definition requeue_existing_assignment ::
  "nat \<Rightarrow> string \<Rightarrow> string \<Rightarrow> string \<Rightarrow> string \<Rightarrow> string \<Rightarrow> server \<Rightarrow> bool \<times> server" where
  "requeue_existing_assignment now swarm_id req assignee task_id summary st =
     (case fmlookup (sv_plans st) swarm_id of
        None \<Rightarrow> (False, st)
      | Some plan \<Rightarrow>
          if find_item (vp_items plan) task_id = None then (False, st)
          else (True, st\<lparr>sv_plans := fmupd swarm_id (assign_in_plan now req assignee task_id summary plan) (sv_plans st)\<rparr>))"

definition trimmed_request :: "string option \<Rightarrow> string option" where
  "trimmed_request v = (case v of None \<Rightarrow> None | Some s \<Rightarrow> if trim s = [] then None else Some (trim s))"

text \<open>The item to assign, or why there is none.\<close>

definition select_task :: "versioned_plan \<Rightarrow> string option \<Rightarrow> string + plan_item" where
  "select_task plan requested =
     (let selected = (case requested of Some t \<Rightarrow> Some t | None \<Rightarrow> next_unassigned_runnable_item_id plan);
          blocked = Option.bind requested (explicit_task_blocked_reason plan)
      in case (if blocked \<noteq> None then None else Option.bind selected (find_item (vp_items plan))) of
           Some item \<Rightarrow> Inr item
         | None \<Rightarrow>
             Inl (case blocked of
                Some reason \<Rightarrow> reason
              | None \<Rightarrow>
                  (case requested of
                     None \<Rightarrow> no_runnable
                   | Some t \<Rightarrow> ''Task '' @ quoted t @ '' not found in swarm plan'')))"

definition em_dash :: string where "em_dash = '' '' @ [CHR 0xE2, CHR 0x80, CHR 0x94] @ '' ''"

definition assignment_notice :: "string \<Rightarrow> string option \<Rightarrow> string" where
  "assignment_notice content message =
     ''Task assigned to you by coordinator: '' @ content
     @ (case message of Some extra \<Rightarrow> em_dash @ extra | None \<Rightarrow> [])"

definition spawn_assigned_task_run :: "string \<Rightarrow> string \<Rightarrow> string \<Rightarrow> string \<Rightarrow> server \<Rightarrow> server" where
  "spawn_assigned_task_run session_id swarm_id task_id text st =
     st\<lparr>sv_runs := sv_runs st @
       [\<lparr>tr_session = session_id, tr_swarm = swarm_id, tr_task = task_id, tr_text = append_report_instructions text\<rparr>]\<rparr>"

text \<open>What follows once the plan has been changed: who is told, and the run if no client is attached.\<close>

definition announce_assignment ::
  "server_env \<Rightarrow> nat \<Rightarrow> string \<Rightarrow> string \<Rightarrow> string \<Rightarrow> plan_item \<Rightarrow> string option \<Rightarrow> versioned_plan \<Rightarrow> server \<Rightarrow> server" where
  "announce_assignment env now req swarm_id target item message plan st =
     (let st = persist_swarm_state_for env now swarm_id st;
          st = broadcast_swarm_plan env swarm_id (Some ''task_assigned'') st;
          st = record_swarm_event now req None (Some swarm_id) (SwPlanUpdate swarm_id (length (vp_items plan))) st;
          name = name_of req st; notice = assignment_notice (pi_content item) message;
          has_agent = (target |\<in>| fmdom (sv_agents st));
          st = interrupt env target (append_report_instructions notice) st;
          st = send_member target (plan_note ''dm'' req name notice) st;
          st = (if target |\<notin>| cn_session_id |`| fmran (sv_connections st) \<and> has_agent then
                  spawn_assigned_task_run target swarm_id (pi_id item)
                    (combine_assignment_text (pi_content item) message) st
                else st);
          msg = ''Plan updated: task '' @ quoted (pi_id item) @ '' assigned to '' @ target @ ''.''
      in foldl (\<lambda>st sid. send_member sid (plan_note ''plan'' req name msg) st) st
           (filter (\<lambda>sid. sid \<noteq> target \<and> sid \<noteq> req) (en_order env (vp_participants plan))))"

definition or_else :: "string \<Rightarrow> string option \<Rightarrow> string" where
  "or_else d v = (case v of Some s \<Rightarrow> s | None \<Rightarrow> d)"

definition assign_selected ::
  "server_env \<Rightarrow> nat \<Rightarrow> string \<Rightarrow> string \<Rightarrow> string \<Rightarrow> string option \<Rightarrow> string option \<Rightarrow> server \<Rightarrow>
   mutation_response \<times> server" where
  "assign_selected env now req swarm_id target task message st =
     (let plan = get_or versioned_plan_new (sv_plans st) swarm_id
      in case select_task plan task of
           Inl e \<Rightarrow> (RsError e None, st\<lparr>sv_plans := fmupd swarm_id plan (sv_plans st)\<rparr>)
         | Inr item \<Rightarrow>
             (let plan = assign_in_plan now req target (pi_id item)
                    (combine_assignment_text (pi_content item) message) plan;
                  st = st\<lparr>sv_plans := fmupd swarm_id plan (sv_plans st)\<rparr>
              in (RsAssignTask (pi_id item) target,
                  announce_assignment env now req swarm_id target item message plan st)))"

definition handle_comm_assign_task ::
  "server_env \<Rightarrow> nat \<Rightarrow> comm_request \<Rightarrow> string option \<Rightarrow> string option \<Rightarrow> string option \<Rightarrow> server \<Rightarrow> server" where
  "handle_comm_assign_task env now r target task message st =
     (let target = trimmed_request target; task = trimmed_request task; req = cr_session r
      in case require_coordinator_swarm r ''Only the coordinator can assign tasks.'' st of
           (None, st) \<Rightarrow> st
         | (Some swarm_id, st) \<Rightarrow>
             (case begin_mutation env now ''assign_task''
                 [swarm_id, or_else ''__next_available__'' target, or_else ''__next_runnable__'' task, or_else [] message]
                 r st of
                (None, st) \<Rightarrow> st
              | (Some ms, st) \<Rightarrow>
                  (case resolve_assignment_target_session env req swarm_id target st of
                     Inl e \<Rightarrow> finish_mutation ms (RsError e None) st
                   | Inr target_session \<Rightarrow>
                       (let (response, st) = assign_selected env now req swarm_id target_session task message st
                        in finish_mutation ms response st))))"

text \<open>The next runnable task, for a given session, a new one, or the one that fits best.\<close>

definition handle_comm_assign_next ::
  "server_env \<Rightarrow> spawn_env \<Rightarrow> nat \<Rightarrow> comm_request \<Rightarrow> string option \<Rightarrow> string option \<Rightarrow> bool option \<Rightarrow>
   bool option \<Rightarrow> string option \<Rightarrow> server \<Rightarrow> server" where
  "handle_comm_assign_next env sp now r target working_dir prefer_spawn spawn_if_needed message st =
     (if target \<noteq> None then handle_comm_assign_task env now r target None message st
      else case require_coordinator_swarm r ''Only the coordinator can assign tasks.'' st of
        (None, st) \<Rightarrow> st
      | (Some swarm_id, st) \<Rightarrow>
          (case Option.bind (fmlookup (sv_plans st) swarm_id) next_unassigned_runnable_item_id of
             None \<Rightarrow> refuse r no_runnable None st
           | Some task \<Rightarrow>
               (let preferred = resolve_assignment_target_for_task env (cr_session r) swarm_id task None st
                in if prefer_spawn = Some True \<or> (spawn_if_needed = Some True \<and> isl preferred) then
                     (case spawn_swarm_agent env sp now (cr_session r) swarm_id working_dir None st of
                        (Inr session_id, st) \<Rightarrow> handle_comm_assign_task env now r (Some session_id) (Some task) message st
                      | (Inl e, st) \<Rightarrow> refuse r (''Failed to spawn preferred worker: '' @ e) None st)
                   else case preferred of
                     Inr session_id \<Rightarrow> handle_comm_assign_task env now r (Some session_id) (Some task) message st
                   | Inl e \<Rightarrow> refuse r e None st)))"

section \<open>The run of a task\<close>

definition started_progress :: "nat \<Rightarrow> string \<Rightarrow> string \<Rightarrow> swarm_task_progress \<Rightarrow> swarm_task_progress" where
  "started_progress now session_id text p =
     p\<lparr>tp_assigned_session_id := Some session_id, tp_assignment_summary := Some (truncate_detail text 120),
       tp_started_at_unix_ms := Some now, tp_last_heartbeat_unix_ms := Some now,
       tp_last_detail := Some (truncate_detail text 120), tp_last_checkpoint_unix_ms := Some now,
       tp_checkpoint_summary := Some ''task started'', tp_completed_at_unix_ms := None,
       tp_stale_since_unix_ms := None,
       tp_heartbeat_count := Some ((case tp_heartbeat_count p of Some n \<Rightarrow> n | None \<Rightarrow> 0) + 1),
       tp_checkpoint_count := Some ((case tp_checkpoint_count p of Some n \<Rightarrow> n | None \<Rightarrow> 0) + 1)\<rparr>"

definition ended_progress :: "nat \<Rightarrow> string \<Rightarrow> swarm_task_progress \<Rightarrow> swarm_task_progress" where
  "ended_progress now summary p =
     p\<lparr>tp_last_heartbeat_unix_ms := Some now, tp_last_checkpoint_unix_ms := Some now,
       tp_checkpoint_summary := Some summary, tp_completed_at_unix_ms := Some now,
       tp_stale_since_unix_ms := None,
       tp_checkpoint_count := Some ((case tp_checkpoint_count p of Some n \<Rightarrow> n | None \<Rightarrow> 0) + 1)\<rparr>"

text \<open>A step of the run changes the status and the progress of the task, if it is still in the plan.\<close>

definition run_change ::
  "string \<Rightarrow> (swarm_task_progress \<Rightarrow> swarm_task_progress) \<Rightarrow> string \<Rightarrow> versioned_plan \<Rightarrow> versioned_plan" where
  "run_change status f task_id plan =
     (if find_item (vp_items plan) task_id = None then plan
      else plan\<lparr>vp_items := set_item_status task_id status (vp_items plan),
        vp_task_progress := entry_upd swarm_task_progress_default f task_id (vp_task_progress plan),
        vp_version := vp_version plan + 1\<rparr>)"

definition run_started :: "server_env \<Rightarrow> nat \<Rightarrow> task_run \<Rightarrow> server \<Rightarrow> server" where
  "run_started env now run st =
     (let st = upd_plan (run_change ''running'' (started_progress now (tr_session run) (tr_text run)) (tr_task run))
            (tr_swarm run) st;
          st = persist_swarm_state_for env now (tr_swarm run) st;
          st = broadcast_swarm_plan env (tr_swarm run) (Some ''task_running'') st
      in update_member_status env now True (tr_session run) ''running'' (Some (truncate_detail (tr_text run) 120)) st)"

definition run_heartbeat :: "server_env \<Rightarrow> nat \<Rightarrow> task_run \<Rightarrow> server \<Rightarrow> server" where
  "run_heartbeat env now run st =
     (let (revived, st) = touch_swarm_task_progress env now (tr_swarm run) (tr_task run) (Some (tr_session run)) None None st
      in if revived then broadcast_swarm_plan env (tr_swarm run) (Some ''task_heartbeat'') st else st)"

fun event_detail :: "server_event \<Rightarrow> string option \<times> string option" where
  "event_detail (EvStatusDetail detail) = (Some detail, None)"
| "event_detail (EvToolStart i name) = (Some (''tool start: '' @ name), Some (''tool start: '' @ name))"
| "event_detail (EvToolDone i name output error) =
     (let summary = (if error \<noteq> None then ''tool error: '' else ''tool done: '') @ name
      in (Some summary, Some summary))"
| "event_detail _ = (None, None)"

definition run_event :: "server_env \<Rightarrow> nat \<Rightarrow> task_run \<Rightarrow> server_event \<Rightarrow> server \<Rightarrow> server" where
  "run_event env now run event st =
     (let (detail, checkpoint) = event_detail event;
          st = (if detail \<noteq> None \<or> checkpoint \<noteq> None then
                  (let (revived, st) = touch_swarm_task_progress env now (tr_swarm run) (tr_task run)
                         (Some (tr_session run)) detail checkpoint st;
                       st = (case detail of
                              Some d \<Rightarrow> update_member_status env now True (tr_session run) ''running''
                                (Some (truncate_detail d 120)) st
                            | None \<Rightarrow> st)
                   in if revived then broadcast_swarm_plan env (tr_swarm run) (Some ''task_heartbeat'') st else st)
                else st)
      in snd (fanout_session_event env (tr_session run) event st))"

definition run_completed :: "server_env \<Rightarrow> nat \<Rightarrow> task_run \<Rightarrow> string option \<Rightarrow> server \<Rightarrow> server" where
  "run_completed env now run report st =
     (let previous = (case fmlookup (sv_plans st) (tr_swarm run) of Some plan \<Rightarrow> vp_items plan | None \<Rightarrow> []);
          st = upd_plan (run_change ''done'' (ended_progress now ''task completed'') (tr_task run)) (tr_swarm run) st;
          st = persist_swarm_state_for env now (tr_swarm run) st;
          st = broadcast_swarm_plan_with_previous env (tr_swarm run) (Some ''task_completed'') (Some previous) st
      in update_member_status_with_report env now True (tr_session run) ''completed'' None report st)"

definition run_failed :: "server_env \<Rightarrow> nat \<Rightarrow> task_run \<Rightarrow> string \<Rightarrow> server \<Rightarrow> server" where
  "run_failed env now run error st =
     (let st = upd_plan (run_change ''failed'' (ended_progress now (truncate_detail (''task failed: '' @ error) 120))
            (tr_task run)) (tr_swarm run) st;
          st = persist_swarm_state_for env now (tr_swarm run) st;
          st = broadcast_swarm_plan env (tr_swarm run) (Some ''task_failed'') st
      in update_member_status env now True (tr_session run) ''failed'' (Some (truncate_detail error 120)) st)"

section \<open>Controlling assigned tasks\<close>

record task_snapshot =
  ts_content :: string
  ts_status :: string
  ts_assigned_to :: "string option"
  ts_progress :: "swarm_task_progress option"

definition task_snapshot_for :: "string \<Rightarrow> string \<Rightarrow> server \<Rightarrow> task_snapshot option" where
  "task_snapshot_for swarm_id task_id st =
     (case fmlookup (sv_plans st) swarm_id of
        None \<Rightarrow> None
      | Some plan \<Rightarrow>
          map_option (\<lambda>item. \<lparr>ts_content = pi_content item, ts_status = pi_status item,
              ts_assigned_to = pi_assigned_to item, ts_progress = fmlookup (vp_task_progress plan) task_id\<rparr>)
            (find_item (vp_items plan) task_id))"

definition plan_graph_status_for :: "string \<Rightarrow> server \<Rightarrow> plan_graph_status" where
  "plan_graph_status_for swarm_id st =
     (case fmlookup (sv_plans st) swarm_id of
        Some plan \<Rightarrow> from_versioned_plan swarm_id plan (Some 8) []
      | None \<Rightarrow> empty_for_swarm swarm_id)"

definition task_id_for_target_session ::
  "string \<Rightarrow> string \<Rightarrow> task_control_action \<Rightarrow> server \<Rightarrow> string + string" where
  "task_id_for_target_session swarm_id target action st =
     (case fmlookup (sv_plans st) swarm_id of
        None \<Rightarrow> Inl ''No swarm plan exists for this swarm.''
      | Some plan \<Rightarrow> task_control_target_item_id (vp_items plan) target action)"

definition salvage_line :: "string \<times> string \<Rightarrow> string" where
  "salvage_line call =
     ''- '' @ fst call @ '': '' @ truncate_detail (if trim (snd call) = [] then ''no result summary'' else snd call) 180 @ nl"

definition format_salvage_message ::
  "string \<Rightarrow> string option \<Rightarrow> (string \<times> string) list \<Rightarrow> string option \<Rightarrow> string" where
  "format_salvage_message source_session source_name summaries extra =
     ''Salvage prior progress from '' @ or_else source_session source_name
     @ ''. Review this before continuing the task.'' @ nl @ nl
     @ (if summaries = [] then ''No recorded tool call summary was available from the previous assignee.''
        else ''Recent prior activity:'' @ nl @ concat (map salvage_line (take 12 summaries)))
     @ (case extra of Some e \<Rightarrow> nl @ nl @ coordinator_note e | None \<Rightarrow> [])"

definition salvage_message :: "string \<Rightarrow> task_snapshot \<Rightarrow> string option \<Rightarrow> server \<Rightarrow> string" where
  "salvage_message assignee snapshot message st =
     (let calls = (case fmlookup (sv_agents st) assignee of
            Some a \<Rightarrow> if \<not> ah_busy a then ah_tool_calls a 12 else [] | None \<Rightarrow> [])
      in format_salvage_message assignee (name_of assignee st) calls message
         @ (case ts_progress snapshot of
              None \<Rightarrow> []
            | Some p \<Rightarrow>
                (case tp_checkpoint_summary p of
                   Some s \<Rightarrow> nl @ nl @ ''Latest checkpoint summary:'' @ nl @ s | None \<Rightarrow> [])
                @ (case tp_last_detail p of
                   Some s \<Rightarrow> nl @ nl @ ''Latest recorded detail:'' @ nl @ s | None \<Rightarrow> [])))"

definition control_answer :: "comm_request \<Rightarrow> task_control_action \<Rightarrow> string \<Rightarrow> string \<Rightarrow> string \<Rightarrow> string \<Rightarrow> server \<Rightarrow> server" where
  "control_answer r action swarm_id task_id assignee status st =
     answer r (EvTaskControl (cr_id r) (task_control_as_str action) task_id (Some assignee) status
       (plan_graph_status_for swarm_id st)) st"

text \<open>Start, wake, resume: the task runs in the session it is assigned to, if that is idle.\<close>

definition control_run ::
  "server_env \<Rightarrow> nat \<Rightarrow> comm_request \<Rightarrow> task_control_action \<Rightarrow> string \<Rightarrow> string \<Rightarrow> string \<Rightarrow> task_snapshot \<Rightarrow>
   string option \<Rightarrow> string option \<Rightarrow> server \<Rightarrow> server" where
  "control_run env now r action swarm_id task_id assignee snapshot target message st =
     (if target \<noteq> None \<and> target \<noteq> Some assignee then
        refuse r (''Task '' @ quoted task_id @ '' is assigned to '' @ quoted assignee @ '', not ''
          @ quoted (or_else [] target) @ ''. Use reassign or replace to change ownership.'') None st
      else
        let text = build_control_assignment_text action (ts_content snapshot) message;
            (requeued, st) = (if ts_status snapshot \<noteq> ''queued''
               then requeue_existing_assignment now swarm_id (cr_session r) assignee task_id text st else (False, st));
            st = (if requeued then
                    broadcast_swarm_plan env swarm_id (Some (''task_'' @ task_control_as_str action))
                      (persist_swarm_state_for env now swarm_id st)
                  else st)
        in case fmlookup (sv_agents st) assignee of
             None \<Rightarrow>
               refuse r (''Assigned session '' @ quoted assignee
                 @ '' is not available. Use replace or salvage to move the task to another agent.'') None st
           | Some agent \<Rightarrow>
               if assignee |\<notin>| fmdom (sv_members st) then
                 refuse r (''Assigned session '' @ quoted assignee
                   @ '' is no longer in the swarm. Use replace or salvage to move the task.'') None st
               else if \<not> ah_busy agent then
                 control_answer r action swarm_id task_id assignee ''running''
                   (spawn_assigned_task_run assignee swarm_id task_id text st)
               else if action = Wake then
                 (let msg = ''Coordinator requested you wake and continue task '' @ quoted task_id @ ''.'' @ nl @ nl
                    @ append_report_instructions text
                  in control_answer r action swarm_id task_id assignee ''queued'' (interrupt env assignee msg st))
               else
                 refuse r (''Assigned session '' @ quoted assignee
                   @ '' is currently busy. Use wake to queue the task, or retry once the agent is idle.'') (Some 1) st)"

definition retry_note :: "string option \<Rightarrow> string" where
  "retry_note message =
     ''Retry this assignment.'' @ (case message of Some extra \<Rightarrow> nl @ nl @ coordinator_note extra | None \<Rightarrow> [])"

definition replace_note :: "string \<Rightarrow> string option \<Rightarrow> string" where
  "replace_note assignee message =
     ''This task is replacing prior assignee '' @ quoted assignee @ ''.''
     @ (case message of Some extra \<Rightarrow> nl @ nl @ coordinator_note extra | None \<Rightarrow> [])"

text \<open>Reassign, replace, salvage: the task goes to another session.\<close>

definition control_move ::
  "server_env \<Rightarrow> nat \<Rightarrow> comm_request \<Rightarrow> task_control_action \<Rightarrow> string \<Rightarrow> string \<Rightarrow> task_snapshot \<Rightarrow>
   string option \<Rightarrow> string option \<Rightarrow> server \<Rightarrow> server" where
  "control_move env now r action task_id assignee snapshot target message st =
     (case target of
        None \<Rightarrow> refuse r (quoted ''target_session'' @ '' is required for '' @ task_control_as_str action @ ''.'') None st
      | Some new_target \<Rightarrow>
          if new_target = assignee then
            refuse r (''Task '' @ quoted task_id @ '' is already assigned to '' @ quoted assignee @ ''.'') None st
          else if ts_status snapshot = ''running'' then
            refuse r (''Task '' @ quoted task_id @ '' is actively running on '' @ quoted assignee
              @ ''. Wait, wake, or stop that agent before handing the task off.'') (Some 1) st
          else if action = Replace \<and>
              ts_status snapshot \<notin> {''queued'', ''failed'', ''stopped'', ''crashed'', ''running_stale''} then
            refuse r (''Task '' @ quoted task_id @ '' is '' @ quoted (ts_status snapshot)
              @ '' and cannot be safely replaced.'') None st
          else
            handle_comm_assign_task env now r (Some new_target) (Some task_id)
              (if action = Salvage then Some (salvage_message assignee snapshot message st)
               else if action = Replace then Some (replace_note assignee message) else message) st)"

definition control_task_id ::
  "comm_request \<Rightarrow> task_control_action \<Rightarrow> string \<Rightarrow> string \<Rightarrow> string option \<Rightarrow> server \<Rightarrow> string + string" where
  "control_task_id r action swarm_id task_id target st =
     (if trim task_id \<noteq> [] then Inr task_id
      else case target of
        None \<Rightarrow> Inl (''task_id is required for '' @ task_control_as_str action
          @ '' unless target_session uniquely identifies an assigned task.'')
      | Some t \<Rightarrow> task_id_for_target_session swarm_id t action st)"

definition handle_comm_task_control ::
  "server_env \<Rightarrow> nat \<Rightarrow> comm_request \<Rightarrow> string \<Rightarrow> string \<Rightarrow> string option \<Rightarrow> string option \<Rightarrow> server \<Rightarrow> server" where
  "handle_comm_task_control env now r action task_id target message st =
     (case task_control_parse action of
        None \<Rightarrow> refuse r (''Unknown task control action. Use start, wake, resume, retry, reassign, replace, or ''
          @ ''salvage.'') None st
      | Some action \<Rightarrow>
          (case require_coordinator_swarm r ''Only the coordinator can control assigned tasks.'' st of
             (None, st) \<Rightarrow> st
           | (Some swarm_id, st) \<Rightarrow>
               (case control_task_id r action swarm_id task_id target st of
                  Inl e \<Rightarrow> refuse r e None st
                | Inr task_id \<Rightarrow>
                    (case task_snapshot_for swarm_id task_id st of
                       None \<Rightarrow> refuse r (''Task '' @ quoted task_id @ '' not found in swarm plan'') None st
                     | Some snapshot \<Rightarrow>
                         if \<not> task_control_action_allows_status action (ts_status snapshot) then
                           refuse r (task_control_status_error action (ts_status snapshot) task_id) None st
                         else
                           case ts_assigned_to snapshot of
                             None \<Rightarrow>
                               refuse r (''Task '' @ quoted task_id
                                 @ '' is not currently assigned. Use assign_task to create the first assignment.'') None st
                           | Some assignee \<Rightarrow>
                               if action \<in> {Start, Wake, Resume} then
                                 control_run env now r action swarm_id task_id assignee snapshot target message st
                               else if action = Retry then
                                 handle_comm_assign_task env now r (Some assignee) (Some task_id)
                                   (Some (retry_note message)) st
                               else control_move env now r action task_id assignee snapshot target message st))))"

end
