(* ===== verification/SwarmSessions.thy ===== *)
theory SwarmSessions
  imports SwarmControl
begin

text \<open>
  Requests to spawn and to stop agents (src/server/comm_session.rs). A session of a swarm may take over as
  its coordinator to do so if there is none or the present one has gone; closing the stopped agent's memory
  is not part of it.
\<close>

section \<open>Who may\<close>

definition stale_for_coordination :: "string \<Rightarrow> bool" where
  "stale_for_coordination status \<longleftrightarrow> status \<in> {''crashed'', ''failed'', ''stopped'', ''closed'', ''disconnected''}"

definition coordinator_is_stale :: "string \<Rightarrow> server \<Rightarrow> bool" where
  "coordinator_is_stale swarm_id st \<longleftrightarrow>
     (case fmlookup (sv_coordinators st) swarm_id of
        None \<Rightarrow> False
      | Some c \<Rightarrow>
          (case fmlookup (sv_members st) c of
             None \<Rightarrow> True
           | Some m \<Rightarrow> sm_swarm_id m \<noteq> Some swarm_id \<or> stale_for_coordination (sm_status m)))"

definition take_coordination :: "string \<Rightarrow> string \<Rightarrow> server \<Rightarrow> server" where
  "take_coordination swarm_id req st =
     upd_member (\<lambda>m. m\<lparr>sm_role := ''coordinator''\<rparr>) req
       (st\<lparr>sv_coordinators := fmupd swarm_id req (sv_coordinators st)\<rparr>)"

definition ensure_spawn_coordinator_swarm ::
  "server_env \<Rightarrow> nat \<Rightarrow> comm_request \<Rightarrow> string \<Rightarrow> server \<Rightarrow> string option \<times> server" where
  "ensure_spawn_coordinator_swarm env now r permission_error st =
     (let req = cr_session r
      in case swarm_of req st of
           None \<Rightarrow> (None, refuse r ''Not in a swarm.'' None st)
         | Some swarm_id \<Rightarrow>
             if fmlookup (sv_coordinators st) swarm_id = Some req then (Some swarm_id, st)
             else if fmlookup (sv_coordinators st) swarm_id \<noteq> None \<and> \<not> coordinator_is_stale swarm_id st then
               (None, refuse r permission_error None st)
             else
               let name = name_of req st;
                   st = take_coordination swarm_id req st;
                   st = persist_swarm_state_for env now swarm_id st;
                   st = broadcast_swarm_status env now swarm_id st
               in (Some swarm_id, send_to (cr_channel r)
                     (plan_note ''swarm'' req name ''You are the coordinator for this swarm.'') st))"

definition require_live_coordinator_swarm :: "comm_request \<Rightarrow> string \<Rightarrow> server \<Rightarrow> string option \<times> server" where
  "require_live_coordinator_swarm r permission_error st =
     (let req = cr_session r
      in case swarm_of req st of
           None \<Rightarrow> (None, refuse r permission_error None st)
         | Some swarm_id \<Rightarrow>
             if fmlookup (sv_coordinators st) swarm_id = Some req then (Some swarm_id, st)
             else if coordinator_is_stale swarm_id st then (Some swarm_id, take_coordination swarm_id req st)
             else (None, refuse r permission_error None st))"

section \<open>Spawning\<close>

definition handle_comm_spawn ::
  "server_env \<Rightarrow> spawn_env \<Rightarrow> nat \<Rightarrow> comm_request \<Rightarrow> string option \<Rightarrow> string option \<Rightarrow> string option \<Rightarrow>
   server \<Rightarrow> server" where
  "handle_comm_spawn env sp now r working_dir initial nonce st =
     (case ensure_spawn_coordinator_swarm env now r (''Only the coordinator can spawn new agents. Assign the current ''
         @ ''session as coordinator first, e.g. swarm assign_role target_session=current role=coordinator.'') st of
        (None, st) \<Rightarrow> st
      | (Some swarm_id, st) \<Rightarrow>
          (case begin_mutation env now ''spawn''
              [swarm_id, or_else [] working_dir, or_else [] initial, or_else [] nonce] r st of
             (None, st) \<Rightarrow> st
           | (Some ms, st) \<Rightarrow>
               (case spawn_swarm_agent env sp now (cr_session r) swarm_id working_dir initial st of
                  (Inr new_session, st) \<Rightarrow> finish_mutation ms (RsSpawn new_session) st
                | (Inl e, st) \<Rightarrow> finish_mutation ms (RsError (''Failed to spawn agent: '' @ e) None) st)))"

section \<open>Stopping\<close>

definition swarm_stop_allowed_by_owner :: "string \<Rightarrow> swarm_member \<Rightarrow> bool \<Rightarrow> bool" where
  "swarm_stop_allowed_by_owner req m force \<longleftrightarrow> force \<or> sm_report_back_to_session_id m = Some req"

definition starts_with :: "string \<Rightarrow> string \<Rightarrow> bool" where
  "starts_with s p \<longleftrightarrow> take (length p) s = p"

definition ends_with :: "string \<Rightarrow> string \<Rightarrow> bool" where
  "ends_with s p \<longleftrightarrow> length p \<le> length s \<and> drop (length s - length p) s = p"

text \<open>The sessions of the swarm whose name is the target or whose id begins or ends with it, by id.\<close>

definition stop_matches :: "string \<Rightarrow> string \<Rightarrow> server \<Rightarrow> string list" where
  "stop_matches swarm_id target st =
     sorted_list_of_fset (ffilter (\<lambda>i. case fmlookup (sv_members st) i of
         None \<Rightarrow> False
       | Some m \<Rightarrow> sm_swarm_id m = Some swarm_id \<and>
           (sm_friendly_name m = Some target \<or> starts_with i target \<or> ends_with i target)) (fmdom (sv_members st)))"

definition match_label :: "server \<Rightarrow> string \<Rightarrow> string" where
  "match_label st i = or_else i (name_of i st) @ '' ['' @ i @ '']''"

definition resolve_stop_target_session :: "string \<Rightarrow> string \<Rightarrow> server \<Rightarrow> string + string" where
  "resolve_stop_target_session swarm_id target st =
     (let target = trim target
      in if target = [] then Inl ''target_session is required.''
         else if swarm_of target st = Some swarm_id then Inr target
         else case stop_matches swarm_id target st of
           [] \<Rightarrow> Inl (''Unknown swarm session '' @ quoted target
             @ ''. Use an exact session ID, unique friendly name, or unique session ID prefix/suffix.'')
         | [i] \<Rightarrow> Inr i
         | is \<Rightarrow> Inl (''Ambiguous swarm session '' @ quoted target @ '' matched: ''
             @ join '', '' (map (match_label st) is) @ ''. Use an exact session ID.''))"

text \<open>The agent goes, and with it the queue of its interrupts.\<close>

definition drop_agent :: "string \<Rightarrow> server \<Rightarrow> server" where
  "drop_agent i st =
     (if i |\<in>| fmdom (sv_agents st) then remove_session_interrupt_queue i (st\<lparr>sv_agents := fmdrop i (sv_agents st)\<rparr>)
      else st)"

definition stop_session :: "server_env \<Rightarrow> nat \<Rightarrow> string \<Rightarrow> server \<Rightarrow> mutation_response \<times> server" where
  "stop_session env now i st =
     (let known = (i |\<in>| fmdom (sv_agents st) \<or> swarm_of i st \<noteq> None);
          st = drop_member env now i (drop_agent i st);
          st = st\<lparr>sv_channels := remove_session i (sv_channels st)\<rparr>
      in (if known then RsDone else RsError (''Unknown session '' @ quoted i) None, st))"

definition handle_comm_stop :: "server_env \<Rightarrow> nat \<Rightarrow> comm_request \<Rightarrow> string \<Rightarrow> bool \<Rightarrow> server \<Rightarrow> server" where
  "handle_comm_stop env now r target force st =
     (case require_live_coordinator_swarm r ''Only the coordinator can stop agents.'' st of
        (None, st) \<Rightarrow> st
      | (Some swarm_id, st) \<Rightarrow>
          (case resolve_stop_target_session swarm_id target st of
             Inl e \<Rightarrow> refuse r e None st
           | Inr i \<Rightarrow>
               if \<not> (case fmlookup (sv_members st) i of
                       Some m \<Rightarrow> swarm_stop_allowed_by_owner (cr_session r) m force | None \<Rightarrow> False) then
                 refuse r (''Refusing to stop session '' @ quoted i @ '' because it was not spawned by this ''
                   @ ''coordinator. Pass force=true to stop a non-owned/user-created swarm session explicitly.'') None st
               else
                 let st = snd (fanout_session_event env i
                       (EvSessionCloseRequested (''Stopped by coordinator '' @ cr_session r)) st)
                 in case begin_mutation env now ''stop'' [swarm_id, i] r st of
                      (None, st) \<Rightarrow> st
                    | (Some ms, st) \<Rightarrow>
                        (let (response, st) = stop_session env now i st in finish_mutation ms response st)))"

end
