(* ===== verification/SwarmMessages.thy ===== *)
theory SwarmMessages
  imports SwarmControl
begin

text \<open>
  What the sessions of a swarm tell each other (src/server/client_comm_message.rs,
  src/server/client_comm_channels.rs, src/server/client_comm_context.rs) and ask about each other
  (src/server/comm_sync.rs): messages to a session, a channel or everybody, shared context, who is there,
  and the plan.
\<close>

section \<open>Messages\<close>

datatype comm_delivery_mode = DeliverNotify | DeliverInterrupt | DeliverWake

definition no_git :: string where
  "no_git = ''Not in a swarm. Use a git repository to enable swarm features.''"

text \<open>The sessions of the swarm with a name, by id.\<close>

definition dm_matches :: "string \<Rightarrow> string list \<Rightarrow> server \<Rightarrow> string list" where
  "dm_matches target ids st =
     remdups_adj (sort (filter (\<lambda>i. name_of i st = Some target) ids))"

definition resolve_dm_target_session :: "string \<Rightarrow> string list \<Rightarrow> server \<Rightarrow> string + string" where
  "resolve_dm_target_session target ids st =
     (if target \<in> set ids then Inr target
      else case dm_matches target ids st of
        [] \<Rightarrow> Inl (''Unknown target '' @ quoted target
          @ '' - use an exact session_id or a unique friendly name within the swarm.'')
      | [i] \<Rightarrow> Inr i
      | is \<Rightarrow> Inl (''Friendly name '' @ quoted target
          @ '' is ambiguous in swarm. Use an exact session id instead. Matches: ''
          @ join '', '' (map (\<lambda>i. target @ '' ['' @ i @ '']'') is)))"

text \<open>An idle session that somebody can see starts a turn with the message.\<close>

definition run_message_in_live_session_if_idle ::
  "string \<Rightarrow> string \<Rightarrow> string \<Rightarrow> server \<Rightarrow> bool \<times> server" where
  "run_message_in_live_session_if_idle session_id message reminder st =
     (case (fmlookup (sv_agents st) session_id, fmlookup (sv_members st) session_id) of
        (Some agent, Some m) \<Rightarrow>
          if (sm_event_txs m \<noteq> fmempty \<or> sm_event_tx m |\<notin>| sv_closed st) \<and> \<not> ah_busy agent then
            (True, st\<lparr>sv_turns := sv_turns st @ [WakeTurn session_id message reminder]\<rparr>)
          else (False, st)
      | _ \<Rightarrow> (False, st))"

definition resolve_comm_delivery_mode ::
  "string \<Rightarrow> comm_delivery_mode option \<Rightarrow> bool option \<Rightarrow> comm_delivery_mode" where
  "resolve_comm_delivery_mode scope delivery wake =
     (case delivery of
        Some d \<Rightarrow> d
      | None \<Rightarrow> if wake = Some True \<or> scope = ''dm'' then DeliverWake else DeliverNotify)"

definition scope_label :: "string \<Rightarrow> string option \<Rightarrow> string" where
  "scope_label scope channel =
     (if scope = ''channel'' \<and> channel \<noteq> None then ''#'' @ or_else [] channel
      else if scope = ''dm'' then ''DM'' else ''broadcast'')"

definition reminder_text :: "string \<Rightarrow> string option \<Rightarrow> string \<Rightarrow> string" where
  "reminder_text scope channel sender =
     (if scope = ''dm'' then ''You just received a direct swarm message from '' @ sender
      else if scope = ''channel'' then
        ''You just received a swarm channel message in #'' @ or_else ''channel'' channel @ '' from '' @ sender
      else ''You just received a swarm broadcast from '' @ sender)
     @ ''. Review it and respond or act if useful.''"

text \<open>To one session of the swarm; a sender without a name panics if its eighth byte is inside a character.\<close>

definition deliver_message ::
  "server_env \<Rightarrow> string \<Rightarrow> string option \<Rightarrow> string \<Rightarrow> string option \<Rightarrow> comm_delivery_mode \<Rightarrow> string \<Rightarrow> server \<Rightarrow>
   string \<Rightarrow> server" where
  "deliver_message env sender name scope channel mode message st session_id =
     (if session_id |\<notin>| fmdom (sv_members st) then st
      else case short_name name sender of
        None \<Rightarrow> st\<lparr>sv_panicked := True\<rparr>
      | Some label \<Rightarrow>
          (let note = scope_label scope channel @ '' from '' @ label @ '': '' @ message;
               st = snd (fanout_session_event env session_id
                 (EvNotification sender name (MessageNote (Some scope) channel) note) st)
           in case mode of
                DeliverNotify \<Rightarrow> st
              | DeliverInterrupt \<Rightarrow> interrupt env session_id note st
              | DeliverWake \<Rightarrow>
                  (let (woke, st) = run_message_in_live_session_if_idle session_id note
                         (reminder_text scope channel (or_else sender name)) st
                   in if woke then st else interrupt env session_id note st)))"

text \<open>A channel nobody has subscribed to reaches everybody.\<close>

definition message_targets ::
  "string \<Rightarrow> string \<Rightarrow> string list \<Rightarrow> string option \<Rightarrow> string option \<Rightarrow> server \<Rightarrow> string list" where
  "message_targets sender swarm_id ids to_session channel st =
     (let others = filter (\<lambda>i. i \<noteq> sender) ids
      in case to_session of
           Some i \<Rightarrow> [i]
         | None \<Rightarrow>
             (case channel of
                None \<Rightarrow> others
              | Some c \<Rightarrow>
                  (let subscribed = SwarmChannels.members swarm_id c (sv_channels st)
                   in if subscribed = [] then others else filter (\<lambda>i. i \<noteq> sender) subscribed)))"

definition send_comm_message ::
  "server_env \<Rightarrow> nat \<Rightarrow> comm_request \<Rightarrow> string \<Rightarrow> string list \<Rightarrow> string \<Rightarrow> string option \<Rightarrow> string option \<Rightarrow>
   comm_delivery_mode option \<Rightarrow> bool option \<Rightarrow> server \<Rightarrow> server" where
  "send_comm_message env now r swarm_id ids message to_session channel delivery wake st =
     (let sender = cr_session r; name = name_of sender st;
          scope = (if to_session \<noteq> None then ''dm'' else if channel \<noteq> None then ''channel'' else ''broadcast'');
          mode = resolve_comm_delivery_mode scope delivery wake;
          st = foldl (deliver_message env sender name scope channel mode message) st
            (filter (\<lambda>i. i \<in> set ids) (message_targets sender swarm_id ids to_session channel st));
          value = (if scope = ''channel'' then ''#'' @ or_else [] channel else scope);
          st = record_swarm_event now sender name (Some swarm_id) (SwNotification value (truncate_detail message 220)) st
      in answer r (EvDone (cr_id r)) st)"

definition handle_comm_message ::
  "server_env \<Rightarrow> nat \<Rightarrow> comm_request \<Rightarrow> string \<Rightarrow> string option \<Rightarrow> string option \<Rightarrow>
   comm_delivery_mode option \<Rightarrow> bool option \<Rightarrow> server \<Rightarrow> server" where
  "handle_comm_message env now r message to_session channel delivery wake st =
     (case swarm_of (cr_session r) st of
        None \<Rightarrow> refuse r no_git None st
      | Some swarm_id \<Rightarrow>
          (let ids = swarm_sessions env swarm_id st
           in case to_session of
                None \<Rightarrow> send_comm_message env now r swarm_id ids message None channel delivery wake st
              | Some target \<Rightarrow>
                  (case resolve_dm_target_session target ids st of
                     Inl e \<Rightarrow> refuse r e None st
                   | Inr i \<Rightarrow>
                       if i \<notin> set ids then
                         refuse r (''DM failed: session '' @ quoted i @ '' not in swarm'') None st
                       else send_comm_message env now r swarm_id ids message (Some i) channel delivery wake st)))"

section \<open>Channels\<close>

definition handle_comm_list_channels :: "comm_request \<Rightarrow> server \<Rightarrow> server" where
  "handle_comm_list_channels r st =
     (case swarm_of (cr_session r) st of
        None \<Rightarrow> refuse r no_git None st
      | Some swarm_id \<Rightarrow>
          (let channels = get_or fmempty (by_swarm_channel (sv_channels st)) swarm_id
           in answer r (EvCommChannels (cr_id r) (map (\<lambda>c. (c, fcard (get_or {||} channels c)))
                (sorted_list_of_fset (fmdom channels)))) st))"

definition agent_info_of :: "nat \<Rightarrow> string list \<Rightarrow> server \<Rightarrow> string \<Rightarrow> agent_info option" where
  "agent_info_of now files st i =
     map_option (\<lambda>m. \<lparr>ai_session_id = i, ai_friendly_name = sm_friendly_name m, ai_files_touched = files,
         ai_status = Some (sm_status m), ai_detail = sm_detail m, ai_role = Some (sm_role m),
         ai_is_headless = Some (sm_is_headless m), ai_report_back_to_session_id = sm_report_back_to_session_id m,
         ai_latest_completion_report = sm_latest_completion_report m,
         ai_live_attachments = Some (fcard (fmdom (sm_event_txs m))),
         ai_status_age_secs = Some ((now - sm_last_status_change m) div 1000)\<rparr>) (fmlookup (sv_members st) i)"

definition handle_comm_channel_members :: "nat \<Rightarrow> comm_request \<Rightarrow> string \<Rightarrow> server \<Rightarrow> server" where
  "handle_comm_channel_members now r channel st =
     (case swarm_of (cr_session r) st of
        None \<Rightarrow> refuse r no_git None st
      | Some swarm_id \<Rightarrow>
          answer r (EvCommMembers (cr_id r) (List.map_filter (agent_info_of now [] st)
            (SwarmChannels.members swarm_id channel (sv_channels st)))) st)"

definition handle_comm_subscribe_channel :: "nat \<Rightarrow> comm_request \<Rightarrow> string \<Rightarrow> server \<Rightarrow> server" where
  "handle_comm_subscribe_channel now r channel st =
     (case swarm_of (cr_session r) st of
        None \<Rightarrow> refuse r ''Not in a swarm.'' None st
      | Some swarm_id \<Rightarrow>
          (let st = st\<lparr>sv_channels := subscribe (cr_session r) swarm_id channel (sv_channels st)\<rparr>;
               st = record_swarm_event now (cr_session r) None (Some swarm_id)
                 (SwNotification ''channel_subscribe'' channel) st
           in answer r (EvDone (cr_id r)) st))"

definition handle_comm_unsubscribe_channel :: "nat \<Rightarrow> comm_request \<Rightarrow> string \<Rightarrow> server \<Rightarrow> server" where
  "handle_comm_unsubscribe_channel now r channel st =
     (case swarm_of (cr_session r) st of
        None \<Rightarrow> refuse r ''Not in a swarm.'' None st
      | Some swarm_id \<Rightarrow>
          (let st = st\<lparr>sv_channels := unsubscribe (cr_session r) swarm_id channel (sv_channels st)\<rparr>;
               st = record_swarm_event now (cr_session r) None (Some swarm_id)
                 (SwNotification ''channel_unsubscribe'' channel) st
           in answer r (EvDone (cr_id r)) st))"

section \<open>Shared context\<close>

definition shared_value :: "bool \<Rightarrow> string \<Rightarrow> shared_context option \<Rightarrow> string" where
  "shared_value append_value v existing =
     (case existing of
        Some c \<Rightarrow> if append_value \<and> sc_value c \<noteq> [] then sc_value c @ nl @ v else v
      | None \<Rightarrow> v)"

definition share_context ::
  "nat \<Rightarrow> string \<Rightarrow> string option \<Rightarrow> string \<Rightarrow> string \<Rightarrow> bool \<Rightarrow> (string, shared_context) fmap \<Rightarrow>
   (string, shared_context) fmap" where
  "share_context now req name key v append_value ctx =
     fmupd key
       \<lparr>sc_key = key, sc_value = shared_value append_value v (fmlookup ctx key), sc_from_session = req, sc_from_name = name,
        sc_created_at = (case fmlookup ctx key of Some c \<Rightarrow> sc_created_at c | None \<Rightarrow> now), sc_updated_at = now\<rparr> ctx"

definition handle_comm_share ::
  "server_env \<Rightarrow> nat \<Rightarrow> comm_request \<Rightarrow> string \<Rightarrow> string \<Rightarrow> bool \<Rightarrow> server \<Rightarrow> server" where
  "handle_comm_share env now r key v append_value st =
     (case swarm_of (cr_session r) st of
        None \<Rightarrow> refuse r no_git None st
      | Some swarm_id \<Rightarrow>
          (let req = cr_session r; name = name_of req st;
               st = st\<lparr>sv_context := entry_upd fmempty (share_context now req name key v append_value) swarm_id
                 (sv_context st)\<rparr>;
               note = EvNotification req name
                 (SharedContextNote key ((if append_value then ''(appended) '' else []) @ v))
                 (if append_value then ''Appended shared context: '' @ key @ '' += '' @ v
                  else ''Shared context: '' @ key @ '' = '' @ v);
               st = foldl (\<lambda>st sid. snd (fanout_session_event env sid note st)) st
                 (filter (\<lambda>sid. sid \<noteq> req) (swarm_sessions env swarm_id st));
               st = record_swarm_event now req name (Some swarm_id) (SwContextUpdate swarm_id key) st
           in answer r (EvDone (cr_id r)) st))"

definition context_entry_of :: "shared_context \<Rightarrow> context_entry" where
  "context_entry_of c =
     \<lparr>ce_key = sc_key c, ce_value = sc_value c, ce_from_session = sc_from_session c, ce_from_name = sc_from_name c\<rparr>"

definition handle_comm_read :: "server_env \<Rightarrow> comm_request \<Rightarrow> string option \<Rightarrow> server \<Rightarrow> server" where
  "handle_comm_read env r key st =
     (let ctx = (case Option.bind (swarm_of (cr_session r) st) (fmlookup (sv_context st)) of
            Some ctx \<Rightarrow> ctx | None \<Rightarrow> fmempty)
      in answer r (EvCommContext (cr_id r) (map context_entry_of (List.map_filter (fmlookup ctx)
           (case key of Some k \<Rightarrow> [k] | None \<Rightarrow> en_order env (fmdom ctx))))) st)"

section \<open>Who is there, and the plan\<close>

definition handle_comm_list :: "server_env \<Rightarrow> nat \<Rightarrow> comm_request \<Rightarrow> server \<Rightarrow> server" where
  "handle_comm_list env now r st =
     (case swarm_of (cr_session r) st of
        None \<Rightarrow> refuse r no_git None st
      | Some swarm_id \<Rightarrow>
          answer r (EvCommMembers (cr_id r) (List.map_filter
            (\<lambda>i. agent_info_of now (sorted_list_of_fset (get_or {||} (sv_touched_by st) i)) st i)
            (swarm_sessions env swarm_id st))) st)"

definition ensure_same_swarm_access :: "comm_request \<Rightarrow> string \<Rightarrow> server \<Rightarrow> bool \<times> server" where
  "ensure_same_swarm_access r target st =
     (let req_swarm = swarm_of (cr_session r) st
      in if req_swarm \<noteq> None \<and> req_swarm = swarm_of target st then (True, st)
         else (False, refuse r (''Session '' @ quoted target @ '' is not in the same swarm as requester ''
           @ quoted (cr_session r)) None st))"

definition handle_comm_summary :: "comm_request \<Rightarrow> string \<Rightarrow> nat option \<Rightarrow> server \<Rightarrow> server" where
  "handle_comm_summary r target limit st =
     (let (same, st) = ensure_same_swarm_access r target st
      in if \<not> same then st
         else case fmlookup (sv_agents st) target of
           None \<Rightarrow> answer r (EvCommSummary (cr_id r) target []) st
         | Some agent \<Rightarrow>
             if ah_busy agent then
               refuse r (''Session '' @ quoted target @ '' is busy; try summary again shortly'') (Some 1) st
             else answer r (EvCommSummary (cr_id r) target
               (ah_tool_calls agent (case limit of Some n \<Rightarrow> n | None \<Rightarrow> 10))) st)"

definition live_activity_snapshot :: "client_connection list \<Rightarrow> string \<Rightarrow> bool \<Rightarrow> session_activity option" where
  "live_activity_snapshot connections session_id fallback =
     (let busy = filter (\<lambda>c. cn_session_id c = session_id \<and> cn_is_processing c) connections
      in case List.map_filter cn_current_tool_name busy of
           tool # _ \<Rightarrow> Some \<lparr>ac_is_processing = True, ac_current_tool_name = Some tool\<rparr>
         | [] \<Rightarrow> if busy \<noteq> [] \<or> fallback then Some \<lparr>ac_is_processing = True, ac_current_tool_name = None\<rparr> else None)"

definition status_snapshot :: "server_env \<Rightarrow> nat \<Rightarrow> string \<Rightarrow> swarm_member \<Rightarrow> server \<Rightarrow> agent_status_snapshot" where
  "status_snapshot env now target m st =
     (let provider = (case fmlookup (sv_agents st) target of
            Some a \<Rightarrow> if ah_busy a then None else Some (ah_provider a) | None \<Rightarrow> None);
          connections = List.map_filter (fmlookup (sv_connections st)) (en_order env (fmdom (sv_connections st)))
      in \<lparr>as_session_id = sm_session_id m, as_friendly_name = sm_friendly_name m, as_swarm_id = sm_swarm_id m,
          as_status = Some (sm_status m), as_detail = sm_detail m, as_role = Some (sm_role m),
          as_is_headless = Some (sm_is_headless m), as_live_attachments = Some (fcard (fmdom (sm_event_txs m))),
          as_status_age_secs = Some ((now - sm_last_status_change m) div 1000),
          as_joined_age_secs = Some ((now - sm_joined_at m) div 1000),
          as_files_touched = sorted_list_of_fset (get_or {||} (sv_touched_by st) target),
          as_activity = live_activity_snapshot connections target (sm_status m = ''running''),
          as_provider_name = map_option fst provider, as_provider_model = map_option snd provider\<rparr>)"

definition unknown_session :: "string \<Rightarrow> string" where
  "unknown_session target = ''Unknown session '' @ quoted target"

definition handle_comm_status :: "server_env \<Rightarrow> nat \<Rightarrow> comm_request \<Rightarrow> string \<Rightarrow> server \<Rightarrow> server" where
  "handle_comm_status env now r target st =
     (let (same, st) = ensure_same_swarm_access r target st
      in if \<not> same then st
         else case fmlookup (sv_members st) target of
           None \<Rightarrow> refuse r (unknown_session target) None st
         | Some m \<Rightarrow> answer r (EvCommStatus (cr_id r) (status_snapshot env now target m st)) st)"

definition can_read_full_context :: "string \<Rightarrow> string \<Rightarrow> server \<Rightarrow> bool" where
  "can_read_full_context req target st \<longleftrightarrow>
     req = target \<or>
     (case fmlookup (sv_members st) req of
        Some m \<Rightarrow> sm_role m = ''coordinator'' \<or> sm_role m = ''worktree_manager'' | None \<Rightarrow> False)"

definition handle_comm_read_context :: "comm_request \<Rightarrow> string \<Rightarrow> server \<Rightarrow> server" where
  "handle_comm_read_context r target st =
     (let (same, st) = ensure_same_swarm_access r target st
      in if \<not> same then st
         else if \<not> can_read_full_context (cr_session r) target st then
           refuse r (''Only the coordinator, worktree manager, or the target session may read full context. ''
             @ ''Use summary for lightweight access.'') None st
         else case fmlookup (sv_agents st) target of
           None \<Rightarrow> refuse r (unknown_session target) None st
         | Some agent \<Rightarrow>
             if ah_busy agent then
               refuse r (''Session '' @ quoted target @ '' is busy; try read_context again shortly'') (Some 1) st
             else answer r (EvCommContextHistory (cr_id r) target (ah_history agent)) st)"

definition handle_comm_plan_status :: "comm_request \<Rightarrow> server \<Rightarrow> server" where
  "handle_comm_plan_status r st =
     (case swarm_of (cr_session r) st of
        None \<Rightarrow> refuse r ''Not in a swarm.'' None st
      | Some swarm_id \<Rightarrow> answer r (EvCommPlanStatus (cr_id r) (plan_graph_status_for swarm_id st)) st)"

definition attach_plan :: "server_env \<Rightarrow> nat \<Rightarrow> comm_request \<Rightarrow> string \<Rightarrow> versioned_plan \<Rightarrow> server \<Rightarrow> server" where
  "attach_plan env now r swarm_id plan st =
     (let req = cr_session r;
          plan = plan\<lparr>vp_participants := finsert req (vp_participants plan)\<rparr>;
          st = st\<lparr>sv_plans := fmupd swarm_id plan (sv_plans st)\<rparr>;
          st = persist_swarm_state_for env now swarm_id st;
          st = send_member req (plan_note ''plan'' req (name_of req st) (''Plan attached to this session (v''
            @ show_nat (vp_version plan) @ '', '' @ show_nat (length (vp_items plan)) @ '' items).'')) st;
          st = broadcast_swarm_plan env swarm_id (Some ''resync'') st;
          st = record_swarm_event now req None (Some swarm_id) (SwPlanUpdate swarm_id (length (vp_items plan))) st
      in answer r (EvDone (cr_id r)) st)"

definition handle_comm_resync_plan :: "server_env \<Rightarrow> nat \<Rightarrow> comm_request \<Rightarrow> server \<Rightarrow> server" where
  "handle_comm_resync_plan env now r st =
     (case swarm_of (cr_session r) st of
        None \<Rightarrow> refuse r ''Not in a swarm.'' None st
      | Some swarm_id \<Rightarrow>
          (case fmlookup (sv_plans st) swarm_id of
             None \<Rightarrow> refuse r ''No swarm plan exists for this swarm.'' None st
           | Some plan \<Rightarrow> attach_plan env now r swarm_id plan st))"

end
