(* ===== verification/SwarmServerProperties.thy ===== *)
theory SwarmServerProperties
  imports SwarmServer
begin

text \<open>
  What the operations on swarms promise: sending changes nothing but channels, staleness follows the
  heartbeats, the history is a window of the events, leaving elects the next coordinator, and what is on disk
  is the swarm with its running work marked.
\<close>

section \<open>Sending changes no swarm\<close>

definition member_core :: "swarm_member \<Rightarrow> swarm_member" where
  "member_core m = m\<lparr>sm_event_tx := 0, sm_event_txs := fmempty\<rparr>"

text \<open>A state without its channels, queues and timers.\<close>

definition swarm_core :: "server \<Rightarrow> server" where
  "swarm_core st =
     st\<lparr>sv_members := fmmap member_core (sv_members st), sv_out := [], sv_pending_status := fmempty,
       sv_queues := fmempty, sv_queue_heap := fmempty, sv_stored_interrupts := fmempty, sv_panicked := False\<rparr>"

text \<open>Nothing has changed but channels, queues and timers, and no request has been answered.\<close>

definition quiet :: "server \<Rightarrow> server \<Rightarrow> bool" where
  "quiet st st' \<longleftrightarrow> swarm_core st' = swarm_core st \<and> (sv_panicked st \<longrightarrow> sv_panicked st') \<and>
     (\<forall>i. answers i (sv_out st') = answers i (sv_out st))"

lemma quiet_refl [simp, intro]: "quiet st st"
  by (simp add: quiet_def)

lemma quiet_trans [trans]: "quiet a b \<Longrightarrow> quiet b c \<Longrightarrow> quiet a c"
  by (simp add: quiet_def)

lemma swarm_core_fields:
  "sv_members (swarm_core st) = fmmap member_core (sv_members st)" "sv_swarms (swarm_core st) = sv_swarms st"
  "sv_plans (swarm_core st) = sv_plans st" "sv_coordinators (swarm_core st) = sv_coordinators st"
  "sv_context (swarm_core st) = sv_context st" "sv_history (swarm_core st) = sv_history st"
  "sv_counter (swarm_core st) = sv_counter st" "sv_broadcast (swarm_core st) = sv_broadcast st"
  "sv_agents (swarm_core st) = sv_agents st" "sv_connections (swarm_core st) = sv_connections st"
  "sv_channels (swarm_core st) = sv_channels st" "sv_touches (swarm_core st) = sv_touches st"
  "sv_touched_by (swarm_core st) = sv_touched_by st" "sv_disk (swarm_core st) = sv_disk st"
  "sv_mutations (swarm_core st) = sv_mutations st" "sv_runs (swarm_core st) = sv_runs st"
  "sv_closed (swarm_core st) = sv_closed st" "sv_awaits (swarm_core st) = sv_awaits st"
  "sv_waits (swarm_core st) = sv_waits st"
  by (simp_all add: swarm_core_def)

lemma quiet_fields:
  assumes "quiet st st'"
  shows "fmmap member_core (sv_members st') = fmmap member_core (sv_members st)" "sv_swarms st' = sv_swarms st"
    "sv_plans st' = sv_plans st" "sv_coordinators st' = sv_coordinators st" "sv_context st' = sv_context st"
    "sv_history st' = sv_history st" "sv_counter st' = sv_counter st" "sv_broadcast st' = sv_broadcast st"
    "sv_agents st' = sv_agents st" "sv_connections st' = sv_connections st" "sv_channels st' = sv_channels st"
    "sv_touches st' = sv_touches st" "sv_touched_by st' = sv_touched_by st" "sv_disk st' = sv_disk st"
    "sv_mutations st' = sv_mutations st" "sv_runs st' = sv_runs st" "sv_closed st' = sv_closed st"
    "sv_awaits st' = sv_awaits st" "sv_waits st' = sv_waits st" "sv_panicked st \<Longrightarrow> sv_panicked st'"
    "answers i (sv_out st') = answers i (sv_out st)"
  using assms unfolding quiet_def by (metis swarm_core_fields)+

text \<open>The same members with the same data but for their channels.\<close>

lemma core_lookup:
  assumes "fmmap member_core m' = fmmap member_core m"
  shows "map_option member_core (fmlookup m' i) = map_option member_core (fmlookup m i)"
  using assms by (metis fmlookup_map)

lemma member_core_fields [simp]:
  "sm_session_id (member_core m) = sm_session_id m" "sm_swarm_id (member_core m) = sm_swarm_id m"
  "sm_role (member_core m) = sm_role m" "sm_status (member_core m) = sm_status m"
  "sm_detail (member_core m) = sm_detail m" "sm_friendly_name (member_core m) = sm_friendly_name m"
  "sm_is_headless (member_core m) = sm_is_headless m"
  "sm_report_back_to_session_id (member_core m) = sm_report_back_to_session_id m"
  "sm_latest_completion_report (member_core m) = sm_latest_completion_report m"
  by (simp_all add: member_core_def)

lemma core_dom: "fmmap member_core m' = fmmap member_core m \<Longrightarrow> fmdom m' = fmdom m"
  by (metis fmdom_map)

lemma core_field:
  assumes "fmmap member_core m' = fmmap member_core m" and "\<And>x. f (member_core x) = f x"
  shows "map_option f (fmlookup m' i) = map_option f (fmlookup m i)"
proof -
  have "map_option f x = map_option f (map_option member_core x)" for x
    by (cases x) (simp_all add: assms(2))
  then show ?thesis using core_lookup [OF assms(1), of i] by metis
qed

lemma quiet_foldl: "(\<And>st x. x \<in> set xs \<Longrightarrow> quiet st (f st x)) \<Longrightarrow> quiet st (foldl f st xs)"
proof (induction xs arbitrary: st)
  case (Cons x xs)
  have "quiet st (f st x)" using Cons.prems by simp
  moreover have "quiet (f st x) (foldl f (f st x) xs)" using Cons.prems by (intro Cons.IH) simp
  ultimately show ?case by (simp add: quiet_trans)
qed simp

lemma quiet_send_to: "answered_id e = None \<Longrightarrow> quiet st (send_to c e st)"
  by (simp add: quiet_def swarm_core_def send_to_def)

lemma quiet_send_member: "answered_id e = None \<Longrightarrow> quiet st (send_member s e st)"
  by (simp add: send_member_def quiet_send_to split: option.split)

lemma quiet_channels:
  assumes "fmlookup (sv_members st) s = Some m" "member_core m' = member_core m"
  shows "quiet st (st\<lparr>sv_members := fmupd s m' (sv_members st)\<rparr>)"
proof -
  have "fmmap member_core (fmupd s m' (sv_members st)) = fmmap member_core (sv_members st)"
    using assms by (intro fmap_ext) auto
  then show ?thesis by (simp add: quiet_def swarm_core_def)
qed

lemma quiet_fanout: "answered_id e = None \<Longrightarrow> quiet st (snd (fanout_session_event env s e st))"
proof (cases "fmlookup (sv_members st) s")
  case (Some m)
  let ?m = "m\<lparr>sm_event_txs := open_txs (sv_closed st) (sm_event_txs m),
    sm_event_tx := primary_or env (open_txs (sv_closed st) (sm_event_txs m)) (sm_event_tx m)\<rparr>"
  assume "answered_id e = None"
  then have "quiet (st\<lparr>sv_members := fmupd s ?m (sv_members st)\<rparr>) (snd (fanout_session_event env s e st))"
    by (simp add: fanout_session_event_def Some Let_def quiet_foldl quiet_send_to)
  moreover have "quiet st (st\<lparr>sv_members := fmupd s ?m (sv_members st)\<rparr>)"
    by (rule quiet_channels [OF Some]) (simp add: member_core_def)
  ultimately show ?thesis by (rule quiet_trans [rotated])
qed (simp add: fanout_session_event_def)

lemma quiet_interrupt: "quiet st (interrupt env s content st)"
  by (auto simp: interrupt_def queue_soft_interrupt_for_session_def enqueue_soft_interrupt_def
      register_session_interrupt_queue_def store_interrupt_def quiet_def swarm_core_def
      split: option.split)

lemma quiet_status_now: "quiet st (broadcast_swarm_status_now env now ids st)"
  by (auto simp: broadcast_swarm_status_now_def Let_def intro!: quiet_foldl quiet_fanout)

lemma quiet_status: "quiet st (broadcast_swarm_status env now swarm st)"
  by (simp add: broadcast_swarm_status_def Let_def quiet_status_now)
    (simp add: quiet_def swarm_core_def)

lemma quiet_pending: "quiet st (st\<lparr>sv_pending_status := x\<rparr>)"
  by (simp add: quiet_def swarm_core_def)

lemma quiet_timer: "quiet st (status_timer env now swarm st)"
  using quiet_trans [OF quiet_status_now quiet_pending]
  by (auto simp: status_timer_def Let_def quiet_status_now split: option.split)

lemma quiet_plan_previous: "quiet st (broadcast_swarm_plan_with_previous env swarm reason previous st)"
  by (auto simp: broadcast_swarm_plan_with_previous_def Let_def split: option.split
      intro!: quiet_foldl quiet_send_member)

lemma quiet_plan: "quiet st (broadcast_swarm_plan env swarm reason st)"
  by (simp add: broadcast_swarm_plan_def quiet_plan_previous)

lemma quiet_panic: "quiet st (st\<lparr>sv_panicked := True\<rparr>)"
  by (simp add: quiet_def swarm_core_def)

lemma quiet_notify: "quiet st (notify_completion env s name status report recipient st)"
  by (auto simp: notify_completion_def quiet_panic quiet_fanout split: option.split)

lemmas quiets = quiet_send_member quiet_fanout quiet_interrupt quiet_status quiet_status_now quiet_timer
  quiet_plan_previous quiet_plan quiet_notify

section \<open>Leaving\<close>

lemma quiet_role:
  assumes "quiet st st'"
  shows "map_option sm_role (fmlookup (sv_members st') i) = map_option sm_role (fmlookup (sv_members st) i)"
  using quiet_fields(1) [OF assms] by (rule core_field) simp

lemma persist_fields:
  "sv_members (persist_swarm_state_for env now s st) = sv_members st"
  "sv_swarms (persist_swarm_state_for env now s st) = sv_swarms st"
  "sv_plans (persist_swarm_state_for env now s st) = sv_plans st"
  "sv_coordinators (persist_swarm_state_for env now s st) = sv_coordinators st"
  "sv_context (persist_swarm_state_for env now s st) = sv_context st"
  "sv_history (persist_swarm_state_for env now s st) = sv_history st"
  "sv_counter (persist_swarm_state_for env now s st) = sv_counter st"
  "sv_broadcast (persist_swarm_state_for env now s st) = sv_broadcast st"
  "sv_agents (persist_swarm_state_for env now s st) = sv_agents st"
  "sv_connections (persist_swarm_state_for env now s st) = sv_connections st"
  "sv_mutations (persist_swarm_state_for env now s st) = sv_mutations st"
  "sv_runs (persist_swarm_state_for env now s st) = sv_runs st"
  "sv_closed (persist_swarm_state_for env now s st) = sv_closed st"
  "sv_out (persist_swarm_state_for env now s st) = sv_out st"
  "sv_awaits (persist_swarm_state_for env now s st) = sv_awaits st"
  "sv_waits (persist_swarm_state_for env now s st) = sv_waits st"
  "sv_panicked (persist_swarm_state_for env now s st) = sv_panicked st"
  by (simp_all add: persist_swarm_state_for_def persist_swarm_state_def Let_def)

lemma remove_persisted_fields:
  "sv_members (remove_persisted_swarm_state_for env s st) = sv_members st"
  "sv_swarms (remove_persisted_swarm_state_for env s st) = sv_swarms st"
  "sv_plans (remove_persisted_swarm_state_for env s st) = sv_plans st"
  "sv_coordinators (remove_persisted_swarm_state_for env s st) = sv_coordinators st"
  by (simp_all add: remove_persisted_swarm_state_for_def)

text \<open>The sessions left in a swarm that have a terminal.\<close>

definition remaining :: "string \<Rightarrow> string \<Rightarrow> server \<Rightarrow> string fset" where
  "remaining session_id swarm_id st =
     ffilter (\<lambda>i. case fmlookup (sv_members st) i of Some m \<Rightarrow> \<not> sm_is_headless m | None \<Rightarrow> False)
       (get_or {||} (sv_swarms st) swarm_id |-| {|session_id|})"

definition successor :: "string \<Rightarrow> string \<Rightarrow> server \<Rightarrow> string option" where
  "successor session_id swarm_id st =
     (if fmlookup (sv_coordinators st) swarm_id = Some session_id \<and> remaining session_id swarm_id st \<noteq> {||}
      then Some (fMin (remaining session_id swarm_id st)) else None)"

lemma leave_swarm_set_lookup:
  "fmlookup (sv_swarms (leave_swarm_set sid sw st)) s =
     (if s = sw then (case fmlookup (sv_swarms st) sw of None \<Rightarrow> None
        | Some x \<Rightarrow> if x |-| {|sid|} = {||} then None else Some (x |-| {|sid|}))
      else fmlookup (sv_swarms st) s)"
  by (simp add: leave_swarm_set_def Let_def split: option.split)

lemma leave_fields:
  "sv_members (leave_swarm_set sid sw st) = sv_members st" "sv_plans (leave_swarm_set sid sw st) = sv_plans st"
  "sv_coordinators (leave_swarm_set sid sw st) = sv_coordinators st"
  by (simp_all add: leave_swarm_set_def Let_def split: option.split)

lemma elect_after_leave:
  "elect_coordinator sw (leave_swarm_set sid sw (remove_plan_participant sw sid st)) =
     (if remaining sid sw st = {||} then None else Some (fMin (remaining sid sw st)))"
proof -
  have m: "sv_members (remove_plan_participant sw sid st) = sv_members st"
    "sv_swarms (remove_plan_participant sw sid st) = sv_swarms st"
    by (simp_all add: remove_plan_participant_def upd_plan_def)
  have e: "ffilter P {||} = {||}" for P :: "string \<Rightarrow> bool" by auto
  show ?thesis
    by (cases "fmlookup (sv_swarms st) sw")
      (auto simp: elect_coordinator_def leave_swarm_set_lookup leave_fields m remaining_def get_or_def Let_def e)
qed

lemma hand_over_fields:
  "sv_coordinators (hand_over sw st) =
     (case elect_coordinator sw st of None \<Rightarrow> fmdrop sw (sv_coordinators st)
      | Some n \<Rightarrow> fmupd sw n (fmdrop sw (sv_coordinators st)))"
  "sv_swarms (hand_over sw st) = sv_swarms st"
  "sv_plans (hand_over sw st) =
     (case elect_coordinator sw st of None \<Rightarrow> sv_plans st
      | Some n \<Rightarrow> update_existing (\<lambda>vp. vp\<lparr>vp_participants := finsert n (vp_participants vp)\<rparr>) sw (sv_plans st))"
  "map_option sm_role (fmlookup (sv_members (hand_over sw st)) i) =
     (if elect_coordinator sw st = Some i then map_option (\<lambda>_. ''coordinator'') (fmlookup (sv_members st) i)
      else map_option sm_role (fmlookup (sv_members st) i))"
  by (auto simp: hand_over_def Let_def send_member_def send_to_def upd_member_def upd_plan_def lookup_update_existing
      option.map_comp comp_def split: option.split)

lemma role_presence:
  assumes "map_option sm_role x = (if c then map_option (\<lambda>_. r) y else map_option sm_role y)"
  shows "map_option (\<lambda>_. a) x = map_option (\<lambda>_. a) y"
  using assms by (cases x; cases y) (auto split: if_splits)

text \<open>
  Property C24. A session that leaves is in the swarm and among the participants of its plan no longer and has
  the role of an agent; nothing else changes but for the coordinator: if the session was the coordinator,
  the least remaining session with a terminal takes over, with its role and as a participant, or nobody if
  there is none.
\<close>

theorem leave_correct:
  "let st' = remove_session_from_swarm env now sid sw st; new = successor sid sw st
   in fmlookup (sv_swarms st') s =
        (if s = sw then (case fmlookup (sv_swarms st) sw of None \<Rightarrow> None
           | Some x \<Rightarrow> if x |-| {|sid|} = {||} then None else Some (x |-| {|sid|}))
         else fmlookup (sv_swarms st) s) \<and>
      fmlookup (sv_coordinators st') s =
        (if s = sw \<and> fmlookup (sv_coordinators st) sw = Some sid then new else fmlookup (sv_coordinators st) s) \<and>
      fmlookup (sv_plans st') s =
        map_option (\<lambda>vp. if s = sw then vp\<lparr>vp_participants := vp_participants vp |-| {|sid|} |\<union>|
            (case new of Some n \<Rightarrow> {|n|} | None \<Rightarrow> {||})\<rparr> else vp) (fmlookup (sv_plans st) s) \<and>
      map_option sm_role (fmlookup (sv_members st') i) =
        (if i = sid then map_option (\<lambda>_. ''agent'') (fmlookup (sv_members st) i)
         else if new = Some i then map_option (\<lambda>_. ''coordinator'') (fmlookup (sv_members st) i)
         else map_option sm_role (fmlookup (sv_members st) i))"
proof -
  let ?left = "leave_swarm_set sid sw (remove_plan_participant sw sid st)"
  define was where "was \<longleftrightarrow> fmlookup (sv_coordinators st) sw = Some sid"
  let ?over = "if was then hand_over sw ?left else ?left"
  let ?st = "upd_member (\<lambda>m. m\<lparr>sm_role := ''agent''\<rparr>) sid ?over"
  have left: "sv_members ?left = sv_members st" "sv_coordinators ?left = sv_coordinators st"
    "sv_plans ?left = update_existing (\<lambda>vp. vp\<lparr>vp_participants := vp_participants vp |-| {|sid|}\<rparr>) sw (sv_plans st)"
    "fmlookup (sv_swarms ?left) = fmlookup (sv_swarms (leave_swarm_set sid sw st))"
    by (simp_all add: leave_fields remove_plan_participant_def upd_plan_def leave_swarm_set_lookup fun_eq_iff)
  have new: "successor sid sw st = (if was then elect_coordinator sw ?left else None)"
    by (simp add: successor_def was_def elect_after_leave)
  obtain st1 where st1: "remove_session_from_swarm env now sid sw st = broadcast_swarm_status env now sw st1"
    "sv_swarms st1 = sv_swarms ?st" "sv_coordinators st1 = sv_coordinators ?st" "sv_plans st1 = sv_plans ?st"
    "sv_members st1 = sv_members ?st"
    using remove_persisted_fields persist_fields
    by (force simp: remove_session_from_swarm_def Let_def was_def leave_fields remove_plan_participant_def upd_plan_def)
  note q = quiet_status [of st1 env now sw]
  have "sv_swarms ?over = sv_swarms ?left" by (simp add: hand_over_fields)
  then have sw: "fmlookup (sv_swarms (broadcast_swarm_status env now sw st1)) s = fmlookup (sv_swarms (leave_swarm_set sid sw st)) s"
    by (simp add: quiet_fields(2) [OF q] st1 upd_member_def left(4))
  have co: "fmlookup (sv_coordinators (broadcast_swarm_status env now sw st1)) s =
      (if s = sw \<and> was then successor sid sw st else fmlookup (sv_coordinators st) s)"
    by (auto simp: quiet_fields(4) [OF q] st1 upd_member_def hand_over_fields left(2) new split: option.split)
  have pl: "fmlookup (sv_plans (broadcast_swarm_status env now sw st1)) s =
      map_option (\<lambda>vp. if s = sw then vp\<lparr>vp_participants := vp_participants vp |-| {|sid|} |\<union>|
          (case successor sid sw st of Some n \<Rightarrow> {|n|} | None \<Rightarrow> {||})\<rparr> else vp) (fmlookup (sv_plans st) s)"
  proof -
    have "fmlookup (sv_plans (broadcast_swarm_status env now sw st1)) s = fmlookup (sv_plans ?over) s"
      by (simp add: quiet_fields(3) [OF q] st1 upd_member_def)
    also have "\<dots> = map_option (\<lambda>vp. if s = sw then vp\<lparr>vp_participants := vp_participants vp |-| {|sid|} |\<union>|
          (case successor sid sw st of Some n \<Rightarrow> {|n|} | None \<Rightarrow> {||})\<rparr> else vp) (fmlookup (sv_plans st) s)"
    proof (cases "fmlookup (sv_plans st) s")
      case None
      then have "fmlookup (sv_plans ?left) s = None" by (simp add: left(3) lookup_update_existing)
      then show ?thesis by (auto simp: None hand_over_fields lookup_update_existing split: option.split)
    next
      case (Some vp)
      then have "fmlookup (sv_plans ?left) s =
          Some (if s = sw then vp\<lparr>vp_participants := vp_participants vp |-| {|sid|}\<rparr> else vp)"
        by (simp add: left(3) lookup_update_existing)
      then show ?thesis unfolding new using Some
        by (cases "s = sw") (auto simp: hand_over_fields lookup_update_existing split: option.split)
    qed
    finally show ?thesis .
  qed
  have "map_option sm_role (fmlookup (sv_members (broadcast_swarm_status env now sw st1)) i) =
      map_option sm_role (fmlookup (sv_members ?st) i)"
    by (simp add: quiet_role [OF q] st1(5))
  also have "\<dots> = (if i = sid then map_option (\<lambda>_. ''agent'') (fmlookup (sv_members ?over) i)
      else map_option sm_role (fmlookup (sv_members ?over) i))"
    by (simp add: upd_member_def lookup_update_existing option.map_comp comp_def)
  also have "map_option sm_role (fmlookup (sv_members ?over) i) =
      (if successor sid sw st = Some i then map_option (\<lambda>_. ''coordinator'') (fmlookup (sv_members st) i)
       else map_option sm_role (fmlookup (sv_members st) i))"
    unfolding new by (simp add: hand_over_fields left(1))
  also have "map_option (\<lambda>_. ''agent'') (fmlookup (sv_members ?over) i) = map_option (\<lambda>_. ''agent'') (fmlookup (sv_members st) i)"
    using role_presence [OF hand_over_fields(4) [where sw = sw and st = ?left and i = i], of "''agent''"] by (simp add: left(1))
  finally have ro: "map_option sm_role (fmlookup (sv_members (broadcast_swarm_status env now sw st1)) i) =
      (if i = sid then map_option (\<lambda>_. ''agent'') (fmlookup (sv_members st) i)
       else if successor sid sw st = Some i then map_option (\<lambda>_. ''coordinator'') (fmlookup (sv_members st) i)
       else map_option sm_role (fmlookup (sv_members st) i))" .
  show ?thesis unfolding Let_def st1(1) sw co pl ro by (simp add: leave_swarm_set_lookup was_def)
qed

section \<open>Staleness\<close>

text \<open>The status an active item should have, by the last sign of its task.\<close>

definition refreshed :: "nat \<Rightarrow> nat \<Rightarrow> (string, swarm_task_progress) fmap \<Rightarrow> plan_item \<Rightarrow> plan_item" where
  "refreshed now stale_after progress item =
     (if is_active_status (pi_status item) then
        item\<lparr>pi_status := if is_stale now stale_after (get_or swarm_task_progress_default progress (pi_id item))
          then ''running_stale'' else ''running''\<rparr>
      else item)"

definition same_signs :: "(string, swarm_task_progress) fmap \<Rightarrow> (string, swarm_task_progress) fmap \<Rightarrow> bool" where
  "same_signs a b \<longleftrightarrow>
     (\<forall>i. last_sign (get_or swarm_task_progress_default a i) = last_sign (get_or swarm_task_progress_default b i))"

lemma same_signs_upd:
  "last_sign p = last_sign (get_or swarm_task_progress_default a i) \<Longrightarrow> same_signs (fmupd i p a) b \<longleftrightarrow> same_signs a b"
  by (auto simp: same_signs_def get_or_def)

lemma last_sign_stale [simp]: "last_sign (p\<lparr>tp_stale_since_unix_ms := x\<rparr>) = last_sign p"
  by (simp add: last_sign_def split: option.split)

lemma status_changed: "pi_status item \<noteq> s \<Longrightarrow> item\<lparr>pi_status := s\<rparr> \<noteq> item"
  by (metis plan_item.select_convs(2) plan_item.surjective plan_item.update_convs(2))

lemma refreshed_cases:
  "pi_status item = ''running'' \<Longrightarrow> refreshed now sa pr item =
     (if is_stale now sa (get_or swarm_task_progress_default pr (pi_id item)) then item\<lparr>pi_status := ''running_stale''\<rparr> else item)"
  "pi_status item = ''running_stale'' \<Longrightarrow> refreshed now sa pr item =
     (if is_stale now sa (get_or swarm_task_progress_default pr (pi_id item)) then item else item\<lparr>pi_status := ''running''\<rparr>)"
  "\<not> is_active_status (pi_status item) \<Longrightarrow> refreshed now sa pr item = item"
  by (simp_all add: refreshed_def is_active_status_def)

lemma refresh_item_step:
  assumes "same_signs progress pr"
  obtains progress' where "same_signs progress' pr"
    and "refresh_item now sa (items, progress, version, changed) item =
      (items @ [refreshed now sa pr item], progress',
       version + (if refreshed now sa pr item = item then 0 else 1), changed \<or> refreshed now sa pr item \<noteq> item)"
proof -
  let ?p = "get_or swarm_task_progress_default progress (pi_id item)"
  have st: "is_stale now sa ?p = is_stale now sa (get_or swarm_task_progress_default pr (pi_id item))"
    using assms by (simp add: is_stale_def same_signs_def)
  have s: "same_signs (fmupd (pi_id item) ?p progress) pr"
    "\<And>x. same_signs (fmupd (pi_id item) (?p\<lparr>tp_stale_since_unix_ms := x\<rparr>) progress) pr"
    using assms by (simp_all add: same_signs_upd)
  consider (running) "pi_status item = ''running''" | (stale) "pi_status item = ''running_stale''"
    | (other) "\<not> is_active_status (pi_status item)"
    by (auto simp: is_active_status_def)
  then show ?thesis
  proof cases
    case running
    show ?thesis
    proof (cases "is_stale now sa ?p")
      case True
      have "refresh_item now sa (items, progress, version, changed) item =
          (items @ [item\<lparr>pi_status := ''running_stale''\<rparr>], fmupd (pi_id item) (?p\<lparr>tp_stale_since_unix_ms :=
             Some (case tp_stale_since_unix_ms ?p of Some t \<Rightarrow> t | None \<Rightarrow> now)\<rparr>) progress, version + 1, True)"
        using running True by (simp add: refresh_item_def is_active_status_def Let_def)
      note eq = this
      show ?thesis
        by (rule that [OF s(2)], unfold eq) (use running True st in \<open>simp add: refreshed_cases status_changed\<close>)
    next
      case False
      have "refresh_item now sa (items, progress, version, changed) item =
          (items @ [item], fmupd (pi_id item) ?p progress, version, changed)"
        using running False by (simp add: refresh_item_def is_active_status_def Let_def)
      note eq = this
      show ?thesis
        by (rule that [OF s(1)], unfold eq) (use running False st in \<open>simp add: refreshed_cases status_changed\<close>)
    qed
  next
    case stale
    show ?thesis
    proof (cases "is_stale now sa ?p")
      case False
      have "refresh_item now sa (items, progress, version, changed) item =
          (items @ [item\<lparr>pi_status := ''running''\<rparr>],
           fmupd (pi_id item) (?p\<lparr>tp_stale_since_unix_ms := None\<rparr>) progress, version + 1, True)"
        using stale False by (simp add: refresh_item_def is_active_status_def Let_def)
      note eq = this
      show ?thesis
        by (rule that [OF s(2)], unfold eq) (use stale False st in \<open>simp add: refreshed_cases status_changed\<close>)
    next
      case True
      have "refresh_item now sa (items, progress, version, changed) item =
          (items @ [item], fmupd (pi_id item) ?p progress, version, changed)"
        using stale True by (simp add: refresh_item_def is_active_status_def Let_def)
      note eq = this
      show ?thesis
        by (rule that [OF s(1)], unfold eq) (use stale True st in \<open>simp add: refreshed_cases status_changed\<close>)
    qed
  next
    case other
    then show ?thesis using that assms by (simp add: refresh_item_def refreshed_cases)
  qed
qed

lemma refresh_fold:
  "same_signs progress pr \<Longrightarrow> \<exists>progress'. same_signs progress' pr \<and>
     foldl (refresh_item now sa) (pre, progress, version, changed) items =
       (pre @ map (refreshed now sa pr) items, progress',
        version + length (filter (\<lambda>item. refreshed now sa pr item \<noteq> item) items),
        changed \<or> map (refreshed now sa pr) items \<noteq> items)"
proof (induction items arbitrary: pre progress version changed)
  case Nil
  then show ?case by auto
next
  case (Cons item items)
  obtain p1 where p1: "same_signs p1 pr" "refresh_item now sa (pre, progress, version, changed) item =
      (pre @ [refreshed now sa pr item], p1,
       version + (if refreshed now sa pr item = item then 0 else 1), changed \<or> refreshed now sa pr item \<noteq> item)"
    using refresh_item_step [OF Cons.prems] by blast
  obtain p2 where p2: "same_signs p2 pr" "foldl (refresh_item now sa) (pre @ [refreshed now sa pr item], p1,
       version + (if refreshed now sa pr item = item then 0 else 1), changed \<or> refreshed now sa pr item \<noteq> item) items =
      ((pre @ [refreshed now sa pr item]) @ map (refreshed now sa pr) items, p2,
        version + (if refreshed now sa pr item = item then 0 else 1) +
          length (filter (\<lambda>item. refreshed now sa pr item \<noteq> item) items),
        (changed \<or> refreshed now sa pr item \<noteq> item) \<or> map (refreshed now sa pr) items \<noteq> items)"
    using Cons.IH [OF p1(1)] by blast
  show ?case by (intro exI [of _ p2] conjI p2(1)) (simp add: p1(2) p2(2))
qed

lemma refresh_plan_effect:
  "let plan' = snd (refresh_plan now sa plan); new = map (refreshed now sa (vp_task_progress plan)) (vp_items plan)
   in vp_items plan' = new \<and> vp_participants plan' = vp_participants plan \<and>
      vp_version plan' = vp_version plan +
        length (filter (\<lambda>item. refreshed now sa (vp_task_progress plan) item \<noteq> item) (vp_items plan)) \<and>
      same_signs (vp_task_progress plan') (vp_task_progress plan) \<and>
      fst (refresh_plan now sa plan) = (new \<noteq> vp_items plan)"
proof -
  have "same_signs (vp_task_progress plan) (vp_task_progress plan)" by (simp add: same_signs_def)
  from refresh_fold [OF this, of now sa "[]" "vp_version plan" False "vp_items plan"]
  show ?thesis by (auto simp: refresh_plan_def Let_def)
qed

lemma refresh_server_plans:
  "sv_plans (refresh_swarm_task_staleness env now st) =
     fmmap (\<lambda>plan. snd (refresh_plan now (en_stale_after_ms env) plan)) (sv_plans st)"
proof -
  have f: "sv_plans (foldl (\<lambda>st s. broadcast_swarm_plan env s (Some ''task_staleness_changed'')
      (persist_swarm_state_for env now s st)) st0 xs) = sv_plans st0" for st0 xs
    by (induction xs arbitrary: st0) (simp_all add: quiet_fields(3) [OF quiet_plan] persist_fields)
  show ?thesis by (simp add: refresh_swarm_task_staleness_def Let_def f)
qed

lemma last_sign_heartbeat: "last_sign (heartbeat now a d c p) = Some now"
  by (simp add: heartbeat_def Let_def last_sign_def split: option.split)

lemma find_set_item_status:
  "find_item items t = Some item \<Longrightarrow> find_item (set_item_status t s items) t = Some (item\<lparr>pi_status := s\<rparr>)"
  using find_item_Some [of items t item]
  by (auto simp: find_item_def set_item_status_def intro: find_upd_first)

text \<open>
  Property C25. A sweep makes every running task without a sign of life for the set time stale and every stale
  task with a recent sign running again, raises the version of a plan by the number of items it
  changed, and changes nothing else of the items; a heartbeat of a task in the plan is the last sign of life from
  then on, and makes a stale task running at once.
\<close>

theorem staleness_correct:
  "(case fmlookup (sv_plans (refresh_swarm_task_staleness env now st)) s of
      None \<Rightarrow> fmlookup (sv_plans st) s = None
    | Some plan' \<Rightarrow>
        (\<exists>plan. fmlookup (sv_plans st) s = Some plan \<and>
           vp_items plan' = map (refreshed now (en_stale_after_ms env) (vp_task_progress plan)) (vp_items plan) \<and>
           vp_participants plan' = vp_participants plan \<and>
           vp_version plan' = vp_version plan + length (filter
             (\<lambda>i. refreshed now (en_stale_after_ms env) (vp_task_progress plan) i \<noteq> i) (vp_items plan)))) \<and>
   (let (revived, st') = touch_swarm_task_progress env now s task assigned detail checkpoint st
    in case Option.bind (fmlookup (sv_plans st) s) (\<lambda>plan. find_item (vp_items plan) task) of
         None \<Rightarrow> \<not> revived \<and> st' = st
       | Some item \<Rightarrow>
           revived = (pi_status item = ''running_stale'') \<and>
           (\<exists>plan plan' p. fmlookup (sv_plans st) s = Some plan \<and> fmlookup (sv_plans st') s = Some plan' \<and>
              fmlookup (vp_task_progress plan') task = Some p \<and> last_sign p = Some now \<and>
              find_item (vp_items plan') task =
                Some (if revived then item\<lparr>pi_status := ''running''\<rparr> else item) \<and>
              vp_version plan' = vp_version plan + (if revived then 1 else 0)))"
proof (rule conjI)
  show "case fmlookup (sv_plans (refresh_swarm_task_staleness env now st)) s of
      None \<Rightarrow> fmlookup (sv_plans st) s = None
    | Some plan' \<Rightarrow>
        (\<exists>plan. fmlookup (sv_plans st) s = Some plan \<and>
           vp_items plan' = map (refreshed now (en_stale_after_ms env) (vp_task_progress plan)) (vp_items plan) \<and>
           vp_participants plan' = vp_participants plan \<and>
           vp_version plan' = vp_version plan + length (filter
             (\<lambda>i. refreshed now (en_stale_after_ms env) (vp_task_progress plan) i \<noteq> i) (vp_items plan)))"
    using refresh_plan_effect [of now "en_stale_after_ms env"]
    by (auto simp: refresh_server_plans Let_def split: option.split)
next
  show "let (revived, st') = touch_swarm_task_progress env now s task assigned detail checkpoint st
    in case Option.bind (fmlookup (sv_plans st) s) (\<lambda>plan. find_item (vp_items plan) task) of
         None \<Rightarrow> \<not> revived \<and> st' = st
       | Some item \<Rightarrow>
           revived = (pi_status item = ''running_stale'') \<and>
           (\<exists>plan plan' p. fmlookup (sv_plans st) s = Some plan \<and> fmlookup (sv_plans st') s = Some plan' \<and>
              fmlookup (vp_task_progress plan') task = Some p \<and> last_sign p = Some now \<and>
              find_item (vp_items plan') task =
                Some (if revived then item\<lparr>pi_status := ''running''\<rparr> else item) \<and>
              vp_version plan' = vp_version plan + (if revived then 1 else 0))"
  proof (cases "fmlookup (sv_plans st) s")
    case (Some plan)
    show ?thesis
    proof (cases "find_item (vp_items plan) task")
      case found: (Some item)
      then show ?thesis
        using find_set_item_status [OF found]
        by (simp add: touch_swarm_task_progress_def Some Let_def persist_fields last_sign_heartbeat)
    qed (simp add: touch_swarm_task_progress_def Some)
  qed (simp add: touch_swarm_task_progress_def)
qed

section \<open>What survives a restart\<close>

text \<open>A member after a restart: no channels, and interrupted work marked as crashed.\<close>

definition recovered :: "nat \<Rightarrow> nat \<Rightarrow> swarm_member \<Rightarrow> swarm_member" where
  "recovered now dead_channel m =
     (let (status, detail) = recover_member_status (lifecycle_from (sm_status m)) (sm_detail m) (sm_is_headless m)
      in m\<lparr>sm_event_tx := dead_channel, sm_event_txs := fmempty, sm_status := lifecycle_as_str status,
           sm_detail := detail, sm_joined_at := now, sm_last_status_change := now\<rparr>)"

lemma from_persisted_durable: "from_persisted_member now ch (durable_record m) = recovered now ch m"
  by (cases m) (simp add: from_persisted_member_def durable_record_def from_record_def recovered_def swarm_role_from_def
      split: prod.split)

lemma load_members_fold:
  assumes "\<forall>r \<in> set rs. mr_swarm_id r = Some sw \<and> f (mr_session_id r) = Some (from_persisted_member now ch r)"
  shows "fmlookup (ld_members (foldl (load_member now ch) ld rs)) i =
      (if i \<in> mr_session_id ` set rs then f i else fmlookup (ld_members ld) i)"
    and "get_or {||} (ld_swarms (foldl (load_member now ch) ld rs)) s =
      (if s = sw then get_or {||} (ld_swarms ld) sw |\<union>| fset_of_list (map mr_session_id rs) else get_or {||} (ld_swarms ld) s)"
    and "ld_plans (foldl (load_member now ch) ld rs) = ld_plans ld"
    and "ld_coordinators (foldl (load_member now ch) ld rs) = ld_coordinators ld"
  using assms
  by (induction rs arbitrary: ld) (auto simp: load_member_def get_or_entry_upd)

definition stopped_items :: "plan_item list \<Rightarrow> plan_item list" where
  "stopped_items items = map (\<lambda>i. if pi_status i = ''running'' then i\<lparr>pi_status := ''running_stale''\<rparr> else i) items"

lemma same_signs_refl [simp]: "same_signs a a"
  by (simp add: same_signs_def)

lemma stale_marks_signs: "same_signs (foldl (mark_stale_on_load t) pr items) pr"
proof (induction items arbitrary: pr)
  case (Cons item items)
  have "same_signs (mark_stale_on_load t pr item) pr"
  proof (cases "pi_status item = ''running''")
    case True
    let ?p = "get_or swarm_task_progress_default pr (pi_id item)"
    have "mark_stale_on_load t pr item = fmupd (pi_id item)
        (?p\<lparr>tp_stale_since_unix_ms := Some (case tp_stale_since_unix_ms ?p of Some t \<Rightarrow> t | None \<Rightarrow> t)\<rparr>) pr"
      by (simp add: mark_stale_on_load_def True entry_upd_def get_or_def)
    then show ?thesis by (simp add: same_signs_upd)
  qed (simp add: mark_stale_on_load_def)
  with Cons.IH [of "mark_stale_on_load t pr item"] show ?case by (simp add: same_signs_def)
qed simp

lemma persisted_plan_reloaded:
  "let p' = from_persisted_plan (to_persisted_plan p) t
   in vp_items p' = stopped_items (vp_items p) \<and> vp_version p' = vp_version p \<and>
      vp_participants p' = vp_participants p \<and> same_signs (vp_task_progress p') (vp_task_progress p)"
proof -
  have "fset_of_list (sorted_list_of_fset (vp_participants p)) = vp_participants p"
    by (metis fset_inject fset_of_list.rep_eq sorted_list_of_fset_simps(1))
  then show ?thesis
    by (simp add: from_persisted_plan_def to_persisted_plan_def stopped_items_def stale_marks_signs)
qed

definition members_keyed :: "server \<Rightarrow> bool" where
  "members_keyed st \<longleftrightarrow> (\<forall>i m. fmlookup (sv_members st) i = Some m \<longrightarrow> sm_session_id m = i)"

definition nothing_loaded :: loaded_swarms where
  "nothing_loaded = \<lparr>ld_plans = fmempty, ld_coordinators = fmempty, ld_members = fmempty, ld_swarms = fmempty\<rparr>"

definition member_in :: "string \<Rightarrow> swarm_member \<Rightarrow> bool" where
  "member_in swarm_id m \<longleftrightarrow> sm_swarm_id m = Some swarm_id"

lemma runtime_members:
  assumes "set (en_order env (fmdom (sv_members st))) = fset (fmdom (sv_members st))"
  shows "set (rt_members (load_runtime env sw st)) =
    {m. \<exists>i. fmlookup (sv_members st) i = Some m \<and> member_in sw m}"
proof -
  have "set (List.map_filter g xs) = {m. \<exists>i \<in> set xs. g i = Some m}" for g :: "string \<Rightarrow> swarm_member option" and xs
    by (induction xs) (auto simp: List.map_filter_simps split: option.split)
  then show ?thesis
    using assms by (auto simp: load_runtime_def member_values_def member_in_def) (metis fmdomI)+
qed

lemma persisted_file:
  assumes "has_any_state (load_runtime env sw st)"
  shows "fmlookup (sv_disk (persist_swarm_state_for env t sw st)) (state_path sw) =
    Some (Some \<lparr>px_swarm_id = sw, px_plan = map_option to_persisted_plan (fmlookup (sv_plans st) sw),
      px_coordinator_session_id = fmlookup (sv_coordinators st) sw,
      px_members = sort_key mr_session_id (map durable_record (rt_members (load_runtime env sw st))),
      px_updated_at_unix_ms = t\<rparr>)"
  using assms
  by (auto simp: persist_swarm_state_for_def persist_swarm_state_def Let_def has_any_state_def load_runtime_def)

text \<open>
  Property C26. Loading the file of a swarm gives the swarm back: its plan with the same items, version,
  participants and signs of life, running items being stale; its coordinator; and its members, recovered: those
  at work and the headless ones that had not ended are crashed, with a note in their detail.
\<close>

theorem swarm_reload:
  assumes keyed: "members_keyed st"
    and order: "set (en_order env (fmdom (sv_members st))) = fset (fmdom (sv_members st))"
    and some: "has_any_state (load_runtime env sw st)"
  shows "let ld = load_swarm_file now ch nothing_loaded
      (Option.bind (fmlookup (sv_disk (persist_swarm_state_for env t sw st)) (state_path sw)) id)
    in (case fmlookup (sv_plans st) sw of
          None \<Rightarrow> fmlookup (ld_plans ld) sw = None
        | Some p \<Rightarrow>
            (case fmlookup (ld_plans ld) sw of
               None \<Rightarrow> False
             | Some p' \<Rightarrow> vp_items p' = stopped_items (vp_items p) \<and> vp_version p' = vp_version p \<and>
                 vp_participants p' = vp_participants p \<and> same_signs (vp_task_progress p') (vp_task_progress p))) \<and>
       fmlookup (ld_coordinators ld) sw = fmlookup (sv_coordinators st) sw \<and>
       fmlookup (ld_members ld) i =
         (case fmlookup (sv_members st) i of
            None \<Rightarrow> None
          | Some m \<Rightarrow> if member_in sw m then Some (recovered now ch m) else None) \<and>
       (i |\<in>| get_or {||} (ld_swarms ld) sw \<longleftrightarrow> fmlookup (ld_members ld) i \<noteq> None)"
proof -
  let ?rs = "sort_key mr_session_id (map durable_record (rt_members (load_runtime env sw st)))"
  let ?f = "\<lambda>i. map_option (recovered now ch) (fmlookup (sv_members st) i)"
  have rs: "set ?rs = durable_record ` {m. \<exists>i. fmlookup (sv_members st) i = Some m \<and> member_in sw m}"
    using runtime_members [OF order] by simp
  have "\<forall>r \<in> set ?rs. mr_swarm_id r = Some sw \<and> ?f (mr_session_id r) = Some (from_persisted_member now ch r)"
    unfolding rs using keyed
    by (auto simp: members_keyed_def member_in_def durable_record_def from_persisted_durable [symmetric])
  note ld = load_members_fold [OF this]
  have ids: "i \<in> mr_session_id ` set ?rs \<longleftrightarrow> (\<exists>m. fmlookup (sv_members st) i = Some m \<and> member_in sw m)"
    unfolding rs using keyed by (force simp: members_keyed_def durable_record_def)
  have lookup: "(if i \<in> mr_session_id ` set ?rs then ?f i else None) =
      (case fmlookup (sv_members st) i of None \<Rightarrow> None | Some m \<Rightarrow> if member_in sw m then Some (recovered now ch m) else None)"
    unfolding ids by (auto split: option.split)
  have i: "i \<in> set (map mr_session_id ?rs) \<longleftrightarrow> (if i \<in> mr_session_id ` set ?rs then ?f i else None) \<noteq> None"
    unfolding lookup using ids by (auto split: option.split)
  let ?base = "\<lparr>ld_plans = (case fmlookup (sv_plans st) sw of None \<Rightarrow> fmempty
      | Some p \<Rightarrow> fmupd sw (from_persisted_plan (to_persisted_plan p) t) fmempty),
    ld_coordinators = (case fmlookup (sv_coordinators st) sw of None \<Rightarrow> fmempty | Some c \<Rightarrow> fmupd sw c fmempty),
    ld_members = fmempty, ld_swarms = fmempty\<rparr>"
  have read: "load_swarm_file now ch nothing_loaded
      (Option.bind (fmlookup (sv_disk (persist_swarm_state_for env t sw st)) (state_path sw)) id) =
    foldl (load_member now ch) ?base ?rs"
    by (simp add: persisted_file [OF some] load_swarm_file_def nothing_loaded_def split: option.split)
  have plan: "case fmlookup (sv_plans st) sw of
      None \<Rightarrow> fmlookup (ld_plans ?base) sw = None
    | Some p \<Rightarrow>
        (case fmlookup (ld_plans ?base) sw of
           None \<Rightarrow> False
         | Some p' \<Rightarrow> vp_items p' = stopped_items (vp_items p) \<and> vp_version p' = vp_version p \<and>
             vp_participants p' = vp_participants p \<and> same_signs (vp_task_progress p') (vp_task_progress p))"
    using persisted_plan_reloaded [of _ t] by (simp add: Let_def split: option.split)
  have co: "fmlookup (ld_coordinators ?base) sw = fmlookup (sv_coordinators st) sw"
    by (simp split: option.split)
  have mem: "fmlookup (ld_members (foldl (load_member now ch) ?base ?rs)) i =
      (if i \<in> mr_session_id ` set ?rs then ?f i else None)"
    unfolding ld(1) by simp
  have sw: "i |\<in>| get_or {||} (ld_swarms (foldl (load_member now ch) ?base ?rs)) sw \<longleftrightarrow> i \<in> set (map mr_session_id ?rs)"
    unfolding ld(2) by (simp add: fset_of_list.rep_eq)
  show ?thesis
    unfolding Let_def read ld(3,4) mem sw using plan co lookup i by blast
qed

section \<open>A sample server\<close>

definition sample_env :: server_env where
  "sample_env = \<lparr>en_order = sorted_list_of_fset, en_threshold = 2, en_stale_after_ms = 45, en_session_exists = (\<lambda>_. False),
     en_hash = (\<lambda>_. 7), en_items_json = (\<lambda>items. concat (map pi_id items)), en_parse_items = (\<lambda>_. None)\<rparr>"

definition sample_member :: "string \<Rightarrow> nat \<Rightarrow> string \<Rightarrow> swarm_member" where
  "sample_member i tx role =
     \<lparr>sm_session_id = i, sm_event_tx = tx, sm_event_txs = fmempty, sm_working_dir = None, sm_swarm_id = Some ''s'',
      sm_swarm_enabled = True, sm_status = ''ready'', sm_detail = None, sm_friendly_name = Some i,
      sm_report_back_to_session_id = None, sm_latest_completion_report = None, sm_role = role, sm_joined_at = 0,
      sm_last_status_change = 0, sm_is_headless = False\<rparr>"

definition empty_server :: server where
  "empty_server =
     \<lparr>sv_members = fmempty, sv_swarms = fmempty, sv_plans = fmempty, sv_coordinators = fmempty, sv_context = fmempty,
      sv_history = [], sv_counter = 1, sv_broadcast = [], sv_pending_status = fmempty, sv_agents = fmempty,
      sv_queues = fmempty, sv_queue_heap = fmempty, sv_stored_interrupts = fmempty, sv_connections = fmempty, sv_disconnects = [],
      sv_channels = channel_index_default, sv_touches = fmempty, sv_touched_by = fmempty, sv_disk = fmempty,
      sv_mutations = \<lparr>mt_files = fmempty, mt_active = {||}, mt_waiters = fmempty\<rparr>, sv_awaits = \<lparr>aw_files = fmempty, aw_active = {||}, aw_waiters = fmempty\<rparr>,
      sv_waits = [], sv_runs = [], sv_turns = [], sv_client_input = fmempty,
      sv_global_session = [], sv_closed = {||}, sv_out = [], sv_panicked = False\<rparr>"

text \<open>A coordinator and a worker, with a plan or without.\<close>

definition sample_server :: "(string, versioned_plan) fmap \<Rightarrow> server" where
  "sample_server plans =
     empty_server\<lparr>sv_members := fmap_of_list [(''c'', sample_member ''c'' 1 ''coordinator''), (''w'', sample_member ''w'' 2 ''agent'')],
       sv_swarms := fmap_of_list [(''s'', {|''c'', ''w''|})], sv_coordinators := fmap_of_list [(''s'', ''c'')],
       sv_plans := plans\<rparr>"

lemma leave_disk:
  assumes "sw |\<notin>| fmdom (sv_plans st)"
    and "sv_disk (remove_session_from_swarm env now sid sw st) \<noteq> fmdrop (state_path sw) (sv_disk st)"
  shows "sv_disk (remove_session_from_swarm env now sid sw st) = sv_disk st"
proof -
  let ?left = "leave_swarm_set sid sw (remove_plan_participant sw sid st)"
  have d: "sv_disk (hand_over sw x) = sv_disk x" "fmdom (sv_plans (hand_over sw x)) = fmdom (sv_plans x)" for x
    by (simp_all add: hand_over_def Let_def send_member_def send_to_def upd_member_def upd_plan_def
        update_existing_def fmdom_notD finsert_absorb fmdomI split: option.split)
  have l: "sv_disk ?left = sv_disk st" "fmdom (sv_plans ?left) = fmdom (sv_plans st)"
    by (simp_all add: leave_swarm_set_def remove_plan_participant_def upd_plan_def update_existing_def Let_def
        finsert_absorb fmdomI split: option.split)
  define over where "over = (if fmlookup (sv_coordinators ?left) sw = Some sid then hand_over sw ?left else ?left)"
  define st1 where "st1 = upd_member (\<lambda>m. m\<lparr>sm_role := ''agent''\<rparr>) sid over"
  have st1: "sv_disk st1 = sv_disk st" "fmdom (sv_plans st1) = fmdom (sv_plans st)"
    by (simp_all add: st1_def over_def upd_member_def d l)
  have "remove_session_from_swarm env now sid sw st =
      broadcast_swarm_status env now sw (remove_persisted_swarm_state_for env sw st1)"
    using assms(1) unfolding remove_session_from_swarm_def Let_def over_def [symmetric] st1_def [symmetric] st1 by simp
  then show ?thesis
    using assms(2) by (auto simp: quiet_fields(14) [OF quiet_status] remove_persisted_swarm_state_for_def st1(1) split: if_splits)
qed

text \<open>
  When a swarm has no plan, a session that leaves stays in the swarm's file as long as the swarm has
  any members: it is in the swarm again after the next restart.
\<close>

theorem left_member_returns:
  "(if sw |\<in>| fmdom (sv_plans st) then True
    else let st' = remove_session_from_swarm env now sid sw st
         in sv_disk st' = sv_disk st \<or> sv_disk st' = fmdrop (state_path sw) (sv_disk st)) \<and>
   (let st = persist_swarm_state_for sample_env 0 ''s'' (sample_server fmempty);
        st' = remove_session_from_swarm sample_env 1 ''w'' ''s'' (st\<lparr>sv_members := fmdrop ''w'' (sv_members st)\<rparr>);
        ld = load_runtime_state sample_env 2 9 (sv_disk st')
    in fmlookup (sv_swarms st') ''s'' = Some {|''c''|} \<and> fmlookup (ld_swarms ld) ''s'' = Some {|''c'', ''w''|} \<and>
       ''w'' |\<in>| fmdom (ld_members ld))"
proof (rule conjI)
  show "let st = persist_swarm_state_for sample_env 0 ''s'' (sample_server fmempty);
        st' = remove_session_from_swarm sample_env 1 ''w'' ''s'' (st\<lparr>sv_members := fmdrop ''w'' (sv_members st)\<rparr>);
        ld = load_runtime_state sample_env 2 9 (sv_disk st')
    in fmlookup (sv_swarms st') ''s'' = Some {|''c''|} \<and> fmlookup (ld_swarms ld) ''s'' = Some {|''c'', ''w''|} \<and>
       ''w'' |\<in>| fmdom (ld_members ld)"
    by code_simp
next
  show "if sw |\<in>| fmdom (sv_plans st) then True
    else let st' = remove_session_from_swarm env now sid sw st
         in sv_disk st' = sv_disk st \<or> sv_disk st' = fmdrop (state_path sw) (sv_disk st)"
    unfolding Let_def by (auto intro: leave_disk)
qed

definition sample_item :: "string \<Rightarrow> string \<Rightarrow> string option \<Rightarrow> plan_item" where
  "sample_item i status owner =
     \<lparr>pi_content = ''do '' @ i, pi_status = status, pi_priority = ''medium'', pi_id = i, pi_subsystem = None,
      pi_file_scope = [], pi_blocked_by = [], pi_assigned_to = owner\<rparr>"

definition sample_plan :: "plan_item list \<Rightarrow> versioned_plan" where
  "sample_plan items = versioned_plan_new\<lparr>vp_items := items, vp_version := 3, vp_participants := {|''c''|}\<rparr>"

theorem swarm_reload_witness:
  "let st = sample_server (fmupd ''s'' (sample_plan [sample_item ''t'' ''running'' (Some ''w'')]) fmempty);
       ld = load_swarm_file 5 9 nothing_loaded
         (Option.bind (fmlookup (sv_disk (persist_swarm_state_for sample_env 1 ''s'' st)) (state_path ''s'')) id)
   in fmlookup (ld_coordinators ld) ''s'' = Some ''c'' \<and>
      fmlookup (ld_members ld) ''w'' = Some (recovered 5 9 (sample_member ''w'' 2 ''agent'')) \<and>
      map_option vp_items (fmlookup (ld_plans ld) ''s'') = Some [sample_item ''t'' ''running_stale'' (Some ''w'')]"
proof -
  let ?plan = "sample_plan [sample_item ''t'' ''running'' (Some ''w'')]"
  let ?st = "sample_server (fmupd ''s'' ?plan fmempty)"
  have keyed: "members_keyed ?st"
    by (auto simp: members_keyed_def sample_server_def sample_member_def split: if_splits)
  have order: "set (en_order sample_env (fmdom (sv_members ?st))) = fset (fmdom (sv_members ?st))"
    by (simp add: sample_env_def sorted_list_of_fset.rep_eq)
  have some: "has_any_state (load_runtime sample_env ''s'' ?st)"
    by (simp add: has_any_state_def load_runtime_def sample_server_def)
  have m: "fmlookup (sv_members ?st) ''w'' = Some (sample_member ''w'' 2 ''agent'')"
    "fmlookup (sv_coordinators ?st) ''s'' = Some ''c''" "fmlookup (sv_plans ?st) ''s'' = Some ?plan"
    by (simp_all add: sample_server_def)
  have mi: "member_in ''s'' (sample_member ''w'' 2 ''agent'')" by (simp add: member_in_def sample_member_def)
  have items: "stopped_items (vp_items ?plan) = [sample_item ''t'' ''running_stale'' (Some ''w'')]"
    by (simp add: sample_plan_def stopped_items_def sample_item_def)
  show ?thesis
    using swarm_reload [OF keyed order some, of 5 9 1 "''w''"]
    unfolding Let_def m option.case if_P [OF mi] items by (auto split: option.splits)
qed

text \<open>
  Swarm ids are paths, but the name of a swarm's file keeps only their letters, digits, dashes
  and underscores: two swarms whose ids agree but for other characters share a file, and the one saved last
  replaces the other.
\<close>

theorem colliding_swarms_lost:
  "(if state_path a = state_path b \<and> has_any_state (load_runtime env b st) then
      map_option (map_option px_swarm_id) (fmlookup (sv_disk (persist_swarm_state_for env t b
        (persist_swarm_state_for env t a st))) (state_path a)) = Some (Some b)
    else True) \<and>
   state_path ''/src/a.b/.git'' = state_path ''/src/a_b/.git''"
proof (intro conjI)
  show "if state_path a = state_path b \<and> has_any_state (load_runtime env b st) then
      map_option (map_option px_swarm_id) (fmlookup (sv_disk (persist_swarm_state_for env t b
        (persist_swarm_state_for env t a st))) (state_path a)) = Some (Some b)
    else True"
    by (auto simp: persist_swarm_state_for_def persist_swarm_state_def load_runtime_def has_any_state_def Let_def
        member_values_def)
  show "state_path ''/src/a.b/.git'' = state_path ''/src/a_b/.git''" by code_simp
qed

section \<open>The event history\<close>

definition window :: "nat \<Rightarrow> 'a list \<Rightarrow> 'a list" where
  "window n xs = drop (length xs - n) xs"

text \<open>The history is the end of all the events, numbered one by one, at most 5000 of them.\<close>

definition history_ok :: "server \<Rightarrow> bool" where
  "history_ok st \<longleftrightarrow>
     sv_history st = window max_event_history (sv_broadcast st) \<and>
     map se_id (sv_broadcast st) = [1..<sv_counter st] \<and> 1 \<le> sv_counter st"

lemma history_start: "history_ok empty_server"
  by (simp add: history_ok_def empty_server_def window_def)

lemma window_snoc:
  "(if n < Suc (length (window n b)) then tl (window n b @ [x]) else window n b @ [x]) = window n (b @ [x])"
proof (cases "n \<le> length b")
  case True
  have "window n (b @ [x]) = drop (Suc (length b - n)) (b @ [x])" using True by (simp add: window_def Suc_diff_le)
  also have "\<dots> = tl (drop (length b - n) (b @ [x]))" by (simp only: drop_Suc tl_drop)
  also have "drop (length b - n) (b @ [x]) = window n b @ [x]" by (simp add: window_def)
  finally show ?thesis using True by (simp add: window_def)
qed (simp add: window_def)

lemma window_snocs:
  "n < Suc (length (window n b)) \<Longrightarrow> tl (window n b @ [x]) = window n (b @ [x])"
  "\<not> n < Suc (length (window n b)) \<Longrightarrow> window n b @ [x] = window n (b @ [x])"
  by (metis window_snoc)+

lemma history_record: "history_ok st \<Longrightarrow> history_ok (record_swarm_event now sid name sw e st)"
  unfolding history_ok_def record_swarm_event_def Let_def by (simp add: window_snocs)

lemma history_quiet: "quiet st st' \<Longrightarrow> history_ok st' = history_ok st"
  by (simp add: history_ok_def quiet_fields)

end
