(* ===== verification/SwarmMutationProperties.thy ===== *)
theory SwarmMutationProperties
  imports SwarmMutation
begin

text \<open>
  Requests that change a swarm (SwarmMutation) when they run concurrently: each lock the code takes is one
  step of a step relation. What holds in every interleaving, and two races.
\<close>

section \<open>Requests under way at the same time\<close>

text \<open>
  A request and how far it has come: it has looked for a response and missed it, has queued itself as a
  waiter, has been elected to carry out the change, is carrying it out, has stored its response, has
  delivered it, or has joined a request under way.
\<close>

record mutation_request =
  rq_key :: string
  rq_action :: string
  rq_session :: string
  rq_channel :: nat

datatype phase =
    Arrived | Missed | Waiting | Joined | Replayed
  | Elected | Executing mutation_state | Persisted mutation_state mutation_response
  | Delivered mutation_state | Finished

record mutation_system =
  ys_runtime :: mutation_runtime
  ys_out :: outbox
  ys_phase :: "nat \<Rightarrow> phase"

definition move :: "nat \<Rightarrow> phase \<Rightarrow> mutation_runtime \<Rightarrow> outbox \<Rightarrow> mutation_system \<Rightarrow> mutation_system" where
  "move i ph rt out s = s\<lparr>ys_runtime := rt, ys_out := out, ys_phase := (ys_phase s)(i := ph)\<rparr>"

inductive mutation_step :: "(nat \<Rightarrow> mutation_request) \<Rightarrow> mutation_system \<Rightarrow> mutation_system \<Rightarrow> bool"
  for rq where
  replay: "ys_phase s i = Arrived \<Longrightarrow> load_mutation now (rq_key (rq i)) (ys_runtime s) = (found, rt) \<Longrightarrow>
    Option.bind found mu_final_response = Some response \<Longrightarrow>
    mutation_step rq s (move i Replayed rt
      (send_event {||} (rq_channel (rq i)) (into_server_event response i (rq_session (rq i))) (ys_out s)) s)"
| miss: "ys_phase s i = Arrived \<Longrightarrow> load_mutation now (rq_key (rq i)) (ys_runtime s) = (found, rt) \<Longrightarrow>
    Option.bind found mu_final_response = None \<Longrightarrow> mutation_step rq s (move i Missed rt (ys_out s) s)"
| wait: "ys_phase s i = Missed \<Longrightarrow>
    mutation_step rq s (move i Waiting (add_waiter (rq_key (rq i)) i (rq_channel (rq i)) (ys_runtime s)) (ys_out s) s)"
| elect: "ys_phase s i = Waiting \<Longrightarrow> mark_active_if_new (rq_key (rq i)) (ys_runtime s) = (True, rt) \<Longrightarrow>
    mutation_step rq s (move i Elected rt (ys_out s) s)"
| join: "ys_phase s i = Waiting \<Longrightarrow> mark_active_if_new (rq_key (rq i)) (ys_runtime s) = (False, rt) \<Longrightarrow>
    mutation_step rq s (move i Joined rt (ys_out s) s)"
| start: "ys_phase s i = Elected \<Longrightarrow>
    ensure_pending_state now (rq_key (rq i)) (rq_action (rq i)) (rq_session (rq i)) (ys_runtime s) = (ms, rt) \<Longrightarrow>
    mutation_step rq s (move i (Executing ms) rt (ys_out s) s)"
| persist: "ys_phase s i = Executing ms \<Longrightarrow>
    persist_final_response ms response (ys_runtime s) = (persisted, rt) \<Longrightarrow>
    mutation_step rq s (move i (Persisted persisted response) rt (ys_out s) s)"
| deliver: "ys_phase s i = Persisted ms response \<Longrightarrow> take_waiters (mu_key ms) (ys_runtime s) = (ws, rt) \<Longrightarrow>
    mutation_step rq s (move i (Delivered ms) rt
      (answer_waiters {||} response (mu_session_id ms) ws (ys_out s)) s)"
| clear: "ys_phase s i = Delivered ms \<Longrightarrow>
    mutation_step rq s (move i Finished (clear_active (mu_key ms) (ys_runtime s)) (ys_out s) s)"

text \<open>At first every request has only arrived, nobody waits and nothing is under way; there may be files.\<close>

definition mutation_start :: "(string, mutation_state option) fmap \<Rightarrow> mutation_system" where
  "mutation_start files =
     \<lparr>ys_runtime = \<lparr>mt_files = files, mt_active = {||}, mt_waiters = fmempty\<rparr>, ys_out = [], ys_phase = (\<lambda>_. Arrived)\<rparr>"

definition files_keyed :: "(string, mutation_state option) fmap \<Rightarrow> bool" where
  "files_keyed files \<longleftrightarrow> (\<forall>k st. fmlookup files k = Some (Some st) \<longrightarrow> mu_key st = k)"

lemma answers_waiters:
  "distinct (map fst ws) \<Longrightarrow>
   answers i (answer_waiters {||} r sid ws out) =
     answers i out @ (case map_of ws i of None \<Rightarrow> [] | Some c \<Rightarrow> [(c, into_server_event r i sid)])"
proof (induction ws arbitrary: out)
  case (Cons w ws)
  obtain j c where w: "w = (j, c)" by (cases w)
  have "map_of ws j = None" using Cons.prems by (simp add: w map_of_eq_None_iff)
  then show ?case
    using Cons.IH Cons.prems by (auto simp: answer_waiters_def w)
qed (simp add: answer_waiters_def)

fun holder :: "phase \<Rightarrow> bool" where
  "holder Elected = True"
| "holder (Executing _) = True"
| "holder (Persisted _ _) = True"
| "holder (Delivered _) = True"
| "holder _ = False"

fun held_state :: "phase \<Rightarrow> mutation_state option" where
  "held_state (Executing ms) = Some ms"
| "held_state (Persisted ms _) = Some ms"
| "held_state (Delivered ms) = Some ms"
| "held_state _ = None"

definition early :: "phase \<Rightarrow> bool" where "early ph \<longleftrightarrow> ph = Arrived \<or> ph = Missed"

fun settled :: "phase \<Rightarrow> bool" where
  "settled Replayed = True"
| "settled (Delivered _) = True"
| "settled Finished = True"
| "settled _ = False"

definition waiters_of :: "mutation_system \<Rightarrow> string \<Rightarrow> (nat \<times> nat) list" where
  "waiters_of s k = get_or [] (mt_waiters (ys_runtime s)) k"

text \<open>One request per key carries out its change, and the key is marked as active meanwhile.\<close>

definition elections_ok :: "(nat \<Rightarrow> mutation_request) \<Rightarrow> mutation_system \<Rightarrow> bool" where
  "elections_ok rq s \<longleftrightarrow>
     files_keyed (mt_files (ys_runtime s)) \<and>
     (\<forall>i ms. held_state (ys_phase s i) = Some ms \<longrightarrow> mu_key ms = rq_key (rq i)) \<and>
     (\<forall>i j. holder (ys_phase s i) \<and> holder (ys_phase s j) \<and> rq_key (rq i) = rq_key (rq j) \<longrightarrow> i = j) \<and>
     (\<forall>k. k |\<in>| mt_active (ys_runtime s) \<longleftrightarrow> (\<exists>i. holder (ys_phase s i) \<and> rq_key (rq i) = k))"

text \<open>Who waits has not been answered, who is done has, and nobody is answered twice.\<close>

definition answers_ok :: "(nat \<Rightarrow> mutation_request) \<Rightarrow> mutation_system \<Rightarrow> bool" where
  "answers_ok rq s \<longleftrightarrow>
     (\<forall>k. distinct (map fst (waiters_of s k))) \<and>
     (\<forall>k i c. (i, c) \<in> set (waiters_of s k) \<longrightarrow>
        k = rq_key (rq i) \<and> c = rq_channel (rq i) \<and> \<not> early (ys_phase s i) \<and> answers i (ys_out s) = []) \<and>
     (\<forall>i. early (ys_phase s i) \<longrightarrow> answers i (ys_out s) = []) \<and>
     (\<forall>i. length (answers i (ys_out s)) \<le> 1) \<and>
     (\<forall>i c e. (c, e) \<in> set (answers i (ys_out s)) \<longrightarrow> c = rq_channel (rq i)) \<and>
     (\<forall>i. \<not> early (ys_phase s i) \<longrightarrow>
        (\<not> settled (ys_phase s i) \<and> i \<in> fst ` set (waiters_of s (rq_key (rq i)))) \<or> answers i (ys_out s) \<noteq> [])"

lemma move_simps [simp]:
  "ys_runtime (move i ph rt out s) = rt" "ys_out (move i ph rt out s) = out"
  "ys_phase (move i ph rt out s) = (ys_phase s)(i := ph)"
  "waiters_of (move i ph rt out s) k = get_or [] (mt_waiters rt) k"
  by (simp_all add: move_def waiters_of_def)

lemma load_mutation_effect:
  assumes "load_mutation now k rt = (found, rt')"
  shows "mt_active rt' = mt_active rt" "mt_waiters rt' = mt_waiters rt"
    "files_keyed (mt_files rt) \<Longrightarrow> files_keyed (mt_files rt')"
    "found = Some st \<Longrightarrow> fmlookup (mt_files rt) k = Some (Some st)"
  using assms
  by (auto simp: load_mutation_def load_json_state_def files_keyed_def split: option.splits prod.splits if_splits)

lemma save_mutation_effect:
  "mt_active (save_mutation st rt) = mt_active rt" "mt_waiters (save_mutation st rt) = mt_waiters rt"
  "files_keyed (mt_files rt) \<Longrightarrow> files_keyed (mt_files (save_mutation st rt))"
  by (auto simp: save_mutation_def save_json_state_def files_keyed_def)

lemma ensure_pending_effect:
  assumes "ensure_pending_state now k action sid rt = (ms, rt')"
  shows "mt_active rt' = mt_active rt" "mt_waiters rt' = mt_waiters rt"
    "files_keyed (mt_files rt) \<Longrightarrow> files_keyed (mt_files rt')" "files_keyed (mt_files rt) \<Longrightarrow> mu_key ms = k"
proof -
  obtain found rt1 where l: "load_mutation now k rt = (found, rt1)" by fastforce
  note e = load_mutation_effect [OF l]
  have m: "(ms, rt') = (case found of Some x \<Rightarrow> (x, rt1)
      | None \<Rightarrow> (new_mutation now k action sid, save_mutation (new_mutation now k action sid) rt1))"
    using assms unfolding ensure_pending_state_def l prod.case Let_def by simp
  show "mt_active rt' = mt_active rt" "mt_waiters rt' = mt_waiters rt"
    using m e(1,2) by (auto simp: save_mutation_effect split: option.splits)
  show "files_keyed (mt_files rt) \<Longrightarrow> files_keyed (mt_files rt')"
    using m e(3) by (auto simp: save_mutation_effect split: option.splits)
  show "files_keyed (mt_files rt) \<Longrightarrow> mu_key ms = k"
    using m e(4) by (auto simp: files_keyed_def new_mutation_def split: option.splits)
qed

lemma persist_effect:
  assumes "persist_final_response ms r rt = (p, rt')"
  shows "p = ms\<lparr>mu_final_response := Some r\<rparr>" "mt_active rt' = mt_active rt" "mt_waiters rt' = mt_waiters rt"
    "files_keyed (mt_files rt) \<Longrightarrow> files_keyed (mt_files rt')"
  using assms by (auto simp: persist_final_response_def Let_def save_mutation_effect)

lemma elections_start: "files_keyed files \<Longrightarrow> elections_ok rq (mutation_start files)"
  by (simp add: elections_ok_def mutation_start_def)

lemma answers_start: "answers_ok rq (mutation_start files)"
  by (simp add: answers_ok_def mutation_start_def waiters_of_def answers_def early_def)

text \<open>A step that neither takes nor gives up the election.\<close>

lemma elections_keep:
  assumes "elections_ok rq s" "mt_active rt = mt_active (ys_runtime s)" "files_keyed (mt_files rt)"
    and "holder ph = holder (ys_phase s i)"
    and "\<And>ms. held_state ph = Some ms \<Longrightarrow> mu_key ms = rq_key (rq i)"
  shows "elections_ok rq (move i ph rt out s)"
  using assms unfolding elections_ok_def by (simp add: fun_upd_def) (metis (no_types))

lemma elections_step: "mutation_step rq s s' \<Longrightarrow> elections_ok rq s \<Longrightarrow> elections_ok rq s'"
proof (induction rule: mutation_step.induct)
  case (replay s i now found rt response)
  then show ?case using load_mutation_effect [OF replay(2)]
    by (intro elections_keep) (auto simp: elections_ok_def)
next
  case (miss s i now found rt)
  then show ?case using load_mutation_effect [OF miss(2)]
    by (intro elections_keep) (auto simp: elections_ok_def)
next
  case (wait s i)
  then show ?case by (intro elections_keep) (auto simp: elections_ok_def add_waiter_def)
next
  case (elect s i rt)
  then have rt: "rt = ys_runtime s\<lparr>mt_active := finsert (rq_key (rq i)) (mt_active (ys_runtime s))\<rparr>"
    "rq_key (rq i) |\<notin>| mt_active (ys_runtime s)" by (auto simp: mark_active_if_new_def)
  show ?case using elect(1,3) rt by (auto simp: elections_ok_def)
next
  case (join s i rt)
  then have rt: "rt = ys_runtime s" by (auto simp: mark_active_if_new_def finsert_absorb)
  show ?case using join(1,3) unfolding rt by (intro elections_keep) (auto simp: elections_ok_def)
next
  case (start s i now ms rt)
  then show ?case using ensure_pending_effect [OF start(2)]
    by (intro elections_keep) (auto simp: elections_ok_def)
next
  case (persist s i ms response p rt)
  have "mu_key ms = rq_key (rq i)" using persist(1,3) by (auto simp: elections_ok_def)
  then show ?case using persist persist_effect [OF persist(2)]
    by (intro elections_keep) (auto simp: elections_ok_def)
next
  case (deliver s i ms response ws rt)
  have "mu_key ms = rq_key (rq i)" using deliver(1,3) by (auto simp: elections_ok_def)
  then show ?case using deliver
    by (intro elections_keep) (auto simp: elections_ok_def take_waiters_def)
next
  case (clear s i ms)
  have k: "mu_key ms = rq_key (rq i)" using clear by (auto simp: elections_ok_def)
  have i: "holder (ys_phase s i)" by (simp add: clear(1))
  show ?case using clear(2) i unfolding elections_ok_def
    by (auto simp: clear_active_def k)
qed

lemma early_simps [simp]:
  "early Arrived" "early Missed" "\<not> early Waiting" "\<not> early Joined" "\<not> early Replayed" "\<not> early Elected"
  "\<not> early (Executing ms)" "\<not> early (Persisted ms r)" "\<not> early (Delivered ms)" "\<not> early Finished"
  by (simp_all add: early_def)

lemma answers_okI:
  assumes "\<And>k. distinct (map fst (waiters_of s k))"
    and "\<And>k i c. (i, c) \<in> set (waiters_of s k) \<Longrightarrow>
      k = rq_key (rq i) \<and> c = rq_channel (rq i) \<and> \<not> early (ys_phase s i) \<and> answers i (ys_out s) = []"
    and "\<And>i. early (ys_phase s i) \<Longrightarrow> answers i (ys_out s) = []"
    and "\<And>i. length (answers i (ys_out s)) \<le> 1"
    and "\<And>i c e. (c, e) \<in> set (answers i (ys_out s)) \<Longrightarrow> c = rq_channel (rq i)"
    and "\<And>i. \<not> early (ys_phase s i) \<Longrightarrow>
      (\<not> settled (ys_phase s i) \<and> i \<in> fst ` set (waiters_of s (rq_key (rq i)))) \<or> answers i (ys_out s) \<noteq> []"
  shows "answers_ok rq s"
  using assms unfolding answers_ok_def by blast

lemma answers_okD:
  assumes "answers_ok rq s"
  shows "distinct (map fst (waiters_of s k))"
    and "(i, c) \<in> set (waiters_of s k) \<Longrightarrow>
      k = rq_key (rq i) \<and> c = rq_channel (rq i) \<and> \<not> early (ys_phase s i) \<and> answers i (ys_out s) = []"
    and "early (ys_phase s i) \<Longrightarrow> answers i (ys_out s) = []"
    and "length (answers i (ys_out s)) \<le> 1"
    and "(c, e) \<in> set (answers i (ys_out s)) \<Longrightarrow> c = rq_channel (rq i)"
    and "\<not> early (ys_phase s i) \<Longrightarrow>
      (\<not> settled (ys_phase s i) \<and> i \<in> fst ` set (waiters_of s (rq_key (rq i)))) \<or> answers i (ys_out s) \<noteq> []"
  using assms unfolding answers_ok_def by blast+

lemma answers_keep:
  assumes ok: "answers_ok rq s" and w: "mt_waiters rt = mt_waiters (ys_runtime s)"
    and ph: "early ph = early (ys_phase s i)" "settled ph = settled (ys_phase s i)"
  shows "answers_ok rq (move i ph rt (ys_out s) s)"
proof -
  let ?s = "move i ph rt (ys_out s) s"
  have ws: "waiters_of ?s = waiters_of s" by (rule ext) (simp add: waiters_of_def w)
  have same: "early (ys_phase ?s j) = early (ys_phase s j)" "settled (ys_phase ?s j) = settled (ys_phase s j)"
    "ys_out ?s = ys_out s" for j
    using ph by simp_all
  show ?thesis by (rule answers_okI; unfold ws same) (fact answers_okD [OF ok])+
qed

lemma early_not_waiting:
  assumes ok: "answers_ok rq s" and ph: "early (ys_phase s i)"
  shows "answers i (ys_out s) = []" "i \<notin> fst ` set (waiters_of s k)"
  using answers_okD(2,3) [OF ok] ph by fastforce+

lemma answers_replay:
  assumes ok: "answers_ok rq s" and ph: "ys_phase s i = Arrived" and w: "mt_waiters rt = mt_waiters (ys_runtime s)"
  shows "answers_ok rq (move i Replayed rt
    (send_event {||} (rq_channel (rq i)) (into_server_event response i sid) (ys_out s)) s)"
proof -
  let ?s = "move i Replayed rt (send_event {||} (rq_channel (rq i)) (into_server_event response i sid) (ys_out s)) s"
  have "early (ys_phase s i)" by (simp add: ph)
  note no = early_not_waiting [OF ok this]
  have ws: "waiters_of ?s = waiters_of s" by (rule ext) (simp add: waiters_of_def w)
  have ans: "answers j (ys_out ?s) = (if j = i then [(rq_channel (rq i), into_server_event response i sid)]
      else answers j (ys_out s))" for j
    using no(1) by simp
  have phs: "ys_phase ?s j = (if j = i then Replayed else ys_phase s j)" for j by simp
  show ?thesis
  proof (rule answers_okI; unfold ws ans phs)
    fix k j c assume a: "(j, c) \<in> set (waiters_of s k)"
    then have "j \<noteq> i" using no(2) [of k] by force
    with answers_okD(2) [OF ok a]
    show "k = rq_key (rq j) \<and> c = rq_channel (rq j) \<and> \<not> early (if j = i then Replayed else ys_phase s j) \<and>
      (if j = i then [(rq_channel (rq i), into_server_event response i sid)] else answers j (ys_out s)) = []"
      by simp
  qed (use answers_okD [OF ok] in \<open>simp_all split: if_splits\<close>)
qed

lemma answers_wait:
  assumes ok: "answers_ok rq s" and ph: "ys_phase s i = Missed"
  shows "answers_ok rq (move i Waiting (add_waiter (rq_key (rq i)) i (rq_channel (rq i)) (ys_runtime s)) (ys_out s) s)"
proof -
  let ?s = "move i Waiting (add_waiter (rq_key (rq i)) i (rq_channel (rq i)) (ys_runtime s)) (ys_out s) s"
  have "early (ys_phase s i)" by (simp add: ph)
  note no = early_not_waiting [OF ok this]
  have ws: "waiters_of ?s k =
      (if k = rq_key (rq i) then waiters_of s k @ [(i, rq_channel (rq i))] else waiters_of s k)" for k
    by (auto simp: waiters_of_def add_waiter_def get_or_entry_upd)
  have out: "ys_out ?s = ys_out s" by simp
  have phs: "ys_phase ?s j = (if j = i then Waiting else ys_phase s j)" for j by simp
  show ?thesis
  proof (rule answers_okI; unfold ws out phs)
    show "distinct (map fst (if k = rq_key (rq i) then waiters_of s k @ [(i, rq_channel (rq i))] else waiters_of s k))" for k
      using answers_okD(1) [OF ok, of k] no(2) [of k] by auto
  next
    fix k j c assume "(j, c) \<in> set (if k = rq_key (rq i) then waiters_of s k @ [(i, rq_channel (rq i))] else waiters_of s k)"
    then consider "(j, c) \<in> set (waiters_of s k)" | "j = i" "c = rq_channel (rq i)" "k = rq_key (rq i)"
      by (auto split: if_splits)
    then show "k = rq_key (rq j) \<and> c = rq_channel (rq j) \<and> \<not> early (if j = i then Waiting else ys_phase s j) \<and>
      answers j (ys_out s) = []"
      using answers_okD(2) [OF ok] no by cases auto
  next
    fix j assume "\<not> early (if j = i then Waiting else ys_phase s j)"
    then show "(\<not> settled (if j = i then Waiting else ys_phase s j) \<and>
        j \<in> fst ` set (if rq_key (rq j) = rq_key (rq i) then waiters_of s (rq_key (rq j)) @ [(i, rq_channel (rq i))]
          else waiters_of s (rq_key (rq j)))) \<or> answers j (ys_out s) \<noteq> []"
      using answers_okD(6) [OF ok, of j] by (cases "j = i") auto
  qed (use answers_okD [OF ok] no in \<open>simp_all split: if_splits\<close>)
qed

lemma answers_deliver:
  assumes ok: "answers_ok rq s" and ph: "ys_phase s i = Persisted ms response" and key: "mu_key ms = rq_key (rq i)"
    and take: "take_waiters (mu_key ms) (ys_runtime s) = (ws, rt)"
  shows "answers_ok rq (move i (Delivered ms) rt (answer_waiters {||} response sid ws (ys_out s)) s)"
proof -
  let ?k = "rq_key (rq i)"
  let ?s = "move i (Delivered ms) rt (answer_waiters {||} response sid ws (ys_out s)) s"
  have ws: "ws = waiters_of s ?k" and rt: "mt_waiters rt = fmdrop ?k (mt_waiters (ys_runtime s))"
    using take key by (auto simp: take_waiters_def waiters_of_def)
  have left: "waiters_of ?s k = (if k = ?k then [] else waiters_of s k)" for k
    by (simp add: waiters_of_def rt get_or_def)
  have "distinct (map fst ws)" using ok by (simp add: ws answers_ok_def)
  note ans = answers_waiters [OF this, of _ response sid "ys_out s"]
  have inw: "map_of ws j = Some c \<Longrightarrow> rq_key (rq j) = ?k \<and> c = rq_channel (rq j) \<and> \<not> early (ys_phase s j) \<and>
      answers j (ys_out s) = []" for j c
    using ok unfolding answers_ok_def ws by (metis map_of_SomeD)
  have now: "map_of ws j = None \<longleftrightarrow> j \<notin> fst ` set ws" for j by (simp add: map_of_eq_None_iff)
  have all: "answers j (ys_out ?s) = (case map_of ws j of None \<Rightarrow> answers j (ys_out s)
      | Some c \<Rightarrow> [(rq_channel (rq j), into_server_event response j sid)])" for j
    using inw by (auto simp: ans split: option.split)
  show ?thesis
  proof (rule answers_okI; unfold left all)
    show "distinct (map fst (if k = ?k then [] else waiters_of s k))" for k using answers_okD(1) [OF ok] by simp
  next
    fix k j c assume a: "(j, c) \<in> set (if k = ?k then [] else waiters_of s k)"
    then have k: "k \<noteq> ?k" and j: "(j, c) \<in> set (waiters_of s k)" by (auto split: if_splits)
    note jw = answers_okD(2) [OF ok j]
    have "map_of ws j = None" using inw [of j] k jw by (cases "map_of ws j") auto
    then show "k = rq_key (rq j) \<and> c = rq_channel (rq j) \<and> \<not> early (ys_phase ?s j) \<and>
      (case map_of ws j of None \<Rightarrow> answers j (ys_out s)
        | Some c \<Rightarrow> [(rq_channel (rq j), into_server_event response j sid)]) = []"
      using jw by simp
  next
    fix j assume e: "early (ys_phase ?s j)"
    then have j: "j \<noteq> i" "early (ys_phase s j)" by (auto split: if_splits)
    then have "map_of ws j = None" using inw [of j] by (cases "map_of ws j") auto
    then show "(case map_of ws j of None \<Rightarrow> answers j (ys_out s)
        | Some c \<Rightarrow> [(rq_channel (rq j), into_server_event response j sid)]) = []"
      using answers_okD(3) [OF ok j(2)] by simp
  next
    show "length (case map_of ws j of None \<Rightarrow> answers j (ys_out s)
        | Some c \<Rightarrow> [(rq_channel (rq j), into_server_event response j sid)]) \<le> 1" for j
      using answers_okD(4) [OF ok] by (simp split: option.split)
  next
    fix j c e assume "(c, e) \<in> set (case map_of ws j of None \<Rightarrow> answers j (ys_out s)
        | Some c \<Rightarrow> [(rq_channel (rq j), into_server_event response j sid)])"
    then show "c = rq_channel (rq j)" using answers_okD(5) [OF ok] by (cases "map_of ws j") auto
  next
    fix j assume e: "\<not> early (ys_phase ?s j)"
    have ji: "j = i \<Longrightarrow> \<not> early (ys_phase s j)" by (simp add: ph)
    have ne: "\<not> early (ys_phase s j)" using e ji by (cases "j = i") auto
    show "(\<not> settled (ys_phase ?s j) \<and> j \<in> fst ` set (if rq_key (rq j) = ?k then [] else waiters_of s (rq_key (rq j)))) \<or>
      (case map_of ws j of None \<Rightarrow> answers j (ys_out s)
        | Some c \<Rightarrow> [(rq_channel (rq j), into_server_event response j sid)]) \<noteq> []"
      using answers_okD(6) [OF ok ne] now [of j] ws by (cases "map_of ws j"; cases "j = i") auto
  qed
qed

lemma answers_step: "mutation_step rq s s' \<Longrightarrow> elections_ok rq s \<Longrightarrow> answers_ok rq s \<Longrightarrow> answers_ok rq s'"
proof (induction rule: mutation_step.induct)
  case (replay s i now found rt response)
  then show ?case using load_mutation_effect(2) by (intro answers_replay) auto
next
  case (miss s i now found rt)
  then show ?case using load_mutation_effect(2) by (intro answers_keep) auto
next
  case (wait s i)
  then show ?case by (intro answers_wait)
next
  case (elect s i rt)
  then show ?case by (intro answers_keep) (auto simp: mark_active_if_new_def)
next
  case (join s i rt)
  then show ?case by (intro answers_keep) (auto simp: mark_active_if_new_def)
next
  case (start s i now ms rt)
  then show ?case using ensure_pending_effect(2) by (intro answers_keep) auto
next
  case (persist s i ms response p rt)
  then show ?case using persist_effect(3) by (intro answers_keep) auto
next
  case (deliver s i ms response ws rt)
  then have "mu_key ms = rq_key (rq i)" by (auto simp: elections_ok_def)
  then show ?case using deliver by (intro answers_deliver)
next
  case (clear s i ms)
  then show ?case by (intro answers_keep) (auto simp: clear_active_def)
qed

lemma mutation_reach:
  assumes "(mutation_step rq)\<^sup>*\<^sup>* (mutation_start files) s" "files_keyed files"
  shows "elections_ok rq s \<and> answers_ok rq s"
  using assms(1)
  by (induction rule: rtranclp_induct)
    (use elections_start [OF assms(2)] answers_start elections_step answers_step in blast)+

text \<open>
  Property C17. However requests are interleaved: at most one request of a key is carrying out its change at a
  time, every request is answered at most once, on its own channel, and a request that has been
  replayed or has carried out its change and delivered the response has been answered.
\<close>

theorem mutation_safe:
  assumes "files_keyed files" and "(mutation_step rq)\<^sup>*\<^sup>* (mutation_start files) s"
  shows "(if holder (ys_phase s i) \<and> holder (ys_phase s j) \<and> rq_key (rq i) = rq_key (rq j) then i = j else True) \<and>
    length (answers i (ys_out s)) \<le> 1 \<and>
    list_all (\<lambda>(c, e). c = rq_channel (rq i)) (answers i (ys_out s)) \<and>
    (if settled (ys_phase s i) then answers i (ys_out s) \<noteq> [] else True)"
proof -
  note inv = mutation_reach [OF assms(2,1)]
  then have "holder (ys_phase s i) \<and> holder (ys_phase s j) \<and> rq_key (rq i) = rq_key (rq j) \<Longrightarrow> i = j"
    unfolding elections_ok_def by blast
  moreover have "list_all (\<lambda>(c, e). c = rq_channel (rq i)) (answers i (ys_out s))"
    using answers_okD(5) inv by (fastforce simp: list_all_iff)
  moreover have "settled (ys_phase s i) \<Longrightarrow> answers i (ys_out s) \<noteq> []"
    using answers_okD(6) [of rq s i] inv by (cases "ys_phase s i") auto
  ultimately show ?thesis using answers_okD(4) inv by auto
qed

section \<open>Two races\<close>

definition same_requests :: "nat \<Rightarrow> mutation_request" where
  "same_requests i = \<lparr>rq_key = ''k'', rq_action = ''spawn'', rq_session = ''s'', rq_channel = i\<rparr>"

definition sample_state :: "mutation_response option \<Rightarrow> mutation_state" where
  "sample_state r = \<lparr>mu_key = ''k'', mu_action = ''spawn'', mu_session_id = ''s'', mu_created_at_unix_ms = 0,
     mu_final_response = r\<rparr>"

definition sample_runtime :: "mutation_state option \<Rightarrow> bool \<Rightarrow> nat list \<Rightarrow> mutation_runtime" where
  "sample_runtime file active ws =
     \<lparr>mt_files = (case file of None \<Rightarrow> fmempty | Some st \<Rightarrow> fmupd ''k'' (Some st) fmempty),
      mt_active = (if active then {|''k''|} else {||}),
      mt_waiters = (if ws = [] then fmempty else fmupd ''k'' (map (\<lambda>i. (i, i)) ws) fmempty)\<rparr>"

definition two_requests ::
  "mutation_state option \<Rightarrow> bool \<Rightarrow> nat list \<Rightarrow> outbox \<Rightarrow> phase \<Rightarrow> phase \<Rightarrow> mutation_system" where
  "two_requests file active ws out a b =
     \<lparr>ys_runtime = sample_runtime file active ws, ys_out = out,
      ys_phase = (\<lambda>i. if i = 0 then a else if i = 1 then b else Arrived)\<rparr>"

lemma two_simps [simp]:
  "ys_runtime (two_requests f act ws out a b) = sample_runtime f act ws"
  "ys_out (two_requests f act ws out a b) = out"
  "ys_phase (two_requests f act ws out a b) 0 = a" "ys_phase (two_requests f act ws out a b) (Suc 0) = b"
  "rq_key (same_requests i) = ''k''" "rq_channel (same_requests i) = i" "rq_session (same_requests i) = ''s''"
  "rq_action (same_requests i) = ''spawn''"
  by (simp_all add: two_requests_def same_requests_def)

lemma two_move:
  "move 0 p (sample_runtime f' act' ws') out' (two_requests f act ws out a b) = two_requests f' act' ws' out' p b"
  "move (Suc 0) p (sample_runtime f' act' ws') out' (two_requests f act ws out a b) = two_requests f' act' ws' out' a p"
  by (simp_all add: move_def two_requests_def fun_eq_iff)

lemma two_runtime:
  "load_mutation 0 ''k'' (sample_runtime None act ws) = (None, sample_runtime None act ws)"
  "load_mutation 0 ''k'' (sample_runtime (Some (sample_state r)) act ws) =
     (Some (sample_state r), sample_runtime (Some (sample_state r)) act ws)"
  "add_waiter ''k'' i i (sample_runtime f act ws) = sample_runtime f act (ws @ [i])"
  "mark_active_if_new ''k'' (sample_runtime f act ws) = (\<not> act, sample_runtime f True ws)"
  "ensure_pending_state 0 ''k'' ''spawn'' ''s'' (sample_runtime None act ws) =
     (sample_state None, sample_runtime (Some (sample_state None)) act ws)"
  "ensure_pending_state 0 ''k'' ''spawn'' ''s'' (sample_runtime (Some (sample_state r)) act ws) =
     (sample_state r, sample_runtime (Some (sample_state r)) act ws)"
  "persist_final_response (sample_state r) x (sample_runtime f act ws) =
     (sample_state (Some x), sample_runtime (Some (sample_state (Some x))) act ws)"
  "take_waiters ''k'' (sample_runtime f act ws) = (map (\<lambda>i. (i, i)) ws, sample_runtime f act [])"
  "clear_active ''k'' (sample_runtime f act ws) = sample_runtime f False ws"
  "mu_key (sample_state r) = ''k''" "mu_session_id (sample_state r) = ''s''"
  "mu_final_response (sample_state r) = r"
  by (cases f; simp add: load_mutation_def load_json_state_def sample_runtime_def sample_state_def mutation_is_stale_def
      elapsed_exceeds_def add_waiter_def entry_upd_def mark_active_if_new_def ensure_pending_state_def new_mutation_def
      save_mutation_def save_json_state_def persist_final_response_def take_waiters_def get_or_def clear_active_def Let_def
      fmap_ext)+

text \<open>The steps of the first request alone, up to the delivery of its response.\<close>

lemma first_request:
  "(mutation_step same_requests)\<^sup>*\<^sup>* (two_requests None False [] [] Arrived b)
     (two_requests (Some (sample_state (Some RsDone))) True [] [(0, EvDone 0)] (Delivered (sample_state (Some RsDone))) b)"
proof -
  let ?st = "sample_state None" and ?fin = "sample_state (Some RsDone)"
  let ?R = "mutation_step same_requests"
  have "?R (two_requests None False [] [] Arrived b) (two_requests None False [] [] Missed b)"
    using miss [of "two_requests None False [] [] Arrived b" 0 0 same_requests] by (simp add: two_runtime two_move)
  moreover have "?R (two_requests None False [] [] Missed b) (two_requests None False [0] [] Waiting b)"
    using wait [of "two_requests None False [] [] Missed b" 0 same_requests] by (simp add: two_runtime two_move)
  moreover have "?R (two_requests None False [0] [] Waiting b) (two_requests None True [0] [] Elected b)"
    using elect [of "two_requests None False [0] [] Waiting b" 0 same_requests] by (simp add: two_runtime two_move)
  moreover have "?R (two_requests None True [0] [] Elected b) (two_requests (Some ?st) True [0] [] (Executing ?st) b)"
    using start [of "two_requests None True [0] [] Elected b" 0 0 same_requests] by (simp add: two_runtime two_move)
  moreover have "?R (two_requests (Some ?st) True [0] [] (Executing ?st) b)
      (two_requests (Some ?fin) True [0] [] (Persisted ?fin RsDone) b)"
    using persist [of "two_requests (Some ?st) True [0] [] (Executing ?st) b" 0 ?st RsDone _ _ same_requests]
    by (simp add: two_runtime two_move)
  moreover have "?R (two_requests (Some ?fin) True [0] [] (Persisted ?fin RsDone) b)
      (two_requests (Some ?fin) True [] [(0, EvDone 0)] (Delivered ?fin) b)"
    using deliver [of "two_requests (Some ?fin) True [0] [] (Persisted ?fin RsDone) b" 0 ?fin RsDone _ _ same_requests]
    by (simp add: two_runtime two_move answer_waiters_def send_event_def)
  ultimately show ?thesis by (meson converse_rtranclp_into_rtranclp rtranclp.rtrancl_refl)
qed

lemma two_start: "mutation_start fmempty = two_requests None False [] [] Arrived Arrived"
  by (simp add: mutation_start_def two_requests_def sample_runtime_def fun_eq_iff)

text \<open>The second request has looked for a response in vain before the first one stored it.\<close>

lemma second_missed:
  "(mutation_step same_requests)\<^sup>*\<^sup>* (mutation_start fmempty)
     (two_requests (Some (sample_state (Some RsDone))) True [] [(0, EvDone 0)] (Delivered (sample_state (Some RsDone))) Missed)"
proof -
  have "mutation_step same_requests (two_requests None False [] [] Arrived Arrived) (two_requests None False [] [] Arrived Missed)"
    using miss [of "two_requests None False [] [] Arrived Arrived" "Suc 0" 0 same_requests] by (simp add: two_runtime two_move)
  then show ?thesis unfolding two_start using first_request by (rule converse_rtranclp_into_rtranclp)
qed

lemma race_lost:
  "(mutation_step same_requests)\<^sup>*\<^sup>* (mutation_start fmempty)
     (two_requests (Some (sample_state (Some RsDone))) False [1] [(0, EvDone 0)] Finished Joined)"
proof -
  let ?R = "mutation_step same_requests" and ?fin = "sample_state (Some RsDone)" and ?sent = "[(0, EvDone 0)]"
  have "?R (two_requests (Some ?fin) True [] ?sent (Delivered ?fin) Missed) (two_requests (Some ?fin) True [1] ?sent (Delivered ?fin) Waiting)"
    using wait [of "two_requests (Some ?fin) True [] ?sent (Delivered ?fin) Missed" "Suc 0" same_requests]
    by (simp add: two_runtime two_move)
  moreover have "?R (two_requests (Some ?fin) True [1] ?sent (Delivered ?fin) Waiting) (two_requests (Some ?fin) True [1] ?sent (Delivered ?fin) Joined)"
    using join [of "two_requests (Some ?fin) True [1] ?sent (Delivered ?fin) Waiting" "Suc 0" same_requests]
    by (simp add: two_runtime two_move)
  moreover have "?R (two_requests (Some ?fin) True [1] ?sent (Delivered ?fin) Joined) (two_requests (Some ?fin) False [1] ?sent Finished Joined)"
    using clear [of "two_requests (Some ?fin) True [1] ?sent (Delivered ?fin) Joined" 0 ?fin same_requests]
    by (simp add: two_runtime two_move)
  ultimately show ?thesis using second_missed by (meson rtranclp.rtrancl_into_rtrancl)
qed

lemma race_twice:
  "(mutation_step same_requests)\<^sup>*\<^sup>* (mutation_start fmempty)
     (two_requests (Some (sample_state (Some (RsError ''failed'' None)))) False []
       ([(0, EvDone 0)] @ [(1, EvError 1 ''failed'' None)]) Finished Finished)"
proof -
  let ?R = "mutation_step same_requests" and ?fin = "sample_state (Some RsDone)" and ?sent = "[(0, EvDone 0)]"
  let ?err = "sample_state (Some (RsError ''failed'' None))"
  have "?R (two_requests (Some ?fin) True [] ?sent (Delivered ?fin) Missed) (two_requests (Some ?fin) False [] ?sent Finished Missed)"
    using clear [of "two_requests (Some ?fin) True [] ?sent (Delivered ?fin) Missed" 0 ?fin same_requests]
    by (simp add: two_runtime two_move)
  moreover have "?R (two_requests (Some ?fin) False [] ?sent Finished Missed) (two_requests (Some ?fin) False [1] ?sent Finished Waiting)"
    using wait [of "two_requests (Some ?fin) False [] ?sent Finished Missed" "Suc 0" same_requests]
    by (simp add: two_runtime two_move)
  moreover have "?R (two_requests (Some ?fin) False [1] ?sent Finished Waiting) (two_requests (Some ?fin) True [1] ?sent Finished Elected)"
    using elect [of "two_requests (Some ?fin) False [1] ?sent Finished Waiting" "Suc 0" same_requests]
    by (simp add: two_runtime two_move)
  moreover have "?R (two_requests (Some ?fin) True [1] ?sent Finished Elected) (two_requests (Some ?fin) True [1] ?sent Finished (Executing ?fin))"
    using start [of "two_requests (Some ?fin) True [1] ?sent Finished Elected" "Suc 0" 0 same_requests]
    by (simp add: two_runtime two_move)
  moreover have "?R (two_requests (Some ?fin) True [1] ?sent Finished (Executing ?fin))
      (two_requests (Some ?err) True [1] ?sent Finished (Persisted ?err (RsError ''failed'' None)))"
    using persist [of "two_requests (Some ?fin) True [1] ?sent Finished (Executing ?fin)" "Suc 0" ?fin
        "RsError ''failed'' None" _ _ same_requests]
    by (simp add: two_runtime two_move)
  moreover have "?R (two_requests (Some ?err) True [1] ?sent Finished (Persisted ?err (RsError ''failed'' None)))
      (two_requests (Some ?err) True [] (?sent @ [(1, EvError 1 ''failed'' None)]) Finished (Delivered ?err))"
    using deliver [of "two_requests (Some ?err) True [1] ?sent Finished (Persisted ?err (RsError ''failed'' None))" "Suc 0"
        ?err "RsError ''failed'' None" _ _ same_requests]
    by (simp add: two_runtime two_move answer_waiters_def send_event_def)
  moreover have "?R (two_requests (Some ?err) True [] (?sent @ [(1, EvError 1 ''failed'' None)]) Finished (Delivered ?err))
      (two_requests (Some ?err) False [] (?sent @ [(1, EvError 1 ''failed'' None)]) Finished Finished)"
    using clear [of "two_requests (Some ?err) True [] (?sent @ [(1, EvError 1 ''failed'' None)]) Finished (Delivered ?err)"
        "Suc 0" ?err same_requests]
    by (simp add: two_runtime two_move)
  ultimately show ?thesis using second_missed by (meson rtranclp.rtrancl_into_rtrancl)
qed

text \<open>
  A request that looks for a response before the other one stores it, and queues itself after the
  other one has taken the waiters, either joins a request that no longer answers, and stays without an answer
  though nothing is under way any more, or carries out the change a second time.
\<close>

theorem mutation_race:
  "(\<exists>s. (mutation_step same_requests)\<^sup>*\<^sup>* (mutation_start fmempty) s \<and>
      ys_phase s 0 = Finished \<and> ys_phase s 1 = Joined \<and> answers 1 (ys_out s) = [] \<and> mt_active (ys_runtime s) = {||}) \<and>
   (\<exists>s. (mutation_step same_requests)\<^sup>*\<^sup>* (mutation_start fmempty) s \<and>
      ys_phase s 0 = Finished \<and> ys_phase s 1 = Finished \<and> ys_out s = [(0, EvDone 0), (1, EvError 1 ''failed'' None)])"
proof (intro conjI)
  show "\<exists>s. (mutation_step same_requests)\<^sup>*\<^sup>* (mutation_start fmempty) s \<and>
      ys_phase s 0 = Finished \<and> ys_phase s 1 = Joined \<and> answers 1 (ys_out s) = [] \<and> mt_active (ys_runtime s) = {||}"
    by (intro exI conjI, rule race_lost) (simp_all add: answers_def sample_runtime_def)
  show "\<exists>s. (mutation_step same_requests)\<^sup>*\<^sup>* (mutation_start fmempty) s \<and>
      ys_phase s 0 = Finished \<and> ys_phase s 1 = Finished \<and> ys_out s = [(0, EvDone 0), (1, EvError 1 ''failed'' None)]"
    by (intro exI conjI, rule race_twice) simp_all
qed

text \<open>The first request alone ends answered.\<close>

theorem mutation_safe_witness:
  "\<exists>s. (mutation_step same_requests)\<^sup>*\<^sup>* (mutation_start fmempty) s \<and> settled (ys_phase s 0) \<and>
     answers 0 (ys_out s) \<noteq> [] \<and> length (answers 0 (ys_out s)) \<le> 1"
proof -
  let ?s = "two_requests (Some (sample_state (Some RsDone))) True [] [(0, EvDone 0)]
    (Delivered (sample_state (Some RsDone))) Arrived"
  have r: "(mutation_step same_requests)\<^sup>*\<^sup>* (mutation_start fmempty) ?s" using first_request by (simp add: two_start)
  have "files_keyed fmempty" by (simp add: files_keyed_def)
  from mutation_safe [OF this r, of 0 0] r show ?thesis by (intro exI [of _ ?s]) simp
qed

end
