(* ===== verification/SwarmControlProperties.thy ===== *)
theory SwarmControlProperties
  imports SwarmSessions SwarmMessages SwarmServerProperties SwarmMutationProperties
begin

text \<open>
  What the coordination of a swarm promises, whatever handlers and steps of task runs follow each other:
  every request is answered once, versions tell plans apart, the state stays well formed; what an assignment
  does, whom it picks, how a proposal reaches the plan; and what happens when a request is repeated or a
  task changes hands while it runs.
\<close>

section \<open>Steps that leave plans, roles and pending requests alone\<close>

definition steady_core :: "server \<Rightarrow> server" where
  "steady_core st =
     (swarm_core st)\<lparr>sv_history := [], sv_counter := 0, sv_broadcast := [], sv_disk := fmempty, sv_runs := []\<rparr>"

definition steady :: "server \<Rightarrow> server \<Rightarrow> bool" where
  "steady st st' \<longleftrightarrow> steady_core st' = steady_core st \<and> (\<forall>i. answers i (sv_out st') = answers i (sv_out st))"

lemma steady_refl [simp, intro]: "steady st st"
  by (simp add: steady_def)

lemma steady_trans [trans]: "steady a b \<Longrightarrow> steady b c \<Longrightarrow> steady a c"
  by (simp add: steady_def)

lemma quiet_steady: "quiet st st' \<Longrightarrow> steady st st'"
  by (simp add: quiet_def steady_def steady_core_def)

lemma steady_fields:
  assumes "steady st st'"
  shows "fmmap member_core (sv_members st') = fmmap member_core (sv_members st)" "sv_swarms st' = sv_swarms st"
    "sv_plans st' = sv_plans st" "sv_coordinators st' = sv_coordinators st" "sv_context st' = sv_context st"
    "sv_agents st' = sv_agents st" "sv_connections st' = sv_connections st" "sv_mutations st' = sv_mutations st"
    "sv_closed st' = sv_closed st" "answers i (sv_out st') = answers i (sv_out st)"
proof -
  have c: "steady_core st' = steady_core st" using assms by (simp add: steady_def)
  show "fmmap member_core (sv_members st') = fmmap member_core (sv_members st)"
    using arg_cong [OF c, of sv_members] by (simp add: steady_core_def swarm_core_fields)
  show "sv_swarms st' = sv_swarms st" using arg_cong [OF c, of sv_swarms] by (simp add: steady_core_def swarm_core_fields)
  show "sv_plans st' = sv_plans st" using arg_cong [OF c, of sv_plans] by (simp add: steady_core_def swarm_core_fields)
  show "sv_coordinators st' = sv_coordinators st"
    using arg_cong [OF c, of sv_coordinators] by (simp add: steady_core_def swarm_core_fields)
  show "sv_context st' = sv_context st" using arg_cong [OF c, of sv_context] by (simp add: steady_core_def swarm_core_fields)
  show "sv_agents st' = sv_agents st" using arg_cong [OF c, of sv_agents] by (simp add: steady_core_def swarm_core_fields)
  show "sv_connections st' = sv_connections st"
    using arg_cong [OF c, of sv_connections] by (simp add: steady_core_def swarm_core_fields)
  show "sv_mutations st' = sv_mutations st"
    using arg_cong [OF c, of sv_mutations] by (simp add: steady_core_def swarm_core_fields)
  show "sv_closed st' = sv_closed st" using arg_cong [OF c, of sv_closed] by (simp add: steady_core_def swarm_core_fields)
  show "answers i (sv_out st') = answers i (sv_out st)" using assms by (simp add: steady_def)
qed

lemma steady_foldl: "(\<And>st x. x \<in> set xs \<Longrightarrow> steady st (f st x)) \<Longrightarrow> steady st (foldl f st xs)"
proof (induction xs arbitrary: st)
  case (Cons x xs)
  have "steady st (f st x)" using Cons.prems by simp
  moreover have "steady (f st x) (foldl f (f st x) xs)" using Cons.prems by (intro Cons.IH) simp
  ultimately show ?case by (simp add: steady_trans)
qed simp

lemma steady_persist: "steady st (persist_swarm_state_for env now s st)"
  by (simp add: persist_swarm_state_for_def persist_swarm_state_def Let_def steady_def steady_core_def swarm_core_def)

lemma steady_record: "steady st (record_swarm_event now sid name sw e st)"
  by (simp add: record_swarm_event_def Let_def steady_def steady_core_def swarm_core_def)

lemma steady_run: "steady st (spawn_assigned_task_run sid sw t text st)"
  by (simp add: spawn_assigned_task_run_def steady_def steady_core_def swarm_core_def)

lemma steady_plan_note:
  "steady st (interrupt env sid content (send_member sid (plan_note scope from name msg) st))"
  "steady st (send_member sid (plan_note scope from name msg) st)"
  by (rule quiet_steady, rule quiet_trans [OF quiet_send_member quiet_interrupt] quiet_send_member;
      simp add: plan_note_def)+

lemmas steadies = steady_persist steady_record steady_run steady_plan_note quiets [THEN quiet_steady]

text \<open>One after the other, in the order of the code.\<close>

lemmas steady_then = steady_trans [OF _ steady_persist] steady_trans [OF _ steady_record]
  steady_trans [OF _ steady_run] steady_trans [OF _ steady_plan_note(1)] steady_trans [OF _ steady_plan_note(2)]
  quiets [THEN quiet_steady, THEN [2] steady_trans]

lemma steady_announce: "steady st (announce_assignment env now req sw target item message plan st)"
proof -
  let ?s1 = "persist_swarm_state_for env now sw st"
  let ?s2 = "broadcast_swarm_plan env sw (Some ''task_assigned'') ?s1"
  let ?s3 = "record_swarm_event now req None (Some sw) (SwPlanUpdate sw (length (vp_items plan))) ?s2"
  have 3: "steady st ?s3" by (intro steady_then(1,2) steady_trans [OF _ quiet_steady [OF quiet_plan]] steady_refl)
  show ?thesis
    unfolding announce_assignment_def Let_def
    by (rule steady_trans [OF 3], rule steady_trans [rotated], rule steady_foldl, rule steady_plan_note(2))
      (auto intro: steady_trans [OF steady_trans [OF quiet_steady [OF quiet_interrupt] steady_plan_note(2)] steady_run]
        steady_trans [OF quiet_steady [OF quiet_interrupt] steady_plan_note(2)])
qed

section \<open>Steps forward\<close>

text \<open>
  A plan is replaced only by one of a higher version, or by one whose items differ at most in the sessions
  they are assigned to (those are renamed without a new version).
\<close>

definition tasks_of :: "versioned_plan \<Rightarrow> plan_item list" where
  "tasks_of p = map (\<lambda>i. i\<lparr>pi_assigned_to := None\<rparr>) (vp_items p)"

definition plan_le :: "versioned_plan \<Rightarrow> versioned_plan \<Rightarrow> bool" where
  "plan_le p p' \<longleftrightarrow> vp_version p < vp_version p' \<or> (vp_version p = vp_version p' \<and> tasks_of p' = tasks_of p)"

definition plans_le :: "server \<Rightarrow> server \<Rightarrow> bool" where
  "plans_le st st' \<longleftrightarrow> (\<forall>s p. fmlookup (sv_plans st) s = Some p \<longrightarrow>
     (\<exists>p'. fmlookup (sv_plans st') s = Some p' \<and> plan_le p p'))"

lemma plan_le_refl [simp]: "plan_le p p"
  by (simp add: plan_le_def)

lemma plan_le_same: "vp_version p' = vp_version p \<Longrightarrow> vp_items p' = vp_items p \<Longrightarrow> plan_le p p'"
  by (simp add: plan_le_def tasks_of_def)

lemma plan_le_trans: "plan_le p q \<Longrightarrow> plan_le q r \<Longrightarrow> plan_le p r"
  by (auto simp: plan_le_def)

lemma plans_le_refl [simp]: "plans_le st st"
  by (simp add: plans_le_def)

lemma plans_le_trans: "plans_le a b \<Longrightarrow> plans_le b c \<Longrightarrow> plans_le a c"
  unfolding plans_le_def by (meson plan_le_trans)

text \<open>A member is listed in the set of its swarm.\<close>

definition swarms_listed :: "server \<Rightarrow> bool" where
  "swarms_listed st \<longleftrightarrow>
     (\<forall>i sw. Option.bind (fmlookup (sv_members st) i) sm_swarm_id = Some sw \<longrightarrow> i |\<in>| get_or {||} (sv_swarms st) sw)"

text \<open>Unless something has panicked, every key of a wait that counts as active has its task.\<close>

definition covers :: "string fset \<Rightarrow> member_wait list \<Rightarrow> bool" where
  "covers active waits \<longleftrightarrow> (\<forall>k. k |\<in>| active \<longrightarrow> (\<exists>w \<in> set waits. at_key (wt_state w) = k))"

definition waits_covered :: "server \<Rightarrow> bool" where
  "waits_covered st \<longleftrightarrow> sv_panicked st \<or> covers (aw_active (sv_awaits st)) (sv_waits st)"

definition waits_le :: "server \<Rightarrow> server \<Rightarrow> bool" where
  "waits_le st st' \<longleftrightarrow> (sv_panicked st \<longrightarrow> sv_panicked st') \<and> (waits_covered st \<longrightarrow> waits_covered st')"

lemma waits_le_refl [simp]: "waits_le st st"
  by (simp add: waits_le_def)

lemma waits_le_trans: "waits_le a b \<Longrightarrow> waits_le b c \<Longrightarrow> waits_le a c"
  by (simp add: waits_le_def)

lemma waits_le_same:
  "sv_awaits st' = sv_awaits st \<Longrightarrow> sv_waits st' = sv_waits st \<Longrightarrow> (sv_panicked st \<Longrightarrow> sv_panicked st') \<Longrightarrow>
   waits_le st st'"
  by (auto simp: waits_le_def waits_covered_def)

text \<open>What every step keeps, and a step that answers no request and does not touch the pending ones.\<close>

definition evolves :: "server \<Rightarrow> server \<Rightarrow> bool" where
  "evolves st st' \<longleftrightarrow> plans_le st st' \<and> sv_closed st |\<subseteq>| sv_closed st' \<and>
     (members_keyed st \<longrightarrow> members_keyed st') \<and> (history_ok st \<longrightarrow> history_ok st') \<and>
     (swarms_listed st \<longrightarrow> swarms_listed st') \<and> waits_le st st'"

definition silent :: "server \<Rightarrow> server \<Rightarrow> bool" where
  "silent st st' \<longleftrightarrow> evolves st st' \<and> sv_mutations st' = sv_mutations st \<and>
     (\<forall>i. answers i (sv_out st') = answers i (sv_out st))"

lemma silent_refl [simp, intro]: "silent st st"
  by (simp add: silent_def evolves_def)

lemma evolves_trans: "evolves a b \<Longrightarrow> evolves b c \<Longrightarrow> evolves a c"
  unfolding evolves_def by (meson plans_le_trans fsubset_trans waits_le_trans)

lemma silent_trans [trans]: "silent a b \<Longrightarrow> silent b c \<Longrightarrow> silent a c"
  unfolding silent_def by (metis evolves_trans)

lemma silent_foldl: "(\<And>st x. x \<in> set xs \<Longrightarrow> silent st (f st x)) \<Longrightarrow> silent st (foldl f st xs)"
proof (induction xs arbitrary: st)
  case (Cons x xs)
  have "silent st (f st x)" using Cons.prems by simp
  moreover have "silent (f st x) (foldl f (f st x) xs)" using Cons.prems by (intro Cons.IH) simp
  ultimately show ?case by (simp add: silent_trans)
qed simp

lemma keyed_core:
  assumes "fmmap member_core m' = fmmap member_core m"
  shows "map_option sm_session_id (fmlookup m' i) = map_option sm_session_id (fmlookup m i)"
  using assms by (rule core_field) simp

lemma members_keyed_alt:
  "members_keyed st \<longleftrightarrow> (\<forall>i x. map_option sm_session_id (fmlookup (sv_members st) i) = Some x \<longrightarrow> x = i)"
  by (auto simp: members_keyed_def swarms_listed_def)

lemma listed_alt:
  "swarms_listed st \<longleftrightarrow> (\<forall>i sw. map_option sm_swarm_id (fmlookup (sv_members st) i) = Some (Some sw) \<longrightarrow>
     i |\<in>| get_or {||} (sv_swarms st) sw)"
  by (auto simp: swarms_listed_def bind_eq_Some_conv)

lemma listed_core:
  assumes "fmmap member_core m' = fmmap member_core m"
  shows "map_option sm_swarm_id (fmlookup m' i) = map_option sm_swarm_id (fmlookup m i)"
  using assms by (rule core_field) simp

lemma quiet_silent: "quiet st st' \<Longrightarrow> silent st st'"
  by (simp add: listed_alt listed_core [OF quiet_fields(1)] silent_def evolves_def waits_le_same plans_le_def quiet_fields history_quiet members_keyed_alt
      keyed_core [OF quiet_fields(1)])

lemma silent_persist: "silent st (persist_swarm_state_for env now s st)"
  by (simp add: silent_def evolves_def waits_le_same persist_fields plans_le_def persist_fields members_keyed_def swarms_listed_def history_ok_def)

lemma silent_remove_persisted: "silent st (remove_persisted_swarm_state_for env s st)"
  by (simp add: remove_persisted_swarm_state_for_def silent_def evolves_def waits_le_same plans_le_def members_keyed_def swarms_listed_def
      history_ok_def)

lemma silent_record: "silent st (record_swarm_event now sid name sw e st)"
proof -
  have "sv_plans (record_swarm_event now sid name sw e st) = sv_plans st"
    "sv_closed (record_swarm_event now sid name sw e st) = sv_closed st"
    "sv_members (record_swarm_event now sid name sw e st) = sv_members st"
    "sv_mutations (record_swarm_event now sid name sw e st) = sv_mutations st"
    "sv_swarms (record_swarm_event now sid name sw e st) = sv_swarms st"
    "sv_out (record_swarm_event now sid name sw e st) = sv_out st"
    "waits_le st (record_swarm_event now sid name sw e st)"
    by (simp_all add: record_swarm_event_def Let_def waits_le_same)
  then show ?thesis by (simp add: silent_def evolves_def waits_le_same plans_le_def members_keyed_def swarms_listed_def history_record)
qed

lemma silent_run: "silent st (spawn_assigned_task_run sid sw t text st)"
  by (simp add: spawn_assigned_task_run_def silent_def evolves_def waits_le_same plans_le_def members_keyed_def swarms_listed_def history_ok_def)

lemma silent_context: "silent st (st\<lparr>sv_context := x\<rparr>)"
  by (simp add: silent_def evolves_def waits_le_same plans_le_def members_keyed_def swarms_listed_def history_ok_def)

lemma silent_store: "silent st (store_proposal env now sw sid name items st)"
  by (simp add: store_proposal_def silent_context)

lemma silent_drop: "silent st (drop_proposal sw sid st)"
  by (simp add: drop_proposal_def silent_context)

lemma silent_coordinators: "silent st (st\<lparr>sv_coordinators := x\<rparr>)"
  by (simp add: silent_def evolves_def waits_le_same plans_le_def members_keyed_def swarms_listed_def history_ok_def)

lemma silent_upd_member:
  "(\<And>m. sm_session_id (f m) = sm_session_id m) \<Longrightarrow> (\<And>m. sm_swarm_id (f m) = sm_swarm_id m) \<Longrightarrow> silent st (upd_member f sid st)"
  by (auto simp: upd_member_def silent_def evolves_def waits_le_same plans_le_def members_keyed_def listed_alt history_ok_def
      lookup_update_existing option.map_comp comp_def split: if_splits)

lemma silent_plans:
  "(\<And>s p. fmlookup (sv_plans st) s = Some p \<Longrightarrow> \<exists>p'. fmlookup plans s = Some p' \<and> plan_le p p') \<Longrightarrow>
   silent st (st\<lparr>sv_plans := plans\<rparr>)"
  by (simp add: silent_def evolves_def waits_le_same plans_le_def members_keyed_def swarms_listed_def history_ok_def)

lemma silent_upd_plan: "(\<And>p. plan_le p (f p)) \<Longrightarrow> silent st (upd_plan f sw st)"
  by (auto simp: upd_plan_def lookup_update_existing intro!: silent_plans)

lemma silent_set_plan:
  "(\<And>p. fmlookup (sv_plans st) sw = Some p \<Longrightarrow> plan_le p plan) \<Longrightarrow>
   silent st (st\<lparr>sv_plans := fmupd sw plan (sv_plans st)\<rparr>)"
  by (auto intro!: silent_plans)

text \<open>The steps the handlers are made of, one after the other.\<close>

lemmas silents = silent_persist silent_remove_persisted silent_record silent_run silent_context silent_store
  silent_drop silent_coordinators quiets [THEN quiet_silent]

lemmas silent_then = silents [THEN [2] silent_trans]

section \<open>Every request is answered once\<close>

text \<open>Between two handlers no request is under way, and stored responses are filed under their key.\<close>

definition mutations_rest :: "server \<Rightarrow> bool" where
  "mutations_rest st \<longleftrightarrow> mt_active (sv_mutations st) = {||} \<and> mt_waiters (sv_mutations st) = fmempty \<and>
     files_keyed (mt_files (sv_mutations st))"

text \<open>The answer a request must get: one event with its number on its channel, if that is open.\<close>

definition one_answer :: "comm_request \<Rightarrow> server \<Rightarrow> server \<Rightarrow> bool" where
  "one_answer r st st' \<longleftrightarrow>
     (\<exists>e. answered_id e = Some (cr_id r) \<and>
        (\<forall>i. answers i (sv_out st') = answers i (sv_out st) @
           (if i = cr_id r \<and> cr_channel r |\<notin>| sv_closed st' then [(cr_channel r, e)] else [])))"

definition answered :: "comm_request \<Rightarrow> server \<Rightarrow> server \<Rightarrow> bool" where
  "answered r st st' \<longleftrightarrow> (mutations_rest st \<longrightarrow> evolves st st' \<and> mutations_rest st' \<and> one_answer r st st')"

lemma rest_silent: "silent st st' \<Longrightarrow> mutations_rest st' = mutations_rest st"
  by (simp add: silent_def mutations_rest_def)

lemma silent_answered: "silent a b \<Longrightarrow> answered r b c \<Longrightarrow> answered r a c"
  unfolding answered_def one_answer_def
  using rest_silent [of a b]
  by (auto simp: silent_def intro: evolves_trans)

lemma answer_answered: "answered_id e = Some (cr_id r) \<Longrightarrow> answered r st (answer r e st)"
  by (auto simp: answered_def one_answer_def answer_def send_to_def evolves_def waits_le_same plans_le_def members_keyed_def swarms_listed_def
      history_ok_def mutations_rest_def)

lemma refuse_answered: "answered r st (refuse r msg retry st)"
  by (simp add: refuse_def answer_answered)

text \<open>A request that may change the swarm: it is replayed, or it starts and has to be finished.\<close>

lemma load_rest:
  assumes "load_mutation now key rt = (found, rt')" "files_keyed (mt_files rt)"
  shows "mt_active rt' = mt_active rt" "mt_waiters rt' = mt_waiters rt" "files_keyed (mt_files rt')"
  using load_mutation_effect [OF assms(1)] assms(2) by blast+

definition started :: "comm_request \<Rightarrow> mutation_state \<Rightarrow> server \<Rightarrow> server \<Rightarrow> bool" where
  "started r ms st st' \<longleftrightarrow> evolves st st' \<and> sv_out st' = sv_out st \<and>
     (mutations_rest st \<longrightarrow> mt_active (sv_mutations st') = {|mu_key ms|} \<and>
        mt_waiters (sv_mutations st') = fmupd (mu_key ms) [(cr_id r, cr_channel r)] fmempty \<and>
        files_keyed (mt_files (sv_mutations st')))"

lemma evolves_out: "evolves st (st\<lparr>sv_mutations := rt, sv_out := out\<rparr>)"
  by (simp add: evolves_def waits_le_same plans_le_def members_keyed_def swarms_listed_def history_ok_def)

lemma begin_cases:
  assumes "begin_mutation env now action components r st = (found, st')" "mutations_rest st"
  shows "case found of None \<Rightarrow> answered r st st' | Some ms \<Rightarrow> started r ms st st'"
proof -
  let ?key = "hashed_request_key (en_hash env) (cr_session r) action components"
  obtain stored rt1 where l: "load_mutation now ?key (sv_mutations st) = (stored, rt1)" by fastforce
  have rest: "mt_active (sv_mutations st) = {||}" "mt_waiters (sv_mutations st) = fmempty"
    "files_keyed (mt_files (sv_mutations st))"
    using assms(2) by (simp_all add: mutations_rest_def)
  note rt1 = load_rest [OF l rest(3)]
  note ev = evolves_out [where st = st]
  show ?thesis
  proof (cases "Option.bind stored mu_final_response")
    case (Some response)
    then have "found = None" and st': "st' = st\<lparr>sv_mutations := rt1,
        sv_out := send_event (sv_closed st) (cr_channel r) (into_server_event response (cr_id r) (cr_session r)) (sv_out st)\<rparr>"
      using assms(1) by (auto simp: begin_mutation_def begin_or_replay_def l)
    moreover have "one_answer r st st'"
      unfolding one_answer_def st'
      by (intro exI [of _ "into_server_event response (cr_id r) (cr_session r)"]) auto
    ultimately show ?thesis
      using rt1 rest ev by (simp add: answered_def mutations_rest_def)
  next
    case None
    let ?rt2 = "snd (mark_active_if_new ?key (add_waiter ?key (cr_id r) (cr_channel r) rt1))"
    obtain ms rt3 where e: "ensure_pending_state now ?key action (cr_session r) ?rt2 = (ms, rt3)" by fastforce
    have rt2: "mt_active ?rt2 = {|?key|}" "mt_waiters ?rt2 = fmupd ?key [(cr_id r, cr_channel r)] fmempty"
      "files_keyed (mt_files ?rt2)"
      using rt1 rest by (simp_all add: mark_active_if_new_def add_waiter_def entry_upd_def get_or_def)
    have new: "fst (mark_active_if_new ?key (add_waiter ?key (cr_id r) (cr_channel r) rt1))"
      using rt1 rest by (simp add: mark_active_if_new_def add_waiter_def)
    have "begin_or_replay now (sv_closed st) ?key action (cr_session r) (cr_id r) (cr_channel r) (sv_mutations st, sv_out st) =
        (Some ms, rt3, sv_out st)"
      using new unfolding begin_or_replay_def Let_def prod.case l None option.case
      by (simp add: case_prod_beta e)
    then have "found = Some ms" "st' = st\<lparr>sv_mutations := rt3, sv_out := sv_out st\<rparr>"
      using assms(1) by (auto simp: begin_mutation_def)
    moreover note ensure_pending_effect [OF e]
    ultimately show ?thesis using rt2 evolves_out [where st = st and rt = rt3 and out = "sv_out st"] by (simp add: started_def)
  qed
qed

lemma finish_answered:
  assumes "started r ms st st1" "silent st1 st2"
  shows "answered r st (finish_mutation ms response st2)"
proof -
  obtain p rt2 where e: "persist_final_response ms response (sv_mutations st2) = (p, rt2)" by fastforce
  note pe = persist_effect [OF e]
  have k: "mu_key p = mu_key ms" "mu_session_id p = mu_session_id ms" by (simp_all add: pe(1))
  have f: "finish_mutation ms response st2 = st2\<lparr>sv_mutations := clear_active (mu_key ms) (snd (take_waiters (mu_key ms) rt2)),
      sv_out := answer_waiters (sv_closed st2) response (mu_session_id ms) (fst (take_waiters (mu_key ms) rt2)) (sv_out st2)\<rparr>"
    unfolding finish_mutation_def finish_request_def prod.case Let_def e k by (simp add: case_prod_beta)
  have s: "evolves st st2" "sv_mutations st2 = sv_mutations st1" "answers i (sv_out st2) = answers i (sv_out st)" for i
    using assms by (auto simp: started_def silent_def intro: evolves_trans)
  have ev: "evolves st (finish_mutation ms response st2)"
    unfolding f by (rule evolves_trans [OF s(1) evolves_out])
  show ?thesis
  proof (cases "mutations_rest st")
    case True
    then have rt: "mt_active (sv_mutations st2) = {|mu_key ms|}" "files_keyed (mt_files (sv_mutations st2))"
      "mt_waiters (sv_mutations st2) = fmupd (mu_key ms) [(cr_id r, cr_channel r)] fmempty"
      using assms(1) by (simp_all add: started_def s(2))
    have w: "fst (take_waiters (mu_key ms) rt2) = [(cr_id r, cr_channel r)]"
      "mt_waiters (snd (take_waiters (mu_key ms) rt2)) = fmempty"
      by (simp_all add: take_waiters_def pe(3) rt(3) get_or_def fmdrop_fmupd_same)
    have "mutations_rest (finish_mutation ms response st2)"
      using w(2) pe rt by (simp add: f mutations_rest_def clear_active_def take_waiters_def)
    moreover have "one_answer r st (finish_mutation ms response st2)"
      unfolding one_answer_def f
      by (intro exI [of _ "into_server_event response (cr_id r) (mu_session_id ms)"])
        (auto simp: w(1) answer_waiters_def s(3))
    ultimately show ?thesis using ev by (simp add: answered_def)
  qed (simp add: answered_def ev)
qed

lemma mutation_handled:
  assumes "\<And>ms st1. started r ms st st1 \<Longrightarrow> answered r st (f ms st1)"
  shows "answered r st (case begin_mutation env now action components r st of
    (None, st') \<Rightarrow> st' | (Some ms, st') \<Rightarrow> f ms st')"
proof (cases "mutations_rest st")
  case True
  obtain found st' where b: "begin_mutation env now action components r st = (found, st')" by fastforce
  show ?thesis using begin_cases [OF b True] assms by (auto simp: b split: option.splits)
qed (simp add: answered_def)

text \<open>The part of a handler behind the check of the coordinator.\<close>

lemma coordinator_handled:
  assumes "\<And>sw. answered r st (f sw st)"
  shows "answered r st (case require_coordinator_swarm r msg st of (None, st') \<Rightarrow> st' | (Some sw, st') \<Rightarrow> f sw st')"
  using assms
  by (auto simp: require_coordinator_swarm_def refuse_answered split: option.split)

section \<open>The handlers\<close>

lemma silent_note:
  "silent st (interrupt env sid content (send_member sid (plan_note scope from name msg) st))"
  "silent st (send_member sid (plan_note scope from name msg) st)"
  by (rule quiet_silent, rule quiet_trans [OF quiet_send_member quiet_interrupt] quiet_send_member;
      simp add: plan_note_def)+

lemma coordinator_proposal_answered:
  "answered r st (coordinator_proposal env now r sw items st)"
proof -
  let ?plan = "replace_plan (cr_session r) items (get_or versioned_plan_new (sv_plans st) sw)"
  let ?s1 = "st\<lparr>sv_plans := fmupd sw ?plan (sv_plans st)\<rparr>"
  have 1: "silent st ?s1"
    by (rule silent_set_plan) (simp add: plan_le_def replace_plan_def get_or_def)
  have n: "silent s (foldl (\<lambda>st sid. interrupt env sid m (send_member sid (plan_note sc sender name m) st)) s xs)"
    for s m sc sender name xs by (rule silent_foldl) (rule silent_note)
  show ?thesis
    unfolding coordinator_proposal_def Let_def
    by (rule silent_answered [OF _ answer_answered])
      (auto intro!: silent_then(1,3,16) silent_trans [OF 1 n])
qed

lemma member_proposal_answered: "answered r st (member_proposal env now r sw coordinator items st)"
  unfolding member_proposal_def Let_def
  by (rule silent_answered [OF _ answer_answered])
    (auto intro!: silent_then(3,6,9,11) simp: plan_note_def)

lemma propose_answered: "answered r st (handle_comm_propose_plan env now r items st)"
  by (simp add: handle_comm_propose_plan_def refuse_answered coordinator_proposal_answered member_proposal_answered
      split: option.split)

lemma silent_apply_proposal: "silent st (apply_proposal env now sw req proposer items st)"
proof -
  let ?plan = "extend_plan req proposer items (get_or versioned_plan_new (sv_plans st) sw)"
  let ?s1 = "drop_proposal sw proposer (st\<lparr>sv_plans := fmupd sw ?plan (sv_plans st)\<rparr>)"
  have 1: "silent st ?s1"
    by (intro silent_then(7) silent_set_plan) (simp add: plan_le_def extend_plan_def get_or_def)
  have n: "silent s (foldl (\<lambda>st sid. if sid |\<in>| fmdom (sv_members st)
      then interrupt env sid m (send_member sid (plan_note sc sender name m) st) else st) s xs)"
    for s m sc sender name xs by (rule silent_foldl) (simp add: silent_note)
  show ?thesis
    unfolding apply_proposal_def Let_def
    by (intro silent_then(1) silent_trans [OF _ n] silent_then(3,16) 1)
qed

lemma approve_answered: "answered r st (handle_comm_approve_plan env now r proposer st)"
  unfolding handle_comm_approve_plan_def
  by (intro coordinator_handled mutation_handled)
    (auto split: option.split simp: Let_def intro: finish_answered silent_apply_proposal)

lemma reject_answered: "answered r st (handle_comm_reject_plan env now r proposer reason st)"
  unfolding handle_comm_reject_plan_def Let_def
  by (intro coordinator_handled mutation_handled)
    (auto intro!: finish_answered silent_then(3) silent_trans [OF silent_drop silent_note(1)] silent_drop)

lemma silent_give_role: "silent st (give_role sw req target role st)"
  unfolding give_role_def Let_def
  by (auto intro!: silent_trans [OF silent_upd_member silent_trans [OF silent_coordinators silent_upd_member]]
      silent_upd_member)

lemma role_answered: "answered r st (handle_comm_assign_role env now r target role st)"
proof -
  have f: "silent s (record_swarm_event now sid name swo e (broadcast_swarm_status env now sw
      (persist_swarm_state_for env now sw (give_role sw req t role s))))" for s sid name swo e sw req t
    by (intro silent_then(1,3,12) silent_give_role)
  show ?thesis
    unfolding handle_comm_assign_role_def Let_def
    by (auto split: option.split intro!: refuse_answered mutation_handled finish_answered f)
qed

lemma silent_announce: "silent st (announce_assignment env now req sw target item message plan st)"
proof -
  have n: "silent s (foldl (\<lambda>st sid. send_member sid (plan_note sc sender name m) st) s xs)"
    for s m sc sender name xs by (rule silent_foldl) (rule silent_note)
  show ?thesis
    unfolding announce_assignment_def Let_def
    by (rule silent_trans [OF _ n]) (auto simp: plan_note_def intro!: silent_then(1,3,4,9,11,16))
qed

lemma plan_le_assign: "plan_le p (assign_in_plan now req sid t summary p)"
  by (simp add: plan_le_def assign_in_plan_def)

lemma silent_assign_selected: "silent st (snd (assign_selected env now req sw target task message st))"
proof (cases "select_task (get_or versioned_plan_new (sv_plans st) sw) task")
  case (Inl e)
  then show ?thesis by (auto simp: assign_selected_def Let_def get_or_def intro!: silent_set_plan)
next
  case (Inr item)
  then show ?thesis
    by (auto simp: assign_selected_def Let_def get_or_def plan_le_assign
        intro!: silent_trans [OF silent_set_plan silent_announce])
qed

lemma assign_answered: "answered r st (handle_comm_assign_task env now r target task message st)"
  unfolding handle_comm_assign_task_def Let_def
  by (intro coordinator_handled mutation_handled)
    (auto split: sum.split simp: case_prod_beta intro: finish_answered silent_assign_selected)



lemma silent_requeue: "silent st (snd (requeue_existing_assignment now sw req assignee t summary st))"
  by (auto simp: requeue_existing_assignment_def plan_le_assign split: option.split intro!: silent_set_plan)

lemma control_answer_answered: "answered r st (control_answer r action sw t assignee status st)"
  by (simp add: control_answer_def answer_answered)

lemma control_run_answered:
  "answered r st (control_run env now r action sw t assignee snapshot target message st)"
proof -
  let ?text = "build_control_assignment_text action (ts_content snapshot) message"
  define q where "q = (if ts_status snapshot \<noteq> ''queued''
    then requeue_existing_assignment now sw (cr_session r) assignee t ?text st else (False, st))"
  have q: "silent st (snd q)" by (simp add: q_def silent_requeue)
  define s2 where "s2 = (if fst q then broadcast_swarm_plan env sw (Some (''task_'' @ task_control_as_str action))
    (persist_swarm_state_for env now sw (snd q)) else snd q)"
  have s2: "silent st s2" using q by (auto simp: s2_def intro!: silent_then(1,16))
  have "answered r s2 (case fmlookup (sv_agents s2) assignee of
      None \<Rightarrow> refuse r m1 None s2
    | Some agent \<Rightarrow>
        if assignee |\<notin>| fmdom (sv_members s2) then refuse r m2 None s2
        else if \<not> ah_busy agent then
          control_answer r action sw t assignee ''running'' (spawn_assigned_task_run assignee sw t ?text s2)
        else if action = Wake then
          (let msg = m3 in control_answer r action sw t assignee ''queued'' (interrupt env assignee msg s2))
        else refuse r m4 (Some 1) s2)" for m1 m2 m3 m4
    by (auto simp: Let_def refuse_answered split: option.split
        intro: silent_answered [OF silent_run control_answer_answered]
          silent_answered [OF quiet_silent [OF quiet_interrupt] control_answer_answered])
  note tail = silent_answered [OF s2 this]
  show ?thesis
    unfolding control_run_def Let_def case_prod_beta q_def [symmetric] s2_def [symmetric]
    by (simp add: refuse_answered tail [unfolded Let_def])
qed

lemma control_move_answered:
  "answered r st (control_move env now r action t assignee snapshot target message st)"
  by (simp add: control_move_def refuse_answered assign_answered split: option.split)

lemma control_answered: "answered r st (handle_comm_task_control env now r action t target message st)"
proof -
  have "answered r st (case control_task_id r a sw t target st of
      Inl e \<Rightarrow> refuse r e None st
    | Inr t \<Rightarrow>
        (case task_snapshot_for sw t st of
           None \<Rightarrow> refuse r (m1 t) None st
         | Some snapshot \<Rightarrow>
             if \<not> task_control_action_allows_status a (ts_status snapshot) then refuse r (m2 t snapshot) None st
             else case ts_assigned_to snapshot of
               None \<Rightarrow> refuse r (m3 t) None st
             | Some assignee \<Rightarrow>
                 if a \<in> {Start, Wake, Resume} then control_run env now r a sw t assignee snapshot target message st
                 else if a = Retry then
                   handle_comm_assign_task env now r (Some assignee) (Some t) (Some (retry_note message)) st
                 else control_move env now r a t assignee snapshot target message st))" for a sw m1 m2 m3
    by (auto simp: refuse_answered assign_answered control_run_answered control_move_answered
        split: sum.split option.split)
  then show ?thesis
    unfolding handle_comm_task_control_def
    by (auto simp: refuse_answered split: option.split intro!: coordinator_handled)
qed

section \<open>Runs of tasks, sweeps and leaving\<close>

lemma plan_le_run: "plan_le p (run_change status f t p)"
  by (simp add: run_change_def plan_le_def)

lemma silent_member:
  "fmlookup (sv_members st) sid = Some m \<Longrightarrow> sm_session_id m' = sm_session_id m \<Longrightarrow>
   sm_swarm_id m' = sm_swarm_id m \<Longrightarrow> silent st (st\<lparr>sv_members := fmupd sid m' (sv_members st)\<rparr>)"
  by (auto simp: silent_def evolves_def waits_le_same plans_le_def members_keyed_def listed_alt history_ok_def)

lemma silent_status: "silent st (update_member_status_with_report env now h sid status detail report st)"
proof (cases "fmlookup (sv_members st) sid")
  case (Some m)
  let ?rep = "normalize_completion_report report"
  let ?m = "m\<lparr>sm_status := status, sm_detail := detail,
    sm_last_status_change := (if sm_status m \<noteq> status then now else sm_last_status_change m),
    sm_latest_completion_report := (if ?rep \<noteq> None then ?rep else sm_latest_completion_report m)\<rparr>"
  let ?s1 = "st\<lparr>sv_members := fmupd sid ?m (sv_members st)\<rparr>"
  have 1: "silent st ?s1"
    by (rule silent_member [OF Some]) simp_all
  define s2 where "s2 sw = (if sm_status m \<noteq> status \<and> h then
      record_swarm_event now sid (sm_friendly_name m) (Some sw) (SwStatusChange (sm_status m) status) ?s1 else ?s1)" for sw
  have 2: "silent st (broadcast_swarm_status env now sw (s2 sw))" for sw
    using 1 by (auto simp: s2_def intro!: silent_then(3,12))
  show ?thesis
    unfolding update_member_status_with_report_def Let_def Some option.case s2_def [symmetric]
    using 1 2 by (auto split: option.split intro: silent_then(17) silent_member [OF Some])
qed (simp add: update_member_status_with_report_def)

lemma silent_touch: "silent st (snd (touch_swarm_task_progress env now sw t assigned detail checkpoint st))"
proof (cases "Option.bind (fmlookup (sv_plans st) sw) (\<lambda>plan. find_item (vp_items plan) t)")
  case None
  then show ?thesis by (cases "fmlookup (sv_plans st) sw") (simp_all add: touch_swarm_task_progress_def)
next
  case (Some item)
  then obtain plan where p: "fmlookup (sv_plans st) sw = Some plan" "find_item (vp_items plan) t = Some item"
    by (cases "fmlookup (sv_plans st) sw") simp_all
  show ?thesis
    unfolding touch_swarm_task_progress_def Let_def p option.case snd_conv
    by (intro silent_then(1) silent_set_plan) (simp add: p plan_le_def tasks_of_def)
qed

lemmas silent_steps = silent_then(1,3,11,12,16) silent_trans [OF _ silent_status] silent_upd_plan

lemma silent_run_started: "silent st (run_started env now run st)"
  unfolding run_started_def Let_def update_member_status_def by (intro silent_steps plan_le_run)

lemma silent_run_completed: "silent st (run_completed env now run report st)"
  unfolding run_completed_def Let_def by (intro silent_steps silent_then(15) plan_le_run)

lemma silent_run_failed: "silent st (run_failed env now run error st)"
  unfolding run_failed_def Let_def update_member_status_def by (intro silent_steps plan_le_run)

lemma silent_heartbeat: "silent st (run_heartbeat env now run st)"
  using silent_touch by (auto simp: run_heartbeat_def case_prod_beta intro!: silent_then(16))

lemma silent_run_event: "answered_id event = None \<Longrightarrow> silent st (run_event env now run event st)"
  using silent_touch
  by (auto simp: run_event_def case_prod_beta Let_def update_member_status_def
      intro!: silent_then(10,16) silent_trans [OF _ silent_status] split: option.split)

lemma plan_le_refresh: "plan_le p (snd (refresh_plan now sa p))"
proof -
  let ?new = "map (refreshed now sa (vp_task_progress p)) (vp_items p)"
  have "filter (\<lambda>i. refreshed now sa (vp_task_progress p) i \<noteq> i) (vp_items p) = [] \<Longrightarrow> ?new = vp_items p"
    by (simp add: filter_empty_conv map_idI)
  then show ?thesis using refresh_plan_effect [of now sa p] unfolding Let_def plan_le_def tasks_of_def
    by (cases "filter (\<lambda>i. refreshed now sa (vp_task_progress p) i \<noteq> i) (vp_items p)") auto
qed

lemma silent_sweep: "silent st (refresh_swarm_task_staleness env now st)"
  unfolding refresh_swarm_task_staleness_def Let_def
  by (rule silent_trans [OF silent_plans silent_foldl])
    (auto intro!: silent_then(1,16) plan_le_refresh)

lemma plan_le_participants: "plan_le p (p\<lparr>vp_participants := x\<rparr>)"
  by (simp add: plan_le_same)

definition member_of :: "string \<Rightarrow> string \<Rightarrow> server \<Rightarrow> bool" where
  "member_of sid sw st \<longleftrightarrow> map_option sm_swarm_id (fmlookup (sv_members st) sid) = Some (Some sw)"

lemma get_or_upd: "get_or d (fmupd k v m) x = (if x = k then v else get_or d m x)"
  "get_or d (fmdrop k m) x = (if x = k then d else get_or d m x)"
  by (simp_all add: get_or_def)

lemma left_set:
  "get_or {||} (sv_swarms (leave_swarm_set sid sw st)) x =
     (if x = sw then get_or {||} (sv_swarms st) sw |-| {|sid|} else get_or {||} (sv_swarms st) x)"
proof (cases "fmlookup (sv_swarms st) sw")
  case None
  then show ?thesis by (simp add: leave_swarm_set_def get_or_def)
next
  case (Some s)
  then have "get_or {||} (sv_swarms st) sw = s" by (simp add: get_or_def)
  then show ?thesis by (auto simp: leave_swarm_set_def Let_def Some get_or_upd)
qed

text \<open>A set loses a session that is no member of it, or gains one.\<close>

lemma silent_leave_set: "\<not> member_of sid sw st \<Longrightarrow> silent st (leave_swarm_set sid sw st)"
proof -
  assume n: "\<not> member_of sid sw st"
  have f: "sv_members (leave_swarm_set sid sw st) = sv_members st" "sv_plans (leave_swarm_set sid sw st) = sv_plans st"
    "sv_closed (leave_swarm_set sid sw st) = sv_closed st" "sv_mutations (leave_swarm_set sid sw st) = sv_mutations st"
    "sv_out (leave_swarm_set sid sw st) = sv_out st" "history_ok (leave_swarm_set sid sw st) = history_ok st"
    "waits_le st (leave_swarm_set sid sw st)"
    by (simp_all add: leave_swarm_set_def Let_def history_ok_def waits_le_same split: option.split)
  show ?thesis
    using n by (auto simp: silent_def evolves_def waits_le_same plans_le_def members_keyed_def listed_alt f left_set member_of_def)
qed

lemma silent_enter_set: "silent st (st\<lparr>sv_swarms := entry_upd {||} (finsert sid) sw (sv_swarms st)\<rparr>)"
  by (simp add: silent_def evolves_def waits_le_same plans_le_def members_keyed_def listed_alt history_ok_def get_or_entry_upd)

lemma silent_hand_over: "silent st (hand_over sw st)"
  unfolding hand_over_def Let_def
  by (auto split: option.split simp: coordinator_note_event_def intro!: silent_then(9) silent_coordinators
      silent_trans [OF _ silent_upd_plan] silent_trans [OF _ silent_upd_member] silent_trans [OF _ silent_coordinators]
      plan_le_participants)

lemma silent_leave:
  assumes "\<not> member_of sid sw st"
  shows "silent st (remove_session_from_swarm env now sid sw st)"
proof -
  have "\<not> member_of sid sw (remove_plan_participant sw sid st)"
    using assms by (simp add: member_of_def remove_plan_participant_def upd_plan_def)
  then have l: "silent st (leave_swarm_set sid sw (remove_plan_participant sw sid st))"
    unfolding remove_plan_participant_def
    by (intro silent_trans [OF silent_upd_plan silent_leave_set] plan_le_participants)
  show ?thesis
    unfolding remove_session_from_swarm_def Let_def
    by (intro silent_then(12)) (auto intro!: silent_then(1,2) silent_trans [OF _ silent_upd_member]
        silent_trans [OF l silent_hand_over] l)
qed

lemma silent_irrelevant:
  "silent st (st\<lparr>sv_connections := a\<rparr>)" "silent st (st\<lparr>sv_agents := b\<rparr>)" "silent st (st\<lparr>sv_channels := c\<rparr>)"
  "silent st (st\<lparr>sv_queues := d\<rparr>)" "silent st (st\<lparr>sv_touched_by := e, sv_touches := f\<rparr>)"
  by (simp_all add: silent_def evolves_def waits_le_same plans_le_def members_keyed_def swarms_listed_def history_ok_def)

lemma silent_drop_member: "silent st (st\<lparr>sv_members := fmdrop sid (sv_members st)\<rparr>)"
  by (auto simp: silent_def evolves_def waits_le_same plans_le_def members_keyed_def swarms_listed_def history_ok_def)

lemma record_members: "sv_members (record_swarm_event now sid name sw e st) = sv_members st"
  by (simp add: record_swarm_event_def Let_def)

lemma silent_leave_member: "silent st (drop_member env now sid st)"
  by (auto simp: drop_member_def Let_def member_of_def record_members split: option.split
      intro!: silent_trans [OF _ silent_leave] silent_then(3) silent_drop_member)

lemma silent_cleanup: "silent st (cleanup_client_connection env now sid conn disposition st)"
proof -
  let ?s1 = "unregister_session_event_sender env sid conn (st\<lparr>sv_connections := fmdrop conn (sv_connections st)\<rparr>)"
  have 1: "silent st ?s1"
    unfolding unregister_session_event_sender_def
    by (rule silent_trans [OF silent_irrelevant(1) silent_upd_member]) (simp_all add: Let_def)
  obtain status detail where ls: "left_status disposition = (status, detail)" by fastforce
  define s2 where "s2 = update_member_status env now True sid status (Some detail) (?s1\<lparr>sv_agents := fmdrop sid (sv_agents ?s1)\<rparr>)"
  have 2: "silent st s2"
    unfolding s2_def update_member_status_def
    by (intro silent_trans [OF _ silent_status] silent_trans [OF _ silent_irrelevant(2)] 1)
  define s4 where "s4 = drop_member env now sid s2"
  have 4: "silent st s4" unfolding s4_def by (rule silent_trans [OF 2 silent_leave_member])
  have 5: "silent st (remove_session_interrupt_queue sid (remove_session_file_touches env sid
      (s4\<lparr>sv_channels := remove_session sid (sv_channels s4)\<rparr>)))"
    unfolding remove_session_interrupt_queue_def remove_session_file_touches_def Let_def
    by (intro silent_trans [OF _ silent_irrelevant(4)] silent_trans [OF _ silent_irrelevant(5)]
        silent_trans [OF _ silent_irrelevant(3)] 4)
  show ?thesis
    unfolding cleanup_client_connection_def Let_def ls prod.case s2_def [symmetric] s4_def [symmetric]
    using 1 5 by simp
qed

end
