(* ===== verification/SwarmClients.thy ===== *)
theory SwarmClients
  imports SwarmSpawn
begin

text \<open>
  What an attached client does to the sessions of the server (src/server/client_session.rs and the loop of
  src/server/client_lifecycle.rs): connecting, subscribing with a working directory, taking over a session,
  clearing it, sending and cancelling messages. Session files, the tools for self-development and
  external servers, signals for shutdown, debugging and timing are left out; new and restored agents, and
  whether writing to the socket works, are arguments.
\<close>

section \<open>The client\<close>

text \<open>
  The state of the loop: the connection, its channel, the session and the address of its agent, and the
  message being processed with its task (whether it has finished) and the outcomes sent by tasks.
\<close>

datatype turn_error = TurnError string string "nat option"

type_synonym turn_outcome = "nat \<times> (turn_error + unit) \<times> string option"

record client =
  cl_connection :: string
  cl_channel :: nat
  cl_session :: string
  cl_name :: "string option"
  cl_agent :: nat
  cl_queue :: nat
  cl_swarm_enabled :: bool
  cl_processing :: bool
  cl_message_id :: "nat option"
  cl_processing_session :: "string option"
  cl_task :: "bool option"
  cl_outcomes :: "turn_outcome list"

definition tell :: "client \<Rightarrow> server_event \<Rightarrow> server \<Rightarrow> server" where
  "tell cl event st = send_to (cl_channel cl) event st"

definition upd_connection :: "(client_connection \<Rightarrow> client_connection) \<Rightarrow> string \<Rightarrow> server \<Rightarrow> server" where
  "upd_connection f connection st = st\<lparr>sv_connections := update_existing f connection (sv_connections st)\<rparr>"

text \<open>Changing an agent changes it wherever a session holds it.\<close>

definition upd_agent :: "(agent_handle \<Rightarrow> agent_handle) \<Rightarrow> nat \<Rightarrow> server \<Rightarrow> server" where
  "upd_agent f address st =
     st\<lparr>sv_agents := fmmap (\<lambda>a. if ah_address a = address then f a else a) (sv_agents st)\<rparr>"

definition connect_client :: "string \<Rightarrow> nat \<Rightarrow> string \<Rightarrow> agent_handle \<Rightarrow> bool \<Rightarrow> server \<Rightarrow> client \<times> server" where
  "connect_client connection channel session_id agent enabled st =
     (let st = st\<lparr>sv_connections := fmupd connection
            \<lparr>cn_session_id = session_id, cn_client_instance_id = None, cn_is_processing = False,
             cn_current_tool_name = None\<rparr> (sv_connections st), sv_global_session := session_id\<rparr>;
          st = register_session_interrupt_queue session_id (ah_queue agent) st;
          st = st\<lparr>sv_agents := fmupd session_id agent (sv_agents st)\<rparr>
      in (\<lparr>cl_connection = connection, cl_channel = channel, cl_session = session_id, cl_name = ah_short_name agent,
           cl_agent = ah_address agent, cl_queue = ah_queue agent, cl_swarm_enabled = enabled, cl_processing = False,
           cl_message_id = None, cl_processing_session = None, cl_task = None, cl_outcomes = []\<rparr>, st))"

section \<open>Becoming a member\<close>

definition ensure_client_swarm_member :: "spawn_env \<Rightarrow> nat \<Rightarrow> client \<Rightarrow> agent_handle \<Rightarrow> server \<Rightarrow> server" where
  "ensure_client_swarm_member sp now cl agent st =
     (let sid = cl_session cl;
          swarm_id = (if cl_swarm_enabled cl then swarm_id_for_dir sp (ah_working_dir agent) else None);
          name = (case ah_short_name agent of Some n \<Rightarrow> Some n | None \<Rightarrow> cl_name cl)
      in if sid |\<in>| fmdom (sv_members st) then
           upd_member (\<lambda>m. m\<lparr>sm_event_tx := cl_channel cl,
             sm_event_txs := fmupd (cl_connection cl) (cl_channel cl) (sm_event_txs m),
             sm_swarm_enabled := cl_swarm_enabled cl, sm_is_headless := False,
             sm_friendly_name := (if name \<noteq> None then name else sm_friendly_name m)\<rparr>) sid st
         else
           let m = \<lparr>sm_session_id = sid, sm_event_tx = cl_channel cl,
                 sm_event_txs = fmupd (cl_connection cl) (cl_channel cl) fmempty, sm_working_dir = ah_working_dir agent,
                 sm_swarm_id = swarm_id, sm_swarm_enabled = cl_swarm_enabled cl, sm_status = ''ready'', sm_detail = None,
                 sm_friendly_name = name, sm_report_back_to_session_id = None, sm_latest_completion_report = None,
                 sm_role = ''agent'', sm_joined_at = now, sm_last_status_change = now, sm_is_headless = False\<rparr>;
               st = join_swarm m st
           in case swarm_id of
                None \<Rightarrow> st
              | Some sw \<Rightarrow> record_swarm_event now sid name (Some sw) (SwMemberChange ''joined'') st)"

section \<open>Subscribing\<close>

text \<open>The session takes the swarm of its new directory; its place in the old one goes.\<close>

definition change_swarm_sets :: "string \<Rightarrow> string option \<Rightarrow> string option \<Rightarrow> server \<Rightarrow> server" where
  "change_swarm_sets sid old new st =
     (let st = (case old of
            None \<Rightarrow> st
          | Some sw \<Rightarrow> leave_swarm_set sid sw
              (if new \<noteq> Some sw then st\<lparr>sv_channels := remove_session sid (sv_channels st)\<rparr> else st));
          st = (case new of
            None \<Rightarrow> st
          | Some sw \<Rightarrow> st\<lparr>sv_swarms := entry_upd {||} (finsert sid) sw (sv_swarms st)\<rparr>)
      in if new \<noteq> old then upd_member (\<lambda>m. m\<lparr>sm_role := ''agent''\<rparr>) sid st else st)"

text \<open>A coordinator that subscribes is replaced by the least session of the swarm it was in.\<close>

definition succeed_subscriber :: "string \<Rightarrow> string \<Rightarrow> server \<Rightarrow> server" where
  "succeed_subscriber sid old st =
     (if fmlookup (sv_coordinators st) old \<noteq> Some sid then st
      else
        (let new_coordinator = (case fmlookup (sv_swarms st) old of
               Some s \<Rightarrow> if s = {||} then None else Some (fMin s) | None \<Rightarrow> None);
             st = st\<lparr>sv_coordinators := fmdrop old (sv_coordinators st)\<rparr>
         in case new_coordinator of
              None \<Rightarrow> st
            | Some new_id \<Rightarrow>
                (let st = st\<lparr>sv_coordinators := fmupd old new_id (sv_coordinators st)\<rparr>
                 in send_member new_id (coordinator_note_event new_id
                      (Option.bind (fmlookup (sv_members st) new_id) sm_friendly_name)) st)))"

definition subscribe_working_dir :: "server_env \<Rightarrow> spawn_env \<Rightarrow> nat \<Rightarrow> client \<Rightarrow> string \<Rightarrow> server \<Rightarrow> server" where
  "subscribe_working_dir env sp now cl dir st =
     (let sid = cl_session cl;
          st = upd_agent (\<lambda>a. a\<lparr>ah_working_dir := Some dir\<rparr>) (cl_agent cl) st;
          dir_swarm = swarm_id_for_dir sp (Some dir);
          old = Option.bind (fmlookup (sv_members st) sid) sm_swarm_id;
          new = (case fmlookup (sv_members st) sid of
            Some m \<Rightarrow> if sm_swarm_enabled m then dir_swarm else None | None \<Rightarrow> None);
          st = upd_member (\<lambda>m. m\<lparr>sm_working_dir := Some dir, sm_swarm_id := new\<rparr>) sid st;
          st = change_swarm_sets sid old new st;
          st = (case old of
            None \<Rightarrow> st
          | Some sw \<Rightarrow>
              (let st = succeed_subscriber sid sw st;
                   st = (if new \<noteq> Some sw then persist_swarm_state_for env now sw (remove_plan_participant sw sid st) else st)
               in broadcast_swarm_status env now sw st))
      in case new of
           None \<Rightarrow> st
         | Some sw \<Rightarrow> if old \<noteq> Some sw then broadcast_swarm_status env now sw st else st)"

definition handle_subscribe ::
  "server_env \<Rightarrow> spawn_env \<Rightarrow> nat \<Rightarrow> nat \<Rightarrow> client \<Rightarrow> agent_handle \<Rightarrow> string option \<Rightarrow> server \<Rightarrow> server" where
  "handle_subscribe env sp now i cl agent dir st =
     (let sid = cl_session cl;
          st = ensure_client_swarm_member sp now cl agent st;
          st = (case dir of Some d \<Rightarrow> subscribe_working_dir env sp now cl d st | None \<Rightarrow> st);
          st = (if map_option sm_status (fmlookup (sv_members st) sid) = Some ''running'' then st
                else update_member_status env now True sid ''ready'' None st)
      in tell cl (EvDone i) st)"

section \<open>Clearing\<close>

text \<open>The member moves to the new session, with its role and its swarm.\<close>

definition rename_member :: "string \<Rightarrow> string \<Rightarrow> server \<Rightarrow> server" where
  "rename_member old new st =
     (case fmlookup (sv_members st) old of
        None \<Rightarrow> st
      | Some m \<Rightarrow>
          (let st = st\<lparr>sv_members := fmupd new (m\<lparr>sm_session_id := new, sm_status := ''ready'', sm_detail := None\<rparr>)
                 (fmdrop old (sv_members st))\<rparr>
           in case sm_swarm_id m of
                None \<Rightarrow> st
              | Some sw \<Rightarrow> st\<lparr>sv_swarms := update_existing (\<lambda>s. finsert new (s |-| {|old|})) sw (sv_swarms st)\<rparr>))"

definition move_connection :: "string \<Rightarrow> client \<Rightarrow> server \<Rightarrow> server" where
  "move_connection session_id cl st = upd_connection (\<lambda>c. c\<lparr>cn_session_id := session_id\<rparr>) (cl_connection cl) st"

text \<open>The new agent takes the place of the old one behind the same mutex.\<close>

definition handle_clear_session ::
  "server_env \<Rightarrow> nat \<Rightarrow> nat \<Rightarrow> string \<Rightarrow> agent_handle \<Rightarrow> client \<Rightarrow> server \<Rightarrow> client \<times> server" where
  "handle_clear_session env now i new_id new_agent cl st =
     (let old = cl_session cl;
          agent = new_agent\<lparr>ah_address := cl_agent cl\<rparr>;
          st = upd_agent (\<lambda>_. agent) (cl_agent cl) st;
          st = st\<lparr>sv_agents := fmupd new_id agent (fmdrop old (sv_agents st))\<rparr>;
          st = register_session_interrupt_queue new_id (ah_queue agent) st;
          st = remove_session_interrupt_queue old st;
          swarm_id = Option.bind (fmlookup (sv_members st) old) sm_swarm_id;
          st = rename_member old new_id st;
          st = remove_session_file_touches env old st;
          st = st\<lparr>sv_channels := remove_session old (sv_channels st)\<rparr>;
          st = update_member_status env now True new_id ''ready'' None st;
          st = (case swarm_id of None \<Rightarrow> st | Some sw \<Rightarrow> rename_plan_participant sw old new_id st);
          st = move_connection new_id cl st;
          st = tell cl (EvDone i) (tell cl (EvSessionId new_id) st)
      in (cl\<lparr>cl_session := new_id, cl_queue := ah_queue agent\<rparr>, st))"

section \<open>Resuming\<close>

definition detach_source :: "server_env \<Rightarrow> nat \<Rightarrow> client \<Rightarrow> server \<Rightarrow> server" where
  "detach_source env now cl st =
     (let old = cl_session cl;
          st = unregister_session_event_sender env old (cl_connection cl) st
      in if old |\<in>| cn_session_id |`| fmran (fmdrop (cl_connection cl) (sv_connections st)) then st
         else
           let st = (case fmlookup (sv_agents st) old of
                  Some a \<Rightarrow> if ah_address a = cl_agent cl then st\<lparr>sv_agents := fmdrop old (sv_agents st)\<rparr> else st
                | None \<Rightarrow> st);
               st = remove_session_interrupt_queue old st;
               st = st\<lparr>sv_channels := remove_session old (sv_channels st)\<rparr>;
               st = remove_session_file_touches env old st;
               swarm_id = Option.bind (fmlookup (sv_members st) old) sm_swarm_id;
               st = st\<lparr>sv_members := fmdrop old (sv_members st)\<rparr>
           in case swarm_id of None \<Rightarrow> st | Some sw \<Rightarrow> remove_session_from_swarm env now old sw st)"

text \<open>Another connection with the session, the first in the order of the map.\<close>

definition conflicting_client :: "server_env \<Rightarrow> client \<Rightarrow> string \<Rightarrow> server \<Rightarrow> (string \<times> client_connection) option" where
  "conflicting_client env cl session_id st =
     find (\<lambda>(k, c). k \<noteq> cl_connection cl \<and> cn_session_id c = session_id)
       (List.map_filter (\<lambda>k. map_option (Pair k) (fmlookup (sv_connections st) k))
         (en_order env (fmdom (sv_connections st))))"

definition distinct_instances :: "string option \<Rightarrow> string option \<Rightarrow> bool" where
  "distinct_instances a b \<longleftrightarrow> a \<noteq> None \<and> b \<noteq> None \<and> a \<noteq> b"

definition same_instance :: "string option \<Rightarrow> string option \<Rightarrow> bool" where
  "same_instance a b \<longleftrightarrow> a \<noteq> None \<and> a = b"

text \<open>The other connection is told to end; what its turn is doing becomes this one's.\<close>

definition supersede_client :: "string \<Rightarrow> client_connection \<Rightarrow> client \<Rightarrow> server \<Rightarrow> server" where
  "supersede_client k c cl st =
     (let found = fmlookup (sv_connections st) k;
          info = (case found of Some c \<Rightarrow> c | None \<Rightarrow> c);
          st = st\<lparr>sv_connections := fmdrop k (sv_connections st)\<rparr>;
          st = upd_connection (\<lambda>own. own\<lparr>cn_is_processing := cn_is_processing info,
            cn_current_tool_name := cn_current_tool_name info\<rparr>) (cl_connection cl) st
      in if found \<noteq> None then st\<lparr>sv_disconnects := sv_disconnects st @ [k]\<rparr> else st)"

definition attach_connection :: "string \<Rightarrow> string option \<Rightarrow> client \<Rightarrow> server \<Rightarrow> server" where
  "attach_connection session_id instance_id cl st =
     upd_connection (\<lambda>c. c\<lparr>cn_session_id := session_id, cn_client_instance_id := instance_id\<rparr>) (cl_connection cl) st"

text \<open>
  Whether the loop goes on, ends with the cleanup of the connection, or ends at once. The history is
  written to the socket; if that fails the request has no answer and the loop ends at once.
\<close>

datatype loop_step = Continues | Breaks | Fails

definition write_history :: "bool \<Rightarrow> nat \<Rightarrow> client \<Rightarrow> server \<Rightarrow> loop_step \<times> server" where
  "write_history written i cl st =
     (if written then (Continues, tell cl (EvDone i) (tell cl (EvOther ''history'') st)) else (Fails, st))"

text \<open>The session is live with another agent: this client joins or takes over.\<close>

definition resume_live ::
  "server_env \<Rightarrow> nat \<Rightarrow> nat \<Rightarrow> string \<Rightarrow> string option \<Rightarrow> bool \<Rightarrow> bool \<Rightarrow> agent_handle \<Rightarrow> bool \<Rightarrow> client \<Rightarrow> server \<Rightarrow>
   loop_step \<times> client \<times> server" where
  "resume_live env now i session_id instance_id local_history takeover live written cl st =
     (let conflict = conflicting_client env cl session_id st;
          st = detach_source env now cl st;
          st = (case conflict of
            None \<Rightarrow> st
          | Some (k, c) \<Rightarrow>
              if takeover \<and> local_history \<and> \<not> distinct_instances instance_id (cn_client_instance_id c) then
                supersede_client k c cl st
              else st);
          st = attach_connection session_id instance_id cl st;
          st = register_session_event_sender session_id (cl_connection cl) (cl_channel cl) st;
          cl = cl\<lparr>cl_session := session_id, cl_agent := ah_address live, cl_queue := ah_queue live\<rparr>;
          (next_step, st) = write_history written i cl st
      in (next_step, cl, st))"

text \<open>The session is restored from its file into this client's agent.\<close>

definition rename_coordinator :: "string \<Rightarrow> string \<Rightarrow> server \<Rightarrow> server" where
  "rename_coordinator old new st =
     st\<lparr>sv_coordinators := fmmap (\<lambda>c. if c = old then new else c) (sv_coordinators st)\<rparr>"

definition restore_into ::
  "server_env \<Rightarrow> nat \<Rightarrow> nat \<Rightarrow> string \<Rightarrow> string option \<Rightarrow> agent_handle \<Rightarrow> bool \<Rightarrow> client \<Rightarrow> server \<Rightarrow>
   loop_step \<times> client \<times> server" where
  "restore_into env now i session_id instance_id restored written cl st =
     (let old = cl_session cl;
          agent = restored\<lparr>ah_address := cl_agent cl, ah_queue := cl_queue cl\<rparr>;
          st = upd_agent (\<lambda>_. agent) (cl_agent cl) st;
          st = st\<lparr>sv_agents := fmupd session_id agent (fmdrop old (sv_agents st))\<rparr>;
          st = rename_session_interrupt_queue old session_id st;
          st = attach_connection session_id instance_id cl st;
          st = rename_member old session_id st;
          st = st\<lparr>sv_channels := remove_session old (sv_channels st)\<rparr>;
          st = remove_session_file_touches env old st;
          st = rename_coordinator old session_id st;
          st = update_member_status env now True session_id ''ready'' None st;
          st = (case Option.bind (fmlookup (sv_members st) session_id) sm_swarm_id of
            None \<Rightarrow> st
          | Some sw \<Rightarrow> persist_swarm_state_for env now sw (rename_plan_participant sw old session_id st));
          st = register_session_event_sender session_id (cl_connection cl) (cl_channel cl) st;
          cl = cl\<lparr>cl_session := session_id\<rparr>;
          (next_step, st) = write_history written i cl st
      in (next_step, cl, st))"

definition already_live :: "string \<Rightarrow> string" where
  "already_live session_id =
     ''Session '' @ quoted session_id @ '' is already live but could not be shared safely with this connection.''"

definition resume_stored ::
  "server_env \<Rightarrow> nat \<Rightarrow> nat \<Rightarrow> string \<Rightarrow> string option \<Rightarrow> bool \<Rightarrow> bool \<Rightarrow> string + agent_handle \<Rightarrow> bool \<Rightarrow> client \<Rightarrow>
   server \<Rightarrow> loop_step \<times> client \<times> server" where
  "resume_stored env now i session_id instance_id local_history takeover restored written cl st =
     (let conflict = conflicting_client env cl session_id st;
          may_take = (\<lambda>c. takeover \<and> (same_instance instance_id (cn_client_instance_id c) \<or>
            (local_history \<and> \<not> distinct_instances instance_id (cn_client_instance_id c))));
          refused = (case conflict of Some (k, c) \<Rightarrow> \<not> may_take c | None \<Rightarrow> False)
      in if refused then (Continues, cl, tell cl (EvError i (already_live session_id) (Some 1)) st)
         else
           let st = (case conflict of Some (k, c) \<Rightarrow> supersede_client k c cl st | None \<Rightarrow> st)
           in case restored of
                Inr agent \<Rightarrow> restore_into env now i session_id instance_id agent written cl st
              | Inl e \<Rightarrow> (Continues, cl, tell cl (EvError i (''Failed to restore session: '' @ e) None) st))"

definition handle_resume_session ::
  "server_env \<Rightarrow> nat \<Rightarrow> nat \<Rightarrow> string \<Rightarrow> string option \<Rightarrow> bool \<Rightarrow> bool \<Rightarrow> string + agent_handle \<Rightarrow> bool \<Rightarrow> client \<Rightarrow>
   server \<Rightarrow> loop_step \<times> client \<times> server" where
  "handle_resume_session env now i session_id instance_id local_history takeover restored written cl st =
     (case fmlookup (sv_agents st) session_id of
        Some live \<Rightarrow>
          if ah_address live \<noteq> cl_agent cl then
            resume_live env now i session_id instance_id local_history takeover live written cl st
          else resume_stored env now i session_id instance_id local_history takeover restored written cl st
      | None \<Rightarrow> resume_stored env now i session_id instance_id local_history takeover restored written cl st)"

section \<open>Messages\<close>

text \<open>A message starts a turn of the session's agent unless one is running or a reload has begun.\<close>

definition start_processing_message ::
  "server_env \<Rightarrow> nat \<Rightarrow> bool \<Rightarrow> nat \<Rightarrow> string \<Rightarrow> client \<Rightarrow> server \<Rightarrow> client \<times> server" where
  "start_processing_message env now reload_starting i content cl st =
     (if reload_starting then (cl, tell cl EvReloading st)
      else if cl_processing cl then (cl, tell cl (EvError i ''Already processing a message'' None) st)
      else (cl\<lparr>cl_processing := True, cl_message_id := Some i, cl_processing_session := Some (cl_session cl),
              cl_task := Some False\<rparr>,
            update_member_status env now True (cl_session cl) ''running'' (Some (truncate_detail content 120)) st))"

definition handle_message ::
  "server_env \<Rightarrow> nat \<Rightarrow> bool \<Rightarrow> nat \<Rightarrow> string \<Rightarrow> client \<Rightarrow> server \<Rightarrow> client \<times> server" where
  "handle_message env now reload_starting i content cl st =
     start_processing_message env now reload_starting i content cl
       (if cl_processing cl then st
        else upd_connection (\<lambda>c. c\<lparr>cn_is_processing := True, cn_current_tool_name := None\<rparr>) (cl_connection cl) st)"

definition idle_connection :: "client_connection \<Rightarrow> client_connection" where
  "idle_connection c = c\<lparr>cn_is_processing := False, cn_current_tool_name := None\<rparr>"

text \<open>The task sends the outcome of its message, then it has finished.\<close>

definition task_sends :: "nat \<Rightarrow> turn_error + unit \<Rightarrow> string option \<Rightarrow> client \<Rightarrow> client" where
  "task_sends i result report cl =
     cl\<lparr>cl_outcomes := cl_outcomes cl @ [(i, result, (case result of Inr _ \<Rightarrow> report | Inl _ \<Rightarrow> None))]\<rparr>"

definition task_finishes :: "client \<Rightarrow> client" where
  "task_finishes cl = (if cl_task cl = None then cl else cl\<lparr>cl_task := Some True\<rparr>)"

text \<open>An outcome is received; one of another message than the present is dropped.\<close>

definition settle_turn :: "server_env \<Rightarrow> nat \<Rightarrow> string option \<Rightarrow> turn_error + unit \<Rightarrow> string option \<Rightarrow> server \<Rightarrow> server" where
  "settle_turn env now session_id result report st =
     (case session_id of
        None \<Rightarrow> st
      | Some sid \<Rightarrow>
          (case result of
             Inr _ \<Rightarrow> update_member_status_with_report env now True sid ''ready'' None report st
           | Inl (TurnError text chain retry) \<Rightarrow>
               update_member_status env now True sid ''failed'' (Some (truncate_detail text 120)) st))"

definition processing_done :: "server_env \<Rightarrow> nat \<Rightarrow> client \<Rightarrow> server \<Rightarrow> client \<times> server" where
  "processing_done env now cl st =
     (case cl_outcomes cl of
        [] \<Rightarrow> (cl, st)
      | (i, result, report) # rest \<Rightarrow>
          (let cl = cl\<lparr>cl_outcomes := rest\<rparr>
           in if cl_message_id cl \<noteq> Some i then (cl, st)
              else
                let st = settle_turn env now (cl_processing_session cl) result report
                      (upd_connection idle_connection (cl_connection cl) st);
                    answer_event = (case result of Inr _ \<Rightarrow> EvDone i | Inl (TurnError text chain retry) \<Rightarrow> EvError i chain retry)
                in (cl\<lparr>cl_message_id := None, cl_task := None, cl_processing := False, cl_processing_session := None\<rparr>,
                    tell cl answer_event st)))"

text \<open>Cancelling aborts a task that has not finished.\<close>

definition cancel_processing_message :: "server_env \<Rightarrow> nat \<Rightarrow> client \<Rightarrow> server \<Rightarrow> client \<times> server" where
  "cancel_processing_message env now cl st =
     (if cl_task cl \<noteq> Some False then (cl, st)
      else
        let st = (case cl_processing_session cl of
               Some sid \<Rightarrow> update_member_status env now True sid ''stopped'' (Some ''cancelled'') st | None \<Rightarrow> st);
            st = (case cl_message_id cl of
               Some i \<Rightarrow> tell cl (EvDone i) (tell cl EvInterrupted st) | None \<Rightarrow> st)
        in (cl\<lparr>cl_task := None, cl_processing := False, cl_processing_session := None, cl_message_id := None\<rparr>, st))"

definition handle_cancel :: "server_env \<Rightarrow> nat \<Rightarrow> client \<Rightarrow> server \<Rightarrow> client \<times> server" where
  "handle_cancel env now cl st =
     (let (cl, st) = cancel_processing_message env now cl st
      in (cl, if cl_processing cl then st else upd_connection idle_connection (cl_connection cl) st))"

text \<open>Every event for the client passes the forwarder, which notes what the client's turn does.\<close>

fun forward_event :: "server_event \<Rightarrow> client_connection \<Rightarrow> client_connection" where
  "forward_event (EvToolStart i name) c = c\<lparr>cn_is_processing := True, cn_current_tool_name := Some name\<rparr>"
| "forward_event (EvToolDone i name output error) c = c\<lparr>cn_current_tool_name := None\<rparr>"
| "forward_event (EvDone i) c = idle_connection c"
| "forward_event (EvError i message retry) c = idle_connection c"
| "forward_event EvInterrupted c = idle_connection c"
| "forward_event _ c = c"

definition queue_soft_interrupt :: "string \<Rightarrow> bool \<Rightarrow> client \<Rightarrow> server \<Rightarrow> server" where
  "queue_soft_interrupt content urgent cl st =
     tell cl (EvOther ''ack'') (enqueue_soft_interrupt (cl_queue cl)
       \<lparr>si_content = content, si_urgent = urgent, si_source = FromUser\<rparr> st)"

definition clear_soft_interrupts :: "client \<Rightarrow> server \<Rightarrow> server" where
  "clear_soft_interrupts cl st =
     tell cl (EvOther ''ack'') (st\<lparr>sv_queue_heap := fmupd (cl_queue cl) [] (sv_queue_heap st),
       sv_stored_interrupts := fmdrop (cl_session cl) (sv_stored_interrupts st)\<rparr>)"

section \<open>Subscribing to a session, reloading, leaving\<close>

definition set_instance :: "string option \<Rightarrow> client \<Rightarrow> server \<Rightarrow> server" where
  "set_instance instance_id cl st = upd_connection (\<lambda>c. c\<lparr>cn_client_instance_id := instance_id\<rparr>) (cl_connection cl) st"

definition request_subscribe ::
  "server_env \<Rightarrow> spawn_env \<Rightarrow> nat \<Rightarrow> nat \<Rightarrow> string option \<Rightarrow> string option \<Rightarrow> string option \<Rightarrow> bool \<Rightarrow> bool \<Rightarrow> agent_handle \<Rightarrow>
   string + agent_handle \<Rightarrow> bool \<Rightarrow> client \<Rightarrow> server \<Rightarrow> loop_step \<times> client \<times> server" where
  "request_subscribe env sp now i dir target instance_id local_history takeover own restored written cl st =
     (let st = set_instance instance_id cl st
      in case target of
           None \<Rightarrow> (Continues, cl, handle_subscribe env sp now i cl own dir st)
         | Some t \<Rightarrow>
             if \<not> en_session_exists env t then (Continues, cl, handle_subscribe env sp now i cl own dir st)
             else
               (case handle_resume_session env now i t instance_id local_history takeover restored written cl st of
                  (Continues, cl, st) \<Rightarrow>
                    if cl_session cl = t then
                      (Continues, cl, handle_subscribe env sp now i cl
                        (case fmlookup (sv_agents st) t of Some a \<Rightarrow> a | None \<Rightarrow> own) dir st)
                    else (Breaks, cl, st)
                | ended \<Rightarrow> ended))"

definition request_resume ::
  "server_env \<Rightarrow> nat \<Rightarrow> nat \<Rightarrow> string \<Rightarrow> string option \<Rightarrow> bool \<Rightarrow> bool \<Rightarrow> string + agent_handle \<Rightarrow> bool \<Rightarrow> client \<Rightarrow>
   server \<Rightarrow> loop_step \<times> client \<times> server" where
  "request_resume env now i session_id instance_id local_history takeover restored written cl st =
     handle_resume_session env now i session_id instance_id local_history takeover restored written cl
       (set_instance instance_id cl st)"

text \<open>All sessions with a client are told of a reload, the one that asks at least.\<close>

definition handle_reload :: "server_env \<Rightarrow> nat \<Rightarrow> client \<Rightarrow> server \<Rightarrow> server" where
  "handle_reload env i cl st =
     (let live = filter (\<lambda>s. case fmlookup (sv_members st) s of
            Some m \<Rightarrow> sm_event_txs m \<noteq> fmempty | None \<Rightarrow> False) (en_order env (fmdom (sv_members st)));
          (delivered, st) = foldl (\<lambda>(n, st) s.
            let (k, st) = fanout_live_client_event env s EvReloading st in (n + k, st)) (0, st) live;
          st = (if delivered = 0 then tell cl EvReloading st else st)
      in tell cl (EvDone i) st)"

text \<open>The end of the loop by a break.\<close>

definition disconnect_client :: "server_env \<Rightarrow> nat \<Rightarrow> bool \<Rightarrow> client \<Rightarrow> server \<Rightarrow> server" where
  "disconnect_client env now reload_marker cl st =
     cleanup_client_connection env now (cl_session cl) (cl_connection cl)
       (disconnect_disposition (cl_processing cl \<or> cl_task cl = Some False) reload_marker) st"

end
