(* ===== verification/SwarmClientsProperties.thy ===== *)
theory SwarmClientsProperties
  imports SwarmControlProperties SwarmClients
begin

text \<open>
  What clients may rely on and what goes wrong: every message is answered once, a session keeps its place in
  the plans and among the coordinators when it is resumed, but not when it is cleared or subscribes again.
\<close>

section \<open>Steps that keep the rest\<close>

lemma silent_fields:
  "silent st (upd_connection f k st)" "silent st (upd_agent g a st)" "silent st (register_session_interrupt_queue s q st)"
  "silent st (remove_session_interrupt_queue s st)" "silent st (rename_session_interrupt_queue s s' st)"
  "silent st (remove_session_file_touches env s st)" "silent st (enqueue_soft_interrupt q m st)"
  "silent st (st\<lparr>sv_connections := c, sv_global_session := d\<rparr>)" "silent st (st\<lparr>sv_disconnects := e\<rparr>)"
  "silent st (rename_coordinator old new st)" "silent st (st\<lparr>sv_queue_heap := h, sv_stored_interrupts := t\<rparr>)"
  by (auto simp: upd_connection_def upd_agent_def register_session_interrupt_queue_def remove_session_interrupt_queue_def
      rename_session_interrupt_queue_def remove_session_file_touches_def enqueue_soft_interrupt_def rename_coordinator_def
      Let_def silent_def evolves_def waits_le_same plans_le_def members_keyed_def swarms_listed_def history_ok_def split: option.split)

lemma silent_enter: "silent st (join_swarm m st)"
  by (auto simp: join_swarm_def Let_def silent_def evolves_def waits_le_same plans_le_def members_keyed_def listed_alt history_ok_def
      get_or_entry_upd split: option.split)

lemma silent_register: "silent st (register_session_event_sender s k c st)"
  unfolding register_session_event_sender_def by (rule silent_upd_member) simp_all

lemma silent_unregister: "silent st (unregister_session_event_sender env s k st)"
  unfolding unregister_session_event_sender_def by (rule silent_upd_member) (simp_all add: Let_def)

lemma silent_rename_participant: "silent st (rename_plan_participant sw old new st)"
proof -
  have "i\<lparr>pi_assigned_to := x, pi_assigned_to := y\<rparr> = i\<lparr>pi_assigned_to := y\<rparr>" for i :: plan_item and x y by simp
  then show ?thesis
    unfolding rename_plan_participant_def by (intro silent_upd_plan) (simp add: plan_le_def tasks_of_def)
qed

lemma silent_no_participant: "silent st (remove_plan_participant sw sid st)"
  unfolding remove_plan_participant_def by (intro silent_upd_plan plan_le_participants)

text \<open>A member that moves to another id takes its place in the set of its swarm.\<close>

lemma silent_rename_member: "silent st (rename_member old new st)"
proof (cases "fmlookup (sv_members st) old")
  case (Some m)
  let ?m = "m\<lparr>sm_session_id := new, sm_status := ''ready'', sm_detail := None\<rparr>"
  let ?s = "rename_member old new st"
  have f: "sv_members ?s = fmupd new ?m (fmdrop old (sv_members st))" "sv_plans ?s = sv_plans st" "sv_closed ?s = sv_closed st"
    "sv_mutations ?s = sv_mutations st" "sv_out ?s = sv_out st" "history_ok ?s = history_ok st" "waits_le st ?s"
    by (simp_all add: rename_member_def Some Let_def history_ok_def waits_le_same split: option.split)
  have g: "get_or {||} (sv_swarms ?s) x = (if sm_swarm_id m = Some x \<and> x |\<in>| fmdom (sv_swarms st)
      then finsert new (get_or {||} (sv_swarms st) x |-| {|old|}) else get_or {||} (sv_swarms st) x)" for x
    by (auto simp: rename_member_def Some Let_def get_or_def lookup_update_existing fmlookup_dom_iff split: option.split)
  have "swarms_listed ?s" if l: "swarms_listed st"
  proof -
    have in_dom: "x |\<in>| fmdom (sv_swarms st)" if "i |\<in>| get_or {||} (sv_swarms st) x" for i x
      using that by (cases "fmlookup (sv_swarms st) x") (auto simp: get_or_def fmlookup_dom_iff)
    have o: "old |\<in>| get_or {||} (sv_swarms st) sw" if "sm_swarm_id m = Some sw" for sw
      using l that Some by (simp add: listed_alt)
    show ?thesis
      unfolding listed_alt
    proof (intro allI impI)
      fix i sw assume a: "map_option sm_swarm_id (fmlookup (sv_members ?s) i) = Some (Some sw)"
      show "i |\<in>| get_or {||} (sv_swarms ?s) sw"
      proof (cases "i = new")
        case True
        then have "sm_swarm_id m = Some sw" using a by (simp add: f)
        then show ?thesis using True o in_dom by (simp add: g)
      next
        case False
        then have b: "i \<noteq> old" "map_option sm_swarm_id (fmlookup (sv_members st) i) = Some (Some sw)"
          using a by (auto simp: f split: if_splits)
        then show ?thesis using l by (simp add: g listed_alt)
      qed
    qed
  qed
  then show ?thesis by (simp add: silent_def evolves_def f plans_le_def members_keyed_def)
qed (simp add: rename_member_def)

section \<open>Subscribing\<close>

lemma changed_sets:
  "get_or {||} (sv_swarms (change_swarm_sets sid old new st)) x =
     (let s = (if old = Some x then get_or {||} (sv_swarms st) x |-| {|sid|} else get_or {||} (sv_swarms st) x)
      in if new = Some x then finsert sid s else s)"
  by (cases old; cases new) (auto simp: change_swarm_sets_def Let_def get_or_entry_upd left_set upd_member_def)

lemma changed_rest:
  "map_option sm_swarm_id (fmlookup (sv_members (change_swarm_sets sid old new st)) i) =
     map_option sm_swarm_id (fmlookup (sv_members st) i)"
  "map_option sm_session_id (fmlookup (sv_members (change_swarm_sets sid old new st)) i) =
     map_option sm_session_id (fmlookup (sv_members st) i)"
  "sv_plans (change_swarm_sets sid old new st) = sv_plans st" "sv_closed (change_swarm_sets sid old new st) = sv_closed st"
  "sv_mutations (change_swarm_sets sid old new st) = sv_mutations st" "sv_out (change_swarm_sets sid old new st) = sv_out st"
  "history_ok (change_swarm_sets sid old new st) = history_ok st"
  "sv_coordinators (change_swarm_sets sid old new st) = sv_coordinators st"
  "sv_awaits (change_swarm_sets sid old new st) = sv_awaits st" "sv_waits (change_swarm_sets sid old new st) = sv_waits st"
  "sv_panicked (change_swarm_sets sid old new st) = sv_panicked st"
  by (cases old; cases new; auto simp: change_swarm_sets_def Let_def leave_swarm_set_def upd_member_def
      lookup_update_existing option.map_comp comp_def history_ok_def split: option.split)+

lemma silent_move:
  assumes "old = Option.bind (fmlookup (sv_members st) sid) sm_swarm_id" "fmlookup (sv_members st) sid = None \<Longrightarrow> new = None"
  shows "silent st (change_swarm_sets sid old new (upd_member (\<lambda>m. m\<lparr>sm_working_dir := d, sm_swarm_id := new\<rparr>) sid st))"
proof -
  let ?u = "upd_member (\<lambda>m. m\<lparr>sm_working_dir := d, sm_swarm_id := new\<rparr>) sid st"
  have u: "map_option sm_swarm_id (fmlookup (sv_members ?u) i) =
        (if i = sid \<and> fmlookup (sv_members st) sid \<noteq> None then Some new else map_option sm_swarm_id (fmlookup (sv_members st) i))"
    "map_option sm_session_id (fmlookup (sv_members ?u) i) = map_option sm_session_id (fmlookup (sv_members st) i)" for i
    by (auto simp: upd_member_def lookup_update_existing option.map_comp comp_def)
  have f: "sv_plans ?u = sv_plans st" "sv_closed ?u = sv_closed st" "sv_mutations ?u = sv_mutations st"
    "sv_out ?u = sv_out st" "history_ok ?u = history_ok st" "sv_swarms ?u = sv_swarms st"
    "sv_awaits ?u = sv_awaits st" "sv_waits ?u = sv_waits st" "sv_panicked ?u = sv_panicked st"
    by (simp_all add: upd_member_def history_ok_def)
  have "swarms_listed (change_swarm_sets sid old new ?u)" if l: "swarms_listed st"
    unfolding listed_alt changed_rest changed_sets f
    using l assms by (auto simp: u listed_alt Let_def split: if_splits)
  then show ?thesis
    by (simp add: silent_def evolves_def waits_le_same changed_rest f plans_le_def members_keyed_alt u)
qed

lemma note_unanswered: "answered_id (coordinator_note_event i n) = None"
  by (simp add: coordinator_note_event_def)

lemma silent_succeed: "silent st (succeed_subscriber sid old st)"
  by (auto simp: succeed_subscriber_def Let_def note_unanswered split: option.split
      intro!: silent_then(9) silent_trans [OF _ silent_coordinators] silent_coordinators)

lemma silent_subscribe_dir: "silent st (subscribe_working_dir env sp now cl dir st)"
proof -
  let ?s1 = "upd_agent (\<lambda>a. a\<lparr>ah_working_dir := Some dir\<rparr>) (cl_agent cl) st"
  define old where "old = Option.bind (fmlookup (sv_members ?s1) (cl_session cl)) sm_swarm_id"
  define new where "new = (case fmlookup (sv_members ?s1) (cl_session cl) of
    Some m \<Rightarrow> if sm_swarm_enabled m then swarm_id_for_dir sp (Some dir) else None | None \<Rightarrow> None)"
  define s2 where "s2 = change_swarm_sets (cl_session cl) old new
    (upd_member (\<lambda>m. m\<lparr>sm_working_dir := Some dir, sm_swarm_id := new\<rparr>) (cl_session cl) ?s1)"
  have 2: "silent st s2"
    unfolding s2_def by (rule silent_trans [OF silent_fields(2) silent_move]) (simp_all add: old_def new_def)
  define s3 where "s3 = (case old of None \<Rightarrow> s2 | Some sw \<Rightarrow>
    let s = succeed_subscriber (cl_session cl) sw s2;
        s = (if new \<noteq> Some sw then persist_swarm_state_for env now sw (remove_plan_participant sw (cl_session cl) s) else s)
    in broadcast_swarm_status env now sw s)"
  have 3: "silent st s3"
    unfolding s3_def Let_def
    by (auto split: option.split intro!: 2 silent_then(12) silent_then(1) silent_trans [OF _ silent_no_participant]
        silent_trans [OF 2 silent_succeed])
  show ?thesis
    unfolding subscribe_working_dir_def Let_def old_def [symmetric] new_def [symmetric] s2_def [symmetric]
      s3_def [unfolded Let_def, symmetric]
    using 3 by (auto split: option.split intro: silent_then(12))
qed

lemma silent_ensure: "silent st (ensure_client_swarm_member sp now cl agent st)"
  unfolding ensure_client_swarm_member_def Let_def
  by (auto split: option.split intro!: silent_upd_member silent_enter silent_then(3))

text \<open>What every operation of a client keeps; most of them answer it.\<close>

definition advances :: "server \<Rightarrow> server \<Rightarrow> bool" where
  "advances st st' \<longleftrightarrow> evolves st st' \<and> sv_mutations st' = sv_mutations st"

lemma advances_refl [simp, intro]: "advances st st"
  by (simp add: advances_def evolves_def)

lemma advances_trans [trans]: "advances a b \<Longrightarrow> advances b c \<Longrightarrow> advances a c"
  unfolding advances_def by (metis evolves_trans)

lemma silent_advances: "silent st st' \<Longrightarrow> advances st st'"
  by (simp add: silent_def advances_def)

lemma advances_tell: "advances st (tell cl e st)"
  by (simp add: tell_def send_to_def advances_def evolves_def waits_le_same plans_le_def members_keyed_def swarms_listed_def
      history_ok_def)

lemma told: "silent a b \<Longrightarrow> advances a (tell cl e b)" "advances a b \<Longrightarrow> advances a (tell cl e b)"
  by (rule advances_trans [OF silent_advances advances_tell] advances_trans [OF _ advances_tell]; assumption)+

lemma advances_subscribe: "advances st (handle_subscribe env sp now i cl agent dir st)"
  unfolding handle_subscribe_def Let_def update_member_status_def
  by (auto split: option.split intro!: told(1) silent_trans [OF _ silent_status]
      intro: silent_trans [OF silent_ensure silent_subscribe_dir] silent_ensure)

section \<open>Clearing and resuming\<close>

lemmas client_steps = silent_trans [OF _ silent_status] silent_trans [OF _ silent_irrelevant(3)]
  silent_trans [OF _ silent_irrelevant(2)] silent_trans [OF _ silent_rename_member]
  silent_trans [OF _ silent_rename_participant] silent_trans [OF _ silent_register]
  silent_fields [THEN [2] silent_trans]

lemma advances_clear: "advances st (snd (handle_clear_session env now i new_id agent cl st))"
  unfolding handle_clear_session_def Let_def snd_conv move_connection_def update_member_status_def
  by (intro told(2) told(1)) (auto split: option.split intro!: client_steps silent_fields(2))

lemma silent_detach: "silent st (detach_source env now cl st)"
proof -
  let ?old = "cl_session cl"
  define s1 where "s1 = unregister_session_event_sender env ?old (cl_connection cl) st"
  have 1: "silent st s1" by (simp add: s1_def silent_unregister)
  define s2 where "s2 = (case fmlookup (sv_agents s1) ?old of
      Some a \<Rightarrow> if ah_address a = cl_agent cl then s1\<lparr>sv_agents := fmdrop ?old (sv_agents s1)\<rparr> else s1 | None \<Rightarrow> s1)"
  have 2: "silent st s2"
    using 1 by (auto simp: s2_def split: option.split intro: silent_trans [OF _ silent_irrelevant(2)])
  define s3 where "s3 = remove_session_interrupt_queue ?old s2"
  define s4 where "s4 = remove_session_file_touches env ?old (s3\<lparr>sv_channels := remove_session ?old (sv_channels s3)\<rparr>)"
  have 4: "silent st s4" unfolding s4_def s3_def by (intro client_steps 2)
  define s5 where "s5 = s4\<lparr>sv_members := fmdrop ?old (sv_members s4)\<rparr>"
  have 5: "silent st s5" unfolding s5_def by (rule silent_trans [OF 4 silent_drop_member])
  have "silent st (remove_session_from_swarm env now ?old sw s5)" for sw
    by (rule silent_trans [OF 5 silent_leave]) (simp add: s5_def member_of_def)
  then show ?thesis
    unfolding detach_source_def Let_def s1_def [symmetric] s2_def [symmetric] s3_def [symmetric] s4_def [symmetric]
      s5_def [symmetric]
    using 1 5 by (auto split: option.split)
qed

lemma silent_supersede: "silent st (supersede_client k c cl st)"
  unfolding supersede_client_def Let_def
  by (auto intro!: silent_trans [OF _ silent_fields(9)] silent_trans [OF silent_irrelevant(1) silent_fields(1)])

lemma advances_history: "advances st (snd (write_history written i cl st))"
  by (auto simp: write_history_def intro!: told(2) advances_tell)

lemma advances_resume_live: "advances st (snd (snd (resume_live env now i s k lh t live w cl st)))"
proof -
  have a: "silent st (register_session_event_sender s c ch (attach_connection s k cl x))" if "silent st x" for c ch x
    unfolding attach_connection_def by (intro client_steps that)
  have b: "silent st (case conflict of None \<Rightarrow> detach_source env now cl st | Some (key, c) \<Rightarrow>
      if P c then supersede_client key c cl (detach_source env now cl st) else detach_source env now cl st)" for conflict P
    using silent_detach silent_trans [OF silent_detach silent_supersede] by (auto split: option.split)
  show ?thesis
    unfolding resume_live_def Let_def
      case_prod_beta snd_conv
    by (rule advances_trans [OF silent_advances [OF a] advances_history], rule b [unfolded case_prod_beta])
qed

lemma advances_restore:
  "advances st (snd (snd (restore_into env now i s k agent w cl st)))"
proof -
  have "silent st x \<Longrightarrow> silent st (register_session_event_sender a b c x)" for x a b c by (intro client_steps)
  then show ?thesis
    unfolding restore_into_def Let_def attach_connection_def update_member_status_def case_prod_beta snd_conv
    by (intro advances_trans [OF silent_advances advances_history])
      (auto split: option.split intro!: client_steps silent_then(1) silent_fields(2))
qed

lemma advances_resume: "advances st (snd (snd (handle_resume_session env now i s k lh t restored w cl st)))"
proof -
  have "advances st (snd (snd (resume_stored env now i s k lh t restored w cl st)))"
    unfolding resume_stored_def Let_def
    by (auto split: option.split sum.split simp: advances_restore intro!: advances_tell
        intro: told(1) [OF silent_supersede] advances_trans [OF silent_advances [OF silent_supersede] advances_restore])
  then show ?thesis
    by (auto simp: handle_resume_session_def advances_resume_live split: option.split)
qed

lemma advances_request_subscribe:
  "advances st (snd (snd (request_subscribe env sp now i dir target k lh t own restored w cl st)))"
proof -
  have s: "silent st (set_instance k cl st)" by (simp add: set_instance_def silent_fields(1))
  have d: "advances st (handle_subscribe env sp now i c a dir (set_instance k cl st))" for c a
    by (rule advances_trans [OF silent_advances [OF s] advances_subscribe])
  have r: "advances st (snd (snd (handle_resume_session env now i x k lh t restored w cl (set_instance k cl st))))" for x
    by (rule advances_trans [OF silent_advances [OF s] advances_resume])
  have "advances st (snd (snd (case handle_resume_session env now i x k lh t restored w cl (set_instance k cl st) of
      (Continues, cl, st) \<Rightarrow>
        if cl_session cl = x then (Continues, cl, handle_subscribe env sp now i cl (a st) dir st) else (Breaks, cl, st)
    | ended \<Rightarrow> ended)))" for x a
    using r [of x] advances_trans [OF r [of x] advances_subscribe]
    by (cases "handle_resume_session env now i x k lh t restored w cl (set_instance k cl st)")
      (auto split: loop_step.split)
  then show ?thesis
    unfolding request_subscribe_def Let_def using d by (auto split: option.split)
qed

lemma advances_request_resume: "advances st (snd (snd (request_resume env now i s k lh t restored w cl st)))"
  unfolding request_resume_def set_instance_def
  by (rule advances_trans [OF silent_advances [OF silent_fields(1)] advances_resume])

section \<open>Messages and the end\<close>

lemma silent_settle: "silent st (settle_turn env now s result report st)"
  by (auto simp: settle_turn_def update_member_status_def silent_status split: option.split sum.split turn_error.split)

lemma advances_message: "advances st (snd (handle_message env now reload i content cl st))"
proof -
  define s1 where "s1 = (if cl_processing cl then st
    else upd_connection (\<lambda>c. c\<lparr>cn_is_processing := True, cn_current_tool_name := None\<rparr>) (cl_connection cl) st)"
  have "silent st s1" by (simp add: s1_def silent_fields(1))
  then show ?thesis
    unfolding handle_message_def s1_def [symmetric] start_processing_message_def update_member_status_def
    by (auto intro: told(1) silent_advances silent_trans [OF _ silent_status])
qed

lemma advances_done: "advances st (snd (processing_done env now cl st))"
  unfolding processing_done_def Let_def
  by (auto split: list.split intro!: told(1) silent_trans [OF silent_fields(1) silent_settle])

lemma advances_cancel: "advances st (snd (handle_cancel env now cl st))"
proof -
  have "advances st (snd (cancel_processing_message env now cl st))"
    unfolding cancel_processing_message_def Let_def update_member_status_def
    by (auto split: option.split intro!: told(2) intro: told(1) silent_status silent_advances advances_tell)
  then show ?thesis
    by (auto simp: handle_cancel_def case_prod_beta intro: advances_trans [OF _ silent_advances [OF silent_fields(1)]])
qed

lemma silent_fanout_live: "answered_id e = None \<Longrightarrow> silent st (snd (fanout_live_client_event env s e st))"
proof (cases "fmlookup (sv_members st) s")
  case (Some m)
  assume e: "answered_id e = None"
  let ?m = "m\<lparr>sm_event_txs := open_txs (sv_closed st) (sm_event_txs m)\<rparr>"
  have "silent st (st\<lparr>sv_members := fmupd s ?m (sv_members st)\<rparr>)"
    by (rule silent_member [OF Some]) simp_all
  then show ?thesis
    unfolding fanout_live_client_event_def Some option.case Let_def snd_conv
    by (rule silent_trans, intro silent_foldl quiet_silent quiet_send_to e)
qed (simp add: fanout_live_client_event_def)

lemma advances_reload: "advances st (handle_reload env i cl st)"
proof -
  have "silent st (snd (foldl (\<lambda>(n, st) s. let (k, st) = fanout_live_client_event env s EvReloading st in (n + k, st))
      (n, st) xs))" for n :: nat and xs
  proof (induction xs arbitrary: n st)
    case (Cons x xs)
    obtain k s1 where f: "fanout_live_client_event env x EvReloading st = (k, s1)" by fastforce
    have "silent st s1" using silent_fanout_live [of EvReloading st env x] by (simp add: f)
    then show ?case using Cons.IH [of s1 "n + k"] by (simp add: f silent_trans)
  qed simp
  then show ?thesis
    unfolding handle_reload_def Let_def case_prod_beta
    by (intro told(2)) (simp add: told(1) silent_advances)
qed

lemma advances_interrupts: "advances st (queue_soft_interrupt content u cl st)" "advances st (clear_soft_interrupts cl st)"
  by (simp_all add: queue_soft_interrupt_def clear_soft_interrupts_def told(1) [OF silent_fields(7)]
      told(1) [OF silent_fields(11)])

lemma silent_disconnect: "silent st (disconnect_client env now reload cl st)"
  by (simp add: disconnect_client_def silent_cleanup)

section \<open>A status change leaves everybody's place alone\<close>

definition kept :: "server \<Rightarrow> server \<Rightarrow> bool" where
  "kept st st' \<longleftrightarrow>
     sv_coordinators st' = sv_coordinators st \<and> sv_swarms st' = sv_swarms st \<and> sv_plans st' = sv_plans st \<and>
     sv_closed st' = sv_closed st \<and> sv_agents st' = sv_agents st \<and> sv_connections st' = sv_connections st \<and>
     (\<forall>i. map_option sm_role (fmlookup (sv_members st') i) = map_option sm_role (fmlookup (sv_members st) i)) \<and>
     (\<forall>i. map_option sm_swarm_id (fmlookup (sv_members st') i) = map_option sm_swarm_id (fmlookup (sv_members st) i))"

lemma kept_refl [simp]: "kept st st"
  by (simp add: kept_def)

lemma kept_trans: "kept a b \<Longrightarrow> kept b c \<Longrightarrow> kept a c"
  by (simp add: kept_def)

lemma quiet_kept: "quiet st st' \<Longrightarrow> kept st st'"
  using core_field [OF quiet_fields(1), where f = sm_role] core_field [OF quiet_fields(1), where f = sm_swarm_id]
  by (auto simp: kept_def quiet_fields)

lemma kept_record: "kept st (record_swarm_event now sid name sw e st)"
  by (simp add: kept_def record_swarm_event_def Let_def)

lemma kept_persist: "kept st (persist_swarm_state_for env now s st)"
  by (simp add: kept_def persist_fields)

lemma kept_upd:
  "(\<And>m. sm_role (f m) = sm_role m) \<Longrightarrow> (\<And>m. sm_swarm_id (f m) = sm_swarm_id m) \<Longrightarrow> kept st (upd_member f sid st)"
  by (auto simp: kept_def upd_member_def lookup_update_existing option.map_comp comp_def)

lemma kept_member:
  "fmlookup (sv_members st) sid = Some m \<Longrightarrow> sm_role m' = sm_role m \<Longrightarrow> sm_swarm_id m' = sm_swarm_id m \<Longrightarrow>
   kept st (st\<lparr>sv_members := fmupd sid m' (sv_members st)\<rparr>)"
  by (simp add: kept_def)

lemma kept_status: "kept st (update_member_status_with_report env now h sid status detail report st)"
proof (cases "fmlookup (sv_members st) sid")
  case (Some m)
  let ?rep = "normalize_completion_report report"
  let ?m = "m\<lparr>sm_status := status, sm_detail := detail,
    sm_last_status_change := (if sm_status m \<noteq> status then now else sm_last_status_change m),
    sm_latest_completion_report := (if ?rep \<noteq> None then ?rep else sm_latest_completion_report m)\<rparr>"
  let ?s1 = "st\<lparr>sv_members := fmupd sid ?m (sv_members st)\<rparr>"
  have 1: "kept st ?s1" by (simp add: kept_def Some)
  define s2 where "s2 sw = broadcast_swarm_status env now sw (if sm_status m \<noteq> status \<and> h then
      record_swarm_event now sid (sm_friendly_name m) (Some sw) (SwStatusChange (sm_status m) status) ?s1 else ?s1)" for sw
  have 2: "kept st (s2 sw)" for sw
    using 1 kept_trans [OF 1 kept_record] by (auto simp: s2_def intro: kept_trans [OF _ quiet_kept [OF quiet_status]])
  show ?thesis
    unfolding update_member_status_with_report_def Let_def Some option.case s2_def [symmetric]
    using 1 2 by (auto split: option.split intro: kept_trans [OF _ quiet_kept [OF quiet_notify]] kept_member [OF Some])
qed (simp add: update_member_status_with_report_def)

section \<open>Messages are answered once\<close>

text \<open>
  What happens to the turns of a client: messages, outcomes sent by the running task, its end, outcomes
  received, cancellations. A task sends one outcome.
\<close>

datatype turn_op =
    TurnMessage nat bool nat string
  | TurnSends "turn_error + unit" "string option"
  | TurnFinishes
  | TurnReceives nat
  | TurnCancel nat

fun turn_step :: "server_env \<Rightarrow> client \<times> server \<Rightarrow> turn_op \<Rightarrow> client \<times> server" where
  "turn_step env (cl, st) (TurnMessage now reload i content) = handle_message env now reload i content cl st"
| "turn_step env (cl, st) (TurnSends result report) =
     (case cl_message_id cl of
        None \<Rightarrow> (cl, st)
      | Some i \<Rightarrow>
          if cl_task cl = Some False \<and> i \<notin> fst ` set (cl_outcomes cl) then (task_sends i result report cl, st) else (cl, st))"
| "turn_step env (cl, st) TurnFinishes =
     (case cl_message_id cl of
        None \<Rightarrow> (cl, st)
      | Some i \<Rightarrow> if i \<in> fst ` set (cl_outcomes cl) then (task_finishes cl, st) else (cl, st))"
| "turn_step env (cl, st) (TurnReceives now) = processing_done env now cl st"
| "turn_step env (cl, st) (TurnCancel now) = handle_cancel env now cl st"

fun submitted :: "turn_op list \<Rightarrow> nat list" where
  "submitted [] = []"
| "submitted (TurnMessage now reload i content # ops) = i # submitted ops"
| "submitted (_ # ops) = submitted ops"

fun accepted :: "turn_op list \<Rightarrow> nat list" where
  "accepted [] = []"
| "accepted (TurnMessage now reload i content # ops) = (if reload then accepted ops else i # accepted ops)"
| "accepted (_ # ops) = accepted ops"

text \<open>
  Of the messages so far the present one has no answer and the others one; those to come have none.
\<close>

definition turns_ok :: "nat \<Rightarrow> nat list \<Rightarrow> nat list \<Rightarrow> client \<times> server \<Rightarrow> bool" where
  "turns_ok ch before after = (\<lambda>(cl, st).
     cl_channel cl = ch \<and> ch |\<notin>| sv_closed st \<and>
     (cl_processing cl \<longleftrightarrow> cl_message_id cl \<noteq> None) \<and> (cl_task cl \<noteq> None \<longleftrightarrow> cl_message_id cl \<noteq> None) \<and>
     (\<forall>i. cl_message_id cl = Some i \<longrightarrow> i \<in> set before) \<and> distinct after \<and> set before \<inter> set after = {} \<and>
     (\<forall>i \<in> set after. answers i (sv_out st) = []) \<and>
     (\<forall>i \<in> set before. if cl_message_id cl = Some i then answers i (sv_out st) = []
        else \<exists>e. answered_id e = Some i \<and> answers i (sv_out st) = [(ch, e)]))"

text \<open>A step that keeps the answers and the turn, and one that answers the message that ends.\<close>

lemma answers_tell:
  "answers i (sv_out (tell cl e st)) =
     answers i (sv_out st) @ (if cl_channel cl |\<notin>| sv_closed st \<and> answered_id e = Some i then [(cl_channel cl, e)] else [])"
  "sv_closed (tell cl e st) = sv_closed st"
  by (simp_all add: tell_def send_to_def)

definition mute :: "server \<Rightarrow> server \<Rightarrow> bool" where
  "mute st st' \<longleftrightarrow> sv_closed st' = sv_closed st \<and> (\<forall>i. answers i (sv_out st') = answers i (sv_out st))"

lemma mute_trans: "mute a b \<Longrightarrow> mute b c \<Longrightarrow> mute a c"
  by (simp add: mute_def)

lemma mute_parts:
  "mute st st" "mute st (update_member_status_with_report env now h sid status detail report st)"
  "mute st (update_member_status env now h sid status detail st)" "mute st (upd_connection f k st)"
  "mute st (settle_turn env now s result r st)"
proof -
  show 1: "mute st (update_member_status_with_report env now h sid status detail report st)" for sid status detail report
    using kept_status [of st env now h sid status detail report] silent_status [of st env now h sid status detail report]
    by (simp add: mute_def kept_def silent_def)
  show "mute st (update_member_status env now h sid status detail st)" by (simp add: update_member_status_def 1)
  show "mute st (settle_turn env now s result r st)"
    using kept_status silent_status
    by (auto simp: settle_turn_def update_member_status_def mute_def kept_def silent_def split: option.split sum.split turn_error.split)
qed (simp_all add: mute_def upd_connection_def)

lemma fst_task_sends [simp]:
  "cl_channel (task_sends i r p cl) = cl_channel cl" "cl_processing (task_sends i r p cl) = cl_processing cl"
  "cl_message_id (task_sends i r p cl) = cl_message_id cl" "cl_task (task_sends i r p cl) = cl_task cl"
  by (simp_all add: task_sends_def)

lemma turn_message:
  assumes "turns_ok ch before (i # after) (cl, st)"
  shows "turns_ok ch (if reload then before else i # before) after (turn_step env (cl, st) (TurnMessage now reload i content))"
proof -
  define s1 where "s1 = (if cl_processing cl then st
    else upd_connection (\<lambda>c. c\<lparr>cn_is_processing := True, cn_current_tool_name := None\<rparr>) (cl_connection cl) st)"
  have mute: "mute st s1" using mute_parts by (simp add: s1_def)
  have started: "mute st (update_member_status env now True s x y s1)" for s x y by (rule mute_trans [OF mute mute_parts(3)])
  have i: "i \<notin> set before" "i \<notin> set after" "answers i (sv_out st) = []" "cl_message_id cl \<noteq> Some i"
    using assms by (auto simp: turns_ok_def)
  have eq: "turn_step env (cl, st) (TurnMessage now reload i content) = start_processing_message env now reload i content cl s1"
    by (simp add: handle_message_def s1_def)
  consider "reload" | "\<not> reload" "cl_processing cl" | "\<not> reload" "\<not> cl_processing cl" by blast
  then show ?thesis
  proof cases
    case 1
    then have "turn_step env (cl, st) (TurnMessage now reload i content) = (cl, tell cl EvReloading s1)"
      unfolding eq by (simp add: start_processing_message_def)
    then show ?thesis using assms mute 1 by (simp add: turns_ok_def answers_tell mute_def)
  next
    case 2
    then have "turn_step env (cl, st) (TurnMessage now reload i content) =
        (cl, tell cl (EvError i ''Already processing a message'' None) s1)"
      unfolding eq by (simp add: start_processing_message_def)
    then show ?thesis using assms mute 2 i by (simp add: turns_ok_def answers_tell mute_def) blast
  next
    case 3
    then have "turn_step env (cl, st) (TurnMessage now reload i content) =
        (cl\<lparr>cl_processing := True, cl_message_id := Some i, cl_processing_session := Some (cl_session cl), cl_task := Some False\<rparr>,
         update_member_status env now True (cl_session cl) ''running'' (Some (truncate_detail content 120)) s1)"
      unfolding eq by (simp add: start_processing_message_def)
    then show ?thesis using assms started 3 i by (auto simp: turns_ok_def mute_def)
  qed
qed

lemma turn_receives:
  assumes "turns_ok ch before after (cl, st)"
  shows "turns_ok ch before after (turn_step env (cl, st) (TurnReceives now))"
proof (cases "cl_outcomes cl")
  case Nil
  then show ?thesis using assms by (simp add: processing_done_def)
next
  case (Cons o1 rest)
  obtain i result report where o1: "o1 = (i, result, report)" by (cases o1)
  define s1 where "s1 = settle_turn env now (cl_processing_session cl) result report
    (upd_connection idle_connection (cl_connection cl) st)"
  have 1: "mute st s1" unfolding s1_def by (rule mute_trans [OF mute_parts(4,5)])
  obtain e where e: "answered_id e = Some i"
    "e = (case result of Inr _ \<Rightarrow> EvDone i | Inl (TurnError text chain retry) \<Rightarrow> EvError i chain retry)"
    by (cases result) (auto split: turn_error.split)
  show ?thesis
  proof (cases "cl_message_id cl = Some i")
    case False
    then show ?thesis using assms by (simp add: processing_done_def Cons o1 turns_ok_def)
  next
    case True
    have "turn_step env (cl, st) (TurnReceives now) =
        (cl\<lparr>cl_outcomes := rest, cl_message_id := None, cl_task := None, cl_processing := False, cl_processing_session := None\<rparr>,
         tell (cl\<lparr>cl_outcomes := rest\<rparr>) e s1)"
      by (simp add: processing_done_def Cons o1 True e(2) s1_def Let_def)
    then show ?thesis
      using assms 1 True e(1) by (auto simp: turns_ok_def answers_tell mute_def)
  qed
qed

lemma turn_cancel:
  assumes "turns_ok ch before after (cl, st)"
  shows "turns_ok ch before after (turn_step env (cl, st) (TurnCancel now))"
proof (cases "cl_task cl = Some False")
  case False
  define s1 where "s1 = (if cl_processing cl then st else upd_connection idle_connection (cl_connection cl) st)"
  have "mute st s1" using mute_parts by (simp add: s1_def)
  moreover have "turn_step env (cl, st) (TurnCancel now) = (cl, s1)"
    using False by (simp add: handle_cancel_def cancel_processing_message_def s1_def)
  ultimately show ?thesis using assms by (auto simp: turns_ok_def mute_def)
next
  case True
  then obtain i where i: "cl_message_id cl = Some i" using assms by (auto simp: turns_ok_def)
  define s1 where "s1 = (case cl_processing_session cl of
    Some sid \<Rightarrow> update_member_status env now True sid ''stopped'' (Some ''cancelled'') st | None \<Rightarrow> st)"
  have 1: "mute st s1" using mute_parts by (auto simp: s1_def split: option.split)
  let ?s2 = "tell cl (EvDone i) (tell cl EvInterrupted s1)"
  have "turn_step env (cl, st) (TurnCancel now) =
      (cl\<lparr>cl_task := None, cl_processing := False, cl_processing_session := None, cl_message_id := None\<rparr>,
       upd_connection idle_connection (cl_connection cl) ?s2)"
    using True i by (simp add: handle_cancel_def cancel_processing_message_def s1_def Let_def)
  moreover have "mute ?s2 (upd_connection idle_connection (cl_connection cl) ?s2)" by (rule mute_parts(4))
  ultimately show ?thesis
    using assms 1 i by (auto simp: turns_ok_def answers_tell mute_def)
qed

lemma turns_ok_run:
  "turns_ok ch before (submitted ops) (cl, st) \<Longrightarrow>
   turns_ok ch (rev (accepted ops) @ before) [] (foldl (turn_step env) (cl, st) ops)"
proof (induction ops arbitrary: before cl st)
  case (Cons op ops)
  obtain cl' st' where n: "turn_step env (cl, st) op = (cl', st')" by fastforce
  show ?case
  proof (cases op)
    case (TurnMessage now reload i content)
    then have "turns_ok ch (if reload then before else i # before) (submitted ops) (cl', st')"
      using turn_message [of ch before i "submitted ops" cl st reload env now content] Cons.prems n by simp
    from Cons.IH [OF this] show ?thesis using TurnMessage n by (cases reload) simp_all
  next
    case (TurnSends result report)
    then have "turns_ok ch before (submitted ops) (cl', st')"
      using Cons.prems n by (auto simp: turns_ok_def split: option.splits if_splits)
    from Cons.IH [OF this] show ?thesis using TurnSends n by simp
  next
    case TurnFinishes
    then have "turns_ok ch before (submitted ops) (cl', st')"
      using Cons.prems n by (auto simp: turns_ok_def task_finishes_def split: option.splits if_splits)
    from Cons.IH [OF this] show ?thesis using TurnFinishes n by simp
  next
    case (TurnReceives now)
    then have "turns_ok ch before (submitted ops) (cl', st')"
      using turn_receives [of ch before "submitted ops" cl st env now] Cons.prems n by simp
    from Cons.IH [OF this] show ?thesis using TurnReceives n by simp
  next
    case (TurnCancel now)
    then have "turns_ok ch before (submitted ops) (cl', st')"
      using turn_cancel [of ch before "submitted ops" cl st env now] Cons.prems n by simp
    from Cons.IH [OF this] show ?thesis using TurnCancel n by simp
  qed
qed simp

definition idle_client :: "client \<Rightarrow> bool" where
  "idle_client cl \<longleftrightarrow> \<not> cl_processing cl \<and> cl_message_id cl = None \<and> cl_task cl = None"

text \<open>
  Property C13. However messages, outcomes and cancellations follow each other, every message that no reload rejects is
  answered exactly once, by Done or an error on the client's channel; only the one being processed is still
  without an answer. Messages have different numbers.
\<close>

theorem messages_answered_once:
  assumes "idle_client cl" "cl_channel cl |\<notin>| sv_closed st" "distinct (submitted ops)"
    "\<forall>i \<in> set (submitted ops). answers i (sv_out st) = []"
  shows "let (cl', st') = foldl (turn_step env) (cl, st) ops
    in \<forall>i \<in> set (accepted ops). if cl_message_id cl' = Some i then answers i (sv_out st') = []
         else \<exists>e. answered_id e = Some i \<and> answers i (sv_out st') = [(cl_channel cl, e)]"
proof -
  have "turns_ok (cl_channel cl) [] (submitted ops) (cl, st)"
    using assms by (simp add: turns_ok_def idle_client_def)
  from turns_ok_run [OF this, of env] show ?thesis
    by (auto simp: turns_ok_def split: prod.split)
qed

definition sample_agent :: "nat \<Rightarrow> string \<Rightarrow> nat \<Rightarrow> agent_handle" where
  "sample_agent address name queue =
     \<lparr>ah_address = address, ah_short_name = Some name, ah_queue = queue, ah_busy = False, ah_tool_calls = (\<lambda>_. []),
      ah_working_dir = None, ah_provider = (''p'', ''m''), ah_history = []\<rparr>"

definition sample_client :: "string \<Rightarrow> client" where
  "sample_client session_id = fst (connect_client ''k'' 5 session_id (sample_agent 1 ''fox'' 2) True empty_server)"

lemma messages_answered_once_witness:
  "let (cl', st') = foldl (turn_step sample_env) (sample_client ''c'', sample_server fmempty)
         [TurnMessage 3 False 10 ''hi'', TurnMessage 4 False 11 ''ho'', TurnCancel 5]
   in \<forall>i \<in> set (accepted [TurnMessage 3 False 10 ''hi'', TurnMessage 4 False 11 ''ho'', TurnCancel 5]).
        if cl_message_id cl' = Some i then answers i (sv_out st') = []
        else \<exists>e. answered_id e = Some i \<and> answers i (sv_out st') = [(cl_channel (sample_client ''c''), e)]"
proof -
  have o: "sv_out (sample_server fmempty) = []" "sv_closed (sample_server fmempty) = {||}"
    by (simp_all add: sample_server_def empty_server_def)
  have c: "idle_client (sample_client ''c'')" "cl_channel (sample_client ''c'') = 5"
    by (simp_all add: sample_client_def connect_client_def Let_def idle_client_def)
  show ?thesis
    by (rule messages_answered_once) (simp_all add: o c answers_def)
qed

section \<open>Where coordinators go\<close>

lemma subscribed_set:
  assumes "old = Some sw" "new = Some sw" "sid |\<in>| get_or {||} (sv_swarms st) sw"
  shows "get_or {||} (sv_swarms (change_swarm_sets sid old new st)) sw = get_or {||} (sv_swarms st) sw"
  using assms by (auto simp: changed_sets)

text \<open>
  Property C22. A coordinator that subscribes again with a directory of its own swarm loses the swarm to its least session,
  although it stays; and nobody's role changes, so the old one still has the role and the new one not.
\<close>

theorem resubscribing_loses_coordination:
  assumes "fmlookup (sv_members st) (cl_session cl) = Some m" "sm_swarm_id m = Some sw" "sm_swarm_enabled m"
    "swarm_id_for_dir sp (Some dir) = Some sw" "fmlookup (sv_coordinators st) sw = Some (cl_session cl)"
    "cl_session cl |\<in>| get_or {||} (sv_swarms st) sw"
  shows "let st' = subscribe_working_dir env sp now cl dir st
    in fmlookup (sv_coordinators st') sw = Some (fMin (get_or {||} (sv_swarms st) sw)) \<and>
       (\<forall>i. map_option sm_role (fmlookup (sv_members st') i) = map_option sm_role (fmlookup (sv_members st) i))"
proof -
  let ?sid = "cl_session cl"
  let ?s1 = "upd_agent (\<lambda>a. a\<lparr>ah_working_dir := Some dir\<rparr>) (cl_agent cl) st"
  define s2 where "s2 = upd_member (\<lambda>m. m\<lparr>sm_working_dir := Some dir, sm_swarm_id := Some sw\<rparr>) ?sid ?s1"
  define s3 where "s3 = change_swarm_sets ?sid (Some sw) (Some sw) s2"
  have set3: "get_or {||} (sv_swarms s3) sw = get_or {||} (sv_swarms st) sw"
    using subscribed_set [OF refl refl, of ?sid s2 sw] assms(6) by (simp add: s3_def s2_def upd_member_def upd_agent_def)
  have coord3: "sv_coordinators s3 = sv_coordinators st"
    by (simp add: s3_def changed_rest s2_def upd_member_def upd_agent_def)
  have role2: "map_option sm_role (fmlookup (sv_members s2) i) = map_option sm_role (fmlookup (sv_members st) i)" for i
    by (auto simp: s2_def upd_member_def upd_agent_def lookup_update_existing option.map_comp comp_def)
  have role3: "sv_members s3 = sv_members s2"
    by (simp add: s3_def change_swarm_sets_def Let_def leave_swarm_set_def split: option.split)
  define s4 where "s4 = succeed_subscriber ?sid sw s3"
  have "fmlookup (sv_swarms s3) sw = Some (get_or {||} (sv_swarms st) sw)"
    using set3 assms(6) by (cases "fmlookup (sv_swarms s3) sw") (auto simp: get_or_def)
  then have coord4: "fmlookup (sv_coordinators s4) sw = Some (fMin (get_or {||} (sv_swarms st) sw))"
    using assms(5,6) by (auto simp: s4_def succeed_subscriber_def coord3 Let_def send_member_def send_to_def split: option.split)
  have mem4: "sv_members s4 = sv_members s3"
    by (simp add: s4_def succeed_subscriber_def Let_def send_member_def send_to_def split: option.split)
  have "subscribe_working_dir env sp now cl dir st = broadcast_swarm_status env now sw s4"
    using assms(1-4) by (simp add: subscribe_working_dir_def Let_def s4_def s3_def s2_def upd_agent_def)
  moreover have "kept s4 (broadcast_swarm_status env now sw s4)"
    by (rule quiet_kept [OF quiet_status])
  ultimately show ?thesis using coord4 role2 role3 mem4 by (simp add: kept_def Let_def)
qed

definition sample_spawn_in :: "string \<Rightarrow> spawn_env" where
  "sample_spawn_in swarm =
     \<lparr>sp_visible = None, sp_headless_session = ''session_fox_1'', sp_headless_address = 6, sp_headless_queue = 7,
      sp_headless_tx = 8, sp_provider = (''p'', ''m''), sp_dead_tx = 9, sp_swarm_enabled = True,
      sp_swarm_id_var = None, sp_git_common_dir = (\<lambda>_. Some swarm)\<rparr>"

lemma resubscribing_loses_coordination_witness:
  "let st = (sample_server fmempty)\<lparr>sv_coordinators := fmupd ''s'' ''w'' fmempty\<rparr>;
       st' = subscribe_working_dir sample_env (sample_spawn_in ''s'') 4 (sample_client ''w'') ''d'' st
   in fmlookup (sv_coordinators st') ''s'' = Some ''c'' \<and>
      (\<forall>i. map_option sm_role (fmlookup (sv_members st') i) = map_option sm_role (fmlookup (sv_members st) i))"
proof -
  let ?st = "(sample_server fmempty)\<lparr>sv_coordinators := fmupd ''s'' ''w'' fmempty\<rparr>"
  have s: "get_or {||} (sv_swarms ?st) ''s'' = {|''c'', ''w''|}"
    by (simp add: sample_server_def get_or_def)
  have m: "fMin {|''c'', ''w''|} = ''c''" by code_simp
  have c: "cl_session (sample_client ''w'') = ''w''" by (simp add: sample_client_def connect_client_def Let_def)
  have w: "fmlookup (sv_members ?st) ''w'' = Some (sample_member ''w'' 2 ''agent'')"
    by (simp add: sample_server_def)
  show ?thesis
    using resubscribing_loses_coordination [of ?st "sample_client ''w''" "sample_member ''w'' 2 ''agent''" "''s''"
        "sample_spawn_in ''s''" "''d''" sample_env 4]
    unfolding Let_def c s m w by (simp add: sample_member_def swarm_id_for_dir_def sample_spawn_in_def)
qed

text \<open>
  Property C21. A session that is cleared is a member under its new id with its role, but a swarm it coordinated still names
  the old id, which is no member any more.
\<close>

theorem clearing_orphans_swarm:
  assumes "fmlookup (sv_members st) (cl_session cl) = Some m" "new_id \<noteq> cl_session cl"
    "fmlookup (sv_coordinators st) sw = Some (cl_session cl)"
  shows "let (cl', st') = handle_clear_session env now i new_id new_agent cl st
    in cl_session cl' = new_id \<and> fmlookup (sv_coordinators st') sw = Some (cl_session cl) \<and>
       cl_session cl |\<notin>| fmdom (sv_members st') \<and>
       map_option sm_role (fmlookup (sv_members st') new_id) = Some (sm_role m) \<and>
       map_option sm_swarm_id (fmlookup (sv_members st') new_id) = Some (sm_swarm_id m)"
proof -
  let ?old = "cl_session cl"
  define agent where "agent = new_agent\<lparr>ah_address := cl_agent cl\<rparr>"
  define s1 where "s1 = remove_session_interrupt_queue ?old (register_session_interrupt_queue new_id (ah_queue agent)
    (upd_agent (\<lambda>_. agent) (cl_agent cl) st\<lparr>sv_agents := fmupd new_id agent (fmdrop ?old (sv_agents (upd_agent (\<lambda>_. agent) (cl_agent cl) st)))\<rparr>))"
  define s2 where "s2 = remove_session_file_touches env ?old (rename_member ?old new_id s1)"
  define s3 where "s3 = s2\<lparr>sv_channels := remove_session ?old (sv_channels s2)\<rparr>"
  define s4 where "s4 = update_member_status env now True new_id ''ready'' None s3"
  have 1: "sv_members s1 = sv_members st" "sv_coordinators s1 = sv_coordinators st"
    by (simp_all add: s1_def upd_agent_def register_session_interrupt_queue_def remove_session_interrupt_queue_def)
  have 3: "sv_members s3 = fmupd new_id (m\<lparr>sm_session_id := new_id, sm_status := ''ready'', sm_detail := None\<rparr>) (fmdrop ?old (sv_members st))"
    "sv_coordinators s3 = sv_coordinators st"
    using assms(1)
    by (simp_all add: s3_def s2_def remove_session_file_touches_def Let_def rename_member_def 1 split: option.split)
  have k: "kept s3 s4" unfolding s4_def update_member_status_def by (rule kept_status)
  have dom: "?old |\<notin>| fmdom (sv_members s4)"
    using k 3 assms(2) unfolding kept_def by (metis fmdom_notI fmlookup_drop fmupd_lookup map_option_is_None)
  have e: "snd (handle_clear_session env now i new_id new_agent cl st) = tell cl (EvDone i) (tell cl (EvSessionId new_id)
      (move_connection new_id cl (case Option.bind (fmlookup (sv_members s1) ?old) sm_swarm_id of None \<Rightarrow> s4
        | Some sw \<Rightarrow> rename_plan_participant sw ?old new_id s4)))"
    unfolding handle_clear_session_def Let_def agent_def [symmetric] s1_def [symmetric] s2_def [symmetric]
      s3_def [symmetric] s4_def [symmetric] snd_conv ..
  have f: "sv_members (tell cl a x) = sv_members x" "sv_coordinators (tell cl a x) = sv_coordinators x"
    "sv_members (move_connection new_id cl x) = sv_members x" "sv_coordinators (move_connection new_id cl x) = sv_coordinators x"
    "sv_members (rename_plan_participant w a' b x) = sv_members x"
    "sv_coordinators (rename_plan_participant w a' b x) = sv_coordinators x" for a x w a' b
    by (simp_all add: tell_def send_to_def move_connection_def upd_connection_def rename_plan_participant_def upd_plan_def)
  have "sv_members (snd (handle_clear_session env now i new_id new_agent cl st)) = sv_members s4"
    "sv_coordinators (snd (handle_clear_session env now i new_id new_agent cl st)) = sv_coordinators s4"
    unfolding e f by (simp_all add: f split: option.split)
  moreover have "cl_session (fst (handle_clear_session env now i new_id new_agent cl st)) = new_id"
    by (simp add: handle_clear_session_def Let_def)
  moreover have "map_option sm_role (fmlookup (sv_members s4) new_id) = Some (sm_role m)"
    "map_option sm_swarm_id (fmlookup (sv_members s4) new_id) = Some (sm_swarm_id m)"
    using k unfolding kept_def 3 by simp_all
  moreover have "sv_coordinators s4 = sv_coordinators st" using k by (simp add: kept_def 3)
  ultimately show ?thesis
    using dom assms(3) by (simp only: case_prod_beta Let_def) simp
qed

lemma clearing_orphans_swarm_witness:
  "let (cl', st') = handle_clear_session sample_env 4 9 ''n'' (sample_agent 3 ''owl'' 4) (sample_client ''c'') (sample_server fmempty)
   in cl_session cl' = ''n'' \<and> fmlookup (sv_coordinators st') ''s'' = Some (cl_session (sample_client ''c'')) \<and>
      cl_session (sample_client ''c'') |\<notin>| fmdom (sv_members st') \<and>
      map_option sm_role (fmlookup (sv_members st') ''n'') = Some (sm_role (sample_member ''c'' 1 ''coordinator'')) \<and>
      map_option sm_swarm_id (fmlookup (sv_members st') ''n'') = Some (sm_swarm_id (sample_member ''c'' 1 ''coordinator''))"
proof -
  have c: "cl_session (sample_client ''c'') = ''c''" by (simp add: sample_client_def connect_client_def Let_def)
  show ?thesis
    by (rule clearing_orphans_swarm) (simp_all add: c sample_server_def)
qed

section \<open>Where a resumed session goes\<close>

lemma rename_fields:
  assumes "fmlookup (sv_members st) old = Some m" "sm_swarm_id m = Some sw"
  shows "sv_members (rename_member old new st) =
      fmupd new (m\<lparr>sm_session_id := new, sm_status := ''ready'', sm_detail := None\<rparr>) (fmdrop old (sv_members st))"
    "sv_swarms (rename_member old new st) = update_existing (\<lambda>s. finsert new (s |-| {|old|})) sw (sv_swarms st)"
    "sv_coordinators (rename_member old new st) = sv_coordinators st" "sv_plans (rename_member old new st) = sv_plans st"
  using assms by (simp_all add: rename_member_def)

lemma history_rest:
  "sv_members (snd (write_history w i cl st)) = sv_members st" "sv_swarms (snd (write_history w i cl st)) = sv_swarms st"
  "sv_coordinators (snd (write_history w i cl st)) = sv_coordinators st" "sv_plans (snd (write_history w i cl st)) = sv_plans st"
  by (simp_all add: write_history_def tell_def send_to_def)

definition renamed_plan :: "string \<Rightarrow> string \<Rightarrow> versioned_plan \<Rightarrow> versioned_plan" where
  "renamed_plan old new vp =
     vp\<lparr>vp_participants := (if old |\<in>| vp_participants vp then finsert new (vp_participants vp |-| {|old|})
          else vp_participants vp),
        vp_items := map (\<lambda>item. if pi_assigned_to item = Some old then item\<lparr>pi_assigned_to := Some new\<rparr> else item)
          (vp_items vp)\<rparr>"

lemma restore_effect:
  assumes "fmlookup (sv_members st) (cl_session cl) = Some m" "sm_swarm_id m = Some sw" "new \<noteq> cl_session cl"
  shows "let st' = snd (snd (restore_into env now i new k agent w cl st)); old = cl_session cl
    in sv_swarms st' = update_existing (\<lambda>s. finsert new (s |-| {|old|})) sw (sv_swarms st) \<and>
       sv_coordinators st' = fmmap (\<lambda>c. if c = old then new else c) (sv_coordinators st) \<and>
       sv_plans st' = update_existing (renamed_plan old new) sw (sv_plans st) \<and>
       fmlookup (sv_members st') old = None \<and>
       map_option sm_role (fmlookup (sv_members st') new) = Some (sm_role m) \<and>
       map_option sm_swarm_id (fmlookup (sv_members st') new) = Some (Some sw)"
proof -
  let ?old = "cl_session cl"
  define a where "a = agent\<lparr>ah_address := cl_agent cl, ah_queue := cl_queue cl\<rparr>"
  define s1 where "s1 = attach_connection new k cl (rename_session_interrupt_queue ?old new
    (upd_agent (\<lambda>_. a) (cl_agent cl) st\<lparr>sv_agents := fmupd new a (fmdrop ?old (sv_agents (upd_agent (\<lambda>_. a) (cl_agent cl) st)))\<rparr>))"
  have 1: "sv_members s1 = sv_members st" "sv_coordinators s1 = sv_coordinators st" "sv_swarms s1 = sv_swarms st"
    "sv_plans s1 = sv_plans st"
    by (simp_all add: s1_def upd_agent_def attach_connection_def upd_connection_def rename_session_interrupt_queue_def
        split: option.split)
  note rn = rename_fields [of s1 ?old m sw new, unfolded 1, OF assms(1,2)]
  define s2 where "s2 = rename_member ?old new s1"
  define s3 where "s3 = rename_coordinator ?old new (remove_session_file_touches env ?old
    (s2\<lparr>sv_channels := remove_session ?old (sv_channels s2)\<rparr>))"
  have 3: "sv_members s3 = fmupd new (m\<lparr>sm_session_id := new, sm_status := ''ready'', sm_detail := None\<rparr>) (fmdrop ?old (sv_members st))"
    "sv_swarms s3 = update_existing (\<lambda>s. finsert new (s |-| {|?old|})) sw (sv_swarms st)" "sv_plans s3 = sv_plans st"
    "sv_coordinators s3 = fmmap (\<lambda>c. if c = ?old then new else c) (sv_coordinators st)"
    by (simp_all add: s3_def rename_coordinator_def remove_session_file_touches_def Let_def s2_def rn)
  define s4 where "s4 = update_member_status env now True new ''ready'' None s3"
  have k4: "kept s3 s4" unfolding s4_def update_member_status_def by (rule kept_status)
  have roles: "map_option sm_role (fmlookup (sv_members s4) new) = Some (sm_role m)"
    "map_option sm_swarm_id (fmlookup (sv_members s4) new) = Some (Some sw)" "fmlookup (sv_members s4) ?old = None"
  proof -
    show "map_option sm_role (fmlookup (sv_members s4) new) = Some (sm_role m)"
      "map_option sm_swarm_id (fmlookup (sv_members s4) new) = Some (Some sw)"
      using k4 assms(2) unfolding kept_def 3 by simp_all
    have "map_option sm_role (fmlookup (sv_members s4) ?old) = None" using k4 assms(3) unfolding kept_def 3 by simp
    then show "fmlookup (sv_members s4) ?old = None" by simp
  qed
  define s5 where "s5 = persist_swarm_state_for env now sw (rename_plan_participant sw ?old new s4)"
  have 5: "sv_members s5 = sv_members s4" "sv_swarms s5 = sv_swarms s4" "sv_coordinators s5 = sv_coordinators s4"
    "sv_plans s5 = update_existing (renamed_plan ?old new) sw (sv_plans s4)"
    by (simp_all add: s5_def persist_fields rename_plan_participant_def upd_plan_def renamed_plan_def [abs_def])
  define s6 where "s6 = register_session_event_sender new (cl_connection cl) (cl_channel cl) s5"
  have k6: "kept s5 s6" unfolding s6_def register_session_event_sender_def by (rule kept_upd) simp_all
  have gone: "fmlookup (sv_members s6) ?old = None"
    using k6 roles(3) 5(1) unfolding kept_def by (metis map_option_is_None)
  have sw4: "Option.bind (fmlookup (sv_members s4) new) sm_swarm_id = Some sw"
    using roles(2) by (cases "fmlookup (sv_members s4) new") simp_all
  have e: "snd (snd (restore_into env now i new k agent w cl st)) = snd (write_history w i (cl\<lparr>cl_session := new\<rparr>) s6)"
    unfolding restore_into_def Let_def case_prod_beta snd_conv a_def [symmetric] s1_def [symmetric] s2_def [symmetric]
      s3_def [symmetric] s4_def [symmetric] sw4 option.case s5_def [symmetric] s6_def [symmetric] ..
  show ?thesis
    using k4 k6 roles(1,2) gone unfolding e Let_def history_rest kept_def 3 5 by simp
qed

text \<open>
  Property C18. A session restored into a client takes the place of the client's temporary one: in the set of its swarm,
  as a coordinator, in the plan with what was assigned to it; the temporary session is no member any more.
\<close>

theorem restored_session_takes_place:
  assumes "fmlookup (sv_members st) (cl_session cl) = Some m" "sm_swarm_id m = Some sw" "new \<noteq> cl_session cl"
  shows "let st' = snd (snd (restore_into env now i new k agent w cl st)); old = cl_session cl
    in sv_swarms st' = update_existing (\<lambda>s. finsert new (s |-| {|old|})) sw (sv_swarms st) \<and>
       sv_coordinators st' = fmmap (\<lambda>c. if c = old then new else c) (sv_coordinators st) \<and>
       sv_plans st' = update_existing (renamed_plan old new) sw (sv_plans st) \<and>
       fmlookup (sv_members st') old = None \<and>
       map_option sm_role (fmlookup (sv_members st') new) = Some (sm_role m) \<and>
       map_option sm_swarm_id (fmlookup (sv_members st') new) = Some (Some sw)"
  by (rule restore_effect [OF assms])

text \<open>
  Property C23. If the restored session was a member already, of another swarm, it stays in the set of that swarm, and
  its coordinator if it was, while the member now says that it is an agent of the temporary session's swarm.
\<close>

theorem restored_session_leaves_ghost:
  assumes "fmlookup (sv_members st) (cl_session cl) = Some m" "sm_swarm_id m = Some sw" "sm_role m = ''agent''"
    "new \<noteq> cl_session cl" "other \<noteq> sw" "fmlookup (sv_swarms st) other = Some s" "new |\<in>| s"
    "fmlookup (sv_coordinators st) other = Some new"
  shows "let st' = snd (snd (restore_into env now i new k agent w cl st))
    in fmlookup (sv_swarms st') other = Some s \<and> fmlookup (sv_coordinators st') other = Some new \<and>
       map_option sm_swarm_id (fmlookup (sv_members st') new) = Some (Some sw) \<and>
       map_option sm_role (fmlookup (sv_members st') new) = Some ''agent''"
  using restore_effect [OF assms(1,2,4), of env now i k agent w] assms
  by (auto simp: Let_def lookup_update_existing)

definition ghost_server :: server where
  "ghost_server = (sample_server fmempty)\<lparr>
     sv_members := fmupd ''x'' ((sample_member ''x'' 3 ''coordinator'')\<lparr>sm_swarm_id := Some ''u''\<rparr>) (sv_members (sample_server fmempty)),
     sv_swarms := fmupd ''u'' {|''x''|} (sv_swarms (sample_server fmempty)),
     sv_coordinators := fmupd ''u'' ''x'' (sv_coordinators (sample_server fmempty))\<rparr>"

lemma ghost_fields:
  "fmlookup (sv_members ghost_server) ''w'' = Some (sample_member ''w'' 2 ''agent'')"
  "fmlookup (sv_swarms ghost_server) ''u'' = Some {|''x''|}" "fmlookup (sv_coordinators ghost_server) ''u'' = Some ''x''"
  "cl_session (sample_client ''w'') = ''w''"
  by (simp_all add: ghost_server_def sample_server_def sample_client_def connect_client_def Let_def)

lemma restored_session_takes_place_witness:
  "let st' = snd (snd (restore_into sample_env 4 9 ''x'' None (sample_agent 3 ''owl'' 4) True (sample_client ''w'') ghost_server));
       old = cl_session (sample_client ''w'')
   in sv_swarms st' = update_existing (\<lambda>s. finsert ''x'' (s |-| {|old|})) ''s'' (sv_swarms ghost_server) \<and>
      sv_coordinators st' = fmmap (\<lambda>c. if c = old then ''x'' else c) (sv_coordinators ghost_server) \<and>
      sv_plans st' = update_existing (renamed_plan old ''x'') ''s'' (sv_plans ghost_server) \<and>
      fmlookup (sv_members st') old = None \<and>
      map_option sm_role (fmlookup (sv_members st') ''x'') = Some (sm_role (sample_member ''w'' 2 ''agent'')) \<and>
      map_option sm_swarm_id (fmlookup (sv_members st') ''x'') = Some (Some ''s'')"
  by (rule restored_session_takes_place) (simp_all add: ghost_fields sample_member_def)

lemma restored_session_leaves_ghost_witness:
  "let st' = snd (snd (restore_into sample_env 4 9 ''x'' None (sample_agent 3 ''owl'' 4) True (sample_client ''w'') ghost_server))
   in fmlookup (sv_swarms st') ''u'' = Some {|''x''|} \<and> fmlookup (sv_coordinators st') ''u'' = Some ''x'' \<and>
      map_option sm_swarm_id (fmlookup (sv_members st') ''x'') = Some (Some ''s'') \<and>
      map_option sm_role (fmlookup (sv_members st') ''x'') = Some ''agent''"
  by (rule restored_session_leaves_ghost [where m = "sample_member ''w'' 2 ''agent''"])
    (simp_all add: ghost_fields sample_member_def)

end
