(* ===== verification/SwarmAwait.thy ===== *)
theory SwarmAwait
  imports SwarmControl
begin

text \<open>
  Requests to wait until members of a swarm have a status (src/server/comm_await.rs): answered at once, or
  by a task that looks again after every event of the swarms until it is satisfied, its deadline is over,
  or nobody waits any more. Cutting an id inside a character panics.
\<close>

section \<open>Whom to wait for\<close>

definition awaited_status :: "string list \<Rightarrow> server \<Rightarrow> string \<Rightarrow> awaited_member_status" where
  "awaited_status target st i =
     (let (name, status, report) = (case fmlookup (sv_members st) i of
            Some m \<Rightarrow> (sm_friendly_name m, sm_status m, sm_latest_completion_report m)
          | None \<Rightarrow> (None, ''unknown'', None))
      in \<lparr>aw_session_id = i, aw_friendly_name = name, aw_status = status,
          aw_done = (status \<in> set target \<or>
            (status = ''unknown'' \<and> (''stopped'' \<in> set target \<or> ''completed'' \<in> set target))),
          aw_completion_report = report\<rparr>)"

definition awaited_member_statuses ::
  "string \<Rightarrow> string \<Rightarrow> string list \<Rightarrow> string list \<Rightarrow> server \<Rightarrow> awaited_member_status list" where
  "awaited_member_statuses req swarm_id requested_ids target st =
     map (awaited_status target st)
       (if requested_ids = [] then filter (\<lambda>i. i \<noteq> req) (sorted_list_of_fset (get_or {||} (sv_swarms st) swarm_id))
        else requested_ids)"

definition short_member_name :: "awaited_member_status \<Rightarrow> string option" where
  "short_member_name m = short_name (aw_friendly_name m) (aw_session_id m)"

definition timeout_summary :: "awaited_member_status list \<Rightarrow> string option" where
  "timeout_summary ms =
     map_option (\<lambda>names. ''Timed out. Still waiting on: '' @ join '', '' names)
       (those (map (\<lambda>m. map_option (\<lambda>n. n @ '' ('' @ aw_status m @ '')'') (short_member_name m))
         (filter (\<lambda>m. \<not> aw_done m) ms)))"

definition completion_summary :: "awaited_member_status list \<Rightarrow> string option" where
  "completion_summary ms =
     map_option (\<lambda>names. ''All '' @ show_nat (length names) @ '' members are done: '' @ join '', '' names)
       (those (map short_member_name ms))"

definition completion_mode :: "string option \<Rightarrow> string" where
  "completion_mode mode = (if mode = Some ''any'' then ''any'' else ''all'')"

definition mode_satisfied :: "awaited_member_status list \<Rightarrow> string option \<Rightarrow> bool" where
  "mode_satisfied ms mode =
     (if completion_mode mode = ''any'' then list_ex aw_done ms else list_all aw_done ms)"

definition mode_summary :: "awaited_member_status list \<Rightarrow> string option \<Rightarrow> string option" where
  "mode_summary ms mode =
     (if completion_mode mode = ''any'' then
        map_option (\<lambda>names. ''Matched '' @ show_nat (length names) @ '' member''
            @ (if length names = 1 then [] else ''s'') @ '': '' @ join '', '' names)
          (those (map short_member_name (filter aw_done ms)))
      else completion_summary ms)"

section \<open>The end of a wait\<close>

definition respond_to_waiters ::
  "string \<Rightarrow> bool \<Rightarrow> awaited_member_status list \<Rightarrow> string \<Rightarrow> server \<Rightarrow> server" where
  "respond_to_waiters key completed ms summary st =
     (let (ws, rt) = take_await_waiters key (sv_awaits st);
          out = foldl (\<lambda>out (i, channel). send_event (sv_closed st) channel (EvAwaitMembers i completed ms summary) out)
            (sv_out st) ws
      in st\<lparr>sv_awaits := clear_await_active key rt, sv_out := out\<rparr>)"

text \<open>A summary that cannot be made ends the task with a panic: nothing is stored and nobody answered.\<close>

definition end_wait ::
  "nat \<Rightarrow> await_state \<Rightarrow> bool \<Rightarrow> awaited_member_status list \<Rightarrow> string option \<Rightarrow> server \<Rightarrow> server" where
  "end_wait now ws completed ms summary st =
     (case summary of
        None \<Rightarrow> st\<lparr>sv_panicked := True\<rparr>
      | Some s \<Rightarrow> respond_to_waiters (at_key ws) completed ms s
          (st\<lparr>sv_awaits := persist_await_response now ws completed ms s (sv_awaits st)\<rparr>))"

definition nobody :: string where "nobody = ''No other members in swarm to wait for.''"

definition drop_wait :: "nat \<Rightarrow> server \<Rightarrow> server" where
  "drop_wait n st = st\<lparr>sv_waits := take n (sv_waits st) @ drop (Suc n) (sv_waits st)\<rparr>"

section \<open>The task\<close>

text \<open>
  One round, at the start and after every event received, of whichever swarm it is; then the task sleeps
  with the statuses it saw.
\<close>

definition await_round :: "nat \<Rightarrow> nat \<Rightarrow> server \<Rightarrow> server" where
  "await_round now n st =
     (if n \<ge> length (sv_waits st) then st
      else
        (let w = sv_waits st ! n; ws = wt_state w;
             ms = awaited_member_statuses (wt_session w) (at_swarm_id ws) (at_requested_ids ws) (at_target_status ws) st
         in if ms = [] then end_wait now ws True [] (Some nobody) (drop_wait n st)
            else if mode_satisfied ms (at_mode ws) then
              end_wait now ws True ms (mode_summary ms (at_mode ws)) (drop_wait n st)
            else
              (let (remaining, rt) = retain_open_waiters (sv_closed st) (at_key ws) (sv_awaits st);
                   st = st\<lparr>sv_awaits := rt\<rparr>
               in if remaining = 0 then
                    drop_wait n (st\<lparr>sv_awaits := clear_await_active (at_key ws) rt\<rparr>)
                  else st\<lparr>sv_waits := (sv_waits st)[n := w\<lparr>wt_seen := Some ms\<rparr>]\<rparr>)))"

definition await_deadline :: "nat \<Rightarrow> nat \<Rightarrow> server \<Rightarrow> server" where
  "await_deadline now n st =
     (if n \<ge> length (sv_waits st) then st
      else
        (let w = sv_waits st ! n; ws = wt_state w
         in case wt_seen w of
              None \<Rightarrow> st
            | Some ms \<Rightarrow>
                if now < at_deadline_unix_ms ws then st
                else end_wait now ws False ms (timeout_summary ms) (drop_wait n st)))"

text \<open>A receiver that fell too far behind, or has no sender any more, ends the task.\<close>

definition await_lagged :: "nat \<Rightarrow> server \<Rightarrow> server" where
  "await_lagged n st =
     (if n \<ge> length (sv_waits st) then st
      else drop_wait n (st\<lparr>sv_awaits := clear_await_active (at_key (wt_state (sv_waits st ! n))) (sv_awaits st)\<rparr>))"

section \<open>The request\<close>

definition start_wait :: "nat \<Rightarrow> comm_request \<Rightarrow> await_state \<Rightarrow> awaited_member_status list \<Rightarrow> server \<Rightarrow> server" where
  "start_wait now r ws initial st =
     (let st = st\<lparr>sv_awaits := add_await_waiter (at_key ws) (cr_id r) (cr_channel r) (sv_awaits st)\<rparr>
      in if at_deadline_unix_ms ws \<le> now then end_wait now ws False initial (timeout_summary initial) st
         else
           (let (new, rt) = mark_await_active (at_key ws) (sv_awaits st); st = st\<lparr>sv_awaits := rt\<rparr>
            in if new then
                 st\<lparr>sv_waits := sv_waits st @ [\<lparr>wt_state = ws, wt_session = cr_session r, wt_seen = None\<rparr>]\<rparr>
               else st))"

definition handle_comm_await_members ::
  "server_env \<Rightarrow> nat \<Rightarrow> comm_request \<Rightarrow> string list \<Rightarrow> string list \<Rightarrow> string option \<Rightarrow> nat option \<Rightarrow> server \<Rightarrow> server" where
  "handle_comm_await_members env now r target requested_ids mode timeout_secs st =
     (case swarm_of (cr_session r) st of
        None \<Rightarrow> refuse r ''Not in a swarm. Use a git repository to enable swarm features.'' None st
      | Some swarm_id \<Rightarrow>
          (let key = await_request_key (en_hash env) (cr_session r) swarm_id requested_ids target mode;
               (persisted, rt) = load_await now key (sv_awaits st);
               st = st\<lparr>sv_awaits := rt\<rparr>
           in case Option.bind persisted at_final_response of
                Some response \<Rightarrow>
                  answer r (EvAwaitMembers (cr_id r) (ar_completed response) (ar_members response) (ar_summary response)) st
              | None \<Rightarrow>
                  (let initial = awaited_member_statuses (cr_session r) swarm_id requested_ids target st
                   in if initial = [] then answer r (EvAwaitMembers (cr_id r) True [] nobody) st
                      else
                        (let deadline = now + 1000 * (case timeout_secs of Some t \<Rightarrow> t | None \<Rightarrow> 3600);
                             (ws, rt) = (case persisted of
                               Some ws \<Rightarrow> (ws, sv_awaits st)
                             | None \<Rightarrow> ensure_pending_await now key (cr_session r) swarm_id requested_ids target mode
                                 deadline (sv_awaits st))
                         in start_wait now r ws initial (st\<lparr>sv_awaits := rt\<rparr>)))))"

end
