(* ===== verification/SwarmAwaitProperties.thy ===== *)
theory SwarmAwaitProperties
  imports SwarmClientsProperties SwarmAwait
begin

text \<open>
  What a wait for members promises: the task of a wait is there as long as its key counts as active, a round
  that finds the members done and a deadline answer everybody who waits, exactly once, and what they were told
  is kept for those who ask again.
\<close>

section \<open>Tasks and active keys\<close>

lemma covers_clear: "covers active waits \<Longrightarrow> covers (active |-| {|k|}) waits"
  by (simp add: covers_def)

lemma covers_drop:
  assumes "covers active waits" "n < length waits" "k = at_key (wt_state (waits ! n))"
  shows "covers (active |-| {|k|}) (take n waits @ drop (Suc n) waits)"
proof -
  have "set waits \<subseteq> insert (waits ! n) (set (take n waits @ drop (Suc n) waits))"
    using id_take_nth_drop [OF assms(2)] by (metis Un_insert_right list.simps(15) set_append subsetI)
  then show ?thesis using assms(1,3) by (fastforce simp: covers_def)
qed

lemma covers_seen:
  assumes "covers active waits" "n < length waits"
  shows "covers active (waits[n := (waits ! n)\<lparr>wt_seen := x\<rparr>])"
proof -
  have "map (at_key \<circ> wt_state) (waits[n := (waits ! n)\<lparr>wt_seen := x\<rparr>]) = map (at_key \<circ> wt_state) waits"
    using assms(2) by (simp add: map_update list_update_same_conv)
  then have "(at_key \<circ> wt_state) ` set (waits[n := (waits ! n)\<lparr>wt_seen := x\<rparr>]) = (at_key \<circ> wt_state) ` set waits"
    by (metis list.set_map)
  moreover have "covers active ws \<longleftrightarrow> fset active \<subseteq> (at_key \<circ> wt_state) ` set ws" for ws
    by (auto simp: covers_def)
  ultimately show ?thesis using assms(1) by metis
qed

lemma covers_start: "covers active waits \<Longrightarrow> covers (finsert (at_key (wt_state w)) active) (waits @ [w])"
  by (auto simp: covers_def)

section \<open>Waits advance\<close>

text \<open>A step on waits alone advances if the active keys keep their tasks.\<close>

lemma advances_waiting:
  assumes "st' = st\<lparr>sv_awaits := sv_awaits st', sv_waits := sv_waits st', sv_out := sv_out st', sv_panicked := sv_panicked st'\<rparr>"
    and "sv_panicked st \<Longrightarrow> sv_panicked st'"
    and "covers (aw_active (sv_awaits st)) (sv_waits st) \<Longrightarrow> \<not> sv_panicked st' \<Longrightarrow>
      covers (aw_active (sv_awaits st')) (sv_waits st')"
  shows "advances st st'"
proof -
  have "sv_plans st' = sv_plans st" "sv_closed st' = sv_closed st" "sv_members st' = sv_members st"
    "sv_history st' = sv_history st" "sv_counter st' = sv_counter st" "sv_broadcast st' = sv_broadcast st"
    "sv_swarms st' = sv_swarms st" "sv_mutations st' = sv_mutations st"
    by (subst assms(1), simp)+
  then show ?thesis
    using assms(2,3) by (auto simp: advances_def evolves_def plans_le_def members_keyed_def swarms_listed_def history_ok_def
      waits_le_def waits_covered_def)
qed

lemma await_runtime_active [simp]:
  "aw_active (add_await_waiter key i c rt) = aw_active rt"
  "aw_active (persist_await_response now ws completed ms s rt) = aw_active rt"
  "aw_active (snd (load_await now key rt)) = aw_active rt"
  "aw_active (snd (ensure_pending_await now key session sw ids target mode deadline rt)) = aw_active rt"
  "aw_active (snd (retain_open_waiters closed key rt)) = aw_active rt"
  "aw_active (snd (take_await_waiters key rt)) = aw_active rt"
  "aw_active (clear_await_active key rt) = aw_active rt |-| {|key|}"
  "fst (mark_await_active key rt) \<longleftrightarrow> key |\<notin>| aw_active rt"
  "aw_active (snd (mark_await_active key rt)) = finsert key (aw_active rt)"
  by (simp_all add: add_await_waiter_def persist_await_response_def save_await_def load_await_def ensure_pending_await_def
      retain_open_waiters_def take_await_waiters_def clear_await_active_def mark_await_active_def Let_def case_prod_beta
      split: option.split)

definition wait_answers ::
  "server \<Rightarrow> string \<Rightarrow> bool \<Rightarrow> awaited_member_status list \<Rightarrow> string \<Rightarrow> outbox" where
  "wait_answers st key completed ms s =
     foldl (\<lambda>out (i, c). send_event (sv_closed st) c (EvAwaitMembers i completed ms s) out)
       (sv_out st) (get_or [] (aw_waiters (sv_awaits st)) key)"

lemma end_wait_eq:
  "end_wait now ws completed ms summary st =
     (case summary of
        None \<Rightarrow> st\<lparr>sv_panicked := True\<rparr>
      | Some s \<Rightarrow> st\<lparr>sv_awaits := clear_await_active (at_key ws)
            (snd (take_await_waiters (at_key ws) (persist_await_response now ws completed ms s (sv_awaits st)))),
          sv_out := wait_answers st (at_key ws) completed ms s\<rparr>)"
  by (simp add: end_wait_def respond_to_waiters_def Let_def take_await_waiters_def wait_answers_def
      persist_await_response_def save_await_def split: option.split)

lemma advances_end: "advances st (end_wait now ws completed ms summary st)"
proof (cases summary)
  case None
  show ?thesis
    by (rule advances_waiting)
      (simp_all add: end_wait_eq None)
next
  case (Some s)
  show ?thesis
    by (rule advances_waiting) (simp_all add: end_wait_eq Some covers_clear)
qed

lemma advances_end_drop:
  assumes "n < length (sv_waits st)" "ws = wt_state (sv_waits st ! n)"
  shows "advances st (end_wait now ws completed ms summary (drop_wait n st))"
proof (cases summary)
  case None
  show ?thesis
    by (rule advances_waiting) (simp_all add: end_wait_eq drop_wait_def None)
next
  case (Some s)
  show ?thesis
    by (rule advances_waiting)
      (simp_all add: end_wait_eq drop_wait_def Some covers_drop assms)
qed

text \<open>A task that ends without an answer.\<close>

lemma advances_leave:
  assumes "n < length (sv_waits st)" "aw_active rt = aw_active (sv_awaits st) |-| {|at_key (wt_state (sv_waits st ! n))|}"
  shows "advances st (drop_wait n (st\<lparr>sv_awaits := rt\<rparr>))"
  by (rule advances_waiting) (simp_all add: drop_wait_def covers_drop assms)

lemma advances_sleep:
  assumes "n < length (sv_waits st)" "aw_active rt = aw_active (sv_awaits st)"
  shows "advances st (st\<lparr>sv_awaits := rt, sv_waits := (sv_waits st)[n := (sv_waits st ! n)\<lparr>wt_seen := x\<rparr>]\<rparr>)"
  by (rule advances_waiting) (simp_all add: covers_seen assms)

lemma advances_round: "advances st (await_round now n st)"
proof (cases "n < length (sv_waits st)")
  case True
  obtain remaining rt where r: "retain_open_waiters (sv_closed st) (at_key (wt_state (sv_waits st ! n))) (sv_awaits st)
      = (remaining, rt)" by fastforce
  then have "aw_active rt = aw_active (sv_awaits st)"
    using await_runtime_active(5) [of "sv_closed st" "at_key (wt_state (sv_waits st ! n))" "sv_awaits st"] by simp
  then show ?thesis
    using True by (simp add: await_round_def Let_def r advances_end_drop advances_leave advances_sleep)
qed (simp add: await_round_def)

lemma advances_deadline: "advances st (await_deadline now n st)"
  by (simp add: await_deadline_def Let_def advances_end_drop split: option.split)

lemma advances_lagged: "advances st (await_lagged n st)"
  by (simp add: await_lagged_def advances_leave)

lemmas advances_waits = advances_round advances_deadline advances_lagged

lemma advances_awaits:
  "aw_active rt = aw_active (sv_awaits st) \<Longrightarrow> advances st (st\<lparr>sv_awaits := rt\<rparr>)"
  by (rule advances_waiting) simp_all

lemma advances_answer: "advances st (answer r e st)"
  by (rule advances_waiting) (simp_all add: answer_def send_to_def)

lemma advances_start: "advances st (start_wait now r ws initial st)"
proof -
  let ?s = "st\<lparr>sv_awaits := add_await_waiter (at_key ws) (cr_id r) (cr_channel r) (sv_awaits st)\<rparr>"
  let ?w = "\<lparr>wt_state = ws, wt_session = cr_session r, wt_seen = None\<rparr>"
  have 1: "advances st ?s" by (rule advances_awaits) simp
  obtain new rt where m: "mark_await_active (at_key ws) (sv_awaits ?s) = (new, rt)" by fastforce
  have rt: "aw_active rt = finsert (at_key ws) (aw_active (sv_awaits st))" "new \<longleftrightarrow> at_key ws |\<notin>| aw_active (sv_awaits st)"
    using await_runtime_active(8,9) [of "at_key ws" "sv_awaits ?s"] unfolding m by simp_all
  have 2: "advances st (if new then st\<lparr>sv_awaits := rt, sv_waits := sv_waits st @ [?w]\<rparr> else st\<lparr>sv_awaits := rt\<rparr>)"
  proof (cases new)
    case True
    have "covers (aw_active rt) (sv_waits st @ [?w])" if "covers (aw_active (sv_awaits st)) (sv_waits st)"
      using covers_start [OF that, of ?w] by (simp add: rt)
    with True show ?thesis
      by (intro advances_waiting) simp_all
  next
    case False
    with rt show ?thesis by (simp add: advances_awaits finsert_absorb)
  qed
  show ?thesis
    using advances_trans [OF 1 advances_end] 2 unfolding start_wait_def Let_def by (cases new) (simp_all add: m [simplified])
qed

lemma advances_await: "advances st (handle_comm_await_members env now r target ids mode timeout st)"
proof -
  have s: "advances s (start_wait now r ws initial (s\<lparr>sv_awaits := rt\<rparr>))" if "aw_active rt = aw_active (sv_awaits s)"
    for s ws initial rt by (rule advances_trans [OF advances_awaits [OF that] advances_start])
  show ?thesis
    unfolding handle_comm_await_members_def Let_def
    by (auto simp: case_prod_beta refuse_def advances_answer split: option.split
        intro!: s advances_trans [OF advances_awaits advances_answer] advances_trans [OF advances_awaits s])
qed

section \<open>Everybody is told\<close>

definition open_waiters :: "string \<Rightarrow> server \<Rightarrow> (nat \<times> nat) list" where
  "open_waiters k st = filter (\<lambda>(i, c). c |\<notin>| sv_closed st) (get_or [] (aw_waiters (sv_awaits st)) k)"

text \<open>
  Everybody who waits under a key has got the same single answer, nobody else one, nobody is left waiting, and
  the answer is on file.
\<close>

definition told_all :: "nat \<Rightarrow> string \<Rightarrow> server \<Rightarrow> server \<Rightarrow> bool" where
  "told_all now k st st' \<longleftrightarrow>
     (\<exists>response f. ar_resolved_at_unix_ms response = now \<and>
        (\<forall>i. answers i (sv_out st') = answers i (sv_out st) @
           map (\<lambda>(j, c). (c, EvAwaitMembers j (ar_completed response) (ar_members response) (ar_summary response)))
             (filter (\<lambda>(j, c). j = i) (open_waiters k st))) \<and>
        k |\<notin>| fmdom (aw_waiters (sv_awaits st')) \<and>
        fmlookup (aw_files (sv_awaits st')) k = Some (Some f) \<and> at_final_response f = Some response)"

lemma answers_sent:
  "answers i (foldl (\<lambda>out (j, c). send_event closed c (EvAwaitMembers j completed ms s) out) out ws) =
     answers i out @ map (\<lambda>(j, c). (c, EvAwaitMembers j completed ms s))
       (filter (\<lambda>(j, c). j = i) (filter (\<lambda>(j, c). c |\<notin>| closed) ws))"
  by (induction ws arbitrary: out) (auto simp: case_prod_beta)

lemma end_tells:
  assumes "k = at_key ws"
  shows "sv_panicked (end_wait now ws completed ms summary st) \<or> told_all now k st (end_wait now ws completed ms summary st)"
proof (cases summary)
  case (Some s)
  let ?r = "\<lparr>ar_completed = completed, ar_members = ms, ar_summary = s, ar_resolved_at_unix_ms = now\<rparr>"
  have "told_all now k st (end_wait now ws completed ms summary st)"
    unfolding told_all_def
    by (rule exI [of _ ?r], rule exI [of _ "ws\<lparr>at_final_response := Some ?r\<rparr>"])
      (simp add: end_wait_eq Some wait_answers_def answers_sent open_waiters_def assms
        clear_await_active_def take_await_waiters_def persist_await_response_def save_await_def save_json_state_def)
  then show ?thesis ..
qed (simp add: end_wait_eq)

lemma end_wait_tells:
  assumes "k = at_key ws"
  shows "sv_panicked (end_wait now ws completed ms summary (drop_wait n st)) \<or>
    told_all now k st (end_wait now ws completed ms summary (drop_wait n st))"
proof -
  have "told_all now k (drop_wait n st) = told_all now k st"
    by (simp add: told_all_def drop_wait_def open_waiters_def fun_eq_iff)
  then show ?thesis using end_tells [OF assms, of now completed ms summary "drop_wait n st"] by simp
qed

lemma retain_open:
  "open_waiters k (st\<lparr>sv_awaits := snd (retain_open_waiters (sv_closed st) k (sv_awaits st))\<rparr>) = open_waiters k st"
  "fst (retain_open_waiters (sv_closed st) k (sv_awaits st)) = length (open_waiters k st)"
  by (auto simp: open_waiters_def retain_open_waiters_def Let_def get_or_def split: option.split)

text \<open>
  A task looks again whenever something happens and at its deadline; if it is not satisfied and somebody still
  waits it goes on, and then the deadline tells everybody.
\<close>

lemma task_tells:
  assumes n: "n < length (sv_waits st)" and k: "k = at_key (wt_state (sv_waits st ! n))"
    and late: "at_deadline_unix_ms (wt_state (sv_waits st ! n)) \<le> now'"
  shows "let st1 = await_round now n st
    in sv_panicked st1 \<or> told_all now k st st1 \<or> open_waiters k st = [] \<or>
       (let st2 = await_deadline now' n st1 in sv_panicked st2 \<or> told_all now' k st st2)"
proof -
  let ?w = "sv_waits st ! n"
  let ?ws = "wt_state ?w"
  define ms where "ms = awaited_member_statuses (wt_session ?w) (at_swarm_id ?ws) (at_requested_ids ?ws) (at_target_status ?ws) st"
  obtain remaining rt where r: "retain_open_waiters (sv_closed st) k (sv_awaits st) = (remaining, rt)" by fastforce
  consider (over) "ms = [] \<or> mode_satisfied ms (at_mode ?ws)" | (gone) "open_waiters k st = []"
    | (sleeps) "ms \<noteq> []" "\<not> mode_satisfied ms (at_mode ?ws)" "open_waiters k st \<noteq> []" by blast
  then show ?thesis
  proof cases
    case over
    then have "await_round now n st = end_wait now ?ws True [] (Some nobody) (drop_wait n st) \<or>
        await_round now n st = end_wait now ?ws True ms (mode_summary ms (at_mode ?ws)) (drop_wait n st)"
      using n by (cases "ms = []") (simp_all add: await_round_def Let_def ms_def [symmetric])
    then show ?thesis
      using end_wait_tells [OF k] unfolding Let_def by metis
  next
    case sleeps
    let ?s = "st\<lparr>sv_awaits := rt, sv_waits := (sv_waits st)[n := ?w\<lparr>wt_seen := Some ms\<rparr>]\<rparr>"
    have "remaining \<noteq> 0" using sleeps(3) retain_open(2) [of st k] by (simp add: r)
    then have 1: "await_round now n st = ?s"
      using n sleeps by (simp add: await_round_def Let_def ms_def [symmetric] k [symmetric] r)
    have 2: "await_deadline now' n ?s = end_wait now' ?ws False ms (timeout_summary ms) (drop_wait n ?s)"
      using n late by (simp add: await_deadline_def)
    have "open_waiters k ?s = open_waiters k st" using retain_open(1) [of k st] by (simp add: r open_waiters_def)
    then have "told_all now' k ?s = told_all now' k st" by (simp add: told_all_def fun_eq_iff)
    then show ?thesis
      using end_wait_tells [OF k, of now' False ms "timeout_summary ms" n ?s] by (simp add: 1 2 Let_def)
  qed simp
qed

section \<open>What a request to wait does\<close>

text \<open>Whoever asks is listed under an active key, or was just told because the deadline of the wait is over.\<close>

lemma start_lists:
  "let st' = start_wait now r ws initial st
   in sv_panicked st' \<or> told_all now (at_key ws) (st\<lparr>sv_awaits := add_await_waiter (at_key ws) (cr_id r) (cr_channel r) (sv_awaits st)\<rparr>) st' \<or>
      ((cr_id r, cr_channel r) \<in> set (get_or [] (aw_waiters (sv_awaits st')) (at_key ws)) \<and>
       at_key ws |\<in>| aw_active (sv_awaits st') \<and> sv_out st' = sv_out st)"
proof -
  let ?s = "st\<lparr>sv_awaits := add_await_waiter (at_key ws) (cr_id r) (cr_channel r) (sv_awaits st)\<rparr>"
  have w: "(cr_id r, cr_channel r) \<in> set (get_or [] (aw_waiters (sv_awaits ?s)) (at_key ws))"
    by (simp add: add_await_waiter_def get_or_entry_upd)
  obtain new rt where m: "mark_await_active (at_key ws) (sv_awaits ?s) = (new, rt)" by fastforce
  have rt: "at_key ws |\<in>| aw_active rt" "aw_waiters rt = aw_waiters (sv_awaits ?s)"
    using m by (auto simp: mark_await_active_def)
  show ?thesis
  proof (cases "at_deadline_unix_ms ws \<le> now")
    case True
    then have "start_wait now r ws initial st = end_wait now ws False initial (timeout_summary initial) ?s"
      by (simp add: start_wait_def)
    then show ?thesis using end_tells [OF refl, of now ws False initial "timeout_summary initial" ?s] by (auto simp: Let_def)
  next
    case False
    then have "start_wait now r ws initial st = (if new then ?s\<lparr>sv_awaits := rt,
        sv_waits := sv_waits st @ [\<lparr>wt_state = ws, wt_session = cr_session r, wt_seen = None\<rparr>]\<rparr> else ?s\<lparr>sv_awaits := rt\<rparr>)"
      using m by (simp add: start_wait_def Let_def)
    then show ?thesis using w rt by (simp add: Let_def)
  qed
qed

text \<open>The response on file that is still to be repeated.\<close>

definition stored_result :: "nat \<Rightarrow> string \<Rightarrow> server \<Rightarrow> await_result option" where
  "stored_result now key st =
     (case fmlookup (aw_files (sv_awaits st)) key of
        Some (Some f) \<Rightarrow> if await_is_stale now f then None else at_final_response f
      | _ \<Rightarrow> None)"

definition sends_only :: "comm_request \<Rightarrow> server_event \<Rightarrow> server \<Rightarrow> server \<Rightarrow> bool" where
  "sends_only r e st st' \<longleftrightarrow> sv_out st' = send_event (sv_closed st) (cr_channel r) e (sv_out st)"

definition got_answer :: "comm_request \<Rightarrow> server \<Rightarrow> server \<Rightarrow> bool" where
  "got_answer r st st' \<longleftrightarrow> cr_channel r |\<in>| sv_closed st \<or>
     (\<exists>e. (cr_channel r, e) \<in> set (drop (length (answers (cr_id r) (sv_out st))) (answers (cr_id r) (sv_out st'))))"

definition waits_listed :: "comm_request \<Rightarrow> server \<Rightarrow> bool" where
  "waits_listed r st \<longleftrightarrow> (\<exists>k. k |\<in>| aw_active (sv_awaits st) \<and>
     (cr_id r, cr_channel r) \<in> set (get_or [] (aw_waiters (sv_awaits st)) k))"

lemma load_await_found:
  "Option.bind (fst (load_await now key (sv_awaits st))) at_final_response = stored_result now key st"
  by (simp add: load_await_def load_json_state_def stored_result_def Let_def case_prod_beta split: option.split)

lemma start_answers_or_lists:
  "let st' = start_wait now r ws initial st
   in sv_panicked st' \<or> got_answer r st st' \<or> (waits_listed r st' \<and> sv_out st' = sv_out st)"
proof -
  let ?s = "st\<lparr>sv_awaits := add_await_waiter (at_key ws) (cr_id r) (cr_channel r) (sv_awaits st)\<rparr>"
  have "got_answer r st st'" if t: "told_all now (at_key ws) ?s st'" for st'
  proof (cases "cr_channel r |\<in>| sv_closed st")
    case False
    then have "(cr_id r, cr_channel r) \<in> set (open_waiters (at_key ws) ?s)"
      by (simp add: open_waiters_def add_await_waiter_def get_or_entry_upd)
    with t show ?thesis by (fastforce simp: told_all_def got_answer_def)
  qed (simp add: got_answer_def)
  then show ?thesis
    using start_lists [of now r ws initial st] by (auto simp: Let_def waits_listed_def)
qed

lemma statuses_awaits [simp]:
  "awaited_member_statuses req sw ids target (st\<lparr>sv_awaits := rt\<rparr>) = awaited_member_statuses req sw ids target st"
  by (simp add: awaited_member_statuses_def awaited_status_def)

text \<open>
  Property C20. A request to wait is refused outside a swarm, told again what was found while that is kept, told at once that there
  is nobody to wait for, and otherwise told the end of its wait or listed with an active task.
\<close>

theorem wait_request_correct:
  "let st' = handle_comm_await_members env now r target ids mode timeout st
   in case swarm_of (cr_session r) st of
      None \<Rightarrow> st' = refuse r ''Not in a swarm. Use a git repository to enable swarm features.'' None st
    | Some sw \<Rightarrow>
        (case stored_result now (await_request_key (en_hash env) (cr_session r) sw ids target mode) st of
           Some x \<Rightarrow> sends_only r (EvAwaitMembers (cr_id r) (ar_completed x) (ar_members x) (ar_summary x)) st st' \<and>
             aw_waiters (sv_awaits st') = aw_waiters (sv_awaits st)
         | None \<Rightarrow>
             if awaited_member_statuses (cr_session r) sw ids target st = [] then
               sends_only r (EvAwaitMembers (cr_id r) True [] nobody) st st' \<and>
               aw_waiters (sv_awaits st') = aw_waiters (sv_awaits st)
             else sv_panicked st' \<or> got_answer r st st' \<or> (waits_listed r st' \<and> sv_out st' = sv_out st))"
proof (cases "swarm_of (cr_session r) st")
  case None
  then show ?thesis by (simp add: handle_comm_await_members_def)
next
  case (Some sw)
  let ?key = "await_request_key (en_hash env) (cr_session r) sw ids target mode"
  obtain persisted rt where l: "load_await now ?key (sv_awaits st) = (persisted, rt)" by fastforce
  have w: "aw_waiters rt = aw_waiters (sv_awaits st)"
    using l by (auto simp: load_await_def Let_def case_prod_beta)
  have found: "Option.bind persisted at_final_response = stored_result now ?key st"
    using load_await_found [of now ?key st] by (simp add: l)
  show ?thesis
  proof (cases "stored_result now ?key st")
    case (Some x)
    then show ?thesis
      by (simp add: handle_comm_await_members_def \<open>swarm_of _ _ = _\<close> l found Let_def sends_only_def answer_def send_to_def w)
  next
    case None
    show ?thesis
    proof (cases "awaited_member_statuses (cr_session r) sw ids target st = []")
      case True
      then show ?thesis
        by (simp add: handle_comm_await_members_def \<open>swarm_of _ _ = _\<close> l found None Let_def sends_only_def
            answer_def send_to_def w)
    next
      case False
      obtain ws rt' initial where st': "handle_comm_await_members env now r target ids mode timeout st = start_wait now r ws initial (st\<lparr>sv_awaits := rt'\<rparr>)"
        using False by (auto simp: handle_comm_await_members_def \<open>swarm_of _ _ = _\<close> l found None Let_def
            case_prod_beta)
      show ?thesis
        using start_answers_or_lists [of now r ws initial "st\<lparr>sv_awaits := rt'\<rparr>"] False
        by (simp add: None \<open>swarm_of _ _ = _\<close> st' Let_def got_answer_def)
    qed
  qed
qed

end
