(* ===== verification/FileActivity.thy ===== *)
theory FileActivity
  imports SwarmControl
begin

text \<open>
  Who touched which file (src/server/file_activity.rs, latest_peer_touches in src/server/state.rs,
  Server::monitor_bus in src/server.rs): accesses per file with their reverse index by session, alerts to both
  sides when a session changes a file that a peer has changed, and the expiry of old accesses. The accesses
  come from the events of the file tools (EditTools).
\<close>

section \<open>Line ranges\<close>

definition after_marker :: "string \<Rightarrow> string \<Rightarrow> string option" where
  "after_marker marker s = map_option snd (split_once marker s)"

definition digit :: "char \<Rightarrow> bool" where
  "digit c \<longleftrightarrow> CHR ''0'' \<le> c \<and> c \<le> CHR ''9''"

text \<open>A number of 64 bits.\<close>

definition parse_u64 :: "string \<Rightarrow> nat option" where
  "parse_u64 s = (if s \<noteq> [] \<and> read_nat s < 2 ^ 64 then Some (read_nat s) else None)"

definition line_range :: "string \<Rightarrow> (nat \<times> nat) option" where
  "line_range rest =
     (case parse_u64 (takeWhile digit rest) of
        None \<Rightarrow> None
      | Some start \<Rightarrow>
          (case dropWhile digit rest of
             c # tail \<Rightarrow>
               if c = CHR ''-'' then
                 (let stop = (case parse_u64 (takeWhile digit tail) of Some n \<Rightarrow> n | None \<Rightarrow> start)
                  in Some (min start stop, max start stop))
               else Some (start, start)
           | [] \<Rightarrow> Some (start, start)))"

definition parse_file_activity_line_range :: "string option \<Rightarrow> (nat \<times> nat) option" where
  "parse_file_activity_line_range summary =
     (case summary of
        None \<Rightarrow> None
      | Some s \<Rightarrow>
          (case after_marker ''lines '' s of
             Some rest \<Rightarrow> line_range rest
           | None \<Rightarrow> Option.bind (after_marker ''line '' s) line_range))"

definition file_activity_scope_label :: "string option \<Rightarrow> string option \<Rightarrow> string" where
  "file_activity_scope_label before now =
     (case (parse_file_activity_line_range before, parse_file_activity_line_range now) of
        (Some (a, b), Some (c, d)) \<Rightarrow>
          if a \<le> d \<and> c \<le> b then ''overlapping lines'' else ''same file, non-overlapping lines''
      | _ \<Rightarrow> ''same file'')"

section \<open>Accesses\<close>

definition is_modification :: "file_op \<Rightarrow> bool" where
  "is_modification op \<longleftrightarrow> op = FileWrite \<or> op = FileEdit"

definition keep_latest :: "(string, file_access) fmap \<Rightarrow> file_access \<Rightarrow> (string, file_access) fmap" where
  "keep_latest latest a =
     (case fmlookup latest (fa_session_id a) of
        Some b \<Rightarrow> if fa_timestamp a > fa_timestamp b then fmupd (fa_session_id a) a latest else latest
      | None \<Rightarrow> fmupd (fa_session_id a) a latest)"

definition latest_peer_touches :: "file_access list \<Rightarrow> string \<Rightarrow> string fset \<Rightarrow> file_access list" where
  "latest_peer_touches accesses current peers =
     (let latest = foldl keep_latest fmempty (filter (\<lambda>a. fa_session_id a \<noteq> current \<and>
            fa_session_id a |\<in>| peers \<and> is_modification (fa_op a)) accesses)
      in List.map_filter (fmlookup latest) (sorted_list_of_fset (fmdom latest)))"

definition record_touch :: "nat \<Rightarrow> file_touch \<Rightarrow> server \<Rightarrow> server" where
  "record_touch now touch st =
     (let a = \<lparr>fa_session_id = ft_session_id touch, fa_op = ft_op touch, fa_timestamp = now,
            fa_summary = ft_summary touch, fa_detail = ft_detail touch\<rparr>
      in st\<lparr>sv_touches := entry_upd [] (\<lambda>as. as @ [a]) (ft_path touch) (sv_touches st),
           sv_touched_by := entry_upd {||} (finsert (ft_path touch)) (ft_session_id touch) (sv_touched_by st)\<rparr>)"

section \<open>Expiry\<close>

definition touch_expiry :: nat where "touch_expiry = 30 * 60 * 1000"

definition cleanup_interval :: nat where "cleanup_interval = 5 * 60 * 1000"

definition index_accesses :: "string \<Rightarrow> file_access list \<Rightarrow> (string, string fset) fmap \<Rightarrow> (string, string fset) fmap" where
  "index_accesses path accesses idx =
     foldl (\<lambda>idx a. entry_upd {||} (finsert path) (fa_session_id a) idx) idx accesses"

definition rebuilt_index :: "server_env \<Rightarrow> (string, file_access list) fmap \<Rightarrow> (string, string fset) fmap" where
  "rebuilt_index env touches =
     foldl (\<lambda>idx path. index_accesses path (get_or [] touches path) idx) fmempty (en_order env (fmdom touches))"

definition unexpired :: "nat \<Rightarrow> (string, file_access list) fmap \<Rightarrow> (string, file_access list) fmap" where
  "unexpired now touches =
     (let kept = fmmap (filter (\<lambda>a. now - fa_timestamp a < touch_expiry)) touches
      in fmfilter (\<lambda>path. get_or [] kept path \<noteq> []) kept)"

text \<open>At most once per interval; the time of the last one is the monitor's own.\<close>

definition monitor_cleanup :: "server_env \<Rightarrow> nat \<Rightarrow> nat \<Rightarrow> server \<Rightarrow> nat \<times> server" where
  "monitor_cleanup env now last_cleanup st =
     (if now - last_cleanup > cleanup_interval then
        (let touches = unexpired now (sv_touches st)
         in (now, st\<lparr>sv_touches := touches, sv_touched_by := rebuilt_index env touches\<rparr>))
      else (last_cleanup, st))"

section \<open>Alerts\<close>

definition warning_sign :: string where "warning_sign = [CHR 0xE2, CHR 0x9A, CHR 0xA0]"

definition with_summary :: "string option \<Rightarrow> string" where
  "with_summary summary = (case summary of Some s \<Rightarrow> '': '' @ s | None \<Rightarrow> [])"

text \<open>To the session that changes the file, about an earlier change of a peer.\<close>

definition alert_current :: "server_env \<Rightarrow> file_touch \<Rightarrow> server \<Rightarrow> file_access \<Rightarrow> server" where
  "alert_current env touch st before =
     (let sid = ft_session_id touch; peer = fa_session_id before
      in case eager_name (name_of peer st) 8 peer of
           None \<Rightarrow> st\<lparr>sv_panicked := True\<rparr>
         | Some label \<Rightarrow>
             (let msg = warning_sign @ '' File activity: '' @ ft_path touch @ em_dash
                    @ file_activity_scope_label (fa_summary before) (ft_summary touch) @ em_dash @ label
                    @ '' previously '' @ file_op_as_str (fa_op before) @ '' this file'' @ with_summary (fa_summary before)
              in interrupt env sid msg (send_member sid (EvNotification peer (name_of peer st)
                   (FileConflict (ft_path touch) (file_op_as_str (fa_op before)) (fa_summary before) (fa_detail before))
                   msg) st)))"

text \<open>To a peer that has changed the file, about the change.\<close>

definition alert_peer :: "server_env \<Rightarrow> file_touch \<Rightarrow> string option \<Rightarrow> server \<Rightarrow> file_access \<Rightarrow> server" where
  "alert_peer env touch name st before =
     (let sid = ft_session_id touch; peer = fa_session_id before
      in if peer |\<notin>| fmdom (sv_members st) then st
         else case eager_name name (min 8 (length sid)) sid of
           None \<Rightarrow> st\<lparr>sv_panicked := True\<rparr>
         | Some label \<Rightarrow>
             (let msg = warning_sign @ '' File activity: '' @ ft_path touch @ em_dash
                    @ file_activity_scope_label (fa_summary before) (ft_summary touch) @ em_dash @ label
                    @ '' just '' @ file_op_as_str (ft_op touch) @ '' this file you previously worked with''
                    @ with_summary (ft_summary touch)
              in interrupt env peer msg (send_member peer (EvNotification sid name
                   (FileConflict (ft_path touch) (file_op_as_str (ft_op touch)) (ft_summary touch) (ft_detail touch))
                   msg) st)))"

definition alert_all :: "server_env \<Rightarrow> file_touch \<Rightarrow> file_access list \<Rightarrow> server \<Rightarrow> server" where
  "alert_all env touch previous st =
     (let sid = ft_session_id touch; name = name_of sid st;
          st = (if sid |\<in>| fmdom (sv_members st) then foldl (alert_current env touch) st previous else st)
      in foldl (alert_peer env touch name) st previous)"

definition peers_of :: "string \<Rightarrow> server \<Rightarrow> string fset" where
  "peers_of session_id st =
     (case swarm_of session_id st of None \<Rightarrow> {||} | Some swarm_id \<Rightarrow> get_or {||} (sv_swarms st) swarm_id)"

text \<open>The event of a file tool; the ids in the log line of a change are cut to eight bytes.\<close>

definition monitor_touch :: "server_env \<Rightarrow> nat \<Rightarrow> file_touch \<Rightarrow> server \<Rightarrow> server" where
  "monitor_touch env now touch st =
     (let sid = ft_session_id touch;
          st = record_touch now touch st;
          st = record_swarm_event now sid (name_of sid st) (swarm_of sid st)
            (SwFileTouch (ft_path touch) (file_op_as_str (ft_op touch)) (ft_summary touch) (ft_detail touch)) st;
          peers = peers_of sid st
      in if \<not> is_modification (ft_op touch) then st
         else if \<exists>i |\<in>| finsert sid peers. id_prefix (min 8 (length i)) i = None then st\<lparr>sv_panicked := True\<rparr>
         else
           (let previous = latest_peer_touches (get_or [] (sv_touches st) (ft_path touch)) sid peers
            in if previous = [] then st else alert_all env touch previous st))"

end
