(* ===== verification/SwarmRequests.thy ===== *)
theory SwarmRequests
  imports SwarmSessions SwarmMessages SwarmAwait SwarmClients FileActivity
begin

text \<open>
  The requests of sessions about their swarm and what else changes the server's state of swarms
  (src/server/client_lifecycle.rs, handle_lightweight_control_request; the same requests of an attached
  client take the same handlers). The session is the one the request names.
\<close>

datatype comm_op =
    CommShare string string bool
  | CommRead "string option"
  | CommMessage string "string option" "string option" "comm_delivery_mode option" "bool option"
  | CommList
  | CommListChannels
  | CommChannelMembers string
  | CommProposePlan "plan_item list"
  | CommApprovePlan string
  | CommRejectPlan string "string option"
  | CommSpawn "string option" "string option" "string option"
  | CommStop string "bool option"
  | CommAssignRole string string
  | CommSummary string "nat option"
  | CommStatus string
  | CommReport "string option" string "string option" "string option"
  | CommReadContext string
  | CommResyncPlan
  | CommPlanStatus
  | CommAssignTask "string option" "string option" "string option"
  | CommAssignNext "string option" "string option" "bool option" "bool option" "string option"
  | CommTaskControl string string "string option" "string option"
  | CommSubscribeChannel string
  | CommUnsubscribeChannel string
  | CommAwaitMembers "string list" "string list" "string option" "nat option"
  | OtherRequest

definition handle_comm_report ::
  "server_env \<Rightarrow> nat \<Rightarrow> comm_request \<Rightarrow> string option \<Rightarrow> string \<Rightarrow> string option \<Rightarrow> string option \<Rightarrow>
   server \<Rightarrow> server" where
  "handle_comm_report env now r status message validation follow_up st =
     (let status = (case status of Some s \<Rightarrow> s | None \<Rightarrow> ''ready'');
          report = format_structured_completion_report message validation follow_up;
          st = update_member_status_with_report env now True (cr_session r) status (Some (truncate_detail message 160))
            (Some report) st
      in answer r (EvCommReport (cr_id r) status
           ''Report recorded and delivered to the coordinator when applicable.'') st)"

fun handle_request :: "server_env \<Rightarrow> spawn_env \<Rightarrow> nat \<Rightarrow> comm_request \<Rightarrow> comm_op \<Rightarrow> server \<Rightarrow> server" where
  "handle_request env sp now r (CommShare key v append_value) st = handle_comm_share env now r key v append_value st"
| "handle_request env sp now r (CommRead key) st = handle_comm_read env r key st"
| "handle_request env sp now r (CommMessage message to_session channel delivery wake) st =
     handle_comm_message env now r message to_session channel delivery wake st"
| "handle_request env sp now r CommList st = handle_comm_list env now r st"
| "handle_request env sp now r CommListChannels st = handle_comm_list_channels r st"
| "handle_request env sp now r (CommChannelMembers channel) st = handle_comm_channel_members now r channel st"
| "handle_request env sp now r (CommProposePlan items) st = handle_comm_propose_plan env now r items st"
| "handle_request env sp now r (CommApprovePlan proposer) st = handle_comm_approve_plan env now r proposer st"
| "handle_request env sp now r (CommRejectPlan proposer reason) st =
     handle_comm_reject_plan env now r proposer reason st"
| "handle_request env sp now r (CommSpawn working_dir initial nonce) st =
     handle_comm_spawn env sp now r working_dir initial nonce st"
| "handle_request env sp now r (CommStop target force) st =
     handle_comm_stop env now r target (case force of Some f \<Rightarrow> f | None \<Rightarrow> False) st"
| "handle_request env sp now r (CommAssignRole target role) st = handle_comm_assign_role env now r target role st"
| "handle_request env sp now r (CommSummary target limit) st = handle_comm_summary r target limit st"
| "handle_request env sp now r (CommStatus target) st = handle_comm_status env now r target st"
| "handle_request env sp now r (CommReport status message validation follow_up) st =
     handle_comm_report env now r status message validation follow_up st"
| "handle_request env sp now r (CommReadContext target) st = handle_comm_read_context r target st"
| "handle_request env sp now r CommResyncPlan st = handle_comm_resync_plan env now r st"
| "handle_request env sp now r CommPlanStatus st = handle_comm_plan_status r st"
| "handle_request env sp now r (CommAssignTask target task message) st =
     handle_comm_assign_task env now r target task message st"
| "handle_request env sp now r (CommAssignNext target working_dir prefer_spawn spawn_if_needed message) st =
     handle_comm_assign_next env sp now r target working_dir prefer_spawn spawn_if_needed message st"
| "handle_request env sp now r (CommTaskControl action task target message) st =
     handle_comm_task_control env now r action task target message st"
| "handle_request env sp now r (CommSubscribeChannel channel) st = handle_comm_subscribe_channel now r channel st"
| "handle_request env sp now r (CommUnsubscribeChannel channel) st = handle_comm_unsubscribe_channel now r channel st"
| "handle_request env sp now r (CommAwaitMembers target requested_ids mode timeout_secs) st =
     handle_comm_await_members env now r target requested_ids mode timeout_secs st"
| "handle_request env sp now r OtherRequest st = refuse r ''unsupported lightweight control request'' None st"

definition handle_lightweight_control_request ::
  "server_env \<Rightarrow> spawn_env \<Rightarrow> nat \<Rightarrow> comm_request \<Rightarrow> comm_op \<Rightarrow> server \<Rightarrow> server" where
  "handle_lightweight_control_request env sp now r request st =
     handle_request env sp now r request (send_to (cr_channel r) (EvOther ''ack'') st)"

section \<open>Everything that happens\<close>

text \<open>
  Requests about the swarm, the steps of task runs and of first turns, waits, file events, timers and sweeps,
  and what the clients do; a client's own state is an argument, so it may be any.
\<close>

datatype swarm_op =
    OpRequest spawn_env nat comm_request comm_op
  | OpRunStarted nat task_run
  | OpRunHeartbeat nat task_run
  | OpRunEvent nat task_run server_event
  | OpRunCompleted nat task_run "string option"
  | OpRunFailed nat task_run string
  | OpStartupStarted nat string string
  | OpStartupEnded nat string "string + string option"
  | OpAwaitRound nat nat
  | OpAwaitDeadline nat nat
  | OpAwaitLagged nat
  | OpFileTouch nat file_touch
  | OpTouchCleanup nat nat
  | OpSweep nat
  | OpStatusTimer nat string
  | OpChannelClosed nat
  | OpConnect string nat string agent_handle bool
  | OpSubscribe spawn_env nat nat "string option" "string option" "string option" bool bool agent_handle
      "string + agent_handle" bool client
  | OpResume nat nat string "string option" bool bool "string + agent_handle" bool client
  | OpClear nat nat string agent_handle client
  | OpMessage nat bool nat string client
  | OpTurnDone nat client
  | OpCancel nat client
  | OpForward server_event string
  | OpSoftInterrupt string bool client
  | OpClearInterrupts client
  | OpReload nat client
  | OpDisconnect nat bool client

fun swarm_step :: "server_env \<Rightarrow> server \<Rightarrow> swarm_op \<Rightarrow> server" where
  "swarm_step env st (OpRequest sp now r request) = handle_lightweight_control_request env sp now r request st"
| "swarm_step env st (OpRunStarted now run) = run_started env now run st"
| "swarm_step env st (OpRunHeartbeat now run) = run_heartbeat env now run st"
| "swarm_step env st (OpRunEvent now run event) = run_event env now run event st"
| "swarm_step env st (OpRunCompleted now run report) = run_completed env now run report st"
| "swarm_step env st (OpRunFailed now run error) = run_failed env now run error st"
| "swarm_step env st (OpStartupStarted now i message) = startup_started env now i message st"
| "swarm_step env st (OpStartupEnded now i result) = startup_ended env now i result st"
| "swarm_step env st (OpAwaitRound now n) = await_round now n st"
| "swarm_step env st (OpAwaitDeadline now n) = await_deadline now n st"
| "swarm_step env st (OpAwaitLagged n) = await_lagged n st"
| "swarm_step env st (OpFileTouch now touch) = monitor_touch env now touch st"
| "swarm_step env st (OpTouchCleanup now last_cleanup) = snd (monitor_cleanup env now last_cleanup st)"
| "swarm_step env st (OpSweep now) = refresh_swarm_task_staleness env now st"
| "swarm_step env st (OpStatusTimer now swarm_id) = status_timer env now swarm_id st"
| "swarm_step env st (OpChannelClosed channel) = st\<lparr>sv_closed := finsert channel (sv_closed st)\<rparr>"
| "swarm_step env st (OpConnect connection channel i agent enabled) =
     snd (connect_client connection channel i agent enabled st)"
| "swarm_step env st (OpSubscribe sp now i dir target instance_id local_history takeover own restored written cl) =
     snd (snd (request_subscribe env sp now i dir target instance_id local_history takeover own restored written cl st))"
| "swarm_step env st (OpResume now i session_id instance_id local_history takeover restored written cl) =
     snd (snd (request_resume env now i session_id instance_id local_history takeover restored written cl st))"
| "swarm_step env st (OpClear now i new_id agent cl) = snd (handle_clear_session env now i new_id agent cl st)"
| "swarm_step env st (OpMessage now reload i content cl) = snd (handle_message env now reload i content cl st)"
| "swarm_step env st (OpTurnDone now cl) = snd (processing_done env now cl st)"
| "swarm_step env st (OpCancel now cl) = snd (handle_cancel env now cl st)"
| "swarm_step env st (OpForward event connection) = upd_connection (forward_event event) connection st"
| "swarm_step env st (OpSoftInterrupt content urgent cl) = queue_soft_interrupt content urgent cl st"
| "swarm_step env st (OpClearInterrupts cl) = clear_soft_interrupts cl st"
| "swarm_step env st (OpReload i cl) = handle_reload env i cl st"
| "swarm_step env st (OpDisconnect now reload_marker cl) = disconnect_client env now reload_marker cl st"

end
