(* ===== verification/SwarmService.thy ===== *)
theory SwarmService
  imports SwarmAwaitProperties SwarmRequests
begin

text \<open>
  The server of the swarms as one machine: requests of the sessions, steps of task runs and of turns, sweeps,
  timers, file events and sessions that go. The theorems of this theory hold of every sequence of these,
  one after the other: each request is answered exactly once unless something panics, by nothing else, and a
  plan's version tells its items apart.
\<close>

section \<open>Spawning and stopping\<close>



lemma silent_local:
  "silent st (st\<lparr>sv_client_input := a\<rparr>)" "silent st (st\<lparr>sv_global_session := b\<rparr>)" "silent st (st\<lparr>sv_turns := c\<rparr>)"
  "silent st (st\<lparr>sv_queues := d, sv_queue_heap := e\<rparr>)" "silent st (st\<lparr>sv_panicked := True\<rparr>)"
  "silent st (st\<lparr>sv_closed := finsert n (sv_closed st)\<rparr>)" "silent st (st\<lparr>sv_touches := g, sv_touched_by := h\<rparr>)"
  by (auto simp: silent_def evolves_def waits_le_same plans_le_def members_keyed_def swarms_listed_def history_ok_def)

lemma silent_prepare: "silent st (snd (prepare_visible_spawn_session sp startup st))"
  by (auto simp: prepare_visible_spawn_session_def Let_def silent_local split: option.split bool.split)

lemma silent_register_visible:
  "silent st (register_visible_spawned_member env sp now s sw dir msg report st)"
  unfolding register_visible_spawned_member_def Let_def record_swarm_event_for_session_def
  by (auto simp: case_prod_beta intro!: silent_then(3,12) silent_trans [OF _ silent_enter] silent_local)

lemma silent_headless: "silent st (snd (create_headless_session env sp now dir report st))"
proof -
  define s1 where "s1 = (if sv_global_session st = [] then st\<lparr>sv_global_session := sp_headless_session sp\<rparr> else st)"
  have 1: "silent st s1" by (simp add: s1_def silent_local)
  have p: "silent s (if c then s\<lparr>sv_panicked := True\<rparr> else s)" for s c by (simp add: silent_local)
  show ?thesis
    unfolding create_headless_session_def Let_def s1_def [symmetric]
    by (auto split: option.split intro!: silent_then(12) silent_trans [OF _ silent_enter]
        silent_trans [OF _ p] silent_trans [OF _ silent_local(5)] silent_trans [OF _ silent_fields(3)]
        silent_trans [OF 1 silent_irrelevant(2)])
qed

lemma plan_le_join: "plan_le p (join_plan req s p)"
  by (simp add: join_plan_def plan_le_same)

lemma silent_spawn: "silent st (snd (spawn_swarm_agent env sp now req sw dir initial st))"
proof -
  let ?startup = "map_option append_report_instructions initial"
  obtain visible s1 where v: "prepare_visible_spawn_session sp ?startup st = (visible, s1)" by fastforce
  have 1: "silent st s1" using silent_prepare [of st sp ?startup] by (simp add: v)
  obtain s headless s2 where h: "(case visible of Some (s, True) \<Rightarrow> (s, False, s1)
      | _ \<Rightarrow> (let (s, st) = create_headless_session env sp now (resolve_spawn_working_dir dir req st) (Some req) s1
             in (s, True, st))) = (s, headless, s2)" by (metis prod_cases3)
  have 2: "silent st s2"
    using h silent_trans [OF 1 silent_headless [of s1 env sp now "resolve_spawn_working_dir dir req st" "Some req"]] 1
    by (auto simp: Let_def case_prod_beta split: option.splits bool.splits)
  define s3 where "s3 = broadcast_swarm_plan env sw (Some ''participant_spawned'') (upd_plan (join_plan req s) sw s2)"
  have 3: "silent st s3"
    unfolding s3_def by (intro silent_then(16) silent_trans [OF 2 silent_upd_plan] plan_le_join)
  define s4 where "s4 = persist_swarm_state_for env now sw (if headless then s3
    else register_visible_spawned_member env sp now s sw (resolve_spawn_working_dir dir req st) (?startup \<noteq> None)
      (Some req) s3)"
  have 4: "silent st s4"
    unfolding s4_def using 3 by (auto intro!: silent_then(1) silent_trans [OF _ silent_register_visible])
  have 5: "silent st (let s5 = record_swarm_event_for_session now s (SwMemberChange ''joined'') s4
      in s5\<lparr>sv_turns := sv_turns s5 @ [StartupTurn s m]\<rparr>)" for m
    unfolding Let_def record_swarm_event_for_session_def by (intro silent_trans [OF _ silent_local(3)] silent_then(3) 4)
  show ?thesis
    unfolding spawn_swarm_agent_def Let_def v prod.case h [unfolded Let_def] s3_def [symmetric] s4_def [symmetric] snd_conv
    using 4 5 by (auto split: option.split simp: Let_def)
qed

lemma silent_startup:
  "silent st (startup_started env now s message st)" "silent st (startup_ended env now s result st)"
  by (simp_all add: startup_started_def startup_ended_def update_member_status_def silent_status split: sum.split)

lemma silent_take: "silent st (take_coordination sw req st)"
  by (simp add: take_coordination_def silent_trans [OF silent_coordinators silent_upd_member])

text \<open>The check of the coordinator gives the swarm without answering, or answers.\<close>

lemma ensure_handled:
  assumes "\<And>sw st1. answered r st1 (f sw st1)"
  shows "answered r st (case ensure_spawn_coordinator_swarm env now r msg st of (None, st') \<Rightarrow> st' | (Some sw, st') \<Rightarrow> f sw st')"
proof -
  have t: "silent st (send_to c (plan_note sc req name m) (broadcast_swarm_status env now sw
      (persist_swarm_state_for env now sw (take_coordination sw req st))))" for sw req c sc name m
    by (intro silent_trans [OF _ quiet_silent [OF quiet_send_to]] silent_then(1,12) silent_take) (simp add: plan_note_def)
  show ?thesis
    unfolding ensure_spawn_coordinator_swarm_def Let_def
    by (auto simp: refuse_answered assms split: option.split intro: silent_answered [OF t assms])
qed

lemma require_live_handled:
  assumes "\<And>sw st1. answered r st1 (f sw st1)"
  shows "answered r st (case require_live_coordinator_swarm r msg st of (None, st') \<Rightarrow> st' | (Some sw, st') \<Rightarrow> f sw st')"
  unfolding require_live_coordinator_swarm_def Let_def
  by (auto simp: refuse_answered assms split: option.split intro: silent_answered [OF silent_take assms])

lemma spawn_answered: "answered r st (handle_comm_spawn env sp now r dir initial nonce st)"
  unfolding handle_comm_spawn_def
proof (intro ensure_handled mutation_handled)
  fix sw st1 ms st2 assume "started r ms st1 st2"
  note f = finish_answered [OF this silent_spawn [of st2 env sp now "cr_session r" sw dir initial]]
  show "answered r st1 (case spawn_swarm_agent env sp now (cr_session r) sw dir initial st2 of
      (Inr s, st) \<Rightarrow> finish_mutation ms (RsSpawn s) st
    | (Inl e, st) \<Rightarrow> finish_mutation ms (RsError (''Failed to spawn agent: '' @ e) None) st)"
    using f by (auto simp: case_prod_beta split: sum.split)
qed

lemma silent_drop_agent: "silent st (drop_agent i st)"
  unfolding drop_agent_def remove_session_interrupt_queue_def
  by (auto intro: silent_trans [OF silent_irrelevant(2) silent_irrelevant(4)])

lemma silent_stop: "silent st (snd (stop_session env now i st))"
  unfolding stop_session_def Let_def snd_conv
  by (intro silent_trans [OF _ silent_irrelevant(3)] silent_trans [OF silent_drop_agent silent_leave_member])

lemma stop_answered: "answered r st (handle_comm_stop env now r target force st)"
proof -
  have close: "silent s (snd (fanout_session_event env i (EvSessionCloseRequested m) s))" for s i m
    by (intro quiet_silent quiet_fanout) simp
  have "answered r s (case begin_mutation env now ''stop'' cs r s of
      (None, st) \<Rightarrow> st
    | (Some ms, st) \<Rightarrow> (let (response, st) = stop_session env now i st in finish_mutation ms response st))" for s i cs
  proof (intro mutation_handled)
    fix ms s1 assume "started r ms s s1"
    then show "answered r s (let (response, st) = stop_session env now i s1 in finish_mutation ms response st)"
      by (simp add: case_prod_beta finish_answered [OF _ silent_stop])
  qed
  note silent_answered [OF close this]
  then show ?thesis
    unfolding handle_comm_stop_def Let_def
    by (intro require_live_handled) (auto simp: refuse_answered split: sum.split option.split)
qed

lemma assign_next_answered:
  "answered r st (handle_comm_assign_next env sp now r target dir prefer_spawn if_needed message st)"
proof -
  have "answered r s (case spawn_swarm_agent env sp now req sw dir m s of
      (Inr sid, st) \<Rightarrow> handle_comm_assign_task env now r (Some sid) (Some task) message st
    | (Inl e, st) \<Rightarrow> refuse r (''Failed to spawn preferred worker: '' @ e) None st)" for task req sw m s
    using silent_answered [OF silent_spawn assign_answered] silent_answered [OF silent_spawn refuse_answered]
    by (auto simp: case_prod_beta split: sum.split)
  then show ?thesis
    unfolding handle_comm_assign_next_def Let_def
    by (auto simp: assign_answered refuse_answered split: option.split sum.split intro!: coordinator_handled)
qed

section \<open>Messages, channels and shared context\<close>

lemma silent_deliver: "silent st (deliver_message env sender name scope channel mode m st sid)"
proof -
  have n: "silent st (snd (fanout_session_event env sid (EvNotification a b c d) st))" for a b c d
    by (intro quiet_silent quiet_fanout) simp
  have w: "silent s (snd (run_message_in_live_session_if_idle a b c s))" for s a b c
    by (auto simp: run_message_in_live_session_if_idle_def silent_local split: option.split)
  show ?thesis
    unfolding deliver_message_def Let_def
    by (auto simp: case_prod_beta silent_local split: option.split comm_delivery_mode.split
        intro!: n silent_trans [OF n silents(11)] silent_then(11) silent_trans [OF _ w])
qed

lemma send_answered: "answered r st (send_comm_message env now r sw ids m to c d w st)"
  unfolding send_comm_message_def Let_def
  by (intro silent_answered [OF _ answer_answered] silent_then(3) silent_foldl silent_deliver) simp

lemma message_answered: "answered r st (handle_comm_message env now r m to c d w st)"
  unfolding handle_comm_message_def Let_def
  by (auto simp: refuse_answered send_answered split: option.split sum.split)

lemma silent_channels: "silent st (st\<lparr>sv_channels := c\<rparr>)"
  by (rule silent_irrelevant(3))

lemma channel_answered:
  "answered r st (handle_comm_list_channels r st)" "answered r st (handle_comm_channel_members now r c st)"
  "answered r st (handle_comm_subscribe_channel now r c st)"
  "answered r st (handle_comm_unsubscribe_channel now r c st)"
  by (auto simp: handle_comm_list_channels_def handle_comm_channel_members_def handle_comm_subscribe_channel_def
      handle_comm_unsubscribe_channel_def Let_def refuse_answered answer_answered split: option.split
      intro!: silent_answered [OF silent_then(3) [OF silent_channels] answer_answered])

lemma share_answered: "answered r st (handle_comm_share env now r key v a st)"
proof -
  have n: "silent st (snd (fanout_session_event env sid (EvNotification a b c d) st))" for sid a b c d st
    by (intro quiet_silent quiet_fanout) simp
  show ?thesis
    unfolding handle_comm_share_def Let_def
    by (auto simp: refuse_answered split: option.split
        intro!: silent_answered [OF _ answer_answered] silent_then(3) silent_trans [OF silent_context silent_foldl] n)
qed

lemma silent_attach:
  "fmlookup (sv_plans st) sw = Some plan \<Longrightarrow> silent st (st\<lparr>sv_plans := fmupd sw (plan\<lparr>vp_participants := x\<rparr>) (sv_plans st)\<rparr>)"
  by (rule silent_set_plan) (simp add: plan_le_same)

lemma resync_answered: "answered r st (handle_comm_resync_plan env now r st)"
proof -
  have "answered r st (attach_plan env now r sw plan st)" if "fmlookup (sv_plans st) sw = Some plan" for sw plan
    unfolding attach_plan_def Let_def
    by (intro silent_answered [OF _ answer_answered] silent_then(3,16) silent_trans [OF _ silent_note(2)]
        silent_then(1) silent_attach that) simp
  then show ?thesis
    by (auto simp: handle_comm_resync_plan_def refuse_answered split: option.split)
qed

lemma query_answered:
  "answered r st (handle_comm_read env r k st)" "answered r st (handle_comm_list env now r st)"
  "answered r st (handle_comm_summary r target n st)" "answered r st (handle_comm_plan_status r st)"
  "answered r st (handle_comm_status env now r target st)" "answered r st (handle_comm_read_context r target st)"
  by (auto simp: handle_comm_read_def handle_comm_list_def handle_comm_summary_def handle_comm_plan_status_def
      handle_comm_status_def handle_comm_read_context_def ensure_same_swarm_access_def Let_def refuse_answered
      answer_answered split: option.split)

lemma report_answered: "answered r st (handle_comm_report env now r status m v f st)"
  unfolding handle_comm_report_def Let_def by (rule silent_answered [OF silent_status answer_answered]) simp

section \<open>File events\<close>

lemma silent_monitor: "silent st (monitor_touch env now touch st)"
proof -
  have "silent s (alert_current env touch s a)" "silent s (alert_peer env touch n s a)" for s a n
    by (auto simp: alert_current_def alert_peer_def Let_def silent_local split: option.split
        intro!: silent_then(11) silents(9))
  then have a: "silent s (alert_all env touch previous s)" for s previous
    unfolding alert_all_def Let_def by (auto intro!: silent_foldl silent_trans [OF silent_foldl silent_foldl])
  have r: "silent s (record_swarm_event now i n sw e (record_touch now touch s))" for s i n sw e
    unfolding record_touch_def Let_def by (intro silent_then(3) silent_local)
  show ?thesis
    unfolding monitor_touch_def Let_def
    by (auto intro: r silent_trans [OF r silent_local(5)] silent_trans [OF r a])
qed

lemma silent_monitor_cleanup: "silent st (snd (monitor_cleanup env now last_cleanup st))"
  by (simp add: monitor_cleanup_def Let_def silent_local)

section \<open>The machine\<close>

text \<open>The events that a running agent sends do not answer requests.\<close>

fun swarm_op_ok :: "swarm_op \<Rightarrow> bool" where
  "swarm_op_ok (OpRunEvent now run event) = (answered_id event = None)"
| "swarm_op_ok op = True"

definition service_inv :: "server \<Rightarrow> bool" where
  "service_inv st \<longleftrightarrow> history_ok st \<and> members_keyed st \<and> swarms_listed st \<and> mutations_rest st \<and> waits_covered st"

fun is_await :: "comm_op \<Rightarrow> bool" where
  "is_await (CommAwaitMembers target ids mode timeout) = True"
| "is_await op = False"

lemma request_answered: "\<not> is_await request \<Longrightarrow> answered r st (handle_request env sp now r request st)"
  by (cases request) (simp_all add: share_answered query_answered message_answered channel_answered propose_answered
      approve_answered reject_answered spawn_answered stop_answered role_answered report_answered resync_answered
      assign_answered assign_next_answered control_answered refuse_answered)

lemma silent_ack: "silent st (send_to c (EvOther e) st)"
  by (intro quiet_silent quiet_send_to) simp

lemma lightweight_answered:
  "\<not> is_await request \<Longrightarrow> answered r st (handle_lightweight_control_request env sp now r request st)"
  unfolding handle_lightweight_control_request_def by (rule silent_answered [OF silent_ack request_answered])

lemma silent_close: "silent st (st\<lparr>sv_closed := finsert c (sv_closed st)\<rparr>)"
  by (rule silent_local(6))

text \<open>Steps that answer nobody.\<close>

fun answers_requests :: "swarm_op \<Rightarrow> bool" where
  "answers_requests (OpRequest sp now r request) = True"
| "answers_requests (OpAwaitRound now n) = True"
| "answers_requests (OpAwaitDeadline now n) = True"
| "answers_requests (OpSubscribe sp now i dir target k lh t own restored w cl) = True"
| "answers_requests (OpResume now i s k lh t restored w cl) = True"
| "answers_requests (OpClear now i new_id agent cl) = True"
| "answers_requests (OpMessage now reload i content cl) = True"
| "answers_requests (OpTurnDone now cl) = True"
| "answers_requests (OpCancel now cl) = True"
| "answers_requests (OpSoftInterrupt content urgent cl) = True"
| "answers_requests (OpClearInterrupts cl) = True"
| "answers_requests (OpReload i cl) = True"
| "answers_requests op = False"

lemma silent_connect: "silent st (snd (connect_client k ch s agent enabled st))"
  unfolding connect_client_def Let_def snd_conv
  by (intro silent_trans [OF _ silent_irrelevant(2)] silent_trans [OF _ silent_fields(3)] silent_fields(8))

lemma silent_lagged: "silent st (await_lagged n st)"
  using advances_lagged [of st n] by (simp add: advances_def silent_def await_lagged_def drop_wait_def)

lemma silent_step: "swarm_op_ok op \<Longrightarrow> \<not> answers_requests op \<Longrightarrow> silent st (swarm_step env st op)"
  by (cases op) (simp_all add: silent_run_started silent_heartbeat silent_run_event silent_run_completed
      silent_run_failed silent_startup silent_lagged silent_monitor silent_monitor_cleanup silent_sweep
      silents(14) silent_close silent_connect silent_fields(1) silent_disconnect)

lemma rest_advances: "advances st st' \<Longrightarrow> mutations_rest st' = mutations_rest st"
  by (simp add: advances_def mutations_rest_def)

lemma advances_step:
  assumes "swarm_op_ok op" "\<And>sp now r request. op = OpRequest sp now r request \<Longrightarrow> is_await request"
  shows "advances st (swarm_step env st op)"
proof (cases op)
  case (OpRequest sp now r request)
  then obtain t ids mode timeout where "request = CommAwaitMembers t ids mode timeout"
    using assms(2) by (cases request) auto
  then show ?thesis
    using OpRequest
    by (simp add: handle_lightweight_control_request_def
        advances_trans [OF silent_advances [OF silent_ack] advances_await])
qed (use silent_step [OF assms(1), THEN silent_advances] in \<open>simp_all add: advances_waits advances_request_subscribe
  advances_request_resume advances_clear advances_message advances_done advances_cancel advances_interrupts advances_reload\<close>)

lemma step_evolves:
  assumes "swarm_op_ok op" "mutations_rest st"
  shows "evolves st (swarm_step env st op) \<and> mutations_rest (swarm_step env st op)"
proof (cases "\<exists>sp now r request. op = OpRequest sp now r request \<and> \<not> is_await request")
  case True
  then obtain sp now r request where op: "op = OpRequest sp now r request" "\<not> is_await request" by blast
  then show ?thesis using lightweight_answered [OF op(2)] assms(2) by (simp add: answered_def)
next
  case False
  then have a: "advances st (swarm_step env st op)" by (intro advances_step [OF assms(1)]) blast
  then show ?thesis using rest_advances [OF a] assms(2) by (simp add: advances_def)
qed

lemma service_step: "service_inv st \<Longrightarrow> swarm_op_ok op \<Longrightarrow> service_inv (swarm_step env st op)"
  using step_evolves [of op st env] by (auto simp: service_inv_def evolves_def waits_le_def)

lemma service_start: "service_inv empty_server"
proof -
  have "members_keyed empty_server" "swarms_listed empty_server" "mutations_rest empty_server" "waits_covered empty_server"
    by (simp_all add: members_keyed_def swarms_listed_def mutations_rest_def files_keyed_def waits_covered_def covers_def
        empty_server_def)
  then show ?thesis by (simp add: service_inv_def history_start)
qed

interpretation service_runs: guarded_machine "swarm_step env" empty_server service_inv swarm_op_ok for env
  by unfold_locales (rule service_start, rule service_step)

lemma service_reachable: "list_all swarm_op_ok ops \<Longrightarrow> service_inv (foldl (swarm_step env) empty_server ops)"
  by (rule service_runs.run_inv)

section \<open>What holds of every run\<close>

text \<open>
  Property C12. When handlers run to their end one after the other, a request that is not a wait gets, before
  anything else happens and unless something has panicked, exactly one event with its number, on the
  channel it came from unless that is closed; and its handling sends no event with the number of
  another request. Handlers that run at the same time, where two equal mutating requests can race for one
  answer, are the subject of SwarmMutation.
\<close>

theorem requests_answered_once:
  assumes "list_all swarm_op_ok ops" "\<not> is_await request"
  shows "let st = foldl (swarm_step env) empty_server ops; st' = swarm_step env st (OpRequest sp now r request)
    in sv_panicked st' \<or>
       (\<exists>e. answered_id e = Some (cr_id r) \<and>
         (\<forall>i. answers i (sv_out st') = answers i (sv_out st) @
            (if i = cr_id r \<and> cr_channel r |\<notin>| sv_closed st' then [(cr_channel r, e)] else [])))"
proof -
  let ?st = "foldl (swarm_step env) empty_server ops"
  have "mutations_rest ?st" using service_reachable [OF assms(1)] by (simp add: service_inv_def)
  then show ?thesis
    using lightweight_answered [OF assms(2), of r ?st env sp now] unfolding answered_def one_answer_def Let_def by simp
qed

lemma requests_answered_once_witness:
  "let st = foldl (swarm_step sample_env) empty_server [OpSweep 5];
       r = \<lparr>cr_id = 4, cr_session = ''x'', cr_channel = 2\<rparr>;
       st' = swarm_step sample_env st (OpRequest (sample_spawn_in ''g'') 6 r CommList)
   in sv_panicked st' \<or>
      (\<exists>e. answered_id e = Some (cr_id r) \<and>
        (\<forall>i. answers i (sv_out st') = answers i (sv_out st) @
           (if i = cr_id r \<and> cr_channel r |\<notin>| sv_closed st' then [(cr_channel r, e)] else [])))"
  using requests_answered_once [of "[OpSweep 5]" CommList sample_env "sample_spawn_in ''g''" 6 "\<lparr>cr_id = 4, cr_session = ''x'', cr_channel = 2\<rparr>"]
  by (simp add: Let_def)

text \<open>
  Property C19. Nothing but requests and waits answers: no run of a task, first turn, file event, timer, sweep,
  client that attaches or goes sends an event with the number of a request or touches the pending ones.
\<close>

theorem only_requests_answered:
  assumes "swarm_op_ok op" "\<not> answers_requests op"
  shows "let st' = swarm_step env st op
    in sv_mutations st' = sv_mutations st \<and> (\<forall>i. answers i (sv_out st') = answers i (sv_out st))"
  using silent_step [OF assms, of st env] by (simp add: silent_def Let_def)

lemma only_requests_answered_witness:
  "let st' = swarm_step sample_env (sample_server fmempty) (OpDisconnect 3 False (sample_client ''w''))
   in sv_mutations st' = sv_mutations (sample_server fmempty) \<and>
      (\<forall>i. answers i (sv_out st') = answers i (sv_out (sample_server fmempty)))"
  by (rule only_requests_answered) simp_all

lemma evolves_run:
  assumes "service_inv st" "list_all swarm_op_ok ops"
  shows "evolves st (foldl (swarm_step env) st ops)"
  using assms
proof (induction ops arbitrary: st)
  case Nil
  then show ?case by (simp add: evolves_def)
next
  case (Cons op ops)
  have "evolves st (swarm_step env st op)"
    using Cons.prems step_evolves [of op st env] by (simp add: service_inv_def)
  moreover have "evolves (swarm_step env st op) (foldl (swarm_step env) (swarm_step env st op) ops)"
    using Cons.prems by (intro Cons.IH service_step) simp_all
  ultimately show ?case by (simp add: evolves_trans)
qed

text \<open>
  Property C16. A plan's version tells its tasks apart: whatever follows, the plan of a swarm is still there, its version
  has not gone down, and while it is the same the items differ at most in whom they are assigned to.
\<close>

theorem plan_version_tells_tasks:
  assumes "list_all swarm_op_ok ops" "list_all swarm_op_ok later"
  shows "let st = foldl (swarm_step env) empty_server ops; st' = foldl (swarm_step env) st later
    in \<forall>s p. fmlookup (sv_plans st) s = Some p \<longrightarrow>
         (\<exists>p'. fmlookup (sv_plans st') s = Some p' \<and> vp_version p \<le> vp_version p' \<and>
            (vp_version p' = vp_version p \<longrightarrow> tasks_of p' = tasks_of p))"
proof -
  let ?st = "foldl (swarm_step env) empty_server ops"
  have "plans_le ?st (foldl (swarm_step env) ?st later)"
    using evolves_run [OF service_reachable [OF assms(1)] assms(2), of env env] by (simp add: evolves_def)
  then show ?thesis
    unfolding Let_def plans_le_def plan_le_def by fastforce
qed

text \<open>A client connects, joins the swarm of its directory, takes the coordination and proposes a plan.\<close>

definition sample_run :: "swarm_op list" where
  "sample_run =
     (let c = sample_client ''c''; r = \<lparr>cr_id = 4, cr_session = ''c'', cr_channel = 5\<rparr>; sp = sample_spawn_in ''g''
      in [OpConnect ''k'' 5 ''c'' (sample_agent 1 ''fox'' 2) True,
          OpSubscribe sp 1 3 (Some ''d'') None None False False (sample_agent 1 ''fox'' 2) (Inl []) True c,
          OpRequest sp 2 r (CommAssignRole ''c'' ''coordinator''),
          OpRequest sp 3 r (CommProposePlan [sample_item ''t'' ''queued'' None])])"

lemma plan_version_tells_tasks_witness:
  "let st = foldl (swarm_step sample_env) empty_server sample_run;
       st' = foldl (swarm_step sample_env) st [OpSweep 9]
   in \<forall>s p. fmlookup (sv_plans st) s = Some p \<longrightarrow>
        (\<exists>p'. fmlookup (sv_plans st') s = Some p' \<and> vp_version p \<le> vp_version p' \<and>
           (vp_version p' = vp_version p \<longrightarrow> tasks_of p' = tasks_of p))"
  by (rule plan_version_tells_tasks) (simp_all add: sample_run_def Let_def)

lemma sample_run_reaches_plan:
  "map_option vp_version (fmlookup (sv_plans (foldl (swarm_step sample_env) empty_server sample_run)) ''g'') = Some 1"
  by code_simp

text \<open>
  Property C15. After anything the members are filed under their ids and listed in their swarms, the history is the last
  five thousand of all events, numbered from 1 without gaps, and no request is pending.
\<close>

theorem swarm_state_consistent:
  assumes "list_all swarm_op_ok ops"
  shows "let st = foldl (swarm_step env) empty_server ops
    in members_keyed st \<and> swarms_listed st \<and> history_ok st \<and> mutations_rest st"
  using service_reachable [OF assms, of env] by (simp add: service_inv_def Let_def)

lemma swarm_state_consistent_witness:
  "let st = foldl (swarm_step sample_env) empty_server sample_run
   in members_keyed st \<and> swarms_listed st \<and> history_ok st \<and> mutations_rest st"
  by (rule swarm_state_consistent) (simp add: sample_run_def Let_def)

text \<open>
  Property C14. Nobody waits for ever: after anything, unless something has panicked, a key that counts as active has a
  task that, when it looks again or at the latest when its deadline is over, tells everybody listed under the key
  whose channel is open the same result, once, and nobody else.
\<close>

theorem waits_answered:
  assumes "list_all swarm_op_ok ops"
    and "k |\<in>| aw_active (sv_awaits (foldl (swarm_step env) empty_server ops))"
    and "\<not> sv_panicked (foldl (swarm_step env) empty_server ops)"
  shows "let st = foldl (swarm_step env) empty_server ops
    in \<exists>n < length (sv_waits st). at_key (wt_state (sv_waits st ! n)) = k \<and>
      (\<forall>now now'. at_deadline_unix_ms (wt_state (sv_waits st ! n)) \<le> now' \<longrightarrow>
        (let st1 = await_round now n st
         in sv_panicked st1 \<or> told_all now k st st1 \<or> open_waiters k st = [] \<or>
            (let st2 = await_deadline now' n st1 in sv_panicked st2 \<or> told_all now' k st st2)))"
proof -
  let ?st = "foldl (swarm_step env) empty_server ops"
  have "covers (aw_active (sv_awaits ?st)) (sv_waits ?st)"
    using service_reachable [OF assms(1), of env] assms(3) by (simp add: service_inv_def waits_covered_def)
  then obtain w where w: "w \<in> set (sv_waits ?st)" "at_key (wt_state w) = k" using assms(2) unfolding covers_def by blast
  then obtain n where n: "n < length (sv_waits ?st)" "sv_waits ?st ! n = w" by (auto simp: in_set_conv_nth)
  then show ?thesis unfolding Let_def using task_tells [OF n(1), of k, unfolded Let_def] w(2) by blast
qed

text \<open>A worker joins and the coordinator waits for it.\<close>

definition sample_wait_run :: "swarm_op list" where
  "sample_wait_run =
     sample_run @
     (let w = sample_client ''w''; sp = sample_spawn_in ''g''; r = \<lparr>cr_id = 9, cr_session = ''c'', cr_channel = 5\<rparr>
      in [OpConnect ''l'' 6 ''w'' (sample_agent 3 ''owl'' 4) True,
          OpSubscribe sp 4 3 (Some ''d'') None None False False (sample_agent 3 ''owl'' 4) (Inl []) True w,
          OpRequest sp 5 r (CommAwaitMembers [''completed''] [''w''] None (Some 1))])"

lemma waits_answered_witness:
  "let st = foldl (swarm_step sample_env) empty_server sample_wait_run
   in \<exists>n < length (sv_waits st). at_key (wt_state (sv_waits st ! n)) = ''c-0000000000000007'' \<and>
      (\<forall>now now'. at_deadline_unix_ms (wt_state (sv_waits st ! n)) \<le> now' \<longrightarrow>
        (let st1 = await_round now n st
         in sv_panicked st1 \<or> told_all now ''c-0000000000000007'' st st1 \<or> open_waiters ''c-0000000000000007'' st = [] \<or>
            (let st2 = await_deadline now' n st1 in sv_panicked st2 \<or> told_all now' ''c-0000000000000007'' st st2)))"
proof (rule waits_answered)
  show "list_all swarm_op_ok sample_wait_run" by (simp add: sample_wait_run_def sample_run_def Let_def)
  show "''c-0000000000000007'' |\<in>| aw_active (sv_awaits (foldl (swarm_step sample_env) empty_server sample_wait_run))"
    by code_simp
  show "\<not> sv_panicked (foldl (swarm_step sample_env) empty_server sample_wait_run)" by code_simp
qed

end
