(* ===== verification/Spec2Isabelle.thy ===== *)
theory Spec2Isabelle
  imports PlanProperties SwarmChannels SwarmCore Messages Compaction TopK MemoryTypes
    MemoryGraphProperties MemoryCascade MobileProperties MobileUiProperties ColorSupport
    MemoryManagerProperties PendingMemory SidePanelProperties GoalStoreProperties
    WorkspaceProperties CompactionManagerProperties EditProperties PatchRoundtrip
    SessionProperties SwarmService
begin

text \<open>
  Verification development for jcode, a coding-agent client and server in Rust.

  The program. A server keeps sessions: conversations between a user and an agent driven by a
  model provider. Terminal and mobile clients attach to them. Around a session the program has
  a conversation with its compaction, a memory of facts kept across sessions, goals, a side panel with
  pages, tools with which the agent edits files, and swarms: groups of sessions that share a plan of
  tasks and talk over channels. The asynchronous shell (sockets, locks, provider calls, drawing) calls
  pure or nearly pure cores; this development models those cores and the stateful stores around them.

  Which theory models what (paths below src/ of the repository):

  \<^item> Prelude: strings, hash maps, codecs and state machines, shared by all. Two interfaces are
    locales: \<^verbatim>\<open>str_codec\<close> (with \<^verbatim>\<open>strict_codec\<close>) for an enumeration with its textual
    forms, \<^verbatim>\<open>op_machine\<close> and \<^verbatim>\<open>guarded_machine\<close> for a state with operations that keep an invariant.
  \<^item> Plan, PlanGraph, PlanSchedule (crates/jcode-plan/src/lib.rs): plan items and control actions; the
    worklist that finds the items no schedule can reach; summary, ordering, loads and targets.
    DepGraph is the specification: the well-founded part of a dependency relation (locale
    \<^verbatim>\<open>finite_deps\<close>, interpreted on plans). PlanProperties: the cycle search returns exactly
    the items that reach a cycle, ready items are ready, there is always progress, completion unlocks.
  \<^item> SwarmChannels, SwarmCore (crates/jcode-swarm-core/src/lib.rs): the two-way index of channel
    subscriptions refines a set of pairs (locale \<^verbatim>\<open>subscription_registry\<close>); the codecs and texts.
  \<^item> Messages (crates/jcode-message-types/src/lib.rs), Compaction (crates/jcode-compaction-core/src/lib.rs),
    CompactionManager (src/compaction.rs): messages; cutoffs that keep tool calls with
    their results, truncation at character boundaries, the prompts; the manager that counts compacted
    messages, runs a background task and assembles requests. Properties: a request covers the
    conversation unless a background task was overtaken by a compaction at once, the cutoff is the largest
    safe one, the truncation meets its bound.
  \<^item> TopK, MemoryTypes (crates/jcode-memory-types/src/lib.rs), MemoryGraph, MemoryCascade (graph.rs there),
    MemoryManager (src/memory.rs, src/memory/cache.rs), PendingMemory (src/memory/pending.rs):
    the selection heap, the entries, the graph of memories and tags with its reverse index, the
    breadth-first retrieval, the managers with their files, and what is waiting to be injected.
    Properties: consistency of graphs under the operations of the graph and, in memory and on disk, of
    the managers, with the operations that lose count named (taking a tag away that was not carried once,
    removing one of two edges); retrieval; spacing of injections. The locale \<^verbatim>\<open>kept_graphs\<close> states what an
    invariant of one graph needs in order to hold for all files and caches, \<^verbatim>\<open>updated_graphs\<close> adds updates in
    place; they are interpreted on the exact and on the looser invariant.
  \<^item> GoalTypes (crates/jcode-task-types/src/lib.rs), GoalStore (src/goal.rs), SidePanel
    (crates/jcode-side-panel-types/src/lib.rs, src/side_panel.rs): goal files, their mirror in the memory
    graph and their pages; the pages of a session. The goal store calls the side panel and the memory
    manager, and its disk contains both of theirs.
  \<^item> Mobile, MobileUi, MobileVisual (crates/jcode-mobile-core/src/lib.rs, visual.rs): reducer, store with
    logs and replay; semantic tree, layout and hit testing; scene, SVG and text rendering.
  \<^item> Workspace (crates/jcode-tui-workspace/src/workspace_map.rs, workspace_map_widget.rs)
    and ColorSupport (color_support.rs there): rows of sessions and the cells they are drawn in;
    the mapping of colours to the palette.
  \<^item> EditTools (src/tool/edit.rs, src/tool/multiedit.rs), PatchTools (src/tool/apply_patch.rs,
    src/tool/patch.rs): the tools by which an agent changes files. Properties: what an edit
    changes, several edits against single ones, where the chunks of a patch go, and (PatchRoundtrip)
    that a printed patch is parsed back. The end of a file has its own rules: a blank last line is lost when the
    text is put together, and what is added in front of it can be.

  \<^item> SwarmTypes, SwarmMutation, SwarmAwaitState, SwarmServer: the state that the server keeps of its
    swarms and sessions, as one record \<^verbatim>\<open>server\<close> whose fields are the shared maps (src/server/state.rs,
    swarm.rs, swarm_persistence.rs, swarm_mutation_state.rs, durable_state.rs, await_members_state.rs,
    client_disconnect_cleanup.rs), with the operations all handlers share. On it the handlers: SwarmControl (comm_plan.rs,
    comm_control.rs: proposals, roles, assignment, runs of tasks), SwarmSpawn and SwarmSessions
    (comm_session.rs, headless.rs), SwarmMessages (client_comm_message.rs,
    client_comm_channels.rs, client_comm_context.rs, comm_sync.rs), SwarmAwait (comm_await.rs), FileActivity
    (file_activity.rs, monitor_bus in server.rs), SwarmClients (client_session.rs and the loop of
    client_lifecycle.rs). SwarmRequests collects them in one machine \<^verbatim>\<open>swarm_step\<close>. The files it reads and
    writes, the channels to clients and the interrupt queues are part of the state. Properties: who leaves,
    stale tasks and reloading (SwarmServerProperties), requests carried out once under any
    interleaving (SwarmMutationProperties), what each step keeps (SwarmControlProperties), messages and places of
    sessions (SwarmClientsProperties), and what holds of every run of the machine (SwarmService).

  \<^item> SessionStore, SessionProperties (src/session.rs, src/session/persistence.rs, src/session/journal.rs,
    src/session/model.rs, the stored types of crates/jcode-session-types/src/lib.rs and the file operations of
    crates/jcode-storage/src/lib.rs): a session with its transcript, the record of what is on disk already, the cached
    messages of requests, and its files, a snapshot with a backup and a journal. Every file operation of a save
    can fail on its own, and the states the files go through are listed. Properties: what was saved is what is loaded
    (as long as renaming files and removing the journal succeed and nothing was stripped for a remote client),
    the cache agrees with the transcript, and what a process that dies while it saves leaves behind.

  In the swarm theories a handler runs to its end before another starts; steps of task runs, turns,
  waits, timers and clients that the code spawns are operations of their own, in any order. Only for the requests that
  change a swarm are the steps inside a handler interleaved (SwarmMutation), since its runtime is made for that; so
  that every request is answered (requests_answered_once in SwarmService) is said of handlers one at a time.
  A channel is a number and what was sent on it is listed unless it is closed. Where the code would panic, the
  flag \<^verbatim>\<open>sv_panicked\<close> is set and what follows no longer describes the code. Locks that could
  deadlock are not modelled. Three relations carry the proofs: \<^verbatim>\<open>quiet\<close> for steps that only send,
  \<^verbatim>\<open>silent\<close> for steps that answer no request and \<^verbatim>\<open>evolves\<close> for what every step keeps; the bundles
  \<^verbatim>\<open>quiets\<close>, \<^verbatim>\<open>silent_then\<close> and \<^verbatim>\<open>client_steps\<close> compose them.

  Conventions. A Rust string is the list of its UTF-8 bytes. A struct is a record whose fields carry a
  prefix, an enum a datatype. A counter or size (usize, u64) is a natural number, without a bound
  where the code only stores or increments it; where the width matters (colours, cells,
  workspace numbers, hashes) it is a word or the range is written out. A hash map is a finite map, and
  wherever the code's result depends on the iteration order that order is an argument, so the
  theorems hold for every order. An instant is its number of milliseconds, and the current one is an
  argument. The file system is a map from paths; what cannot be parsed there is None. Errors
  and panics are values (sums, options). Arguments stand for code outside the repository or
  not executable in the logic: JSON values, floating-point operations, Unicode tables, the line diff of an
  external library, embeddings, the provider that summarises.

  Loops end by a measure: the worklist and the cascade by the
  nodes not visited, the search for a free goal id by the number of goal files, the parsers by the lines
  left, the trees by their size, the dispatch loop by the effects an action can still cause. No definition
  has a fuel argument.

  How the proofs are organised. Each component theory ends with the basic lemmas of its operations. The
  theories named Properties define the invariant, show that every operation keeps it
  (collected in \<^verbatim>\<open>op_inv\<close>), interpret the machine locales and state the properties, each followed by a
  witness at a concrete input where it has hypotheses. Step relations with interleaved operations of
  several sessions or managers are inductive (\<^verbatim>\<open>manager_step\<close>) or lists of operations (\<^verbatim>\<open>graph_op\<close>,
  \<^verbatim>\<open>pending_op\<close> and the like) run from the initial state.

  Not modelled. The wire protocols and most configuration types are data whose meaning is
  the JSON form the serialisation library derives. The provider clients, authentication, process
  handling and the terminal and desktop interfaces are effects on external services and libraries. Of the
  server the sockets, its start and shutdown, the requests about models and
  histories, and the turns of agents are left out; a turn is its outcome. The
  embedding search and everything else computed with floating point is an argument. Logging and telemetry
  are left out, and failing disks except for sessions and where an error changes what the code does next.
\<close>

end
